(* ===== verification/Prelude.thy ===== *)
theory Prelude
  imports
    Main
    "HOL-Library.Char_ord"
    "HOL-Library.List_Lexorder"
    "HOL-Library.Product_Lexorder"
    "HOL-Library.Word"
    "HOL-Library.Multiset"
begin

text \<open>
  The vocabulary every component shares. A Rust \<^verbatim>\<open>Result<T, E>\<close> is a value of
  \<^typ>\<open>'e + 'a\<close> whose left summand is the error; the \<^verbatim>\<open>?\<close> operator is
  \<open>and_then\<close>, an early \<^verbatim>\<open>return Err(e)\<close> guarded by a condition is \<open>ensure\<close>,
  and a \<^verbatim>\<open>for\<close> loop whose body may return early is \<open>try_fold\<close>. Strings are
  byte strings (UTF-8), so that \<^verbatim>\<open>str::len\<close> is \<^const>\<open>length\<close> and the order
  of \<^verbatim>\<open>Ord for str\<close> (byte-wise lexicographic) is the order of
  \<^typ>\<open>string\<close>. The collection \<open>result_simps\<close> inverts a
  computation that ended in a known result, and carries most component proofs.
\<close>

named_theorems result_simps \<open>inversion of computations in the result type\<close>

type_synonym u8 = "8 word"
type_synonym u32 = "32 word"
type_synonym u64 = "64 word"

section \<open>Results\<close>

definition and_then :: "'e + 'a \<Rightarrow> ('a \<Rightarrow> 'e + 'b) \<Rightarrow> 'e + 'b" where
  "and_then m f = (case m of Inl e \<Rightarrow> Inl e | Inr x \<Rightarrow> f x)"

definition ensure :: "bool \<Rightarrow> 'e \<Rightarrow> 'e + unit" where
  "ensure b e = (if b then Inr () else Inl e)"

definition map_err :: "('d \<Rightarrow> 'e) \<Rightarrow> 'd + 'a \<Rightarrow> 'e + 'a" where
  "map_err f m = (case m of Inl d \<Rightarrow> Inl (f d) | Inr x \<Rightarrow> Inr x)"

definition ok_or :: "'a option \<Rightarrow> 'e \<Rightarrow> 'e + 'a" where
  "ok_or m e = (case m of None \<Rightarrow> Inl e | Some x \<Rightarrow> Inr x)"

fun try_fold :: "('s \<Rightarrow> 'a \<Rightarrow> 'e + 's) \<Rightarrow> 's \<Rightarrow> 'a list \<Rightarrow> 'e + 's" where
  "try_fold f s [] = Inr s"
| "try_fold f s (x # xs) = and_then (f s x) (\<lambda>s'. try_fold f s' xs)"

definition try_for_each :: "('a \<Rightarrow> 'e + unit) \<Rightarrow> 'a list \<Rightarrow> 'e + unit" where
  "try_for_each f xs = try_fold (\<lambda>_. f) () xs"

section \<open>Strings\<close>

text \<open>
  \<^verbatim>\<open>str::trim\<close> removes the code points with the Unicode property
  \<^verbatim>\<open>White_Space\<close>. On UTF-8 bytes these are the ASCII range 9--13 and 32, and the
  encodings of U+0085, U+00A0, U+1680, U+2000--U+200A, U+2028, U+2029, U+202F, U+205F
  and U+3000. A trimmed string is empty exactly if removing the leading white space
  leaves nothing.
\<close>

definition ascii_space :: "nat \<Rightarrow> bool" where
  "ascii_space c \<longleftrightarrow> 9 \<le> c \<and> c \<le> 13 \<or> c = 32"

definition wide_space2 :: "nat \<Rightarrow> nat \<Rightarrow> bool" where
  "wide_space2 a b \<longleftrightarrow> a = 194 \<and> (b = 133 \<or> b = 160)"

definition wide_space3 :: "nat \<Rightarrow> nat \<Rightarrow> nat \<Rightarrow> bool" where
  "wide_space3 a b c \<longleftrightarrow>
     a = 225 \<and> b = 154 \<and> c = 128
   \<or> a = 226 \<and> b = 128 \<and> (128 \<le> c \<and> c \<le> 138 \<or> c = 168 \<or> c = 169 \<or> c = 175)
   \<or> a = 226 \<and> b = 129 \<and> c = 159
   \<or> a = 227 \<and> b = 128 \<and> c = 128"

fun trim_start :: "string \<Rightarrow> string" where
  "trim_start [] = []"
| "trim_start (a # s) =
     (if ascii_space (of_char a) then trim_start s
      else case s of
        [] \<Rightarrow> [a]
      | b # s1 \<Rightarrow>
          if wide_space2 (of_char a) (of_char b) then trim_start s1
          else case s1 of
            [] \<Rightarrow> a # s
          | c # s2 \<Rightarrow>
              if wide_space3 (of_char a) (of_char b) (of_char c) then trim_start s2
              else a # s)"

definition blank :: "string \<Rightarrow> bool" where
  "blank s \<longleftrightarrow> trim_start s = []"

text \<open>Byte classes used by the identifier and digest checks.\<close>

definition is_ascii_digit :: "char \<Rightarrow> bool" where
  "is_ascii_digit c \<longleftrightarrow> (48::nat) \<le> of_char c \<and> of_char c \<le> (57::nat)"

definition is_ascii_alphanumeric :: "char \<Rightarrow> bool" where
  "is_ascii_alphanumeric c \<longleftrightarrow> is_ascii_digit c
     \<or> (65::nat) \<le> of_char c \<and> of_char c \<le> (90::nat)
     \<or> (97::nat) \<le> of_char c \<and> of_char c \<le> (122::nat)"

definition is_lower_hex :: "char \<Rightarrow> bool" where
  "is_lower_hex c \<longleftrightarrow> is_ascii_digit c \<or> (97::nat) \<le> of_char c \<and> of_char c \<le> (102::nat)"

section \<open>Machine arithmetic\<close>

definition saturating_add :: "'n::len word \<Rightarrow> 'n word \<Rightarrow> 'n word" where
  "saturating_add a b = (if unat a + unat b < 2 ^ LENGTH('n) then a + b else - 1)"

section \<open>Lemmas on results\<close>

lemma and_then_simps [simp]:
  "and_then (Inr x) f = f x"
  "and_then (Inl e) f = Inl e"
  by (simp_all add: and_then_def)

lemma and_then_eq_Inr [result_simps]:
  "and_then m f = Inr y \<longleftrightarrow> (\<exists>x. m = Inr x \<and> f x = Inr y)"
  by (cases m) auto

lemma and_then_eq_Inl [result_simps]:
  "and_then m f = Inl e \<longleftrightarrow> m = Inl e \<or> (\<exists>x. m = Inr x \<and> f x = Inl e)"
  by (cases m) auto

lemma ensure_simps [simp]:
  "ensure True e = Inr ()"
  "ensure False e = Inl e"
  by (simp_all add: ensure_def)

lemma ensure_eq [result_simps]:
  "ensure b e = Inr u \<longleftrightarrow> b"
  "ensure b e = Inl d \<longleftrightarrow> \<not> b \<and> d = e"
  by (auto simp: ensure_def)

lemma map_err_simps [simp]:
  "map_err f (Inr x) = Inr x"
  "map_err f (Inl d) = Inl (f d)"
  by (simp_all add: map_err_def)

lemma map_err_eq [result_simps]:
  "map_err f m = Inr x \<longleftrightarrow> m = Inr x"
  "map_err f m = Inl e \<longleftrightarrow> (\<exists>d. m = Inl d \<and> e = f d)"
  by (cases m; auto)+

lemma ok_or_simps [simp]:
  "ok_or (Some x) e = Inr x"
  "ok_or None e = Inl e"
  by (simp_all add: ok_or_def)

lemma ok_or_eq [result_simps]:
  "ok_or m e = Inr x \<longleftrightarrow> m = Some x"
  "ok_or m e = Inl d \<longleftrightarrow> m = None \<and> d = e"
  by (cases m; auto)+

lemma try_fold_append:
  "try_fold f s (xs @ ys) = and_then (try_fold f s xs) (\<lambda>s'. try_fold f s' ys)"
proof (induction xs arbitrary: s)
  case Nil
  show ?case by simp
next
  case (Cons x xs)
  then show ?case by (cases "f s x") auto
qed

lemma try_for_each_simps [simp]:
  "try_for_each f [] = Inr ()"
  "try_for_each f (x # xs) = and_then (f x) (\<lambda>_. try_for_each f xs)"
  by (simp_all add: try_for_each_def)

lemma try_for_each_eq_Inr [result_simps]:
  "try_for_each f xs = Inr u \<longleftrightarrow> (\<forall>x\<in>set xs. f x = Inr ())"
  by (induction xs) (auto simp: result_simps)

text \<open>An invariant of the body is an invariant of the whole loop.\<close>

lemma try_fold_invariant:
  assumes "try_fold f s xs = Inr t" and "P s"
    and "\<And>s x s'. x \<in> set xs \<Longrightarrow> P s \<Longrightarrow> f s x = Inr s' \<Longrightarrow> P s'"
  shows "P t"
  using assms
proof (induction xs arbitrary: s)
  case Nil
  then show ?case by simp
next
  case (Cons x xs)
  from Cons.prems(1) obtain s' where s': "f s x = Inr s'" "try_fold f s' xs = Inr t"
    by (auto simp: result_simps)
  with Cons.prems(2,3) have "P s'" by (meson list.set_intros(1))
  with s'(2) Cons.prems(3) show ?case by (intro Cons.IH) auto
qed

text \<open>A property each body establishes for its own element and later bodies keep.\<close>

lemma try_fold_each:
  assumes "try_fold f s xs = Inr t" and "x \<in> set xs"
    and step: "\<And>s s' x. x \<in> set xs \<Longrightarrow> f s x = Inr s' \<Longrightarrow> Q x s'"
    and keep: "\<And>s s' x y. y \<in> set xs \<Longrightarrow> Q x s \<Longrightarrow> f s y = Inr s' \<Longrightarrow> Q x s'"
  shows "Q x t"
proof -
  from assms(2) obtain ys zs where xs: "xs = ys @ x # zs" by (meson split_list)
  with assms(1) obtain s1 s2 where s: "f s1 x = Inr s2" "try_fold f s2 zs = Inr t"
    by (auto simp: try_fold_append result_simps)
  from s(1) have "Q x s2" using step assms(2) by blast
  with s(2) show ?thesis
    by (rule try_fold_invariant [where P = "Q x"]) (use keep xs in auto)
qed

section \<open>Lemmas on lists, strings and words\<close>

lemma distinct_if_distinct_map: "distinct (map f xs) \<Longrightarrow> distinct xs"
  by (simp add: distinct_map)

lemma distinct_map_sort_key [simp]: "distinct (map f (sort_key g xs)) \<longleftrightarrow> distinct (map f xs)"
  by (simp add: distinct_map)

lemma filter_eq_Nil_iff: "filter P xs = [] \<longleftrightarrow> (\<forall>x\<in>set xs. \<not> P x)"
  by (simp add: filter_empty_conv)

lemma blank_Nil [simp]: "blank []"
  by (simp add: blank_def)

lemma not_blank_nonempty: "\<not> blank s \<Longrightarrow> s \<noteq> []"
  by auto

lemma unat_saturating_add:
  fixes a b :: "'n::len word"
  shows "unat (saturating_add a b) = min (unat a + unat b) (2 ^ LENGTH('n) - 1)"
  by (auto simp: saturating_add_def unat_word_ariths unsigned_minus_1_eq_mask mask_eq_exp_minus_1)

lemma saturating_add_one_le:
  fixes a :: "'n::len word"
  shows "a \<le> saturating_add a 1"
proof -
  have "unat a < 2 ^ LENGTH('n)" by simp
  then have "unat a \<le> 2 ^ LENGTH('n) - 1" by linarith
  then show ?thesis by (simp add: word_le_nat_alt unat_saturating_add)
qed

lemma saturating_add_code [code]: "saturating_add a b = (if a + b < a then - 1 else a + b)"
  for a b :: "'n::len word"
proof -
  have a: "unat a < 2 ^ LENGTH('n)" and b: "unat b < 2 ^ LENGTH('n)" by simp_all
  have sum: "unat (a + b) = (unat a + unat b) mod 2 ^ LENGTH('n)" by (simp add: unat_word_ariths)
  have "a + b < a \<longleftrightarrow> \<not> unat a + unat b < 2 ^ LENGTH('n)"
  proof (cases "unat a + unat b < 2 ^ LENGTH('n)")
    case True
    then show ?thesis by (simp add: word_less_nat_alt sum)
  next
    case False
    then have "(unat a + unat b) mod 2 ^ LENGTH('n) = unat a + unat b - 2 ^ LENGTH('n)"
      using a b by (subst le_mod_geq) (simp, rule mod_less, linarith)
    then have "unat (a + b) < unat a" using False a b sum by linarith
    then show ?thesis using False by (simp add: word_less_nat_alt)
  qed
  then show ?thesis by (simp add: saturating_add_def)
qed

end
