(* ===== verification/OrderedMap.thy ===== *)
theory OrderedMap
  imports Prelude
begin

text \<open>
  The standard library's \<^verbatim>\<open>BTreeMap<K, V>\<close>: an association list in strictly
  ascending key order, so that iteration visits the keys in order, as the tree does.
  Lookup is \<^const>\<open>map_of\<close>. The locale \<open>ordered_map\<close> states what clients rely on and
  is interpreted on these definitions; the locale \<open>indexing_loop\<close> is the contract of the
  loops that build an index and refuse a repeated key, which five components share.
\<close>

section \<open>Operations\<close>

type_synonym ('k, 'v) bmap = "('k \<times> 'v) list"

fun bm_insert :: "'k::linorder \<Rightarrow> 'v \<Rightarrow> ('k, 'v) bmap \<Rightarrow> ('k, 'v) bmap" where
  "bm_insert k v [] = [(k, v)]"
| "bm_insert k v (e # m) =
     (if fst e < k then e # bm_insert k v m
      else if fst e = k then (k, v) # m
      else (k, v) # e # m)"

fun bm_remove :: "'k::linorder \<Rightarrow> ('k, 'v) bmap \<Rightarrow> ('k, 'v) bmap" where
  "bm_remove k [] = []"
| "bm_remove k (e # m) = (if fst e = k then m else e # bm_remove k m)"

definition bm_keys :: "('k, 'v) bmap \<Rightarrow> 'k list" where
  "bm_keys m = map fst m"

definition bm_values :: "('k, 'v) bmap \<Rightarrow> 'v list" where
  "bm_values m = map snd m"

definition bm_contains_key :: "('k, 'v) bmap \<Rightarrow> 'k \<Rightarrow> bool" where
  "bm_contains_key m k \<longleftrightarrow> map_of m k \<noteq> None"

text \<open>\<^verbatim>\<open>collect()\<close> into a map: later entries replace earlier ones.\<close>

definition bm_collect :: "('k::linorder \<times> 'v) list \<Rightarrow> ('k, 'v) bmap" where
  "bm_collect es = fold (\<lambda>(k, v). bm_insert k v) es []"

definition bm_wf :: "('k::linorder, 'v) bmap \<Rightarrow> bool" where
  "bm_wf m \<longleftrightarrow> sorted_wrt (<) (map fst m)"

text \<open>\<^verbatim>\<open>collect::<BTreeSet<_>>().into_iter().collect()\<close>: ascending, without repetition.\<close>

definition bset_collect :: "'a::linorder list \<Rightarrow> 'a list" where
  "bset_collect xs = sort (remdups xs)"

section \<open>Laws\<close>

lemma bm_wf_Nil [simp]: "bm_wf []"
  by (simp add: bm_wf_def)

lemma bm_wf_Cons: "bm_wf (e # m) \<longleftrightarrow> (\<forall>k\<in>fst ` set m. fst e < k) \<and> bm_wf m"
  by (auto simp: bm_wf_def)

lemma fst_set_bm_insert [simp]: "fst ` set (bm_insert k v m) = insert k (fst ` set m)"
  by (induction m) auto

lemma bm_wf_insert [simp]: "bm_wf m \<Longrightarrow> bm_wf (bm_insert k v m)"
  by (induction m) (auto simp: bm_wf_Cons)

lemma map_of_bm_insert [simp]: "map_of (bm_insert k v m) = (map_of m)(k \<mapsto> v)"
  by (induction m) (auto simp: fun_eq_iff)

lemma bm_wf_distinct: "bm_wf m \<Longrightarrow> distinct (map fst m)"
  by (simp add: bm_wf_def strict_sorted_iff)

lemma fst_set_bm_remove: "bm_wf m \<Longrightarrow> fst ` set (bm_remove k m) = fst ` set m - {k}"
  by (induction m) (auto simp: bm_wf_Cons)

lemma bm_wf_remove [simp]: "bm_wf m \<Longrightarrow> bm_wf (bm_remove k m)"
  by (induction m) (auto simp: bm_wf_Cons fst_set_bm_remove)

lemma map_of_bm_remove [simp]: "bm_wf m \<Longrightarrow> map_of (bm_remove k m) = (map_of m)(k := None)"
proof (induction m)
  case Nil
  show ?case by simp
next
  case (Cons e m)
  have "map_of m (fst e) = None"
    using Cons.prems by (auto simp: bm_wf_Cons map_of_eq_None_iff)
  with Cons show ?case by (cases e) (auto simp: bm_wf_Cons fun_eq_iff)
qed

lemma bm_contains_key_iff [simp]: "bm_contains_key m k \<longleftrightarrow> k \<in> fst ` set m"
  by (simp add: bm_contains_key_def map_of_eq_None_iff)

lemma set_bm_keys [simp]: "set (bm_keys m) = fst ` set m"
  by (simp add: bm_keys_def)

lemma set_bm_values: "set (bm_values m) = snd ` set m"
  by (simp add: bm_values_def)

lemma bm_values_ran: "bm_wf m \<Longrightarrow> set (bm_values m) = ran (map_of m)"
  by (simp add: ran_distinct bm_wf_distinct set_bm_values)

lemma map_of_bm_iff: "bm_wf m \<Longrightarrow> map_of m k = Some v \<longleftrightarrow> (k, v) \<in> set m"
  by (simp add: bm_wf_distinct)

lemma bm_values_iff: "bm_wf m \<Longrightarrow> v \<in> set (bm_values m) \<longleftrightarrow> (\<exists>k. map_of m k = Some v)"
  by (simp add: bm_values_ran ran_def)

text \<open>A well-formed map is determined by its lookup function.\<close>

lemma bm_eqI: "bm_wf m \<Longrightarrow> bm_wf n \<Longrightarrow> map_of m = map_of n \<Longrightarrow> m = n"
proof (rule map_sorted_distinct_set_unique [where f = fst])
  assume wf: "bm_wf m" "bm_wf n" and eq: "map_of m = map_of n"
  from wf have d: "distinct (map fst m)" "distinct (map fst n)" by (simp_all add: bm_wf_distinct)
  from wf show "sorted (map fst m)" "sorted (map fst n)" "distinct (map fst m)"
    "distinct (map fst n)" by (auto simp: bm_wf_def strict_sorted_iff)
  from map_of_inject_set [OF d] eq show sets: "set m = set n" by simp
  show "inj_on fst (set m \<union> set n)"
    using sets d(1) by (simp add: distinct_map)
qed

lemma fold_bm_insert_wf: "bm_wf m \<Longrightarrow> bm_wf (fold (\<lambda>(k, v). bm_insert k v) es m)"
  by (induction es arbitrary: m) (auto split: prod.splits)

lemma bm_wf_collect [simp]: "bm_wf (bm_collect es)"
  by (simp add: bm_collect_def fold_bm_insert_wf)

lemma map_of_fold_bm_insert:
  "map_of (fold (\<lambda>(k, v). bm_insert k v) es m) = map_of m ++ map_of (rev es)"
  by (induction es arbitrary: m) (auto split: prod.splits)

lemma map_of_bm_collect: "map_of (bm_collect es) = map_of (rev es)"
  by (simp add: bm_collect_def map_of_fold_bm_insert)

lemma map_add_Cons_fresh:
  "map_of es k = None \<Longrightarrow> m(k \<mapsto> v) ++ map_of es = m ++ map_of ((k, v) # es)"
  by (auto simp: fun_eq_iff map_add_def split: option.splits)

lemma map_of_rev_distinct: "distinct (map fst es) \<Longrightarrow> map_of (rev es) = map_of es"
  by (subst map_of_inject_set) (simp_all add: rev_map [symmetric])

lemma set_bset_collect [simp]: "set (bset_collect xs) = set xs"
  by (simp add: bset_collect_def)

lemma length_bset_collect: "length (bset_collect xs) = card (set xs)"
  by (simp add: bset_collect_def length_remdups_card_conv)

lemma bset_collect_cong: "set xs = set ys \<Longrightarrow> bset_collect xs = bset_collect ys"
  by (simp add: bset_collect_def sorted_list_of_set_sort_remdups [symmetric])

section \<open>Maps whose values carry their key and a unique attribute\<close>

definition keyed_uniquely :: "('v \<Rightarrow> 'k::linorder) \<Rightarrow> ('v \<Rightarrow> 'u) \<Rightarrow> ('k, 'v) bmap \<Rightarrow> bool" where
  "keyed_uniquely ident mat m \<longleftrightarrow>
     bm_wf m \<and> (\<forall>k v. map_of m k = Some v \<longrightarrow> k = ident v) \<and>
     (\<forall>k l v w. map_of m k = Some v \<longrightarrow> map_of m l = Some w \<longrightarrow> mat v = mat w \<longrightarrow> k = l)"

lemma keyed_uniquely_Nil [simp]: "keyed_uniquely ident mat []"
  by (simp add: keyed_uniquely_def)

lemma keyed_uniquely_add:
  assumes "keyed_uniquely ident mat m" "\<forall>w\<in>set (bm_values m). mat w \<noteq> mat v" "k = ident v"
  shows "keyed_uniquely ident mat (bm_insert k v m)"
proof -
  have "\<forall>l w. map_of m l = Some w \<longrightarrow> mat w \<noteq> mat v"
    using assms(1,2) bm_values_iff unfolding keyed_uniquely_def by fastforce
  then show ?thesis using assms(1,3) unfolding keyed_uniquely_def by (auto split: if_splits) metis
qed

lemma keyed_uniquely_change:
  assumes "keyed_uniquely ident mat m" "map_of m k = Some v" "ident w = ident v" "mat w = mat v"
  shows "keyed_uniquely ident mat (bm_insert k w m)"
  using assms unfolding keyed_uniquely_def by (auto split: if_splits)

lemma bm_values_change:
  assumes "bm_wf m" "map_of m k = Some v" "\<forall>u\<in>set (bm_values m). P u" "P w"
  shows "\<forall>u\<in>set (bm_values (bm_insert k w m)). P u"
proof
  fix u
  assume "u \<in> set (bm_values (bm_insert k w m))"
  then obtain l where l: "((map_of m)(k \<mapsto> w)) l = Some u" using assms(1) by (auto simp: bm_values_iff)
  show "P u"
  proof (cases "l = k")
    case False
    then have "u \<in> set (bm_values m)" using l assms(1) by (auto simp: bm_values_iff)
    then show ?thesis using assms(3) by blast
  qed (use l assms(4) in simp)
qed

section \<open>The interface and the indexing loops\<close>

text \<open>
  What a client of a map may use: lookup after an insertion, the keys, and that every
  operation keeps the representation invariant.
\<close>

locale ordered_map =
  fixes none :: "'m"
    and get :: "'m \<Rightarrow> 'k \<Rightarrow> 'v option"
    and put :: "'k \<Rightarrow> 'v \<Rightarrow> 'm \<Rightarrow> 'm"
    and ok :: "'m \<Rightarrow> bool"
  assumes get_none: "get none k = None"
    and get_put: "ok m \<Longrightarrow> get (put k v m) = (get m)(k \<mapsto> v)"
    and ok_none: "ok none"
    and ok_put: "ok m \<Longrightarrow> ok (put k v m)"
begin

lemma ok_puts: "ok m \<Longrightarrow> ok (fold (\<lambda>x. put (key x) (val x)) xs m)"
  by (induction xs arbitrary: m) (auto simp: ok_put)

lemma get_puts_other:
  "ok m \<Longrightarrow> k \<notin> key ` set xs \<Longrightarrow> get (fold (\<lambda>x. put (key x) (val x)) xs m) k = get m k"
  by (induction xs arbitrary: m) (auto simp: ok_put get_put)

lemma get_puts_distinct:
  "ok m \<Longrightarrow> distinct (map key xs) \<Longrightarrow> x \<in> set xs \<Longrightarrow>
   get (fold (\<lambda>x. put (key x) (val x)) xs m) (key x) = Some (val x)"
  by (induction xs arbitrary: m) (auto simp: ok_put get_put get_puts_other)

end

text \<open>
  A loop that checks each element, refuses a key already present, and inserts it. The
  conclusion characterises success and failure: the loop succeeds exactly if every check
  passes and no key repeats, and the index it returns answers every key with its element.
\<close>

locale indexing_loop = ordered_map none get put ok
  for none :: "'m" and get :: "'m \<Rightarrow> 'k \<Rightarrow> 'v option" and put and ok +
  fixes run :: "'m \<Rightarrow> 'a list \<Rightarrow> 'e + 'm"
    and key :: "'a \<Rightarrow> 'k"
    and val :: "'a \<Rightarrow> 'v"
    and guard :: "'a \<Rightarrow> 'e + unit"
    and dup :: "'a \<Rightarrow> 'e"
  assumes run_Nil: "run m [] = Inr m"
    and run_Cons: "run m (x # xs) =
      and_then (guard x) (\<lambda>_.
        if get m (key x) \<noteq> None then Inl (dup x) else run (put (key x) (val x) m) xs)"
begin

lemma run_eq_Inr_from:
  assumes "ok m"
  shows "run m xs = Inr n \<longleftrightarrow>
    (\<forall>x\<in>set xs. guard x = Inr ()) \<and> distinct (map key xs) \<and>
    (\<forall>x\<in>set xs. get m (key x) = None) \<and>
    n = fold (\<lambda>x. put (key x) (val x)) xs m"
  using assms
proof (induction xs arbitrary: m)
  case Nil
  then show ?case by (auto simp: run_Nil)
next
  case (Cons x xs)
  then have ok': "ok (put (key x) (val x) m)" by (simp add: ok_put)
  have fresh: "(\<forall>y\<in>set xs. get (put (key x) (val x) m) (key y) = None) \<longleftrightarrow>
      key x \<notin> key ` set xs \<and> (\<forall>y\<in>set xs. get m (key y) = None)"
    using Cons.prems by (simp add: get_put image_iff) (metis option.distinct(1))
  show ?case by (auto simp: run_Cons result_simps Cons.IH [OF ok'] fresh)
qed

lemma run_eq_Inr:
  "run none xs = Inr n \<longleftrightarrow>
    (\<forall>x\<in>set xs. guard x = Inr ()) \<and> distinct (map key xs) \<and>
    n = fold (\<lambda>x. put (key x) (val x)) xs none"
  by (simp add: run_eq_Inr_from ok_none get_none)

lemma run_ok: "run none xs = Inr n \<Longrightarrow> ok n"
  by (auto simp: run_eq_Inr intro: ok_puts ok_none)

lemma run_get:
  assumes "run none xs = Inr n"
  shows "get n k = Some v \<longleftrightarrow> (\<exists>x\<in>set xs. key x = k \<and> val x = v)"
proof (cases "k \<in> key ` set xs")
  case True
  then obtain x where x: "x \<in> set xs" "key x = k" by auto
  have d: "distinct (map key xs)" and n: "n = fold (\<lambda>x. put (key x) (val x)) xs none"
    using assms by (auto simp: run_eq_Inr)
  have "get n k = Some (val x)"
    using get_puts_distinct [OF ok_none d x(1)] x(2) n by simp
  then show ?thesis using x d by (auto simp: distinct_map inj_on_def)
next
  case False
  with assms show ?thesis by (auto simp: run_eq_Inr get_puts_other ok_none get_none)
qed

lemma run_distinct: "run none xs = Inr n \<Longrightarrow> distinct (map key xs)"
  by (simp add: run_eq_Inr)

lemma run_duplicate:
  "\<lbrakk>\<forall>x\<in>set xs. guard x = Inr (); \<not> distinct (map key xs)\<rbrakk> \<Longrightarrow> \<exists>x\<in>set xs. run none xs = Inl (dup x)"
proof -
  assume g: "\<forall>x\<in>set xs. guard x = Inr ()" and d: "\<not> distinct (map key xs)"
  have "(\<exists>n. run m xs = Inr n) \<or> (\<exists>x\<in>set xs. run m xs = Inl (dup x))" for m
    using g by (induction xs arbitrary: m) (auto simp: run_Nil run_Cons)
  moreover have "\<nexists>n. run none xs = Inr n" using d by (simp add: run_eq_Inr)
  ultimately show ?thesis by blast
qed

end

interpretation bmap: ordered_map "[]" map_of bm_insert bm_wf
  by unfold_locales auto

end
