(* ===== verification/Json.thy ===== *)
theory Json
  imports OrderedMap
begin

text \<open>
  JSON values and the canonical form that is hashed and signed
  (\<^verbatim>\<open>crates/proof-kernel/src/hashing.rs\<close>). The value type follows
  \<^verbatim>\<open>serde_json::Value\<close>; an object is the list of its entries in iteration order.
  Serialisation to bytes (\<^verbatim>\<open>serde_json::to_vec\<close>) and SHA-256 are third-party code:
  they are the two fields of the argument \<^verbatim>\<open>hasher\<close>.
\<close>

section \<open>Values\<close>

datatype (plugins only: code size) json_number = PosInt u64 | NegInt u64 | Float u64

datatype (plugins only: code size) json =
    JNull
  | JBool bool
  | JNumber json_number
  | JString string
  | JArray "json list"
  | JObject "(string \<times> json) list"

type_synonym serde_error = string

record hasher =
  to_vec :: "json \<Rightarrow> serde_error + u8 list"
  sha256_hex :: "u8 list \<Rightarrow> string"

datatype (plugins only: code size) hashing_error = HashSerialization serde_error

section \<open>Canonicalisation\<close>

function canonicalize :: "json \<Rightarrow> json" where
  "canonicalize (JObject object) =
     JObject (bm_collect (map (\<lambda>(key, child). (key, canonicalize child)) (sort_key fst object)))"
| "canonicalize (JArray items) = JArray (map canonicalize items)"
| "canonicalize JNull = JNull"
| "canonicalize (JBool b) = JBool b"
| "canonicalize (JNumber n) = JNumber n"
| "canonicalize (JString s) = JString s"
  by pat_completeness auto
termination
proof (relation "measure size", goal_cases)
  case (2 object z key child)
  then have "child \<in> snd ` set object" by force
  then show ?case by (force simp: less_Suc_eq_le intro: size_list_estimation')
qed (auto simp: less_Suc_eq_le intro: size_list_estimation')

definition canonical_json_bytes :: "hasher \<Rightarrow> json \<Rightarrow> hashing_error + u8 list" where
  "canonical_json_bytes H v = map_err HashSerialization (to_vec H (canonicalize v))"

definition canonical_json_sha256 :: "hasher \<Rightarrow> json \<Rightarrow> hashing_error + string" where
  "canonical_json_sha256 H v =
     and_then (canonical_json_bytes H v) (\<lambda>bytes. Inr (sha256_hex H bytes))"

text \<open>What a map guarantees of its entries: no key twice, at any depth.\<close>

fun json_keys_distinct :: "json \<Rightarrow> bool" where
  "json_keys_distinct (JObject es) \<longleftrightarrow>
     distinct (map fst es) \<and> (\<forall>e\<in>set es. json_keys_distinct (snd e))"
| "json_keys_distinct (JArray xs) \<longleftrightarrow> (\<forall>x\<in>set xs. json_keys_distinct x)"
| "json_keys_distinct _ \<longleftrightarrow> True"

text \<open>The specification: equality up to the order of object entries.\<close>

inductive json_eqv :: "json \<Rightarrow> json \<Rightarrow> bool" where
  same: "json_eqv v v"
| array: "list_all2 json_eqv xs ys \<Longrightarrow> json_eqv (JArray xs) (JArray ys)"
| object: "list_all2 (\<lambda>e f. fst e = fst f \<and> json_eqv (snd e) (snd f)) es gs \<Longrightarrow>
    mset gs = mset fs \<Longrightarrow> json_eqv (JObject es) (JObject fs)"

inductive_simps json_eqv_simps:
  "json_eqv JNull w" "json_eqv (JBool b) w" "json_eqv (JNumber n) w" "json_eqv (JString s) w"
  "json_eqv (JArray xs) w"

section \<open>The canonical form decides equality up to entry order\<close>

lemma map_of_canonical_entries:
  assumes "distinct (map fst es)"
  shows "map_of (bm_collect (map (\<lambda>(k, c). (k, f c)) (sort_key fst es))) = map_option f \<circ> map_of es"
proof -
  have d: "distinct (map fst (sort_key fst es))"
    using assms by (simp add: distinct_map)
  have eq: "map_of (sort_key fst es) = map_of es"
    using d assms by (subst map_of_inject_set) simp_all
  have "map_of (rev (map (\<lambda>(k, c). (k, f c)) (sort_key fst es)))
      = map_of (map (\<lambda>(k, c). (k, f c)) (sort_key fst es))"
    using d by (intro map_of_rev_distinct) (simp add: comp_def case_prod_unfold)
  then show ?thesis by (simp add: map_of_bm_collect map_of_map eq)
qed

lemma map_of_list_all2:
  "list_all2 (\<lambda>e f. fst e = fst f \<and> R (snd e) (snd f)) es gs \<Longrightarrow>
   rel_option R (map_of es k) (map_of gs k)"
  by (induction es gs rule: list_all2_induct) auto

lemma canonicalize_eqv:
  "json_eqv v w \<Longrightarrow> json_keys_distinct v \<Longrightarrow> json_keys_distinct w \<Longrightarrow>
   canonicalize v = canonicalize w"
proof (induction rule: json_eqv.induct)
  case (same v)
  show ?case by simp
next
  case (array xs ys)
  then show ?case
    by (auto simp: list_all2_conv_all_nth intro!: nth_equalityI)
next
  case (object es gs fs)
  let ?R = "\<lambda>v w. json_keys_distinct v \<longrightarrow> json_keys_distinct w \<longrightarrow> canonicalize v = canonicalize w"
  have l: "list_all2 (\<lambda>e f. fst e = fst f \<and> ?R (snd e) (snd f)) es gs"
    using object.IH by (rule list_all2_mono) auto
  have sets: "set gs = set fs" using object.hyps by (rule mset_eq_setD)
  have keys: "map fst es = map fst gs"
    using l by (auto simp: list_all2_conv_all_nth intro: nth_equalityI)
  have d: "distinct (map fst es)" "distinct (map fst gs)" "distinct (map fst fs)"
    using object.prems keys by auto
  have "map_of gs = map_of fs" using d sets by (subst map_of_inject_set) simp_all
  then have "map_option canonicalize (map_of es k) = map_option canonicalize (map_of fs k)" for k
    using map_of_list_all2 [OF l, of k] object.prems sets
    by (cases "map_of es k"; cases "map_of gs k") (auto dest!: map_of_SomeD)
  then show ?case
    using d by (auto intro!: bm_eqI simp: map_of_canonical_entries fun_eq_iff)
qed

lemma eqv_object_if_canonical_entries:
  assumes d: "distinct (map fst es)" "distinct (map fst fs)"
    and eq: "map_option canonicalize \<circ> map_of es = map_option canonicalize \<circ> map_of fs"
    and IH: "\<And>e f. e \<in> set es \<Longrightarrow> f \<in> set fs \<Longrightarrow> canonicalize (snd e) = canonicalize (snd f) \<Longrightarrow>
      json_eqv (snd e) (snd f)"
  shows "json_eqv (JObject es) (JObject fs)"
proof (rule json_eqv.object)
  let ?gs = "map (\<lambda>e. (fst e, the (map_of fs (fst e)))) es"
  have corr: "\<exists>w. map_of fs (fst e) = Some w \<and> json_eqv (snd e) w" if e: "e \<in> set es" for e
  proof -
    have "map_of es (fst e) = Some (snd e)" using d(1) e by simp
    then have "map_option canonicalize (map_of fs (fst e)) = Some (canonicalize (snd e))"
      using fun_cong [OF eq, of "fst e"] by simp
    then obtain w where w: "map_of fs (fst e) = Some w" "canonicalize w = canonicalize (snd e)"
      by auto
    then have "(fst e, w) \<in> set fs" by (simp add: map_of_SomeD)
    with IH [OF e this] w show ?thesis by auto
  qed
  have "json_eqv (snd e) (the (map_of fs (fst e)))" if "e \<in> set es" for e
    using corr [OF that] by auto
  then show "list_all2 (\<lambda>e f. fst e = fst f \<and> json_eqv (snd e) (snd f)) es ?gs"
    by (simp add: list_all2_conv_all_nth)
  have "fst ` set es = fst ` set fs"
    using eq by (auto simp: fun_eq_iff dom_map_of_conv_image_fst [symmetric] dom_def)
      (metis option.map_disc_iff option.distinct(1) option.exhaust)+
  then have "set ?gs = set fs"
    using d corr by (auto simp: image_iff dest!: corr) (force simp: image_iff)+
  moreover have "distinct ?gs" "distinct fs"
    using d by (auto simp: distinct_map inj_on_def)
  ultimately show "mset ?gs = mset fs" by (blast dest: set_eq_iff_mset_eq_distinct)
qed

lemma eqv_if_canonicalize_eq:
  "canonicalize v = canonicalize w \<Longrightarrow> json_keys_distinct v \<Longrightarrow> json_keys_distinct w \<Longrightarrow>
   json_eqv v w"
proof (induction v arbitrary: w rule: canonicalize.induct)
  case (1 es)
  from "1.prems"(1) obtain fs where w: "w = JObject fs" by (cases w) simp_all
  from "1.prems" w have d: "distinct (map fst es)" "distinct (map fst fs)" by simp_all
  have entries: "map_option canonicalize \<circ> map_of es = map_option canonicalize \<circ> map_of fs"
    using "1.prems"(1) w by (simp add: d flip: map_of_canonical_entries)
  have "json_eqv (JObject es) (JObject fs)"
  proof (rule eqv_object_if_canonical_entries [OF d entries])
    fix e f
    assume e: "e \<in> set es" and f: "f \<in> set fs" and "canonicalize (snd e) = canonicalize (snd f)"
    then show "json_eqv (snd e) (snd f)"
      using "1.IH" [of e "fst e" "snd e" "snd f"] "1.prems" w by auto
  qed
  with w show ?case by simp
next
  case (2 xs)
  from "2.prems"(1) obtain ys where w: "w = JArray ys" by (cases w) simp_all
  with "2.prems"(1) have len: "length xs = length ys" and
    nth: "\<And>i. i < length xs \<Longrightarrow> canonicalize (xs ! i) = canonicalize (ys ! i)"
    by (auto simp: list_eq_iff_nth_eq)
  have "list_all2 json_eqv xs ys"
    using "2.IH" "2.prems" w len nth by (auto simp: list_all2_conv_all_nth)
  with w show ?case by (auto intro: json_eqv.array)
qed (case_tac w; auto intro: json_eqv.same)+

lemma canonicalize_keys_distinct: "json_keys_distinct (canonicalize v)"
proof (induction v rule: canonicalize.induct)
  case (1 es)
  have "e \<in> set (bm_collect (map (\<lambda>(k, c). (k, canonicalize c)) (sort_key fst es))) \<Longrightarrow>
      json_keys_distinct (snd e)" for e
  proof -
    let ?m = "map (\<lambda>(k, c). (k, canonicalize c)) (sort_key fst es)"
    assume "e \<in> set (bm_collect ?m)"
    then have "map_of (bm_collect ?m) (fst e) = Some (snd e)"
      by (simp add: bm_wf_distinct)
    then have "(fst e, snd e) \<in> set ?m" by (auto simp: map_of_bm_collect dest!: map_of_SomeD)
    with "1.IH" show ?thesis by auto
  qed
  then show ?case by (simp add: bm_wf_distinct)
qed auto

lemma eqv_canonicalize: "json_keys_distinct v \<Longrightarrow> json_eqv v (canonicalize v)"
proof (induction v rule: canonicalize.induct)
  case (1 es)
  let ?gs = "map (\<lambda>(k, c). (k, canonicalize c)) es"
  have d: "distinct (map fst es)" using "1.prems" by simp
  have "mset ?gs = mset (bm_collect (map (\<lambda>(k, c). (k, canonicalize c)) (sort_key fst es)))"
    (is "mset _ = mset ?m")
  proof -
    have dg: "distinct (map fst ?gs)" using d by (simp add: comp_def case_prod_unfold)
    have "map_of ?gs = map_of ?m" using d by (simp add: map_of_canonical_entries map_of_map)
    then have "set ?gs = set ?m"
      using dg by (subst (asm) map_of_inject_set) (simp_all add: bm_wf_distinct)
    moreover have "distinct ?gs" using dg by (rule distinct_if_distinct_map)
    moreover have "distinct ?m" by (rule distinct_if_distinct_map [of fst]) (simp add: bm_wf_distinct)
    ultimately show ?thesis by (blast dest: set_eq_iff_mset_eq_distinct)
  qed
  moreover have "list_all2 (\<lambda>e f. fst e = fst f \<and> json_eqv (snd e) (snd f)) es ?gs"
  proof -
    have "json_eqv (snd e) (canonicalize (snd e))" if "e \<in> set es" for e
      using "1.IH" [of e "fst e" "snd e"] "1.prems" that by auto
    then show ?thesis by (simp add: list_all2_conv_all_nth case_prod_unfold)
  qed
  ultimately show ?case by (simp add: json_eqv.object)
next
  case (2 xs)
  then have "list_all2 json_eqv xs (map canonicalize xs)"
    by (auto simp: list_all2_conv_all_nth)
  then show ?case by (simp add: json_eqv.array)
qed (auto intro: json_eqv.same)

lemma canonicalize_idem: "json_keys_distinct v \<Longrightarrow> canonicalize (canonicalize v) = canonicalize v"
  using canonicalize_eqv [OF eqv_canonicalize] by (metis canonicalize_keys_distinct)

section \<open>Properties\<close>

text \<open>A concrete instance of the third-party hash, for the examples.\<close>

definition demo_digest :: string where
  "demo_digest = replicate 64 (CHR ''a'')"

definition demo_hasher :: hasher where
  "demo_hasher = \<lparr>to_vec = (\<lambda>_. Inr []), sha256_hex = (\<lambda>_. demo_digest)\<rparr>"

text \<open>
  Two JSON values have the same canonical form exactly if they are equal up to the
  order of the entries of their objects, at every depth; so entry order never changes a
  digest, and two values that differ in anything else are never confused before hashing.
\<close>

lemma canonical_form_decides_equality:
  assumes "json_keys_distinct v" "json_keys_distinct w"
  shows "canonicalize v = canonicalize w \<longleftrightarrow> json_eqv v w"
  using assms canonicalize_eqv eqv_if_canonicalize_eq by blast

end
