(* ===== verification/Kernel.thy ===== *)
theory Kernel
  imports Json
begin

text \<open>
  The proof kernel (\<^verbatim>\<open>crates/proof-kernel\<close>): three-valued truth, the acceptance
  policy, the evidence accumulated per proof obligation and the acceptance decision. The
  state of \<^verbatim>\<open>ProofKernel\<close> is the record \<open>proof_kernel\<close>; a method that
  takes \<^verbatim>\<open>&mut self\<close> and returns a \<^verbatim>\<open>Result\<close> returns the result paired
  with the state it leaves behind, so that what an error path leaves is part of the model.
  The lemmas show that evaluation implements a declarative acceptance rule, that the
  bindings of evidence are an invariant of every reachable kernel, and that a rejected
  run stays rejected.
\<close>

section \<open>Truth values\<close>

datatype (plugins only: code size) truth_value = TV_True | TV_False | TV_Unknown

fun tv_not :: "truth_value \<Rightarrow> truth_value" where
  "tv_not TV_True = TV_False"
| "tv_not TV_False = TV_True"
| "tv_not TV_Unknown = TV_Unknown"

definition tv_and :: "truth_value \<Rightarrow> truth_value \<Rightarrow> truth_value" where
  "tv_and a b =
     (if a = TV_False \<or> b = TV_False then TV_False
      else if a = TV_True \<and> b = TV_True then TV_True
      else TV_Unknown)"

definition tv_or :: "truth_value \<Rightarrow> truth_value \<Rightarrow> truth_value" where
  "tv_or a b =
     (if a = TV_True \<or> b = TV_True then TV_True
      else if a = TV_False \<and> b = TV_False then TV_False
      else TV_Unknown)"

section \<open>Data\<close>

datatype (plugins only: code size) assurance_level = E0 | E1 | E2 | E3 | E4 | E5

fun assurance_rank :: "assurance_level \<Rightarrow> nat" where
  "assurance_rank E0 = 0"
| "assurance_rank E1 = 1"
| "assurance_rank E2 = 2"
| "assurance_rank E3 = 3"
| "assurance_rank E4 = 4"
| "assurance_rank E5 = 5"

lemma assurance_rank_inject [simp]: "assurance_rank a = assurance_rank b \<longleftrightarrow> a = b"
  by (cases a; cases b) auto

instantiation assurance_level :: linorder
begin
definition less_eq_assurance_level :: "assurance_level \<Rightarrow> assurance_level \<Rightarrow> bool" where
  "a \<le> b \<longleftrightarrow> assurance_rank a \<le> assurance_rank b"
definition less_assurance_level :: "assurance_level \<Rightarrow> assurance_level \<Rightarrow> bool" where
  "a < b \<longleftrightarrow> assurance_rank a < assurance_rank b"
instance by standard (auto simp: less_eq_assurance_level_def less_assurance_level_def)
end

datatype (plugins only: code size) independence_class = Executor | Independent | Diverse

fun independence_rank :: "independence_class \<Rightarrow> nat" where
  "independence_rank Executor = 0"
| "independence_rank Independent = 1"
| "independence_rank Diverse = 2"

lemma independence_rank_inject [simp]: "independence_rank a = independence_rank b \<longleftrightarrow> a = b"
  by (cases a; cases b) auto

instantiation independence_class :: linorder
begin
definition less_eq_independence_class :: "independence_class \<Rightarrow> independence_class \<Rightarrow> bool" where
  "a \<le> b \<longleftrightarrow> independence_rank a \<le> independence_rank b"
definition less_independence_class :: "independence_class \<Rightarrow> independence_class \<Rightarrow> bool" where
  "a < b \<longleftrightarrow> independence_rank a < independence_rank b"
instance by standard (auto simp: less_eq_independence_class_def less_independence_class_def)
end

lemmas enum_order_defs =
  less_eq_assurance_level_def less_assurance_level_def
  less_eq_independence_class_def less_independence_class_def

record contract_seal =
  seal_contract_digest :: string
  seal_capsule_digest :: string
  seal_schema_version :: string

record proof_obligation_requirement =
  req_obligation_id :: string
  req_constraint_id :: string
  req_mandatory :: bool
  req_required_independence :: independence_class

record evidence_record =
  ev_evidence_id :: string
  ev_obligation_id :: string
  ev_constraint_id :: string
  ev_contract_digest :: string
  ev_subject_digest :: string
  ev_validator_id :: string
  ev_validator_version :: string
  ev_result :: truth_value
  ev_independence :: independence_class
  ev_observed_at :: string

datatype (plugins only: code size) obligation_state = Pending | Satisfied | Failed | Indeterminate | Invalidated

record obligation_report =
  rep_obligation_id :: string
  rep_constraint_id :: string
  rep_mandatory :: bool
  rep_required_independence :: independence_class
  rep_state :: obligation_state
  rep_evidence_ids :: "string list"
  rep_validator_ids :: "string list"

datatype (plugins only: code size) decision_status = Accepted | Blocked | Rejected

datatype (plugins only: code size) decision_reason =
    NoMandatoryObligations
  | UnresolvedUnknowns nat
  | AssuranceBelowMinimum assurance_level assurance_level
  | MandatoryProofPending string
  | MandatoryProofIndeterminate string
  | MandatoryProofFailed string
  | MandatoryProofInvalidated string

record acceptance_decision =
  dec_status :: decision_status
  dec_reasons :: "decision_reason list"
  dec_contract_digest :: string
  dec_assurance_level :: assurance_level
  dec_obligation_reports :: "obligation_report list"

record acceptance_policy =
  pol_minimum_assurance_level :: assurance_level
  pol_unknowns_must_be_empty :: bool
  pol_all_mandatory_proofs_must_pass :: bool
  pol_validator_conflicts_allowed :: bool

definition strict_policy :: "assurance_level \<Rightarrow> acceptance_policy" where
  "strict_policy minimum = \<lparr>
     pol_minimum_assurance_level = minimum,
     pol_unknowns_must_be_empty = True,
     pol_all_mandatory_proofs_must_pass = True,
     pol_validator_conflicts_allowed = False\<rparr>"

datatype (plugins only: code size) kernel_error =
    K_EmptyField string
  | K_DuplicateObligation string
  | K_UnknownObligation string
  | K_DuplicateEvidence string
  | K_ContractDigestMismatch
  | K_ConstraintMismatch
  | K_UnsafePolicy string

record obligation_accumulator =
  acc_requirement :: proof_obligation_requirement
  acc_evidence :: "evidence_record list"

record proof_kernel =
  k_seal :: contract_seal
  k_policy :: acceptance_policy
  k_declared_unknowns :: nat
  k_assurance_level :: assurance_level
  k_obligations :: "(string, obligation_accumulator) bmap"
  k_evidence_ids :: "string set"

section \<open>Operations\<close>

definition require_non_empty :: "string \<Rightarrow> string \<Rightarrow> kernel_error + unit" where
  "require_non_empty field v = ensure (\<not> blank v) (K_EmptyField field)"

definition validate_policy :: "acceptance_policy \<Rightarrow> kernel_error + unit" where
  "validate_policy p =
     and_then (ensure (pol_unknowns_must_be_empty p)
       (K_UnsafePolicy ''unresolved unknowns must block acceptance'')) (\<lambda>_.
     and_then (ensure (pol_all_mandatory_proofs_must_pass p)
       (K_UnsafePolicy ''all mandatory proofs must pass'')) (\<lambda>_.
     ensure (\<not> pol_validator_conflicts_allowed p)
       (K_UnsafePolicy ''validator conflicts cannot be accepted'')))"

definition validate_evidence_fields :: "evidence_record \<Rightarrow> kernel_error + unit" where
  "validate_evidence_fields e =
     and_then (require_non_empty ''evidence_id'' (ev_evidence_id e)) (\<lambda>_.
     and_then (require_non_empty ''obligation_id'' (ev_obligation_id e)) (\<lambda>_.
     and_then (require_non_empty ''constraint_id'' (ev_constraint_id e)) (\<lambda>_.
     and_then (require_non_empty ''contract_digest'' (ev_contract_digest e)) (\<lambda>_.
     and_then (require_non_empty ''subject_digest'' (ev_subject_digest e)) (\<lambda>_.
     and_then (require_non_empty ''validator_id'' (ev_validator_id e)) (\<lambda>_.
     and_then (require_non_empty ''validator_version'' (ev_validator_version e)) (\<lambda>_.
     require_non_empty ''observed_at'' (ev_observed_at e))))))))"

definition check_requirement :: "proof_obligation_requirement \<Rightarrow> kernel_error + unit" where
  "check_requirement r =
     and_then (require_non_empty ''obligation_id'' (req_obligation_id r)) (\<lambda>_.
     require_non_empty ''constraint_id'' (req_constraint_id r))"

fun index_requirements ::
    "(string, obligation_accumulator) bmap \<Rightarrow> proof_obligation_requirement list \<Rightarrow>
     kernel_error + (string, obligation_accumulator) bmap" where
  "index_requirements m [] = Inr m"
| "index_requirements m (r # rs) =
     and_then (check_requirement r) (\<lambda>_.
       let key = req_obligation_id r in
       if map_of m key \<noteq> None then Inl (K_DuplicateObligation key)
       else index_requirements
         (bm_insert key \<lparr>acc_requirement = r, acc_evidence = []\<rparr> m) rs)"

definition kernel_new ::
    "contract_seal \<Rightarrow> acceptance_policy \<Rightarrow> nat \<Rightarrow> assurance_level \<Rightarrow>
     proof_obligation_requirement list \<Rightarrow> kernel_error + proof_kernel" where
  "kernel_new seal policy declared_unknowns assurance requirements =
     and_then (require_non_empty ''contract_digest'' (seal_contract_digest seal)) (\<lambda>_.
     and_then (require_non_empty ''capsule_digest'' (seal_capsule_digest seal)) (\<lambda>_.
     and_then (require_non_empty ''schema_version'' (seal_schema_version seal)) (\<lambda>_.
     and_then (validate_policy policy) (\<lambda>_.
     and_then (index_requirements [] requirements) (\<lambda>obligations.
     Inr \<lparr>k_seal = seal, k_policy = policy, k_declared_unknowns = declared_unknowns,
       k_assurance_level = assurance, k_obligations = obligations, k_evidence_ids = {}\<rparr>)))))"

definition independent_true :: "evidence_record \<Rightarrow> bool" where
  "independent_true e \<longleftrightarrow> ev_result e = TV_True \<and> ev_independence e \<ge> Independent"

definition independence_met :: "independence_class \<Rightarrow> evidence_record list \<Rightarrow> bool" where
  "independence_met required es =
     (case required of
        Executor \<Rightarrow> list_ex (\<lambda>e. ev_result e = TV_True) es
      | Independent \<Rightarrow> list_ex independent_true es
      | Diverse \<Rightarrow> 2 \<le> length (bset_collect (map ev_validator_id (filter independent_true es))))"

definition state_for :: "obligation_accumulator \<Rightarrow> obligation_state" where
  "state_for acc =
     (let es = acc_evidence acc;
          has_true = list_ex (\<lambda>e. ev_result e = TV_True) es;
          has_false = list_ex (\<lambda>e. ev_result e = TV_False) es;
          has_unknown = list_ex (\<lambda>e. ev_result e = TV_Unknown) es
      in if es = [] then Pending
         else if has_true \<and> has_false then Invalidated
         else if has_false then Failed
         else if \<not> has_true \<and> has_unknown then Indeterminate
         else if independence_met (req_required_independence (acc_requirement acc)) es then Satisfied
         else Indeterminate)"

definition ingest_evidence ::
    "proof_kernel \<Rightarrow> evidence_record \<Rightarrow> (kernel_error + obligation_state) \<times> proof_kernel" where
  "ingest_evidence k e =
     (case validate_evidence_fields e of
        Inl err \<Rightarrow> (Inl err, k)
      | Inr _ \<Rightarrow>
          if ev_evidence_id e \<in> k_evidence_ids k then (Inl (K_DuplicateEvidence (ev_evidence_id e)), k)
          else if ev_contract_digest e \<noteq> seal_contract_digest (k_seal k)
            then (Inl K_ContractDigestMismatch, k)
          else case map_of (k_obligations k) (ev_obligation_id e) of
            None \<Rightarrow> (Inl (K_UnknownObligation (ev_obligation_id e)), k)
          | Some entry \<Rightarrow>
              if ev_constraint_id e \<noteq> req_constraint_id (acc_requirement entry)
              then (Inl K_ConstraintMismatch, k)
              else
                let k1 = k\<lparr>k_evidence_ids := insert (ev_evidence_id e) (k_evidence_ids k)\<rparr> in
                case map_of (k_obligations k1) (ev_obligation_id e) of
                  None \<Rightarrow> (Inl (K_UnknownObligation (ev_obligation_id e)), k1)
                | Some acc \<Rightarrow>
                    let acc' = acc\<lparr>acc_evidence := acc_evidence acc @ [e]\<rparr> in
                    (Inr (state_for acc'),
                     k1\<lparr>k_obligations := bm_insert (ev_obligation_id e) acc' (k_obligations k1)\<rparr>))"

definition set_assurance_level :: "proof_kernel \<Rightarrow> assurance_level \<Rightarrow> proof_kernel" where
  "set_assurance_level k a = k\<lparr>k_assurance_level := a\<rparr>"

definition set_declared_unknowns :: "proof_kernel \<Rightarrow> nat \<Rightarrow> proof_kernel" where
  "set_declared_unknowns k n = k\<lparr>k_declared_unknowns := n\<rparr>"

definition report_of :: "obligation_accumulator \<Rightarrow> obligation_report" where
  "report_of acc = \<lparr>
     rep_obligation_id = req_obligation_id (acc_requirement acc),
     rep_constraint_id = req_constraint_id (acc_requirement acc),
     rep_mandatory = req_mandatory (acc_requirement acc),
     rep_required_independence = req_required_independence (acc_requirement acc),
     rep_state = state_for acc,
     rep_evidence_ids = map ev_evidence_id (acc_evidence acc),
     rep_validator_ids = bset_collect (map ev_validator_id (acc_evidence acc))\<rparr>"

definition obligation_reports :: "proof_kernel \<Rightarrow> obligation_report list" where
  "obligation_reports k = map report_of (bm_values (k_obligations k))"

fun report_step ::
    "obligation_report \<Rightarrow> bool \<times> decision_reason list \<Rightarrow> bool \<times> decision_reason list" where
  "report_step report (rejected, reasons) =
     (case rep_state report of
        Pending \<Rightarrow> (rejected, reasons @ [MandatoryProofPending (rep_obligation_id report)])
      | Indeterminate \<Rightarrow>
          (rejected, reasons @ [MandatoryProofIndeterminate (rep_obligation_id report)])
      | Failed \<Rightarrow> (True, reasons @ [MandatoryProofFailed (rep_obligation_id report)])
      | Invalidated \<Rightarrow> (True, reasons @ [MandatoryProofInvalidated (rep_obligation_id report)])
      | Satisfied \<Rightarrow> (rejected, reasons))"

definition evaluate :: "proof_kernel \<Rightarrow> acceptance_decision" where
  "evaluate k =
     (let reports = obligation_reports k;
          mandatory_reports = filter rep_mandatory reports;
          reasons0 =
            (if mandatory_reports = [] then [NoMandatoryObligations] else [])
          @ (if pol_unknowns_must_be_empty (k_policy k) \<and> k_declared_unknowns k > 0
             then [UnresolvedUnknowns (k_declared_unknowns k)] else [])
          @ (if k_assurance_level k < pol_minimum_assurance_level (k_policy k)
             then [AssuranceBelowMinimum (k_assurance_level k)
                     (pol_minimum_assurance_level (k_policy k))] else []);
          (rejected, reasons) = fold report_step mandatory_reports (False, reasons0);
          status = (if rejected then Rejected else if reasons = [] then Accepted else Blocked)
      in \<lparr>dec_status = status, dec_reasons = reasons,
          dec_contract_digest = seal_contract_digest (k_seal k),
          dec_assurance_level = k_assurance_level k,
          dec_obligation_reports = reports\<rparr>)"

section \<open>The acceptance rule, stated declaratively\<close>

text \<open>
  What it means for the evidence of an obligation to establish its claim: something says
  it holds, nothing says it fails, and the positive evidence is as independent as required.
\<close>

definition claim_established :: "independence_class \<Rightarrow> evidence_record set \<Rightarrow> bool" where
  "claim_established required E \<longleftrightarrow>
     (\<exists>e\<in>E. ev_result e = TV_True) \<and> (\<forall>e\<in>E. ev_result e \<noteq> TV_False) \<and>
     (case required of
        Executor \<Rightarrow> True
      | Independent \<Rightarrow> \<exists>e\<in>E. independent_true e
      | Diverse \<Rightarrow> \<exists>e\<in>E. \<exists>f\<in>E. independent_true e \<and> independent_true f \<and>
          ev_validator_id e \<noteq> ev_validator_id f)"

definition acceptance_rule :: "proof_kernel \<Rightarrow> bool" where
  "acceptance_rule k \<longleftrightarrow>
     (\<exists>acc\<in>set (bm_values (k_obligations k)). req_mandatory (acc_requirement acc)) \<and>
     (pol_unknowns_must_be_empty (k_policy k) \<longrightarrow> k_declared_unknowns k = 0) \<and>
     pol_minimum_assurance_level (k_policy k) \<le> k_assurance_level k \<and>
     (\<forall>acc\<in>set (bm_values (k_obligations k)). req_mandatory (acc_requirement acc) \<longrightarrow>
        claim_established (req_required_independence (acc_requirement acc)) (set (acc_evidence acc)))"

definition refuted :: "obligation_accumulator \<Rightarrow> bool" where
  "refuted acc \<longleftrightarrow> (\<exists>e\<in>set (acc_evidence acc). ev_result e = TV_False)"

definition blocking_reasons :: "obligation_report \<Rightarrow> decision_reason list" where
  "blocking_reasons r = snd (report_step r (False, []))"

section \<open>States of an obligation\<close>

lemma two_distinct_iff: "2 \<le> card (set xs) \<longleftrightarrow> (\<exists>x\<in>set xs. \<exists>y\<in>set xs. x \<noteq> y)"
proof
  assume "2 \<le> card (set xs)"
  then obtain x y where "x \<in> set xs" "y \<in> set xs" "x \<noteq> y"
    by (metis card_le_Suc0_iff_eq finite_set not_less_eq_eq numeral_2_eq_2)
  then show "\<exists>x\<in>set xs. \<exists>y\<in>set xs. x \<noteq> y" by blast
next
  assume "\<exists>x\<in>set xs. \<exists>y\<in>set xs. x \<noteq> y"
  then show "2 \<le> card (set xs)"
    by (metis card_le_Suc0_iff_eq finite_set not_less_eq_eq numeral_2_eq_2)
qed

lemma diverse_validators_iff:
  "2 \<le> length (bset_collect (map ev_validator_id (filter independent_true es))) \<longleftrightarrow>
   (\<exists>e\<in>set es. \<exists>f\<in>set es. independent_true e \<and> independent_true f \<and>
      ev_validator_id e \<noteq> ev_validator_id f)"
  unfolding length_bset_collect two_distinct_iff by auto

lemma independence_met_iff:
  "independence_met required es \<longleftrightarrow>
     (case required of
        Executor \<Rightarrow> \<exists>e\<in>set es. ev_result e = TV_True
      | Independent \<Rightarrow> \<exists>e\<in>set es. independent_true e
      | Diverse \<Rightarrow> \<exists>e\<in>set es. \<exists>f\<in>set es. independent_true e \<and> independent_true f \<and>
          ev_validator_id e \<noteq> ev_validator_id f)"
  unfolding independence_met_def diverse_validators_iff
  by (simp add: list_ex_iff split: independence_class.splits)

lemma independence_met_true: "independence_met required es \<Longrightarrow> \<exists>e\<in>set es. ev_result e = TV_True"
  by (auto simp: independence_met_iff independent_true_def split: independence_class.splits)

lemma claim_established_iff:
  "claim_established required (set es) \<longleftrightarrow>
   independence_met required es \<and> (\<forall>e\<in>set es. ev_result e \<noteq> TV_False)"
proof -
  have "independence_met required es \<longleftrightarrow> (\<exists>e\<in>set es. ev_result e = TV_True) \<and> independence_met required es"
    using independence_met_true by blast
  then show ?thesis
    unfolding claim_established_def independence_met_iff
    by (cases required) (simp_all, blast+)
qed

lemma state_for_Satisfied_iff:
  "state_for acc = Satisfied \<longleftrightarrow>
   claim_established (req_required_independence (acc_requirement acc)) (set (acc_evidence acc))"
proof -
  have "independence_met r (acc_evidence acc) \<Longrightarrow>
      acc_evidence acc \<noteq> [] \<and> (\<exists>e\<in>set (acc_evidence acc). ev_result e = TV_True)" for r
    using independence_met_true by fastforce
  then show ?thesis
    by (auto simp: state_for_def Let_def claim_established_iff list_ex_iff)
qed

lemma state_for_refuted_iff: "state_for acc = Failed \<or> state_for acc = Invalidated \<longleftrightarrow> refuted acc"
  by (auto simp: state_for_def refuted_def Let_def list_ex_iff)

lemma state_for_Invalidated_iff:
  "state_for acc = Invalidated \<longleftrightarrow>
   refuted acc \<and> (\<exists>e\<in>set (acc_evidence acc). ev_result e = TV_True)"
  by (auto simp: state_for_def refuted_def Let_def list_ex_iff)

lemma state_for_Pending_iff: "state_for acc = Pending \<longleftrightarrow> acc_evidence acc = []"
  by (auto simp: state_for_def Let_def list_ex_iff)

lemma state_for_order_irrelevant:
  "acc_requirement a = acc_requirement b \<Longrightarrow> set (acc_evidence a) = set (acc_evidence b) \<Longrightarrow>
   state_for a = state_for b"
proof -
  assume eq: "acc_requirement a = acc_requirement b" "set (acc_evidence a) = set (acc_evidence b)"
  then have "acc_evidence a = [] \<longleftrightarrow> acc_evidence b = []" by (metis set_empty)
  moreover have "independence_met r (acc_evidence a) = independence_met r (acc_evidence b)" for r
    using eq by (cases r) (simp_all add: independence_met_iff)
  ultimately show ?thesis
    using eq by (simp add: state_for_def Let_def list_ex_iff)
qed

section \<open>The decision\<close>

lemma report_step_split:
  "report_step r (b, rs) = (b \<or> rep_state r = Failed \<or> rep_state r = Invalidated, rs @ blocking_reasons r)"
  by (auto simp: blocking_reasons_def split: obligation_state.splits)

lemma blocking_reasons_Nil [simp]: "blocking_reasons r = [] \<longleftrightarrow> rep_state r = Satisfied"
  by (auto simp: blocking_reasons_def split: obligation_state.splits)

lemma fold_report_step:
  "fold report_step reports (b, rs) =
     (b \<or> (\<exists>r\<in>set reports. rep_state r = Failed \<or> rep_state r = Invalidated),
      rs @ concat (map blocking_reasons reports))"
  by (induction reports arbitrary: b rs) (auto simp del: report_step.simps simp add: report_step_split)

lemma set_obligation_reports:
  "set (obligation_reports k) = report_of ` set (bm_values (k_obligations k))"
  by (simp add: obligation_reports_def)

lemma report_of_sel [simp]:
  "rep_state (report_of acc) = state_for acc"
  "rep_mandatory (report_of acc) = req_mandatory (acc_requirement acc)"
  "rep_obligation_id (report_of acc) = req_obligation_id (acc_requirement acc)"
  by (simp_all add: report_of_def)

lemma evaluate_Rejected_iff:
  "dec_status (evaluate k) = Rejected \<longleftrightarrow>
   (\<exists>acc\<in>set (bm_values (k_obligations k)). req_mandatory (acc_requirement acc) \<and> refuted acc)"
  by (auto simp: evaluate_def Let_def fold_report_step set_obligation_reports
      state_for_refuted_iff)

lemma evaluate_Accepted_iff: "dec_status (evaluate k) = Accepted \<longleftrightarrow> acceptance_rule k"
proof -
  have "\<not> (\<exists>acc\<in>set (bm_values (k_obligations k)). req_mandatory (acc_requirement acc) \<and> refuted acc)"
    if "\<forall>acc\<in>set (bm_values (k_obligations k)). req_mandatory (acc_requirement acc) \<longrightarrow>
        state_for acc = Satisfied"
    using that by (metis obligation_state.distinct(5,9) obligation_state.distinct state_for_refuted_iff)
  then show ?thesis
    by (auto simp: evaluate_def acceptance_rule_def Let_def fold_report_step filter_eq_Nil_iff
        set_obligation_reports state_for_refuted_iff state_for_Satisfied_iff [symmetric] not_le)
qed

section \<open>Construction\<close>

lemma require_non_empty_ok [result_simps]: "require_non_empty f v = Inr u \<longleftrightarrow> \<not> blank v"
  by (simp add: require_non_empty_def result_simps)

lemma check_requirement_ok [result_simps]:
  "check_requirement r = Inr u \<longleftrightarrow> \<not> blank (req_obligation_id r) \<and> \<not> blank (req_constraint_id r)"
  by (simp add: check_requirement_def result_simps)

lemma validate_policy_ok [result_simps]:
  "validate_policy p = Inr u \<longleftrightarrow>
   pol_unknowns_must_be_empty p \<and> pol_all_mandatory_proofs_must_pass p \<and>
   \<not> pol_validator_conflicts_allowed p"
  by (auto simp: validate_policy_def result_simps)

interpretation requirements: indexing_loop "[]" map_of bm_insert bm_wf
  index_requirements req_obligation_id "\<lambda>r. \<lparr>acc_requirement = r, acc_evidence = []\<rparr>"
  check_requirement "\<lambda>r. K_DuplicateObligation (req_obligation_id r)"
  by unfold_locales (simp_all add: Let_def)

section \<open>The invariant of a kernel\<close>

text \<open>
  Evidence is bound to the sealed contract, to its obligation and to its constraint; its
  identifiers are exactly the recorded ones and no two pieces share one; the policy is the
  strict one.
\<close>

definition evidence_bound :: "contract_seal \<Rightarrow> string \<Rightarrow> obligation_accumulator \<Rightarrow> bool" where
  "evidence_bound seal key acc \<longleftrightarrow>
     req_obligation_id (acc_requirement acc) = key \<and>
     (\<forall>e\<in>set (acc_evidence acc).
        validate_evidence_fields e = Inr () \<and>
        ev_contract_digest e = seal_contract_digest seal \<and>
        ev_obligation_id e = key \<and>
        ev_constraint_id e = req_constraint_id (acc_requirement acc))"

definition all_evidence :: "proof_kernel \<Rightarrow> evidence_record list" where
  "all_evidence k = concat (map acc_evidence (bm_values (k_obligations k)))"

definition kernel_wf :: "proof_kernel \<Rightarrow> bool" where
  "kernel_wf k \<longleftrightarrow>
     bm_wf (k_obligations k) \<and>
     validate_policy (k_policy k) = Inr () \<and>
     (\<forall>(key, acc)\<in>set (k_obligations k). evidence_bound (k_seal k) key acc) \<and>
     distinct (map ev_evidence_id (all_evidence k)) \<and>
     k_evidence_ids k = ev_evidence_id ` set (all_evidence k)"

text \<open>Replacing the value of a present key changes the list of values in one place.\<close>

lemma bm_insert_present:
  "bm_wf m \<Longrightarrow> map_of m key = Some v \<Longrightarrow>
   \<exists>xs ys. m = xs @ (key, v) # ys \<and> bm_insert key w m = xs @ (key, w) # ys"
proof (induction m)
  case Nil
  then show ?case by simp
next
  case (Cons e m)
  show ?case
  proof (cases "fst e = key")
    case True
    with Cons.prems show ?thesis by (cases e) (intro exI [of _ "[]"] exI [of _ m], auto)
  next
    case False
    with Cons.prems have v: "map_of m key = Some v" by (cases e) auto
    then have "fst e < key"
      using Cons.prems(1) by (auto simp: bm_wf_Cons dest!: map_of_SomeD)
    moreover obtain xs ys where "m = xs @ (key, v) # ys" "bm_insert key w m = xs @ (key, w) # ys"
      using Cons.IH Cons.prems(1) v by (auto simp: bm_wf_Cons)
    ultimately show ?thesis by (intro exI [of _ "e # xs"] exI [of _ ys]) simp
  qed
qed

lemma kernel_new_wf: "kernel_new seal policy n a rs = Inr k \<Longrightarrow> kernel_wf k"
proof -
  assume new: "kernel_new seal policy n a rs = Inr k"
  then obtain m where m: "index_requirements [] rs = Inr m"
    and k: "k_obligations k = m" "k_policy k = policy" "k_evidence_ids k = {}"
    and pol: "validate_policy policy = Inr ()"
    by (auto simp: kernel_new_def result_simps)
  have wf: "bm_wf m" using m by (rule requirements.run_ok)
  have fresh: "acc_evidence acc = [] \<and> req_obligation_id (acc_requirement acc) = key"
    if "(key, acc) \<in> set m" for key acc
  proof -
    have "map_of m key = Some acc" using wf that by (simp add: map_of_bm_iff)
    with requirements.run_get [OF m] show ?thesis by auto
  qed
  then have "all_evidence k = []"
    by (auto simp: all_evidence_def k bm_values_def)
  with wf pol k fresh show ?thesis by (auto simp: kernel_wf_def evidence_bound_def)
qed

lemma ingest_evidence_cases:
  assumes "kernel_wf k"
  obtains (error) err where "ingest_evidence k e = (Inl err, k)"
  | (stored) acc where "map_of (k_obligations k) (ev_obligation_id e) = Some acc"
      and "validate_evidence_fields e = Inr ()" and "ev_evidence_id e \<notin> k_evidence_ids k"
      and "ev_contract_digest e = seal_contract_digest (k_seal k)"
      and "ev_constraint_id e = req_constraint_id (acc_requirement acc)"
      and "ingest_evidence k e =
        (Inr (state_for (acc\<lparr>acc_evidence := acc_evidence acc @ [e]\<rparr>)),
         k\<lparr>k_evidence_ids := insert (ev_evidence_id e) (k_evidence_ids k),
           k_obligations := bm_insert (ev_obligation_id e)
             (acc\<lparr>acc_evidence := acc_evidence acc @ [e]\<rparr>) (k_obligations k)\<rparr>)"
proof -
  show ?thesis
  proof (cases "\<exists>err. ingest_evidence k e = (Inl err, k)")
    case True
    then show ?thesis using error by blast
  next
    case False
    then show ?thesis
      by (intro stored [of "the (map_of (k_obligations k) (ev_obligation_id e))"])
        (auto simp: ingest_evidence_def Let_def split: sum.splits option.splits if_splits)
  qed
qed

lemma ingest_evidence_wf:
  assumes wf: "kernel_wf k"
  shows "kernel_wf (snd (ingest_evidence k e))"
proof (rule ingest_evidence_cases [OF wf, of e])
  fix err
  assume "ingest_evidence k e = (Inl err, k)"
  with wf show ?thesis by simp
next
  fix acc :: obligation_accumulator
  let ?acc = "acc\<lparr>acc_evidence := acc_evidence acc @ [e]\<rparr>"
  assume acc: "map_of (k_obligations k) (ev_obligation_id e) = Some acc"
    and fields: "validate_evidence_fields e = Inr ()" and new: "ev_evidence_id e \<notin> k_evidence_ids k"
    and digest: "ev_contract_digest e = seal_contract_digest (k_seal k)"
    and cons: "ev_constraint_id e = req_constraint_id (acc_requirement acc)"
    and eq: "ingest_evidence k e = (Inr (state_for ?acc),
         k\<lparr>k_evidence_ids := insert (ev_evidence_id e) (k_evidence_ids k),
           k_obligations := bm_insert (ev_obligation_id e) ?acc (k_obligations k)\<rparr>)"
  from wf have bm: "bm_wf (k_obligations k)" by (simp add: kernel_wf_def)
  obtain xs ys where split: "k_obligations k = xs @ (ev_obligation_id e, acc) # ys"
    "bm_insert (ev_obligation_id e) ?acc (k_obligations k) = xs @ (ev_obligation_id e, ?acc) # ys"
    using bm_insert_present [OF bm acc] by blast
  have bound: "evidence_bound (k_seal k) (ev_obligation_id e) ?acc"
    using wf split fields digest cons by (auto simp: kernel_wf_def evidence_bound_def)
  define k' where "k' = snd (ingest_evidence k e)"
  define A B where "A = concat (map (acc_evidence \<circ> snd) xs)"
    and "B = concat (map (acc_evidence \<circ> snd) ys)"
  have k': "k_obligations k' = xs @ (ev_obligation_id e, ?acc) # ys"
    "k_evidence_ids k' = insert (ev_evidence_id e) (k_evidence_ids k)"
    "k_policy k' = k_policy k" "k_seal k' = k_seal k"
    by (simp_all add: k'_def eq split(2))
  have old: "all_evidence k = A @ acc_evidence acc @ B"
    and upd: "all_evidence k' = A @ acc_evidence acc @ e # B"
    by (simp_all add: all_evidence_def bm_values_def split(1) k' A_def B_def)
  have "bm_wf (k_obligations k')"
    using bm_wf_insert [OF bm, of "ev_obligation_id e" ?acc] by (simp add: split(2) k')
  moreover have "distinct (map ev_evidence_id (all_evidence k'))"
    using wf new by (auto simp: kernel_wf_def old upd)
  moreover have "k_evidence_ids k' = ev_evidence_id ` set (all_evidence k')"
    using wf by (auto simp: kernel_wf_def old upd k')
  moreover have "\<forall>(key, acc)\<in>set (k_obligations k'). evidence_bound (k_seal k') key acc"
    using wf bound by (auto simp: kernel_wf_def split(1) k')
  ultimately show ?thesis using wf by (simp add: kernel_wf_def k' flip: k'_def)
qed

lemma set_assurance_level_wf: "kernel_wf k \<Longrightarrow> kernel_wf (set_assurance_level k a)"
  by (simp add: kernel_wf_def set_assurance_level_def all_evidence_def)

lemma set_declared_unknowns_wf: "kernel_wf k \<Longrightarrow> kernel_wf (set_declared_unknowns k n)"
  by (simp add: kernel_wf_def set_declared_unknowns_def all_evidence_def)

section \<open>Runs of a kernel\<close>

inductive kernel_step :: "proof_kernel \<Rightarrow> proof_kernel \<Rightarrow> bool" where
  ingest: "kernel_step k (snd (ingest_evidence k e))"
| assurance: "kernel_step k (set_assurance_level k a)"
| unknowns: "kernel_step k (set_declared_unknowns k n)"

inductive kernel_reachable :: "proof_kernel \<Rightarrow> bool" where
  start: "kernel_new seal policy n a rs = Inr k \<Longrightarrow> kernel_reachable k"
| step: "kernel_reachable k \<Longrightarrow> kernel_step k k' \<Longrightarrow> kernel_reachable k'"

inductive_cases kernel_stepE: "kernel_step k k'"

lemma kernel_step_wf: "kernel_step k k' \<Longrightarrow> kernel_wf k \<Longrightarrow> kernel_wf k'"
  by (erule kernel_step.cases)
    (auto intro: ingest_evidence_wf set_assurance_level_wf set_declared_unknowns_wf)

lemma kernel_reachable_wf: "kernel_reachable k \<Longrightarrow> kernel_wf k"
  by (induction rule: kernel_reachable.induct) (auto intro: kernel_new_wf kernel_step_wf)

text \<open>What a step may change: evidence is only added, requirements never change.\<close>

definition evidence_extends :: "proof_kernel \<Rightarrow> proof_kernel \<Rightarrow> bool" where
  "evidence_extends k k' \<longleftrightarrow>
     k_seal k' = k_seal k \<and> k_policy k' = k_policy k \<and>
     (\<forall>key acc. map_of (k_obligations k) key = Some acc \<longrightarrow>
        (\<exists>acc' new. map_of (k_obligations k') key = Some acc' \<and>
          acc_requirement acc' = acc_requirement acc \<and>
          acc_evidence acc' = acc_evidence acc @ new)) \<and>
     dom (map_of (k_obligations k')) = dom (map_of (k_obligations k))"

lemma evidence_extends_refl: "evidence_extends k k"
  by (simp add: evidence_extends_def)

lemma ingest_evidence_extends:
  assumes wf: "kernel_wf k"
  shows "evidence_extends k (snd (ingest_evidence k e))"
  by (rule ingest_evidence_cases [OF wf, of e]) (auto simp: evidence_extends_def)

lemma kernel_step_extends: "kernel_step k k' \<Longrightarrow> kernel_wf k \<Longrightarrow> evidence_extends k k'"
  by (erule kernel_step.cases)
    (auto simp: ingest_evidence_extends,
     auto simp: evidence_extends_def set_assurance_level_def set_declared_unknowns_def)

lemma rejected_extends:
  assumes "evidence_extends k k'" "kernel_wf k" "kernel_wf k'" "dec_status (evaluate k) = Rejected"
  shows "dec_status (evaluate k') = Rejected"
proof -
  from assms(4) obtain acc where acc: "acc \<in> set (bm_values (k_obligations k))"
    "req_mandatory (acc_requirement acc)" "refuted acc"
    unfolding evaluate_Rejected_iff by blast
  have bm: "bm_wf (k_obligations k)" "bm_wf (k_obligations k')"
    using assms by (simp_all add: kernel_wf_def)
  from acc(1) obtain key where "map_of (k_obligations k) key = Some acc"
    using bm by (auto simp: map_of_bm_iff set_bm_values)
  with assms(1) obtain acc' new where acc': "map_of (k_obligations k') key = Some acc'"
    "acc_requirement acc' = acc_requirement acc" "acc_evidence acc' = acc_evidence acc @ new"
    unfolding evidence_extends_def by blast
  then have "acc' \<in> set (bm_values (k_obligations k'))"
    using bm by (force simp: map_of_bm_iff set_bm_values)
  with acc acc' show ?thesis
    unfolding evaluate_Rejected_iff refuted_def by (metis UnCI set_append)
qed

section \<open>Properties\<close>

text \<open>A small contract run: one mandatory obligation and two contradicting validators.\<close>

definition demo_requirement :: proof_obligation_requirement where
  "demo_requirement = \<lparr>req_obligation_id = ''o1'', req_constraint_id = ''c1'', req_mandatory = True,
     req_required_independence = Independent\<rparr>"

definition demo_kernel :: proof_kernel where
  "demo_kernel = \<lparr>k_seal = \<lparr>seal_contract_digest = ''d'', seal_capsule_digest = ''p'', seal_schema_version = ''0.1.0''\<rparr>,
     k_policy = strict_policy E2, k_declared_unknowns = 0, k_assurance_level = E2,
     k_obligations = [(''o1'', \<lparr>acc_requirement = demo_requirement, acc_evidence = []\<rparr>)], k_evidence_ids = {}\<rparr>"

definition demo_evidence :: "string \<Rightarrow> truth_value \<Rightarrow> evidence_record" where
  "demo_evidence i v = \<lparr>ev_evidence_id = i, ev_obligation_id = ''o1'', ev_constraint_id = ''c1'',
     ev_contract_digest = ''d'', ev_subject_digest = ''s'', ev_validator_id = ''v'', ev_validator_version = ''1'',
     ev_result = v, ev_independence = Independent, ev_observed_at = ''t''\<rparr>"

lemma demo_kernel_reachable: "kernel_reachable demo_kernel"
proof (rule kernel_reachable.start)
  show "kernel_new (k_seal demo_kernel) (k_policy demo_kernel) 0 E2 [demo_requirement] = Inr demo_kernel"
    by code_simp
qed

lemma kernel_steps_extend:
  assumes "kernel_step\<^sup>*\<^sup>* k k'" "kernel_wf k" "dec_status (evaluate k) = Rejected"
  shows "kernel_wf k' \<and> dec_status (evaluate k') = Rejected"
  using assms
proof (induction rule: rtranclp_induct)
  case (step k1 k2)
  then show ?case using kernel_step_wf kernel_step_extends rejected_extends by blast
qed simp

text \<open>
  C3: the decision of the kernel is ``accepted'' exactly if the declarative rule
  holds: there is a mandatory obligation, no declared unknown is left, the assurance level
  reaches the minimum, and for every mandatory obligation some evidence is positive, none is
  negative and the positive evidence has the required independence (for the strongest class,
  two validators with different identifiers).
\<close>

theorem decision_follows_acceptance_rule: "dec_status (evaluate k) = Accepted \<longleftrightarrow> acceptance_rule k"
  by (rule evaluate_Accepted_iff)

text \<open>
  The decision is ``rejected'' exactly if a mandatory obligation has a piece of negative
  evidence; no positive evidence outweighs it. Every other decision that is not an
  acceptance is a block.
\<close>

lemma rejection_is_refutation:
  "dec_status (evaluate k) = Rejected \<longleftrightarrow>
   (\<exists>acc\<in>set (bm_values (k_obligations k)). req_mandatory (acc_requirement acc) \<and>
      (\<exists>e\<in>set (acc_evidence acc). ev_result e = TV_False))"
  by (simp add: evaluate_Rejected_iff refuted_def)

text \<open>
  C5: in every kernel that can be reached from a new one, each stored piece of evidence is
  complete and bound to the sealed contract, to its obligation and to that obligation's
  constraint, no two pieces share an identifier, and the policy is the strict one.
\<close>

theorem reachable_kernel_wf: "kernel_reachable k \<Longrightarrow> kernel_wf k"
  by (rule kernel_reachable_wf)

theorem reachable_kernel_wf_witness:
  "kernel_wf (snd (ingest_evidence demo_kernel (demo_evidence ''e1'' TV_True))) \<and>
   length (all_evidence (snd (ingest_evidence demo_kernel (demo_evidence ''e1'' TV_True)))) = 1"
proof
  show "kernel_wf (snd (ingest_evidence demo_kernel (demo_evidence ''e1'' TV_True)))"
    by (rule reachable_kernel_wf) (rule kernel_reachable.step [OF demo_kernel_reachable kernel_step.ingest])
qed code_simp

text \<open>
  C4: once a reachable kernel evaluates to ``rejected'', no later sequence of calls (more
  evidence, another assurance level, other declared unknowns) makes it evaluate to anything
  else.
\<close>

theorem rejection_is_permanent:
  assumes "kernel_reachable k" "kernel_step\<^sup>*\<^sup>* k k'" "dec_status (evaluate k) = Rejected"
  shows "dec_status (evaluate k') = Rejected"
  using kernel_steps_extend [OF assms(2) _ assms(3)] kernel_reachable_wf [OF assms(1)] by blast

theorem rejection_is_permanent_witness:
  "dec_status (evaluate (snd (ingest_evidence (snd (ingest_evidence demo_kernel (demo_evidence ''e1'' TV_False)))
     (demo_evidence ''e2'' TV_True)))) = Rejected"
proof (rule rejection_is_permanent)
  show "kernel_reachable (snd (ingest_evidence demo_kernel (demo_evidence ''e1'' TV_False)))"
    by (rule kernel_reachable.step [OF demo_kernel_reachable kernel_step.ingest])
  show "kernel_step\<^sup>*\<^sup>* (snd (ingest_evidence demo_kernel (demo_evidence ''e1'' TV_False)))
     (snd (ingest_evidence (snd (ingest_evidence demo_kernel (demo_evidence ''e1'' TV_False)))
        (demo_evidence ''e2'' TV_True)))"
    by (rule r_into_rtranclp, rule kernel_step.ingest)
  show "dec_status (evaluate (snd (ingest_evidence demo_kernel (demo_evidence ''e1'' TV_False)))) = Rejected"
    by code_simp
qed

text \<open>
  the state of an obligation depends on which evidence was ingested and not on the order
  of arrival nor on repetition.
\<close>

lemma obligation_state_order_irrelevant:
  assumes "acc_requirement a = acc_requirement b" "set (acc_evidence a) = set (acc_evidence b)"
  shows "state_for a = state_for b"
  using assms by (rule state_for_order_irrelevant)

end
