(* ===== verification/Contract.thy ===== *)
theory Contract
  imports Kernel
begin

text \<open>
  The contract runtime (\<^verbatim>\<open>crates/contract-runtime\<close>): the compiler that checks a Work
  Contract against a Profession Capsule, and the session that admits only the evidence of
  authorised validators to the proof kernel. Decoding the two documents
  (\<^verbatim>\<open>serde_json::from_value\<close>) is third-party code, the argument \<open>contract_codec\<close>.
  The lemmas show what a compiled contract guarantees, that a session on one can always be
  opened, and what acceptance in a session means for the constraints of the contract.
\<close>

section \<open>Data\<close>

record profession_reference =
  pr_capsule_id :: string
  pr_capsule_version :: string

record hard_constraint =
  hc_id :: string
  hc_mandatory :: bool

datatype (plugins only: code size) unknown_resolution = Unresolved | UserAnswer | TrustedProfile | TrustedSource | NotRequired

record unknown_requirement =
  un_id :: string
  un_mandatory :: bool
  un_resolution :: unknown_resolution

record contract_requirements =
  cr_hard :: "hard_constraint list"
  cr_unknowns :: "unknown_requirement list"

datatype (plugins only: code size) permission_access = Read | Write | Execute | Control | Network | SecretUse

record contract_permission =
  perm_capability :: string
  perm_resource :: string
  perm_access :: permission_access
  perm_constraints :: json

record contract_proof_obligation =
  po_id :: string
  po_constraint_id :: string
  po_validator_ids :: "string list"
  po_mandatory :: bool
  po_independence_class :: independence_class
  po_evidence_types :: "string list"

record contract_acceptance =
  ca_minimum_assurance_level :: assurance_level
  ca_unknowns_must_be_empty :: bool
  ca_all_mandatory_proofs_must_pass :: bool
  ca_validator_conflicts_allowed :: bool

record work_contract =
  wc_schema_version :: string
  wc_contract_id :: string
  wc_profession :: profession_reference
  wc_job_type :: string
  wc_requirements :: contract_requirements
  wc_permissions :: "contract_permission list"
  wc_proof_obligations :: "contract_proof_obligation list"
  wc_acceptance :: contract_acceptance

record job_type_definition =
  jt_id :: string
  jt_required_constraints :: "string list"
  jt_minimum_assurance_level :: assurance_level

record validator_definition =
  vd_id :: string
  vd_version :: string
  vd_claims :: "string list"
  vd_independence_class :: independence_class
  vd_evidence_types :: "string list"

record profession_policies =
  pp_minimum_assurance_by_job_type :: "(string, assurance_level) bmap"

record profession_capsule =
  pc_schema_version :: string
  pc_capsule_id :: string
  pc_version :: string
  pc_job_types :: "job_type_definition list"
  pc_validators :: "validator_definition list"
  pc_policies :: profession_policies

record contract_codec =
  decode_contract :: "json \<Rightarrow> serde_error + work_contract"
  decode_capsule :: "json \<Rightarrow> serde_error + profession_capsule"

datatype (plugins only: code size) contract_compile_error =
    CC_ContractDecode serde_error
  | CC_CapsuleDecode serde_error
  | CC_Hashing hashing_error
  | CC_UnsupportedSchemaVersion string string string
  | CC_CapsuleIdMismatch string string
  | CC_CapsuleVersionMismatch string string
  | CC_DuplicateIdentifier string string
  | CC_EmptyIdentifier string
  | CC_UnsupportedJobType string
  | CC_MissingRequiredConstraint string
  | CC_RequiredConstraintNotMandatory string
  | CC_UnknownConstraint string string
  | CC_EmptyValidatorSet string
  | CC_DuplicateObligationValidator string string
  | CC_UnknownValidator string string
  | CC_ValidatorClaimMismatch string string
  | CC_InsufficientValidatorIndependence string independence_class
  | CC_UnsupportedEvidenceType string string
  | CC_MissingMandatoryProof string
  | CC_NoMandatoryProofObligations
  | CC_UnsafeAcceptancePolicy string
  | CC_AssuranceBelowCapsule assurance_level assurance_level

record validator_binding =
  vb_version :: string
  vb_independence :: independence_class

record compiled_contract =
  cc_contract_id :: string
  cc_job_type :: string
  cc_seal :: contract_seal
  cc_policy :: acceptance_policy
  cc_minimum_assurance_level :: assurance_level
  cc_unresolved_mandatory_unknowns :: nat
  cc_permissions :: "contract_permission list"
  cc_proof_requirements :: "proof_obligation_requirement list"
  cc_validator_bindings :: "(string, (string, validator_binding) bmap) bmap"

section \<open>The compiler\<close>

definition SUPPORTED_CONTRACT_SCHEMA :: string where
  "SUPPORTED_CONTRACT_SCHEMA = ''0.2.0''"

definition SUPPORTED_CAPSULE_SCHEMA :: string where
  "SUPPORTED_CAPSULE_SCHEMA = ''0.1.0''"

definition validate_schema_versions ::
    "work_contract \<Rightarrow> profession_capsule \<Rightarrow> contract_compile_error + unit" where
  "validate_schema_versions contract capsule =
     and_then (ensure (wc_schema_version contract = SUPPORTED_CONTRACT_SCHEMA)
       (CC_UnsupportedSchemaVersion ''Work Contract'' (wc_schema_version contract)
          SUPPORTED_CONTRACT_SCHEMA)) (\<lambda>_.
     ensure (pc_schema_version capsule = SUPPORTED_CAPSULE_SCHEMA)
       (CC_UnsupportedSchemaVersion ''Profession Capsule'' (pc_schema_version capsule)
          SUPPORTED_CAPSULE_SCHEMA))"

definition validate_capsule_binding ::
    "work_contract \<Rightarrow> profession_capsule \<Rightarrow> contract_compile_error + unit" where
  "validate_capsule_binding contract capsule =
     and_then (ensure (pr_capsule_id (wc_profession contract) = pc_capsule_id capsule)
       (CC_CapsuleIdMismatch (pr_capsule_id (wc_profession contract)) (pc_capsule_id capsule))) (\<lambda>_.
     ensure (pr_capsule_version (wc_profession contract) = pc_version capsule)
       (CC_CapsuleVersionMismatch (pr_capsule_version (wc_profession contract))
          (pc_version capsule)))"

definition validate_acceptance_policy :: "work_contract \<Rightarrow> contract_compile_error + unit" where
  "validate_acceptance_policy contract =
     and_then (ensure (ca_unknowns_must_be_empty (wc_acceptance contract))
       (CC_UnsafeAcceptancePolicy ''unresolved unknowns must block acceptance'')) (\<lambda>_.
     and_then (ensure (ca_all_mandatory_proofs_must_pass (wc_acceptance contract))
       (CC_UnsafeAcceptancePolicy ''all mandatory proofs must pass'')) (\<lambda>_.
     ensure (\<not> ca_validator_conflicts_allowed (wc_acceptance contract))
       (CC_UnsafeAcceptancePolicy ''validator conflicts cannot be accepted'')))"

fun index_by_id_from ::
    "string \<Rightarrow> ('a \<Rightarrow> string) \<Rightarrow> (string, 'a) bmap \<Rightarrow> 'a list \<Rightarrow>
     contract_compile_error + (string, 'a) bmap" where
  "index_by_id_from kind ident index [] = Inr index"
| "index_by_id_from kind ident index (v # values) =
     and_then (ensure (\<not> blank (ident v)) (CC_EmptyIdentifier kind)) (\<lambda>_.
       if map_of index (ident v) \<noteq> None then Inl (CC_DuplicateIdentifier kind (ident v))
       else index_by_id_from kind ident (bm_insert (ident v) v index) values)"

definition index_by_id ::
    "'a list \<Rightarrow> string \<Rightarrow> ('a \<Rightarrow> string) \<Rightarrow> contract_compile_error + (string, 'a) bmap" where
  "index_by_id values kind ident = index_by_id_from kind ident [] values"

definition index_job_types ::
    "job_type_definition list \<Rightarrow> contract_compile_error + (string, job_type_definition) bmap" where
  "index_job_types values = index_by_id values ''job type'' jt_id"

definition index_validators ::
    "validator_definition list \<Rightarrow> contract_compile_error + (string, validator_definition) bmap" where
  "index_validators values = index_by_id values ''validator'' vd_id"

definition index_constraints ::
    "work_contract \<Rightarrow> contract_compile_error + (string, hard_constraint) bmap" where
  "index_constraints contract = index_by_id (cr_hard (wc_requirements contract)) ''constraint'' hc_id"

definition index_obligations ::
    "contract_proof_obligation list \<Rightarrow>
     contract_compile_error + (string, contract_proof_obligation) bmap" where
  "index_obligations values = index_by_id values ''proof obligation'' po_id"

definition validate_required_constraints ::
    "job_type_definition \<Rightarrow> (string, hard_constraint) bmap \<Rightarrow> contract_compile_error + unit" where
  "validate_required_constraints job_type constraints =
     try_for_each (\<lambda>required.
       and_then (ok_or (map_of constraints required) (CC_MissingRequiredConstraint required))
         (\<lambda>constraint. ensure (hc_mandatory constraint) (CC_RequiredConstraintNotMandatory required)))
       (jt_required_constraints job_type)"

record validator_selection =
  sel_selected :: "(string, validator_binding) bmap"
  sel_supported_evidence_types :: "string set"
  sel_independent_validator_count :: nat

definition select_validator ::
    "contract_proof_obligation \<Rightarrow> (string, validator_definition) bmap \<Rightarrow> validator_selection \<Rightarrow>
     string \<Rightarrow> contract_compile_error + validator_selection" where
  "select_validator obligation validators sel validator_id =
     and_then (ensure (\<not> bm_contains_key (sel_selected sel) validator_id)
       (CC_DuplicateObligationValidator (po_id obligation) validator_id)) (\<lambda>_.
     and_then (ok_or (map_of validators validator_id)
       (CC_UnknownValidator (po_id obligation) validator_id)) (\<lambda>validator.
     and_then (ensure (list_ex (\<lambda>claim. claim = po_constraint_id obligation) (vd_claims validator))
       (CC_ValidatorClaimMismatch validator_id (po_constraint_id obligation))) (\<lambda>_.
     Inr \<lparr>sel_selected = bm_insert validator_id
            \<lparr>vb_version = vd_version validator,
             vb_independence = vd_independence_class validator\<rparr> (sel_selected sel),
          sel_supported_evidence_types =
            sel_supported_evidence_types sel \<union> set (vd_evidence_types validator),
          sel_independent_validator_count =
            (if vd_independence_class validator \<ge> Independent
             then sel_independent_validator_count sel + 1
             else sel_independent_validator_count sel)\<rparr>)))"

definition validate_obligation ::
    "contract_proof_obligation \<Rightarrow> (string, validator_definition) bmap \<Rightarrow>
     contract_compile_error + (string, validator_binding) bmap" where
  "validate_obligation obligation validators =
     and_then (ensure (po_validator_ids obligation \<noteq> []) (CC_EmptyValidatorSet (po_id obligation))) (\<lambda>_.
     and_then (try_fold (select_validator obligation validators)
       \<lparr>sel_selected = [], sel_supported_evidence_types = {}, sel_independent_validator_count = 0\<rparr>
       (po_validator_ids obligation)) (\<lambda>sel.
     and_then (ensure (case po_independence_class obligation of
           Executor \<Rightarrow> sel_selected sel \<noteq> []
         | Independent \<Rightarrow> sel_independent_validator_count sel \<ge> 1
         | Diverse \<Rightarrow> sel_independent_validator_count sel \<ge> 2)
       (CC_InsufficientValidatorIndependence (po_id obligation) (po_independence_class obligation))) (\<lambda>_.
     and_then (try_for_each (\<lambda>evidence_type.
         ensure (evidence_type \<in> sel_supported_evidence_types sel)
           (CC_UnsupportedEvidenceType (po_id obligation) evidence_type))
         (po_evidence_types obligation)) (\<lambda>_.
     Inr (sel_selected sel)))))"

definition requirement_of :: "contract_proof_obligation \<Rightarrow> proof_obligation_requirement" where
  "requirement_of obligation = \<lparr>
     req_obligation_id = po_id obligation,
     req_constraint_id = po_constraint_id obligation,
     req_mandatory = po_mandatory obligation,
     req_required_independence = po_independence_class obligation\<rparr>"

record compile_state =
  cst_proof_requirements :: "proof_obligation_requirement list"
  cst_validator_bindings :: "(string, (string, validator_binding) bmap) bmap"
  cst_proven_mandatory_constraints :: "string set"
  cst_mandatory_obligation_count :: nat

definition compile_obligation ::
    "(string, hard_constraint) bmap \<Rightarrow> (string, validator_definition) bmap \<Rightarrow> compile_state \<Rightarrow>
     contract_proof_obligation \<Rightarrow> contract_compile_error + compile_state" where
  "compile_obligation constraints validators st obligation =
     and_then (ok_or (map_of constraints (po_constraint_id obligation))
       (CC_UnknownConstraint (po_id obligation) (po_constraint_id obligation))) (\<lambda>constraint.
     and_then (validate_obligation obligation validators) (\<lambda>bindings.
     Inr \<lparr>cst_proof_requirements = cst_proof_requirements st @ [requirement_of obligation],
          cst_validator_bindings = bm_insert (po_id obligation) bindings (cst_validator_bindings st),
          cst_proven_mandatory_constraints =
            (if po_mandatory obligation \<and> hc_mandatory constraint
             then insert (po_constraint_id obligation) (cst_proven_mandatory_constraints st)
             else cst_proven_mandatory_constraints st),
          cst_mandatory_obligation_count =
            (if po_mandatory obligation then cst_mandatory_obligation_count st + 1
             else cst_mandatory_obligation_count st)\<rparr>))"

definition compile_start :: compile_state where
  "compile_start = \<lparr>cst_proof_requirements = [], cst_validator_bindings = [],
     cst_proven_mandatory_constraints = {}, cst_mandatory_obligation_count = 0\<rparr>"

definition capsule_minimum :: "work_contract \<Rightarrow> profession_capsule \<Rightarrow> job_type_definition \<Rightarrow> assurance_level" where
  "capsule_minimum contract capsule job_type =
     (case map_of (pp_minimum_assurance_by_job_type (pc_policies capsule)) (wc_job_type contract) of
        Some level \<Rightarrow> level
      | None \<Rightarrow> jt_minimum_assurance_level job_type)"

definition unresolved_unknowns :: "work_contract \<Rightarrow> nat" where
  "unresolved_unknowns contract =
     length (filter (\<lambda>u. un_mandatory u \<and> un_resolution u = Unresolved)
       (cr_unknowns (wc_requirements contract)))"

definition assemble_contract ::
    "work_contract \<Rightarrow> string \<Rightarrow> string \<Rightarrow> compile_state \<Rightarrow> compiled_contract" where
  "assemble_contract contract contract_digest capsule_digest st =
     \<lparr>cc_contract_id = wc_contract_id contract,
      cc_job_type = wc_job_type contract,
      cc_seal = \<lparr>seal_contract_digest = contract_digest,
        seal_capsule_digest = capsule_digest,
        seal_schema_version = wc_schema_version contract\<rparr>,
      cc_policy = \<lparr>
        pol_minimum_assurance_level = ca_minimum_assurance_level (wc_acceptance contract),
        pol_unknowns_must_be_empty = ca_unknowns_must_be_empty (wc_acceptance contract),
        pol_all_mandatory_proofs_must_pass =
          ca_all_mandatory_proofs_must_pass (wc_acceptance contract),
        pol_validator_conflicts_allowed =
          ca_validator_conflicts_allowed (wc_acceptance contract)\<rparr>,
      cc_minimum_assurance_level = ca_minimum_assurance_level (wc_acceptance contract),
      cc_unresolved_mandatory_unknowns = unresolved_unknowns contract,
      cc_permissions = wc_permissions contract,
      cc_proof_requirements = sort_key req_obligation_id (cst_proof_requirements st),
      cc_validator_bindings = cst_validator_bindings st\<rparr>"

definition compile_contract ::
    "hasher \<Rightarrow> contract_codec \<Rightarrow> json \<Rightarrow> json \<Rightarrow> contract_compile_error + compiled_contract" where
  "compile_contract H codec contract_value capsule_value =
     and_then (map_err CC_ContractDecode (decode_contract codec contract_value)) (\<lambda>contract.
     and_then (map_err CC_CapsuleDecode (decode_capsule codec capsule_value)) (\<lambda>capsule.
     and_then (validate_schema_versions contract capsule) (\<lambda>_.
     and_then (validate_capsule_binding contract capsule) (\<lambda>_.
     and_then (validate_acceptance_policy contract) (\<lambda>_.
     and_then (index_job_types (pc_job_types capsule)) (\<lambda>job_types.
     and_then (index_validators (pc_validators capsule)) (\<lambda>validators.
     and_then (index_constraints contract) (\<lambda>constraints.
     and_then (index_obligations (wc_proof_obligations contract)) (\<lambda>obligations.
     and_then (ok_or (map_of job_types (wc_job_type contract))
       (CC_UnsupportedJobType (wc_job_type contract))) (\<lambda>job_type.
     and_then (validate_required_constraints job_type constraints) (\<lambda>_.
     and_then (try_fold (compile_obligation constraints validators) compile_start
       (bm_values obligations)) (\<lambda>st.
     and_then (ensure (cst_mandatory_obligation_count st \<noteq> 0) CC_NoMandatoryProofObligations) (\<lambda>_.
     and_then (try_for_each (\<lambda>(constraint_id, constraint).
         ensure (\<not> (hc_mandatory constraint \<and>
             constraint_id \<notin> cst_proven_mandatory_constraints st))
           (CC_MissingMandatoryProof constraint_id)) constraints) (\<lambda>_.
     and_then (ensure (\<not> ca_minimum_assurance_level (wc_acceptance contract)
           < capsule_minimum contract capsule job_type)
       (CC_AssuranceBelowCapsule (ca_minimum_assurance_level (wc_acceptance contract))
          (capsule_minimum contract capsule job_type))) (\<lambda>_.
     and_then (map_err CC_Hashing (canonical_json_sha256 H contract_value)) (\<lambda>contract_digest.
     and_then (map_err CC_Hashing (canonical_json_sha256 H capsule_value)) (\<lambda>capsule_digest.
     Inr (assemble_contract contract contract_digest capsule_digest st))))))))))))))))))"

definition proof_obligation_count :: "compiled_contract \<Rightarrow> nat" where
  "proof_obligation_count compiled = length (cc_proof_requirements compiled)"

section \<open>The session\<close>

datatype (plugins only: code size) contract_runtime_error =
    CR_UnknownObligation string
  | CR_UnauthorizedValidator string string
  | CR_ValidatorVersionMismatch string string string
  | CR_ValidatorIndependenceMismatch string independence_class independence_class
  | CR_Kernel kernel_error

record contract_session =
  cs_compiled :: compiled_contract
  cs_kernel :: proof_kernel

definition session_new ::
    "compiled_contract \<Rightarrow> assurance_level \<Rightarrow> contract_runtime_error + contract_session" where
  "session_new compiled achieved =
     and_then (map_err CR_Kernel (kernel_new (cc_seal compiled) (cc_policy compiled)
         (cc_unresolved_mandatory_unknowns compiled) achieved (cc_proof_requirements compiled)))
       (\<lambda>kernel. Inr \<lparr>cs_compiled = compiled, cs_kernel = kernel\<rparr>)"

definition session_ingest_evidence ::
    "contract_session \<Rightarrow> evidence_record \<Rightarrow>
     (contract_runtime_error + obligation_state) \<times> contract_session" where
  "session_ingest_evidence s e =
     (case map_of (cc_validator_bindings (cs_compiled s)) (ev_obligation_id e) of
        None \<Rightarrow> (Inl (CR_UnknownObligation (ev_obligation_id e)), s)
      | Some validators \<Rightarrow>
          case map_of validators (ev_validator_id e) of
            None \<Rightarrow> (Inl (CR_UnauthorizedValidator (ev_obligation_id e) (ev_validator_id e)), s)
          | Some binding \<Rightarrow>
              if ev_validator_version e \<noteq> vb_version binding
              then (Inl (CR_ValidatorVersionMismatch (ev_validator_id e)
                      (ev_validator_version e) (vb_version binding)), s)
              else if ev_independence e \<noteq> vb_independence binding
              then (Inl (CR_ValidatorIndependenceMismatch (ev_validator_id e)
                      (ev_independence e) (vb_independence binding)), s)
              else
                let (r, kernel) = ingest_evidence (cs_kernel s) e in
                (map_err CR_Kernel r, s\<lparr>cs_kernel := kernel\<rparr>))"

definition session_evaluate :: "contract_session \<Rightarrow> acceptance_decision" where
  "session_evaluate s = evaluate (cs_kernel s)"

section \<open>Indices\<close>

interpretation by_id: indexing_loop "[]" map_of bm_insert bm_wf
  "index_by_id_from kind ident" ident "\<lambda>v. v"
  "\<lambda>v. ensure (\<not> blank (ident v)) (CC_EmptyIdentifier kind)"
  "\<lambda>v. CC_DuplicateIdentifier kind (ident v)"
  for kind :: string and ident :: "'a \<Rightarrow> string"
  by unfold_locales simp_all

lemmas index_defs =
  index_job_types_def index_validators_def index_constraints_def index_obligations_def

lemma index_by_id_get:
  "index_by_id values kind ident = Inr m \<Longrightarrow>
   map_of m key = Some v \<longleftrightarrow> v \<in> set values \<and> ident v = key"
  unfolding index_by_id_def by (drule by_id.run_get [where k = key and v = v]) auto

lemma index_by_id_wf: "index_by_id values kind ident = Inr m \<Longrightarrow> bm_wf m"
  unfolding index_by_id_def by (rule by_id.run_ok)

lemma index_by_id_not_blank: "index_by_id values kind ident = Inr m \<Longrightarrow> v \<in> set values \<Longrightarrow> \<not> blank (ident v)"
  unfolding index_by_id_def by_id.run_eq_Inr by (auto simp: result_simps)

lemma index_by_id_distinct: "index_by_id values kind ident = Inr m \<Longrightarrow> distinct (map ident values)"
  unfolding index_by_id_def by (rule by_id.run_distinct)

lemma index_by_id_values: "index_by_id values kind ident = Inr m \<Longrightarrow> set (bm_values m) = set values"
  using index_by_id_get [of "values" kind ident m] index_by_id_wf [of "values" kind ident m]
  by (auto simp: bm_values_ran ran_def)

lemma index_by_id_key: "index_by_id values kind ident = Inr m \<Longrightarrow> (key, v) \<in> set m \<Longrightarrow> ident v = key"
  using index_by_id_get [of "values" kind ident m key v] index_by_id_wf [of "values" kind ident m]
  by (simp add: map_of_bm_iff)

lemma index_by_id_values_distinct:
  assumes "index_by_id values kind ident = Inr m"
  shows "distinct (map ident (bm_values m))"
proof -
  have "map ident (bm_values m) = map fst m"
    using index_by_id_key [OF assms] by (auto simp: bm_values_def)
  then show ?thesis using index_by_id_wf [OF assms] by (simp add: bm_wf_distinct)
qed

section \<open>What a validated obligation guarantees\<close>

definition binding_of :: "validator_definition \<Rightarrow> validator_binding" where
  "binding_of vd = \<lparr>vb_version = vd_version vd, vb_independence = vd_independence_class vd\<rparr>"

definition independent_bindings :: "(string, validator_binding) bmap \<Rightarrow> string set" where
  "independent_bindings m = {v. \<exists>b. map_of m v = Some b \<and> vb_independence b \<ge> Independent}"

definition bindings_sound ::
    "contract_proof_obligation \<Rightarrow> (string, validator_definition) bmap \<Rightarrow>
     (string, validator_binding) bmap \<Rightarrow> bool" where
  "bindings_sound ob validators m \<longleftrightarrow>
     bm_wf m \<and>
     (\<forall>v b. map_of m v = Some b \<longrightarrow>
        (\<exists>vd. map_of validators v = Some vd \<and> po_constraint_id ob \<in> set (vd_claims vd) \<and>
          b = binding_of vd))"

lemma finite_independent_bindings [simp]: "finite (independent_bindings m)"
  by (rule finite_subset [of _ "dom (map_of m)"]) (auto simp: independent_bindings_def finite_dom_map_of)

lemma select_validator_sound:
  assumes "select_validator ob validators sel v = Inr sel'"
    and "bindings_sound ob validators (sel_selected sel)"
    and "sel_independent_validator_count sel = card (independent_bindings (sel_selected sel))"
  shows "bindings_sound ob validators (sel_selected sel') \<and>
    sel_independent_validator_count sel' = card (independent_bindings (sel_selected sel'))"
proof -
  from assms(1) obtain vd where vd: "map_of validators v = Some vd"
    "po_constraint_id ob \<in> set (vd_claims vd)" and new: "v \<notin> fst ` set (sel_selected sel)"
    and sel': "sel_selected sel' = bm_insert v (binding_of vd) (sel_selected sel)"
      "sel_independent_validator_count sel' =
        (if vd_independence_class vd \<ge> Independent
         then sel_independent_validator_count sel + 1 else sel_independent_validator_count sel)"
    by (auto simp: select_validator_def result_simps list_ex_iff binding_of_def)
  have sound: "bindings_sound ob validators (sel_selected sel')"
    using assms(2) vd by (auto simp: bindings_sound_def sel')
  have v: "map_of (sel_selected sel) v = None" using new by (simp add: map_of_eq_None_iff)
  have "independent_bindings (sel_selected sel') =
      (if vd_independence_class vd \<ge> Independent
       then insert v (independent_bindings (sel_selected sel)) else independent_bindings (sel_selected sel))"
    using v by (auto simp: independent_bindings_def sel' binding_of_def)
  moreover have "v \<notin> independent_bindings (sel_selected sel)"
    using v by (auto simp: independent_bindings_def)
  ultimately show ?thesis using sound assms(3) by (simp add: sel')
qed

lemma select_validator_dom:
  "select_validator ob validators sel v = Inr sel' \<Longrightarrow>
   dom (map_of (sel_selected sel')) = insert v (dom (map_of (sel_selected sel)))"
  by (auto simp: select_validator_def result_simps simp del: bm_contains_key_iff)

lemma select_validators_dom:
  "try_fold (select_validator ob validators) sel vs = Inr sel' \<Longrightarrow>
   dom (map_of (sel_selected sel')) = dom (map_of (sel_selected sel)) \<union> set vs"
proof (induction vs arbitrary: sel)
  case Nil
  then show ?case by simp
next
  case (Cons v vs)
  then obtain sel1 where "select_validator ob validators sel v = Inr sel1"
    "try_fold (select_validator ob validators) sel1 vs = Inr sel'"
    by (auto simp: result_simps)
  then show ?case using Cons.IH [of sel1] select_validator_dom [of ob validators sel v sel1] by simp
qed

lemma validate_obligation_ok:
  assumes "validate_obligation ob validators = Inr m"
  shows "bindings_sound ob validators m" and "dom (map_of m) = set (po_validator_ids ob)"
    and "m \<noteq> []"
    and "po_independence_class ob = Independent \<Longrightarrow> independent_bindings m \<noteq> {}"
    and "po_independence_class ob = Diverse \<Longrightarrow> 2 \<le> card (independent_bindings m)"
proof -
  let ?s0 = "\<lparr>sel_selected = [], sel_supported_evidence_types = {}, sel_independent_validator_count = 0\<rparr>"
  from assms obtain sel where ne: "po_validator_ids ob \<noteq> []"
    and loop: "try_fold (select_validator ob validators) ?s0 (po_validator_ids ob) = Inr sel"
    and m: "m = sel_selected sel"
    and ind: "case po_independence_class ob of
           Executor \<Rightarrow> sel_selected sel \<noteq> []
         | Independent \<Rightarrow> sel_independent_validator_count sel \<ge> 1
         | Diverse \<Rightarrow> sel_independent_validator_count sel \<ge> 2"
    by (auto simp: validate_obligation_def result_simps)
  let ?P = "\<lambda>s. bindings_sound ob validators (sel_selected s) \<and>
      sel_independent_validator_count s = card (independent_bindings (sel_selected s))"
  have "?P sel"
  proof (rule try_fold_invariant [OF loop, where P = ?P])
    show "?P ?s0" by (simp add: bindings_sound_def independent_bindings_def)
  next
    fix s v s'
    assume "?P s" "select_validator ob validators s v = Inr s'"
    then show "?P s'" using select_validator_sound by blast
  qed
  then show "bindings_sound ob validators m"
    and i1: "po_independence_class ob = Independent \<Longrightarrow> independent_bindings m \<noteq> {}"
    and i2: "po_independence_class ob = Diverse \<Longrightarrow> 2 \<le> card (independent_bindings m)"
    using ind m by auto
  show dom: "dom (map_of m) = set (po_validator_ids ob)"
    using select_validators_dom [OF loop] m by simp
  show "m \<noteq> []" using dom ne by auto
qed

section \<open>What a compiled contract guarantees\<close>

lemma compile_obligation_ok:
  assumes "compile_obligation constraints validators st ob = Inr st'"
  obtains c b where "map_of constraints (po_constraint_id ob) = Some c"
    "validate_obligation ob validators = Inr b"
    "cst_proof_requirements st' = cst_proof_requirements st @ [requirement_of ob]"
    "cst_validator_bindings st' = bm_insert (po_id ob) b (cst_validator_bindings st)"
    "cst_proven_mandatory_constraints st' = cst_proven_mandatory_constraints st \<union>
       (if po_mandatory ob \<and> hc_mandatory c then {po_constraint_id ob} else {})"
    "cst_mandatory_obligation_count st' = cst_mandatory_obligation_count st +
       (if po_mandatory ob then 1 else 0)"
proof -
  obtain c b where c: "map_of constraints (po_constraint_id ob) = Some c"
    "validate_obligation ob validators = Inr b"
    using assms by (auto simp: compile_obligation_def result_simps)
  show ?thesis
    by (rule that [OF c]) (use assms c in \<open>auto simp: compile_obligation_def\<close>)
qed

definition compile_outcome ::
    "(string, hard_constraint) bmap \<Rightarrow> (string, validator_definition) bmap \<Rightarrow> compile_state \<Rightarrow>
     contract_proof_obligation list \<Rightarrow> compile_state \<Rightarrow> bool" where
  "compile_outcome constraints validators st obs st' \<longleftrightarrow>
     cst_proof_requirements st' = cst_proof_requirements st @ map requirement_of obs \<and>
     (\<forall>ob\<in>set obs. \<exists>c b. map_of constraints (po_constraint_id ob) = Some c \<and>
        validate_obligation ob validators = Inr b \<and>
        map_of (cst_validator_bindings st') (po_id ob) = Some b) \<and>
     (\<forall>key. key \<notin> po_id ` set obs \<longrightarrow>
        map_of (cst_validator_bindings st') key = map_of (cst_validator_bindings st) key) \<and>
     cst_proven_mandatory_constraints st' \<subseteq>
       cst_proven_mandatory_constraints st \<union> po_constraint_id ` {ob \<in> set obs. po_mandatory ob} \<and>
     cst_mandatory_obligation_count st' =
       cst_mandatory_obligation_count st + length (filter po_mandatory obs)"

lemma compile_outcome_Cons:
  assumes step: "compile_obligation constraints validators st ob = Inr st1"
    and rest: "compile_outcome constraints validators st1 obs st'" and new: "po_id ob \<notin> po_id ` set obs"
  shows "compile_outcome constraints validators st (ob # obs) st'"
proof -
  obtain c b where c: "map_of constraints (po_constraint_id ob) = Some c"
    and b: "validate_obligation ob validators = Inr b"
    and st1: "cst_proof_requirements st1 = cst_proof_requirements st @ [requirement_of ob]"
      "cst_validator_bindings st1 = bm_insert (po_id ob) b (cst_validator_bindings st)"
    and proven: "cst_proven_mandatory_constraints st1 = cst_proven_mandatory_constraints st \<union>
       (if po_mandatory ob \<and> hc_mandatory c then {po_constraint_id ob} else {})"
    and count: "cst_mandatory_obligation_count st1 = cst_mandatory_obligation_count st +
       (if po_mandatory ob then 1 else 0)"
    using step by (rule compile_obligation_ok)
  note parts = rest [unfolded compile_outcome_def]
  have here: "map_of (cst_validator_bindings st') (po_id ob) = Some b"
    using parts new st1(2) by simp
  have later: "\<forall>ob'\<in>set obs. \<exists>c b. map_of constraints (po_constraint_id ob') = Some c \<and>
      validate_obligation ob' validators = Inr b \<and>
      map_of (cst_validator_bindings st') (po_id ob') = Some b"
    using parts by blast
  have frame: "map_of (cst_validator_bindings st') key = map_of (cst_validator_bindings st) key"
    if "key \<notin> po_id ` set (ob # obs)" for key
    using parts that st1(2) by simp
  have mand: "cst_proven_mandatory_constraints st' \<subseteq> cst_proven_mandatory_constraints st \<union>
      po_constraint_id ` {ob' \<in> set (ob # obs). po_mandatory ob'}"
    using parts proven by (auto split: if_splits)
  have reqs: "cst_proof_requirements st' = cst_proof_requirements st @ map requirement_of (ob # obs)"
    and cnt: "cst_mandatory_obligation_count st' =
      cst_mandatory_obligation_count st + length (filter po_mandatory (ob # obs))"
    using parts st1(1) count by simp_all
  show ?thesis
    unfolding compile_outcome_def using here later frame mand reqs cnt c b by fastforce
qed

lemma compile_loop_ok:
  "try_fold (compile_obligation constraints validators) st obs = Inr st' \<Longrightarrow>
   distinct (map po_id obs) \<Longrightarrow> compile_outcome constraints validators st obs st'"
proof (induction obs arbitrary: st)
  case Nil
  then show ?case by (simp add: compile_outcome_def)
next
  case (Cons ob obs)
  then obtain st1 where "compile_obligation constraints validators st ob = Inr st1"
    "try_fold (compile_obligation constraints validators) st1 obs = Inr st'"
    by (auto simp: result_simps)
  with Cons show ?case by (auto intro!: compile_outcome_Cons)
qed

text \<open>
  The specification of the compiler. A compiled contract belongs to a decoded contract and
  capsule; every mandatory constraint has a mandatory proof obligation; what the job type
  requires is among the mandatory constraints; every validator bound to an obligation is a
  capsule validator that claims the constraint, in sufficient number and independence; and
  neither the policy nor the assurance level is weaker than the capsule's.
\<close>

definition obligation_covered ::
    "profession_capsule \<Rightarrow> compiled_contract \<Rightarrow> contract_proof_obligation \<Rightarrow> bool" where
  "obligation_covered capsule compiled ob \<longleftrightarrow>
     (\<exists>m. map_of (cc_validator_bindings compiled) (po_id ob) = Some m \<and>
        dom (map_of m) = set (po_validator_ids ob) \<and> dom (map_of m) \<noteq> {} \<and>
        (\<forall>v b. map_of m v = Some b \<longrightarrow>
           (\<exists>vd\<in>set (pc_validators capsule). vd_id vd = v \<and>
              po_constraint_id ob \<in> set (vd_claims vd) \<and> b = binding_of vd)) \<and>
        (po_independence_class ob = Independent \<longrightarrow> independent_bindings m \<noteq> {}) \<and>
        (po_independence_class ob = Diverse \<longrightarrow> 2 \<le> card (independent_bindings m)))"

definition compiled_from ::
    "work_contract \<Rightarrow> profession_capsule \<Rightarrow> compiled_contract \<Rightarrow> bool" where
  "compiled_from contract capsule compiled \<longleftrightarrow>
     validate_policy (cc_policy compiled) = Inr () \<and>
     cc_contract_id compiled = wc_contract_id contract \<and>
     cc_job_type compiled = wc_job_type contract \<and>
     cc_permissions compiled = wc_permissions contract \<and>
     cc_unresolved_mandatory_unknowns compiled = unresolved_unknowns contract \<and>
     seal_schema_version (cc_seal compiled) = SUPPORTED_CONTRACT_SCHEMA \<and>
     set (cc_proof_requirements compiled) = requirement_of ` set (wc_proof_obligations contract) \<and>
     distinct (map req_obligation_id (cc_proof_requirements compiled)) \<and>
     sorted (map req_obligation_id (cc_proof_requirements compiled)) \<and>
     dom (map_of (cc_validator_bindings compiled)) = po_id ` set (wc_proof_obligations contract) \<and>
     (\<forall>ob\<in>set (wc_proof_obligations contract).
        \<not> blank (po_id ob) \<and> \<not> blank (po_constraint_id ob) \<and> obligation_covered capsule compiled ob) \<and>
     (\<exists>ob\<in>set (wc_proof_obligations contract). po_mandatory ob) \<and>
     (\<forall>c\<in>set (cr_hard (wc_requirements contract)). hc_mandatory c \<longrightarrow>
        (\<exists>ob\<in>set (wc_proof_obligations contract). po_mandatory ob \<and> po_constraint_id ob = hc_id c)) \<and>
     (\<exists>jt\<in>set (pc_job_types capsule). jt_id jt = wc_job_type contract \<and>
        pol_minimum_assurance_level (cc_policy compiled) \<ge> capsule_minimum contract capsule jt \<and>
        (\<forall>r\<in>set (jt_required_constraints jt).
           \<exists>c\<in>set (cr_hard (wc_requirements contract)). hc_id c = r \<and> hc_mandatory c))"

lemma compile_contractE:
  assumes "compile_contract H codec cv kv = Inr compiled"
  obtains contract capsule job_types validators constraints obligations job_type st cd kd where
    "decode_contract codec cv = Inr contract" "decode_capsule codec kv = Inr capsule"
    "validate_schema_versions contract capsule = Inr ()"
    "validate_capsule_binding contract capsule = Inr ()"
    "validate_acceptance_policy contract = Inr ()"
    "index_job_types (pc_job_types capsule) = Inr job_types"
    "index_validators (pc_validators capsule) = Inr validators"
    "index_constraints contract = Inr constraints"
    "index_obligations (wc_proof_obligations contract) = Inr obligations"
    "map_of job_types (wc_job_type contract) = Some job_type"
    "validate_required_constraints job_type constraints = Inr ()"
    "try_fold (compile_obligation constraints validators) compile_start (bm_values obligations) = Inr st"
    "cst_mandatory_obligation_count st \<noteq> 0"
    "\<forall>(key, c)\<in>set constraints. hc_mandatory c \<longrightarrow> key \<in> cst_proven_mandatory_constraints st"
    "\<not> ca_minimum_assurance_level (wc_acceptance contract) < capsule_minimum contract capsule job_type"
    "canonical_json_sha256 H cv = Inr cd" "canonical_json_sha256 H kv = Inr kd"
    "compiled = assemble_contract contract cd kd st"
  using assms unfolding compile_contract_def
  by (clarsimp simp: result_simps case_prod_unfold)

lemma validate_acceptance_policy_ok [result_simps]:
  "validate_acceptance_policy contract = Inr u \<longleftrightarrow>
   ca_unknowns_must_be_empty (wc_acceptance contract) \<and>
   ca_all_mandatory_proofs_must_pass (wc_acceptance contract) \<and>
   \<not> ca_validator_conflicts_allowed (wc_acceptance contract)"
  by (auto simp: validate_acceptance_policy_def result_simps)

lemma obligation_covered_from_validate:
  assumes "validate_obligation ob validators = Inr m"
    and "map_of (cc_validator_bindings compiled) (po_id ob) = Some m"
    and "index_validators (pc_validators capsule) = Inr validators"
  shows "obligation_covered capsule compiled ob"
proof -
  have vals: "map_of validators v = Some vd \<longleftrightarrow> vd \<in> set (pc_validators capsule) \<and> vd_id vd = v" for v vd
    using assms(3) unfolding index_defs by (rule index_by_id_get)
  have "dom (map_of m) \<noteq> {}"
    using validate_obligation_ok(3) [OF assms(1)] by (cases m) auto
  then show ?thesis
    unfolding obligation_covered_def
    using assms(2) validate_obligation_ok [OF assms(1)] vals
    by (intro exI [of _ m]) (fastforce simp: bindings_sound_def)
qed

lemma compile_loop_from:
  assumes cons: "index_constraints contract = Inr constraints"
    and vals: "index_validators (pc_validators capsule) = Inr validators"
    and obs: "index_obligations (wc_proof_obligations contract) = Inr obligations"
    and loop: "try_fold (compile_obligation constraints validators) compile_start (bm_values obligations) = Inr st"
    and comp: "compiled = assemble_contract contract cd kd st"
    and ob: "ob \<in> set (wc_proof_obligations contract)"
  shows "\<not> blank (po_id ob)" "\<not> blank (po_constraint_id ob)" "obligation_covered capsule compiled ob"
proof -
  have "ob \<in> set (bm_values obligations)" and ids: "distinct (map po_id (bm_values obligations))"
    using ob obs index_by_id_values index_by_id_values_distinct unfolding index_defs by blast+
  then obtain c b where "map_of constraints (po_constraint_id ob) = Some c"
    and v: "validate_obligation ob validators = Inr b" "map_of (cst_validator_bindings st) (po_id ob) = Some b"
    using compile_loop_ok [OF loop ids] unfolding compile_outcome_def by blast
  then have c: "c \<in> set (cr_hard (wc_requirements contract))" "hc_id c = po_constraint_id ob"
    using index_by_id_get [OF cons [unfolded index_defs]] by auto
  show "\<not> blank (po_id ob)" "\<not> blank (po_constraint_id ob)"
    using index_by_id_not_blank [OF cons [unfolded index_defs] c(1)]
      index_by_id_not_blank [OF obs [unfolded index_defs] ob] c(2) by simp_all
  show "obligation_covered capsule compiled ob"
    using v(1) _ vals
    by (rule obligation_covered_from_validate) (simp add: comp assemble_contract_def v(2))
qed

lemma compile_contract_ok:
  assumes "compile_contract H codec cv kv = Inr compiled"
  shows "\<exists>contract capsule.
    decode_contract codec cv = Inr contract \<and> decode_capsule codec kv = Inr capsule \<and>
    canonical_json_sha256 H cv = Inr (seal_contract_digest (cc_seal compiled)) \<and>
    canonical_json_sha256 H kv = Inr (seal_capsule_digest (cc_seal compiled)) \<and>
    compiled_from contract capsule compiled"
  using assms
proof (rule compile_contractE)
  fix contract capsule job_types validators constraints obligations job_type st cd kd
  assume dec: "decode_contract codec cv = Inr contract" "decode_capsule codec kv = Inr capsule"
    and schema: "validate_schema_versions contract capsule = Inr ()"
    and pol: "validate_acceptance_policy contract = Inr ()"
    and jts: "index_job_types (pc_job_types capsule) = Inr job_types"
    and vals: "index_validators (pc_validators capsule) = Inr validators"
    and cons: "index_constraints contract = Inr constraints"
    and obs: "index_obligations (wc_proof_obligations contract) = Inr obligations"
    and jt: "map_of job_types (wc_job_type contract) = Some job_type"
    and req: "validate_required_constraints job_type constraints = Inr ()"
    and loop: "try_fold (compile_obligation constraints validators) compile_start (bm_values obligations) = Inr st"
    and count: "cst_mandatory_obligation_count st \<noteq> 0"
    and proven: "\<forall>(key, c)\<in>set constraints. hc_mandatory c \<longrightarrow> key \<in> cst_proven_mandatory_constraints st"
    and level: "\<not> ca_minimum_assurance_level (wc_acceptance contract) < capsule_minimum contract capsule job_type"
    and dig: "canonical_json_sha256 H cv = Inr cd" "canonical_json_sha256 H kv = Inr kd"
    and comp: "compiled = assemble_contract contract cd kd st"
  let ?obs = "wc_proof_obligations contract"
  have set_obs: "set (bm_values obligations) = set ?obs"
    and ids: "distinct (map po_id (bm_values obligations))"
    using obs index_by_id_values index_by_id_values_distinct unfolding index_defs by blast+
  note outcome = compile_loop_ok [OF loop ids, unfolded compile_outcome_def compile_start_def, simplified]
  have cget: "map_of constraints key = Some c \<longleftrightarrow>
      c \<in> set (cr_hard (wc_requirements contract)) \<and> hc_id c = key" for key c
    using cons unfolding index_defs by (rule index_by_id_get)
  have reqs: "cst_proof_requirements st = map requirement_of (bm_values obligations)"
    using outcome by blast
  have ids': "distinct (map req_obligation_id (cst_proof_requirements st))"
    using ids by (simp add: reqs requirement_of_def comp_def)
  have jtv: "job_type \<in> set (pc_job_types capsule)" "jt_id job_type = wc_job_type contract"
    using jt index_by_id_get [OF jts [unfolded index_defs]] by auto
  have required: "\<forall>r\<in>set (jt_required_constraints job_type).
      \<exists>c\<in>set (cr_hard (wc_requirements contract)). hc_id c = r \<and> hc_mandatory c"
    using req cget by (force simp: validate_required_constraints_def result_simps)
  have mandatory: "\<exists>ob\<in>set ?obs. po_mandatory ob \<and> po_constraint_id ob = hc_id c"
    if c: "c \<in> set (cr_hard (wc_requirements contract))" "hc_mandatory c" for c
  proof -
    have "map_of constraints (hc_id c) = Some c" using c cget by simp
    then have "hc_id c \<in> cst_proven_mandatory_constraints st"
      using proven c(2) map_of_SomeD by fastforce
    moreover have "cst_proven_mandatory_constraints st \<subseteq> po_constraint_id ` {ob \<in> set ?obs. po_mandatory ob}"
      using outcome set_obs by simp
    ultimately show ?thesis by force
  qed
  have some: "\<exists>ob\<in>set ?obs. po_mandatory ob"
    using count outcome set_obs by (metis filter_False gr0I length_greater_0_conv)
  have doms: "dom (map_of (cst_validator_bindings st)) = po_id ` set ?obs"
    using outcome set_obs by (force simp: dom_def)
  have sel: "cc_contract_id compiled = wc_contract_id contract" "cc_job_type compiled = wc_job_type contract"
    "cc_permissions compiled = wc_permissions contract"
    "cc_unresolved_mandatory_unknowns compiled = unresolved_unknowns contract"
    "seal_schema_version (cc_seal compiled) = SUPPORTED_CONTRACT_SCHEMA"
    "cc_proof_requirements compiled = sort_key req_obligation_id (cst_proof_requirements st)"
    "cc_validator_bindings compiled = cst_validator_bindings st"
    "validate_policy (cc_policy compiled) = Inr ()"
    "capsule_minimum contract capsule job_type \<le> pol_minimum_assurance_level (cc_policy compiled)"
    using pol schema level
    by (simp_all add: comp assemble_contract_def result_simps validate_schema_versions_def not_less)
  have "distinct (map req_obligation_id (cc_proof_requirements compiled))"
    using ids' by (simp add: sel)
  moreover have "set (cc_proof_requirements compiled) = requirement_of ` set ?obs"
    using reqs set_obs by (simp add: sel)
  ultimately have "compiled_from contract capsule compiled"
    unfolding compiled_from_def sel
    using compile_loop_from [OF cons vals obs loop comp] sel(8,9) jtv required mandatory some doms
    by auto
  with dec dig comp show ?thesis by (auto simp: assemble_contract_def)
qed

section \<open>Sessions\<close>

lemma kernel_new_total:
  assumes "validate_policy policy = Inr ()"
    and "\<not> blank (seal_contract_digest seal)" "\<not> blank (seal_capsule_digest seal)"
      "\<not> blank (seal_schema_version seal)"
    and "\<forall>r\<in>set rs. check_requirement r = Inr ()" "distinct (map req_obligation_id rs)"
  shows "\<exists>k. kernel_new seal policy n a rs = Inr k"
proof -
  obtain m where m: "index_requirements [] rs = Inr m"
    using assms(5,6) by (simp add: requirements.run_eq_Inr)
  have "require_non_empty f v = Inr ()" if "\<not> blank v" for f v
    using that by (simp add: require_non_empty_def)
  with assms m show ?thesis by (simp add: kernel_new_def)
qed

lemma compiled_requirements_ok:
  assumes "compiled_from contract capsule compiled" "r \<in> set (cc_proof_requirements compiled)"
  shows "check_requirement r = Inr ()"
proof -
  obtain ob where "ob \<in> set (wc_proof_obligations contract)" "r = requirement_of ob"
    using assms by (auto simp: compiled_from_def)
  then show ?thesis using assms(1) by (auto simp: compiled_from_def requirement_of_def result_simps)
qed

lemma session_new_total:
  assumes "compiled_from contract capsule compiled"
    and "\<not> blank (seal_contract_digest (cc_seal compiled))" "\<not> blank (seal_capsule_digest (cc_seal compiled))"
  shows "\<exists>s. session_new compiled a = Inr s"
proof -
  have "\<exists>k. kernel_new (cc_seal compiled) (cc_policy compiled)
      (cc_unresolved_mandatory_unknowns compiled) a (cc_proof_requirements compiled) = Inr k"
    using assms compiled_requirements_ok [OF assms(1)]
    by (intro kernel_new_total)
      (auto simp: compiled_from_def SUPPORTED_CONTRACT_SCHEMA_def blank_def ascii_space_def
        wide_space2_def wide_space3_def)
  then show ?thesis by (auto simp: session_new_def)
qed

inductive session_reachable :: "compiled_contract \<Rightarrow> assurance_level \<Rightarrow> contract_session \<Rightarrow> bool"
  for compiled a where
  start: "session_new compiled a = Inr s \<Longrightarrow> session_reachable compiled a s"
| ingest: "session_reachable compiled a s \<Longrightarrow>
    session_reachable compiled a (snd (session_ingest_evidence s e))"

text \<open>Evidence that a session stores comes from a validator the compiled contract binds.\<close>

definition authorized_evidence :: "compiled_contract \<Rightarrow> evidence_record \<Rightarrow> bool" where
  "authorized_evidence compiled e \<longleftrightarrow>
     (\<exists>m b. map_of (cc_validator_bindings compiled) (ev_obligation_id e) = Some m \<and>
        map_of m (ev_validator_id e) = Some b \<and>
        ev_validator_version e = vb_version b \<and> ev_independence e = vb_independence b)"

definition requirements_indexed :: "compiled_contract \<Rightarrow> proof_kernel \<Rightarrow> bool" where
  "requirements_indexed compiled k \<longleftrightarrow>
     (\<forall>key r. (\<exists>acc. map_of (k_obligations k) key = Some acc \<and> acc_requirement acc = r) \<longleftrightarrow>
        r \<in> set (cc_proof_requirements compiled) \<and> req_obligation_id r = key)"

definition session_wf :: "compiled_contract \<Rightarrow> assurance_level \<Rightarrow> contract_session \<Rightarrow> bool" where
  "session_wf compiled a s \<longleftrightarrow>
     cs_compiled s = compiled \<and> kernel_wf (cs_kernel s) \<and>
     k_seal (cs_kernel s) = cc_seal compiled \<and> k_policy (cs_kernel s) = cc_policy compiled \<and>
     k_declared_unknowns (cs_kernel s) = cc_unresolved_mandatory_unknowns compiled \<and>
     k_assurance_level (cs_kernel s) = a \<and>
     requirements_indexed compiled (cs_kernel s) \<and>
     (\<forall>e\<in>set (all_evidence (cs_kernel s)). authorized_evidence compiled e)"

lemma session_new_wf:
  assumes "session_new compiled a = Inr s"
  shows "session_wf compiled a s"
proof -
  obtain k where k: "kernel_new (cc_seal compiled) (cc_policy compiled)
      (cc_unresolved_mandatory_unknowns compiled) a (cc_proof_requirements compiled) = Inr k"
    and s: "s = \<lparr>cs_compiled = compiled, cs_kernel = k\<rparr>"
    using assms by (auto simp: session_new_def result_simps)
  obtain m where m: "index_requirements [] (cc_proof_requirements compiled) = Inr m"
    and kf: "k = \<lparr>k_seal = cc_seal compiled, k_policy = cc_policy compiled,
      k_declared_unknowns = cc_unresolved_mandatory_unknowns compiled, k_assurance_level = a,
      k_obligations = m, k_evidence_ids = {}\<rparr>"
    using k by (auto simp: kernel_new_def result_simps)
  have wf: "kernel_wf k" using k by (rule kernel_new_wf)
  then have "all_evidence k = []" by (simp add: kernel_wf_def kf)
  moreover have "requirements_indexed compiled k"
    unfolding requirements_indexed_def kf proof_kernel.simps requirements.run_get [OF m] by auto
  ultimately show ?thesis using wf by (simp add: session_wf_def s kf)
qed

lemma all_evidence_iff:
  "kernel_wf k \<Longrightarrow> e \<in> set (all_evidence k) \<longleftrightarrow>
   (\<exists>key acc. map_of (k_obligations k) key = Some acc \<and> e \<in> set (acc_evidence acc))"
proof -
  assume "kernel_wf k"
  then have "bm_wf (k_obligations k)" by (simp add: kernel_wf_def)
  then have "acc \<in> set (bm_values (k_obligations k)) \<longleftrightarrow> (\<exists>key. map_of (k_obligations k) key = Some acc)"
    for acc by (rule bm_values_iff)
  then show ?thesis unfolding all_evidence_def set_concat set_map by blast
qed

lemma session_ingest_cases:
  obtains err where "session_ingest_evidence s e = (Inl err, s)"
  | "authorized_evidence (cs_compiled s) e"
    "session_ingest_evidence s e =
      (map_err CR_Kernel (fst (ingest_evidence (cs_kernel s) e)),
       s\<lparr>cs_kernel := snd (ingest_evidence (cs_kernel s) e)\<rparr>)"
proof -
  show ?thesis
  proof (cases "\<exists>err. session_ingest_evidence s e = (Inl err, s)")
    case True
    then show ?thesis using that(1) by blast
  next
    case False
    then have auth: "authorized_evidence (cs_compiled s) e"
      by (auto simp: session_ingest_evidence_def authorized_evidence_def split: option.splits if_splits)
    then have "session_ingest_evidence s e =
        (map_err CR_Kernel (fst (ingest_evidence (cs_kernel s) e)),
         s\<lparr>cs_kernel := snd (ingest_evidence (cs_kernel s) e)\<rparr>)"
      by (auto simp: session_ingest_evidence_def authorized_evidence_def case_prod_unfold Let_def)
    with auth show ?thesis using that(2) by blast
  qed
qed

lemma ingest_preserves_frame:
  assumes wf: "kernel_wf k"
  shows "k_seal (snd (ingest_evidence k e)) = k_seal k" "k_policy (snd (ingest_evidence k e)) = k_policy k"
    "k_declared_unknowns (snd (ingest_evidence k e)) = k_declared_unknowns k"
    "k_assurance_level (snd (ingest_evidence k e)) = k_assurance_level k"
    "map_option acc_requirement (map_of (k_obligations (snd (ingest_evidence k e))) key)
       = map_option acc_requirement (map_of (k_obligations k) key)"
    "set (all_evidence (snd (ingest_evidence k e))) \<subseteq> insert e (set (all_evidence k))"
proof -
  note c = ingest_evidence_cases [OF wf, of e]
  show "k_seal (snd (ingest_evidence k e)) = k_seal k" by (rule c) simp_all
  show "k_policy (snd (ingest_evidence k e)) = k_policy k" by (rule c) simp_all
  show "k_declared_unknowns (snd (ingest_evidence k e)) = k_declared_unknowns k" by (rule c) simp_all
  show "k_assurance_level (snd (ingest_evidence k e)) = k_assurance_level k" by (rule c) simp_all
  show "map_option acc_requirement (map_of (k_obligations (snd (ingest_evidence k e))) key)
       = map_option acc_requirement (map_of (k_obligations k) key)" by (rule c) auto
  have wf': "kernel_wf (snd (ingest_evidence k e))" using wf by (rule ingest_evidence_wf)
  show "set (all_evidence (snd (ingest_evidence k e))) \<subseteq> insert e (set (all_evidence k))"
  proof
    fix f
    assume "f \<in> set (all_evidence (snd (ingest_evidence k e)))"
    then obtain key acc where f: "map_of (k_obligations (snd (ingest_evidence k e))) key = Some acc"
      "f \<in> set (acc_evidence acc)" using all_evidence_iff [OF wf'] by blast
    have "f = e \<or> (\<exists>key acc. map_of (k_obligations k) key = Some acc \<and> f \<in> set (acc_evidence acc))"
      by (rule c) (use f in \<open>auto split: if_splits\<close>)
    then show "f \<in> insert e (set (all_evidence k))"
      using all_evidence_iff [OF wf] by blast
  qed
qed

lemma session_ingest_wf: "session_wf compiled a s \<Longrightarrow> session_wf compiled a (snd (session_ingest_evidence s e))"
proof (rule session_ingest_cases [of s e])
  fix err
  assume "session_wf compiled a s" "session_ingest_evidence s e = (Inl err, s)"
  then show ?thesis by simp
next
  let ?k = "cs_kernel s"
  assume wf: "session_wf compiled a s" and auth: "authorized_evidence (cs_compiled s) e"
    and eq: "session_ingest_evidence s e = (map_err CR_Kernel (fst (ingest_evidence ?k e)),
       s\<lparr>cs_kernel := snd (ingest_evidence ?k e)\<rparr>)"
  have kwf: "kernel_wf ?k" using wf by (simp add: session_wf_def)
  note frame = ingest_preserves_frame [OF kwf, of e]
  have "(\<exists>acc. map_of (k_obligations (snd (ingest_evidence ?k e))) key = Some acc \<and> acc_requirement acc = r)
      \<longleftrightarrow> (\<exists>acc. map_of (k_obligations ?k) key = Some acc \<and> acc_requirement acc = r)" for key r
    using frame(5) [of key]
    by (cases "map_of (k_obligations ?k) key";
        cases "map_of (k_obligations (snd (ingest_evidence ?k e))) key") auto
  then have reqs: "requirements_indexed compiled (snd (ingest_evidence ?k e))"
    using wf unfolding session_wf_def requirements_indexed_def by simp
  have auth': "\<forall>f\<in>set (all_evidence (snd (ingest_evidence ?k e))). authorized_evidence compiled f"
    using wf auth frame(6) unfolding session_wf_def by blast
  define k' where "k' = snd (ingest_evidence ?k e)"
  note facts = frame(1-4) [folded k'_def] ingest_evidence_wf [OF kwf, of e, folded k'_def]
    reqs [folded k'_def] auth' [folded k'_def]
  have "snd (session_ingest_evidence s e) = s\<lparr>cs_kernel := k'\<rparr>"
    by (simp only: eq snd_conv k'_def)
  moreover have "session_wf compiled a (s\<lparr>cs_kernel := k'\<rparr>)"
    using wf unfolding session_wf_def by (elim conjE, intro conjI) (simp_all add: facts)
  ultimately show ?thesis by (simp only:)
qed

lemma session_reachable_wf: "session_reachable compiled a s \<Longrightarrow> session_wf compiled a s"
  by (induction rule: session_reachable.induct) (auto intro: session_new_wf session_ingest_wf)

lemma session_ingest_stores:
  assumes wf: "session_wf compiled a s" and ok: "session_ingest_evidence s e = (Inr st, s')"
  shows "set (all_evidence (cs_kernel s')) = insert e (set (all_evidence (cs_kernel s)))"
proof -
  have kwf: "kernel_wf (cs_kernel s)" using wf by (simp add: session_wf_def)
  have wf': "session_wf compiled a s'" using session_ingest_wf [OF wf, of e] ok by simp
  have s': "s' = s\<lparr>cs_kernel := snd (ingest_evidence (cs_kernel s) e)\<rparr>"
    "fst (ingest_evidence (cs_kernel s) e) = Inr st"
    using ok by (rule_tac session_ingest_cases [of s e], auto simp: map_err_eq)+
  have "set (all_evidence (snd (ingest_evidence (cs_kernel s) e))) = insert e (set (all_evidence (cs_kernel s)))"
  proof (rule ingest_evidence_cases [OF kwf, of e])
    fix acc
    assume acc: "map_of (k_obligations (cs_kernel s)) (ev_obligation_id e) = Some acc"
      and eq: "ingest_evidence (cs_kernel s) e =
        (Inr (state_for (acc\<lparr>acc_evidence := acc_evidence acc @ [e]\<rparr>)),
         (cs_kernel s)\<lparr>k_evidence_ids := insert (ev_evidence_id e) (k_evidence_ids (cs_kernel s)),
           k_obligations := bm_insert (ev_obligation_id e)
             (acc\<lparr>acc_evidence := acc_evidence acc @ [e]\<rparr>) (k_obligations (cs_kernel s))\<rparr>)"
    have kwf': "kernel_wf (snd (ingest_evidence (cs_kernel s) e))" using wf' by (simp add: s' session_wf_def)
    have "f \<in> set (all_evidence (snd (ingest_evidence (cs_kernel s) e))) \<longleftrightarrow>
        f = e \<or> f \<in> set (all_evidence (cs_kernel s))" for f
      unfolding all_evidence_iff [OF kwf'] all_evidence_iff [OF kwf] using acc
      by (auto simp: eq split: if_splits) (metis option.inject)
    then show ?thesis by blast
  qed (use s'(2) in simp)
  then show ?thesis by (simp add: s')
qed

lemma session_new_no_evidence: "session_new compiled a = Inr s \<Longrightarrow> set (all_evidence (cs_kernel s)) = {}"
proof -
  assume new: "session_new compiled a = Inr s"
  then have "k_evidence_ids (cs_kernel s) = {}" by (auto simp: session_new_def kernel_new_def result_simps)
  moreover have "kernel_wf (cs_kernel s)" using session_new_wf [OF new] by (simp add: session_wf_def)
  ultimately show ?thesis by (simp add: kernel_wf_def)
qed

lemma session_obligation:
  assumes "session_wf compiled a s" "r \<in> set (cc_proof_requirements compiled)"
  obtains acc where "map_of (k_obligations (cs_kernel s)) (req_obligation_id r) = Some acc"
    "acc_requirement acc = r" "acc \<in> set (bm_values (k_obligations (cs_kernel s)))"
proof -
  from assms obtain acc where acc: "map_of (k_obligations (cs_kernel s)) (req_obligation_id r) = Some acc"
    "acc_requirement acc = r" unfolding session_wf_def requirements_indexed_def by blast
  moreover have "acc \<in> set (bm_values (k_obligations (cs_kernel s)))"
    using acc(1) by (force simp: set_bm_values dest: map_of_SomeD)
  ultimately show ?thesis by (rule that)
qed

text \<open>
  What evidence in a session shows about the capsule: its validator is a capsule validator
  that claims the constraint, in the capsule's version and independence class.
\<close>

definition capsule_evidence :: "profession_capsule \<Rightarrow> string \<Rightarrow> evidence_record \<Rightarrow> bool" where
  "capsule_evidence capsule constraint e \<longleftrightarrow>
     ev_constraint_id e = constraint \<and>
     (\<exists>vd\<in>set (pc_validators capsule). vd_id vd = ev_validator_id e \<and>
        constraint \<in> set (vd_claims vd) \<and>
        ev_validator_version e = vd_version vd \<and> ev_independence e = vd_independence_class vd)"

lemma obligation_covered_validator:
  assumes "obligation_covered capsule compiled ob"
    and "map_of (cc_validator_bindings compiled) (po_id ob) = Some m" "map_of m v = Some b"
  shows "\<exists>vd\<in>set (pc_validators capsule). vd_id vd = v \<and>
    po_constraint_id ob \<in> set (vd_claims vd) \<and> b = binding_of vd"
  using assms unfolding obligation_covered_def by (metis option.inject)

lemma session_evidence_from_capsule:
  assumes from_capsule: "compiled_from contract capsule compiled" and wf: "session_wf compiled a s"
    and ob: "ob \<in> set (wc_proof_obligations contract)"
    and acc: "map_of (k_obligations (cs_kernel s)) (po_id ob) = Some acc" "acc_requirement acc = requirement_of ob"
    and e: "e \<in> set (acc_evidence acc)"
  shows "capsule_evidence capsule (po_constraint_id ob) e"
proof -
  have kwf: "kernel_wf (cs_kernel s)" using wf by (simp add: session_wf_def)
  then have "evidence_bound (k_seal (cs_kernel s)) (po_id ob) acc"
    using acc(1) by (auto simp: kernel_wf_def dest: map_of_SomeD)
  then have bound: "ev_obligation_id e = po_id ob" "ev_constraint_id e = po_constraint_id ob"
    using e acc(2) by (auto simp: evidence_bound_def requirement_of_def)
  have "e \<in> set (all_evidence (cs_kernel s))"
    using acc(1) e all_evidence_iff [OF kwf] by blast
  then obtain m b where m: "map_of (cc_validator_bindings compiled) (po_id ob) = Some m"
    and b: "map_of m (ev_validator_id e) = Some b" "ev_validator_version e = vb_version b"
      "ev_independence e = vb_independence b"
    using wf bound by (auto simp: session_wf_def authorized_evidence_def)
  have "obligation_covered capsule compiled ob"
    using from_capsule ob by (simp add: compiled_from_def)
  then obtain vd where "vd \<in> set (pc_validators capsule)" "vd_id vd = ev_validator_id e"
    "po_constraint_id ob \<in> set (vd_claims vd)" "b = binding_of vd"
    using obligation_covered_validator m b(1) by blast
  with b bound show ?thesis by (auto simp: capsule_evidence_def binding_of_def)
qed

text \<open>
  What acceptance in a session means for one constraint of the contract: a mandatory
  obligation proves it, and the evidence the session holds for that obligation establishes
  the claim and comes from validators of the capsule only.
\<close>

definition constraint_proved ::
    "work_contract \<Rightarrow> profession_capsule \<Rightarrow> contract_session \<Rightarrow> string \<Rightarrow> bool" where
  "constraint_proved contract capsule s constraint \<longleftrightarrow>
     (\<exists>ob\<in>set (wc_proof_obligations contract). \<exists>acc.
        po_mandatory ob \<and> po_constraint_id ob = constraint \<and>
        map_of (k_obligations (cs_kernel s)) (po_id ob) = Some acc \<and>
        claim_established (po_independence_class ob) (set (acc_evidence acc)) \<and>
        (\<forall>e\<in>set (acc_evidence acc). capsule_evidence capsule constraint e))"

lemma accepted_constraint_proved:
  assumes from_capsule: "compiled_from contract capsule compiled" and wf: "session_wf compiled a s"
    and acc: "dec_status (session_evaluate s) = Accepted"
    and c: "c \<in> set (cr_hard (wc_requirements contract))" "hc_mandatory c"
  shows "constraint_proved contract capsule s (hc_id c)"
proof -
  from from_capsule c obtain ob where ob: "ob \<in> set (wc_proof_obligations contract)"
    "po_mandatory ob" "po_constraint_id ob = hc_id c" unfolding compiled_from_def by blast
  then have "requirement_of ob \<in> set (cc_proof_requirements compiled)"
    using from_capsule by (simp add: compiled_from_def)
  then obtain x where x: "map_of (k_obligations (cs_kernel s)) (req_obligation_id (requirement_of ob)) = Some x"
    "acc_requirement x = requirement_of ob" "x \<in> set (bm_values (k_obligations (cs_kernel s)))"
    by (rule session_obligation [OF wf])
  have rule: "acceptance_rule (cs_kernel s)"
    using acc by (simp add: session_evaluate_def evaluate_Accepted_iff)
  then have "claim_established (po_independence_class ob) (set (acc_evidence x))"
    using x ob(2) by (auto simp: acceptance_rule_def requirement_of_def)
  moreover have at: "map_of (k_obligations (cs_kernel s)) (po_id ob) = Some x"
    using x(1) by (simp add: requirement_of_def)
  moreover have "\<forall>e\<in>set (acc_evidence x). capsule_evidence capsule (hc_id c) e"
    using session_evidence_from_capsule [OF from_capsule wf ob(1) at x(2)] ob(3) by simp
  ultimately show ?thesis unfolding constraint_proved_def using ob by blast
qed

lemma accepted_unknowns_and_level:
  assumes from_capsule: "compiled_from contract capsule compiled" and wf: "session_wf compiled a s"
    and acc: "dec_status (session_evaluate s) = Accepted"
  shows "unresolved_unknowns contract = 0"
    and "\<exists>jt\<in>set (pc_job_types capsule). jt_id jt = wc_job_type contract \<and>
      capsule_minimum contract capsule jt \<le> a"
proof -
  have rule: "acceptance_rule (cs_kernel s)"
    using acc by (simp add: session_evaluate_def evaluate_Accepted_iff)
  have "pol_unknowns_must_be_empty (cc_policy compiled)"
    using from_capsule by (simp add: compiled_from_def result_simps)
  then show "unresolved_unknowns contract = 0"
    using rule wf from_capsule by (simp add: acceptance_rule_def session_wf_def compiled_from_def)
  have "pol_minimum_assurance_level (cc_policy compiled) \<le> a"
    using rule wf by (simp add: acceptance_rule_def session_wf_def)
  then show "\<exists>jt\<in>set (pc_job_types capsule). jt_id jt = wc_job_type contract \<and>
      capsule_minimum contract capsule jt \<le> a"
    using from_capsule unfolding compiled_from_def by (meson order_trans)
qed

section \<open>Properties\<close>

text \<open>A contract with one mandatory constraint and a capsule with one validator for it.\<close>

definition demo_contract :: work_contract where
  "demo_contract = \<lparr>wc_schema_version = ''0.2.0'', wc_contract_id = ''k1'',
     wc_profession = \<lparr>pr_capsule_id = ''cap'', pr_capsule_version = ''1''\<rparr>, wc_job_type = ''job'',
     wc_requirements = \<lparr>cr_hard = [\<lparr>hc_id = ''c1'', hc_mandatory = True\<rparr>],
       cr_unknowns = [\<lparr>un_id = ''u1'', un_mandatory = True, un_resolution = UserAnswer\<rparr>]\<rparr>,
     wc_permissions = [\<lparr>perm_capability = ''fs'', perm_resource = ''doc'', perm_access = Write, perm_constraints = JNull\<rparr>],
     wc_proof_obligations = [\<lparr>po_id = ''o1'', po_constraint_id = ''c1'', po_validator_ids = [''v''],
       po_mandatory = True, po_independence_class = Independent, po_evidence_types = [''log'']\<rparr>],
     wc_acceptance = \<lparr>ca_minimum_assurance_level = E2, ca_unknowns_must_be_empty = True,
       ca_all_mandatory_proofs_must_pass = True, ca_validator_conflicts_allowed = False\<rparr>\<rparr>"

definition demo_capsule :: profession_capsule where
  "demo_capsule = \<lparr>pc_schema_version = ''0.1.0'', pc_capsule_id = ''cap'', pc_version = ''1'',
     pc_job_types = [\<lparr>jt_id = ''job'', jt_required_constraints = [''c1''], jt_minimum_assurance_level = E1\<rparr>],
     pc_validators = [\<lparr>vd_id = ''v'', vd_version = ''1'', vd_claims = [''c1''],
       vd_independence_class = Independent, vd_evidence_types = [''log'']\<rparr>],
     pc_policies = \<lparr>pp_minimum_assurance_by_job_type = [(''job'', E2)]\<rparr>\<rparr>"

definition demo_codec :: contract_codec where
  "demo_codec = \<lparr>decode_contract = (\<lambda>_. Inr demo_contract), decode_capsule = (\<lambda>_. Inr demo_capsule)\<rparr>"

definition demo_compiled :: compiled_contract where
  "demo_compiled = assemble_contract demo_contract demo_digest demo_digest
     \<lparr>cst_proof_requirements = map requirement_of (wc_proof_obligations demo_contract),
      cst_validator_bindings = [(''o1'', [(''v'', \<lparr>vb_version = ''1'', vb_independence = Independent\<rparr>)])],
      cst_proven_mandatory_constraints = {''c1''}, cst_mandatory_obligation_count = 1\<rparr>"

definition demo_session :: "assurance_level \<Rightarrow> contract_session" where
  "demo_session a = \<lparr>cs_compiled = demo_compiled, cs_kernel = \<lparr>k_seal = cc_seal demo_compiled,
     k_policy = cc_policy demo_compiled, k_declared_unknowns = 0, k_assurance_level = a,
     k_obligations = [(''o1'', \<lparr>acc_requirement = requirement_of (hd (wc_proof_obligations demo_contract)),
       acc_evidence = []\<rparr>)], k_evidence_ids = {}\<rparr>\<rparr>"

definition demo_proof :: evidence_record where
  "demo_proof = (demo_evidence ''e1'' TV_True)\<lparr>ev_contract_digest := demo_digest\<rparr>"

lemma demo_compiles: "compile_contract demo_hasher demo_codec JNull JNull = Inr demo_compiled"
  by code_simp

lemma demo_session_opens: "session_new demo_compiled E3 = Inr (demo_session E3)"
  by code_simp

lemma demo_session_accepts:
  "session_reachable demo_compiled E3 (snd (session_ingest_evidence (demo_session E3) demo_proof))"
  "dec_status (session_evaluate (snd (session_ingest_evidence (demo_session E3) demo_proof))) = Accepted"
  by (rule session_reachable.ingest [OF session_reachable.start [OF demo_session_opens]]) code_simp

text \<open>
  C2: if a contract compiles and a session on it, at an achieved assurance level, is
  evaluated as accepted after any sequence of ingested evidence, then every mandatory
  constraint of the contract is proved by a mandatory obligation whose evidence establishes
  the claim and comes only from capsule validators that claim the constraint, in their
  version and independence class; no mandatory unknown is unresolved; and the achieved
  level is at least the capsule's minimum for the job type.
\<close>

theorem accepted_session_proves_contract:
  assumes "compile_contract H codec cv kv = Inr compiled" "session_reachable compiled a s"
    "dec_status (session_evaluate s) = Accepted"
  shows "\<exists>contract capsule. decode_contract codec cv = Inr contract \<and> decode_capsule codec kv = Inr capsule \<and>
    (\<forall>c\<in>set (cr_hard (wc_requirements contract)). hc_mandatory c \<longrightarrow> constraint_proved contract capsule s (hc_id c)) \<and>
    unresolved_unknowns contract = 0 \<and>
    (\<exists>jt\<in>set (pc_job_types capsule). jt_id jt = wc_job_type contract \<and> capsule_minimum contract capsule jt \<le> a)"
proof -
  obtain contract capsule where dec: "decode_contract codec cv = Inr contract" "decode_capsule codec kv = Inr capsule"
    and from_capsule: "compiled_from contract capsule compiled"
    using compile_contract_ok [OF assms(1)] by blast
  note facts = from_capsule session_reachable_wf [OF assms(2)] assms(3)
  show ?thesis
    using dec accepted_constraint_proved [OF facts] accepted_unknowns_and_level [OF facts] by blast
qed

theorem accepted_session_proves_contract_witness:
  "constraint_proved demo_contract demo_capsule
     (snd (session_ingest_evidence (demo_session E3) demo_proof)) ''c1'' \<and> unresolved_unknowns demo_contract = 0"
  using accepted_session_proves_contract [OF demo_compiles demo_session_accepts]
  by (auto simp: demo_codec_def) (simp_all add: demo_contract_def)

text \<open>
  What the compiler guarantees of every contract it accepts. The seal carries the
  digests of the two documents; every mandatory constraint has a mandatory proof obligation
  and the constraints the job type requires are mandatory; each obligation is bound to
  exactly its named validators, all of the capsule and claiming its constraint, with the
  independence the obligation asks for; the policy is strict and the assurance level is not
  below the capsule's minimum for the job type.
\<close>

lemma compiled_contract_sound:
  assumes "compile_contract H codec cv kv = Inr compiled"
  shows "\<exists>contract capsule. decode_contract codec cv = Inr contract \<and> decode_capsule codec kv = Inr capsule \<and>
    canonical_json_sha256 H cv = Inr (seal_contract_digest (cc_seal compiled)) \<and>
    canonical_json_sha256 H kv = Inr (seal_capsule_digest (cc_seal compiled)) \<and>
    compiled_from contract capsule compiled"
  using assms by (rule compile_contract_ok)

text \<open>
  A session can always be opened on a contract that compiled, at every achieved level:
  none of the kernel's construction errors can occur. The hash is assumed to return a digest
  that is not blank.
\<close>

lemma compiled_contract_opens:
  assumes "compile_contract H codec cv kv = Inr compiled" "\<forall>bytes. \<not> blank (sha256_hex H bytes)"
  shows "\<exists>s. session_new compiled a = Inr s"
proof -
  obtain contract capsule where "compiled_from contract capsule compiled"
    "canonical_json_sha256 H cv = Inr (seal_contract_digest (cc_seal compiled))"
    "canonical_json_sha256 H kv = Inr (seal_capsule_digest (cc_seal compiled))"
    using compile_contract_ok [OF assms(1)] by blast
  moreover from this have "\<not> blank (seal_contract_digest (cc_seal compiled))"
    "\<not> blank (seal_capsule_digest (cc_seal compiled))"
    using assms(2) by (auto simp: canonical_json_sha256_def result_simps) metis+
  ultimately show ?thesis by (intro session_new_total)
qed

text \<open>
  in every reachable session the stored evidence was produced by a validator that the
  compiled contract binds to the obligation, under the bound version and independence class,
  and the session still carries the seal, the policy, the declared unknowns and the achieved
  level it was opened with.
\<close>

lemma session_admits_authorized_evidence:
  assumes "session_reachable compiled a s"
  shows "(\<forall>e\<in>set (all_evidence (cs_kernel s)). authorized_evidence compiled e) \<and>
    k_seal (cs_kernel s) = cc_seal compiled \<and> k_policy (cs_kernel s) = cc_policy compiled \<and>
    k_declared_unknowns (cs_kernel s) = cc_unresolved_mandatory_unknowns compiled \<and>
    k_assurance_level (cs_kernel s) = a"
  using session_reachable_wf [OF assms] by (simp add: session_wf_def)

end
