(* ===== verification/Plan.thy ===== *)
theory Plan
  imports Contract
begin

text \<open>
  The operator plan runtime (\<^verbatim>\<open>crates/operator-plan-runtime\<close>): the compiler that
  admits a plan for a compiled contract, and the verifier that replays an execution trace
  against it. The verifier collects violations instead of stopping at the first; it is
  a fold whose accumulator is \<open>trace_run\<close>. The lemmas show that a compiled plan lists its
  steps in an order that respects the dependencies, and that a trace without violations is
  exactly a run of the step automaton \<open>conforming\<close>, whose history is then characterised.
  A \<^verbatim>\<open>usize\<close> position is only compared, never computed with, and is a
  \<^typ>\<open>nat\<close>.
\<close>

section \<open>Data\<close>

record digest_reference =
  dr_id :: string
  dr_algorithm :: string
  dr_digest :: string
  dr_uri :: "string option"

record plan_bindings =
  pb_contract :: digest_reference
  pb_profession_capsule :: digest_reference
  pb_policy_snapshot :: "digest_reference option"

record plan_step =
  ps_step_id :: string
  ps_sequence :: nat
  ps_operator_id :: string
  ps_operator_version :: string
  ps_depends_on :: "string list"
  ps_input_artifact_ids :: "string list"
  ps_output_artifact_ids :: "string list"
  ps_capability_token_ids :: "string list"
  ps_mandatory :: bool
  ps_rollback_step_id :: "string option"

record operator_plan =
  op_schema_version :: string
  op_plan_id :: string
  op_created_at :: string
  op_bindings :: plan_bindings
  op_steps :: "plan_step list"

datatype (plugins only: code size) trace_status = TS_Started | TS_Succeeded | TS_Failed | TS_RolledBack | TS_Skipped

record trace_event =
  te_event_id :: string
  te_step_id :: string
  te_sequence :: nat
  te_timestamp :: string
  te_operator_id :: string
  te_status :: trace_status
  te_input_digests :: "string list"
  te_output_digests :: "string list"
  te_capability_token_id :: "string option"

record capsule_operator =
  co_id :: string
  co_version :: string

record capsule_job_type =
  cj_id :: string
  cj_operator_ids :: "string list"

record capsule_plan_view =
  cpv_capsule_id :: string
  cpv_operators :: "capsule_operator list"
  cpv_job_types :: "capsule_job_type list"

record plan_codec =
  decode_plan :: "json \<Rightarrow> serde_error + operator_plan"
  decode_plan_view :: "json \<Rightarrow> serde_error + capsule_plan_view"

datatype (plugins only: code size) plan_compile_error =
    PC_PlanDecode serde_error
  | PC_CapsuleDecode serde_error
  | PC_Hashing hashing_error
  | PC_UnsupportedSchemaVersion string string
  | PC_UnsupportedBindingAlgorithm string
  | PC_ContractIdMismatch string string
  | PC_ContractDigestMismatch
  | PC_CapsuleIdMismatch string string
  | PC_CapsuleDigestMismatch
  | PC_UnsupportedJobType string
  | PC_DuplicateIdentifier string string
  | PC_DuplicateSequence nat
  | PC_NonContiguousSequence nat nat
  | PC_OperatorNotAllowed string string
  | PC_UnknownOperator string string
  | PC_OperatorVersionMismatch string string string
  | PC_UnknownDependency string string
  | PC_DependencyNotEarlier string string
  | PC_UnknownRollbackStep string string
  | PC_DuplicateStepValue string string string
  | PC_NoMandatorySteps

record compiled_plan =
  cp_plan_id :: string
  cp_plan_digest :: string
  cp_contract_digest :: string
  cp_capsule_digest :: string
  cp_steps :: "plan_step list"

definition mandatory_step_count :: "compiled_plan \<Rightarrow> nat" where
  "mandatory_step_count plan = length (filter ps_mandatory (cp_steps plan))"

section \<open>The compiler\<close>

definition SUPPORTED_PLAN_SCHEMA :: string where
  "SUPPORTED_PLAN_SCHEMA = ''0.1.0''"

definition validate_bindings ::
    "operator_plan \<Rightarrow> capsule_plan_view \<Rightarrow> compiled_contract \<Rightarrow> plan_compile_error + unit" where
  "validate_bindings plan capsule compiled =
     (let contract = pb_contract (op_bindings plan);
          profession = pb_profession_capsule (op_bindings plan) in
      and_then (ensure (dr_algorithm contract = ''sha256'')
        (PC_UnsupportedBindingAlgorithm ''contract'')) (\<lambda>_.
      and_then (ensure (dr_algorithm profession = ''sha256'')
        (PC_UnsupportedBindingAlgorithm ''profession_capsule'')) (\<lambda>_.
      and_then (ensure (dr_id contract = cc_contract_id compiled)
        (PC_ContractIdMismatch (dr_id contract) (cc_contract_id compiled))) (\<lambda>_.
      and_then (ensure (dr_digest contract = seal_contract_digest (cc_seal compiled))
        PC_ContractDigestMismatch) (\<lambda>_.
      and_then (ensure (dr_id profession = cpv_capsule_id capsule)
        (PC_CapsuleIdMismatch (dr_id profession) (cpv_capsule_id capsule))) (\<lambda>_.
      ensure (dr_digest profession = seal_capsule_digest (cc_seal compiled))
        PC_CapsuleDigestMismatch))))))"

fun index_operators_from ::
    "(string, capsule_operator) bmap \<Rightarrow> capsule_operator list \<Rightarrow>
     plan_compile_error + (string, capsule_operator) bmap" where
  "index_operators_from index [] = Inr index"
| "index_operators_from index (operator # operators) =
     (if map_of index (co_id operator) \<noteq> None
      then Inl (PC_DuplicateIdentifier ''operator'' (co_id operator))
      else index_operators_from (bm_insert (co_id operator) operator index) operators)"

definition index_operators ::
    "capsule_plan_view \<Rightarrow> plan_compile_error + (string, capsule_operator) bmap" where
  "index_operators capsule = index_operators_from [] (cpv_operators capsule)"

definition validate_unique_values ::
    "plan_step \<Rightarrow> string \<Rightarrow> string list \<Rightarrow> plan_compile_error + unit" where
  "validate_unique_values step field values =
     and_then (try_fold (\<lambda>seen v.
         if v \<in> seen then Inl (PC_DuplicateStepValue (ps_step_id step) field v)
         else Inr (insert v seen)) {} values)
       (\<lambda>_. Inr ())"

definition validate_unique_step_values :: "plan_step \<Rightarrow> plan_compile_error + unit" where
  "validate_unique_step_values step =
     and_then (validate_unique_values step ''depends_on'' (ps_depends_on step)) (\<lambda>_.
     and_then (validate_unique_values step ''input_artifact_ids'' (ps_input_artifact_ids step)) (\<lambda>_.
     and_then (validate_unique_values step ''output_artifact_ids'' (ps_output_artifact_ids step)) (\<lambda>_.
     validate_unique_values step ''capability_token_ids'' (ps_capability_token_ids step))))"

definition register_step ::
    "(string, nat) bmap \<times> nat set \<Rightarrow> plan_step \<Rightarrow>
     plan_compile_error + (string, nat) bmap \<times> nat set" where
  "register_step st step =
     (let (step_ids, sequences) = st in
      and_then (ensure (map_of step_ids (ps_step_id step) = None)
        (PC_DuplicateIdentifier ''step'' (ps_step_id step))) (\<lambda>_.
      and_then (ensure (ps_sequence step \<notin> sequences)
        (PC_DuplicateSequence (ps_sequence step))) (\<lambda>_.
      and_then (validate_unique_step_values step) (\<lambda>_.
      Inr (bm_insert (ps_step_id step) (ps_sequence step) step_ids,
           insert (ps_sequence step) sequences)))))"

definition check_dependency ::
    "(string, nat) bmap \<Rightarrow> plan_step \<Rightarrow> string \<Rightarrow> plan_compile_error + unit" where
  "check_dependency step_ids step dependency_id =
     and_then (ok_or (map_of step_ids dependency_id)
       (PC_UnknownDependency (ps_step_id step) dependency_id)) (\<lambda>dependency_sequence.
     ensure (\<not> dependency_sequence \<ge> ps_sequence step)
       (PC_DependencyNotEarlier (ps_step_id step) dependency_id))"

definition check_step ::
    "string set \<Rightarrow> (string, capsule_operator) bmap \<Rightarrow> (string, nat) bmap \<Rightarrow> nat \<times> plan_step \<Rightarrow>
     plan_compile_error + unit" where
  "check_step allowed_operators operators step_ids entry =
     (let (expected, step) = entry in
      and_then (ensure (ps_sequence step = expected)
        (PC_NonContiguousSequence expected (ps_sequence step))) (\<lambda>_.
      and_then (ensure (ps_operator_id step \<in> allowed_operators)
        (PC_OperatorNotAllowed (ps_step_id step) (ps_operator_id step))) (\<lambda>_.
      and_then (ok_or (map_of operators (ps_operator_id step))
        (PC_UnknownOperator (ps_step_id step) (ps_operator_id step))) (\<lambda>operator.
      and_then (ensure (ps_operator_version step = co_version operator)
        (PC_OperatorVersionMismatch (ps_step_id step) (ps_operator_version step)
           (co_version operator))) (\<lambda>_.
      and_then (try_for_each (check_dependency step_ids step) (ps_depends_on step)) (\<lambda>_.
      case ps_rollback_step_id step of
        None \<Rightarrow> Inr ()
      | Some rollback_step_id \<Rightarrow>
          ensure (bm_contains_key step_ids rollback_step_id)
            (PC_UnknownRollbackStep (ps_step_id step) rollback_step_id)))))))"

definition compile_plan ::
    "hasher \<Rightarrow> plan_codec \<Rightarrow> json \<Rightarrow> json \<Rightarrow> compiled_contract \<Rightarrow>
     plan_compile_error + compiled_plan" where
  "compile_plan H codec plan_value capsule_value compiled =
     and_then (map_err PC_PlanDecode (decode_plan codec plan_value)) (\<lambda>plan.
     and_then (map_err PC_CapsuleDecode (decode_plan_view codec capsule_value)) (\<lambda>capsule.
     and_then (ensure (op_schema_version plan = SUPPORTED_PLAN_SCHEMA)
       (PC_UnsupportedSchemaVersion (op_schema_version plan) SUPPORTED_PLAN_SCHEMA)) (\<lambda>_.
     and_then (validate_bindings plan capsule compiled) (\<lambda>_.
     and_then (index_operators capsule) (\<lambda>operators.
     and_then (ok_or (find (\<lambda>job_type. cj_id job_type = cc_job_type compiled) (cpv_job_types capsule))
       (PC_UnsupportedJobType (cc_job_type compiled))) (\<lambda>job_type.
     and_then (try_fold register_step ([], {}) (op_steps plan)) (\<lambda>(step_ids, _).
     let steps = sort_key ps_sequence (op_steps plan) in
     and_then (try_for_each (check_step (set (cj_operator_ids job_type)) operators step_ids)
       (List.enumerate 0 steps)) (\<lambda>_.
     and_then (ensure (list_ex ps_mandatory steps) PC_NoMandatorySteps) (\<lambda>_.
     and_then (map_err PC_Hashing (canonical_json_sha256 H plan_value)) (\<lambda>plan_digest.
     Inr \<lparr>cp_plan_id = op_plan_id plan, cp_plan_digest = plan_digest,
       cp_contract_digest = seal_contract_digest (cc_seal compiled),
       cp_capsule_digest = seal_capsule_digest (cc_seal compiled),
       cp_steps = steps\<rparr>))))))))))"

section \<open>The trace verifier\<close>

datatype (plugins only: code size) step_state = SS_NotStarted | SS_Started | SS_Succeeded | SS_Failed | SS_RolledBack | SS_Skipped

datatype (plugins only: code size) trace_violation =
    TV_DuplicateEventId string
  | TV_NonContiguousEventSequence nat nat
  | TV_UnknownStep string
  | TV_OperatorMismatch string string string
  | TV_DependencyIncomplete string string
  | TV_InvalidTransition string step_state trace_status
  | TV_MissingCapabilityToken string
  | TV_UnauthorizedCapabilityToken string string
  | TV_FailedStep string
  | TV_RolledBackStep string
  | TV_MandatoryStepSkipped string
  | TV_MandatoryStepNotSucceeded string step_state
  | TV_IncompleteStartedStep string

record trace_assessment =
  ta_conforms_to_plan :: bool
  ta_claimed_conforms_to_plan :: bool
  ta_claim_matches :: bool
  ta_violations :: "trace_violation list"

record trace_run =
  tr_states :: "(string, step_state) bmap"
  tr_event_ids :: "string set"
  tr_violations :: "trace_violation list"

definition validate_capability_token :: "plan_step \<Rightarrow> trace_event \<Rightarrow> trace_violation list" where
  "validate_capability_token step event =
     (case te_capability_token_id event of
        None \<Rightarrow> if ps_capability_token_ids step = [] then []
          else [TV_MissingCapabilityToken (ps_step_id step)]
      | Some token_id \<Rightarrow> if token_id \<notin> set (ps_capability_token_ids step)
          then [TV_UnauthorizedCapabilityToken (ps_step_id step) token_id] else [])"

definition transition_violations ::
    "plan_step \<Rightarrow> (string, step_state) bmap \<Rightarrow> step_state \<Rightarrow> trace_event \<Rightarrow> trace_violation list" where
  "transition_violations step states previous event =
     (let invalid = [TV_InvalidTransition (te_step_id event) previous (te_status event)] in
      case te_status event of
        TS_Started \<Rightarrow>
          (if previous \<noteq> SS_NotStarted then invalid else []) @
          map (TV_DependencyIncomplete (te_step_id event))
            (filter (\<lambda>d. map_of states d \<noteq> Some SS_Succeeded) (ps_depends_on step))
      | TS_Succeeded \<Rightarrow> (if previous \<noteq> SS_Started then invalid else [])
      | TS_Failed \<Rightarrow> (if previous \<noteq> SS_Started then invalid else []) @ [TV_FailedStep (te_step_id event)]
      | TS_RolledBack \<Rightarrow>
          (if previous \<noteq> SS_Failed \<and> previous \<noteq> SS_Succeeded then invalid else []) @
          [TV_RolledBackStep (te_step_id event)]
      | TS_Skipped \<Rightarrow>
          (if previous \<noteq> SS_NotStarted then invalid else []) @
          (if ps_mandatory step then [TV_MandatoryStepSkipped (te_step_id event)] else []))"

fun next_state :: "trace_status \<Rightarrow> step_state" where
  "next_state TS_Started = SS_Started"
| "next_state TS_Succeeded = SS_Succeeded"
| "next_state TS_Failed = SS_Failed"
| "next_state TS_RolledBack = SS_RolledBack"
| "next_state TS_Skipped = SS_Skipped"

definition state_of :: "(string, step_state) bmap \<Rightarrow> string \<Rightarrow> step_state" where
  "state_of states step_id = (case map_of states step_id of Some st \<Rightarrow> st | None \<Rightarrow> SS_NotStarted)"

definition trace_event_step ::
    "(string, plan_step) bmap \<Rightarrow> nat \<times> trace_event \<Rightarrow> trace_run \<Rightarrow> trace_run" where
  "trace_event_step steps entry run =
     (let (expected_sequence, event) = entry;
          arrival =
            (if te_event_id event \<in> tr_event_ids run
             then [TV_DuplicateEventId (te_event_id event)] else [])
          @ (if te_sequence event \<noteq> expected_sequence
             then [TV_NonContiguousEventSequence expected_sequence (te_sequence event)] else []);
          run1 = run\<lparr>tr_event_ids := insert (te_event_id event) (tr_event_ids run),
                     tr_violations := tr_violations run @ arrival\<rparr>
      in case map_of steps (te_step_id event) of
           None \<Rightarrow> run1\<lparr>tr_violations := tr_violations run1 @ [TV_UnknownStep (te_step_id event)]\<rparr>
         | Some step \<Rightarrow>
             run1\<lparr>tr_states := bm_insert (te_step_id event) (next_state (te_status event)) (tr_states run1),
                  tr_violations := tr_violations run1
                    @ (if te_operator_id event \<noteq> ps_operator_id step
                       then [TV_OperatorMismatch (te_step_id event) (te_operator_id event)
                               (ps_operator_id step)] else [])
                    @ validate_capability_token step event
                    @ transition_violations step (tr_states run1)
                        (state_of (tr_states run1) (te_step_id event)) event\<rparr>)"

definition final_violations :: "(string, step_state) bmap \<Rightarrow> plan_step \<Rightarrow> trace_violation list" where
  "final_violations states step =
     (let final_state = state_of states (ps_step_id step) in
      (if final_state = SS_Started then [TV_IncompleteStartedStep (ps_step_id step)] else []) @
      (if ps_mandatory step \<and> final_state \<noteq> SS_Succeeded
       then [TV_MandatoryStepNotSucceeded (ps_step_id step) final_state] else []))"

definition plan_index :: "compiled_plan \<Rightarrow> (string, plan_step) bmap" where
  "plan_index plan = bm_collect (map (\<lambda>step. (ps_step_id step, step)) (cp_steps plan))"

definition trace_start :: "compiled_plan \<Rightarrow> trace_run" where
  "trace_start plan = \<lparr>
     tr_states = bm_collect (map (\<lambda>step. (ps_step_id step, SS_NotStarted)) (cp_steps plan)),
     tr_event_ids = {}, tr_violations = []\<rparr>"

definition replay :: "compiled_plan \<Rightarrow> trace_event list \<Rightarrow> trace_run" where
  "replay plan events = fold (trace_event_step (plan_index plan)) (List.enumerate 0 events) (trace_start plan)"

definition verify_trace :: "compiled_plan \<Rightarrow> trace_event list \<Rightarrow> bool \<Rightarrow> trace_assessment" where
  "verify_trace plan events claimed =
     (let run = replay plan events;
          violations = tr_violations run
            @ concat (map (final_violations (tr_states run)) (cp_steps plan));
          conforms = (violations = [])
      in \<lparr>ta_conforms_to_plan = conforms, ta_claimed_conforms_to_plan = claimed,
          ta_claim_matches = (claimed = conforms), ta_violations = violations\<rparr>)"

section \<open>What a compiled plan guarantees\<close>

interpretation operators: indexing_loop "[]" map_of bm_insert bm_wf
  index_operators_from co_id "\<lambda>operator. operator" "\<lambda>_. Inr ()"
  "\<lambda>operator. PC_DuplicateIdentifier ''operator'' (co_id operator)"
  by unfold_locales simp_all

lemma index_operators_get:
  "index_operators capsule = Inr m \<Longrightarrow>
   map_of m key = Some v \<longleftrightarrow> v \<in> set (cpv_operators capsule) \<and> co_id v = key"
  unfolding index_operators_def by (drule operators.run_get [where k = key and v = v]) auto

definition step_values_unique :: "plan_step \<Rightarrow> bool" where
  "step_values_unique step \<longleftrightarrow>
     distinct (ps_depends_on step) \<and> distinct (ps_input_artifact_ids step) \<and>
     distinct (ps_output_artifact_ids step) \<and> distinct (ps_capability_token_ids step)"

lemma unique_loop_ok:
  "(\<exists>out. try_fold (\<lambda>seen v. if v \<in> seen then Inl (err v) else Inr (insert v seen)) seen xs = Inr out)
   \<longleftrightarrow> distinct xs \<and> seen \<inter> set xs = {}"
  by (induction xs arbitrary: seen) auto

lemma validate_unique_values_ok [result_simps]:
  "validate_unique_values step field xs = Inr u \<longleftrightarrow> distinct xs"
  using unique_loop_ok [of "PC_DuplicateStepValue (ps_step_id step) field" "{}" xs]
  by (auto simp: validate_unique_values_def result_simps)

lemma validate_unique_step_values_ok [result_simps]:
  "validate_unique_step_values step = Inr u \<longleftrightarrow> step_values_unique step"
  by (auto simp: validate_unique_step_values_def step_values_unique_def result_simps)

lemma register_step_ok:
  "register_step (ids, seqs) s = Inr st' \<longleftrightarrow>
     map_of ids (ps_step_id s) = None \<and> ps_sequence s \<notin> seqs \<and> step_values_unique s \<and>
     st' = (bm_insert (ps_step_id s) (ps_sequence s) ids, insert (ps_sequence s) seqs)"
  by (auto simp: register_step_def result_simps)

lemma register_steps_ok:
  assumes "try_fold register_step st steps = Inr st'"
  shows "distinct (map ps_step_id steps)" "\<forall>s\<in>set steps. step_values_unique s"
    "\<forall>s\<in>set steps. map_of (fst st) (ps_step_id s) = None"
    "map_of (fst st') = map_of (fst st) ++ map_of (map (\<lambda>s. (ps_step_id s, ps_sequence s)) steps)"
proof -
  have "distinct (map ps_step_id steps) \<and> (\<forall>s\<in>set steps. step_values_unique s) \<and>
    (\<forall>s\<in>set steps. map_of (fst st) (ps_step_id s) = None) \<and>
    map_of (fst st') = map_of (fst st) ++ map_of (map (\<lambda>s. (ps_step_id s, ps_sequence s)) steps)"
    using assms
  proof (induction steps arbitrary: st)
    case Nil
    then show ?case by simp
  next
    case (Cons s steps)
    obtain ids seqs where st: "st = (ids, seqs)" by fastforce
    have s: "map_of ids (ps_step_id s) = None" "step_values_unique s"
      and rest: "try_fold register_step
        (bm_insert (ps_step_id s) (ps_sequence s) ids, insert (ps_sequence s) seqs) steps = Inr st'"
      using Cons.prems by (auto simp: st register_step_ok and_then_eq_Inr)
    note IH = Cons.IH [OF rest]
    have new: "\<forall>x\<in>set steps. ps_step_id x \<noteq> ps_step_id s \<and> map_of ids (ps_step_id x) = None"
      using IH by (simp add: fun_upd_apply) (metis option.distinct(1))
    then have "map_of (map (\<lambda>s. (ps_step_id s, ps_sequence s)) steps) (ps_step_id s) = None"
      by (auto simp: map_of_eq_None_iff)
    then have eq: "map_of (fst st') = map_of (fst st) ++
        map_of (map (\<lambda>s. (ps_step_id s, ps_sequence s)) (s # steps))"
      using IH by (simp add: st map_add_Cons_fresh del: map_of.simps fun_upd_apply)
    have "distinct (map ps_step_id (s # steps))" "\<forall>x\<in>set (s # steps). step_values_unique x"
      "\<forall>x\<in>set (s # steps). map_of (fst st) (ps_step_id x) = None"
      using IH new s by (auto simp: st)
    with eq show ?case by blast
  qed
  then show "distinct (map ps_step_id steps)" "\<forall>s\<in>set steps. step_values_unique s"
    "\<forall>s\<in>set steps. map_of (fst st) (ps_step_id s) = None"
    "map_of (fst st') = map_of (fst st) ++ map_of (map (\<lambda>s. (ps_step_id s, ps_sequence s)) steps)"
    by blast+
qed

lemma registered_sequence:
  assumes "try_fold register_step ([], {}) steps = Inr (ids, seqs)"
  shows "map_of ids key = Some n \<longleftrightarrow> (\<exists>s\<in>set steps. ps_step_id s = key \<and> ps_sequence s = n)"
proof -
  have d: "distinct (map fst (map (\<lambda>s. (ps_step_id s, ps_sequence s)) steps))"
    using register_steps_ok(1) [OF assms] by (simp add: comp_def)
  show ?thesis
    using register_steps_ok(4) [OF assms] d by (auto simp: image_iff)
qed

text \<open>
  The specification of the compiler: the steps are numbered from zero in list order, each
  dependency stands earlier in the list, and each step runs an operator that the capsule
  allows for the job type, in the capsule's version.
\<close>

definition plan_ordered :: "plan_step list \<Rightarrow> bool" where
  "plan_ordered steps \<longleftrightarrow>
     distinct (map ps_step_id steps) \<and>
     map ps_sequence steps = [0..<length steps] \<and>
     (\<forall>i<length steps. \<forall>d\<in>set (ps_depends_on (steps ! i)). \<exists>j<i. ps_step_id (steps ! j) = d) \<and>
     (\<forall>s\<in>set steps. \<forall>r. ps_rollback_step_id s = Some r \<longrightarrow> r \<in> ps_step_id ` set steps) \<and>
     (\<forall>s\<in>set steps. step_values_unique s) \<and>
     (\<exists>s\<in>set steps. ps_mandatory s)"

definition step_permitted :: "capsule_plan_view \<Rightarrow> string \<Rightarrow> plan_step \<Rightarrow> bool" where
  "step_permitted capsule job s \<longleftrightarrow>
     (\<exists>jt\<in>set (cpv_job_types capsule). cj_id jt = job \<and> ps_operator_id s \<in> set (cj_operator_ids jt)) \<and>
     (\<exists>o'\<in>set (cpv_operators capsule). co_id o' = ps_operator_id s \<and> co_version o' = ps_operator_version s)"

lemma check_step_ok:
  "check_step allowed operators ids (n, s) = Inr u \<longleftrightarrow>
     ps_sequence s = n \<and> ps_operator_id s \<in> allowed \<and>
     (\<exists>o'. map_of operators (ps_operator_id s) = Some o' \<and> ps_operator_version s = co_version o') \<and>
     (\<forall>d\<in>set (ps_depends_on s). \<exists>m. map_of ids d = Some m \<and> m < ps_sequence s) \<and>
     (\<forall>r. ps_rollback_step_id s = Some r \<longrightarrow> map_of ids r \<noteq> None)"
  by (simp add: check_step_def check_dependency_def result_simps bm_contains_key_def not_le
      del: bm_contains_key_iff split: option.split) blast

lemma checked_steps_ordered:
  assumes reg: "try_fold register_step ([], {}) steps = Inr (ids, seqs)"
    and chk: "\<forall>e\<in>set (List.enumerate 0 arranged). check_step allowed operators ids e = Inr ()"
    and arranged: "arranged = sort_key ps_sequence steps" and mand: "list_ex ps_mandatory arranged"
  shows "plan_ordered arranged"
proof -
  have nth: "check_step allowed operators ids (i, arranged ! i) = Inr ()" if "i < length arranged" for i
    using chk that by (auto simp: in_set_enumerate_eq)
  have seq: "ps_sequence (arranged ! i) = i" if "i < length arranged" for i
    using nth [OF that] by (simp add: check_step_ok)
  have sets: "set arranged = set steps" by (simp add: arranged)
  have "\<exists>j<i. ps_step_id (arranged ! j) = d"
    if i: "i < length arranged" and d: "d \<in> set (ps_depends_on (arranged ! i))" for i d
  proof -
    obtain m where m: "map_of ids d = Some m" "m < i"
      using nth [OF i] d seq [OF i] by (auto simp: check_step_ok)
    then obtain s where "s \<in> set steps" "ps_step_id s = d" "ps_sequence s = m"
      using registered_sequence [OF reg] by blast
    moreover from this obtain j where "j < length arranged" "arranged ! j = s"
      using sets by (metis in_set_conv_nth)
    ultimately have "j < i \<and> ps_step_id (arranged ! j) = d" using seq [of j] m(2) by simp
    then show ?thesis by blast
  qed
  moreover have "r \<in> ps_step_id ` set arranged"
    if s: "s \<in> set arranged" "ps_rollback_step_id s = Some r" for s r
  proof -
    obtain i where "i < length arranged" "s = arranged ! i" using s(1) by (metis in_set_conv_nth)
    then obtain m where "map_of ids r = Some m" using nth [of i] s(2) by (auto simp: check_step_ok)
    then show ?thesis using registered_sequence [OF reg] sets by auto
  qed
  moreover have "map ps_sequence arranged = [0..<length arranged]"
    using seq by (auto intro: nth_equalityI)
  moreover have "distinct (map ps_step_id arranged)"
    using register_steps_ok(1) [OF reg] by (simp add: arranged)
  ultimately show ?thesis
    using register_steps_ok(2) [OF reg] mand sets by (auto simp: plan_ordered_def list_ex_iff)
qed

lemma compile_plan_ok:
  assumes "compile_plan H codec plan_value capsule_value compiled = Inr cplan"
  obtains plan capsule where "decode_plan codec plan_value = Inr plan"
    "decode_plan_view codec capsule_value = Inr capsule"
    "plan_ordered (cp_steps cplan)" "mset (cp_steps cplan) = mset (op_steps plan)"
    "\<forall>s\<in>set (cp_steps cplan). step_permitted capsule (cc_job_type compiled) s"
    "validate_bindings plan capsule compiled = Inr ()"
    "cp_contract_digest cplan = seal_contract_digest (cc_seal compiled)"
    "cp_capsule_digest cplan = seal_capsule_digest (cc_seal compiled)"
    "canonical_json_sha256 H plan_value = Inr (cp_plan_digest cplan)"
proof -
  obtain plan capsule operators job_type ids seqs dig where dec: "decode_plan codec plan_value = Inr plan"
    "decode_plan_view codec capsule_value = Inr capsule"
    and bind: "validate_bindings plan capsule compiled = Inr ()"
    and ops: "index_operators capsule = Inr operators"
    and jt: "find (\<lambda>job_type. cj_id job_type = cc_job_type compiled) (cpv_job_types capsule) = Some job_type"
    and reg: "try_fold register_step ([], {}) (op_steps plan) = Inr (ids, seqs)"
    and chk: "\<forall>e\<in>set (List.enumerate 0 (sort_key ps_sequence (op_steps plan))).
        check_step (set (cj_operator_ids job_type)) operators ids e = Inr ()"
    and mand: "list_ex ps_mandatory (sort_key ps_sequence (op_steps plan))"
    and dig: "canonical_json_sha256 H plan_value = Inr dig"
    and cplan: "cplan = \<lparr>cp_plan_id = op_plan_id plan, cp_plan_digest = dig,
       cp_contract_digest = seal_contract_digest (cc_seal compiled),
       cp_capsule_digest = seal_capsule_digest (cc_seal compiled),
       cp_steps = sort_key ps_sequence (op_steps plan)\<rparr>"
    using assms by (clarsimp simp: compile_plan_def result_simps Let_def split: prod.splits)
  have steps: "cp_steps cplan = sort_key ps_sequence (op_steps plan)" by (simp add: cplan)
  have "step_permitted capsule (cc_job_type compiled) s" if s: "s \<in> set (cp_steps cplan)" for s
  proof -
    obtain i where "i < length (cp_steps cplan)" "s = cp_steps cplan ! i"
      using s by (metis in_set_conv_nth)
    then have "check_step (set (cj_operator_ids job_type)) operators ids (i, s) = Inr ()"
      using chk by (auto simp: steps in_set_enumerate_eq)
    moreover have "job_type \<in> set (cpv_job_types capsule)" "cj_id job_type = cc_job_type compiled"
      using jt by (auto simp: find_Some_iff)
    ultimately show ?thesis
      using index_operators_get [OF ops] by (auto simp: step_permitted_def check_step_ok)
  qed
  moreover have "plan_ordered (cp_steps cplan)"
    using checked_steps_ordered [OF reg chk refl mand] by (simp add: steps)
  ultimately show ?thesis
    using dec bind dig by (intro that) (auto simp: cplan)
qed

section \<open>The step automaton\<close>

text \<open>
  The specification of the verifier: an event is legal after a history of events if it
  carries the next sequence number and a new identifier, names a step of the plan with the
  planned operator and a planned capability token, and is an allowed move of that step.
  Failure and roll-back are never part of a conforming run.
\<close>

definition token_legal :: "plan_step \<Rightarrow> string option \<Rightarrow> bool" where
  "token_legal step token \<longleftrightarrow>
     (case token of None \<Rightarrow> ps_capability_token_ids step = []
      | Some t \<Rightarrow> t \<in> set (ps_capability_token_ids step))"

definition move_legal ::
    "(string \<rightharpoonup> step_state) \<Rightarrow> plan_step \<Rightarrow> trace_status \<Rightarrow> bool" where
  "move_legal states step status \<longleftrightarrow>
     (case status of
        TS_Started \<Rightarrow> states (ps_step_id step) = Some SS_NotStarted \<and>
          (\<forall>d\<in>set (ps_depends_on step). states d = Some SS_Succeeded)
      | TS_Succeeded \<Rightarrow> states (ps_step_id step) = Some SS_Started
      | TS_Skipped \<Rightarrow> states (ps_step_id step) = Some SS_NotStarted \<and> \<not> ps_mandatory step
      | _ \<Rightarrow> False)"

inductive conforming ::
    "plan_step list \<Rightarrow> trace_event list \<Rightarrow> (string \<rightharpoonup> step_state) \<Rightarrow> bool"
  for steps where
  start: "conforming steps [] (map_of (map (\<lambda>s. (ps_step_id s, SS_NotStarted)) steps))"
| move: "conforming steps events states \<Longrightarrow>
    te_event_id e \<notin> te_event_id ` set events \<Longrightarrow> te_sequence e = length events \<Longrightarrow>
    s \<in> set steps \<Longrightarrow> ps_step_id s = te_step_id e \<Longrightarrow> te_operator_id e = ps_operator_id s \<Longrightarrow>
    token_legal s (te_capability_token_id e) \<Longrightarrow> move_legal states s (te_status e) \<Longrightarrow>
    conforming steps (events @ [e]) (states(te_step_id e \<mapsto> next_state (te_status e)))"

inductive_cases conforming_snocE: "conforming steps (events @ [e]) states"

lemma validate_capability_token_Nil [simp]:
  "validate_capability_token step e = [] \<longleftrightarrow> token_legal step (te_capability_token_id e)"
  by (simp add: validate_capability_token_def token_legal_def split: option.split)

lemma transition_violations_Nil:
  assumes "ps_step_id step = te_step_id e" "te_step_id e \<in> dom (map_of states)"
  shows "transition_violations step states (state_of states (te_step_id e)) e = [] \<longleftrightarrow>
    move_legal (map_of states) step (te_status e)"
  using assms
  by (auto simp: transition_violations_def move_legal_def state_of_def filter_empty_conv
      split: trace_status.split)

lemma plan_index_get:
  assumes "distinct (map ps_step_id (cp_steps plan))"
  shows "map_of (plan_index plan) key = Some s \<longleftrightarrow> s \<in> set (cp_steps plan) \<and> ps_step_id s = key"
proof -
  have d: "distinct (map fst (map (\<lambda>s. (ps_step_id s, s)) (cp_steps plan)))"
    using assms by (simp add: comp_def)
  show ?thesis using d by (auto simp: plan_index_def map_of_bm_collect map_of_rev_distinct image_iff)
qed

lemma replay_snoc:
  "replay plan (events @ [e]) = trace_event_step (plan_index plan) (length events, e) (replay plan events)"
  by (simp add: replay_def enumerate_append_eq)

lemma trace_event_step_sel:
  "tr_event_ids (trace_event_step steps (n, e) run) = insert (te_event_id e) (tr_event_ids run)"
  "tr_states (trace_event_step steps (n, e) run) =
     (if map_of steps (te_step_id e) = None then tr_states run
      else bm_insert (te_step_id e) (next_state (te_status e)) (tr_states run))"
  "tr_violations (trace_event_step steps (n, e) run) = [] \<longleftrightarrow>
     tr_violations run = [] \<and> te_event_id e \<notin> tr_event_ids run \<and> te_sequence e = n \<and>
     (\<exists>s. map_of steps (te_step_id e) = Some s \<and> te_operator_id e = ps_operator_id s \<and>
        token_legal s (te_capability_token_id e) \<and>
        transition_violations s (tr_states run) (state_of (tr_states run) (te_step_id e)) e = [])"
  by (auto simp: trace_event_step_def Let_def split: option.splits)

lemma replay_event_ids [simp]: "tr_event_ids (replay plan events) = te_event_id ` set events"
  by (induction events rule: rev_induct)
    (auto simp: replay_snoc trace_event_step_sel, simp_all add: replay_def trace_start_def)

lemma replay_start:
  assumes "distinct (map ps_step_id (cp_steps plan))"
  shows "map_of (tr_states (replay plan [])) = map_of (map (\<lambda>s. (ps_step_id s, SS_NotStarted)) (cp_steps plan))"
    "tr_violations (replay plan []) = []"
  using assms
  by (simp_all add: replay_def trace_start_def map_of_bm_collect map_of_rev_distinct comp_def)

lemma replay_dom:
  assumes d: "distinct (map ps_step_id (cp_steps plan))"
  shows "dom (map_of (tr_states (replay plan events))) = ps_step_id ` set (cp_steps plan)"
proof (induction events rule: rev_induct)
  case Nil
  then show ?case using replay_start(1) [OF d] by (simp add: dom_map_of_conv_image_fst image_image)
next
  case (snoc e events)
  have "te_step_id e \<in> ps_step_id ` set (cp_steps plan)" if "map_of (plan_index plan) (te_step_id e) \<noteq> None"
    using that plan_index_get [OF d] by force
  then have "dom (map_of (tr_states (replay plan (events @ [e])))) =
      dom (map_of (tr_states (replay plan events))) \<union>
      ({te_step_id e} \<inter> ps_step_id ` set (cp_steps plan))"
    using snoc by (simp add: replay_snoc trace_event_step_sel insert_absorb)
  then show ?case unfolding snoc by auto
qed

lemma replay_move:
  assumes d: "distinct (map ps_step_id (cp_steps plan))"
    and s: "s \<in> set (cp_steps plan)" "ps_step_id s = te_step_id e"
  shows "map_of (tr_states (replay plan (events @ [e]))) =
      (map_of (tr_states (replay plan events)))(te_step_id e \<mapsto> next_state (te_status e))"
    and "tr_violations (replay plan (events @ [e])) = [] \<longleftrightarrow>
      tr_violations (replay plan events) = [] \<and> te_event_id e \<notin> te_event_id ` set events \<and>
      te_sequence e = length events \<and> te_operator_id e = ps_operator_id s \<and>
      token_legal s (te_capability_token_id e) \<and>
      move_legal (map_of (tr_states (replay plan events))) s (te_status e)"
proof -
  let ?states = "tr_states (replay plan events)"
  have at: "map_of (plan_index plan) (te_step_id e) = Some s"
    using s plan_index_get [OF d] by blast
  have "te_step_id e \<in> dom (map_of ?states)"
    unfolding replay_dom [OF d] using s by force
  then have "transition_violations s ?states (state_of ?states (te_step_id e)) e = [] \<longleftrightarrow>
      move_legal (map_of ?states) s (te_status e)"
    by (rule transition_violations_Nil [OF s(2)])
  then show "tr_violations (replay plan (events @ [e])) = [] \<longleftrightarrow>
      tr_violations (replay plan events) = [] \<and> te_event_id e \<notin> te_event_id ` set events \<and>
      te_sequence e = length events \<and> te_operator_id e = ps_operator_id s \<and>
      token_legal s (te_capability_token_id e) \<and>
      move_legal (map_of ?states) s (te_status e)"
    unfolding replay_snoc trace_event_step_sel replay_event_ids at by simp
  show "map_of (tr_states (replay plan (events @ [e]))) =
      (map_of ?states)(te_step_id e \<mapsto> next_state (te_status e))"
    by (simp add: replay_snoc trace_event_step_sel at)
qed

lemma conforming_replay:
  assumes d: "distinct (map ps_step_id (cp_steps plan))"
    and "conforming (cp_steps plan) events states"
  shows "tr_violations (replay plan events) = [] \<and> map_of (tr_states (replay plan events)) = states"
  using assms(2)
proof (induction rule: conforming.induct)
  case start
  then show ?case using replay_start [OF d] by simp
next
  case (move events states e s)
  then show ?case using replay_move [OF d move.hyps(4,5)] by simp
qed

lemma replay_conforming:
  assumes d: "distinct (map ps_step_id (cp_steps plan))" and "tr_violations (replay plan events) = []"
  shows "conforming (cp_steps plan) events (map_of (tr_states (replay plan events)))"
  using assms(2)
proof (induction events rule: rev_induct)
  case Nil
  then show ?case using replay_start [OF d] conforming.start by metis
next
  case (snoc e events)
  obtain s where s: "s \<in> set (cp_steps plan)" "ps_step_id s = te_step_id e"
    using snoc.prems plan_index_get [OF d] unfolding replay_snoc trace_event_step_sel by blast
  note m = replay_move [OF d s, of events]
  show ?case
    unfolding m(1) using m(2) snoc s by (intro conforming.move [of _ _ _ _ s]) simp_all
qed

text \<open>The final pass: nothing is left open and every mandatory step has succeeded.\<close>

definition finished :: "plan_step list \<Rightarrow> (string \<rightharpoonup> step_state) \<Rightarrow> bool" where
  "finished steps states \<longleftrightarrow>
     (\<forall>s\<in>set steps. states (ps_step_id s) \<noteq> Some SS_Started \<and>
        (ps_mandatory s \<longrightarrow> states (ps_step_id s) = Some SS_Succeeded))"

lemma final_violations_Nil:
  "ps_step_id s \<in> dom (map_of states) \<Longrightarrow> final_violations states s = [] \<longleftrightarrow>
   map_of states (ps_step_id s) \<noteq> Some SS_Started \<and>
   (ps_mandatory s \<longrightarrow> map_of states (ps_step_id s) = Some SS_Succeeded)"
  by (auto simp: final_violations_def state_of_def split: if_splits)

lemma verify_trace_conforms_iff:
  assumes d: "distinct (map ps_step_id (cp_steps plan))"
  shows "ta_conforms_to_plan (verify_trace plan events claimed) \<longleftrightarrow>
    (\<exists>states. conforming (cp_steps plan) events states \<and> finished (cp_steps plan) states)"
proof -
  let ?states = "map_of (tr_states (replay plan events))"
  have "ps_step_id s \<in> dom ?states" if "s \<in> set (cp_steps plan)" for s
    using that replay_dom [OF d] by simp
  then have fin: "concat (map (final_violations (tr_states (replay plan events))) (cp_steps plan)) = [] \<longleftrightarrow>
      finished (cp_steps plan) ?states"
    by (simp add: finished_def final_violations_Nil)
  have "ta_conforms_to_plan (verify_trace plan events claimed) \<longleftrightarrow>
      tr_violations (replay plan events) = [] \<and> finished (cp_steps plan) ?states"
    using fin by (simp add: verify_trace_def Let_def)
  then show ?thesis
    using conforming_replay [OF d] replay_conforming [OF d] by metis
qed

section \<open>The history of a conforming run\<close>

definition step_history :: "trace_event list \<Rightarrow> string \<Rightarrow> trace_status list" where
  "step_history events step_id = map te_status (filter (\<lambda>e. te_step_id e = step_id) events)"

text \<open>The state of a step tells the whole history of its events.\<close>

definition history_state :: "trace_status list \<Rightarrow> step_state \<Rightarrow> bool" where
  "history_state h st \<longleftrightarrow>
     st = SS_NotStarted \<and> h = [] \<or> st = SS_Started \<and> h = [TS_Started] \<or>
     st = SS_Succeeded \<and> h = [TS_Started, TS_Succeeded] \<or> st = SS_Skipped \<and> h = [TS_Skipped]"

lemma step_history_snoc:
  "step_history (events @ [e]) step_id =
     step_history events step_id @ (if te_step_id e = step_id then [te_status e] else [])"
  by (simp add: step_history_def)

lemma conforming_history:
  assumes "conforming steps events states" "states step_id = Some st"
  shows "history_state (step_history events step_id) st"
  using assms
proof (induction arbitrary: st rule: conforming.induct)
  case start
  then have "st = SS_NotStarted" by (auto dest!: map_of_SomeD)
  then show ?case by (simp add: history_state_def step_history_def)
next
  case (move events states e s)
  show ?case
  proof (cases "te_step_id e = step_id")
    case True
    then have st: "st = next_state (te_status e)" using move.prems by simp
    show ?thesis
      using move.hyps(5,8) move.IH [of SS_NotStarted] move.IH [of SS_Started] True
      by (auto simp: st step_history_snoc move_legal_def history_state_def split: trace_status.splits)
  next
    case False
    then show ?thesis using move.prems move.IH by (simp add: step_history_snoc)
  qed
qed

lemma history_succeeded:
  assumes "conforming steps events states" "states step_id = Some SS_Succeeded"
  shows "\<exists>j<length events. te_step_id (events ! j) = step_id \<and> te_status (events ! j) = TS_Succeeded"
proof -
  have "TS_Succeeded \<in> set (step_history events step_id)"
    using conforming_history [OF assms] by (auto simp: history_state_def)
  then show ?thesis by (auto simp: step_history_def in_set_conv_nth)
qed

lemma conforming_dependencies:
  assumes "conforming steps events states" and d: "distinct (map ps_step_id steps)"
    and "i < length events" "te_status (events ! i) = TS_Started"
    and s: "s \<in> set steps" "ps_step_id s = te_step_id (events ! i)" and dep: "d \<in> set (ps_depends_on s)"
  shows "\<exists>j<i. te_step_id (events ! j) = d \<and> te_status (events ! j) = TS_Succeeded"
  using assms(1,3-6)
proof (induction rule: conforming.induct)
  case start
  then show ?case by simp
next
  case (move events states e s')
  show ?case
  proof (cases "i < length events")
    case True
    with move.prems have "\<exists>j<i. te_step_id (events ! j) = d \<and> te_status (events ! j) = TS_Succeeded"
      by (intro move.IH) (simp_all add: nth_append)
    then obtain j where "j < i" "te_step_id (events ! j) = d" "te_status (events ! j) = TS_Succeeded" by blast
    then show ?thesis using True by (intro exI [of _ j]) (simp add: nth_append)
  next
    case False
    then have i: "i = length events" using move.prems by simp
    then have "s' = s" using move.prems move.hyps d s(1) by (auto simp: distinct_map inj_on_def)
    moreover have "te_status e = TS_Started" using move.prems i by simp
    ultimately have "states d = Some SS_Succeeded"
      using move.hyps(8) dep by (simp add: move_legal_def)
    then show ?thesis using history_succeeded [OF move.hyps(1)] i by (auto simp: nth_append)
  qed
qed

lemma conforming_sequence:
  "conforming steps events states \<Longrightarrow> map te_sequence events = [0..<length events]"
  by (induction rule: conforming.induct) simp_all

lemma conforming_event_ids: "conforming steps events states \<Longrightarrow> distinct (map te_event_id events)"
  by (induction rule: conforming.induct) auto

lemma conforming_tokens:
  "conforming steps events states \<Longrightarrow> e \<in> set events \<Longrightarrow>
   \<exists>s\<in>set steps. ps_step_id s = te_step_id e \<and> te_operator_id e = ps_operator_id s \<and>
     token_legal s (te_capability_token_id e)"
  by (induction rule: conforming.induct) auto

section \<open>Properties\<close>

text \<open>A plan of two steps, the second depending on the first, and a trace of a full run.\<close>

definition demo_plan :: operator_plan where
  "demo_plan = \<lparr>op_schema_version = ''0.1.0'', op_plan_id = ''p1'', op_created_at = ''t'',
     op_bindings = \<lparr>pb_contract = \<lparr>dr_id = ''k1'', dr_algorithm = ''sha256'', dr_digest = demo_digest, dr_uri = None\<rparr>,
       pb_profession_capsule = \<lparr>dr_id = ''cap'', dr_algorithm = ''sha256'', dr_digest = demo_digest, dr_uri = None\<rparr>,
       pb_policy_snapshot = None\<rparr>,
     op_steps = [
       \<lparr>ps_step_id = ''s2'', ps_sequence = 1, ps_operator_id = ''f'', ps_operator_version = ''1'',
        ps_depends_on = [''s1''], ps_input_artifact_ids = [], ps_output_artifact_ids = [],
        ps_capability_token_ids = [], ps_mandatory = False, ps_rollback_step_id = Some ''s1''\<rparr>,
       \<lparr>ps_step_id = ''s1'', ps_sequence = 0, ps_operator_id = ''f'', ps_operator_version = ''1'',
        ps_depends_on = [], ps_input_artifact_ids = [], ps_output_artifact_ids = [],
        ps_capability_token_ids = [''tok''], ps_mandatory = True, ps_rollback_step_id = None\<rparr>]\<rparr>"

definition demo_plan_codec :: plan_codec where
  "demo_plan_codec = \<lparr>decode_plan = (\<lambda>_. Inr demo_plan), decode_plan_view = (\<lambda>_. Inr \<lparr>cpv_capsule_id = ''cap'',
     cpv_operators = [\<lparr>co_id = ''f'', co_version = ''1''\<rparr>],
     cpv_job_types = [\<lparr>cj_id = ''job'', cj_operator_ids = [''f'']\<rparr>]\<rparr>)\<rparr>"

definition demo_compiled_plan :: compiled_plan where
  "demo_compiled_plan = \<lparr>cp_plan_id = ''p1'', cp_plan_digest = demo_digest, cp_contract_digest = demo_digest,
     cp_capsule_digest = demo_digest, cp_steps = rev (op_steps demo_plan)\<rparr>"

definition demo_event :: "nat \<Rightarrow> string \<Rightarrow> trace_status \<Rightarrow> string option \<Rightarrow> trace_event" where
  "demo_event n step st tok = \<lparr>te_event_id = replicate (Suc n) (CHR ''e''), te_step_id = step, te_sequence = n,
     te_timestamp = ''t'', te_operator_id = ''f'', te_status = st, te_input_digests = [],
     te_output_digests = [], te_capability_token_id = tok\<rparr>"

definition demo_trace :: "trace_event list" where
  "demo_trace = [demo_event 0 ''s1'' TS_Started (Some ''tok''), demo_event 1 ''s1'' TS_Succeeded (Some ''tok''),
     demo_event 2 ''s2'' TS_Started None, demo_event 3 ''s2'' TS_Succeeded None]"

lemma demo_plan_compiles:
  "compile_plan demo_hasher demo_plan_codec JNull JNull demo_compiled = Inr demo_compiled_plan"
  by code_simp

lemma demo_trace_conforms: "ta_conforms_to_plan (verify_trace demo_compiled_plan demo_trace True)"
  by code_simp

lemma conforming_dom:
  "conforming steps events states \<Longrightarrow> s \<in> set steps \<Longrightarrow> \<exists>st. states (ps_step_id s) = Some st"
proof (induction rule: conforming.induct)
  case start
  then have "ps_step_id s \<in> fst ` set (map (\<lambda>s. (ps_step_id s, SS_NotStarted)) steps)" by force
  then show ?case by (metis map_of_eq_None_iff option.exhaust)
qed auto

text \<open>
  A plan that compiles lists exactly the steps of the submitted plan, numbered 0, 1, 2, ...
  with distinct identifiers, each depending only on earlier steps and rolling back only to
  steps of the plan; every step uses an operator that the capsule defines, in its version,
  and allows for the job type; some step is mandatory; and the plan is bound to the
  identifiers and digests of the compiled contract and its capsule.
\<close>

lemma compiled_plan_sound:
  assumes "compile_plan H codec plan_value capsule_value compiled = Inr cplan"
  shows "\<exists>plan capsule. decode_plan codec plan_value = Inr plan \<and> decode_plan_view codec capsule_value = Inr capsule \<and>
    mset (cp_steps cplan) = mset (op_steps plan) \<and> plan_ordered (cp_steps cplan) \<and>
    (\<forall>s\<in>set (cp_steps cplan). step_permitted capsule (cc_job_type compiled) s) \<and>
    validate_bindings plan capsule compiled = Inr () \<and>
    cp_contract_digest cplan = seal_contract_digest (cc_seal compiled) \<and>
    cp_capsule_digest cplan = seal_capsule_digest (cc_seal compiled) \<and>
    canonical_json_sha256 H plan_value = Inr (cp_plan_digest cplan)"
  using assms by (rule compile_plan_ok) blast

text \<open>
  C6: for a compiled plan, the verifier reports conformance exactly if the events are a run
  of the step automaton (legal transition, finished dependencies, planned operator, permitted
  token, fresh event identifier, contiguous numbering) that leaves no step started and every
  mandatory step succeeded.
\<close>

theorem conformance_is_automaton_run:
  assumes "compile_plan H codec plan_value capsule_value compiled = Inr cplan"
  shows "ta_conforms_to_plan (verify_trace cplan events claimed) \<longleftrightarrow>
    (\<exists>states. conforming (cp_steps cplan) events states \<and> finished (cp_steps cplan) states)"
  using assms by (rule compile_plan_ok) (auto simp: plan_ordered_def intro!: verify_trace_conforms_iff)

theorem conformance_is_automaton_run_witness:
  "\<exists>states. conforming (cp_steps demo_compiled_plan) demo_trace states \<and>
     finished (cp_steps demo_compiled_plan) states"
  using conformance_is_automaton_run [OF demo_plan_compiles] demo_trace_conforms by blast

text \<open>
  In a trace that conforms to a compiled plan the events are numbered contiguously with
  distinct identifiers; every mandatory step was started once and then succeeded, every other
  step did that, was skipped or never ran; and whenever a step is started, each step it
  depends on has succeeded before.
\<close>

lemma conforming_trace_history:
  assumes "compile_plan H codec plan_value capsule_value compiled = Inr cplan"
    "ta_conforms_to_plan (verify_trace cplan events claimed)"
  shows "map te_sequence events = [0..<length events] \<and> distinct (map te_event_id events) \<and>
    (\<forall>s\<in>set (cp_steps cplan).
       step_history events (ps_step_id s) = [TS_Started, TS_Succeeded] \<or>
       \<not> ps_mandatory s \<and> step_history events (ps_step_id s) \<in> {[], [TS_Skipped]}) \<and>
    (\<forall>i<length events. \<forall>s\<in>set (cp_steps cplan). \<forall>d\<in>set (ps_depends_on s).
       te_status (events ! i) = TS_Started \<and> ps_step_id s = te_step_id (events ! i) \<longrightarrow>
       (\<exists>j<i. te_step_id (events ! j) = d \<and> te_status (events ! j) = TS_Succeeded))"
proof -
  have ord: "plan_ordered (cp_steps cplan)" using assms(1) by (rule compile_plan_ok)
  then have d: "distinct (map ps_step_id (cp_steps cplan))" by (simp add: plan_ordered_def)
  obtain states where st: "conforming (cp_steps cplan) events states" "finished (cp_steps cplan) states"
    using assms(2) verify_trace_conforms_iff [OF d] by blast
  have "step_history events (ps_step_id s) = [TS_Started, TS_Succeeded] \<or>
       \<not> ps_mandatory s \<and> step_history events (ps_step_id s) \<in> {[], [TS_Skipped]}"
    if mem: "s \<in> set (cp_steps cplan)" for s
  proof -
    obtain x where x: "states (ps_step_id s) = Some x" using conforming_dom [OF st(1) mem] by blast
    then have "x \<noteq> SS_Started" "ps_mandatory s \<longrightarrow> x = SS_Succeeded"
      using st(2) mem by (auto simp: finished_def)
    with conforming_history [OF st(1) x] show ?thesis by (auto simp: history_state_def)
  qed
  then show ?thesis
    using conforming_sequence [OF st(1)] conforming_event_ids [OF st(1)] conforming_dependencies [OF st(1) d]
    by blast
qed

end
