(* ===== verification/Crypto.thy ===== *)
theory Crypto
  imports Json
begin

text \<open>
  What the components share around signatures: the third-party operations as arguments,
  and the hexadecimal codec of \<^verbatim>\<open>crates/windows-signer-protocol-runtime\<close>.
  The record \<open>ed25519\<close> stands for \<^verbatim>\<open>ed25519-dalek\<close>; a verifying key and a
  signature are named by their bytes (\<^verbatim>\<open>to_bytes\<close>). The record \<open>base64\<close> stands for
  \<^verbatim>\<open>URL_SAFE_NO_PAD\<close> of the \<^verbatim>\<open>base64\<close> crate. What a theorem relies
  on is one of the named hypotheses below, each the documented behaviour of the crate.
\<close>

section \<open>Third-party operations\<close>

record ed25519 =
  vk_from_bytes :: "u8 list \<Rightarrow> u8 list option"
  sig_from_slice :: "u8 list \<Rightarrow> u8 list option"
  sig_verify :: "u8 list \<Rightarrow> u8 list \<Rightarrow> u8 list \<Rightarrow> bool"
  sig_verify_strict :: "u8 list \<Rightarrow> u8 list \<Rightarrow> u8 list \<Rightarrow> bool"
  sk_public :: "u8 list \<Rightarrow> u8 list"
  sk_sign :: "u8 list \<Rightarrow> u8 list \<Rightarrow> u8 list"

record base64 =
  b64_encode :: "u8 list \<Rightarrow> string"
  b64_decode :: "string \<Rightarrow> u8 list option"

text \<open>A signature made with a key verifies under its public key.\<close>

definition signatures_verify :: "ed25519 \<Rightarrow> bool" where
  "signatures_verify C \<longleftrightarrow>
     (\<forall>sk m. sig_verify C (sk_public C sk) m (sk_sign C sk m) \<and>
        sig_verify_strict C (sk_public C sk) m (sk_sign C sk m) \<and>
        sig_from_slice C (sk_sign C sk m) = Some (sk_sign C sk m))"

definition base64_inverse :: "base64 \<Rightarrow> bool" where
  "base64_inverse B \<longleftrightarrow> (\<forall>bytes. b64_decode B (b64_encode B bytes) = Some bytes)"

section \<open>Hexadecimal\<close>

definition HEX :: string where
  "HEX = ''0123456789abcdef''"

definition encode_hex :: "u8 list \<Rightarrow> string" where
  "encode_hex bytes = concat (map (\<lambda>byte.
     [HEX ! unat (drop_bit 4 byte), HEX ! unat (and byte 0x0f)]) bytes)"

datatype (plugins only: code size) hex_error = InvalidHexEncoding

definition char_byte :: "char \<Rightarrow> u8" where
  "char_byte c = of_nat (of_char c)"

definition decode_nibble :: "u8 \<Rightarrow> hex_error + u8" where
  "decode_nibble v =
     (if 48 \<le> v \<and> v \<le> 57 then Inr (v - 48)
      else if 97 \<le> v \<and> v \<le> 102 then Inr (v - 97 + 10)
      else Inl InvalidHexEncoding)"

fun decode_hex_pairs :: "string \<Rightarrow> hex_error + u8 list" where
  "decode_hex_pairs (a # b # s) =
     and_then (decode_nibble (char_byte a)) (\<lambda>high.
     and_then (decode_nibble (char_byte b)) (\<lambda>low.
     and_then (decode_hex_pairs s) (\<lambda>rest.
     Inr (or (push_bit 4 high) low # rest))))"
| "decode_hex_pairs _ = Inr []"

definition decode_hex_32 :: "string \<Rightarrow> hex_error + u8 list" where
  "decode_hex_32 v =
     and_then (ensure (length v = 64) InvalidHexEncoding) (\<lambda>_. decode_hex_pairs v)"

definition is_sha256 :: "string \<Rightarrow> bool" where
  "is_sha256 v \<longleftrightarrow> length v = 64 \<and> list_all is_lower_hex v"

section \<open>The codec is exact\<close>

lemma HEX_nth: "n < 16 \<Longrightarrow> HEX ! n = char_of (if n < 10 then 48 + n else 87 + n)"
proof -
  have "\<forall>n\<in>set [0..<16]. HEX ! n = char_of (if n < 10 then 48 + n else 87 + n)"
    unfolding HEX_def by code_simp
  then show "n < 16 \<Longrightarrow> ?thesis" by auto
qed

lemma decode_nibble_HEX:
  assumes "n < 16"
  shows "decode_nibble (char_byte (HEX ! n)) = Inr (of_nat n)"
proof -
  have "\<forall>n\<in>set [0..<16]. decode_nibble (char_byte (HEX ! n)) = Inr (of_nat n)"
    unfolding HEX_def by code_simp
  with assms show ?thesis by auto
qed

lemma is_lower_hex_HEX:
  assumes "n < 16"
  shows "is_lower_hex (HEX ! n)"
proof -
  have "\<forall>n\<in>set [0..<16]. is_lower_hex (HEX ! n)"
    unfolding HEX_def by code_simp
  with assms show ?thesis by auto
qed

lemma high_nibble: "unat (drop_bit 4 (b :: u8)) < 16"
proof -
  have "unat (drop_bit 4 b) = unat b div 16" by (simp add: drop_bit_eq_div unat_div_distrib)
  moreover have "unat b < 256" using unsigned_less [of b] by simp
  ultimately show ?thesis by simp
qed

lemma low_nibble: "unat (and (b :: u8) 0x0f) < 16"
proof -
  have "and b 0x0f = take_bit 4 b" by (simp add: take_bit_eq_mask mask_eq_exp_minus_1)
  then have "unat (and b 0x0f) = unat b mod 16" by (simp add: take_bit_eq_mod unat_mod_distrib)
  then show ?thesis by simp
qed

lemma join_nibbles: "or (push_bit 4 (drop_bit 4 b)) (and b 0x0f) = (b :: u8)"
proof -
  have "and b 0x0f = take_bit 4 b" by (simp add: take_bit_eq_mask mask_eq_exp_minus_1)
  then show ?thesis
    by (auto intro!: bit_eqI simp: bit_or_iff bit_push_bit_iff bit_drop_bit_eq bit_take_bit_iff)
qed

lemma decode_encode_pairs: "decode_hex_pairs (encode_hex bytes) = Inr bytes"
proof (induction bytes)
  case Nil
  then show ?case by (simp add: encode_hex_def)
next
  case (Cons b bytes)
  then show ?case
    by (simp add: encode_hex_def decode_nibble_HEX high_nibble low_nibble join_nibbles)
qed

lemma length_encode_hex: "length (encode_hex bytes) = 2 * length bytes"
  by (induction bytes) (simp_all add: encode_hex_def)

lemma encode_hex_lower: "list_all is_lower_hex (encode_hex bytes)"
  by (induction bytes) (simp_all add: encode_hex_def is_lower_hex_HEX high_nibble low_nibble)

lemma encode_hex_inj: "encode_hex a = encode_hex b \<longleftrightarrow> a = b"
  by (metis Inr_inject decode_encode_pairs)

lemma unat_char_byte: "unat (char_byte c) = of_char c"
proof -
  have "of_char c mod (256 :: nat) = of_char c" by simp
  then show ?thesis by (simp add: char_byte_def unat_of_nat take_bit_eq_mod)
qed

lemma decode_nibble_ok:
  assumes "decode_nibble (char_byte c) = Inr n"
  shows "unat n < 16" "HEX ! unat n = c"
proof -
  let ?v = "of_char c :: nat"
  have le: "k \<le> char_byte c \<longleftrightarrow> unat k \<le> ?v" "char_byte c \<le> k \<longleftrightarrow> ?v \<le> unat k" for k
    by (simp_all add: word_le_nat_alt unat_char_byte)
  have sub: "unat (char_byte c - k) = ?v - unat k" if "unat k \<le> ?v" for k
    using that by (simp add: unat_sub_if' unat_char_byte)
  have digit: "48 \<le> ?v \<Longrightarrow> ?v \<le> 57 \<Longrightarrow> unat n = ?v - 48"
    using assms by (auto simp: decode_nibble_def le sub)
  have letter: "97 \<le> ?v \<Longrightarrow> ?v \<le> 102 \<Longrightarrow> unat n = ?v - 87"
    using assms by (auto simp: decode_nibble_def le sub unat_word_ariths split: if_splits)
  have "48 \<le> ?v \<and> ?v \<le> 57 \<or> 97 \<le> ?v \<and> ?v \<le> 102"
    using assms by (auto simp: decode_nibble_def le split: if_splits)
  then have "unat n < 16 \<and> (if unat n < 10 then 48 + unat n else 87 + unat n) = ?v"
    using digit letter by auto
  then show "unat n < 16" "HEX ! unat n = c" using HEX_nth [of "unat n"] by simp_all
qed

lemma split_nibbles:
  assumes "unat h < 16" "unat l < 16"
  shows "drop_bit 4 (or (push_bit 4 h) l) = (h :: u8)" "and (or (push_bit 4 h) l) 0x0f = l"
proof -
  let ?P = "\<lambda>h l. drop_bit 4 (or (push_bit 4 h) l) = (h :: u8) \<and> and (or (push_bit 4 h) l) 0x0f = l"
  have "\<forall>h\<in>set [0..<16]. \<forall>l\<in>set [0..<16]. ?P (of_nat h) (of_nat l)" by code_simp
  moreover have "unat h \<in> set [0..<16]" "unat l \<in> set [0..<16]" using assms by simp_all
  ultimately have "?P (of_nat (unat h)) (of_nat (unat l))" by blast
  then show "drop_bit 4 (or (push_bit 4 h) l) = h" "and (or (push_bit 4 h) l) 0x0f = l"
    by (simp_all only: of_nat_unat ucast_id)
qed

lemma encode_decode_pairs:
  "decode_hex_pairs s = Inr bytes \<Longrightarrow> even (length s) \<Longrightarrow> encode_hex bytes = s"
proof (induction s arbitrary: bytes rule: decode_hex_pairs.induct)
  case (1 a b s)
  then obtain h l rest where n: "decode_nibble (char_byte a) = Inr h" "decode_nibble (char_byte b) = Inr l"
    and rest: "decode_hex_pairs s = Inr rest" and bytes: "bytes = or (push_bit 4 h) l # rest"
    by (auto simp: result_simps)
  from 1 n rest have "encode_hex rest = s" by simp
  then show ?case
    using decode_nibble_ok [OF n(1)] decode_nibble_ok [OF n(2)]
    by (simp add: bytes encode_hex_def split_nibbles del: drop_bit_or)
qed (simp_all add: encode_hex_def)

lemma decode_hex_32_iff: "decode_hex_32 s = Inr bytes \<longleftrightarrow> length bytes = 32 \<and> s = encode_hex bytes"
proof
  assume "decode_hex_32 s = Inr bytes"
  then have s: "length s = 64" "decode_hex_pairs s = Inr bytes"
    by (auto simp: decode_hex_32_def result_simps)
  then have "encode_hex bytes = s" by (intro encode_decode_pairs) simp_all
  with s(1) show "length bytes = 32 \<and> s = encode_hex bytes"
    using length_encode_hex [of bytes] by auto
next
  assume "length bytes = 32 \<and> s = encode_hex bytes"
  then show "decode_hex_32 s = Inr bytes"
    by (simp add: decode_hex_32_def length_encode_hex decode_encode_pairs)
qed

section \<open>Properties\<close>

text \<open>
  Concrete instances of the third-party operations, for the examples: a keyed checksum in
  place of the signature scheme and the identity in place of the encoding.
\<close>

definition demo_checksum :: "u8 list \<Rightarrow> u8 list \<Rightarrow> u8 list" where
  "demo_checksum key m = take 64 (key @ m @ replicate 64 0)"

definition demo_ed25519 :: ed25519 where
  "demo_ed25519 = \<lparr>vk_from_bytes = Some, sig_from_slice = Some,
     sig_verify = (\<lambda>pk m s. s = demo_checksum pk m), sig_verify_strict = (\<lambda>pk m s. s = demo_checksum pk m),
     sk_public = (\<lambda>sk. sk), sk_sign = demo_checksum\<rparr>"

definition demo_base64 :: base64 where
  "demo_base64 = \<lparr>b64_encode = map (\<lambda>b. char_of (unat b)), b64_decode = (\<lambda>s. Some (map char_byte s))\<rparr>"

lemma demo_ed25519_verifies: "signatures_verify demo_ed25519"
  by (simp add: signatures_verify_def demo_ed25519_def)

lemma demo_base64_inverse: "base64_inverse demo_base64"
proof -
  have "char_byte (char_of (unat b)) = b" for b :: u8
  proof -
    have "unat b < 256" using unsigned_less [of b, where 'a = nat] by simp
    then show ?thesis by (simp add: char_byte_def)
  qed
  then show ?thesis by (simp add: base64_inverse_def demo_base64_def comp_def map_idI)
qed

text \<open>
  The 64-character decoder accepts exactly the lower-case encodings of 32 bytes and
  returns those bytes: encoding and decoding are inverse, and no other spelling of a digest
  or key (upper case, another length, a stray character) is accepted.
\<close>

lemma digest_codec_exact:
  "decode_hex_32 s = Inr bytes \<longleftrightarrow> length bytes = 32 \<and> s = encode_hex bytes"
  by (rule decode_hex_32_iff)

end
