(* ===== verification/Machine.thy ===== *)
theory Machine
  imports Prelude
begin

text \<open>
  Interfaces of the components that are state machines. The locale \<open>state_machine\<close> is a step
  relation with an invariant; what single steps keep, histories keep. The locale
  \<open>revocable_registry\<close> adds what the two key registries promise of their entries: an entry
  never disappears, never changes its key material, and never leaves the revoked state.
\<close>

locale state_machine =
  fixes step :: "'s \<Rightarrow> 's \<Rightarrow> bool" and ok :: "'s \<Rightarrow> bool"
  assumes step_ok: "ok s \<Longrightarrow> step s t \<Longrightarrow> ok t"
begin

lemma steps_ok: "step\<^sup>*\<^sup>* s t \<Longrightarrow> ok s \<Longrightarrow> ok t"
  by (induction rule: rtranclp_induct) (auto intro: step_ok)

lemma steps_preserve:
  assumes "step\<^sup>*\<^sup>* s t" "ok s" "P s" and "\<And>s t. ok s \<Longrightarrow> step s t \<Longrightarrow> P s \<Longrightarrow> P t"
  shows "P t"
  using assms(1-3) by (induction rule: rtranclp_induct) (use assms(4) steps_ok in blast)+

lemma steps_monotone:
  assumes "step\<^sup>*\<^sup>* s t" "ok s" "reflp R" "transp R" and "\<And>s t. ok s \<Longrightarrow> step s t \<Longrightarrow> R s t"
  shows "R s t"
  using assms(1) 
proof (rule steps_preserve [where P = "R s"])
  show "ok s" by fact
  show "R s s" using assms(3) by (simp add: reflpD)
  show "R s v" if "ok u" "step u v" "R s u" for u v
    using assms(4) that(3) assms(5) [OF that(1,2)] by (rule transpD)
qed

end

locale revocable_registry = state_machine step ok
  for step :: "'s \<Rightarrow> 's \<Rightarrow> bool" and ok :: "'s \<Rightarrow> bool" +
  fixes find :: "'s \<Rightarrow> 'k \<Rightarrow> 'r option"
    and material :: "'r \<Rightarrow> 'm"
    and revoked :: "'r \<Rightarrow> bool"
  assumes step_keeps: "ok s \<Longrightarrow> step s t \<Longrightarrow> find s k = Some r \<Longrightarrow>
      \<exists>r'. find t k = Some r' \<and> material r' = material r \<and> (revoked r \<longrightarrow> revoked r')"
    and material_unique: "ok s \<Longrightarrow> find s k = Some r \<Longrightarrow> find s l = Some r' \<Longrightarrow> material r = material r' \<Longrightarrow> k = l"
begin

lemma steps_keep:
  assumes "step\<^sup>*\<^sup>* s t" "ok s" "find s k = Some r"
  shows "\<exists>r'. find t k = Some r' \<and> material r' = material r \<and> (revoked r \<longrightarrow> revoked r')"
  using assms(1,2)
proof (rule steps_preserve)
  show "\<exists>r'. find s k = Some r' \<and> material r' = material r \<and> (revoked r \<longrightarrow> revoked r')"
    using assms(3) by simp
  fix u v
  assume "ok u" "step u v" "\<exists>r'. find u k = Some r' \<and> material r' = material r \<and> (revoked r \<longrightarrow> revoked r')"
  then show "\<exists>r'. find v k = Some r' \<and> material r' = material r \<and> (revoked r \<longrightarrow> revoked r')"
    by (metis step_keeps)
qed

lemma steps_revoked:
  assumes "step\<^sup>*\<^sup>* s t" "ok s" "find s k = Some r" "revoked r"
  shows "\<exists>r'. find t k = Some r' \<and> revoked r'"
  using steps_keep [OF assms(1-3)] assms(4) by blast

lemma material_never_reused:
  assumes "step\<^sup>*\<^sup>* s t" "ok s" "find s k = Some r" "find t l = Some r'" "material r' = material r"
  shows "k = l"
proof -
  from steps_keep [OF assms(1-3)] obtain r0 where "find t k = Some r0" "material r0 = material r" by blast
  then show ?thesis using material_unique [OF steps_ok [OF assms(1,2)]] assms(4,5) by metis
qed

end

end
