(* ===== verification/KeyGovernance.thy ===== *)
theory KeyGovernance
  imports Crypto Machine
begin

text \<open>
  The registry of governed issuer keys (\<^verbatim>\<open>crates/key-governance-runtime\<close>): guarded
  insertion, rotation and revocation, and the resolution of a key at a signing time. Every
  mutation returns its result paired with the registry it leaves. The lemmas show that key
  material is never shared between identities, that a revoked key never resolves again,
  that a mutation on a stale base changes nothing, and which windows a rotation sets up.
\<close>

section \<open>Data\<close>

datatype (plugins only: code size) issuer_role = IR_Capability | IR_Execution | IR_Normalization | IR_Attestation | IR_Release

fun role_rank :: "issuer_role \<Rightarrow> nat" where
  "role_rank IR_Capability = 0"
| "role_rank IR_Execution = 1"
| "role_rank IR_Normalization = 2"
| "role_rank IR_Attestation = 3"
| "role_rank IR_Release = 4"

lemma role_rank_inject [simp]: "role_rank a = role_rank b \<longleftrightarrow> a = b"
  by (cases a; cases b) auto

instantiation issuer_role :: linorder
begin
definition less_eq_issuer_role :: "issuer_role \<Rightarrow> issuer_role \<Rightarrow> bool" where
  "a \<le> b \<longleftrightarrow> role_rank a \<le> role_rank b"
definition less_issuer_role :: "issuer_role \<Rightarrow> issuer_role \<Rightarrow> bool" where
  "a < b \<longleftrightarrow> role_rank a < role_rank b"
instance by standard (auto simp: less_eq_issuer_role_def less_issuer_role_def)
end

datatype (plugins only: code size) governed_key_status = GK_Active | GK_Retired | GK_Revoked

datatype (plugins only: code size) key_mutation_action = KM_Add | KM_Rotate | KM_Revoke

record key_mutation_receipt =
  kmr_schema_version :: string
  kmr_action :: key_mutation_action
  kmr_role :: issuer_role
  kmr_issuer_id :: string
  kmr_key_id :: string
  kmr_previous_key_id :: "string option"
  kmr_revision :: u64
  kmr_previous_registry_digest :: string
  kmr_registry_digest :: string
  kmr_effective_at_epoch_s :: u64
  kmr_receipt_digest :: string

record governed_key_record =
  gk_role :: issuer_role
  gk_issuer_id :: string
  gk_key_id :: string
  gk_verifying_key :: "u8 list"
  gk_status :: governed_key_status
  gk_not_before_epoch_s :: u64
  gk_not_after_epoch_s :: u64
  gk_retired_at_epoch_s :: "u64 option"
  gk_revoked_at_epoch_s :: "u64 option"
  gk_revocation_reason_digest :: "string option"
  gk_successor_key_id :: "string option"

record governed_key_snapshot =
  gs_role :: issuer_role
  gs_issuer_id :: string
  gs_key_id :: string
  gs_public_key_hex :: string
  gs_status :: governed_key_status
  gs_not_before_epoch_s :: u64
  gs_not_after_epoch_s :: u64
  gs_retired_at_epoch_s :: "u64 option"
  gs_revoked_at_epoch_s :: "u64 option"
  gs_revocation_reason_digest :: "string option"
  gs_successor_key_id :: "string option"

record registry_snapshot =
  rs_schema_version :: string
  rs_revision :: u64
  rs_keys :: "governed_key_snapshot list"

type_synonym key_identity = "issuer_role \<times> string \<times> string"

record governed_key_registry =
  gr_revision :: u64
  gr_records :: "(key_identity, governed_key_record) bmap"

datatype (plugins only: code size) key_governance_error =
    KG_InvalidIdentifier string
  | KG_InvalidPublicKey
  | KG_InvalidValidityWindow
  | KG_RegistryRevisionMismatch u64 u64
  | KG_RegistryDigestMismatch
  | KG_DuplicateKeyIdentity issuer_role string string
  | KG_PublicKeyReuse
  | KG_UnknownKey issuer_role string string
  | KG_RoleMismatch string string issuer_role issuer_role
  | KG_KeyNotYetValid
  | KG_KeyExpired
  | KG_KeyRevoked
  | KG_InvalidKeyState
  | KG_InvalidRevocationReasonDigest
  | KG_Serialization serde_error
  | KG_Hashing hashing_error

text \<open>The third-party operations the registry uses: \<^verbatim>\<open>serde_json::to_value\<close> on its two types.\<close>

record registry_env =
  re_hasher :: hasher
  re_crypto :: ed25519
  re_snapshot_value :: "registry_snapshot \<Rightarrow> serde_error + json"
  re_receipt_value :: "key_mutation_receipt \<Rightarrow> serde_error + json"

section \<open>Operations\<close>

definition REGISTRY_SCHEMA :: string where
  "REGISTRY_SCHEMA = ''0.1.0''"

definition registry_default :: governed_key_registry where
  "registry_default = \<lparr>gr_revision = 0, gr_records = []\<rparr>"

definition snapshot_of :: "governed_key_record \<Rightarrow> governed_key_snapshot" where
  "snapshot_of r = \<lparr>
     gs_role = gk_role r,
     gs_issuer_id = gk_issuer_id r,
     gs_key_id = gk_key_id r,
     gs_public_key_hex = encode_hex (gk_verifying_key r),
     gs_status = gk_status r,
     gs_not_before_epoch_s = gk_not_before_epoch_s r,
     gs_not_after_epoch_s = gk_not_after_epoch_s r,
     gs_retired_at_epoch_s = gk_retired_at_epoch_s r,
     gs_revoked_at_epoch_s = gk_revoked_at_epoch_s r,
     gs_revocation_reason_digest = gk_revocation_reason_digest r,
     gs_successor_key_id = gk_successor_key_id r\<rparr>"

definition snapshot :: "governed_key_registry \<Rightarrow> registry_snapshot" where
  "snapshot reg = \<lparr>
     rs_schema_version = REGISTRY_SCHEMA,
     rs_revision = gr_revision reg,
     rs_keys = map snapshot_of (bm_values (gr_records reg))\<rparr>"

definition registry_digest :: "registry_env \<Rightarrow> governed_key_registry \<Rightarrow> key_governance_error + string" where
  "registry_digest E reg =
     and_then (map_err KG_Serialization (re_snapshot_value E (snapshot reg))) (\<lambda>v.
     map_err KG_Hashing (canonical_json_sha256 (re_hasher E) v))"

definition identifier_byte :: "char \<Rightarrow> bool" where
  "identifier_byte c \<longleftrightarrow> is_ascii_alphanumeric c \<or> c \<in> set ''.-_:''"

definition validate_key_identifier :: "string \<Rightarrow> string \<Rightarrow> key_governance_error + unit" where
  "validate_key_identifier field v =
     ensure (\<not> (v = [] \<or> length v > 160 \<or> \<not> list_all identifier_byte v))
       (KG_InvalidIdentifier field)"

definition require_base ::
    "registry_env \<Rightarrow> governed_key_registry \<Rightarrow> u64 \<Rightarrow> string \<Rightarrow> key_governance_error + unit" where
  "require_base E reg expected_revision expected_digest =
     and_then (ensure (gr_revision reg = expected_revision)
       (KG_RegistryRevisionMismatch (gr_revision reg) expected_revision)) (\<lambda>_.
     and_then (registry_digest E reg) (\<lambda>digest.
     ensure (digest = expected_digest) KG_RegistryDigestMismatch))"

definition require_unused_public_key ::
    "governed_key_registry \<Rightarrow> u8 list \<Rightarrow> key_governance_error + unit" where
  "require_unused_public_key reg candidate =
     ensure (\<not> list_ex (\<lambda>r. gk_verifying_key r = candidate) (bm_values (gr_records reg)))
       KG_PublicKeyReuse"

definition unknown_or_role_mismatch ::
    "governed_key_registry \<Rightarrow> issuer_role \<Rightarrow> string \<Rightarrow> string \<Rightarrow> key_governance_error" where
  "unknown_or_role_mismatch reg expected_role issuer_id key_id =
     (case find (\<lambda>(_, issuer, key). issuer = issuer_id \<and> key = key_id) (bm_keys (gr_records reg)) of
        Some (actual, _, _) \<Rightarrow> KG_RoleMismatch issuer_id key_id actual expected_role
      | None \<Rightarrow> KG_UnknownKey expected_role issuer_id key_id)"

definition build_receipt ::
    "registry_env \<Rightarrow> governed_key_registry \<Rightarrow> key_mutation_action \<Rightarrow> issuer_role \<Rightarrow> string \<Rightarrow> string \<Rightarrow>
     string option \<Rightarrow> u64 \<Rightarrow> string \<Rightarrow> key_governance_error + key_mutation_receipt" where
  "build_receipt E reg action role issuer_id key_id previous_key_id effective_at previous_digest =
     and_then (registry_digest E reg) (\<lambda>digest.
     let receipt = \<lparr>
       kmr_schema_version = REGISTRY_SCHEMA,
       kmr_action = action,
       kmr_role = role,
       kmr_issuer_id = issuer_id,
       kmr_key_id = key_id,
       kmr_previous_key_id = previous_key_id,
       kmr_revision = gr_revision reg,
       kmr_previous_registry_digest = previous_digest,
       kmr_registry_digest = digest,
       kmr_effective_at_epoch_s = effective_at,
       kmr_receipt_digest = []\<rparr> in
     and_then (map_err KG_Serialization (re_receipt_value E receipt)) (\<lambda>v.
     and_then (case v of
         JObject object \<Rightarrow> Inr (JObject (bm_insert ''receipt_digest'' (JString []) object))
       | _ \<Rightarrow> Inl (KG_Serialization ''key mutation receipt did not serialize to an object'')) (\<lambda>v'.
     and_then (map_err KG_Hashing (canonical_json_sha256 (re_hasher E) v')) (\<lambda>receipt_digest.
     Inr (receipt\<lparr>kmr_receipt_digest := receipt_digest\<rparr>)))))"

definition active_record ::
    "issuer_role \<Rightarrow> string \<Rightarrow> string \<Rightarrow> u8 list \<Rightarrow> u64 \<Rightarrow> u64 \<Rightarrow> governed_key_record" where
  "active_record role issuer_id key_id key not_before not_after = \<lparr>
     gk_role = role, gk_issuer_id = issuer_id, gk_key_id = key_id, gk_verifying_key = key,
     gk_status = GK_Active, gk_not_before_epoch_s = not_before, gk_not_after_epoch_s = not_after,
     gk_retired_at_epoch_s = None, gk_revoked_at_epoch_s = None,
     gk_revocation_reason_digest = None, gk_successor_key_id = None\<rparr>"

definition bump :: "governed_key_registry \<Rightarrow> governed_key_registry" where
  "bump reg = reg\<lparr>gr_revision := saturating_add (gr_revision reg) 1\<rparr>"

definition insert_checks ::
    "registry_env \<Rightarrow> governed_key_registry \<Rightarrow> u64 option \<Rightarrow> string option \<Rightarrow> issuer_role \<Rightarrow> string \<Rightarrow> string \<Rightarrow>
     u8 list \<Rightarrow> u64 \<Rightarrow> u64 \<Rightarrow> key_governance_error + u8 list \<times> string" where
  "insert_checks E reg expected_revision expected_digest role issuer_id key_id public_key not_before not_after =
     and_then (case (expected_revision, expected_digest) of
         (Some revision, Some digest) \<Rightarrow> require_base E reg revision digest
       | _ \<Rightarrow> Inr ()) (\<lambda>_.
     and_then (validate_key_identifier ''issuer_id'' issuer_id) (\<lambda>_.
     and_then (validate_key_identifier ''key_id'' key_id) (\<lambda>_.
     and_then (ensure (\<not> not_before \<ge> not_after) KG_InvalidValidityWindow) (\<lambda>_.
     and_then (ok_or (vk_from_bytes (re_crypto E) public_key) KG_InvalidPublicKey) (\<lambda>verifying_key.
     and_then (require_unused_public_key reg verifying_key) (\<lambda>_.
     and_then (ensure (\<not> bm_contains_key (gr_records reg) (role, issuer_id, key_id))
       (KG_DuplicateKeyIdentity role issuer_id key_id)) (\<lambda>_.
     and_then (registry_digest E reg) (\<lambda>previous. Inr (verifying_key, previous)))))))))"

definition insert_ed25519_internal ::
    "registry_env \<Rightarrow> governed_key_registry \<Rightarrow> u64 option \<Rightarrow> string option \<Rightarrow> issuer_role \<Rightarrow> string \<Rightarrow> string \<Rightarrow>
     u8 list \<Rightarrow> u64 \<Rightarrow> u64 \<Rightarrow> (key_governance_error + key_mutation_receipt) \<times> governed_key_registry" where
  "insert_ed25519_internal E reg expected_revision expected_digest role issuer_id key_id public_key not_before not_after =
     (case insert_checks E reg expected_revision expected_digest role issuer_id key_id public_key not_before not_after of
        Inl e \<Rightarrow> (Inl e, reg)
      | Inr (verifying_key, previous) \<Rightarrow>
          let reg' = bump (reg\<lparr>gr_records := bm_insert (role, issuer_id, key_id)
                (active_record role issuer_id key_id verifying_key not_before not_after) (gr_records reg)\<rparr>)
          in (build_receipt E reg' KM_Add role issuer_id key_id None not_before previous, reg'))"

definition insert_ed25519 where
  "insert_ed25519 E reg role issuer_id key_id public_key not_before not_after =
     insert_ed25519_internal E reg None None role issuer_id key_id public_key not_before not_after"

definition insert_ed25519_guarded where
  "insert_ed25519_guarded E reg expected_revision expected_digest role issuer_id key_id public_key not_before not_after =
     insert_ed25519_internal E reg (Some expected_revision) (Some expected_digest)
       role issuer_id key_id public_key not_before not_after"

definition rotate_checks ::
    "registry_env \<Rightarrow> governed_key_registry \<Rightarrow> u64 \<Rightarrow> string \<Rightarrow> issuer_role \<Rightarrow> string \<Rightarrow> string \<Rightarrow> string \<Rightarrow>
     u8 list \<Rightarrow> u64 \<Rightarrow> u64 \<Rightarrow> u64 \<Rightarrow> key_governance_error + u8 list \<times> string" where
  "rotate_checks E reg expected_revision expected_digest role issuer_id current_key_id new_key_id
       new_public_key activation_at retirement_at new_not_after =
     and_then (require_base E reg expected_revision expected_digest) (\<lambda>_.
     and_then (validate_key_identifier ''issuer_id'' issuer_id) (\<lambda>_.
     and_then (validate_key_identifier ''current_key_id'' current_key_id) (\<lambda>_.
     and_then (validate_key_identifier ''new_key_id'' new_key_id) (\<lambda>_.
     and_then (ensure (\<not> (current_key_id = new_key_id \<or> activation_at > retirement_at
         \<or> activation_at \<ge> new_not_after)) KG_InvalidValidityWindow) (\<lambda>_.
     and_then (ok_or (vk_from_bytes (re_crypto E) new_public_key) KG_InvalidPublicKey) (\<lambda>verifying_key.
     and_then (require_unused_public_key reg verifying_key) (\<lambda>_.
     and_then (ok_or (map_of (gr_records reg) (role, issuer_id, current_key_id))
       (unknown_or_role_mismatch reg role issuer_id current_key_id)) (\<lambda>current.
     and_then (ensure (\<not> (gk_status current = GK_Revoked
         \<or> retirement_at \<le> gk_not_before_epoch_s current)) KG_InvalidKeyState) (\<lambda>_.
     and_then (ensure (\<not> bm_contains_key (gr_records reg) (role, issuer_id, new_key_id))
       (KG_DuplicateKeyIdentity role issuer_id new_key_id)) (\<lambda>_.
     and_then (registry_digest E reg) (\<lambda>previous. Inr (verifying_key, previous))))))))))))"

definition retire_record :: "u64 \<Rightarrow> string \<Rightarrow> governed_key_record \<Rightarrow> governed_key_record" where
  "retire_record retirement_at new_key_id r =
     r\<lparr>gk_status := GK_Retired, gk_not_after_epoch_s := retirement_at,
       gk_retired_at_epoch_s := Some retirement_at, gk_successor_key_id := Some new_key_id\<rparr>"

definition rotate_ed25519_guarded ::
    "registry_env \<Rightarrow> governed_key_registry \<Rightarrow> u64 \<Rightarrow> string \<Rightarrow> issuer_role \<Rightarrow> string \<Rightarrow> string \<Rightarrow> string \<Rightarrow>
     u8 list \<Rightarrow> u64 \<Rightarrow> u64 \<Rightarrow> u64 \<Rightarrow>
     (key_governance_error + key_mutation_receipt) \<times> governed_key_registry" where
  "rotate_ed25519_guarded E reg expected_revision expected_digest role issuer_id current_key_id new_key_id
       new_public_key activation_at retirement_at new_not_after =
     (case rotate_checks E reg expected_revision expected_digest role issuer_id current_key_id new_key_id
        new_public_key activation_at retirement_at new_not_after of
        Inl e \<Rightarrow> (Inl e, reg)
      | Inr (verifying_key, previous) \<Rightarrow>
          case map_of (gr_records reg) (role, issuer_id, current_key_id) of
            None \<Rightarrow> (Inl (KG_UnknownKey role issuer_id current_key_id), reg)
          | Some current \<Rightarrow>
              let records1 = bm_insert (role, issuer_id, current_key_id)
                    (retire_record retirement_at new_key_id current) (gr_records reg);
                  records2 = bm_insert (role, issuer_id, new_key_id)
                    (active_record role issuer_id new_key_id verifying_key activation_at new_not_after) records1;
                  reg' = bump (reg\<lparr>gr_records := records2\<rparr>)
              in (build_receipt E reg' KM_Rotate role issuer_id new_key_id (Some current_key_id)
                    activation_at previous, reg'))"

definition revoke_checks ::
    "registry_env \<Rightarrow> governed_key_registry \<Rightarrow> u64 \<Rightarrow> string \<Rightarrow> issuer_role \<Rightarrow> string \<Rightarrow> string \<Rightarrow> string \<Rightarrow>
     key_governance_error + string" where
  "revoke_checks E reg expected_revision expected_digest role issuer_id key_id reason_digest =
     and_then (require_base E reg expected_revision expected_digest) (\<lambda>_.
     and_then (validate_key_identifier ''issuer_id'' issuer_id) (\<lambda>_.
     and_then (validate_key_identifier ''key_id'' key_id) (\<lambda>_.
     and_then (ensure (is_sha256 reason_digest) KG_InvalidRevocationReasonDigest) (\<lambda>_.
     and_then (ok_or (map_of (gr_records reg) (role, issuer_id, key_id))
       (unknown_or_role_mismatch reg role issuer_id key_id)) (\<lambda>current.
     and_then (ensure (gk_status current \<noteq> GK_Revoked) KG_InvalidKeyState) (\<lambda>_.
     registry_digest E reg))))))"

definition revoke_record :: "u64 \<Rightarrow> string \<Rightarrow> governed_key_record \<Rightarrow> governed_key_record" where
  "revoke_record revoked_at reason_digest r =
     r\<lparr>gk_status := GK_Revoked, gk_revoked_at_epoch_s := Some revoked_at,
       gk_revocation_reason_digest := Some reason_digest\<rparr>"

definition revoke_ed25519_guarded ::
    "registry_env \<Rightarrow> governed_key_registry \<Rightarrow> u64 \<Rightarrow> string \<Rightarrow> issuer_role \<Rightarrow> string \<Rightarrow> string \<Rightarrow> u64 \<Rightarrow> string \<Rightarrow>
     (key_governance_error + key_mutation_receipt) \<times> governed_key_registry" where
  "revoke_ed25519_guarded E reg expected_revision expected_digest role issuer_id key_id revoked_at reason_digest =
     (case revoke_checks E reg expected_revision expected_digest role issuer_id key_id reason_digest of
        Inl e \<Rightarrow> (Inl e, reg)
      | Inr previous \<Rightarrow>
          case map_of (gr_records reg) (role, issuer_id, key_id) of
            None \<Rightarrow> (Inl (KG_UnknownKey role issuer_id key_id), reg)
          | Some current \<Rightarrow>
              let reg' = bump (reg\<lparr>gr_records := bm_insert (role, issuer_id, key_id)
                    (revoke_record revoked_at reason_digest current) (gr_records reg)\<rparr>)
              in (build_receipt E reg' KM_Revoke role issuer_id key_id None revoked_at previous, reg'))"

definition resolve_ed25519 ::
    "governed_key_registry \<Rightarrow> issuer_role \<Rightarrow> string \<Rightarrow> string \<Rightarrow> u64 \<Rightarrow> key_governance_error + u8 list" where
  "resolve_ed25519 reg role issuer_id key_id signed_at =
     and_then (ok_or (map_of (gr_records reg) (role, issuer_id, key_id))
       (unknown_or_role_mismatch reg role issuer_id key_id)) (\<lambda>r.
     and_then (ensure (gk_status r \<noteq> GK_Revoked) KG_KeyRevoked) (\<lambda>_.
     and_then (ensure (\<not> signed_at < gk_not_before_epoch_s r) KG_KeyNotYetValid) (\<lambda>_.
     and_then (ensure (\<not> signed_at \<ge> gk_not_after_epoch_s r) KG_KeyExpired) (\<lambda>_.
     Inr (gk_verifying_key r)))))"

section \<open>Resolution\<close>

lemma resolve_ok_iff:
  "resolve_ed25519 reg role issuer_id key_id t = Inr key \<longleftrightarrow>
   (\<exists>r. map_of (gr_records reg) (role, issuer_id, key_id) = Some r \<and> gk_status r \<noteq> GK_Revoked \<and>
      gk_not_before_epoch_s r \<le> t \<and> t < gk_not_after_epoch_s r \<and> key = gk_verifying_key r)"
  by (auto simp: resolve_ed25519_def result_simps not_le not_less)

lemma resolve_at:
  "map_of (gr_records reg) (role, issuer_id, key_id) = Some r \<Longrightarrow>
   resolve_ed25519 reg role issuer_id key_id t =
     (if gk_status r = GK_Revoked then Inl KG_KeyRevoked
      else if t < gk_not_before_epoch_s r then Inl KG_KeyNotYetValid
      else if gk_not_after_epoch_s r \<le> t then Inl KG_KeyExpired
      else Inr (gk_verifying_key r))"
  by (simp add: resolve_ed25519_def ensure_def)

section \<open>What a mutation does\<close>

lemma bump_sel [simp]:
  "gr_records (bump reg) = gr_records reg"
  "gr_revision (bump reg) = saturating_add (gr_revision reg) 1"
  by (simp_all add: bump_def)

lemma unused_public_key_ok [result_simps]:
  "require_unused_public_key reg key = Inr u \<longleftrightarrow> (\<forall>r\<in>set (bm_values (gr_records reg)). gk_verifying_key r \<noteq> key)"
  by (auto simp: require_unused_public_key_def result_simps list_ex_iff)

definition fresh_key :: "governed_key_registry \<Rightarrow> u8 list \<Rightarrow> bool" where
  "fresh_key reg key \<longleftrightarrow> (\<forall>r\<in>set (bm_values (gr_records reg)). gk_verifying_key r \<noteq> key)"

lemma insert_cases:
  obtains (refused) e where
    "insert_ed25519_internal E reg er ed role issuer key pk nb na = (Inl e, reg)"
  | (inserted) vk previous where "fresh_key reg vk" "map_of (gr_records reg) (role, issuer, key) = None" "nb < na"
      "vk_from_bytes (re_crypto E) pk = Some vk"
      "insert_ed25519_internal E reg er ed role issuer key pk nb na =
        (let reg' = bump (reg\<lparr>gr_records := bm_insert (role, issuer, key)
               (active_record role issuer key vk nb na) (gr_records reg)\<rparr>)
         in (build_receipt E reg' KM_Add role issuer key None nb previous, reg'))"
proof (cases "insert_checks E reg er ed role issuer key pk nb na")
  case (Inl e)
  then show ?thesis by (intro refused [of e]) (simp add: insert_ed25519_internal_def)
next
  case (Inr p)
  obtain vk previous where p: "p = (vk, previous)" by fastforce
  from Inr have "fresh_key reg vk" "map_of (gr_records reg) (role, issuer, key) = None" "nb < na"
    "vk_from_bytes (re_crypto E) pk = Some vk"
    by (auto simp: p insert_checks_def result_simps fresh_key_def map_of_eq_None_iff not_le)
  then show ?thesis using Inr by (intro inserted) (simp_all add: p insert_ed25519_internal_def)
qed

lemma rotate_cases:
  obtains (refused) e where
    "rotate_ed25519_guarded E reg er ed role issuer key new pk act ret na = (Inl e, reg)"
  | (rotated) vk previous current where "fresh_key reg vk"
      "map_of (gr_records reg) (role, issuer, new) = None" "key \<noteq> new"
      "map_of (gr_records reg) (role, issuer, key) = Some current" "gk_status current \<noteq> GK_Revoked"
      "act \<le> ret" "act < na" "gk_not_before_epoch_s current < ret"
      "rotate_ed25519_guarded E reg er ed role issuer key new pk act ret na =
        (let reg' = bump (reg\<lparr>gr_records := bm_insert (role, issuer, new)
               (active_record role issuer new vk act na)
               (bm_insert (role, issuer, key) (retire_record ret new current) (gr_records reg))\<rparr>)
         in (build_receipt E reg' KM_Rotate role issuer new (Some key) act previous, reg'))"
proof (cases "rotate_checks E reg er ed role issuer key new pk act ret na")
  case (Inl e)
  then show ?thesis by (intro refused [of e]) (simp add: rotate_ed25519_guarded_def)
next
  case (Inr p)
  obtain vk previous where p: "p = (vk, previous)" by fastforce
  from Inr obtain current where c: "fresh_key reg vk"
    "map_of (gr_records reg) (role, issuer, new) = None" "key \<noteq> new"
    "map_of (gr_records reg) (role, issuer, key) = Some current" "gk_status current \<noteq> GK_Revoked"
    "act \<le> ret" "act < na" "gk_not_before_epoch_s current < ret"
    by (auto simp: p rotate_checks_def result_simps fresh_key_def map_of_eq_None_iff not_le not_less)
  then show ?thesis using Inr by (intro rotated [OF c]) (simp add: p rotate_ed25519_guarded_def Let_def)
qed

lemma revoke_cases:
  obtains (refused) e where
    "revoke_ed25519_guarded E reg er ed role issuer key at reason = (Inl e, reg)"
  | (revoked) previous current where
      "map_of (gr_records reg) (role, issuer, key) = Some current" "gk_status current \<noteq> GK_Revoked"
      "is_sha256 reason"
      "revoke_ed25519_guarded E reg er ed role issuer key at reason =
        (let reg' = bump (reg\<lparr>gr_records := bm_insert (role, issuer, key)
               (revoke_record at reason current) (gr_records reg)\<rparr>)
         in (build_receipt E reg' KM_Revoke role issuer key None at previous, reg'))"
proof (cases "revoke_checks E reg er ed role issuer key reason")
  case (Inl e)
  then show ?thesis by (intro refused [of e]) (simp add: revoke_ed25519_guarded_def)
next
  case (Inr previous)
  then obtain current where c: "map_of (gr_records reg) (role, issuer, key) = Some current"
    "gk_status current \<noteq> GK_Revoked" "is_sha256 reason"
    by (auto simp: revoke_checks_def result_simps)
  then show ?thesis using Inr by (intro revoked [OF c]) (simp add: revoke_ed25519_guarded_def)
qed

section \<open>The invariant\<close>

definition record_identity :: "governed_key_record \<Rightarrow> key_identity" where
  "record_identity r = (gk_role r, gk_issuer_id r, gk_key_id r)"

definition registry_wf :: "governed_key_registry \<Rightarrow> bool" where
  "registry_wf reg \<longleftrightarrow> keyed_uniquely record_identity gk_verifying_key (gr_records reg)"

lemma registry_wf_default: "registry_wf registry_default"
  by (simp add: registry_wf_def registry_default_def)

inductive registry_step :: "registry_env \<Rightarrow> governed_key_registry \<Rightarrow> governed_key_registry \<Rightarrow> bool"
  for E where
  insert: "registry_step E reg (snd (insert_ed25519_internal E reg er ed role issuer key pk nb na))"
| rotate: "registry_step E reg (snd (rotate_ed25519_guarded E reg er' ed' role issuer key new pk act ret na))"
| revoke: "registry_step E reg (snd (revoke_ed25519_guarded E reg er' ed' role issuer key at reason))"

inductive registry_steps :: "registry_env \<Rightarrow> governed_key_registry \<Rightarrow> governed_key_registry \<Rightarrow> bool"
  for E where
  refl: "registry_steps E reg reg"
| step: "registry_steps E reg reg1 \<Longrightarrow> registry_step E reg1 reg2 \<Longrightarrow> registry_steps E reg reg2"

lemmas record_updates =
  active_record_def retire_record_def revoke_record_def record_identity_def Let_def

lemma insert_wf:
  assumes wf: "registry_wf reg"
  shows "registry_wf (snd (insert_ed25519_internal E reg er ed role issuer key pk nb na))"
proof (rule insert_cases [of E reg er ed role issuer key pk nb na])
  fix vk
  assume "fresh_key reg vk"
  with wf have "keyed_uniquely record_identity gk_verifying_key
      (bm_insert (role, issuer, key) (active_record role issuer key vk nb na) (gr_records reg))"
    unfolding registry_wf_def fresh_key_def by (intro keyed_uniquely_add) (simp_all add: record_updates)
  then show ?thesis
    if "insert_ed25519_internal E reg er ed role issuer key pk nb na =
        (let reg' = bump (reg\<lparr>gr_records := bm_insert (role, issuer, key)
               (active_record role issuer key vk nb na) (gr_records reg)\<rparr>)
         in (build_receipt E reg' KM_Add role issuer key None nb previous, reg'))" for previous
    using that by (simp add: registry_wf_def Let_def)
qed (simp add: wf)

lemma rotate_wf:
  assumes wf: "registry_wf reg"
  shows "registry_wf (snd (rotate_ed25519_guarded E reg er ed role issuer key new pk act ret na))"
proof (rule rotate_cases [of E reg er ed role issuer key new pk act ret na])
  fix vk current
  let ?recs1 = "bm_insert (role, issuer, key) (retire_record ret new current) (gr_records reg)"
  assume fresh: "fresh_key reg vk" and cur: "map_of (gr_records reg) (role, issuer, key) = Some current"
  have k1: "keyed_uniquely record_identity gk_verifying_key ?recs1"
    using wf unfolding registry_wf_def
    by (rule keyed_uniquely_change [OF _ cur]) (simp_all add: record_updates)
  have "\<forall>r\<in>set (bm_values (gr_records reg)). gk_verifying_key r \<noteq> vk" and "bm_wf (gr_records reg)"
    using wf fresh by (simp_all add: registry_wf_def keyed_uniquely_def fresh_key_def)
  moreover from this have "gk_verifying_key current \<noteq> vk" using cur by (auto simp: bm_values_iff)
  ultimately have "\<forall>r\<in>set (bm_values ?recs1). gk_verifying_key r \<noteq> vk"
    by (intro bm_values_change [OF _ cur]) (simp_all add: record_updates)
  then have "keyed_uniquely record_identity gk_verifying_key
      (bm_insert (role, issuer, new) (active_record role issuer new vk act na) ?recs1)"
    by (intro keyed_uniquely_add [OF k1]) (simp_all add: active_record_def record_identity_def)
  then show ?thesis
    if "rotate_ed25519_guarded E reg er ed role issuer key new pk act ret na =
        (let reg' = bump (reg\<lparr>gr_records := bm_insert (role, issuer, new)
               (active_record role issuer new vk act na) ?recs1\<rparr>)
         in (build_receipt E reg' KM_Rotate role issuer new (Some key) act previous, reg'))" for previous
    using that by (simp add: registry_wf_def Let_def)
qed (simp add: wf)

lemma revoke_wf:
  assumes wf: "registry_wf reg"
  shows "registry_wf (snd (revoke_ed25519_guarded E reg er ed role issuer key at reason))"
proof (rule revoke_cases [of E reg er ed role issuer key at reason])
  fix current
  assume cur: "map_of (gr_records reg) (role, issuer, key) = Some current"
  have "keyed_uniquely record_identity gk_verifying_key
      (bm_insert (role, issuer, key) (revoke_record at reason current) (gr_records reg))"
    using wf unfolding registry_wf_def
    by (rule keyed_uniquely_change [OF _ cur]) (simp_all add: record_updates)
  then show ?thesis
    if "revoke_ed25519_guarded E reg er ed role issuer key at reason =
        (let reg' = bump (reg\<lparr>gr_records := bm_insert (role, issuer, key)
               (revoke_record at reason current) (gr_records reg)\<rparr>)
         in (build_receipt E reg' KM_Revoke role issuer key None at previous, reg'))" for previous
    using that by (simp add: registry_wf_def Let_def)
qed (simp add: wf)

lemma registry_step_wf: "registry_step E reg reg' \<Longrightarrow> registry_wf reg \<Longrightarrow> registry_wf reg'"
  by (erule registry_step.cases) (simp_all add: insert_wf rotate_wf revoke_wf)

lemma registry_steps_wf: "registry_steps E reg reg' \<Longrightarrow> registry_wf reg \<Longrightarrow> registry_wf reg'"
  by (induction rule: registry_steps.induct) (auto intro: registry_step_wf)

lemma resolve_identity:
  assumes "registry_wf reg"
    and "resolve_ed25519 reg role issuer key t = Inr vk" "resolve_ed25519 reg role' issuer' key' t' = Inr vk"
  shows "role = role' \<and> issuer = issuer' \<and> key = key'"
  using assms unfolding resolve_ok_iff registry_wf_def keyed_uniquely_def by (metis Pair_inject)

section \<open>Revocation is final\<close>

lemma registry_step_revoked:
  assumes "registry_step E reg reg'" "map_of (gr_records reg) i = Some r" "gk_status r = GK_Revoked"
  shows "map_of (gr_records reg') i = Some r"
  using assms(1)
proof (cases rule: registry_step.cases)
  case (insert er ed role issuer key pk nb na)
  show ?thesis
    by (rule insert_cases [of E reg er ed role issuer key pk nb na])
      (use assms(2,3) in \<open>auto simp: insert Let_def\<close>)
next
  case (rotate er' ed' role issuer key new pk act ret na)
  show ?thesis
    by (rule rotate_cases [of E reg er' ed' role issuer key new pk act ret na])
      (use assms(2,3) in \<open>auto simp: rotate Let_def\<close>)
next
  case (revoke er' ed' role issuer key at reason)
  show ?thesis
    by (rule revoke_cases [of E reg er' ed' role issuer key at reason])
      (use assms(2,3) in \<open>auto simp: revoke Let_def\<close>)
qed

lemma registry_steps_revoked:
  "registry_steps E reg reg' \<Longrightarrow> map_of (gr_records reg) i = Some r \<Longrightarrow> gk_status r = GK_Revoked \<Longrightarrow>
   map_of (gr_records reg') i = Some r"
  by (induction rule: registry_steps.induct) (auto dest: registry_step_revoked)

text \<open>The revision never decreases, and grows by one with every mutation until it saturates.\<close>

lemma registry_step_revision:
  assumes "registry_step E reg reg'"
  shows "reg' = reg \<or> gr_revision reg' = saturating_add (gr_revision reg) 1"
  using assms
proof (cases rule: registry_step.cases)
  case (insert er ed role issuer key pk nb na)
  show ?thesis
    by (rule insert_cases [of E reg er ed role issuer key pk nb na]) (simp_all add: insert Let_def)
next
  case (rotate er' ed' role issuer key new pk act ret na)
  show ?thesis
    by (rule rotate_cases [of E reg er' ed' role issuer key new pk act ret na]) (simp_all add: rotate Let_def)
next
  case (revoke er' ed' role issuer key at reason)
  show ?thesis
    by (rule revoke_cases [of E reg er' ed' role issuer key at reason]) (simp_all add: revoke Let_def)
qed

lemma registry_steps_revision: "registry_steps E reg reg' \<Longrightarrow> gr_revision reg \<le> gr_revision reg'"
proof (induction rule: registry_steps.induct)
  case (step reg reg1 reg2)
  then show ?case
    using registry_step_revision [OF step.hyps(2)] saturating_add_one_le [of "gr_revision reg1"]
    by (metis order_trans)
qed simp

section \<open>Guarded mutations\<close>

text \<open>A mutation whose base revision is stale is refused and leaves the registry as it was.\<close>

lemma stale_base_refused:
  assumes "gr_revision reg \<noteq> er"
  shows "insert_ed25519_guarded E reg er ed role issuer key pk nb na =
      (Inl (KG_RegistryRevisionMismatch (gr_revision reg) er), reg)"
    and "rotate_ed25519_guarded E reg er ed role issuer key new pk act ret na =
      (Inl (KG_RegistryRevisionMismatch (gr_revision reg) er), reg)"
    and "revoke_ed25519_guarded E reg er ed role issuer key at reason =
      (Inl (KG_RegistryRevisionMismatch (gr_revision reg) er), reg)"
  using assms
  by (simp_all add: insert_ed25519_guarded_def insert_ed25519_internal_def insert_checks_def
      rotate_ed25519_guarded_def rotate_checks_def revoke_ed25519_guarded_def revoke_checks_def
      require_base_def)

lemma build_receipt_ok:
  "build_receipt E reg action role issuer key prev at previous = Inr receipt \<Longrightarrow>
   kmr_revision receipt = gr_revision reg \<and> kmr_action receipt = action \<and> kmr_role receipt = role \<and>
   kmr_issuer_id receipt = issuer \<and> kmr_key_id receipt = key \<and> kmr_previous_key_id receipt = prev \<and>
   kmr_effective_at_epoch_s receipt = at \<and> kmr_previous_registry_digest receipt = previous \<and>
   registry_digest E reg = Inr (kmr_registry_digest receipt)"
  by (auto simp: build_receipt_def result_simps Let_def)

text \<open>The windows a rotation sets up: the old key until its retirement, the new one from its activation.\<close>

lemma rotate_windows:
  assumes "rotate_ed25519_guarded E reg er ed role issuer key new pk act ret na = (Inr receipt, reg')"
  obtains old vk where "map_of (gr_records reg) (role, issuer, key) = Some old"
    "resolve_ed25519 reg' role issuer key t =
      (if t < gk_not_before_epoch_s old then Inl KG_KeyNotYetValid
       else if ret \<le> t then Inl KG_KeyExpired else Inr (gk_verifying_key old))"
    "resolve_ed25519 reg' role issuer new t =
      (if t < act then Inl KG_KeyNotYetValid else if na \<le> t then Inl KG_KeyExpired else Inr vk)"
    "fresh_key reg vk" "act \<le> ret" "act < na" "gk_not_before_epoch_s old < ret"
proof (rule rotate_cases [of E reg er ed role issuer key new pk act ret na])
  fix vk previous current
  assume cur: "map_of (gr_records reg) (role, issuer, key) = Some current" "gk_status current \<noteq> GK_Revoked"
    and new: "key \<noteq> new" and rest: "fresh_key reg vk" "act \<le> ret" "act < na" "gk_not_before_epoch_s current < ret"
    and eq: "rotate_ed25519_guarded E reg er ed role issuer key new pk act ret na =
        (let reg' = bump (reg\<lparr>gr_records := bm_insert (role, issuer, new)
               (active_record role issuer new vk act na)
               (bm_insert (role, issuer, key) (retire_record ret new current) (gr_records reg))\<rparr>)
         in (build_receipt E reg' KM_Rotate role issuer new (Some key) act previous, reg'))"
  have recs: "map_of (gr_records reg') (role, issuer, key) = Some (retire_record ret new current)"
    "map_of (gr_records reg') (role, issuer, new) = Some (active_record role issuer new vk act na)"
    using assms eq new by (auto simp: Let_def)
  show thesis
    by (rule that [OF cur(1) _ _ rest])
      (simp_all add: resolve_at [OF recs(1)] resolve_at [OF recs(2)] retire_record_def active_record_def)
qed (use assms in simp)

section \<open>What a granted mutation leaves\<close>

lemma registry_step_keeps_key:
  assumes "registry_step E reg reg'" "map_of (gr_records reg) i = Some r"
  shows "\<exists>r'. map_of (gr_records reg') i = Some r' \<and> gk_verifying_key r' = gk_verifying_key r"
  using assms(1)
proof (cases rule: registry_step.cases)
  case (insert er ed role issuer key pk nb na)
  show ?thesis
    by (rule insert_cases [of E reg er ed role issuer key pk nb na])
      (use assms(2) in \<open>auto simp: insert Let_def\<close>)
next
  case (rotate er' ed' role issuer key new pk act ret na)
  show ?thesis
    by (rule rotate_cases [of E reg er' ed' role issuer key new pk act ret na])
      (use assms(2) in \<open>auto simp: rotate Let_def retire_record_def\<close>)
next
  case (revoke er' ed' role issuer key at reason)
  show ?thesis
    by (rule revoke_cases [of E reg er' ed' role issuer key at reason])
      (use assms(2) in \<open>auto simp: revoke Let_def revoke_record_def\<close>)
qed

interpretation governed_keys:
  revocable_registry "registry_step E" registry_wf "\<lambda>reg. map_of (gr_records reg)" gk_verifying_key
    "\<lambda>r. gk_status r = GK_Revoked" for E
proof
  show "registry_wf t" if "registry_wf s" "registry_step E s t" for s t
    using that(2,1) by (rule registry_step_wf)
  show "\<exists>r'. map_of (gr_records t) k = Some r' \<and> gk_verifying_key r' = gk_verifying_key r \<and>
      (gk_status r = GK_Revoked \<longrightarrow> gk_status r' = GK_Revoked)"
    if "registry_step E s t" "map_of (gr_records s) k = Some r" for s t k r
    using registry_step_keeps_key [OF that] registry_step_revoked [OF that] by (metis option.inject)
  show "k = l" if "registry_wf s" "map_of (gr_records s) k = Some r" "map_of (gr_records s) l = Some r'"
    "gk_verifying_key r = gk_verifying_key r'" for s k l r r'
    using that unfolding registry_wf_def keyed_uniquely_def by blast
qed

text \<open>Key material registered once is never registered again under another identity.\<close>

lemma registered_key_never_reused:
  assumes "registry_steps E reg reg'" "registry_wf reg" "map_of (gr_records reg) i = Some r"
    "map_of (gr_records reg') j = Some r'" "gk_verifying_key r' = gk_verifying_key r"
  shows "i = j"
proof -
  from assms(1) have "(registry_step E)\<^sup>*\<^sup>* reg reg'"
    by (induction rule: registry_steps.induct) auto
  then show ?thesis using assms(2-5) by (rule governed_keys.material_never_reused)
qed

lemma insert_granted:
  assumes "insert_ed25519_internal E reg er ed role issuer key pk nb na = (Inr receipt, reg')"
  obtains vk where "vk_from_bytes (re_crypto E) pk = Some vk" "map_of (gr_records reg) (role, issuer, key) = None"
    "map_of (gr_records reg') (role, issuer, key) = Some (active_record role issuer key vk nb na)"
  by (rule insert_cases [of E reg er ed role issuer key pk nb na]) (use assms that in \<open>auto simp: Let_def\<close>)

lemma rotate_granted:
  assumes "rotate_ed25519_guarded E reg er ed role issuer key new pk act ret na = (Inr receipt, reg')"
  obtains vk where "vk_from_bytes (re_crypto E) pk = Some vk" "map_of (gr_records reg) (role, issuer, new) = None"
    "map_of (gr_records reg') (role, issuer, new) = Some (active_record role issuer new vk act na)"
proof (cases "rotate_checks E reg er ed role issuer key new pk act ret na")
  case (Inl e)
  with assms show ?thesis by (simp add: rotate_ed25519_guarded_def)
next
  case (Inr p)
  obtain vk previous where p: "p = (vk, previous)" by fastforce
  from Inr obtain current where c: "vk_from_bytes (re_crypto E) pk = Some vk"
    "map_of (gr_records reg) (role, issuer, new) = None" "map_of (gr_records reg) (role, issuer, key) = Some current"
    by (auto simp: p rotate_checks_def result_simps map_of_eq_None_iff)
  show ?thesis
    by (rule that [OF c(1,2)]) (use assms Inr c(3) in \<open>auto simp: p rotate_ed25519_guarded_def Let_def\<close>)
qed

section \<open>Properties\<close>

text \<open>A registry with one key, and the mutations of its life.\<close>

definition demo_registry_env :: registry_env where
  "demo_registry_env = \<lparr>re_hasher = demo_hasher, re_crypto = demo_ed25519,
     re_snapshot_value = (\<lambda>_. Inr JNull), re_receipt_value = (\<lambda>_. Inr (JObject []))\<rparr>"

definition demo_registry :: governed_key_registry where
  "demo_registry = snd (insert_ed25519 demo_registry_env registry_default IR_Attestation ''acme'' ''k1'' [1] 5 100)"

definition demo_rotation :: "governed_key_registry \<Rightarrow> u64 \<Rightarrow> string \<Rightarrow> u8 list \<Rightarrow> u64 \<Rightarrow> u64 \<Rightarrow>
    (key_governance_error + key_mutation_receipt) \<times> governed_key_registry" where
  "demo_rotation reg revision new pk activation retirement =
     rotate_ed25519_guarded demo_registry_env reg revision demo_digest IR_Attestation ''acme'' ''k1'' new pk
       activation retirement 1000"

definition demo_revocation :: "(key_governance_error + key_mutation_receipt) \<times> governed_key_registry" where
  "demo_revocation = revoke_ed25519_guarded demo_registry_env demo_registry 1 demo_digest IR_Attestation ''acme'' ''k1''
     50 demo_digest"

lemma demo_registry_steps:
  "registry_steps demo_registry_env registry_default demo_registry"
  "registry_steps demo_registry_env demo_registry (snd demo_revocation)"
  unfolding demo_registry_def insert_ed25519_def demo_revocation_def
  by (rule registry_steps.step [OF registry_steps.refl registry_step.insert],
      rule registry_steps.step [OF registry_steps.refl registry_step.revoke])

text \<open>
  a key resolves for a role, an issuer and a key identifier at a time exactly if a record
  under that identity exists, is not revoked, and its validity window (start included, end
  excluded) contains the time; what is returned is the recorded key.
\<close>

lemma key_resolution_exact:
  "resolve_ed25519 reg role issuer_id key_id t = Inr key \<longleftrightarrow>
   (\<exists>r. map_of (gr_records reg) (role, issuer_id, key_id) = Some r \<and> gk_status r \<noteq> GK_Revoked \<and>
      gk_not_before_epoch_s r \<le> t \<and> t < gk_not_after_epoch_s r \<and> key = gk_verifying_key r)"
  by (rule resolve_ok_iff)

text \<open>
  In a registry built by any sequence of insertions, rotations and revocations (the
  refused ones included), one public key never resolves under two identities: neither in two
  roles, nor for two issuers, nor under two key identifiers, at whatever times.
\<close>

lemma key_material_identifies_issuer:
  assumes "registry_steps E registry_default reg"
    "resolve_ed25519 reg role issuer key t = Inr vk" "resolve_ed25519 reg role' issuer' key' t' = Inr vk"
  shows "role = role' \<and> issuer = issuer' \<and> key = key'"
  using registry_steps_wf [OF assms(1) registry_wf_default] assms(2,3) by (rule resolve_identity)

text \<open>
  C35: once a key is revoked, no later sequence of registry calls makes it resolve again: at
  every time the resolution fails with the revocation error, also for signatures made before
  the revocation.
\<close>

theorem revocation_is_permanent:
  assumes "registry_steps E reg reg'" "map_of (gr_records reg) (role, issuer, key) = Some r"
    "gk_status r = GK_Revoked"
  shows "resolve_ed25519 reg' role issuer key t = Inl KG_KeyRevoked"
  using registry_steps_revoked [OF assms] assms(3) by (simp add: resolve_at)

theorem revocation_is_permanent_witness:
  "resolve_ed25519 (snd (rotate_ed25519_guarded demo_registry_env (snd demo_revocation) 2 demo_digest IR_Attestation
     ''acme'' ''k1'' ''k2'' [2] 60 90 1000)) IR_Attestation ''acme'' ''k1'' 10 = Inl KG_KeyRevoked"
proof (rule revocation_is_permanent)
  show "registry_steps demo_registry_env (snd demo_revocation)
     (snd (rotate_ed25519_guarded demo_registry_env (snd demo_revocation) 2 demo_digest IR_Attestation
        ''acme'' ''k1'' ''k2'' [2] 60 90 1000))"
    by (rule registry_steps.step [OF registry_steps.refl registry_step.rotate])
  show "map_of (gr_records (snd demo_revocation)) (IR_Attestation, ''acme'', ''k1'') =
     Some (revoke_record 50 demo_digest (active_record IR_Attestation ''acme'' ''k1'' [1] 5 100))"
    by code_simp
qed (simp add: revoke_record_def)

text \<open>
  a guarded insertion, rotation or revocation whose expected revision is not the current
  one is refused with the two revisions, and the registry is left as it was.
\<close>

lemma stale_mutation_refused:
  assumes "gr_revision reg \<noteq> expected"
  shows "insert_ed25519_guarded E reg expected digest role issuer key pk nb na =
      (Inl (KG_RegistryRevisionMismatch (gr_revision reg) expected), reg) \<and>
    rotate_ed25519_guarded E reg expected digest role issuer key new pk act ret na =
      (Inl (KG_RegistryRevisionMismatch (gr_revision reg) expected), reg) \<and>
    revoke_ed25519_guarded E reg expected digest role issuer key at reason =
      (Inl (KG_RegistryRevisionMismatch (gr_revision reg) expected), reg)"
  using stale_base_refused [OF assms] by simp

text \<open>
  C36: what an accepted rotation does to every resolution. The key that is rotated out was
  registered and not revoked; from now on it resolves exactly from its old start up to the
  retirement time given, whatever the end of its window was before, and the new key, which
  the registry did not hold under any identity, exactly in its own window, which starts no
  later than the retirement time; no other identity resolves differently; and the receipt
  names the new revision and the digest of the registry it leaves.
\<close>

theorem rotation_windows:
  assumes "rotate_ed25519_guarded E reg er ed role issuer key new pk act ret na = (Inr receipt, reg')"
  shows "\<exists>old vk. map_of (gr_records reg) (role, issuer, key) = Some old \<and> gk_status old \<noteq> GK_Revoked \<and>
    vk_from_bytes (re_crypto E) pk = Some vk \<and> fresh_key reg vk \<and> map_of (gr_records reg) (role, issuer, new) = None \<and>
    act \<le> ret \<and> act < na \<and>
    (\<forall>t. resolve_ed25519 reg' role issuer key t =
      (if t < gk_not_before_epoch_s old then Inl KG_KeyNotYetValid
       else if ret \<le> t then Inl KG_KeyExpired else Inr (gk_verifying_key old))) \<and>
    (\<forall>t. resolve_ed25519 reg' role issuer new t =
      (if t < act then Inl KG_KeyNotYetValid else if na \<le> t then Inl KG_KeyExpired else Inr vk)) \<and>
    (\<forall>identity. identity \<notin> {(role, issuer, key), (role, issuer, new)} \<longrightarrow>
      (\<forall>t v. (case identity of (r, i, k) \<Rightarrow> resolve_ed25519 reg' r i k t = Inr v \<longleftrightarrow> resolve_ed25519 reg r i k t = Inr v))) \<and>
    kmr_revision receipt = gr_revision reg' \<and> registry_digest E reg' = Inr (kmr_registry_digest receipt)"
proof -
  from assms obtain vk current previous where facts: "fresh_key reg vk" "map_of (gr_records reg) (role, issuer, new) = None"
    "key \<noteq> new" "map_of (gr_records reg) (role, issuer, key) = Some current" "gk_status current \<noteq> GK_Revoked" "act \<le> ret" "act < na"
    and reg': "reg' = bump (reg\<lparr>gr_records := bm_insert (role, issuer, new) (active_record role issuer new vk act na)
       (bm_insert (role, issuer, key) (retire_record ret new current) (gr_records reg))\<rparr>)"
    and receipt: "build_receipt E reg' KM_Rotate role issuer new (Some key) act previous = Inr receipt"
    by (cases rule: rotate_cases [of E reg er ed role issuer key new pk act ret na]) (auto simp: Let_def)
  obtain vk' where "vk_from_bytes (re_crypto E) pk = Some vk'"
    "map_of (gr_records reg') (role, issuer, new) = Some (active_record role issuer new vk' act na)"
    using assms by (rule rotate_granted)
  then have pk: "vk_from_bytes (re_crypto E) pk = Some vk" by (simp add: reg' active_record_def)
  have at: "map_of (gr_records reg') (role, issuer, key) = Some (retire_record ret new current)"
    "map_of (gr_records reg') (role, issuer, new) = Some (active_record role issuer new vk act na)"
    "identity \<notin> {(role, issuer, key), (role, issuer, new)} \<Longrightarrow> map_of (gr_records reg') identity = map_of (gr_records reg) identity"
    for identity using facts(3) by (simp_all add: reg')
  have "resolve_ed25519 reg' r i k t = Inr v \<longleftrightarrow> resolve_ed25519 reg r i k t = Inr v"
    if "(r, i, k) \<notin> {(role, issuer, key), (role, issuer, new)}" for r i k t v
    unfolding resolve_ok_iff at(3) [OF that] by (rule HOL.refl)
  then show ?thesis
    using facts pk build_receipt_ok [OF receipt]
    by (intro exI [of _ current] exI [of _ vk]) (simp add: resolve_at at(1,2) retire_record_def active_record_def split: prod.split)
qed

theorem rotation_windows_witness:
  "\<exists>old. map_of (gr_records (snd (demo_rotation demo_registry 1 ''k2'' [2] 50 60))) (IR_Attestation, ''acme'', ''k1'') = Some old \<and>
     resolve_ed25519 (snd (demo_rotation demo_registry 1 ''k2'' [2] 50 60)) IR_Attestation ''acme'' ''k1'' 60 = Inl KG_KeyExpired \<and>
     resolve_ed25519 (snd (demo_rotation (snd (demo_rotation demo_registry 1 ''k2'' [2] 50 60)) 2 ''k3'' [3] 70 500))
       IR_Attestation ''acme'' ''k1'' 60 = Inr (gk_verifying_key old)"
proof -
  let ?reg1 = "snd (demo_rotation demo_registry 1 ''k2'' [2] 50 60)"
  have ok: "\<not> isl (fst (demo_rotation ?reg1 2 ''k3'' [3] 70 500))"
    and before: "case map_of (gr_records ?reg1) (IR_Attestation, ''acme'', ''k1'') of None \<Rightarrow> False
      | Some r \<Rightarrow> gk_status r = GK_Retired \<and> gk_not_before_epoch_s r = 5 \<and> gk_not_after_epoch_s r = 60" by code_simp+
  from ok obtain receipt where "demo_rotation ?reg1 2 ''k3'' [3] 70 500 = (Inr receipt, snd (demo_rotation ?reg1 2 ''k3'' [3] 70 500))"
    by (metis isl_def prod.collapse sum.exhaust)
  from rotation_windows [OF this [unfolded demo_rotation_def [of ?reg1]]] before show ?thesis
    by (auto simp: resolve_at demo_rotation_def [of ?reg1] split: option.splits)
qed

text \<open>
  So the end of a retired key's window is not final: a rotation checks neither that the
  current key is active nor that the new retirement time does not exceed its present end, and
  a later one makes the key resolve at times at which it had expired.
\<close>

lemma retired_key_resolves_again:
  assumes "rotate_ed25519_guarded E reg er ed role issuer key new pk act ret na = (Inr receipt, reg')"
    "map_of (gr_records reg) (role, issuer, key) = Some old" "gk_status old = GK_Retired"
    "gk_not_before_epoch_s old \<le> t" "gk_not_after_epoch_s old \<le> t" "t < ret"
  shows "resolve_ed25519 reg role issuer key t = Inl KG_KeyExpired" "resolve_ed25519 reg' role issuer key t = Inr (gk_verifying_key old)"
proof -
  have "map_of (gr_records reg') (role, issuer, key) = Some (retire_record ret new old)"
    using assms(1,2) by (cases rule: rotate_cases [of E reg er ed role issuer key new pk act ret na]) (auto simp: Let_def)
  then show "resolve_ed25519 reg' role issuer key t = Inr (gk_verifying_key old)"
    using assms(4,6) by (simp add: resolve_at retire_record_def not_le not_less)
  show "resolve_ed25519 reg role issuer key t = Inl KG_KeyExpired" using assms(2-5) by (simp add: resolve_at not_less)
qed

end
