(* ===== verification/SignerProtocol.thy ===== *)
theory SignerProtocol
  imports KeyGovernance
begin

text \<open>
  The signer protocol (\<^verbatim>\<open>crates/windows-signer-protocol-runtime\<close>): requests,
  the envelope that is signed, and the check a caller makes on a response. The lemmas show
  that an envelope made from an accepted request is valid and carries the request's
  fields, and that the response check accepts exactly the responses whose fields are bound
  to the signed envelope.
\<close>

section \<open>Data\<close>

definition SIGNER_PROTOCOL_SCHEMA :: string where "SIGNER_PROTOCOL_SCHEMA = ''0.1.0''"
definition SIGNING_DOMAIN :: string where "SIGNING_DOMAIN = ''ergaxiom.windows-signer.digest.v1''"
definition DIGEST_ALGORITHM_SHA256 :: string where "DIGEST_ALGORITHM_SHA256 = ''sha256''"
definition SIGNATURE_ALGORITHM_ED25519 :: string where "SIGNATURE_ALGORITHM_ED25519 = ''ed25519''"
definition SIGNATURE_ENCODING_BASE64URL :: string where "SIGNATURE_ENCODING_BASE64URL = ''base64url''"

datatype (plugins only: code size) signer_operation = SO_InitializeKey | SO_PublicKey | SO_SignDigest

record signer_request =
  sr_schema_version :: string
  sr_request_id :: string
  sr_operation :: signer_operation
  sr_role :: issuer_role
  sr_issuer_id :: string
  sr_key_id :: string
  sr_digest_algorithm :: "string option"
  sr_digest :: "string option"

record signer_envelope =
  se_schema_version :: string
  se_domain :: string
  se_request_id :: string
  se_role :: issuer_role
  se_issuer_id :: string
  se_key_id :: string
  se_digest_algorithm :: string
  se_digest :: string

datatype (plugins only: code size) signer_success =
    KeyInitialized issuer_role string string string string
  | PublicKey issuer_role string string string string
  | DigestSigned (ds_public_key_hex: string) (ds_envelope: signer_envelope)
      (ds_envelope_digest: string) (ds_signature_algorithm: string)
      (ds_signature_encoding: string) (ds_signature: string)

datatype (plugins only: code size) signer_response =
    SR_Success string signer_success
  | SR_Error "string option" string string

datatype (plugins only: code size) signer_protocol_error =
    SP_UnsupportedSchema
  | SP_InvalidIdentifier string
  | SP_UnexpectedDigestMaterial
  | SP_UnsupportedDigestAlgorithm
  | SP_InvalidSha256Digest
  | SP_OperationDoesNotSign
  | SP_InvalidSigningDomain
  | SP_ResponseDoesNotContainSignature
  | SP_ResponseBindingMismatch
  | SP_InvalidPublicKeyEncoding
  | SP_InvalidSignatureEncoding
  | SP_SignatureVerificationFailed
  | SP_InvalidHexEncoding
  | SP_Serialization serde_error
  | SP_Hashing hashing_error

record signer_env =
  sn_hasher :: hasher
  sn_crypto :: ed25519
  sn_base64 :: base64
  sn_request_value :: "signer_request \<Rightarrow> serde_error + json"
  sn_envelope_value :: "signer_envelope \<Rightarrow> serde_error + json"
  sn_response_value :: "signer_response \<Rightarrow> serde_error + json"

section \<open>Requests\<close>

definition initialize_key :: "string \<Rightarrow> issuer_role \<Rightarrow> string \<Rightarrow> string \<Rightarrow> signer_request" where
  "initialize_key request_id role issuer_id key_id = \<lparr>
     sr_schema_version = SIGNER_PROTOCOL_SCHEMA, sr_request_id = request_id,
     sr_operation = SO_InitializeKey, sr_role = role, sr_issuer_id = issuer_id, sr_key_id = key_id,
     sr_digest_algorithm = None, sr_digest = None\<rparr>"

definition public_key :: "string \<Rightarrow> issuer_role \<Rightarrow> string \<Rightarrow> string \<Rightarrow> signer_request" where
  "public_key request_id role issuer_id key_id = \<lparr>
     sr_schema_version = SIGNER_PROTOCOL_SCHEMA, sr_request_id = request_id,
     sr_operation = SO_PublicKey, sr_role = role, sr_issuer_id = issuer_id, sr_key_id = key_id,
     sr_digest_algorithm = None, sr_digest = None\<rparr>"

definition sign_digest :: "string \<Rightarrow> issuer_role \<Rightarrow> string \<Rightarrow> string \<Rightarrow> string \<Rightarrow> signer_request" where
  "sign_digest request_id role issuer_id key_id digest = \<lparr>
     sr_schema_version = SIGNER_PROTOCOL_SCHEMA, sr_request_id = request_id,
     sr_operation = SO_SignDigest, sr_role = role, sr_issuer_id = issuer_id, sr_key_id = key_id,
     sr_digest_algorithm = Some DIGEST_ALGORITHM_SHA256, sr_digest = Some digest\<rparr>"

definition validate_identifier :: "string \<Rightarrow> string \<Rightarrow> signer_protocol_error + unit" where
  "validate_identifier field v =
     (let valid_length = (3 \<le> length v \<and> length v \<le> 128);
          starts_valid = (case v of [] \<Rightarrow> False | c # _ \<Rightarrow> is_ascii_alphanumeric c);
          remaining_valid = list_all (\<lambda>c. is_ascii_alphanumeric c \<or> c \<in> set ''._-'') (drop 1 v)
      in ensure (\<not> (\<not> valid_length \<or> \<not> starts_valid \<or> \<not> remaining_valid)) (SP_InvalidIdentifier field))"

definition validate_sha256 :: "string \<Rightarrow> signer_protocol_error + unit" where
  "validate_sha256 v = ensure (\<not> (length v \<noteq> 64 \<or> \<not> list_all is_lower_hex v)) SP_InvalidSha256Digest"

definition request_validate :: "signer_request \<Rightarrow> signer_protocol_error + unit" where
  "request_validate r =
     and_then (ensure (sr_schema_version r = SIGNER_PROTOCOL_SCHEMA) SP_UnsupportedSchema) (\<lambda>_.
     and_then (validate_identifier ''request_id'' (sr_request_id r)) (\<lambda>_.
     and_then (validate_identifier ''issuer_id'' (sr_issuer_id r)) (\<lambda>_.
     and_then (validate_identifier ''key_id'' (sr_key_id r)) (\<lambda>_.
     if sr_operation r = SO_SignDigest then
       and_then (ensure (sr_digest_algorithm r = Some DIGEST_ALGORITHM_SHA256) SP_UnsupportedDigestAlgorithm) (\<lambda>_.
       validate_sha256 (case sr_digest r of Some d \<Rightarrow> d | None \<Rightarrow> []))
     else ensure (sr_digest_algorithm r = None \<and> sr_digest r = None) SP_UnexpectedDigestMaterial))))"

definition role_name :: "issuer_role \<Rightarrow> string" where
  "role_name role =
     (case role of
        IR_Capability \<Rightarrow> ''CAPABILITY''
      | IR_Execution \<Rightarrow> ''EXECUTION''
      | IR_Normalization \<Rightarrow> ''NORMALIZATION''
      | IR_Attestation \<Rightarrow> ''ATTESTATION''
      | IR_Release \<Rightarrow> ''RELEASE'')"

definition key_identity_digest ::
    "signer_env \<Rightarrow> issuer_role \<Rightarrow> string \<Rightarrow> string \<Rightarrow> signer_protocol_error + string" where
  "key_identity_digest E role issuer_id key_id =
     and_then (validate_identifier ''issuer_id'' issuer_id) (\<lambda>_.
     and_then (validate_identifier ''key_id'' key_id) (\<lambda>_.
     map_err SP_Hashing (canonical_json_sha256 (sn_hasher E) (JObject (bm_collect [
       (''schema_version'', JString SIGNER_PROTOCOL_SCHEMA),
       (''role'', JString (role_name role)),
       (''issuer_id'', JString issuer_id),
       (''key_id'', JString key_id)])))))"

definition request_digest :: "signer_env \<Rightarrow> signer_request \<Rightarrow> signer_protocol_error + string" where
  "request_digest E r =
     and_then (request_validate r) (\<lambda>_.
     and_then (map_err SP_Serialization (sn_request_value E r)) (\<lambda>v.
     map_err SP_Hashing (canonical_json_sha256 (sn_hasher E) v)))"

definition identity_digest :: "signer_env \<Rightarrow> signer_request \<Rightarrow> signer_protocol_error + string" where
  "identity_digest E r =
     and_then (request_validate r) (\<lambda>_.
     key_identity_digest E (sr_role r) (sr_issuer_id r) (sr_key_id r))"

definition signing_envelope :: "signer_request \<Rightarrow> signer_protocol_error + signer_envelope" where
  "signing_envelope r =
     and_then (request_validate r) (\<lambda>_.
     and_then (ensure (sr_operation r = SO_SignDigest) SP_OperationDoesNotSign) (\<lambda>_.
     Inr \<lparr>se_schema_version = SIGNER_PROTOCOL_SCHEMA, se_domain = SIGNING_DOMAIN,
       se_request_id = sr_request_id r, se_role = sr_role r, se_issuer_id = sr_issuer_id r,
       se_key_id = sr_key_id r, se_digest_algorithm = DIGEST_ALGORITHM_SHA256,
       se_digest = (case sr_digest r of Some d \<Rightarrow> d | None \<Rightarrow> [])\<rparr>))"

section \<open>Envelopes and responses\<close>

definition envelope_validate :: "signer_envelope \<Rightarrow> signer_protocol_error + unit" where
  "envelope_validate e =
     and_then (ensure (\<not> (se_schema_version e \<noteq> SIGNER_PROTOCOL_SCHEMA \<or> se_domain e \<noteq> SIGNING_DOMAIN))
       SP_InvalidSigningDomain) (\<lambda>_.
     and_then (validate_identifier ''request_id'' (se_request_id e)) (\<lambda>_.
     and_then (validate_identifier ''issuer_id'' (se_issuer_id e)) (\<lambda>_.
     and_then (validate_identifier ''key_id'' (se_key_id e)) (\<lambda>_.
     and_then (ensure (se_digest_algorithm e = DIGEST_ALGORITHM_SHA256) SP_UnsupportedDigestAlgorithm) (\<lambda>_.
     validate_sha256 (se_digest e))))))"

definition envelope_canonical_bytes ::
    "signer_env \<Rightarrow> signer_envelope \<Rightarrow> signer_protocol_error + u8 list" where
  "envelope_canonical_bytes E e =
     and_then (envelope_validate e) (\<lambda>_.
     and_then (map_err SP_Serialization (sn_envelope_value E e)) (\<lambda>v.
     map_err SP_Hashing (canonical_json_bytes (sn_hasher E) v)))"

definition envelope_digest :: "signer_env \<Rightarrow> signer_envelope \<Rightarrow> signer_protocol_error + string" where
  "envelope_digest E e =
     and_then (envelope_validate e) (\<lambda>_.
     and_then (map_err SP_Serialization (sn_envelope_value E e)) (\<lambda>v.
     map_err SP_Hashing (canonical_json_sha256 (sn_hasher E) v)))"

definition response_success :: "string \<Rightarrow> signer_success \<Rightarrow> signer_response" where
  "response_success request_id result = SR_Success request_id result"

definition response_rejected :: "string option \<Rightarrow> string \<Rightarrow> signer_response" where
  "response_rejected request_id code = SR_Error request_id code ''signer request rejected''"

definition verify_digest_signature ::
    "signer_env \<Rightarrow> signer_response \<Rightarrow> signer_protocol_error + signer_envelope" where
  "verify_digest_signature E response =
     (case response of
        SR_Success request_id (DigestSigned public_key_hex envelope digest algorithm encoding signature) \<Rightarrow>
          and_then
            (if request_id \<noteq> se_request_id envelope \<or> algorithm \<noteq> SIGNATURE_ALGORITHM_ED25519
                \<or> encoding \<noteq> SIGNATURE_ENCODING_BASE64URL
             then Inl SP_ResponseBindingMismatch
             else and_then (envelope_digest E envelope) (\<lambda>actual.
               ensure (actual = digest) SP_ResponseBindingMismatch)) (\<lambda>_.
          and_then (map_err (\<lambda>_. SP_InvalidPublicKeyEncoding) (decode_hex_32 public_key_hex)) (\<lambda>key_bytes.
          and_then (ok_or (vk_from_bytes (sn_crypto E) key_bytes) SP_InvalidPublicKeyEncoding) (\<lambda>key.
          and_then (ok_or (b64_decode (sn_base64 E) signature) SP_InvalidSignatureEncoding) (\<lambda>signature_bytes.
          and_then (ok_or (sig_from_slice (sn_crypto E) signature_bytes) SP_InvalidSignatureEncoding) (\<lambda>sig.
          and_then (envelope_canonical_bytes E envelope) (\<lambda>message.
          and_then (ensure (sig_verify (sn_crypto E) key message sig) SP_SignatureVerificationFailed) (\<lambda>_.
          Inr envelope)))))))
      | _ \<Rightarrow> Inl SP_ResponseDoesNotContainSignature)"

definition FORBIDDEN_FIELDS :: "string list" where
  "FORBIDDEN_FIELDS = [''private_key'', ''private_seed'', ''seed'', ''secret'', ''protected_seed'']"

fun contains_forbidden_field :: "json \<Rightarrow> bool" where
  "contains_forbidden_field (JObject object) \<longleftrightarrow>
     (\<exists>e\<in>set object. fst e \<in> set FORBIDDEN_FIELDS \<or> contains_forbidden_field (snd e))"
| "contains_forbidden_field (JArray values) \<longleftrightarrow> (\<exists>v\<in>set values. contains_forbidden_field v)"
| "contains_forbidden_field _ \<longleftrightarrow> False"

definition contains_private_material_field :: "signer_env \<Rightarrow> signer_response \<Rightarrow> bool" where
  "contains_private_material_field E response =
     (case sn_response_value E response of Inl _ \<Rightarrow> True | Inr v \<Rightarrow> contains_forbidden_field v)"

section \<open>What the checks establish\<close>

lemma validate_sha256_ok [result_simps]: "validate_sha256 v = Inr u \<longleftrightarrow> is_sha256 v"
  by (auto simp: validate_sha256_def is_sha256_def result_simps)

lemma request_validate_sign [result_simps]:
  "sr_operation r = SO_SignDigest \<Longrightarrow> request_validate r = Inr u \<longleftrightarrow>
   sr_schema_version r = SIGNER_PROTOCOL_SCHEMA \<and>
   validate_identifier ''request_id'' (sr_request_id r) = Inr () \<and>
   validate_identifier ''issuer_id'' (sr_issuer_id r) = Inr () \<and>
   validate_identifier ''key_id'' (sr_key_id r) = Inr () \<and>
   sr_digest_algorithm r = Some DIGEST_ALGORITHM_SHA256 \<and>
   is_sha256 (case sr_digest r of Some d \<Rightarrow> d | None \<Rightarrow> [])"
  by (auto simp: request_validate_def result_simps)

lemma signing_envelope_ok:
  "signing_envelope r = Inr e \<longleftrightarrow>
   request_validate r = Inr () \<and> sr_operation r = SO_SignDigest \<and>
   e = \<lparr>se_schema_version = SIGNER_PROTOCOL_SCHEMA, se_domain = SIGNING_DOMAIN,
       se_request_id = sr_request_id r, se_role = sr_role r, se_issuer_id = sr_issuer_id r,
       se_key_id = sr_key_id r, se_digest_algorithm = DIGEST_ALGORITHM_SHA256,
       se_digest = (case sr_digest r of Some d \<Rightarrow> d | None \<Rightarrow> [])\<rparr>"
  by (auto simp: signing_envelope_def result_simps)

lemma signing_envelope_valid:
  assumes "signing_envelope r = Inr e"
  shows "envelope_validate e = Inr ()" "sr_digest r = Some (se_digest e)"
proof -
  have r: "request_validate r = Inr ()" "sr_operation r = SO_SignDigest"
    and e: "e = \<lparr>se_schema_version = SIGNER_PROTOCOL_SCHEMA, se_domain = SIGNING_DOMAIN,
       se_request_id = sr_request_id r, se_role = sr_role r, se_issuer_id = sr_issuer_id r,
       se_key_id = sr_key_id r, se_digest_algorithm = DIGEST_ALGORITHM_SHA256,
       se_digest = (case sr_digest r of Some d \<Rightarrow> d | None \<Rightarrow> [])\<rparr>"
    using assms by (auto simp: signing_envelope_ok)
  then have v: "is_sha256 (case sr_digest r of Some d \<Rightarrow> d | None \<Rightarrow> [])"
    by (simp add: request_validate_sign)
  then show "sr_digest r = Some (se_digest e)" by (cases "sr_digest r") (simp_all add: e is_sha256_def)
  show "envelope_validate e = Inr ()"
    using r by (simp add: e envelope_validate_def request_validate_sign validate_sha256_def is_sha256_def
        split: option.splits)
qed

lemma verify_digest_signature_ok:
  "verify_digest_signature E response = Inr envelope \<longleftrightarrow>
   (\<exists>key_hex key_bytes key signature sig_bytes sig message digest.
      response = SR_Success (se_request_id envelope) (DigestSigned key_hex envelope digest
        SIGNATURE_ALGORITHM_ED25519 SIGNATURE_ENCODING_BASE64URL signature) \<and>
      envelope_digest E envelope = Inr digest \<and>
      decode_hex_32 key_hex = Inr key_bytes \<and> vk_from_bytes (sn_crypto E) key_bytes = Some key \<and>
      b64_decode (sn_base64 E) signature = Some sig_bytes \<and>
      sig_from_slice (sn_crypto E) sig_bytes = Some sig \<and>
      envelope_canonical_bytes E envelope = Inr message \<and>
      sig_verify (sn_crypto E) key message sig)"
  by (cases response)
    (auto simp: verify_digest_signature_def result_simps split: signer_success.splits if_splits)

lemma envelope_digest_total:
  assumes "envelope_validate e = Inr ()" "sn_envelope_value E e = Inr v"
    "canonical_json_bytes (sn_hasher E) v = Inr m"
  shows "envelope_digest E e = Inr (sha256_hex (sn_hasher E) m)" "envelope_canonical_bytes E e = Inr m"
  using assms by (simp_all add: envelope_digest_def envelope_canonical_bytes_def canonical_json_sha256_def)

section \<open>Properties\<close>

definition demo_signer_env :: signer_env where
  "demo_signer_env = \<lparr>sn_hasher = demo_hasher, sn_crypto = demo_ed25519, sn_base64 = demo_base64,
     sn_request_value = (\<lambda>_. Inr JNull), sn_envelope_value = (\<lambda>_. Inr JNull), sn_response_value = (\<lambda>_. Inr JNull)\<rparr>"

text \<open>The response a signer gives that holds the key: what is signed are the envelope's bytes.\<close>

definition signed_response :: "signer_env \<Rightarrow> u8 list \<Rightarrow> signer_envelope \<Rightarrow> string \<Rightarrow> u8 list \<Rightarrow> signer_response" where
  "signed_response E sk e digest message =
     response_success (se_request_id e) (DigestSigned (encode_hex (sk_public (sn_crypto E) sk)) e digest
       SIGNATURE_ALGORITHM_ED25519 SIGNATURE_ENCODING_BASE64URL
       (b64_encode (sn_base64 E) (sk_sign (sn_crypto E) sk message)))"

text \<open>
  the check of a signer response returns an envelope exactly if the response carries it
  with the request identifier of the envelope, the supported algorithm and encoding and the
  digest of the (valid) envelope, and the decoded signature verifies over the envelope's
  canonical bytes under the public key named in the response.
\<close>

lemma signer_response_binding:
  "verify_digest_signature E response = Inr envelope \<longleftrightarrow>
   (\<exists>key_hex key_bytes key signature sig_bytes sig message digest.
      response = SR_Success (se_request_id envelope) (DigestSigned key_hex envelope digest
        SIGNATURE_ALGORITHM_ED25519 SIGNATURE_ENCODING_BASE64URL signature) \<and>
      envelope_digest E envelope = Inr digest \<and>
      decode_hex_32 key_hex = Inr key_bytes \<and> vk_from_bytes (sn_crypto E) key_bytes = Some key \<and>
      b64_decode (sn_base64 E) signature = Some sig_bytes \<and>
      sig_from_slice (sn_crypto E) sig_bytes = Some sig \<and>
      envelope_canonical_bytes E envelope = Inr message \<and>
      sig_verify (sn_crypto E) key message sig)"
  by (rule verify_digest_signature_ok)

text \<open>
  A response made by signing the envelope of an accepted request verifies, and the
  envelope it returns names the request's identifier, role, issuer, key and digest. The
  hypotheses on the third-party code are that its signatures verify, that its encoding can
  be decoded, that a public key has 32 bytes and is accepted as a key, and that the envelope
  serialises.
\<close>

lemma signed_request_verifies:
  assumes "signing_envelope r = Inr e" "signatures_verify (sn_crypto E)" "base64_inverse (sn_base64 E)"
    "length (sk_public (sn_crypto E) sk) = 32"
    "vk_from_bytes (sn_crypto E) (sk_public (sn_crypto E) sk) = Some (sk_public (sn_crypto E) sk)"
    "sn_envelope_value E e = Inr v" "canonical_json_bytes (sn_hasher E) v = Inr m"
  shows "verify_digest_signature E (signed_response E sk e (sha256_hex (sn_hasher E) m) m) = Inr e \<and>
    se_request_id e = sr_request_id r \<and> se_role e = sr_role r \<and> se_issuer_id e = sr_issuer_id r \<and>
    se_key_id e = sr_key_id r \<and> sr_digest r = Some (se_digest e)"
proof -
  have valid: "envelope_validate e = Inr ()" using assms(1) by (rule signing_envelope_valid)
  have "decode_hex_32 (encode_hex (sk_public (sn_crypto E) sk)) = Inr (sk_public (sn_crypto E) sk)"
    using assms(4) by (simp add: decode_hex_32_iff)
  then have "verify_digest_signature E (signed_response E sk e (sha256_hex (sn_hasher E) m) m) = Inr e"
    using envelope_digest_total [OF valid assms(6,7)] assms(2,3,5)
    unfolding verify_digest_signature_ok signed_response_def response_success_def
    by (auto simp: signatures_verify_def base64_inverse_def)
  moreover have "se_request_id e = sr_request_id r \<and> se_role e = sr_role r \<and> se_issuer_id e = sr_issuer_id r \<and>
      se_key_id e = sr_key_id r" using assms(1) by (auto simp: signing_envelope_ok)
  ultimately show ?thesis using signing_envelope_valid(2) [OF assms(1)] by blast
qed

end
