(* ===== verification/Capability.thy ===== *)
theory Capability
  imports Plan SignerProtocol
begin

text \<open>
  The capability runtime (\<^verbatim>\<open>crates/capability-runtime\<close>): signed, bounded permission
  tokens and the authorizer that spends them. The two entry points that verify an Ed25519
  signature (\<^verbatim>\<open>authorize\<close>) and a signer response (\<^verbatim>\<open>authorize_signer_bound\<close>)
  share \<open>authorize_verified_payload\<close>. The lemmas show what a receipt guarantees, and that in
  every run of an authorizer the receipts of a token are numbered one after another and
  never beyond its limit.
\<close>

section \<open>Data\<close>

record capability_subject =
  sub_executor_id :: string
  sub_device_id :: "string option"

record capability_bindings =
  cb_contract_digest :: string
  cb_capsule_digest :: string
  cb_plan_id :: string
  cb_plan_digest :: string
  cb_step_id :: string
  cb_operator_id :: string

record capability_grant =
  cg_capability :: string
  cg_resource :: string
  cg_access :: permission_access
  cg_constraints :: json

record capability_token_payload =
  ct_schema_version :: string
  ct_token_id :: string
  ct_issuer_id :: string
  ct_key_id :: string
  ct_subject :: capability_subject
  ct_issued_at_epoch_s :: u64
  ct_not_before_epoch_s :: u64
  ct_expires_at_epoch_s :: u64
  ct_max_uses :: u32
  ct_nonce :: string
  ct_bindings :: capability_bindings
  ct_grant :: capability_grant

datatype (plugins only: code size) signature_algorithm = Ed25519
datatype (plugins only: code size) signature_encoding = Base64url

record token_signature =
  ts_algorithm :: signature_algorithm
  ts_encoding :: signature_encoding
  ts_value :: string

record signed_capability_token =
  st_payload :: capability_token_payload
  st_signature :: token_signature

record signer_bound_capability_token =
  sb_payload :: capability_token_payload
  sb_signer_response :: signer_response

record authorization_receipt =
  ar_token_id :: string
  ar_token_digest :: string
  ar_payload_digest :: string
  ar_issuer_id :: string
  ar_key_id :: string
  ar_executor_id :: string
  ar_device_id :: "string option"
  ar_contract_digest :: string
  ar_capsule_digest :: string
  ar_plan_id :: string
  ar_plan_digest :: string
  ar_step_id :: string
  ar_operator_id :: string
  ar_grant :: capability_grant
  ar_authorized_at_epoch_s :: u64
  ar_use_number :: u32
  ar_max_uses :: u32

datatype (plugins only: code size) capability_error =
    CE_TokenDecode serde_error
  | CE_Hashing hashing_error
  | CE_SignerProtocol signer_protocol_error
  | CE_UnsupportedSchemaVersion string string
  | CE_InvalidTrustedKey
  | CE_UnknownTrustedKey string string
  | CE_InvalidSignatureEncoding
  | CE_InvalidSignatureLength
  | CE_SignatureVerificationFailed
  | CE_SignerRoleMismatch
  | CE_SignerIssuerMismatch
  | CE_SignerKeyMismatch
  | CE_SignerDigestMismatch
  | CE_SignerPublicKeyMismatch
  | CE_InvalidTemporalBounds
  | CE_IssuedInFuture
  | CE_NotYetValid
  | CE_Expired
  | CE_InvalidMaxUses
  | CE_NonceTooShort
  | CE_ContractDigestMismatch
  | CE_CapsuleDigestMismatch
  | CE_PlanIdMismatch
  | CE_PlanDigestMismatch
  | CE_UnknownPlanStep string
  | CE_OperatorMismatch
  | CE_TokenNotDeclaredByStep
  | CE_ExecutorMismatch string string
  | CE_DeviceMismatch
  | CE_GrantExceedsContract
  | CE_UsageLimitExceeded
  | CE_TokenIdCollision string

type_synonym trusted_key_registry = "(string \<times> string, u8 list) bmap"

record usage_record =
  us_token_digest :: string
  us_uses :: u32

record capability_authorizer =
  au_trusted_keys :: trusted_key_registry
  au_usage :: "(string \<times> string, usage_record) bmap"

text \<open>
  The third-party operations: the signer's, the decoders and encoder of
  \<^verbatim>\<open>serde_json\<close> and its equality on values.
\<close>

record capability_env =
  ce_signer :: signer_env
  ce_decode_token :: "json \<Rightarrow> serde_error + signed_capability_token"
  ce_decode_signer_bound :: "json \<Rightarrow> serde_error + signer_bound_capability_token"
  ce_payload_value :: "capability_token_payload \<Rightarrow> serde_error + json"
  ce_value_eq :: "json \<Rightarrow> json \<Rightarrow> bool"

definition ce_sha256 :: "capability_env \<Rightarrow> json \<Rightarrow> capability_error + string" where
  "ce_sha256 E v = map_err CE_Hashing (canonical_json_sha256 (sn_hasher (ce_signer E)) v)"

section \<open>Trusted keys\<close>

definition trusted_insert_ed25519 ::
    "capability_env \<Rightarrow> trusted_key_registry \<Rightarrow> string \<Rightarrow> string \<Rightarrow> u8 list \<Rightarrow>
     (capability_error + unit) \<times> trusted_key_registry" where
  "trusted_insert_ed25519 E keys issuer_id key_id key_bytes =
     (case vk_from_bytes (sn_crypto (ce_signer E)) key_bytes of
        None \<Rightarrow> (Inl CE_InvalidTrustedKey, keys)
      | Some key \<Rightarrow> (Inr (), bm_insert (issuer_id, key_id) key keys))"

definition trusted_get :: "trusted_key_registry \<Rightarrow> string \<Rightarrow> string \<Rightarrow> u8 list option" where
  "trusted_get keys issuer_id key_id = map_of keys (issuer_id, key_id)"

section \<open>Checks\<close>

definition SUPPORTED_TOKEN_SCHEMA :: string where
  "SUPPORTED_TOKEN_SCHEMA = ''0.1.0''"

definition validate_payload_shape :: "capability_token_payload \<Rightarrow> capability_error + unit" where
  "validate_payload_shape p =
     and_then (ensure (ct_schema_version p = SUPPORTED_TOKEN_SCHEMA)
       (CE_UnsupportedSchemaVersion (ct_schema_version p) SUPPORTED_TOKEN_SCHEMA)) (\<lambda>_.
     and_then (ensure (ct_max_uses p \<noteq> 0) CE_InvalidMaxUses) (\<lambda>_.
     ensure (\<not> length (ct_nonce p) < 16) CE_NonceTooShort))"

definition verify_signature ::
    "capability_env \<Rightarrow> trusted_key_registry \<Rightarrow> signed_capability_token \<Rightarrow> capability_error + unit" where
  "verify_signature E keys token =
     (let p = st_payload token; C = sn_crypto (ce_signer E) in
      and_then (ok_or (trusted_get keys (ct_issuer_id p) (ct_key_id p))
        (CE_UnknownTrustedKey (ct_issuer_id p) (ct_key_id p))) (\<lambda>key.
      and_then (map_err CE_TokenDecode (ce_payload_value E p)) (\<lambda>payload_value.
      and_then (map_err CE_Hashing (canonical_json_bytes (sn_hasher (ce_signer E)) payload_value)) (\<lambda>message.
      and_then (ok_or (b64_decode (sn_base64 (ce_signer E)) (ts_value (st_signature token)))
        CE_InvalidSignatureEncoding) (\<lambda>signature_bytes.
      and_then (ok_or (sig_from_slice C signature_bytes) CE_InvalidSignatureLength) (\<lambda>signature.
      ensure (sig_verify_strict C key message signature) CE_SignatureVerificationFailed))))))"

definition verify_signer_bound_signature ::
    "capability_env \<Rightarrow> capability_authorizer \<Rightarrow> signer_bound_capability_token \<Rightarrow> capability_error + unit" where
  "verify_signer_bound_signature E A token =
     (let p = sb_payload token in
      and_then (ok_or (trusted_get (au_trusted_keys A) (ct_issuer_id p) (ct_key_id p))
        (CE_UnknownTrustedKey (ct_issuer_id p) (ct_key_id p))) (\<lambda>key.
      and_then (map_err CE_SignerProtocol (verify_digest_signature (ce_signer E) (sb_signer_response token))) (\<lambda>envelope.
      and_then (ensure (se_role envelope = IR_Capability) CE_SignerRoleMismatch) (\<lambda>_.
      and_then (ensure (se_issuer_id envelope = ct_issuer_id p) CE_SignerIssuerMismatch) (\<lambda>_.
      and_then (ensure (se_key_id envelope = ct_key_id p) CE_SignerKeyMismatch) (\<lambda>_.
      and_then (map_err CE_TokenDecode (ce_payload_value E p)) (\<lambda>payload_value.
      and_then (ce_sha256 E payload_value) (\<lambda>digest.
      and_then (ensure (se_digest envelope = digest) CE_SignerDigestMismatch) (\<lambda>_.
      and_then (case sb_signer_response token of
          SR_Success _ (DigestSigned key_hex _ _ _ _ _) \<Rightarrow>
            map_err (\<lambda>_. CE_SignerProtocol SP_InvalidHexEncoding) (decode_hex_32 key_hex)
        | _ \<Rightarrow> Inl (CE_SignerProtocol SP_ResponseDoesNotContainSignature)) (\<lambda>response_public_key.
      ensure (response_public_key = key) CE_SignerPublicKeyMismatch))))))))))"

definition validate_time :: "capability_token_payload \<Rightarrow> u64 \<Rightarrow> capability_error + unit" where
  "validate_time p now =
     and_then (ensure (\<not> (ct_issued_at_epoch_s p > ct_not_before_epoch_s p
         \<or> ct_not_before_epoch_s p \<ge> ct_expires_at_epoch_s p
         \<or> ct_issued_at_epoch_s p \<ge> ct_expires_at_epoch_s p)) CE_InvalidTemporalBounds) (\<lambda>_.
     and_then (ensure (\<not> ct_issued_at_epoch_s p > now) CE_IssuedInFuture) (\<lambda>_.
     and_then (ensure (\<not> now < ct_not_before_epoch_s p) CE_NotYetValid) (\<lambda>_.
     ensure (\<not> now \<ge> ct_expires_at_epoch_s p) CE_Expired)))"

definition validate_token_bindings ::
    "capability_token_payload \<Rightarrow> compiled_contract \<Rightarrow> compiled_plan \<Rightarrow> capability_error + plan_step" where
  "validate_token_bindings p contract plan =
     (let b = ct_bindings p in
      and_then (ensure (cb_contract_digest b = seal_contract_digest (cc_seal contract)) CE_ContractDigestMismatch) (\<lambda>_.
      and_then (ensure (cb_capsule_digest b = seal_capsule_digest (cc_seal contract)) CE_CapsuleDigestMismatch) (\<lambda>_.
      and_then (ensure (cb_plan_id b = cp_plan_id plan) CE_PlanIdMismatch) (\<lambda>_.
      and_then (ensure (cb_plan_digest b = cp_plan_digest plan) CE_PlanDigestMismatch) (\<lambda>_.
      and_then (ok_or (find (\<lambda>step. ps_step_id step = cb_step_id b) (cp_steps plan))
        (CE_UnknownPlanStep (cb_step_id b))) (\<lambda>step.
      and_then (ensure (ps_operator_id step = cb_operator_id b) CE_OperatorMismatch) (\<lambda>_.
      and_then (ensure (ct_token_id p \<in> set (ps_capability_token_ids step)) CE_TokenNotDeclaredByStep) (\<lambda>_.
      Inr step))))))))"

definition validate_subject ::
    "capability_token_payload \<Rightarrow> string \<Rightarrow> string option \<Rightarrow> capability_error + unit" where
  "validate_subject p executor device =
     and_then (ensure (sub_executor_id (ct_subject p) = executor)
       (CE_ExecutorMismatch (sub_executor_id (ct_subject p)) executor)) (\<lambda>_.
     ensure (sub_device_id (ct_subject p) = device) CE_DeviceMismatch)"

definition validate_grant ::
    "capability_env \<Rightarrow> capability_grant \<Rightarrow> contract_permission list \<Rightarrow> capability_error + unit" where
  "validate_grant E grant permissions =
     ensure (list_ex (\<lambda>permission. perm_capability permission = cg_capability grant
         \<and> perm_resource permission = cg_resource grant
         \<and> perm_access permission = cg_access grant
         \<and> ce_value_eq E (perm_constraints permission) (cg_constraints grant)) permissions)
       CE_GrantExceedsContract"

section \<open>The authorizer\<close>

definition authorizer_new :: "trusted_key_registry \<Rightarrow> capability_authorizer" where
  "authorizer_new keys = \<lparr>au_trusted_keys = keys, au_usage = []\<rparr>"

definition usage_count :: "capability_authorizer \<Rightarrow> string \<Rightarrow> string \<Rightarrow> u32" where
  "usage_count A issuer_id token_id =
     (case map_of (au_usage A) (issuer_id, token_id) of None \<Rightarrow> 0 | Some r \<Rightarrow> us_uses r)"

definition authorization_checks ::
    "capability_env \<Rightarrow> json \<Rightarrow> capability_token_payload \<Rightarrow> compiled_contract \<Rightarrow> compiled_plan \<Rightarrow> u64 \<Rightarrow>
     string \<Rightarrow> string option \<Rightarrow> capability_error + plan_step \<times> string \<times> string" where
  "authorization_checks E token_value p contract plan now executor device =
     and_then (validate_time p now) (\<lambda>_.
     and_then (validate_token_bindings p contract plan) (\<lambda>step.
     and_then (validate_subject p executor device) (\<lambda>_.
     and_then (validate_grant E (ct_grant p) (cc_permissions contract)) (\<lambda>_.
     and_then (ce_sha256 E token_value) (\<lambda>token_digest.
     and_then (map_err CE_TokenDecode (ce_payload_value E p)) (\<lambda>payload_value.
     and_then (ce_sha256 E payload_value) (\<lambda>payload_digest.
     Inr (step, token_digest, payload_digest))))))))"

definition receipt_for ::
    "capability_token_payload \<Rightarrow> compiled_plan \<Rightarrow> plan_step \<Rightarrow> string \<Rightarrow> string \<Rightarrow> u64 \<Rightarrow> u32 \<Rightarrow>
     authorization_receipt" where
  "receipt_for p plan step token_digest payload_digest now use_number = \<lparr>
     ar_token_id = ct_token_id p,
     ar_token_digest = token_digest,
     ar_payload_digest = payload_digest,
     ar_issuer_id = ct_issuer_id p,
     ar_key_id = ct_key_id p,
     ar_executor_id = sub_executor_id (ct_subject p),
     ar_device_id = sub_device_id (ct_subject p),
     ar_contract_digest = cp_contract_digest plan,
     ar_capsule_digest = cp_capsule_digest plan,
     ar_plan_id = cp_plan_id plan,
     ar_plan_digest = cp_plan_digest plan,
     ar_step_id = ps_step_id step,
     ar_operator_id = ps_operator_id step,
     ar_grant = ct_grant p,
     ar_authorized_at_epoch_s = now,
     ar_use_number = use_number,
     ar_max_uses = ct_max_uses p\<rparr>"

definition authorize_verified_payload ::
    "capability_env \<Rightarrow> capability_authorizer \<Rightarrow> json \<Rightarrow> capability_token_payload \<Rightarrow> compiled_contract \<Rightarrow>
     compiled_plan \<Rightarrow> u64 \<Rightarrow> string \<Rightarrow> string option \<Rightarrow>
     (capability_error + authorization_receipt) \<times> capability_authorizer" where
  "authorize_verified_payload E A token_value p contract plan now executor device =
     (case authorization_checks E token_value p contract plan now executor device of
        Inl e \<Rightarrow> (Inl e, A)
      | Inr (step, token_digest, payload_digest) \<Rightarrow>
          let usage_key = (ct_issuer_id p, ct_token_id p);
              usage_record = (case map_of (au_usage A) usage_key of
                  Some r \<Rightarrow> r
                | None \<Rightarrow> \<lparr>us_token_digest = token_digest, us_uses = 0\<rparr>);
              A1 = A\<lparr>au_usage := bm_insert usage_key usage_record (au_usage A)\<rparr>
          in if us_token_digest usage_record \<noteq> token_digest
             then (Inl (CE_TokenIdCollision (ct_token_id p)), A1)
             else if us_uses usage_record \<ge> ct_max_uses p
             then (Inl CE_UsageLimitExceeded, A1)
             else let usage_record' = usage_record\<lparr>us_uses := us_uses usage_record + 1\<rparr>
                  in (Inr (receipt_for p plan step token_digest payload_digest now (us_uses usage_record')),
                      A1\<lparr>au_usage := bm_insert usage_key usage_record' (au_usage A1)\<rparr>))"

definition authorize ::
    "capability_env \<Rightarrow> capability_authorizer \<Rightarrow> json \<Rightarrow> compiled_contract \<Rightarrow> compiled_plan \<Rightarrow> u64 \<Rightarrow>
     string \<Rightarrow> string option \<Rightarrow> (capability_error + authorization_receipt) \<times> capability_authorizer" where
  "authorize E A token_value contract plan now executor device =
     (case and_then (map_err CE_TokenDecode (ce_decode_token E token_value)) (\<lambda>token.
           and_then (validate_payload_shape (st_payload token)) (\<lambda>_.
           and_then (verify_signature E (au_trusted_keys A) token) (\<lambda>_.
           Inr (st_payload token)))) of
        Inl e \<Rightarrow> (Inl e, A)
      | Inr p \<Rightarrow> authorize_verified_payload E A token_value p contract plan now executor device)"

definition authorize_signer_bound ::
    "capability_env \<Rightarrow> capability_authorizer \<Rightarrow> json \<Rightarrow> compiled_contract \<Rightarrow> compiled_plan \<Rightarrow> u64 \<Rightarrow>
     string \<Rightarrow> string option \<Rightarrow> (capability_error + authorization_receipt) \<times> capability_authorizer" where
  "authorize_signer_bound E A token_value contract plan now executor device =
     (case and_then (map_err CE_TokenDecode (ce_decode_signer_bound E token_value)) (\<lambda>token.
           and_then (validate_payload_shape (sb_payload token)) (\<lambda>_.
           and_then (verify_signer_bound_signature E A token) (\<lambda>_.
           Inr (sb_payload token)))) of
        Inl e \<Rightarrow> (Inl e, A)
      | Inr p \<Rightarrow> authorize_verified_payload E A token_value p contract plan now executor device)"

section \<open>What a receipt guarantees\<close>

definition token_live :: "capability_token_payload \<Rightarrow> u64 \<Rightarrow> bool" where
  "token_live p now \<longleftrightarrow>
     ct_issued_at_epoch_s p \<le> ct_not_before_epoch_s p \<and>
     ct_not_before_epoch_s p \<le> now \<and> now < ct_expires_at_epoch_s p"

lemma validate_time_ok [result_simps]: "validate_time p now = Inr u \<longleftrightarrow> token_live p now"
  by (auto simp: validate_time_def token_live_def result_simps not_less not_le)

definition token_bound :: "capability_token_payload \<Rightarrow> compiled_contract \<Rightarrow> compiled_plan \<Rightarrow> plan_step \<Rightarrow> bool" where
  "token_bound p contract plan step \<longleftrightarrow>
     cb_contract_digest (ct_bindings p) = seal_contract_digest (cc_seal contract) \<and>
     cb_capsule_digest (ct_bindings p) = seal_capsule_digest (cc_seal contract) \<and>
     cb_plan_id (ct_bindings p) = cp_plan_id plan \<and> cb_plan_digest (ct_bindings p) = cp_plan_digest plan \<and>
     step \<in> set (cp_steps plan) \<and> ps_step_id step = cb_step_id (ct_bindings p) \<and>
     ps_operator_id step = cb_operator_id (ct_bindings p) \<and>
     ct_token_id p \<in> set (ps_capability_token_ids step)"

lemma validate_token_bindings_ok:
  "validate_token_bindings p contract plan = Inr step \<Longrightarrow> token_bound p contract plan step"
  by (auto simp: validate_token_bindings_def token_bound_def result_simps Let_def find_Some_iff)

definition grant_permitted :: "capability_env \<Rightarrow> compiled_contract \<Rightarrow> capability_grant \<Rightarrow> bool" where
  "grant_permitted E contract grant \<longleftrightarrow>
     (\<exists>permission\<in>set (cc_permissions contract). perm_capability permission = cg_capability grant \<and>
        perm_resource permission = cg_resource grant \<and> perm_access permission = cg_access grant \<and>
        ce_value_eq E (perm_constraints permission) (cg_constraints grant))"

lemma validate_grant_ok [result_simps]:
  "validate_grant E grant (cc_permissions contract) = Inr u \<longleftrightarrow> grant_permitted E contract grant"
  by (auto simp: validate_grant_def grant_permitted_def result_simps list_ex_iff)

lemma validate_subject_ok [result_simps]:
  "validate_subject p executor device = Inr u \<longleftrightarrow>
   sub_executor_id (ct_subject p) = executor \<and> sub_device_id (ct_subject p) = device"
  by (auto simp: validate_subject_def result_simps)

text \<open>The token was authorized for this contract, plan, time and executor.\<close>

definition token_authorized ::
    "capability_env \<Rightarrow> json \<Rightarrow> capability_token_payload \<Rightarrow> compiled_contract \<Rightarrow> compiled_plan \<Rightarrow> u64 \<Rightarrow>
     string \<Rightarrow> string option \<Rightarrow> plan_step \<Rightarrow> string \<Rightarrow> string \<Rightarrow> bool" where
  "token_authorized E v p contract plan now executor device step td pd \<longleftrightarrow>
     token_live p now \<and> token_bound p contract plan step \<and> grant_permitted E contract (ct_grant p) \<and>
     sub_executor_id (ct_subject p) = executor \<and> sub_device_id (ct_subject p) = device \<and>
     ce_sha256 E v = Inr td \<and> (\<exists>pv. ce_payload_value E p = Inr pv \<and> ce_sha256 E pv = Inr pd)"

lemma authorization_checks_ok:
  "authorization_checks E v p contract plan now executor device = Inr (step, td, pd) \<Longrightarrow>
   token_authorized E v p contract plan now executor device step td pd"
  by (auto simp: authorization_checks_def token_authorized_def result_simps
      dest!: validate_token_bindings_ok)

text \<open>How an authorization counts: the entry of the token before and after.\<close>

lemma authorize_verified_granted:
  assumes "authorize_verified_payload E A v p contract plan now executor device = (Inr receipt, A')"
  obtains step td pd uses where
    "token_authorized E v p contract plan now executor device step td pd"
    "receipt = receipt_for p plan step td pd now (uses + 1)"
    "uses = usage_count A (ct_issuer_id p) (ct_token_id p)" "uses < ct_max_uses p"
    "\<forall>r. map_of (au_usage A) (ct_issuer_id p, ct_token_id p) = Some r \<longrightarrow> us_token_digest r = td"
    "map_of (au_usage A') = (map_of (au_usage A))
       ((ct_issuer_id p, ct_token_id p) \<mapsto> \<lparr>us_token_digest = td, us_uses = uses + 1\<rparr>)"
    "au_trusted_keys A' = au_trusted_keys A"
proof -
  let ?k = "(ct_issuer_id p, ct_token_id p)"
  obtain step td pd where chk: "authorization_checks E v p contract plan now executor device = Inr (step, td, pd)"
    using assms by (auto simp: authorize_verified_payload_def split: sum.splits)
  define r where "r = (case map_of (au_usage A) ?k of Some r \<Rightarrow> r
      | None \<Rightarrow> \<lparr>us_token_digest = td, us_uses = 0\<rparr>)"
  have uses: "us_uses r = usage_count A (ct_issuer_id p) (ct_token_id p)"
    by (simp add: r_def usage_count_def split: option.split)
  have ok: "us_token_digest r = td" "us_uses r < ct_max_uses p"
    and rec: "receipt = receipt_for p plan step td pd now (us_uses r + 1)"
    and A': "map_of (au_usage A') = (map_of (au_usage A))(?k \<mapsto> r\<lparr>us_uses := us_uses r + 1\<rparr>)"
      "au_trusted_keys A' = au_trusted_keys A"
    using assms chk unfolding authorize_verified_payload_def
    by (auto simp: Let_def not_le simp flip: r_def split: if_splits)
  have eq: "r\<lparr>us_uses := us_uses r + 1\<rparr> = \<lparr>us_token_digest = td, us_uses = us_uses r + 1\<rparr>"
    using ok(1) by (cases r) simp
  have dig: "\<forall>s. map_of (au_usage A) ?k = Some s \<longrightarrow> us_token_digest s = td"
    using ok(1) by (auto simp: r_def)
  show ?thesis
    by (rule that [OF authorization_checks_ok [OF chk] rec uses ok(2) dig A'(1) [unfolded eq] A'(2)])
qed

lemma authorize_verified_refused:
  assumes "authorize_verified_payload E A v p contract plan now executor device = (Inl e, A')"
  shows "usage_count A' i t = usage_count A i t"
    and "map_of (au_usage A) k = Some r \<Longrightarrow> map_of (au_usage A') k = Some r"
    and "map_of (au_usage A') k = Some r \<Longrightarrow> map_of (au_usage A) k = Some r \<or> us_uses r = 0"
    and "au_trusted_keys A' = au_trusted_keys A"
  using assms unfolding authorize_verified_payload_def usage_count_def
  by (auto simp: Let_def split: sum.splits option.splits if_splits)

section \<open>Runs of an authorizer\<close>

text \<open>Both entry points end in a refusal that changes nothing or in the common part.\<close>

definition authorization ::
    "capability_env \<Rightarrow> capability_authorizer \<Rightarrow> capability_error + authorization_receipt \<Rightarrow>
     capability_authorizer \<Rightarrow> bool" where
  "authorization E A res A' \<longleftrightarrow>
     (\<exists>v contract plan now executor device.
        authorize E A v contract plan now executor device = (res, A') \<or>
        authorize_signer_bound E A v contract plan now executor device = (res, A'))"

lemma authorization_cases:
  assumes "authorization E A res A'"
  obtains (unverified) e where "res = Inl e" "A' = A"
  | (verified) v p contract plan now executor device where
      "authorize_verified_payload E A v p contract plan now executor device = (res, A')"
proof -
  from assms obtain v contract plan now executor device where
    "authorize E A v contract plan now executor device = (res, A') \<or>
     authorize_signer_bound E A v contract plan now executor device = (res, A')"
    unfolding authorization_def by blast
  then show ?thesis
  proof
    assume "authorize E A v contract plan now executor device = (res, A')"
    then show ?thesis using unverified verified unfolding authorize_def by (auto split: sum.splits)
  next
    assume "authorize_signer_bound E A v contract plan now executor device = (res, A')"
    then show ?thesis using unverified verified unfolding authorize_signer_bound_def by (auto split: sum.splits)
  qed
qed

definition receipts_of :: "string \<Rightarrow> string \<Rightarrow> authorization_receipt list \<Rightarrow> authorization_receipt list" where
  "receipts_of issuer token rs = filter (\<lambda>r. ar_issuer_id r = issuer \<and> ar_token_id r = token) rs"

inductive authorizer_run ::
    "capability_env \<Rightarrow> trusted_key_registry \<Rightarrow> authorization_receipt list \<Rightarrow> capability_authorizer \<Rightarrow> bool"
  for E keys where
  start: "authorizer_run E keys [] (authorizer_new keys)"
| granted: "authorizer_run E keys rs A \<Longrightarrow> authorization E A (Inr r) A' \<Longrightarrow> authorizer_run E keys (rs @ [r]) A'"
| refused: "authorizer_run E keys rs A \<Longrightarrow> authorization E A (Inl e) A' \<Longrightarrow> authorizer_run E keys rs A'"

text \<open>
  The invariant of a run, for one token: its receipts carry the numbers one, two, three and
  so on, the stored count is their number, none exceeds the limit it was granted under, and
  all of them name the stored token digest.
\<close>

definition token_accounted ::
    "authorization_receipt list \<Rightarrow> capability_authorizer \<Rightarrow> string \<Rightarrow> string \<Rightarrow> bool" where
  "token_accounted rs A issuer token \<longleftrightarrow>
     (let own = receipts_of issuer token rs in
      map (unat \<circ> ar_use_number) own = [1..<length own + 1] \<and>
      unat (usage_count A issuer token) = length own \<and>
      (\<forall>r\<in>set own. ar_use_number r \<le> ar_max_uses r \<and>
        (\<exists>u. map_of (au_usage A) (issuer, token) = Some u \<and> ar_token_digest r = us_token_digest u)))"

lemma receipts_of_snoc:
  "receipts_of issuer token (rs @ [r]) =
     receipts_of issuer token rs @ (if ar_issuer_id r = issuer \<and> ar_token_id r = token then [r] else [])"
  by (simp add: receipts_of_def)

lemma receipt_for_sel [simp]:
  "ar_issuer_id (receipt_for p plan step td pd now n) = ct_issuer_id p"
  "ar_token_id (receipt_for p plan step td pd now n) = ct_token_id p"
  "ar_use_number (receipt_for p plan step td pd now n) = n"
  "ar_max_uses (receipt_for p plan step td pd now n) = ct_max_uses p"
  "ar_token_digest (receipt_for p plan step td pd now n) = td"
  "ar_step_id (receipt_for p plan step td pd now n) = ps_step_id step"
  "ar_operator_id (receipt_for p plan step td pd now n) = ps_operator_id step"
  "ar_plan_digest (receipt_for p plan step td pd now n) = cp_plan_digest plan"
  by (simp_all add: receipt_for_def)

lemma word_succ_below:
  fixes a b :: "'n::len word"
  assumes "a < b"
  shows "unat (a + 1) = unat a + 1" "a + 1 \<le> b"
proof -
  have "unat a < unat b" using assms by (simp add: word_less_nat_alt)
  moreover have "unat b < 2 ^ LENGTH('n)" by (rule unsigned_less)
  ultimately have "unat a + 1 < 2 ^ LENGTH('n)" by linarith
  then show s: "unat (a + 1) = unat a + 1"
    by (cases "LENGTH('n) = 1") (auto simp: unat_word_ariths unat_1)
  show "a + 1 \<le> b" using s \<open>unat a < unat b\<close> by (simp add: word_le_nat_alt)
qed

lemma token_accounted_granted:
  assumes acc: "token_accounted rs A issuer token"
    and grant: "authorize_verified_payload E A v p contract plan now executor device = (Inr r, A')"
  shows "token_accounted (rs @ [r]) A' issuer token"
  using grant
proof (rule authorize_verified_granted)
  fix step td pd uses
  assume r: "r = receipt_for p plan step td pd now (uses + 1)"
    and uses: "uses = usage_count A (ct_issuer_id p) (ct_token_id p)" "uses < ct_max_uses p"
    and dig: "\<forall>u. map_of (au_usage A) (ct_issuer_id p, ct_token_id p) = Some u \<longrightarrow> us_token_digest u = td"
    and A': "map_of (au_usage A') = (map_of (au_usage A))
       ((ct_issuer_id p, ct_token_id p) \<mapsto> \<lparr>us_token_digest = td, us_uses = uses + 1\<rparr>)"
  let ?own = "receipts_of issuer token rs"
  show ?thesis
  proof (cases "ct_issuer_id p = issuer \<and> ct_token_id p = token")
    case True
    then have own: "receipts_of issuer token (rs @ [r]) = ?own @ [r]" by (simp add: receipts_of_snoc r)
    have n: "unat uses = length ?own" and nums: "map (unat \<circ> ar_use_number) ?own = [1..<length ?own + 1]"
      using acc True uses(1) by (simp_all add: token_accounted_def Let_def)
    have cnt: "usage_count A' issuer token = uses + 1" using True by (simp add: usage_count_def A')
    have "map (unat \<circ> ar_use_number) (?own @ [r]) = [1..<length ?own + 1] @ [length ?own + 1]"
      using word_succ_below(1) [OF uses(2)] n by (simp only: map_append nums) (simp add: r)
    also have "\<dots> = [1..<length (?own @ [r]) + 1]" by simp
    finally have nums': "map (unat \<circ> ar_use_number) (?own @ [r]) = [1..<length (?own @ [r]) + 1]" .
    have new: "map_of (au_usage A') (issuer, token) = Some \<lparr>us_token_digest = td, us_uses = uses + 1\<rparr>"
      using True by (simp add: A')
    have "ar_token_digest q = td \<and> ar_use_number q \<le> ar_max_uses q" if "q \<in> set ?own" for q
      using acc that dig True by (auto simp: token_accounted_def Let_def)
    then have "\<forall>q\<in>set (?own @ [r]). ar_token_digest q = td \<and> ar_use_number q \<le> ar_max_uses q"
      using word_succ_below(2) [OF uses(2)] by (simp add: r)
    then show ?thesis
      unfolding token_accounted_def Let_def own cnt new
      using nums' n word_succ_below(1) [OF uses(2)] by (intro conjI ballI) auto
  next
    case False
    then have own: "receipts_of issuer token (rs @ [r]) = ?own" by (auto simp: receipts_of_snoc r)
    have "map_of (au_usage A') (issuer, token) = map_of (au_usage A) (issuer, token)"
      using False by (auto simp: A')
    then show ?thesis using acc by (simp add: token_accounted_def own usage_count_def)
  qed
qed

lemma token_accounted_refused:
  assumes acc: "token_accounted rs A issuer token"
    and refused: "authorize_verified_payload E A v p contract plan now executor device = (Inl e, A')"
  shows "token_accounted rs A' issuer token"
  using acc authorize_verified_refused [OF refused]
  unfolding token_accounted_def Let_def by metis

lemma authorizer_run_accounted:
  "authorizer_run E keys rs A \<Longrightarrow> token_accounted rs A issuer token"
proof (induction rule: authorizer_run.induct)
  case start
  show ?case by (simp add: token_accounted_def receipts_of_def usage_count_def authorizer_new_def)
next
  case (granted rs A r A')
  from granted.hyps(2) show ?case
    by (cases rule: authorization_cases) (auto intro: token_accounted_granted granted.IH)
next
  case (refused rs A e A')
  from refused.hyps(2) show ?case
    by (cases rule: authorization_cases) (auto intro: token_accounted_refused refused.IH)
qed

lemma token_accounted_bounded:
  assumes acc: "token_accounted rs A issuer token"
    and limit: "\<forall>q\<in>set (receipts_of issuer token rs). ar_max_uses q = limit"
  shows "length (receipts_of issuer token rs) \<le> unat limit"
proof (cases "receipts_of issuer token rs = []")
  case False
  let ?own = "receipts_of issuer token rs"
  have nums: "map (unat \<circ> ar_use_number) ?own = [1..<length ?own + 1]"
    and le: "\<forall>q\<in>set ?own. ar_use_number q \<le> ar_max_uses q"
    using acc by (simp_all add: token_accounted_def Let_def)
  have "unat (ar_use_number (last ?own)) = last (map (unat \<circ> ar_use_number) ?own)"
    using False by (simp add: last_map)
  also have "\<dots> = length ?own" unfolding nums using False by (cases ?own) simp_all
  finally have "unat (ar_use_number (last ?own)) = length ?own" .
  moreover have "ar_use_number (last ?own) \<le> limit" using le limit False by (metis last_in_set)
  ultimately show ?thesis by (metis word_le_nat_alt)
qed simp

section \<open>Properties\<close>

text \<open>A token for the first step of the example plan, good for two uses.\<close>

definition demo_payload :: capability_token_payload where
  "demo_payload = \<lparr>ct_schema_version = ''0.1.0'', ct_token_id = ''tok'', ct_issuer_id = ''acme'', ct_key_id = ''k1'',
     ct_subject = \<lparr>sub_executor_id = ''exec'', sub_device_id = None\<rparr>, ct_issued_at_epoch_s = 10,
     ct_not_before_epoch_s = 10, ct_expires_at_epoch_s = 100, ct_max_uses = 2, ct_nonce = ''0123456789abcdef'',
     ct_bindings = \<lparr>cb_contract_digest = demo_digest, cb_capsule_digest = demo_digest, cb_plan_id = ''p1'',
       cb_plan_digest = demo_digest, cb_step_id = ''s1'', cb_operator_id = ''f''\<rparr>,
     ct_grant = \<lparr>cg_capability = ''fs'', cg_resource = ''doc'', cg_access = Write, cg_constraints = JNull\<rparr>\<rparr>"

definition demo_token :: signed_capability_token where
  "demo_token = \<lparr>st_payload = demo_payload, st_signature = \<lparr>ts_algorithm = Ed25519, ts_encoding = Base64url,
     ts_value = b64_encode demo_base64 (demo_checksum [1] [])\<rparr>\<rparr>"

definition demo_capability_env :: capability_env where
  "demo_capability_env = \<lparr>ce_signer = demo_signer_env, ce_decode_token = (\<lambda>_. Inr demo_token),
     ce_decode_signer_bound = (\<lambda>_. Inl ''unused''), ce_payload_value = (\<lambda>_. Inr JNull), ce_value_eq = (=)\<rparr>"

definition demo_authorizer :: capability_authorizer where
  "demo_authorizer = authorizer_new [((''acme'', ''k1''), [1])]"

definition demo_authorize ::
    "capability_authorizer \<Rightarrow> u64 \<Rightarrow> (capability_error + authorization_receipt) \<times> capability_authorizer" where
  "demo_authorize A now = authorize demo_capability_env A JNull demo_compiled demo_compiled_plan now ''exec'' None"

definition demo_receipt :: "u64 \<Rightarrow> u32 \<Rightarrow> authorization_receipt" where
  "demo_receipt now n = receipt_for demo_payload demo_compiled_plan (hd (cp_steps demo_compiled_plan))
     demo_digest demo_digest now n"

lemma demo_authorize_granted: "demo_authorize demo_authorizer 20 =
    (Inr (demo_receipt 20 1), snd (demo_authorize demo_authorizer 20))"
  by code_simp

lemma authorize_granted:
  assumes "authorize E A v contract plan now executor device = (Inr receipt, A')"
  obtains token where "ce_decode_token E v = Inr token" "validate_payload_shape (st_payload token) = Inr ()"
    "verify_signature E (au_trusted_keys A) token = Inr ()"
    "authorize_verified_payload E A v (st_payload token) contract plan now executor device = (Inr receipt, A')"
  using assms unfolding authorize_def by (auto simp: result_simps split: sum.splits)

text \<open>
  The authorizer issues a receipt only for a decoded token whose signature verifies
  strictly, over the canonical payload bytes, under the key trusted for its issuer and key
  identifier; that is live at the given time, bound to the contract, capsule and plan digests
  and to a step that names the token and uses the bound operator; whose subject is the
  executor and device; and whose grant is one of the contract's permissions. The receipt's
  use number is one more than the uses so far and within the token's limit.
\<close>

lemma receipt_requires_valid_token:
  assumes "authorize E A v contract plan now executor device = (Inr receipt, A')"
  shows "\<exists>token key pv message sig step. ce_decode_token E v = Inr token \<and>
    trusted_get (au_trusted_keys A) (ct_issuer_id (st_payload token)) (ct_key_id (st_payload token)) = Some key \<and>
    ce_payload_value E (st_payload token) = Inr pv \<and>
    canonical_json_bytes (sn_hasher (ce_signer E)) pv = Inr message \<and>
    sig_verify_strict (sn_crypto (ce_signer E)) key message sig \<and>
    token_live (st_payload token) now \<and> token_bound (st_payload token) contract plan step \<and>
    grant_permitted E contract (ct_grant (st_payload token)) \<and>
    sub_executor_id (ct_subject (st_payload token)) = executor \<and>
    sub_device_id (ct_subject (st_payload token)) = device \<and>
    ar_step_id receipt = ps_step_id step \<and> ar_plan_digest receipt = cp_plan_digest plan \<and>
    ar_use_number receipt = usage_count A (ar_issuer_id receipt) (ar_token_id receipt) + 1 \<and>
    ar_use_number receipt \<le> ar_max_uses receipt \<and> ar_max_uses receipt = ct_max_uses (st_payload token)"
proof -
  obtain token where token: "ce_decode_token E v = Inr token"
    "verify_signature E (au_trusted_keys A) token = Inr ()"
    "authorize_verified_payload E A v (st_payload token) contract plan now executor device = (Inr receipt, A')"
    using assms by (rule authorize_granted)
  obtain key pv message sig where sig:
    "trusted_get (au_trusted_keys A) (ct_issuer_id (st_payload token)) (ct_key_id (st_payload token)) = Some key"
    "ce_payload_value E (st_payload token) = Inr pv" "canonical_json_bytes (sn_hasher (ce_signer E)) pv = Inr message"
    "sig_verify_strict (sn_crypto (ce_signer E)) key message sig"
    using token(2) by (auto simp: verify_signature_def Let_def result_simps)
  from token(3) obtain step td pd uses where
    auth: "token_authorized E v (st_payload token) contract plan now executor device step td pd"
    and r: "receipt = receipt_for (st_payload token) plan step td pd now (uses + 1)"
      "uses = usage_count A (ct_issuer_id (st_payload token)) (ct_token_id (st_payload token))"
      "uses < ct_max_uses (st_payload token)"
    by (rule authorize_verified_granted)
  show ?thesis
    using token(1) sig auth r word_succ_below(2) [OF r(3)]
    by (intro exI [of _ token] exI [of _ key] exI [of _ pv] exI [of _ message] exI [of _ sig] exI [of _ step])
      (simp add: token_authorized_def)
qed

text \<open>
  Over any sequence of authorizations, granted or refused, by direct or signer-bound tokens,
  the receipts of a token carry the use numbers 1, 2, 3, ... without gap or repetition, the
  stored count is their number, and if they agree on the limit their number does not exceed
  it: a token is never used more often than its limit, and the 32-bit counter never wraps.
\<close>

lemma token_uses_accounted:
  assumes "authorizer_run E keys rs A" "\<forall>r\<in>set (receipts_of issuer token rs). ar_max_uses r = limit"
  shows "map (unat \<circ> ar_use_number) (receipts_of issuer token rs) = [1..<length (receipts_of issuer token rs) + 1] \<and>
    unat (usage_count A issuer token) = length (receipts_of issuer token rs) \<and>
    length (receipts_of issuer token rs) \<le> unat limit"
  using token_accounted_bounded [OF authorizer_run_accounted [OF assms(1)] assms(2)]
    authorizer_run_accounted [OF assms(1), of issuer token]
  by (simp add: token_accounted_def Let_def)

text \<open>
  an authorization that is refused, for whatever reason, changes no use count
  and no trusted key.
\<close>

lemma refused_authorization_keeps_counts:
  assumes "authorization E A (Inl e) A'"
  shows "usage_count A' issuer token = usage_count A issuer token \<and> au_trusted_keys A' = au_trusted_keys A"
  using assms by (cases rule: authorization_cases) (auto dest: authorize_verified_refused)

end
