(* ===== verification/Execution.thy ===== *)
theory Execution
  imports Capability
begin

text \<open>
  The execution runtime (\<^verbatim>\<open>crates/execution-runtime\<close>): the check that an
  execution trace conforms to the plan and that every authorised event carries the receipt
  of the capability it used. The verifier is three loops over one violation list: the
  receipts, the events, and the receipts left unused. The lemmas characterise a trace
  without violations declaratively and compose it with the plan's automaton.
\<close>

section \<open>Data\<close>

record authorization_receipt_record =
  rr_receipt_digest :: string
  rr_receipt :: authorization_receipt

record receipt_bound_trace_event =
  be_event :: trace_event
  be_authorization_receipt_digest :: "string option"

record authorized_execution_trace =
  et_schema_version :: string
  et_trace_id :: string
  et_plan_id :: string
  et_plan_digest :: string
  et_claimed_conforms_to_authorized_plan :: bool
  et_authorization_receipts :: "authorization_receipt_record list"
  et_events :: "receipt_bound_trace_event list"

datatype (plugins only: code size) authorization_trace_violation =
    AV_DuplicateReceiptDigest string
  | AV_ReceiptDigestMismatch string string
  | AV_InvalidReceiptUseNumber string u32 u32
  | AV_MissingAuthorizationReceipt string string
  | AV_UnexpectedAuthorizationReceipt string string
  | AV_UnknownAuthorizationReceipt string string
  | AV_UnusedAuthorizationReceipt string
  | AV_ReceiptContractDigestMismatch string
  | AV_ReceiptCapsuleDigestMismatch string
  | AV_ReceiptPlanIdMismatch string string string
  | AV_ReceiptPlanDigestMismatch string
  | AV_ReceiptStepMismatch string string string
  | AV_ReceiptOperatorMismatch string string string
  | AV_ReceiptTokenMismatch string string string
  | AV_InconsistentStepReceipt string string string
  | AV_ReceiptReusedAcrossSteps string string string

record execution_trace_assessment =
  xa_trace_id :: string
  xa_conforms_to_authorized_plan :: bool
  xa_claimed_conforms_to_authorized_plan :: bool
  xa_claim_matches :: bool
  xa_plan_trace :: trace_assessment
  xa_authorization_violations :: "authorization_trace_violation list"

datatype (plugins only: code size) execution_runtime_error =
    XE_UnsupportedSchemaVersion string string
  | XE_PlanIdMismatch string string
  | XE_PlanDigestMismatch
  | XE_ReceiptSerialization serde_error
  | XE_Hashing hashing_error

record execution_env =
  xe_hasher :: hasher
  xe_receipt_value :: "authorization_receipt \<Rightarrow> serde_error + json"

section \<open>The verifier\<close>

definition SUPPORTED_EXECUTION_TRACE_SCHEMA :: string where
  "SUPPORTED_EXECUTION_TRACE_SCHEMA = ''0.1.0''"

definition validate_trace_binding ::
    "compiled_plan \<Rightarrow> authorized_execution_trace \<Rightarrow> execution_runtime_error + unit" where
  "validate_trace_binding plan trace =
     and_then (ensure (et_schema_version trace = SUPPORTED_EXECUTION_TRACE_SCHEMA)
       (XE_UnsupportedSchemaVersion (et_schema_version trace) SUPPORTED_EXECUTION_TRACE_SCHEMA)) (\<lambda>_.
     and_then (ensure (et_plan_id trace = cp_plan_id plan)
       (XE_PlanIdMismatch (et_plan_id trace) (cp_plan_id plan))) (\<lambda>_.
     ensure (et_plan_digest trace = cp_plan_digest plan) XE_PlanDigestMismatch))"

definition receipt_digest :: "execution_env \<Rightarrow> authorization_receipt \<Rightarrow> execution_runtime_error + string" where
  "receipt_digest E receipt =
     and_then (map_err XE_ReceiptSerialization (xe_receipt_value E receipt)) (\<lambda>v.
     map_err XE_Hashing (canonical_json_sha256 (xe_hasher E) v))"

definition receipt_violations ::
    "compiled_plan \<Rightarrow> string \<Rightarrow> authorization_receipt \<Rightarrow> authorization_trace_violation list" where
  "receipt_violations plan digest receipt =
     (if ar_use_number receipt = 0 \<or> ar_max_uses receipt = 0 \<or> ar_use_number receipt > ar_max_uses receipt
      then [AV_InvalidReceiptUseNumber digest (ar_use_number receipt) (ar_max_uses receipt)] else [])
   @ (if ar_contract_digest receipt \<noteq> cp_contract_digest plan
      then [AV_ReceiptContractDigestMismatch digest] else [])
   @ (if ar_capsule_digest receipt \<noteq> cp_capsule_digest plan
      then [AV_ReceiptCapsuleDigestMismatch digest] else [])
   @ (if ar_plan_id receipt \<noteq> cp_plan_id plan
      then [AV_ReceiptPlanIdMismatch digest (ar_plan_id receipt) (cp_plan_id plan)] else [])
   @ (if ar_plan_digest receipt \<noteq> cp_plan_digest plan
      then [AV_ReceiptPlanDigestMismatch digest] else [])"

type_synonym receipt_state =
  "(string, authorization_receipt) bmap \<times> authorization_trace_violation list"

definition register_receipt ::
    "execution_env \<Rightarrow> compiled_plan \<Rightarrow> receipt_state \<Rightarrow> authorization_receipt_record \<Rightarrow>
     execution_runtime_error + receipt_state" where
  "register_receipt E plan st rec =
     (let (receipts, violations) = st; digest = rr_receipt_digest rec in
      and_then (receipt_digest E (rr_receipt rec)) (\<lambda>actual_digest.
      if actual_digest \<noteq> digest
      then Inr (receipts, violations @ [AV_ReceiptDigestMismatch digest actual_digest])
      else Inr (bm_insert digest (rr_receipt rec) receipts,
        violations
        @ (if map_of receipts digest \<noteq> None then [AV_DuplicateReceiptDigest digest] else [])
        @ receipt_violations plan digest (rr_receipt rec))))"

record event_state =
  es_used_receipts :: "string set"
  es_step_receipts :: "(string, string) bmap"
  es_receipt_steps :: "(string, string) bmap"
  es_violations :: "authorization_trace_violation list"

definition authorization_required :: "plan_step \<Rightarrow> trace_event \<Rightarrow> bool" where
  "authorization_required step event \<longleftrightarrow> ps_capability_token_ids step \<noteq> [] \<and> te_status event \<noteq> TS_Skipped"

definition binding_violations :: "authorization_receipt \<Rightarrow> trace_event \<Rightarrow> authorization_trace_violation list" where
  "binding_violations receipt event =
     (if ar_step_id receipt \<noteq> te_step_id event
      then [AV_ReceiptStepMismatch (te_event_id event) (ar_step_id receipt) (te_step_id event)] else [])
   @ (if ar_operator_id receipt \<noteq> te_operator_id event
      then [AV_ReceiptOperatorMismatch (te_event_id event) (ar_operator_id receipt) (te_operator_id event)] else [])
   @ (case te_capability_token_id event of
        None \<Rightarrow> []
      | Some token \<Rightarrow> if ar_token_id receipt \<noteq> token
          then [AV_ReceiptTokenMismatch (te_event_id event) (ar_token_id receipt) token] else [])"

definition use_receipt ::
    "string \<Rightarrow> authorization_receipt \<Rightarrow> trace_event \<Rightarrow> event_state \<Rightarrow> event_state" where
  "use_receipt digest receipt event st =
     (let step_id = te_step_id event;
          (step_receipts, v1) = (case map_of (es_step_receipts st) step_id of
              Some first \<Rightarrow> (es_step_receipts st,
                if first \<noteq> digest then [AV_InconsistentStepReceipt step_id first digest] else [])
            | None \<Rightarrow> (bm_insert step_id digest (es_step_receipts st), []));
          (receipt_steps, v2) = (case map_of (es_receipt_steps st) digest of
              Some first \<Rightarrow> (es_receipt_steps st,
                if first \<noteq> step_id then [AV_ReceiptReusedAcrossSteps digest first step_id] else [])
            | None \<Rightarrow> (bm_insert digest step_id (es_receipt_steps st), []))
      in \<lparr>es_used_receipts = insert digest (es_used_receipts st),
          es_step_receipts = step_receipts, es_receipt_steps = receipt_steps,
          es_violations = es_violations st @ binding_violations receipt event @ v1 @ v2\<rparr>)"

definition check_event ::
    "(string, plan_step) bmap \<Rightarrow> (string, authorization_receipt) bmap \<Rightarrow> receipt_bound_trace_event \<Rightarrow>
     event_state \<Rightarrow> event_state" where
  "check_event steps receipts bound st =
     (let event = be_event bound;
          push = (\<lambda>v. st\<lparr>es_violations := es_violations st @ [v]\<rparr>) in
      case map_of steps (te_step_id event) of
        None \<Rightarrow> st
      | Some step \<Rightarrow>
          case be_authorization_receipt_digest bound of
            None \<Rightarrow>
              if authorization_required step event
              then push (AV_MissingAuthorizationReceipt (te_event_id event) (te_step_id event)) else st
          | Some digest \<Rightarrow>
              if \<not> authorization_required step event
              then push (AV_UnexpectedAuthorizationReceipt (te_event_id event) (te_step_id event))
              else case map_of receipts digest of
                None \<Rightarrow> push (AV_UnknownAuthorizationReceipt (te_event_id event) digest)
              | Some receipt \<Rightarrow> use_receipt digest receipt event st)"

definition event_start :: "authorization_trace_violation list \<Rightarrow> event_state" where
  "event_start violations = \<lparr>es_used_receipts = {}, es_step_receipts = [], es_receipt_steps = [],
     es_violations = violations\<rparr>"

definition verify_authorized_trace ::
    "execution_env \<Rightarrow> compiled_plan \<Rightarrow> authorized_execution_trace \<Rightarrow>
     execution_runtime_error + execution_trace_assessment" where
  "verify_authorized_trace E plan trace =
     and_then (validate_trace_binding plan trace) (\<lambda>_.
     and_then (try_fold (register_receipt E plan) ([], []) (et_authorization_receipts trace))
       (\<lambda>(receipts, violations0).
     let st = fold (check_event (plan_index plan) receipts) (et_events trace) (event_start violations0);
         violations = es_violations st @ map AV_UnusedAuthorizationReceipt
           (filter (\<lambda>digest. digest \<notin> es_used_receipts st) (bm_keys receipts));
         plan_trace = verify_trace plan (map be_event (et_events trace))
           (et_claimed_conforms_to_authorized_plan trace);
         conforms = (ta_conforms_to_plan plan_trace \<and> violations = [])
     in Inr \<lparr>xa_trace_id = et_trace_id trace,
       xa_conforms_to_authorized_plan = conforms,
       xa_claimed_conforms_to_authorized_plan = et_claimed_conforms_to_authorized_plan trace,
       xa_claim_matches = (et_claimed_conforms_to_authorized_plan trace = conforms),
       xa_plan_trace = plan_trace,
       xa_authorization_violations = violations\<rparr>))"

section \<open>The receipts\<close>

definition receipt_valid :: "compiled_plan \<Rightarrow> authorization_receipt \<Rightarrow> bool" where
  "receipt_valid plan r \<longleftrightarrow>
     0 < ar_use_number r \<and> ar_use_number r \<le> ar_max_uses r \<and>
     ar_contract_digest r = cp_contract_digest plan \<and> ar_capsule_digest r = cp_capsule_digest plan \<and>
     ar_plan_id r = cp_plan_id plan \<and> ar_plan_digest r = cp_plan_digest plan"

lemma receipt_violations_Nil [simp]: "receipt_violations plan digest r = [] \<longleftrightarrow> receipt_valid plan r"
  by (auto simp: receipt_violations_def receipt_valid_def word_neq_0_conv not_less
      word_le_nat_alt word_less_nat_alt)

definition receipts_sound ::
    "execution_env \<Rightarrow> compiled_plan \<Rightarrow> authorization_receipt_record list \<Rightarrow> bool" where
  "receipts_sound E plan recs \<longleftrightarrow>
     distinct (map rr_receipt_digest recs) \<and>
     (\<forall>rec\<in>set recs. receipt_digest E (rr_receipt rec) = Inr (rr_receipt_digest rec) \<and>
        receipt_valid plan (rr_receipt rec))"

lemma register_receipts_violations:
  "try_fold (register_receipt E plan) (m, v) recs = Inr (m', v') \<Longrightarrow> \<exists>w. v' = v @ w"
proof (induction recs arbitrary: m v)
  case (Cons rec recs)
  then obtain st where st: "register_receipt E plan (m, v) rec = Inr st"
    "try_fold (register_receipt E plan) st recs = Inr (m', v')" by (auto simp: and_then_eq_Inr)
  then obtain w where "snd st = v @ w" by (auto simp: register_receipt_def result_simps Let_def split: if_splits)
  moreover have "\<exists>w'. v' = snd st @ w'" using Cons.IH [of "fst st" "snd st"] st(2) by simp
  ultimately show ?case by auto
qed simp

lemma register_receipts_sound:
  "try_fold (register_receipt E plan) (m, []) recs = Inr (m', []) \<Longrightarrow> bm_wf m \<Longrightarrow>
   receipts_sound E plan recs \<and> (\<forall>rec\<in>set recs. map_of m (rr_receipt_digest rec) = None) \<and> bm_wf m' \<and>
   map_of m' = map_of m ++ map_of (map (\<lambda>rec. (rr_receipt_digest rec, rr_receipt rec)) recs)"
proof (induction recs arbitrary: m)
  case Nil
  then show ?case by (simp add: receipts_sound_def)
next
  case (Cons rec recs)
  let ?d = "rr_receipt_digest rec" and ?m1 = "bm_insert (rr_receipt_digest rec) (rr_receipt rec) m"
  obtain m1 v1 where st: "register_receipt E plan (m, []) rec = Inr (m1, v1)"
    "try_fold (register_receipt E plan) (m1, v1) recs = Inr (m', [])"
    using Cons.prems(1) by (auto simp: and_then_eq_Inr)
  then have v1: "v1 = []" using register_receipts_violations by blast
  then have d: "receipt_digest E (rr_receipt rec) = Inr ?d" "map_of m ?d = None"
    "receipt_valid plan (rr_receipt rec)" and m1: "m1 = ?m1"
    using st(1) by (auto simp: register_receipt_def result_simps Let_def split: if_splits)
  note IH = Cons.IH [OF st(2) [unfolded v1]]
  have rest: "receipts_sound E plan recs" "bm_wf m'"
    "\<forall>x\<in>set recs. rr_receipt_digest x \<noteq> ?d \<and> map_of m (rr_receipt_digest x) = None"
    "map_of m' = map_of ?m1 ++ map_of (map (\<lambda>rec. (rr_receipt_digest rec, rr_receipt rec)) recs)"
    using IH Cons.prems(2) by (fastforce simp: m1 split: if_splits)+
  have "receipts_sound E plan (rec # recs)" using rest(1,3) d by (auto simp: receipts_sound_def)
  moreover have "map_of (map (\<lambda>rec. (rr_receipt_digest rec, rr_receipt rec)) recs) ?d = None"
    using rest(3) by (auto simp: map_of_eq_None_iff)
  then have "map_of m' = map_of m ++ map_of (map (\<lambda>rec. (rr_receipt_digest rec, rr_receipt rec)) (rec # recs))"
    unfolding rest(4) by (simp add: map_add_Cons_fresh del: map_of.simps fun_upd_apply)
  moreover have "\<forall>x\<in>set (rec # recs). map_of m (rr_receipt_digest x) = None" using rest(3) d(2) by simp
  ultimately show ?case using rest(2) by blast
qed

lemma registered_receipts:
  assumes "try_fold (register_receipt E plan) ([], []) recs = Inr (m, [])"
  shows "receipts_sound E plan recs" "bm_wf m"
    "map_of m d = Some r \<longleftrightarrow> (\<exists>rec\<in>set recs. rr_receipt_digest rec = d \<and> rr_receipt rec = r)"
proof -
  note s = register_receipts_sound [OF assms, simplified]
  show "receipts_sound E plan recs" "bm_wf m" using s by auto
  then have "distinct (map fst (map (\<lambda>rec. (rr_receipt_digest rec, rr_receipt rec)) recs))"
    by (simp add: receipts_sound_def comp_def)
  then show "map_of m d = Some r \<longleftrightarrow> (\<exists>rec\<in>set recs. rr_receipt_digest rec = d \<and> rr_receipt rec = r)"
    using s by (auto simp: image_iff)
qed

section \<open>The events\<close>

text \<open>The step and receipt digest that an event uses, if it needs an authorization and carries one.\<close>

definition event_use :: "compiled_plan \<Rightarrow> receipt_bound_trace_event \<Rightarrow> (string \<times> string) option" where
  "event_use plan be =
     (case map_of (plan_index plan) (te_step_id (be_event be)) of
        None \<Rightarrow> None
      | Some step \<Rightarrow> if authorization_required step (be_event be)
          then map_option (Pair (te_step_id (be_event be))) (be_authorization_receipt_digest be) else None)"

definition receipt_matches :: "authorization_receipt \<Rightarrow> trace_event \<Rightarrow> bool" where
  "receipt_matches r e \<longleftrightarrow>
     ar_step_id r = te_step_id e \<and> ar_operator_id r = te_operator_id e \<and>
     (\<forall>token. te_capability_token_id e = Some token \<longrightarrow> ar_token_id r = token)"

definition event_covered ::
    "compiled_plan \<Rightarrow> (string, authorization_receipt) bmap \<Rightarrow> receipt_bound_trace_event \<Rightarrow> bool" where
  "event_covered plan receipts be \<longleftrightarrow>
     (case map_of (plan_index plan) (te_step_id (be_event be)) of
        None \<Rightarrow> True
      | Some step \<Rightarrow> if authorization_required step (be_event be)
          then \<exists>d r. be_authorization_receipt_digest be = Some d \<and> map_of receipts d = Some r \<and>
            receipt_matches r (be_event be)
          else be_authorization_receipt_digest be = None)"

definition uses_of :: "compiled_plan \<Rightarrow> receipt_bound_trace_event list \<Rightarrow> (string \<times> string) set" where
  "uses_of plan events = {u. \<exists>be\<in>set events. event_use plan be = Some u}"

definition one_to_one :: "('a \<times> 'b) set \<Rightarrow> bool" where
  "one_to_one U \<longleftrightarrow> (\<forall>s d s' d'. (s, d) \<in> U \<longrightarrow> (s', d') \<in> U \<longrightarrow> s = s' \<longleftrightarrow> d = d')"

lemma binding_violations_Nil [simp]: "binding_violations r e = [] \<longleftrightarrow> receipt_matches r e"
  by (auto simp: binding_violations_def receipt_matches_def split: option.splits)

definition tracks :: "event_state \<Rightarrow> (string \<times> string) set \<Rightarrow> bool" where
  "tracks st U \<longleftrightarrow>
     es_used_receipts st = snd ` U \<and>
     (\<forall>s d. map_of (es_step_receipts st) s = Some d \<longleftrightarrow> (s, d) \<in> U) \<and>
     (\<forall>s d. map_of (es_receipt_steps st) d = Some s \<longleftrightarrow> (s, d) \<in> U)"

lemma tracks_one_to_one: "tracks st U \<Longrightarrow> one_to_one U"
  unfolding tracks_def one_to_one_def by (metis option.inject)

lemma use_receipt_clean:
  assumes tr: "tracks st U" and clean: "es_violations st = []"
  shows "es_violations (use_receipt d r e st) = [] \<longleftrightarrow>
      receipt_matches r e \<and> one_to_one (insert (te_step_id e, d) U)"
    and "es_violations (use_receipt d r e st) = [] \<Longrightarrow>
      tracks (use_receipt d r e st) (insert (te_step_id e, d) U)"
proof -
  let ?s = "te_step_id e"
  have one: "one_to_one U" using tr by (rule tracks_one_to_one)
  have fwd: "map_of (es_step_receipts st) s = Some d' \<longleftrightarrow> (s, d') \<in> U"
    and bwd: "map_of (es_receipt_steps st) d' = Some s \<longleftrightarrow> (s, d') \<in> U" for s d'
    using tr by (simp_all add: tracks_def)
  have first: "(\<forall>d'. (?s, d') \<in> U \<longrightarrow> d' = d) \<longleftrightarrow>
      (case map_of (es_step_receipts st) ?s of None \<Rightarrow> True | Some d' \<Rightarrow> d' = d)"
    by (auto simp flip: fwd split: option.splits)
  have second: "(\<forall>s. (s, d) \<in> U \<longrightarrow> s = ?s) \<longleftrightarrow>
      (case map_of (es_receipt_steps st) d of None \<Rightarrow> True | Some s \<Rightarrow> s = ?s)"
    by (auto simp flip: bwd split: option.splits)
  have viol: "es_violations (use_receipt d r e st) = [] \<longleftrightarrow> receipt_matches r e \<and>
      (\<forall>d'. (?s, d') \<in> U \<longrightarrow> d' = d) \<and> (\<forall>s. (s, d) \<in> U \<longrightarrow> s = ?s)"
    unfolding first second using clean
    by (auto simp: use_receipt_def Let_def split: option.splits prod.splits)
  then show iff: "es_violations (use_receipt d r e st) = [] \<longleftrightarrow>
      receipt_matches r e \<and> one_to_one (insert (te_step_id e, d) U)"
    using one unfolding one_to_one_def by blast
  assume "es_violations (use_receipt d r e st) = []"
  then have only: "(?s, d') \<in> U \<Longrightarrow> d' = d" "(s, d) \<in> U \<Longrightarrow> s = ?s" for s d'
    using viol by blast+
  have step: "map_of (es_step_receipts (use_receipt d r e st)) = (map_of (es_step_receipts st))(?s \<mapsto> d)"
    using fwd [of ?s] only(1)
    by (auto simp: use_receipt_def Let_def fun_eq_iff split: option.splits prod.splits)
  have backward: "map_of (es_receipt_steps (use_receipt d r e st)) = (map_of (es_receipt_steps st))(d \<mapsto> ?s)"
    using bwd [of d] only(2)
    by (auto simp: use_receipt_def Let_def fun_eq_iff split: option.splits prod.splits)
  have used: "es_used_receipts (use_receipt d r e st) = insert d (es_used_receipts st)"
    by (simp add: use_receipt_def Let_def split: option.split prod.split)
  show "tracks (use_receipt d r e st) (insert (te_step_id e, d) U)"
    unfolding tracks_def step backward used
    using tr only fwd bwd by (auto simp: tracks_def)
qed

lemma check_event_grows: "\<exists>w. es_violations (check_event steps receipts be st) = es_violations st @ w"
  by (simp add: check_event_def use_receipt_def Let_def split: option.split prod.split)

lemma check_event_clean:
  fixes plan receipts be
  assumes tr: "tracks st U" and clean: "es_violations st = []"
  defines "st' \<equiv> check_event (plan_index plan) receipts be st"
    and "U' \<equiv> (case event_use plan be of None \<Rightarrow> U | Some u \<Rightarrow> insert u U)"
  shows "es_violations st' = [] \<longleftrightarrow> event_covered plan receipts be \<and> one_to_one U'"
    and "es_violations st' = [] \<Longrightarrow> tracks st' U'"
proof -
  have one: "one_to_one U" using tr by (rule tracks_one_to_one)
  note use = use_receipt_clean [OF tr clean]
  show "es_violations st' = [] \<longleftrightarrow> event_covered plan receipts be \<and> one_to_one U'"
    using one clean
    by (auto simp: st'_def U'_def check_event_def event_use_def event_covered_def Let_def use(1)
        split: option.splits)
  show "es_violations st' = [] \<Longrightarrow> tracks st' U'"
    using tr clean use(2)
    by (auto simp: st'_def U'_def check_event_def event_use_def Let_def split: option.splits if_splits)
qed

lemma uses_of_snoc:
  "uses_of plan (events @ [be]) =
     (case event_use plan be of None \<Rightarrow> uses_of plan events | Some u \<Rightarrow> insert u (uses_of plan events))"
  by (auto simp: uses_of_def split: option.split)

lemma one_to_one_subset: "one_to_one U \<Longrightarrow> V \<subseteq> U \<Longrightarrow> one_to_one V"
  unfolding one_to_one_def by blast

lemma events_clean:
  fixes plan :: compiled_plan and receipts :: "(string, authorization_receipt) bmap"
  defines "run \<equiv> \<lambda>events. fold (check_event (plan_index plan) receipts) events (event_start [])"
  shows "(es_violations (run events) = [] \<longleftrightarrow>
      (\<forall>be\<in>set events. event_covered plan receipts be) \<and> one_to_one (uses_of plan events)) \<and>
    (es_violations (run events) = [] \<longrightarrow> tracks (run events) (uses_of plan events))"
proof (induction events rule: rev_induct)
  case Nil
  show ?case by (simp add: run_def event_start_def one_to_one_def uses_of_def tracks_def)
next
  case (snoc be events)
  have step: "run (events @ [be]) = check_event (plan_index plan) receipts be (run events)"
    by (simp add: run_def)
  show ?case
  proof (cases "es_violations (run events) = []")
    case True
    then have tr: "tracks (run events) (uses_of plan events)" using snoc by blast
    note c = check_event_clean [OF tr True, of plan receipts be, folded step uses_of_snoc]
    show ?thesis using c snoc True by auto
  next
    case False
    then have "es_violations (run (events @ [be])) \<noteq> []"
      using check_event_grows [of "plan_index plan" receipts be "run events"] by (auto simp: step)
    moreover have "\<not> ((\<forall>be\<in>set events. event_covered plan receipts be) \<and> one_to_one (uses_of plan events))"
      using False snoc by blast
    moreover have "uses_of plan events \<subseteq> uses_of plan (events @ [be])" by (auto simp: uses_of_def)
    ultimately show ?thesis using one_to_one_subset by auto
  qed
qed

section \<open>A conforming execution\<close>

lemma check_events_grow:
  "\<exists>w. es_violations (fold (check_event steps receipts) events st) = es_violations st @ w"
proof (induction events arbitrary: st)
  case (Cons be events)
  then obtain w where "es_violations (fold (check_event steps receipts) events (check_event steps receipts be st))
      = es_violations (check_event steps receipts be st) @ w" by blast
  then show ?case using check_event_grows [of steps receipts be st] by auto
qed simp

definition recorded_receipts :: "authorized_execution_trace \<Rightarrow> (string \<times> authorization_receipt) list" where
  "recorded_receipts trace = map (\<lambda>rec. (rr_receipt_digest rec, rr_receipt rec)) (et_authorization_receipts trace)"

text \<open>
  The specification: the recorded receipts are genuine, valid and for this plan; every event
  that needs an authorization carries a matching recorded receipt and no other event carries
  one; a step uses one receipt, a receipt serves one step, and no receipt is left over.
\<close>

definition authorization_conforms ::
    "execution_env \<Rightarrow> compiled_plan \<Rightarrow> authorized_execution_trace \<Rightarrow> bool" where
  "authorization_conforms E plan trace \<longleftrightarrow>
     receipts_sound E plan (et_authorization_receipts trace) \<and>
     (\<forall>be\<in>set (et_events trace). event_covered plan (recorded_receipts trace) be) \<and>
     one_to_one (uses_of plan (et_events trace)) \<and>
     rr_receipt_digest ` set (et_authorization_receipts trace) \<subseteq> snd ` uses_of plan (et_events trace)"

lemma event_covered_cong: "map_of m = map_of n \<Longrightarrow> event_covered plan m be = event_covered plan n be"
  by (simp add: event_covered_def split: option.split)

lemma verify_authorized_trace_conforms:
  assumes ok: "verify_authorized_trace E plan trace = Inr a" and conf: "xa_conforms_to_authorized_plan a"
  shows "authorization_conforms E plan trace"
    and "ta_conforms_to_plan (verify_trace plan (map be_event (et_events trace))
      (et_claimed_conforms_to_authorized_plan trace))"
    and "et_plan_digest trace = cp_plan_digest plan"
proof -
  obtain receipts v0 where reg: "try_fold (register_receipt E plan) ([], []) (et_authorization_receipts trace)
      = Inr (receipts, v0)" and bind: "validate_trace_binding plan trace = Inr ()"
    using ok by (auto simp: verify_authorized_trace_def and_then_eq_Inr)
  define st where "st = fold (check_event (plan_index plan) receipts) (et_events trace) (event_start v0)"
  have plan_ok: "ta_conforms_to_plan (verify_trace plan (map be_event (et_events trace))
      (et_claimed_conforms_to_authorized_plan trace))"
    and clean: "es_violations st = []" and used: "\<forall>d\<in>set (bm_keys receipts). d \<in> es_used_receipts st"
    using ok conf bind reg
    by (auto simp: verify_authorized_trace_def Let_def filter_empty_conv simp flip: st_def) force
  then show "ta_conforms_to_plan (verify_trace plan (map be_event (et_events trace))
      (et_claimed_conforms_to_authorized_plan trace))" by simp
  have v0: "v0 = []"
    using check_events_grow [of "plan_index plan" receipts "et_events trace" "event_start v0", folded st_def] clean
    by (simp add: event_start_def)
  note rs = registered_receipts [OF reg [unfolded v0]]
  have maps: "map_of receipts = map_of (recorded_receipts trace)"
    using register_receipts_sound [OF reg [unfolded v0]] by (simp add: recorded_receipts_def)
  have st: "st = fold (check_event (plan_index plan) receipts) (et_events trace) (event_start [])"
    by (simp add: st_def v0)
  note ev = events_clean [of plan receipts "et_events trace", folded st]
  have tr: "tracks st (uses_of plan (et_events trace))" using ev clean by blast
  have "rr_receipt_digest ` set (et_authorization_receipts trace) \<subseteq> fst ` set receipts"
    using rs(3) by (force simp flip: dom_map_of_conv_image_fst)
  also have "\<dots> \<subseteq> snd ` uses_of plan (et_events trace)" using used tr by (auto simp: tracks_def)
  finally show "authorization_conforms E plan trace"
    unfolding authorization_conforms_def
    using rs(1) ev clean event_covered_cong [OF maps] by blast
  show "et_plan_digest trace = cp_plan_digest plan"
    using bind by (simp add: validate_trace_binding_def result_simps)
qed

section \<open>Properties\<close>

definition demo_execution_env :: execution_env where
  "demo_execution_env = \<lparr>xe_hasher = demo_hasher, xe_receipt_value = (\<lambda>_. Inr JNull)\<rparr>"

definition demo_authorized_trace :: authorized_execution_trace where
  "demo_authorized_trace = \<lparr>et_schema_version = ''0.1.0'', et_trace_id = ''tr'', et_plan_id = ''p1'',
     et_plan_digest = demo_digest, et_claimed_conforms_to_authorized_plan = True,
     et_authorization_receipts = [\<lparr>rr_receipt_digest = demo_digest, rr_receipt = demo_receipt 20 1\<rparr>],
     et_events = map (\<lambda>e. \<lparr>be_event = e, be_authorization_receipt_digest =
       (if te_step_id e = ''s1'' then Some demo_digest else None)\<rparr>) demo_trace\<rparr>"

text \<open>
  C19: if a trace is found to conform to the authorised plan, it conforms to the plan,
  names the plan's digest, and its authorisations are sound: the recorded digest of each
  receipt is its digest, no digest is recorded twice, every receipt carries the plan's
  identity and a use number within its limit; every event of a step that needs a capability
  names a recorded receipt for that step, operator and token, and no other event names one;
  a step uses one receipt, a receipt serves one step, and no recorded receipt is left unused.
\<close>

theorem conforming_trace_is_authorized:
  assumes "verify_authorized_trace E plan trace = Inr a" "xa_conforms_to_authorized_plan a"
  shows "authorization_conforms E plan trace \<and> et_plan_digest trace = cp_plan_digest plan \<and>
    ta_conforms_to_plan (verify_trace plan (map be_event (et_events trace))
      (et_claimed_conforms_to_authorized_plan trace))"
  using verify_authorized_trace_conforms [OF assms] by blast

theorem conforming_trace_is_authorized_witness:
  "authorization_conforms demo_execution_env demo_compiled_plan demo_authorized_trace"
proof -
  have "case verify_authorized_trace demo_execution_env demo_compiled_plan demo_authorized_trace of
      Inl _ \<Rightarrow> False | Inr a \<Rightarrow> xa_conforms_to_authorized_plan a"
    by code_simp
  then show ?thesis using conforming_trace_is_authorized by (auto split: sum.splits)
qed

end
