(* ===== verification/Evidence.thy ===== *)
theory Evidence
  imports Execution
begin

text \<open>
  The evidence runtime (\<^verbatim>\<open>crates/evidence-runtime\<close>): the assessment of an evidence
  bundle. It checks the bindings, replays the execution trace, feeds the proof results to a
  contract session and compares the claimed decision with the recomputed one. The lemmas
  show that the decision is the one of a reachable session, and what the counts of an
  accepted bundle are.
\<close>

section \<open>Data\<close>

datatype (plugins only: code size) digest_algorithm = Sha256 | Sha512

record bundle_reference =
  br_id :: string
  br_algorithm :: digest_algorithm
  br_digest :: string
  br_uri :: "string option"

record bundle_bindings =
  bb_contract :: bundle_reference
  bb_profession_capsule :: bundle_reference
  bb_operator_plan :: bundle_reference
  bb_policy_snapshot :: "bundle_reference option"

record application_evidence =
  ap_id :: string
  ap_version :: string
  ap_digest :: string

record environment_evidence =
  en_os :: string
  en_kernel_version :: string
  en_applications :: "application_evidence list"
  en_clock_source :: string
  en_sandbox_id :: "string option"

datatype (plugins only: code size) artifact_role = RoleInput | RoleIntermediate | RoleOutput | RoleEvidence

record artifact_evidence =
  ae_artifact_id :: string
  ae_role :: artifact_role
  ae_uri :: string
  ae_media_type :: "string option"
  ae_algorithm :: digest_algorithm
  ae_digest :: string
  ae_size_bytes :: u64

datatype (plugins only: code size) proof_result_status = PR_Passed | PR_Failed | PR_Unknown

record proof_result =
  res_evidence_id :: string
  res_obligation_id :: string
  res_claim_id :: string
  res_subject_artifact_id :: string
  res_validator_id :: string
  res_validator_version :: string
  res_independence_class :: independence_class
  res_status :: proof_result_status
  res_mandatory :: bool
  res_observed :: json
  res_expected :: "json option"
  res_unit :: "string option"
  res_tolerance :: "u64 option"
  res_evidence_artifact_ids :: "string list"
  res_evaluated_at :: string

record claimed_decision =
  cd_status :: decision_status
  cd_assurance_level :: assurance_level
  cd_mandatory_passed :: nat
  cd_mandatory_failed :: nat
  cd_mandatory_unknown :: nat
  cd_reason :: string
  cd_sealed_at :: "string option"
  cd_signature :: "string option"

record evidence_bundle =
  bu_schema_version :: string
  bu_bundle_id :: string
  bu_run_id :: string
  bu_created_at :: string
  bu_bindings :: bundle_bindings
  bu_environment :: environment_evidence
  bu_artifacts :: "artifact_evidence list"
  bu_trace :: authorized_execution_trace
  bu_proof_results :: "proof_result list"
  bu_claimed_decision :: claimed_decision

datatype (plugins only: code size) evidence_bundle_error =
    EB_BundleDecode serde_error
  | EB_Hashing hashing_error
  | EB_ContractRuntime contract_runtime_error
  | EB_ExecutionRuntime execution_runtime_error
  | EB_UnsupportedSchemaVersion string string
  | EB_ContractBindingIdMismatch string string
  | EB_ContractDigestMismatch
  | EB_CapsuleDigestMismatch
  | EB_PlanBindingIdMismatch string string
  | EB_PlanDigestMismatch
  | EB_UnsupportedBindingAlgorithm string
  | EB_TraceClaimMismatch
  | EB_TraceNonConformance nat
  | EB_DuplicateArtifact string
  | EB_UnknownSubjectArtifact string
  | EB_UnknownEvidenceArtifact string
  | EB_InvalidEvidenceArtifactRole string
  | EB_UnknownProofObligation string
  | EB_ClaimMismatch string string
  | EB_MandatoryFlagMismatch string bool bool
  | EB_ClaimedAssuranceMismatch assurance_level assurance_level
  | EB_ClaimedDecisionMismatch string

record bundle_assessment =
  ba_bundle_id :: string
  ba_run_id :: string
  ba_bundle_digest :: string
  ba_verified_assurance_level :: assurance_level
  ba_trace_assessment :: execution_trace_assessment
  ba_mandatory_passed :: nat
  ba_mandatory_failed :: nat
  ba_mandatory_unknown :: nat
  ba_decision :: acceptance_decision

record evidence_env =
  vv_execution :: execution_env
  vv_decode_bundle :: "json \<Rightarrow> serde_error + evidence_bundle"

section \<open>Operations\<close>

definition SUPPORTED_EVIDENCE_SCHEMA :: string where
  "SUPPORTED_EVIDENCE_SCHEMA = ''0.4.0''"

definition validate_bundle_bindings ::
    "compiled_contract \<Rightarrow> compiled_plan \<Rightarrow> evidence_bundle \<Rightarrow> evidence_bundle_error + unit" where
  "validate_bundle_bindings compiled plan bundle =
     (let b = bu_bindings bundle in
      and_then (ensure (br_algorithm (bb_contract b) = Sha256) (EB_UnsupportedBindingAlgorithm ''contract'')) (\<lambda>_.
      and_then (ensure (br_algorithm (bb_profession_capsule b) = Sha256)
        (EB_UnsupportedBindingAlgorithm ''profession_capsule'')) (\<lambda>_.
      and_then (ensure (br_algorithm (bb_operator_plan b) = Sha256)
        (EB_UnsupportedBindingAlgorithm ''operator_plan'')) (\<lambda>_.
      and_then (ensure (br_id (bb_contract b) = cc_contract_id compiled)
        (EB_ContractBindingIdMismatch (br_id (bb_contract b)) (cc_contract_id compiled))) (\<lambda>_.
      and_then (ensure (br_digest (bb_contract b) = seal_contract_digest (cc_seal compiled))
        EB_ContractDigestMismatch) (\<lambda>_.
      and_then (ensure (br_digest (bb_profession_capsule b) = seal_capsule_digest (cc_seal compiled))
        EB_CapsuleDigestMismatch) (\<lambda>_.
      and_then (ensure (br_id (bb_operator_plan b) = cp_plan_id plan)
        (EB_PlanBindingIdMismatch (br_id (bb_operator_plan b)) (cp_plan_id plan))) (\<lambda>_.
      ensure (br_digest (bb_operator_plan b) = cp_plan_digest plan) EB_PlanDigestMismatch))))))))"

fun index_artifacts_from ::
    "(string, artifact_evidence) bmap \<Rightarrow> artifact_evidence list \<Rightarrow>
     evidence_bundle_error + (string, artifact_evidence) bmap" where
  "index_artifacts_from index [] = Inr index"
| "index_artifacts_from index (artifact # artifacts) =
     (if map_of index (ae_artifact_id artifact) \<noteq> None
      then Inl (EB_DuplicateArtifact (ae_artifact_id artifact))
      else index_artifacts_from (bm_insert (ae_artifact_id artifact) artifact index) artifacts)"

definition index_artifacts ::
    "artifact_evidence list \<Rightarrow> evidence_bundle_error + (string, artifact_evidence) bmap" where
  "index_artifacts artifacts = index_artifacts_from [] artifacts"

fun truth_value_of :: "proof_result_status \<Rightarrow> truth_value" where
  "truth_value_of PR_Passed = TV_True"
| "truth_value_of PR_Failed = TV_False"
| "truth_value_of PR_Unknown = TV_Unknown"

fun count_report :: "obligation_report \<Rightarrow> nat \<times> nat \<times> nat \<Rightarrow> nat \<times> nat \<times> nat" where
  "count_report report (passed, failed, unknown) =
     (case rep_state report of
        Satisfied \<Rightarrow> (passed + 1, failed, unknown)
      | Failed \<Rightarrow> (passed, failed + 1, unknown)
      | Invalidated \<Rightarrow> (passed, failed + 1, unknown)
      | Pending \<Rightarrow> (passed, failed, unknown + 1)
      | Indeterminate \<Rightarrow> (passed, failed, unknown + 1))"

definition count_mandatory :: "acceptance_decision \<Rightarrow> nat \<times> nat \<times> nat" where
  "count_mandatory decision = fold count_report (filter rep_mandatory (dec_obligation_reports decision)) (0, 0, 0)"

text \<open>The rendering of the two formatted messages.\<close>

fun debug_status :: "decision_status \<Rightarrow> string" where
  "debug_status Accepted = ''Accepted''"
| "debug_status Blocked = ''Blocked''"
| "debug_status Rejected = ''Rejected''"

fun display_nat :: "nat \<Rightarrow> string" where
  "display_nat n = (if n < 10 then [char_of (48 + n)] else display_nat (n div 10) @ [char_of (48 + n mod 10)])"

declare display_nat.simps [simp del]

definition display_counts :: "nat \<Rightarrow> nat \<Rightarrow> nat \<Rightarrow> string" where
  "display_counts p f u = ''('' @ display_nat p @ '', '' @ display_nat f @ '', '' @ display_nat u @ '')''"

definition validate_claimed_decision ::
    "evidence_bundle \<Rightarrow> acceptance_decision \<Rightarrow> nat \<Rightarrow> nat \<Rightarrow> nat \<Rightarrow> evidence_bundle_error + unit" where
  "validate_claimed_decision bundle decision passed failed unknown =
     (let claimed = bu_claimed_decision bundle in
      and_then (ensure (cd_status claimed = dec_status decision)
        (EB_ClaimedDecisionMismatch (''status '' @ debug_status (cd_status claimed) @ '' != ''
           @ debug_status (dec_status decision)))) (\<lambda>_.
      and_then (ensure (\<not> (cd_mandatory_passed claimed \<noteq> passed \<or> cd_mandatory_failed claimed \<noteq> failed
          \<or> cd_mandatory_unknown claimed \<noteq> unknown))
        (EB_ClaimedDecisionMismatch (''counts '' @ display_counts (cd_mandatory_passed claimed)
           (cd_mandatory_failed claimed) (cd_mandatory_unknown claimed) @ '' != ''
           @ display_counts passed failed unknown))) (\<lambda>_.
      ensure (\<not> (dec_status decision = Accepted \<and> unknown > 0))
        (EB_ClaimedDecisionMismatch ''accepted decision contains mandatory unknowns''))))"

definition check_evidence_artifact ::
    "(string, artifact_evidence) bmap \<Rightarrow> string \<Rightarrow> evidence_bundle_error + unit" where
  "check_evidence_artifact artifacts evidence_artifact_id =
     and_then (ok_or (map_of artifacts evidence_artifact_id) (EB_UnknownEvidenceArtifact evidence_artifact_id)) (\<lambda>artifact.
     ensure (ae_role artifact = RoleEvidence) (EB_InvalidEvidenceArtifactRole evidence_artifact_id))"

definition evidence_record_of :: "string \<Rightarrow> artifact_evidence \<Rightarrow> proof_result \<Rightarrow> evidence_record" where
  "evidence_record_of contract_digest subject result = \<lparr>
     ev_evidence_id = res_evidence_id result,
     ev_obligation_id = res_obligation_id result,
     ev_constraint_id = res_claim_id result,
     ev_contract_digest = contract_digest,
     ev_subject_digest = ae_digest subject,
     ev_validator_id = res_validator_id result,
     ev_validator_version = res_validator_version result,
     ev_result = truth_value_of (res_status result),
     ev_independence = res_independence_class result,
     ev_observed_at = res_evaluated_at result\<rparr>"

definition assess_result ::
    "(string, artifact_evidence) bmap \<Rightarrow> (string, proof_obligation_requirement) bmap \<Rightarrow> string \<Rightarrow>
     string set \<times> contract_session \<Rightarrow> proof_result \<Rightarrow>
     evidence_bundle_error + string set \<times> contract_session" where
  "assess_result artifacts requirements contract_digest st result =
     (let (evidence_ids, session) = st in
      and_then (ensure (res_evidence_id result \<notin> evidence_ids)
        (EB_ClaimedDecisionMismatch (''duplicate evidence ID '' @ res_evidence_id result))) (\<lambda>_.
      and_then (ok_or (map_of requirements (res_obligation_id result))
        (EB_UnknownProofObligation (res_obligation_id result))) (\<lambda>requirement.
      and_then (ensure (res_claim_id result = req_constraint_id requirement)
        (EB_ClaimMismatch (res_claim_id result) (req_constraint_id requirement))) (\<lambda>_.
      and_then (ensure (res_mandatory result = req_mandatory requirement)
        (EB_MandatoryFlagMismatch (res_obligation_id result) (res_mandatory result)
           (req_mandatory requirement))) (\<lambda>_.
      and_then (ok_or (map_of artifacts (res_subject_artifact_id result))
        (EB_UnknownSubjectArtifact (res_subject_artifact_id result))) (\<lambda>subject.
      and_then (try_for_each (check_evidence_artifact artifacts) (res_evidence_artifact_ids result)) (\<lambda>_.
      let (r, session') = session_ingest_evidence session (evidence_record_of contract_digest subject result) in
      and_then (map_err EB_ContractRuntime r) (\<lambda>_.
      Inr (insert (res_evidence_id result) evidence_ids, session')))))))))"

definition assess_bundle ::
    "evidence_env \<Rightarrow> compiled_contract \<Rightarrow> compiled_plan \<Rightarrow> json \<Rightarrow> assurance_level \<Rightarrow>
     evidence_bundle_error + bundle_assessment" where
  "assess_bundle E compiled plan bundle_value verified =
     and_then (map_err EB_BundleDecode (vv_decode_bundle E bundle_value)) (\<lambda>bundle.
     and_then (ensure (bu_schema_version bundle = SUPPORTED_EVIDENCE_SCHEMA)
       (EB_UnsupportedSchemaVersion (bu_schema_version bundle) SUPPORTED_EVIDENCE_SCHEMA)) (\<lambda>_.
     and_then (validate_bundle_bindings compiled plan bundle) (\<lambda>_.
     and_then (ensure (cd_assurance_level (bu_claimed_decision bundle) = verified)
       (EB_ClaimedAssuranceMismatch (cd_assurance_level (bu_claimed_decision bundle)) verified)) (\<lambda>_.
     and_then (map_err EB_ExecutionRuntime (verify_authorized_trace (vv_execution E) plan (bu_trace bundle))) (\<lambda>trace.
     and_then (ensure (xa_claim_matches trace) EB_TraceClaimMismatch) (\<lambda>_.
     and_then (ensure (xa_conforms_to_authorized_plan trace)
       (EB_TraceNonConformance (length (ta_violations (xa_plan_trace trace))
          + length (xa_authorization_violations trace)))) (\<lambda>_.
     and_then (index_artifacts (bu_artifacts bundle)) (\<lambda>artifacts.
     let requirements = bm_collect (map (\<lambda>r. (req_obligation_id r, r)) (cc_proof_requirements compiled)) in
     and_then (map_err EB_ContractRuntime (session_new compiled verified)) (\<lambda>session.
     and_then (try_fold (assess_result artifacts requirements (seal_contract_digest (cc_seal compiled)))
       ({}, session) (bu_proof_results bundle)) (\<lambda>(_, session').
     let decision = session_evaluate session';
         (passed, failed, unknown) = count_mandatory decision in
     and_then (validate_claimed_decision bundle decision passed failed unknown) (\<lambda>_.
     and_then (map_err EB_Hashing (canonical_json_sha256 (xe_hasher (vv_execution E)) bundle_value)) (\<lambda>digest.
     Inr \<lparr>ba_bundle_id = bu_bundle_id bundle, ba_run_id = bu_run_id bundle, ba_bundle_digest = digest,
       ba_verified_assurance_level = verified, ba_trace_assessment = trace,
       ba_mandatory_passed = passed, ba_mandatory_failed = failed, ba_mandatory_unknown = unknown,
       ba_decision = decision\<rparr>))))))))))))"

section \<open>Counts\<close>

lemma fold_count_report:
  "fold count_report reports (p, f, u) =
     (p + length (filter (\<lambda>r. rep_state r = Satisfied) reports),
      f + length (filter (\<lambda>r. rep_state r = Failed \<or> rep_state r = Invalidated) reports),
      u + length (filter (\<lambda>r. rep_state r = Pending \<or> rep_state r = Indeterminate) reports))"
  by (induction reports arbitrary: p f u) (auto split: obligation_state.splits)

lemma count_mandatory_eq:
  "count_mandatory d =
     (let reports = filter rep_mandatory (dec_obligation_reports d) in
      (length (filter (\<lambda>r. rep_state r = Satisfied) reports),
       length (filter (\<lambda>r. rep_state r = Failed \<or> rep_state r = Invalidated) reports),
       length (filter (\<lambda>r. rep_state r = Pending \<or> rep_state r = Indeterminate) reports)))"
  by (simp add: count_mandatory_def fold_count_report)

lemma count_mandatory_total:
  assumes "count_mandatory d = (p, f, u)"
  shows "p + f + u = length (filter rep_mandatory (dec_obligation_reports d))"
proof -
  have "length (filter (\<lambda>r. rep_state r = Satisfied) rs)
      + length (filter (\<lambda>r. rep_state r = Failed \<or> rep_state r = Invalidated) rs)
      + length (filter (\<lambda>r. rep_state r = Pending \<or> rep_state r = Indeterminate) rs) = length rs" for rs
  proof (induction rs)
    case (Cons r rs)
    then show ?case by (cases "rep_state r") simp_all
  qed simp
  then show ?thesis using assms by (auto simp: count_mandatory_eq Let_def simp del: filter_filter)
qed

lemma dec_obligation_reports_evaluate: "dec_obligation_reports (evaluate k) = obligation_reports k"
  by (simp add: evaluate_def Let_def case_prod_unfold)

lemma count_mandatory_accepted:
  assumes acc: "dec_status (evaluate k) = Accepted" and cnt: "count_mandatory (evaluate k) = (p, f, u)"
  shows "f = 0" "u = 0" "0 < p"
proof -
  let ?rs = "filter rep_mandatory (obligation_reports k)"
  have sat: "\<forall>r\<in>set ?rs. rep_state r = Satisfied" and ne: "?rs \<noteq> []"
    using acc [unfolded evaluate_Accepted_iff acceptance_rule_def]
    by (auto simp: set_obligation_reports state_for_Satisfied_iff filter_empty_conv)
  have eqs: "p = length (filter (\<lambda>r. rep_state r = Satisfied) ?rs)"
    "f = length (filter (\<lambda>r. rep_state r = Failed \<or> rep_state r = Invalidated) ?rs)"
    "u = length (filter (\<lambda>r. rep_state r = Pending \<or> rep_state r = Indeterminate) ?rs)"
    using cnt unfolding count_mandatory_eq Let_def dec_obligation_reports_evaluate by simp_all
  have "filter (\<lambda>r. rep_state r = Satisfied) ?rs = ?rs" using sat by (simp only: filter_id_conv)
  then show "0 < p" using eqs(1) ne by simp
  show "f = 0" "u = 0" using sat unfolding eqs by (auto simp: filter_empty_conv)
qed

section \<open>The assessment\<close>

interpretation artifacts: indexing_loop "[]" map_of bm_insert bm_wf
  index_artifacts_from ae_artifact_id "\<lambda>artifact. artifact" "\<lambda>_. Inr ()"
  "\<lambda>artifact. EB_DuplicateArtifact (ae_artifact_id artifact)"
  by unfold_locales simp_all

lemma assess_result_ok:
  assumes "assess_result artifacts requirements cd (ids, session) result = Inr (ids', session')"
  obtains subject where "map_of artifacts (res_subject_artifact_id result) = Some subject"
    "session' = snd (session_ingest_evidence session (evidence_record_of cd subject result))"
    "res_evidence_id result \<notin> ids" "ids' = insert (res_evidence_id result) ids"
  using assms
  by (auto simp: assess_result_def result_simps case_prod_unfold Let_def)

lemma assess_results_reachable:
  "try_fold (assess_result artifacts requirements cd) (ids, session) results = Inr (ids', session') \<Longrightarrow>
   session_reachable compiled a session \<Longrightarrow> session_reachable compiled a session'"
proof (induction results arbitrary: ids session)
  case (Cons result results)
  then obtain ids1 session1 where step: "assess_result artifacts requirements cd (ids, session) result = Inr (ids1, session1)"
    "try_fold (assess_result artifacts requirements cd) (ids1, session1) results = Inr (ids', session')"
    by (auto simp: and_then_eq_Inr)
  from step(1) obtain subject where
    "session1 = snd (session_ingest_evidence session (evidence_record_of cd subject result))"
    by (rule assess_result_ok)
  then have "session_reachable compiled a session1" using Cons.prems(2) by (simp add: session_reachable.ingest)
  with step(2) show ?case by (rule Cons.IH)
qed simp

text \<open>The evidence a bundle's results stand for, each about the artifact it names as subject.\<close>

definition bundle_evidence :: "string \<Rightarrow> evidence_bundle \<Rightarrow> evidence_record set" where
  "bundle_evidence digest b =
     {evidence_record_of digest subject result | subject result.
        result \<in> set (bu_proof_results b) \<and> subject \<in> set (bu_artifacts b) \<and>
        ae_artifact_id subject = res_subject_artifact_id result}"

lemma assess_results_evidence:
  "try_fold (assess_result artifacts requirements cd) (ids, session) results = Inr (ids', session') \<Longrightarrow>
   session_wf compiled a session \<Longrightarrow>
   set (all_evidence (cs_kernel session')) = set (all_evidence (cs_kernel session)) \<union>
     {evidence_record_of cd subject result | subject result.
        result \<in> set results \<and> map_of artifacts (res_subject_artifact_id result) = Some subject}"
proof (induction results arbitrary: ids session)
  case (Cons result results)
  then obtain ids1 session1 where step: "assess_result artifacts requirements cd (ids, session) result = Inr (ids1, session1)"
    "try_fold (assess_result artifacts requirements cd) (ids1, session1) results = Inr (ids', session')"
    by (auto simp: and_then_eq_Inr)
  from step(1) obtain subject st where subject: "map_of artifacts (res_subject_artifact_id result) = Some subject"
    and "fst (session_ingest_evidence session (evidence_record_of cd subject result)) = Inr st"
      "snd (session_ingest_evidence session (evidence_record_of cd subject result)) = session1"
    by (auto simp: assess_result_def result_simps case_prod_unfold Let_def)
  then have stored: "session_ingest_evidence session (evidence_record_of cd subject result) = (Inr st, session1)"
    by (simp add: prod_eq_iff)
  have "session_wf compiled a session1"
    using session_ingest_wf [OF Cons.prems(2)] stored by (metis snd_conv)
  from Cons.IH [OF step(2) this] session_ingest_stores [OF Cons.prems(2) stored] subject
  show ?case by auto
qed simp

lemma assess_bundle_ok:
  assumes "assess_bundle E compiled plan v a = Inr res"
  obtains bun session where "vv_decode_bundle E v = Inr bun"
    "session_reachable compiled a session" "ba_decision res = session_evaluate session"
    "count_mandatory (ba_decision res) = (ba_mandatory_passed res, ba_mandatory_failed res, ba_mandatory_unknown res)"
    "verify_authorized_trace (vv_execution E) plan (bu_trace bun) = Inr (ba_trace_assessment res)"
    "xa_conforms_to_authorized_plan (ba_trace_assessment res)"
    "cd_status (bu_claimed_decision bun) = dec_status (ba_decision res)"
    "ba_verified_assurance_level res = a"
    "canonical_json_sha256 (xe_hasher (vv_execution E)) v = Inr (ba_bundle_digest res)"
    "validate_bundle_bindings compiled plan bun = Inr ()"
    "ba_bundle_id res = bu_bundle_id bun" "ba_run_id res = bu_run_id bun"
    "set (all_evidence (cs_kernel session)) = bundle_evidence (seal_contract_digest (cc_seal compiled)) bun"
proof -
  obtain bun trace artifacts session0 st where
    dec: "vv_decode_bundle E v = Inr bun"
    and bind: "validate_bundle_bindings compiled plan bun = Inr ()"
    and tr: "verify_authorized_trace (vv_execution E) plan (bu_trace bun) = Inr trace"
      "xa_conforms_to_authorized_plan trace"
    and index: "index_artifacts (bu_artifacts bun) = Inr artifacts"
    and new: "session_new compiled a = Inr session0"
    and loop: "try_fold (assess_result artifacts
        (bm_collect (map (\<lambda>r. (req_obligation_id r, r)) (cc_proof_requirements compiled)))
        (seal_contract_digest (cc_seal compiled))) ({}, session0) (bu_proof_results bun) = Inr st"
    and rest: "(let decision = session_evaluate (snd st); (passed, failed, unknown) = count_mandatory decision in
      and_then (validate_claimed_decision bun decision passed failed unknown) (\<lambda>_.
      and_then (map_err EB_Hashing (canonical_json_sha256 (xe_hasher (vv_execution E)) v)) (\<lambda>digest.
      Inr \<lparr>ba_bundle_id = bu_bundle_id bun, ba_run_id = bu_run_id bun, ba_bundle_digest = digest,
        ba_verified_assurance_level = a, ba_trace_assessment = trace,
        ba_mandatory_passed = passed, ba_mandatory_failed = failed, ba_mandatory_unknown = unknown,
        ba_decision = decision\<rparr>))) = Inr res"
    using assms unfolding assess_bundle_def Let_def
    by (clarsimp simp: and_then_eq_Inr map_err_eq ensure_eq case_prod_unfold)
  define session where "session = snd st"
  obtain p f u where cnt: "count_mandatory (session_evaluate session) = (p, f, u)"
    using prod_cases3 by blast
  obtain dig where val: "validate_claimed_decision bun (session_evaluate session) p f u = Inr ()"
    and dig: "canonical_json_sha256 (xe_hasher (vv_execution E)) v = Inr dig"
    and res: "res = \<lparr>ba_bundle_id = bu_bundle_id bun, ba_run_id = bu_run_id bun, ba_bundle_digest = dig,
       ba_verified_assurance_level = a, ba_trace_assessment = trace,
       ba_mandatory_passed = p, ba_mandatory_failed = f, ba_mandatory_unknown = u,
       ba_decision = session_evaluate session\<rparr>"
    using rest cnt by (auto simp: session_def [symmetric] Let_def result_simps)
  have loop: "try_fold (assess_result artifacts
        (bm_collect (map (\<lambda>r. (req_obligation_id r, r)) (cc_proof_requirements compiled)))
        (seal_contract_digest (cc_seal compiled))) ({}, session0) (bu_proof_results bun) = Inr (fst st, session)"
    using loop by (simp add: session_def)
  have "session_reachable compiled a session"
    using loop session_reachable.start [OF new] by (rule assess_results_reachable)
  moreover have "set (all_evidence (cs_kernel session)) = bundle_evidence (seal_contract_digest (cc_seal compiled)) bun"
  proof -
    have subject: "map_of artifacts i = Some s \<longleftrightarrow> s \<in> set (bu_artifacts bun) \<and> ae_artifact_id s = i" for i s
      using artifacts.run_get [OF index [unfolded index_artifacts_def]] by auto
    show ?thesis
      using assess_results_evidence [OF loop session_new_wf [OF new]] session_new_no_evidence [OF new]
      unfolding bundle_evidence_def subject by auto
  qed
  moreover have "cd_status (bu_claimed_decision bun) = dec_status (session_evaluate session)"
    using val by (simp add: validate_claimed_decision_def Let_def result_simps)
  ultimately show ?thesis using dec bind tr dig cnt by (intro that [of bun session]) (simp_all add: res)
qed

section \<open>Properties\<close>

definition demo_bundle :: evidence_bundle where
  "demo_bundle = (let ref = \<lambda>i. \<lparr>br_id = i, br_algorithm = Sha256, br_digest = demo_digest, br_uri = None\<rparr>;
       artifact = \<lambda>i role. \<lparr>ae_artifact_id = i, ae_role = role, ae_uri = ''u'', ae_media_type = None,
         ae_algorithm = Sha256, ae_digest = ''s'', ae_size_bytes = 3\<rparr> in
     \<lparr>bu_schema_version = ''0.4.0'', bu_bundle_id = ''b1'', bu_run_id = ''r1'', bu_created_at = ''t'',
      bu_bindings = \<lparr>bb_contract = ref ''k1'', bb_profession_capsule = ref ''cap'', bb_operator_plan = ref ''p1'',
        bb_policy_snapshot = None\<rparr>,
      bu_environment = \<lparr>en_os = ''os'', en_kernel_version = ''1'', en_applications = [], en_clock_source = ''c'',
        en_sandbox_id = None\<rparr>,
      bu_artifacts = [artifact ''out'' RoleOutput, artifact ''log'' RoleEvidence],
      bu_trace = demo_authorized_trace,
      bu_proof_results = [\<lparr>res_evidence_id = ''e1'', res_obligation_id = ''o1'', res_claim_id = ''c1'',
        res_subject_artifact_id = ''out'', res_validator_id = ''v'', res_validator_version = ''1'',
        res_independence_class = Independent, res_status = PR_Passed, res_mandatory = True, res_observed = JNull,
        res_expected = None, res_unit = None, res_tolerance = None, res_evidence_artifact_ids = [''log''],
        res_evaluated_at = ''t''\<rparr>],
      bu_claimed_decision = \<lparr>cd_status = Accepted, cd_assurance_level = E3, cd_mandatory_passed = 1,
        cd_mandatory_failed = 0, cd_mandatory_unknown = 0, cd_reason = ''ok'', cd_sealed_at = None,
        cd_signature = None\<rparr>\<rparr>)"

definition demo_evidence_env :: evidence_env where
  "demo_evidence_env = \<lparr>vv_execution = demo_execution_env, vv_decode_bundle = (\<lambda>_. Inr demo_bundle)\<rparr>"

text \<open>
  C20: an assessed bundle's decision is never taken from the bundle: it is the evaluation of
  a contract session at the verified assurance level whose evidence is exactly that of the
  bundle's proof results, none left out and none added, about the artifacts they name; the
  decision claimed in the bundle and the counts agree with it; the trace of the bundle
  conforms to the authorised plan, the bindings name the compiled contract and plan, and the
  digest is that of the submitted value.
\<close>

theorem assessment_is_recomputed:
  assumes "assess_bundle E compiled plan v a = Inr res"
  shows "\<exists>bun session. vv_decode_bundle E v = Inr bun \<and> session_reachable compiled a session \<and>
    ba_decision res = session_evaluate session \<and>
    set (all_evidence (cs_kernel session)) = bundle_evidence (seal_contract_digest (cc_seal compiled)) bun \<and>
    cd_status (bu_claimed_decision bun) = dec_status (ba_decision res) \<and>
    count_mandatory (ba_decision res) = (ba_mandatory_passed res, ba_mandatory_failed res, ba_mandatory_unknown res) \<and>
    verify_authorized_trace (vv_execution E) plan (bu_trace bun) = Inr (ba_trace_assessment res) \<and>
    xa_conforms_to_authorized_plan (ba_trace_assessment res) \<and>
    validate_bundle_bindings compiled plan bun = Inr () \<and>
    canonical_json_sha256 (xe_hasher (vv_execution E)) v = Inr (ba_bundle_digest res)"
  using assms by (rule assess_bundle_ok) blast

lemma demo_bundle_assessed:
  obtains res where "assess_bundle demo_evidence_env demo_compiled demo_compiled_plan JNull E3 = Inr res"
    "dec_status (ba_decision res) = Accepted"
proof -
  have "case assess_bundle demo_evidence_env demo_compiled demo_compiled_plan JNull E3 of
      Inl _ \<Rightarrow> False | Inr res \<Rightarrow> dec_status (ba_decision res) = Accepted"
    by code_simp
  then show ?thesis using that by (auto split: sum.splits)
qed

theorem assessment_is_recomputed_witness:
  "\<exists>session. session_reachable demo_compiled E3 session \<and> dec_status (session_evaluate session) = Accepted"
proof -
  obtain res where res: "assess_bundle demo_evidence_env demo_compiled demo_compiled_plan JNull E3 = Inr res"
    "dec_status (ba_decision res) = Accepted" by (rule demo_bundle_assessed)
  from assessment_is_recomputed [OF res(1)] res(2) show ?thesis by auto
qed

text \<open>
  the three counts of an assessment partition the mandatory obligations of the decision.
\<close>

lemma mandatory_counts_partition:
  assumes "count_mandatory d = (passed, failed, unknown)"
  shows "passed + failed + unknown = length (filter rep_mandatory (dec_obligation_reports d))"
  using assms by (rule count_mandatory_total)

end
