(* ===== verification/Attestation.thy ===== *)
theory Attestation
  imports Evidence
begin

text \<open>
  The attestation runtime (\<^verbatim>\<open>crates/attestation-runtime\<close>): the acceptance certificate
  and the replay manifest it binds, their issue from an assessed bundle, and their
  verification, alone and against the bundle. The lemmas show that a certificate is issued
  for an accepted assessment only, that what is issued verifies, and that verification
  against the bundle establishes the acceptance again.
\<close>

section \<open>Data\<close>

record replay_artifact =
  ra_artifact_id :: string
  ra_role :: artifact_role
  ra_algorithm :: digest_algorithm
  ra_digest :: string
  ra_size_bytes :: u64

record replay_manifest =
  rm_schema_version :: string
  rm_manifest_id :: string
  rm_contract_digest :: string
  rm_capsule_digest :: string
  rm_plan_id :: string
  rm_plan_digest :: string
  rm_evidence_bundle_id :: string
  rm_run_id :: string
  rm_evidence_bundle_digest :: string
  rm_authorized_trace_digest :: string
  rm_environment_digest :: string
  rm_artifacts :: "replay_artifact list"
  rm_authorization_receipt_digests :: "string list"
  rm_proof_evidence_ids :: "string list"
  rm_expected_decision :: decision_status
  rm_assurance_level :: assurance_level
  rm_mandatory_passed :: nat
  rm_mandatory_failed :: nat
  rm_mandatory_unknown :: nat

record acceptance_certificate_payload =
  ac_schema_version :: string
  ac_certificate_id :: string
  ac_issuer_id :: string
  ac_key_id :: string
  ac_issued_at_epoch_s :: u64
  ac_contract_digest :: string
  ac_capsule_digest :: string
  ac_plan_id :: string
  ac_plan_digest :: string
  ac_evidence_bundle_id :: string
  ac_run_id :: string
  ac_evidence_bundle_digest :: string
  ac_authorized_trace_digest :: string
  ac_replay_manifest_digest :: string
  ac_assurance_level :: assurance_level
  ac_mandatory_passed :: nat
  ac_mandatory_failed :: nat
  ac_mandatory_unknown :: nat
  ac_decision :: decision_status

datatype (plugins only: code size) attestation_signature_algorithm = AttestationEd25519
datatype (plugins only: code size) attestation_signature_encoding = AttestationBase64url

record attestation_signature =
  as_algorithm :: attestation_signature_algorithm
  as_encoding :: attestation_signature_encoding
  as_value :: string

record signed_acceptance_certificate =
  sc_payload :: acceptance_certificate_payload
  sc_signature :: attestation_signature

record signer_bound_acceptance_certificate =
  sbc_payload :: acceptance_certificate_payload
  sbc_signer_response :: signer_response

record attestation_package =
  pk_replay_manifest :: replay_manifest
  pk_certificate :: signed_acceptance_certificate

record signer_bound_attestation_package =
  spk_replay_manifest :: replay_manifest
  spk_certificate :: signer_bound_acceptance_certificate

record verified_attestation =
  va_certificate_id :: string
  va_certificate_digest :: string
  va_replay_manifest_digest :: string
  va_evidence_bundle_digest :: string
  va_decision :: decision_status
  va_assurance_level :: assurance_level

datatype (plugins only: code size) attestation_issue_error =
    AI_Evidence evidence_bundle_error
  | AI_BundleDecode serde_error
  | AI_Serialization serde_error
  | AI_Hashing hashing_error
  | AI_EmptyField string
  | AI_DecisionNotAccepted decision_status
  | AI_InvalidAcceptedCounts

datatype (plugins only: code size) attestation_verify_error =
    AVE_UnsupportedManifestSchema string
  | AVE_UnsupportedCertificateSchema string
  | AVE_InvalidTrustedKey
  | AVE_UnknownTrustedKey string string
  | AVE_InvalidSignatureEncoding
  | AVE_InvalidSignatureLength
  | AVE_SignatureVerificationFailed
  | AVE_SignerRoleMismatch
  | AVE_SignerIssuerMismatch
  | AVE_SignerKeyMismatch
  | AVE_SignerDigestMismatch
  | AVE_SignerPublicKeyMismatch
  | AVE_Serialization serde_error
  | AVE_Hashing hashing_error
  | AVE_SignerProtocol signer_protocol_error
  | AVE_DecisionNotAccepted
  | AVE_InvalidAcceptedCounts
  | AVE_ManifestDigestMismatch
  | AVE_ManifestPayloadMismatch string
  | AVE_Evidence evidence_bundle_error
  | AVE_BundleDecode serde_error
  | AVE_ManifestBuild attestation_issue_error
  | AVE_RecomputedManifestMismatch
  | AVE_RecomputedDecisionNotAccepted

type_synonym attestation_key_registry = "(string \<times> string, u8 list) bmap"

record attestation_env =
  aa_evidence :: evidence_env
  aa_signer :: signer_env
  aa_trace_value :: "authorized_execution_trace \<Rightarrow> serde_error + json"
  aa_environment_value :: "environment_evidence \<Rightarrow> serde_error + json"
  aa_manifest_value :: "replay_manifest \<Rightarrow> serde_error + json"
  aa_payload_value :: "acceptance_certificate_payload \<Rightarrow> serde_error + json"
  aa_certificate_value :: "signed_acceptance_certificate \<Rightarrow> serde_error + json"
  aa_signer_certificate_value :: "signer_bound_acceptance_certificate \<Rightarrow> serde_error + json"

abbreviation aa_hasher :: "attestation_env \<Rightarrow> hasher" where
  "aa_hasher E \<equiv> xe_hasher (vv_execution (aa_evidence E))"

section \<open>Issue\<close>

definition REPLAY_MANIFEST_SCHEMA :: string where "REPLAY_MANIFEST_SCHEMA = ''0.1.0''"
definition ACCEPTANCE_CERTIFICATE_SCHEMA :: string where "ACCEPTANCE_CERTIFICATE_SCHEMA = ''0.1.0''"

definition require_attestation_field :: "string \<Rightarrow> string \<Rightarrow> attestation_issue_error + unit" where
  "require_attestation_field field v = ensure (\<not> blank v) (AI_EmptyField field)"

definition replay_artifact_of :: "artifact_evidence \<Rightarrow> replay_artifact" where
  "replay_artifact_of a = \<lparr>
     ra_artifact_id = ae_artifact_id a, ra_role = ae_role a, ra_algorithm = ae_algorithm a,
     ra_digest = ae_digest a, ra_size_bytes = ae_size_bytes a\<rparr>"

definition build_replay_manifest ::
    "attestation_env \<Rightarrow> string \<Rightarrow> compiled_plan \<Rightarrow> evidence_bundle \<Rightarrow> string \<Rightarrow> decision_status \<Rightarrow>
     assurance_level \<Rightarrow> nat \<Rightarrow> nat \<Rightarrow> nat \<Rightarrow> attestation_issue_error + replay_manifest" where
  "build_replay_manifest E manifest_id plan bundle bundle_digest expected level passed failed unknown =
     and_then (map_err AI_Serialization (aa_trace_value E (bu_trace bundle))) (\<lambda>trace_value.
     and_then (map_err AI_Serialization (aa_environment_value E (bu_environment bundle))) (\<lambda>environment_value.
     and_then (map_err AI_Hashing (canonical_json_sha256 (aa_hasher E) trace_value)) (\<lambda>trace_digest.
     and_then (map_err AI_Hashing (canonical_json_sha256 (aa_hasher E) environment_value)) (\<lambda>environment_digest.
     Inr \<lparr>rm_schema_version = REPLAY_MANIFEST_SCHEMA,
       rm_manifest_id = manifest_id,
       rm_contract_digest = cp_contract_digest plan,
       rm_capsule_digest = cp_capsule_digest plan,
       rm_plan_id = cp_plan_id plan,
       rm_plan_digest = cp_plan_digest plan,
       rm_evidence_bundle_id = bu_bundle_id bundle,
       rm_run_id = bu_run_id bundle,
       rm_evidence_bundle_digest = bundle_digest,
       rm_authorized_trace_digest = trace_digest,
       rm_environment_digest = environment_digest,
       rm_artifacts = sort_key ra_artifact_id (map replay_artifact_of (bu_artifacts bundle)),
       rm_authorization_receipt_digests =
         sort (map rr_receipt_digest (et_authorization_receipts (bu_trace bundle))),
       rm_proof_evidence_ids = sort (map res_evidence_id (bu_proof_results bundle)),
       rm_expected_decision = expected,
       rm_assurance_level = level,
       rm_mandatory_passed = passed,
       rm_mandatory_failed = failed,
       rm_mandatory_unknown = unknown\<rparr>))))"

definition certificate_payload_for ::
    "string \<Rightarrow> string \<Rightarrow> string \<Rightarrow> u64 \<Rightarrow> compiled_plan \<Rightarrow> bundle_assessment \<Rightarrow> assurance_level \<Rightarrow>
     replay_manifest \<Rightarrow> string \<Rightarrow> acceptance_certificate_payload" where
  "certificate_payload_for certificate_id issuer_id key_id issued_at plan assessment level manifest manifest_digest = \<lparr>
     ac_schema_version = ACCEPTANCE_CERTIFICATE_SCHEMA,
     ac_certificate_id = certificate_id,
     ac_issuer_id = issuer_id,
     ac_key_id = key_id,
     ac_issued_at_epoch_s = issued_at,
     ac_contract_digest = cp_contract_digest plan,
     ac_capsule_digest = cp_capsule_digest plan,
     ac_plan_id = cp_plan_id plan,
     ac_plan_digest = cp_plan_digest plan,
     ac_evidence_bundle_id = ba_bundle_id assessment,
     ac_run_id = ba_run_id assessment,
     ac_evidence_bundle_digest = ba_bundle_digest assessment,
     ac_authorized_trace_digest = rm_authorized_trace_digest manifest,
     ac_replay_manifest_digest = manifest_digest,
     ac_assurance_level = level,
     ac_mandatory_passed = ba_mandatory_passed assessment,
     ac_mandatory_failed = ba_mandatory_failed assessment,
     ac_mandatory_unknown = ba_mandatory_unknown assessment,
     ac_decision = dec_status (ba_decision assessment)\<rparr>"

definition issue_attestation ::
    "attestation_env \<Rightarrow> compiled_contract \<Rightarrow> compiled_plan \<Rightarrow> json \<Rightarrow> assurance_level \<Rightarrow> string \<Rightarrow> string \<Rightarrow>
     string \<Rightarrow> string \<Rightarrow> u64 \<Rightarrow> u8 list \<Rightarrow> attestation_issue_error + attestation_package" where
  "issue_attestation E compiled plan bundle_value level manifest_id certificate_id issuer_id key_id issued_at signing_key =
     and_then (require_attestation_field ''manifest_id'' manifest_id) (\<lambda>_.
     and_then (require_attestation_field ''certificate_id'' certificate_id) (\<lambda>_.
     and_then (require_attestation_field ''issuer_id'' issuer_id) (\<lambda>_.
     and_then (require_attestation_field ''key_id'' key_id) (\<lambda>_.
     and_then (map_err AI_Evidence (assess_bundle (aa_evidence E) compiled plan bundle_value level)) (\<lambda>assessment.
     and_then (ensure (dec_status (ba_decision assessment) = Accepted)
       (AI_DecisionNotAccepted (dec_status (ba_decision assessment)))) (\<lambda>_.
     and_then (ensure (\<not> (ba_mandatory_failed assessment > 0 \<or> ba_mandatory_unknown assessment > 0))
       AI_InvalidAcceptedCounts) (\<lambda>_.
     and_then (map_err AI_BundleDecode (vv_decode_bundle (aa_evidence E) bundle_value)) (\<lambda>bundle.
     and_then (build_replay_manifest E manifest_id plan bundle (ba_bundle_digest assessment)
       (dec_status (ba_decision assessment)) level (ba_mandatory_passed assessment)
       (ba_mandatory_failed assessment) (ba_mandatory_unknown assessment)) (\<lambda>manifest.
     and_then (map_err AI_Serialization (aa_manifest_value E manifest)) (\<lambda>manifest_value.
     and_then (map_err AI_Hashing (canonical_json_sha256 (aa_hasher E) manifest_value)) (\<lambda>manifest_digest.
     let payload = certificate_payload_for certificate_id issuer_id key_id issued_at plan assessment level
           manifest manifest_digest in
     and_then (map_err AI_Serialization (aa_payload_value E payload)) (\<lambda>payload_value.
     and_then (map_err AI_Hashing (canonical_json_bytes (aa_hasher E) payload_value)) (\<lambda>message.
     Inr \<lparr>pk_replay_manifest = manifest,
       pk_certificate = \<lparr>sc_payload = payload,
         sc_signature = \<lparr>as_algorithm = AttestationEd25519, as_encoding = AttestationBase64url,
           as_value = b64_encode (sn_base64 (aa_signer E))
             (sk_sign (sn_crypto (aa_signer E)) signing_key message)\<rparr>\<rparr>\<rparr>)))))))))))))"

section \<open>Verification\<close>

definition attestation_insert_ed25519 ::
    "attestation_env \<Rightarrow> attestation_key_registry \<Rightarrow> string \<Rightarrow> string \<Rightarrow> u8 list \<Rightarrow>
     (attestation_verify_error + unit) \<times> attestation_key_registry" where
  "attestation_insert_ed25519 E keys issuer_id key_id key_bytes =
     (case vk_from_bytes (sn_crypto (aa_signer E)) key_bytes of
        None \<Rightarrow> (Inl AVE_InvalidTrustedKey, keys)
      | Some key \<Rightarrow> (Inr (), bm_insert (issuer_id, key_id) key keys))"

definition check_equal :: "bool \<Rightarrow> string \<Rightarrow> attestation_verify_error + unit" where
  "check_equal matches field = ensure matches (AVE_ManifestPayloadMismatch field)"

definition validate_manifest_payload_match ::
    "replay_manifest \<Rightarrow> acceptance_certificate_payload \<Rightarrow> attestation_verify_error + unit" where
  "validate_manifest_payload_match m p =
     and_then (check_equal (rm_contract_digest m = ac_contract_digest p) ''contract_digest'') (\<lambda>_.
     and_then (check_equal (rm_capsule_digest m = ac_capsule_digest p) ''capsule_digest'') (\<lambda>_.
     and_then (check_equal (rm_plan_id m = ac_plan_id p) ''plan_id'') (\<lambda>_.
     and_then (check_equal (rm_plan_digest m = ac_plan_digest p) ''plan_digest'') (\<lambda>_.
     and_then (check_equal (rm_evidence_bundle_id m = ac_evidence_bundle_id p) ''evidence_bundle_id'') (\<lambda>_.
     and_then (check_equal (rm_run_id m = ac_run_id p) ''run_id'') (\<lambda>_.
     and_then (check_equal (rm_evidence_bundle_digest m = ac_evidence_bundle_digest p) ''evidence_bundle_digest'') (\<lambda>_.
     and_then (check_equal (rm_authorized_trace_digest m = ac_authorized_trace_digest p) ''authorized_trace_digest'') (\<lambda>_.
     and_then (check_equal (rm_assurance_level m = ac_assurance_level p) ''assurance_level'') (\<lambda>_.
     and_then (check_equal (rm_mandatory_passed m = ac_mandatory_passed p) ''mandatory_passed'') (\<lambda>_.
     and_then (check_equal (rm_mandatory_failed m = ac_mandatory_failed p) ''mandatory_failed'') (\<lambda>_.
     and_then (check_equal (rm_mandatory_unknown m = ac_mandatory_unknown p) ''mandatory_unknown'') (\<lambda>_.
     check_equal (rm_expected_decision m = ac_decision p) ''decision''))))))))))))"

definition validate_document ::
    "attestation_env \<Rightarrow> replay_manifest \<Rightarrow> acceptance_certificate_payload \<Rightarrow> attestation_verify_error + string" where
  "validate_document E m p =
     and_then (ensure (rm_schema_version m = REPLAY_MANIFEST_SCHEMA)
       (AVE_UnsupportedManifestSchema (rm_schema_version m))) (\<lambda>_.
     and_then (ensure (ac_schema_version p = ACCEPTANCE_CERTIFICATE_SCHEMA)
       (AVE_UnsupportedCertificateSchema (ac_schema_version p))) (\<lambda>_.
     and_then (ensure (\<not> (ac_decision p \<noteq> Accepted \<or> rm_expected_decision m \<noteq> Accepted))
       AVE_DecisionNotAccepted) (\<lambda>_.
     and_then (ensure (\<not> (ac_mandatory_failed p > 0 \<or> ac_mandatory_unknown p > 0
         \<or> rm_mandatory_failed m > 0 \<or> rm_mandatory_unknown m > 0)) AVE_InvalidAcceptedCounts) (\<lambda>_.
     and_then (map_err AVE_Serialization (aa_manifest_value E m)) (\<lambda>manifest_value.
     and_then (map_err AVE_Hashing (canonical_json_sha256 (aa_hasher E) manifest_value)) (\<lambda>digest.
     and_then (ensure (digest = ac_replay_manifest_digest p) AVE_ManifestDigestMismatch) (\<lambda>_.
     and_then (validate_manifest_payload_match m p) (\<lambda>_.
     Inr digest))))))))"

definition trusted_key ::
    "attestation_key_registry \<Rightarrow> acceptance_certificate_payload \<Rightarrow> attestation_verify_error + u8 list" where
  "trusted_key keys p =
     ok_or (map_of keys (ac_issuer_id p, ac_key_id p)) (AVE_UnknownTrustedKey (ac_issuer_id p) (ac_key_id p))"

definition response_public_key :: "signer_response \<Rightarrow> attestation_verify_error + u8 list" where
  "response_public_key response =
     (case response of
        SR_Success _ (DigestSigned key_hex _ _ _ _ _) \<Rightarrow>
          map_err (\<lambda>_. AVE_SignerProtocol SP_InvalidHexEncoding) (decode_hex_32 key_hex)
      | _ \<Rightarrow> Inl (AVE_SignerProtocol SP_ResponseDoesNotContainSignature))"

definition verified_result ::
    "attestation_env \<Rightarrow> acceptance_certificate_payload \<Rightarrow> serde_error + json \<Rightarrow> string \<Rightarrow>
     attestation_verify_error + verified_attestation" where
  "verified_result E p certificate manifest_digest =
     and_then (map_err AVE_Serialization certificate) (\<lambda>certificate_value.
     and_then (map_err AVE_Hashing (canonical_json_sha256 (aa_hasher E) certificate_value)) (\<lambda>certificate_digest.
     Inr \<lparr>va_certificate_id = ac_certificate_id p, va_certificate_digest = certificate_digest,
       va_replay_manifest_digest = manifest_digest,
       va_evidence_bundle_digest = ac_evidence_bundle_digest p,
       va_decision = ac_decision p, va_assurance_level = ac_assurance_level p\<rparr>))"

definition verify_attestation ::
    "attestation_env \<Rightarrow> attestation_package \<Rightarrow> attestation_key_registry \<Rightarrow>
     attestation_verify_error + verified_attestation" where
  "verify_attestation E package keys =
     (let p = sc_payload (pk_certificate package); C = sn_crypto (aa_signer E) in
      and_then (trusted_key keys p) (\<lambda>key.
      and_then (map_err AVE_Serialization (aa_payload_value E p)) (\<lambda>payload_value.
      and_then (ok_or (b64_decode (sn_base64 (aa_signer E)) (as_value (sc_signature (pk_certificate package))))
        AVE_InvalidSignatureEncoding) (\<lambda>signature_bytes.
      and_then (ok_or (sig_from_slice C signature_bytes) AVE_InvalidSignatureLength) (\<lambda>signature.
      and_then (map_err AVE_Hashing (canonical_json_bytes (aa_hasher E) payload_value)) (\<lambda>message.
      and_then (ensure (sig_verify_strict C key message signature) AVE_SignatureVerificationFailed) (\<lambda>_.
      and_then (validate_document E (pk_replay_manifest package) p) (\<lambda>manifest_digest.
      verified_result E p (aa_certificate_value E (pk_certificate package)) manifest_digest))))))))"

definition verify_signer_bound_attestation ::
    "attestation_env \<Rightarrow> signer_bound_attestation_package \<Rightarrow> attestation_key_registry \<Rightarrow>
     attestation_verify_error + verified_attestation" where
  "verify_signer_bound_attestation E package keys =
     (let p = sbc_payload (spk_certificate package);
          response = sbc_signer_response (spk_certificate package) in
      and_then (validate_document E (spk_replay_manifest package) p) (\<lambda>manifest_digest.
      and_then (trusted_key keys p) (\<lambda>key.
      and_then (map_err AVE_SignerProtocol (verify_digest_signature (aa_signer E) response)) (\<lambda>envelope.
      and_then (ensure (se_role envelope = IR_Attestation) AVE_SignerRoleMismatch) (\<lambda>_.
      and_then (ensure (se_issuer_id envelope = ac_issuer_id p) AVE_SignerIssuerMismatch) (\<lambda>_.
      and_then (ensure (se_key_id envelope = ac_key_id p) AVE_SignerKeyMismatch) (\<lambda>_.
      and_then (map_err AVE_Serialization (aa_payload_value E p)) (\<lambda>payload_value.
      and_then (map_err AVE_Hashing (canonical_json_sha256 (aa_hasher E) payload_value)) (\<lambda>digest.
      and_then (ensure (se_digest envelope = digest) AVE_SignerDigestMismatch) (\<lambda>_.
      and_then (response_public_key response) (\<lambda>response_key.
      and_then (ensure (response_key = key) AVE_SignerPublicKeyMismatch) (\<lambda>_.
      verified_result E p (aa_signer_certificate_value E (spk_certificate package)) manifest_digest))))))))))))"

definition verify_recomputed_manifest ::
    "attestation_env \<Rightarrow> replay_manifest \<Rightarrow> compiled_contract \<Rightarrow> compiled_plan \<Rightarrow> json \<Rightarrow> assurance_level \<Rightarrow>
     attestation_verify_error + unit" where
  "verify_recomputed_manifest E m compiled plan bundle_value level =
     and_then (map_err AVE_Evidence (assess_bundle (aa_evidence E) compiled plan bundle_value level)) (\<lambda>assessment.
     and_then (ensure (dec_status (ba_decision assessment) = Accepted) AVE_RecomputedDecisionNotAccepted) (\<lambda>_.
     and_then (map_err AVE_BundleDecode (vv_decode_bundle (aa_evidence E) bundle_value)) (\<lambda>bundle.
     and_then (map_err AVE_ManifestBuild (build_replay_manifest E (rm_manifest_id m) plan bundle
       (ba_bundle_digest assessment) (dec_status (ba_decision assessment)) level
       (ba_mandatory_passed assessment) (ba_mandatory_failed assessment) (ba_mandatory_unknown assessment))) (\<lambda>recomputed.
     ensure (recomputed = m) AVE_RecomputedManifestMismatch))))"

definition verify_attestation_against_bundle ::
    "attestation_env \<Rightarrow> attestation_package \<Rightarrow> attestation_key_registry \<Rightarrow> compiled_contract \<Rightarrow> compiled_plan \<Rightarrow>
     json \<Rightarrow> assurance_level \<Rightarrow> attestation_verify_error + verified_attestation" where
  "verify_attestation_against_bundle E package keys compiled plan bundle_value level =
     and_then (verify_attestation E package keys) (\<lambda>verified.
     and_then (verify_recomputed_manifest E (pk_replay_manifest package) compiled plan bundle_value level) (\<lambda>_.
     Inr verified))"

definition verify_signer_bound_attestation_against_bundle ::
    "attestation_env \<Rightarrow> signer_bound_attestation_package \<Rightarrow> attestation_key_registry \<Rightarrow> compiled_contract \<Rightarrow>
     compiled_plan \<Rightarrow> json \<Rightarrow> assurance_level \<Rightarrow> attestation_verify_error + verified_attestation" where
  "verify_signer_bound_attestation_against_bundle E package keys compiled plan bundle_value level =
     and_then (verify_signer_bound_attestation E package keys) (\<lambda>verified.
     and_then (verify_recomputed_manifest E (spk_replay_manifest package) compiled plan bundle_value level) (\<lambda>_.
     Inr verified))"

section \<open>What issue and verification establish\<close>

lemma build_replay_manifest_sel:
  assumes "build_replay_manifest E mid plan b bd d level p f u = Inr m"
  shows "rm_manifest_id m = mid" "rm_schema_version m = REPLAY_MANIFEST_SCHEMA"
    "rm_contract_digest m = cp_contract_digest plan" "rm_capsule_digest m = cp_capsule_digest plan"
    "rm_plan_id m = cp_plan_id plan" "rm_plan_digest m = cp_plan_digest plan"
    "rm_evidence_bundle_id m = bu_bundle_id b" "rm_run_id m = bu_run_id b"
    "rm_evidence_bundle_digest m = bd" "rm_expected_decision m = d" "rm_assurance_level m = level"
    "rm_mandatory_passed m = p" "rm_mandatory_failed m = f" "rm_mandatory_unknown m = u"
  using assms by (auto simp: build_replay_manifest_def result_simps)

lemma manifest_payload_match_iff:
  "validate_manifest_payload_match m p = Inr u \<longleftrightarrow>
   rm_contract_digest m = ac_contract_digest p \<and> rm_capsule_digest m = ac_capsule_digest p \<and>
   rm_plan_id m = ac_plan_id p \<and> rm_plan_digest m = ac_plan_digest p \<and>
   rm_evidence_bundle_id m = ac_evidence_bundle_id p \<and> rm_run_id m = ac_run_id p \<and>
   rm_evidence_bundle_digest m = ac_evidence_bundle_digest p \<and>
   rm_authorized_trace_digest m = ac_authorized_trace_digest p \<and>
   rm_assurance_level m = ac_assurance_level p \<and> rm_mandatory_passed m = ac_mandatory_passed p \<and>
   rm_mandatory_failed m = ac_mandatory_failed p \<and> rm_mandatory_unknown m = ac_mandatory_unknown p \<and>
   rm_expected_decision m = ac_decision p"
  by (auto simp: validate_manifest_payload_match_def check_equal_def result_simps)

lemma issue_attestationE:
  assumes "issue_attestation E compiled plan v level mid cid issuer key at sk = Inr package"
  obtains assessment b m mv md payload pv message where
    "assess_bundle (aa_evidence E) compiled plan v level = Inr assessment"
    "dec_status (ba_decision assessment) = Accepted"
    "vv_decode_bundle (aa_evidence E) v = Inr b"
    "build_replay_manifest E mid plan b (ba_bundle_digest assessment) (dec_status (ba_decision assessment))
       level (ba_mandatory_passed assessment) (ba_mandatory_failed assessment)
       (ba_mandatory_unknown assessment) = Inr m"
    "aa_manifest_value E m = Inr mv" "canonical_json_sha256 (aa_hasher E) mv = Inr md"
    "payload = certificate_payload_for cid issuer key at plan assessment level m md"
    "aa_payload_value E payload = Inr pv" "canonical_json_bytes (aa_hasher E) pv = Inr message"
    "package = \<lparr>pk_replay_manifest = m, pk_certificate = \<lparr>sc_payload = payload,
       sc_signature = \<lparr>as_algorithm = AttestationEd25519, as_encoding = AttestationBase64url,
         as_value = b64_encode (sn_base64 (aa_signer E)) (sk_sign (sn_crypto (aa_signer E)) sk message)\<rparr>\<rparr>\<rparr>"
  using assms unfolding issue_attestation_def Let_def
  by (clarsimp simp: and_then_eq_Inr map_err_eq ensure_eq)

text \<open>The counts of an accepted assessment are always clean, so that check never fires.\<close>

lemma accepted_counts_clean:
  assumes "assess_bundle E compiled plan v level = Inr res" "dec_status (ba_decision res) = Accepted"
  shows "ba_mandatory_failed res = 0" "ba_mandatory_unknown res = 0" "0 < ba_mandatory_passed res"
proof -
  obtain session where dec: "ba_decision res = session_evaluate session"
    and cnt: "count_mandatory (ba_decision res) =
      (ba_mandatory_passed res, ba_mandatory_failed res, ba_mandatory_unknown res)"
    using assms(1) by (rule assess_bundle_ok)
  note c = count_mandatory_accepted [of "cs_kernel session", folded session_evaluate_def, folded dec,
      OF assms(2) cnt]
  from c show "ba_mandatory_failed res = 0" "ba_mandatory_unknown res = 0" "0 < ba_mandatory_passed res"
    by simp_all
qed

lemma issue_counts_check_redundant:
  "issue_attestation E compiled plan v level mid cid issuer key at sk \<noteq> Inl AI_InvalidAcceptedCounts"
proof -
  have "build_replay_manifest E mid plan b bd d level p f u \<noteq> Inl AI_InvalidAcceptedCounts" for b bd d p f u
    by (auto simp: build_replay_manifest_def result_simps)
  then show ?thesis
    unfolding issue_attestation_def Let_def require_attestation_field_def
    using accepted_counts_clean [of "aa_evidence E" compiled plan v level]
    by (auto simp: result_simps)
qed

text \<open>Serialising a value that came from a decoder, and a \<^verbatim>\<open>Value\<close>, does not fail.\<close>

definition serialization_total :: "attestation_env \<Rightarrow> bool" where
  "serialization_total E \<longleftrightarrow>
     (\<forall>v. \<exists>bytes. to_vec (aa_hasher E) v = Inr bytes) \<and> (\<forall>c. \<exists>v. aa_certificate_value E c = Inr v)"

lemma canonical_json_sha256_total:
  "serialization_total E \<Longrightarrow> \<exists>d. canonical_json_sha256 (aa_hasher E) v = Inr d"
  unfolding serialization_total_def canonical_json_sha256_def canonical_json_bytes_def
  by (metis and_then_simps(1) map_err_simps(1))

lemma issued_document_valid:
  assumes "assess_bundle (aa_evidence E) compiled plan v level = Inr assessment"
    "dec_status (ba_decision assessment) = Accepted" "vv_decode_bundle (aa_evidence E) v = Inr b"
    "build_replay_manifest E mid plan b (ba_bundle_digest assessment) (dec_status (ba_decision assessment))
       level (ba_mandatory_passed assessment) (ba_mandatory_failed assessment)
       (ba_mandatory_unknown assessment) = Inr m"
    "aa_manifest_value E m = Inr mv" "canonical_json_sha256 (aa_hasher E) mv = Inr md"
  shows "validate_document E m (certificate_payload_for cid issuer key at plan assessment level m md) = Inr md"
    (is "validate_document E m ?p = _")
proof -
  have ids: "ba_bundle_id assessment = bu_bundle_id b" "ba_run_id assessment = bu_run_id b"
    using assms(1,3) by (auto elim!: assess_bundle_ok)
  note sel = build_replay_manifest_sel [OF assms(4)]
  note clean = accepted_counts_clean [OF assms(1,2)]
  have "validate_manifest_payload_match m ?p = Inr ()"
    unfolding manifest_payload_match_iff by (simp add: certificate_payload_for_def sel ids)
  then show ?thesis
    unfolding validate_document_def
    by (simp add: certificate_payload_for_def sel clean assms(2,5,6))
qed

lemma issue_verify_round_trip:
  assumes issue: "issue_attestation E compiled plan v level mid cid issuer key at sk = Inr package"
    and sigs: "signatures_verify (sn_crypto (aa_signer E))" and b64: "base64_inverse (sn_base64 (aa_signer E))"
    and total: "serialization_total E"
    and reg: "map_of keys (issuer, key) = Some (sk_public (sn_crypto (aa_signer E)) sk)"
  shows "\<exists>verified. verify_attestation_against_bundle E package keys compiled plan v level = Inr verified \<and>
    va_decision verified = Accepted \<and> va_certificate_id verified = cid \<and> va_assurance_level verified = level"
  using issue
proof (rule issue_attestationE)
  fix assessment b m mv md payload pv message
  assume ass: "assess_bundle (aa_evidence E) compiled plan v level = Inr assessment"
      "dec_status (ba_decision assessment) = Accepted"
    and dec: "vv_decode_bundle (aa_evidence E) v = Inr b"
    and man: "build_replay_manifest E mid plan b (ba_bundle_digest assessment)
       (dec_status (ba_decision assessment)) level (ba_mandatory_passed assessment)
       (ba_mandatory_failed assessment) (ba_mandatory_unknown assessment) = Inr m"
      "aa_manifest_value E m = Inr mv" "canonical_json_sha256 (aa_hasher E) mv = Inr md"
    and pay: "payload = certificate_payload_for cid issuer key at plan assessment level m md"
      "aa_payload_value E payload = Inr pv" "canonical_json_bytes (aa_hasher E) pv = Inr message"
    and pkg: "package = \<lparr>pk_replay_manifest = m, pk_certificate = \<lparr>sc_payload = payload,
       sc_signature = \<lparr>as_algorithm = AttestationEd25519, as_encoding = AttestationBase64url,
         as_value = b64_encode (sn_base64 (aa_signer E)) (sk_sign (sn_crypto (aa_signer E)) sk message)\<rparr>\<rparr>\<rparr>"
  have doc: "validate_document E m payload = Inr md"
    unfolding pay(1) by (rule issued_document_valid [OF ass dec man])
  have key: "trusted_key keys payload = Inr (sk_public (sn_crypto (aa_signer E)) sk)"
    by (simp add: trusted_key_def pay(1) certificate_payload_for_def reg)
  obtain cv where cv: "aa_certificate_value E (pk_certificate package) = Inr cv"
    using total unfolding serialization_total_def by blast
  obtain cdg where cdg: "canonical_json_sha256 (aa_hasher E) cv = Inr cdg"
    using canonical_json_sha256_total [OF total] by blast
  have "verify_attestation E package keys =
      verified_result E payload (aa_certificate_value E (pk_certificate package)) md"
    using sigs b64 doc key pay(2,3)
    by (simp add: verify_attestation_def pkg signatures_verify_def base64_inverse_def)
  then have "verify_attestation E package keys = Inr \<lparr>va_certificate_id = cid,
      va_certificate_digest = cdg, va_replay_manifest_digest = md,
      va_evidence_bundle_digest = ba_bundle_digest assessment, va_decision = Accepted,
      va_assurance_level = level\<rparr>"
    unfolding verified_result_def cv by (simp add: cdg pay(1) certificate_payload_for_def ass(2))
  moreover have "verify_recomputed_manifest E (pk_replay_manifest package) compiled plan v level = Inr ()"
    using ass dec man(1) build_replay_manifest_sel(1) [OF man(1)]
    by (simp add: verify_recomputed_manifest_def pkg)
  ultimately show ?thesis by (simp add: verify_attestation_against_bundle_def)
qed

lemma verify_recomputed_manifest_ok:
  assumes "verify_recomputed_manifest E m compiled plan v level = Inr ()"
  obtains assessment where "assess_bundle (aa_evidence E) compiled plan v level = Inr assessment"
    "dec_status (ba_decision assessment) = Accepted" "rm_evidence_bundle_digest m = ba_bundle_digest assessment"
    "rm_assurance_level m = level" "rm_plan_digest m = cp_plan_digest plan"
    "rm_contract_digest m = cp_contract_digest plan"
proof -
  from assms obtain assessment b where a: "assess_bundle (aa_evidence E) compiled plan v level = Inr assessment"
    "dec_status (ba_decision assessment) = Accepted"
    and m: "build_replay_manifest E (rm_manifest_id m) plan b (ba_bundle_digest assessment)
      (dec_status (ba_decision assessment)) level (ba_mandatory_passed assessment)
      (ba_mandatory_failed assessment) (ba_mandatory_unknown assessment) = Inr m"
    by (auto simp: verify_recomputed_manifest_def result_simps)
  show thesis by (rule that [OF a]) (simp_all add: build_replay_manifest_sel [OF m])
qed

lemma validate_document_ok:
  assumes "validate_document E m p = Inr d"
  shows "validate_manifest_payload_match m p = Inr ()" "ac_decision p = Accepted"
    "ac_replay_manifest_digest p = d"
  using assms by (auto simp: validate_document_def result_simps)

lemma verify_against_bundle_ok:
  assumes "verify_attestation_against_bundle E package keys compiled plan v level = Inr verified"
  obtains assessment where "assess_bundle (aa_evidence E) compiled plan v level = Inr assessment"
    "dec_status (ba_decision assessment) = Accepted"
    "va_evidence_bundle_digest verified = ba_bundle_digest assessment"
    "va_assurance_level verified = level" "va_decision verified = Accepted"
proof -
  let ?p = "sc_payload (pk_certificate package)"
  from assms have v: "verify_attestation E package keys = Inr verified"
    and r: "verify_recomputed_manifest E (pk_replay_manifest package) compiled plan v level = Inr ()"
    by (auto simp: verify_attestation_against_bundle_def result_simps)
  from v obtain d where d: "validate_document E (pk_replay_manifest package) ?p = Inr d"
    and ver: "va_evidence_bundle_digest verified = ac_evidence_bundle_digest ?p"
      "va_decision verified = ac_decision ?p" "va_assurance_level verified = ac_assurance_level ?p"
    by (auto simp: verify_attestation_def verified_result_def result_simps Let_def)
  note doc = validate_document_ok [OF d, unfolded manifest_payload_match_iff]
  from r obtain assessment where a: "assess_bundle (aa_evidence E) compiled plan v level = Inr assessment"
    "dec_status (ba_decision assessment) = Accepted"
    "rm_evidence_bundle_digest (pk_replay_manifest package) = ba_bundle_digest assessment"
    "rm_assurance_level (pk_replay_manifest package) = level"
    by (rule verify_recomputed_manifest_ok)
  show thesis by (rule that [OF a(1,2)]) (use doc ver a in simp_all)
qed

section \<open>Properties\<close>

definition demo_attestation_env :: attestation_env where
  "demo_attestation_env = \<lparr>aa_evidence = demo_evidence_env, aa_signer = demo_signer_env,
     aa_trace_value = (\<lambda>_. Inr JNull), aa_environment_value = (\<lambda>_. Inr JNull), aa_manifest_value = (\<lambda>_. Inr JNull),
     aa_payload_value = (\<lambda>_. Inr JNull), aa_certificate_value = (\<lambda>_. Inr JNull),
     aa_signer_certificate_value = (\<lambda>_. Inr JNull)\<rparr>"

lemma demo_attestation_issued:
  obtains package where "issue_attestation demo_attestation_env demo_compiled demo_compiled_plan JNull E3
    ''m1'' ''cert1'' ''acme'' ''k1'' 30 [1] = Inr package"
proof -
  have "\<not> isl (issue_attestation demo_attestation_env demo_compiled demo_compiled_plan JNull E3
    ''m1'' ''cert1'' ''acme'' ''k1'' 30 [1])" by code_simp
  then show ?thesis using that by (metis isl_def sum.exhaust)
qed

lemma demo_attestation_hypotheses:
  "signatures_verify (sn_crypto (aa_signer demo_attestation_env))"
  "base64_inverse (sn_base64 (aa_signer demo_attestation_env))" "serialization_total demo_attestation_env"
  "map_of [((''acme'', ''k1''), [1])] (''acme'', ''k1'') = Some (sk_public (sn_crypto (aa_signer demo_attestation_env)) [1])"
  using demo_ed25519_verifies demo_base64_inverse
  by (simp_all add: demo_attestation_env_def demo_signer_env_def serialization_total_def demo_evidence_env_def
      demo_execution_env_def demo_hasher_def demo_ed25519_def)

text \<open>
  C7: every attestation that is issued verifies against the same contract, plan, bundle and
  level, for a verifier that trusts the issuer's public key under the certificate's issuer
  and key identifiers; the verified decision is ``accepted'' at the level of the issue. The
  hypotheses on the third-party code are that signatures verify, that the encoding can be
  decoded and that the serialisations succeed.
\<close>

theorem issued_attestation_verifies:
  assumes "issue_attestation E compiled plan v level mid cid issuer key at sk = Inr package"
    "signatures_verify (sn_crypto (aa_signer E))" "base64_inverse (sn_base64 (aa_signer E))" "serialization_total E"
    "map_of keys (issuer, key) = Some (sk_public (sn_crypto (aa_signer E)) sk)"
  shows "\<exists>verified. verify_attestation_against_bundle E package keys compiled plan v level = Inr verified \<and>
    va_decision verified = Accepted \<and> va_certificate_id verified = cid \<and> va_assurance_level verified = level"
  using assms by (rule issue_verify_round_trip)

theorem issued_attestation_verifies_witness:
  "\<exists>package verified. verify_attestation_against_bundle demo_attestation_env package [((''acme'', ''k1''), [1])]
     demo_compiled demo_compiled_plan JNull E3 = Inr verified \<and> va_certificate_id verified = ''cert1''"
proof -
  obtain package where "issue_attestation demo_attestation_env demo_compiled demo_compiled_plan JNull E3
    ''m1'' ''cert1'' ''acme'' ''k1'' 30 [1] = Inr package" by (rule demo_attestation_issued)
  from issued_attestation_verifies [OF this demo_attestation_hypotheses] show ?thesis by blast
qed

text \<open>
  An attestation is issued only for a bundle whose recomputed decision is accepted with
  at least one passed and no failed or unknown mandatory obligation, and the certificate
  carries that decision, those counts, the digests of bundle, plan and contract and the digest
  of the manifest in the package.
\<close>

lemma attestation_needs_acceptance:
  assumes "issue_attestation E compiled plan v level mid cid issuer key at sk = Inr package"
  shows "\<exists>assessment mv. assess_bundle (aa_evidence E) compiled plan v level = Inr assessment \<and>
    dec_status (ba_decision assessment) = Accepted \<and>
    0 < ba_mandatory_passed assessment \<and> ba_mandatory_failed assessment = 0 \<and> ba_mandatory_unknown assessment = 0 \<and>
    ac_decision (sc_payload (pk_certificate package)) = Accepted \<and>
    ac_mandatory_passed (sc_payload (pk_certificate package)) = ba_mandatory_passed assessment \<and>
    ac_evidence_bundle_digest (sc_payload (pk_certificate package)) = ba_bundle_digest assessment \<and>
    ac_plan_digest (sc_payload (pk_certificate package)) = cp_plan_digest plan \<and>
    ac_contract_digest (sc_payload (pk_certificate package)) = cp_contract_digest plan \<and>
    aa_manifest_value E (pk_replay_manifest package) = Inr mv \<and>
    canonical_json_sha256 (aa_hasher E) mv = Inr (ac_replay_manifest_digest (sc_payload (pk_certificate package)))"
  using assms
proof (rule issue_attestationE)
  fix assessment b m mv md payload pv message
  assume a: "assess_bundle (aa_evidence E) compiled plan v level = Inr assessment"
    "dec_status (ba_decision assessment) = Accepted"
    and rest: "aa_manifest_value E m = Inr mv" "canonical_json_sha256 (aa_hasher E) mv = Inr md"
    "payload = certificate_payload_for cid issuer key at plan assessment level m md"
    "package = \<lparr>pk_replay_manifest = m, pk_certificate = \<lparr>sc_payload = payload,
       sc_signature = \<lparr>as_algorithm = AttestationEd25519, as_encoding = AttestationBase64url,
         as_value = b64_encode (sn_base64 (aa_signer E)) (sk_sign (sn_crypto (aa_signer E)) sk message)\<rparr>\<rparr>\<rparr>"
  show ?thesis
    using a rest accepted_counts_clean [OF a]
    by (intro exI [of _ assessment] exI [of _ mv]) (simp add: certificate_payload_for_def)
qed

text \<open>
  the issuer's check of the mandatory counts after an accepted decision never fires:
  the error for it is not a possible result.
\<close>

lemma issue_counts_check_is_dead:
  "issue_attestation E compiled plan v level mid cid issuer key at sk \<noteq> Inl AI_InvalidAcceptedCounts"
  by (rule issue_counts_check_redundant)

end
