(* ===== verification/Governed.thy ===== *)
theory Governed
  imports Attestation
begin

text \<open>
  Governed verification (\<^verbatim>\<open>crates/governed-verification-runtime\<close>): one runtime that
  holds the governed key registry, one capability authorizer per capability key and the
  public keys of the attestation issuers, and lets a token or a certificate through only if
  its key resolves in the registry, in the right role and at the time of signing. The
  runtime composes \<open>KeyGovernance\<close>, \<open>Capability\<close> and \<open>Attestation\<close>. The lemmas show that the
  three parts of its state always agree on the key material, that an authorizer is never
  replaced (so use counts are never reset), and that a revoked key is refused everywhere.
\<close>

section \<open>Data\<close>

datatype (plugins only: code size) governed_error =
    GV_KeyGovernance key_governance_error
  | GV_Capability capability_error
  | GV_Attestation attestation_verify_error
  | GV_CapabilityTokenDecode serde_error
  | GV_UnsupportedCapabilitySignatureMetadata
  | GV_InvalidCapabilitySignatureEncoding
  | GV_InvalidCapabilitySignatureLength
  | GV_CapabilitySignatureVerificationFailed
  | GV_MissingCapabilityAuthorizer string string
  | GV_MissingAttestationKey string string
  | GV_DedicatedRoleInsertionRequired
  | GV_Hashing hashing_error

record governed_runtime =
  gv_registry :: governed_key_registry
  gv_capability_authorizers :: "(string \<times> string, capability_authorizer) bmap"
  gv_attestation_public_keys :: "(string \<times> string, u8 list) bmap"

text \<open>
  The third-party operations of the three parts. There is one Ed25519 library, the one of the
  capability runtime's signer, and the other two parts use it as well.
\<close>

record governed_env =
  ge_capability :: capability_env
  ge_attestation_base :: attestation_env
  ge_snapshot_value :: "registry_snapshot \<Rightarrow> serde_error + json"
  ge_receipt_value :: "key_mutation_receipt \<Rightarrow> serde_error + json"

abbreviation ge_signer :: "governed_env \<Rightarrow> signer_env" where
  "ge_signer E \<equiv> ce_signer (ge_capability E)"

definition ge_registry :: "governed_env \<Rightarrow> registry_env" where
  "ge_registry E = \<lparr>re_hasher = sn_hasher (ge_signer E), re_crypto = sn_crypto (ge_signer E),
     re_snapshot_value = ge_snapshot_value E, re_receipt_value = ge_receipt_value E\<rparr>"

definition ge_attestation :: "governed_env \<Rightarrow> attestation_env" where
  "ge_attestation E = (ge_attestation_base E)\<lparr>aa_signer := ge_signer E\<rparr>"

definition governed_default :: governed_runtime where
  "governed_default = \<lparr>gv_registry = registry_default, gv_capability_authorizers = [],
     gv_attestation_public_keys = []\<rparr>"

section \<open>Key management\<close>

definition registry_revision :: "governed_runtime \<Rightarrow> u64" where
  "registry_revision G = gr_revision (gv_registry G)"

definition governed_registry_digest :: "governed_env \<Rightarrow> governed_runtime \<Rightarrow> governed_error + string" where
  "governed_registry_digest E G = map_err GV_KeyGovernance (registry_digest (ge_registry E) (gv_registry G))"

definition key_authorizer ::
    "governed_env \<Rightarrow> string \<Rightarrow> string \<Rightarrow> u8 list \<Rightarrow> capability_error + capability_authorizer" where
  "key_authorizer E issuer_id key_id key_bytes =
     (case trusted_insert_ed25519 (ge_capability E) [] issuer_id key_id key_bytes of
        (Inl e, _) \<Rightarrow> Inl e
      | (Inr _, registry) \<Rightarrow> Inr (authorizer_new registry))"

text \<open>What follows a registry mutation: on success the capability or attestation map is extended.\<close>

definition store_capability_key ::
    "governed_env \<Rightarrow> governed_runtime \<Rightarrow> string \<Rightarrow> string \<Rightarrow> u8 list \<Rightarrow>
     (key_governance_error + key_mutation_receipt) \<times> governed_key_registry \<Rightarrow>
     (governed_error + key_mutation_receipt) \<times> governed_runtime" where
  "store_capability_key E G issuer_id key_id key_bytes result =
     (let G' = G\<lparr>gv_registry := snd result\<rparr> in
      case fst result of
        Inl e \<Rightarrow> (Inl (GV_KeyGovernance e), G')
      | Inr receipt \<Rightarrow>
          case key_authorizer E issuer_id key_id key_bytes of
            Inl e \<Rightarrow> (Inl (GV_Capability e), G')
          | Inr authorizer \<Rightarrow> (Inr receipt, G'\<lparr>gv_capability_authorizers :=
              bm_insert (issuer_id, key_id) authorizer (gv_capability_authorizers G')\<rparr>))"

definition store_attestation_key ::
    "governed_runtime \<Rightarrow> string \<Rightarrow> string \<Rightarrow> u8 list \<Rightarrow>
     (key_governance_error + key_mutation_receipt) \<times> governed_key_registry \<Rightarrow>
     (governed_error + key_mutation_receipt) \<times> governed_runtime" where
  "store_attestation_key G issuer_id key_id key_bytes result =
     (let G' = G\<lparr>gv_registry := snd result\<rparr> in
      case fst result of
        Inl e \<Rightarrow> (Inl (GV_KeyGovernance e), G')
      | Inr receipt \<Rightarrow> (Inr receipt, G'\<lparr>gv_attestation_public_keys :=
          bm_insert (issuer_id, key_id) key_bytes (gv_attestation_public_keys G')\<rparr>))"

definition insert_capability_key ::
    "governed_env \<Rightarrow> governed_runtime \<Rightarrow> string \<Rightarrow> string \<Rightarrow> u8 list \<Rightarrow> u64 \<Rightarrow> u64 \<Rightarrow>
     (governed_error + key_mutation_receipt) \<times> governed_runtime" where
  "insert_capability_key E G issuer_id key_id key_bytes not_before not_after =
     store_capability_key E G issuer_id key_id key_bytes
       (insert_ed25519 (ge_registry E) (gv_registry G) IR_Capability issuer_id key_id key_bytes not_before not_after)"

definition insert_attestation_key ::
    "governed_env \<Rightarrow> governed_runtime \<Rightarrow> string \<Rightarrow> string \<Rightarrow> u8 list \<Rightarrow> u64 \<Rightarrow> u64 \<Rightarrow>
     (governed_error + key_mutation_receipt) \<times> governed_runtime" where
  "insert_attestation_key E G issuer_id key_id key_bytes not_before not_after =
     store_attestation_key G issuer_id key_id key_bytes
       (insert_ed25519 (ge_registry E) (gv_registry G) IR_Attestation issuer_id key_id key_bytes not_before not_after)"

definition insert_auxiliary_key ::
    "governed_env \<Rightarrow> governed_runtime \<Rightarrow> issuer_role \<Rightarrow> string \<Rightarrow> string \<Rightarrow> u8 list \<Rightarrow> u64 \<Rightarrow> u64 \<Rightarrow>
     (governed_error + key_mutation_receipt) \<times> governed_runtime" where
  "insert_auxiliary_key E G role issuer_id key_id key_bytes not_before not_after =
     (if role = IR_Capability \<or> role = IR_Attestation then (Inl GV_DedicatedRoleInsertionRequired, G)
      else let result = insert_ed25519 (ge_registry E) (gv_registry G) role issuer_id key_id key_bytes
                 not_before not_after
           in (map_err GV_KeyGovernance (fst result), G\<lparr>gv_registry := snd result\<rparr>))"

definition rotate_capability_key_guarded ::
    "governed_env \<Rightarrow> governed_runtime \<Rightarrow> u64 \<Rightarrow> string \<Rightarrow> string \<Rightarrow> string \<Rightarrow> string \<Rightarrow> u8 list \<Rightarrow> u64 \<Rightarrow> u64 \<Rightarrow> u64 \<Rightarrow>
     (governed_error + key_mutation_receipt) \<times> governed_runtime" where
  "rotate_capability_key_guarded E G expected_revision expected_digest issuer_id current_key_id new_key_id
       new_public_key activation_at retirement_at new_not_after =
     store_capability_key E G issuer_id new_key_id new_public_key
       (rotate_ed25519_guarded (ge_registry E) (gv_registry G) expected_revision expected_digest IR_Capability
          issuer_id current_key_id new_key_id new_public_key activation_at retirement_at new_not_after)"

definition rotate_attestation_key_guarded ::
    "governed_env \<Rightarrow> governed_runtime \<Rightarrow> u64 \<Rightarrow> string \<Rightarrow> string \<Rightarrow> string \<Rightarrow> string \<Rightarrow> u8 list \<Rightarrow> u64 \<Rightarrow> u64 \<Rightarrow> u64 \<Rightarrow>
     (governed_error + key_mutation_receipt) \<times> governed_runtime" where
  "rotate_attestation_key_guarded E G expected_revision expected_digest issuer_id current_key_id new_key_id
       new_public_key activation_at retirement_at new_not_after =
     store_attestation_key G issuer_id new_key_id new_public_key
       (rotate_ed25519_guarded (ge_registry E) (gv_registry G) expected_revision expected_digest IR_Attestation
          issuer_id current_key_id new_key_id new_public_key activation_at retirement_at new_not_after)"

definition revoke_key_guarded ::
    "governed_env \<Rightarrow> governed_runtime \<Rightarrow> u64 \<Rightarrow> string \<Rightarrow> issuer_role \<Rightarrow> string \<Rightarrow> string \<Rightarrow> u64 \<Rightarrow> string \<Rightarrow>
     (governed_error + key_mutation_receipt) \<times> governed_runtime" where
  "revoke_key_guarded E G expected_revision expected_digest role issuer_id key_id revoked_at reason_digest =
     (let result = revoke_ed25519_guarded (ge_registry E) (gv_registry G) expected_revision expected_digest
            role issuer_id key_id revoked_at reason_digest
      in (map_err GV_KeyGovernance (fst result), G\<lparr>gv_registry := snd result\<rparr>))"

section \<open>Capability tokens\<close>

definition verify_capability_token_signature ::
    "governed_env \<Rightarrow> governed_runtime \<Rightarrow> json \<Rightarrow> governed_error + signed_capability_token" where
  "verify_capability_token_signature E G token_value =
     and_then (map_err GV_CapabilityTokenDecode (ce_decode_token (ge_capability E) token_value)) (\<lambda>token.
     let p = st_payload token; C = sn_crypto (ge_signer E) in
     and_then (ensure (\<not> (ts_algorithm (st_signature token) \<noteq> Ed25519 \<or> ts_encoding (st_signature token) \<noteq> Base64url))
       GV_UnsupportedCapabilitySignatureMetadata) (\<lambda>_.
     and_then (ok_or (b64_decode (sn_base64 (ge_signer E)) (ts_value (st_signature token)))
       GV_InvalidCapabilitySignatureEncoding) (\<lambda>signature_bytes.
     and_then (ok_or (sig_from_slice C signature_bytes) GV_InvalidCapabilitySignatureLength) (\<lambda>signature.
     and_then (map_err GV_CapabilityTokenDecode (ce_payload_value (ge_capability E) p)) (\<lambda>payload_value.
     and_then (map_err GV_KeyGovernance (resolve_ed25519 (gv_registry G) IR_Capability (ct_issuer_id p)
       (ct_key_id p) (ct_issued_at_epoch_s p))) (\<lambda>key.
     and_then (map_err GV_Hashing (canonical_json_bytes (sn_hasher (ge_signer E)) payload_value)) (\<lambda>message.
     and_then (ensure (sig_verify_strict C key message signature) GV_CapabilitySignatureVerificationFailed) (\<lambda>_.
     Inr token))))))))"

definition verify_signer_bound_capability_token_signature ::
    "governed_env \<Rightarrow> governed_runtime \<Rightarrow> json \<Rightarrow> governed_error + signer_bound_capability_token" where
  "verify_signer_bound_capability_token_signature E G token_value =
     and_then (map_err GV_CapabilityTokenDecode (ce_decode_signer_bound (ge_capability E) token_value)) (\<lambda>token.
     let p = sb_payload token in
     and_then (map_err GV_KeyGovernance (resolve_ed25519 (gv_registry G) IR_Capability (ct_issuer_id p)
       (ct_key_id p) (ct_issued_at_epoch_s p))) (\<lambda>_.
     and_then (ok_or (map_of (gv_capability_authorizers G) (ct_issuer_id p, ct_key_id p))
       (GV_MissingCapabilityAuthorizer (ct_issuer_id p) (ct_key_id p))) (\<lambda>authorizer.
     and_then (map_err GV_Capability (verify_signer_bound_signature (ge_capability E) authorizer token)) (\<lambda>_.
     Inr token))))"

text \<open>Both authorizations hand the token value to the authorizer of the verified token's key.\<close>

definition with_authorizer ::
    "governed_runtime \<Rightarrow> capability_token_payload \<Rightarrow>
     (capability_authorizer \<Rightarrow> (capability_error + authorization_receipt) \<times> capability_authorizer) \<Rightarrow>
     (governed_error + authorization_receipt) \<times> governed_runtime" where
  "with_authorizer G p authorize_with =
     (let identity = (ct_issuer_id p, ct_key_id p) in
      case map_of (gv_capability_authorizers G) identity of
        None \<Rightarrow> (Inl (GV_MissingCapabilityAuthorizer (ct_issuer_id p) (ct_key_id p)), G)
      | Some authorizer \<Rightarrow>
          let result = authorize_with authorizer
          in (map_err GV_Capability (fst result), G\<lparr>gv_capability_authorizers :=
                bm_insert identity (snd result) (gv_capability_authorizers G)\<rparr>))"

definition authorize_capability ::
    "governed_env \<Rightarrow> governed_runtime \<Rightarrow> json \<Rightarrow> compiled_contract \<Rightarrow> compiled_plan \<Rightarrow> u64 \<Rightarrow> string \<Rightarrow> string option \<Rightarrow>
     (governed_error + authorization_receipt) \<times> governed_runtime" where
  "authorize_capability E G token_value contract plan now executor device =
     (case verify_capability_token_signature E G token_value of
        Inl e \<Rightarrow> (Inl e, G)
      | Inr token \<Rightarrow> with_authorizer G (st_payload token)
          (\<lambda>A. authorize (ge_capability E) A token_value contract plan now executor device))"

definition authorize_signer_bound_capability ::
    "governed_env \<Rightarrow> governed_runtime \<Rightarrow> json \<Rightarrow> compiled_contract \<Rightarrow> compiled_plan \<Rightarrow> u64 \<Rightarrow> string \<Rightarrow> string option \<Rightarrow>
     (governed_error + authorization_receipt) \<times> governed_runtime" where
  "authorize_signer_bound_capability E G token_value contract plan now executor device =
     (case verify_signer_bound_capability_token_signature E G token_value of
        Inl e \<Rightarrow> (Inl e, G)
      | Inr token \<Rightarrow> with_authorizer G (sb_payload token)
          (\<lambda>A. authorize_signer_bound (ge_capability E) A token_value contract plan now executor device))"

section \<open>Attestations\<close>

definition attestation_registry_for ::
    "governed_env \<Rightarrow> governed_runtime \<Rightarrow> acceptance_certificate_payload \<Rightarrow> governed_error + attestation_key_registry" where
  "attestation_registry_for E G p =
     and_then (map_err GV_KeyGovernance (resolve_ed25519 (gv_registry G) IR_Attestation (ac_issuer_id p)
       (ac_key_id p) (ac_issued_at_epoch_s p))) (\<lambda>_.
     and_then (ok_or (map_of (gv_attestation_public_keys G) (ac_issuer_id p, ac_key_id p))
       (GV_MissingAttestationKey (ac_issuer_id p) (ac_key_id p))) (\<lambda>key_bytes.
     case attestation_insert_ed25519 (ge_attestation E) [] (ac_issuer_id p) (ac_key_id p) key_bytes of
       (Inl e, _) \<Rightarrow> Inl (GV_Attestation e)
     | (Inr _, registry) \<Rightarrow> Inr registry))"

definition legacy_attestation_registry ::
    "governed_env \<Rightarrow> governed_runtime \<Rightarrow> attestation_package \<Rightarrow> governed_error + attestation_key_registry" where
  "legacy_attestation_registry E G package = attestation_registry_for E G (sc_payload (pk_certificate package))"

definition signer_bound_attestation_registry ::
    "governed_env \<Rightarrow> governed_runtime \<Rightarrow> signer_bound_attestation_package \<Rightarrow> governed_error + attestation_key_registry" where
  "signer_bound_attestation_registry E G package = attestation_registry_for E G (sbc_payload (spk_certificate package))"

definition verify_attestation_package ::
    "governed_env \<Rightarrow> governed_runtime \<Rightarrow> attestation_package \<Rightarrow> governed_error + verified_attestation" where
  "verify_attestation_package E G package =
     and_then (legacy_attestation_registry E G package) (\<lambda>registry.
     map_err GV_Attestation (verify_attestation (ge_attestation E) package registry))"

definition verify_attestation_package_against_bundle ::
    "governed_env \<Rightarrow> governed_runtime \<Rightarrow> attestation_package \<Rightarrow> compiled_contract \<Rightarrow> compiled_plan \<Rightarrow> json \<Rightarrow>
     assurance_level \<Rightarrow> governed_error + verified_attestation" where
  "verify_attestation_package_against_bundle E G package contract plan bundle_value level =
     and_then (legacy_attestation_registry E G package) (\<lambda>registry.
     map_err GV_Attestation (verify_attestation_against_bundle (ge_attestation E) package registry contract plan
       bundle_value level))"

definition verify_signer_bound_attestation_package ::
    "governed_env \<Rightarrow> governed_runtime \<Rightarrow> signer_bound_attestation_package \<Rightarrow> governed_error + verified_attestation" where
  "verify_signer_bound_attestation_package E G package =
     and_then (signer_bound_attestation_registry E G package) (\<lambda>registry.
     map_err GV_Attestation (verify_signer_bound_attestation (ge_attestation E) package registry))"

definition verify_signer_bound_attestation_package_against_bundle ::
    "governed_env \<Rightarrow> governed_runtime \<Rightarrow> signer_bound_attestation_package \<Rightarrow> compiled_contract \<Rightarrow> compiled_plan \<Rightarrow>
     json \<Rightarrow> assurance_level \<Rightarrow> governed_error + verified_attestation" where
  "verify_signer_bound_attestation_package_against_bundle E G package contract plan bundle_value level =
     and_then (signer_bound_attestation_registry E G package) (\<lambda>registry.
     map_err GV_Attestation (verify_signer_bound_attestation_against_bundle (ge_attestation E) package registry
       contract plan bundle_value level))"

section \<open>The state agrees with the registry\<close>

text \<open>
  Every authorizer trusts exactly the registered capability key it is filed under, and every
  stored attestation key is the registered one.
\<close>

definition governed_wf :: "governed_env \<Rightarrow> governed_runtime \<Rightarrow> bool" where
  "governed_wf E G \<longleftrightarrow> registry_wf (gv_registry G) \<and>
     (\<forall>i k A. map_of (gv_capability_authorizers G) (i, k) = Some A \<longrightarrow>
        (\<exists>r. map_of (gr_records (gv_registry G)) (IR_Capability, i, k) = Some r \<and>
           au_trusted_keys A = [((i, k), gk_verifying_key r)])) \<and>
     (\<forall>i k pk. map_of (gv_attestation_public_keys G) (i, k) = Some pk \<longrightarrow>
        (\<exists>r. map_of (gr_records (gv_registry G)) (IR_Attestation, i, k) = Some r \<and>
           vk_from_bytes (sn_crypto (ge_signer E)) pk = Some (gk_verifying_key r)))"

lemma governed_wf_default: "governed_wf E governed_default"
  by (simp add: governed_wf_def governed_default_def registry_wf_default)

lemma ge_registry_sel [simp]: "re_crypto (ge_registry E) = sn_crypto (ge_signer E)"
  by (simp add: ge_registry_def)

lemma ge_attestation_sel [simp]: "aa_signer (ge_attestation E) = ge_signer E"
  by (simp add: ge_attestation_def)

lemma key_authorizer_eq:
  "key_authorizer E i k pk = (case vk_from_bytes (sn_crypto (ge_signer E)) pk of
     None \<Rightarrow> Inl CE_InvalidTrustedKey | Some vk \<Rightarrow> Inr (authorizer_new [((i, k), vk)]))"
  by (simp add: key_authorizer_def trusted_insert_ed25519_def split: option.split)

text \<open>A mutation of the registry alone keeps the agreement.\<close>

lemma governed_wf_registry_step:
  assumes "governed_wf E G" "registry_step (ge_registry E) (gv_registry G) reg'"
  shows "governed_wf E (G\<lparr>gv_registry := reg'\<rparr>)"
proof -
  have "registry_wf reg'"
    using assms registry_step_wf by (auto simp: governed_wf_def)
  moreover have "\<exists>r. map_of (gr_records reg') (IR_Capability, i, k) = Some r \<and>
      au_trusted_keys A = [((i, k), gk_verifying_key r)]"
    if "map_of (gv_capability_authorizers G) (i, k) = Some A" for i k A
    using assms(1) that registry_step_keeps_key [OF assms(2)] unfolding governed_wf_def by metis
  moreover have "\<exists>r. map_of (gr_records reg') (IR_Attestation, i, k) = Some r \<and>
      vk_from_bytes (sn_crypto (ge_signer E)) pk = Some (gk_verifying_key r)"
    if "map_of (gv_attestation_public_keys G) (i, k) = Some pk" for i k pk
    using assms(1) that registry_step_keeps_key [OF assms(2)] unfolding governed_wf_def by metis
  ultimately show ?thesis by (simp add: governed_wf_def)
qed

text \<open>
  What a granted registry mutation that introduces the key \<open>(role, i, k)\<close> leaves: the identity
  was unknown before and now holds the key the bytes stand for.
\<close>

definition introduces ::
    "governed_env \<Rightarrow> governed_runtime \<Rightarrow> issuer_role \<Rightarrow> string \<Rightarrow> string \<Rightarrow> u8 list \<Rightarrow>
     (key_governance_error + key_mutation_receipt) \<times> governed_key_registry \<Rightarrow> bool" where
  "introduces E G role i k pk result \<longleftrightarrow> registry_step (ge_registry E) (gv_registry G) (snd result) \<and>
     (\<forall>receipt. fst result = Inr receipt \<longrightarrow> map_of (gr_records (gv_registry G)) (role, i, k) = None \<and>
        (\<exists>r. map_of (gr_records (snd result)) (role, i, k) = Some r \<and>
           vk_from_bytes (sn_crypto (ge_signer E)) pk = Some (gk_verifying_key r)))"

lemma insert_introduces:
  "introduces E G role i k pk (insert_ed25519 (ge_registry E) (gv_registry G) role i k pk nb na)"
proof -
  let ?res = "insert_ed25519_internal (ge_registry E) (gv_registry G) None None role i k pk nb na"
  have "registry_step (ge_registry E) (gv_registry G) (snd ?res)" by (rule registry_step.insert)
  moreover have "map_of (gr_records (gv_registry G)) (role, i, k) = None \<and>
      (\<exists>r. map_of (gr_records (snd ?res)) (role, i, k) = Some r \<and>
         vk_from_bytes (sn_crypto (ge_signer E)) pk = Some (gk_verifying_key r))"
    if "fst ?res = Inr receipt" for receipt
  proof -
    from that have "?res = (Inr receipt, snd ?res)" by (metis prod.collapse)
    then show ?thesis by (rule insert_granted) (simp add: active_record_def)
  qed
  ultimately show ?thesis by (simp add: introduces_def insert_ed25519_def)
qed

lemma rotate_introduces:
  "introduces E G role i k pk
     (rotate_ed25519_guarded (ge_registry E) (gv_registry G) er ed role i cur k pk act ret na)"
proof -
  let ?res = "rotate_ed25519_guarded (ge_registry E) (gv_registry G) er ed role i cur k pk act ret na"
  have "registry_step (ge_registry E) (gv_registry G) (snd ?res)" by (rule registry_step.rotate)
  moreover have "map_of (gr_records (gv_registry G)) (role, i, k) = None \<and>
      (\<exists>r. map_of (gr_records (snd ?res)) (role, i, k) = Some r \<and>
         vk_from_bytes (sn_crypto (ge_signer E)) pk = Some (gk_verifying_key r))"
    if "fst ?res = Inr receipt" for receipt
  proof -
    from that have "?res = (Inr receipt, snd ?res)" by (metis prod.collapse)
    then show ?thesis by (rule rotate_granted) (simp add: active_record_def)
  qed
  ultimately show ?thesis by (simp add: introduces_def)
qed

text \<open>The result of storing: the registry step, and at most one new authorizer under a new identity.\<close>

lemma store_capability_key_cases:
  assumes "introduces E G IR_Capability i k pk result"
  obtains (kept) "snd (store_capability_key E G i k pk result) = G\<lparr>gv_registry := snd result\<rparr>"
  | (added) vk r where "map_of (gr_records (gv_registry G)) (IR_Capability, i, k) = None"
      "map_of (gr_records (snd result)) (IR_Capability, i, k) = Some r" "vk = gk_verifying_key r"
      "snd (store_capability_key E G i k pk result) = G\<lparr>gv_registry := snd result,
         gv_capability_authorizers := bm_insert (i, k) (authorizer_new [((i, k), vk)]) (gv_capability_authorizers G)\<rparr>"
proof (cases "fst result")
  case (Inl e)
  then show ?thesis by (intro kept) (simp add: store_capability_key_def Let_def)
next
  case (Inr receipt)
  with assms obtain r where r: "map_of (gr_records (gv_registry G)) (IR_Capability, i, k) = None"
    "map_of (gr_records (snd result)) (IR_Capability, i, k) = Some r"
    "vk_from_bytes (sn_crypto (ge_signer E)) pk = Some (gk_verifying_key r)"
    unfolding introduces_def by blast
  show ?thesis
    by (rule added [OF r(1,2) HOL.refl]) (simp add: store_capability_key_def Inr key_authorizer_eq r(3) Let_def)
qed

lemma store_capability_key_wf:
  assumes wf: "governed_wf E G" and intro: "introduces E G IR_Capability i k pk result"
  shows "governed_wf E (snd (store_capability_key E G i k pk result))"
proof -
  have base: "governed_wf E (G\<lparr>gv_registry := snd result\<rparr>)"
    using wf intro by (auto simp: introduces_def intro: governed_wf_registry_step)
  from intro show ?thesis
    by (cases rule: store_capability_key_cases)
      (use base in \<open>auto simp: governed_wf_def authorizer_new_def\<close>)
qed

lemma store_attestation_key_wf:
  assumes wf: "governed_wf E G" and intro: "introduces E G IR_Attestation i k pk result"
  shows "governed_wf E (snd (store_attestation_key G i k pk result))"
proof -
  have base: "governed_wf E (G\<lparr>gv_registry := snd result\<rparr>)"
    using wf intro by (auto simp: introduces_def intro: governed_wf_registry_step)
  show ?thesis
  proof (cases "fst result")
    case (Inl e)
    with base show ?thesis by (simp add: store_attestation_key_def Let_def)
  next
    case (Inr receipt)
    with intro obtain r where "map_of (gr_records (snd result)) (IR_Attestation, i, k) = Some r"
      "vk_from_bytes (sn_crypto (ge_signer E)) pk = Some (gk_verifying_key r)"
      unfolding introduces_def by blast
    with base Inr show ?thesis by (auto simp: store_attestation_key_def governed_wf_def Let_def)
  qed
qed

inductive governed_mutation :: "governed_env \<Rightarrow> governed_runtime \<Rightarrow> governed_runtime \<Rightarrow> bool"
  for E where
  insert_capability: "governed_mutation E G (snd (insert_capability_key E G i k pk nb na))"
| insert_attestation: "governed_mutation E G (snd (insert_attestation_key E G i k pk nb na))"
| insert_auxiliary: "governed_mutation E G (snd (insert_auxiliary_key E G role i k pk nb na))"
| rotate_capability: "governed_mutation E G (snd (rotate_capability_key_guarded E G er ed i cur k pk act ret na))"
| rotate_attestation: "governed_mutation E G (snd (rotate_attestation_key_guarded E G er ed i cur k pk act ret na))"
| revoke_key: "governed_mutation E G (snd (revoke_key_guarded E G er ed role i k at reason))"

text \<open>
  Every key operation is one step of the registry, and stores either nothing, a capability
  authorizer or an attestation key under the identity it introduces.
\<close>

lemma governed_mutation_cases:
  assumes "governed_mutation E G G'"
  obtains (unchanged) "G' = G"
  | (registry) reg' where "registry_step (ge_registry E) (gv_registry G) reg'" "G' = G\<lparr>gv_registry := reg'\<rparr>"
  | (capability) i k pk result where "introduces E G IR_Capability i k pk result"
      "G' = snd (store_capability_key E G i k pk result)"
  | (attestation) i k pk result where "introduces E G IR_Attestation i k pk result"
      "G' = snd (store_attestation_key G i k pk result)"
  using assms
proof (cases rule: governed_mutation.cases)
  case insert_capability
  then show ?thesis unfolding insert_capability_key_def by (rule capability [OF insert_introduces])
next
  case insert_attestation
  then show ?thesis unfolding insert_attestation_key_def by (rule attestation [OF insert_introduces])
next
  case (insert_auxiliary role i k pk nb na)
  have "registry_step (ge_registry E) (gv_registry G)
      (snd (insert_ed25519 (ge_registry E) (gv_registry G) role i k pk nb na))"
    unfolding insert_ed25519_def by (rule registry_step.insert)
  with unchanged registry show ?thesis
    by (cases "role = IR_Capability \<or> role = IR_Attestation") (simp_all add: insert_auxiliary insert_auxiliary_key_def Let_def)
next
  case rotate_capability
  then show ?thesis unfolding rotate_capability_key_guarded_def by (rule capability [OF rotate_introduces])
next
  case rotate_attestation
  then show ?thesis unfolding rotate_attestation_key_guarded_def by (rule attestation [OF rotate_introduces])
next
  case (revoke_key er ed role i k at reason)
  show ?thesis
    by (rule registry [OF registry_step.revoke]) (simp add: revoke_key revoke_key_guarded_def Let_def)
qed

lemma governed_mutation_registry:
  assumes "governed_mutation E G G'"
  shows "registry_steps (ge_registry E) (gv_registry G) (gv_registry G')"
proof -
  have store: "gv_registry (snd (store_capability_key E G i k pk result)) = snd result"
    "gv_registry (snd (store_attestation_key G i k pk result)) = snd result" for i k pk result
    by (auto simp: store_capability_key_def store_attestation_key_def Let_def split: sum.split)
  from assms show ?thesis
    by (cases rule: governed_mutation_cases)
      (auto simp: introduces_def store intro: registry_steps.intros)
qed

lemma governed_mutation_wf: "governed_mutation E G G' \<Longrightarrow> governed_wf E G \<Longrightarrow> governed_wf E G'"
  by (erule governed_mutation_cases)
    (auto intro: governed_wf_registry_step store_capability_key_wf store_attestation_key_wf)

text \<open>No authorizer is lost or replaced, and a new one has used nothing.\<close>

lemma governed_mutation_authorizers:
  assumes "governed_mutation E G G'" "governed_wf E G"
  shows "map_of (gv_capability_authorizers G) ident = Some A \<Longrightarrow> map_of (gv_capability_authorizers G') ident = Some A"
    and "map_of (gv_capability_authorizers G') ident = Some A \<Longrightarrow>
      map_of (gv_capability_authorizers G) ident = Some A \<or>
      map_of (gv_capability_authorizers G) ident = None \<and> au_usage A = []"
proof -
  have "(map_of (gv_capability_authorizers G) ident = Some A \<longrightarrow> map_of (gv_capability_authorizers G') ident = Some A) \<and>
    (map_of (gv_capability_authorizers G') ident = Some A \<longrightarrow>
      map_of (gv_capability_authorizers G) ident = Some A \<or>
      map_of (gv_capability_authorizers G) ident = None \<and> au_usage A = [])"
    using assms(1)
  proof (cases rule: governed_mutation_cases)
    case (capability i k pk result)
    from capability(1) show ?thesis
    proof (cases rule: store_capability_key_cases)
      case (added vk r)
      have "map_of (gv_capability_authorizers G) (i, k) = None"
      proof (cases "map_of (gv_capability_authorizers G) (i, k)")
        case (Some B)
        with assms(2) show ?thesis using added(1) unfolding governed_wf_def by (metis option.distinct(1))
      qed simp
      then show ?thesis by (auto simp: capability(2) added(4) authorizer_new_def)
    qed (simp add: capability(2))
  qed (auto simp: store_attestation_key_def Let_def split: sum.split)
  then show "map_of (gv_capability_authorizers G) ident = Some A \<Longrightarrow> map_of (gv_capability_authorizers G') ident = Some A"
    "map_of (gv_capability_authorizers G') ident = Some A \<Longrightarrow>
      map_of (gv_capability_authorizers G) ident = Some A \<or>
      map_of (gv_capability_authorizers G) ident = None \<and> au_usage A = []" by blast+
qed

section \<open>Authorizations\<close>

definition governed_authorization ::
    "governed_env \<Rightarrow> governed_runtime \<Rightarrow> governed_error + authorization_receipt \<Rightarrow> governed_runtime \<Rightarrow> bool" where
  "governed_authorization E G res G' \<longleftrightarrow>
     (\<exists>v contract plan now executor device.
        authorize_capability E G v contract plan now executor device = (res, G') \<or>
        authorize_signer_bound_capability E G v contract plan now executor device = (res, G'))"

lemma with_authorizerE:
  assumes "with_authorizer G p f = (res, G')"
  obtains (missing) e where "res = Inl e" "G' = G"
  | (used) A where "map_of (gv_capability_authorizers G) (ct_issuer_id p, ct_key_id p) = Some A"
      "res = map_err GV_Capability (fst (f A))"
      "G' = G\<lparr>gv_capability_authorizers :=
         bm_insert (ct_issuer_id p, ct_key_id p) (snd (f A)) (gv_capability_authorizers G)\<rparr>"
  using assms by (auto simp: with_authorizer_def Let_def split: option.splits)

lemma with_authorizer_granted:
  assumes "with_authorizer G p f = (Inr receipt, G')"
  obtains A A' where "f A = (Inr receipt, A')"
  using assms by (cases rule: with_authorizerE) (auto simp: map_err_eq prod_eq_iff dest: sym)

lemma receipt_identity:
  assumes "authorize_verified_payload E A v p contract plan now executor device = (Inr r, A')"
  shows "ar_issuer_id r = ct_issuer_id p" "ar_key_id r = ct_key_id p"
  using assms by (auto elim!: authorize_verified_granted simp: receipt_for_def)

lemma authorize_identity:
  assumes "authorize E A v contract plan now executor device = (Inr r, A')" "ce_decode_token E v = Inr token"
  shows "ar_issuer_id r = ct_issuer_id (st_payload token)" "ar_key_id r = ct_key_id (st_payload token)"
  using assms by (auto simp: authorize_def split: sum.splits simp: result_simps dest: receipt_identity)

lemma authorize_signer_bound_identity:
  assumes "authorize_signer_bound E A v contract plan now executor device = (Inr r, A')"
    "ce_decode_signer_bound E v = Inr token"
  shows "ar_issuer_id r = ct_issuer_id (sb_payload token)" "ar_key_id r = ct_key_id (sb_payload token)"
  using assms by (auto simp: authorize_signer_bound_def split: sum.splits simp: result_simps dest: receipt_identity)

text \<open>
  What the two forms of token carry, stated apart from the code: the registry's key for the
  payload's issuer in the capability role, usable at the token's issue time; the token's own
  signature over its payload; and for a signer-bound token, the signer's response over an
  envelope that binds the payload's digest, issuer and key.
\<close>

definition governed_key :: "governed_runtime \<Rightarrow> capability_token_payload \<Rightarrow> u8 list \<Rightarrow> bool" where
  "governed_key G p vk \<longleftrightarrow>
     (\<exists>r. map_of (gr_records (gv_registry G)) (IR_Capability, ct_issuer_id p, ct_key_id p) = Some r \<and>
        gk_status r \<noteq> GK_Revoked \<and> gk_not_before_epoch_s r \<le> ct_issued_at_epoch_s p \<and>
        ct_issued_at_epoch_s p < gk_not_after_epoch_s r \<and> gk_verifying_key r = vk)"

definition token_signed :: "capability_env \<Rightarrow> signed_capability_token \<Rightarrow> u8 list \<Rightarrow> bool" where
  "token_signed C token vk \<longleftrightarrow>
     (\<exists>bytes sig pv message. b64_decode (sn_base64 (ce_signer C)) (ts_value (st_signature token)) = Some bytes \<and>
        sig_from_slice (sn_crypto (ce_signer C)) bytes = Some sig \<and>
        ce_payload_value C (st_payload token) = Inr pv \<and>
        canonical_json_bytes (sn_hasher (ce_signer C)) pv = Inr message \<and>
        sig_verify_strict (sn_crypto (ce_signer C)) vk message sig)"

definition signer_vouches :: "capability_env \<Rightarrow> signer_bound_capability_token \<Rightarrow> u8 list \<Rightarrow> bool" where
  "signer_vouches C token vk \<longleftrightarrow>
     (\<exists>envelope key_hex digest text key bytes sig message pv.
        sb_signer_response token = SR_Success (se_request_id envelope)
          (DigestSigned key_hex envelope digest SIGNATURE_ALGORITHM_ED25519 SIGNATURE_ENCODING_BASE64URL text) \<and>
        se_role envelope = IR_Capability \<and> se_issuer_id envelope = ct_issuer_id (sb_payload token) \<and>
        se_key_id envelope = ct_key_id (sb_payload token) \<and>
        ce_payload_value C (sb_payload token) = Inr pv \<and> ce_sha256 C pv = Inr (se_digest envelope) \<and>
        decode_hex_32 key_hex = Inr vk \<and> vk_from_bytes (sn_crypto (ce_signer C)) vk = Some key \<and>
        b64_decode (sn_base64 (ce_signer C)) text = Some bytes \<and>
        sig_from_slice (sn_crypto (ce_signer C)) bytes = Some sig \<and>
        envelope_canonical_bytes (ce_signer C) envelope = Inr message \<and>
        sig_verify (sn_crypto (ce_signer C)) key message sig)"

lemma governed_key_resolve:
  "governed_key G p vk \<longleftrightarrow>
   resolve_ed25519 (gv_registry G) IR_Capability (ct_issuer_id p) (ct_key_id p) (ct_issued_at_epoch_s p) = Inr vk"
  unfolding governed_key_def resolve_ok_iff by blast

lemma verify_token_ok:
  assumes "verify_capability_token_signature E G v = Inr token"
  obtains vk where "ce_decode_token (ge_capability E) v = Inr token" "governed_key G (st_payload token) vk"
    "token_signed (ge_capability E) token vk"
  using assms unfolding governed_key_resolve token_signed_def
  by (auto simp: verify_capability_token_signature_def Let_def result_simps)

lemma verify_signer_bound_signature_ok:
  assumes "verify_signer_bound_signature C A token = Inr u"
  obtains vk where "trusted_get (au_trusted_keys A) (ct_issuer_id (sb_payload token)) (ct_key_id (sb_payload token)) = Some vk"
    "signer_vouches C token vk"
  using assms unfolding verify_signer_bound_signature_def signer_vouches_def
  by (fastforce simp: Let_def result_simps verify_digest_signature_ok)

lemma verify_signer_bound_token_ok:
  assumes "verify_signer_bound_capability_token_signature E G v = Inr token"
  obtains vk A where "ce_decode_signer_bound (ge_capability E) v = Inr token"
    "governed_key G (sb_payload token) vk"
    "map_of (gv_capability_authorizers G) (ct_issuer_id (sb_payload token), ct_key_id (sb_payload token)) = Some A"
    "verify_signer_bound_signature (ge_capability E) A token = Inr ()"
  using assms unfolding governed_key_resolve
  by (auto simp: verify_signer_bound_capability_token_signature_def Let_def result_simps)

text \<open>In a well-formed runtime the signer's key is the one the registry holds.\<close>

lemma governed_signer_bound_token:
  assumes "verify_signer_bound_capability_token_signature E G v = Inr token" "governed_wf E G"
  obtains vk where "ce_decode_signer_bound (ge_capability E) v = Inr token"
    "governed_key G (sb_payload token) vk" "signer_vouches (ge_capability E) token vk"
proof -
  let ?i = "ct_issuer_id (sb_payload token)" and ?k = "ct_key_id (sb_payload token)"
  from assms(1) obtain vk A where dec: "ce_decode_signer_bound (ge_capability E) v = Inr token"
    and key: "governed_key G (sb_payload token) vk"
    and A: "map_of (gv_capability_authorizers G) (?i, ?k) = Some A"
    and sig: "verify_signer_bound_signature (ge_capability E) A token = Inr ()" by (rule verify_signer_bound_token_ok)
  from key obtain r where r: "map_of (gr_records (gv_registry G)) (IR_Capability, ?i, ?k) = Some r"
    "gk_verifying_key r = vk" unfolding governed_key_def by blast
  have "au_trusted_keys A = [((?i, ?k), vk)]"
    using assms(2) A r unfolding governed_wf_def by (metis option.inject)
  then have "trusted_get (au_trusted_keys A) ?i ?k = Some vk" by (simp add: trusted_get_def)
  with sig have "signer_vouches (ge_capability E) token vk"
    by (auto elim: verify_signer_bound_signature_ok)
  with dec key show ?thesis by (rule that)
qed

text \<open>
  An authorization is refused with the state unchanged, or is an authorization by the
  authorizer of a key that resolves.
\<close>

lemma governed_authorization_cases:
  assumes "governed_authorization E G res G'"
  obtains (unverified) e where "res = Inl e" "G' = G"
  | (verified) i k t vk A cres A' where "resolve_ed25519 (gv_registry G) IR_Capability i k t = Inr vk"
      "map_of (gv_capability_authorizers G) (i, k) = Some A"
      "authorization (ge_capability E) A cres A'" "res = map_err GV_Capability cres"
      "G' = G\<lparr>gv_capability_authorizers := bm_insert (i, k) A' (gv_capability_authorizers G)\<rparr>"
      "\<forall>r. cres = Inr r \<longrightarrow> ar_issuer_id r = i \<and> ar_key_id r = k"
proof -
  obtain v contract plan now executor device where
    "authorize_capability E G v contract plan now executor device = (res, G') \<or>
     authorize_signer_bound_capability E G v contract plan now executor device = (res, G')"
    using assms unfolding governed_authorization_def by blast
  then show ?thesis
  proof
    assume call: "authorize_capability E G v contract plan now executor device = (res, G')"
    show ?thesis
    proof (cases "verify_capability_token_signature E G v")
      case (Inl e)
      then show ?thesis using call unverified by (auto simp: authorize_capability_def)
    next
      case (Inr token)
      let ?p = "st_payload token"
      let ?f = "\<lambda>A. authorize (ge_capability E) A v contract plan now executor device"
      have "with_authorizer G ?p ?f = (res, G')" using call Inr by (simp add: authorize_capability_def)
      then show ?thesis
      proof (cases rule: with_authorizerE)
        case (used A)
        have "authorization (ge_capability E) A (fst (?f A)) (snd (?f A))"
          unfolding authorization_def by (metis prod.collapse)
        moreover obtain vk where dec: "ce_decode_token (ge_capability E) v = Inr token"
          and key: "governed_key G ?p vk" using Inr by (rule verify_token_ok)
        moreover have "\<forall>r. fst (?f A) = Inr r \<longrightarrow> ar_issuer_id r = ct_issuer_id ?p \<and> ar_key_id r = ct_key_id ?p"
          using authorize_identity [OF _ dec] by (metis prod.collapse)
        ultimately show ?thesis using used by (intro verified) (simp_all add: governed_key_resolve)
      qed (rule unverified)
    qed
  next
    assume call: "authorize_signer_bound_capability E G v contract plan now executor device = (res, G')"
    show ?thesis
    proof (cases "verify_signer_bound_capability_token_signature E G v")
      case (Inl e)
      then show ?thesis using call unverified by (auto simp: authorize_signer_bound_capability_def)
    next
      case (Inr token)
      let ?p = "sb_payload token"
      let ?f = "\<lambda>A. authorize_signer_bound (ge_capability E) A v contract plan now executor device"
      have "with_authorizer G ?p ?f = (res, G')" using call Inr by (simp add: authorize_signer_bound_capability_def)
      then show ?thesis
      proof (cases rule: with_authorizerE)
        case (used A)
        have "authorization (ge_capability E) A (fst (?f A)) (snd (?f A))"
          unfolding authorization_def by (metis prod.collapse)
        moreover obtain vk B where dec: "ce_decode_signer_bound (ge_capability E) v = Inr token"
          and key: "governed_key G ?p vk" using Inr by (rule verify_signer_bound_token_ok)
        moreover have "\<forall>r. fst (?f A) = Inr r \<longrightarrow> ar_issuer_id r = ct_issuer_id ?p \<and> ar_key_id r = ct_key_id ?p"
          using authorize_signer_bound_identity [OF _ dec] by (metis prod.collapse)
        ultimately show ?thesis using used by (intro verified) (simp_all add: governed_key_resolve)
      qed (rule unverified)
    qed
  qed
qed

section \<open>Runs of the runtime\<close>

text \<open>A history of calls with the receipts issued, in order.\<close>

inductive governed_run :: "governed_env \<Rightarrow> authorization_receipt list \<Rightarrow> governed_runtime \<Rightarrow> bool"
  for E where
  start: "governed_run E [] governed_default"
| mutation: "governed_run E rs G \<Longrightarrow> governed_mutation E G G' \<Longrightarrow> governed_run E rs G'"
| granted: "governed_run E rs G \<Longrightarrow> governed_authorization E G (Inr r) G' \<Longrightarrow> governed_run E (rs @ [r]) G'"
| refused: "governed_run E rs G \<Longrightarrow> governed_authorization E G (Inl e) G' \<Longrightarrow> governed_run E rs G'"

definition receipts_by_key :: "string \<Rightarrow> authorization_receipt list \<Rightarrow> authorization_receipt list" where
  "receipts_by_key k rs = filter (\<lambda>r. ar_key_id r = k) rs"

lemma authorization_trusted_keys:
  "authorization E A res A' \<Longrightarrow> au_trusted_keys A' = au_trusted_keys A"
  by (erule authorization_cases)
    (cases res; auto elim: authorize_verified_granted dest: authorize_verified_refused(4))+

lemma governed_authorization_wf:
  assumes "governed_authorization E G res G'" "governed_wf E G"
  shows "governed_wf E G'"
  using assms(1)
proof (cases rule: governed_authorization_cases)
  case (verified i k t vk A cres A')
  with assms(2) show ?thesis
    using authorization_trusted_keys [OF verified(3)] by (auto simp: governed_wf_def)
qed (simp add: assms(2))

lemma governed_run_wf: "governed_run E rs G \<Longrightarrow> governed_wf E G"
  by (induction rule: governed_run.induct)
    (auto intro: governed_wf_default governed_mutation_wf governed_authorization_wf)

text \<open>
  The bookkeeping of a run: each authorizer accounts for the receipts of its key, and a key
  without an authorizer has no receipts.
\<close>

definition governed_accounted :: "authorization_receipt list \<Rightarrow> governed_runtime \<Rightarrow> bool" where
  "governed_accounted rs G \<longleftrightarrow> (\<forall>i k token.
     case map_of (gv_capability_authorizers G) (i, k) of
       Some A \<Rightarrow> token_accounted (receipts_by_key k rs) A i token
     | None \<Rightarrow> receipts_of i token (receipts_by_key k rs) = [])"

lemma token_accounted_cong:
  "receipts_of i token rs = receipts_of i token rs' \<Longrightarrow> token_accounted rs A i token = token_accounted rs' A i token"
  by (simp add: token_accounted_def)

lemma token_accounted_unused:
  "au_usage A = [] \<Longrightarrow> receipts_of i token rs = [] \<Longrightarrow> token_accounted rs A i token"
  by (simp add: token_accounted_def usage_count_def)

lemma governed_accounted_mutation:
  assumes acc: "governed_accounted rs G" and wf: "governed_wf E G" and step: "governed_mutation E G G'"
  shows "governed_accounted rs G'"
  unfolding governed_accounted_def
proof (intro allI)
  fix i k token
  let ?old = "map_of (gv_capability_authorizers G) (i, k)"
  let ?new = "map_of (gv_capability_authorizers G') (i, k)"
  note old = acc [unfolded governed_accounted_def, rule_format, where i = i and k = k and token = token]
  note auths = governed_mutation_authorizers [OF step wf, where ident = "(i, k)"]
  show "case ?new of Some A \<Rightarrow> token_accounted (receipts_by_key k rs) A i token
      | None \<Rightarrow> receipts_of i token (receipts_by_key k rs) = []"
  proof (cases ?new)
    case None
    with auths(1) have "?old = None" by (cases ?old) auto
    with old None show ?thesis by simp
  next
    case (Some A)
    from auths(2) [OF Some] show ?thesis
      using old Some by (auto intro: token_accounted_unused)
  qed
qed

lemma authorization_accounted:
  assumes "authorization E A res A'" "token_accounted rs A i token"
  shows "token_accounted (case res of Inl e \<Rightarrow> rs | Inr r \<Rightarrow> rs @ [r]) A' i token"
  using assms(1)
proof (cases rule: authorization_cases)
  case (verified v p contract plan now executor device)
  then show ?thesis
    by (cases res) (auto intro: token_accounted_refused token_accounted_granted assms(2))
qed (simp add: assms(2))

lemma governed_accounted_authorization:
  assumes acc: "governed_accounted rs G" and call: "governed_authorization E G res G'"
  shows "governed_accounted (case res of Inl e \<Rightarrow> rs | Inr r \<Rightarrow> rs @ [r]) G'"
  using call
proof (cases rule: governed_authorization_cases)
  case (unverified e)
  with acc show ?thesis by simp
next
  case (verified i k t vk A cres A')
  let ?rs = "case res of Inl e \<Rightarrow> rs | Inr r \<Rightarrow> rs @ [r]"
  have other: "receipts_of i' token (receipts_by_key k' ?rs) = receipts_of i' token (receipts_by_key k' rs)"
    if "(i', k') \<noteq> (i, k)" for i' k' token
    using verified(4,6) that by (cases cres) (auto simp: receipts_of_def receipts_by_key_def)
  have mine: "token_accounted (receipts_by_key k rs) A i token" for token
    using acc verified(2) unfolding governed_accounted_def by (metis option.simps(5))
  have own: "token_accounted (receipts_by_key k ?rs) A' i token" for token
  proof -
    have "receipts_by_key k ?rs = (case cres of Inl e \<Rightarrow> receipts_by_key k rs | Inr r \<Rightarrow> receipts_by_key k rs @ [r])"
      using verified(4,6) by (cases cres) (simp_all add: receipts_by_key_def)
    then show ?thesis using authorization_accounted [OF verified(3) mine] by simp
  qed
  show ?thesis unfolding governed_accounted_def
  proof (intro allI)
    fix i' k' token
    show "case map_of (gv_capability_authorizers G') (i', k') of
        Some B \<Rightarrow> token_accounted (receipts_by_key k' ?rs) B i' token
      | None \<Rightarrow> receipts_of i' token (receipts_by_key k' ?rs) = []"
    proof (cases "(i', k') = (i, k)")
      case True
      then show ?thesis using own by (simp add: verified(5))
    next
      case False
      then have "map_of (gv_capability_authorizers G') (i', k') = map_of (gv_capability_authorizers G) (i', k')"
        by (auto simp: verified(5))
      then show ?thesis
        using acc [unfolded governed_accounted_def, rule_format, where i = i' and k = k' and token = token]
        by (simp add: other [OF False] token_accounted_cong [OF other [OF False]] split: option.splits)
    qed
  qed
qed

lemma governed_run_accounted: "governed_run E rs G \<Longrightarrow> governed_accounted rs G"
proof (induction rule: governed_run.induct)
  case start
  show ?case by (simp add: governed_accounted_def governed_default_def receipts_of_def receipts_by_key_def)
next
  case (mutation rs G G')
  then show ?case by (blast intro: governed_accounted_mutation governed_run_wf)
next
  case (granted rs G r G')
  then show ?case using governed_accounted_authorization by fastforce
next
  case (refused rs G e G')
  then show ?case using governed_accounted_authorization by fastforce
qed

text \<open>Later states, whatever was called in between.\<close>

inductive governed_steps :: "governed_env \<Rightarrow> governed_runtime \<Rightarrow> governed_runtime \<Rightarrow> bool"
  for E where
  here: "governed_steps E G G"
| mutated: "governed_steps E G G1 \<Longrightarrow> governed_mutation E G1 G2 \<Longrightarrow> governed_steps E G G2"
| authorized: "governed_steps E G G1 \<Longrightarrow> governed_authorization E G1 res G2 \<Longrightarrow> governed_steps E G G2"

lemma registry_steps_trans:
  "registry_steps E b c \<Longrightarrow> registry_steps E a b \<Longrightarrow> registry_steps E a c"
  by (induction rule: registry_steps.induct) (auto intro: registry_steps.step)

lemma governed_authorization_registry:
  "governed_authorization E G res G' \<Longrightarrow> gv_registry G' = gv_registry G"
  by (erule governed_authorization_cases) simp_all

lemma governed_steps_registry:
  "governed_steps E G G' \<Longrightarrow> registry_steps (ge_registry E) (gv_registry G) (gv_registry G')"
  by (induction rule: governed_steps.induct)
    (auto intro: registry_steps.refl registry_steps_trans dest: governed_mutation_registry governed_authorization_registry)

lemma attestation_registry_revoked:
  assumes "map_of (gr_records (gv_registry G)) (IR_Attestation, ac_issuer_id p, ac_key_id p) = Some r"
    "gk_status r = GK_Revoked"
  shows "attestation_registry_for E G p = Inl (GV_KeyGovernance KG_KeyRevoked)"
  using resolve_at [OF assms(1)] assms(2) by (simp add: attestation_registry_for_def)

text \<open>The registry handed to the attestation verifier holds the governed key of the certificate, and only it.\<close>

lemma attestation_registry_ok:
  assumes "attestation_registry_for E G p = Inr keys" "governed_wf E G"
  obtains r where "map_of (gr_records (gv_registry G)) (IR_Attestation, ac_issuer_id p, ac_key_id p) = Some r"
    "gk_status r \<noteq> GK_Revoked" "gk_not_before_epoch_s r \<le> ac_issued_at_epoch_s p"
    "ac_issued_at_epoch_s p < gk_not_after_epoch_s r"
    "keys = [((ac_issuer_id p, ac_key_id p), gk_verifying_key r)]"
proof -
  from assms(1) obtain vk pk where res: "resolve_ed25519 (gv_registry G) IR_Attestation (ac_issuer_id p) (ac_key_id p)
      (ac_issued_at_epoch_s p) = Inr vk"
    and pk: "map_of (gv_attestation_public_keys G) (ac_issuer_id p, ac_key_id p) = Some pk"
    and ins: "(case attestation_insert_ed25519 (ge_attestation E) [] (ac_issuer_id p) (ac_key_id p) pk of
       (Inl e, _) \<Rightarrow> Inl (GV_Attestation e) | (Inr _, registry) \<Rightarrow> Inr registry) = Inr keys"
    by (auto simp: attestation_registry_for_def result_simps)
  from res obtain r where r: "map_of (gr_records (gv_registry G)) (IR_Attestation, ac_issuer_id p, ac_key_id p) = Some r"
    "gk_status r \<noteq> GK_Revoked" "gk_not_before_epoch_s r \<le> ac_issued_at_epoch_s p"
    "ac_issued_at_epoch_s p < gk_not_after_epoch_s r" unfolding resolve_ok_iff by blast
  have "vk_from_bytes (sn_crypto (ge_signer E)) pk = Some (gk_verifying_key r)"
    using assms(2) pk r(1) unfolding governed_wf_def by (metis option.inject)
  with ins have "keys = [((ac_issuer_id p, ac_key_id p), gk_verifying_key r)]"
    by (simp add: attestation_insert_ed25519_def)
  with r show ?thesis by (rule that)
qed

section \<open>Properties\<close>

text \<open>A runtime with one capability and one attestation key of the same issuer.\<close>

definition demo_governed_env :: governed_env where
  "demo_governed_env = \<lparr>ge_capability = demo_capability_env, ge_attestation_base = demo_attestation_env,
     ge_snapshot_value = (\<lambda>_. Inr JNull), ge_receipt_value = (\<lambda>_. Inr (JObject []))\<rparr>"

definition demo_governed :: governed_runtime where
  "demo_governed = snd (insert_attestation_key demo_governed_env
     (snd (insert_capability_key demo_governed_env governed_default ''acme'' ''k1'' [1] 5 100))
     ''acme'' ''k2'' [2] 5 100)"

definition demo_governed_call :: "governed_runtime \<Rightarrow> (governed_error + authorization_receipt) \<times> governed_runtime" where
  "demo_governed_call G = authorize_capability demo_governed_env G JNull demo_compiled demo_compiled_plan 20 ''exec'' None"

definition demo_governed_revoked :: governed_runtime where
  "demo_governed_revoked = snd (revoke_key_guarded demo_governed_env demo_governed 2 demo_digest IR_Capability
     ''acme'' ''k1'' 50 demo_digest)"

lemma demo_governed_run: "governed_run demo_governed_env [] demo_governed"
  unfolding demo_governed_def by (rule governed_run.mutation [OF governed_run.mutation [OF governed_run.start governed_mutation.insert_capability]
      governed_mutation.insert_attestation])

lemma demo_governed_granted:
  "demo_governed_call demo_governed = (Inr (demo_receipt 20 1), snd (demo_governed_call demo_governed))"
proof -
  have "case fst (demo_governed_call demo_governed) of Inr r \<Rightarrow> r = demo_receipt 20 1 | Inl _ \<Rightarrow> False" by code_simp
  then show ?thesis by (cases "demo_governed_call demo_governed") (auto split: sum.splits)
qed

lemma demo_governed_authorized:
  "governed_authorization demo_governed_env demo_governed (Inr (demo_receipt 20 1)) (snd (demo_governed_call demo_governed))"
  using demo_governed_granted unfolding governed_authorization_def demo_governed_call_def by blast

text \<open>The same step authorized by a signer-bound token, signed with a key of 32 bytes.\<close>

definition bound_payload :: capability_token_payload where
  "bound_payload = demo_payload\<lparr>ct_key_id := ''key-1''\<rparr>"

definition bound_envelope :: signer_envelope where
  "bound_envelope = \<lparr>se_schema_version = SIGNER_PROTOCOL_SCHEMA, se_domain = SIGNING_DOMAIN, se_request_id = ''req-1'',
     se_role = IR_Capability, se_issuer_id = ''acme'', se_key_id = ''key-1'',
     se_digest_algorithm = DIGEST_ALGORITHM_SHA256, se_digest = demo_digest\<rparr>"

definition bound_token :: signer_bound_capability_token where
  "bound_token = \<lparr>sb_payload = bound_payload,
     sb_signer_response = signed_response demo_signer_env (replicate 32 7) bound_envelope demo_digest []\<rparr>"

definition bound_capability_env :: capability_env where
  "bound_capability_env = demo_capability_env\<lparr>ce_decode_signer_bound := \<lambda>_. Inr bound_token\<rparr>"

definition bound_governed_env :: governed_env where
  "bound_governed_env = demo_governed_env\<lparr>ge_capability := bound_capability_env\<rparr>"

definition bound_governed :: governed_runtime where
  "bound_governed = snd (insert_capability_key bound_governed_env governed_default ''acme'' ''key-1'' (replicate 32 7) 5 100)"

definition bound_governed_call :: "(governed_error + authorization_receipt) \<times> governed_runtime" where
  "bound_governed_call = authorize_signer_bound_capability bound_governed_env bound_governed JNull demo_compiled
     demo_compiled_plan 20 ''exec'' None"

lemma bound_governed_run: "governed_run bound_governed_env [] bound_governed"
  unfolding bound_governed_def by (rule governed_run.mutation [OF governed_run.start governed_mutation.insert_capability])

lemma bound_governed_granted: "\<exists>receipt G. bound_governed_call = (Inr receipt, G)"
proof -
  have "case bound_governed_call of (Inr receipt, G) \<Rightarrow> True | _ \<Rightarrow> False" by code_simp
  then show ?thesis by (auto split: sum.splits prod.splits)
qed

text \<open>
  C23: in a governed runtime reached by any sequence of key operations and authorizations, a
  receipt is issued only for the token decoded from the presented value and only if the key
  that the registry holds for the token's issuer in the capability role is not revoked and
  has the issue time of the token in its window. For a direct token, the token's own decoded
  signature verifies strictly under that key over the canonical bytes of its payload. For a
  signer-bound token, the signer's response it carries names that key and is signed under it,
  over an envelope with the capability role, the token's issuer and key and the digest of its
  payload. In both cases the token is live, bound to the contract, the plan and one of its
  steps, names the executor and device, grants no more than the contract permits, and the
  receipt is the one for this token, step and time.
\<close>

theorem governed_receipt_needs_governed_key:
  assumes "governed_run E rs G"
  shows "(authorize_capability E G v contract plan now executor device = (Inr receipt, G') \<longrightarrow>
      (\<exists>token vk step td pd n. ce_decode_token (ge_capability E) v = Inr token \<and>
         governed_key G (st_payload token) vk \<and> token_signed (ge_capability E) token vk \<and>
         token_authorized (ge_capability E) v (st_payload token) contract plan now executor device step td pd \<and>
         receipt = receipt_for (st_payload token) plan step td pd now n)) \<and>
    (authorize_signer_bound_capability E G v contract plan now executor device = (Inr receipt, G') \<longrightarrow>
      (\<exists>token vk step td pd n. ce_decode_signer_bound (ge_capability E) v = Inr token \<and>
         governed_key G (sb_payload token) vk \<and> signer_vouches (ge_capability E) token vk \<and>
         token_authorized (ge_capability E) v (sb_payload token) contract plan now executor device step td pd \<and>
         receipt = receipt_for (sb_payload token) plan step td pd now n))"
proof (intro conjI impI)
  assume "authorize_capability E G v contract plan now executor device = (Inr receipt, G')"
  then obtain token where ver: "verify_capability_token_signature E G v = Inr token"
    and call: "with_authorizer G (st_payload token)
      (\<lambda>A. authorize (ge_capability E) A v contract plan now executor device) = (Inr receipt, G')"
    by (auto simp: authorize_capability_def split: sum.splits)
  from ver obtain vk where vk: "ce_decode_token (ge_capability E) v = Inr token"
    "governed_key G (st_payload token) vk" "token_signed (ge_capability E) token vk" by (rule verify_token_ok)
  from call obtain A A' where "authorize (ge_capability E) A v contract plan now executor device = (Inr receipt, A')"
    by (rule with_authorizer_granted)
  with vk(1) obtain A'' where
    "authorize_verified_payload (ge_capability E) A v (st_payload token) contract plan now executor device = (Inr receipt, A'')"
    by (auto elim: authorize_granted)
  with vk show "\<exists>token vk step td pd n. ce_decode_token (ge_capability E) v = Inr token \<and>
      governed_key G (st_payload token) vk \<and> token_signed (ge_capability E) token vk \<and>
      token_authorized (ge_capability E) v (st_payload token) contract plan now executor device step td pd \<and>
      receipt = receipt_for (st_payload token) plan step td pd now n"
    by (elim authorize_verified_granted) blast
next
  assume "authorize_signer_bound_capability E G v contract plan now executor device = (Inr receipt, G')"
  then obtain token where ver: "verify_signer_bound_capability_token_signature E G v = Inr token"
    and call: "with_authorizer G (sb_payload token)
      (\<lambda>A. authorize_signer_bound (ge_capability E) A v contract plan now executor device) = (Inr receipt, G')"
    by (auto simp: authorize_signer_bound_capability_def split: sum.splits)
  from ver governed_run_wf [OF assms] obtain vk where vk: "ce_decode_signer_bound (ge_capability E) v = Inr token"
    "governed_key G (sb_payload token) vk" "signer_vouches (ge_capability E) token vk"
    by (rule governed_signer_bound_token)
  from call obtain A A' where
    "authorize_signer_bound (ge_capability E) A v contract plan now executor device = (Inr receipt, A')"
    by (rule with_authorizer_granted)
  with vk(1) obtain A'' where
    "authorize_verified_payload (ge_capability E) A v (sb_payload token) contract plan now executor device = (Inr receipt, A'')"
    by (auto simp: authorize_signer_bound_def result_simps split: sum.splits)
  with vk show "\<exists>token vk step td pd n. ce_decode_signer_bound (ge_capability E) v = Inr token \<and>
      governed_key G (sb_payload token) vk \<and> signer_vouches (ge_capability E) token vk \<and>
      token_authorized (ge_capability E) v (sb_payload token) contract plan now executor device step td pd \<and>
      receipt = receipt_for (sb_payload token) plan step td pd now n"
    by (elim authorize_verified_granted) blast
qed

theorem governed_receipt_needs_governed_key_witness:
  "(\<exists>vk. governed_key demo_governed demo_payload vk \<and> token_signed demo_capability_env demo_token vk) \<and>
   (\<exists>vk. governed_key bound_governed bound_payload vk \<and> signer_vouches bound_capability_env bound_token vk)"
proof -
  have dec: "ge_capability demo_governed_env = demo_capability_env" "ge_capability bound_governed_env = bound_capability_env"
    "ce_decode_token demo_capability_env JNull = Inr demo_token"
    "ce_decode_signer_bound bound_capability_env JNull = Inr bound_token"
    "st_payload demo_token = demo_payload" "sb_payload bound_token = bound_payload"
    by (simp_all add: demo_governed_env_def demo_capability_env_def bound_governed_env_def bound_capability_env_def
        demo_token_def bound_token_def)
  note direct = governed_receipt_needs_governed_key [OF demo_governed_run, THEN conjunct1, rule_format,
      OF demo_governed_granted [unfolded demo_governed_call_def]]
  obtain receipt G where "bound_governed_call = (Inr receipt, G)" using bound_governed_granted by blast
  note bound = governed_receipt_needs_governed_key [OF bound_governed_run, THEN conjunct2, rule_format,
      OF this [unfolded bound_governed_call_def]]
  show ?thesis using direct bound by (auto simp: dec)
qed

text \<open>
  C24: once a key is revoked, no later call is served by it, whatever happens in between: no
  receipt is ever issued under a revoked capability key, and every verification of a
  certificate made under a revoked attestation key, direct or signer bound, with or without
  its bundle, fails with the revocation error.
\<close>

theorem revoked_key_serves_nothing:
  assumes "governed_steps E G G'" "map_of (gr_records (gv_registry G)) (role, i, k) = Some r" "gk_status r = GK_Revoked"
  shows "(role = IR_Capability \<longrightarrow> governed_authorization E G' (Inr receipt) G'' \<longrightarrow>
      \<not> (ar_issuer_id receipt = i \<and> ar_key_id receipt = k)) \<and>
    (role = IR_Attestation \<longrightarrow> ac_issuer_id (sc_payload (pk_certificate package)) = i \<longrightarrow>
      ac_key_id (sc_payload (pk_certificate package)) = k \<longrightarrow>
      verify_attestation_package E G' package = Inl (GV_KeyGovernance KG_KeyRevoked) \<and>
      verify_attestation_package_against_bundle E G' package contract plan v level = Inl (GV_KeyGovernance KG_KeyRevoked)) \<and>
    (role = IR_Attestation \<longrightarrow> ac_issuer_id (sbc_payload (spk_certificate package')) = i \<longrightarrow>
      ac_key_id (sbc_payload (spk_certificate package')) = k \<longrightarrow>
      verify_signer_bound_attestation_package E G' package' = Inl (GV_KeyGovernance KG_KeyRevoked) \<and>
      verify_signer_bound_attestation_package_against_bundle E G' package' contract plan v level =
        Inl (GV_KeyGovernance KG_KeyRevoked))"
proof -
  have rec: "map_of (gr_records (gv_registry G')) (role, i, k) = Some r"
    using registry_steps_revoked [OF governed_steps_registry [OF assms(1)] assms(2,3)] .
  have "\<not> (ar_issuer_id receipt = i \<and> ar_key_id receipt = k)"
    if "role = IR_Capability" "governed_authorization E G' (Inr receipt) G''"
    using that(2)
  proof (cases rule: governed_authorization_cases)
    case (verified i' k' t vk A cres A')
    then obtain r' where "map_of (gr_records (gv_registry G')) (IR_Capability, i', k') = Some r'" "gk_status r' \<noteq> GK_Revoked"
      unfolding resolve_ok_iff by blast
    then show ?thesis using rec that(1) assms(3) verified(4,6) by (auto simp: map_err_eq eq_commute [of "Inr receipt"])
  qed simp
  moreover have "attestation_registry_for E G' p = Inl (GV_KeyGovernance KG_KeyRevoked)"
    if "role = IR_Attestation" "ac_issuer_id p = i" "ac_key_id p = k" for p
    using attestation_registry_revoked [of G' p r] rec assms(3) that by simp
  ultimately show ?thesis
    by (simp add: verify_attestation_package_def verify_attestation_package_against_bundle_def
        verify_signer_bound_attestation_package_def verify_signer_bound_attestation_package_against_bundle_def
        legacy_attestation_registry_def signer_bound_attestation_registry_def)
qed

theorem revoked_key_serves_nothing_witness:
  "fst (demo_governed_call demo_governed_revoked) = Inl (GV_KeyGovernance KG_KeyRevoked) \<and>
   (\<nexists>G. governed_authorization demo_governed_env demo_governed_revoked (Inr (demo_receipt 20 1)) G)"
proof -
  have "map_of (gr_records (gv_registry demo_governed_revoked)) (IR_Capability, ''acme'', ''k1'') =
      Some (revoke_record 50 demo_digest (active_record IR_Capability ''acme'' ''k1'' [1] 5 100))"
    by code_simp
  moreover
  have "case fst (demo_governed_call demo_governed_revoked) of Inl (GV_KeyGovernance KG_KeyRevoked) \<Rightarrow> True | _ \<Rightarrow> False"
    by code_simp
  then have "fst (demo_governed_call demo_governed_revoked) = Inl (GV_KeyGovernance KG_KeyRevoked)"
    by (simp split: sum.splits governed_error.splits key_governance_error.splits)
  moreover have "ar_issuer_id (demo_receipt 20 1) = ''acme'' \<and> ar_key_id (demo_receipt 20 1) = ''k1''"
    by (simp add: demo_receipt_def demo_payload_def receipt_for_def)
  ultimately show ?thesis
    using revoked_key_serves_nothing [OF governed_steps.here, of demo_governed_revoked IR_Capability]
    by (fastforce simp: revoke_record_def)
qed

text \<open>
  C25: over any history of a governed runtime, with keys inserted, rotated and revoked in
  between, the receipts of a token under one key carry the use numbers 1, 2, 3, ... without
  gap or repetition, and their number does not exceed the limit they agree on: no key
  operation resets a use count.
\<close>

theorem governed_uses_bounded:
  assumes "governed_run E rs G"
    "\<forall>r\<in>set (receipts_of issuer token (receipts_by_key key rs)). ar_max_uses r = limit"
  shows "map (unat \<circ> ar_use_number) (receipts_of issuer token (receipts_by_key key rs)) =
      [1..<length (receipts_of issuer token (receipts_by_key key rs)) + 1] \<and>
    length (receipts_of issuer token (receipts_by_key key rs)) \<le> unat limit"
proof (cases "map_of (gv_capability_authorizers G) (issuer, key)")
  case None
  then have "receipts_of issuer token (receipts_by_key key rs) = []"
    using governed_run_accounted [OF assms(1)] unfolding governed_accounted_def by (metis option.simps(4))
  then show ?thesis by simp
next
  case (Some A)
  then have acc: "token_accounted (receipts_by_key key rs) A issuer token"
    using governed_run_accounted [OF assms(1)] unfolding governed_accounted_def by (metis option.simps(5))
  show ?thesis
    using acc token_accounted_bounded [OF acc assms(2)] by (simp add: token_accounted_def Let_def)
qed

theorem governed_uses_bounded_witness:
  "length (receipts_of ''acme'' ''tok'' (receipts_by_key ''k1'' [demo_receipt 20 1])) \<le> 2"
proof -
  have "governed_run demo_governed_env [demo_receipt 20 1] (snd (demo_governed_call demo_governed))"
    using governed_run.granted [OF demo_governed_run demo_governed_authorized] by simp
  moreover have "\<forall>r\<in>set [demo_receipt 20 1]. ar_max_uses r = 2" by (simp add: demo_receipt_def demo_payload_def)
  ultimately show ?thesis
    using governed_uses_bounded [of demo_governed_env "[demo_receipt 20 1]" _ "''acme''" "''tok''" "''k1''" 2]
    by (simp add: receipts_of_def receipts_by_key_def)
qed

text \<open>
  A certificate that a governed runtime verifies against its bundle was checked under
  exactly one key: the one the registry holds for its issuer in the attestation role, not
  revoked, with the issue time in its window.
\<close>

lemma governed_attestation_needs_governed_key:
  assumes "governed_run E rs G"
    "verify_attestation_package_against_bundle E G package contract plan v level = Inr verified"
  shows "\<exists>r. map_of (gr_records (gv_registry G)) (IR_Attestation, ac_issuer_id (sc_payload (pk_certificate package)),
        ac_key_id (sc_payload (pk_certificate package))) = Some r \<and> gk_status r \<noteq> GK_Revoked \<and>
    gk_not_before_epoch_s r \<le> ac_issued_at_epoch_s (sc_payload (pk_certificate package)) \<and>
    ac_issued_at_epoch_s (sc_payload (pk_certificate package)) < gk_not_after_epoch_s r \<and>
    verify_attestation_against_bundle (ge_attestation E) package
      [((ac_issuer_id (sc_payload (pk_certificate package)), ac_key_id (sc_payload (pk_certificate package))),
        gk_verifying_key r)] contract plan v level = Inr verified"
proof -
  obtain keys where keys: "attestation_registry_for E G (sc_payload (pk_certificate package)) = Inr keys"
    and ver: "verify_attestation_against_bundle (ge_attestation E) package keys contract plan v level = Inr verified"
    using assms(2) by (auto simp: verify_attestation_package_against_bundle_def legacy_attestation_registry_def result_simps)
  from keys governed_run_wf [OF assms(1)] show ?thesis
    by (rule attestation_registry_ok) (use ver in auto)
qed

end
