(* ===== verification/Twin.thy ===== *)
theory Twin
  imports Crypto
begin

text \<open>
  The occupational twin (\<^verbatim>\<open>crates/occupational-twin-runtime\<close>): a workspace of
  artifacts on which typed operations are evaluated against their declared effects, with
  checkpoints, roll-back, a journal, a trace and a sealed package from which the final
  state can be reproduced. Every method returns its result paired with the workspace it
  leaves, so that a failure half-way is part of the model. The lemmas show that immutable
  inputs survive every operation, that an operation that does not succeed leaves the
  artifacts alone, that a roll-back restores the checkpoint, and that reproducing a sealed
  package yields the artifacts that were sealed. Revisions and sequence numbers are
  \<^typ>\<open>u64\<close> values.
\<close>

section \<open>Data\<close>

datatype (plugins only: code size) twin_artifact_role = TwinInput | TwinIntermediate | TwinOutput
datatype (plugins only: code size) artifact_mutability = Immutable | Mutable

record application_identity =
  ai_application_id :: string
  ai_version :: string
  ai_digest :: string

record environment_identity =
  ei_os :: string
  ei_architecture :: string
  ei_runtime_id :: string
  ei_runtime_version :: string
  ei_clock_source :: string
  ei_sandbox_id :: string
  ei_applications :: "application_identity list"

record snapshot_artifact =
  sa_artifact_id :: string
  sa_role :: twin_artifact_role
  sa_mutability :: artifact_mutability
  sa_media_type :: string
  sa_digest :: string
  sa_size_bytes :: u64

record workspace_snapshot =
  ws_schema_version :: string
  ws_workspace_id :: string
  ws_revision :: u64
  ws_environment_digest :: string
  ws_journal_digest :: string
  ws_artifacts :: "snapshot_artifact list"
  ws_snapshot_digest :: string

datatype (plugins only: code size) state_condition =
    ArtifactExists string
  | ArtifactAbsent string
  | ArtifactDigestEquals string string
  | ArtifactImmutable string
  | ArtifactMutable string

datatype (plugins only: code size) workspace_command =
    WriteArtifact (cmd_artifact_id: string) (cmd_role: twin_artifact_role) (cmd_media_type: string)
      (cmd_content_base64url: string)
  | DeleteArtifact (cmd_artifact_id: string)

record typed_operation =
  ty_operation_id :: string
  ty_operator_id :: string
  ty_declared_input_ids :: "string list"
  ty_declared_output_ids :: "string list"
  ty_preconditions :: "state_condition list"
  ty_commands :: "workspace_command list"
  ty_postconditions :: "state_condition list"

datatype (plugins only: code size) operation_violation =
    MissingDeclaredInput string
  | UndeclaredOutputMutation string
  | ImmutableArtifactMutation string
  | DuplicateCommandTarget string
  | InvalidContentEncoding string
  | ConditionFailed state_condition

datatype (plugins only: code size) operation_outcome = OpSucceeded | OpRejected | OpRolledBack

record operation_receipt =
  or_operation_id :: string
  or_operator_id :: string
  or_outcome :: operation_outcome
  or_before_snapshot_digest :: string
  or_after_snapshot_digest :: string
  or_changed_artifact_ids :: "string list"
  or_violations :: "operation_violation list"
  or_operation_digest :: string

record checkpoint_descriptor =
  ck_checkpoint_id :: string
  ck_snapshot_digest :: string
  ck_revision :: u64

record rollback_receipt =
  rb_rollback_id :: string
  rb_checkpoint_id :: string
  rb_before_snapshot_digest :: string
  rb_restored_snapshot_digest :: string
  rb_new_snapshot_digest :: string
  rb_changed_artifact_ids :: "string list"

datatype (plugins only: code size) journal_record = JR_Operation operation_receipt | JR_Rollback rollback_receipt

record journal_entry =
  je_sequence :: u64
  je_record :: journal_record

datatype (plugins only: code size) twin_trace_event_kind =
    InputStaged | OperationEvaluated | CheckpointCreated | WorkspaceRolledBack | ReplayPackageSealed

record twin_trace_event =
  tt_sequence :: u64
  tt_kind :: twin_trace_event_kind
  tt_subject_id :: string
  tt_before_snapshot_digest :: "string option"
  tt_after_snapshot_digest :: string
  tt_outcome :: string
  tt_details_digest :: string

record sealed_workspace_manifest =
  sm_schema_version :: string
  sm_package_id :: string
  sm_workspace_id :: string
  sm_environment_digest :: string
  sm_final_snapshot :: workspace_snapshot
  sm_trace_digest :: string
  sm_journal_digest :: string
  sm_blob_digests :: "string list"

record sealed_blob =
  bl_digest :: string
  bl_encoding :: string
  bl_content_base64url :: string

record sealed_workspace_package =
  sp_manifest :: sealed_workspace_manifest
  sp_blobs :: "sealed_blob list"

record reproduced_artifact =
  rp_metadata :: snapshot_artifact
  rp_content :: "u8 list"

record reproduced_workspace =
  rw_snapshot :: workspace_snapshot
  rw_artifacts :: "reproduced_artifact list"

datatype (plugins only: code size) twin_runtime_error =
    TE_EmptyField string
  | TE_ArtifactAlreadyExists string
  | TE_InputDigestMismatch string string
  | TE_DuplicateOperationId string
  | TE_DuplicateCheckpoint string
  | TE_UnknownCheckpoint string
  | TE_DuplicateRollbackId string
  | TE_UnsupportedSealedRunSchema string
  | TE_UnsupportedBlobEncoding string
  | TE_DuplicateBlob string
  | TE_InvalidBlobEncoding string
  | TE_BlobDigestMismatch string string
  | TE_BlobInventoryMismatch
  | TE_MissingBlob string
  | TE_ArtifactSizeMismatch string
  | TE_SnapshotDigestMismatch
  | TE_EnvironmentDigestMismatch
  | TE_JournalDigestMismatch
  | TE_Serialization serde_error
  | TE_Hashing hashing_error

record artifact_record =
  rec_role :: twin_artifact_role
  rec_mutability :: artifact_mutability
  rec_media_type :: string
  rec_content :: "u8 list"

type_synonym artifacts = "(string, artifact_record) bmap"

record checkpoint_state =
  cks_descriptor :: checkpoint_descriptor
  cks_artifacts :: artifacts

datatype (plugins only: code size) prepared_command = PrepWrite string artifact_record | PrepDelete string

record twin_workspace =
  tw_workspace_id :: string
  tw_environment :: environment_identity
  tw_artifacts :: artifacts
  tw_checkpoints :: "(string, checkpoint_state) bmap"
  tw_journal :: "journal_entry list"
  tw_trace :: "twin_trace_event list"
  tw_operation_ids :: "string set"
  tw_rollback_ids :: "string set"
  tw_revision :: u64

text \<open>The serialisations of \<^verbatim>\<open>serde_json\<close>, the hash and the encoding.\<close>

record twin_env =
  tn_hasher :: hasher
  tn_base64 :: base64
  tn_environment_value :: "environment_identity \<Rightarrow> serde_error + json"
  tn_journal_value :: "journal_entry list \<Rightarrow> serde_error + json"
  tn_trace_value :: "twin_trace_event list \<Rightarrow> serde_error + json"
  tn_operation_value :: "typed_operation \<Rightarrow> serde_error + json"
  tn_metadata_value :: "snapshot_artifact \<Rightarrow> serde_error + json"
  tn_descriptor_value :: "checkpoint_descriptor \<Rightarrow> serde_error + json"
  tn_receipt_value :: "operation_receipt \<Rightarrow> serde_error + json"
  tn_rollback_value :: "rollback_receipt \<Rightarrow> serde_error + json"
  tn_artifacts_value :: "snapshot_artifact list \<Rightarrow> json"

section \<open>Digests and snapshots\<close>

definition SNAPSHOT_SCHEMA :: string where "SNAPSHOT_SCHEMA = ''0.1.0''"
definition SEALED_RUN_SCHEMA :: string where "SEALED_RUN_SCHEMA = ''0.1.0''"

definition twin_require_non_empty :: "string \<Rightarrow> string \<Rightarrow> twin_runtime_error + unit" where
  "twin_require_non_empty field v = ensure (\<not> blank v) (TE_EmptyField field)"

definition digest_value :: "twin_env \<Rightarrow> serde_error + json \<Rightarrow> twin_runtime_error + string" where
  "digest_value E serialized =
     and_then (map_err TE_Serialization serialized) (\<lambda>v.
     map_err TE_Hashing (canonical_json_sha256 (tn_hasher E) v))"

definition environment_digest :: "twin_env \<Rightarrow> environment_identity \<Rightarrow> twin_runtime_error + string" where
  "environment_digest E environment = digest_value E (tn_environment_value E environment)"

definition metadata :: "twin_env \<Rightarrow> string \<Rightarrow> artifact_record \<Rightarrow> snapshot_artifact" where
  "metadata E artifact_id r = \<lparr>
     sa_artifact_id = artifact_id, sa_role = rec_role r, sa_mutability = rec_mutability r,
     sa_media_type = rec_media_type r, sa_digest = sha256_hex (tn_hasher E) (rec_content r),
     sa_size_bytes = of_nat (length (rec_content r))\<rparr>"

definition snapshot_state_digest ::
    "twin_env \<Rightarrow> string \<Rightarrow> u64 \<Rightarrow> string \<Rightarrow> snapshot_artifact list \<Rightarrow> twin_runtime_error + string" where
  "snapshot_state_digest E workspace_id revision env_digest snapshot_artifacts =
     map_err TE_Hashing (canonical_json_sha256 (tn_hasher E) (JObject (bm_collect [
       (''schema_version'', JString SNAPSHOT_SCHEMA),
       (''workspace_id'', JString workspace_id),
       (''revision'', JNumber (PosInt revision)),
       (''environment_digest'', JString env_digest),
       (''artifacts'', tn_artifacts_value E snapshot_artifacts)])))"

definition create_snapshot ::
    "twin_env \<Rightarrow> string \<Rightarrow> u64 \<Rightarrow> environment_identity \<Rightarrow> artifacts \<Rightarrow> journal_entry list \<Rightarrow>
     twin_runtime_error + workspace_snapshot" where
  "create_snapshot E workspace_id revision environment artifacts journal =
     (let snapshot_artifacts = map (\<lambda>(artifact_id, r). metadata E artifact_id r) artifacts in
      and_then (environment_digest E environment) (\<lambda>env_digest.
      and_then (digest_value E (tn_journal_value E journal)) (\<lambda>journal_digest.
      and_then (snapshot_state_digest E workspace_id revision env_digest snapshot_artifacts) (\<lambda>snapshot_digest.
      Inr \<lparr>ws_schema_version = SNAPSHOT_SCHEMA, ws_workspace_id = workspace_id, ws_revision = revision,
        ws_environment_digest = env_digest, ws_journal_digest = journal_digest,
        ws_artifacts = snapshot_artifacts, ws_snapshot_digest = snapshot_digest\<rparr>))))"

definition current_snapshot :: "twin_env \<Rightarrow> twin_workspace \<Rightarrow> twin_runtime_error + workspace_snapshot" where
  "current_snapshot E w =
     create_snapshot E (tw_workspace_id w) (tw_revision w) (tw_environment w) (tw_artifacts w) (tw_journal w)"

definition artifact_content :: "twin_workspace \<Rightarrow> string \<Rightarrow> u8 list option" where
  "artifact_content w artifact_id = map_option rec_content (map_of (tw_artifacts w) artifact_id)"

definition push_journal :: "twin_workspace \<Rightarrow> journal_record \<Rightarrow> twin_workspace" where
  "push_journal w r =
     w\<lparr>tw_journal := tw_journal w @ [\<lparr>je_sequence = of_nat (length (tw_journal w)), je_record = r\<rparr>]\<rparr>"

definition push_trace ::
    "twin_env \<Rightarrow> twin_workspace \<Rightarrow> twin_trace_event_kind \<Rightarrow> string \<Rightarrow> string option \<Rightarrow> string \<Rightarrow> string \<Rightarrow>
     serde_error + json \<Rightarrow> (twin_runtime_error + unit) \<times> twin_workspace" where
  "push_trace E w kind subject_id before after outcome details =
     (case digest_value E details of
        Inl e \<Rightarrow> (Inl e, w)
      | Inr details_digest \<Rightarrow>
          (Inr (), w\<lparr>tw_trace := tw_trace w @ [\<lparr>tt_sequence = of_nat (length (tw_trace w)), tt_kind = kind,
             tt_subject_id = subject_id, tt_before_snapshot_digest = before,
             tt_after_snapshot_digest = after, tt_outcome = outcome,
             tt_details_digest = details_digest\<rparr>]\<rparr>))"

section \<open>Creation and staging\<close>

definition validate_application :: "application_identity \<Rightarrow> twin_runtime_error + unit" where
  "validate_application a =
     and_then (twin_require_non_empty ''application_id'' (ai_application_id a)) (\<lambda>_.
     and_then (twin_require_non_empty ''application.version'' (ai_version a)) (\<lambda>_.
     twin_require_non_empty ''application.digest'' (ai_digest a)))"

definition validate_environment :: "environment_identity \<Rightarrow> twin_runtime_error + unit" where
  "validate_environment e =
     and_then (twin_require_non_empty ''environment.os'' (ei_os e)) (\<lambda>_.
     and_then (twin_require_non_empty ''environment.architecture'' (ei_architecture e)) (\<lambda>_.
     and_then (twin_require_non_empty ''environment.runtime_id'' (ei_runtime_id e)) (\<lambda>_.
     and_then (twin_require_non_empty ''environment.runtime_version'' (ei_runtime_version e)) (\<lambda>_.
     and_then (twin_require_non_empty ''environment.clock_source'' (ei_clock_source e)) (\<lambda>_.
     and_then (twin_require_non_empty ''environment.sandbox_id'' (ei_sandbox_id e)) (\<lambda>_.
     try_for_each validate_application (ei_applications e)))))))"

definition workspace_new :: "string \<Rightarrow> environment_identity \<Rightarrow> twin_runtime_error + twin_workspace" where
  "workspace_new workspace_id environment =
     and_then (twin_require_non_empty ''workspace_id'' workspace_id) (\<lambda>_.
     and_then (validate_environment environment) (\<lambda>_.
     Inr \<lparr>tw_workspace_id = workspace_id,
       tw_environment = environment\<lparr>ei_applications :=
         sort_key (\<lambda>a. (ai_application_id a, ai_version a, ai_digest a)) (ei_applications environment)\<rparr>,
       tw_artifacts = [], tw_checkpoints = [], tw_journal = [], tw_trace = [],
       tw_operation_ids = {}, tw_rollback_ids = {}, tw_revision = 0\<rparr>))"

definition stage_immutable_input ::
    "twin_env \<Rightarrow> twin_workspace \<Rightarrow> string \<Rightarrow> string \<Rightarrow> u8 list \<Rightarrow> string \<Rightarrow>
     (twin_runtime_error + workspace_snapshot) \<times> twin_workspace" where
  "stage_immutable_input E w artifact_id media_type content expected =
     (case
        and_then (twin_require_non_empty ''artifact_id'' artifact_id) (\<lambda>_.
        and_then (twin_require_non_empty ''media_type'' media_type) (\<lambda>_.
        and_then (ensure (\<not> bm_contains_key (tw_artifacts w) artifact_id) (TE_ArtifactAlreadyExists artifact_id)) (\<lambda>_.
        and_then (ensure (sha256_hex (tn_hasher E) content = expected)
          (TE_InputDigestMismatch expected (sha256_hex (tn_hasher E) content))) (\<lambda>_.
        current_snapshot E w)))) of
        Inl e \<Rightarrow> (Inl e, w)
      | Inr before \<Rightarrow>
          let r = \<lparr>rec_role = TwinInput, rec_mutability = Immutable, rec_media_type = media_type,
                rec_content = content\<rparr>;
              w1 = w\<lparr>tw_artifacts := bm_insert artifact_id r (tw_artifacts w),
                     tw_revision := tw_revision w + 1\<rparr>
          in case current_snapshot E w1 of
               Inl e \<Rightarrow> (Inl e, w1)
             | Inr after \<Rightarrow>
                 let (res, w2) = push_trace E w1 InputStaged artifact_id (Some (ws_snapshot_digest before))
                       (ws_snapshot_digest after) ''SUCCEEDED'' (tn_metadata_value E (metadata E artifact_id r))
                 in (and_then res (\<lambda>_. Inr after), w2))"

section \<open>Operations\<close>

fun condition_matches :: "twin_env \<Rightarrow> artifacts \<Rightarrow> state_condition \<Rightarrow> bool" where
  "condition_matches E arts (ArtifactExists i) \<longleftrightarrow> bm_contains_key arts i"
| "condition_matches E arts (ArtifactAbsent i) \<longleftrightarrow> \<not> bm_contains_key arts i"
| "condition_matches E arts (ArtifactDigestEquals i digest) \<longleftrightarrow>
     (case map_of arts i of None \<Rightarrow> False | Some r \<Rightarrow> sha256_hex (tn_hasher E) (rec_content r) = digest)"
| "condition_matches E arts (ArtifactImmutable i) \<longleftrightarrow>
     (case map_of arts i of None \<Rightarrow> False | Some r \<Rightarrow> rec_mutability r = Immutable)"
| "condition_matches E arts (ArtifactMutable i) \<longleftrightarrow>
     (case map_of arts i of None \<Rightarrow> False | Some r \<Rightarrow> rec_mutability r = Mutable)"

definition evaluate_conditions :: "twin_env \<Rightarrow> artifacts \<Rightarrow> state_condition list \<Rightarrow> operation_violation list" where
  "evaluate_conditions E arts conditions =
     map ConditionFailed (filter (\<lambda>c. \<not> condition_matches E arts c) conditions)"

definition validate_declared_inputs :: "artifacts \<Rightarrow> typed_operation \<Rightarrow> operation_violation list" where
  "validate_declared_inputs arts operation =
     map MissingDeclaredInput (filter (\<lambda>i. \<not> bm_contains_key arts i) (ty_declared_input_ids operation))"

record preparation =
  pr_targets :: "string set"
  pr_prepared :: "prepared_command list"
  pr_violations :: "operation_violation list"
  pr_changed :: "string list"

definition is_immutable :: "artifacts \<Rightarrow> string \<Rightarrow> bool" where
  "is_immutable arts i = (case map_of arts i of None \<Rightarrow> False | Some r \<Rightarrow> rec_mutability r = Immutable)"

definition prepare_command ::
    "twin_env \<Rightarrow> artifacts \<Rightarrow> string set \<Rightarrow> workspace_command \<Rightarrow> preparation \<Rightarrow> preparation" where
  "prepare_command E arts declared_outputs command p =
     (let i = cmd_artifact_id command in
      if i \<in> pr_targets p then p\<lparr>pr_violations := pr_violations p @ [DuplicateCommandTarget i]\<rparr>
      else
        let v1 = (if i \<notin> declared_outputs then [UndeclaredOutputMutation i] else []);
            v2 = (if is_immutable arts i then [ImmutableArtifactMutation i] else []);
            (prep, v3) = (case command of
                WriteArtifact _ role media_type content \<Rightarrow>
                  (case b64_decode (tn_base64 E) content of
                     Some bytes \<Rightarrow> ([PrepWrite i \<lparr>rec_role = role, rec_mutability = Mutable,
                       rec_media_type = media_type, rec_content = bytes\<rparr>], [])
                   | None \<Rightarrow> ([], [InvalidContentEncoding i]))
              | DeleteArtifact _ \<Rightarrow>
                  ([PrepDelete i],
                   if \<not> bm_contains_key arts i then [ConditionFailed (ArtifactExists i)] else []))
        in \<lparr>pr_targets = insert i (pr_targets p), pr_prepared = pr_prepared p @ prep,
            pr_violations = pr_violations p @ v1 @ v2 @ v3, pr_changed = pr_changed p @ [i]\<rparr>)"

definition prepare_commands :: "twin_env \<Rightarrow> artifacts \<Rightarrow> typed_operation \<Rightarrow> preparation" where
  "prepare_commands E arts operation =
     fold (prepare_command E arts (set (ty_declared_output_ids operation))) (ty_commands operation)
       \<lparr>pr_targets = {}, pr_prepared = [], pr_violations = [], pr_changed = []\<rparr>"

fun apply_prepared_command :: "prepared_command \<Rightarrow> artifacts \<Rightarrow> artifacts" where
  "apply_prepared_command (PrepWrite i r) arts = bm_insert i r arts"
| "apply_prepared_command (PrepDelete i) arts = bm_remove i arts"

definition apply_prepared_commands :: "artifacts \<Rightarrow> prepared_command list \<Rightarrow> artifacts" where
  "apply_prepared_commands arts commands = fold apply_prepared_command commands arts"

fun outcome_name :: "operation_outcome \<Rightarrow> string" where
  "outcome_name OpSucceeded = ''SUCCEEDED''"
| "outcome_name OpRejected = ''REJECTED''"
| "outcome_name OpRolledBack = ''ROLLED_BACK''"

definition finish_operation ::
    "twin_env \<Rightarrow> twin_workspace \<Rightarrow> typed_operation \<Rightarrow> operation_outcome \<Rightarrow> string \<Rightarrow> string \<Rightarrow> string list \<Rightarrow>
     operation_violation list \<Rightarrow> string \<Rightarrow> (twin_runtime_error + operation_receipt) \<times> twin_workspace" where
  "finish_operation E w operation outcome before after changed violations operation_digest =
     (let receipt = \<lparr>or_operation_id = ty_operation_id operation, or_operator_id = ty_operator_id operation,
            or_outcome = outcome, or_before_snapshot_digest = before, or_after_snapshot_digest = after,
            or_changed_artifact_ids = remdups_adj (sort changed), or_violations = violations,
            or_operation_digest = operation_digest\<rparr>;
          (res, w') = push_trace E (push_journal w (JR_Operation receipt)) OperationEvaluated
            (ty_operation_id operation) (Some before) after (outcome_name outcome) (tn_receipt_value E receipt)
      in (and_then res (\<lambda>_. Inr receipt), w'))"

definition apply_operation ::
    "twin_env \<Rightarrow> twin_workspace \<Rightarrow> typed_operation \<Rightarrow>
     (twin_runtime_error + operation_receipt) \<times> twin_workspace" where
  "apply_operation E w operation =
     (case
        and_then (twin_require_non_empty ''operation_id'' (ty_operation_id operation)) (\<lambda>_.
        and_then (twin_require_non_empty ''operator_id'' (ty_operator_id operation)) (\<lambda>_.
        ensure (ty_operation_id operation \<notin> tw_operation_ids w)
          (TE_DuplicateOperationId (ty_operation_id operation)))) of
        Inl e \<Rightarrow> (Inl e, w)
      | Inr _ \<Rightarrow>
          let w1 = w\<lparr>tw_operation_ids := insert (ty_operation_id operation) (tw_operation_ids w)\<rparr> in
          case and_then (digest_value E (tn_operation_value E operation)) (\<lambda>operation_digest.
               and_then (current_snapshot E w1) (\<lambda>before.
               Inr (operation_digest, ws_snapshot_digest before))) of
            Inl e \<Rightarrow> (Inl e, w1)
          | Inr (operation_digest, before) \<Rightarrow>
              let p = prepare_commands E (tw_artifacts w1) operation;
                  violations = validate_declared_inputs (tw_artifacts w1) operation
                    @ evaluate_conditions E (tw_artifacts w1) (ty_preconditions operation)
                    @ pr_violations p
              in if violations \<noteq> []
                 then finish_operation E w1 operation OpRejected before before [] violations operation_digest
                 else
                   let candidate = apply_prepared_commands (tw_artifacts w1) (pr_prepared p);
                       post = evaluate_conditions E candidate (ty_postconditions operation)
                   in if post \<noteq> []
                      then finish_operation E w1 operation OpRolledBack before before (pr_changed p) post
                        operation_digest
                      else
                        let w2 = w1\<lparr>tw_artifacts := candidate, tw_revision := tw_revision w1 + 1\<rparr> in
                        case current_snapshot E w2 of
                          Inl e \<Rightarrow> (Inl e, w2)
                        | Inr after \<Rightarrow>
                            finish_operation E w2 operation OpSucceeded before (ws_snapshot_digest after)
                              (pr_changed p) [] operation_digest)"

section \<open>Checkpoints\<close>

definition create_checkpoint ::
    "twin_env \<Rightarrow> twin_workspace \<Rightarrow> string \<Rightarrow> (twin_runtime_error + checkpoint_descriptor) \<times> twin_workspace" where
  "create_checkpoint E w checkpoint_id =
     (case
        and_then (twin_require_non_empty ''checkpoint_id'' checkpoint_id) (\<lambda>_.
        and_then (ensure (\<not> bm_contains_key (tw_checkpoints w) checkpoint_id) (TE_DuplicateCheckpoint checkpoint_id)) (\<lambda>_.
        current_snapshot E w)) of
        Inl e \<Rightarrow> (Inl e, w)
      | Inr s \<Rightarrow>
          let descriptor = \<lparr>ck_checkpoint_id = checkpoint_id, ck_snapshot_digest = ws_snapshot_digest s,
                ck_revision = ws_revision s\<rparr>;
              w1 = w\<lparr>tw_checkpoints := bm_insert checkpoint_id
                \<lparr>cks_descriptor = descriptor, cks_artifacts = tw_artifacts w\<rparr> (tw_checkpoints w)\<rparr>;
              (res, w2) = push_trace E w1 CheckpointCreated checkpoint_id (Some (ws_snapshot_digest s))
                (ws_snapshot_digest s) ''SUCCEEDED'' (tn_descriptor_value E descriptor)
          in (and_then res (\<lambda>_. Inr descriptor), w2))"

definition changed_artifacts :: "artifacts \<Rightarrow> artifacts \<Rightarrow> string list" where
  "changed_artifacts before after =
     filter (\<lambda>i. map_of before i \<noteq> map_of after i) (bset_collect (bm_keys before @ bm_keys after))"

definition rollback_to_checkpoint ::
    "twin_env \<Rightarrow> twin_workspace \<Rightarrow> string \<Rightarrow> string \<Rightarrow> (twin_runtime_error + rollback_receipt) \<times> twin_workspace" where
  "rollback_to_checkpoint E w rollback_id checkpoint_id =
     (case
        and_then (twin_require_non_empty ''rollback_id'' rollback_id) (\<lambda>_.
        ensure (rollback_id \<notin> tw_rollback_ids w) (TE_DuplicateRollbackId rollback_id)) of
        Inl e \<Rightarrow> (Inl e, w)
      | Inr _ \<Rightarrow>
          let w1 = w\<lparr>tw_rollback_ids := insert rollback_id (tw_rollback_ids w)\<rparr> in
          case and_then (ok_or (map_of (tw_checkpoints w1) checkpoint_id) (TE_UnknownCheckpoint checkpoint_id)) (\<lambda>checkpoint.
               and_then (current_snapshot E w1) (\<lambda>before. Inr (checkpoint, before))) of
            Inl e \<Rightarrow> (Inl e, w1)
          | Inr (checkpoint, before) \<Rightarrow>
              let changed = changed_artifacts (tw_artifacts w1) (cks_artifacts checkpoint);
                  w2 = w1\<lparr>tw_artifacts := cks_artifacts checkpoint, tw_revision := tw_revision w1 + 1\<rparr>
              in case current_snapshot E w2 of
                   Inl e \<Rightarrow> (Inl e, w2)
                 | Inr after \<Rightarrow>
                     let receipt = \<lparr>rb_rollback_id = rollback_id, rb_checkpoint_id = checkpoint_id,
                           rb_before_snapshot_digest = ws_snapshot_digest before,
                           rb_restored_snapshot_digest = ck_snapshot_digest (cks_descriptor checkpoint),
                           rb_new_snapshot_digest = ws_snapshot_digest after,
                           rb_changed_artifact_ids = changed\<rparr>;
                         (res, w3) = push_trace E (push_journal w2 (JR_Rollback receipt)) WorkspaceRolledBack
                           rollback_id (Some (ws_snapshot_digest before)) (ws_snapshot_digest after) ''SUCCEEDED''
                           (tn_rollback_value E receipt)
                     in (and_then res (\<lambda>_. Inr receipt), w3))"

section \<open>Sealing and reproduction\<close>

definition collect_blob ::
    "twin_env \<Rightarrow> artifact_record \<Rightarrow> (string, u8 list) bmap \<Rightarrow> (string, u8 list) bmap" where
  "collect_blob E r blobs =
     (let digest = sha256_hex (tn_hasher E) (rec_content r) in
      if map_of blobs digest = None then bm_insert digest (rec_content r) blobs else blobs)"

definition seal_final_state ::
    "twin_env \<Rightarrow> twin_workspace \<Rightarrow> string \<Rightarrow> (twin_runtime_error + sealed_workspace_package) \<times> twin_workspace" where
  "seal_final_state E w package_id =
     (case and_then (twin_require_non_empty ''package_id'' package_id) (\<lambda>_. current_snapshot E w) of
        Inl e \<Rightarrow> (Inl e, w)
      | Inr s \<Rightarrow>
          let (res, w1) = push_trace E w ReplayPackageSealed package_id (Some (ws_snapshot_digest s))
                (ws_snapshot_digest s) ''SEALED'' (Inr (JObject [(''package_id'', JString package_id)]));
              blobs_by_digest = fold (collect_blob E) (bm_values (tw_artifacts w1)) []
          in (and_then res (\<lambda>_.
              and_then (current_snapshot E w1) (\<lambda>final_snapshot.
              and_then (environment_digest E (tw_environment w1)) (\<lambda>env_digest.
              and_then (digest_value E (tn_trace_value E (tw_trace w1))) (\<lambda>trace_digest.
              and_then (digest_value E (tn_journal_value E (tw_journal w1))) (\<lambda>journal_digest.
              Inr \<lparr>sp_manifest = \<lparr>sm_schema_version = SEALED_RUN_SCHEMA, sm_package_id = package_id,
                  sm_workspace_id = tw_workspace_id w1, sm_environment_digest = env_digest,
                  sm_final_snapshot = final_snapshot, sm_trace_digest = trace_digest,
                  sm_journal_digest = journal_digest, sm_blob_digests = bm_keys blobs_by_digest\<rparr>,
                sp_blobs = map (\<lambda>(digest, content). \<lparr>bl_digest = digest, bl_encoding = ''base64url'',
                  bl_content_base64url = b64_encode (tn_base64 E) content\<rparr>) blobs_by_digest\<rparr>))))), w1))"

definition check_blob :: "twin_env \<Rightarrow> sealed_blob \<Rightarrow> twin_runtime_error + u8 list" where
  "check_blob E b =
     and_then (ensure (bl_encoding b = ''base64url'') (TE_UnsupportedBlobEncoding (bl_encoding b))) (\<lambda>_.
     and_then (ok_or (b64_decode (tn_base64 E) (bl_content_base64url b)) (TE_InvalidBlobEncoding (bl_digest b))) (\<lambda>content.
     and_then (ensure (sha256_hex (tn_hasher E) content = bl_digest b)
       (TE_BlobDigestMismatch (bl_digest b) (sha256_hex (tn_hasher E) content))) (\<lambda>_.
     Inr content)))"

fun index_blobs ::
    "twin_env \<Rightarrow> (string, u8 list) bmap \<Rightarrow> sealed_blob list \<Rightarrow> twin_runtime_error + (string, u8 list) bmap" where
  "index_blobs E blobs [] = Inr blobs"
| "index_blobs E blobs (b # bs) =
     and_then (check_blob E b) (\<lambda>content.
       if map_of blobs (bl_digest b) \<noteq> None then Inl (TE_DuplicateBlob (bl_digest b))
       else index_blobs E (bm_insert (bl_digest b) content blobs) bs)"

definition reproduce_artifact ::
    "(string, u8 list) bmap \<Rightarrow> reproduced_artifact list \<Rightarrow> snapshot_artifact \<Rightarrow>
     twin_runtime_error + reproduced_artifact list" where
  "reproduce_artifact blobs acc m =
     and_then (ok_or (map_of blobs (sa_digest m)) (TE_MissingBlob (sa_digest m))) (\<lambda>content.
     and_then (ensure (of_nat (length content) = sa_size_bytes m) (TE_ArtifactSizeMismatch (sa_artifact_id m))) (\<lambda>_.
     Inr (acc @ [\<lparr>rp_metadata = m, rp_content = content\<rparr>])))"

definition reproduce_final_workspace ::
    "twin_env \<Rightarrow> sealed_workspace_package \<Rightarrow> twin_runtime_error + reproduced_workspace" where
  "reproduce_final_workspace E package =
     (let manifest = sp_manifest package; s = sm_final_snapshot manifest in
      and_then (ensure (sm_schema_version manifest = SEALED_RUN_SCHEMA)
        (TE_UnsupportedSealedRunSchema (sm_schema_version manifest))) (\<lambda>_.
      and_then (ensure (sm_environment_digest manifest = ws_environment_digest s) TE_EnvironmentDigestMismatch) (\<lambda>_.
      and_then (ensure (sm_journal_digest manifest = ws_journal_digest s) TE_JournalDigestMismatch) (\<lambda>_.
      and_then (index_blobs E [] (sp_blobs package)) (\<lambda>blobs.
      and_then (ensure (bm_keys blobs = sm_blob_digests manifest) TE_BlobInventoryMismatch) (\<lambda>_.
      and_then (try_fold (reproduce_artifact blobs) [] (ws_artifacts s)) (\<lambda>artifacts.
      and_then (snapshot_state_digest E (ws_workspace_id s) (ws_revision s) (ws_environment_digest s)
        (ws_artifacts s)) (\<lambda>expected.
      and_then (ensure (expected = ws_snapshot_digest s) TE_SnapshotDigestMismatch) (\<lambda>_.
      Inr \<lparr>rw_snapshot = s, rw_artifacts = artifacts\<rparr>)))))))))"

section \<open>What the bookkeeping leaves alone\<close>

lemma push_trace_frame [simp]:
  "tw_artifacts (snd (push_trace E w k i b a out d)) = tw_artifacts w"
  "tw_revision (snd (push_trace E w k i b a out d)) = tw_revision w"
  "tw_checkpoints (snd (push_trace E w k i b a out d)) = tw_checkpoints w"
  "tw_environment (snd (push_trace E w k i b a out d)) = tw_environment w"
  "tw_workspace_id (snd (push_trace E w k i b a out d)) = tw_workspace_id w"
  "tw_journal (snd (push_trace E w k i b a out d)) = tw_journal w"
  "tw_operation_ids (snd (push_trace E w k i b a out d)) = tw_operation_ids w"
  "tw_rollback_ids (snd (push_trace E w k i b a out d)) = tw_rollback_ids w"
  by (simp_all add: push_trace_def split: sum.split)

lemma push_journal_frame [simp]:
  "tw_artifacts (push_journal w r) = tw_artifacts w" "tw_revision (push_journal w r) = tw_revision w"
  "tw_checkpoints (push_journal w r) = tw_checkpoints w"
  "tw_environment (push_journal w r) = tw_environment w"
  "tw_operation_ids (push_journal w r) = tw_operation_ids w"
  "tw_rollback_ids (push_journal w r) = tw_rollback_ids w"
  "tw_trace (push_journal w r) = tw_trace w"
  by (simp_all add: push_journal_def)

lemma finish_operation_frame [simp]:
  "tw_artifacts (snd (finish_operation E w op out b a ch vs d)) = tw_artifacts w"
  "tw_revision (snd (finish_operation E w op out b a ch vs d)) = tw_revision w"
  "tw_checkpoints (snd (finish_operation E w op out b a ch vs d)) = tw_checkpoints w"
  "tw_operation_ids (snd (finish_operation E w op out b a ch vs d)) = tw_operation_ids w"
  "tw_rollback_ids (snd (finish_operation E w op out b a ch vs d)) = tw_rollback_ids w"
  by (simp_all add: finish_operation_def case_prod_unfold Let_def)

lemma finish_operation_result:
  assumes "finish_operation E w op out b a ch vs d = (res, w')"
  shows "tw_artifacts w' = tw_artifacts w" "tw_revision w' = tw_revision w"
    "tw_checkpoints w' = tw_checkpoints w" "tw_rollback_ids w' = tw_rollback_ids w"
    "res = Inr r \<Longrightarrow> or_outcome r = out \<and> or_violations r = vs \<and> set (or_changed_artifact_ids r) = set ch \<and>
       or_before_snapshot_digest r = b \<and> or_after_snapshot_digest r = a \<and> or_operation_id r = ty_operation_id op"
  using assms by (auto simp: finish_operation_def case_prod_unfold Let_def result_simps)

section \<open>Commands\<close>

fun prep_target :: "prepared_command \<Rightarrow> string" where
  "prep_target (PrepWrite i r) = i"
| "prep_target (PrepDelete i) = i"

definition preparation_clean :: "artifacts \<Rightarrow> string set \<Rightarrow> preparation \<Rightarrow> bool" where
  "preparation_clean arts outs p \<longleftrightarrow>
     (\<forall>i\<in>set (pr_changed p). i \<in> outs \<and> \<not> is_immutable arts i) \<and>
     map prep_target (pr_prepared p) = pr_changed p \<and>
     set (pr_changed p) = pr_targets p \<and> distinct (pr_changed p) \<and>
     (\<forall>i r. PrepWrite i r \<in> set (pr_prepared p) \<longrightarrow> rec_mutability r = Mutable)"

lemma prepare_command_clean:
  assumes "pr_violations (prepare_command E arts outs c p) = []"
  shows "pr_violations p = []" "preparation_clean arts outs p \<Longrightarrow>
    preparation_clean arts outs (prepare_command E arts outs c p)"
  using assms
  by (auto simp: prepare_command_def preparation_clean_def Let_def
      split: if_splits workspace_command.splits option.splits prod.splits)

lemma prepare_fold_violations:
  "pr_violations (fold (prepare_command E arts outs) cs p) = [] \<Longrightarrow> pr_violations p = []"
  by (induction cs arbitrary: p) (auto dest: prepare_command_clean(1))

lemma prepare_fold_clean:
  "pr_violations (fold (prepare_command E arts outs) cs p) = [] \<Longrightarrow> preparation_clean arts outs p \<Longrightarrow>
   preparation_clean arts outs (fold (prepare_command E arts outs) cs p)"
  by (induction cs arbitrary: p) (auto intro!: prepare_command_clean(2) dest: prepare_fold_violations)

lemma prepare_commands_clean:
  assumes "pr_violations (prepare_commands E arts op) = []"
  shows "preparation_clean arts (set (ty_declared_output_ids op)) (prepare_commands E arts op)"
  using assms unfolding prepare_commands_def
  by (rule prepare_fold_clean) (simp add: preparation_clean_def)


text \<open>The declared effect of a command on the contents of the workspace.\<close>

fun command_effect ::
    "twin_env \<Rightarrow> workspace_command \<Rightarrow> (string \<rightharpoonup> artifact_record) \<Rightarrow> (string \<rightharpoonup> artifact_record)" where
  "command_effect E (WriteArtifact i role media_type content) m =
     m(i \<mapsto> \<lparr>rec_role = role, rec_mutability = Mutable, rec_media_type = media_type,
       rec_content = the (b64_decode (tn_base64 E) content)\<rparr>)"
| "command_effect E (DeleteArtifact i) m = m(i := None)"

lemma apply_prepared_command_wf [simp]: "bm_wf arts \<Longrightarrow> bm_wf (apply_prepared_command c arts)"
  by (cases c) auto

lemma apply_prepared_commands_wf [simp]: "bm_wf arts \<Longrightarrow> bm_wf (apply_prepared_commands arts cs)"
  unfolding apply_prepared_commands_def by (induction cs arbitrary: arts) auto

lemma prepare_command_effect:
  assumes "pr_violations (prepare_command E arts outs c p) = []"
  obtains x where "pr_prepared (prepare_command E arts outs c p) = pr_prepared p @ [x]"
    "\<And>a. bm_wf a \<Longrightarrow> map_of (apply_prepared_command x a) = command_effect E c (map_of a)"
  using assms
  by (cases c) (auto simp: prepare_command_def Let_def split: if_splits option.splits prod.splits)

lemma prepare_fold_effect:
  assumes "pr_violations (fold (prepare_command E arts outs) cs p) = []"
  shows "\<exists>ps. pr_prepared (fold (prepare_command E arts outs) cs p) = pr_prepared p @ ps \<and>
    (\<forall>a. bm_wf a \<longrightarrow> map_of (fold apply_prepared_command ps a) = fold (command_effect E) cs (map_of a))"
  using assms
proof (induction cs arbitrary: p)
  case (Cons c cs)
  let ?q = "prepare_command E arts outs c p"
  from Cons.prems have "pr_violations ?q = []" by (auto dest: prepare_fold_violations)
  then obtain x where x: "pr_prepared ?q = pr_prepared p @ [x]"
    "\<And>a. bm_wf a \<Longrightarrow> map_of (apply_prepared_command x a) = command_effect E c (map_of a)"
    by (rule prepare_command_effect) blast
  from Cons obtain ps where ps: "pr_prepared (fold (prepare_command E arts outs) cs ?q) = pr_prepared ?q @ ps"
    "\<forall>a. bm_wf a \<longrightarrow> map_of (fold apply_prepared_command ps a) = fold (command_effect E) cs (map_of a)"
    by fastforce
  show ?case by (rule exI [of _ "x # ps"]) (use x ps in auto)
qed simp

lemma prepare_commands_effect:
  assumes "pr_violations (prepare_commands E arts op) = []" "bm_wf arts"
  shows "map_of (apply_prepared_commands arts (pr_prepared (prepare_commands E arts op))) =
    fold (command_effect E) (ty_commands op) (map_of arts)"
  using prepare_fold_effect assms unfolding prepare_commands_def apply_prepared_commands_def by fastforce

lemma command_effect_other: "i \<notin> cmd_artifact_id ` set cs \<Longrightarrow> fold (command_effect E) cs m i = m i"
proof (induction cs arbitrary: m)
  case (Cons c cs)
  then show ?case by (cases c) auto
qed simp

lemma prepare_fold_changed:
  "pr_violations (fold (prepare_command E arts outs) cs p) = [] \<Longrightarrow>
   pr_changed (fold (prepare_command E arts outs) cs p) = pr_changed p @ map cmd_artifact_id cs"
proof (induction cs arbitrary: p)
  case (Cons c cs)
  then have "pr_violations (prepare_command E arts outs c p) = []" by (auto dest: prepare_fold_violations)
  then have "pr_changed (prepare_command E arts outs c p) = pr_changed p @ [cmd_artifact_id c]"
    by (auto simp: prepare_command_def Let_def split: if_splits prod.splits)
  then show ?case using Cons by simp
qed simp

lemma prepare_commands_changed:
  assumes "pr_violations (prepare_commands E arts op) = []"
  shows "pr_changed (prepare_commands E arts op) = map cmd_artifact_id (ty_commands op)"
  using prepare_fold_changed assms unfolding prepare_commands_def by fastforce

section \<open>What the declaration of an operation permits\<close>

text \<open>
  The meaning of conditions and declarations, stated on the contents of a workspace as a map.
  A condition is about the presence, the content or the mutability of an artifact; a command
  is permitted if its target is a declared output and no immutable artifact, a written content
  decodes and a deleted artifact exists; an operation is admissible if its inputs exist, its
  preconditions hold, all its commands are permitted and no two have the same target.
\<close>

fun condition_holds :: "twin_env \<Rightarrow> (string \<rightharpoonup> artifact_record) \<Rightarrow> state_condition \<Rightarrow> bool" where
  "condition_holds E m (ArtifactExists i) \<longleftrightarrow> i \<in> dom m"
| "condition_holds E m (ArtifactAbsent i) \<longleftrightarrow> i \<notin> dom m"
| "condition_holds E m (ArtifactDigestEquals i digest) \<longleftrightarrow>
     digest \<in> (\<lambda>r. sha256_hex (tn_hasher E) (rec_content r)) ` set_option (m i)"
| "condition_holds E m (ArtifactImmutable i) \<longleftrightarrow> Immutable \<in> rec_mutability ` set_option (m i)"
| "condition_holds E m (ArtifactMutable i) \<longleftrightarrow> Mutable \<in> rec_mutability ` set_option (m i)"

fun command_permitted :: "twin_env \<Rightarrow> (string \<rightharpoonup> artifact_record) \<Rightarrow> string set \<Rightarrow> workspace_command \<Rightarrow> bool" where
  "command_permitted E m outputs (WriteArtifact i role media_type content) \<longleftrightarrow>
     i \<in> outputs \<and> Immutable \<notin> rec_mutability ` set_option (m i) \<and> (\<exists>bytes. b64_decode (tn_base64 E) content = Some bytes)"
| "command_permitted E m outputs (DeleteArtifact i) \<longleftrightarrow>
     i \<in> outputs \<and> Mutable \<in> rec_mutability ` set_option (m i)"

definition operation_admissible :: "twin_env \<Rightarrow> artifacts \<Rightarrow> typed_operation \<Rightarrow> bool" where
  "operation_admissible E arts op \<longleftrightarrow>
     set (ty_declared_input_ids op) \<subseteq> dom (map_of arts) \<and>
     (\<forall>c\<in>set (ty_preconditions op). condition_holds E (map_of arts) c) \<and>
     (\<forall>c\<in>set (ty_commands op). command_permitted E (map_of arts) (set (ty_declared_output_ids op)) c) \<and>
     distinct (map cmd_artifact_id (ty_commands op))"

definition operation_achieves :: "twin_env \<Rightarrow> artifacts \<Rightarrow> typed_operation \<Rightarrow> bool" where
  "operation_achieves E arts op \<longleftrightarrow>
     (\<forall>c\<in>set (ty_postconditions op). condition_holds E (fold (command_effect E) (ty_commands op) (map_of arts)) c)"

lemma contains_key_dom: "bm_contains_key arts i \<longleftrightarrow> i \<in> dom (map_of arts)"
  by (simp add: dom_map_of_conv_image_fst)

lemma condition_matches_iff: "condition_matches E arts c \<longleftrightarrow> condition_holds E (map_of arts) c"
  by (cases c) (auto simp: contains_key_dom split: option.split simp del: bm_contains_key_iff)

lemma command_permitted_iff:
  "command_permitted E (map_of arts) outs c \<longleftrightarrow> cmd_artifact_id c \<in> outs \<and> \<not> is_immutable arts (cmd_artifact_id c) \<and>
     (case c of WriteArtifact _ _ _ content \<Rightarrow> b64_decode (tn_base64 E) content \<noteq> None
      | DeleteArtifact i \<Rightarrow> bm_contains_key arts i)"
proof (cases c)
  case (DeleteArtifact i)
  have "Mutable = m \<longleftrightarrow> m \<noteq> Immutable" for m by (cases m) simp_all
  then show ?thesis
    by (simp add: DeleteArtifact is_immutable_def contains_key_dom domIff split: option.split del: bm_contains_key_iff)
qed (simp add: is_immutable_def eq_commute [of Immutable] split: option.split)

lemma prepare_command_violations:
  "pr_violations (prepare_command E arts outs c p) = [] \<longleftrightarrow>
   pr_violations p = [] \<and> cmd_artifact_id c \<notin> pr_targets p \<and> command_permitted E (map_of arts) outs c"
  unfolding command_permitted_iff
  by (cases c) (simp_all add: prepare_command_def Let_def split: option.split del: bm_contains_key_iff)

lemma prepare_command_targets:
  "pr_violations (prepare_command E arts outs c p) = [] \<Longrightarrow>
   pr_targets (prepare_command E arts outs c p) = insert (cmd_artifact_id c) (pr_targets p)"
  unfolding prepare_command_violations by (auto simp: prepare_command_def Let_def split: prod.splits)

lemma prepare_fold_violations_iff:
  "pr_violations (fold (prepare_command E arts outs) cs p) = [] \<longleftrightarrow>
   pr_violations p = [] \<and> (\<forall>c\<in>set cs. command_permitted E (map_of arts) outs c) \<and> distinct (map cmd_artifact_id cs) \<and>
   cmd_artifact_id ` set cs \<inter> pr_targets p = {}"
proof (induction cs arbitrary: p)
  case (Cons c cs)
  show ?case
  proof (cases "pr_violations (prepare_command E arts outs c p) = []")
    case True
    then show ?thesis
      using Cons [of "prepare_command E arts outs c p"] prepare_command_targets [OF True]
      by (auto simp: prepare_command_violations)
  next
    case False
    then show ?thesis
      using prepare_fold_violations [of E arts outs cs "prepare_command E arts outs c p"]
      by (auto simp: prepare_command_violations)
  qed
qed simp

lemma prepare_commands_violations:
  "pr_violations (prepare_commands E arts op) = [] \<longleftrightarrow>
   (\<forall>c\<in>set (ty_commands op). command_permitted E (map_of arts) (set (ty_declared_output_ids op)) c) \<and>
   distinct (map cmd_artifact_id (ty_commands op))"
  by (simp add: prepare_commands_def prepare_fold_violations_iff)

lemma admissible_clean: "operation_admissible E arts op \<Longrightarrow> pr_violations (prepare_commands E arts op) = []"
  by (simp add: operation_admissible_def prepare_commands_violations)

section \<open>Operations, case by case\<close>

definition operation_candidate :: "twin_env \<Rightarrow> artifacts \<Rightarrow> typed_operation \<Rightarrow> artifacts" where
  "operation_candidate E arts op = apply_prepared_commands arts (pr_prepared (prepare_commands E arts op))"

definition postconditions_hold :: "twin_env \<Rightarrow> artifacts \<Rightarrow> typed_operation \<Rightarrow> bool" where
  "postconditions_hold E arts op \<longleftrightarrow>
     (\<forall>c\<in>set (ty_postconditions op). condition_matches E (operation_candidate E arts op) c)"

lemma evaluate_conditions_Nil [simp]:
  "evaluate_conditions E arts cs = [] \<longleftrightarrow> (\<forall>c\<in>set cs. condition_matches E arts c)"
  by (auto simp: evaluate_conditions_def filter_empty_conv)

lemma operation_admissible_iff:
  "validate_declared_inputs arts op @ evaluate_conditions E arts (ty_preconditions op)
     @ pr_violations (prepare_commands E arts op) = [] \<longleftrightarrow> operation_admissible E arts op"
  unfolding operation_admissible_def validate_declared_inputs_def prepare_commands_violations append_is_Nil_conv
    evaluate_conditions_Nil condition_matches_iff contains_key_dom
  by (auto simp: filter_empty_conv)

lemma postconditions_hold_iff:
  assumes "operation_admissible E arts op" "bm_wf arts"
  shows "postconditions_hold E arts op \<longleftrightarrow> operation_achieves E arts op"
  by (simp add: postconditions_hold_def operation_achieves_def condition_matches_iff operation_candidate_def
      prepare_commands_effect [OF admissible_clean [OF assms(1)] assms(2)])

lemma apply_operation_cases:
  assumes "apply_operation E w op = (res, w')"
  obtains (refused) e where "res = Inl e" "w' = w"
  | (kept) "tw_artifacts w' = tw_artifacts w" "tw_revision w' = tw_revision w"
      "tw_checkpoints w' = tw_checkpoints w" "tw_rollback_ids w' = tw_rollback_ids w"
      "\<And>r. res = Inr r \<Longrightarrow>
         (if operation_admissible E (tw_artifacts w) op
          then or_outcome r = OpRolledBack \<and> \<not> postconditions_hold E (tw_artifacts w) op
          else or_outcome r = OpRejected) \<and>
         or_violations r \<noteq> [] \<and> or_after_snapshot_digest r = or_before_snapshot_digest r"
  | (changed) "operation_admissible E (tw_artifacts w) op" "postconditions_hold E (tw_artifacts w) op"
      "tw_artifacts w' = operation_candidate E (tw_artifacts w) op" "tw_revision w' = tw_revision w + 1"
      "tw_checkpoints w' = tw_checkpoints w" "tw_rollback_ids w' = tw_rollback_ids w"
      "\<And>r. res = Inr r \<Longrightarrow> or_outcome r = OpSucceeded \<and> or_violations r = [] \<and>
         set (or_changed_artifact_ids r) = cmd_artifact_id ` set (ty_commands op)"
proof -
  let ?w1 = "w\<lparr>tw_operation_ids := insert (ty_operation_id op) (tw_operation_ids w)\<rparr>"
  let ?arts = "tw_artifacts w" and ?p = "prepare_commands E (tw_artifacts w) op"
  let ?guards = "and_then (twin_require_non_empty ''operation_id'' (ty_operation_id op)) (\<lambda>_.
        and_then (twin_require_non_empty ''operator_id'' (ty_operator_id op)) (\<lambda>_.
        ensure (ty_operation_id op \<notin> tw_operation_ids w) (TE_DuplicateOperationId (ty_operation_id op))))"
  let ?digests = "and_then (digest_value E (tn_operation_value E op)) (\<lambda>operation_digest.
        and_then (current_snapshot E ?w1) (\<lambda>before. Inr (operation_digest, ws_snapshot_digest before)))"
  let ?vs = "validate_declared_inputs ?arts op @ evaluate_conditions E ?arts (ty_preconditions op) @ pr_violations ?p"
  note run = assms [unfolded apply_operation_def Let_def, folded operation_candidate_def]
  consider (g) e where "?guards = Inl e" | (d) e where "?guards = Inr ()" "?digests = Inl e"
    | (bad) od b where "?guards = Inr ()" "?digests = Inr (od, b)" "?vs \<noteq> []"
    | (good) od b where "?guards = Inr ()" "?digests = Inr (od, b)" "?vs = []"
    by (cases ?guards; cases ?digests) (auto, metis surj_pair)
  then show thesis
  proof cases
    case g
    then show ?thesis using run by (intro refused) auto
  next
    case d
    then show ?thesis using run by (intro kept) auto
  next
    case bad
    then have inadm: "\<not> operation_admissible E ?arts op" by (simp add: operation_admissible_iff [symmetric])
    have fin: "finish_operation E ?w1 op OpRejected b b [] ?vs od = (res, w')"
      using run bad(3) by (simp add: bad(1,2) del: append_is_Nil_conv)
    note kept_facts = finish_operation_result [OF fin]
    show ?thesis by (rule kept) (use inadm bad(3) in \<open>auto simp: kept_facts dest!: kept_facts(5)\<close>)
  next
    case good
    then have adm: "operation_admissible E ?arts op" by (simp add: operation_admissible_iff [symmetric])
    then have clean: "pr_violations ?p = []" by (rule admissible_clean)
    show ?thesis
    proof (cases "postconditions_hold E ?arts op")
      case False
      let ?post = "evaluate_conditions E (operation_candidate E ?arts op) (ty_postconditions op)"
      have post: "?post \<noteq> []" using False by (simp add: postconditions_hold_def)
      then have fin: "finish_operation E ?w1 op OpRolledBack b b (pr_changed ?p) ?post od = (res, w')"
        using run good(3) by (simp add: good(1,2) del: evaluate_conditions_Nil)
      note kept_facts = finish_operation_result [OF fin]
      show ?thesis by (rule kept) (use adm False post in \<open>auto simp: kept_facts dest!: kept_facts(5)\<close>)
    next
      case True
      let ?w2 = "?w1\<lparr>tw_artifacts := operation_candidate E ?arts op, tw_revision := tw_revision w + 1\<rparr>"
      have fin: "(case current_snapshot E ?w2 of Inl e \<Rightarrow> (Inl e, ?w2)
          | Inr after \<Rightarrow> finish_operation E ?w2 op OpSucceeded b (ws_snapshot_digest after) (pr_changed ?p) [] od)
          = (res, w')"
        using run good(3) True by (simp add: good(1,2) postconditions_hold_def cong: sum.case_cong)
      show ?thesis
      proof (cases "current_snapshot E ?w2")
        case (Inl e)
        then show ?thesis using fin adm True by (intro changed) auto
      next
        case (Inr s)
        with fin have "finish_operation E ?w2 op OpSucceeded b (ws_snapshot_digest s) (pr_changed ?p) [] od = (res, w')"
          by simp
        note facts = finish_operation_result [OF this]
        show ?thesis
          by (rule changed)
            (use adm True prepare_commands_changed [OF clean] in \<open>auto simp: facts dest!: facts(5)\<close>)
      qed
    qed
  qed
qed

section \<open>The workspace as a state machine\<close>

datatype (plugins only: code size) twin_call =
    CallStage string string "u8 list" string
  | CallApply typed_operation
  | CallCheckpoint string
  | CallRollback string string
  | CallSeal string

fun twin_after :: "twin_env \<Rightarrow> twin_call \<Rightarrow> twin_workspace \<Rightarrow> twin_workspace" where
  "twin_after E (CallStage i mt content d) w = snd (stage_immutable_input E w i mt content d)"
| "twin_after E (CallApply op) w = snd (apply_operation E w op)"
| "twin_after E (CallCheckpoint c) w = snd (create_checkpoint E w c)"
| "twin_after E (CallRollback r c) w = snd (rollback_to_checkpoint E w r c)"
| "twin_after E (CallSeal p) w = snd (seal_final_state E w p)"

definition twin_wf :: "twin_workspace \<Rightarrow> bool" where
  "twin_wf w \<longleftrightarrow> bm_wf (tw_artifacts w) \<and> bm_wf (tw_checkpoints w) \<and>
     (\<forall>c k. map_of (tw_checkpoints w) c = Some k \<longrightarrow> bm_wf (cks_artifacts k))"

lemma stage_effect:
  "tw_checkpoints (snd (stage_immutable_input E w i mt content d)) = tw_checkpoints w"
  "tw_artifacts (snd (stage_immutable_input E w i mt content d)) = tw_artifacts w \<or>
   map_of (tw_artifacts w) i = None \<and> sha256_hex (tn_hasher E) content = d \<and>
   tw_artifacts (snd (stage_immutable_input E w i mt content d)) = bm_insert i
     \<lparr>rec_role = TwinInput, rec_mutability = Immutable, rec_media_type = mt, rec_content = content\<rparr>
     (tw_artifacts w)"
  by (auto simp: stage_immutable_input_def Let_def case_prod_unfold result_simps map_of_eq_None_iff
      split: sum.splits)

lemma checkpoint_effect:
  "tw_artifacts (snd (create_checkpoint E w c)) = tw_artifacts w"
  "tw_checkpoints (snd (create_checkpoint E w c)) = tw_checkpoints w \<or>
   map_of (tw_checkpoints w) c = None \<and>
   (\<exists>d. tw_checkpoints (snd (create_checkpoint E w c)) =
     bm_insert c \<lparr>cks_descriptor = d, cks_artifacts = tw_artifacts w\<rparr> (tw_checkpoints w))"
  by (auto simp: create_checkpoint_def Let_def case_prod_unfold result_simps map_of_eq_None_iff
      split: sum.splits)

lemma rollback_effect:
  "tw_checkpoints (snd (rollback_to_checkpoint E w r c)) = tw_checkpoints w"
  "tw_artifacts (snd (rollback_to_checkpoint E w r c)) = tw_artifacts w \<or>
   (\<exists>k. map_of (tw_checkpoints w) c = Some k \<and>
     tw_artifacts (snd (rollback_to_checkpoint E w r c)) = cks_artifacts k)"
  by (auto simp: rollback_to_checkpoint_def Let_def case_prod_unfold result_simps split: sum.splits)

lemma seal_effect:
  "tw_checkpoints (snd (seal_final_state E w p)) = tw_checkpoints w"
  "tw_artifacts (snd (seal_final_state E w p)) = tw_artifacts w"
  by (auto simp: seal_final_state_def Let_def case_prod_unfold split: sum.splits)

lemma apply_effect:
  assumes "tw_artifacts (snd (apply_operation E w op)) \<noteq> tw_artifacts w"
  shows "operation_admissible E (tw_artifacts w) op"
    "tw_artifacts (snd (apply_operation E w op)) = operation_candidate E (tw_artifacts w) op"
  using assms by (cases "apply_operation E w op"; auto elim!: apply_operation_cases; fail)+

lemma apply_checkpoints [simp]: "tw_checkpoints (snd (apply_operation E w op)) = tw_checkpoints w"
  by (cases "apply_operation E w op") (auto elim: apply_operation_cases)

lemma twin_after_wf: "twin_wf w \<Longrightarrow> twin_wf (twin_after E call w)"
proof (cases call)
  case (CallStage i mt content d)
  assume "twin_wf w"
  then show ?thesis using stage_effect [of E w i mt content d] CallStage by (auto simp: twin_wf_def)
next
  case (CallApply op)
  assume "twin_wf w"
  then show ?thesis
    using apply_effect(2) [of E w op] CallApply
    by (cases "tw_artifacts (snd (apply_operation E w op)) = tw_artifacts w")
      (auto simp: twin_wf_def operation_candidate_def)
next
  case (CallCheckpoint c)
  assume "twin_wf w"
  then show ?thesis using checkpoint_effect [of E w c] CallCheckpoint by (auto simp: twin_wf_def split: if_splits)
next
  case (CallRollback r c)
  assume "twin_wf w"
  then show ?thesis using rollback_effect [of E w r c] CallRollback by (auto simp: twin_wf_def)
next
  case (CallSeal p)
  assume "twin_wf w"
  then show ?thesis using seal_effect [of E w p] CallSeal by (auto simp: twin_wf_def)
qed

lemma twin_calls_wf: "twin_wf w \<Longrightarrow> twin_wf (fold (twin_after E) calls w)"
  by (induction calls arbitrary: w) (auto intro: twin_after_wf)

lemma workspace_new_wf: "workspace_new i e = Inr w \<Longrightarrow> twin_wf w"
  by (auto simp: workspace_new_def result_simps twin_wf_def)

text \<open>A checkpoint is never replaced.\<close>

lemma twin_after_checkpoint:
  "map_of (tw_checkpoints w) c = Some k \<Longrightarrow> map_of (tw_checkpoints (twin_after E call w)) c = Some k"
proof (cases call)
  case (CallCheckpoint c')
  assume "map_of (tw_checkpoints w) c = Some k"
  then show ?thesis using checkpoint_effect(2) [of E w c'] CallCheckpoint by auto
qed (simp_all add: stage_effect rollback_effect seal_effect)

lemma twin_calls_checkpoint:
  "map_of (tw_checkpoints w) c = Some k \<Longrightarrow> map_of (tw_checkpoints (fold (twin_after E) calls w)) c = Some k"
  by (induction calls arbitrary: w) (auto intro: twin_after_checkpoint)

text \<open>An immutable artifact is touched by no call but a roll-back.\<close>

fun is_rollback :: "twin_call \<Rightarrow> bool" where
  "is_rollback (CallRollback r c) = True"
| "is_rollback _ = False"

lemma candidate_immutable:
  assumes "operation_admissible E arts op" "bm_wf arts" "is_immutable arts i"
  shows "map_of (operation_candidate E arts op) i = map_of arts i"
proof -
  from assms(1) have clean: "pr_violations (prepare_commands E arts op) = []" by (rule admissible_clean)
  have "\<forall>c\<in>set (ty_commands op). \<not> is_immutable arts (cmd_artifact_id c)"
    using prepare_commands_clean [OF clean]
    by (simp add: preparation_clean_def prepare_commands_changed [OF clean])
  then have "i \<notin> cmd_artifact_id ` set (ty_commands op)" using assms(3) by blast
  then show ?thesis
    by (simp add: operation_candidate_def prepare_commands_effect [OF clean assms(2)] command_effect_other)
qed

lemma twin_after_immutable:
  assumes "twin_wf w" "\<not> is_rollback call" "map_of (tw_artifacts w) i = Some r" "rec_mutability r = Immutable"
  shows "map_of (tw_artifacts (twin_after E call w)) i = Some r"
proof (cases call)
  case (CallStage j mt content d)
  then show ?thesis using stage_effect(2) [of E w j mt content d] assms(3) by auto
next
  case (CallApply op)
  have "is_immutable (tw_artifacts w) i" using assms(3,4) by (simp add: is_immutable_def)
  moreover have "bm_wf (tw_artifacts w)" using assms(1) by (simp add: twin_wf_def)
  ultimately show ?thesis
    using apply_effect [of E w op] CallApply assms(3)
    by (cases "tw_artifacts (snd (apply_operation E w op)) = tw_artifacts w") (auto simp: candidate_immutable)
qed (use assms(2,3) in \<open>simp_all add: checkpoint_effect seal_effect\<close>)

lemma twin_calls_immutable:
  assumes "twin_wf w" "\<forall>call\<in>set calls. \<not> is_rollback call"
    "map_of (tw_artifacts w) i = Some r" "rec_mutability r = Immutable"
  shows "map_of (tw_artifacts (fold (twin_after E) calls w)) i = Some r"
  using assms by (induction calls arbitrary: w) (auto simp: twin_after_wf twin_after_immutable)

lemma create_checkpoint_ok:
  assumes "create_checkpoint E w c = (Inr d, w')"
  shows "map_of (tw_checkpoints w') c = Some \<lparr>cks_descriptor = d, cks_artifacts = tw_artifacts w\<rparr>"
    "\<exists>s. current_snapshot E w = Inr s \<and> ck_snapshot_digest d = ws_snapshot_digest s"
  using assms by (auto simp: create_checkpoint_def Let_def case_prod_unfold result_simps split: sum.splits)

lemma rollback_ok:
  assumes "rollback_to_checkpoint E w r c = (Inr receipt, w')"
  obtains k where "map_of (tw_checkpoints w) c = Some k" "tw_artifacts w' = cks_artifacts k"
    "tw_revision w' = tw_revision w + 1" "r \<notin> tw_rollback_ids w" "r \<in> tw_rollback_ids w'"
    "rb_restored_snapshot_digest receipt = ck_snapshot_digest (cks_descriptor k)"
    "rb_changed_artifact_ids receipt = changed_artifacts (tw_artifacts w) (cks_artifacts k)"
  using assms
  by (auto simp: rollback_to_checkpoint_def Let_def case_prod_unfold result_simps split: sum.splits)

lemma set_changed_artifacts: "set (changed_artifacts a b) = {i. map_of a i \<noteq> map_of b i}"
  by (auto simp: changed_artifacts_def) (metis map_of_eq_None_iff)

section \<open>Sealing and reproducing\<close>

definition blob_content :: "twin_env \<Rightarrow> sealed_blob \<Rightarrow> u8 list" where
  "blob_content E b = (case check_blob E b of Inl _ \<Rightarrow> [] | Inr content \<Rightarrow> content)"

interpretation blobs: indexing_loop "[]" map_of bm_insert bm_wf "index_blobs E" bl_digest "blob_content E"
    "\<lambda>b. and_then (check_blob E b) (\<lambda>_. Inr ())" "\<lambda>b. TE_DuplicateBlob (bl_digest b)"
  for E
proof unfold_locales
  show "index_blobs E m (b # bs) = and_then (and_then (check_blob E b) (\<lambda>_. Inr ())) (\<lambda>_.
      if map_of m (bl_digest b) \<noteq> None then Inl (TE_DuplicateBlob (bl_digest b))
      else index_blobs E (bm_insert (bl_digest b) (blob_content E b) m) bs)" for m b bs
    by (cases "check_blob E b") (simp_all add: blob_content_def)
qed simp

lemma check_blob_ok:
  "check_blob E b = Inr content \<longleftrightarrow>
     bl_encoding b = ''base64url'' \<and> b64_decode (tn_base64 E) (bl_content_base64url b) = Some content \<and>
     sha256_hex (tn_hasher E) content = bl_digest b"
  by (auto simp: check_blob_def result_simps)

lemma index_blobs_sound:
  assumes "index_blobs E [] bs = Inr blobs" "map_of blobs d = Some content"
  shows "sha256_hex (tn_hasher E) content = d"
proof -
  from assms obtain b where b: "b \<in> set bs" "bl_digest b = d" "blob_content E b = content"
    by (auto simp: blobs.run_get)
  moreover from assms(1) b(1) obtain c where "check_blob E b = Inr c"
    by (auto simp: blobs.run_eq_Inr result_simps)
  ultimately show ?thesis by (auto simp: blob_content_def check_blob_ok)
qed

lemma reproduce_artifacts_iff:
  "try_fold (reproduce_artifact blobs) acc ms = Inr out \<longleftrightarrow>
     (\<forall>m\<in>set ms. \<exists>c. map_of blobs (sa_digest m) = Some c \<and> of_nat (length c) = sa_size_bytes m) \<and>
     out = acc @ map (\<lambda>m. \<lparr>rp_metadata = m, rp_content = the (map_of blobs (sa_digest m))\<rparr>) ms"
  by (induction ms arbitrary: acc) (auto simp: reproduce_artifact_def result_simps)

text \<open>The blobs of a package are the contents of the workspace, each under its digest.\<close>

lemma collect_blob_step:
  fixes E r
  defines "sha \<equiv> sha256_hex (tn_hasher E)" and "c0 \<equiv> rec_content r"
  assumes "bm_wf bs" "inj_on sha (insert c0 (ran (map_of bs)))" "\<And>d c. map_of bs d = Some c \<Longrightarrow> sha c = d"
  shows "bm_wf (collect_blob E r bs)"
    "map_of (collect_blob E r bs) d = Some c \<longleftrightarrow> map_of bs d = Some c \<or> c = c0 \<and> sha c0 = d"
proof -
  show "bm_wf (collect_blob E r bs)" using assms(3) by (simp add: collect_blob_def Let_def)
  have "c = c0" if "map_of bs (sha c0) = Some c" for c
    using assms(4) assms(5) [OF that] ranI [of "map_of bs", OF that] by (auto simp: inj_on_def)
  then show "map_of (collect_blob E r bs) d = Some c \<longleftrightarrow> map_of bs d = Some c \<or> c = c0 \<and> sha c0 = d"
    unfolding collect_blob_def Let_def sha_def [symmetric] c0_def [symmetric]
    by (cases "map_of bs (sha c0)") auto
qed

lemma collect_blobs:
  fixes E
  defines "sha \<equiv> sha256_hex (tn_hasher E)"
  assumes "bm_wf bs" "inj_on sha (ran (map_of bs) \<union> rec_content ` set rs)"
    "\<And>d c. map_of bs d = Some c \<Longrightarrow> sha c = d"
  shows "bm_wf (fold (collect_blob E) rs bs) \<and>
    (\<forall>d c. map_of (fold (collect_blob E) rs bs) d = Some c \<longleftrightarrow>
       map_of bs d = Some c \<or> c \<in> rec_content ` set rs \<and> sha c = d)"
  using assms(2-)
proof (induction rs arbitrary: bs)
  case (Cons r rs)
  have "inj_on sha (insert (rec_content r) (ran (map_of bs)))"
    by (rule inj_on_subset [OF Cons.prems(2)]) auto
  note step = collect_blob_step [OF Cons.prems(1) this [unfolded sha_def] Cons.prems(3) [unfolded sha_def], folded sha_def]
  have "ran (map_of (collect_blob E r bs)) \<subseteq> ran (map_of bs) \<union> {rec_content r}"
    by (auto simp: ran_def step(2))
  then have "inj_on sha (ran (map_of (collect_blob E r bs)) \<union> rec_content ` set rs)"
    by (intro inj_on_subset [OF Cons.prems(2)]) auto
  then have "bm_wf (fold (collect_blob E) rs (collect_blob E r bs)) \<and>
    (\<forall>d c. map_of (fold (collect_blob E) rs (collect_blob E r bs)) d = Some c \<longleftrightarrow>
       map_of (collect_blob E r bs) d = Some c \<or> c \<in> rec_content ` set rs \<and> sha c = d)"
    using step Cons.prems(3) by (intro Cons.IH) auto
  then show ?case using step(2) by auto
qed simp

lemma bm_rebuild:
  assumes "bm_wf m"
  shows "fold (\<lambda>(k, v). bm_insert k v) m [] = m"
proof (rule bm_eqI)
  show "map_of (fold (\<lambda>(k, v). bm_insert k v) m []) = map_of m"
    using assms by (simp add: map_of_fold_bm_insert map_of_rev_distinct bm_wf_distinct)
qed (use assms in \<open>simp_all add: fold_bm_insert_wf\<close>)

definition seal_blob :: "twin_env \<Rightarrow> string \<times> u8 list \<Rightarrow> sealed_blob" where
  "seal_blob E = (\<lambda>(digest, content). \<lparr>bl_digest = digest, bl_encoding = ''base64url'',
     bl_content_base64url = b64_encode (tn_base64 E) content\<rparr>)"

lemma index_sealed_blobs:
  assumes "bm_wf blobs" "base64_inverse (tn_base64 E)"
    "\<And>d c. map_of blobs d = Some c \<Longrightarrow> sha256_hex (tn_hasher E) c = d"
  shows "index_blobs E [] (map (seal_blob E) blobs) = Inr blobs"
proof -
  have ok: "check_blob E (seal_blob E x) = Inr (snd x)" if "x \<in> set blobs" for x
  proof -
    have "map_of blobs (fst x) = Some (snd x)" using that assms(1) by (simp add: map_of_bm_iff)
    then show ?thesis
      using assms(2,3) by (simp add: check_blob_ok seal_blob_def base64_inverse_def case_prod_unfold)
  qed
  have keys: "map (bl_digest \<circ> seal_blob E) blobs = map fst blobs" by (auto simp: seal_blob_def)
  have "fold (\<lambda>x. bm_insert (bl_digest x) (blob_content E x)) (map (seal_blob E) blobs) [] =
      fold (\<lambda>(k, v). bm_insert k v) blobs []"
    unfolding fold_map comp_def
    by (rule fold_cong) (auto simp: blob_content_def ok, simp add: seal_blob_def)
  then show ?thesis
    using ok assms(1) by (simp add: blobs.run_eq_Inr keys bm_wf_distinct bm_rebuild)
qed

lemma seal_final_state_ok:
  assumes "seal_final_state E w package_id = (Inr package, w')"
  obtains s where "current_snapshot E w' = Inr s"
    "sm_schema_version (sp_manifest package) = SEALED_RUN_SCHEMA"
    "sm_environment_digest (sp_manifest package) = ws_environment_digest s"
    "sm_journal_digest (sp_manifest package) = ws_journal_digest s"
    "sm_final_snapshot (sp_manifest package) = s"
    "sm_blob_digests (sp_manifest package) = bm_keys (fold (collect_blob E) (bm_values (tw_artifacts w)) [])"
    "sp_blobs package = map (seal_blob E) (fold (collect_blob E) (bm_values (tw_artifacts w)) [])"
    "ws_artifacts s = map (\<lambda>(i, r). metadata E i r) (tw_artifacts w)"
    "snapshot_state_digest E (ws_workspace_id s) (ws_revision s) (ws_environment_digest s) (ws_artifacts s) =
       Inr (ws_snapshot_digest s)"
  using assms
  by (auto simp: seal_final_state_def Let_def case_prod_unfold result_simps current_snapshot_def
      create_snapshot_def seal_blob_def split: sum.splits)

lemma seal_reproduce:
  assumes "seal_final_state E w package_id = (Inr package, w')" "bm_wf (tw_artifacts w)"
    "base64_inverse (tn_base64 E)"
    "inj_on (sha256_hex (tn_hasher E)) (rec_content ` set (bm_values (tw_artifacts w)))"
  shows "reproduce_final_workspace E package = Inr \<lparr>rw_snapshot = sm_final_snapshot (sp_manifest package),
    rw_artifacts = map (\<lambda>(i, r). \<lparr>rp_metadata = metadata E i r, rp_content = rec_content r\<rparr>) (tw_artifacts w)\<rparr>"
proof -
  let ?blobs = "fold (collect_blob E) (bm_values (tw_artifacts w)) []"
  obtain s where s: "current_snapshot E w' = Inr s"
    "sm_schema_version (sp_manifest package) = SEALED_RUN_SCHEMA"
    "sm_environment_digest (sp_manifest package) = ws_environment_digest s"
    "sm_journal_digest (sp_manifest package) = ws_journal_digest s"
    "sm_final_snapshot (sp_manifest package) = s"
    "sm_blob_digests (sp_manifest package) = bm_keys ?blobs"
    "sp_blobs package = map (seal_blob E) ?blobs"
    "ws_artifacts s = map (\<lambda>(i, r). metadata E i r) (tw_artifacts w)"
    "snapshot_state_digest E (ws_workspace_id s) (ws_revision s) (ws_environment_digest s) (ws_artifacts s) =
       Inr (ws_snapshot_digest s)"
    using assms(1) by (rule seal_final_state_ok)
  have blobs: "bm_wf ?blobs" "map_of ?blobs d = Some c \<longleftrightarrow>
      c \<in> rec_content ` set (bm_values (tw_artifacts w)) \<and> sha256_hex (tn_hasher E) c = d" for d c
    using collect_blobs [of "[]" E "bm_values (tw_artifacts w)"] assms(4) by auto
  have index: "index_blobs E [] (sp_blobs package) = Inr ?blobs"
    unfolding s(7) using blobs assms(3) by (intro index_sealed_blobs) auto
  have found: "map_of ?blobs (sha256_hex (tn_hasher E) (rec_content r)) = Some (rec_content r)"
    if "(i, r) \<in> set (tw_artifacts w)" for i r
    using that by (force simp: blobs(2) set_bm_values)
  have "try_fold (reproduce_artifact ?blobs) [] (ws_artifacts s) =
      Inr (map (\<lambda>(i, r). \<lparr>rp_metadata = metadata E i r, rp_content = rec_content r\<rparr>) (tw_artifacts w))"
    unfolding reproduce_artifacts_iff s(8) by (auto simp: metadata_def found)
  then show ?thesis
    by (simp add: reproduce_final_workspace_def s(2-6,9) index)
qed

lemma reproduce_final_workspace_ok:
  assumes "reproduce_final_workspace E package = Inr rw"
  shows "rw_snapshot rw = sm_final_snapshot (sp_manifest package)"
    "map rp_metadata (rw_artifacts rw) = ws_artifacts (rw_snapshot rw)"
    "\<forall>a\<in>set (rw_artifacts rw). sha256_hex (tn_hasher E) (rp_content a) = sa_digest (rp_metadata a) \<and>
       of_nat (length (rp_content a)) = sa_size_bytes (rp_metadata a)"
    "set (map bl_digest (sp_blobs package)) = set (sm_blob_digests (sp_manifest package))"
    "snapshot_state_digest E (ws_workspace_id (rw_snapshot rw)) (ws_revision (rw_snapshot rw))
       (ws_environment_digest (rw_snapshot rw)) (ws_artifacts (rw_snapshot rw)) =
       Inr (ws_snapshot_digest (rw_snapshot rw))"
proof -
  let ?s = "sm_final_snapshot (sp_manifest package)"
  from assms obtain bs where bs: "index_blobs E [] (sp_blobs package) = Inr bs"
      "bm_keys bs = sm_blob_digests (sp_manifest package)"
      "try_fold (reproduce_artifact bs) [] (ws_artifacts ?s) = Inr (rw_artifacts rw)"
      "snapshot_state_digest E (ws_workspace_id ?s) (ws_revision ?s) (ws_environment_digest ?s) (ws_artifacts ?s)
         = Inr (ws_snapshot_digest ?s)" "rw_snapshot rw = ?s"
    by (auto simp: reproduce_final_workspace_def Let_def result_simps)
  show "rw_snapshot rw = ?s" by (rule bs(5))
  show "map rp_metadata (rw_artifacts rw) = ws_artifacts (rw_snapshot rw)"
    using bs(3,5) by (simp add: reproduce_artifacts_iff comp_def)
  show "\<forall>a\<in>set (rw_artifacts rw). sha256_hex (tn_hasher E) (rp_content a) = sa_digest (rp_metadata a) \<and>
       of_nat (length (rp_content a)) = sa_size_bytes (rp_metadata a)"
    using bs(3) index_blobs_sound [OF bs(1)] by (fastforce simp: reproduce_artifacts_iff)
  show "set (map bl_digest (sp_blobs package)) = set (sm_blob_digests (sp_manifest package))"
  proof -
    have "d \<in> set (bm_keys bs) \<longleftrightarrow> d \<in> set (map bl_digest (sp_blobs package))" for d
    proof -
      have "d \<in> set (bm_keys bs) \<longleftrightarrow> (\<exists>c. map_of bs d = Some c)" using map_of_eq_None_iff [of bs d] by auto
      also have "\<dots> \<longleftrightarrow> (\<exists>b\<in>set (sp_blobs package). bl_digest b = d)" by (auto simp: blobs.run_get [OF bs(1)])
      finally show ?thesis by auto
    qed
    then show ?thesis unfolding bs(2) by blast
  qed
  show "snapshot_state_digest E (ws_workspace_id (rw_snapshot rw)) (ws_revision (rw_snapshot rw))
       (ws_environment_digest (rw_snapshot rw)) (ws_artifacts (rw_snapshot rw)) =
       Inr (ws_snapshot_digest (rw_snapshot rw))"
    using bs(4,5) by simp
qed

section \<open>Properties\<close>

text \<open>A workspace with one staged input, and an operation that writes one output.\<close>

definition demo_twin_env :: twin_env where
  "demo_twin_env = \<lparr>tn_hasher = \<lparr>to_vec = (\<lambda>_. Inr []), sha256_hex = b64_encode demo_base64\<rparr>, tn_base64 = demo_base64,
     tn_environment_value = (\<lambda>_. Inr JNull), tn_journal_value = (\<lambda>_. Inr JNull), tn_trace_value = (\<lambda>_. Inr JNull),
     tn_operation_value = (\<lambda>_. Inr JNull), tn_metadata_value = (\<lambda>_. Inr JNull), tn_descriptor_value = (\<lambda>_. Inr JNull),
     tn_receipt_value = (\<lambda>_. Inr JNull), tn_rollback_value = (\<lambda>_. Inr JNull), tn_artifacts_value = (\<lambda>_. JNull)\<rparr>"

definition demo_environment :: environment_identity where
  "demo_environment = \<lparr>ei_os = ''o'', ei_architecture = ''a'', ei_runtime_id = ''r'', ei_runtime_version = ''1'',
     ei_clock_source = ''c'', ei_sandbox_id = ''s'', ei_applications = []\<rparr>"

definition demo_workspace :: twin_workspace where
  "demo_workspace = twin_after demo_twin_env (CallStage ''in'' ''text'' [7] [CHR 0x07])
     \<lparr>tw_workspace_id = ''w'', tw_environment = demo_environment, tw_artifacts = [], tw_checkpoints = [],
      tw_journal = [], tw_trace = [], tw_operation_ids = {}, tw_rollback_ids = {}, tw_revision = 0\<rparr>"

definition demo_operation :: "string \<Rightarrow> string \<Rightarrow> typed_operation" where
  "demo_operation i target = \<lparr>ty_operation_id = i, ty_operator_id = ''f'', ty_declared_input_ids = [''in''],
     ty_declared_output_ids = [''out''], ty_preconditions = [ArtifactImmutable ''in''],
     ty_commands = [WriteArtifact target TwinOutput ''text'' ''xyz''], ty_postconditions = [ArtifactExists ''out'']\<rparr>"

lemma demo_workspace_wf: "twin_wf demo_workspace"
  unfolding demo_workspace_def by (rule twin_after_wf) (simp add: twin_wf_def)

text \<open>
  C21: an evaluated operation succeeds exactly if its declared inputs exist, its
  preconditions hold, its commands respect the declaration (targets declared as outputs, no
  immutable target, no target twice, decodable contents, deletions of present artifacts) and
  its postconditions hold afterwards. Then the artifacts are the old ones with exactly its
  commands applied, every command having written a declared output, and the revision has
  grown by one; otherwise the artifacts and the revision are as before, and the receipt
  lists why.
\<close>

theorem operation_follows_declaration:
  assumes "apply_operation E w op = (Inr r, w')" "twin_wf w"
  shows "(if operation_admissible E (tw_artifacts w) op \<and> operation_achieves E (tw_artifacts w) op
     then or_outcome r = OpSucceeded \<and> or_violations r = [] \<and> tw_revision w' = tw_revision w + 1 \<and>
       map_of (tw_artifacts w') = fold (command_effect E) (ty_commands op) (map_of (tw_artifacts w)) \<and>
       set (or_changed_artifact_ids r) = cmd_artifact_id ` set (ty_commands op) \<and>
       cmd_artifact_id ` set (ty_commands op) \<subseteq> set (ty_declared_output_ids op)
     else or_outcome r \<noteq> OpSucceeded \<and> or_violations r \<noteq> [] \<and>
       tw_artifacts w' = tw_artifacts w \<and> tw_revision w' = tw_revision w \<and>
       or_after_snapshot_digest r = or_before_snapshot_digest r)"
proof -
  have wf: "bm_wf (tw_artifacts w)" using assms(2) by (simp add: twin_wf_def)
  from assms(1) show ?thesis
  proof (cases rule: apply_operation_cases)
    case changed
    note clean = admissible_clean [OF changed(1)]
    have "operation_achieves E (tw_artifacts w) op" using postconditions_hold_iff [OF changed(1) wf] changed(2) by simp
    moreover have "\<forall>c\<in>set (ty_commands op). cmd_artifact_id c \<in> set (ty_declared_output_ids op)"
      using prepare_commands_clean [OF clean]
      by (simp add: preparation_clean_def prepare_commands_changed [OF clean])
    ultimately show ?thesis
      using changed prepare_commands_effect [OF clean wf] by (auto simp: operation_candidate_def)
  next
    case kept
    then show ?thesis using postconditions_hold_iff [OF _ wf, of E op] by (auto split: if_splits)
  qed simp
qed

theorem operation_follows_declaration_witness:
  "map_of (tw_artifacts (snd (apply_operation demo_twin_env demo_workspace (demo_operation ''o1'' ''out'')))) ''out'' \<noteq> None \<and>
   tw_artifacts (snd (apply_operation demo_twin_env demo_workspace (demo_operation ''o2'' ''in''))) =
     tw_artifacts demo_workspace"
proof -
  have "case apply_operation demo_twin_env demo_workspace (demo_operation ''o1'' ''out'') of
      (Inr r, w') \<Rightarrow> or_outcome r = OpSucceeded | _ \<Rightarrow> False"
    "case apply_operation demo_twin_env demo_workspace (demo_operation ''o2'' ''in'') of
      (Inr r, w') \<Rightarrow> or_outcome r \<noteq> OpSucceeded | _ \<Rightarrow> False" by code_simp+
  then obtain r1 w1 r2 w2 where
    run: "apply_operation demo_twin_env demo_workspace (demo_operation ''o1'' ''out'') = (Inr r1, w1)"
      "apply_operation demo_twin_env demo_workspace (demo_operation ''o2'' ''in'') = (Inr r2, w2)"
    and out: "or_outcome r1 = OpSucceeded" "or_outcome r2 \<noteq> OpSucceeded"
    by (auto split: prod.splits sum.splits)
  have "map_of (tw_artifacts w1) = fold (command_effect demo_twin_env)
      (ty_commands (demo_operation ''o1'' ''out'')) (map_of (tw_artifacts demo_workspace))"
    using operation_follows_declaration [OF run(1) demo_workspace_wf] out(1) by metis
  moreover have "tw_artifacts w2 = tw_artifacts demo_workspace"
    using operation_follows_declaration [OF run(2) demo_workspace_wf] out(2) by metis
  moreover have "ty_commands (demo_operation ''o1'' ''out'') = [WriteArtifact ''out'' TwinOutput ''text'' ''xyz'']"
    by (simp add: demo_operation_def)
  ultimately show ?thesis by (simp add: run)
qed

text \<open>
  C22: an artifact that is immutable in a workspace is there unchanged after every sequence
  of stagings, operations, checkpoints and seals, whatever their outcome; only a roll-back
  to a checkpoint made before it was staged can remove it.
\<close>

theorem immutable_inputs_survive:
  assumes "twin_wf w" "\<forall>call\<in>set calls. \<not> is_rollback call"
    "map_of (tw_artifacts w) i = Some r" "rec_mutability r = Immutable"
  shows "map_of (tw_artifacts (fold (twin_after E) calls w)) i = Some r"
  using assms by (rule twin_calls_immutable)

definition demo_input :: artifact_record where
  "demo_input = \<lparr>rec_role = TwinInput, rec_mutability = Immutable, rec_media_type = ''text'', rec_content = [7]\<rparr>"

lemma demo_workspace_input: "map_of (tw_artifacts demo_workspace) ''in'' = Some demo_input"
  by code_simp

theorem immutable_inputs_survive_witness:
  "map_of (tw_artifacts (fold (twin_after demo_twin_env)
     [CallApply (demo_operation ''o1'' ''out''), CallApply (demo_operation ''o2'' ''in''), CallSeal ''p'']
     demo_workspace)) ''in'' = Some demo_input"
  by (rule immutable_inputs_survive [OF demo_workspace_wf _ demo_workspace_input]) (simp_all add: demo_input_def)

text \<open>
  After a checkpoint and any sequence of calls, a successful roll-back to it brings
  back exactly the artifacts of the checkpoint; the receipt names the snapshot digest
  recorded then and, as changed, exactly the artifacts that differ between the two states.
\<close>

lemma rollback_restores_checkpoint:
  assumes "create_checkpoint E w c = (Inr d, w1)"
    "rollback_to_checkpoint E (fold (twin_after E) calls w1) rid c = (Inr receipt, w3)"
  shows "tw_artifacts w3 = tw_artifacts w \<and> rb_restored_snapshot_digest receipt = ck_snapshot_digest d \<and>
    set (rb_changed_artifact_ids receipt) =
      {i. map_of (tw_artifacts (fold (twin_after E) calls w1)) i \<noteq> map_of (tw_artifacts w) i}"
proof -
  have stored: "map_of (tw_checkpoints (fold (twin_after E) calls w1)) c =
      Some \<lparr>cks_descriptor = d, cks_artifacts = tw_artifacts w\<rparr>"
    by (rule twin_calls_checkpoint) (rule create_checkpoint_ok [OF assms(1)])
  show ?thesis
    using assms(2) by (rule rollback_ok) (auto simp: stored set_changed_artifacts)
qed

text \<open>
  C37: sealing and reproducing round-trip. Whatever stagings, operations, checkpoints and
  roll-backs a new workspace has gone through, the package it is sealed into is reproduced
  successfully and yields exactly the workspace's artifacts, in order, with their metadata and
  contents, and the sealed snapshot. The hypotheses on the third-party code are that the
  encoding can be decoded and that the hash does not collide on the contents of the workspace.
\<close>

theorem sealed_workspace_reproduces:
  assumes "workspace_new workspace_id environment = Inr w0" "w = fold (twin_after E) calls w0"
    "seal_final_state E w package_id = (Inr package, w')" "base64_inverse (tn_base64 E)"
    "inj_on (sha256_hex (tn_hasher E)) (rec_content ` set (bm_values (tw_artifacts w)))"
  shows "reproduce_final_workspace E package = Inr \<lparr>rw_snapshot = sm_final_snapshot (sp_manifest package),
    rw_artifacts = map (\<lambda>(i, r). \<lparr>rp_metadata = metadata E i r, rp_content = rec_content r\<rparr>) (tw_artifacts w)\<rparr>"
proof -
  have "twin_wf w" unfolding assms(2) using workspace_new_wf [OF assms(1)] by (rule twin_calls_wf)
  then show ?thesis using assms(3-5) by (intro seal_reproduce) (simp_all add: twin_wf_def)
qed

theorem sealed_workspace_reproduces_witness:
  "\<exists>package rw. fst (seal_final_state demo_twin_env demo_workspace ''p'') = Inr package \<and>
     reproduce_final_workspace demo_twin_env package = Inr rw \<and> map rp_content (rw_artifacts rw) = [[7]]"
proof -
  let ?w0 = "\<lparr>tw_workspace_id = ''w'', tw_environment = demo_environment, tw_artifacts = [], tw_checkpoints = [],
      tw_journal = [], tw_trace = [], tw_operation_ids = {}, tw_rollback_ids = {}, tw_revision = 0\<rparr>"
  have new: "case workspace_new ''w'' demo_environment of Inl _ \<Rightarrow> False | Inr w \<Rightarrow> w = ?w0"
    and sealed: "\<not> isl (fst (seal_final_state demo_twin_env demo_workspace ''p''))"
    and arts: "map (\<lambda>(i, r). rec_content r) (tw_artifacts demo_workspace) = [[7]]" by code_simp+
  from new have w0: "workspace_new ''w'' demo_environment = Inr ?w0" by (simp split: sum.splits)
  from sealed obtain package where p: "fst (seal_final_state demo_twin_env demo_workspace ''p'') = Inr package"
    by (metis isl_def sum.exhaust)
  have "rec_content ` set (bm_values (tw_artifacts demo_workspace)) = set [[7]]"
    unfolding arts [symmetric] by (force simp: bm_values_def)
  then have "inj_on (sha256_hex (tn_hasher demo_twin_env)) (rec_content ` set (bm_values (tw_artifacts demo_workspace)))" by simp
  moreover have "base64_inverse (tn_base64 demo_twin_env)" using demo_base64_inverse by (simp add: demo_twin_env_def)
  moreover have "demo_workspace = fold (twin_after demo_twin_env) [CallStage ''in'' ''text'' [7] [CHR 0x07]] ?w0"
    by (simp add: demo_workspace_def)
  moreover have "seal_final_state demo_twin_env demo_workspace ''p'' =
      (Inr package, snd (seal_final_state demo_twin_env demo_workspace ''p''))" using p by (simp add: prod_eq_iff)
  ultimately have "reproduce_final_workspace demo_twin_env package = Inr \<lparr>rw_snapshot = sm_final_snapshot (sp_manifest package),
      rw_artifacts = map (\<lambda>(i, r). \<lparr>rp_metadata = metadata demo_twin_env i r, rp_content = rec_content r\<rparr>) (tw_artifacts demo_workspace)\<rparr>"
    using sealed_workspace_reproduces [OF w0] by blast
  moreover have "map rp_content (map (\<lambda>(i, r). \<lparr>rp_metadata = metadata demo_twin_env i r, rp_content = rec_content r\<rparr>)
      (tw_artifacts demo_workspace)) = [[7]]" unfolding arts [symmetric] by (auto simp: case_prod_beta)
  ultimately show ?thesis using p by (intro exI [of _ package]) simp
qed

text \<open>
  a package is reproduced only if it is consistent: the contents of every artifact have
  the digest and the size of the sealed metadata, the artifacts are those of the sealed
  snapshot in its order, the blobs are exactly the announced ones, and the snapshot digest is
  the one recomputed from the snapshot.
\<close>

lemma reproduction_is_checked:
  assumes "reproduce_final_workspace E package = Inr rw"
  shows "rw_snapshot rw = sm_final_snapshot (sp_manifest package) \<and>
    map rp_metadata (rw_artifacts rw) = ws_artifacts (rw_snapshot rw) \<and>
    (\<forall>a\<in>set (rw_artifacts rw). sha256_hex (tn_hasher E) (rp_content a) = sa_digest (rp_metadata a) \<and>
       of_nat (length (rp_content a)) = sa_size_bytes (rp_metadata a)) \<and>
    set (map bl_digest (sp_blobs package)) = set (sm_blob_digests (sp_manifest package)) \<and>
    snapshot_state_digest E (ws_workspace_id (rw_snapshot rw)) (ws_revision (rw_snapshot rw))
       (ws_environment_digest (rw_snapshot rw)) (ws_artifacts (rw_snapshot rw)) =
       Inr (ws_snapshot_digest (rw_snapshot rw))"
  using reproduce_final_workspace_ok [OF assms] by blast

end
