(* ===== verification/Simulation.thy ===== *)
theory Simulation
  imports Plan Twin
begin

text \<open>
  The operator simulation (\<^verbatim>\<open>crates/operator-simulation-runtime\<close>): it runs the
  steps of a compiled plan, in plan order, as typed operations on a twin workspace, blocks a
  step whose dependencies did not succeed or whose invocation does not match the plan, can
  inject faults, and reports step by step. The simulator mutates the workspace it is given,
  also when it ends in an error, so its result is paired with the workspace. The lemmas show
  that a simulation is a sequence of operations on the twin, what a conforming report says
  about the steps and about the artifacts, and that an injected failure is always reported.
\<close>

section \<open>Data\<close>

datatype (plugins only: code size) fault_injection =
    ForcePreconditionFailure string
  | ForcePostconditionFailure string
  | CorruptFirstWrite string

record step_invocation =
  si_step_id :: string
  si_operator_id :: string
  si_operator_version :: string
  si_operation :: typed_operation
  si_fault :: "fault_injection option"

record operator_simulation_plan =
  sim_schema_version :: string
  sim_simulation_id :: string
  sim_plan_id :: string
  sim_plan_digest :: string
  sim_invocations :: "step_invocation list"

datatype (plugins only: code size) simulated_step_status = SimSucceeded | SimRejected | SimRolledBack | SimBlocked | SimMissing

datatype (plugins only: code size) simulation_violation =
    SV_DuplicateInvocation string
  | SV_UnexpectedInvocation string
  | SV_MissingMandatoryInvocation string
  | SV_DependencyNotSucceeded string string
  | SV_InvocationOperatorMismatch string string string
  | SV_InvocationVersionMismatch string string string
  | SV_OperationOperatorMismatch string string string
  | SV_DeclaredInputMismatch string
  | SV_DeclaredOutputMismatch string
  | SV_FaultNotApplicable string
  | SV_OperationRejected string
  | SV_OperationRolledBack string

record simulation_step_report =
  sr_step_id :: string
  sr_status :: simulated_step_status
  sr_before_snapshot_digest :: string
  sr_after_snapshot_digest :: string
  sr_receipt :: "operation_receipt option"
  sr_violations :: "simulation_violation list"

record operator_simulation_report =
  osr_schema_version :: string
  osr_simulation_id :: string
  osr_plan_id :: string
  osr_plan_digest :: string
  osr_initial_snapshot_digest :: string
  osr_final_snapshot :: workspace_snapshot
  osr_steps :: "simulation_step_report list"
  osr_violations :: "simulation_violation list"
  osr_conforms_to_plan :: bool
  osr_workspace_trace_digest :: string
  osr_simulation_digest :: string

datatype (plugins only: code size) simulation_error =
    SE_UnsupportedSchemaVersion string string
  | SE_EmptyField string
  | SE_PlanIdMismatch string string
  | SE_PlanDigestMismatch
  | SE_Twin twin_runtime_error
  | SE_Serialization serde_error
  | SE_Hashing hashing_error

text \<open>The serialisations the \<^verbatim>\<open>json!\<close> macro makes of the parts of a report.\<close>

record simulation_env =
  ss_twin :: twin_env
  ss_snapshot_json :: "workspace_snapshot \<Rightarrow> json"
  ss_steps_json :: "simulation_step_report list \<Rightarrow> json"
  ss_violations_json :: "simulation_violation list \<Rightarrow> json"

section \<open>Checks\<close>

definition SIMULATION_PLAN_SCHEMA :: string where "SIMULATION_PLAN_SCHEMA = ''0.1.0''"
definition SIMULATION_REPORT_SCHEMA :: string where "SIMULATION_REPORT_SCHEMA = ''0.1.0''"

definition simulation_require_non_empty :: "string \<Rightarrow> string \<Rightarrow> simulation_error + unit" where
  "simulation_require_non_empty field v = ensure (\<not> blank v) (SE_EmptyField field)"

definition validate_simulation_binding ::
    "compiled_plan \<Rightarrow> operator_simulation_plan \<Rightarrow> simulation_error + unit" where
  "validate_simulation_binding plan simulation =
     and_then (ensure (sim_schema_version simulation = SIMULATION_PLAN_SCHEMA)
       (SE_UnsupportedSchemaVersion (sim_schema_version simulation) SIMULATION_PLAN_SCHEMA)) (\<lambda>_.
     and_then (simulation_require_non_empty ''simulation_id'' (sim_simulation_id simulation)) (\<lambda>_.
     and_then (ensure (sim_plan_id simulation = cp_plan_id plan)
       (SE_PlanIdMismatch (sim_plan_id simulation) (cp_plan_id plan))) (\<lambda>_.
     ensure (sim_plan_digest simulation = cp_plan_digest plan) SE_PlanDigestMismatch)))"

definition validate_dependencies :: "plan_step \<Rightarrow> string set \<Rightarrow> simulation_violation list" where
  "validate_dependencies step succeeded_steps =
     map (SV_DependencyNotSucceeded (ps_step_id step))
       (filter (\<lambda>dependency_id. dependency_id \<notin> succeeded_steps) (ps_depends_on step))"

definition exact_identifier_set :: "string list \<Rightarrow> string list \<Rightarrow> bool" where
  "exact_identifier_set actual expected \<longleftrightarrow>
     length actual = card (set actual) \<and> length expected = card (set expected) \<and> set actual = set expected"

definition validate_invocation :: "plan_step \<Rightarrow> step_invocation \<Rightarrow> simulation_violation list" where
  "validate_invocation step invocation =
     (if si_operator_id invocation \<noteq> ps_operator_id step
      then [SV_InvocationOperatorMismatch (ps_step_id step) (si_operator_id invocation) (ps_operator_id step)] else [])
   @ (if si_operator_version invocation \<noteq> ps_operator_version step
      then [SV_InvocationVersionMismatch (ps_step_id step) (si_operator_version invocation) (ps_operator_version step)]
      else [])
   @ (if ty_operator_id (si_operation invocation) \<noteq> ps_operator_id step
      then [SV_OperationOperatorMismatch (ps_step_id step) (ty_operator_id (si_operation invocation)) (ps_operator_id step)]
      else [])
   @ (if \<not> exact_identifier_set (ty_declared_input_ids (si_operation invocation)) (ps_input_artifact_ids step)
      then [SV_DeclaredInputMismatch (ps_step_id step)] else [])
   @ (if \<not> exact_identifier_set (ty_declared_output_ids (si_operation invocation)) (ps_output_artifact_ids step)
      then [SV_DeclaredOutputMismatch (ps_step_id step)] else [])"

text \<open>The first write command gets the replacement content, if there is one.\<close>

fun corrupt_first_write :: "string \<Rightarrow> workspace_command list \<Rightarrow> workspace_command list option" where
  "corrupt_first_write replacement [] = None"
| "corrupt_first_write replacement (WriteArtifact i role media_type content # cs) =
     Some (WriteArtifact i role media_type replacement # cs)"
| "corrupt_first_write replacement (DeleteArtifact i # cs) =
     map_option ((#) (DeleteArtifact i)) (corrupt_first_write replacement cs)"

fun apply_fault :: "typed_operation \<Rightarrow> fault_injection \<Rightarrow> typed_operation option" where
  "apply_fault operation (ForcePreconditionFailure artifact_id) =
     Some (operation\<lparr>ty_preconditions := ty_preconditions operation
       @ [ArtifactDigestEquals artifact_id ''fault-impossible-digest'']\<rparr>)"
| "apply_fault operation (ForcePostconditionFailure artifact_id) =
     Some (operation\<lparr>ty_postconditions := ty_postconditions operation
       @ [ArtifactDigestEquals artifact_id ''fault-impossible-digest'']\<rparr>)"
| "apply_fault operation (CorruptFirstWrite replacement) =
     map_option (\<lambda>commands. operation\<lparr>ty_commands := commands\<rparr>)
       (corrupt_first_write replacement (ty_commands operation))"

section \<open>The simulator\<close>

definition index_invocation ::
    "plan_step list \<Rightarrow> step_invocation \<Rightarrow> (string, step_invocation) bmap \<times> simulation_violation list \<Rightarrow>
     (string, step_invocation) bmap \<times> simulation_violation list" where
  "index_invocation steps invocation acc =
     (let (indexed, violations) = acc; step_id = si_step_id invocation in
      if step_id \<notin> ps_step_id ` set steps then (indexed, violations @ [SV_UnexpectedInvocation step_id])
      else (bm_insert step_id invocation indexed,
            violations @ (if bm_contains_key indexed step_id then [SV_DuplicateInvocation step_id] else [])))"

definition index_invocations ::
    "plan_step list \<Rightarrow> step_invocation list \<Rightarrow> (string, step_invocation) bmap \<times> simulation_violation list" where
  "index_invocations steps invocations = fold (index_invocation steps) invocations ([], [])"

record simulation_state =
  sst_workspace :: twin_workspace
  sst_violations :: "simulation_violation list"
  sst_succeeded :: "string set"
  sst_reports :: "simulation_step_report list"

definition idle_report ::
    "plan_step \<Rightarrow> simulated_step_status \<Rightarrow> workspace_snapshot \<Rightarrow> simulation_violation list \<Rightarrow>
     simulation_state \<Rightarrow> simulation_state" where
  "idle_report step status before violations S =
     S\<lparr>sst_violations := sst_violations S @ violations,
       sst_reports := sst_reports S @ [\<lparr>sr_step_id = ps_step_id step, sr_status = status,
         sr_before_snapshot_digest = ws_snapshot_digest before, sr_after_snapshot_digest = ws_snapshot_digest before,
         sr_receipt = None, sr_violations = violations\<rparr>]\<rparr>"

fun outcome_status :: "operation_outcome \<Rightarrow> simulated_step_status" where
  "outcome_status OpSucceeded = SimSucceeded"
| "outcome_status OpRejected = SimRejected"
| "outcome_status OpRolledBack = SimRolledBack"

fun outcome_violations :: "string \<Rightarrow> operation_outcome \<Rightarrow> simulation_violation list" where
  "outcome_violations step_id OpSucceeded = []"
| "outcome_violations step_id OpRejected = [SV_OperationRejected step_id]"
| "outcome_violations step_id OpRolledBack = [SV_OperationRolledBack step_id]"

definition run_operation ::
    "twin_env \<Rightarrow> plan_step \<Rightarrow> typed_operation \<Rightarrow> simulation_state \<Rightarrow> (simulation_error + unit) \<times> simulation_state" where
  "run_operation E step operation S =
     (let (res, w) = apply_operation E (sst_workspace S) operation; S1 = S\<lparr>sst_workspace := w\<rparr> in
      case res of
        Inl e \<Rightarrow> (Inl (SE_Twin e), S1)
      | Inr receipt \<Rightarrow>
          let violations = outcome_violations (ps_step_id step) (or_outcome receipt) in
          (Inr (), S1\<lparr>
             sst_succeeded := (if or_outcome receipt = OpSucceeded then insert (ps_step_id step) (sst_succeeded S)
               else sst_succeeded S),
             sst_violations := sst_violations S @ violations,
             sst_reports := sst_reports S @ [\<lparr>sr_step_id = ps_step_id step, sr_status = outcome_status (or_outcome receipt),
               sr_before_snapshot_digest = or_before_snapshot_digest receipt,
               sr_after_snapshot_digest = or_after_snapshot_digest receipt,
               sr_receipt = Some receipt, sr_violations = violations\<rparr>]\<rparr>))"

definition simulate_step ::
    "twin_env \<Rightarrow> (string, step_invocation) bmap \<Rightarrow> plan_step \<Rightarrow> simulation_state \<Rightarrow>
     (simulation_error + unit) \<times> simulation_state" where
  "simulate_step E indexed step S =
     (case current_snapshot E (sst_workspace S) of
        Inl e \<Rightarrow> (Inl (SE_Twin e), S)
      | Inr before \<Rightarrow>
          case map_of indexed (ps_step_id step) of
            None \<Rightarrow> (Inr (), idle_report step SimMissing before
              (if ps_mandatory step then [SV_MissingMandatoryInvocation (ps_step_id step)] else []) S)
          | Some invocation \<Rightarrow>
              let violations = validate_dependencies step (sst_succeeded S) @ validate_invocation step invocation in
              if violations \<noteq> [] then (Inr (), idle_report step SimBlocked before violations S)
              else case si_fault invocation of
                  None \<Rightarrow> run_operation E step (si_operation invocation) S
                | Some fault \<Rightarrow>
                    case apply_fault (si_operation invocation) fault of
                      None \<Rightarrow> (Inr (), idle_report step SimBlocked before [SV_FaultNotApplicable (ps_step_id step)] S)
                    | Some operation \<Rightarrow> run_operation E step operation S)"

fun simulate_steps ::
    "twin_env \<Rightarrow> (string, step_invocation) bmap \<Rightarrow> plan_step list \<Rightarrow> simulation_state \<Rightarrow>
     (simulation_error + unit) \<times> simulation_state" where
  "simulate_steps E indexed [] S = (Inr (), S)"
| "simulate_steps E indexed (step # steps) S =
     (case simulate_step E indexed step S of
        (Inl e, S') \<Rightarrow> (Inl e, S')
      | (Inr _, S') \<Rightarrow> simulate_steps E indexed steps S')"

definition compute_simulation_digest ::
    "simulation_env \<Rightarrow> operator_simulation_report \<Rightarrow> simulation_error + string" where
  "compute_simulation_digest E report =
     map_err SE_Hashing (canonical_json_sha256 (tn_hasher (ss_twin E)) (JObject (bm_collect [
       (''schema_version'', JString (osr_schema_version report)),
       (''simulation_id'', JString (osr_simulation_id report)),
       (''plan_id'', JString (osr_plan_id report)),
       (''plan_digest'', JString (osr_plan_digest report)),
       (''initial_snapshot_digest'', JString (osr_initial_snapshot_digest report)),
       (''final_snapshot'', ss_snapshot_json E (osr_final_snapshot report)),
       (''steps'', ss_steps_json E (osr_steps report)),
       (''violations'', ss_violations_json E (osr_violations report)),
       (''conforms_to_plan'', JBool (osr_conforms_to_plan report)),
       (''workspace_trace_digest'', JString (osr_workspace_trace_digest report))])))"

definition verify_simulation_digest ::
    "simulation_env \<Rightarrow> operator_simulation_report \<Rightarrow> simulation_error + bool" where
  "verify_simulation_digest E report =
     and_then (compute_simulation_digest E report) (\<lambda>digest. Inr (digest = osr_simulation_digest report))"

definition build_report ::
    "simulation_env \<Rightarrow> compiled_plan \<Rightarrow> operator_simulation_plan \<Rightarrow> workspace_snapshot \<Rightarrow> simulation_state \<Rightarrow>
     simulation_error + operator_simulation_report" where
  "build_report E plan simulation initial S =
     and_then (map_err SE_Twin (current_snapshot (ss_twin E) (sst_workspace S))) (\<lambda>final_snapshot.
     and_then (map_err SE_Serialization (tn_trace_value (ss_twin E) (tw_trace (sst_workspace S)))) (\<lambda>trace_value.
     and_then (map_err SE_Hashing (canonical_json_sha256 (tn_hasher (ss_twin E)) trace_value)) (\<lambda>trace_digest.
     let report = \<lparr>
       osr_schema_version = SIMULATION_REPORT_SCHEMA,
       osr_simulation_id = sim_simulation_id simulation,
       osr_plan_id = cp_plan_id plan,
       osr_plan_digest = cp_plan_digest plan,
       osr_initial_snapshot_digest = ws_snapshot_digest initial,
       osr_final_snapshot = final_snapshot,
       osr_steps = sst_reports S,
       osr_violations = sst_violations S,
       osr_conforms_to_plan = (sst_violations S = [] \<and>
         list_all (\<lambda>step. ps_step_id step \<in> sst_succeeded S) (filter ps_mandatory (cp_steps plan))),
       osr_workspace_trace_digest = trace_digest,
       osr_simulation_digest = []\<rparr> in
     and_then (compute_simulation_digest E report) (\<lambda>digest.
     Inr (report\<lparr>osr_simulation_digest := digest\<rparr>)))))"

definition simulate_operator_plan ::
    "simulation_env \<Rightarrow> twin_workspace \<Rightarrow> compiled_plan \<Rightarrow> operator_simulation_plan \<Rightarrow>
     (simulation_error + operator_simulation_report) \<times> twin_workspace" where
  "simulate_operator_plan E w plan simulation =
     (case and_then (validate_simulation_binding plan simulation) (\<lambda>_.
           map_err SE_Twin (current_snapshot (ss_twin E) w)) of
        Inl e \<Rightarrow> (Inl e, w)
      | Inr initial \<Rightarrow>
          let (indexed, violations) = index_invocations (cp_steps plan) (sim_invocations simulation);
              (res, S) = simulate_steps (ss_twin E) indexed (cp_steps plan)
                \<lparr>sst_workspace = w, sst_violations = violations, sst_succeeded = {}, sst_reports = []\<rparr>
          in (and_then res (\<lambda>_. build_report E plan simulation initial S), sst_workspace S))"

section \<open>One step\<close>

definition effective_operation :: "step_invocation \<Rightarrow> typed_operation option" where
  "effective_operation invocation =
     (case si_fault invocation of None \<Rightarrow> Some (si_operation invocation)
      | Some fault \<Rightarrow> apply_fault (si_operation invocation) fault)"

lemma idle_report_sel [simp]:
  "sst_workspace (idle_report step status before vs S) = sst_workspace S"
  "sst_succeeded (idle_report step status before vs S) = sst_succeeded S"
  "sst_violations (idle_report step status before vs S) = sst_violations S @ vs"
  by (simp_all add: idle_report_def)

lemma validate_dependencies_Nil [simp]:
  "validate_dependencies step succeeded = [] \<longleftrightarrow> set (ps_depends_on step) \<subseteq> succeeded"
  by (auto simp: validate_dependencies_def filter_empty_conv)

lemma simulate_step_cases:
  assumes "simulate_step E indexed step S = (res, S')"
  obtains (snapshot_error) e where "res = Inl e" "S' = S"
  | (missing) before where "res = Inr ()" "map_of indexed (ps_step_id step) = None"
      "S' = idle_report step SimMissing before
         (if ps_mandatory step then [SV_MissingMandatoryInvocation (ps_step_id step)] else []) S"
  | (blocked) before vs where "res = Inr ()" "vs \<noteq> []" "S' = idle_report step SimBlocked before vs S"
  | (ran) i op where "map_of indexed (ps_step_id step) = Some i" "effective_operation i = Some op"
      "set (ps_depends_on step) \<subseteq> sst_succeeded S" "validate_invocation step i = []"
      "run_operation E step op S = (res, S')"
proof (cases "current_snapshot E (sst_workspace S)")
  case (Inl e)
  then show ?thesis using assms snapshot_error by (auto simp: simulate_step_def)
next
  case (Inr before)
  note run = assms [unfolded simulate_step_def Inr]
  show ?thesis
  proof (cases "map_of indexed (ps_step_id step)")
    case None
    then show ?thesis using run missing by auto
  next
    case (Some i)
    show ?thesis
    proof (cases "set (ps_depends_on step) \<subseteq> sst_succeeded S \<and> validate_invocation step i = []")
      case False
      let ?vs = "validate_dependencies step (sst_succeeded S) @ validate_invocation step i"
      have vs: "?vs \<noteq> []" using False by auto
      with run Some have "(Inr (), idle_report step SimBlocked before ?vs S) = (res, S')"
        by (simp add: Let_def del: append_is_Nil_conv)
      then show ?thesis using blocked [OF _ vs] by auto
    next
      case True
      then show ?thesis
        using run Some blocked ran [OF Some]
        by (cases "effective_operation i") (auto simp: Let_def effective_operation_def split: option.splits)
    qed
  qed
qed

lemma run_operation_cases:
  assumes "run_operation E step op S = (res, S')"
  obtains (failed) e where "res = Inl e" "sst_workspace S' = snd (apply_operation E (sst_workspace S) op)"
      "sst_violations S' = sst_violations S"
  | (finished) receipt r where "res = Inr ()"
      "apply_operation E (sst_workspace S) op = (Inr receipt, sst_workspace S')"
      "sst_violations S' = sst_violations S @ outcome_violations (ps_step_id step) (or_outcome receipt)"
      "sst_succeeded S' = (if or_outcome receipt = OpSucceeded then insert (ps_step_id step) (sst_succeeded S)
        else sst_succeeded S)"
      "sst_reports S' = sst_reports S @ [r]" "sr_step_id r = ps_step_id step"
      "sr_status r = outcome_status (or_outcome receipt)"
  using assms by (auto simp: run_operation_def Let_def split: prod.splits sum.splits)

text \<open>A step only applies operations to the workspace and only adds violations.\<close>

lemma simulate_step_frame:
  assumes "simulate_step E indexed step S = (res, S')"
  shows "\<exists>ops. sst_workspace S' = fold (twin_after E) (map CallApply ops) (sst_workspace S)"
    and "\<exists>vs. sst_violations S' = sst_violations S @ vs"
proof -
  have "(\<exists>ops. sst_workspace S' = fold (twin_after E) (map CallApply ops) (sst_workspace S)) \<and>
    (\<exists>vs. sst_violations S' = sst_violations S @ vs)"
    using assms
  proof (cases rule: simulate_step_cases)
    case (ran i op)
    have "sst_workspace S' = snd (apply_operation E (sst_workspace S) op) \<and> (\<exists>vs. sst_violations S' = sst_violations S @ vs)"
      using ran(5) by (cases rule: run_operation_cases) auto
    then show ?thesis by (intro conjI exI [of _ "[op]"]) auto
  qed (auto intro: exI [of _ "[]"])
  then show "\<exists>ops. sst_workspace S' = fold (twin_after E) (map CallApply ops) (sst_workspace S)"
    "\<exists>vs. sst_violations S' = sst_violations S @ vs" by blast+
qed

lemma simulate_steps_frame:
  assumes "simulate_steps E indexed steps S = (res, S')"
  shows "\<exists>ops. sst_workspace S' = fold (twin_after E) (map CallApply ops) (sst_workspace S)"
    and "\<exists>vs. sst_violations S' = sst_violations S @ vs"
proof -
  have "(\<exists>ops. sst_workspace S' = fold (twin_after E) (map CallApply ops) (sst_workspace S)) \<and>
    (\<exists>vs. sst_violations S' = sst_violations S @ vs)"
    using assms
  proof (induction steps arbitrary: S)
    case Nil
    then show ?case by (auto intro: exI [of _ "[]"])
  next
    case (Cons step steps)
    obtain res1 S1 where one: "simulate_step E indexed step S = (res1, S1)" by fastforce
    obtain ops vs where first: "sst_workspace S1 = fold (twin_after E) (map CallApply ops) (sst_workspace S)"
      "sst_violations S1 = sst_violations S @ vs"
      using simulate_step_frame [OF one] by blast
    show ?case
    proof (cases res1)
      case (Inl e)
      with Cons.prems one first show ?thesis by auto
    next
      case (Inr u)
      with Cons.prems one have "simulate_steps E indexed steps S1 = (res, S')" by simp
      from Cons.IH [OF this] obtain ops' vs' where
        "sst_workspace S' = fold (twin_after E) (map CallApply ops') (sst_workspace S1)"
        "sst_violations S' = sst_violations S1 @ vs'" by blast
      then show ?thesis by (intro conjI exI [of _ "ops @ ops'"] exI [of _ "vs @ vs'"]) (simp_all add: first)
    qed
  qed
  then show "\<exists>ops. sst_workspace S' = fold (twin_after E) (map CallApply ops) (sst_workspace S)"
    "\<exists>vs. sst_violations S' = sst_violations S @ vs" by blast+
qed

section \<open>Steps without a violation\<close>

text \<open>
  The declarative reading of a plan: its invoked steps, in order, have the effects of the
  commands of their operations.
\<close>

definition step_effect ::
    "twin_env \<Rightarrow> (string \<rightharpoonup> step_invocation) \<Rightarrow> plan_step \<Rightarrow> (string \<rightharpoonup> artifact_record) \<Rightarrow> (string \<rightharpoonup> artifact_record)" where
  "step_effect E invs step m =
     (case Option.bind (invs (ps_step_id step)) effective_operation of None \<Rightarrow> m
      | Some op \<Rightarrow> fold (command_effect E) (ty_commands op) m)"

definition step_status :: "(string \<rightharpoonup> step_invocation) \<Rightarrow> plan_step \<Rightarrow> string \<times> simulated_step_status" where
  "step_status invs step = (ps_step_id step, if invs (ps_step_id step) = None then SimMissing else SimSucceeded)"

definition invocation_sound :: "twin_env \<Rightarrow> plan_step \<Rightarrow> step_invocation \<Rightarrow> bool" where
  "invocation_sound E step i \<longleftrightarrow> validate_invocation step i = [] \<and>
     (\<exists>op arts. effective_operation i = Some op \<and> operation_admissible E arts op \<and> postconditions_hold E arts op)"

lemma clean_step:
  assumes run: "simulate_step E indexed step S = (Inr (), S')" and clean: "sst_violations S' = sst_violations S"
    and wf: "twin_wf (sst_workspace S)"
  shows "twin_wf (sst_workspace S') \<and>
    map_of (tw_artifacts (sst_workspace S')) = step_effect E (map_of indexed) step (map_of (tw_artifacts (sst_workspace S))) \<and>
    map (\<lambda>r. (sr_step_id r, sr_status r)) (sst_reports S') =
      map (\<lambda>r. (sr_step_id r, sr_status r)) (sst_reports S) @ [step_status (map_of indexed) step] \<and>
    sst_succeeded S' = sst_succeeded S \<union> (if map_of indexed (ps_step_id step) = None then {} else {ps_step_id step}) \<and>
    (ps_mandatory step \<longrightarrow> map_of indexed (ps_step_id step) \<noteq> None) \<and>
    (\<forall>i. map_of indexed (ps_step_id step) = Some i \<longrightarrow>
       set (ps_depends_on step) \<subseteq> sst_succeeded S \<and> invocation_sound E step i)"
  using run
proof (cases rule: simulate_step_cases)
  case (missing before)
  with clean wf show ?thesis
    by (auto simp: idle_report_def step_effect_def step_status_def split: if_splits)
next
  case (ran i op)
  from ran(5) show ?thesis
  proof (cases rule: run_operation_cases)
    case (finished receipt r)
    have out: "or_outcome receipt = OpSucceeded" using finished(3) clean by (cases "or_outcome receipt") auto
    from finished(2) have facts: "operation_admissible E (tw_artifacts (sst_workspace S)) op"
      "postconditions_hold E (tw_artifacts (sst_workspace S)) op"
      "tw_artifacts (sst_workspace S') = operation_candidate E (tw_artifacts (sst_workspace S)) op"
      using out by (cases rule: apply_operation_cases; auto split: if_splits)+
    have "twin_wf (sst_workspace S')" using twin_after_wf [OF wf, of E "CallApply op"] finished(2) by simp
    moreover have "map_of (tw_artifacts (sst_workspace S')) =
        fold (command_effect E) (ty_commands op) (map_of (tw_artifacts (sst_workspace S)))"
      using facts wf prepare_commands_effect [of E "tw_artifacts (sst_workspace S)" op]
      by (simp add: operation_candidate_def admissible_clean twin_wf_def)
    moreover have "invocation_sound E step i"
      unfolding invocation_sound_def using ran(2,4) facts(1,2) by blast
    ultimately show ?thesis
      using finished ran(1,2,3) out by (simp add: step_effect_def step_status_def)
  qed simp
qed (use clean in simp_all)

text \<open>Dependencies before each invoked step, along the plan.\<close>

fun dependencies_met :: "(string \<rightharpoonup> step_invocation) \<Rightarrow> string set \<Rightarrow> plan_step list \<Rightarrow> bool" where
  "dependencies_met invs done_ids [] = True"
| "dependencies_met invs done_ids (step # steps) \<longleftrightarrow>
     (if invs (ps_step_id step) = None then dependencies_met invs done_ids steps
      else set (ps_depends_on step) \<subseteq> done_ids \<and> dependencies_met invs (insert (ps_step_id step) done_ids) steps)"

lemma clean_steps:
  assumes "simulate_steps E indexed steps S = (Inr (), S')" "sst_violations S' = sst_violations S"
    "twin_wf (sst_workspace S)"
  shows "map_of (tw_artifacts (sst_workspace S')) =
      fold (step_effect E (map_of indexed)) steps (map_of (tw_artifacts (sst_workspace S))) \<and>
    map (\<lambda>r. (sr_step_id r, sr_status r)) (sst_reports S') =
      map (\<lambda>r. (sr_step_id r, sr_status r)) (sst_reports S) @ map (step_status (map_of indexed)) steps \<and>
    (\<forall>step\<in>set steps. (ps_mandatory step \<longrightarrow> map_of indexed (ps_step_id step) \<noteq> None) \<and>
      (\<forall>i. map_of indexed (ps_step_id step) = Some i \<longrightarrow> invocation_sound E step i)) \<and>
    dependencies_met (map_of indexed) (sst_succeeded S) steps"
  using assms
proof (induction steps arbitrary: S)
  case (Cons step steps)
  obtain S1 where one: "simulate_step E indexed step S = (Inr (), S1)"
    and rest: "simulate_steps E indexed steps S1 = (Inr (), S')"
    using Cons.prems(1) by (auto split: prod.splits sum.splits)
  obtain vs vs' where "sst_violations S1 = sst_violations S @ vs" "sst_violations S' = sst_violations S1 @ vs'"
    using simulate_step_frame(2) [OF one] simulate_steps_frame(2) [OF rest] by blast
  with Cons.prems(2) have clean: "sst_violations S1 = sst_violations S" "sst_violations S' = sst_violations S1" by auto
  note first = clean_step [OF one clean(1) Cons.prems(3)]
  note later = Cons.IH [OF rest clean(2)]
  show ?case
    using first later by (cases "map_of indexed (ps_step_id step)") (auto simp: insert_commute)
qed simp

section \<open>The whole simulation\<close>

definition invocation_for :: "operator_simulation_plan \<Rightarrow> string \<rightharpoonup> step_invocation" where
  "invocation_for simulation = map_of (map (\<lambda>i. (si_step_id i, i)) (sim_invocations simulation))"

lemma index_invocation_violation: "\<exists>vs. snd (index_invocation steps i acc) = snd acc @ vs"
  by (simp add: index_invocation_def case_prod_unfold Let_def)

lemma index_invocation_violations:
  "\<exists>vs. snd (fold (index_invocation steps) is acc) = snd acc @ vs"
proof (induction "is" arbitrary: acc)
  case (Cons i "is")
  from Cons [of "index_invocation steps i acc"] index_invocation_violation [of steps i acc] show ?case by auto
qed simp

lemma index_invocations_clean:
  assumes "snd (fold (index_invocation steps) is (indexed, vs)) = vs"
  shows "si_step_id ` set is \<subseteq> ps_step_id ` set steps \<and> distinct (map si_step_id is) \<and>
    (\<forall>i\<in>set is. map_of indexed (si_step_id i) = None) \<and>
    map_of (fst (fold (index_invocation steps) is (indexed, vs))) =
      map_of indexed ++ map_of (map (\<lambda>i. (si_step_id i, i)) is)"
  using assms
proof (induction "is" arbitrary: indexed vs)
  case (Cons i "is")
  obtain vs1 where vs1: "snd (index_invocation steps i (indexed, vs)) = vs @ vs1"
    using index_invocation_violation [of steps i "(indexed, vs)"] by auto
  obtain vs2 where "snd (fold (index_invocation steps) is (index_invocation steps i (indexed, vs))) = vs @ vs1 @ vs2"
    using index_invocation_violations [of steps "is" "index_invocation steps i (indexed, vs)"] vs1 by auto
  with Cons.prems vs1 have step: "snd (index_invocation steps i (indexed, vs)) = vs" by simp
  then have here: "si_step_id i \<in> ps_step_id ` set steps" "map_of indexed (si_step_id i) = None"
    and next_acc: "index_invocation steps i (indexed, vs) = (bm_insert (si_step_id i) i indexed, vs)"
    by (auto simp: index_invocation_def Let_def map_of_eq_None_iff split: if_splits)
  have clean: "snd (fold (index_invocation steps) is (bm_insert (si_step_id i) i indexed, vs)) = vs"
    using Cons.prems by (simp add: next_acc)
  note rest = Cons.IH [OF clean]
  have fresh: "si_step_id j \<noteq> si_step_id i \<and> map_of indexed (si_step_id j) = None" if "j \<in> set is" for j
    using rest that by (auto split: if_splits)
  then have "map_of (map (\<lambda>i. (si_step_id i, i)) is) (si_step_id i) = None"
    by (force simp: map_of_eq_None_iff)
  from map_add_Cons_fresh [OF this, of "map_of indexed" i]
  have "map_of (fst (fold (index_invocation steps) (i # is) (indexed, vs))) =
      map_of indexed ++ map_of (map (\<lambda>i. (si_step_id i, i)) (i # is))"
    using rest by (simp only: fold_Cons comp_apply next_acc map_of_bm_insert list.map)
  moreover have "si_step_id ` set (i # is) \<subseteq> ps_step_id ` set steps" "distinct (map si_step_id (i # is))"
    "\<forall>j\<in>set (i # is). map_of indexed (si_step_id j) = None"
    using rest here fresh by auto
  ultimately show ?case by blast
qed simp

definition simulation_start ::
    "twin_workspace \<Rightarrow> simulation_violation list \<Rightarrow> simulation_state" where
  "simulation_start w vs = \<lparr>sst_workspace = w, sst_violations = vs, sst_succeeded = {}, sst_reports = []\<rparr>"

lemma simulate_operator_planE:
  assumes "simulate_operator_plan E w plan simulation = (Inr report, w')"
  obtains indexed vs initial S where
    "index_invocations (cp_steps plan) (sim_invocations simulation) = (indexed, vs)"
    "simulate_steps (ss_twin E) indexed (cp_steps plan) (simulation_start w vs) = (Inr (), S)"
    "w' = sst_workspace S" "build_report E plan simulation initial S = Inr report"
  using assms unfolding simulate_operator_plan_def
  by (auto simp: simulation_start_def Let_def result_simps split: sum.splits prod.splits)

lemma build_report_sel:
  assumes "build_report E plan simulation initial S = Inr report"
  shows "osr_steps report = sst_reports S" "osr_violations report = sst_violations S"
    "osr_conforms_to_plan report \<longleftrightarrow> sst_violations S = [] \<and>
       (\<forall>step\<in>set (cp_steps plan). ps_mandatory step \<longrightarrow> ps_step_id step \<in> sst_succeeded S)"
    "verify_simulation_digest E report = Inr True"
    "current_snapshot (ss_twin E) (sst_workspace S) = Inr (osr_final_snapshot report)"
  using assms
  by (auto simp: build_report_def result_simps Let_def list_all_iff verify_simulation_digest_def compute_simulation_digest_def)

text \<open>A report without violations, step by step.\<close>

lemma violation_free_report:
  assumes "simulate_operator_plan E w plan simulation = (Inr report, w')" "osr_violations report = []" "twin_wf w"
  shows "map (\<lambda>r. (sr_step_id r, sr_status r)) (osr_steps report) =
      map (step_status (invocation_for simulation)) (cp_steps plan)"
    and "map_of (tw_artifacts w') =
      fold (step_effect (ss_twin E) (invocation_for simulation)) (cp_steps plan) (map_of (tw_artifacts w))"
    and "\<And>step. step \<in> set (cp_steps plan) \<Longrightarrow> ps_mandatory step \<Longrightarrow> invocation_for simulation (ps_step_id step) \<noteq> None"
    and "\<And>step i. step \<in> set (cp_steps plan) \<Longrightarrow> invocation_for simulation (ps_step_id step) = Some i \<Longrightarrow>
      invocation_sound (ss_twin E) step i"
    and "dependencies_met (invocation_for simulation) {} (cp_steps plan)"
    and "si_step_id ` set (sim_invocations simulation) \<subseteq> ps_step_id ` set (cp_steps plan)"
    and "distinct (map si_step_id (sim_invocations simulation))"
proof -
  obtain indexed vs initial S where idx: "index_invocations (cp_steps plan) (sim_invocations simulation) = (indexed, vs)"
    and run: "simulate_steps (ss_twin E) indexed (cp_steps plan) (simulation_start w vs) = (Inr (), S)"
    and w': "w' = sst_workspace S" and rep: "build_report E plan simulation initial S = Inr report"
    using assms(1) by (rule simulate_operator_planE)
  obtain vs' where "sst_violations S = vs @ vs'"
    using simulate_steps_frame(2) [OF run] by (auto simp: simulation_start_def)
  then have clean: "vs = []" "sst_violations S = []" using assms(2) build_report_sel(2) [OF rep] by auto
  have "snd (fold (index_invocation (cp_steps plan)) (sim_invocations simulation) ([], [])) = []"
    using idx clean(1) by (simp add: index_invocations_def)
  note ix = index_invocations_clean [OF this]
  then have inv: "map_of indexed = invocation_for simulation"
    using idx by (simp add: index_invocations_def invocation_for_def)
  note facts = clean_steps [OF run, unfolded simulation_start_def inv, simplified, OF clean(2) [folded clean(1)] assms(3)]
  show "map (\<lambda>r. (sr_step_id r, sr_status r)) (osr_steps report) =
      map (step_status (invocation_for simulation)) (cp_steps plan)"
    "map_of (tw_artifacts w') =
      fold (step_effect (ss_twin E) (invocation_for simulation)) (cp_steps plan) (map_of (tw_artifacts w))"
    "\<And>step. step \<in> set (cp_steps plan) \<Longrightarrow> ps_mandatory step \<Longrightarrow> invocation_for simulation (ps_step_id step) \<noteq> None"
    "\<And>step i. step \<in> set (cp_steps plan) \<Longrightarrow> invocation_for simulation (ps_step_id step) = Some i \<Longrightarrow>
      invocation_sound (ss_twin E) step i"
    "dependencies_met (invocation_for simulation) {} (cp_steps plan)"
    using facts by (auto simp: w' build_report_sel [OF rep])
  show "si_step_id ` set (sim_invocations simulation) \<subseteq> ps_step_id ` set (cp_steps plan)"
    "distinct (map si_step_id (sim_invocations simulation))" using ix by simp_all
qed

section \<open>Properties\<close>

text \<open>A plan of two steps that write the same output, and simulations of its first step.\<close>

definition demo_sim_step :: "string \<Rightarrow> string list \<Rightarrow> bool \<Rightarrow> plan_step" where
  "demo_sim_step i deps mandatory = \<lparr>ps_step_id = i, ps_sequence = 0, ps_operator_id = ''f'', ps_operator_version = ''1'',
     ps_depends_on = deps, ps_input_artifact_ids = [''in''], ps_output_artifact_ids = [''out''],
     ps_capability_token_ids = [], ps_mandatory = mandatory, ps_rollback_step_id = None\<rparr>"

definition demo_sim_plan :: compiled_plan where
  "demo_sim_plan = \<lparr>cp_plan_id = ''p1'', cp_plan_digest = demo_digest, cp_contract_digest = demo_digest,
     cp_capsule_digest = demo_digest, cp_steps = [demo_sim_step ''s1'' [] True, demo_sim_step ''s2'' [''s1''] False]\<rparr>"

definition demo_simulation :: "fault_injection option \<Rightarrow> operator_simulation_plan" where
  "demo_simulation fault = \<lparr>sim_schema_version = ''0.1.0'', sim_simulation_id = ''sim'', sim_plan_id = ''p1'',
     sim_plan_digest = demo_digest, sim_invocations = [\<lparr>si_step_id = ''s1'', si_operator_id = ''f'',
       si_operator_version = ''1'', si_operation = demo_operation ''o1'' ''out'', si_fault = fault\<rparr>]\<rparr>"

definition demo_simulation_env :: simulation_env where
  "demo_simulation_env = \<lparr>ss_twin = demo_twin_env\<lparr>tn_hasher := demo_hasher\<rparr>, ss_snapshot_json = (\<lambda>_. JNull),
     ss_steps_json = (\<lambda>_. JNull), ss_violations_json = (\<lambda>_. JNull)\<rparr>"

definition demo_simulate :: "fault_injection option \<Rightarrow> (simulation_error + operator_simulation_report) \<times> twin_workspace" where
  "demo_simulate fault = simulate_operator_plan demo_simulation_env demo_workspace demo_sim_plan (demo_simulation fault)"



text \<open>
  An injected failure never goes unnoticed. If an invocation of the simulation carries a
  forced precondition or postcondition failure, a report with it never conforms to the plan,
  provided no content has the digest the fault compares with (a string of 23 characters, no
  hexadecimal SHA-256 digest).
\<close>

lemma injected_failure_is_reported:
  assumes "simulate_operator_plan E w plan simulation = (Inr report, w')" "twin_wf w"
    "i \<in> set (sim_invocations simulation)"
    "si_fault i = Some (ForcePreconditionFailure a) \<or> si_fault i = Some (ForcePostconditionFailure a)"
    "\<And>content. length (sha256_hex (tn_hasher (ss_twin E)) content) = 64"
  shows "\<not> osr_conforms_to_plan report"
proof
  assume "osr_conforms_to_plan report"
  then have clean: "osr_violations report = []"
    using assms(1) by (auto elim!: simulate_operator_planE simp: build_report_sel)
  note facts = violation_free_report [OF assms(1) clean assms(2)]
  obtain step where step: "step \<in> set (cp_steps plan)" "ps_step_id step = si_step_id i"
    using facts(6) assms(3) by (metis imageE imageI subsetD)
  have "invocation_for simulation (si_step_id i) = Some i"
    unfolding invocation_for_def using facts(7) assms(3) by (intro map_of_is_SomeI) (auto simp: comp_def)
  then have "invocation_sound (ss_twin E) step i" using facts(4) [OF step(1)] step(2) by simp
  then obtain op arts where op: "effective_operation i = Some op" "operation_admissible (ss_twin E) arts op"
    "postconditions_hold (ss_twin E) arts op" unfolding invocation_sound_def by blast
  have "\<not> condition_matches (ss_twin E) any (ArtifactDigestEquals a ''fault-impossible-digest'')" for any
  proof -
    have "length ''fault-impossible-digest'' \<noteq> 64" by simp
    then have "sha256_hex (tn_hasher (ss_twin E)) content \<noteq> ''fault-impossible-digest''" for content
      using assms(5) by metis
    then show ?thesis by (simp split: option.split)
  qed
  then show False
    using op assms(4)
    by (auto simp: effective_operation_def operation_admissible_def postconditions_hold_def simp flip: condition_matches_iff)
qed

text \<open>
  whatever the simulation plan asks for, and also when the simulation ends in an error
  half-way, an immutable artifact of the workspace is left as it was; and the digest of every
  report that is returned verifies.
\<close>

lemma simulation_preserves_inputs:
  assumes "simulate_operator_plan E w plan simulation = (res, w')" "twin_wf w"
    "map_of (tw_artifacts w) a = Some r" "rec_mutability r = Immutable"
  shows "map_of (tw_artifacts w') a = Some r \<and>
    (case res of Inl e \<Rightarrow> True | Inr report \<Rightarrow> verify_simulation_digest E report = Inr True)"
proof -
  have "\<exists>ops. w' = fold (twin_after (ss_twin E)) (map CallApply ops) w"
  proof -
    obtain indexed vs where idx: "index_invocations (cp_steps plan) (sim_invocations simulation) = (indexed, vs)" by fastforce
    obtain res' S where "simulate_steps (ss_twin E) indexed (cp_steps plan)
        \<lparr>sst_workspace = w, sst_violations = vs, sst_succeeded = {}, sst_reports = []\<rparr> = (res', S)" by fastforce
    note run = this simulate_steps_frame(1) [OF this]
    have "w' = w \<or> w' = sst_workspace S"
      using assms(1) run(1) idx by (auto simp: simulate_operator_plan_def Let_def split: sum.splits)
    then show ?thesis using run(2) by (metis fold_simps(1) list.map(1) simulation_state.select_convs(1))
  qed
  then obtain ops where "w' = fold (twin_after (ss_twin E)) (map CallApply ops) w" ..
  then have "map_of (tw_artifacts w') a = Some r"
    using twin_calls_immutable [OF assms(2) _ assms(3,4), of "map CallApply ops"] by auto
  moreover have "verify_simulation_digest E report = Inr True" if "res = Inr report" for report
    using assms(1) that by (auto elim!: simulate_operator_planE simp: build_report_sel)
  ultimately show ?thesis by (simp split: sum.split)
qed

end
