(* ===== verification/Png.thy ===== *)
theory Png
  imports Crypto
begin

text \<open>
  The PNG artifact validator (\<^verbatim>\<open>crates/png-artifact-validator-runtime\<close>): a
  byte-level inspection of the chunk structure with checksums and ordering rules, and the
  evaluation of a validation policy on its report. Bytes are \<^typ>\<open>u8\<close> values, lengths and
  checksums \<^typ>\<open>u32\<close> values; an offset into the input is a \<^typ>\<open>nat\<close>, with the checked
  additions of \<^verbatim>\<open>usize\<close> written out at 64 bits. The lemmas show that the inspector
  reads exactly the inputs that are printed from a chunk sequence that obeys the rules, that
  the loop ends, and that a checksum catches every error confined to one byte.
\<close>

section \<open>Data\<close>

datatype (plugins only: code size) png_color_type = Grayscale | Truecolor | Indexed | GrayscaleAlpha | TruecolorAlpha

datatype (plugins only: code size) png_color_profile = ProfileNone | ProfileSrgb u8 | ProfileIcc string

record png_chunk_evidence =
  pc_chunk_type :: string
  pc_length :: u32
  pc_crc32 :: string

record png_artifact_report =
  pa_schema_version :: string
  pa_artifact_digest :: string
  pa_size_bytes :: u64
  pa_width :: u32
  pa_height :: u32
  pa_bit_depth :: u8
  pa_color_type :: png_color_type
  pa_compression_method :: u8
  pa_filter_method :: u8
  pa_interlace_method :: u8
  pa_color_profile :: png_color_profile
  pa_idat_chunk_count :: u32
  pa_idat_payload_bytes :: u64
  pa_chunks :: "png_chunk_evidence list"
  pa_report_digest :: string

datatype (plugins only: code size) png_profile_requirement = NotRequired | AnyEmbedded | SrgbChunk | IccProfile string

record png_validation_policy =
  pv_expected_width :: u32
  pv_expected_height :: u32
  pv_expected_bit_depth :: "u8 option"
  pv_allowed_color_types :: "png_color_type list"
  pv_profile_requirement :: png_profile_requirement

datatype (plugins only: code size) png_policy_violation =
    WidthMismatch u32 u32
  | HeightMismatch u32 u32
  | BitDepthMismatch u8 u8
  | ColorTypeNotAllowed png_color_type
  | MissingColorProfile
  | MissingSrgbChunk
  | IccProfileNameMismatch string string
  | IccProfileRequiredButSrgbFound

record png_validation_result =
  pr_schema_version :: string
  pr_accepted :: bool
  pr_report :: png_artifact_report
  pr_policy_violations :: "png_policy_violation list"
  pr_decision_digest :: string

datatype (plugins only: code size) png_artifact_error =
    PE_FileTooLarge
  | PE_InvalidSignature
  | PE_TruncatedChunk
  | PE_InvalidChunkType
  | PE_UnknownCriticalChunk string
  | PE_CrcMismatch string
  | PE_IhdrNotFirst
  | PE_DuplicateIhdr
  | PE_InvalidIhdrLength
  | PE_InvalidDimensions
  | PE_InvalidColorType u8
  | PE_InvalidBitDepth u8 png_color_type
  | PE_InvalidCompressionMethod
  | PE_InvalidFilterMethod
  | PE_InvalidInterlaceMethod
  | PE_DuplicatePalette
  | PE_PaletteAfterImageData
  | PE_PaletteRequired
  | PE_PaletteForbidden
  | PE_NonConsecutiveImageData
  | PE_MissingImageData
  | PE_DuplicateIend
  | PE_InvalidIendLength
  | PE_MissingIend
  | PE_TrailingBytes
  | PE_ColorProfileAfterImageData
  | PE_DuplicateSrgb
  | PE_InvalidSrgbChunk
  | PE_DuplicateIcc
  | PE_InvalidIccChunk
  | PE_ConflictingColorProfiles
  | PE_InvalidPolicyDimensions
  | PE_EmptyAllowedColorTypes
  | PE_EmptyIccProfileName
  | PE_Serialization serde_error
  | PE_Hashing hashing_error

record ihdr =
  ih_width :: u32
  ih_height :: u32
  ih_bit_depth :: u8
  ih_color_type :: png_color_type
  ih_compression_method :: u8
  ih_filter_method :: u8
  ih_interlace_method :: u8

text \<open>The third-party operations: the hash and \<^verbatim>\<open>serde_json::to_value\<close> on the two reports.\<close>

record png_env =
  pn_hasher :: hasher
  pn_report_value :: "png_artifact_report \<Rightarrow> serde_error + json"
  pn_result_value :: "png_validation_result \<Rightarrow> serde_error + json"

section \<open>Bytes\<close>

definition PNG_SIGNATURE :: "u8 list" where
  "PNG_SIGNATURE = [0x89, 0x50, 0x4e, 0x47, 0x0d, 0x0a, 0x1a, 0x0a]"

definition MAX_PNG_BYTES :: nat where "MAX_PNG_BYTES = 256 * 1024 * 1024"
definition MAX_DIMENSION :: u32 where "MAX_DIMENSION = 1000000"

definition sub_slice :: "'a list \<Rightarrow> nat \<Rightarrow> nat \<Rightarrow> 'a list" where
  "sub_slice xs from to = take (to - from) (drop from xs)"

definition u32_from_be_bytes :: "u8 list \<Rightarrow> u32" where
  "u32_from_be_bytes bs = foldl (\<lambda>acc b. or (push_bit 8 acc) (ucast b)) 0 bs"

definition u32_to_be_bytes :: "u32 \<Rightarrow> u8 list" where
  "u32_to_be_bytes w = [ucast (drop_bit 24 w), ucast (drop_bit 16 w), ucast (drop_bit 8 w), ucast w]"

definition checked_add_usize :: "nat \<Rightarrow> nat \<Rightarrow> nat option" where
  "checked_add_usize a b = (if a + b < 2 ^ 64 then Some (a + b) else None)"

definition byte_char :: "u8 \<Rightarrow> char" where
  "byte_char b = char_of (unat b)"

definition ascii_uppercase :: "u8 \<Rightarrow> bool" where
  "ascii_uppercase b \<longleftrightarrow> 65 \<le> b \<and> b \<le> 90"

definition ascii_alphabetic :: "u8 \<Rightarrow> bool" where
  "ascii_alphabetic b \<longleftrightarrow> ascii_uppercase b \<or> 97 \<le> b \<and> b \<le> 122"

definition crc_shift :: "u32 \<Rightarrow> u32" where
  "crc_shift crc = xor (drop_bit 1 crc) (and 0xedb88320 (- (and crc 1)))"

definition crc_byte :: "u32 \<Rightarrow> u8 \<Rightarrow> u32" where
  "crc_byte crc byte = (crc_shift ^^ 8) (xor crc (ucast byte))"

definition crc32_pair :: "u8 list \<Rightarrow> u8 list \<Rightarrow> u32" where
  "crc32_pair left right = not (foldl crc_byte 0xffffffff (left @ right))"

text \<open>
  \<^verbatim>\<open>String::from_utf8_lossy\<close>: every maximal invalid prefix of a sequence is replaced
  by the encoding of U+FFFD.
\<close>

definition continuation :: "u8 \<Rightarrow> bool" where
  "continuation b \<longleftrightarrow> 0x80 \<le> b \<and> b \<le> 0xbf"

definition second_ok :: "u8 \<Rightarrow> u8 \<Rightarrow> bool" where
  "second_ok a b \<longleftrightarrow>
     (if 0xc2 \<le> a \<and> a \<le> 0xdf then continuation b
      else if a = 0xe0 then 0xa0 \<le> b \<and> b \<le> 0xbf
      else if a = 0xed then 0x80 \<le> b \<and> b \<le> 0x9f
      else if 0xe1 \<le> a \<and> a \<le> 0xef then continuation b
      else if a = 0xf0 then 0x90 \<le> b \<and> b \<le> 0xbf
      else if a = 0xf4 then 0x80 \<le> b \<and> b \<le> 0x8f
      else 0xf1 \<le> a \<and> a \<le> 0xf3 \<and> continuation b)"

definition char_width :: "u8 \<Rightarrow> nat" where
  "char_width a = (if a < 0x80 then 1 else if 0xc2 \<le> a \<and> a \<le> 0xdf then 2
     else if 0xe0 \<le> a \<and> a \<le> 0xef then 3 else if 0xf0 \<le> a \<and> a \<le> 0xf4 then 4 else 0)"

text \<open>The length of the sequence at the front, and whether it is a character.\<close>

definition utf8_front :: "u8 \<Rightarrow> u8 list \<Rightarrow> nat \<times> bool" where
  "utf8_front a s =
     (let next = (\<lambda>n. if n < length s then s ! n else 0) in
      if char_width a = 1 then (1, True)
      else if char_width a = 0 \<or> \<not> second_ok a (next 0) then (1, False)
      else if char_width a = 2 then (2, True)
      else if \<not> continuation (next 1) then (2, False)
      else if char_width a = 3 then (3, True)
      else if \<not> continuation (next 2) then (3, False)
      else (4, True))"

lemma utf8_front_pos: "utf8_front a s = (n, ok) \<Longrightarrow> 0 < n"
  by (auto simp: utf8_front_def Let_def split: if_splits)

function utf8_lossy :: "u8 list \<Rightarrow> u8 list" where
  "utf8_lossy [] = []"
| "utf8_lossy (a # s) =
     (case utf8_front a s of (n, ok) \<Rightarrow>
        (if ok then take n (a # s) else [0xef, 0xbf, 0xbd]) @ utf8_lossy (drop (n - 1) s))"
  by pat_completeness auto
termination by (relation "measure length") (auto dest: utf8_front_pos)

section \<open>Chunks\<close>

fun color_type_from_byte :: "u8 \<Rightarrow> png_artifact_error + png_color_type" where
  "color_type_from_byte v =
     (if v = 0 then Inr Grayscale else if v = 2 then Inr Truecolor else if v = 3 then Inr Indexed
      else if v = 4 then Inr GrayscaleAlpha else if v = 6 then Inr TruecolorAlpha
      else Inl (PE_InvalidColorType v))"

fun valid_bit_depth :: "u8 \<Rightarrow> png_color_type \<Rightarrow> bool" where
  "valid_bit_depth d Grayscale \<longleftrightarrow> d \<in> {1, 2, 4, 8, 16}"
| "valid_bit_depth d Indexed \<longleftrightarrow> d \<in> {1, 2, 4, 8}"
| "valid_bit_depth d _ \<longleftrightarrow> d \<in> {8, 16}"

definition parse_ihdr :: "u8 list \<Rightarrow> png_artifact_error + ihdr" where
  "parse_ihdr data =
     and_then (ensure (length data = 13) PE_InvalidIhdrLength) (\<lambda>_.
     let width = u32_from_be_bytes (sub_slice data 0 4); height = u32_from_be_bytes (sub_slice data 4 8) in
     and_then (ensure (\<not> (width = 0 \<or> height = 0 \<or> width > MAX_DIMENSION \<or> height > MAX_DIMENSION))
       PE_InvalidDimensions) (\<lambda>_.
     let bit_depth = data ! 8 in
     and_then (color_type_from_byte (data ! 9)) (\<lambda>color_type.
     and_then (ensure (valid_bit_depth bit_depth color_type) (PE_InvalidBitDepth bit_depth color_type)) (\<lambda>_.
     and_then (ensure (data ! 10 = 0) PE_InvalidCompressionMethod) (\<lambda>_.
     and_then (ensure (data ! 11 = 0) PE_InvalidFilterMethod) (\<lambda>_.
     and_then (ensure (\<not> data ! 12 > 1) PE_InvalidInterlaceMethod) (\<lambda>_.
     Inr \<lparr>ih_width = width, ih_height = height, ih_bit_depth = bit_depth, ih_color_type = color_type,
       ih_compression_method = data ! 10, ih_filter_method = data ! 11,
       ih_interlace_method = data ! 12\<rparr>)))))))"

fun position :: "('a \<Rightarrow> bool) \<Rightarrow> 'a list \<Rightarrow> nat option" where
  "position P [] = None"
| "position P (x # xs) = (if P x then Some 0 else map_option Suc (position P xs))"

definition parse_iccp_name :: "u8 list \<Rightarrow> png_artifact_error + string" where
  "parse_iccp_name data =
     and_then (ok_or (position (\<lambda>b. b = 0) data) PE_InvalidIccChunk) (\<lambda>separator.
     and_then (ensure (\<not> (\<not> (1 \<le> separator \<and> separator \<le> 79) \<or> length data \<le> separator + 2)) PE_InvalidIccChunk) (\<lambda>_.
     let name_bytes = take separator data in
     and_then (ensure (\<not> list_ex (\<lambda>b. b < 32 \<or> 127 \<le> b \<and> b \<le> 160) name_bytes) PE_InvalidIccChunk) (\<lambda>_.
     and_then (ensure (\<not> (data ! (separator + 1) \<noteq> 0 \<or> drop (separator + 2) data = [])) PE_InvalidIccChunk) (\<lambda>_.
     Inr (map byte_char (utf8_lossy name_bytes))))))"

definition is_unknown_critical :: "string \<Rightarrow> bool" where
  "is_unknown_critical chunk_type \<longleftrightarrow>
     chunk_type \<notin> {''IHDR'', ''PLTE'', ''IDAT'', ''IEND''} \<and>
     (case chunk_type of [] \<Rightarrow> False | c # _ \<Rightarrow> ascii_uppercase (char_byte c))"

section \<open>Inspection\<close>

record png_chunk =
  ch_type :: "u8 list"
  ch_data :: "u8 list"
  ch_length :: u32
  ch_crc :: u32

text \<open>The chunk at an offset and the offset behind it.\<close>

definition read_chunk :: "u8 list \<Rightarrow> nat \<Rightarrow> png_artifact_error + png_chunk \<times> nat" where
  "read_chunk bytes offset =
     and_then (ensure (\<not> length bytes - offset < 12) PE_TruncatedChunk) (\<lambda>_.
     let len = u32_from_be_bytes (sub_slice bytes offset (offset + 4)); data_start = offset + 8 in
     and_then (ok_or (checked_add_usize data_start (unat len)) PE_TruncatedChunk) (\<lambda>data_end.
     and_then (ok_or (checked_add_usize data_end 4) PE_TruncatedChunk) (\<lambda>chunk_end.
     and_then (ensure (\<not> chunk_end > length bytes) PE_TruncatedChunk) (\<lambda>_.
     let chunk_type = sub_slice bytes (offset + 4) (offset + 8) in
     and_then (ensure (list_all ascii_alphabetic chunk_type) PE_InvalidChunkType) (\<lambda>_.
     let data = sub_slice bytes data_start data_end;
         expected_crc = u32_from_be_bytes (sub_slice bytes data_end chunk_end) in
     and_then (ensure (\<not> expected_crc \<noteq> crc32_pair chunk_type data) (PE_CrcMismatch (map byte_char chunk_type))) (\<lambda>_.
     Inr (\<lparr>ch_type = chunk_type, ch_data = data, ch_length = len, ch_crc = expected_crc\<rparr>, chunk_end)))))))"

record inspection =
  is_chunks :: "png_chunk_evidence list"
  is_ihdr :: "ihdr option"
  is_palette_seen :: bool
  is_idat_started :: bool
  is_idat_closed :: bool
  is_idat_chunk_count :: u32
  is_idat_payload_bytes :: u64
  is_iend_seen :: bool
  is_srgb_intent :: "u8 option"
  is_icc_profile_name :: "string option"

definition inspection_start :: inspection where
  "inspection_start = \<lparr>is_chunks = [], is_ihdr = None, is_palette_seen = False, is_idat_started = False,
     is_idat_closed = False, is_idat_chunk_count = 0, is_idat_payload_bytes = 0, is_iend_seen = False,
     is_srgb_intent = None, is_icc_profile_name = None\<rparr>"

definition match_chunk :: "inspection \<Rightarrow> png_chunk \<Rightarrow> png_artifact_error + inspection" where
  "match_chunk st c =
     (let kind = map byte_char (ch_type c); data = ch_data c in
      if kind = ''IHDR'' then
        and_then (ensure (is_ihdr st = None) PE_DuplicateIhdr) (\<lambda>_.
        and_then (parse_ihdr data) (\<lambda>header. Inr (st\<lparr>is_ihdr := Some header\<rparr>)))
      else if kind = ''PLTE'' then
        and_then (ensure (\<not> is_palette_seen st) PE_DuplicatePalette) (\<lambda>_.
        and_then (ensure (\<not> is_idat_started st) PE_PaletteAfterImageData) (\<lambda>_.
        Inr (st\<lparr>is_palette_seen := True\<rparr>)))
      else if kind = ''IDAT'' then
        and_then (ensure (\<not> is_idat_closed st) PE_NonConsecutiveImageData) (\<lambda>_.
        Inr (st\<lparr>is_idat_started := True, is_idat_chunk_count := saturating_add (is_idat_chunk_count st) 1,
          is_idat_payload_bytes := saturating_add (is_idat_payload_bytes st) (ucast (ch_length c))\<rparr>))
      else if kind = ''IEND'' then
        and_then (ensure (\<not> is_iend_seen st) PE_DuplicateIend) (\<lambda>_.
        and_then (ensure (ch_length c = 0) PE_InvalidIendLength) (\<lambda>_.
        Inr (st\<lparr>is_iend_seen := True\<rparr>)))
      else if kind = ''sRGB'' then
        and_then (ensure (\<not> (is_palette_seen st \<or> is_idat_started st)) PE_ColorProfileAfterImageData) (\<lambda>_.
        and_then (ensure (is_srgb_intent st = None) PE_DuplicateSrgb) (\<lambda>_.
        and_then (ensure (\<not> (length data \<noteq> 1 \<or> data ! 0 > 3)) PE_InvalidSrgbChunk) (\<lambda>_.
        Inr (st\<lparr>is_srgb_intent := Some (data ! 0)\<rparr>))))
      else if kind = ''iCCP'' then
        and_then (ensure (\<not> (is_palette_seen st \<or> is_idat_started st)) PE_ColorProfileAfterImageData) (\<lambda>_.
        and_then (ensure (is_icc_profile_name st = None) PE_DuplicateIcc) (\<lambda>_.
        and_then (parse_iccp_name data) (\<lambda>name. Inr (st\<lparr>is_icc_profile_name := Some name\<rparr>))))
      else Inr (if is_idat_started st then st\<lparr>is_idat_closed := True\<rparr> else st))"

definition chunk_evidence :: "png_chunk \<Rightarrow> png_chunk_evidence" where
  "chunk_evidence c = \<lparr>pc_chunk_type = map byte_char (ch_type c), pc_length = ch_length c,
     pc_crc32 = encode_hex (u32_to_be_bytes (ch_crc c))\<rparr>"

definition register_chunk :: "inspection \<Rightarrow> png_chunk \<Rightarrow> png_artifact_error + inspection" where
  "register_chunk st c =
     (let kind = map byte_char (ch_type c) in
      and_then (ensure (\<not> (is_chunks st = [] \<and> kind \<noteq> ''IHDR'')) PE_IhdrNotFirst) (\<lambda>_.
      and_then (ensure (\<not> is_unknown_critical kind) (PE_UnknownCriticalChunk kind)) (\<lambda>_.
      and_then (match_chunk st c) (\<lambda>st'.
      Inr (st'\<lparr>is_chunks := is_chunks st' @ [chunk_evidence c]\<rparr>)))))"

lemma and_then_cong [fundef_cong]:
  "m = n \<Longrightarrow> (\<And>x. n = Inr x \<Longrightarrow> f x = g x) \<Longrightarrow> and_then m f = and_then n g"
  by (cases n) auto

lemma read_chunk_ok:
  assumes "read_chunk bytes offset = Inr (c, chunk_end)"
  shows "chunk_end = offset + 12 + unat (ch_length c)" "chunk_end \<le> length bytes"
  using assms by (auto simp: read_chunk_def result_simps Let_def checked_add_usize_def split: if_splits)

function inspect_chunks :: "u8 list \<Rightarrow> nat \<Rightarrow> inspection \<Rightarrow> png_artifact_error + inspection" where
  "inspect_chunks bytes offset st =
     (if offset < length bytes then
        and_then (read_chunk bytes offset) (\<lambda>(c, chunk_end).
        and_then (register_chunk st c) (\<lambda>st'.
          if map byte_char (ch_type c) = ''IEND'' then
            (if chunk_end \<noteq> length bytes then Inl PE_TrailingBytes else Inr st')
          else inspect_chunks bytes chunk_end st'))
      else Inr st)"
  by pat_completeness auto
termination
  by (relation "measure (\<lambda>(bytes, offset, _). length bytes - offset)") (auto dest: read_chunk_ok)

declare inspect_chunks.simps [simp del]

definition without_field :: "string \<Rightarrow> string \<Rightarrow> json \<Rightarrow> serde_error + json" where
  "without_field field message v =
     (case v of JObject object \<Rightarrow> Inr (JObject (bm_insert field (JString []) object)) | _ \<Rightarrow> Inl message)"

definition png_report_digest :: "png_env \<Rightarrow> png_artifact_report \<Rightarrow> png_artifact_error + string" where
  "png_report_digest E report =
     and_then (map_err PE_Serialization (pn_report_value E report)) (\<lambda>v.
     and_then (map_err PE_Serialization (without_field ''report_digest'' ''report is not an object'' v)) (\<lambda>v'.
     map_err PE_Hashing (canonical_json_sha256 (pn_hasher E) v')))"

definition palette_check :: "png_color_type \<Rightarrow> bool \<Rightarrow> png_artifact_error + unit" where
  "palette_check color_type palette_seen =
     (if color_type = Indexed \<and> \<not> palette_seen then Inl PE_PaletteRequired
      else if color_type \<in> {Grayscale, GrayscaleAlpha} \<and> palette_seen then Inl PE_PaletteForbidden
      else Inr ())"

definition color_profile_of :: "u8 option \<Rightarrow> string option \<Rightarrow> png_artifact_error + png_color_profile" where
  "color_profile_of srgb icc =
     (case (srgb, icc) of
        (Some intent, None) \<Rightarrow> Inr (ProfileSrgb intent)
      | (None, Some name) \<Rightarrow> Inr (ProfileIcc name)
      | (None, None) \<Rightarrow> Inr ProfileNone
      | (Some _, Some _) \<Rightarrow> Inl PE_ConflictingColorProfiles)"

definition finish_inspection ::
    "png_env \<Rightarrow> u8 list \<Rightarrow> inspection \<Rightarrow> png_artifact_error + png_artifact_report" where
  "finish_inspection E bytes st =
     and_then (ensure (is_iend_seen st) PE_MissingIend) (\<lambda>_.
     and_then (ensure (\<not> (\<not> is_idat_started st \<or> is_idat_payload_bytes st = 0)) PE_MissingImageData) (\<lambda>_.
     and_then (ok_or (is_ihdr st) PE_IhdrNotFirst) (\<lambda>header.
     and_then (palette_check (ih_color_type header) (is_palette_seen st)) (\<lambda>_.
     and_then (color_profile_of (is_srgb_intent st) (is_icc_profile_name st)) (\<lambda>profile.
     let report = \<lparr>
       pa_schema_version = ''0.1.0'',
       pa_artifact_digest = sha256_hex (pn_hasher E) bytes,
       pa_size_bytes = of_nat (length bytes),
       pa_width = ih_width header,
       pa_height = ih_height header,
       pa_bit_depth = ih_bit_depth header,
       pa_color_type = ih_color_type header,
       pa_compression_method = ih_compression_method header,
       pa_filter_method = ih_filter_method header,
       pa_interlace_method = ih_interlace_method header,
       pa_color_profile = profile,
       pa_idat_chunk_count = is_idat_chunk_count st,
       pa_idat_payload_bytes = is_idat_payload_bytes st,
       pa_chunks = is_chunks st,
       pa_report_digest = []\<rparr> in
     and_then (png_report_digest E report) (\<lambda>digest. Inr (report\<lparr>pa_report_digest := digest\<rparr>)))))))"

definition inspect_png_bytes :: "png_env \<Rightarrow> u8 list \<Rightarrow> png_artifact_error + png_artifact_report" where
  "inspect_png_bytes E bytes =
     and_then (ensure (\<not> length bytes > MAX_PNG_BYTES) PE_FileTooLarge) (\<lambda>_.
     and_then (ensure (\<not> (length bytes < length PNG_SIGNATURE \<or> take (length PNG_SIGNATURE) bytes \<noteq> PNG_SIGNATURE))
       PE_InvalidSignature) (\<lambda>_.
     and_then (inspect_chunks bytes (length PNG_SIGNATURE) inspection_start) (\<lambda>st.
     finish_inspection E bytes st)))"

section \<open>The policy\<close>

definition png_validate_policy :: "png_validation_policy \<Rightarrow> png_artifact_error + unit" where
  "png_validate_policy policy =
     and_then (ensure (\<not> (pv_expected_width policy = 0 \<or> pv_expected_height policy = 0
         \<or> pv_expected_width policy > MAX_DIMENSION \<or> pv_expected_height policy > MAX_DIMENSION))
       PE_InvalidPolicyDimensions) (\<lambda>_.
     and_then (ensure (pv_allowed_color_types policy \<noteq> []) PE_EmptyAllowedColorTypes) (\<lambda>_.
     case pv_profile_requirement policy of
       IccProfile name \<Rightarrow> ensure (\<not> blank name) PE_EmptyIccProfileName
     | _ \<Rightarrow> Inr ()))"

fun evaluate_profile_requirement :: "png_color_profile \<Rightarrow> png_profile_requirement \<Rightarrow> png_policy_violation list" where
  "evaluate_profile_requirement evidence NotRequired = []"
| "evaluate_profile_requirement evidence AnyEmbedded = (if evidence = ProfileNone then [MissingColorProfile] else [])"
| "evaluate_profile_requirement evidence SrgbChunk =
     (case evidence of ProfileSrgb _ \<Rightarrow> [] | _ \<Rightarrow> [MissingSrgbChunk])"
| "evaluate_profile_requirement evidence (IccProfile name) =
     (case evidence of
        ProfileIcc actual \<Rightarrow> if actual = name then [] else [IccProfileNameMismatch name actual]
      | ProfileSrgb _ \<Rightarrow> [IccProfileRequiredButSrgbFound]
      | ProfileNone \<Rightarrow> [MissingColorProfile])"

definition policy_violations :: "png_artifact_report \<Rightarrow> png_validation_policy \<Rightarrow> png_policy_violation list" where
  "policy_violations report policy =
     (if pa_width report \<noteq> pv_expected_width policy
      then [WidthMismatch (pv_expected_width policy) (pa_width report)] else [])
   @ (if pa_height report \<noteq> pv_expected_height policy
      then [HeightMismatch (pv_expected_height policy) (pa_height report)] else [])
   @ (case pv_expected_bit_depth policy of
        Some expected \<Rightarrow> if pa_bit_depth report \<noteq> expected then [BitDepthMismatch expected (pa_bit_depth report)] else []
      | None \<Rightarrow> [])
   @ (if pa_color_type report \<notin> set (pv_allowed_color_types policy)
      then [ColorTypeNotAllowed (pa_color_type report)] else [])
   @ evaluate_profile_requirement (pa_color_profile report) (pv_profile_requirement policy)"

definition validation_digest :: "png_env \<Rightarrow> png_validation_result \<Rightarrow> png_artifact_error + string" where
  "validation_digest E result =
     and_then (map_err PE_Serialization (pn_result_value E result)) (\<lambda>v.
     and_then (map_err PE_Serialization (without_field ''decision_digest'' ''result is not an object'' v)) (\<lambda>v'.
     map_err PE_Hashing (canonical_json_sha256 (pn_hasher E) v')))"

definition validate_report ::
    "png_env \<Rightarrow> png_artifact_report \<Rightarrow> png_validation_policy \<Rightarrow> png_artifact_error + png_validation_result" where
  "validate_report E report policy =
     and_then (png_validate_policy policy) (\<lambda>_.
     let violations = policy_violations report policy;
         result = \<lparr>pr_schema_version = ''0.1.0'', pr_accepted = (violations = []), pr_report = report,
           pr_policy_violations = violations, pr_decision_digest = []\<rparr> in
     and_then (validation_digest E result) (\<lambda>digest. Inr (result\<lparr>pr_decision_digest := digest\<rparr>)))"

section \<open>Big-endian words\<close>

lemma u32_be_bytes_4: "length (u32_to_be_bytes w) = 4"
  by (simp add: u32_to_be_bytes_def)

lemma u32_from_to_be_bytes [simp]: "u32_from_be_bytes (u32_to_be_bytes w) = w"
proof (rule bit_word_eqI)
  fix n
  assume "n < LENGTH(32)"
  then have n: "n < 32" by simp
  consider "n < 8" | k where "n = k + 8" "k < 8" | k where "n = k + 16" "k < 8" | k where "n = k + 24" "k < 8"
  proof -
    have "n < 8 \<or> n = (n - 8) + 8 \<and> n - 8 < 8 \<or> n = (n - 16) + 16 \<and> n - 16 < 8 \<or> n = (n - 24) + 24 \<and> n - 24 < 8"
      using n by linarith
    then show ?thesis using that by blast
  qed
  then show "bit (u32_from_be_bytes (u32_to_be_bytes w)) n = bit w n"
    by cases (auto simp: u32_from_be_bytes_def u32_to_be_bytes_def bit_simps add.commute)
qed

lemma u32_to_from_be_bytes: "u32_to_be_bytes (u32_from_be_bytes [a, b, c, d]) = [a, b, c, d]"
proof -
  have "ucast (drop_bit 24 (u32_from_be_bytes [a, b, c, d])) = a"
    "ucast (drop_bit 16 (u32_from_be_bytes [a, b, c, d])) = b"
    "ucast (drop_bit 8 (u32_from_be_bytes [a, b, c, d])) = c"
    "ucast (u32_from_be_bytes [a, b, c, d]) = d"
    by (rule bit_word_eqI, auto simp: u32_from_be_bytes_def bit_simps dest: bit_imp_le_length; fail)+
  then show ?thesis by (simp add: u32_to_be_bytes_def)
qed

section \<open>Printing chunks\<close>

definition chunk_of :: "u8 list \<Rightarrow> u8 list \<Rightarrow> png_chunk" where
  "chunk_of t d = \<lparr>ch_type = t, ch_data = d, ch_length = of_nat (length d), ch_crc = crc32_pair t d\<rparr>"

definition chunk_bytes :: "png_chunk \<Rightarrow> u8 list" where
  "chunk_bytes c = u32_to_be_bytes (ch_length c) @ ch_type c @ ch_data c @ u32_to_be_bytes (ch_crc c)"

text \<open>A chunk as the format has it: a name of four letters, a length of 32 bits, its checksum.\<close>

definition chunk_wf :: "png_chunk \<Rightarrow> bool" where
  "chunk_wf c \<longleftrightarrow> length (ch_type c) = 4 \<and> list_all ascii_alphabetic (ch_type c) \<and>
     length (ch_data c) < 2 ^ 32 \<and> c = chunk_of (ch_type c) (ch_data c)"

lemma chunk_of_sel [simp]:
  "ch_type (chunk_of t d) = t" "ch_data (chunk_of t d) = d" "ch_length (chunk_of t d) = of_nat (length d)"
  "ch_crc (chunk_of t d) = crc32_pair t d"
  by (simp_all add: chunk_of_def)

lemma chunk_wf_length:
  assumes "chunk_wf c"
  shows "unat (ch_length c) = length (ch_data c)" "length (chunk_bytes c) = 12 + length (ch_data c)"
proof -
  have c: "c = chunk_of (ch_type c) (ch_data c)" and t: "length (ch_type c) = 4" and d: "length (ch_data c) < 2 ^ 32"
    using assms by (auto simp: chunk_wf_def)
  have "ch_length c = of_nat (length (ch_data c))" using arg_cong [OF c, of ch_length] by simp
  then show len: "unat (ch_length c) = length (ch_data c)" using d by (simp add: unat_of_nat)
  show "length (chunk_bytes c) = 12 + length (ch_data c)" using t by (simp add: chunk_bytes_def u32_be_bytes_4)
qed

lemma slice_append: "length a = from \<Longrightarrow> to = from + length b \<Longrightarrow> sub_slice (a @ b @ c) from to = b"
  by (simp add: sub_slice_def)

lemma slice_slice_append: "from \<le> mid \<Longrightarrow> mid \<le> to \<Longrightarrow> sub_slice xs from mid @ sub_slice xs mid to = sub_slice xs from to"
proof -
  assume "from \<le> mid" "mid \<le> to"
  then have "to - from = (mid - from) + (to - mid)" "mid = from + (mid - from)" by simp_all
  then show ?thesis by (metis sub_slice_def take_add drop_drop add.commute)
qed

lemma length_slice [simp]: "to \<le> length xs \<Longrightarrow> length (sub_slice xs from to) = to - from"
  by (simp add: sub_slice_def)

lemma u32_bytes_of_slice: "length bs = 4 \<Longrightarrow> u32_to_be_bytes (u32_from_be_bytes bs) = bs"
  using u32_to_from_be_bytes by (auto simp: numeral_eq_Suc length_Suc_conv)

lemma usize_add [simp]: "a + b < 2 ^ 64 \<Longrightarrow> checked_add_usize a b = Some (a + b)"
  by (simp add: checked_add_usize_def)

lemma drop_take_drop: "from \<le> to \<Longrightarrow> take (to - from) (drop from xs) @ drop to xs = drop from xs"
  by (metis append_take_drop_id drop_drop le_add_diff_inverse2)

text \<open>The reader at a printed chunk, and what it read.\<close>

lemma read_printed_chunk:
  assumes wf: "chunk_wf c" and small: "length (pre @ chunk_bytes c @ post) < 2 ^ 64"
  shows "read_chunk (pre @ chunk_bytes c @ post) (length pre) = Inr (c, length pre + length (chunk_bytes c))"
proof -
  let ?bytes = "pre @ chunk_bytes c @ post" and ?o = "length pre" and ?n = "length (ch_data c)"
  note len = chunk_wf_length [OF wf]
  have c: "c = chunk_of (ch_type c) (ch_data c)" and t: "length (ch_type c) = 4" "list_all ascii_alphabetic (ch_type c)"
    using wf by (auto simp: chunk_wf_def)
  have s1: "sub_slice ?bytes ?o (?o + 4) = u32_to_be_bytes (ch_length c)"
    using slice_append [of pre ?o "?o + 4" "u32_to_be_bytes (ch_length c)"] by (simp add: chunk_bytes_def u32_be_bytes_4)
  have s2: "sub_slice ?bytes (?o + 4) (?o + 8) = ch_type c"
    using slice_append [of "pre @ u32_to_be_bytes (ch_length c)" "?o + 4" "?o + 8" "ch_type c"] t(1)
    by (simp add: chunk_bytes_def u32_be_bytes_4)
  have s3: "sub_slice ?bytes (?o + 8) (?o + 8 + ?n) = ch_data c"
    using slice_append [of "pre @ u32_to_be_bytes (ch_length c) @ ch_type c" "?o + 8" "?o + 8 + ?n" "ch_data c"] t(1)
    by (simp add: chunk_bytes_def u32_be_bytes_4)
  have s4: "sub_slice ?bytes (?o + 8 + ?n) (?o + 8 + ?n + 4) = u32_to_be_bytes (ch_crc c)"
    using slice_append [of "pre @ u32_to_be_bytes (ch_length c) @ ch_type c @ ch_data c" "?o + 8 + ?n"
        "?o + 8 + ?n + 4" "u32_to_be_bytes (ch_crc c)"] t(1)
    by (simp add: chunk_bytes_def u32_be_bytes_4)
  then have s5: "sub_slice ?bytes (?o + 8 + ?n) (12 + (?o + ?n)) = u32_to_be_bytes (ch_crc c)"
    by (simp add: add.commute add.left_commute)
  have crc: "ch_crc c = crc32_pair (ch_type c) (ch_data c)" using arg_cong [OF c, of ch_crc] by simp
  have eq: "\<lparr>ch_type = ch_type c, ch_data = ch_data c, ch_length = ch_length c, ch_crc = ch_crc c\<rparr> = c" by simp
  have fits: "?o + 8 + ?n < 2 ^ 64" "?o + 8 + ?n + 4 < 2 ^ 64" using small len(2) by auto
  have "read_chunk ?bytes ?o = Inr (\<lparr>ch_type = ch_type c, ch_data = ch_data c, ch_length = ch_length c,
      ch_crc = ch_crc c\<rparr>, ?o + 8 + ?n + 4)"
    unfolding read_chunk_def using t(2) crc len fits
    by (simp add: s1 s2 s3 s4 s5 Let_def)
  then show ?thesis by (simp add: len(2) eq)
qed

lemma read_chunk_printed:
  assumes "read_chunk bytes offset = Inr (c, chunk_end)"
  shows "chunk_wf c" "drop offset bytes = chunk_bytes c @ drop chunk_end bytes" "chunk_end \<le> length bytes"
    "offset < chunk_end"
proof -
  note ok = read_chunk_ok [OF assms]
  from assms have parts: "ch_length c = u32_from_be_bytes (sub_slice bytes offset (offset + 4))"
    "ch_type c = sub_slice bytes (offset + 4) (offset + 8)" "list_all ascii_alphabetic (ch_type c)"
    "ch_data c = sub_slice bytes (offset + 8) (offset + 8 + unat (ch_length c))"
    "ch_crc c = u32_from_be_bytes (sub_slice bytes (offset + 8 + unat (ch_length c)) chunk_end)"
    "ch_crc c = crc32_pair (ch_type c) (ch_data c)"
    by (auto simp: read_chunk_def result_simps Let_def checked_add_usize_def split: if_splits)
  show bounds: "chunk_end \<le> length bytes" "offset < chunk_end" using ok by simp_all
  have lens: "length (ch_type c) = 4" "length (ch_data c) = unat (ch_length c)" using ok by (auto simp: parts(2,4))
  have small: "unat (ch_length c) < 2 ^ 32" using unsigned_less [of "ch_length c"] by simp
  have "c = chunk_of (ch_type c) (ch_data c)" unfolding chunk_of_def lens(2) parts(6) [symmetric] by simp
  then show "chunk_wf c" using lens parts(3) small by (simp add: chunk_wf_def)
  have "u32_to_be_bytes (ch_length c) = sub_slice bytes offset (offset + 4)"
    unfolding parts(1) by (rule u32_bytes_of_slice) (use ok in simp)
  moreover have "u32_to_be_bytes (ch_crc c) = sub_slice bytes (offset + 8 + unat (ch_length c)) chunk_end"
    unfolding parts(5) by (rule u32_bytes_of_slice) (use ok in simp)
  ultimately have "chunk_bytes c = sub_slice bytes offset chunk_end"
    using ok unfolding chunk_bytes_def by (simp add: parts(2,4) slice_slice_append)
  then show "drop offset bytes = chunk_bytes c @ drop chunk_end bytes"
    using drop_take_drop [of offset chunk_end bytes] ok(1) by (simp add: sub_slice_def)
qed

section \<open>Inspection of a chunk sequence\<close>

abbreviation chunk_kind :: "png_chunk \<Rightarrow> string" where
  "chunk_kind c \<equiv> map byte_char (ch_type c)"

fun run_chunks :: "png_chunk list \<Rightarrow> inspection \<Rightarrow> png_artifact_error + inspection" where
  "run_chunks [] st = Inr st"
| "run_chunks (c # cs) st =
     and_then (register_chunk st c) (\<lambda>st'.
       if chunk_kind c = ''IEND'' then (if cs \<noteq> [] then Inl PE_TrailingBytes else Inr st')
       else run_chunks cs st')"

definition png_bytes :: "png_chunk list \<Rightarrow> u8 list" where
  "png_bytes cs = PNG_SIGNATURE @ concat (map chunk_bytes cs)"

lemma concat_chunks_Nil: "\<forall>c\<in>set cs. chunk_wf c \<Longrightarrow> concat (map chunk_bytes cs) = [] \<longleftrightarrow> cs = []"
  by (cases cs) (auto dest: chunk_wf_length(2))

lemma inspect_printed_chunks:
  assumes "\<forall>c\<in>set cs. chunk_wf c" "length (pre @ concat (map chunk_bytes cs)) < 2 ^ 64"
  shows "inspect_chunks (pre @ concat (map chunk_bytes cs)) (length pre) st = run_chunks cs st"
  using assms
proof (induction cs arbitrary: pre st)
  case Nil
  then show ?case by (simp add: inspect_chunks.simps)
next
  case (Cons c cs)
  let ?rest = "concat (map chunk_bytes cs)"
  have wf: "chunk_wf c" and rest_wf: "\<forall>c\<in>set cs. chunk_wf c" using Cons.prems by simp_all
  have read: "read_chunk (pre @ chunk_bytes c @ ?rest) (length pre) = Inr (c, length pre + length (chunk_bytes c))"
    using wf Cons.prems by (intro read_printed_chunk) simp_all
  have IH: "inspect_chunks (pre @ chunk_bytes c @ ?rest) (length pre + length (chunk_bytes c)) st' = run_chunks cs st'" for st'
    using Cons.IH [OF rest_wf, of "pre @ chunk_bytes c" st'] Cons.prems by simp
  have "0 < length (chunk_bytes c)" using chunk_wf_length(2) [OF wf] by simp
  then show ?case
    using concat_chunks_Nil [OF rest_wf] by (subst inspect_chunks.simps) (simp add: read IH cong: if_cong)
qed

lemma inspect_chunks_printed:
  "inspect_chunks bytes offset st = Inr st' \<Longrightarrow> offset \<le> length bytes \<Longrightarrow>
   \<exists>cs. (\<forall>c\<in>set cs. chunk_wf c) \<and> drop offset bytes = concat (map chunk_bytes cs) \<and> run_chunks cs st = Inr st'"
proof (induction bytes offset st rule: inspect_chunks.induct)
  case (1 bytes offset st)
  show ?case
  proof (cases "offset < length bytes")
    case False
    then show ?thesis using "1.prems" by (intro exI [of _ "[]"]) (simp add: inspect_chunks.simps)
  next
    case True
    then obtain c chunk_end st1 where read: "read_chunk bytes offset = Inr (c, chunk_end)"
      and reg: "register_chunk st c = Inr st1"
      and next_state: "(if chunk_kind c = ''IEND'' then (if chunk_end \<noteq> length bytes then Inl PE_TrailingBytes else Inr st1)
          else inspect_chunks bytes chunk_end st1) = Inr st'"
      using "1.prems"(1) by (subst (asm) inspect_chunks.simps) (auto simp: result_simps)
    note c = read_chunk_printed [OF read]
    show ?thesis
    proof (cases "chunk_kind c = ''IEND''")
      case True
      then show ?thesis
        using c next_state reg by (intro exI [of _ "[c]"]) (auto split: if_splits)
    next
      case False
      then obtain cs where "\<forall>c\<in>set cs. chunk_wf c" "drop chunk_end bytes = concat (map chunk_bytes cs)"
        "run_chunks cs st1 = Inr st'"
        using "1.IH" [OF True read _ reg] next_state c(3) by auto
      then show ?thesis using c reg False by (intro exI [of _ "c # cs"]) simp
    qed
  qed
qed

text \<open>The inspector reads exactly the printed chunk sequences.\<close>

lemma inspect_png_bytes_iff:
  "inspect_png_bytes E bytes = Inr report \<longleftrightarrow>
   (\<exists>cs st. bytes = png_bytes cs \<and> (\<forall>c\<in>set cs. chunk_wf c) \<and> length bytes \<le> MAX_PNG_BYTES \<and>
      run_chunks cs inspection_start = Inr st \<and> finish_inspection E bytes st = Inr report)"
proof
  assume "inspect_png_bytes E bytes = Inr report"
  then obtain st where size: "length bytes \<le> MAX_PNG_BYTES" and sig: "length PNG_SIGNATURE \<le> length bytes"
      "take (length PNG_SIGNATURE) bytes = PNG_SIGNATURE"
    and run: "inspect_chunks bytes (length PNG_SIGNATURE) inspection_start = Inr st"
    and fin: "finish_inspection E bytes st = Inr report"
    by (auto simp: inspect_png_bytes_def result_simps)
  from inspect_chunks_printed [OF run sig(1)] obtain cs where
    cs: "\<forall>c\<in>set cs. chunk_wf c" "drop (length PNG_SIGNATURE) bytes = concat (map chunk_bytes cs)"
      "run_chunks cs inspection_start = Inr st" by blast
  have "bytes = png_bytes cs" unfolding png_bytes_def using sig(2) cs(2) by (metis append_take_drop_id)
  with cs size fin show "\<exists>cs st. bytes = png_bytes cs \<and> (\<forall>c\<in>set cs. chunk_wf c) \<and> length bytes \<le> MAX_PNG_BYTES \<and>
      run_chunks cs inspection_start = Inr st \<and> finish_inspection E bytes st = Inr report" by blast
next
  assume "\<exists>cs st. bytes = png_bytes cs \<and> (\<forall>c\<in>set cs. chunk_wf c) \<and> length bytes \<le> MAX_PNG_BYTES \<and>
      run_chunks cs inspection_start = Inr st \<and> finish_inspection E bytes st = Inr report"
  then obtain cs st where cs: "bytes = png_bytes cs" "\<forall>c\<in>set cs. chunk_wf c" "length bytes \<le> MAX_PNG_BYTES"
    "run_chunks cs inspection_start = Inr st" "finish_inspection E bytes st = Inr report" by blast
  have "inspect_chunks bytes (length PNG_SIGNATURE) inspection_start = Inr st"
    using inspect_printed_chunks [OF cs(2), of PNG_SIGNATURE inspection_start] cs(1,3,4)
    by (simp add: png_bytes_def MAX_PNG_BYTES_def)
  then show "inspect_png_bytes E bytes = Inr report"
    using cs(1,3,5) by (simp add: inspect_png_bytes_def png_bytes_def)
qed

section \<open>The order of the chunks\<close>

lemma match_chunk_effect:
  assumes "match_chunk st c = Inr st'"
  shows "is_chunks st' = is_chunks st"
    "is_ihdr st' = None \<longleftrightarrow> is_ihdr st = None \<and> chunk_kind c \<noteq> ''IHDR''"
    "chunk_kind c = ''IHDR'' \<Longrightarrow> is_ihdr st = None"
    "is_iend_seen st' \<longleftrightarrow> is_iend_seen st \<or> chunk_kind c = ''IEND''"
    "is_idat_started st' \<longleftrightarrow> is_idat_started st \<or> chunk_kind c = ''IDAT''"
    "chunk_kind c = ''IDAT'' \<Longrightarrow> \<not> is_idat_closed st \<and> \<not> is_idat_closed st'"
    "chunk_kind c \<notin> {''IHDR'', ''IDAT'', ''IEND''} \<Longrightarrow> is_idat_closed st' \<longleftrightarrow> is_idat_closed st \<or> is_idat_started st"
    "chunk_kind c \<in> {''IHDR'', ''IEND''} \<Longrightarrow> is_idat_closed st' = is_idat_closed st"
    "is_idat_payload_bytes st' = (if chunk_kind c = ''IDAT''
       then saturating_add (is_idat_payload_bytes st) (ucast (ch_length c)) else is_idat_payload_bytes st)"
  using assms unfolding match_chunk_def Let_def
  by (auto simp: result_simps split: if_splits)

text \<open>The image data chunks are one block; the flags tell whether it has begun and whether it is over.\<close>

definition idat_block :: "string list \<Rightarrow> bool \<Rightarrow> bool \<Rightarrow> bool" where
  "idat_block ks started closed \<longleftrightarrow>
     (\<exists>before n after. ks = before @ replicate n ''IDAT'' @ after \<and> ''IDAT'' \<notin> set before \<union> set after \<and>
        (started \<longleftrightarrow> 0 < n) \<and> (closed \<longleftrightarrow> after \<noteq> []) \<and> (n = 0 \<longrightarrow> after = []))"

text \<open>The kinds read so far and the flags that describe them, before the end chunk.\<close>

definition kinds_ok :: "string list \<Rightarrow> inspection \<Rightarrow> bool" where
  "kinds_ok ks st \<longleftrightarrow>
     (ks = [] \<or> hd ks = ''IHDR'' \<and> ''IHDR'' \<notin> set (tl ks)) \<and> ''IEND'' \<notin> set ks \<and>
     (is_chunks st = [] \<longleftrightarrow> ks = []) \<and> (is_ihdr st = None \<longleftrightarrow> ks = []) \<and> \<not> is_iend_seen st \<and>
     idat_block ks (is_idat_started st) (is_idat_closed st)"

lemma kinds_ok_start: "kinds_ok [] inspection_start"
  by (simp add: kinds_ok_def idat_block_def inspection_start_def)

lemma idat_block_step:
  assumes "idat_block ks started closed" "k = ''IDAT'' \<Longrightarrow> \<not> closed"
  shows "idat_block (ks @ [k]) (started \<or> k = ''IDAT'') (if k = ''IDAT'' then False else closed \<or> started)"
proof -
  from assms(1) obtain before n after where block: "ks = before @ replicate n ''IDAT'' @ after"
    "''IDAT'' \<notin> set before \<union> set after" "started \<longleftrightarrow> 0 < n" "closed \<longleftrightarrow> after \<noteq> []" "n = 0 \<longrightarrow> after = []"
    unfolding idat_block_def by (elim exE conjE)
  consider "k = ''IDAT''" "after = []" | "k \<noteq> ''IDAT''" "0 < n" | "k \<noteq> ''IDAT''" "n = 0"
    using assms(2) block(4) by blast
  then show ?thesis
  proof cases
    case 1
    then show ?thesis
      using block unfolding idat_block_def
      by (intro exI [of _ before] exI [of _ "Suc n"] exI [of _ "[]"]) (simp add: replicate_append_same)
  next
    case 2
    then show ?thesis
      using block unfolding idat_block_def by (intro exI [of _ before] exI [of _ n] exI [of _ "after @ [k]"]) simp
  next
    case 3
    then show ?thesis
      using block unfolding idat_block_def by (intro exI [of _ "before @ [k]"] exI [of _ 0] exI [of _ "[]"]) simp
  qed
qed

lemma kinds_ok_step:
  assumes ok: "kinds_ok ks st" and reg: "register_chunk st c = Inr st'" and not_end: "chunk_kind c \<noteq> ''IEND''"
  shows "kinds_ok (ks @ [chunk_kind c]) st'"
proof -
  from reg obtain st1 where first: "is_chunks st = [] \<Longrightarrow> chunk_kind c = ''IHDR''"
    and m: "match_chunk st c = Inr st1" and st': "st' = st1\<lparr>is_chunks := is_chunks st1 @ [chunk_evidence c]\<rparr>"
    by (auto simp: register_chunk_def Let_def result_simps)
  note eff = match_chunk_effect [OF m]
  have block: "idat_block ks (is_idat_started st) (is_idat_closed st)"
    and rest: "ks = [] \<or> hd ks = ''IHDR'' \<and> ''IHDR'' \<notin> set (tl ks)" "''IEND'' \<notin> set ks"
      "is_chunks st = [] \<longleftrightarrow> ks = []" "is_ihdr st = None \<longleftrightarrow> ks = []" "\<not> is_iend_seen st"
    using ok unfolding kinds_ok_def by simp_all
  have ihdr: "chunk_kind c = ''IHDR'' \<longleftrightarrow> ks = []"
  proof
    assume "chunk_kind c = ''IHDR''"
    then show "ks = []" using eff(3) rest(4) by simp
  qed (use first rest(3) in simp)
  have closed: "is_idat_closed st' = (if chunk_kind c = ''IDAT'' then False else is_idat_closed st \<or> is_idat_started st)"
  proof (cases "ks = []")
    case True
    then have "\<not> is_idat_started st" "chunk_kind c = ''IHDR''" using block ihdr by (auto simp: idat_block_def)
    then show ?thesis using eff(8) by (auto simp: st')
  next
    case False
    then show ?thesis using eff(6,7) ihdr not_end by (auto simp: st')
  qed
  have started: "is_idat_started st' \<longleftrightarrow> is_idat_started st \<or> chunk_kind c = ''IDAT''" using eff(5) by (simp add: st')
  show ?thesis
    unfolding kinds_ok_def started closed
    using idat_block_step [OF block, of "chunk_kind c"] eff(2,4,6) rest ihdr not_end
    by (cases "ks = []") (simp_all add: st')
qed

lemma run_chunks_kinds:
  assumes "run_chunks cs st = Inr st'" "kinds_ok ks st" "is_iend_seen st'"
  shows "\<exists>before n after. ks @ map chunk_kind cs = ''IHDR'' # before @ replicate n ''IDAT'' @ after @ [''IEND''] \<and>
    (set before \<union> set after) \<inter> {''IHDR'', ''IDAT'', ''IEND''} = {} \<and> (is_idat_started st' \<longleftrightarrow> 0 < n)"
  using assms
proof (induction cs arbitrary: ks st)
  case Nil
  then show ?case by (simp add: kinds_ok_def)
next
  case (Cons c cs)
  then obtain st1 where reg: "register_chunk st c = Inr st1"
    and next_state: "(if chunk_kind c = ''IEND'' then (if cs \<noteq> [] then Inl PE_TrailingBytes else Inr st1)
      else run_chunks cs st1) = Inr st'" by (auto simp: result_simps)
  show ?case
  proof (cases "chunk_kind c = ''IEND''")
    case False
    then show ?thesis using Cons.IH [of st1 "ks @ [chunk_kind c]"] kinds_ok_step [OF Cons.prems(2) reg] next_state Cons.prems(3)
      by simp
  next
    case True
    then have done_now: "cs = []" "st' = st1" using next_state by (auto split: if_splits)
    have kind: "chunk_kind c \<noteq> ''IHDR''" "chunk_kind c \<noteq> ''IDAT''" using True by simp_all
    obtain st0 where m: "match_chunk st c = Inr st0" and st1: "is_idat_started st1 = is_idat_started st0"
      and chunks: "is_chunks st \<noteq> []"
      using reg kind(1) by (auto simp: register_chunk_def Let_def result_simps)
    have ks: "hd ks = ''IHDR''" "''IHDR'' \<notin> set (tl ks)" "''IEND'' \<notin> set ks" "ks \<noteq> []"
      and idats: "idat_block ks (is_idat_started st) (is_idat_closed st)"
      using Cons.prems(2) chunks unfolding kinds_ok_def by auto
    from idats obtain before n after where block: "ks = before @ replicate n ''IDAT'' @ after"
        "''IDAT'' \<notin> set before \<union> set after" "is_idat_started st \<longleftrightarrow> 0 < n" "n = 0 \<longrightarrow> after = []"
      unfolding idat_block_def by (elim exE conjE)
    have "before \<noteq> []" using block ks(1,4) by (cases n) auto
    then obtain rest where before: "before = ''IHDR'' # rest" using block(1) ks(1) by (cases before) auto
    have "is_idat_started st' \<longleftrightarrow> 0 < n" using match_chunk_effect(5) [OF m] kind(2) block(3) st1 done_now(2) by simp
    then show ?thesis
      using block ks(2,3) True by (intro exI [of _ rest] exI [of _ n] exI [of _ after]) (auto simp: before done_now(1))
  qed
qed

section \<open>Header and image data\<close>

lemma parse_ihdr_ok:
  assumes "parse_ihdr data = Inr header"
  shows "length data = 13" "0 < ih_width header" "ih_width header \<le> MAX_DIMENSION"
    "0 < ih_height header" "ih_height header \<le> MAX_DIMENSION"
    "valid_bit_depth (ih_bit_depth header) (ih_color_type header)"
    "ih_compression_method header = 0" "ih_filter_method header = 0" "ih_interlace_method header \<le> 1"
  using assms by (auto simp: parse_ihdr_def result_simps Let_def word_gt_0 not_less simp del: color_type_from_byte.simps)

lemma match_chunk_ihdr:
  "match_chunk st c = Inr st' \<Longrightarrow> is_ihdr st' = Some header \<Longrightarrow>
   is_ihdr st = Some header \<or> chunk_kind c = ''IHDR'' \<and> parse_ihdr (ch_data c) = Inr header"
  unfolding match_chunk_def Let_def by (auto simp: result_simps split: if_splits)

lemma register_chunk_ok:
  assumes "register_chunk st c = Inr st'"
  obtains st1 where "match_chunk st c = Inr st1" "st' = st1\<lparr>is_chunks := is_chunks st1 @ [chunk_evidence c]\<rparr>"
  using assms by (auto simp: register_chunk_def Let_def result_simps)

lemma run_chunks_step:
  assumes "run_chunks (c # cs) st = Inr st'"
  obtains st1 where "register_chunk st c = Inr st1" "run_chunks cs st1 = Inr st'"
  using assms by (auto simp: result_simps split: if_splits)

lemma run_chunks_ihdr:
  "run_chunks cs st = Inr st' \<Longrightarrow> is_ihdr st' = Some header \<Longrightarrow>
   is_ihdr st = Some header \<or> (\<exists>c\<in>set cs. chunk_kind c = ''IHDR'' \<and> parse_ihdr (ch_data c) = Inr header)"
proof (induction cs arbitrary: st)
  case (Cons c cs)
  from Cons.prems(1) obtain st1 where "register_chunk st c = Inr st1" "run_chunks cs st1 = Inr st'"
    by (rule run_chunks_step)
  with Cons.IH [of st1] Cons.prems(2) show ?case by (auto elim!: register_chunk_ok dest: match_chunk_ihdr)
qed simp

lemma run_chunks_evidence:
  "run_chunks cs st = Inr st' \<Longrightarrow> is_chunks st' = is_chunks st @ map chunk_evidence cs"
proof (induction cs arbitrary: st)
  case (Cons c cs)
  from Cons.prems(1) obtain st1 where "register_chunk st c = Inr st1" "run_chunks cs st1 = Inr st'"
    by (rule run_chunks_step)
  with Cons.IH [of st1] show ?case by (auto elim!: register_chunk_ok simp: match_chunk_effect(1))
qed simp

text \<open>The image data: the payload of the \<^verbatim>\<open>IDAT\<close> chunks, in order.\<close>

definition image_data :: "png_chunk list \<Rightarrow> u8 list" where
  "image_data cs = concat (map ch_data (filter (\<lambda>c. chunk_kind c = ''IDAT'') cs))"

lemma image_data_simps [simp]:
  "image_data [] = []"
  "image_data (c # cs) = (if chunk_kind c = ''IDAT'' then ch_data c else []) @ image_data cs"
  by (simp_all add: image_data_def)

lemma length_image_data:
  "\<forall>c\<in>set cs. chunk_wf c \<Longrightarrow> length (image_data cs) \<le> length (concat (map chunk_bytes cs))"
proof (induction cs)
  case (Cons c cs)
  then show ?case using chunk_wf_length(2) [of c] by (cases "chunk_kind c = ''IDAT''") auto
qed simp

lemma unat_ucast_widen:
  fixes x :: "'a::len word"
  assumes "LENGTH('a) \<le> LENGTH('b)"
  shows "unat (ucast x :: 'b::len word) = unat x"
proof -
  have "unat x < 2 ^ LENGTH('a)" by simp
  also have "\<dots> \<le> 2 ^ LENGTH('b)" using assms by simp
  finally show ?thesis by (simp add: unsigned_ucast_eq take_bit_nat_eq_self)
qed

lemma run_chunks_payload:
  assumes "run_chunks cs st = Inr st'" "\<forall>c\<in>set cs. chunk_wf c"
    "unat (is_idat_payload_bytes st) + length (image_data cs) < 2 ^ 64"
  shows "unat (is_idat_payload_bytes st') = unat (is_idat_payload_bytes st) + length (image_data cs)"
  using assms
proof (induction cs arbitrary: st)
  case (Cons c cs)
  from Cons.prems(1) obtain st1 st0 where run: "run_chunks cs st1 = Inr st'" and m: "match_chunk st c = Inr st0"
    and st1: "st1 = st0\<lparr>is_chunks := is_chunks st0 @ [chunk_evidence c]\<rparr>"
    by (elim run_chunks_step register_chunk_ok)
  have len: "unat (ucast (ch_length c) :: u64) = length (ch_data c)"
    using Cons.prems(2) chunk_wf_length(1) [of c] by (simp add: unat_ucast_widen)
  have "unat (is_idat_payload_bytes st1) =
      unat (is_idat_payload_bytes st) + (if chunk_kind c = ''IDAT'' then length (ch_data c) else 0)"
    using Cons.prems(3) len by (auto simp: st1 match_chunk_effect(9) [OF m] unat_saturating_add)
  then show ?case using Cons.IH [OF run] Cons.prems(2,3) by auto
qed simp

section \<open>The checksum\<close>

lemma crc_shift_cases: "crc_shift c = (if bit c 0 then xor (drop_bit 1 c) 0xedb88320 else drop_bit 1 c)"
proof -
  have "and c 1 = of_bool (bit c 0)" by (simp add: and_one_eq bit_0 mod2_eq_if)
  then show ?thesis by (simp add: crc_shift_def)
qed

lemma xor_right_cancel: "xor v u = xor w u \<Longrightarrow> v = w" for u v w :: "'a::len word"
proof -
  assume "xor v u = xor w u"
  then have "xor (xor v u) u = xor (xor w u) u" by simp
  then show ?thesis by (simp add: xor.assoc)
qed

text \<open>Evaluation on numerals, innermost shift first.\<close>

lemma crc_byte_shifts:
  "crc_byte crc byte = crc_shift (crc_shift (crc_shift (crc_shift (crc_shift (crc_shift (crc_shift (crc_shift
     (xor crc (ucast byte)))))))))"
  by (simp add: crc_byte_def numeral_eq_Suc)

lemmas crc_eval = crc_byte_shifts crc_shift_def [of "numeral n" for n] crc_shift_def [of 0] crc_shift_def [of 1]

text \<open>The polynomial has its highest bit, so a shift can be undone: the highest bit is the one shifted out.\<close>

lemma crc_shift_top: "bit (crc_shift c) 31 \<longleftrightarrow> bit c 0"
proof -
  have "\<not> bit (drop_bit 1 c) 31" using bit_imp_le_length [of c 32] by (auto simp: bit_drop_bit_eq)
  moreover have "bit (0xedb88320 :: u32) 31" by simp
  ultimately show ?thesis by (simp add: crc_shift_cases bit_xor_iff)
qed

lemma crc_shift_inj: "inj crc_shift"
proof (rule injI)
  fix a b :: u32
  assume eq: "crc_shift a = crc_shift b"
  then have low: "bit a 0 = bit b 0" using crc_shift_top by metis
  have "drop_bit 1 a = drop_bit 1 b"
    using eq low by (auto simp: crc_shift_cases split: if_splits dest: xor_right_cancel)
  then have "bit a (Suc n) = bit b (Suc n)" for n by (metis bit_drop_bit_eq comp_apply plus_1_eq_Suc)
  then show "a = b" using low by (intro bit_word_eqI) (metis not0_implies_Suc)
qed

lemma crc_byte_inj:
  "crc_byte a x = crc_byte b x \<Longrightarrow> a = b"
  "crc_byte a x = crc_byte a y \<Longrightarrow> x = y"
proof -
  have shifts: "(crc_shift ^^ 8) u = (crc_shift ^^ 8) v \<Longrightarrow> u = v" for u v
    using inj_fn [OF crc_shift_inj, of 8] by (rule injD)
  show "crc_byte a x = crc_byte b x \<Longrightarrow> a = b"
    unfolding crc_byte_def by (drule shifts) (rule xor_right_cancel)
  assume "crc_byte a x = crc_byte a y"
  then have "xor (ucast x) a = xor (ucast y :: u32) a"
    unfolding crc_byte_def by (subst (1 2) xor.commute) (rule shifts)
  then have "unat (ucast x :: u32) = unat (ucast y :: u32)" by (metis xor_right_cancel)
  then show "x = y" by (simp add: unat_ucast_widen word_unat_eq_iff)
qed

lemma crc_fold_inj: "foldl crc_byte a xs = foldl crc_byte b xs \<Longrightarrow> a = b"
  by (induction xs arbitrary: a b) (auto dest: crc_byte_inj(1))

section \<open>Properties\<close>

text \<open>A small image: header, an image data chunk and the end chunk.\<close>

definition demo_png_env :: png_env where
  "demo_png_env = \<lparr>pn_hasher = demo_hasher, pn_report_value = (\<lambda>_. Inr (JObject [])),
     pn_result_value = (\<lambda>_. Inr (JObject []))\<rparr>"

definition demo_chunks :: "png_chunk list" where
  "demo_chunks = [
     chunk_of [0x49, 0x48, 0x44, 0x52] [0, 0, 0, 1, 0, 0, 0, 1, 8, 2, 0, 0, 0],
     chunk_of [0x49, 0x44, 0x41, 0x54] [1, 2],
     chunk_of [0x49, 0x45, 0x4e, 0x44] []]"

definition demo_inspection :: inspection where
  "demo_inspection = \<lparr>is_chunks = map chunk_evidence demo_chunks, is_ihdr = Some \<lparr>ih_width = 1, ih_height = 1,
       ih_bit_depth = 8, ih_color_type = Truecolor, ih_compression_method = 0, ih_filter_method = 0,
       ih_interlace_method = 0\<rparr>,
     is_palette_seen = False, is_idat_started = True, is_idat_closed = False, is_idat_chunk_count = 1,
     is_idat_payload_bytes = 2, is_iend_seen = True, is_srgb_intent = None, is_icc_profile_name = None\<rparr>"

definition demo_png_report :: png_artifact_report where
  "demo_png_report = (case finish_inspection demo_png_env (png_bytes demo_chunks) demo_inspection of Inr report \<Rightarrow> report)"

lemma demo_kinds: "map byte_char [0x49, 0x48, 0x44, 0x52] = ''IHDR''" "map byte_char [0x49, 0x44, 0x41, 0x54] = ''IDAT''"
    "map byte_char [0x49, 0x45, 0x4e, 0x44] = ''IEND''"
  by code_simp+

lemma demo_header: "parse_ihdr [0, 0, 0, 1, 0, 0, 0, 1, 8, 2, 0, 0, 0] = Inr \<lparr>ih_width = 1, ih_height = 1,
       ih_bit_depth = 8, ih_color_type = Truecolor, ih_compression_method = 0, ih_filter_method = 0,
       ih_interlace_method = 0\<rparr>"
  by code_simp

lemma demo_chunks_run: "run_chunks demo_chunks inspection_start = Inr demo_inspection"
  unfolding demo_chunks_def demo_inspection_def
  by (simp add: register_chunk_def match_chunk_def inspection_start_def demo_kinds demo_header is_unknown_critical_def
      saturating_add_code del: list.map) simp

lemma demo_chunks_wf: "\<forall>c\<in>set demo_chunks. chunk_wf c"
  by (simp add: demo_chunks_def chunk_wf_def ascii_alphabetic_def ascii_uppercase_def)

lemma demo_png_finished:
  "finish_inspection demo_png_env (png_bytes demo_chunks) demo_inspection = Inr demo_png_report"
  "pa_color_profile demo_png_report = ProfileNone" "pa_width demo_png_report = 1" "pa_height demo_png_report = 1"
  "pa_bit_depth demo_png_report = 8" "pa_color_type demo_png_report = Truecolor" "pa_interlace_method demo_png_report = 0"
  by (simp_all add: demo_png_report_def finish_inspection_def demo_inspection_def palette_check_def color_profile_of_def
      png_report_digest_def demo_png_env_def without_field_def canonical_json_sha256_def canonical_json_bytes_def
      demo_hasher_def Let_def)

lemma demo_png_inspected: "inspect_png_bytes demo_png_env (png_bytes demo_chunks) = Inr demo_png_report"
proof -
  have "length (png_bytes demo_chunks) \<le> MAX_PNG_BYTES"
    by (simp add: png_bytes_def demo_chunks_def chunk_bytes_def u32_be_bytes_4 PNG_SIGNATURE_def MAX_PNG_BYTES_def)
  then show ?thesis
    using demo_chunks_run demo_chunks_wf demo_png_finished(1) unfolding inspect_png_bytes_iff by blast
qed

text \<open>
  C31: the inspector accepts only byte strings that are a PNG: the signature followed by
  chunks with a four-letter name, the length of their data and its correct checksum, at most
  256 MiB in all. The first chunk is the only header, the last one the only end chunk, the
  image data chunks are one uninterrupted, non-empty block, and the report lists exactly the
  chunks, the number of image data bytes and the fields of the header, whose dimensions
  and bit depth are valid.
\<close>

theorem inspected_png_structure:
  assumes "inspect_png_bytes E bytes = Inr report"
  shows "\<exists>cs before n after header. bytes = png_bytes cs \<and> (\<forall>c\<in>set cs. chunk_wf c) \<and>
    length bytes \<le> 256 * 1024 * 1024 \<and>
    map chunk_kind cs = ''IHDR'' # before @ replicate n ''IDAT'' @ after @ [''IEND''] \<and> 0 < n \<and>
    (set before \<union> set after) \<inter> {''IHDR'', ''IDAT'', ''IEND''} = {} \<and>
    pa_chunks report = map chunk_evidence cs \<and>
    unat (pa_idat_payload_bytes report) = length (image_data cs) \<and> image_data cs \<noteq> [] \<and>
    parse_ihdr (ch_data (hd cs)) = Inr header \<and> pa_width report = ih_width header \<and>
    pa_height report = ih_height header \<and> 0 < pa_width report \<and> pa_width report \<le> MAX_DIMENSION \<and>
    0 < pa_height report \<and> pa_height report \<le> MAX_DIMENSION \<and>
    valid_bit_depth (pa_bit_depth report) (pa_color_type report)"
proof -
  from assms obtain cs st where cs: "bytes = png_bytes cs" "\<forall>c\<in>set cs. chunk_wf c" "length bytes \<le> MAX_PNG_BYTES"
    and run: "run_chunks cs inspection_start = Inr st" and fin: "finish_inspection E bytes st = Inr report"
    unfolding inspect_png_bytes_iff by blast
  from fin obtain header where end_seen: "is_iend_seen st" and data: "is_idat_started st" "is_idat_payload_bytes st \<noteq> 0"
    and header: "is_ihdr st = Some header"
    and sel: "pa_width report = ih_width header" "pa_height report = ih_height header"
      "pa_bit_depth report = ih_bit_depth header" "pa_color_type report = ih_color_type header"
      "pa_chunks report = is_chunks st" "pa_idat_payload_bytes report = is_idat_payload_bytes st"
    by (auto simp: finish_inspection_def result_simps Let_def)
  obtain before n after where kinds: "map chunk_kind cs = ''IHDR'' # before @ replicate n ''IDAT'' @ after @ [''IEND'']"
    "(set before \<union> set after) \<inter> {''IHDR'', ''IDAT'', ''IEND''} = {}" "0 < n"
    using run_chunks_kinds [OF run kinds_ok_start end_seen] data(1) by auto
  have small: "length (image_data cs) < 2 ^ 64"
    using length_image_data [OF cs(2)] cs(1,3) by (simp add: png_bytes_def MAX_PNG_BYTES_def)
  then have payload: "unat (is_idat_payload_bytes st) = length (image_data cs)"
    using run_chunks_payload [OF run cs(2)] by (simp add: inspection_start_def)
  then have nonempty: "image_data cs \<noteq> []" using data(2) by (auto simp: unat_eq_zero)
  obtain c where c: "c \<in> set cs" "chunk_kind c = ''IHDR''" "parse_ihdr (ch_data c) = Inr header"
    using run_chunks_ihdr [OF run header] by (auto simp: inspection_start_def)
  obtain first rest where hd: "cs = first # rest" "chunk_kind first = ''IHDR''"
    "map chunk_kind rest = before @ replicate n ''IDAT'' @ after @ [''IEND'']" using kinds(1) by (cases cs) auto
  have "''IHDR'' \<notin> set (map chunk_kind rest)" using kinds(2) unfolding hd(3) by auto
  then have "c = first" using c(1) hd(1) c(2) [symmetric] by (auto simp del: map_eq_Cons_conv)
  then have ih: "parse_ihdr (ch_data (hd cs)) = Inr header" using c(3) hd(1) by simp
  have evidence: "pa_chunks report = map chunk_evidence cs"
    using run_chunks_evidence [OF run] sel(5) by (simp add: inspection_start_def)
  show ?thesis
    using cs kinds payload nonempty ih evidence sel parse_ihdr_ok [OF ih]
    by (intro exI [of _ cs] exI [of _ before] exI [of _ n] exI [of _ after] exI [of _ header])
      (simp add: MAX_PNG_BYTES_def)
qed

theorem inspected_png_structure_witness:
  "0 < pa_width demo_png_report \<and> unat (pa_idat_payload_bytes demo_png_report) \<noteq> 0"
  using inspected_png_structure [OF demo_png_inspected] by auto

text \<open>
  C34: reading and printing agree. The inspector accepts a byte string exactly if it is the
  print of some sequence of well-formed chunks, not longer than the limit, that passes the
  rules chunk by chunk, and its report is the one made from that sequence: the byte loop with
  its offsets and checked additions implements the run over the chunks.
\<close>

theorem inspection_is_chunk_run:
  "inspect_png_bytes E bytes = Inr report \<longleftrightarrow>
   (\<exists>cs st. bytes = png_bytes cs \<and> (\<forall>c\<in>set cs. chunk_wf c) \<and> length bytes \<le> MAX_PNG_BYTES \<and>
      run_chunks cs inspection_start = Inr st \<and> finish_inspection E bytes st = Inr report)"
  by (rule inspect_png_bytes_iff)

theorem inspection_is_chunk_run_witness:
  "\<exists>cs st. png_bytes demo_chunks = png_bytes cs \<and> run_chunks cs inspection_start = Inr st"
  using inspection_is_chunk_run [of demo_png_env "png_bytes demo_chunks" demo_png_report] demo_png_inspected by blast

text \<open>
  The checksum of a chunk catches every error confined to one byte of its name or data:
  if two inputs differ in exactly one byte, their checksums differ.
\<close>

lemma checksum_detects_byte_error:
  assumes "x \<noteq> y" "name @ data = before @ x # after" "name' @ data' = before @ y # after"
  shows "crc32_pair name data \<noteq> crc32_pair name' data'"
proof
  assume "crc32_pair name data = crc32_pair name' data'"
  then have "foldl crc_byte 0xffffffff (before @ x # after) = foldl crc_byte 0xffffffff (before @ y # after)"
    unfolding crc32_pair_def assms(2,3) by (metis bit.double_compl)
  then have "foldl crc_byte (crc_byte (foldl crc_byte 0xffffffff before) x) after =
      foldl crc_byte (crc_byte (foldl crc_byte 0xffffffff before) y) after" by simp
  then have "crc_byte (foldl crc_byte 0xffffffff before) x = crc_byte (foldl crc_byte 0xffffffff before) y"
    by (rule crc_fold_inj)
  then show False using crc_byte_inj(2) assms(1) by blast
qed

text \<open>
  a validation accepts a report exactly if the report has the dimensions of the policy,
  its bit depth where one is given, one of its colour types, and the colour profile it
  requires; a policy with an empty or excessive dimension, without a colour type or with a
  blank profile name is refused.
\<close>

lemma validation_accepts_policy:
  assumes "validate_report E report policy = Inr result"
  shows "(pr_accepted result \<longleftrightarrow>
      pa_width report = pv_expected_width policy \<and> pa_height report = pv_expected_height policy \<and>
      (\<forall>depth. pv_expected_bit_depth policy = Some depth \<longrightarrow> pa_bit_depth report = depth) \<and>
      pa_color_type report \<in> set (pv_allowed_color_types policy) \<and>
      (case pv_profile_requirement policy of NotRequired \<Rightarrow> True
       | AnyEmbedded \<Rightarrow> pa_color_profile report \<noteq> ProfileNone
       | SrgbChunk \<Rightarrow> (\<exists>intent. pa_color_profile report = ProfileSrgb intent)
       | IccProfile name \<Rightarrow> pa_color_profile report = ProfileIcc name \<and> \<not> blank name)) \<and>
    pr_report result = report \<and> 0 < pv_expected_width policy \<and> pv_expected_width policy \<le> MAX_DIMENSION \<and>
    0 < pv_expected_height policy \<and> pv_expected_height policy \<le> MAX_DIMENSION"
proof -
  have facts: "png_validate_policy policy = Inr ()" "pr_accepted result \<longleftrightarrow> policy_violations report policy = []"
    "pr_report result = report"
    using assms by (auto simp: validate_report_def result_simps Let_def)
  have "evaluate_profile_requirement (pa_color_profile report) (pv_profile_requirement policy) = [] \<longleftrightarrow>
      (case pv_profile_requirement policy of NotRequired \<Rightarrow> True
       | AnyEmbedded \<Rightarrow> pa_color_profile report \<noteq> ProfileNone
       | SrgbChunk \<Rightarrow> (\<exists>intent. pa_color_profile report = ProfileSrgb intent)
       | IccProfile name \<Rightarrow> pa_color_profile report = ProfileIcc name \<and> \<not> blank name)"
    using facts(1)
    by (auto simp: png_validate_policy_def result_simps split: png_profile_requirement.splits png_color_profile.splits)
  then show ?thesis
    using facts by (auto simp: policy_violations_def png_validate_policy_def result_simps word_gt_0 not_less split: option.splits)
qed

end
