(* ===== verification/PngPixels.thy ===== *)
theory PngPixels
  imports Png
begin

text \<open>
  The PNG pixel decoder (\<^verbatim>\<open>crates/png-pixel-decoder-runtime\<close>): it runs the
  inspector, collects the image data, decompresses it, reverses the scanline filters and
  converts the pixels to RGBA. The decompression of \<^verbatim>\<open>flate2\<close> is an argument. A
  \<^verbatim>\<open>usize\<close> is a \<^typ>\<open>nat\<close> below $2^{64}$ with every checked operation written out,
  and every index, slice and unchecked sum or difference of the decoder, which panics in the
  code when it is out of range, gives an error value of its own. The
  lemmas show that the decoder never panics and never overflows, that reversing the filters
  is the inverse of applying them as the standard does, and what the decoded pixels are.
\<close>

section \<open>Data\<close>

type_synonym u16 = "16 word"

record png_pixel_report =
  px_schema_version :: string
  px_artifact_digest :: string
  px_validator_report_digest :: string
  px_width :: u32
  px_height :: u32
  px_color_type :: png_color_type
  px_bit_depth :: u8
  px_interlace_method :: u8
  px_bytes_per_pixel :: u8
  px_row_bytes :: u64
  px_pixel_count :: u64
  px_non_opaque_pixel_count :: u64
  px_idat_payload_digest :: string
  px_decompressed_scanline_digest :: string
  px_rgba_pixel_digest :: string
  px_filter_counts :: "u64 list"
  px_report_digest :: string

record decoded_png =
  dp_report :: png_pixel_report
  dp_rgba8 :: "u8 list"

datatype (plugins only: code size) png_pixel_error =
    PX_Png png_artifact_error
  | PX_UnsupportedBitDepth u8
  | PX_UnsupportedColorType png_color_type
  | PX_UnsupportedInterlace
  | PX_PixelLimitExceeded
  | PX_SizeOverflow
  | PX_MissingImageData
  | PX_ImageDataLimitExceeded
  | PX_Zlib string
  | PX_DecompressedDataLimitExceeded
  | PX_DecompressedLengthMismatch nat nat
  | PX_TrailingCompressedData
  | PX_InvalidFilter u8
  | PX_Serialization serde_error
  | PX_Hashing hashing_error
  | PX_Panic

text \<open>
  The third-party operations: \<open>pxe_inflate data limit\<close> reads at most \<open>limit\<close> bytes from a
  \<^verbatim>\<open>ZlibDecoder\<close> over \<open>data\<close> and returns them with the number of bytes consumed.
\<close>

record png_pixel_env =
  pxe_png :: png_env
  pxe_inflate :: "u8 list \<Rightarrow> u64 \<Rightarrow> string + u8 list \<times> u64"
  pxe_report_value :: "png_pixel_report \<Rightarrow> serde_error + json"

definition MAX_PIXELS :: u64 where "MAX_PIXELS = 100000000"
definition MAX_DECODED_SCANLINE_BYTES :: nat where "MAX_DECODED_SCANLINE_BYTES = 512 * 1024 * 1024"
definition MAX_IDAT_PAYLOAD_BYTES :: nat where "MAX_IDAT_PAYLOAD_BYTES = 256 * 1024 * 1024"

definition checked_mul_usize :: "nat \<Rightarrow> nat \<Rightarrow> nat option" where
  "checked_mul_usize a b = (if a * b < 2 ^ 64 then Some (a * b) else None)"

text \<open>
  The operations that panic: an index or a range outside a slice, and unchecked arithmetic on
  \<^verbatim>\<open>usize\<close> that leaves its range.
\<close>

definition index_at :: "'a list \<Rightarrow> nat \<Rightarrow> png_pixel_error + 'a" where
  "index_at xs i = (if i < length xs then Inr (xs ! i) else Inl PX_Panic)"

definition store_at :: "'a list \<Rightarrow> nat \<Rightarrow> 'a \<Rightarrow> png_pixel_error + 'a list" where
  "store_at xs i v = (if i < length xs then Inr (xs[i := v]) else Inl PX_Panic)"

definition slice_at :: "'a list \<Rightarrow> nat \<Rightarrow> nat \<Rightarrow> png_pixel_error + 'a list" where
  "slice_at xs from to = (if from \<le> to \<and> to \<le> length xs then Inr (sub_slice xs from to) else Inl PX_Panic)"

definition usize_plus :: "nat \<Rightarrow> nat \<Rightarrow> png_pixel_error + nat" where
  "usize_plus a b = (if a + b < 2 ^ 64 then Inr (a + b) else Inl PX_Panic)"

definition usize_minus :: "nat \<Rightarrow> nat \<Rightarrow> png_pixel_error + nat" where
  "usize_minus a b = (if b \<le> a then Inr (a - b) else Inl PX_Panic)"

lemma index_at_simps [simp]: "i < length xs \<Longrightarrow> index_at xs i = Inr (xs ! i)"
  "i < length xs \<Longrightarrow> store_at xs i v = Inr (xs[i := v])"
  "from \<le> to \<Longrightarrow> to \<le> length xs \<Longrightarrow> slice_at xs from to = Inr (sub_slice xs from to)"
  "a + b < 2 ^ 64 \<Longrightarrow> usize_plus a b = Inr (a + b)" "b \<le> a \<Longrightarrow> usize_minus a b = Inr (a - b)"
  by (simp_all add: index_at_def store_at_def slice_at_def usize_plus_def usize_minus_def)

lemma usize_minus_eq [result_simps]: "usize_minus a b = Inr d \<longleftrightarrow> b \<le> a \<and> d = a - b"
  by (auto simp: usize_minus_def)

section \<open>Image data\<close>

definition idat_step :: "u8 list \<Rightarrow> nat \<Rightarrow> u8 list \<Rightarrow> png_pixel_error + nat \<times> u8 list" where
  "idat_step bytes offset idat =
     and_then (usize_minus (length bytes) offset) (\<lambda>remaining.
     and_then (ensure (\<not> remaining < 12) (PX_Png PE_TruncatedChunk)) (\<lambda>_.
     and_then (usize_plus offset 4) (\<lambda>length_end.
     and_then (slice_at bytes offset length_end) (\<lambda>length_bytes.
     let len = unat (u32_from_be_bytes length_bytes) in
     and_then (ok_or (checked_add_usize offset 8) PX_SizeOverflow) (\<lambda>data_start.
     and_then (ok_or (checked_add_usize data_start len) PX_SizeOverflow) (\<lambda>data_end.
     and_then (ok_or (checked_add_usize data_end 4) PX_SizeOverflow) (\<lambda>chunk_end.
     and_then (ensure (\<not> chunk_end > length bytes) (PX_Png PE_TruncatedChunk)) (\<lambda>_.
     and_then (usize_plus offset 4) (\<lambda>type_start.
     and_then (usize_plus offset 8) (\<lambda>type_end.
     and_then (slice_at bytes type_start type_end) (\<lambda>chunk_type.
     if map byte_char chunk_type = ''IDAT'' then
       and_then (ok_or (checked_add_usize (length idat) len) PX_SizeOverflow) (\<lambda>next_len.
       and_then (ensure (\<not> next_len > MAX_IDAT_PAYLOAD_BYTES) PX_ImageDataLimitExceeded) (\<lambda>_.
       and_then (slice_at bytes data_start data_end) (\<lambda>data.
       Inr (chunk_end, idat @ data))))
     else Inr (chunk_end, idat))))))))))))"

lemma idat_step_progress:
  "idat_step bytes offset idat = Inr (chunk_end, idat') \<Longrightarrow> offset < chunk_end \<and> chunk_end \<le> length bytes"
  by (auto simp: idat_step_def result_simps Let_def checked_add_usize_def split: if_splits)

function collect_idat :: "u8 list \<Rightarrow> nat \<Rightarrow> u8 list \<Rightarrow> png_pixel_error + u8 list" where
  "collect_idat bytes offset idat =
     (if offset < length bytes then
        and_then (idat_step bytes offset idat) (\<lambda>(chunk_end, idat'). collect_idat bytes chunk_end idat')
      else Inr idat)"
  by pat_completeness auto
termination
  by (relation "measure (\<lambda>(bytes, offset, _). length bytes - offset)") (auto dest: idat_step_progress)

declare collect_idat.simps [simp del]

definition collect_idat_payload :: "u8 list \<Rightarrow> png_pixel_error + u8 list" where
  "collect_idat_payload bytes =
     and_then (ensure (\<not> length bytes < length PNG_SIGNATURE) (PX_Png PE_InvalidSignature)) (\<lambda>_.
     and_then (slice_at bytes 0 (length PNG_SIGNATURE)) (\<lambda>signature.
     and_then (ensure (signature = PNG_SIGNATURE) (PX_Png PE_InvalidSignature)) (\<lambda>_.
     and_then (collect_idat bytes (length PNG_SIGNATURE) []) (\<lambda>idat.
     and_then (ensure (idat \<noteq> []) PX_MissingImageData) (\<lambda>_.
     Inr idat)))))"

definition decompress_exact :: "png_pixel_env \<Rightarrow> u8 list \<Rightarrow> nat \<Rightarrow> png_pixel_error + u8 list" where
  "decompress_exact E idat expected_len =
     and_then (ensure (expected_len + 1 < 2 ^ 64) PX_SizeOverflow) (\<lambda>_.
     and_then (map_err PX_Zlib (pxe_inflate E idat (of_nat (expected_len + 1)))) (\<lambda>(output, total_in).
     and_then (ensure (\<not> length output > expected_len) PX_DecompressedDataLimitExceeded) (\<lambda>_.
     and_then (ensure (length output = expected_len)
       (PX_DecompressedLengthMismatch expected_len (length output))) (\<lambda>_.
     and_then (ensure (unat total_in = length idat) PX_TrailingCompressedData) (\<lambda>_.
     Inr output)))))"

section \<open>Filters\<close>

definition paeth :: "u8 \<Rightarrow> u8 \<Rightarrow> u8 \<Rightarrow> u8" where
  "paeth left up upper_left =
     (let estimate = uint left + uint up - uint upper_left;
          left_distance = \<bar>estimate - uint left\<bar>;
          up_distance = \<bar>estimate - uint up\<bar>;
          upper_left_distance = \<bar>estimate - uint upper_left\<bar>
      in if left_distance \<le> up_distance \<and> left_distance \<le> upper_left_distance then left
         else if up_distance \<le> upper_left_distance then up
         else upper_left)"

definition predictor :: "u8 \<Rightarrow> u8 \<Rightarrow> u8 \<Rightarrow> u8 \<Rightarrow> png_pixel_error + u8" where
  "predictor filter_type left up upper_left =
     (if filter_type = 0 then Inr 0
      else if filter_type = 1 then Inr left
      else if filter_type = 2 then Inr up
      else if filter_type = 3 then Inr (ucast ((ucast left + ucast up :: u16) div 2))
      else if filter_type = 4 then Inr (paeth left up upper_left)
      else Inl (PX_InvalidFilter filter_type))"

definition byte_before :: "nat \<Rightarrow> u8 list \<Rightarrow> nat \<Rightarrow> png_pixel_error + u8" where
  "byte_before bytes_per_pixel row index =
     (if index \<ge> bytes_per_pixel then and_then (usize_minus index bytes_per_pixel) (index_at row) else Inr 0)"

definition unfilter_byte :: "u8 \<Rightarrow> nat \<Rightarrow> u8 list \<Rightarrow> u8 list \<Rightarrow> u8 list \<Rightarrow> nat \<Rightarrow> png_pixel_error + u8 list" where
  "unfilter_byte filter_type bytes_per_pixel previous filtered current index =
     and_then (byte_before bytes_per_pixel current index) (\<lambda>left.
     and_then (index_at previous index) (\<lambda>up.
     and_then (byte_before bytes_per_pixel previous index) (\<lambda>upper_left.
     and_then (predictor filter_type left up upper_left) (\<lambda>prediction.
     and_then (index_at filtered index) (\<lambda>byte.
     store_at current index (byte + prediction))))))"

definition unfilter_row :: "u8 \<Rightarrow> nat \<Rightarrow> nat \<Rightarrow> u8 list \<Rightarrow> u8 list \<Rightarrow> u8 list \<Rightarrow> png_pixel_error + u8 list" where
  "unfilter_row filter_type bytes_per_pixel row_bytes previous filtered current =
     try_fold (unfilter_byte filter_type bytes_per_pixel previous filtered) current [0..<row_bytes]"

text \<open>
  The loop keeps two row buffers and swaps them after each row; the one that becomes current
  is filled with zeros.
\<close>

record unfiltering =
  uf_output :: "u8 list"
  uf_previous :: "u8 list"
  uf_current :: "u8 list"
  uf_filter_counts :: "u64 list"

definition unfilter_step ::
    "u8 list \<Rightarrow> nat \<Rightarrow> nat \<Rightarrow> unfiltering \<Rightarrow> nat \<Rightarrow> png_pixel_error + unfiltering" where
  "unfilter_step scanlines bytes_per_pixel row_bytes st row =
     and_then (usize_plus row_bytes 1) (\<lambda>stride.
     and_then (ok_or (checked_mul_usize row stride) PX_SizeOverflow) (\<lambda>source_start.
     and_then (index_at scanlines source_start) (\<lambda>filter_type.
     and_then (ensure (\<not> filter_type > 4) (PX_InvalidFilter filter_type)) (\<lambda>_.
     and_then (index_at (uf_filter_counts st) (unat filter_type)) (\<lambda>occurrences.
     and_then (store_at (uf_filter_counts st) (unat filter_type) (saturating_add occurrences 1)) (\<lambda>counts.
     and_then (usize_plus source_start 1) (\<lambda>row_start.
     and_then (usize_plus row_start row_bytes) (\<lambda>row_end.
     and_then (slice_at scanlines row_start row_end) (\<lambda>filtered.
     and_then (unfilter_row filter_type bytes_per_pixel row_bytes (uf_previous st) filtered (uf_current st)) (\<lambda>current.
     Inr \<lparr>uf_output = uf_output st @ current, uf_previous = current,
       uf_current = replicate (length (uf_previous st)) 0, uf_filter_counts = counts\<rparr>))))))))))"

definition unfilter_start :: "nat \<Rightarrow> unfiltering" where
  "unfilter_start row_bytes = \<lparr>uf_output = [], uf_previous = replicate row_bytes 0, uf_current = replicate row_bytes 0,
     uf_filter_counts = replicate 5 0\<rparr>"

definition unfilter_scanlines ::
    "u8 list \<Rightarrow> nat \<Rightarrow> nat \<Rightarrow> nat \<Rightarrow> nat \<Rightarrow> png_pixel_error + u8 list \<times> u64 list" where
  "unfilter_scanlines scanlines width height bytes_per_pixel row_bytes =
     and_then (ok_or (checked_mul_usize width bytes_per_pixel) PX_SizeOverflow) (\<lambda>expected_row_bytes.
     and_then (ensure (expected_row_bytes = row_bytes) PX_SizeOverflow) (\<lambda>_.
     and_then (ok_or (checked_mul_usize row_bytes height) PX_SizeOverflow) (\<lambda>_.
     and_then (try_fold (unfilter_step scanlines bytes_per_pixel row_bytes) (unfilter_start row_bytes) [0..<height]) (\<lambda>st.
     Inr (uf_output st, uf_filter_counts st)))))"

section \<open>Pixels\<close>

function chunks_exact :: "nat \<Rightarrow> 'a list \<Rightarrow> 'a list list" where
  "chunks_exact k xs = (if k = 0 \<or> length xs < k then [] else take k xs # chunks_exact k (drop k xs))"
  by pat_completeness auto
termination
  by (relation "measure (\<lambda>(_, xs). length xs)") auto

declare chunks_exact.simps [simp del]

definition rgba_pixel :: "u8 list \<Rightarrow> u8 list \<Rightarrow> png_pixel_error + u8 list" where
  "rgba_pixel rgba pixel =
     and_then (index_at pixel 0) (\<lambda>r.
     and_then (index_at pixel 1) (\<lambda>g.
     and_then (index_at pixel 2) (\<lambda>b.
     Inr (rgba @ [r, g, b, 255]))))"

definition rgb_to_rgba :: "u8 list \<Rightarrow> png_pixel_error + u8 list" where
  "rgb_to_rgba unfiltered = try_fold rgba_pixel [] (chunks_exact 3 unfiltered)"

definition convert_to_rgba :: "u8 list \<Rightarrow> png_color_type \<Rightarrow> u64 \<Rightarrow> png_pixel_error + u8 list" where
  "convert_to_rgba unfiltered color_type pixel_count =
     and_then (ok_or (checked_mul_usize (unat pixel_count) 4) PX_SizeOverflow) (\<lambda>output_len.
     and_then (case color_type of
         Truecolor \<Rightarrow> rgb_to_rgba unfiltered
       | TruecolorAlpha \<Rightarrow> Inr unfiltered
       | actual \<Rightarrow> Inl (PX_UnsupportedColorType actual)) (\<lambda>rgba.
     and_then (ensure (length rgba = output_len) PX_SizeOverflow) (\<lambda>_.
     Inr rgba)))"

definition non_opaque_pixels :: "u8 list \<Rightarrow> png_pixel_error + nat" where
  "non_opaque_pixels rgba8 = try_fold (\<lambda>n pixel.
     and_then (index_at pixel 3) (\<lambda>alpha. Inr (if alpha \<noteq> 255 then n + 1 else n))) 0 (chunks_exact 4 rgba8)"

definition pixel_report_digest :: "png_pixel_env \<Rightarrow> png_pixel_report \<Rightarrow> png_pixel_error + string" where
  "pixel_report_digest E report =
     and_then (map_err PX_Serialization (pxe_report_value E report)) (\<lambda>v.
     and_then (map_err PX_Serialization (without_field ''report_digest'' ''pixel report is not an object'' v)) (\<lambda>v'.
     map_err PX_Hashing (canonical_json_sha256 (pn_hasher (pxe_png E)) v')))"

definition pixel_layout :: "png_artifact_report \<Rightarrow> png_pixel_error + nat \<times> u64 \<times> nat \<times> nat" where
  "pixel_layout structural =
     and_then (ensure (pa_bit_depth structural = 8) (PX_UnsupportedBitDepth (pa_bit_depth structural))) (\<lambda>_.
     and_then (ensure (pa_interlace_method structural = 0) PX_UnsupportedInterlace) (\<lambda>_.
     and_then (case pa_color_type structural of Truecolor \<Rightarrow> Inr 3 | TruecolorAlpha \<Rightarrow> Inr 4
       | actual \<Rightarrow> Inl (PX_UnsupportedColorType actual)) (\<lambda>bytes_per_pixel.
     and_then (ensure (unat (pa_width structural) * unat (pa_height structural) < 2 ^ 64) PX_SizeOverflow) (\<lambda>_.
     let pixel_count = (ucast (pa_width structural) * ucast (pa_height structural) :: u64) in
     and_then (ensure (\<not> pixel_count > MAX_PIXELS) PX_PixelLimitExceeded) (\<lambda>_.
     and_then (ok_or (checked_mul_usize (unat (pa_width structural)) bytes_per_pixel) PX_SizeOverflow) (\<lambda>row_bytes.
     and_then (ok_or (Option.bind (checked_add_usize row_bytes 1)
       (\<lambda>row. checked_mul_usize row (unat (pa_height structural)))) PX_SizeOverflow) (\<lambda>scanline_bytes.
     and_then (ensure (\<not> scanline_bytes > MAX_DECODED_SCANLINE_BYTES) PX_DecompressedDataLimitExceeded) (\<lambda>_.
     Inr (bytes_per_pixel, pixel_count, row_bytes, scanline_bytes)))))))))"

definition decode_png_bytes :: "png_pixel_env \<Rightarrow> u8 list \<Rightarrow> png_pixel_error + decoded_png" where
  "decode_png_bytes E bytes =
     and_then (map_err PX_Png (inspect_png_bytes (pxe_png E) bytes)) (\<lambda>structural.
     and_then (pixel_layout structural) (\<lambda>(bytes_per_pixel, pixel_count, row_bytes, scanline_bytes).
     and_then (collect_idat_payload bytes) (\<lambda>idat.
     and_then (decompress_exact E idat scanline_bytes) (\<lambda>scanlines.
     and_then (unfilter_scanlines scanlines (unat (pa_width structural)) (unat (pa_height structural))
       bytes_per_pixel row_bytes) (\<lambda>(unfiltered, filter_counts).
     and_then (convert_to_rgba unfiltered (pa_color_type structural) pixel_count) (\<lambda>rgba8.
     and_then (non_opaque_pixels rgba8) (\<lambda>non_opaque.
     and_then (ensure (bytes_per_pixel < 2 ^ 8) PX_SizeOverflow) (\<lambda>_.
     let report = \<lparr>
       px_schema_version = ''0.1.0'',
       px_artifact_digest = pa_artifact_digest structural,
       px_validator_report_digest = pa_report_digest structural,
       px_width = pa_width structural,
       px_height = pa_height structural,
       px_color_type = pa_color_type structural,
       px_bit_depth = pa_bit_depth structural,
       px_interlace_method = pa_interlace_method structural,
       px_bytes_per_pixel = of_nat bytes_per_pixel,
       px_row_bytes = of_nat row_bytes,
       px_pixel_count = pixel_count,
       px_non_opaque_pixel_count = of_nat non_opaque,
       px_idat_payload_digest = sha256_hex (pn_hasher (pxe_png E)) idat,
       px_decompressed_scanline_digest = sha256_hex (pn_hasher (pxe_png E)) scanlines,
       px_rgba_pixel_digest = sha256_hex (pn_hasher (pxe_png E)) rgba8,
       px_filter_counts = filter_counts,
       px_report_digest = []\<rparr> in
     and_then (pixel_report_digest E report) (\<lambda>digest.
     Inr \<lparr>dp_report = report\<lparr>px_report_digest := digest\<rparr>, dp_rgba8 = rgba8\<rparr>)))))))))"

definition pixel :: "decoded_png \<Rightarrow> u32 \<Rightarrow> u32 \<Rightarrow> u8 list option" where
  "pixel d x y =
     (if x \<ge> px_width (dp_report d) \<or> y \<ge> px_height (dp_report d) then None
      else Option.bind (checked_mul_usize (unat y) (unat (px_width (dp_report d)))) (\<lambda>row.
        Option.bind (checked_add_usize row (unat x)) (\<lambda>position.
        Option.bind (checked_mul_usize position 4) (\<lambda>index.
        Option.bind (checked_add_usize index 4) (\<lambda>to.
        if to \<le> length (dp_rgba8 d) then Some (sub_slice (dp_rgba8 d) index to) else None)))))"

section \<open>The image data of a printed chunk sequence\<close>

lemma idat_step_printed:
  assumes wf: "chunk_wf c" and small: "length (pre @ chunk_bytes c @ post) < 2 ^ 64"
    and limit: "length idat + length (ch_data c) \<le> MAX_IDAT_PAYLOAD_BYTES"
  shows "idat_step (pre @ chunk_bytes c @ post) (length pre) idat =
    Inr (length pre + length (chunk_bytes c), idat @ (if chunk_kind c = ''IDAT'' then ch_data c else []))"
proof -
  let ?bytes = "pre @ chunk_bytes c @ post" and ?o = "length pre" and ?n = "length (ch_data c)"
  note len = chunk_wf_length [OF wf]
  have t: "length (ch_type c) = 4" using wf by (simp add: chunk_wf_def)
  have s1: "sub_slice ?bytes ?o (?o + 4) = u32_to_be_bytes (ch_length c)"
    using slice_append [of pre ?o "?o + 4" "u32_to_be_bytes (ch_length c)"] by (simp add: chunk_bytes_def u32_be_bytes_4)
  have s2: "sub_slice ?bytes (?o + 4) (?o + 8) = ch_type c"
    using slice_append [of "pre @ u32_to_be_bytes (ch_length c)" "?o + 4" "?o + 8" "ch_type c"] t
    by (simp add: chunk_bytes_def u32_be_bytes_4)
  have s3: "sub_slice ?bytes (?o + 8) (?o + 8 + ?n) = ch_data c"
    using slice_append [of "pre @ u32_to_be_bytes (ch_length c) @ ch_type c" "?o + 8" "?o + 8 + ?n" "ch_data c"] t
    by (simp add: chunk_bytes_def u32_be_bytes_4)
  have fits: "?o + 8 < 2 ^ 64" "?o + 8 + ?n < 2 ^ 64" "?o + 8 + ?n + 4 < 2 ^ 64" using small len(2) by auto
  have "length idat + ?n < 2 ^ 64" using limit by (simp add: MAX_IDAT_PAYLOAD_BYTES_def)
  then show ?thesis
    unfolding idat_step_def using len fits limit by (simp add: s1 s2 s3 Let_def)
qed

lemma collect_idat_printed:
  assumes "\<forall>c\<in>set cs. chunk_wf c" "length (pre @ concat (map chunk_bytes cs)) < 2 ^ 64"
    "length idat + length (concat (map chunk_bytes cs)) \<le> MAX_IDAT_PAYLOAD_BYTES"
  shows "collect_idat (pre @ concat (map chunk_bytes cs)) (length pre) idat = Inr (idat @ image_data cs)"
  using assms
proof (induction cs arbitrary: pre idat)
  case Nil
  then show ?case by (simp add: collect_idat.simps)
next
  case (Cons c cs)
  let ?rest = "concat (map chunk_bytes cs)" and ?idat = "idat @ (if chunk_kind c = ''IDAT'' then ch_data c else [])"
  have wf: "chunk_wf c" and rest_wf: "\<forall>c\<in>set cs. chunk_wf c" using Cons.prems by simp_all
  note len = chunk_wf_length(2) [OF wf]
  have step: "idat_step (pre @ chunk_bytes c @ ?rest) (length pre) idat = Inr (length pre + length (chunk_bytes c), ?idat)"
    using wf Cons.prems(2,3) len by (intro idat_step_printed) simp_all
  have "collect_idat (pre @ chunk_bytes c @ ?rest) (length pre + length (chunk_bytes c)) ?idat = Inr (?idat @ image_data cs)"
    using Cons.IH [OF rest_wf, of "pre @ chunk_bytes c" ?idat] Cons.prems(2,3) len by simp
  then show ?case using len by (subst collect_idat.simps) (simp add: step)
qed

text \<open>The second parser agrees with the inspector: an inspected file has exactly its image data.\<close>

lemma inspected_image_data:
  assumes "inspect_png_bytes E bytes = Inr report"
  obtains cs where "bytes = png_bytes cs" "\<forall>c\<in>set cs. chunk_wf c" "image_data cs \<noteq> []"
    "collect_idat_payload bytes = Inr (image_data cs)"
proof -
  from assms obtain cs st where cs: "bytes = png_bytes cs" "\<forall>c\<in>set cs. chunk_wf c" "length bytes \<le> MAX_PNG_BYTES"
    and run: "run_chunks cs inspection_start = Inr st" and fin: "finish_inspection E bytes st = Inr report"
    unfolding inspect_png_bytes_iff by blast
  have "unat (is_idat_payload_bytes st) = length (image_data cs)"
    using run_chunks_payload [OF run cs(2)] length_image_data [OF cs(2)] cs(1,3)
    by (simp add: inspection_start_def png_bytes_def MAX_PNG_BYTES_def)
  moreover have "is_idat_payload_bytes st \<noteq> 0" using fin by (auto simp: finish_inspection_def result_simps)
  ultimately have data: "image_data cs \<noteq> []" by (auto simp: unat_eq_zero)
  have "length (concat (map chunk_bytes cs)) \<le> MAX_IDAT_PAYLOAD_BYTES"
    using cs(1,3) by (simp add: png_bytes_def MAX_PNG_BYTES_def MAX_IDAT_PAYLOAD_BYTES_def)
  then have "collect_idat (png_bytes cs) (length PNG_SIGNATURE) [] = Inr (image_data cs)"
    using collect_idat_printed [OF cs(2), of PNG_SIGNATURE "[]"] cs(1,3)
    by (simp add: png_bytes_def MAX_PNG_BYTES_def)
  then have "collect_idat_payload bytes = Inr (image_data cs)"
    using data slice_append [of "[]" 0 "length PNG_SIGNATURE" PNG_SIGNATURE "concat (map chunk_bytes cs)"]
    by (simp add: collect_idat_payload_def cs(1) png_bytes_def)
  with cs data show ?thesis by (intro that)
qed

section \<open>Filters\<close>

text \<open>
  The filters of the format, as the PNG standard defines them: a byte less its prediction,
  modulo 256, where the prediction is computed in the integers from the byte of the pixel to
  the left, the byte above and the byte above the left one, each 0 outside the image. The
  Paeth prediction is the first of these three that is nearest to left plus above minus
  upper left.
\<close>

datatype (plugins only: code size) png_filter = Filter_None | Filter_Sub | Filter_Up | Filter_Average | Filter_Paeth

fun filter_code :: "png_filter \<Rightarrow> u8" where
  "filter_code Filter_None = 0"
| "filter_code Filter_Sub = 1"
| "filter_code Filter_Up = 2"
| "filter_code Filter_Average = 3"
| "filter_code Filter_Paeth = 4"

fun prediction :: "png_filter \<Rightarrow> int \<Rightarrow> int \<Rightarrow> int \<Rightarrow> int" where
  "prediction Filter_None a b c = 0"
| "prediction Filter_Sub a b c = a"
| "prediction Filter_Up a b c = b"
| "prediction Filter_Average a b c = (a + b) div 2"
| "prediction Filter_Paeth a b c = hd (sort_key (\<lambda>x. \<bar>a + b - c - x\<bar>) [a, b, c])"

definition sample :: "u8 list \<Rightarrow> int \<Rightarrow> int" where
  "sample row i = (if 0 \<le> i \<and> i < int (length row) then uint (row ! nat i) else 0)"

definition filter_row :: "png_filter \<Rightarrow> nat \<Rightarrow> u8 list \<Rightarrow> u8 list \<Rightarrow> u8 list" where
  "filter_row F bpp previous row = map (\<lambda>i. word_of_int
     ((sample row i - prediction F (sample row (i - int bpp)) (sample previous i) (sample previous (i - int bpp))) mod 256))
     [0..int (length row) - 1]"

fun filter_rows :: "nat \<Rightarrow> u8 list \<Rightarrow> (png_filter \<times> u8 list) list \<Rightarrow> u8 list" where
  "filter_rows bpp previous [] = []"
| "filter_rows bpp previous ((F, row) # rows) = filter_code F # filter_row F bpp previous row @ filter_rows bpp row rows"

lemma filter_code_bound [simp]: "filter_code F \<le> 4" "unat (filter_code F) < 5"
  by (cases F; simp)+

lemma paeth_is_nearest: "uint (paeth a b c) = hd (sort_key (\<lambda>x. \<bar>uint a + uint b - uint c - x\<bar>) [uint a, uint b, uint c])"
  by (auto simp: paeth_def Let_def)

lemma average_is_floor:
  fixes a b :: u8
  shows "uint (ucast ((ucast a + ucast b :: u16) div 2) :: u8) = (uint a + uint b) div 2"
proof -
  have r: "uint a < 256" "uint b < 256" "0 \<le> uint a" "0 \<le> uint b"
    using unsigned_less [of a, where ?'a = int] unsigned_less [of b, where ?'a = int] by simp_all
  have "uint (ucast a + ucast b :: u16) = uint a + uint b"
    using r by (simp add: uint_word_ariths unsigned_ucast_eq take_bit_int_eq_self)
  then have "uint ((ucast a + ucast b :: u16) div 2) = (uint a + uint b) div 2" by (simp add: uint_div)
  moreover have "(uint a + uint b) div 2 < 256" "0 \<le> (uint a + uint b) div 2" using r by linarith+
  ultimately show ?thesis by (simp add: unsigned_ucast_eq take_bit_int_eq_self)
qed

lemma predictor_follows_standard:
  "\<exists>p. predictor (filter_code F) a b c = Inr p \<and> uint p = prediction F (uint a) (uint b) (uint c)"
  by (cases F) (simp_all add: predictor_def average_is_floor paeth_is_nearest)

text \<open>What the loop over the bytes of a row does with buffers of the length of the row.\<close>

definition byte_left :: "nat \<Rightarrow> u8 list \<Rightarrow> nat \<Rightarrow> u8" where
  "byte_left bpp row i = (if i \<ge> bpp then row ! (i - bpp) else 0)"

lemma byte_before_ok: "i < length row \<Longrightarrow> byte_before bpp row i = Inr (byte_left bpp row i)"
  by (simp add: byte_before_def byte_left_def)

lemma unfilter_byte_ok:
  assumes "i < length current" "i < length previous" "i < length filtered"
  shows "unfilter_byte f bpp previous filtered current i =
    and_then (predictor f (byte_left bpp current i) (previous ! i) (byte_left bpp previous i))
      (\<lambda>p. Inr (current[i := filtered ! i + p]))"
  using assms by (simp add: unfilter_byte_def byte_before_ok)

lemma uint_byte_left: "i < length row \<Longrightarrow> uint (byte_left bpp row i) = sample row (int i - int bpp)"
  by (auto simp: byte_left_def sample_def nat_diff_distrib)

lemma length_filter_row [simp]: "length (filter_row F bpp previous row) = length row"
  by (simp add: filter_row_def)

lemma filter_row_nth:
  assumes "i < length row" "length previous = length row"
    "predictor (filter_code F) (byte_left bpp row i) (previous ! i) (byte_left bpp previous i) = Inr p"
  shows "filter_row F bpp previous row ! i + p = row ! i"
proof -
  have "uint p = prediction F (sample row (int i - int bpp)) (sample previous (int i)) (sample previous (int i - int bpp))"
    using predictor_follows_standard [of F "byte_left bpp row i" "previous ! i" "byte_left bpp previous i"] assms
    by (simp add: uint_byte_left [symmetric]) (simp add: sample_def)
  then have "filter_row F bpp previous row ! i = word_of_int ((uint (row ! i) - uint p) mod 256)"
    using assms(1) by (simp add: filter_row_def) (simp add: sample_def)
  also have "\<dots> = row ! i - p"
    by (simp add: word_eq_iff_unsigned [where ?'a = int] unsigned_of_int uint_word_ariths take_bit_eq_mod)
  finally show ?thesis by simp
qed

lemma unfilter_filter_prefix:
  assumes "0 < bpp" "length previous = length row" "k \<le> length row"
  shows "try_fold (unfilter_byte (filter_code F) bpp previous (filter_row F bpp previous row)) (replicate (length row) 0) [0..<k] =
    Inr (take k row @ replicate (length row - k) 0)"
  using assms(3)
proof (induction k)
  case (Suc k)
  let ?cur = "take k row @ replicate (length row - k) 0"
  have k: "k < length row" using Suc.prems by simp
  obtain p where p: "predictor (filter_code F) (byte_left bpp row k) (previous ! k) (byte_left bpp previous k) = Inr p"
    using predictor_follows_standard by blast
  have "byte_left bpp ?cur k = byte_left bpp row k" using k assms(1) by (simp add: byte_left_def nth_append)
  then have "unfilter_byte (filter_code F) bpp previous (filter_row F bpp previous row) ?cur k = Inr (?cur[k := row ! k])"
    using k assms(2) p filter_row_nth [OF k assms(2) p] by (simp add: unfilter_byte_ok)
  also have "?cur[k := row ! k] = take (Suc k) row @ replicate (length row - Suc k) 0"
    using k by (simp add: list_update_append take_Suc_conv_app_nth Suc_diff_Suc [symmetric])
  finally show ?case using Suc by (simp add: try_fold_append)
qed simp

lemma unfilter_filter_row:
  "0 < bpp \<Longrightarrow> length previous = length row \<Longrightarrow>
   unfilter_row (filter_code F) bpp (length row) previous (filter_row F bpp previous row) (replicate (length row) 0) = Inr row"
  using unfilter_filter_prefix [of bpp previous row "length row" F] by (simp add: unfilter_row_def)

lemma unfilter_row_total:
  assumes "f \<le> 4" "length previous = n" "length filtered = n" "length current = n"
  shows "\<exists>row. unfilter_row f bpp n previous filtered current = Inr row \<and> length row = n"
proof -
  have p: "\<exists>p. predictor f a b c = Inr p" for a b c
  proof -
    have "unat f \<in> {0, 1, 2, 3, 4}" using assms(1) by (auto simp: word_le_nat_alt)
    then have "f \<in> of_nat ` {0, 1, 2, 3, 4}" by (rule rev_image_eqI) simp
    then show ?thesis by (auto simp: predictor_def)
  qed
  have "\<exists>row. try_fold (unfilter_byte f bpp previous filtered) current is = Inr row \<and> length row = n"
    if "set is \<subseteq> {..<n}" for "is"
    using that assms(4)
  proof (induction "is" arbitrary: current)
    case (Cons i "is")
    obtain p where "predictor f (byte_left bpp current i) (previous ! i) (byte_left bpp previous i) = Inr p" using p by blast
    then show ?case using Cons assms(2,3) by (simp add: unfilter_byte_ok)
  qed simp
  then show ?thesis by (simp add: unfilter_row_def atLeast0LessThan)
qed

section \<open>Scanlines\<close>

lemma length_filter_rows:
  "\<forall>(f, row)\<in>set rows. length row = n \<Longrightarrow> length (filter_rows bpp previous rows) = length rows * (n + 1)"
  by (induction rows arbitrary: previous) auto

text \<open>The buffers of the loop have the length of a row, and the one to fill holds zeros.\<close>

definition buffers_ok :: "nat \<Rightarrow> unfiltering \<Rightarrow> bool" where
  "buffers_ok n st \<longleftrightarrow> length (uf_previous st) = n \<and> uf_current st = replicate n 0 \<and> length (uf_filter_counts st) = 5"

lemma unfilter_step_ok:
  assumes "buffers_ok n st" "row * (n + 1) + 1 + n \<le> length scan" "length scan < 2 ^ 64" "scan ! (row * (n + 1)) \<le> 4"
  shows "unfilter_step scan bpp n st row =
    and_then (unfilter_row (scan ! (row * (n + 1))) bpp n (uf_previous st)
        (sub_slice scan (row * (n + 1) + 1) (row * (n + 1) + 1 + n)) (replicate n 0))
      (\<lambda>current. Inr \<lparr>uf_output = uf_output st @ current, uf_previous = current, uf_current = replicate n 0,
         uf_filter_counts = (uf_filter_counts st)[unat (scan ! (row * (n + 1))) :=
           saturating_add (uf_filter_counts st ! unat (scan ! (row * (n + 1)))) 1]\<rparr>)"
proof -
  have "unat (scan ! (row * (n + 1))) < 5" using assms(4) by (simp add: word_le_nat_alt)
  moreover have "checked_mul_usize row (n + 1) = Some (row * (n + 1))" "n + 1 < 2 ^ 64"
    "row * (n + 1) + 1 < 2 ^ 64" "row * (n + 1) + 1 + n < 2 ^ 64"
    using assms(2,3) by (simp_all add: checked_mul_usize_def)
  ultimately show ?thesis using assms by (simp add: unfilter_step_def buffers_ok_def not_less)
qed

lemma unfilter_filter_rows:
  assumes "0 < bpp" "\<forall>(F, row)\<in>set rows. length row = n" "length pre = r * (n + 1)"
    "(r + length rows) * (n + 1) < 2 ^ 64" "buffers_ok n st"
  shows "\<exists>st'. try_fold (unfilter_step (pre @ filter_rows bpp (uf_previous st) rows) bpp n) st [r..<r + length rows] = Inr st' \<and>
    uf_output st' = uf_output st @ concat (map snd rows)"
  using assms(2-)
proof (induction rows arbitrary: pre r st)
  case (Cons fr rows)
  obtain F row where fr: "fr = (F, row)" by fastforce
  have row: "length row = n" and rows: "\<forall>(F, row)\<in>set rows. length row = n" using Cons.prems(1) by (auto simp: fr)
  let ?prev = "uf_previous st"
  let ?scan = "pre @ filter_rows bpp ?prev (fr # rows)" and ?pre = "pre @ filter_code F # filter_row F bpp ?prev row"
  have scan: "?scan = ?pre @ filter_rows bpp row rows" by (simp add: fr)
  have prev: "length ?prev = length row" using Cons.prems(4) row by (simp add: buffers_ok_def)
  have len: "length ?scan = (r + length (fr # rows)) * (n + 1)"
    using length_filter_rows [of "fr # rows" n bpp ?prev] Cons.prems(1,2) by (simp add: algebra_simps)
  have slice: "sub_slice ?scan (length pre + 1) (length pre + 1 + n) = filter_row F bpp ?prev row"
    using slice_append [of "pre @ [filter_code F]" "length pre + 1" "length pre + 1 + n" "filter_row F bpp ?prev row"] row
    by (simp add: fr)
  have at: "?scan ! length pre = filter_code F" by (simp add: nth_append fr)
  have "r * (n + 1) + 1 + n \<le> length ?scan" unfolding len by (simp add: algebra_simps)
  from unfilter_step_ok [OF Cons.prems(4) this, of bpp] obtain counts where
    step: "unfilter_step ?scan bpp n st r =
      Inr \<lparr>uf_output = uf_output st @ row, uf_previous = row, uf_current = replicate n 0, uf_filter_counts = counts\<rparr>"
    and counts: "length counts = 5"
    using slice at len Cons.prems(2-4) unfilter_filter_row [OF assms(1) prev, of F] row
    by (simp add: buffers_ok_def)
  let ?st = "\<lparr>uf_output = uf_output st @ row, uf_previous = row, uf_current = replicate n 0, uf_filter_counts = counts\<rparr>"
  have rng: "[r..<r + length (fr # rows)] = r # [Suc r..<Suc r + length rows]" by (simp add: upt_rec)
  have "\<exists>st'. try_fold (unfilter_step (?pre @ filter_rows bpp (uf_previous ?st) rows) bpp n) ?st [Suc r..<Suc r + length rows] = Inr st' \<and>
      uf_output st' = uf_output ?st @ concat (map snd rows)"
    using Cons.prems(2,3) row counts rows by (intro Cons.IH) (simp_all add: buffers_ok_def)
  then show ?case unfolding rng by (simp only: try_fold.simps step and_then_simps) (simp add: scan fr)
qed simp

text \<open>Any scanlines of the right length are unfiltered without a panic; only a filter type can be invalid.\<close>

lemma unfilter_step_total:
  assumes "length scan = height * (n + 1)" "height * (n + 1) < 2 ^ 64" "row < height" "buffers_ok n st"
  shows "(\<exists>f. unfilter_step scan bpp n st row = Inl (PX_InvalidFilter f)) \<or>
    (\<exists>st'. unfilter_step scan bpp n st row = Inr st' \<and> buffers_ok n st' \<and> length (uf_output st') = length (uf_output st) + n)"
proof -
  let ?at = "row * (n + 1)"
  have "(row + 1) * (n + 1) \<le> height * (n + 1)" using assms(3) by (intro mult_le_mono1) simp
  then have bound: "?at + 1 + n \<le> length scan" using assms(1) by simp
  show ?thesis
  proof (cases "scan ! ?at \<le> 4")
    case True
    have "length (sub_slice scan (?at + 1) (?at + 1 + n)) = n" using bound by (simp add: length_slice)
    moreover have "length (uf_previous st) = n" using assms(4) by (simp add: buffers_ok_def)
    ultimately obtain current where
      "unfilter_row (scan ! ?at) bpp n (uf_previous st) (sub_slice scan (?at + 1) (?at + 1 + n)) (replicate n 0) = Inr current"
      "length current = n" using unfilter_row_total [OF True] by (metis length_replicate)
    then show ?thesis using unfilter_step_ok [OF assms(4) bound _ True, of bpp] assms(1,2,4) by (simp add: buffers_ok_def)
  next
    case False
    have "checked_mul_usize row (n + 1) = Some ?at" "n + 1 < 2 ^ 64" using bound assms(1,2) by (simp_all add: checked_mul_usize_def)
    then show ?thesis using bound False by (simp add: unfilter_step_def not_le)
  qed
qed

lemma unfilter_rows_total:
  assumes "length scan = height * (n + 1)" "height * (n + 1) < 2 ^ 64" "set rows \<subseteq> {..<height}" "buffers_ok n st"
  shows "(\<exists>f. try_fold (unfilter_step scan bpp n) st rows = Inl (PX_InvalidFilter f)) \<or>
    (\<exists>st'. try_fold (unfilter_step scan bpp n) st rows = Inr st' \<and>
       length (uf_output st') = length (uf_output st) + length rows * n)"
  using assms(3,4)
proof (induction rows arbitrary: st)
  case (Cons row rows)
  have row: "row < height" using Cons.prems by simp
  from unfilter_step_total [OF assms(1,2) row Cons.prems(2), of bpp] show ?case
  proof (elim disjE exE conjE)
    fix st'
    assume "unfilter_step scan bpp n st row = Inr st'" "buffers_ok n st'" "length (uf_output st') = length (uf_output st) + n"
    then show ?thesis using Cons.IH [of st'] Cons.prems by (simp add: add.assoc)
  qed simp
qed simp

lemma buffers_start: "buffers_ok n (unfilter_start n)" "uf_output (unfilter_start n) = []" "uf_previous (unfilter_start n) = replicate n 0"
  by (simp_all add: buffers_ok_def unfilter_start_def)

lemma unfilter_scanlines_total:
  assumes "length scan = height * (n + 1)" "height * (n + 1) < 2 ^ 64" "width * bpp = n" "0 < height"
  shows "(\<exists>f. unfilter_scanlines scan width height bpp n = Inl (PX_InvalidFilter f)) \<or>
    (\<exists>output counts. unfilter_scanlines scan width height bpp n = Inr (output, counts) \<and> length output = height * n)"
proof -
  have "n * height \<le> height * (n + 1)" by simp
  from le_less_trans [OF this assms(2)] have mul: "checked_mul_usize n height = Some (n * height)"
    by (simp add: checked_mul_usize_def)
  have "1 * (n + 1) \<le> height * (n + 1)" using assms(4) by (intro mult_le_mono1) simp
  then have "width * bpp < 2 ^ 64" using assms(2,3) by simp
  then have row: "checked_mul_usize width bpp = Some n" using assms(3) by (simp add: checked_mul_usize_def)
  have "set [0..<height] \<subseteq> {..<height}" by auto
  from unfilter_rows_total [OF assms(1,2) this buffers_start(1), of bpp]
  show ?thesis by (auto simp: unfilter_scanlines_def mul row buffers_start)
qed

section \<open>Pixels\<close>

lemma chunks_exact_append:
  "length x = k \<Longrightarrow> 0 < k \<Longrightarrow> chunks_exact k (x @ xs) = x # chunks_exact k xs"
  by (subst chunks_exact.simps) simp

lemma chunks_exact_total:
  assumes "length xs = k * n" "0 < k"
  shows "(\<forall>c\<in>set (chunks_exact k xs). length c = k) \<and> length (chunks_exact k xs) = n \<and> concat (chunks_exact k xs) = xs"
  using assms
proof (induction n arbitrary: xs)
  case 0
  then show ?case by (simp add: chunks_exact.simps)
next
  case (Suc n)
  then have "length (drop k xs) = k * n" by simp
  from Suc.IH [OF this Suc.prems(2)] show ?case using Suc.prems by (subst (1 2 3) chunks_exact.simps) simp
qed

text \<open>The pixels of a buffer of red, green and blue bytes, each with an opaque alpha byte.\<close>

definition opaque_pixels :: "u8 list \<Rightarrow> u8 list" where
  "opaque_pixels rgb = concat (map (\<lambda>pixel. pixel @ [255]) (chunks_exact 3 rgb))"

lemma rgba_pixels_fold:
  "\<forall>c\<in>set cs. length c = 3 \<Longrightarrow> try_fold rgba_pixel acc cs = Inr (acc @ concat (map (\<lambda>pixel. pixel @ [255]) cs))"
proof (induction cs arbitrary: acc)
  case (Cons c cs)
  then obtain r g b where "c = [r, g, b]" by (auto simp: numeral_eq_Suc length_Suc_conv)
  then show ?case using Cons by (simp add: rgba_pixel_def)
qed simp

lemma rgb_to_rgba_ok: "length xs = 3 * n \<Longrightarrow> rgb_to_rgba xs = Inr (opaque_pixels xs)"
  using chunks_exact_total [of xs 3 n] by (simp add: rgb_to_rgba_def opaque_pixels_def rgba_pixels_fold)

lemma length_opaque_pixels: "length xs = 3 * n \<Longrightarrow> length (opaque_pixels xs) = 4 * n"
proof -
  assume "length xs = 3 * n"
  then have c: "\<forall>c\<in>set (chunks_exact 3 xs). length c = 3" "length (chunks_exact 3 xs) = n"
    using chunks_exact_total [of xs 3 n] by simp_all
  have "length (concat (map (\<lambda>pixel. pixel @ [255]) cs)) = 4 * length cs" if "\<forall>c\<in>set cs. length c = 3" for cs :: "u8 list list"
    using that by (induction cs) simp_all
  then show ?thesis using c by (simp add: opaque_pixels_def)
qed

lemma non_opaque_pixels_total: "length rgba = 4 * n \<Longrightarrow> \<exists>k. non_opaque_pixels rgba = Inr k"
proof -
  assume "length rgba = 4 * n"
  then have "\<forall>c\<in>set (chunks_exact 4 rgba). length c = 4" using chunks_exact_total [of rgba 4 n] by simp
  moreover have "\<exists>k. try_fold (\<lambda>n pixel. and_then (index_at pixel 3) (\<lambda>alpha. Inr (if alpha \<noteq> 255 then n + 1 else n))) m cs =
      (Inr k :: png_pixel_error + nat)" if "\<forall>c\<in>set cs. length c = 4" for cs :: "u8 list list" and m
    using that by (induction cs arbitrary: m) simp_all
  ultimately show ?thesis by (simp add: non_opaque_pixels_def)
qed

lemma unat_product:
  fixes w h :: u32
  shows "unat (ucast w * ucast h :: u64) = unat w * unat h"
proof -
  have "unat w < 2 ^ 32" "unat h < 2 ^ 32" using unsigned_less [of w] unsigned_less [of h] by simp_all
  then have "unat w * unat h < 2 ^ 32 * 2 ^ 32" by (intro mult_strict_mono) simp_all
  then show ?thesis by (simp add: unat_word_ariths unat_ucast_widen)
qed

text \<open>The layout of an inspected file: the sizes, all of them small.\<close>

lemma inspected_dimensions:
  assumes "inspect_png_bytes E bytes = Inr report"
  shows "0 < unat (pa_width report)" "unat (pa_width report) \<le> 1000000"
    "0 < unat (pa_height report)" "unat (pa_height report) \<le> 1000000"
proof -
  from assms obtain st cs header where "run_chunks cs inspection_start = Inr st" "is_ihdr st = Some header"
    and sel: "pa_width report = ih_width header" "pa_height report = ih_height header"
    unfolding inspect_png_bytes_iff by (auto simp: finish_inspection_def result_simps Let_def)
  then obtain data where "parse_ihdr data = Inr header"
    using run_chunks_ihdr by (fastforce simp: inspection_start_def)
  note ok = parse_ihdr_ok(2-5) [OF this]
  show "0 < unat (pa_width report)" "0 < unat (pa_height report)"
    using ok by (simp_all add: sel word_less_nat_alt)
  show "unat (pa_width report) \<le> 1000000" "unat (pa_height report) \<le> 1000000"
    using ok by (simp_all add: sel word_le_nat_alt MAX_DIMENSION_def)
qed

lemma layout_sizes:
  assumes "w \<le> (1000000 :: nat)" "h \<le> 1000000" "bpp \<le> 4"
  shows "w * bpp < 2 ^ 64" "w * bpp + 1 < 2 ^ 64" "(w * bpp + 1) * h < 2 ^ 64" "w * h < 2 ^ 64" "w * h * 4 < 2 ^ 64" "(w * bpp + 1) * h + 1 < 2 ^ 64"
proof -
  have row: "w * bpp \<le> 1000000 * 4" and area: "w * h \<le> 1000000 * 1000000" using assms by (intro mult_le_mono; simp)+
  have all_rows: "(w * bpp + 1) * h \<le> (1000000 * 4 + 1) * 1000000" using row assms(2) by (intro mult_le_mono) simp_all
  show "w * bpp < 2 ^ 64" "w * bpp + 1 < 2 ^ 64" using row by simp_all
  show "(w * bpp + 1) * h < 2 ^ 64" by (rule le_less_trans [OF all_rows]) simp
  show "(w * bpp + 1) * h + 1 < 2 ^ 64" by (rule le_less_trans [OF add_right_mono [OF all_rows]]) simp
  show "w * h < 2 ^ 64" by (rule le_less_trans [OF area]) simp
  show "w * h * 4 < 2 ^ 64" by (rule le_less_trans [OF mult_le_mono1 [OF area]]) simp
qed

lemma pixel_layout_cases:
  assumes "inspect_png_bytes E bytes = Inr report"
  obtains (refused) e where "pixel_layout report = Inl e"
      "e \<in> {PX_UnsupportedBitDepth (pa_bit_depth report), PX_UnsupportedInterlace,
         PX_UnsupportedColorType (pa_color_type report), PX_PixelLimitExceeded, PX_DecompressedDataLimitExceeded}"
  | (laid_out) bpp where "pa_color_type report = Truecolor \<and> bpp = 3 \<or> pa_color_type report = TruecolorAlpha \<and> bpp = 4"
      "pa_bit_depth report = 8" "pa_interlace_method report = 0" "unat (pa_width report) * unat (pa_height report) \<le> 100000000"
      "pixel_layout report = Inr (bpp, ucast (pa_width report) * ucast (pa_height report), unat (pa_width report) * bpp,
         (unat (pa_width report) * bpp + 1) * unat (pa_height report))"
proof -
  let ?w = "unat (pa_width report)" and ?h = "unat (pa_height report)"
  note dims = inspected_dimensions [OF assms]
  have sizes: "checked_mul_usize ?w bpp = Some (?w * bpp)" "checked_add_usize (?w * bpp) 1 = Some (?w * bpp + 1)"
    "checked_mul_usize (?w * bpp + 1) ?h = Some ((?w * bpp + 1) * ?h)" if "bpp \<le> 4" for bpp
    using layout_sizes [OF dims(2,4) that] by (simp_all add: checked_mul_usize_def)
  have "?w * ?h < 2 ^ 64" using layout_sizes(4) [OF dims(2,4), of 0] by simp
  moreover have limit: "ucast (pa_width report) * ucast (pa_height report) \<le> MAX_PIXELS \<longleftrightarrow> ?w * ?h \<le> 100000000"
    by (simp add: word_le_nat_alt unat_product MAX_PIXELS_def)
  ultimately have eq: "pixel_layout report =
      (if pa_bit_depth report \<noteq> 8 then Inl (PX_UnsupportedBitDepth (pa_bit_depth report))
       else if pa_interlace_method report \<noteq> 0 then Inl PX_UnsupportedInterlace
       else if pa_color_type report \<notin> {Truecolor, TruecolorAlpha} then Inl (PX_UnsupportedColorType (pa_color_type report))
       else if \<not> ?w * ?h \<le> 100000000 then Inl PX_PixelLimitExceeded
       else let bpp = (if pa_color_type report = Truecolor then 3 else 4) in
         if (?w * bpp + 1) * ?h > MAX_DECODED_SCANLINE_BYTES then Inl PX_DecompressedDataLimitExceeded
         else Inr (bpp, ucast (pa_width report) * ucast (pa_height report), ?w * bpp, (?w * bpp + 1) * ?h))"
    unfolding pixel_layout_def Let_def
    by (cases "pa_color_type report") (simp_all add: sizes sizes [simplified] ensure_def not_less)
  let ?bpp = "if pa_color_type report = Truecolor then 3 else 4 :: nat"
  show ?thesis
  proof (cases "pixel_layout report")
    case (Inl e)
    then show ?thesis by (rule refused) (use Inl in \<open>auto simp: eq Let_def split: if_splits\<close>)
  next
    case (Inr layout)
    show ?thesis by (rule laid_out [of ?bpp]) (use Inr in \<open>auto simp: eq Let_def split: if_splits\<close>)
  qed
qed

lemma convert_to_rgba_total:
  assumes "unat npix = w * h" "w * h * 4 < 2 ^ 64" "length unfiltered = h * (w * bpp)"
    "color = Truecolor \<and> bpp = 3 \<or> color = TruecolorAlpha \<and> bpp = 4"
  shows "\<exists>rgba. convert_to_rgba unfiltered color npix = Inr rgba \<and> length rgba = 4 * (w * h)"
proof -
  have len: "length unfiltered = bpp * (w * h)" using assms(3) by simp
  have mul: "checked_mul_usize (unat npix) 4 = Some (4 * (w * h))" using assms(1,2) by (simp add: checked_mul_usize_def)
  show ?thesis
    using assms(4) len length_opaque_pixels [of unfiltered "w * h"] rgb_to_rgba_ok [of unfiltered "w * h"]
    by (auto simp: convert_to_rgba_def mul)
qed

text \<open>What the decoder does with an inspected file of a supported layout, up to the report.\<close>

lemma decode_cases:
  assumes inspected: "inspect_png_bytes (pxe_png E) bytes = Inr report"
    and layout: "pixel_layout report = Inr (bpp, npix, row_bytes, scanline_bytes)"
  obtains (refused) e where "decode_png_bytes E bytes = Inl e"
      "e \<notin> {PX_Panic, PX_SizeOverflow, PX_MissingImageData, PX_ImageDataLimitExceeded} \<union> range PX_Png"
  | (decoded) cs scanlines unfiltered counts rgba d where "bytes = png_bytes cs"
      "pxe_inflate E (image_data cs) (of_nat (scanline_bytes + 1)) = Inr (scanlines, of_nat (length (image_data cs)))"
      "unfilter_scanlines scanlines (unat (pa_width report)) (unat (pa_height report)) bpp row_bytes = Inr (unfiltered, counts)"
      "convert_to_rgba unfiltered (pa_color_type report) npix = Inr rgba"
      "length rgba = 4 * (unat (pa_width report) * unat (pa_height report))"
      "decode_png_bytes E bytes = Inr d" "dp_rgba8 d = rgba" "px_width (dp_report d) = pa_width report"
      "px_height (dp_report d) = pa_height report" "px_filter_counts (dp_report d) = counts"
      "px_rgba_pixel_digest (dp_report d) = sha256_hex (pn_hasher (pxe_png E)) rgba"
      "length unfiltered = 3 * (unat (pa_width report) * unat (pa_height report)) \<or> bpp = 4"
proof -
  let ?w = "unat (pa_width report)" and ?h = "unat (pa_height report)"
  note dims = inspected_dimensions [OF inspected]
  from inspected layout have bpp: "pa_color_type report = Truecolor \<and> bpp = 3 \<or> pa_color_type report = TruecolorAlpha \<and> bpp = 4"
    and eqs: "npix = ucast (pa_width report) * ucast (pa_height report)" "row_bytes = ?w * bpp"
      "scanline_bytes = (?w * bpp + 1) * ?h"
    by (cases rule: pixel_layout_cases [OF inspected]; auto)+
  have "bpp \<le> 4" using bpp by auto
  note sizes = layout_sizes [OF dims(2,4) this]
  obtain cs where cs: "bytes = png_bytes cs" "collect_idat_payload bytes = Inr (image_data cs)"
    using inspected by (rule inspected_image_data)
  show ?thesis
  proof (cases "decompress_exact E (image_data cs) scanline_bytes")
    case (Inl e)
    have "scanline_bytes + 1 < 2 ^ 64" using sizes(6) by (simp add: eqs(3))
    then have "e \<notin> {PX_Panic, PX_SizeOverflow, PX_MissingImageData, PX_ImageDataLimitExceeded} \<union> range PX_Png"
      using Inl by (auto simp: decompress_exact_def result_simps)
    then show ?thesis
      using Inl inspected layout cs(2) by (intro refused [of e]) (simp_all add: decode_png_bytes_def)
  next
    case (Inr scanlines)
    then obtain total_in where "pxe_inflate E (image_data cs) (of_nat (scanline_bytes + 1)) = Inr (scanlines, total_in)"
        "unat total_in = length (image_data cs)"
      and len: "length scanlines = ?h * (?w * bpp + 1)"
      by (auto simp: decompress_exact_def result_simps eqs(3))
    moreover have "total_in = of_nat (unat total_in)" by simp
    ultimately have infl: "pxe_inflate E (image_data cs) (of_nat (scanline_bytes + 1)) =
        Inr (scanlines, of_nat (length (image_data cs)))" by metis
    have fits: "?h * (?w * bpp + 1) < 2 ^ 64" using sizes(3) by (simp add: mult.commute)
    from unfilter_scanlines_total [OF len fits refl dims(3)]
    show ?thesis
    proof (elim disjE exE conjE)
      fix f
      assume "unfilter_scanlines scanlines ?w ?h bpp (?w * bpp) = Inl (PX_InvalidFilter f)"
      then show ?thesis
        using Inr inspected layout cs(2) by (intro refused [of "PX_InvalidFilter f"]) (auto simp: decode_png_bytes_def eqs(2))
    next
      fix unfiltered counts
      assume unf: "unfilter_scanlines scanlines ?w ?h bpp (?w * bpp) = Inr (unfiltered, counts)"
        "length unfiltered = ?h * (?w * bpp)"
      obtain rgba where rgba: "convert_to_rgba unfiltered (pa_color_type report) npix = Inr rgba" "length rgba = 4 * (?w * ?h)"
        using convert_to_rgba_total [OF unat_product [of "pa_width report" "pa_height report"] sizes(5) unf(2) bpp]
        by (auto simp: eqs(1))
      obtain k where k: "non_opaque_pixels rgba = Inr k" "bpp < 2 ^ 8" using non_opaque_pixels_total [OF rgba(2)] bpp by auto
      show ?thesis
      proof (cases "decode_png_bytes E bytes")
        case (Inl e)
        moreover from this have "e \<in> range PX_Serialization \<union> range PX_Hashing"
          using Inr inspected layout cs(2) unf(1) rgba(1) k
          by (auto simp: decode_png_bytes_def eqs(2) Let_def result_simps pixel_report_digest_def)
        ultimately show ?thesis by (intro refused [of e]) auto
      next
        case res: (Inr d)
        show ?thesis
          by (rule decoded [OF cs(1) infl unf(1) [folded eqs(2)] rgba res])
            (use res Inr inspected layout cs(2) unf rgba(1) bpp in
              \<open>auto simp: decode_png_bytes_def eqs(2) Let_def result_simps\<close>)
      qed
    qed
  qed
qed

lemma sub_slice_nth: "i + n \<le> length xs \<Longrightarrow> sub_slice xs i (i + n) = map (\<lambda>k. xs ! (i + k)) [0..<n]"
  by (rule nth_equalityI) (simp_all add: sub_slice_def)

lemma pixel_at:
  assumes len: "length (dp_rgba8 d) = 4 * (unat (px_width (dp_report d)) * unat (px_height (dp_report d)))"
    and small: "unat (px_width (dp_report d)) * unat (px_height (dp_report d)) \<le> 100000000"
  shows "pixel d x y =
      (if x < px_width (dp_report d) \<and> y < px_height (dp_report d)
       then Some (map (\<lambda>k. dp_rgba8 d ! (4 * (unat y * unat (px_width (dp_report d)) + unat x) + k)) [0..<4])
       else None)"
proof (cases "x < px_width (dp_report d) \<and> y < px_height (dp_report d)")
  case True
  let ?w = "unat (px_width (dp_report d))" and ?h = "unat (px_height (dp_report d))"
  let ?at = "unat y * ?w + unat x"
  have "unat x < ?w" "unat y < ?h" using True by (simp_all add: word_less_nat_alt)
  then have "Suc (unat y) * ?w \<le> ?h * ?w" by (intro mult_le_mono1) simp
  with \<open>unat x < ?w\<close> have at: "?at < ?w * ?h" by (simp add: mult.commute)
  have "?at < 100000000" using at small by (rule less_le_trans)
  then have bounds: "unat y * ?w < 2 ^ 64" "?at < 2 ^ 64" "?at * 4 < 2 ^ 64" "?at * 4 + 4 < 2 ^ 64" by simp_all
  have inside: "?at * 4 + 4 \<le> length (dp_rgba8 d)" using at len by simp
  from inside sub_slice_nth [of "?at * 4" 4 "dp_rgba8 d"] have
    "sub_slice (dp_rgba8 d) (?at * 4) (?at * 4 + 4) = map (\<lambda>k. dp_rgba8 d ! (4 * ?at + k)) [0..<4]"
    by (simp add: mult.commute)
  then show ?thesis
    using True bounds inside unfolding pixel_def checked_mul_usize_def checked_add_usize_def by (simp add: not_le)
next
  case False
  then show ?thesis by (auto simp: pixel_def not_less)
qed

section \<open>Properties\<close>

text \<open>A decoder for the image of one pixel: its data decompresses to one unfiltered row.\<close>

definition demo_pixel_env :: png_pixel_env where
  "demo_pixel_env = \<lparr>pxe_png = demo_png_env,
     pxe_inflate = (\<lambda>idat limit. Inr ([0, 10, 20, 30], of_nat (length idat))),
     pxe_report_value = (\<lambda>_. Inr (JObject []))\<rparr>"

lemma demo_pixel_layout: "pixel_layout demo_png_report = Inr (3, 1, 3, 4)"
  by (simp add: pixel_layout_def demo_png_finished MAX_PIXELS_def MAX_DECODED_SCANLINE_BYTES_def
      checked_mul_usize_def checked_add_usize_def Let_def)

lemma demo_png_decoded:
  obtains d where "decode_png_bytes demo_pixel_env (png_bytes demo_chunks) = Inr d"
proof -
  obtain cs where cs: "png_bytes demo_chunks = png_bytes cs" "\<forall>c\<in>set cs. chunk_wf c"
    and "collect_idat_payload (png_bytes demo_chunks) = Inr (image_data cs)"
    using demo_png_inspected by (rule inspected_image_data)
  moreover have "unfilter_scanlines [0, 10, 20, 30] 1 1 3 3 = Inr ([10, 20, 30], [1, 0, 0, 0, 0])"
  proof -
    have "unfilter_row 0 3 3 [0, 0, 0] [10, 20, 30] [0, 0, 0] = Inr [10, 20, 30]"
      by (simp add: unfilter_row_def unfilter_byte_ok predictor_def upt_rec)
    moreover have "replicate 3 0 = [0, 0, 0 :: u8]" "replicate 5 0 = [0, 0, 0, 0, 0 :: u64]" by (simp_all add: numeral_eq_Suc)
    ultimately show ?thesis
      by (simp add: unfilter_scanlines_def checked_mul_usize_def unfilter_start_def unfilter_step_def sub_slice_def
          saturating_add_code)
  qed
  moreover have "convert_to_rgba [10, 20, 30] Truecolor 1 = Inr [10, 20, 30, 255]"
    by (simp add: convert_to_rgba_def checked_mul_usize_def rgb_to_rgba_def chunks_exact.simps rgba_pixel_def)
  moreover have "non_opaque_pixels [10, 20, 30, 255] = Inr 0" by (simp add: non_opaque_pixels_def chunks_exact.simps)
  moreover have "length (image_data cs) < 2 ^ 64"
  proof -
    have "length (png_bytes demo_chunks) < 2 ^ 64"
      by (simp add: png_bytes_def demo_chunks_def chunk_bytes_def u32_be_bytes_4 PNG_SIGNATURE_def)
    then show ?thesis using length_image_data [OF cs(2)] by (simp add: cs(1)) (simp add: png_bytes_def)
  qed
  ultimately show ?thesis
    using demo_png_inspected that
    by (simp add: decode_png_bytes_def demo_pixel_env_def demo_pixel_layout demo_png_finished decompress_exact_def
        pixel_report_digest_def without_field_def canonical_json_sha256_def canonical_json_bytes_def demo_png_env_def
        demo_hasher_def Let_def unat_of_nat)
qed

text \<open>
  C33: the decoder's own code never panics and none of its size computations overflows,
  whatever the input and whatever the decompression returns: every index and every slice it
  takes of the file, the scanlines, the row buffers, the filter counts and the pixels is in
  range, and so is every unchecked sum and difference. Once the inspector has accepted the
  file, the decoder's own reading of the chunks finds the image data, within its limit; the
  only file-format errors it reports are those of the inspector.
\<close>

theorem decoder_never_panics:
  "decode_png_bytes E bytes \<notin> {Inl PX_Panic, Inl PX_SizeOverflow, Inl PX_MissingImageData, Inl PX_ImageDataLimitExceeded} \<and>
   (\<forall>e. decode_png_bytes E bytes = Inl (PX_Png e) \<longleftrightarrow> inspect_png_bytes (pxe_png E) bytes = Inl e)"
proof (cases "inspect_png_bytes (pxe_png E) bytes")
  case (Inl e)
  then show ?thesis by (auto simp: decode_png_bytes_def)
next
  case (Inr report)
  show ?thesis
  proof (cases "pixel_layout report")
    case (Inl e)
    then have "decode_png_bytes E bytes = Inl e" using Inr by (simp add: decode_png_bytes_def)
    moreover have "e \<notin> {PX_Panic, PX_SizeOverflow, PX_MissingImageData, PX_ImageDataLimitExceeded} \<union> range PX_Png"
      using Inl by (cases rule: pixel_layout_cases [OF Inr]) auto
    ultimately show ?thesis using Inr by auto
  next
    case layout: (Inr layout)
    obtain bpp npix row_bytes scanline_bytes where "layout = (bpp, npix, row_bytes, scanline_bytes)" by (metis prod.collapse)
    with layout have "pixel_layout report = Inr (bpp, npix, row_bytes, scanline_bytes)" by simp
    with Inr show ?thesis by (rule decode_cases) (use Inr in auto)
  qed
qed

theorem decoder_never_panics_witness:
  "decode_png_bytes demo_pixel_env [] = Inl (PX_Png PE_InvalidSignature)"
  using decoder_never_panics [of demo_pixel_env "[]"] by (simp add: inspect_png_bytes_def PNG_SIGNATURE_def MAX_PNG_BYTES_def)

text \<open>
  What a decoded image is. Its pixels are four bytes each, width times height of them,
  within the pixel limit; they are converted from the unfiltered scanlines, which are exactly
  what the decompression yields for the whole image data of the chunks; and the pixel at
  a position is the four bytes at its place, row by row, for positions inside the image, and
  none outside.
\<close>

lemma decoded_image:
  assumes "decode_png_bytes E bytes = Inr d"
  shows "\<exists>cs scanlines unfiltered counts row_bytes bpp.
    bytes = png_bytes cs \<and>
    pxe_inflate E (image_data cs) (of_nat ((row_bytes + 1) * unat (px_height (dp_report d)) + 1)) =
      Inr (scanlines, of_nat (length (image_data cs))) \<and>
    row_bytes = unat (px_width (dp_report d)) * bpp \<and>
    unfilter_scanlines scanlines (unat (px_width (dp_report d))) (unat (px_height (dp_report d))) bpp row_bytes =
      Inr (unfiltered, counts) \<and>
    (bpp = 3 \<and> dp_rgba8 d = opaque_pixels unfiltered \<or> bpp = 4 \<and> dp_rgba8 d = unfiltered) \<and>
    length (dp_rgba8 d) = 4 * (unat (px_width (dp_report d)) * unat (px_height (dp_report d))) \<and>
    unat (px_width (dp_report d)) * unat (px_height (dp_report d)) \<le> 100000000 \<and>
    (\<forall>x y. pixel d x y =
      (if x < px_width (dp_report d) \<and> y < px_height (dp_report d)
       then Some (map (\<lambda>k. dp_rgba8 d ! (4 * (unat y * unat (px_width (dp_report d)) + unat x) + k)) [0..<4])
       else None))"
proof -
  from assms obtain report where inspected: "inspect_png_bytes (pxe_png E) bytes = Inr report"
    by (cases "inspect_png_bytes (pxe_png E) bytes") (auto simp: decode_png_bytes_def)
  let ?w = "unat (pa_width report)" and ?h = "unat (pa_height report)"
  from inspected show ?thesis
  proof (cases rule: pixel_layout_cases)
    case (refused e)
    then show ?thesis using assms inspected by (simp add: decode_png_bytes_def)
  next
    case (laid_out bpp)
    from inspected laid_out(5) show ?thesis
    proof (cases rule: decode_cases)
      case (refused e)
      then show ?thesis using assms by simp
    next
      case (decoded cs scanlines unfiltered counts rgba d')
      have d: "d' = d" "dp_rgba8 d = rgba" "px_width (dp_report d) = pa_width report" "px_height (dp_report d) = pa_height report"
        using assms decoded(6-9) by auto
      have conv: "bpp = 3 \<and> rgba = opaque_pixels unfiltered \<or> bpp = 4 \<and> rgba = unfiltered"
        using laid_out(1) decoded(4,12) rgb_to_rgba_ok [of unfiltered "?w * ?h"] by (auto simp: convert_to_rgba_def result_simps)
      have pix: "pixel d x y = (if x < pa_width report \<and> y < pa_height report
          then Some (map (\<lambda>k. rgba ! (4 * (unat y * ?w + unat x) + k)) [0..<4]) else None)" for x y
        using pixel_at [of d x y] decoded(5) laid_out(4) unfolding d by blast
      show ?thesis
        unfolding d by (intro exI conjI allI, rule decoded(1), rule decoded(2), rule HOL.refl, rule decoded(3), rule conv,
          rule decoded(5), rule laid_out(4), rule pix)
    qed
  qed
qed

text \<open>
  C32: reversing the filters is the inverse of applying them as the PNG standard defines them.
  For an image of any number of rows, each filtered with any of the five filter types of the
  standard, whose predictions are computed in the integers, the decoder's loop, with its
  buffers and its byte arithmetic modulo 256, gives back exactly the bytes of the rows.
\<close>

theorem unfilter_inverts_filter:
  assumes "0 < bpp" "\<forall>(F, row)\<in>set rows. length row = width * bpp" "(width * bpp + 1) * length rows < 2 ^ 64" "rows \<noteq> []"
  shows "\<exists>counts. unfilter_scanlines (filter_rows bpp (replicate (width * bpp) 0) rows) width (length rows) bpp (width * bpp) =
    Inr (concat (map snd rows), counts)"
proof -
  let ?n = "width * bpp" and ?h = "length rows"
  have fits: "(0 + ?h) * (?n + 1) < 2 ^ 64" using assms(3) by (simp add: mult.commute)
  have "?n * ?h \<le> ?h * (?n + 1)" by simp
  from le_less_trans [OF this] fits have mul: "checked_mul_usize ?n ?h = Some (?n * ?h)"
    by (simp add: checked_mul_usize_def)
  have "1 * (?n + 1) \<le> ?h * (?n + 1)" using assms(4) by (intro mult_le_mono1) (simp add: Suc_leI)
  then have row: "checked_mul_usize width bpp = Some ?n" using fits by (simp add: checked_mul_usize_def)
  from unfilter_filter_rows [OF assms(1,2), of "[]" 0 "unfilter_start ?n"] fits
  show ?thesis by (auto simp: unfilter_scanlines_def mul row buffers_start)
qed

theorem unfilter_inverts_filter_witness:
  "\<exists>counts. unfilter_scanlines (filter_rows 3 [0, 0, 0] [(Filter_Sub, [250, 7, 9]), (Filter_Paeth, [3, 200, 41])]) 1 2 3 3 =
     Inr ([250, 7, 9, 3, 200, 41], counts)"
proof -
  have "replicate (1 * 3) 0 = [0, 0, 0 :: u8]" by code_simp
  then show ?thesis
    using unfilter_inverts_filter [of 3 "[(Filter_Sub, [250, 7, 9]), (Filter_Paeth, [3, 200, 41])]" 1]
    by (simp del: filter_rows.simps) (simp add: numeral_2_eq_2 del: filter_rows.simps)
qed

text \<open>
  The Paeth predictor returns one of the three neighbours, and none of them is nearer to
  left plus up minus upper left; of equally near ones it prefers left, then up. The
  intermediate values stay within a signed 32-bit integer.
\<close>

lemma paeth_predicts_nearest:
  "paeth a b c \<in> {a, b, c} \<and>
   (\<forall>x\<in>{a, b, c}. \<bar>uint a + uint b - uint c - uint (paeth a b c)\<bar> \<le> \<bar>uint a + uint b - uint c - uint x\<bar>) \<and>
   (\<bar>uint a + uint b - uint c - uint (paeth a b c)\<bar> = \<bar>uint a + uint b - uint c - uint a\<bar> \<longrightarrow> paeth a b c = a) \<and>
   (paeth a b c = c \<longrightarrow> c \<noteq> b \<longrightarrow> c \<noteq> a \<longrightarrow>
      \<bar>uint a + uint b - uint c - uint c\<bar> < \<bar>uint a + uint b - uint c - uint b\<bar>) \<and>
   - (2 ^ 31) \<le> uint a + uint b - uint c \<and> uint a + uint b - uint c < 2 ^ 31"
proof -
  have "0 \<le> uint x \<and> uint x < 256" for x :: u8 using unsigned_less [of x, where ?'a = int] by simp
  note range = this [of a] this [of b] this [of c]
  have "- 256 < uint a + uint b - uint c" "uint a + uint b - uint c < 512" using range by linarith+
  then have "- (2 ^ 31) \<le> uint a + uint b - uint c" "uint a + uint b - uint c < 2 ^ 31" by simp_all
  then show ?thesis unfolding paeth_def Let_def by (intro conjI) (auto split: if_splits)
qed

end
