(* ===== verification/ProductionSigner.thy ===== *)
theory ProductionSigner
  imports KeyGovernance
begin

text \<open>
  The vocabulary of the hardware-backed production signer
  (\<^verbatim>\<open>crates/windows-production-signer-runtime\<close>): the fixed key identities and the
  key policy, the descriptor of a hardware key, the identities of caller and service, the
  binding of a signing request to them, provisioning receipts and hardware signatures, each
  with its check. The lemmas say what each check establishes.
\<close>

section \<open>Data\<close>

definition PRODUCTION_SIGNER_POLICY_SCHEMA :: string where "PRODUCTION_SIGNER_POLICY_SCHEMA = ''0.1.0''"
definition PROVISIONING_RECEIPT_SCHEMA :: string where "PROVISIONING_RECEIPT_SCHEMA = ''0.1.0''"
definition SIGNER_SERVICE_IDENTITY_SCHEMA :: string where "SIGNER_SERVICE_IDENTITY_SCHEMA = ''0.1.0''"
definition AUTHENTICATED_CALLER_SCHEMA :: string where "AUTHENTICATED_CALLER_SCHEMA = ''0.1.0''"
definition SIGNER_REQUEST_BINDING_SCHEMA :: string where "SIGNER_REQUEST_BINDING_SCHEMA = ''0.1.0''"
definition MICROSOFT_PLATFORM_CRYPTO_PROVIDER :: string where
  "MICROSOFT_PLATFORM_CRYPTO_PROVIDER = ''Microsoft Platform Crypto Provider''"
definition ECDSA_P256_SHA256 :: string where "ECDSA_P256_SHA256 = ''ecdsa-p256-sha256''"
definition SEC1_UNCOMPRESSED_P256 :: string where "SEC1_UNCOMPRESSED_P256 = ''sec1-uncompressed-p256''"
definition P1363_FIXED_64 :: string where "P1363_FIXED_64 = ''p1363-fixed-64''"
definition NON_EXPORTABLE_POLICY :: string where "NON_EXPORTABLE_POLICY = ''non-exportable''"
definition CAPABILITY_ISSUER_ID :: string where "CAPABILITY_ISSUER_ID = ''ergaxiom.policy-authority''"
definition CAPABILITY_KEY_ID :: string where "CAPABILITY_KEY_ID = ''capability-key-v1''"
definition ATTESTATION_ISSUER_ID :: string where "ATTESTATION_ISSUER_ID = ''ergaxiom.attestation-authority''"
definition ATTESTATION_KEY_ID :: string where "ATTESTATION_KEY_ID = ''attestation-key-v1''"

datatype (plugins only: code size) hardware_assurance = ProvenHardwareBacked | Unproven | AssuranceRejected

record production_key_identity =
  ki_role :: issuer_role
  ki_issuer_id :: string
  ki_key_id :: string

record production_key_policy =
  kp_schema_version :: string
  kp_identity :: production_key_identity
  kp_provider :: string
  kp_algorithm :: string
  kp_public_key_encoding :: string
  kp_signature_encoding :: string
  kp_export_policy :: string
  kp_require_hardware_backing :: bool

record hardware_key_descriptor =
  hd_identity :: production_key_identity
  hd_provider :: string
  hd_algorithm :: string
  hd_public_key_encoding :: string
  hd_public_key_base64url :: string
  hd_public_key_digest :: string
  hd_signature_encoding :: string
  hd_export_policy :: string
  hd_provider_implementation_flags :: u32
  hd_assurance :: hardware_assurance
  hd_policy_digest :: string

record authenticated_caller_identity =
  cl_schema_version :: string
  cl_process_id :: u32
  cl_process_creation_time_100ns :: u64
  cl_principal_sid :: string
  cl_session_id :: u32
  cl_executable_path :: string
  cl_executable_sha256 :: string

record signer_service_identity =
  svc_schema_version :: string
  svc_service_id :: string
  svc_instance_nonce :: string
  svc_process_id :: u32
  svc_process_creation_time_100ns :: u64
  svc_executable_sha256 :: string
  svc_started_at_epoch_s :: u64

record signer_request_binding =
  bnd_schema_version :: string
  bnd_request_digest :: string
  bnd_caller_identity_digest :: string
  bnd_signer_service_identity_digest :: string
  bnd_key_policy_digest :: string
  bnd_trust_state_binding_digest :: "string option"

record provisioning_receipt =
  prc_schema_version :: string
  prc_identity :: production_key_identity
  prc_provider :: string
  prc_algorithm :: string
  prc_public_key_encoding :: string
  prc_public_key_base64url :: string
  prc_public_key_digest :: string
  prc_signature_encoding :: string
  prc_export_policy :: string
  prc_provider_implementation_flags :: u32
  prc_assurance :: hardware_assurance
  prc_policy_digest :: string
  prc_provisioned_at_epoch_s :: u64
  prc_receipt_digest :: string

record hardware_signature =
  hs_identity :: production_key_identity
  hs_algorithm :: string
  hs_signature_encoding :: string
  hs_digest_algorithm :: string
  hs_digest :: string
  hs_signature_base64url :: string
  hs_public_key_digest :: string
  hs_key_policy_digest :: string
  hs_request_binding_digest :: string

datatype (plugins only: code size) production_signer_error =
    PSE_InvalidIdentifier string
  | PSE_InvalidSha256
  | PSE_UnsupportedProductionRole
  | PSE_UnsupportedProductionIdentity
  | PSE_UnsupportedPolicySchema
  | PSE_ProviderSubstitution
  | PSE_AlgorithmSubstitution
  | PSE_PublicKeyEncodingSubstitution
  | PSE_SignatureEncodingSubstitution
  | PSE_ExportPolicySubstitution
  | PSE_HardwareRequirementDisabled
  | PSE_IdentitySubstitution
  | PSE_PublicKeyMissing
  | PSE_PublicKeyDigestMismatch
  | PSE_PolicyDigestMismatch
  | PSE_HardwareAssuranceUnproven
  | PSE_UnsupportedCallerSchema
  | PSE_InvalidProcessIdentity
  | PSE_InvalidPrincipalSid
  | PSE_ExecutablePathMissing
  | PSE_UnsupportedServiceSchema
  | PSE_ServiceInstanceNonceTooShort
  | PSE_InvalidServiceStartTime
  | PSE_UnsupportedBindingSchema
  | PSE_UnsupportedProvisioningReceiptSchema
  | PSE_InvalidProvisioningTime
  | PSE_ProvisioningReceiptDigestMismatch
  | PSE_SecretShapedProvisioningMaterial
  | PSE_DigestAlgorithmSubstitution
  | PSE_SignatureMissing
  | PSE_RequestBindingDigestMismatch
  | PSE_InvalidCanonicalObject
  | PSE_Json serde_error
  | PSE_Hashing hashing_error

text \<open>The third-party operations: the hasher and \<^verbatim>\<open>serde_json::to_value\<close> on each type.\<close>

record production_env =
  pe_hasher :: hasher
  pe_identity_value :: "production_key_identity \<Rightarrow> serde_error + json"
  pe_policy_value :: "production_key_policy \<Rightarrow> serde_error + json"
  pe_descriptor_value :: "hardware_key_descriptor \<Rightarrow> serde_error + json"
  pe_caller_value :: "authenticated_caller_identity \<Rightarrow> serde_error + json"
  pe_service_value :: "signer_service_identity \<Rightarrow> serde_error + json"
  pe_binding_value :: "signer_request_binding \<Rightarrow> serde_error + json"
  pe_receipt_value :: "provisioning_receipt \<Rightarrow> serde_error + json"

section \<open>Shared checks and digests\<close>

definition is_identifier :: "string \<Rightarrow> bool" where
  "is_identifier v \<longleftrightarrow>
     (let valid_length = (3 \<le> length v \<and> length v \<le> 128);
          starts_valid = (case v of [] \<Rightarrow> False | c # _ \<Rightarrow> is_ascii_alphanumeric c);
          remaining_valid = list_all (\<lambda>c. is_ascii_alphanumeric c \<or> c \<in> set ''._-'') (drop 1 v)
      in \<not> (\<not> valid_length \<or> \<not> starts_valid \<or> \<not> remaining_valid))"

definition prod_validate_identifier :: "string \<Rightarrow> string \<Rightarrow> production_signer_error + unit" where
  "prod_validate_identifier field v = ensure (is_identifier v) (PSE_InvalidIdentifier field)"

definition prod_validate_sha256 :: "string \<Rightarrow> production_signer_error + unit" where
  "prod_validate_sha256 v = ensure (is_sha256 v) PSE_InvalidSha256"

definition prod_digest_value :: "production_env \<Rightarrow> serde_error + json \<Rightarrow> production_signer_error + string" where
  "prod_digest_value E v =
     and_then (map_err PSE_Json v) (\<lambda>v. map_err PSE_Hashing (canonical_json_sha256 (pe_hasher E) v))"

text \<open>
  The digest of a sealed record: its JSON object with the digest field blanked. Every crate of
  the production signer has this function, with its own error type.
\<close>

definition blank_field_digest ::
    "hasher \<Rightarrow> (serde_error \<Rightarrow> 'e) \<Rightarrow> 'e \<Rightarrow> (hashing_error \<Rightarrow> 'e) \<Rightarrow> string \<Rightarrow> serde_error + json \<Rightarrow> 'e + string" where
  "blank_field_digest H json_error not_object hash_error field v =
     and_then (map_err json_error v) (\<lambda>v.
     case v of
       JObject object \<Rightarrow> map_err hash_error (canonical_json_sha256 H (JObject (bm_insert field (JString []) object)))
     | _ \<Rightarrow> Inl not_object)"

fun contains_field_of :: "string list \<Rightarrow> json \<Rightarrow> bool" where
  "contains_field_of names (JObject object) \<longleftrightarrow>
     (\<exists>e\<in>set object. fst e \<in> set names \<or> contains_field_of names (snd e))"
| "contains_field_of names (JArray values) \<longleftrightarrow> (\<exists>v\<in>set values. contains_field_of names v)"
| "contains_field_of names _ \<longleftrightarrow> False"

definition SECRET_FIELDS :: "string list" where
  "SECRET_FIELDS = [''private_key'', ''private_seed'', ''seed'', ''secret'', ''protected_seed'', ''key_material'']"

definition contains_secret_shaped_field :: "json \<Rightarrow> bool" where
  "contains_secret_shaped_field v \<longleftrightarrow> contains_field_of SECRET_FIELDS v"

section \<open>Key identities and policies\<close>

definition identity_capability :: production_key_identity where
  "identity_capability = \<lparr>ki_role = IR_Capability, ki_issuer_id = CAPABILITY_ISSUER_ID, ki_key_id = CAPABILITY_KEY_ID\<rparr>"

definition identity_attestation :: production_key_identity where
  "identity_attestation = \<lparr>ki_role = IR_Attestation, ki_issuer_id = ATTESTATION_ISSUER_ID, ki_key_id = ATTESTATION_KEY_ID\<rparr>"

definition identity_validate :: "production_key_identity \<Rightarrow> production_signer_error + unit" where
  "identity_validate i =
     and_then (prod_validate_identifier ''issuer_id'' (ki_issuer_id i)) (\<lambda>_.
     and_then (prod_validate_identifier ''key_id'' (ki_key_id i)) (\<lambda>_.
     case ki_role i of
       IR_Capability \<Rightarrow>
         ensure (\<not> (ki_issuer_id i \<noteq> CAPABILITY_ISSUER_ID \<or> ki_key_id i \<noteq> CAPABILITY_KEY_ID))
           PSE_UnsupportedProductionIdentity
     | IR_Attestation \<Rightarrow>
         ensure (\<not> (ki_issuer_id i \<noteq> ATTESTATION_ISSUER_ID \<or> ki_key_id i \<noteq> ATTESTATION_KEY_ID))
           PSE_UnsupportedProductionIdentity
     | _ \<Rightarrow> Inl PSE_UnsupportedProductionRole))"

definition prod_identity_digest :: "production_env \<Rightarrow> production_key_identity \<Rightarrow> production_signer_error + string" where
  "prod_identity_digest E i =
     and_then (identity_validate i) (\<lambda>_. prod_digest_value E (pe_identity_value E i))"

definition policy_for :: "production_key_identity \<Rightarrow> production_key_policy" where
  "policy_for i = \<lparr>
     kp_schema_version = PRODUCTION_SIGNER_POLICY_SCHEMA,
     kp_identity = i,
     kp_provider = MICROSOFT_PLATFORM_CRYPTO_PROVIDER,
     kp_algorithm = ECDSA_P256_SHA256,
     kp_public_key_encoding = SEC1_UNCOMPRESSED_P256,
     kp_signature_encoding = P1363_FIXED_64,
     kp_export_policy = NON_EXPORTABLE_POLICY,
     kp_require_hardware_backing = True\<rparr>"

definition policy_capability :: production_key_policy where
  "policy_capability = policy_for identity_capability"

definition policy_attestation :: production_key_policy where
  "policy_attestation = policy_for identity_attestation"

definition policy_validate :: "production_key_policy \<Rightarrow> production_signer_error + unit" where
  "policy_validate p =
     and_then (identity_validate (kp_identity p)) (\<lambda>_.
     and_then (ensure (kp_schema_version p = PRODUCTION_SIGNER_POLICY_SCHEMA) PSE_UnsupportedPolicySchema) (\<lambda>_.
     and_then (ensure (kp_provider p = MICROSOFT_PLATFORM_CRYPTO_PROVIDER) PSE_ProviderSubstitution) (\<lambda>_.
     and_then (ensure (kp_algorithm p = ECDSA_P256_SHA256) PSE_AlgorithmSubstitution) (\<lambda>_.
     and_then (ensure (kp_public_key_encoding p = SEC1_UNCOMPRESSED_P256) PSE_PublicKeyEncodingSubstitution) (\<lambda>_.
     and_then (ensure (kp_signature_encoding p = P1363_FIXED_64) PSE_SignatureEncodingSubstitution) (\<lambda>_.
     and_then (ensure (kp_export_policy p = NON_EXPORTABLE_POLICY) PSE_ExportPolicySubstitution) (\<lambda>_.
     ensure (kp_require_hardware_backing p) PSE_HardwareRequirementDisabled)))))))"

definition policy_digest :: "production_env \<Rightarrow> production_key_policy \<Rightarrow> production_signer_error + string" where
  "policy_digest E p =
     and_then (policy_validate p) (\<lambda>_. prod_digest_value E (pe_policy_value E p))"

section \<open>Hardware keys\<close>

definition descriptor_validate_for ::
    "production_env \<Rightarrow> hardware_key_descriptor \<Rightarrow> production_key_policy \<Rightarrow> production_signer_error + unit" where
  "descriptor_validate_for E d p =
     and_then (policy_validate p) (\<lambda>_.
     and_then (identity_validate (hd_identity d)) (\<lambda>_.
     and_then (ensure (hd_identity d = kp_identity p) PSE_IdentitySubstitution) (\<lambda>_.
     and_then (ensure (hd_provider d = kp_provider p) PSE_ProviderSubstitution) (\<lambda>_.
     and_then (ensure (hd_algorithm d = kp_algorithm p) PSE_AlgorithmSubstitution) (\<lambda>_.
     and_then (ensure (hd_public_key_encoding d = kp_public_key_encoding p) PSE_PublicKeyEncodingSubstitution) (\<lambda>_.
     and_then (ensure (hd_signature_encoding d = kp_signature_encoding p) PSE_SignatureEncodingSubstitution) (\<lambda>_.
     and_then (ensure (hd_export_policy d = kp_export_policy p) PSE_ExportPolicySubstitution) (\<lambda>_.
     and_then (prod_validate_sha256 (hd_public_key_digest d)) (\<lambda>_.
     and_then (prod_validate_sha256 (hd_policy_digest d)) (\<lambda>_.
     and_then (ensure (hd_public_key_base64url d \<noteq> []) PSE_PublicKeyMissing) (\<lambda>_.
     and_then (policy_digest E p) (\<lambda>digest.
     and_then (ensure (hd_policy_digest d = digest) PSE_PolicyDigestMismatch) (\<lambda>_.
     ensure (hd_assurance d = ProvenHardwareBacked) PSE_HardwareAssuranceUnproven)))))))))))))"

definition descriptor_digest :: "production_env \<Rightarrow> hardware_key_descriptor \<Rightarrow> production_signer_error + string" where
  "descriptor_digest E d =
     and_then (prod_validate_sha256 (hd_public_key_digest d)) (\<lambda>_.
     and_then (prod_validate_sha256 (hd_policy_digest d)) (\<lambda>_.
     prod_digest_value E (pe_descriptor_value E d)))"

section \<open>Callers, services and request bindings\<close>

definition caller_validate :: "authenticated_caller_identity \<Rightarrow> production_signer_error + unit" where
  "caller_validate c =
     and_then (ensure (cl_schema_version c = AUTHENTICATED_CALLER_SCHEMA) PSE_UnsupportedCallerSchema) (\<lambda>_.
     and_then (ensure (\<not> (cl_process_id c = 0 \<or> cl_process_creation_time_100ns c = 0)) PSE_InvalidProcessIdentity) (\<lambda>_.
     and_then (ensure (\<not> (length (cl_principal_sid c) < 4 \<or> take 2 (cl_principal_sid c) \<noteq> ''S-''))
       PSE_InvalidPrincipalSid) (\<lambda>_.
     and_then (ensure (\<not> blank (cl_executable_path c)) PSE_ExecutablePathMissing) (\<lambda>_.
     prod_validate_sha256 (cl_executable_sha256 c)))))"

definition caller_digest :: "production_env \<Rightarrow> authenticated_caller_identity \<Rightarrow> production_signer_error + string" where
  "caller_digest E c = and_then (caller_validate c) (\<lambda>_. prod_digest_value E (pe_caller_value E c))"

definition service_validate :: "signer_service_identity \<Rightarrow> production_signer_error + unit" where
  "service_validate s =
     and_then (ensure (svc_schema_version s = SIGNER_SERVICE_IDENTITY_SCHEMA) PSE_UnsupportedServiceSchema) (\<lambda>_.
     and_then (prod_validate_identifier ''service_id'' (svc_service_id s)) (\<lambda>_.
     and_then (ensure (\<not> length (svc_instance_nonce s) < 32) PSE_ServiceInstanceNonceTooShort) (\<lambda>_.
     and_then (ensure (\<not> (svc_process_id s = 0 \<or> svc_process_creation_time_100ns s = 0)) PSE_InvalidProcessIdentity) (\<lambda>_.
     and_then (prod_validate_sha256 (svc_executable_sha256 s)) (\<lambda>_.
     ensure (svc_started_at_epoch_s s \<noteq> 0) PSE_InvalidServiceStartTime)))))"

definition service_digest :: "production_env \<Rightarrow> signer_service_identity \<Rightarrow> production_signer_error + string" where
  "service_digest E s = and_then (service_validate s) (\<lambda>_. prod_digest_value E (pe_service_value E s))"

definition binding_validate :: "signer_request_binding \<Rightarrow> production_signer_error + unit" where
  "binding_validate b =
     and_then (ensure (bnd_schema_version b = SIGNER_REQUEST_BINDING_SCHEMA) PSE_UnsupportedBindingSchema) (\<lambda>_.
     and_then (prod_validate_sha256 (bnd_request_digest b)) (\<lambda>_.
     and_then (prod_validate_sha256 (bnd_caller_identity_digest b)) (\<lambda>_.
     and_then (prod_validate_sha256 (bnd_signer_service_identity_digest b)) (\<lambda>_.
     and_then (prod_validate_sha256 (bnd_key_policy_digest b)) (\<lambda>_.
     case bnd_trust_state_binding_digest b of None \<Rightarrow> Inr () | Some d \<Rightarrow> prod_validate_sha256 d)))))"

definition binding_build ::
    "production_env \<Rightarrow> string \<Rightarrow> authenticated_caller_identity \<Rightarrow> signer_service_identity \<Rightarrow> production_key_policy \<Rightarrow>
     production_signer_error + signer_request_binding" where
  "binding_build E request_digest caller service policy =
     and_then (caller_digest E caller) (\<lambda>caller_identity_digest.
     and_then (service_digest E service) (\<lambda>signer_service_identity_digest.
     and_then (policy_digest E policy) (\<lambda>key_policy_digest.
     let b = \<lparr>bnd_schema_version = SIGNER_REQUEST_BINDING_SCHEMA,
       bnd_request_digest = request_digest,
       bnd_caller_identity_digest = caller_identity_digest,
       bnd_signer_service_identity_digest = signer_service_identity_digest,
       bnd_key_policy_digest = key_policy_digest,
       bnd_trust_state_binding_digest = None\<rparr> in
     and_then (binding_validate b) (\<lambda>_. Inr b))))"

definition binding_build_with_trust_state ::
    "production_env \<Rightarrow> string \<Rightarrow> authenticated_caller_identity \<Rightarrow> signer_service_identity \<Rightarrow> production_key_policy \<Rightarrow>
     string \<Rightarrow> production_signer_error + signer_request_binding" where
  "binding_build_with_trust_state E request_digest caller service policy trust_state_binding_digest =
     and_then (binding_build E request_digest caller service policy) (\<lambda>b.
     let b' = b\<lparr>bnd_trust_state_binding_digest := Some trust_state_binding_digest\<rparr> in
     and_then (binding_validate b') (\<lambda>_. Inr b'))"

definition binding_digest :: "production_env \<Rightarrow> signer_request_binding \<Rightarrow> production_signer_error + string" where
  "binding_digest E b = and_then (binding_validate b) (\<lambda>_. prod_digest_value E (pe_binding_value E b))"

section \<open>Provisioning receipts and signatures\<close>

definition receipt_expected_digest :: "production_env \<Rightarrow> provisioning_receipt \<Rightarrow> production_signer_error + string" where
  "receipt_expected_digest E r =
     blank_field_digest (pe_hasher E) PSE_Json PSE_InvalidCanonicalObject PSE_Hashing ''receipt_digest''
       (pe_receipt_value E r)"

definition receipt_from_descriptor ::
    "production_env \<Rightarrow> hardware_key_descriptor \<Rightarrow> u64 \<Rightarrow> production_signer_error + provisioning_receipt" where
  "receipt_from_descriptor E d provisioned_at =
     and_then (ensure (provisioned_at \<noteq> 0) PSE_InvalidProvisioningTime) (\<lambda>_.
     let r = \<lparr>prc_schema_version = PROVISIONING_RECEIPT_SCHEMA,
       prc_identity = hd_identity d,
       prc_provider = hd_provider d,
       prc_algorithm = hd_algorithm d,
       prc_public_key_encoding = hd_public_key_encoding d,
       prc_public_key_base64url = hd_public_key_base64url d,
       prc_public_key_digest = hd_public_key_digest d,
       prc_signature_encoding = hd_signature_encoding d,
       prc_export_policy = hd_export_policy d,
       prc_provider_implementation_flags = hd_provider_implementation_flags d,
       prc_assurance = hd_assurance d,
       prc_policy_digest = hd_policy_digest d,
       prc_provisioned_at_epoch_s = provisioned_at,
       prc_receipt_digest = []\<rparr> in
     and_then (receipt_expected_digest E r) (\<lambda>digest. Inr (r\<lparr>prc_receipt_digest := digest\<rparr>)))"

definition receipt_descriptor :: "provisioning_receipt \<Rightarrow> hardware_key_descriptor" where
  "receipt_descriptor r = \<lparr>
     hd_identity = prc_identity r,
     hd_provider = prc_provider r,
     hd_algorithm = prc_algorithm r,
     hd_public_key_encoding = prc_public_key_encoding r,
     hd_public_key_base64url = prc_public_key_base64url r,
     hd_public_key_digest = prc_public_key_digest r,
     hd_signature_encoding = prc_signature_encoding r,
     hd_export_policy = prc_export_policy r,
     hd_provider_implementation_flags = prc_provider_implementation_flags r,
     hd_assurance = prc_assurance r,
     hd_policy_digest = prc_policy_digest r\<rparr>"

definition receipt_validate_for ::
    "production_env \<Rightarrow> provisioning_receipt \<Rightarrow> production_key_policy \<Rightarrow> production_signer_error + unit" where
  "receipt_validate_for E r p =
     and_then (ensure (prc_schema_version r = PROVISIONING_RECEIPT_SCHEMA) PSE_UnsupportedProvisioningReceiptSchema) (\<lambda>_.
     and_then (descriptor_validate_for E (receipt_descriptor r) p) (\<lambda>_.
     and_then (ensure (prc_provisioned_at_epoch_s r \<noteq> 0) PSE_InvalidProvisioningTime) (\<lambda>_.
     and_then (receipt_expected_digest E r) (\<lambda>digest.
     and_then (ensure (prc_receipt_digest r = digest) PSE_ProvisioningReceiptDigestMismatch) (\<lambda>_.
     and_then (map_err PSE_Json (pe_receipt_value E r)) (\<lambda>v.
     ensure (\<not> contains_secret_shaped_field v) PSE_SecretShapedProvisioningMaterial))))))"

definition signature_validate_for ::
    "production_env \<Rightarrow> hardware_signature \<Rightarrow> hardware_key_descriptor \<Rightarrow> signer_request_binding \<Rightarrow>
     production_signer_error + unit" where
  "signature_validate_for E s d b =
     and_then (ensure (hs_identity s = hd_identity d) PSE_IdentitySubstitution) (\<lambda>_.
     and_then (ensure (hs_algorithm s = hd_algorithm d) PSE_AlgorithmSubstitution) (\<lambda>_.
     and_then (ensure (hs_signature_encoding s = hd_signature_encoding d) PSE_SignatureEncodingSubstitution) (\<lambda>_.
     and_then (ensure (hs_digest_algorithm s = ''sha256'') PSE_DigestAlgorithmSubstitution) (\<lambda>_.
     and_then (prod_validate_sha256 (hs_digest s)) (\<lambda>_.
     and_then (ensure (hs_signature_base64url s \<noteq> []) PSE_SignatureMissing) (\<lambda>_.
     and_then (ensure (hs_public_key_digest s = hd_public_key_digest d) PSE_PublicKeyDigestMismatch) (\<lambda>_.
     and_then (ensure (hs_key_policy_digest s = hd_policy_digest d) PSE_PolicyDigestMismatch) (\<lambda>_.
     and_then (binding_digest E b) (\<lambda>digest.
     ensure (hs_request_binding_digest s = digest) PSE_RequestBindingDigestMismatch)))))))))"

section \<open>What the checks establish\<close>

lemma prod_validate_sha256_ok [result_simps]: "prod_validate_sha256 v = Inr u \<longleftrightarrow> is_sha256 v"
  by (simp add: prod_validate_sha256_def result_simps)

lemma prod_validate_identifier_ok [result_simps]: "prod_validate_identifier f v = Inr u \<longleftrightarrow> is_identifier v"
  by (simp add: prod_validate_identifier_def result_simps)

lemma fixed_identifiers:
  "is_identifier CAPABILITY_ISSUER_ID" "is_identifier CAPABILITY_KEY_ID"
  "is_identifier ATTESTATION_ISSUER_ID" "is_identifier ATTESTATION_KEY_ID"
  unfolding CAPABILITY_ISSUER_ID_def CAPABILITY_KEY_ID_def ATTESTATION_ISSUER_ID_def ATTESTATION_KEY_ID_def
  by code_simp+

text \<open>Production keys exist for exactly two identities, and an identity is fixed by its role.\<close>

lemma identity_validate_ok [result_simps]:
  "identity_validate i = Inr u \<longleftrightarrow> i = identity_capability \<or> i = identity_attestation"
  by (cases i) (auto simp: identity_validate_def result_simps identity_capability_def identity_attestation_def
      fixed_identifiers split: issuer_role.splits)

lemma identity_role_inj:
  assumes "identity_validate i = Inr ()" "identity_validate j = Inr ()" "ki_role i = ki_role j"
  shows "i = j"
  using assms by (auto simp: result_simps identity_capability_def identity_attestation_def)

text \<open>A valid policy is the one fixed policy of its identity.\<close>

lemma policy_validate_ok [result_simps]:
  "policy_validate p = Inr u \<longleftrightarrow> identity_validate (kp_identity p) = Inr () \<and> p = policy_for (kp_identity p)"
  by (cases p) (auto simp: policy_validate_def policy_for_def result_simps)

lemma policy_digest_ok:
  "policy_digest E p = Inr d \<longleftrightarrow> policy_validate p = Inr () \<and> prod_digest_value E (pe_policy_value E p) = Inr d"
  by (auto simp: policy_digest_def result_simps)

lemma descriptor_validate_for_ok:
  assumes "descriptor_validate_for E d p = Inr u"
  shows "policy_validate p = Inr ()" "hd_identity d = kp_identity p"
    "hd_provider d = kp_provider p" "hd_algorithm d = kp_algorithm p"
    "hd_public_key_encoding d = kp_public_key_encoding p" "hd_signature_encoding d = kp_signature_encoding p"
    "hd_export_policy d = kp_export_policy p" "is_sha256 (hd_public_key_digest d)"
    "policy_digest E p = Inr (hd_policy_digest d)" "hd_assurance d = ProvenHardwareBacked"
  using assms by (auto simp: descriptor_validate_for_def result_simps)

lemma binding_validate_ok:
  assumes "binding_validate b = Inr u"
  shows "is_sha256 (bnd_request_digest b)" "is_sha256 (bnd_caller_identity_digest b)"
    "is_sha256 (bnd_signer_service_identity_digest b)" "is_sha256 (bnd_key_policy_digest b)"
  using assms by (auto simp: binding_validate_def result_simps)

lemma binding_build_ok:
  assumes "binding_build E rd caller service policy = Inr b"
  shows "binding_validate b = Inr ()" "bnd_request_digest b = rd"
    "caller_digest E caller = Inr (bnd_caller_identity_digest b)"
    "service_digest E service = Inr (bnd_signer_service_identity_digest b)"
    "policy_digest E policy = Inr (bnd_key_policy_digest b)" "bnd_trust_state_binding_digest b = None"
  using assms by (auto simp: binding_build_def result_simps Let_def)

lemma binding_build_with_trust_state_ok:
  assumes "binding_build_with_trust_state E rd caller service policy t = Inr b"
  shows "binding_validate b = Inr ()" "bnd_request_digest b = rd"
    "caller_digest E caller = Inr (bnd_caller_identity_digest b)"
    "service_digest E service = Inr (bnd_signer_service_identity_digest b)"
    "policy_digest E policy = Inr (bnd_key_policy_digest b)" "bnd_trust_state_binding_digest b = Some t"
proof -
  from assms obtain b0 where b0: "binding_build E rd caller service policy = Inr b0"
    and b: "b = b0\<lparr>bnd_trust_state_binding_digest := Some t\<rparr>" "binding_validate b = Inr ()"
    by (auto simp: binding_build_with_trust_state_def result_simps Let_def)
  from binding_build_ok [OF b0] b show "binding_validate b = Inr ()" "bnd_request_digest b = rd"
    "caller_digest E caller = Inr (bnd_caller_identity_digest b)"
    "service_digest E service = Inr (bnd_signer_service_identity_digest b)"
    "policy_digest E policy = Inr (bnd_key_policy_digest b)" "bnd_trust_state_binding_digest b = Some t"
    by simp_all
qed

lemma signature_validate_for_ok:
  assumes "signature_validate_for E s d b = Inr u"
  shows "hs_identity s = hd_identity d" "hs_algorithm s = hd_algorithm d"
    "hs_signature_encoding s = hd_signature_encoding d" "hs_digest_algorithm s = ''sha256''" "is_sha256 (hs_digest s)"
    "hs_signature_base64url s \<noteq> []"
    "hs_public_key_digest s = hd_public_key_digest d" "hs_key_policy_digest s = hd_policy_digest d"
    "binding_digest E b = Inr (hs_request_binding_digest s)"
  using assms by (auto simp: signature_validate_for_def result_simps)

text \<open>A receipt carries the descriptor it was made from.\<close>

lemma receipt_descriptor_from:
  assumes "receipt_from_descriptor E d at = Inr r"
  shows "receipt_descriptor r = d" "prc_provisioned_at_epoch_s r = at" "at \<noteq> 0"
  using assms by (auto simp: receipt_from_descriptor_def receipt_descriptor_def result_simps Let_def)

section \<open>Sealing\<close>

text \<open>
  What the digests rely on: the JSON writer and SHA-256 are total and print a digest as 64
  lower-case hexadecimal digits; and a sealed record is written as an object in which only
  the field of the digest depends on the digest.
\<close>

definition lawful_hasher :: "hasher \<Rightarrow> bool" where
  "lawful_hasher H \<longleftrightarrow> (\<forall>v. \<exists>bytes. to_vec H v = Inr bytes) \<and> (\<forall>bytes. is_sha256 (sha256_hex H bytes))"

definition sealable :: "string \<Rightarrow> (string \<Rightarrow> 'a \<Rightarrow> 'a) \<Rightarrow> ('a \<Rightarrow> serde_error + json) \<Rightarrow> bool" where
  "sealable field set_digest val \<longleftrightarrow> (\<forall>x. \<exists>object. val x = Inr (JObject object) \<and>
     (\<forall>d. \<exists>object'. val (set_digest d x) = Inr (JObject object') \<and>
        bm_insert field (JString []) object' = bm_insert field (JString []) object))"

lemma lawful_hasher_digests:
  assumes "lawful_hasher H"
  shows "\<exists>d. canonical_json_sha256 H v = Inr d \<and> is_sha256 d"
proof -
  from assms obtain bytes where "to_vec H (canonicalize v) = Inr bytes" unfolding lawful_hasher_def by blast
  then show ?thesis
    using assms by (simp add: lawful_hasher_def canonical_json_sha256_def canonical_json_bytes_def)
qed

lemma blank_field_digest_sealable:
  assumes "lawful_hasher H" "sealable field set_digest val"
  shows "\<exists>dg. is_sha256 dg \<and> blank_field_digest H je no he field (val x) = Inr dg \<and>
    (\<forall>d. blank_field_digest H je no he field (val (set_digest d x)) = Inr dg)"
proof -
  from assms(2) obtain object where x: "val x = Inr (JObject object)"
    and d: "\<forall>d. \<exists>object'. val (set_digest d x) = Inr (JObject object') \<and>
        bm_insert field (JString []) object' = bm_insert field (JString []) object"
    unfolding sealable_def by meson
  obtain dg where dg: "canonical_json_sha256 H (JObject (bm_insert field (JString []) object)) = Inr dg" "is_sha256 dg"
    using lawful_hasher_digests [OF assms(1)] by blast
  have "blank_field_digest H je no he field (val (set_digest e x)) = Inr dg" for e
  proof -
    from d obtain object' where "val (set_digest e x) = Inr (JObject object')"
      "bm_insert field (JString []) object' = bm_insert field (JString []) object" by meson
    then show ?thesis using dg(1) by (simp add: blank_field_digest_def)
  qed
  moreover have "blank_field_digest H je no he field (val x) = Inr dg"
    using x dg(1) by (simp add: blank_field_digest_def)
  ultimately show ?thesis using dg(2) by blast
qed

section \<open>Concrete operations for examples\<close>

text \<open>A checksum of the last byte in place of SHA-256, and constant JSON values.\<close>

definition demo_prod_hasher :: hasher where
  "demo_prod_hasher = \<lparr>to_vec = (\<lambda>_. Inr []), 
     sha256_hex = (\<lambda>bytes. (if bytes = [] then CHR ''0'' else if last bytes = 1 then CHR ''1'' else CHR ''2'') # replicate 63 (CHR ''0''))\<rparr>"

definition demo_production_env :: production_env where
  "demo_production_env = \<lparr>pe_hasher = demo_prod_hasher, pe_identity_value = (\<lambda>_. Inr (JObject [])),
     pe_policy_value = (\<lambda>_. Inr (JObject [])), pe_descriptor_value = (\<lambda>_. Inr (JObject [])),
     pe_caller_value = (\<lambda>_. Inr (JObject [])), pe_service_value = (\<lambda>_. Inr (JObject [])),
     pe_binding_value = (\<lambda>_. Inr (JObject [])), pe_receipt_value = (\<lambda>_. Inr (JObject []))\<rparr>"

definition demo_zero_digest :: string where
  "demo_zero_digest = CHR ''0'' # replicate 63 (CHR ''0'')"

lemma demo_prod_hasher_lawful: "lawful_hasher demo_prod_hasher"
proof -
  have "is_sha256 (c # replicate 63 (CHR ''0''))" if "c \<in> {CHR ''0'', CHR ''1'', CHR ''2''}" for c
  proof -
    have "is_sha256 (CHR ''0'' # replicate 63 (CHR ''0''))" "is_sha256 (CHR ''1'' # replicate 63 (CHR ''0''))"
      "is_sha256 (CHR ''2'' # replicate 63 (CHR ''0''))" by code_simp+
    then show ?thesis using that by blast
  qed
  then show ?thesis by (auto simp: lawful_hasher_def demo_prod_hasher_def)
qed

lemma demo_prod_digests [simp]:
  "is_sha256 (sha256_hex demo_prod_hasher b)" "is_sha256 demo_zero_digest"
  "canonical_json_sha256 demo_prod_hasher v = Inr demo_zero_digest"
  "blank_field_digest demo_prod_hasher je no he f (Inr (JObject [])) = Inr demo_zero_digest"
proof -
  have z: "sha256_hex demo_prod_hasher [] = demo_zero_digest"
    by (simp add: demo_prod_hasher_def demo_zero_digest_def)
  show s: "is_sha256 (sha256_hex demo_prod_hasher b)" for b using demo_prod_hasher_lawful by (simp add: lawful_hasher_def)
  show "is_sha256 demo_zero_digest" using s [of "[]"] by (simp add: z)
  show c: "canonical_json_sha256 demo_prod_hasher v = Inr demo_zero_digest" for v
    using z by (simp add: canonical_json_sha256_def canonical_json_bytes_def demo_prod_hasher_def)
  show "blank_field_digest demo_prod_hasher je no he f (Inr (JObject [])) = Inr demo_zero_digest"
    by (simp add: blank_field_digest_def c)
qed

lemma demo_pe_hasher [simp]: "pe_hasher demo_production_env = demo_prod_hasher"
  by (simp add: demo_production_env_def)

lemma prod_validate_sha256_simp [simp]: "is_sha256 d \<Longrightarrow> prod_validate_sha256 d = Inr ()"
  by (simp add: prod_validate_sha256_def)

lemma identity_validate_simps [simp]:
  "identity_validate identity_capability = Inr ()" "identity_validate identity_attestation = Inr ()"
  by (simp_all add: result_simps)

lemma policy_validate_simp [simp]: "identity_validate i = Inr () \<Longrightarrow> policy_validate (policy_for i) = Inr ()"
  by (simp add: result_simps policy_for_def)

lemma demo_policy_digest [simp]:
  "identity_validate i = Inr () \<Longrightarrow> policy_digest demo_production_env (policy_for i) = Inr demo_zero_digest"
  by (simp add: policy_digest_def prod_digest_value_def) (simp add: demo_production_env_def)

lemma demo_zero_digest_bytes: "demo_zero_digest = encode_hex (replicate 32 0)"
  by (simp add: demo_zero_digest_def encode_hex_def HEX_def numeral_eq_Suc)

end
