(* ===== verification/SignerIdentity.thy ===== *)
theory SignerIdentity
  imports ProductionSigner
begin

text \<open>
  Who may ask the production signer for a signature
  (\<^verbatim>\<open>crates/windows-signer-service-identity-runtime\<close>): the sealed allowlist of callers,
  the security contract of the named pipe, authorization receipts and the authorizer, which
  remembers the processes it has seen and the requests it has authorized. The identity of a
  caller is read from Windows in \<^verbatim>\<open>windows.rs\<close>, which is not modelled; nor are the errors
  only that file raises. The lemmas show what an accepted caller matches, and that over any
  history of calls a request is authorized at most once and a process keeps its identity.
\<close>

section \<open>Data\<close>

definition CALLER_ALLOWLIST_SCHEMA :: string where "CALLER_ALLOWLIST_SCHEMA = ''0.1.0''"
definition CALLER_AUTHORIZATION_RECEIPT_SCHEMA :: string where "CALLER_AUTHORIZATION_RECEIPT_SCHEMA = ''0.1.0''"
definition NAMED_PIPE_SECURITY_CONTRACT_SCHEMA :: string where "NAMED_PIPE_SECURITY_CONTRACT_SCHEMA = ''0.1.0''"

definition BACKSLASH :: char where "BACKSLASH = CHR 0x5C"

definition PRODUCTION_PIPE_NAME :: string where
  "PRODUCTION_PIPE_NAME =
     [BACKSLASH, BACKSLASH, CHR ''.'', BACKSLASH] @ ''pipe'' @ [BACKSLASH] @ ''Ergaxiom.ProductionSigner.v1''"

definition MAX_ALLOWLIST_ENTRIES :: nat where "MAX_ALLOWLIST_ENTRIES = 32"

record allowed_signer_caller =
  al_caller_id :: string
  al_principal_sid :: string
  al_session_id :: "u32 option"
  al_executable_path :: string
  al_executable_sha256 :: string

record signer_caller_allowlist =
  alw_schema_version :: string
  alw_revision :: u64
  alw_entries :: "allowed_signer_caller list"
  alw_allowlist_digest :: string

record named_pipe_security_contract =
  np_schema_version :: string
  np_pipe_name :: string
  np_reject_remote_clients :: bool
  np_message_type :: bool
  np_message_read_mode :: bool
  np_first_instance_only :: bool
  np_allowed_principal_sid :: string
  np_max_request_bytes :: u32
  np_max_response_bytes :: u32
  np_contract_digest :: string

record caller_authorization_receipt =
  car_schema_version :: string
  car_caller_id :: string
  car_request_digest :: string
  car_caller_identity_digest :: string
  car_signer_service_identity_digest :: string
  car_allowlist_revision :: u64
  car_allowlist_digest :: string
  car_authorized_at_epoch_s :: u64
  car_receipt_digest :: string

record seen_process_identity =
  spi_process_creation_time_100ns :: u64
  spi_caller_identity_digest :: string

record signer_identity_authorizer =
  sia_seen_processes :: "(u32, seen_process_identity) bmap"
  sia_used_request_digests :: "string set"

datatype (plugins only: code size) signer_identity_error =
    SI_Production production_signer_error
  | SI_UnsupportedAllowlistSchema
  | SI_InvalidAllowlistRevision
  | SI_InvalidAllowlistSize
  | SI_AllowlistNotCanonical
  | SI_AllowlistDigestMismatch
  | SI_DuplicateCallerId
  | SI_DuplicateCallerIdentity
  | SI_AmbiguousCallerIdentity
  | SI_InvalidPrincipalSid
  | SI_InvalidExecutablePath
  | SI_CallerNotAllowlisted
  | SI_UnsupportedPipeContractSchema
  | SI_PipeNameSubstitution
  | SI_PipeSecurityWeakened
  | SI_InvalidPipeSizeLimit
  | SI_PipeContractDigestMismatch
  | SI_UnsupportedReceiptSchema
  | SI_InvalidAuthorizationTime
  | SI_AuthorizationBindingMismatch
  | SI_AuthorizationReceiptDigestMismatch
  | SI_RequestReplayDetected
  | SI_ProcessIdReused
  | SI_ProcessIdentityChanged
  | SI_InvalidCanonicalObject
  | SI_Json serde_error
  | SI_Hashing hashing_error

record identity_env =
  iv_production :: production_env
  iv_allowed_value :: "allowed_signer_caller \<Rightarrow> serde_error + json"
  iv_allowlist_value :: "signer_caller_allowlist \<Rightarrow> serde_error + json"
  iv_contract_value :: "named_pipe_security_contract \<Rightarrow> serde_error + json"
  iv_authorization_value :: "caller_authorization_receipt \<Rightarrow> serde_error + json"

abbreviation iv_hasher :: "identity_env \<Rightarrow> hasher" where
  "iv_hasher V \<equiv> pe_hasher (iv_production V)"

section \<open>Paths and principals\<close>

definition to_ascii_lowercase :: "char \<Rightarrow> char" where
  "to_ascii_lowercase c = (let n = of_char c in if 65 \<le> n \<and> n \<le> (90 :: nat) then char_of (n + 32) else c)"

definition normalize_path :: "string \<Rightarrow> string" where
  "normalize_path v = map to_ascii_lowercase (map (\<lambda>c. if c = CHR ''/'' then BACKSLASH else c) v)"

definition paths_equal :: "string \<Rightarrow> string \<Rightarrow> bool" where
  "paths_equal a b \<longleftrightarrow> normalize_path a = normalize_path b"

fun contains_str :: "string \<Rightarrow> string \<Rightarrow> bool" where
  "contains_str [] pat \<longleftrightarrow> pat = []"
| "contains_str (c # s) pat \<longleftrightarrow> take (length pat) (c # s) = pat \<or> contains_str s pat"

definition validate_sid :: "string \<Rightarrow> signer_identity_error + unit" where
  "validate_sid v =
     ensure (\<not> (length v < 5 \<or> 184 < length v \<or> take 2 v \<noteq> ''S-''
         \<or> \<not> list_all (\<lambda>c. is_ascii_digit c \<or> c = CHR ''S'' \<or> c = CHR ''-'') v))
       SI_InvalidPrincipalSid"

definition validate_path :: "string \<Rightarrow> signer_identity_error + unit" where
  "validate_path v =
     and_then (ensure (\<not> (length v < 3 \<or> 32768 < length v \<or> CHR 0x00 \<in> set v)) SI_InvalidExecutablePath) (\<lambda>_.
     let normalized = normalize_path v in
     ensure (\<not> (\<not> contains_str normalized [CHR '':'', BACKSLASH] \<or> contains_str normalized [CHR ''.'', CHR ''.'', BACKSLASH]))
       SI_InvalidExecutablePath)"

section \<open>The allowlist\<close>

definition si_digest_value :: "identity_env \<Rightarrow> serde_error + json \<Rightarrow> signer_identity_error + string" where
  "si_digest_value V v =
     and_then (map_err SI_Json v) (\<lambda>v. map_err SI_Hashing (canonical_json_sha256 (iv_hasher V) v))"

definition allowed_validate :: "allowed_signer_caller \<Rightarrow> signer_identity_error + unit" where
  "allowed_validate a =
     and_then (map_err SI_Production (prod_validate_identifier ''caller_id'' (al_caller_id a))) (\<lambda>_.
     and_then (validate_sid (al_principal_sid a)) (\<lambda>_.
     and_then (validate_path (al_executable_path a)) (\<lambda>_.
     map_err SI_Production (prod_validate_sha256 (al_executable_sha256 a)))))"

definition allowed_digest :: "identity_env \<Rightarrow> allowed_signer_caller \<Rightarrow> signer_identity_error + string" where
  "allowed_digest V a = and_then (allowed_validate a) (\<lambda>_. si_digest_value V (iv_allowed_value V a))"

definition allowed_matches :: "allowed_signer_caller \<Rightarrow> authenticated_caller_identity \<Rightarrow> signer_identity_error + bool" where
  "allowed_matches a caller =
     and_then (map_err SI_Production (caller_validate caller)) (\<lambda>_.
     Inr (al_principal_sid a = cl_principal_sid caller
       \<and> (case al_session_id a of None \<Rightarrow> True | Some session_id \<Rightarrow> session_id = cl_session_id caller)
       \<and> paths_equal (al_executable_path a) (cl_executable_path caller)
       \<and> al_executable_sha256 a = cl_executable_sha256 caller))"

type_synonym caller_tuple = "string \<times> u32 option \<times> string \<times> string"

definition caller_tuple_of :: "allowed_signer_caller \<Rightarrow> caller_tuple" where
  "caller_tuple_of a =
     (al_principal_sid a, al_session_id a, normalize_path (al_executable_path a), al_executable_sha256 a)"

definition reject_duplicate_entry ::
    "string set \<times> caller_tuple set \<Rightarrow> allowed_signer_caller \<Rightarrow> signer_identity_error + string set \<times> caller_tuple set" where
  "reject_duplicate_entry seen a =
     (case seen of (caller_ids, identities) \<Rightarrow>
        and_then (ensure (al_caller_id a \<notin> caller_ids) SI_DuplicateCallerId) (\<lambda>_.
        and_then (ensure (caller_tuple_of a \<notin> identities) SI_DuplicateCallerIdentity) (\<lambda>_.
        Inr (insert (al_caller_id a) caller_ids, insert (caller_tuple_of a) identities))))"

definition reject_duplicate_entries :: "allowed_signer_caller list \<Rightarrow> signer_identity_error + unit" where
  "reject_duplicate_entries entries =
     and_then (try_fold reject_duplicate_entry ({}, {}) entries) (\<lambda>_. Inr ())"

definition allowlist_expected_digest :: "identity_env \<Rightarrow> signer_caller_allowlist \<Rightarrow> signer_identity_error + string" where
  "allowlist_expected_digest V a =
     blank_field_digest (iv_hasher V) SI_Json SI_InvalidCanonicalObject SI_Hashing ''allowlist_digest''
       (iv_allowlist_value V a)"

definition allowlist_build ::
    "identity_env \<Rightarrow> u64 \<Rightarrow> allowed_signer_caller list \<Rightarrow> signer_identity_error + signer_caller_allowlist" where
  "allowlist_build V revision entries =
     and_then (ensure (revision \<noteq> 0) SI_InvalidAllowlistRevision) (\<lambda>_.
     and_then (ensure (\<not> (entries = [] \<or> MAX_ALLOWLIST_ENTRIES < length entries)) SI_InvalidAllowlistSize) (\<lambda>_.
     and_then (try_for_each allowed_validate entries) (\<lambda>_.
     let sorted_entries = sort_key al_caller_id entries in
     and_then (reject_duplicate_entries sorted_entries) (\<lambda>_.
     let allowlist = \<lparr>alw_schema_version = CALLER_ALLOWLIST_SCHEMA, alw_revision = revision,
       alw_entries = sorted_entries, alw_allowlist_digest = []\<rparr> in
     and_then (allowlist_expected_digest V allowlist) (\<lambda>digest.
     Inr (allowlist\<lparr>alw_allowlist_digest := digest\<rparr>))))))"

definition allowlist_validate :: "identity_env \<Rightarrow> signer_caller_allowlist \<Rightarrow> signer_identity_error + unit" where
  "allowlist_validate V a =
     and_then (ensure (alw_schema_version a = CALLER_ALLOWLIST_SCHEMA) SI_UnsupportedAllowlistSchema) (\<lambda>_.
     and_then (ensure (alw_revision a \<noteq> 0) SI_InvalidAllowlistRevision) (\<lambda>_.
     and_then (ensure (\<not> (alw_entries a = [] \<or> MAX_ALLOWLIST_ENTRIES < length (alw_entries a))) SI_InvalidAllowlistSize) (\<lambda>_.
     and_then (try_for_each allowed_validate (alw_entries a)) (\<lambda>_.
     and_then (ensure (sort_key al_caller_id (alw_entries a) = alw_entries a) SI_AllowlistNotCanonical) (\<lambda>_.
     and_then (reject_duplicate_entries (alw_entries a)) (\<lambda>_.
     and_then (allowlist_expected_digest V a) (\<lambda>digest.
     ensure (alw_allowlist_digest a = digest) SI_AllowlistDigestMismatch)))))))"

definition find_match ::
    "identity_env \<Rightarrow> signer_caller_allowlist \<Rightarrow> authenticated_caller_identity \<Rightarrow> signer_identity_error + allowed_signer_caller" where
  "find_match V a caller =
     and_then (allowlist_validate V a) (\<lambda>_.
     and_then (map_err SI_Production (caller_validate caller)) (\<lambda>_.
     case filter (\<lambda>e. case allowed_matches e caller of Inr b \<Rightarrow> b | Inl _ \<Rightarrow> False) (alw_entries a) of
       [e] \<Rightarrow> Inr e
     | [] \<Rightarrow> Inl SI_CallerNotAllowlisted
     | _ \<Rightarrow> Inl SI_AmbiguousCallerIdentity))"

section \<open>The named pipe\<close>

definition contract_expected_digest :: "identity_env \<Rightarrow> named_pipe_security_contract \<Rightarrow> signer_identity_error + string" where
  "contract_expected_digest V c =
     blank_field_digest (iv_hasher V) SI_Json SI_InvalidCanonicalObject SI_Hashing ''contract_digest''
       (iv_contract_value V c)"

definition contract_production :: "identity_env \<Rightarrow> string \<Rightarrow> signer_identity_error + named_pipe_security_contract" where
  "contract_production V sid =
     (let contract = \<lparr>np_schema_version = NAMED_PIPE_SECURITY_CONTRACT_SCHEMA,
        np_pipe_name = PRODUCTION_PIPE_NAME,
        np_reject_remote_clients = True,
        np_message_type = True,
        np_message_read_mode = True,
        np_first_instance_only = True,
        np_allowed_principal_sid = sid,
        np_max_request_bytes = 64 * 1024,
        np_max_response_bytes = 128 * 1024,
        np_contract_digest = []\<rparr> in
      and_then (contract_expected_digest V contract) (\<lambda>digest. Inr (contract\<lparr>np_contract_digest := digest\<rparr>)))"

definition contract_validate :: "identity_env \<Rightarrow> named_pipe_security_contract \<Rightarrow> signer_identity_error + unit" where
  "contract_validate V c =
     and_then (ensure (np_schema_version c = NAMED_PIPE_SECURITY_CONTRACT_SCHEMA) SI_UnsupportedPipeContractSchema) (\<lambda>_.
     and_then (ensure (np_pipe_name c = PRODUCTION_PIPE_NAME) SI_PipeNameSubstitution) (\<lambda>_.
     and_then (ensure (\<not> (\<not> np_reject_remote_clients c \<or> \<not> np_message_type c \<or> \<not> np_message_read_mode c
         \<or> \<not> np_first_instance_only c)) SI_PipeSecurityWeakened) (\<lambda>_.
     and_then (validate_sid (np_allowed_principal_sid c)) (\<lambda>_.
     and_then (ensure (\<not> (np_max_request_bytes c = 0 \<or> np_max_response_bytes c = 0
         \<or> 64 * 1024 < np_max_request_bytes c \<or> 128 * 1024 < np_max_response_bytes c)) SI_InvalidPipeSizeLimit) (\<lambda>_.
     and_then (contract_expected_digest V c) (\<lambda>digest.
     ensure (np_contract_digest c = digest) SI_PipeContractDigestMismatch))))))"

section \<open>Authorization\<close>

definition authorization_expected_digest ::
    "identity_env \<Rightarrow> caller_authorization_receipt \<Rightarrow> signer_identity_error + string" where
  "authorization_expected_digest V r =
     blank_field_digest (iv_hasher V) SI_Json SI_InvalidCanonicalObject SI_Hashing ''receipt_digest''
       (iv_authorization_value V r)"

definition authorization_validate ::
    "identity_env \<Rightarrow> caller_authorization_receipt \<Rightarrow> authenticated_caller_identity \<Rightarrow> signer_service_identity \<Rightarrow>
     signer_caller_allowlist \<Rightarrow> signer_identity_error + unit" where
  "authorization_validate V r caller service allowlist =
     and_then (ensure (car_schema_version r = CALLER_AUTHORIZATION_RECEIPT_SCHEMA) SI_UnsupportedReceiptSchema) (\<lambda>_.
     and_then (map_err SI_Production (prod_validate_identifier ''caller_id'' (car_caller_id r))) (\<lambda>_.
     and_then (map_err SI_Production (prod_validate_sha256 (car_request_digest r))) (\<lambda>_.
     and_then (map_err SI_Production (prod_validate_sha256 (car_caller_identity_digest r))) (\<lambda>_.
     and_then (map_err SI_Production (prod_validate_sha256 (car_signer_service_identity_digest r))) (\<lambda>_.
     and_then (map_err SI_Production (prod_validate_sha256 (car_allowlist_digest r))) (\<lambda>_.
     and_then (ensure (car_authorized_at_epoch_s r \<noteq> 0) SI_InvalidAuthorizationTime) (\<lambda>_.
     and_then (allowlist_validate V allowlist) (\<lambda>_.
     and_then (map_err SI_Production (caller_digest (iv_production V) caller)) (\<lambda>caller_identity_digest.
     and_then (ensure (car_caller_identity_digest r = caller_identity_digest) SI_AuthorizationBindingMismatch) (\<lambda>_.
     and_then (map_err SI_Production (service_digest (iv_production V) service)) (\<lambda>signer_service_identity_digest.
     and_then (ensure (\<not> (car_signer_service_identity_digest r \<noteq> signer_service_identity_digest
         \<or> car_allowlist_revision r \<noteq> alw_revision allowlist
         \<or> car_allowlist_digest r \<noteq> alw_allowlist_digest allowlist)) SI_AuthorizationBindingMismatch) (\<lambda>_.
     and_then (authorization_expected_digest V r) (\<lambda>digest.
     ensure (car_receipt_digest r = digest) SI_AuthorizationReceiptDigestMismatch)))))))))))))"

definition authorizer_default :: signer_identity_authorizer where
  "authorizer_default = \<lparr>sia_seen_processes = [], sia_used_request_digests = {}\<rparr>"

definition caller_authorize_checks ::
    "identity_env \<Rightarrow> signer_identity_authorizer \<Rightarrow> authenticated_caller_identity \<Rightarrow> signer_service_identity \<Rightarrow>
     signer_caller_allowlist \<Rightarrow> string \<Rightarrow> u64 \<Rightarrow> signer_identity_error + caller_authorization_receipt" where
  "caller_authorize_checks V st caller service allowlist request_digest trusted_now =
     and_then (map_err SI_Production (caller_validate caller)) (\<lambda>_.
     and_then (map_err SI_Production (service_validate service)) (\<lambda>_.
     and_then (allowlist_validate V allowlist) (\<lambda>_.
     and_then (map_err SI_Production (prod_validate_sha256 request_digest)) (\<lambda>_.
     and_then (ensure (trusted_now \<noteq> 0) SI_InvalidAuthorizationTime) (\<lambda>_.
     and_then (ensure (request_digest \<notin> sia_used_request_digests st) SI_RequestReplayDetected) (\<lambda>_.
     and_then (find_match V allowlist caller) (\<lambda>allowed.
     and_then (map_err SI_Production (caller_digest (iv_production V) caller)) (\<lambda>caller_identity_digest.
     and_then (case map_of (sia_seen_processes st) (cl_process_id caller) of
         None \<Rightarrow> Inr ()
       | Some seen \<Rightarrow>
           and_then (ensure (spi_process_creation_time_100ns seen = cl_process_creation_time_100ns caller) SI_ProcessIdReused) (\<lambda>_.
           ensure (spi_caller_identity_digest seen = caller_identity_digest) SI_ProcessIdentityChanged)) (\<lambda>_.
     and_then (map_err SI_Production (service_digest (iv_production V) service)) (\<lambda>signer_service_identity_digest.
     let receipt = \<lparr>car_schema_version = CALLER_AUTHORIZATION_RECEIPT_SCHEMA,
       car_caller_id = al_caller_id allowed,
       car_request_digest = request_digest,
       car_caller_identity_digest = caller_identity_digest,
       car_signer_service_identity_digest = signer_service_identity_digest,
       car_allowlist_revision = alw_revision allowlist,
       car_allowlist_digest = alw_allowlist_digest allowlist,
       car_authorized_at_epoch_s = trusted_now,
       car_receipt_digest = []\<rparr> in
     and_then (authorization_expected_digest V receipt) (\<lambda>digest.
     Inr (receipt\<lparr>car_receipt_digest := digest\<rparr>))))))))))))"

definition caller_authorize ::
    "identity_env \<Rightarrow> signer_identity_authorizer \<Rightarrow> authenticated_caller_identity \<Rightarrow> signer_service_identity \<Rightarrow>
     signer_caller_allowlist \<Rightarrow> string \<Rightarrow> u64 \<Rightarrow>
     (signer_identity_error + caller_authorization_receipt) \<times> signer_identity_authorizer" where
  "caller_authorize V st caller service allowlist request_digest trusted_now =
     (case caller_authorize_checks V st caller service allowlist request_digest trusted_now of
        Inl e \<Rightarrow> (Inl e, st)
      | Inr receipt \<Rightarrow>
          (Inr receipt, st\<lparr>sia_seen_processes := bm_insert (cl_process_id caller)
               \<lparr>spi_process_creation_time_100ns = cl_process_creation_time_100ns caller,
                spi_caller_identity_digest = car_caller_identity_digest receipt\<rparr> (sia_seen_processes st),
             sia_used_request_digests := insert request_digest (sia_used_request_digests st)\<rparr>))"

section \<open>What the checks establish\<close>

lemma prod_digest_value_sha256:
  assumes "lawful_hasher (pe_hasher E)" "prod_digest_value E v = Inr d"
  shows "is_sha256 d"
proof -
  from assms(2) obtain w where "canonical_json_sha256 (pe_hasher E) w = Inr d" by (auto simp: prod_digest_value_def result_simps)
  then show ?thesis using lawful_hasher_digests [OF assms(1), of w] by simp
qed

lemma try_fold_reject_duplicates:
  "try_fold reject_duplicate_entry (ids, tuples) es = Inr s \<longleftrightarrow>
     distinct (map al_caller_id es) \<and> distinct (map caller_tuple_of es) \<and>
     ids \<inter> al_caller_id ` set es = {} \<and> tuples \<inter> caller_tuple_of ` set es = {} \<and>
     s = (ids \<union> al_caller_id ` set es, tuples \<union> caller_tuple_of ` set es)"
proof (induction es arbitrary: ids tuples)
  case (Cons e es)
  show ?case
  proof (cases "al_caller_id e \<in> ids \<or> caller_tuple_of e \<in> tuples")
    case False
    then have "reject_duplicate_entry (ids, tuples) e = Inr (insert (al_caller_id e) ids, insert (caller_tuple_of e) tuples)"
      by (simp add: reject_duplicate_entry_def)
    then show ?thesis using False by (auto simp: Cons.IH)
  next
    case True
    then obtain err where "reject_duplicate_entry (ids, tuples) e = Inl err"
      by (cases "al_caller_id e \<in> ids") (simp_all add: reject_duplicate_entry_def)
    then show ?thesis using True by auto
  qed
qed auto

lemma reject_duplicate_entries_ok [result_simps]:
  "reject_duplicate_entries es = Inr u \<longleftrightarrow> distinct (map al_caller_id es) \<and> distinct (map caller_tuple_of es)"
  by (auto simp: reject_duplicate_entries_def result_simps try_fold_reject_duplicates)

definition allowlist_entries_ok :: "allowed_signer_caller list \<Rightarrow> bool" where
  "allowlist_entries_ok es \<longleftrightarrow> es \<noteq> [] \<and> length es \<le> MAX_ALLOWLIST_ENTRIES \<and>
     (\<forall>e\<in>set es. allowed_validate e = Inr ()) \<and>
     distinct (map al_caller_id es) \<and> distinct (map caller_tuple_of es)"

lemma allowlist_validate_ok:
  "allowlist_validate V a = Inr u \<longleftrightarrow>
     alw_schema_version a = CALLER_ALLOWLIST_SCHEMA \<and> alw_revision a \<noteq> 0 \<and> allowlist_entries_ok (alw_entries a) \<and>
     sort_key al_caller_id (alw_entries a) = alw_entries a \<and>
     allowlist_expected_digest V a = Inr (alw_allowlist_digest a)"
  by (auto simp: allowlist_validate_def allowlist_entries_ok_def result_simps)

lemma allowlist_entries_ok_sort [simp]: "allowlist_entries_ok (sort_key al_caller_id es) \<longleftrightarrow> allowlist_entries_ok es"
proof -
  have "sort_key al_caller_id es = [] \<longleftrightarrow> es = []" by (metis length_0_conv length_sort)
  then show ?thesis by (simp add: allowlist_entries_ok_def)
qed

lemma allowlist_build_ok:
  "allowlist_build V revision es = Inr a \<longleftrightarrow>
     revision \<noteq> 0 \<and> allowlist_entries_ok es \<and>
     (\<exists>digest. allowlist_expected_digest V \<lparr>alw_schema_version = CALLER_ALLOWLIST_SCHEMA, alw_revision = revision,
         alw_entries = sort_key al_caller_id es, alw_allowlist_digest = []\<rparr> = Inr digest \<and>
       a = \<lparr>alw_schema_version = CALLER_ALLOWLIST_SCHEMA, alw_revision = revision,
         alw_entries = sort_key al_caller_id es, alw_allowlist_digest = digest\<rparr>)"
  unfolding allowlist_build_def Let_def allowlist_entries_ok_def by (auto simp: result_simps)

definition identity_lawful :: "identity_env \<Rightarrow> bool" where
  "identity_lawful V \<longleftrightarrow> lawful_hasher (iv_hasher V) \<and>
     sealable ''allowlist_digest'' (\<lambda>d. alw_allowlist_digest_update (\<lambda>_. d)) (iv_allowlist_value V) \<and>
     sealable ''contract_digest'' (\<lambda>d. np_contract_digest_update (\<lambda>_. d)) (iv_contract_value V) \<and>
     sealable ''receipt_digest'' (\<lambda>d. car_receipt_digest_update (\<lambda>_. d)) (iv_authorization_value V)"

lemma expected_digests_total:
  assumes "identity_lawful V"
  shows "\<exists>dg. is_sha256 dg \<and> allowlist_expected_digest V a = Inr dg \<and>
      (\<forall>d. allowlist_expected_digest V (a\<lparr>alw_allowlist_digest := d\<rparr>) = Inr dg)"
    and "\<exists>dg. is_sha256 dg \<and> contract_expected_digest V c = Inr dg \<and>
      (\<forall>d. contract_expected_digest V (c\<lparr>np_contract_digest := d\<rparr>) = Inr dg)"
    and "\<exists>dg. is_sha256 dg \<and> authorization_expected_digest V r = Inr dg \<and>
      (\<forall>d. authorization_expected_digest V (r\<lparr>car_receipt_digest := d\<rparr>) = Inr dg)"
proof -
  from assms have H: "lawful_hasher (iv_hasher V)"
    and s: "sealable ''allowlist_digest'' (\<lambda>d. alw_allowlist_digest_update (\<lambda>_. d)) (iv_allowlist_value V)"
      "sealable ''contract_digest'' (\<lambda>d. np_contract_digest_update (\<lambda>_. d)) (iv_contract_value V)"
      "sealable ''receipt_digest'' (\<lambda>d. car_receipt_digest_update (\<lambda>_. d)) (iv_authorization_value V)"
    by (simp_all add: identity_lawful_def)
  show "\<exists>dg. is_sha256 dg \<and> allowlist_expected_digest V a = Inr dg \<and>
      (\<forall>d. allowlist_expected_digest V (a\<lparr>alw_allowlist_digest := d\<rparr>) = Inr dg)"
    unfolding allowlist_expected_digest_def by (rule blank_field_digest_sealable [OF H s(1)])
  show "\<exists>dg. is_sha256 dg \<and> contract_expected_digest V c = Inr dg \<and>
      (\<forall>d. contract_expected_digest V (c\<lparr>np_contract_digest := d\<rparr>) = Inr dg)"
    unfolding contract_expected_digest_def by (rule blank_field_digest_sealable [OF H s(2)])
  show "\<exists>dg. is_sha256 dg \<and> authorization_expected_digest V r = Inr dg \<and>
      (\<forall>d. authorization_expected_digest V (r\<lparr>car_receipt_digest := d\<rparr>) = Inr dg)"
    unfolding authorization_expected_digest_def by (rule blank_field_digest_sealable [OF H s(3)])
qed

text \<open>A built allowlist is valid, and does not depend on the order its entries are given in.\<close>

lemma allowlist_build_validates:
  assumes lawful: "identity_lawful V" and build: "allowlist_build V revision es = Inr a"
  shows "allowlist_validate V a = Inr ()" "set (alw_entries a) = set es" "alw_revision a = revision"
proof -
  let ?a = "\<lparr>alw_schema_version = CALLER_ALLOWLIST_SCHEMA, alw_revision = revision,
         alw_entries = sort_key al_caller_id es, alw_allowlist_digest = []\<rparr>"
  from build obtain digest where d: "allowlist_expected_digest V ?a = Inr digest" "a = ?a\<lparr>alw_allowlist_digest := digest\<rparr>"
    and ok: "revision \<noteq> 0" "allowlist_entries_ok es" unfolding allowlist_build_ok by auto
  from expected_digests_total(1) [OF lawful, of ?a] d have "allowlist_expected_digest V a = Inr digest" by auto
  then show "allowlist_validate V a = Inr ()" using ok by (simp add: allowlist_validate_ok d(2) sort_key_id_if_sorted)
  show "set (alw_entries a) = set es" "alw_revision a = revision" by (simp_all add: d(2))
qed

lemma allowlist_build_order:
  assumes "mset es = mset fs"
  shows "allowlist_build V revision es = Inr a \<longleftrightarrow> allowlist_build V revision fs = Inr a"
proof -
  have ok: "allowlist_entries_ok es \<longleftrightarrow> allowlist_entries_ok fs"
  proof -
    have "distinct (map al_caller_id es) \<longleftrightarrow> distinct (map al_caller_id fs)"
      "distinct (map caller_tuple_of es) \<longleftrightarrow> distinct (map caller_tuple_of fs)"
      using assms by (simp_all add: mset_eq_imp_distinct_iff)
    moreover have "set es = set fs" "length es = length fs" using assms by (rule mset_eq_setD, rule mset_eq_length)
    moreover have "es = [] \<longleftrightarrow> fs = []" using \<open>length es = length fs\<close> by auto
    ultimately show ?thesis unfolding allowlist_entries_ok_def by simp
  qed
  have "sort_key al_caller_id es = sort_key al_caller_id fs" if "allowlist_entries_ok es"
  proof (rule sort_key_inj_key_eq)
    show "mset es = mset (sort_key al_caller_id fs)" using assms by simp
    show "inj_on al_caller_id (set es)" using that by (simp add: allowlist_entries_ok_def distinct_map)
    show "sorted (map al_caller_id (sort_key al_caller_id fs))" by simp
  qed
  with ok show ?thesis unfolding allowlist_build_ok by (cases "allowlist_entries_ok es") simp_all
qed

definition entry_allows :: "allowed_signer_caller \<Rightarrow> authenticated_caller_identity \<Rightarrow> bool" where
  "entry_allows e caller \<longleftrightarrow>
     al_principal_sid e = cl_principal_sid caller \<and> al_session_id e \<in> {None, Some (cl_session_id caller)} \<and>
     paths_equal (al_executable_path e) (cl_executable_path caller) \<and> al_executable_sha256 e = cl_executable_sha256 caller"

lemma allowed_matches_ok:
  "caller_validate caller = Inr () \<Longrightarrow> allowed_matches e caller = Inr (entry_allows e caller)"
  by (auto simp: allowed_matches_def entry_allows_def split: option.splits)

lemma find_match_ok:
  "find_match V a caller = Inr e \<longleftrightarrow>
     allowlist_validate V a = Inr () \<and> caller_validate caller = Inr () \<and>
     filter (\<lambda>e. entry_allows e caller) (alw_entries a) = [e]"
  by (auto simp: find_match_def result_simps allowed_matches_ok split: list.splits)

lemma caller_authorize_ok:
  assumes "caller_authorize V st caller service allowlist rd now = (Inr receipt, st')"
  shows "\<exists>e. find_match V allowlist caller = Inr e \<and> car_caller_id receipt = al_caller_id e"
    "service_validate service = Inr ()" "is_sha256 rd" "now \<noteq> 0" "rd \<notin> sia_used_request_digests st"
    "caller_digest (iv_production V) caller = Inr (car_caller_identity_digest receipt)"
    "service_digest (iv_production V) service = Inr (car_signer_service_identity_digest receipt)"
    "car_request_digest receipt = rd" "car_allowlist_revision receipt = alw_revision allowlist"
    "car_allowlist_digest receipt = alw_allowlist_digest allowlist" "car_authorized_at_epoch_s receipt = now"
    "car_schema_version receipt = CALLER_AUTHORIZATION_RECEIPT_SCHEMA"
    "authorization_expected_digest V (receipt\<lparr>car_receipt_digest := []\<rparr>) = Inr (car_receipt_digest receipt)"
    "\<forall>seen. map_of (sia_seen_processes st) (cl_process_id caller) = Some seen \<longrightarrow>
      spi_process_creation_time_100ns seen = cl_process_creation_time_100ns caller \<and>
      spi_caller_identity_digest seen = car_caller_identity_digest receipt"
    "st' = \<lparr>sia_seen_processes = bm_insert (cl_process_id caller)
        \<lparr>spi_process_creation_time_100ns = cl_process_creation_time_100ns caller,
         spi_caller_identity_digest = car_caller_identity_digest receipt\<rparr> (sia_seen_processes st),
      sia_used_request_digests = insert rd (sia_used_request_digests st)\<rparr>"
proof -
  from assms have c: "caller_authorize_checks V st caller service allowlist rd now = Inr receipt"
    and st': "st' = st\<lparr>sia_seen_processes := bm_insert (cl_process_id caller)
        \<lparr>spi_process_creation_time_100ns = cl_process_creation_time_100ns caller,
         spi_caller_identity_digest = car_caller_identity_digest receipt\<rparr> (sia_seen_processes st),
      sia_used_request_digests := insert rd (sia_used_request_digests st)\<rparr>"
    by (auto simp: caller_authorize_def split: sum.splits)
  from st' show "st' = \<lparr>sia_seen_processes = bm_insert (cl_process_id caller)
        \<lparr>spi_process_creation_time_100ns = cl_process_creation_time_100ns caller,
         spi_caller_identity_digest = car_caller_identity_digest receipt\<rparr> (sia_seen_processes st),
      sia_used_request_digests = insert rd (sia_used_request_digests st)\<rparr>" by (cases st) simp
  from c obtain e cid sid where ok: "find_match V allowlist caller = Inr e"
    "service_validate service = Inr ()" "is_sha256 rd" "now \<noteq> 0" "rd \<notin> sia_used_request_digests st"
    "caller_digest (iv_production V) caller = Inr cid" "service_digest (iv_production V) service = Inr sid"
    "case map_of (sia_seen_processes st) (cl_process_id caller) of
         None \<Rightarrow> True
       | Some seen \<Rightarrow> spi_process_creation_time_100ns seen = cl_process_creation_time_100ns caller \<and>
           spi_caller_identity_digest seen = cid"
    and r: "and_then (authorization_expected_digest V \<lparr>car_schema_version = CALLER_AUTHORIZATION_RECEIPT_SCHEMA,
       car_caller_id = al_caller_id e, car_request_digest = rd, car_caller_identity_digest = cid,
       car_signer_service_identity_digest = sid, car_allowlist_revision = alw_revision allowlist,
       car_allowlist_digest = alw_allowlist_digest allowlist, car_authorized_at_epoch_s = now,
       car_receipt_digest = []\<rparr>) (\<lambda>digest. Inr (\<lparr>car_schema_version = CALLER_AUTHORIZATION_RECEIPT_SCHEMA,
       car_caller_id = al_caller_id e, car_request_digest = rd, car_caller_identity_digest = cid,
       car_signer_service_identity_digest = sid, car_allowlist_revision = alw_revision allowlist,
       car_allowlist_digest = alw_allowlist_digest allowlist, car_authorized_at_epoch_s = now,
       car_receipt_digest = digest\<rparr>)) = Inr receipt"
    by (auto simp: caller_authorize_checks_def and_then_eq_Inr ensure_eq map_err_eq prod_validate_sha256_ok Let_def
        split: option.splits)
  show "\<exists>e. find_match V allowlist caller = Inr e \<and> car_caller_id receipt = al_caller_id e"
    "caller_digest (iv_production V) caller = Inr (car_caller_identity_digest receipt)"
    "service_digest (iv_production V) service = Inr (car_signer_service_identity_digest receipt)"
    "car_request_digest receipt = rd" "car_allowlist_revision receipt = alw_revision allowlist"
    "car_allowlist_digest receipt = alw_allowlist_digest allowlist" "car_authorized_at_epoch_s receipt = now"
    "car_schema_version receipt = CALLER_AUTHORIZATION_RECEIPT_SCHEMA"
    "authorization_expected_digest V (receipt\<lparr>car_receipt_digest := []\<rparr>) = Inr (car_receipt_digest receipt)"
    using ok r by (auto simp: and_then_eq_Inr)
  show "service_validate service = Inr ()" "is_sha256 rd" "now \<noteq> 0" "rd \<notin> sia_used_request_digests st" by fact+
  show "\<forall>seen. map_of (sia_seen_processes st) (cl_process_id caller) = Some seen \<longrightarrow>
      spi_process_creation_time_100ns seen = cl_process_creation_time_100ns caller \<and>
      spi_caller_identity_digest seen = car_caller_identity_digest receipt"
    using ok(8) r by (auto simp: and_then_eq_Inr)
qed


section \<open>Histories of authorizations\<close>

inductive authorizer_step :: "identity_env \<Rightarrow> signer_identity_authorizer \<Rightarrow> signer_identity_authorizer \<Rightarrow> bool"
  for V where
  call: "authorizer_step V st (snd (caller_authorize V st caller service allowlist rd now))"

text \<open>What a call keeps: no request is forgotten, and a process keeps its identity.\<close>

definition authorizer_remembers :: "signer_identity_authorizer \<Rightarrow> signer_identity_authorizer \<Rightarrow> bool" where
  "authorizer_remembers st st' \<longleftrightarrow>
     sia_used_request_digests st \<subseteq> sia_used_request_digests st' \<and>
     map_of (sia_seen_processes st) \<subseteq>\<^sub>m map_of (sia_seen_processes st')"

lemma authorizer_step_remembers:
  assumes "authorizer_step V st st'"
  shows "authorizer_remembers st st'"
  using assms
proof cases
  case (call caller service allowlist rd now)
  show ?thesis
  proof (cases "fst (caller_authorize V st caller service allowlist rd now)")
    case (Inl e)
    then have "st' = st" by (simp add: call caller_authorize_def split: sum.splits)
    then show ?thesis by (simp add: authorizer_remembers_def)
  next
    case (Inr receipt)
    then have "caller_authorize V st caller service allowlist rd now = (Inr receipt, st')"
      by (simp add: call prod_eq_iff)
    from caller_authorize_ok(14,15) [OF this] show ?thesis
      by (auto simp: authorizer_remembers_def map_le_def)
  qed
qed

interpretation authorizer: state_machine "authorizer_step V" "\<lambda>_. True" for V
  by unfold_locales simp

lemma authorizer_steps_remember: "(authorizer_step V)\<^sup>*\<^sup>* st st' \<Longrightarrow> authorizer_remembers st st'"
proof (erule authorizer.steps_monotone)
  show "reflp authorizer_remembers" by (simp add: reflp_def authorizer_remembers_def)
  show "transp authorizer_remembers" unfolding transp_def authorizer_remembers_def using map_le_trans by blast
qed (simp_all add: authorizer_step_remembers)

lemma authorized_receipt_validates:
  assumes lawful: "identity_lawful V"
    and ok: "caller_authorize V st caller service allowlist rd now = (Inr receipt, st')"
  shows "authorization_validate V receipt caller service allowlist = Inr ()" "is_sha256 (car_receipt_digest receipt)"
proof -
  note c = caller_authorize_ok [OF ok]
  obtain dg where dg: "is_sha256 dg" "authorization_expected_digest V (receipt\<lparr>car_receipt_digest := []\<rparr>) = Inr dg"
      "\<forall>d. authorization_expected_digest V (receipt\<lparr>car_receipt_digest := []\<rparr>\<lparr>car_receipt_digest := d\<rparr>) = Inr dg"
    using expected_digests_total(3) [OF lawful] by blast
  then show "is_sha256 (car_receipt_digest receipt)" using c(13) by simp
  have seal: "authorization_expected_digest V receipt = Inr (car_receipt_digest receipt)"
    using spec [OF dg(3), of "car_receipt_digest receipt"] dg(2) c(13) by simp
  from c(1) obtain e where e: "find_match V allowlist caller = Inr e" "car_caller_id receipt = al_caller_id e" by blast
  then have a: "allowlist_validate V allowlist = Inr ()" and mem: "e \<in> set (alw_entries allowlist)"
    unfolding find_match_ok by (auto simp: filter_eq_Cons_iff)
  then have "is_identifier (al_caller_id e)"
    by (auto simp: allowlist_validate_ok allowlist_entries_ok_def allowed_validate_def result_simps)
  moreover obtain dg' where "is_sha256 dg'" "allowlist_expected_digest V allowlist = Inr dg'"
    using expected_digests_total(1) [OF lawful] by blast
  then have "is_sha256 (alw_allowlist_digest allowlist)" using a by (simp add: allowlist_validate_ok)
  moreover have "is_sha256 (car_caller_identity_digest receipt)" "is_sha256 (car_signer_service_identity_digest receipt)"
    using c(6,7) lawful prod_digest_value_sha256 by (auto simp: identity_lawful_def caller_digest_def service_digest_def result_simps)
  ultimately show "authorization_validate V receipt caller service allowlist = Inr ()"
    using c seal a e(2) by (simp add: authorization_validate_def prod_validate_identifier_def prod_validate_sha256_def)
qed


section \<open>Properties\<close>

definition demo_identity_env :: identity_env where
  "demo_identity_env = \<lparr>iv_production = demo_production_env, iv_allowed_value = (\<lambda>_. Inr (JObject [])),
     iv_allowlist_value = (\<lambda>_. Inr (JObject [])), iv_contract_value = (\<lambda>_. Inr (JObject [])),
     iv_authorization_value = (\<lambda>_. Inr (JObject []))\<rparr>"

definition demo_path :: string where "demo_path = [CHR ''C'', CHR '':'', BACKSLASH, CHR ''a'']"

definition demo_caller :: authenticated_caller_identity where
  "demo_caller = \<lparr>cl_schema_version = AUTHENTICATED_CALLER_SCHEMA, cl_process_id = 7,
     cl_process_creation_time_100ns = 9, cl_principal_sid = ''S-1-5'', cl_session_id = 1,
     cl_executable_path = demo_path, cl_executable_sha256 = demo_zero_digest\<rparr>"

definition demo_service :: signer_service_identity where
  "demo_service = \<lparr>svc_schema_version = SIGNER_SERVICE_IDENTITY_SCHEMA, svc_service_id = ''signer'',
     svc_instance_nonce = demo_zero_digest, svc_process_id = 3, svc_process_creation_time_100ns = 4,
     svc_executable_sha256 = demo_zero_digest, svc_started_at_epoch_s = 5\<rparr>"

definition demo_entry :: allowed_signer_caller where
  "demo_entry = \<lparr>al_caller_id = ''app'', al_principal_sid = ''S-1-5'', al_session_id = None,
     al_executable_path = demo_path, al_executable_sha256 = demo_zero_digest\<rparr>"

definition demo_allowlist :: signer_caller_allowlist where
  "demo_allowlist = \<lparr>alw_schema_version = CALLER_ALLOWLIST_SCHEMA, alw_revision = 1, alw_entries = [demo_entry],
     alw_allowlist_digest = demo_zero_digest\<rparr>"

lemma demo_identity_lawful: "identity_lawful demo_identity_env"
  using demo_prod_hasher_lawful by (auto simp: identity_lawful_def sealable_def demo_identity_env_def)

lemma demo_caller_valid [simp]: "caller_validate demo_caller = Inr ()"
proof -
  have "\<not> blank demo_path" by (simp add: demo_path_def BACKSLASH_def blank_def ascii_space_def wide_space2_def wide_space3_def)
  then show ?thesis by (simp add: caller_validate_def demo_caller_def)
qed

lemma length_demo_zero_digest [simp]: "length demo_zero_digest = 64"
  by (simp add: demo_zero_digest_def)

lemma demo_service_valid [simp]: "service_validate demo_service = Inr ()"
proof -
  have "is_identifier ''signer''" by (simp add: is_identifier_def is_ascii_alphanumeric_def)
  then show ?thesis by (simp add: service_validate_def demo_service_def prod_validate_identifier_def)
qed

lemma demo_entry_valid [simp]: "allowed_validate demo_entry = Inr ()"
proof -
  have "is_identifier ''app''" by (simp add: is_identifier_def is_ascii_alphanumeric_def)
  moreover have "validate_sid ''S-1-5'' = Inr ()" by (simp add: validate_sid_def is_ascii_digit_def)
  moreover have "validate_path demo_path = Inr ()"
    by (simp add: validate_path_def demo_path_def BACKSLASH_def normalize_path_def to_ascii_lowercase_def Let_def)
  ultimately show ?thesis by (simp add: allowed_validate_def demo_entry_def prod_validate_identifier_def)
qed

lemma demo_allowlist_valid [simp]: "allowlist_validate demo_identity_env demo_allowlist = Inr ()"
  by (simp add: allowlist_validate_ok demo_allowlist_def allowlist_entries_ok_def MAX_ALLOWLIST_ENTRIES_def
      allowlist_expected_digest_def) (simp add: demo_identity_env_def)

lemma demo_find_match [simp]: "find_match demo_identity_env demo_allowlist demo_caller = Inr demo_entry"
  by (simp add: find_match_ok)
    (simp add: demo_allowlist_def entry_allows_def demo_entry_def demo_caller_def paths_equal_def)

lemma demo_identity_digests [simp]:
  "caller_digest demo_production_env demo_caller = Inr demo_zero_digest"
  "service_digest demo_production_env demo_service = Inr demo_zero_digest"
  by (simp_all add: caller_digest_def service_digest_def prod_digest_value_def) (simp_all add: demo_production_env_def)

definition demo_authorization ::
    "(signer_identity_error + caller_authorization_receipt) \<times> signer_identity_authorizer" where
  "demo_authorization = caller_authorize demo_identity_env authorizer_default demo_caller demo_service demo_allowlist
     demo_zero_digest 60"

lemma demo_authorized: "\<exists>receipt. fst demo_authorization = Inr receipt"
proof -
  have [simp]: "iv_production demo_identity_env = demo_production_env" by (simp add: demo_identity_env_def)
  have [simp]: "authorization_expected_digest demo_identity_env r = Inr demo_zero_digest" for r
    by (simp add: authorization_expected_digest_def) (simp add: demo_identity_env_def)
  show ?thesis
    by (simp add: demo_authorization_def caller_authorize_def caller_authorize_checks_def authorizer_default_def Let_def)
qed

text \<open>
  Once a signing request has been authorized, no later call of the same authorizer, for
  whatever caller, service, allowlist or time, authorizes the same request again; and a later
  call that names the process of the first one is authorized only for the same process
  instance with the same authenticated identity.
\<close>

lemma request_not_authorized_again:
  assumes "caller_authorize V st caller service allowlist rd now = (Inr receipt, st1)"
    "(authorizer_step V)\<^sup>*\<^sup>* st1 st2"
    "caller_authorize V st2 caller' service' allowlist' rd' now' = (Inr receipt', st3)"
  shows "rd' \<noteq> rd \<and>
    (cl_process_id caller' = cl_process_id caller \<longrightarrow>
       cl_process_creation_time_100ns caller' = cl_process_creation_time_100ns caller \<and>
       caller_digest (iv_production V) caller' = caller_digest (iv_production V) caller)"
proof -
  note first = caller_authorize_ok [OF assms(1)] and later = caller_authorize_ok [OF assms(3)]
  have kept: "authorizer_remembers st1 st2" using assms(2) by (rule authorizer_steps_remember)
  then have "rd \<in> sia_used_request_digests st2" by (auto simp: authorizer_remembers_def first(15))
  moreover from kept have "map_of (sia_seen_processes st2) (cl_process_id caller) =
      Some \<lparr>spi_process_creation_time_100ns = cl_process_creation_time_100ns caller,
        spi_caller_identity_digest = car_caller_identity_digest receipt\<rparr>"
    unfolding authorizer_remembers_def map_le_def first(15) by force
  ultimately show ?thesis using later(5,6,14) first(6) by auto
qed

end
