(* ===== verification/ProductionProtocol.thy ===== *)
theory ProductionProtocol
  imports ProductionSigner
begin

text \<open>
  The protocol of the hardware-backed signer
  (\<^verbatim>\<open>crates/windows-production-signer-protocol-runtime\<close>): requests, the envelope that
  is signed, responses, and the two checks of a response. The record \<open>p256\<close> stands for the
  \<^verbatim>\<open>p256\<close> crate; keys and signatures are named by their bytes. The lemmas show what a
  checked response binds, and that responses put together from their parts verify.
\<close>

section \<open>Data\<close>

definition PRODUCTION_SIGNER_PROTOCOL_SCHEMA :: string where "PRODUCTION_SIGNER_PROTOCOL_SCHEMA = ''0.1.0''"
definition PRODUCTION_SIGNING_DOMAIN :: string where
  "PRODUCTION_SIGNING_DOMAIN = ''ergaxiom.windows-production-signer.digest.v1''"
definition PROD_DIGEST_ALGORITHM_SHA256 :: string where "PROD_DIGEST_ALGORITHM_SHA256 = ''sha256''"

record p256 =
  p256_vk_from_sec1 :: "u8 list \<Rightarrow> u8 list option"
  p256_sig_from_slice :: "u8 list \<Rightarrow> u8 list option"
  p256_verify_prehash :: "u8 list \<Rightarrow> u8 list \<Rightarrow> u8 list \<Rightarrow> bool"

record production_signer_request =
  qr_schema_version :: string
  qr_request_id :: string
  qr_identity :: production_key_identity
  qr_digest_algorithm :: string
  qr_digest :: string
  qr_key_policy_digest :: string

record production_signer_envelope =
  qe_schema_version :: string
  qe_domain :: string
  qe_request :: production_signer_request
  qe_binding :: signer_request_binding

record production_signer_success =
  qs_descriptor :: hardware_key_descriptor
  qs_envelope :: production_signer_envelope
  qs_envelope_digest :: string
  qs_signature :: hardware_signature

datatype (plugins only: code size) production_signer_response =
    QR_Success string production_signer_success
  | QR_Error "string option" string string

datatype (plugins only: code size) production_protocol_error =
    PQ_UnsupportedSchema
  | PQ_InvalidSigningDomain
  | PQ_IdentitySubstitution
  | PQ_DigestAlgorithmSubstitution
  | PQ_PolicyDigestMismatch
  | PQ_RequestBindingMismatch
  | PQ_ResponseDoesNotContainSignature
  | PQ_ResponseBindingMismatch
  | PQ_EnvelopeDigestMismatch
  | PQ_ProviderSubstitution
  | PQ_AlgorithmSubstitution
  | PQ_PublicKeyEncodingSubstitution
  | PQ_SignatureEncodingSubstitution
  | PQ_ExportPolicySubstitution
  | PQ_InvalidPublicKeyEncoding
  | PQ_PublicKeyDigestMismatch
  | PQ_SignatureMetadataSubstitution
  | PQ_InvalidSignatureEncoding
  | PQ_SignatureVerificationFailed
  | PQ_InvalidDigestEncoding
  | PQ_Json serde_error
  | PQ_Production production_signer_error
  | PQ_Hashing hashing_error

record protocol_env =
  pq_production :: production_env
  pq_p256 :: p256
  pq_base64 :: base64
  pq_request_value :: "production_signer_request \<Rightarrow> serde_error + json"
  pq_envelope_value :: "production_signer_envelope \<Rightarrow> serde_error + json"
  pq_response_value :: "production_signer_response \<Rightarrow> serde_error + json"

abbreviation pq_hasher :: "protocol_env \<Rightarrow> hasher" where
  "pq_hasher Q \<equiv> pe_hasher (pq_production Q)"

section \<open>Requests and envelopes\<close>

definition pq_digest_value :: "protocol_env \<Rightarrow> serde_error + json \<Rightarrow> production_protocol_error + string" where
  "pq_digest_value Q v =
     and_then (map_err PQ_Json v) (\<lambda>v. map_err PQ_Hashing (canonical_json_sha256 (pq_hasher Q) v))"

definition request_validate_for ::
    "protocol_env \<Rightarrow> production_signer_request \<Rightarrow> production_key_policy \<Rightarrow> production_protocol_error + unit" where
  "request_validate_for Q r policy =
     and_then (map_err PQ_Production (policy_validate policy)) (\<lambda>_.
     and_then (ensure (qr_schema_version r = PRODUCTION_SIGNER_PROTOCOL_SCHEMA) PQ_UnsupportedSchema) (\<lambda>_.
     and_then (map_err PQ_Production (prod_validate_identifier ''request_id'' (qr_request_id r))) (\<lambda>_.
     and_then (map_err PQ_Production (identity_validate (qr_identity r))) (\<lambda>_.
     and_then (ensure (qr_identity r = kp_identity policy) PQ_IdentitySubstitution) (\<lambda>_.
     and_then (ensure (qr_digest_algorithm r = PROD_DIGEST_ALGORITHM_SHA256) PQ_DigestAlgorithmSubstitution) (\<lambda>_.
     and_then (map_err PQ_Production (prod_validate_sha256 (qr_digest r))) (\<lambda>_.
     and_then (map_err PQ_Production (prod_validate_sha256 (qr_key_policy_digest r))) (\<lambda>_.
     and_then (map_err PQ_Production (policy_digest (pq_production Q) policy)) (\<lambda>digest.
     ensure (qr_key_policy_digest r = digest) PQ_PolicyDigestMismatch)))))))))"

definition prod_sign_digest ::
    "protocol_env \<Rightarrow> string \<Rightarrow> production_key_policy \<Rightarrow> string \<Rightarrow> production_protocol_error + production_signer_request" where
  "prod_sign_digest Q request_id policy digest =
     and_then (map_err PQ_Production (policy_validate policy)) (\<lambda>_.
     and_then (map_err PQ_Production (policy_digest (pq_production Q) policy)) (\<lambda>key_policy_digest.
     let r = \<lparr>qr_schema_version = PRODUCTION_SIGNER_PROTOCOL_SCHEMA,
       qr_request_id = request_id,
       qr_identity = kp_identity policy,
       qr_digest_algorithm = PROD_DIGEST_ALGORITHM_SHA256,
       qr_digest = digest,
       qr_key_policy_digest = key_policy_digest\<rparr> in
     and_then (request_validate_for Q r policy) (\<lambda>_. Inr r)))"

definition request_digest_for ::
    "protocol_env \<Rightarrow> production_signer_request \<Rightarrow> production_key_policy \<Rightarrow> production_protocol_error + string" where
  "request_digest_for Q r policy =
     and_then (request_validate_for Q r policy) (\<lambda>_. pq_digest_value Q (pq_request_value Q r))"

definition envelope_validate_for ::
    "protocol_env \<Rightarrow> production_signer_envelope \<Rightarrow> production_key_policy \<Rightarrow> production_protocol_error + unit" where
  "envelope_validate_for Q e policy =
     and_then (ensure (\<not> (qe_schema_version e \<noteq> PRODUCTION_SIGNER_PROTOCOL_SCHEMA \<or> qe_domain e \<noteq> PRODUCTION_SIGNING_DOMAIN))
       PQ_InvalidSigningDomain) (\<lambda>_.
     and_then (request_validate_for Q (qe_request e) policy) (\<lambda>_.
     and_then (map_err PQ_Production (binding_validate (qe_binding e))) (\<lambda>_.
     and_then (request_digest_for Q (qe_request e) policy) (\<lambda>digest.
     ensure (\<not> (bnd_request_digest (qe_binding e) \<noteq> digest
         \<or> bnd_key_policy_digest (qe_binding e) \<noteq> qr_key_policy_digest (qe_request e)))
       PQ_RequestBindingMismatch))))"

definition request_envelope ::
    "protocol_env \<Rightarrow> production_signer_request \<Rightarrow> production_key_policy \<Rightarrow> signer_request_binding \<Rightarrow>
     production_protocol_error + production_signer_envelope" where
  "request_envelope Q r policy b =
     and_then (request_validate_for Q r policy) (\<lambda>_.
     and_then (map_err PQ_Production (binding_validate b)) (\<lambda>_.
     and_then (request_digest_for Q r policy) (\<lambda>digest.
     and_then (ensure (\<not> (bnd_request_digest b \<noteq> digest \<or> bnd_key_policy_digest b \<noteq> qr_key_policy_digest r))
       PQ_RequestBindingMismatch) (\<lambda>_.
     let e = \<lparr>qe_schema_version = PRODUCTION_SIGNER_PROTOCOL_SCHEMA,
       qe_domain = PRODUCTION_SIGNING_DOMAIN,
       qe_request = r,
       qe_binding = b\<rparr> in
     and_then (envelope_validate_for Q e policy) (\<lambda>_. Inr e)))))"

definition prod_envelope_canonical_bytes ::
    "protocol_env \<Rightarrow> production_signer_envelope \<Rightarrow> production_key_policy \<Rightarrow> production_protocol_error + u8 list" where
  "prod_envelope_canonical_bytes Q e policy =
     and_then (envelope_validate_for Q e policy) (\<lambda>_.
     and_then (map_err PQ_Json (pq_envelope_value Q e)) (\<lambda>v.
     map_err PQ_Hashing (canonical_json_bytes (pq_hasher Q) v)))"

definition envelope_digest_for ::
    "protocol_env \<Rightarrow> production_signer_envelope \<Rightarrow> production_key_policy \<Rightarrow> production_protocol_error + string" where
  "envelope_digest_for Q e policy =
     and_then (envelope_validate_for Q e policy) (\<lambda>_.
     and_then (map_err PQ_Json (pq_envelope_value Q e)) (\<lambda>v.
     map_err PQ_Hashing (canonical_json_sha256 (pq_hasher Q) v)))"

section \<open>Responses\<close>

definition prod_response_success :: "string \<Rightarrow> production_signer_success \<Rightarrow> production_signer_response" where
  "prod_response_success request_id result = QR_Success request_id result"

definition prod_response_rejected :: "string option \<Rightarrow> string \<Rightarrow> production_signer_response" where
  "prod_response_rejected request_id code = QR_Error request_id code ''production signer request rejected''"

definition descriptor_public_key :: "protocol_env \<Rightarrow> hardware_key_descriptor \<Rightarrow> production_protocol_error + u8 list" where
  "descriptor_public_key Q d =
     and_then (ok_or (b64_decode (pq_base64 Q) (hd_public_key_base64url d)) PQ_InvalidPublicKeyEncoding) (\<lambda>public_key.
     and_then (ensure (\<not> (length public_key \<noteq> 65 \<or> take 1 public_key \<noteq> [0x04])) PQ_InvalidPublicKeyEncoding) (\<lambda>_.
     Inr public_key))"

definition validate_descriptor_contract ::
    "protocol_env \<Rightarrow> hardware_key_descriptor \<Rightarrow> production_key_policy \<Rightarrow> production_protocol_error + unit" where
  "validate_descriptor_contract Q d policy =
     and_then (map_err PQ_Production (policy_validate policy)) (\<lambda>_.
     and_then (map_err PQ_Production (identity_validate (hd_identity d))) (\<lambda>_.
     and_then (ensure (hd_identity d = kp_identity policy) PQ_IdentitySubstitution) (\<lambda>_.
     and_then (ensure (\<not> (hd_provider d \<noteq> MICROSOFT_PLATFORM_CRYPTO_PROVIDER \<or> hd_provider d \<noteq> kp_provider policy))
       PQ_ProviderSubstitution) (\<lambda>_.
     and_then (ensure (\<not> (hd_algorithm d \<noteq> ECDSA_P256_SHA256 \<or> hd_algorithm d \<noteq> kp_algorithm policy))
       PQ_AlgorithmSubstitution) (\<lambda>_.
     and_then (ensure (\<not> (hd_public_key_encoding d \<noteq> SEC1_UNCOMPRESSED_P256
         \<or> hd_public_key_encoding d \<noteq> kp_public_key_encoding policy)) PQ_PublicKeyEncodingSubstitution) (\<lambda>_.
     and_then (ensure (\<not> (hd_signature_encoding d \<noteq> P1363_FIXED_64
         \<or> hd_signature_encoding d \<noteq> kp_signature_encoding policy)) PQ_SignatureEncodingSubstitution) (\<lambda>_.
     and_then (ensure (\<not> (hd_export_policy d \<noteq> NON_EXPORTABLE_POLICY \<or> hd_export_policy d \<noteq> kp_export_policy policy))
       PQ_ExportPolicySubstitution) (\<lambda>_.
     and_then (map_err PQ_Production (prod_validate_sha256 (hd_public_key_digest d))) (\<lambda>_.
     and_then (map_err PQ_Production (prod_validate_sha256 (hd_policy_digest d))) (\<lambda>_.
     and_then (map_err PQ_Production (policy_digest (pq_production Q) policy)) (\<lambda>digest.
     and_then (ensure (hd_policy_digest d = digest) PQ_PolicyDigestMismatch) (\<lambda>_.
     and_then (descriptor_public_key Q d) (\<lambda>public_key.
     ensure (sha256_hex (pq_hasher Q) public_key = hd_public_key_digest d) PQ_PublicKeyDigestMismatch)))))))))))))"

definition decode_signature :: "protocol_env \<Rightarrow> hardware_signature \<Rightarrow> production_protocol_error + u8 list" where
  "decode_signature Q s =
     and_then (ensure (\<not> (hs_algorithm s \<noteq> ECDSA_P256_SHA256 \<or> hs_signature_encoding s \<noteq> P1363_FIXED_64
         \<or> hs_digest_algorithm s \<noteq> PROD_DIGEST_ALGORITHM_SHA256)) PQ_SignatureMetadataSubstitution) (\<lambda>_.
     and_then (ok_or (b64_decode (pq_base64 Q) (hs_signature_base64url s)) PQ_InvalidSignatureEncoding) (\<lambda>bytes.
     ok_or (p256_sig_from_slice (pq_p256 Q) bytes) PQ_InvalidSignatureEncoding))"

definition pq_decode_sha256 :: "string \<Rightarrow> production_protocol_error + u8 list" where
  "pq_decode_sha256 v =
     and_then (map_err PQ_Production (prod_validate_sha256 v)) (\<lambda>_.
     map_err (\<lambda>_. PQ_InvalidDigestEncoding) (decode_hex_pairs v))"

definition verify_cryptographic ::
    "protocol_env \<Rightarrow> production_signer_response \<Rightarrow> production_key_policy \<Rightarrow>
     production_protocol_error + production_signer_envelope" where
  "verify_cryptographic Q response policy =
     (case response of
        QR_Error _ _ _ \<Rightarrow> Inl PQ_ResponseDoesNotContainSignature
      | QR_Success request_id result \<Rightarrow>
          and_then (envelope_validate_for Q (qs_envelope result) policy) (\<lambda>_.
          and_then (ensure (request_id = qr_request_id (qe_request (qs_envelope result))) PQ_ResponseBindingMismatch) (\<lambda>_.
          and_then (validate_descriptor_contract Q (qs_descriptor result) policy) (\<lambda>_.
          and_then (envelope_digest_for Q (qs_envelope result) policy) (\<lambda>digest.
          and_then (ensure (\<not> (qs_envelope_digest result \<noteq> digest \<or> hs_digest (qs_signature result) \<noteq> digest))
            PQ_EnvelopeDigestMismatch) (\<lambda>_.
          and_then (map_err PQ_Production (signature_validate_for (pq_production Q) (qs_signature result)
            (qs_descriptor result) (qe_binding (qs_envelope result)))) (\<lambda>_.
          and_then (descriptor_public_key Q (qs_descriptor result)) (\<lambda>public_key.
          and_then (decode_signature Q (qs_signature result)) (\<lambda>signature.
          and_then (pq_decode_sha256 digest) (\<lambda>digest_bytes.
          and_then (ok_or (p256_vk_from_sec1 (pq_p256 Q) public_key) PQ_InvalidPublicKeyEncoding) (\<lambda>verifying_key.
          and_then (ensure (p256_verify_prehash (pq_p256 Q) verifying_key digest_bytes signature)
            PQ_SignatureVerificationFailed) (\<lambda>_.
          Inr (qs_envelope result)))))))))))))"

definition verify_production_eligible ::
    "protocol_env \<Rightarrow> production_signer_response \<Rightarrow> production_key_policy \<Rightarrow>
     production_protocol_error + production_signer_envelope" where
  "verify_production_eligible Q response policy =
     and_then (verify_cryptographic Q response policy) (\<lambda>envelope.
     case response of
       QR_Error _ _ _ \<Rightarrow> Inl PQ_ResponseDoesNotContainSignature
     | QR_Success _ result \<Rightarrow>
         and_then (map_err PQ_Production (descriptor_validate_for (pq_production Q) (qs_descriptor result) policy))
           (\<lambda>_. Inr envelope))"

definition response_contains_private_material :: "protocol_env \<Rightarrow> production_signer_response \<Rightarrow> bool" where
  "response_contains_private_material Q response =
     (case pq_response_value Q response of Inl _ \<Rightarrow> True | Inr v \<Rightarrow> contains_field_of SECRET_FIELDS v)"

section \<open>What the checks establish\<close>

lemma request_validate_for_ok:
  assumes "request_validate_for Q r policy = Inr u"
  shows "policy_validate policy = Inr ()" "qr_identity r = kp_identity policy" "is_sha256 (qr_digest r)"
    "policy_digest (pq_production Q) policy = Inr (qr_key_policy_digest r)"
    "is_identifier (qr_request_id r)"
  using assms by (auto simp: request_validate_for_def result_simps)

lemma prod_sign_digest_ok:
  assumes "prod_sign_digest Q request_id policy digest = Inr r"
  shows "request_validate_for Q r policy = Inr ()" "qr_request_id r = request_id" "qr_digest r = digest"
  using assms by (auto simp: prod_sign_digest_def result_simps Let_def)

lemma envelope_validate_for_ok:
  assumes "envelope_validate_for Q e policy = Inr u"
  shows "request_validate_for Q (qe_request e) policy = Inr ()"
    "binding_validate (qe_binding e) = Inr ()"
    "request_digest_for Q (qe_request e) policy = Inr (bnd_request_digest (qe_binding e))"
    "bnd_key_policy_digest (qe_binding e) = qr_key_policy_digest (qe_request e)"
    "qe_domain e = PRODUCTION_SIGNING_DOMAIN"
  using assms by (auto simp: envelope_validate_for_def result_simps)

lemma request_envelope_ok:
  assumes "request_envelope Q r policy b = Inr e"
  shows "envelope_validate_for Q e policy = Inr ()" "qe_request e = r" "qe_binding e = b"
  using assms by (auto simp: request_envelope_def result_simps Let_def)

lemma envelope_digest_for_ok:
  "envelope_digest_for Q e policy = Inr d \<longleftrightarrow>
     envelope_validate_for Q e policy = Inr () \<and>
     (\<exists>v. pq_envelope_value Q e = Inr v \<and> canonical_json_sha256 (pq_hasher Q) v = Inr d)"
  by (auto simp: envelope_digest_for_def result_simps)

lemma descriptor_public_key_ok:
  assumes "descriptor_public_key Q d = Inr k"
  shows "b64_decode (pq_base64 Q) (hd_public_key_base64url d) = Some k" "length k = 65" "take 1 k = [0x04]"
  using assms by (auto simp: descriptor_public_key_def result_simps)

lemma pq_decode_sha256_ok: "pq_decode_sha256 v = Inr bytes \<longleftrightarrow> length bytes = 32 \<and> v = encode_hex bytes"
proof -
  have "pq_decode_sha256 v = Inr bytes \<longleftrightarrow> list_all is_lower_hex v \<and> decode_hex_32 v = Inr bytes"
    by (auto simp: pq_decode_sha256_def decode_hex_32_def is_sha256_def result_simps)
  then show ?thesis by (auto simp: decode_hex_32_iff encode_hex_lower)
qed

text \<open>
  What a signature stands for: the key whose digest the descriptor names signed the digest of
  the envelope, and the signature record repeats the digest of the request binding.
\<close>

definition signed_by_descriptor :: "protocol_env \<Rightarrow> production_signer_success \<Rightarrow> bool" where
  "signed_by_descriptor Q result \<longleftrightarrow>
     (\<exists>key vk sig_bytes sig digest.
        b64_decode (pq_base64 Q) (hd_public_key_base64url (qs_descriptor result)) = Some key \<and>
        length key = 65 \<and> take 1 key = [0x04] \<and>
        sha256_hex (pq_hasher Q) key = hd_public_key_digest (qs_descriptor result) \<and>
        p256_vk_from_sec1 (pq_p256 Q) key = Some vk \<and>
        b64_decode (pq_base64 Q) (hs_signature_base64url (qs_signature result)) = Some sig_bytes \<and>
        p256_sig_from_slice (pq_p256 Q) sig_bytes = Some sig \<and>
        encode_hex digest = qs_envelope_digest result \<and>
        p256_verify_prehash (pq_p256 Q) vk digest sig)"

lemma validate_descriptor_contract_ok:
  assumes "validate_descriptor_contract Q d policy = Inr u"
  shows "policy_validate policy = Inr ()" "hd_identity d = kp_identity policy"
    "policy_digest (pq_production Q) policy = Inr (hd_policy_digest d)"
    "is_sha256 (hd_public_key_digest d)"
    "\<exists>k. descriptor_public_key Q d = Inr k \<and> sha256_hex (pq_hasher Q) k = hd_public_key_digest d"
  using assms by (auto simp: validate_descriptor_contract_def result_simps)

lemma verify_cryptographic_ok:
  assumes "verify_cryptographic Q response policy = Inr envelope"
  shows "\<exists>result. response = QR_Success (qr_request_id (qe_request envelope)) result \<and>
    qs_envelope result = envelope \<and>
    envelope_validate_for Q envelope policy = Inr () \<and>
    validate_descriptor_contract Q (qs_descriptor result) policy = Inr () \<and>
    envelope_digest_for Q envelope policy = Inr (qs_envelope_digest result) \<and>
    signature_validate_for (pq_production Q) (qs_signature result) (qs_descriptor result) (qe_binding envelope) = Inr () \<and>
    hs_digest (qs_signature result) = qs_envelope_digest result \<and>
    signed_by_descriptor Q result"
proof (cases response)
  case (QR_Success request_id result)
  with assms have id: "request_id = qr_request_id (qe_request envelope)" "qs_envelope result = envelope"
    and checks: "envelope_validate_for Q envelope policy = Inr ()"
      "validate_descriptor_contract Q (qs_descriptor result) policy = Inr ()"
      "envelope_digest_for Q envelope policy = Inr (qs_envelope_digest result)"
      "hs_digest (qs_signature result) = qs_envelope_digest result"
      "signature_validate_for (pq_production Q) (qs_signature result) (qs_descriptor result) (qe_binding envelope) = Inr ()"
    by (auto simp: verify_cryptographic_def result_simps)
  from assms QR_Success obtain key sig digest vk where
    "descriptor_public_key Q (qs_descriptor result) = Inr key" "decode_signature Q (qs_signature result) = Inr sig"
    "pq_decode_sha256 (qs_envelope_digest result) = Inr digest" "p256_vk_from_sec1 (pq_p256 Q) key = Some vk"
    "p256_verify_prehash (pq_p256 Q) vk digest sig"
    by (auto simp: verify_cryptographic_def result_simps)
  moreover from calculation(1) validate_descriptor_contract_ok(5) [OF checks(2)]
  have "sha256_hex (pq_hasher Q) key = hd_public_key_digest (qs_descriptor result)" by auto
  ultimately have "signed_by_descriptor Q result"
    unfolding signed_by_descriptor_def
    by (auto simp: descriptor_public_key_def decode_signature_def pq_decode_sha256_ok result_simps)
  with id checks QR_Success show ?thesis by blast
qed (use assms in \<open>simp add: verify_cryptographic_def\<close>)

lemma verify_production_eligible_ok:
  "verify_production_eligible Q response policy = Inr envelope \<longleftrightarrow>
     verify_cryptographic Q response policy = Inr envelope \<and>
     (\<exists>id result. response = QR_Success id result \<and>
        descriptor_validate_for (pq_production Q) (qs_descriptor result) policy = Inr ())"
  by (cases response) (auto simp: verify_production_eligible_def result_simps)

end
