(* ===== verification/ProductionKeys.thy ===== *)
theory ProductionKeys
  imports ProductionProtocol Machine
begin

text \<open>
  The registry of production key generations
  (\<^verbatim>\<open>crates/windows-production-key-governance-runtime\<close>): sealed records, guarded
  insertion, rotation and revocation, resolution, trust bindings and snapshots. A mutation
  returns its result paired with the registry it leaves, also when it fails half-way. The
  properties of the registry are in \<^verbatim>\<open>ProductionRegistry\<close>.
\<close>

section \<open>Data\<close>

definition PRODUCTION_KEY_REGISTRY_SCHEMA :: string where "PRODUCTION_KEY_REGISTRY_SCHEMA = ''0.1.0''"
definition PRODUCTION_KEY_RECORD_SCHEMA :: string where "PRODUCTION_KEY_RECORD_SCHEMA = ''0.1.0''"
definition PRODUCTION_KEY_MUTATION_RECEIPT_SCHEMA :: string where "PRODUCTION_KEY_MUTATION_RECEIPT_SCHEMA = ''0.1.0''"
definition PRODUCTION_KEY_TRUST_BINDING_SCHEMA :: string where "PRODUCTION_KEY_TRUST_BINDING_SCHEMA = ''0.1.0''"

datatype (plugins only: code size) production_key_status = PK_Active | PK_Retired | PK_Revoked

datatype (plugins only: code size) production_key_mutation_action = PM_Add | PM_Rotate | PM_Revoke

record production_key_record =
  kr_schema_version :: string
  kr_identity :: production_key_identity
  kr_generation :: u64
  kr_public_key_base64url :: string
  kr_public_key_digest :: string
  kr_provider :: string
  kr_algorithm :: string
  kr_public_key_encoding :: string
  kr_signature_encoding :: string
  kr_export_policy :: string
  kr_provider_implementation_flags :: u32
  kr_assurance :: hardware_assurance
  kr_policy_digest :: string
  kr_status :: production_key_status
  kr_not_before_epoch_s :: u64
  kr_not_after_epoch_s :: u64
  kr_retired_at_epoch_s :: "u64 option"
  kr_revoked_at_epoch_s :: "u64 option"
  kr_revocation_reason_digest :: "string option"
  kr_successor_generation :: "u64 option"
  kr_record_digest :: string

record production_key_mutation_receipt =
  pmr_schema_version :: string
  pmr_action :: production_key_mutation_action
  pmr_identity :: production_key_identity
  pmr_generation :: u64
  pmr_previous_generation :: "u64 option"
  pmr_revision :: u64
  pmr_previous_registry_digest :: string
  pmr_registry_digest :: string
  pmr_effective_at_epoch_s :: u64
  pmr_receipt_digest :: string

record production_key_trust_binding =
  tb_schema_version :: string
  tb_identity :: production_key_identity
  tb_generation :: u64
  tb_public_key_digest :: string
  tb_key_record_digest :: string
  tb_registry_revision :: u64
  tb_registry_digest :: string

record production_key_registry_snapshot =
  rsn_schema_version :: string
  rsn_revision :: u64
  rsn_records :: "production_key_record list"

type_synonym record_key = "issuer_role \<times> string \<times> string \<times> u64"

record production_key_registry =
  pkr_revision :: u64
  pkr_records :: "(record_key, production_key_record) bmap"

datatype (plugins only: code size) production_key_error =
    PKE_UnsupportedRegistrySchema
  | PKE_InvalidRegistrySnapshot
  | PKE_RegistrySnapshotNotCanonical
  | PKE_DuplicateRegistryRecord
  | PKE_ActiveGenerationAmbiguity
  | PKE_NoActiveGeneration
  | PKE_UnsupportedRecordSchema
  | PKE_UnsupportedMutationReceiptSchema
  | PKE_UnsupportedTrustBindingSchema
  | PKE_InvalidValidityWindow
  | PKE_InvalidKeyState
  | PKE_InvalidPublicKey
  | PKE_PublicKeyDigestMismatch
  | PKE_HardwareAssuranceUnproven
  | PKE_RecordDigestMismatch
  | PKE_InvalidMutationReceipt
  | PKE_MutationReceiptDigestMismatch
  | PKE_InvalidTrustBinding
  | PKE_RegistryRevisionMismatch u64 u64
  | PKE_RegistryDigestMismatch
  | PKE_LogicalIdentityAlreadyExists
  | PKE_DuplicateKeyGeneration
  | PKE_PublicKeyReuse
  | PKE_IdentitySubstitution
  | PKE_RoleMismatch
  | PKE_UnknownKeyGeneration
  | PKE_KeyNotYetValid
  | PKE_KeyExpired
  | PKE_KeyRevoked
  | PKE_InvalidRevocationReasonDigest
  | PKE_TrustBindingMismatch
  | PKE_InvalidCanonicalObject
  | PKE_Serialization serde_error
  | PKE_Hashing hashing_error
  | PKE_Production production_signer_error

record keys_env =
  kv_production :: production_env
  kv_p256 :: p256
  kv_base64 :: base64
  kv_record_value :: "production_key_record \<Rightarrow> serde_error + json"
  kv_receipt_value :: "production_key_mutation_receipt \<Rightarrow> serde_error + json"
  kv_snapshot_value :: "production_key_registry_snapshot \<Rightarrow> serde_error + json"

abbreviation kv_hasher :: "keys_env \<Rightarrow> hasher" where
  "kv_hasher K \<equiv> pe_hasher (kv_production K)"

section \<open>Records\<close>

definition record_expected_digest :: "keys_env \<Rightarrow> production_key_record \<Rightarrow> production_key_error + string" where
  "record_expected_digest K r =
     blank_field_digest (kv_hasher K) PKE_Serialization PKE_InvalidCanonicalObject PKE_Hashing ''record_digest''
       (kv_record_value K r)"

definition record_descriptor :: "production_key_record \<Rightarrow> hardware_key_descriptor" where
  "record_descriptor r = \<lparr>
     hd_identity = kr_identity r,
     hd_provider = kr_provider r,
     hd_algorithm = kr_algorithm r,
     hd_public_key_encoding = kr_public_key_encoding r,
     hd_public_key_base64url = kr_public_key_base64url r,
     hd_public_key_digest = kr_public_key_digest r,
     hd_signature_encoding = kr_signature_encoding r,
     hd_export_policy = kr_export_policy r,
     hd_provider_implementation_flags = kr_provider_implementation_flags r,
     hd_assurance = kr_assurance r,
     hd_policy_digest = kr_policy_digest r\<rparr>"

definition validate_public_key :: "keys_env \<Rightarrow> production_key_record \<Rightarrow> production_key_error + unit" where
  "validate_public_key K r =
     and_then (ok_or (b64_decode (kv_base64 K) (kr_public_key_base64url r)) PKE_InvalidPublicKey) (\<lambda>public_key.
     and_then (ensure (\<not> (length public_key \<noteq> 65 \<or> take 1 public_key \<noteq> [0x04])) PKE_InvalidPublicKey) (\<lambda>_.
     and_then (ok_or (p256_vk_from_sec1 (kv_p256 K) public_key) PKE_InvalidPublicKey) (\<lambda>_.
     and_then (ensure (sha256_hex (kv_hasher K) public_key = kr_public_key_digest r) PKE_PublicKeyDigestMismatch) (\<lambda>_.
     map_err PKE_Production
       (descriptor_validate_for (kv_production K) (record_descriptor r) (policy_for (kr_identity r)))))))"

definition record_state_ok :: "production_key_record \<Rightarrow> bool" where
  "record_state_ok r =
     (case kr_status r of
        PK_Active \<Rightarrow> \<not> (kr_retired_at_epoch_s r \<noteq> None \<or> kr_revoked_at_epoch_s r \<noteq> None
          \<or> kr_revocation_reason_digest r \<noteq> None \<or> kr_successor_generation r \<noteq> None)
      | PK_Retired \<Rightarrow> \<not> (kr_retired_at_epoch_s r \<noteq> Some (kr_not_after_epoch_s r) \<or> kr_successor_generation r = None
          \<or> kr_revoked_at_epoch_s r \<noteq> None \<or> kr_revocation_reason_digest r \<noteq> None)
      | PK_Revoked \<Rightarrow> \<not> (kr_revoked_at_epoch_s r = None \<or> kr_revocation_reason_digest r = None))"

definition record_validate_seal :: "keys_env \<Rightarrow> production_key_record \<Rightarrow> production_key_error + unit" where
  "record_validate_seal K r =
     and_then (ensure (kr_schema_version r = PRODUCTION_KEY_RECORD_SCHEMA) PKE_UnsupportedRecordSchema) (\<lambda>_.
     and_then (map_err PKE_Production (identity_validate (kr_identity r))) (\<lambda>_.
     and_then (ensure (\<not> (kr_generation r = 0 \<or> kr_not_before_epoch_s r \<ge> kr_not_after_epoch_s r)) PKE_InvalidValidityWindow) (\<lambda>_.
     and_then (map_err PKE_Production (prod_validate_sha256 (kr_public_key_digest r))) (\<lambda>_.
     and_then (map_err PKE_Production (prod_validate_sha256 (kr_policy_digest r))) (\<lambda>_.
     and_then (ensure (kr_assurance r = ProvenHardwareBacked) PKE_HardwareAssuranceUnproven) (\<lambda>_.
     and_then (case kr_revocation_reason_digest r of None \<Rightarrow> Inr ()
       | Some reason \<Rightarrow> map_err (\<lambda>_. PKE_InvalidRevocationReasonDigest) (prod_validate_sha256 reason)) (\<lambda>_.
     and_then (ensure (record_state_ok r) PKE_InvalidKeyState) (\<lambda>_.
     and_then (validate_public_key K r) (\<lambda>_.
     and_then (record_expected_digest K r) (\<lambda>digest.
     ensure (kr_record_digest r = digest) PKE_RecordDigestMismatch))))))))))"

definition build_record ::
    "keys_env \<Rightarrow> hardware_key_descriptor \<Rightarrow> u64 \<Rightarrow> production_key_status \<Rightarrow> u64 \<Rightarrow> u64 \<Rightarrow> u64 option \<Rightarrow> u64 option \<Rightarrow>
     string option \<Rightarrow> u64 option \<Rightarrow> production_key_error + production_key_record" where
  "build_record K d generation status not_before not_after retired_at revoked_at reason successor =
     and_then (map_err PKE_Production (descriptor_validate_for (kv_production K) d (policy_for (hd_identity d)))) (\<lambda>_.
     and_then (ensure (hd_assurance d = ProvenHardwareBacked) PKE_HardwareAssuranceUnproven) (\<lambda>_.
     and_then (ensure (\<not> (generation = 0 \<or> not_before \<ge> not_after)) PKE_InvalidValidityWindow) (\<lambda>_.
     let r = \<lparr>kr_schema_version = PRODUCTION_KEY_RECORD_SCHEMA,
       kr_identity = hd_identity d,
       kr_generation = generation,
       kr_public_key_base64url = hd_public_key_base64url d,
       kr_public_key_digest = hd_public_key_digest d,
       kr_provider = hd_provider d,
       kr_algorithm = hd_algorithm d,
       kr_public_key_encoding = hd_public_key_encoding d,
       kr_signature_encoding = hd_signature_encoding d,
       kr_export_policy = hd_export_policy d,
       kr_provider_implementation_flags = hd_provider_implementation_flags d,
       kr_assurance = hd_assurance d,
       kr_policy_digest = hd_policy_digest d,
       kr_status = status,
       kr_not_before_epoch_s = not_before,
       kr_not_after_epoch_s = not_after,
       kr_retired_at_epoch_s = retired_at,
       kr_revoked_at_epoch_s = revoked_at,
       kr_revocation_reason_digest = reason,
       kr_successor_generation = successor,
       kr_record_digest = []\<rparr> in
     and_then (record_expected_digest K r) (\<lambda>digest.
     let r' = r\<lparr>kr_record_digest := digest\<rparr> in
     and_then (record_validate_seal K r') (\<lambda>_. Inr r')))))"

section \<open>Receipts, trust bindings and snapshots\<close>

definition mutation_expected_digest ::
    "keys_env \<Rightarrow> production_key_mutation_receipt \<Rightarrow> production_key_error + string" where
  "mutation_expected_digest K r =
     blank_field_digest (kv_hasher K) PKE_Serialization PKE_InvalidCanonicalObject PKE_Hashing ''receipt_digest''
       (kv_receipt_value K r)"

definition mutation_validate_seal ::
    "keys_env \<Rightarrow> production_key_mutation_receipt \<Rightarrow> production_key_error + unit" where
  "mutation_validate_seal K r =
     and_then (ensure (pmr_schema_version r = PRODUCTION_KEY_MUTATION_RECEIPT_SCHEMA) PKE_UnsupportedMutationReceiptSchema) (\<lambda>_.
     and_then (map_err PKE_Production (identity_validate (pmr_identity r))) (\<lambda>_.
     and_then (ensure (\<not> (pmr_generation r = 0 \<or> pmr_revision r = 0 \<or> pmr_effective_at_epoch_s r = 0))
       PKE_InvalidMutationReceipt) (\<lambda>_.
     and_then (map_err PKE_Production (prod_validate_sha256 (pmr_previous_registry_digest r))) (\<lambda>_.
     and_then (map_err PKE_Production (prod_validate_sha256 (pmr_registry_digest r))) (\<lambda>_.
     and_then (mutation_expected_digest K r) (\<lambda>digest.
     ensure (pmr_receipt_digest r = digest) PKE_MutationReceiptDigestMismatch))))))"

definition trust_binding_validate_shape :: "production_key_trust_binding \<Rightarrow> production_key_error + unit" where
  "trust_binding_validate_shape b =
     and_then (ensure (tb_schema_version b = PRODUCTION_KEY_TRUST_BINDING_SCHEMA) PKE_UnsupportedTrustBindingSchema) (\<lambda>_.
     and_then (map_err PKE_Production (identity_validate (tb_identity b))) (\<lambda>_.
     and_then (ensure (\<not> (tb_generation b = 0 \<or> tb_registry_revision b = 0)) PKE_InvalidTrustBinding) (\<lambda>_.
     and_then (map_err PKE_Production (prod_validate_sha256 (tb_public_key_digest b))) (\<lambda>_.
     and_then (map_err PKE_Production (prod_validate_sha256 (tb_key_record_digest b))) (\<lambda>_.
     map_err PKE_Production (prod_validate_sha256 (tb_registry_digest b)))))))"

definition record_key_from :: "production_key_identity \<Rightarrow> u64 \<Rightarrow> record_key" where
  "record_key_from i generation = (ki_role i, ki_issuer_id i, ki_key_id i, generation)"

abbreviation record_key_of :: "production_key_record \<Rightarrow> record_key" where
  "record_key_of r \<equiv> record_key_from (kr_identity r) (kr_generation r)"

record snapshot_scan =
  scan_identities :: "record_key set"
  scan_public_keys :: "string set"
  scan_previous :: "record_key option"

definition scan_start :: snapshot_scan where
  "scan_start = \<lparr>scan_identities = {}, scan_public_keys = {}, scan_previous = None\<rparr>"

definition scan_record :: "keys_env \<Rightarrow> snapshot_scan \<Rightarrow> production_key_record \<Rightarrow> production_key_error + snapshot_scan" where
  "scan_record K st r =
     and_then (record_validate_seal K r) (\<lambda>_.
     let key = record_key_of r in
     and_then (ensure (\<not> (case scan_previous st of None \<Rightarrow> False | Some candidate \<Rightarrow> candidate \<ge> key))
       PKE_RegistrySnapshotNotCanonical) (\<lambda>_.
     and_then (ensure (key \<notin> scan_identities st) PKE_DuplicateRegistryRecord) (\<lambda>_.
     and_then (ensure (kr_public_key_digest r \<notin> scan_public_keys st) PKE_PublicKeyReuse) (\<lambda>_.
     Inr \<lparr>scan_identities = insert key (scan_identities st),
       scan_public_keys = insert (kr_public_key_digest r) (scan_public_keys st),
       scan_previous = Some key\<rparr>))))"

definition snapshot_validate_seal :: "keys_env \<Rightarrow> production_key_registry_snapshot \<Rightarrow> production_key_error + unit" where
  "snapshot_validate_seal K s =
     and_then (ensure (rsn_schema_version s = PRODUCTION_KEY_REGISTRY_SCHEMA) PKE_UnsupportedRegistrySchema) (\<lambda>_.
     and_then (ensure (\<not> (rsn_revision s = 0 \<and> rsn_records s \<noteq> [])) PKE_InvalidRegistrySnapshot) (\<lambda>_.
     and_then (try_fold (scan_record K) scan_start (rsn_records s)) (\<lambda>_. Inr ())))"

definition record_active_at :: "production_key_record \<Rightarrow> u64 \<Rightarrow> bool" where
  "record_active_at r at \<longleftrightarrow>
     kr_status r = PK_Active \<and> at \<ge> kr_not_before_epoch_s r \<and> at < kr_not_after_epoch_s r"

definition validate_active_generations ::
    "keys_env \<Rightarrow> production_key_registry_snapshot \<Rightarrow> u64 \<Rightarrow> production_key_error + unit" where
  "validate_active_generations K s at =
     and_then (snapshot_validate_seal K s) (\<lambda>_.
     and_then (try_fold (\<lambda>active r.
         if record_active_at r at then
           let i = (ki_role (kr_identity r), ki_issuer_id (kr_identity r), ki_key_id (kr_identity r)) in
           if i \<in> active then Inl PKE_ActiveGenerationAmbiguity else Inr (insert i active)
         else Inr active) {} (rsn_records s)) (\<lambda>_. Inr ()))"

definition snapshot_digest :: "keys_env \<Rightarrow> production_key_registry_snapshot \<Rightarrow> production_key_error + string" where
  "snapshot_digest K s =
     and_then (snapshot_validate_seal K s) (\<lambda>_.
     and_then (map_err PKE_Serialization (kv_snapshot_value K s)) (\<lambda>v.
     map_err PKE_Hashing (canonical_json_sha256 (kv_hasher K) v)))"

section \<open>The registry\<close>

definition prod_registry_default :: production_key_registry where
  "prod_registry_default = \<lparr>pkr_revision = 0, pkr_records = []\<rparr>"

definition prod_snapshot :: "production_key_registry \<Rightarrow> production_key_registry_snapshot" where
  "prod_snapshot reg = \<lparr>rsn_schema_version = PRODUCTION_KEY_REGISTRY_SCHEMA,
     rsn_revision = pkr_revision reg, rsn_records = bm_values (pkr_records reg)\<rparr>"

definition prod_registry_digest :: "keys_env \<Rightarrow> production_key_registry \<Rightarrow> production_key_error + string" where
  "prod_registry_digest K reg = snapshot_digest K (prod_snapshot reg)"

definition index_records ::
    "(record_key, production_key_record) bmap \<Rightarrow> production_key_record list \<Rightarrow>
     production_key_error + (record_key, production_key_record) bmap" where
  "index_records = try_fold (\<lambda>m r.
     if bm_contains_key m (record_key_of r) then Inl PKE_DuplicateRegistryRecord
     else Inr (bm_insert (record_key_of r) r m))"

definition from_snapshot :: "keys_env \<Rightarrow> production_key_registry_snapshot \<Rightarrow> production_key_error + production_key_registry" where
  "from_snapshot K s =
     and_then (snapshot_validate_seal K s) (\<lambda>_.
     and_then (index_records [] (rsn_records s)) (\<lambda>records.
     let reg = \<lparr>pkr_revision = rsn_revision s, pkr_records = records\<rparr> in
     and_then (ensure (prod_snapshot reg = s) PKE_RegistrySnapshotNotCanonical) (\<lambda>_. Inr reg)))"

definition prod_active_record ::
    "keys_env \<Rightarrow> production_key_registry \<Rightarrow> production_key_identity \<Rightarrow> u64 \<Rightarrow> production_key_error + production_key_record" where
  "prod_active_record K reg i at =
     and_then (map_err PKE_Production (identity_validate i)) (\<lambda>_.
     and_then (try_fold (\<lambda>active r.
         and_then (record_validate_seal K r) (\<lambda>_.
         and_then (ensure (active = None) PKE_ActiveGenerationAmbiguity) (\<lambda>_. Inr (Some r)))) None
       (filter (\<lambda>r. kr_identity r = i \<and> record_active_at r at) (bm_values (pkr_records reg)))) (\<lambda>active.
     ok_or active PKE_NoActiveGeneration))"

definition prod_require_base :: "keys_env \<Rightarrow> production_key_registry \<Rightarrow> u64 \<Rightarrow> string \<Rightarrow> production_key_error + unit" where
  "prod_require_base K reg expected_revision expected_digest =
     and_then (ensure (expected_revision = pkr_revision reg)
       (PKE_RegistryRevisionMismatch (pkr_revision reg) expected_revision)) (\<lambda>_.
     and_then (prod_registry_digest K reg) (\<lambda>digest.
     ensure (expected_digest = digest) PKE_RegistryDigestMismatch))"

definition prod_require_unused_public_key :: "production_key_registry \<Rightarrow> string \<Rightarrow> production_key_error + unit" where
  "prod_require_unused_public_key reg digest =
     and_then (map_err PKE_Production (prod_validate_sha256 digest)) (\<lambda>_.
     ensure (\<not> list_ex (\<lambda>r. kr_public_key_digest r = digest) (bm_values (pkr_records reg))) PKE_PublicKeyReuse)"

definition same_logical_identity :: "record_key \<Rightarrow> production_key_identity \<Rightarrow> bool" where
  "same_logical_identity key i =
     (case key of (role, issuer_id, key_id, _) \<Rightarrow> role = ki_role i \<and> issuer_id = ki_issuer_id i \<and> key_id = ki_key_id i)"

definition prod_build_receipt ::
    "keys_env \<Rightarrow> production_key_registry \<Rightarrow> production_key_mutation_action \<Rightarrow> production_key_identity \<Rightarrow> u64 \<Rightarrow> u64 option \<Rightarrow>
     u64 \<Rightarrow> string \<Rightarrow> production_key_error + production_key_mutation_receipt" where
  "prod_build_receipt K reg action i generation previous_generation effective_at previous_digest =
     and_then (prod_registry_digest K reg) (\<lambda>registry_digest.
     let r = \<lparr>pmr_schema_version = PRODUCTION_KEY_MUTATION_RECEIPT_SCHEMA,
       pmr_action = action,
       pmr_identity = i,
       pmr_generation = generation,
       pmr_previous_generation = previous_generation,
       pmr_revision = pkr_revision reg,
       pmr_previous_registry_digest = previous_digest,
       pmr_registry_digest = registry_digest,
       pmr_effective_at_epoch_s = effective_at,
       pmr_receipt_digest = []\<rparr> in
     and_then (mutation_expected_digest K r) (\<lambda>digest.
     let r' = r\<lparr>pmr_receipt_digest := digest\<rparr> in
     and_then (mutation_validate_seal K r') (\<lambda>_. Inr r')))"

definition insert_initial_checks ::
    "keys_env \<Rightarrow> production_key_registry \<Rightarrow> u64 \<Rightarrow> string \<Rightarrow> hardware_key_descriptor \<Rightarrow> u64 \<Rightarrow> u64 \<Rightarrow> u64 \<Rightarrow>
     production_key_error + production_key_record \<times> string" where
  "insert_initial_checks K reg expected_revision expected_digest d not_before not_after effective_at =
     and_then (prod_require_base K reg expected_revision expected_digest) (\<lambda>_.
     and_then (ensure (\<not> (not_before \<ge> not_after \<or> effective_at = 0)) PKE_InvalidValidityWindow) (\<lambda>_.
     and_then (ensure (\<not> list_ex (\<lambda>key. same_logical_identity key (hd_identity d)) (bm_keys (pkr_records reg)))
       PKE_LogicalIdentityAlreadyExists) (\<lambda>_.
     and_then (prod_require_unused_public_key reg (hd_public_key_digest d)) (\<lambda>_.
     and_then (build_record K d 1 PK_Active not_before not_after None None None None) (\<lambda>r.
     and_then (prod_registry_digest K reg) (\<lambda>previous_digest. Inr (r, previous_digest)))))))"

definition insert_initial_guarded ::
    "keys_env \<Rightarrow> production_key_registry \<Rightarrow> u64 \<Rightarrow> string \<Rightarrow> hardware_key_descriptor \<Rightarrow> u64 \<Rightarrow> u64 \<Rightarrow> u64 \<Rightarrow>
     (production_key_error + production_key_mutation_receipt) \<times> production_key_registry" where
  "insert_initial_guarded K reg expected_revision expected_digest d not_before not_after effective_at =
     (case insert_initial_checks K reg expected_revision expected_digest d not_before not_after effective_at of
        Inl e \<Rightarrow> (Inl e, reg)
      | Inr (r, previous_digest) \<Rightarrow>
          let reg' = \<lparr>pkr_revision = saturating_add (pkr_revision reg) 1,
                pkr_records = bm_insert (record_key_from (hd_identity d) 1) r (pkr_records reg)\<rparr>
          in (prod_build_receipt K reg' PM_Add (hd_identity d) 1 None effective_at previous_digest, reg'))"

definition prod_rotate_checks ::
    "keys_env \<Rightarrow> production_key_registry \<Rightarrow> u64 \<Rightarrow> string \<Rightarrow> production_key_identity \<Rightarrow> u64 \<Rightarrow> hardware_key_descriptor \<Rightarrow>
     u64 \<Rightarrow> u64 \<Rightarrow> u64 \<Rightarrow> production_key_error + production_key_record \<times> production_key_record \<times> string" where
  "prod_rotate_checks K reg expected_revision expected_digest i current_generation d activation_at retirement_at new_not_after =
     and_then (prod_require_base K reg expected_revision expected_digest) (\<lambda>_.
     and_then (map_err PKE_Production (identity_validate i)) (\<lambda>_.
     and_then (ensure (hd_identity d = i) PKE_IdentitySubstitution) (\<lambda>_.
     and_then (ok_or (map_of (pkr_records reg) (record_key_from i current_generation)) PKE_UnknownKeyGeneration) (\<lambda>current.
     and_then (record_validate_seal K current) (\<lambda>_.
     and_then (ensure (\<not> (kr_status current \<noteq> PK_Active
         \<or> current_generation = - 1
         \<or> activation_at < kr_not_before_epoch_s current
         \<or> activation_at > retirement_at
         \<or> retirement_at > kr_not_after_epoch_s current
         \<or> activation_at \<ge> new_not_after)) PKE_InvalidKeyState) (\<lambda>_.
     let new_generation = current_generation + 1 in
     and_then (ensure (\<not> bm_contains_key (pkr_records reg) (record_key_from i new_generation)) PKE_DuplicateKeyGeneration) (\<lambda>_.
     and_then (prod_require_unused_public_key reg (hd_public_key_digest d)) (\<lambda>_.
     and_then (build_record K d new_generation PK_Active activation_at new_not_after None None None None) (\<lambda>r.
     and_then (prod_registry_digest K reg) (\<lambda>previous_digest. Inr (current, r, previous_digest)))))))))))"

text \<open>
  The last part of a mutation writes to the stored record first and seals it afterwards, so
  that a failure in between returns with the record already changed.
\<close>

definition reseal_stored ::
    "keys_env \<Rightarrow> production_key_registry \<Rightarrow> record_key \<Rightarrow> production_key_record \<Rightarrow>
     (production_key_error + unit) \<times> production_key_registry" where
  "reseal_stored K reg key changed =
     (let reg0 = reg\<lparr>pkr_records := bm_insert key changed (pkr_records reg)\<rparr> in
      case record_expected_digest K changed of
        Inl e \<Rightarrow> (Inl e, reg0)
      | Inr digest \<Rightarrow>
          let sealed = changed\<lparr>kr_record_digest := digest\<rparr>
          in (record_validate_seal K sealed, reg\<lparr>pkr_records := bm_insert key sealed (pkr_records reg)\<rparr>))"

definition prod_retire_record :: "production_key_record \<Rightarrow> u64 \<Rightarrow> u64 \<Rightarrow> production_key_record" where
  "prod_retire_record current retirement_at new_generation =
     current\<lparr>kr_status := PK_Retired, kr_not_after_epoch_s := retirement_at,
       kr_retired_at_epoch_s := Some retirement_at, kr_successor_generation := Some new_generation\<rparr>"

definition rotate_guarded ::
    "keys_env \<Rightarrow> production_key_registry \<Rightarrow> u64 \<Rightarrow> string \<Rightarrow> production_key_identity \<Rightarrow> u64 \<Rightarrow> hardware_key_descriptor \<Rightarrow>
     u64 \<Rightarrow> u64 \<Rightarrow> u64 \<Rightarrow> (production_key_error + production_key_mutation_receipt) \<times> production_key_registry" where
  "rotate_guarded K reg expected_revision expected_digest i current_generation d activation_at retirement_at new_not_after =
     (case prod_rotate_checks K reg expected_revision expected_digest i current_generation d activation_at retirement_at new_not_after of
        Inl e \<Rightarrow> (Inl e, reg)
      | Inr (current, r, previous_digest) \<Rightarrow>
          let new_generation = current_generation + 1 in
          case reseal_stored K reg (record_key_from i current_generation)
            (prod_retire_record current retirement_at new_generation) of
            (Inl e, reg') \<Rightarrow> (Inl e, reg')
          | (Inr _, reg') \<Rightarrow>
              let reg'' = \<lparr>pkr_revision = saturating_add (pkr_revision reg') 1,
                    pkr_records = bm_insert (record_key_from i new_generation) r (pkr_records reg')\<rparr>
              in (prod_build_receipt K reg'' PM_Rotate i new_generation (Some current_generation) activation_at previous_digest,
                  reg''))"

definition prod_revoke_checks ::
    "keys_env \<Rightarrow> production_key_registry \<Rightarrow> u64 \<Rightarrow> string \<Rightarrow> production_key_identity \<Rightarrow> u64 \<Rightarrow> u64 \<Rightarrow> string \<Rightarrow>
     production_key_error + production_key_record \<times> string" where
  "prod_revoke_checks K reg expected_revision expected_digest i generation revoked_at reason =
     and_then (prod_require_base K reg expected_revision expected_digest) (\<lambda>_.
     and_then (map_err PKE_Production (identity_validate i)) (\<lambda>_.
     and_then (ensure (revoked_at \<noteq> 0) PKE_InvalidKeyState) (\<lambda>_.
     and_then (map_err (\<lambda>_. PKE_InvalidRevocationReasonDigest) (prod_validate_sha256 reason)) (\<lambda>_.
     and_then (ok_or (map_of (pkr_records reg) (record_key_from i generation)) PKE_UnknownKeyGeneration) (\<lambda>current.
     and_then (record_validate_seal K current) (\<lambda>_.
     and_then (ensure (kr_status current \<noteq> PK_Revoked) PKE_InvalidKeyState) (\<lambda>_.
     and_then (prod_registry_digest K reg) (\<lambda>previous_digest. Inr (current, previous_digest)))))))))"

definition prod_revoke_record :: "production_key_record \<Rightarrow> u64 \<Rightarrow> string \<Rightarrow> production_key_record" where
  "prod_revoke_record current revoked_at reason =
     current\<lparr>kr_status := PK_Revoked, kr_revoked_at_epoch_s := Some revoked_at,
       kr_revocation_reason_digest := Some reason\<rparr>"

definition revoke_guarded ::
    "keys_env \<Rightarrow> production_key_registry \<Rightarrow> u64 \<Rightarrow> string \<Rightarrow> production_key_identity \<Rightarrow> u64 \<Rightarrow> u64 \<Rightarrow> string \<Rightarrow>
     (production_key_error + production_key_mutation_receipt) \<times> production_key_registry" where
  "revoke_guarded K reg expected_revision expected_digest i generation revoked_at reason =
     (case prod_revoke_checks K reg expected_revision expected_digest i generation revoked_at reason of
        Inl e \<Rightarrow> (Inl e, reg)
      | Inr (current, previous_digest) \<Rightarrow>
          case reseal_stored K reg (record_key_from i generation) (prod_revoke_record current revoked_at reason) of
            (Inl e, reg') \<Rightarrow> (Inl e, reg')
          | (Inr _, reg') \<Rightarrow>
              let reg'' = reg'\<lparr>pkr_revision := saturating_add (pkr_revision reg') 1\<rparr>
              in (prod_build_receipt K reg'' PM_Revoke i generation None revoked_at previous_digest, reg''))"

definition unknown_or_identity_mismatch ::
    "production_key_registry \<Rightarrow> production_key_identity \<Rightarrow> u64 \<Rightarrow> production_key_error" where
  "unknown_or_identity_mismatch reg i generation =
     (if list_ex (\<lambda>(role, issuer_id, key_id, g). issuer_id = ki_issuer_id i \<and> key_id = ki_key_id i \<and> g = generation
          \<and> role \<noteq> ki_role i) (bm_keys (pkr_records reg))
      then PKE_RoleMismatch else PKE_UnknownKeyGeneration)"

definition prod_resolve ::
    "keys_env \<Rightarrow> production_key_registry \<Rightarrow> production_key_identity \<Rightarrow> u64 \<Rightarrow> u64 \<Rightarrow> production_key_error + production_key_record" where
  "prod_resolve K reg i generation signed_at =
     and_then (map_err PKE_Production (identity_validate i)) (\<lambda>_.
     and_then (ok_or (map_of (pkr_records reg) (record_key_from i generation)) (unknown_or_identity_mismatch reg i generation)) (\<lambda>r.
     and_then (record_validate_seal K r) (\<lambda>_.
     and_then (ensure (kr_status r \<noteq> PK_Revoked) PKE_KeyRevoked) (\<lambda>_.
     and_then (ensure (\<not> signed_at < kr_not_before_epoch_s r) PKE_KeyNotYetValid) (\<lambda>_.
     and_then (ensure (\<not> signed_at \<ge> kr_not_after_epoch_s r) PKE_KeyExpired) (\<lambda>_. Inr r))))))"

definition trust_binding ::
    "keys_env \<Rightarrow> production_key_registry \<Rightarrow> production_key_identity \<Rightarrow> u64 \<Rightarrow> u64 \<Rightarrow> production_key_error + production_key_trust_binding" where
  "trust_binding K reg i generation signed_at =
     and_then (prod_resolve K reg i generation signed_at) (\<lambda>r.
     and_then (prod_registry_digest K reg) (\<lambda>registry_digest.
     Inr \<lparr>tb_schema_version = PRODUCTION_KEY_TRUST_BINDING_SCHEMA,
       tb_identity = i,
       tb_generation = generation,
       tb_public_key_digest = kr_public_key_digest r,
       tb_key_record_digest = kr_record_digest r,
       tb_registry_revision = pkr_revision reg,
       tb_registry_digest = registry_digest\<rparr>))"

definition verify_binding ::
    "keys_env \<Rightarrow> production_key_registry \<Rightarrow> production_key_trust_binding \<Rightarrow> u64 \<Rightarrow> production_key_error + production_key_record" where
  "verify_binding K reg b signed_at =
     and_then (trust_binding_validate_shape b) (\<lambda>_.
     and_then (ensure (tb_registry_revision b = pkr_revision reg)
       (PKE_RegistryRevisionMismatch (pkr_revision reg) (tb_registry_revision b))) (\<lambda>_.
     and_then (prod_registry_digest K reg) (\<lambda>digest.
     and_then (ensure (tb_registry_digest b = digest) PKE_RegistryDigestMismatch) (\<lambda>_.
     and_then (prod_resolve K reg (tb_identity b) (tb_generation b) signed_at) (\<lambda>r.
     and_then (ensure (\<not> (kr_public_key_digest r \<noteq> tb_public_key_digest b \<or> kr_record_digest r \<noteq> tb_key_record_digest b))
       PKE_TrustBindingMismatch) (\<lambda>_. Inr r))))))"

end
