(* ===== verification/ProductionRegistry.thy ===== *)
theory ProductionRegistry
  imports ProductionKeys
begin

text \<open>
  Properties of the registry of production key generations of \<^verbatim>\<open>ProductionKeys\<close>: an
  identity has at most one active generation and its generations are numbered without gaps;
  revocation is permanent and key material is never shared; snapshots restore the registry;
  insertion and revocation are atomic, and exactly when a failing rotation leaves damage behind.
\<close>

section \<open>What the checks establish\<close>

lemma record_key_from_inject [simp]: "record_key_from i g = record_key_from j h \<longleftrightarrow> i = j \<and> g = h"
  by (cases i; cases j) (auto simp: record_key_from_def)

lemma same_logical_identity_iff [simp]: "same_logical_identity (record_key_from j g) i \<longleftrightarrow> j = i"
  by (cases i; cases j) (auto simp: record_key_from_def same_logical_identity_def)

lemma record_validate_seal_ok:
  assumes "record_validate_seal K r = Inr u"
  shows "identity_validate (kr_identity r) = Inr ()" "kr_generation r \<noteq> 0"
    "kr_not_before_epoch_s r < kr_not_after_epoch_s r" "record_state_ok r"
    "validate_public_key K r = Inr ()" "record_expected_digest K r = Inr (kr_record_digest r)"
    "kr_assurance r = ProvenHardwareBacked" "is_sha256 (kr_public_key_digest r)"
  using assms by (auto simp: record_validate_seal_def result_simps not_le)

lemma build_record_ok:
  assumes "build_record K d g st nb na None None None None = Inr r"
  shows "record_validate_seal K r = Inr ()" "kr_identity r = hd_identity d" "kr_generation r = g"
    "kr_public_key_digest r = hd_public_key_digest d" "kr_status r = st"
    "kr_not_before_epoch_s r = nb" "kr_not_after_epoch_s r = na"
  using assms by (auto simp: build_record_def result_simps Let_def)

text \<open>The key material of a record is checked independently of its life cycle.\<close>

lemma validate_public_key_cong:
  "record_descriptor r = record_descriptor s \<Longrightarrow> validate_public_key K r = validate_public_key K s"
  by (auto simp: validate_public_key_def record_descriptor_def)

lemma record_descriptor_updates [simp]:
  "record_descriptor (prod_retire_record r t g) = record_descriptor r"
  "record_descriptor (prod_revoke_record r t reason) = record_descriptor r"
  "record_descriptor (r\<lparr>kr_record_digest := d\<rparr>) = record_descriptor r"
  by (simp_all add: record_descriptor_def prod_retire_record_def prod_revoke_record_def)

lemmas stored_record_updates = prod_retire_record_def prod_revoke_record_def

section \<open>The outcomes of a mutation\<close>

lemma reseal_stored_cases:
  obtains (damaged) e changed' where "reseal_stored K reg key changed = (Inl e, reg\<lparr>pkr_records := bm_insert key changed' (pkr_records reg)\<rparr>)"
      "record_validate_seal K changed' = Inl e \<or> changed' = changed \<and> record_expected_digest K changed = Inl e"
      "\<exists>d. changed' = changed\<lparr>kr_record_digest := d\<rparr>"
  | (resealed) digest where "reseal_stored K reg key changed =
        (Inr (), reg\<lparr>pkr_records := bm_insert key (changed\<lparr>kr_record_digest := digest\<rparr>) (pkr_records reg)\<rparr>)"
      "record_expected_digest K changed = Inr digest"
      "record_validate_seal K (changed\<lparr>kr_record_digest := digest\<rparr>) = Inr ()"
proof (cases "record_expected_digest K changed")
  case (Inl e)
  show ?thesis
  proof (rule damaged [of e changed])
    show "\<exists>d. changed = changed\<lparr>kr_record_digest := d\<rparr>" by (rule exI [of _ "kr_record_digest changed"]) simp
  qed (simp_all add: reseal_stored_def Inl)
next
  case (Inr digest)
  show ?thesis
  proof (cases "record_validate_seal K (changed\<lparr>kr_record_digest := digest\<rparr>)")
    case (Inl e)
    with Inr show ?thesis
      by (intro damaged [of e "changed\<lparr>kr_record_digest := digest\<rparr>"]) (auto simp: reseal_stored_def)
  next
    case seal: (Inr u)
    with Inr show ?thesis by (intro resealed [of digest]) (auto simp: reseal_stored_def)
  qed
qed

lemma insert_initial_cases:
  obtains (refused) e where "insert_initial_guarded K reg er ed d nb na eff = (Inl e, reg)"
  | (inserted) r previous where
      "insert_initial_checks K reg er ed d nb na eff = Inr (r, previous)"
      "build_record K d 1 PK_Active nb na None None None None = Inr r"
      "\<forall>key\<in>fst ` set (pkr_records reg). \<not> same_logical_identity key (hd_identity d)"
      "\<forall>s\<in>set (bm_values (pkr_records reg)). kr_public_key_digest s \<noteq> kr_public_key_digest r"
      "insert_initial_guarded K reg er ed d nb na eff =
        (let reg' = \<lparr>pkr_revision = saturating_add (pkr_revision reg) 1,
             pkr_records = bm_insert (record_key_from (hd_identity d) 1) r (pkr_records reg)\<rparr>
         in (prod_build_receipt K reg' PM_Add (hd_identity d) 1 None eff previous, reg'))"
proof (cases "insert_initial_checks K reg er ed d nb na eff")
  case (Inl e)
  then show ?thesis by (intro refused [of e]) (simp add: insert_initial_guarded_def)
next
  case (Inr p)
  obtain r previous where p: "p = (r, previous)" by fastforce
  from Inr have c: "build_record K d 1 PK_Active nb na None None None None = Inr r"
    "\<forall>key\<in>fst ` set (pkr_records reg). \<not> same_logical_identity key (hd_identity d)"
    "\<forall>s\<in>set (bm_values (pkr_records reg)). kr_public_key_digest s \<noteq> hd_public_key_digest d"
    by (auto simp: p insert_initial_checks_def result_simps prod_require_unused_public_key_def list_ex_iff)
  then show ?thesis using Inr build_record_ok(4) [OF c(1)]
    by (intro inserted [of r previous]) (simp_all add: p insert_initial_guarded_def Let_def)
qed

definition rotation_guards :: "production_key_registry \<Rightarrow> production_key_identity \<Rightarrow> u64 \<Rightarrow> production_key_record \<Rightarrow> u64 \<Rightarrow> u64 \<Rightarrow> bool" where
  "rotation_guards reg i g current act ret \<longleftrightarrow>
     map_of (pkr_records reg) (record_key_from i g) = Some current \<and>
     map_of (pkr_records reg) (record_key_from i (g + 1)) = None \<and>
     kr_status current = PK_Active \<and> g \<noteq> - 1 \<and>
     kr_not_before_epoch_s current \<le> act \<and> act \<le> ret \<and> ret \<le> kr_not_after_epoch_s current"

lemma prod_rotate_checks_ok:
  assumes "prod_rotate_checks K reg er ed i g d act ret na = Inr (current, r, previous)"
  shows "rotation_guards reg i g current act ret" "record_validate_seal K current = Inr ()"
    "hd_identity d = i" "identity_validate i = Inr ()"
    "build_record K d (g + 1) PK_Active act na None None None None = Inr r"
    "\<forall>s\<in>set (bm_values (pkr_records reg)). kr_public_key_digest s \<noteq> kr_public_key_digest r"
    "prod_registry_digest K reg = Inr previous"
proof -
  from assms show b: "build_record K d (g + 1) PK_Active act na None None None None = Inr r"
    by (auto simp: prod_rotate_checks_def result_simps Let_def)
  from assms show "rotation_guards reg i g current act ret" "record_validate_seal K current = Inr ()"
    "hd_identity d = i" "identity_validate i = Inr ()" "prod_registry_digest K reg = Inr previous"
    by (auto simp: prod_rotate_checks_def rotation_guards_def result_simps Let_def not_less map_of_eq_None_iff)
  from assms show "\<forall>s\<in>set (bm_values (pkr_records reg)). kr_public_key_digest s \<noteq> kr_public_key_digest r"
    using build_record_ok(4) [OF b]
    by (auto simp: prod_rotate_checks_def result_simps Let_def prod_require_unused_public_key_def list_ex_iff)
qed

definition rotated_registry ::
    "production_key_registry \<Rightarrow> production_key_identity \<Rightarrow> u64 \<Rightarrow> production_key_record \<Rightarrow> production_key_record \<Rightarrow> production_key_registry" where
  "rotated_registry reg i g retired r =
     \<lparr>pkr_revision = saturating_add (pkr_revision reg) 1,
      pkr_records = bm_insert (record_key_from i (g + 1)) r
        (bm_insert (record_key_from i g) retired (pkr_records reg))\<rparr>"

lemma prod_rotate_cases:
  obtains (refused) e where "rotate_guarded K reg er ed i g d act ret na = (Inl e, reg)"
  | (damaged) e current r previous changed where
      "prod_rotate_checks K reg er ed i g d act ret na = Inr (current, r, previous)"
      "rotate_guarded K reg er ed i g d act ret na =
        (Inl e, reg\<lparr>pkr_records := bm_insert (record_key_from i g) changed (pkr_records reg)\<rparr>)"
      "record_validate_seal K changed = Inl e \<or>
         changed = prod_retire_record current ret (g + 1) \<and> record_expected_digest K changed = Inl e"
      "\<exists>dg. changed = (prod_retire_record current ret (g + 1))\<lparr>kr_record_digest := dg\<rparr>"
  | (rotated) current r previous digest where
      "prod_rotate_checks K reg er ed i g d act ret na = Inr (current, r, previous)"
      "record_validate_seal K ((prod_retire_record current ret (g + 1))\<lparr>kr_record_digest := digest\<rparr>) = Inr ()"
      "rotate_guarded K reg er ed i g d act ret na =
        (let reg' = rotated_registry reg i g ((prod_retire_record current ret (g + 1))\<lparr>kr_record_digest := digest\<rparr>) r
         in (prod_build_receipt K reg' PM_Rotate i (g + 1) (Some g) act previous, reg'))"
proof (cases "prod_rotate_checks K reg er ed i g d act ret na")
  case (Inl e)
  then show ?thesis by (intro refused [of e]) (simp add: rotate_guarded_def)
next
  case (Inr p)
  obtain current r previous where p: "p = (current, r, previous)" by (metis prod.exhaust)
  let ?c = "prod_retire_record current ret (g + 1)"
  have unfold: "rotate_guarded K reg er ed i g d act ret na =
      (case reseal_stored K reg (record_key_from i g) ?c of
         (Inl e, reg') \<Rightarrow> (Inl e, reg')
       | (Inr _, reg') \<Rightarrow>
           let reg'' = \<lparr>pkr_revision = saturating_add (pkr_revision reg') 1,
                 pkr_records = bm_insert (record_key_from i (g + 1)) r (pkr_records reg')\<rparr>
           in (prod_build_receipt K reg'' PM_Rotate i (g + 1) (Some g) act previous, reg''))"
    using Inr by (simp add: rotate_guarded_def p Let_def)
  show ?thesis
  proof (rule reseal_stored_cases [of K reg "record_key_from i g" ?c])
    fix e changed
    assume "reseal_stored K reg (record_key_from i g) ?c =
        (Inl e, reg\<lparr>pkr_records := bm_insert (record_key_from i g) changed (pkr_records reg)\<rparr>)"
      "record_validate_seal K changed = Inl e \<or> changed = ?c \<and> record_expected_digest K ?c = Inl e"
      "\<exists>d. changed = ?c\<lparr>kr_record_digest := d\<rparr>"
    with Inr show ?thesis by (intro damaged [of current r previous e changed]) (simp_all add: p unfold, auto)
  next
    fix digest
    assume "reseal_stored K reg (record_key_from i g) ?c =
        (Inr (), reg\<lparr>pkr_records := bm_insert (record_key_from i g) (?c\<lparr>kr_record_digest := digest\<rparr>) (pkr_records reg)\<rparr>)"
      "record_validate_seal K (?c\<lparr>kr_record_digest := digest\<rparr>) = Inr ()"
    with Inr show ?thesis
      by (intro rotated [of current r previous digest]) (simp_all add: p unfold rotated_registry_def Let_def)
  qed
qed

lemma prod_revoke_cases:
  obtains (refused) e where "revoke_guarded K reg er ed i g at reason = (Inl e, reg)"
  | (damaged) e current previous changed where
      "prod_revoke_checks K reg er ed i g at reason = Inr (current, previous)"
      "revoke_guarded K reg er ed i g at reason =
        (Inl e, reg\<lparr>pkr_records := bm_insert (record_key_from i g) changed (pkr_records reg)\<rparr>)"
      "record_validate_seal K changed = Inl e \<or>
         changed = prod_revoke_record current at reason \<and> record_expected_digest K changed = Inl e"
      "\<exists>dg. changed = (prod_revoke_record current at reason)\<lparr>kr_record_digest := dg\<rparr>"
  | (revoked) current previous digest where
      "prod_revoke_checks K reg er ed i g at reason = Inr (current, previous)"
      "record_validate_seal K ((prod_revoke_record current at reason)\<lparr>kr_record_digest := digest\<rparr>) = Inr ()"
      "revoke_guarded K reg er ed i g at reason =
        (let reg' = reg\<lparr>pkr_records := bm_insert (record_key_from i g)
                 ((prod_revoke_record current at reason)\<lparr>kr_record_digest := digest\<rparr>) (pkr_records reg),
               pkr_revision := saturating_add (pkr_revision reg) 1\<rparr>
         in (prod_build_receipt K reg' PM_Revoke i g None at previous, reg'))"
proof (cases "prod_revoke_checks K reg er ed i g at reason")
  case (Inl e)
  then show ?thesis by (intro refused [of e]) (simp add: revoke_guarded_def)
next
  case (Inr p)
  obtain current previous where p: "p = (current, previous)" by fastforce
  let ?c = "prod_revoke_record current at reason"
  have unfold: "revoke_guarded K reg er ed i g at reason =
      (case reseal_stored K reg (record_key_from i g) ?c of
         (Inl e, reg') \<Rightarrow> (Inl e, reg')
       | (Inr _, reg') \<Rightarrow>
           let reg'' = reg'\<lparr>pkr_revision := saturating_add (pkr_revision reg') 1\<rparr>
           in (prod_build_receipt K reg'' PM_Revoke i g None at previous, reg''))"
    using Inr by (simp add: revoke_guarded_def p Let_def)
  show ?thesis
  proof (rule reseal_stored_cases [of K reg "record_key_from i g" ?c])
    fix e changed
    assume "reseal_stored K reg (record_key_from i g) ?c =
        (Inl e, reg\<lparr>pkr_records := bm_insert (record_key_from i g) changed (pkr_records reg)\<rparr>)"
      "record_validate_seal K changed = Inl e \<or> changed = ?c \<and> record_expected_digest K ?c = Inl e"
      "\<exists>d. changed = ?c\<lparr>kr_record_digest := d\<rparr>"
    with Inr show ?thesis by (intro damaged [of current previous e changed]) (simp_all add: p unfold, auto)
  next
    fix digest
    assume "reseal_stored K reg (record_key_from i g) ?c =
        (Inr (), reg\<lparr>pkr_records := bm_insert (record_key_from i g) (?c\<lparr>kr_record_digest := digest\<rparr>) (pkr_records reg)\<rparr>)"
      "record_validate_seal K (?c\<lparr>kr_record_digest := digest\<rparr>) = Inr ()"
    with Inr show ?thesis
      by (intro revoked [of current previous digest]) (simp_all add: p unfold Let_def)
  qed
qed

lemma prod_revoke_checks_ok:
  assumes "prod_revoke_checks K reg er ed i g at reason = Inr (current, previous)"
  shows "map_of (pkr_records reg) (record_key_from i g) = Some current" "record_validate_seal K current = Inr ()"
    "kr_status current \<noteq> PK_Revoked" "is_sha256 reason" "at \<noteq> 0" "identity_validate i = Inr ()"
    "prod_registry_digest K reg = Inr previous"
  using assms by (auto simp: prod_revoke_checks_def result_simps)

section \<open>The invariant\<close>

text \<open>
  Records are stored under their own key, no two share key material, and the generations of an
  identity are numbered from one without gaps, only the last of them possibly active.
\<close>

definition generations_ok :: "(record_key, production_key_record) bmap \<Rightarrow> bool" where
  "generations_ok m \<longleftrightarrow> (\<forall>i g r. map_of m (record_key_from i g) = Some r \<longrightarrow>
     g \<noteq> 0 \<and> (g \<noteq> 1 \<longrightarrow> (\<exists>s. map_of m (record_key_from i (g - 1)) = Some s \<and> kr_status s \<noteq> PK_Active)))"

definition prod_wf :: "production_key_registry \<Rightarrow> bool" where
  "prod_wf reg \<longleftrightarrow>
     keyed_uniquely record_key_of kr_public_key_digest (pkr_records reg) \<and> generations_ok (pkr_records reg)"

lemma prod_wf_default: "prod_wf prod_registry_default"
  by (simp add: prod_wf_def prod_registry_default_def generations_ok_def)

lemma prod_wf_bm: "prod_wf reg \<Longrightarrow> bm_wf (pkr_records reg)"
  by (simp add: prod_wf_def keyed_uniquely_def)

lemma prod_wf_key: "prod_wf reg \<Longrightarrow> map_of (pkr_records reg) k = Some r \<Longrightarrow> k = record_key_of r"
  unfolding prod_wf_def keyed_uniquely_def by blast

text \<open>A stored record may be replaced by one with the same key and material that is not newly active.\<close>

lemma generations_ok_change:
  assumes "generations_ok m" "map_of m k = Some v" "kr_status w = PK_Active \<longrightarrow> kr_status v = PK_Active"
  shows "generations_ok (bm_insert k w m)"
  unfolding generations_ok_def
proof (intro allI impI)
  fix i g r
  assume "map_of (bm_insert k w m) (record_key_from i g) = Some r"
  then obtain r0 where "map_of m (record_key_from i g) = Some r0"
    using assms(2) by (auto split: if_splits)
  with assms(1) have g: "g \<noteq> 0" and
    p: "g \<noteq> 1 \<longrightarrow> (\<exists>s. map_of m (record_key_from i (g - 1)) = Some s \<and> kr_status s \<noteq> PK_Active)"
    unfolding generations_ok_def by blast+
  from p have "g \<noteq> 1 \<longrightarrow> (\<exists>s. map_of (bm_insert k w m) (record_key_from i (g - 1)) = Some s \<and> kr_status s \<noteq> PK_Active)"
    using assms(2,3) by (cases "record_key_from i (g - 1) = k") auto
  with g show "g \<noteq> 0 \<and> (g \<noteq> 1 \<longrightarrow>
      (\<exists>s. map_of (bm_insert k w m) (record_key_from i (g - 1)) = Some s \<and> kr_status s \<noteq> PK_Active))"
    by blast
qed

lemma generations_ok_add:
  assumes "generations_ok m" "k = record_key_from i g" "g \<noteq> 0" "map_of m k = None"
    "g \<noteq> 1 \<longrightarrow> (\<exists>s. map_of m (record_key_from i (g - 1)) = Some s \<and> kr_status s \<noteq> PK_Active)"
  shows "generations_ok (bm_insert k v m)"
proof -
  have keep: "\<exists>s. map_of (bm_insert k v m) l = Some s \<and> kr_status s \<noteq> PK_Active"
    if "\<exists>s. map_of m l = Some s \<and> kr_status s \<noteq> PK_Active" for l
    using that assms(4) by auto
  show ?thesis
    unfolding generations_ok_def
  proof (intro allI impI)
    fix j h r
    assume "map_of (bm_insert k v m) (record_key_from j h) = Some r"
    then have "j = i \<and> h = g \<or> map_of m (record_key_from j h) = Some r"
      using assms(2) by (auto split: if_splits)
    then have "h \<noteq> 0" "h \<noteq> 1 \<longrightarrow> (\<exists>s. map_of m (record_key_from j (h - 1)) = Some s \<and> kr_status s \<noteq> PK_Active)"
      using assms(1,3,5) unfolding generations_ok_def by blast+
    then show "h \<noteq> 0 \<and> (h \<noteq> 1 \<longrightarrow>
        (\<exists>s. map_of (bm_insert k v m) (record_key_from j (h - 1)) = Some s \<and> kr_status s \<noteq> PK_Active))"
      using keep by blast
  qed
qed

lemma prod_wf_change:
  assumes "prod_wf reg" "map_of (pkr_records reg) k = Some v" "record_key_of w = record_key_of v"
    "kr_public_key_digest w = kr_public_key_digest v" "kr_status w = PK_Active \<longrightarrow> kr_status v = PK_Active"
    "pkr_records reg' = bm_insert k w (pkr_records reg)"
  shows "prod_wf reg'"
proof -
  have "keyed_uniquely record_key_of kr_public_key_digest (bm_insert k w (pkr_records reg))"
    by (rule keyed_uniquely_change [OF _ assms(2-4)]) (use assms(1) in \<open>simp add: prod_wf_def\<close>)
  moreover have "generations_ok (bm_insert k w (pkr_records reg))"
    by (rule generations_ok_change [OF _ assms(2,5)]) (use assms(1) in \<open>simp add: prod_wf_def\<close>)
  ultimately show ?thesis by (simp add: prod_wf_def assms(6))
qed

lemma retired_same [simp]:
  "kr_identity (prod_retire_record c t g) = kr_identity c" "kr_generation (prod_retire_record c t g) = kr_generation c"
  "kr_public_key_digest (prod_retire_record c t g) = kr_public_key_digest c"
  "kr_not_before_epoch_s (prod_retire_record c t g) = kr_not_before_epoch_s c"
  "kr_not_after_epoch_s (prod_retire_record c t g) = t" "kr_status (prod_retire_record c t g) = PK_Retired"
  by (simp_all add: prod_retire_record_def)

lemma revoked_same [simp]:
  "kr_identity (prod_revoke_record c t reason) = kr_identity c"
  "kr_generation (prod_revoke_record c t reason) = kr_generation c"
  "kr_public_key_digest (prod_revoke_record c t reason) = kr_public_key_digest c"
  "kr_not_before_epoch_s (prod_revoke_record c t reason) = kr_not_before_epoch_s c"
  "kr_not_after_epoch_s (prod_revoke_record c t reason) = kr_not_after_epoch_s c"
  "kr_status (prod_revoke_record c t reason) = PK_Revoked"
  by (simp_all add: prod_revoke_record_def)

lemma insert_initial_wf:
  assumes wf: "prod_wf reg"
  shows "prod_wf (snd (insert_initial_guarded K reg er ed d nb na eff))"
proof (rule insert_initial_cases [of K reg er ed d nb na eff])
  fix r previous
  assume b: "build_record K d 1 PK_Active nb na None None None None = Inr r"
    and none: "\<forall>key\<in>fst ` set (pkr_records reg). \<not> same_logical_identity key (hd_identity d)"
    and fresh: "\<forall>s\<in>set (bm_values (pkr_records reg)). kr_public_key_digest s \<noteq> kr_public_key_digest r"
    and eq: "insert_initial_guarded K reg er ed d nb na eff =
        (let reg' = \<lparr>pkr_revision = saturating_add (pkr_revision reg) 1,
             pkr_records = bm_insert (record_key_from (hd_identity d) 1) r (pkr_records reg)\<rparr>
         in (prod_build_receipt K reg' PM_Add (hd_identity d) 1 None eff previous, reg'))"
  let ?k = "record_key_from (hd_identity d) 1"
  have "?k \<notin> fst ` set (pkr_records reg)" using none same_logical_identity_iff by blast
  then have "map_of (pkr_records reg) ?k = None" by (simp add: map_of_eq_None_iff)
  then have "generations_ok (bm_insert ?k r (pkr_records reg))"
    using wf by (intro generations_ok_add [of _ _ "hd_identity d" 1]) (simp_all add: prod_wf_def)
  moreover have "keyed_uniquely record_key_of kr_public_key_digest (bm_insert ?k r (pkr_records reg))"
    using wf fresh build_record_ok [OF b] by (intro keyed_uniquely_add) (simp_all add: prod_wf_def)
  ultimately show ?thesis by (simp add: eq Let_def prod_wf_def)
qed (simp add: wf)

lemma rotated_wf:
  assumes wf: "prod_wf reg" and checks: "prod_rotate_checks K reg er ed i g d act ret na = Inr (current, r, previous)"
  shows "prod_wf (rotated_registry reg i g ((prod_retire_record current ret (g + 1))\<lparr>kr_record_digest := dg\<rparr>) r)"
proof -
  let ?k = "record_key_from i g" and ?new = "record_key_from i (g + 1)"
  let ?c = "(prod_retire_record current ret (g + 1))\<lparr>kr_record_digest := dg\<rparr>"
  let ?m = "bm_insert ?k ?c (pkr_records reg)"
  note c = prod_rotate_checks_ok [OF checks]
  from c(1) have cur: "map_of (pkr_records reg) ?k = Some current" and new: "map_of (pkr_records reg) ?new = None"
    and max: "g \<noteq> - 1" unfolding rotation_guards_def by auto
  have m: "prod_wf (reg\<lparr>pkr_records := ?m\<rparr>)"
    by (rule prod_wf_change [OF wf cur]) simp_all
  have fresh: "\<forall>s\<in>set (bm_values ?m). kr_public_key_digest s \<noteq> kr_public_key_digest r"
  proof (rule bm_values_change [OF prod_wf_bm [OF wf] cur c(6)])
    have "current \<in> set (bm_values (pkr_records reg))"
      unfolding bm_values_iff [OF prod_wf_bm [OF wf]] using cur by (rule exI)
    then show "kr_public_key_digest ?c \<noteq> kr_public_key_digest r" using c(6) by simp
  qed
  have neq: "?new \<noteq> ?k" by simp
  have "g + 1 \<noteq> 0" using max by (metis add.commute add.right_inverse add_left_cancel)
  have "generations_ok (bm_insert ?new r ?m)"
  proof (rule generations_ok_add [where i = i and g = "g + 1"])
    show "generations_ok ?m" using m by (simp add: prod_wf_def)
    show "g + 1 \<noteq> 0" by fact
  qed (use new neq in simp_all)
  moreover have "keyed_uniquely record_key_of kr_public_key_digest (bm_insert ?new r ?m)"
    by (rule keyed_uniquely_add [OF _ fresh])
      (use m build_record_ok [OF c(5)] c(3) in \<open>simp_all add: prod_wf_def\<close>)
  ultimately show ?thesis by (simp add: rotated_registry_def prod_wf_def)
qed

lemma rotate_guarded_wf:
  assumes wf: "prod_wf reg"
  shows "prod_wf (snd (rotate_guarded K reg er ed i g d act ret na))"
proof (rule prod_rotate_cases [of K reg er ed i g d act ret na])
  fix e current r previous changed
  assume c: "prod_rotate_checks K reg er ed i g d act ret na = Inr (current, r, previous)"
    and eq: "rotate_guarded K reg er ed i g d act ret na =
        (Inl e, reg\<lparr>pkr_records := bm_insert (record_key_from i g) changed (pkr_records reg)\<rparr>)"
    and ch: "\<exists>dg. changed = (prod_retire_record current ret (g + 1))\<lparr>kr_record_digest := dg\<rparr>"
  have "map_of (pkr_records reg) (record_key_from i g) = Some current"
    using prod_rotate_checks_ok(1) [OF c] by (simp add: rotation_guards_def)
  then have "prod_wf (reg\<lparr>pkr_records := bm_insert (record_key_from i g) changed (pkr_records reg)\<rparr>)"
    by (rule prod_wf_change [OF wf]) (use ch in auto)
  then show ?thesis by (simp add: eq)
qed (use rotated_wf [OF wf] wf in \<open>auto simp: Let_def\<close>)

lemma revoke_guarded_wf:
  assumes wf: "prod_wf reg"
  shows "prod_wf (snd (revoke_guarded K reg er ed i g at reason))"
proof -
  have *: "prod_wf reg'"
    if "prod_revoke_checks K reg er ed i g at reason = Inr (current, previous)"
      "pkr_records reg' = bm_insert (record_key_from i g)
         ((prod_revoke_record current at reason)\<lparr>kr_record_digest := dg\<rparr>) (pkr_records reg)"
    for current previous dg reg'
    by (rule prod_wf_change [OF wf prod_revoke_checks_ok(1) [OF that(1)] _ _ _ that(2)]) simp_all
  show ?thesis
  proof (rule prod_revoke_cases [of K reg er ed i g at reason])
    fix current previous digest
    assume "prod_revoke_checks K reg er ed i g at reason = Inr (current, previous)"
      "revoke_guarded K reg er ed i g at reason =
        (let reg' = reg\<lparr>pkr_records := bm_insert (record_key_from i g)
                 ((prod_revoke_record current at reason)\<lparr>kr_record_digest := digest\<rparr>) (pkr_records reg),
               pkr_revision := saturating_add (pkr_revision reg) 1\<rparr>
         in (prod_build_receipt K reg' PM_Revoke i g None at previous, reg'))"
    then show ?thesis by (simp add: Let_def *)
  next
    fix e current previous changed
    assume c: "prod_revoke_checks K reg er ed i g at reason = Inr (current, previous)"
      and eq: "revoke_guarded K reg er ed i g at reason =
        (Inl e, reg\<lparr>pkr_records := bm_insert (record_key_from i g) changed (pkr_records reg)\<rparr>)"
      and "\<exists>dg. changed = (prod_revoke_record current at reason)\<lparr>kr_record_digest := dg\<rparr>"
    then obtain dg where "changed = (prod_revoke_record current at reason)\<lparr>kr_record_digest := dg\<rparr>" by blast
    then show ?thesis unfolding eq snd_conv by (intro * [OF c]) simp
  qed (simp add: wf)
qed

inductive prod_registry_step :: "keys_env \<Rightarrow> production_key_registry \<Rightarrow> production_key_registry \<Rightarrow> bool"
  for K where
  insert: "prod_registry_step K reg (snd (insert_initial_guarded K reg er ed d nb na eff))"
| rotate: "prod_registry_step K reg (snd (rotate_guarded K reg er ed i g d act ret na))"
| revoke: "prod_registry_step K reg (snd (revoke_guarded K reg er ed i g at reason))"

lemma prod_registry_step_wf: "prod_wf reg \<Longrightarrow> prod_registry_step K reg reg' \<Longrightarrow> prod_wf reg'"
  by (erule prod_registry_step.cases) (simp_all add: insert_initial_wf rotate_guarded_wf revoke_guarded_wf)

text \<open>What a step keeps of a record that is already there.\<close>

definition record_kept :: "production_key_record \<Rightarrow> production_key_record \<Rightarrow> bool" where
  "record_kept r r' \<longleftrightarrow> record_descriptor r' = record_descriptor r \<and> kr_generation r' = kr_generation r \<and>
     kr_not_before_epoch_s r' = kr_not_before_epoch_s r \<and> kr_not_after_epoch_s r' \<le> kr_not_after_epoch_s r \<and>
     (kr_status r = PK_Revoked \<longrightarrow> r' = r) \<and> (kr_status r' = PK_Active \<longrightarrow> kr_status r = PK_Active)"

lemma record_kept_refl [simp]: "record_kept r r"
  by (simp add: record_kept_def)

lemma record_kept_trans:
  assumes "record_kept r s" "record_kept s t"
  shows "record_kept r t"
proof (cases "kr_status r = PK_Revoked")
  case True
  then show ?thesis using assms by (simp add: record_kept_def)
next
  case False
  then show ?thesis using assms unfolding record_kept_def by (metis order_trans)
qed

lemma insert_initial_keeps:
  assumes "map_of (pkr_records reg) k = Some r"
  shows "map_of (pkr_records (snd (insert_initial_guarded K reg er ed d nb na eff))) k = Some r"
proof (rule insert_initial_cases [of K reg er ed d nb na eff])
  fix r' previous
  assume none: "\<forall>key\<in>fst ` set (pkr_records reg). \<not> same_logical_identity key (hd_identity d)"
    and eq: "insert_initial_guarded K reg er ed d nb na eff =
        (let reg' = \<lparr>pkr_revision = saturating_add (pkr_revision reg) 1,
             pkr_records = bm_insert (record_key_from (hd_identity d) 1) r' (pkr_records reg)\<rparr>
         in (prod_build_receipt K reg' PM_Add (hd_identity d) 1 None eff previous, reg'))"
  have "k \<in> fst ` set (pkr_records reg)" using assms by (metis map_of_SomeD fst_conv image_eqI)
  then have "k \<noteq> record_key_from (hd_identity d) 1" using none by auto
  then show ?thesis using assms by (simp add: eq Let_def)
qed (simp add: assms)

lemma rotate_guarded_keeps:
  assumes old: "map_of (pkr_records reg) k = Some r"
  shows "\<exists>r'. map_of (pkr_records (snd (rotate_guarded K reg er ed i g d act ret na))) k = Some r' \<and> record_kept r r'"
proof (rule prod_rotate_cases [of K reg er ed i g d act ret na])
  fix e current s previous changed
  assume c: "prod_rotate_checks K reg er ed i g d act ret na = Inr (current, s, previous)"
    and eq: "rotate_guarded K reg er ed i g d act ret na =
        (Inl e, reg\<lparr>pkr_records := bm_insert (record_key_from i g) changed (pkr_records reg)\<rparr>)"
    and ch: "\<exists>dg. changed = (prod_retire_record current ret (g + 1))\<lparr>kr_record_digest := dg\<rparr>"
  from prod_rotate_checks_ok(1) [OF c] ch have "record_kept current changed"
    by (auto simp: rotation_guards_def record_kept_def)
  with prod_rotate_checks_ok(1) [OF c] old show ?thesis by (auto simp: eq rotation_guards_def)
next
  fix current s previous digest
  assume c: "prod_rotate_checks K reg er ed i g d act ret na = Inr (current, s, previous)"
    and eq: "rotate_guarded K reg er ed i g d act ret na =
        (let reg' = rotated_registry reg i g ((prod_retire_record current ret (g + 1))\<lparr>kr_record_digest := digest\<rparr>) s
         in (prod_build_receipt K reg' PM_Rotate i (g + 1) (Some g) act previous, reg'))"
  from prod_rotate_checks_ok(1) [OF c]
  have "record_kept current ((prod_retire_record current ret (g + 1))\<lparr>kr_record_digest := digest\<rparr>)"
    by (auto simp: rotation_guards_def record_kept_def)
  with prod_rotate_checks_ok(1) [OF c] old show ?thesis
    by (auto simp: eq Let_def rotated_registry_def rotation_guards_def)
qed (simp add: old)

lemma revoke_guarded_keeps:
  assumes old: "map_of (pkr_records reg) k = Some r"
  shows "\<exists>r'. map_of (pkr_records (snd (revoke_guarded K reg er ed i g at reason))) k = Some r' \<and> record_kept r r'"
proof -
  have *: "\<exists>r'. map_of (pkr_records reg') k = Some r' \<and> record_kept r r'"
    if c: "prod_revoke_checks K reg er ed i g at reason = Inr (current, previous)"
      and reg': "pkr_records reg' = bm_insert (record_key_from i g)
         ((prod_revoke_record current at reason)\<lparr>kr_record_digest := dg\<rparr>) (pkr_records reg)"
    for current previous dg reg'
  proof -
    have "record_kept current ((prod_revoke_record current at reason)\<lparr>kr_record_digest := dg\<rparr>)"
      using prod_revoke_checks_ok(3) [OF c] by (auto simp: record_kept_def)
    with prod_revoke_checks_ok(1) [OF c] old show ?thesis by (auto simp: reg')
  qed
  show ?thesis
  proof (rule prod_revoke_cases [of K reg er ed i g at reason])
    fix current previous digest
    assume c: "prod_revoke_checks K reg er ed i g at reason = Inr (current, previous)"
      "revoke_guarded K reg er ed i g at reason =
        (let reg' = reg\<lparr>pkr_records := bm_insert (record_key_from i g)
                 ((prod_revoke_record current at reason)\<lparr>kr_record_digest := digest\<rparr>) (pkr_records reg),
               pkr_revision := saturating_add (pkr_revision reg) 1\<rparr>
         in (prod_build_receipt K reg' PM_Revoke i g None at previous, reg'))"
    show ?thesis unfolding c(2) Let_def snd_conv by (rule * [OF c(1)]) simp
  next
    fix e current previous changed
    assume c: "prod_revoke_checks K reg er ed i g at reason = Inr (current, previous)"
      and eq: "revoke_guarded K reg er ed i g at reason =
        (Inl e, reg\<lparr>pkr_records := bm_insert (record_key_from i g) changed (pkr_records reg)\<rparr>)"
      and "\<exists>dg. changed = (prod_revoke_record current at reason)\<lparr>kr_record_digest := dg\<rparr>"
    then obtain dg where "changed = (prod_revoke_record current at reason)\<lparr>kr_record_digest := dg\<rparr>" by blast
    then show ?thesis unfolding eq snd_conv by (intro * [OF c]) simp
  qed (simp add: old)
qed

lemma prod_registry_step_keeps:
  assumes "prod_registry_step K reg reg'" "map_of (pkr_records reg) k = Some r"
  shows "\<exists>r'. map_of (pkr_records reg') k = Some r' \<and> record_kept r r'"
  using assms(1)
proof (cases rule: prod_registry_step.cases)
  case (insert er ed d nb na eff)
  then show ?thesis using insert_initial_keeps [OF assms(2)] record_kept_refl by metis
next
  case (rotate er ed i g d act ret na)
  then show ?thesis using rotate_guarded_keeps [OF assms(2)] by metis
next
  case (revoke er ed i g at reason)
  then show ?thesis using revoke_guarded_keeps [OF assms(2)] by metis
qed

interpretation production_keys:
  revocable_registry "prod_registry_step K" prod_wf "\<lambda>reg. map_of (pkr_records reg)" kr_public_key_digest
    "\<lambda>r. kr_status r = PK_Revoked" for K
proof
  show "prod_wf t" if "prod_wf s" "prod_registry_step K s t" for s t
    using that by (rule prod_registry_step_wf)
  show "\<exists>r'. map_of (pkr_records t) k = Some r' \<and> kr_public_key_digest r' = kr_public_key_digest r \<and>
      (kr_status r = PK_Revoked \<longrightarrow> kr_status r' = PK_Revoked)"
    if "prod_wf s" "prod_registry_step K s t" "map_of (pkr_records s) k = Some r" for s t k r
    using prod_registry_step_keeps [OF that(2,3)] by (auto simp: record_kept_def record_descriptor_def)
  show "k = l" if "prod_wf s" "map_of (pkr_records s) k = Some r" "map_of (pkr_records s) l = Some r'"
    "kr_public_key_digest r = kr_public_key_digest r'" for s k l r r'
    using that unfolding prod_wf_def keyed_uniquely_def by blast
qed

lemma steps_record_kept:
  assumes "(prod_registry_step K)\<^sup>*\<^sup>* reg reg'" "prod_wf reg" "map_of (pkr_records reg) k = Some r"
  shows "\<exists>r'. map_of (pkr_records reg') k = Some r' \<and> record_kept r r'"
  using assms(1,2)
proof (rule production_keys.steps_preserve)
  show "\<exists>r'. map_of (pkr_records reg) k = Some r' \<and> record_kept r r'" using assms(3) by simp
  fix s t
  assume step: "prod_registry_step K s t" and "\<exists>r'. map_of (pkr_records s) k = Some r' \<and> record_kept r r'"
  then obtain r' where r': "map_of (pkr_records s) k = Some r'" "record_kept r r'" by blast
  from prod_registry_step_keeps [OF step r'(1)] r'(2)
  show "\<exists>r'. map_of (pkr_records t) k = Some r' \<and> record_kept r r'" using record_kept_trans by blast
qed

section \<open>At most one active generation\<close>

lemma generations_below:
  assumes "generations_ok m" "map_of m (record_key_from i h) = Some r" "g \<noteq> 0" "g < h"
  shows "\<exists>s. map_of m (record_key_from i g) = Some s \<and> kr_status s \<noteq> PK_Active"
  using assms(2,4)
proof (induction "unat h" arbitrary: h r rule: less_induct)
  case less
  from less.prems(2) assms(3) have "0 < unat g" "unat g < unat h" by (simp_all add: word_less_nat_alt unat_gt_0)
  then have "h \<noteq> 1" "h \<noteq> 0" by auto
  with assms(1) less.prems(1) obtain s where s: "map_of m (record_key_from i (h - 1)) = Some s" "kr_status s \<noteq> PK_Active"
    unfolding generations_ok_def by blast
  have h: "unat (h - 1) = unat h - 1" using \<open>h \<noteq> 0\<close> by (simp add: unat_minus_one)
  show ?case
  proof (cases "g = h - 1")
    case False
    have "0 < unat h" using \<open>h \<noteq> 0\<close> by (simp add: unat_gt_0)
    moreover have "unat g \<noteq> unat (h - 1)" using False by (simp add: word_unat_eq_iff)
    ultimately have "unat (h - 1) < unat h" "g < h - 1"
      using less.prems(2) h by (auto simp: word_less_nat_alt)
    then show ?thesis using less.hyps [OF _ s(1)] by simp
  qed (use s in simp)
qed

lemma active_unique:
  assumes "prod_wf reg" "map_of (pkr_records reg) (record_key_from i g) = Some r" "kr_status r = PK_Active"
    "map_of (pkr_records reg) (record_key_from i h) = Some s" "kr_status s = PK_Active"
  shows "g = h"
proof -
  have ok: "generations_ok (pkr_records reg)" using assms(1) by (simp add: prod_wf_def)
  then have nz: "g \<noteq> 0" "h \<noteq> 0" using assms(2,4) unfolding generations_ok_def by blast+
  consider "g = h" | "g < h" | "h < g" by fastforce
  then show ?thesis
  proof cases
    case 2
    with generations_below [OF ok assms(4) nz(1)] assms(2,3) show ?thesis by simp
  next
    case 3
    with generations_below [OF ok assms(2) nz(2)] assms(4,5) show ?thesis by simp
  qed
qed

section \<open>Sealed registries and snapshots\<close>

definition prod_sealed :: "keys_env \<Rightarrow> production_key_registry \<Rightarrow> bool" where
  "prod_sealed K reg \<longleftrightarrow>
     (\<forall>r\<in>set (bm_values (pkr_records reg)). record_validate_seal K r = Inr ()) \<and>
     (pkr_revision reg = 0 \<longrightarrow> pkr_records reg = [])"

lemma sorted_wrt_last:
  assumes "sorted_wrt (<) xs" "xs \<noteq> []"
  shows "(\<forall>x\<in>set xs. x < k) \<longleftrightarrow> last xs < (k :: 'a::linorder)"
proof -
  have "\<forall>x\<in>set xs. x \<le> last xs"
    using assms by (induction xs rule: rev_induct) (auto simp: sorted_wrt_append)
  with assms(2) show ?thesis by (meson last_in_set le_less_trans)
qed

lemma scan_records_iff:
  "try_fold (scan_record K) scan_start rs = Inr st \<longleftrightarrow>
     (\<forall>r\<in>set rs. record_validate_seal K r = Inr ()) \<and> sorted_wrt (<) (map record_key_of rs) \<and>
     distinct (map kr_public_key_digest rs) \<and>
     st = \<lparr>scan_identities = set (map record_key_of rs), scan_public_keys = set (map kr_public_key_digest rs),
       scan_previous = (if rs = [] then None else Some (record_key_of (last rs)))\<rparr>"
proof (induction rs arbitrary: st rule: rev_induct)
  case Nil
  show ?case by (auto simp: scan_start_def)
next
  case (snoc r rs)
  let ?st = "\<lparr>scan_identities = set (map record_key_of rs), scan_public_keys = set (map kr_public_key_digest rs),
       scan_previous = (if rs = [] then None else Some (record_key_of (last rs)))\<rparr>"
  let ?ok = "(\<forall>r\<in>set rs. record_validate_seal K r = Inr ()) \<and> sorted_wrt (<) (map record_key_of rs) \<and>
     distinct (map kr_public_key_digest rs)"
  have "try_fold (scan_record K) scan_start (rs @ [r]) = Inr st \<longleftrightarrow> ?ok \<and> scan_record K ?st r = Inr st"
    by (auto simp: try_fold_append result_simps snoc.IH)
  also have "\<dots> \<longleftrightarrow> ?ok \<and> record_validate_seal K r = Inr () \<and>
      (\<forall>x\<in>set rs. record_key_of x < record_key_of r) \<and> kr_public_key_digest r \<notin> kr_public_key_digest ` set rs \<and>
      st = \<lparr>scan_identities = insert (record_key_of r) (set (map record_key_of rs)),
        scan_public_keys = insert (kr_public_key_digest r) (set (map kr_public_key_digest rs)),
        scan_previous = Some (record_key_of r)\<rparr>"
  proof (cases "rs = []")
    case True
    then show ?thesis by (auto simp: scan_record_def result_simps Let_def)
  next
    case False
    have "sorted_wrt (<) (map record_key_of rs) \<Longrightarrow>
        (\<not> record_key_of (last rs) \<ge> record_key_of r) \<longleftrightarrow> (\<forall>x\<in>set rs. record_key_of x < record_key_of r)"
      using sorted_wrt_last [of "map record_key_of rs" "record_key_of r"] False by (simp add: last_map not_le)
    with False show ?thesis by (auto simp: scan_record_def result_simps Let_def)
  qed
  finally show ?case by (auto simp: sorted_wrt_append)
qed

lemma map_key_bm_values:
  assumes "\<And>k v. map_of m k = Some v \<Longrightarrow> k = f v" "bm_wf m"
  shows "map f (bm_values m) = map fst m"
  using assms by (auto simp: bm_values_def map_of_bm_iff)

lemma keyed_uniquely_distinct:
  assumes "keyed_uniquely ident mat m"
  shows "distinct (map mat (bm_values m))"
proof -
  have wf: "bm_wf m" using assms by (simp add: keyed_uniquely_def)
  have "inj_on (\<lambda>e. mat (snd e)) (set m)"
  proof (rule inj_onI)
    fix e f
    assume ef: "e \<in> set m" "f \<in> set m" "mat (snd e) = mat (snd f)"
    then have "map_of m (fst e) = Some (snd e)" "map_of m (fst f) = Some (snd f)"
      by (simp_all add: map_of_bm_iff [OF wf])
    moreover from this ef(3) assms have "fst e = fst f" unfolding keyed_uniquely_def by meson
    ultimately show "e = f" by (simp add: prod_eq_iff)
  qed
  moreover have "distinct m" using bm_wf_distinct [OF wf] by (rule distinct_if_distinct_map)
  ultimately show ?thesis by (simp add: bm_values_def distinct_map comp_def)
qed

lemma snapshot_validate_seal_iff:
  assumes wf: "prod_wf reg"
  shows "snapshot_validate_seal K (prod_snapshot reg) = Inr () \<longleftrightarrow> prod_sealed K reg"
proof -
  have "map record_key_of (bm_values (pkr_records reg)) = map fst (pkr_records reg)"
    using prod_wf_key [OF wf] prod_wf_bm [OF wf] by (rule map_key_bm_values)
  then have "sorted_wrt (<) (map record_key_of (bm_values (pkr_records reg)))"
    using prod_wf_bm [OF wf] by (simp add: bm_wf_def)
  moreover have "distinct (map kr_public_key_digest (bm_values (pkr_records reg)))"
    using wf unfolding prod_wf_def by (intro keyed_uniquely_distinct [of record_key_of]) simp
  ultimately show ?thesis
    by (auto simp: snapshot_validate_seal_def prod_snapshot_def result_simps scan_records_iff prod_sealed_def bm_values_def)
qed

interpretation snapshot_records:
  indexing_loop "[]" map_of bm_insert bm_wf
    index_records record_key_of "\<lambda>r. r" "\<lambda>_. Inr ()" "\<lambda>_. PKE_DuplicateRegistryRecord"
  by unfold_locales (simp_all add: index_records_def map_of_eq_None_iff)

lemma from_snapshot_ok:
  assumes "from_snapshot K s = Inr reg"
  shows "prod_snapshot reg = s" "prod_sealed K reg" "keyed_uniquely record_key_of kr_public_key_digest (pkr_records reg)"
proof -
  from assms have v: "snapshot_validate_seal K s = Inr ()" and run: "index_records [] (rsn_records s) = Inr (pkr_records reg)"
    and snap: "prod_snapshot reg = s"
    by (auto simp: from_snapshot_def result_simps Let_def)
  show "prod_snapshot reg = s" by fact
  then have vals: "bm_values (pkr_records reg) = rsn_records s" "rsn_revision s = pkr_revision reg"
    by (auto simp: prod_snapshot_def)
  from v obtain st where "try_fold (scan_record K) scan_start (rsn_records s) = Inr st"
    by (auto simp: snapshot_validate_seal_def result_simps)
  then have seal: "\<forall>r\<in>set (rsn_records s). record_validate_seal K r = Inr ()"
    and pk: "distinct (map kr_public_key_digest (rsn_records s))"
    by (simp_all add: scan_records_iff)
  show "prod_sealed K reg"
    using seal v by (auto simp: prod_sealed_def vals snapshot_validate_seal_def result_simps bm_values_def)
      (auto simp: vals(1) [symmetric] bm_values_def)
  have wf: "bm_wf (pkr_records reg)" using snapshot_records.run_ok [OF run] .
  have get: "map_of (pkr_records reg) k = Some r \<longleftrightarrow> r \<in> set (rsn_records s) \<and> k = record_key_of r" for k r
    using snapshot_records.run_get [OF run] by auto
  show "keyed_uniquely record_key_of kr_public_key_digest (pkr_records reg)"
    unfolding keyed_uniquely_def
  proof (intro conjI allI impI)
    show "bm_wf (pkr_records reg)" by fact
    fix k l r r'
    assume "map_of (pkr_records reg) k = Some r"
    then show "k = record_key_of r" by (simp only: get)
    assume "map_of (pkr_records reg) l = Some r'" "kr_public_key_digest r = kr_public_key_digest r'"
    then show "k = l" using \<open>map_of (pkr_records reg) k = Some r\<close> pk
      by (auto simp only: get distinct_map inj_on_def)
  qed
qed

lemma from_snapshot_prod_snapshot:
  assumes wf: "prod_wf reg" and sealed: "prod_sealed K reg"
  shows "from_snapshot K (prod_snapshot reg) = Inr reg"
proof -
  let ?rs = "bm_values (pkr_records reg)"
  have keys: "map record_key_of ?rs = map fst (pkr_records reg)"
    using prod_wf_key [OF wf] prod_wf_bm [OF wf] by (rule map_key_bm_values)
  then have "distinct (map record_key_of ?rs)" using bm_wf_distinct [OF prod_wf_bm [OF wf]] by simp
  then obtain m where run: "index_records [] ?rs = Inr m" by (simp add: snapshot_records.run_eq_Inr)
  have "m = pkr_records reg"
  proof (rule bm_eqI [OF snapshot_records.run_ok [OF run] prod_wf_bm [OF wf]], rule ext, rule option.expand)
    have get: "map_of m k = Some r \<longleftrightarrow> map_of (pkr_records reg) k = Some r" for k r
      unfolding snapshot_records.run_get [OF run]
      using prod_wf_key [OF wf] bm_values_iff [OF prod_wf_bm [OF wf]] by metis
    fix k
    show "(map_of m k = None) = (map_of (pkr_records reg) k = None)" using get by (metis not_None_eq)
    show "the (map_of m k) = the (map_of (pkr_records reg) k)"
      if "map_of m k \<noteq> None" "map_of (pkr_records reg) k \<noteq> None" using get that by (metis option.collapse)
  qed
  moreover have "snapshot_validate_seal K (prod_snapshot reg) = Inr ()"
    using snapshot_validate_seal_iff [OF wf] sealed by simp
  moreover have "rsn_records (prod_snapshot reg) = ?rs" "rsn_revision (prod_snapshot reg) = pkr_revision reg"
    by (simp_all add: prod_snapshot_def)
  ultimately show ?thesis using run by (cases reg) (simp add: from_snapshot_def Let_def)
qed

section \<open>When a mutation is atomic\<close>

definition keys_lawful :: "keys_env \<Rightarrow> bool" where
  "keys_lawful K \<longleftrightarrow> lawful_hasher (kv_hasher K) \<and>
     sealable ''record_digest'' (\<lambda>d r. r\<lparr>kr_record_digest := d\<rparr>) (kv_record_value K) \<and>
     sealable ''receipt_digest'' (\<lambda>d r. r\<lparr>pmr_receipt_digest := d\<rparr>) (kv_receipt_value K) \<and>
     (\<forall>s. \<exists>v. kv_snapshot_value K s = Inr v)"

lemma record_expected_digest_total:
  assumes "keys_lawful K"
  shows "\<exists>dg. record_expected_digest K r = Inr dg \<and> (\<forall>d. record_expected_digest K (r\<lparr>kr_record_digest := d\<rparr>) = Inr dg)"
proof -
  from assms have "lawful_hasher (kv_hasher K)"
    "sealable ''record_digest'' (\<lambda>d r. r\<lparr>kr_record_digest := d\<rparr>) (kv_record_value K)"
    by (simp_all add: keys_lawful_def)
  from blank_field_digest_sealable [OF this, of PKE_Serialization PKE_InvalidCanonicalObject PKE_Hashing r]
  show ?thesis unfolding record_expected_digest_def by auto
qed

lemma mutation_expected_digest_total:
  assumes "keys_lawful K"
  shows "\<exists>dg. mutation_expected_digest K r = Inr dg \<and> (\<forall>d. mutation_expected_digest K (r\<lparr>pmr_receipt_digest := d\<rparr>) = Inr dg)"
proof -
  from assms have "lawful_hasher (kv_hasher K)"
    "sealable ''receipt_digest'' (\<lambda>d r. r\<lparr>pmr_receipt_digest := d\<rparr>) (kv_receipt_value K)"
    by (simp_all add: keys_lawful_def)
  from blank_field_digest_sealable [OF this, of PKE_Serialization PKE_InvalidCanonicalObject PKE_Hashing r]
  show ?thesis unfolding mutation_expected_digest_def by auto
qed

lemma prod_registry_digest_iff:
  assumes "keys_lawful K" "prod_wf reg"
  shows "(\<exists>d. prod_registry_digest K reg = Inr d) \<longleftrightarrow> prod_sealed K reg"
    and "prod_registry_digest K reg = Inr d \<Longrightarrow> is_sha256 d"
proof -
  obtain v where v: "kv_snapshot_value K (prod_snapshot reg) = Inr v" using assms(1) unfolding keys_lawful_def by blast
  obtain dg where dg: "canonical_json_sha256 (kv_hasher K) v = Inr dg" "is_sha256 dg"
    using lawful_hasher_digests assms(1) unfolding keys_lawful_def by blast
  have eq: "prod_registry_digest K reg = Inr d \<longleftrightarrow> prod_sealed K reg \<and> d = dg" for d
    using v dg(1) snapshot_validate_seal_iff [OF assms(2)]
    by (auto simp: prod_registry_digest_def snapshot_digest_def result_simps)
  then show "(\<exists>d. prod_registry_digest K reg = Inr d) \<longleftrightarrow> prod_sealed K reg" by simp
  show "prod_registry_digest K reg = Inr d \<Longrightarrow> is_sha256 d" using eq dg(2) by simp
qed

lemma prod_build_receipt_ok:
  assumes "keys_lawful K" "prod_wf reg" "prod_sealed K reg" "identity_validate i = Inr ()" "g \<noteq> 0"
    "pkr_revision reg \<noteq> 0" "is_sha256 previous"
  shows "(\<exists>receipt. prod_build_receipt K reg action i g pg eff previous = Inr receipt) \<longleftrightarrow> eff \<noteq> 0"
proof -
  obtain rd where rd: "prod_registry_digest K reg = Inr rd" "is_sha256 rd"
    using prod_registry_digest_iff [OF assms(1,2)] assms(3) by blast
  let ?r = "\<lparr>pmr_schema_version = PRODUCTION_KEY_MUTATION_RECEIPT_SCHEMA, pmr_action = action, pmr_identity = i,
       pmr_generation = g, pmr_previous_generation = pg, pmr_revision = pkr_revision reg,
       pmr_previous_registry_digest = previous, pmr_registry_digest = rd,
       pmr_effective_at_epoch_s = eff, pmr_receipt_digest = []\<rparr>"
  obtain dg where "mutation_expected_digest K ?r = Inr dg"
    "\<forall>d. mutation_expected_digest K (?r\<lparr>pmr_receipt_digest := d\<rparr>) = Inr dg"
    using mutation_expected_digest_total [OF assms(1)] by blast
  then show ?thesis
    using assms(4-7) rd by (auto simp: prod_build_receipt_def mutation_validate_seal_def result_simps Let_def)
qed

text \<open>A stored record with valid material can be sealed again exactly if its window and state are valid.\<close>

lemma reseal_valid:
  assumes lawful: "keys_lawful K" and ok: "record_validate_seal K current = Inr ()"
    and same: "record_descriptor changed = record_descriptor current" "kr_generation changed = kr_generation current"
      "kr_schema_version changed = kr_schema_version current"
    and reason: "\<forall>d. kr_revocation_reason_digest changed = Some d \<longrightarrow> is_sha256 d"
    and state: "record_state_ok changed" and dg: "record_expected_digest K changed = Inr digest"
  shows "record_validate_seal K (changed\<lparr>kr_record_digest := digest\<rparr>) =
    (if kr_not_before_epoch_s changed < kr_not_after_epoch_s changed then Inr () else Inl PKE_InvalidValidityWindow)"
proof -
  have d: "record_expected_digest K (changed\<lparr>kr_record_digest := digest\<rparr>) = Inr digest"
    using record_expected_digest_total [OF lawful, of changed] dg by auto
  have pk: "validate_public_key K (changed\<lparr>kr_record_digest := digest\<rparr>) = Inr ()"
    using record_validate_seal_ok(5) [OF ok] validate_public_key_cong [of "changed\<lparr>kr_record_digest := digest\<rparr>" current] same(1)
    by simp
  have fields: "kr_identity changed = kr_identity current" "kr_public_key_digest changed = kr_public_key_digest current"
    "kr_policy_digest changed = kr_policy_digest current" "kr_assurance changed = kr_assurance current"
    using same(1) by (simp_all add: record_descriptor_def)
  have st: "record_state_ok (changed\<lparr>kr_record_digest := digest\<rparr>)"
    using state by (simp add: record_state_ok_def split: production_key_status.splits)
  have "case kr_revocation_reason_digest changed of None \<Rightarrow> True | Some r \<Rightarrow> prod_validate_sha256 r = Inr ()"
    using reason by (simp add: result_simps split: option.splits)
  then have rs: "(case kr_revocation_reason_digest changed of None \<Rightarrow> Inr ()
       | Some reason \<Rightarrow> map_err (\<lambda>_. PKE_InvalidRevocationReasonDigest) (prod_validate_sha256 reason)) = Inr ()"
    by (auto split: option.splits)
  have cur: "kr_schema_version current = PRODUCTION_KEY_RECORD_SCHEMA" "prod_validate_sha256 (kr_policy_digest current) = Inr ()"
    "prod_validate_sha256 (kr_public_key_digest current) = Inr ()"
    using ok by (auto simp: record_validate_seal_def result_simps)
  show ?thesis
    using cur record_validate_seal_ok [OF ok] same fields st pk d rs
    by (simp add: record_validate_seal_def not_le ensure_def)
qed

lemma retire_state_ok: "record_state_ok current \<Longrightarrow> kr_status current = PK_Active \<Longrightarrow> record_state_ok (prod_retire_record current ret g)"
  by (simp add: record_state_ok_def prod_retire_record_def)

lemma prod_sealed_change:
  assumes "prod_wf reg" "prod_sealed K reg" "map_of (pkr_records reg) k = Some v" "record_validate_seal K w = Inr ()"
    "pkr_records reg' = bm_insert k w (pkr_records reg)" "pkr_revision reg' \<noteq> 0"
  shows "prod_sealed K reg'"
  using bm_values_change [OF prod_wf_bm [OF assms(1)] assms(3), of "\<lambda>r. record_validate_seal K r = Inr ()" w] assms(2,4-6)
  by (simp add: prod_sealed_def)

lemma set_bm_values_insert: "set (bm_values (bm_insert k w m)) \<subseteq> insert w (set (bm_values m))"
  by (induction m) (auto simp: bm_values_def)

lemma prod_sealed_add:
  assumes "prod_sealed K reg" "record_validate_seal K w = Inr ()"
    "pkr_records reg' = bm_insert k w (pkr_records reg)" "pkr_revision reg' \<noteq> 0"
  shows "prod_sealed K reg'"
  using assms set_bm_values_insert [of k w "pkr_records reg"] by (auto simp: prod_sealed_def)

lemma saturating_add_one_nonzero: "saturating_add a 1 \<noteq> (0 :: u64)"
proof
  assume "saturating_add a 1 = 0"
  then have "unat (saturating_add a 1) = 0" by simp
  then show False by (simp add: unat_saturating_add)
qed

lemma rotated_sealed:
  assumes "prod_wf reg" "prod_sealed K reg" "prod_rotate_checks K reg er ed i g d act ret na = Inr (current, r, previous)"
    "record_validate_seal K changed = Inr ()"
  shows "prod_sealed K (rotated_registry reg i g changed r)"
proof -
  note c = prod_rotate_checks_ok [OF assms(3)]
  have cur: "map_of (pkr_records reg) (record_key_from i g) = Some current" using c(1) by (simp add: rotation_guards_def)
  have "prod_sealed K \<lparr>pkr_revision = 1, pkr_records = bm_insert (record_key_from i g) changed (pkr_records reg)\<rparr>"
    by (rule prod_sealed_change [OF assms(1,2) cur assms(4)]) simp_all
  then show ?thesis
    by (rule prod_sealed_add [OF _ build_record_ok(1) [OF c(5)]]) (simp_all add: rotated_registry_def saturating_add_one_nonzero)
qed

text \<open>The outcome of a rotation that passed its checks.\<close>

lemma rotate_after_checks:
  assumes lawful: "keys_lawful K" and wf: "prod_wf reg" and sealed: "prod_sealed K reg"
    and checks: "prod_rotate_checks K reg er ed i g d act ret na = Inr (current, r, previous)"
    and dg: "record_expected_digest K (prod_retire_record current ret (g + 1)) = Inr dg"
  shows "ret = kr_not_before_epoch_s current \<Longrightarrow> rotate_guarded K reg er ed i g d act ret na =
      (Inl PKE_InvalidValidityWindow, reg\<lparr>pkr_records := bm_insert (record_key_from i g)
         ((prod_retire_record current ret (g + 1))\<lparr>kr_record_digest := dg\<rparr>) (pkr_records reg)\<rparr>)"
    and "ret \<noteq> kr_not_before_epoch_s current \<Longrightarrow>
      snd (rotate_guarded K reg er ed i g d act ret na) = rotated_registry reg i g
        ((prod_retire_record current ret (g + 1))\<lparr>kr_record_digest := dg\<rparr>) r \<and>
      prod_sealed K (snd (rotate_guarded K reg er ed i g d act ret na)) \<and>
      ((\<exists>receipt. fst (rotate_guarded K reg er ed i g d act ret na) = Inr receipt) \<longleftrightarrow> act \<noteq> 0)"
proof -
  let ?c = "prod_retire_record current ret (g + 1)"
  note c = prod_rotate_checks_ok [OF checks]
  have guards: "kr_status current = PK_Active" "kr_not_before_epoch_s current \<le> ret" "g \<noteq> - 1"
    using c(1) unfolding rotation_guards_def by (auto intro: order_trans)
  have state: "record_state_ok ?c" using record_validate_seal_ok(4) [OF c(2)] guards(1) by (rule retire_state_ok)
  have nr: "kr_revocation_reason_digest ?c = None"
    using record_validate_seal_ok(4) [OF c(2)] guards(1) by (simp add: record_state_ok_def prod_retire_record_def)
  have seal: "record_validate_seal K (?c\<lparr>kr_record_digest := dg\<rparr>) =
      (if kr_not_before_epoch_s current < ret then Inr () else Inl PKE_InvalidValidityWindow)"
    using reseal_valid [OF lawful c(2) _ _ _ _ state dg] nr by (simp add: prod_retire_record_def record_descriptor_def)
  have unfold: "rotate_guarded K reg er ed i g d act ret na =
      (case reseal_stored K reg (record_key_from i g) ?c of
         (Inl e, reg') \<Rightarrow> (Inl e, reg')
       | (Inr _, reg') \<Rightarrow>
           let reg'' = \<lparr>pkr_revision = saturating_add (pkr_revision reg') 1,
                 pkr_records = bm_insert (record_key_from i (g + 1)) r (pkr_records reg')\<rparr>
           in (prod_build_receipt K reg'' PM_Rotate i (g + 1) (Some g) act previous, reg''))"
    using checks by (simp add: rotate_guarded_def Let_def)
  show "ret = kr_not_before_epoch_s current \<Longrightarrow> rotate_guarded K reg er ed i g d act ret na =
      (Inl PKE_InvalidValidityWindow, reg\<lparr>pkr_records := bm_insert (record_key_from i g)
         (?c\<lparr>kr_record_digest := dg\<rparr>) (pkr_records reg)\<rparr>)"
    unfolding unfold using dg seal by (simp add: reseal_stored_def)
  assume "ret \<noteq> kr_not_before_epoch_s current"
  with guards(2) seal have seal': "record_validate_seal K (?c\<lparr>kr_record_digest := dg\<rparr>) = Inr ()" by simp
  let ?reg = "rotated_registry reg i g (?c\<lparr>kr_record_digest := dg\<rparr>) r"
  have eq: "rotate_guarded K reg er ed i g d act ret na =
      (prod_build_receipt K ?reg PM_Rotate i (g + 1) (Some g) act previous, ?reg)"
    using dg seal' by (simp add: unfold reseal_stored_def rotated_registry_def Let_def)
  have "prod_sealed K ?reg" by (rule rotated_sealed [OF wf sealed checks seal'])
  moreover have "(\<exists>receipt. prod_build_receipt K ?reg PM_Rotate i (g + 1) (Some g) act previous = Inr receipt) \<longleftrightarrow> act \<noteq> 0"
  proof (rule prod_build_receipt_ok [OF lawful rotated_wf [OF wf checks] calculation c(4)])
    show "g + 1 \<noteq> 0" using guards(3) by (metis add.commute add.right_inverse add_left_cancel)
    show "pkr_revision ?reg \<noteq> 0" by (simp add: rotated_registry_def saturating_add_one_nonzero)
    show "is_sha256 previous" by (rule prod_registry_digest_iff(2) [OF lawful wf c(7)])
  qed
  ultimately show "snd (rotate_guarded K reg er ed i g d act ret na) = ?reg \<and>
      prod_sealed K (snd (rotate_guarded K reg er ed i g d act ret na)) \<and>
      ((\<exists>receipt. fst (rotate_guarded K reg er ed i g d act ret na) = Inr receipt) \<longleftrightarrow> act \<noteq> 0)"
    by (simp add: eq)
qed

lemma rotate_atomicity:
  assumes lawful: "keys_lawful K" and wf: "prod_wf reg" and sealed: "prod_sealed K reg"
  shows "(\<exists>e reg'. rotate_guarded K reg er ed i g d act ret na = (Inl e, reg') \<and> reg' \<noteq> reg) \<longleftrightarrow>
    (\<exists>current r previous. prod_rotate_checks K reg er ed i g d act ret na = Inr (current, r, previous) \<and>
       (ret = kr_not_before_epoch_s current \<or> act = 0))"
proof (cases "prod_rotate_checks K reg er ed i g d act ret na")
  case (Inl e)
  then show ?thesis by (simp add: rotate_guarded_def)
next
  case (Inr p)
  obtain current r previous where p: "p = (current, r, previous)" by (metis prod.exhaust)
  note checks = Inr [unfolded p]
  obtain dg where dg: "record_expected_digest K (prod_retire_record current ret (g + 1)) = Inr dg"
    using record_expected_digest_total [OF lawful] by blast
  let ?c = "(prod_retire_record current ret (g + 1))\<lparr>kr_record_digest := dg\<rparr>"
  have guards: "map_of (pkr_records reg) (record_key_from i g) = Some current" "kr_status current = PK_Active"
    using prod_rotate_checks_ok(1) [OF checks] by (simp_all add: rotation_guards_def)
  note out = rotate_after_checks [OF lawful wf sealed checks dg]
  have changed: "map_of (bm_insert (record_key_from i g) ?c (pkr_records reg)) \<noteq> map_of (pkr_records reg)"
  proof
    assume "map_of (bm_insert (record_key_from i g) ?c (pkr_records reg)) = map_of (pkr_records reg)"
    then have "?c = current" using guards(1) by (metis fun_upd_same map_of_bm_insert option.inject)
    then have "kr_status ?c = PK_Active" using guards(2) by simp
    then show False by simp
  qed
  have new: "rotated_registry reg i g ?c r \<noteq> reg"
  proof
    assume "rotated_registry reg i g ?c r = reg"
    then have "pkr_records (rotated_registry reg i g ?c r) = pkr_records reg" by simp
    then have "bm_insert (record_key_from i (g + 1)) r (bm_insert (record_key_from i g) ?c (pkr_records reg)) = pkr_records reg"
      by (simp add: rotated_registry_def)
    from arg_cong [OF this, of "\<lambda>m. map_of m (record_key_from i (g + 1))"]
    have "map_of (pkr_records reg) (record_key_from i (g + 1)) = Some r" by simp
    then show False using prod_rotate_checks_ok(1) [OF checks] by (simp add: rotation_guards_def)
  qed
  show ?thesis
  proof (cases "ret = kr_not_before_epoch_s current")
    case True
    let ?reg = "reg\<lparr>pkr_records := bm_insert (record_key_from i g) ?c (pkr_records reg)\<rparr>"
    have "?reg \<noteq> reg"
    proof
      assume "?reg = reg"
      from arg_cong [OF this, of "\<lambda>reg. map_of (pkr_records reg)"] changed show False by simp
    qed
    with out(1) [OF True] checks True show ?thesis by auto
  next
    case False
    note o = out(2) [OF False]
    show ?thesis
    proof (cases "act = 0")
      case True
      with o have "\<exists>e. fst (rotate_guarded K reg er ed i g d act ret na) = Inl e" by (metis sum.exhaust_sel sum.collapse(2) isl_def)
      then have "\<exists>e reg'. rotate_guarded K reg er ed i g d act ret na = (Inl e, reg') \<and> reg' \<noteq> reg"
        using o new by (metis prod.collapse)
      then show ?thesis using checks True by auto
    next
      case act: False
      with o obtain receipt where "fst (rotate_guarded K reg er ed i g d act ret na) = Inr receipt" by blast
      then have "\<nexists>e reg'. rotate_guarded K reg er ed i g d act ret na = (Inl e, reg')" by (metis fst_conv Inl_Inr_False)
      then show ?thesis using checks False act by auto
    qed
  qed
qed

text \<open>A registry that holds a record without a valid seal accepts no call any more.\<close>

lemma unsealed_is_stuck:
  assumes wf: "prod_wf reg" and bad: "\<not> prod_sealed K reg"
  shows "prod_registry_digest K reg \<noteq> Inr dg"
    and "prod_registry_step K reg reg' \<Longrightarrow> reg' = reg"
    and "verify_binding K reg b t \<noteq> Inr r"
    and "trust_binding K reg i g t \<noteq> Inr b'"
    and "from_snapshot K (prod_snapshot reg) \<noteq> Inr reg2"
proof -
  have v: "snapshot_validate_seal K (prod_snapshot reg) \<noteq> Inr ()" using snapshot_validate_seal_iff [OF wf] bad by simp
  then have dg: "prod_registry_digest K reg \<noteq> Inr dg" for dg
    by (auto simp: prod_registry_digest_def snapshot_digest_def result_simps)
  then show "prod_registry_digest K reg \<noteq> Inr dg" .
  from dg obtain e where e: "prod_registry_digest K reg = Inl e" by (metis sum.exhaust)
  have base: "\<exists>e. prod_require_base K reg er ed = Inl e" for er ed
    using e by (simp add: prod_require_base_def ensure_def)
  show "prod_registry_step K reg reg' \<Longrightarrow> reg' = reg"
  proof (erule prod_registry_step.cases)
    fix reg0 er ed d nb na eff
    assume s: "reg = reg0" "reg' = snd (insert_initial_guarded K reg0 er ed d nb na eff)"
    from base [of er ed] s show ?thesis by (auto simp: insert_initial_guarded_def insert_initial_checks_def)
  next
    fix reg0 er ed i g d act ret na
    assume s: "reg = reg0" "reg' = snd (rotate_guarded K reg0 er ed i g d act ret na)"
    from base [of er ed] s show ?thesis by (auto simp: rotate_guarded_def prod_rotate_checks_def)
  next
    fix reg0 er ed i g at reason
    assume s: "reg = reg0" "reg' = snd (revoke_guarded K reg0 er ed i g at reason)"
    from base [of er ed] s show ?thesis by (auto simp: revoke_guarded_def prod_revoke_checks_def)
  qed
  show "verify_binding K reg b t \<noteq> Inr r" using dg by (auto simp: verify_binding_def result_simps)
  show "trust_binding K reg i g t \<noteq> Inr b'" using dg by (auto simp: trust_binding_def result_simps)
  show "from_snapshot K (prod_snapshot reg) \<noteq> Inr reg2" using v by (auto simp: from_snapshot_def result_simps)
qed

lemma insert_initial_atomic:
  assumes lawful: "keys_lawful K" and wf: "prod_wf reg" and sealed: "prod_sealed K reg"
  shows "insert_initial_guarded K reg er ed d nb na eff = (Inl e, reg') \<Longrightarrow> reg' = reg"
    and "insert_initial_guarded K reg er ed d nb na eff = (Inr receipt, reg') \<Longrightarrow> prod_sealed K reg'"
proof -
  let ?out = "insert_initial_guarded K reg er ed d nb na eff"
  have "snd ?out = reg \<and> (\<exists>e. fst ?out = Inl e) \<or> prod_sealed K (snd ?out) \<and> (\<exists>r. fst ?out = Inr r)"
  proof (rule insert_initial_cases [of K reg er ed d nb na eff])
    fix r previous
    assume checks: "insert_initial_checks K reg er ed d nb na eff = Inr (r, previous)"
      and b: "build_record K d 1 PK_Active nb na None None None None = Inr r"
      and eq: "?out = (let reg' = \<lparr>pkr_revision = saturating_add (pkr_revision reg) 1,
             pkr_records = bm_insert (record_key_from (hd_identity d) 1) r (pkr_records reg)\<rparr>
         in (prod_build_receipt K reg' PM_Add (hd_identity d) 1 None eff previous, reg'))"
    have c: "prod_registry_digest K reg = Inr previous" "eff \<noteq> 0"
      using checks by (auto simp: insert_initial_checks_def result_simps)
    have s: "prod_sealed K (snd ?out)"
      by (rule prod_sealed_add [OF sealed build_record_ok(1) [OF b]]) (simp_all add: eq Let_def saturating_add_one_nonzero)
    have i: "identity_validate (hd_identity d) = Inr ()"
      using record_validate_seal_ok(1) [OF build_record_ok(1) [OF b]] build_record_ok(2) [OF b] by simp
    have "(\<exists>receipt. prod_build_receipt K (snd ?out) PM_Add (hd_identity d) 1 None eff previous = Inr receipt) \<longleftrightarrow> eff \<noteq> 0"
      by (rule prod_build_receipt_ok [OF lawful insert_initial_wf [OF wf] s i _ _ prod_registry_digest_iff(2) [OF lawful wf c(1)]])
        (simp_all add: eq Let_def saturating_add_one_nonzero)
    then show ?thesis using s c(2) by (simp add: eq Let_def)
  qed simp
  then show "?out = (Inl e, reg') \<Longrightarrow> reg' = reg" "?out = (Inr receipt, reg') \<Longrightarrow> prod_sealed K reg'" by auto
qed

lemma revoke_atomic:
  assumes lawful: "keys_lawful K" and wf: "prod_wf reg" and sealed: "prod_sealed K reg"
  shows "revoke_guarded K reg er ed i g at reason = (Inl e, reg') \<Longrightarrow> reg' = reg"
    and "revoke_guarded K reg er ed i g at reason = (Inr receipt, reg') \<Longrightarrow> prod_sealed K reg'"
proof -
  let ?out = "revoke_guarded K reg er ed i g at reason"
  have "snd ?out = reg \<and> (\<exists>e. fst ?out = Inl e) \<or> prod_sealed K (snd ?out) \<and> (\<exists>r. fst ?out = Inr r)"
  proof (cases "prod_revoke_checks K reg er ed i g at reason")
    case (Inl e)
    then show ?thesis by (simp add: revoke_guarded_def)
  next
    case (Inr p)
    obtain current previous where p: "p = (current, previous)" by fastforce
    note c = prod_revoke_checks_ok [OF Inr [unfolded p]]
    let ?c = "prod_revoke_record current at reason"
    obtain dg where dg: "record_expected_digest K ?c = Inr dg"
      using record_expected_digest_total [OF lawful] by blast
    have "record_state_ok ?c" by (simp add: record_state_ok_def prod_revoke_record_def)
    from reseal_valid [OF lawful c(2) _ _ _ _ this dg] record_validate_seal_ok(3) [OF c(2)] c(4)
    have seal: "record_validate_seal K (?c\<lparr>kr_record_digest := dg\<rparr>) = Inr ()"
      by (simp add: prod_revoke_record_def record_descriptor_def)
    let ?reg = "reg\<lparr>pkr_records := bm_insert (record_key_from i g) (?c\<lparr>kr_record_digest := dg\<rparr>) (pkr_records reg),
      pkr_revision := saturating_add (pkr_revision reg) 1\<rparr>"
    have eq: "?out = (prod_build_receipt K ?reg PM_Revoke i g None at previous, ?reg)"
      using Inr dg seal by (simp add: revoke_guarded_def p reseal_stored_def Let_def)
    have s: "prod_sealed K ?reg"
      by (rule prod_sealed_change [OF wf sealed c(1) seal]) (simp_all add: saturating_add_one_nonzero)
    have wf': "prod_wf ?reg" using revoke_guarded_wf [OF wf, of K er ed i g at reason] by (simp add: eq)
    have g: "g \<noteq> 0" using prod_wf_key [OF wf c(1)] record_validate_seal_ok(2) [OF c(2)] by simp
    have "(\<exists>receipt. prod_build_receipt K ?reg PM_Revoke i g None at previous = Inr receipt) \<longleftrightarrow> at \<noteq> 0"
      by (rule prod_build_receipt_ok [OF lawful wf' s c(6) g _ prod_registry_digest_iff(2) [OF lawful wf c(7)]])
        (simp add: saturating_add_one_nonzero)
    then show ?thesis using s c(5) by (simp add: eq)
  qed
  then show "?out = (Inl e, reg') \<Longrightarrow> reg' = reg" "?out = (Inr receipt, reg') \<Longrightarrow> prod_sealed K reg'" by auto
qed

section \<open>Resolution\<close>

lemma prod_resolve_iff:
  "prod_resolve K reg i g t = Inr r \<longleftrightarrow>
     identity_validate i = Inr () \<and> map_of (pkr_records reg) (record_key_from i g) = Some r \<and>
     record_validate_seal K r = Inr () \<and> kr_status r \<noteq> PK_Revoked \<and>
     kr_not_before_epoch_s r \<le> t \<and> t < kr_not_after_epoch_s r"
  by (auto simp: prod_resolve_def result_simps not_less not_le)

text \<open>In a well-formed registry the search for the active generation is a lookup.\<close>

lemma record_seal_error: "record_validate_seal K r \<noteq> Inl PKE_ActiveGenerationAmbiguity"
  by (auto simp: record_validate_seal_def validate_public_key_def record_expected_digest_def blank_field_digest_def
      result_simps split: option.splits json.splits)

lemma active_candidates:
  assumes wf: "prod_wf reg"
  defines "xs \<equiv> \<lambda>i at. filter (\<lambda>r. kr_identity r = i \<and> record_active_at r at) (bm_values (pkr_records reg))"
  shows "r \<in> set (xs i at) \<longleftrightarrow> (\<exists>g. map_of (pkr_records reg) (record_key_from i g) = Some r \<and> record_active_at r at)"
    and "xs i at = [] \<or> (\<exists>r. xs i at = [r])"
proof -
  have mem: "r \<in> set (xs i at) \<longleftrightarrow> (\<exists>g. map_of (pkr_records reg) (record_key_from i g) = Some r \<and> record_active_at r at)" for r
  proof
    assume "r \<in> set (xs i at)"
    then obtain k where k: "map_of (pkr_records reg) k = Some r" "kr_identity r = i" "record_active_at r at"
      by (auto simp: xs_def bm_values_iff [OF prod_wf_bm [OF wf]])
    then show "\<exists>g. map_of (pkr_records reg) (record_key_from i g) = Some r \<and> record_active_at r at"
      using prod_wf_key [OF wf k(1)] by auto
  next
    assume "\<exists>g. map_of (pkr_records reg) (record_key_from i g) = Some r \<and> record_active_at r at"
    then obtain g where g: "map_of (pkr_records reg) (record_key_from i g) = Some r" "record_active_at r at" by blast
    then have "kr_identity r = i" using prod_wf_key [OF wf g(1)] by simp
    moreover have "r \<in> set (bm_values (pkr_records reg))"
      unfolding bm_values_iff [OF prod_wf_bm [OF wf]] using g(1) by (rule exI)
    ultimately show "r \<in> set (xs i at)" using g(2) by (simp add: xs_def)
  qed
  then show "r \<in> set (xs i at) \<longleftrightarrow> (\<exists>g. map_of (pkr_records reg) (record_key_from i g) = Some r \<and> record_active_at r at)" .
  have one: "r = s" if rs: "r \<in> set (xs i at)" "s \<in> set (xs i at)" for r s
  proof -
    from rs obtain g h where "map_of (pkr_records reg) (record_key_from i g) = Some r"
      "map_of (pkr_records reg) (record_key_from i h) = Some s" "kr_status r = PK_Active" "kr_status s = PK_Active"
      unfolding mem record_active_at_def by blast
    then show ?thesis using active_unique [OF wf] by (metis option.inject)
  qed
  have "distinct (map kr_public_key_digest (bm_values (pkr_records reg)))"
    using wf unfolding prod_wf_def by (intro keyed_uniquely_distinct [of record_key_of]) simp
  then have d: "distinct (xs i at)" unfolding xs_def by (intro distinct_filter) (rule distinct_if_distinct_map)
  show "xs i at = [] \<or> (\<exists>r. xs i at = [r])"
  proof (cases "xs i at")
    case (Cons x ys)
    then have "ys = []" using one [of x] d by (cases ys) auto
    then show ?thesis using Cons by simp
  qed simp
qed

lemma active_search:
  assumes "xs = [] \<or> (\<exists>x. xs = [x])"
  shows "and_then (try_fold (\<lambda>active r.
         and_then (record_validate_seal K r) (\<lambda>_.
         and_then (ensure (active = None) PKE_ActiveGenerationAmbiguity) (\<lambda>_. Inr (Some r)))) None xs) (\<lambda>active.
       ok_or active PKE_NoActiveGeneration) = Inr r \<longleftrightarrow> r \<in> set xs \<and> record_validate_seal K r = Inr ()"
    and "and_then (try_fold (\<lambda>active r.
         and_then (record_validate_seal K r) (\<lambda>_.
         and_then (ensure (active = None) PKE_ActiveGenerationAmbiguity) (\<lambda>_. Inr (Some r)))) None xs) (\<lambda>active.
       ok_or active PKE_NoActiveGeneration) \<noteq> Inl PKE_ActiveGenerationAmbiguity"
  using assms record_seal_error by (auto simp: result_simps)

lemma active_record_iff:
  assumes wf: "prod_wf reg"
  shows "prod_active_record K reg i at = Inr r \<longleftrightarrow>
      identity_validate i = Inr () \<and> record_validate_seal K r = Inr () \<and> record_active_at r at \<and>
      (\<exists>g. map_of (pkr_records reg) (record_key_from i g) = Some r)"
    and "prod_active_record K reg i at \<noteq> Inl PKE_ActiveGenerationAmbiguity"
proof -
  note search = active_search [OF active_candidates(2) [OF wf, of i at], of K]
  show "prod_active_record K reg i at \<noteq> Inl PKE_ActiveGenerationAmbiguity"
    unfolding prod_active_record_def using search(2) by (cases "identity_validate i") simp_all
  have "prod_active_record K reg i at = Inr r \<longleftrightarrow> identity_validate i = Inr () \<and>
      r \<in> set (filter (\<lambda>r. kr_identity r = i \<and> record_active_at r at) (bm_values (pkr_records reg))) \<and>
      record_validate_seal K r = Inr ()"
    unfolding prod_active_record_def search(1) [of r, symmetric] by (cases "identity_validate i") simp_all
  then show "prod_active_record K reg i at = Inr r \<longleftrightarrow>
      identity_validate i = Inr () \<and> record_validate_seal K r = Inr () \<and> record_active_at r at \<and>
      (\<exists>g. map_of (pkr_records reg) (record_key_from i g) = Some r)"
    unfolding active_candidates(1) [OF wf] by blast
qed

lemma trust_binding_verifies:
  assumes "keys_lawful K" "prod_wf reg" "trust_binding K reg i g t = Inr b"
  shows "\<exists>r. prod_resolve K reg i g t = Inr r \<and> verify_binding K reg b t = Inr r"
proof -
  from assms(3) obtain r dg where r: "prod_resolve K reg i g t = Inr r" and dg: "prod_registry_digest K reg = Inr dg"
    and b: "b = \<lparr>tb_schema_version = PRODUCTION_KEY_TRUST_BINDING_SCHEMA, tb_identity = i, tb_generation = g,
       tb_public_key_digest = kr_public_key_digest r, tb_key_record_digest = kr_record_digest r,
       tb_registry_revision = pkr_revision reg, tb_registry_digest = dg\<rparr>"
    by (auto simp: trust_binding_def result_simps)
  note f = r [unfolded prod_resolve_iff]
  then have seal: "record_validate_seal K r = Inr ()" and find: "map_of (pkr_records reg) (record_key_from i g) = Some r"
    by simp_all
  from find have "pkr_records reg \<noteq> []" by auto
  moreover have "prod_sealed K reg" using prod_registry_digest_iff(1) [OF assms(1,2)] dg by blast
  ultimately have "pkr_revision reg \<noteq> 0" by (auto simp: prod_sealed_def)
  moreover have "is_sha256 (kr_record_digest r)"
  proof -
    from assms(1) have "lawful_hasher (kv_hasher K)"
      "sealable ''record_digest'' (\<lambda>d r. r\<lparr>kr_record_digest := d\<rparr>) (kv_record_value K)"
      by (simp_all add: keys_lawful_def)
    from blank_field_digest_sealable [OF this, of PKE_Serialization PKE_InvalidCanonicalObject PKE_Hashing r]
      record_validate_seal_ok(6) [OF seal]
    show ?thesis unfolding record_expected_digest_def by auto
  qed
  moreover have "g \<noteq> 0" using prod_wf_key [OF assms(2) find] record_validate_seal_ok(2) [OF seal] by simp
  moreover have "is_sha256 dg" by (rule prod_registry_digest_iff(2) [OF assms(1,2) dg])
  ultimately show ?thesis
    using r dg f record_validate_seal_ok(8) [OF seal]
    by (simp add: b verify_binding_def trust_binding_validate_shape_def prod_validate_sha256_def)
qed

section \<open>Properties\<close>

text \<open>
  Concrete third-party operations for the examples, and a key registered for the capability
  identity.
\<close>

definition demo_p256 :: p256 where
  "demo_p256 = \<lparr>p256_vk_from_sec1 = Some, p256_sig_from_slice = Some, p256_verify_prehash = (\<lambda>vk digest sig. sig = vk @ digest)\<rparr>"

definition demo_keys_env :: keys_env where
  "demo_keys_env = \<lparr>kv_production = demo_production_env, kv_p256 = demo_p256, kv_base64 = demo_base64,
     kv_record_value = (\<lambda>_. Inr (JObject [])), kv_receipt_value = (\<lambda>_. Inr (JObject [])),
     kv_snapshot_value = (\<lambda>_. Inr (JObject []))\<rparr>"

definition demo_p256_key :: "u8 \<Rightarrow> u8 list" where
  "demo_p256_key n = 4 # replicate 63 0 @ [n]"

definition demo_descriptor :: "u8 \<Rightarrow> hardware_key_descriptor" where
  "demo_descriptor n = \<lparr>hd_identity = identity_capability,
     hd_provider = MICROSOFT_PLATFORM_CRYPTO_PROVIDER, hd_algorithm = ECDSA_P256_SHA256,
     hd_public_key_encoding = SEC1_UNCOMPRESSED_P256,
     hd_public_key_base64url = b64_encode demo_base64 (demo_p256_key n),
     hd_public_key_digest = sha256_hex demo_prod_hasher (demo_p256_key n),
     hd_signature_encoding = P1363_FIXED_64, hd_export_policy = NON_EXPORTABLE_POLICY,
     hd_provider_implementation_flags = 0, hd_assurance = ProvenHardwareBacked,
     hd_policy_digest = demo_zero_digest\<rparr>"

definition demo_insertion :: "(production_key_error + production_key_mutation_receipt) \<times> production_key_registry" where
  "demo_insertion = insert_initial_guarded demo_keys_env prod_registry_default 0 demo_zero_digest (demo_descriptor 1) 5 100 1"

lemma demo_keys_lawful: "keys_lawful demo_keys_env"
  using demo_prod_hasher_lawful
  by (auto simp: keys_lawful_def sealable_def demo_keys_env_def demo_production_env_def)

lemma demo_base64_decode [simp]: "b64_decode demo_base64 (b64_encode demo_base64 k) = Some k"
  using demo_base64_inverse by (simp add: base64_inverse_def)

lemma demo_env_simps [simp]:
  "kv_production demo_keys_env = demo_production_env"
  "kv_p256 demo_keys_env = demo_p256" "kv_base64 demo_keys_env = demo_base64"
  "kv_record_value demo_keys_env = (\<lambda>_. Inr (JObject []))" "kv_receipt_value demo_keys_env = (\<lambda>_. Inr (JObject []))"
  "kv_snapshot_value demo_keys_env = (\<lambda>_. Inr (JObject []))"
  by (simp_all add: demo_keys_env_def)

lemma demo_descriptor_sel [simp]:
  "hd_identity (demo_descriptor n) = identity_capability" "hd_provider (demo_descriptor n) = MICROSOFT_PLATFORM_CRYPTO_PROVIDER"
  "hd_algorithm (demo_descriptor n) = ECDSA_P256_SHA256" "hd_public_key_encoding (demo_descriptor n) = SEC1_UNCOMPRESSED_P256"
  "hd_public_key_base64url (demo_descriptor n) = b64_encode demo_base64 (demo_p256_key n)"
  "hd_public_key_digest (demo_descriptor n) = sha256_hex demo_prod_hasher (demo_p256_key n)"
  "hd_signature_encoding (demo_descriptor n) = P1363_FIXED_64" "hd_export_policy (demo_descriptor n) = NON_EXPORTABLE_POLICY"
  "hd_provider_implementation_flags (demo_descriptor n) = 0" "hd_assurance (demo_descriptor n) = ProvenHardwareBacked"
  "hd_policy_digest (demo_descriptor n) = demo_zero_digest"
  by (simp_all add: demo_descriptor_def)

lemma demo_descriptor_valid [simp]:
  "descriptor_validate_for demo_production_env (demo_descriptor n) (policy_for identity_capability) = Inr ()"
proof -
  have "b64_encode demo_base64 (demo_p256_key n) \<noteq> []" by (simp add: demo_base64_def demo_p256_key_def)
  then show ?thesis
    by (simp add: descriptor_validate_for_def) (simp add: demo_descriptor_def policy_for_def)
qed

definition demo_key_record :: "u8 \<Rightarrow> u64 \<Rightarrow> u64 \<Rightarrow> u64 \<Rightarrow> production_key_record" where
  "demo_key_record n g nb na = \<lparr>kr_schema_version = PRODUCTION_KEY_RECORD_SCHEMA, kr_identity = identity_capability,
     kr_generation = g, kr_public_key_base64url = b64_encode demo_base64 (demo_p256_key n),
     kr_public_key_digest = sha256_hex demo_prod_hasher (demo_p256_key n),
     kr_provider = MICROSOFT_PLATFORM_CRYPTO_PROVIDER, kr_algorithm = ECDSA_P256_SHA256,
     kr_public_key_encoding = SEC1_UNCOMPRESSED_P256, kr_signature_encoding = P1363_FIXED_64,
     kr_export_policy = NON_EXPORTABLE_POLICY, kr_provider_implementation_flags = 0,
     kr_assurance = ProvenHardwareBacked, kr_policy_digest = demo_zero_digest, kr_status = PK_Active,
     kr_not_before_epoch_s = nb, kr_not_after_epoch_s = na, kr_retired_at_epoch_s = None,
     kr_revoked_at_epoch_s = None, kr_revocation_reason_digest = None, kr_successor_generation = None,
     kr_record_digest = demo_zero_digest\<rparr>"

lemma demo_key_record_sel [simp]:
  "record_descriptor (demo_key_record n g nb na) = demo_descriptor n" "record_state_ok (demo_key_record n g nb na)"
  "kr_schema_version (demo_key_record n g nb na) = PRODUCTION_KEY_RECORD_SCHEMA"
  "kr_identity (demo_key_record n g nb na) = identity_capability" "kr_generation (demo_key_record n g nb na) = g"
  "kr_public_key_base64url (demo_key_record n g nb na) = b64_encode demo_base64 (demo_p256_key n)"
  "kr_public_key_digest (demo_key_record n g nb na) = sha256_hex demo_prod_hasher (demo_p256_key n)"
  "kr_policy_digest (demo_key_record n g nb na) = demo_zero_digest"
  "kr_record_digest (demo_key_record n g nb na) = demo_zero_digest"
  "kr_assurance (demo_key_record n g nb na) = ProvenHardwareBacked" "kr_status (demo_key_record n g nb na) = PK_Active"
  "kr_not_before_epoch_s (demo_key_record n g nb na) = nb" "kr_not_after_epoch_s (demo_key_record n g nb na) = na"
  "kr_revocation_reason_digest (demo_key_record n g nb na) = None"
  by (simp_all add: demo_key_record_def record_descriptor_def demo_descriptor_def record_state_ok_def)

lemma demo_key_record_sealed:
  assumes "g \<noteq> 0" "nb < na"
  shows "record_validate_seal demo_keys_env (demo_key_record n g nb na) = Inr ()"
proof -
  have "validate_public_key demo_keys_env (demo_key_record n g nb na) = Inr ()"
    by (simp add: validate_public_key_def) (simp add: demo_p256_def demo_p256_key_def)
  then show ?thesis
    using assms by (simp add: record_validate_seal_def record_expected_digest_def not_le)
qed

lemma demo_build_record:
  assumes "g \<noteq> 0" "nb < na"
  shows "build_record demo_keys_env (demo_descriptor n) g PK_Active nb na None None None None = Inr (demo_key_record n g nb na)"
  using assms demo_key_record_sealed [OF assms, of n]
  by (simp add: build_record_def record_expected_digest_def Let_def not_le demo_key_record_def [symmetric])

definition demo_keys :: production_key_registry where
  "demo_keys = \<lparr>pkr_revision = 1, pkr_records = [(record_key_from identity_capability 1, demo_key_record 1 1 5 100)]\<rparr>"

lemma demo_default_digest: "prod_registry_digest demo_keys_env prod_registry_default = Inr demo_zero_digest"
  by (simp add: prod_registry_digest_def snapshot_digest_def snapshot_validate_seal_def prod_snapshot_def
      prod_registry_default_def bm_values_def)

lemma demo_inserted: "snd demo_insertion = demo_keys"
proof -
  show ?thesis
    using demo_default_digest
    by (simp add: demo_insertion_def insert_initial_guarded_def insert_initial_checks_def prod_require_base_def
        prod_require_unused_public_key_def demo_build_record demo_keys_def Let_def)
      (simp add: prod_registry_default_def bm_values_def bm_keys_def saturating_add_def Let_def)
qed

lemma demo_keys_step: "prod_registry_step demo_keys_env prod_registry_default demo_keys"
  unfolding demo_inserted [symmetric] demo_insertion_def by (rule prod_registry_step.insert)

lemma demo_keys_wf: "prod_wf demo_keys"
  by (rule prod_registry_step_wf [OF prod_wf_default demo_keys_step])

lemma demo_keys_sealed: "prod_sealed demo_keys_env demo_keys"
  using demo_key_record_sealed [of 1 5 100 1] by (simp add: prod_sealed_def demo_keys_def bm_values_def)

lemma demo_keys_digest: "prod_registry_digest demo_keys_env demo_keys = Inr demo_zero_digest"
  using snapshot_validate_seal_iff [OF demo_keys_wf, of demo_keys_env] demo_keys_sealed
  by (simp add: prod_registry_digest_def snapshot_digest_def)

lemma demo_rotate_checks:
  assumes "5 \<le> act" "act \<le> ret" "ret \<le> 100" "act < na"
  shows "prod_rotate_checks demo_keys_env demo_keys 1 demo_zero_digest identity_capability 1 (demo_descriptor 2) act ret na =
    Inr (demo_key_record 1 1 5 100, demo_key_record 2 2 act na, demo_zero_digest)"
proof -
  have rev: "pkr_revision demo_keys = 1" and recs: "pkr_records demo_keys = [(record_key_from identity_capability 1, demo_key_record 1 1 5 100)]"
    by (simp_all add: demo_keys_def)
  have "sha256_hex demo_prod_hasher (demo_p256_key 1) \<noteq> sha256_hex demo_prod_hasher (demo_p256_key 2)"
    by (simp add: demo_prod_hasher_def demo_p256_key_def)
  then show ?thesis
    using assms demo_keys_digest demo_key_record_sealed [of 1 5 100 1]
    by (simp add: prod_rotate_checks_def prod_require_base_def rev recs prod_require_unused_public_key_def
        demo_build_record bm_values_def not_less not_le)
qed

lemma demo_digest_total [simp]: "record_expected_digest demo_keys_env r = Inr demo_zero_digest"
  by (simp add: record_expected_digest_def)

definition demo_revoked_record :: production_key_record where
  "demo_revoked_record = (prod_revoke_record (demo_key_record 1 1 5 100) 50 demo_zero_digest)\<lparr>kr_record_digest := demo_zero_digest\<rparr>"

lemma demo_revoked_sealed: "record_validate_seal demo_keys_env demo_revoked_record = Inr ()"
  unfolding demo_revoked_record_def
  by (subst reseal_valid [OF demo_keys_lawful demo_key_record_sealed [of 1 5 100 1]])
   (simp_all add: prod_revoke_record_def record_state_ok_def record_descriptor_def)

definition demo_revoked_keys :: production_key_registry where
  "demo_revoked_keys = snd (revoke_guarded demo_keys_env demo_keys 1 demo_zero_digest identity_capability 1 50 demo_zero_digest)"

lemma demo_revoked_find:
  "map_of (pkr_records demo_revoked_keys) (record_key_from identity_capability 1) = Some demo_revoked_record"
  using demo_keys_digest demo_key_record_sealed [of 1 5 100 1] demo_revoked_sealed
  by (simp add: demo_revoked_keys_def revoke_guarded_def prod_revoke_checks_def prod_require_base_def reseal_stored_def Let_def
      demo_revoked_record_def [symmetric] demo_keys_def)

lemma demo_keys_reachable: "(prod_registry_step demo_keys_env)\<^sup>*\<^sup>* prod_registry_default demo_keys"
  using demo_keys_step by (rule r_into_rtranclp)

lemma demo_revoked_reachable: "(prod_registry_step demo_keys_env)\<^sup>*\<^sup>* prod_registry_default demo_revoked_keys"
  unfolding demo_revoked_keys_def
  using demo_keys_reachable prod_registry_step.revoke by (rule rtranclp.rtrancl_into_rtrancl)

lemmas reachable_wf = production_keys.steps_ok [OF _ prod_wf_default]

text \<open>
  C17: after any history of guarded insertions, rotations and revocations, failed ones
  included, every generation below a registered one is registered and no longer active, so
  an identity has at most one active generation, the latest; and the search for the active
  generation is never ambiguous.
\<close>

theorem one_active_generation:
  assumes "(prod_registry_step K)\<^sup>*\<^sup>* prod_registry_default reg"
    "map_of (pkr_records reg) (record_key_from i h) = Some r"
  shows "h \<noteq> 0 \<and>
    (\<forall>g. g \<noteq> 0 \<and> g < h \<longrightarrow> (\<exists>s. map_of (pkr_records reg) (record_key_from i g) = Some s \<and> kr_status s \<noteq> PK_Active)) \<and>
    prod_active_record K reg i t \<noteq> Inl PKE_ActiveGenerationAmbiguity"
proof -
  have wf: "prod_wf reg" using assms(1) by (rule reachable_wf)
  then have ok: "generations_ok (pkr_records reg)" by (simp add: prod_wf_def)
  with assms(2) have "h \<noteq> 0" unfolding generations_ok_def by blast
  then show ?thesis using generations_below [OF ok assms(2)] active_record_iff(2) [OF wf] by blast
qed

definition demo_rotated_keys :: production_key_registry where
  "demo_rotated_keys = snd (rotate_guarded demo_keys_env demo_keys 1 demo_zero_digest identity_capability 1 (demo_descriptor 2) 50 60 200)"

lemma demo_rotated_find:
  "map_of (pkr_records demo_rotated_keys) (record_key_from identity_capability 2) = Some (demo_key_record 2 2 50 200)"
proof -
  have "60 \<noteq> kr_not_before_epoch_s (demo_key_record 1 1 5 100)" by simp
  from rotate_after_checks(2) [OF demo_keys_lawful demo_keys_wf demo_keys_sealed demo_rotate_checks demo_digest_total this]
  show ?thesis by (simp add: demo_rotated_keys_def rotated_registry_def)
qed

theorem one_active_generation_witness:
  "(\<exists>s. map_of (pkr_records demo_rotated_keys) (record_key_from identity_capability 1) = Some s \<and> kr_status s \<noteq> PK_Active) \<and>
   prod_active_record demo_keys_env demo_rotated_keys identity_capability 70 \<noteq> Inl PKE_ActiveGenerationAmbiguity"
proof -
  have "(prod_registry_step demo_keys_env)\<^sup>*\<^sup>* prod_registry_default demo_rotated_keys"
    unfolding demo_rotated_keys_def
    using demo_keys_reachable prod_registry_step.rotate by (rule rtranclp.rtrancl_into_rtrancl)
  from one_active_generation [OF this demo_rotated_find, where t = 70] show ?thesis by simp
qed

text \<open>
  C18: once a generation is revoked, no later history of mutations changes its record: it is
  never resolved again, at whatever time a signature claims, and neither it nor another
  record with its key material is ever the active one.
\<close>

theorem production_revocation_is_permanent:
  assumes "(prod_registry_step K)\<^sup>*\<^sup>* prod_registry_default reg" "(prod_registry_step K)\<^sup>*\<^sup>* reg reg'"
    "map_of (pkr_records reg) (record_key_from i g) = Some r" "kr_status r = PK_Revoked"
  shows "map_of (pkr_records reg') (record_key_from i g) = Some r \<and>
    (\<forall>t s. prod_resolve K reg' i g t \<noteq> Inr s) \<and>
    (\<forall>j t s. prod_active_record K reg' j t = Inr s \<longrightarrow> kr_public_key_digest s \<noteq> kr_public_key_digest r)"
proof -
  have wf: "prod_wf reg" using assms(1) by (rule reachable_wf)
  have wf': "prod_wf reg'" using assms(2) wf by (rule production_keys.steps_ok)
  from steps_record_kept [OF assms(2) wf assms(3)] assms(4)
  have kept: "map_of (pkr_records reg') (record_key_from i g) = Some r" by (auto simp: record_kept_def)
  moreover have "kr_public_key_digest s \<noteq> kr_public_key_digest r" if active: "prod_active_record K reg' j t = Inr s" for j t s
  proof
    assume same: "kr_public_key_digest s = kr_public_key_digest r"
    from active obtain h where h: "map_of (pkr_records reg') (record_key_from j h) = Some s" "record_active_at s t"
      unfolding active_record_iff(1) [OF wf'] by blast
    from production_keys.material_never_reused [OF assms(2) wf assms(3) h(1) same] h kept assms(4)
    show False by (simp add: record_active_at_def)
  qed
  ultimately show ?thesis using assms(4) by (simp add: prod_resolve_iff)
qed

theorem production_revocation_is_permanent_witness:
  "prod_resolve demo_keys_env (snd (rotate_guarded demo_keys_env demo_revoked_keys 2 demo_zero_digest identity_capability 1
     (demo_descriptor 2) 50 60 200)) identity_capability 1 10 \<noteq> Inr (demo_key_record 1 1 5 100)"
proof -
  have "kr_status demo_revoked_record = PK_Revoked" by (simp add: demo_revoked_record_def prod_revoke_record_def)
  from production_revocation_is_permanent [OF demo_revoked_reachable _ demo_revoked_find this]
  show ?thesis using prod_registry_step.rotate by blast
qed

text \<open>
  C38: in a sealed registry a rotation fails and yet changes the registry exactly when its
  guards pass and it retires the current generation at the very second it became valid, or
  activates the new one at second zero. In the first case the rotation reports an invalid
  validity window after it has overwritten the stored record with one that fails its own
  seal check: from then on the registry has no digest, every mutation is refused, no trust
  binding can be issued or verified and its snapshot cannot be loaded.
\<close>

theorem rotation_failure_modes:
  assumes "keys_lawful K" "prod_wf reg" "prod_sealed K reg"
    "rotate_guarded K reg er ed i g d act ret na = (outcome, reg')"
  shows "((\<exists>e. outcome = Inl e) \<and> reg' \<noteq> reg \<longleftrightarrow>
       (\<exists>current r previous. prod_rotate_checks K reg er ed i g d act ret na = Inr (current, r, previous) \<and>
          (ret = kr_not_before_epoch_s current \<or> act = 0))) \<and>
    (\<forall>current r previous. prod_rotate_checks K reg er ed i g d act ret na = Inr (current, r, previous) \<and>
       ret = kr_not_before_epoch_s current \<longrightarrow>
       outcome = Inl PKE_InvalidValidityWindow \<and>
       (\<forall>dg. prod_registry_digest K reg' \<noteq> Inr dg) \<and>
       (\<forall>reg''. (prod_registry_step K)\<^sup>*\<^sup>* reg' reg'' \<longrightarrow> reg'' = reg') \<and>
       (\<forall>j h t b. trust_binding K reg' j h t \<noteq> Inr b) \<and>
       (\<forall>restored. from_snapshot K (prod_snapshot reg') \<noteq> Inr restored))"
proof (intro conjI allI impI)
  show "(\<exists>e. outcome = Inl e) \<and> reg' \<noteq> reg \<longleftrightarrow>
       (\<exists>current r previous. prod_rotate_checks K reg er ed i g d act ret na = Inr (current, r, previous) \<and>
          (ret = kr_not_before_epoch_s current \<or> act = 0))"
    using rotate_atomicity [OF assms(1-3), of er ed i g d act ret na] by (auto simp: assms(4))
  fix current r previous
  assume a: "prod_rotate_checks K reg er ed i g d act ret na = Inr (current, r, previous) \<and> ret = kr_not_before_epoch_s current"
  then have checks: "prod_rotate_checks K reg er ed i g d act ret na = Inr (current, r, previous)" ..
  from a have ret: "ret = kr_not_before_epoch_s current" ..
  obtain dg where dg: "record_expected_digest K (prod_retire_record current ret (g + 1)) = Inr dg"
    using record_expected_digest_total [OF assms(1)] by blast
  let ?bad = "(prod_retire_record current ret (g + 1))\<lparr>kr_record_digest := dg\<rparr>"
  from rotate_after_checks(1) [OF assms(1-3) checks dg ret] assms(4)
  have out: "outcome = Inl PKE_InvalidValidityWindow"
    and reg': "reg' = reg\<lparr>pkr_records := bm_insert (record_key_from i g) ?bad (pkr_records reg)\<rparr>" by simp_all
  show "outcome = Inl PKE_InvalidValidityWindow" by fact
  have wf': "prod_wf reg'" using rotate_guarded_wf [OF assms(2), of K er ed i g d act ret na] by (simp add: assms(4))
  have "record_validate_seal K ?bad \<noteq> Inr ()"
    using record_validate_seal_ok(3) [of K ?bad] by (auto simp: prod_retire_record_def ret)
  moreover have "?bad \<in> set (bm_values (pkr_records reg'))"
    unfolding bm_values_iff [OF prod_wf_bm [OF wf']] by (rule exI [of _ "record_key_from i g"]) (simp add: reg')
  ultimately have bad: "\<not> prod_sealed K reg'" unfolding prod_sealed_def by blast
  note stuck = unsealed_is_stuck [OF wf' bad]
  show "prod_registry_digest K reg' \<noteq> Inr dg" for dg by (rule stuck(1))
  show "trust_binding K reg' j h t \<noteq> Inr b" for j h t b by (rule stuck(4))
  show "from_snapshot K (prod_snapshot reg') \<noteq> Inr restored" for restored by (rule stuck(5))
  show "reg'' = reg'" if "(prod_registry_step K)\<^sup>*\<^sup>* reg' reg''" for reg''
    using that by (induction rule: rtranclp_induct) (auto dest: stuck(2))
qed

theorem rotation_failure_modes_witness:
  "\<exists>reg'. rotate_guarded demo_keys_env demo_keys 1 demo_zero_digest identity_capability 1 (demo_descriptor 2) 5 5 200 =
       (Inl PKE_InvalidValidityWindow, reg') \<and> reg' \<noteq> demo_keys \<and>
     prod_registry_digest demo_keys_env reg' \<noteq> Inr demo_zero_digest"
proof -
  obtain outcome reg' where out: "rotate_guarded demo_keys_env demo_keys 1 demo_zero_digest identity_capability 1
      (demo_descriptor 2) 5 5 200 = (outcome, reg')" by fastforce
  have checks: "prod_rotate_checks demo_keys_env demo_keys 1 demo_zero_digest identity_capability 1 (demo_descriptor 2) 5 5 200 =
    Inr (demo_key_record 1 1 5 100, demo_key_record 2 2 5 200, demo_zero_digest)"
    by (rule demo_rotate_checks) simp_all
  from rotation_failure_modes [OF demo_keys_lawful demo_keys_wf demo_keys_sealed out] checks
  show ?thesis unfolding out by simp
qed



text \<open>
  a trust binding issued for a generation verifies against the same registry at the same
  time, and yields the record it was issued for.
\<close>

lemma issued_binding_verifies:
  assumes "keys_lawful K" "(prod_registry_step K)\<^sup>*\<^sup>* prod_registry_default reg" "trust_binding K reg i g t = Inr b"
  shows "\<exists>r. prod_resolve K reg i g t = Inr r \<and> verify_binding K reg b t = Inr r \<and>
    tb_public_key_digest b = kr_public_key_digest r"
proof -
  from trust_binding_verifies [OF assms(1) reachable_wf [OF assms(2)] assms(3)]
  obtain r where "prod_resolve K reg i g t = Inr r" "verify_binding K reg b t = Inr r" by blast
  then show ?thesis using assms(3) by (auto simp: trust_binding_def result_simps)
qed

end
