(* ===== verification/ProductionService.thy ===== *)
theory ProductionService
  imports SignerIdentity ProductionRegistry
begin

text \<open>
  The signing service (\<^verbatim>\<open>crates/windows-production-signer-service-runtime\<close>): it
  authorizes a caller, binds the request to caller, service and policy, has the hardware
  backend sign the envelope and hands out the package of authorization and response; and the
  three ways to verify a package. The backend is a record of functions, with the trait's
  default methods. The lemmas show that the service's own packages verify, what a verified
  package proves, and that a request is signed at most once.
\<close>

section \<open>Data\<close>

record production_signer_trust_snapshot =
  tsn_identity :: production_key_identity
  tsn_public_key_digest :: string
  tsn_allowlist_revision :: u64
  tsn_allowlist_digest :: string
  tsn_caller_identity_digest :: string
  tsn_signer_service_identity_digest :: string

record governed_signer_trust_snapshot =
  gts_signer :: production_signer_trust_snapshot
  gts_key :: production_key_trust_binding

record authorized_signer_package =
  apk_caller_authorization :: caller_authorization_receipt
  apk_signer_response :: production_signer_response

type_synonym backend_error = string

datatype (plugins only: code size) production_service_error =
    PSS_UnsupportedIdentity
  | PSS_InvalidKeyGeneration
  | PSS_ResponseDoesNotContainSignature
  | PSS_AuthorizationResponseBindingMismatch
  | PSS_TrustIdentityMismatch
  | PSS_TrustPublicKeyDigestMismatch
  | PSS_InvalidTrustAllowlistRevision
  | PSS_TrustAllowlistMismatch
  | PSS_TrustCallerIdentityMismatch
  | PSS_TrustServiceIdentityMismatch
  | PSS_InvalidCanonicalObject
  | PSS_Json serde_error
  | PSS_Hashing hashing_error
  | PSS_Backend backend_error
  | PSS_Protocol production_protocol_error
  | PSS_Production production_signer_error
  | PSS_Governance production_key_error
  | PSS_Identity signer_identity_error

record signer_backend =
  be_descriptor :: "production_key_policy \<Rightarrow> backend_error + hardware_key_descriptor"
  be_descriptor_for_generation :: "production_key_policy \<Rightarrow> u64 \<Rightarrow> backend_error + hardware_key_descriptor"
  be_sign_sha256_digest ::
    "production_key_policy \<Rightarrow> hardware_key_descriptor \<Rightarrow> signer_request_binding \<Rightarrow> string \<Rightarrow> backend_error + hardware_signature"
  be_sign_sha256_digest_for_generation ::
    "production_key_policy \<Rightarrow> u64 \<Rightarrow> hardware_key_descriptor \<Rightarrow> signer_request_binding \<Rightarrow> string \<Rightarrow>
     backend_error + hardware_signature"

record production_signer_service =
  pss_service_identity :: signer_service_identity
  pss_allowlist :: signer_caller_allowlist
  pss_identity_authorizer :: signer_identity_authorizer

text \<open>The third-party operations of all the crates the service uses.\<close>

record service_env =
  sv_production :: production_env
  sv_p256 :: p256
  sv_base64 :: base64
  sv_request_value :: "production_signer_request \<Rightarrow> serde_error + json"
  sv_envelope_value :: "production_signer_envelope \<Rightarrow> serde_error + json"
  sv_response_value :: "production_signer_response \<Rightarrow> serde_error + json"
  sv_allowed_value :: "allowed_signer_caller \<Rightarrow> serde_error + json"
  sv_allowlist_value :: "signer_caller_allowlist \<Rightarrow> serde_error + json"
  sv_contract_value :: "named_pipe_security_contract \<Rightarrow> serde_error + json"
  sv_authorization_value :: "caller_authorization_receipt \<Rightarrow> serde_error + json"
  sv_record_value :: "production_key_record \<Rightarrow> serde_error + json"
  sv_mutation_value :: "production_key_mutation_receipt \<Rightarrow> serde_error + json"
  sv_snapshot_value :: "production_key_registry_snapshot \<Rightarrow> serde_error + json"

definition sv_protocol :: "service_env \<Rightarrow> protocol_env" where
  "sv_protocol S = \<lparr>pq_production = sv_production S, pq_p256 = sv_p256 S, pq_base64 = sv_base64 S,
     pq_request_value = sv_request_value S, pq_envelope_value = sv_envelope_value S,
     pq_response_value = sv_response_value S\<rparr>"

definition sv_identity :: "service_env \<Rightarrow> identity_env" where
  "sv_identity S = \<lparr>iv_production = sv_production S, iv_allowed_value = sv_allowed_value S,
     iv_allowlist_value = sv_allowlist_value S, iv_contract_value = sv_contract_value S,
     iv_authorization_value = sv_authorization_value S\<rparr>"

definition sv_keys :: "service_env \<Rightarrow> keys_env" where
  "sv_keys S = \<lparr>kv_production = sv_production S, kv_p256 = sv_p256 S, kv_base64 = sv_base64 S,
     kv_record_value = sv_record_value S, kv_receipt_value = sv_mutation_value S,
     kv_snapshot_value = sv_snapshot_value S\<rparr>"

section \<open>The backend's default methods\<close>

definition default_descriptor_for_generation ::
    "(production_key_policy \<Rightarrow> backend_error + hardware_key_descriptor) \<Rightarrow>
     production_key_policy \<Rightarrow> u64 \<Rightarrow> backend_error + hardware_key_descriptor" where
  "default_descriptor_for_generation descriptor policy generation =
     (if generation = 1 then descriptor policy else Inl ''KEY_GENERATION_UNSUPPORTED'')"

definition default_sign_for_generation ::
    "(production_key_policy \<Rightarrow> hardware_key_descriptor \<Rightarrow> signer_request_binding \<Rightarrow> string \<Rightarrow> backend_error + hardware_signature) \<Rightarrow>
     production_key_policy \<Rightarrow> u64 \<Rightarrow> hardware_key_descriptor \<Rightarrow> signer_request_binding \<Rightarrow> string \<Rightarrow>
     backend_error + hardware_signature" where
  "default_sign_for_generation sign policy generation d b digest =
     (if generation = 1 then sign policy d b digest else Inl ''KEY_GENERATION_UNSUPPORTED'')"

section \<open>Checks\<close>

definition policy_for_identity :: "production_key_identity \<Rightarrow> production_service_error + production_key_policy" where
  "policy_for_identity i =
     and_then (map_err PSS_Production (identity_validate i)) (\<lambda>_.
     case ki_role i of
       IR_Capability \<Rightarrow> Inr policy_capability
     | IR_Attestation \<Rightarrow> Inr policy_attestation
     | _ \<Rightarrow> Inl PSS_UnsupportedIdentity)"

definition response_descriptor :: "production_signer_response \<Rightarrow> production_service_error + hardware_key_descriptor" where
  "response_descriptor response =
     (case response of
        QR_Success _ result \<Rightarrow> Inr (qs_descriptor result)
      | QR_Error _ _ _ \<Rightarrow> Inl PSS_ResponseDoesNotContainSignature)"

definition response_identity :: "production_signer_response \<Rightarrow> production_service_error + production_key_identity" where
  "response_identity response = and_then (response_descriptor response) (\<lambda>d. Inr (hd_identity d))"

definition validate_authorization_receipt_seal ::
    "service_env \<Rightarrow> caller_authorization_receipt \<Rightarrow> production_service_error + unit" where
  "validate_authorization_receipt_seal S r =
     and_then (ensure (car_schema_version r = CALLER_AUTHORIZATION_RECEIPT_SCHEMA)
       (PSS_Identity SI_UnsupportedReceiptSchema)) (\<lambda>_.
     and_then (map_err PSS_Production (prod_validate_identifier ''caller_id'' (car_caller_id r))) (\<lambda>_.
     and_then (map_err PSS_Production (prod_validate_sha256 (car_request_digest r))) (\<lambda>_.
     and_then (map_err PSS_Production (prod_validate_sha256 (car_caller_identity_digest r))) (\<lambda>_.
     and_then (map_err PSS_Production (prod_validate_sha256 (car_signer_service_identity_digest r))) (\<lambda>_.
     and_then (map_err PSS_Production (prod_validate_sha256 (car_allowlist_digest r))) (\<lambda>_.
     and_then (map_err PSS_Production (prod_validate_sha256 (car_receipt_digest r))) (\<lambda>_.
     and_then (ensure (car_allowlist_revision r \<noteq> 0) PSS_InvalidTrustAllowlistRevision) (\<lambda>_.
     and_then (ensure (car_authorized_at_epoch_s r \<noteq> 0) (PSS_Identity SI_InvalidAuthorizationTime)) (\<lambda>_.
     and_then (blank_field_digest (pe_hasher (sv_production S)) PSS_Json PSS_InvalidCanonicalObject PSS_Hashing
       ''receipt_digest'' (sv_authorization_value S r)) (\<lambda>digest.
     ensure (car_receipt_digest r = digest) (PSS_Identity SI_AuthorizationReceiptDigestMismatch)))))))))))"

definition validate_authorization_response_binding ::
    "service_env \<Rightarrow> caller_authorization_receipt \<Rightarrow> production_signer_envelope \<Rightarrow> production_key_policy \<Rightarrow>
     production_service_error + unit" where
  "validate_authorization_response_binding S r envelope policy =
     and_then (map_err PSS_Protocol (request_digest_for (sv_protocol S) (qe_request envelope) policy)) (\<lambda>digest.
     ensure (\<not> (digest \<noteq> car_request_digest r
         \<or> bnd_caller_identity_digest (qe_binding envelope) \<noteq> car_caller_identity_digest r
         \<or> bnd_signer_service_identity_digest (qe_binding envelope) \<noteq> car_signer_service_identity_digest r))
       PSS_AuthorizationResponseBindingMismatch)"

definition trust_validate_for ::
    "production_signer_trust_snapshot \<Rightarrow> production_key_policy \<Rightarrow> production_service_error + unit" where
  "trust_validate_for trust policy =
     and_then (map_err PSS_Production (policy_validate policy)) (\<lambda>_.
     and_then (map_err PSS_Production (identity_validate (tsn_identity trust))) (\<lambda>_.
     and_then (ensure (tsn_identity trust = kp_identity policy) PSS_TrustIdentityMismatch) (\<lambda>_.
     and_then (map_err PSS_Production (prod_validate_sha256 (tsn_public_key_digest trust))) (\<lambda>_.
     and_then (map_err PSS_Production (prod_validate_sha256 (tsn_allowlist_digest trust))) (\<lambda>_.
     and_then (map_err PSS_Production (prod_validate_sha256 (tsn_caller_identity_digest trust))) (\<lambda>_.
     and_then (map_err PSS_Production (prod_validate_sha256 (tsn_signer_service_identity_digest trust))) (\<lambda>_.
     ensure (tsn_allowlist_revision trust \<noteq> 0) PSS_InvalidTrustAllowlistRevision)))))))"

definition governed_trust_validate_for ::
    "service_env \<Rightarrow> governed_signer_trust_snapshot \<Rightarrow> production_key_policy \<Rightarrow> production_key_registry \<Rightarrow> u64 \<Rightarrow>
     production_service_error + unit" where
  "governed_trust_validate_for S trust policy registry signed_at =
     and_then (trust_validate_for (gts_signer trust) policy) (\<lambda>_.
     and_then (map_err PSS_Governance (trust_binding_validate_shape (gts_key trust))) (\<lambda>_.
     and_then (ensure (\<not> (tb_identity (gts_key trust) \<noteq> tsn_identity (gts_signer trust)
         \<or> tb_identity (gts_key trust) \<noteq> kp_identity policy)) PSS_TrustIdentityMismatch) (\<lambda>_.
     and_then (ensure (tb_public_key_digest (gts_key trust) = tsn_public_key_digest (gts_signer trust))
       PSS_TrustPublicKeyDigestMismatch) (\<lambda>_.
     and_then (map_err PSS_Governance (verify_binding (sv_keys S) registry (gts_key trust) signed_at)) (\<lambda>r.
     ensure (kr_public_key_digest r = tsn_public_key_digest (gts_signer trust)) PSS_TrustPublicKeyDigestMismatch)))))"

section \<open>Packages\<close>

definition package_verify ::
    "service_env \<Rightarrow> authorized_signer_package \<Rightarrow> authenticated_caller_identity \<Rightarrow> signer_service_identity \<Rightarrow>
     signer_caller_allowlist \<Rightarrow> production_service_error + unit" where
  "package_verify S package caller service allowlist =
     and_then (response_identity (apk_signer_response package)) (\<lambda>i.
     and_then (policy_for_identity i) (\<lambda>policy.
     and_then (map_err PSS_Identity (authorization_validate (sv_identity S) (apk_caller_authorization package)
       caller service allowlist)) (\<lambda>_.
     and_then (map_err PSS_Protocol (verify_production_eligible (sv_protocol S) (apk_signer_response package) policy)) (\<lambda>envelope.
     and_then (validate_authorization_response_binding S (apk_caller_authorization package) envelope policy) (\<lambda>_.
     Inr ())))))"

definition verify_trusted ::
    "service_env \<Rightarrow> authorized_signer_package \<Rightarrow> production_signer_trust_snapshot \<Rightarrow>
     production_service_error + production_signer_envelope" where
  "verify_trusted S package trust =
     and_then (response_identity (apk_signer_response package)) (\<lambda>i.
     and_then (policy_for_identity i) (\<lambda>policy.
     and_then (trust_validate_for trust policy) (\<lambda>_.
     and_then (validate_authorization_receipt_seal S (apk_caller_authorization package)) (\<lambda>_.
     and_then (ensure (i = tsn_identity trust) PSS_TrustIdentityMismatch) (\<lambda>_.
     and_then (response_descriptor (apk_signer_response package)) (\<lambda>d.
     and_then (ensure (hd_public_key_digest d = tsn_public_key_digest trust) PSS_TrustPublicKeyDigestMismatch) (\<lambda>_.
     and_then (ensure (\<not> (car_allowlist_revision (apk_caller_authorization package) \<noteq> tsn_allowlist_revision trust
         \<or> car_allowlist_digest (apk_caller_authorization package) \<noteq> tsn_allowlist_digest trust))
       PSS_TrustAllowlistMismatch) (\<lambda>_.
     and_then (ensure (car_caller_identity_digest (apk_caller_authorization package) = tsn_caller_identity_digest trust)
       PSS_TrustCallerIdentityMismatch) (\<lambda>_.
     and_then (ensure (car_signer_service_identity_digest (apk_caller_authorization package)
         = tsn_signer_service_identity_digest trust) PSS_TrustServiceIdentityMismatch) (\<lambda>_.
     and_then (map_err PSS_Protocol (verify_production_eligible (sv_protocol S) (apk_signer_response package) policy)) (\<lambda>envelope.
     and_then (validate_authorization_response_binding S (apk_caller_authorization package) envelope policy) (\<lambda>_.
     and_then (ensure (bnd_caller_identity_digest (qe_binding envelope) = tsn_caller_identity_digest trust)
       PSS_TrustCallerIdentityMismatch) (\<lambda>_.
     and_then (ensure (bnd_signer_service_identity_digest (qe_binding envelope) = tsn_signer_service_identity_digest trust)
       PSS_TrustServiceIdentityMismatch) (\<lambda>_.
     Inr envelope))))))))))))))"

definition verify_governed ::
    "service_env \<Rightarrow> authorized_signer_package \<Rightarrow> governed_signer_trust_snapshot \<Rightarrow> production_key_registry \<Rightarrow> u64 \<Rightarrow>
     production_service_error + production_signer_envelope" where
  "verify_governed S package trust registry signed_at =
     and_then (verify_trusted S package (gts_signer trust)) (\<lambda>envelope.
     and_then (policy_for_identity (qr_identity (qe_request envelope))) (\<lambda>policy.
     and_then (governed_trust_validate_for S trust policy registry signed_at) (\<lambda>_.
     and_then (response_descriptor (apk_signer_response package)) (\<lambda>d.
     and_then (ensure (hd_public_key_digest d = tb_public_key_digest (gts_key trust)) PSS_TrustPublicKeyDigestMismatch) (\<lambda>_.
     Inr envelope)))))"

section \<open>The service\<close>

definition service_new ::
    "service_env \<Rightarrow> signer_service_identity \<Rightarrow> signer_caller_allowlist \<Rightarrow> production_service_error + production_signer_service" where
  "service_new S identity allowlist =
     and_then (map_err PSS_Production (service_validate identity)) (\<lambda>_.
     and_then (map_err PSS_Identity (allowlist_validate (sv_identity S) allowlist)) (\<lambda>_.
     Inr \<lparr>pss_service_identity = identity, pss_allowlist = allowlist, pss_identity_authorizer = authorizer_default\<rparr>))"

text \<open>What the handler does once the caller is authorized.\<close>

definition handle_authorized ::
    "service_env \<Rightarrow> signer_backend \<Rightarrow> production_signer_service \<Rightarrow> production_signer_request \<Rightarrow>
     authenticated_caller_identity \<Rightarrow> u64 \<Rightarrow> string option \<Rightarrow> production_key_policy \<Rightarrow> string \<Rightarrow>
     caller_authorization_receipt \<Rightarrow> production_service_error + authorized_signer_package" where
  "handle_authorized S B svc request caller generation trust_state_binding_digest policy request_digest authorization =
     and_then (map_err PSS_Production (case trust_state_binding_digest of
         Some digest \<Rightarrow> binding_build_with_trust_state (sv_production S) request_digest caller (pss_service_identity svc) policy digest
       | None \<Rightarrow> binding_build (sv_production S) request_digest caller (pss_service_identity svc) policy)) (\<lambda>binding.
     and_then (map_err PSS_Protocol (request_envelope (sv_protocol S) request policy binding)) (\<lambda>envelope.
     and_then (map_err PSS_Protocol (envelope_digest_for (sv_protocol S) envelope policy)) (\<lambda>envelope_digest.
     and_then (map_err PSS_Backend (be_descriptor_for_generation B policy generation)) (\<lambda>d.
     and_then (map_err PSS_Production (descriptor_validate_for (sv_production S) d policy)) (\<lambda>_.
     and_then (map_err PSS_Backend (be_sign_sha256_digest_for_generation B policy generation d binding envelope_digest)) (\<lambda>signature.
     and_then (map_err PSS_Production (signature_validate_for (sv_production S) signature d binding)) (\<lambda>_.
     let response = prod_response_success (qr_request_id request) \<lparr>qs_descriptor = d, qs_envelope = envelope,
       qs_envelope_digest = envelope_digest, qs_signature = signature\<rparr> in
     and_then (map_err PSS_Protocol (verify_production_eligible (sv_protocol S) response policy)) (\<lambda>_.
     let package = \<lparr>apk_caller_authorization = authorization, apk_signer_response = response\<rparr> in
     and_then (package_verify S package caller (pss_service_identity svc) (pss_allowlist svc)) (\<lambda>_.
     Inr package)))))))))"

definition handle_with_trust_state ::
    "service_env \<Rightarrow> signer_backend \<Rightarrow> production_signer_service \<Rightarrow> production_signer_request \<Rightarrow>
     authenticated_caller_identity \<Rightarrow> u64 \<Rightarrow> u64 \<Rightarrow> string option \<Rightarrow>
     (production_service_error + authorized_signer_package) \<times> production_signer_service" where
  "handle_with_trust_state S B svc request caller trusted_now generation trust_state_binding_digest =
     (case and_then (ensure (generation \<noteq> 0) PSS_InvalidKeyGeneration) (\<lambda>_.
           and_then (policy_for_identity (qr_identity request)) (\<lambda>policy.
           and_then (map_err PSS_Protocol (request_validate_for (sv_protocol S) request policy)) (\<lambda>_.
           and_then (map_err PSS_Protocol (request_digest_for (sv_protocol S) request policy)) (\<lambda>request_digest.
           Inr (policy, request_digest))))) of
        Inl e \<Rightarrow> (Inl e, svc)
      | Inr (policy, request_digest) \<Rightarrow>
          case caller_authorize (sv_identity S) (pss_identity_authorizer svc) caller (pss_service_identity svc)
              (pss_allowlist svc) request_digest trusted_now of
            (Inl e, authorizer) \<Rightarrow> (Inl (PSS_Identity e), svc\<lparr>pss_identity_authorizer := authorizer\<rparr>)
          | (Inr authorization, authorizer) \<Rightarrow>
              (handle_authorized S B svc request caller generation trust_state_binding_digest policy request_digest authorization,
               svc\<lparr>pss_identity_authorizer := authorizer\<rparr>))"

definition handle_authenticated_generation ::
    "service_env \<Rightarrow> signer_backend \<Rightarrow> production_signer_service \<Rightarrow> production_signer_request \<Rightarrow>
     authenticated_caller_identity \<Rightarrow> u64 \<Rightarrow> u64 \<Rightarrow>
     (production_service_error + authorized_signer_package) \<times> production_signer_service" where
  "handle_authenticated_generation S B svc request caller trusted_now generation =
     handle_with_trust_state S B svc request caller trusted_now generation None"

definition handle_authenticated ::
    "service_env \<Rightarrow> signer_backend \<Rightarrow> production_signer_service \<Rightarrow> production_signer_request \<Rightarrow>
     authenticated_caller_identity \<Rightarrow> u64 \<Rightarrow>
     (production_service_error + authorized_signer_package) \<times> production_signer_service" where
  "handle_authenticated S B svc request caller trusted_now =
     handle_authenticated_generation S B svc request caller trusted_now 1"

definition validate_backend_generation ::
    "service_env \<Rightarrow> signer_backend \<Rightarrow> production_key_identity \<Rightarrow> u64 \<Rightarrow> production_service_error + hardware_key_descriptor" where
  "validate_backend_generation S B i generation =
     and_then (ensure (generation \<noteq> 0) PSS_InvalidKeyGeneration) (\<lambda>_.
     and_then (policy_for_identity i) (\<lambda>policy.
     and_then (map_err PSS_Backend (be_descriptor_for_generation B policy generation)) (\<lambda>d.
     and_then (map_err PSS_Production (descriptor_validate_for (sv_production S) d policy)) (\<lambda>_.
     Inr d))))"

section \<open>What the checks establish\<close>

lemma sv_sel [simp]:
  "pq_production (sv_protocol S) = sv_production S" "pq_p256 (sv_protocol S) = sv_p256 S" "pq_base64 (sv_protocol S) = sv_base64 S"
  "iv_production (sv_identity S) = sv_production S" "kv_production (sv_keys S) = sv_production S"
  "iv_authorization_value (sv_identity S) = sv_authorization_value S"
  by (simp_all add: sv_protocol_def sv_identity_def sv_keys_def)

lemma policy_for_identity_ok [result_simps]:
  "policy_for_identity i = Inr p \<longleftrightarrow> identity_validate i = Inr () \<and> p = policy_for i"
  by (auto simp: policy_for_identity_def result_simps policy_capability_def policy_attestation_def
      identity_capability_def identity_attestation_def)

lemma kp_identity_policy_for [simp]: "kp_identity (policy_for i) = i"
  by (simp add: policy_for_def)

lemma response_descriptor_ok [result_simps]:
  "response_descriptor response = Inr d \<longleftrightarrow> (\<exists>id result. response = QR_Success id result \<and> d = qs_descriptor result)"
  by (cases response) (auto simp: response_descriptor_def)

lemma authorization_response_binding_ok:
  "validate_authorization_response_binding S r envelope policy = Inr u \<longleftrightarrow>
     request_digest_for (sv_protocol S) (qe_request envelope) policy = Inr (car_request_digest r) \<and>
     bnd_caller_identity_digest (qe_binding envelope) = car_caller_identity_digest r \<and>
     bnd_signer_service_identity_digest (qe_binding envelope) = car_signer_service_identity_digest r"
  by (auto simp: validate_authorization_response_binding_def result_simps)

lemma authorization_digest_ok:
  "blank_field_digest (pe_hasher (sv_production S)) PSS_Json PSS_InvalidCanonicalObject PSS_Hashing ''receipt_digest''
     (sv_authorization_value S r) = Inr dg \<longleftrightarrow> authorization_expected_digest (sv_identity S) r = Inr dg"
  by (auto simp: authorization_expected_digest_def blank_field_digest_def result_simps split: json.splits)

lemma authorization_seal_ok:
  "validate_authorization_receipt_seal S r = Inr u \<longleftrightarrow>
     car_schema_version r = CALLER_AUTHORIZATION_RECEIPT_SCHEMA \<and> is_identifier (car_caller_id r) \<and>
     is_sha256 (car_request_digest r) \<and> is_sha256 (car_caller_identity_digest r) \<and>
     is_sha256 (car_signer_service_identity_digest r) \<and> is_sha256 (car_allowlist_digest r) \<and>
     is_sha256 (car_receipt_digest r) \<and> car_allowlist_revision r \<noteq> 0 \<and> car_authorized_at_epoch_s r \<noteq> 0 \<and>
     authorization_expected_digest (sv_identity S) r = Inr (car_receipt_digest r)"
  unfolding validate_authorization_receipt_seal_def authorization_digest_ok and_then_eq_Inr
  by (auto simp: ensure_eq map_err_eq prod_validate_sha256_ok prod_validate_identifier_ok)

lemma authorization_validate_ok:
  assumes "authorization_validate V r caller service allowlist = Inr u"
  shows "car_schema_version r = CALLER_AUTHORIZATION_RECEIPT_SCHEMA" "is_identifier (car_caller_id r)"
    "is_sha256 (car_request_digest r)" "is_sha256 (car_caller_identity_digest r)"
    "is_sha256 (car_signer_service_identity_digest r)" "is_sha256 (car_allowlist_digest r)"
    "car_authorized_at_epoch_s r \<noteq> 0" "allowlist_validate V allowlist = Inr ()"
    "caller_digest (iv_production V) caller = Inr (car_caller_identity_digest r)"
    "service_digest (iv_production V) service = Inr (car_signer_service_identity_digest r)"
    "car_allowlist_revision r = alw_revision allowlist" "car_allowlist_digest r = alw_allowlist_digest allowlist"
    "authorization_expected_digest V r = Inr (car_receipt_digest r)"
  using assms unfolding authorization_validate_def
  by (auto simp: and_then_eq_Inr ensure_eq map_err_eq prod_validate_sha256_ok prod_validate_identifier_ok)

lemma trust_validate_for_ok:
  "trust_validate_for trust policy = Inr u \<longleftrightarrow>
     policy_validate policy = Inr () \<and> tsn_identity trust = kp_identity policy \<and>
     is_sha256 (tsn_public_key_digest trust) \<and> is_sha256 (tsn_allowlist_digest trust) \<and>
     is_sha256 (tsn_caller_identity_digest trust) \<and> is_sha256 (tsn_signer_service_identity_digest trust) \<and>
     tsn_allowlist_revision trust \<noteq> 0"
  by (auto simp: trust_validate_for_def result_simps)

text \<open>When a package is trusted: its parts agree with the trust snapshot and with each other.\<close>

lemma verify_trusted_iff:
  "verify_trusted S package trust = Inr envelope \<longleftrightarrow>
     (\<exists>id result. apk_signer_response package = QR_Success id result \<and>
        hd_identity (qs_descriptor result) = tsn_identity trust \<and>
        hd_public_key_digest (qs_descriptor result) = tsn_public_key_digest trust \<and>
        trust_validate_for trust (policy_for (tsn_identity trust)) = Inr () \<and>
        validate_authorization_receipt_seal S (apk_caller_authorization package) = Inr () \<and>
        car_allowlist_revision (apk_caller_authorization package) = tsn_allowlist_revision trust \<and>
        car_allowlist_digest (apk_caller_authorization package) = tsn_allowlist_digest trust \<and>
        car_caller_identity_digest (apk_caller_authorization package) = tsn_caller_identity_digest trust \<and>
        car_signer_service_identity_digest (apk_caller_authorization package) = tsn_signer_service_identity_digest trust \<and>
        verify_production_eligible (sv_protocol S) (apk_signer_response package) (policy_for (tsn_identity trust)) = Inr envelope \<and>
        validate_authorization_response_binding S (apk_caller_authorization package) envelope
          (policy_for (tsn_identity trust)) = Inr ())"
  (is "?l \<longleftrightarrow> ?r")
proof
  assume ?l
  then show ?r unfolding verify_trusted_def response_identity_def and_then_eq_Inr
    by (auto simp: ensure_eq map_err_eq policy_for_identity_ok response_descriptor_ok)
next
  assume ?r
  then obtain id result where r: "apk_signer_response package = QR_Success id result"
    "hd_identity (qs_descriptor result) = tsn_identity trust"
    "trust_validate_for trust (policy_for (tsn_identity trust)) = Inr ()" by blast
  then have i: "identity_validate (tsn_identity trust) = Inr ()" by (simp add: trust_validate_for_ok policy_validate_ok)
  then have "policy_for_identity (tsn_identity trust) = Inr (policy_for (tsn_identity trust))"
    by (simp add: policy_for_identity_ok)
  moreover from \<open>?r\<close> have "bnd_caller_identity_digest (qe_binding envelope) = car_caller_identity_digest (apk_caller_authorization package)"
    "bnd_signer_service_identity_digest (qe_binding envelope) = car_signer_service_identity_digest (apk_caller_authorization package)"
    by (auto simp: authorization_response_binding_ok)
  ultimately show ?l using \<open>?r\<close> r
    by (auto simp: verify_trusted_def response_identity_def response_descriptor_def)
qed

lemma governed_trust_validate_for_ok:
  "governed_trust_validate_for S trust policy registry t = Inr u \<longleftrightarrow>
     trust_validate_for (gts_signer trust) policy = Inr () \<and>
     tb_identity (gts_key trust) = tsn_identity (gts_signer trust) \<and>
     tb_public_key_digest (gts_key trust) = tsn_public_key_digest (gts_signer trust) \<and>
     (\<exists>r. verify_binding (sv_keys S) registry (gts_key trust) t = Inr r)"
proof -
  have shape: "trust_binding_validate_shape b = Inr ()" "kr_public_key_digest r = tb_public_key_digest b"
    if "verify_binding (sv_keys S) registry b t = Inr r" for b r
    using that by (auto simp: verify_binding_def result_simps)
  show ?thesis
    unfolding governed_trust_validate_for_def and_then_eq_Inr
    by (auto simp: ensure_eq map_err_eq shape trust_validate_for_ok)
qed

lemma verify_governed_iff:
  "verify_governed S package trust registry t = Inr envelope \<longleftrightarrow>
     verify_trusted S package (gts_signer trust) = Inr envelope \<and>
     tb_identity (gts_key trust) = tsn_identity (gts_signer trust) \<and>
     tb_public_key_digest (gts_key trust) = tsn_public_key_digest (gts_signer trust) \<and>
     (\<exists>r. verify_binding (sv_keys S) registry (gts_key trust) t = Inr r)"
proof (cases "verify_trusted S package (gts_signer trust) = Inr envelope")
  case True
  then obtain id result where r: "apk_signer_response package = QR_Success id result"
    "hd_public_key_digest (qs_descriptor result) = tsn_public_key_digest (gts_signer trust)"
    and tv: "trust_validate_for (gts_signer trust) (policy_for (tsn_identity (gts_signer trust))) = Inr ()"
    and e: "verify_production_eligible (sv_protocol S) (apk_signer_response package)
      (policy_for (tsn_identity (gts_signer trust))) = Inr envelope"
    unfolding verify_trusted_iff by blast
  from e have "verify_cryptographic (sv_protocol S) (apk_signer_response package)
      (policy_for (tsn_identity (gts_signer trust))) = Inr envelope" by (simp add: verify_production_eligible_ok)
  then have "envelope_validate_for (sv_protocol S) envelope (policy_for (tsn_identity (gts_signer trust))) = Inr ()"
    using verify_cryptographic_ok by blast
  then have id: "qr_identity (qe_request envelope) = tsn_identity (gts_signer trust)"
    by (metis envelope_validate_for_ok(1) kp_identity_policy_for request_validate_for_ok(2))
  have "policy_for_identity (tsn_identity (gts_signer trust)) = Inr (policy_for (tsn_identity (gts_signer trust)))"
    using tv by (simp add: trust_validate_for_ok policy_validate_ok policy_for_identity_ok)
  with True r tv show ?thesis
    by (auto simp: verify_governed_def id response_descriptor_def and_then_eq_Inr ensure_eq governed_trust_validate_for_ok)
qed (auto simp: verify_governed_def and_then_eq_Inr)


section \<open>Handling a request\<close>

lemma handle_ok:
  assumes "handle_with_trust_state S B svc request caller now g tsd = (Inr package, svc')"
  obtains rd authorization authorizer where
    "identity_validate (qr_identity request) = Inr ()" "g \<noteq> 0"
    "request_digest_for (sv_protocol S) request (policy_for (qr_identity request)) = Inr rd"
    "caller_authorize (sv_identity S) (pss_identity_authorizer svc) caller (pss_service_identity svc)
      (pss_allowlist svc) rd now = (Inr authorization, authorizer)"
    "svc' = svc\<lparr>pss_identity_authorizer := authorizer\<rparr>"
    "handle_authorized S B svc request caller g tsd (policy_for (qr_identity request)) rd authorization = Inr package"
proof -
  from assms obtain rd where pre: "identity_validate (qr_identity request) = Inr ()" "g \<noteq> 0"
    "request_digest_for (sv_protocol S) request (policy_for (qr_identity request)) = Inr rd"
    and rest: "(case caller_authorize (sv_identity S) (pss_identity_authorizer svc) caller (pss_service_identity svc)
              (pss_allowlist svc) rd now of
            (Inl e, authorizer) \<Rightarrow> (Inl (PSS_Identity e), svc\<lparr>pss_identity_authorizer := authorizer\<rparr>)
          | (Inr authorization, authorizer) \<Rightarrow>
              (handle_authorized S B svc request caller g tsd (policy_for (qr_identity request)) rd authorization,
               svc\<lparr>pss_identity_authorizer := authorizer\<rparr>)) = (Inr package, svc')"
    unfolding handle_with_trust_state_def
    by (auto simp: and_then_eq_Inr ensure_eq map_err_eq policy_for_identity_ok split: sum.splits)
  obtain outcome authorizer where out: "caller_authorize (sv_identity S) (pss_identity_authorizer svc) caller
    (pss_service_identity svc) (pss_allowlist svc) rd now = (outcome, authorizer)" by fastforce
  show thesis
  proof (cases outcome)
    case (Inr authorization)
    show thesis by (rule that [OF pre]) (use out rest in \<open>auto simp: Inr\<close>)
  qed (use out rest in simp)
qed

lemma handle_authorized_ok:
  assumes "handle_authorized S B svc request caller g tsd policy rd authorization = Inr package"
  obtains b result where
    "apk_caller_authorization package = authorization"
    "apk_signer_response package = QR_Success (qr_request_id request) result"
    "qe_request (qs_envelope result) = request" "qe_binding (qs_envelope result) = b"
    "bnd_trust_state_binding_digest b = tsd" "bnd_request_digest b = rd"
    "be_descriptor_for_generation B policy g = Inr (qs_descriptor result)"
    "verify_production_eligible (sv_protocol S) (apk_signer_response package) policy = Inr (qs_envelope result)"
    "package_verify S package caller (pss_service_identity svc) (pss_allowlist svc) = Inr ()"
proof -
  let ?r = "\<lambda>d e dg s. QR_Success (qr_request_id request) \<lparr>qs_descriptor = d, qs_envelope = e, qs_envelope_digest = dg, qs_signature = s\<rparr>"
  from assms obtain b e dg d s where b: "(case tsd of
         Some digest \<Rightarrow> binding_build_with_trust_state (sv_production S) rd caller (pss_service_identity svc) policy digest
       | None \<Rightarrow> binding_build (sv_production S) rd caller (pss_service_identity svc) policy) = Inr b"
    and e: "request_envelope (sv_protocol S) request policy b = Inr e"
    and d: "be_descriptor_for_generation B policy g = Inr d"
    and v: "\<exists>x. verify_production_eligible (sv_protocol S) (?r d e dg s) policy = Inr x"
    and p: "package = \<lparr>apk_caller_authorization = authorization, apk_signer_response = ?r d e dg s\<rparr>"
      "package_verify S package caller (pss_service_identity svc) (pss_allowlist svc) = Inr ()"
    unfolding handle_authorized_def prod_response_success_def Let_def by (auto simp: and_then_eq_Inr ensure_eq map_err_eq)
  from v obtain x where x: "verify_production_eligible (sv_protocol S) (?r d e dg s) policy = Inr x" by blast
  then have "verify_cryptographic (sv_protocol S) (?r d e dg s) policy = Inr x" by (simp add: verify_production_eligible_ok)
  from verify_cryptographic_ok [OF this] have "x = e" by auto
  have "bnd_trust_state_binding_digest b = tsd" "bnd_request_digest b = rd"
    using b binding_build_ok binding_build_with_trust_state_ok by (auto split: option.splits)
  then show thesis
    using that [of "\<lparr>qs_descriptor = d, qs_envelope = e, qs_envelope_digest = dg, qs_signature = s\<rparr>" b]
      request_envelope_ok(2,3) [OF e] d x p \<open>x = e\<close> by simp
qed

text \<open>The trust snapshot that describes a service, a caller and a hardware key.\<close>

definition trust_snapshot_of ::
    "production_signer_service \<Rightarrow> string \<Rightarrow> string \<Rightarrow> hardware_key_descriptor \<Rightarrow> production_signer_trust_snapshot" where
  "trust_snapshot_of svc caller_identity_digest signer_service_identity_digest d = \<lparr>
     tsn_identity = hd_identity d, tsn_public_key_digest = hd_public_key_digest d,
     tsn_allowlist_revision = alw_revision (pss_allowlist svc),
     tsn_allowlist_digest = alw_allowlist_digest (pss_allowlist svc),
     tsn_caller_identity_digest = caller_identity_digest,
     tsn_signer_service_identity_digest = signer_service_identity_digest\<rparr>"

lemma handled_package_trusted:
  assumes lawful: "identity_lawful (sv_identity S)"
    and handle: "handle_with_trust_state S B svc request caller now g tsd = (Inr package, svc')"
  obtains result cd sd where "apk_signer_response package = QR_Success (qr_request_id request) result"
    "caller_digest (sv_production S) caller = Inr cd" "service_digest (sv_production S) (pss_service_identity svc) = Inr sd"
    "be_descriptor_for_generation B (policy_for (qr_identity request)) g = Inr (qs_descriptor result)"
    "qe_request (qs_envelope result) = request" "bnd_trust_state_binding_digest (qe_binding (qs_envelope result)) = tsd"
    "hd_identity (qs_descriptor result) = qr_identity request"
    "verify_trusted S package (trust_snapshot_of svc cd sd (qs_descriptor result)) = Inr (qs_envelope result)"
proof (rule handle_ok [OF handle])
  fix rd authorization authorizer
  let ?p = "policy_for (qr_identity request)"
  assume rd: "request_digest_for (sv_protocol S) request ?p = Inr rd"
    and auth: "caller_authorize (sv_identity S) (pss_identity_authorizer svc) caller (pss_service_identity svc)
      (pss_allowlist svc) rd now = (Inr authorization, authorizer)"
    and h: "handle_authorized S B svc request caller g tsd ?p rd authorization = Inr package"
  note a = caller_authorize_ok [OF auth] and va = authorization_validate_ok [OF authorized_receipt_validates(1) [OF lawful auth]]
  from h show ?thesis
  proof (rule handle_authorized_ok)
    fix b result
    assume p: "apk_caller_authorization package = authorization"
      "apk_signer_response package = QR_Success (qr_request_id request) result"
      and e: "qe_request (qs_envelope result) = request" "qe_binding (qs_envelope result) = b" "bnd_trust_state_binding_digest b = tsd"
      and d: "be_descriptor_for_generation B ?p g = Inr (qs_descriptor result)"
      and v: "verify_production_eligible (sv_protocol S) (apk_signer_response package) ?p = Inr (qs_envelope result)"
      and pv: "package_verify S package caller (pss_service_identity svc) (pss_allowlist svc) = Inr ()"
    from v p(2) have dv: "descriptor_validate_for (sv_production S) (qs_descriptor result) ?p = Inr ()"
      by (auto simp: verify_production_eligible_ok)
    note dd = descriptor_validate_for_ok [OF dv]
    have id: "hd_identity (qs_descriptor result) = qr_identity request" using dd(2) by simp
    from pv p id have rb: "\<exists>e. verify_production_eligible (sv_protocol S) (apk_signer_response package) ?p = Inr e \<and>
        validate_authorization_response_binding S authorization e ?p = Inr ()"
      by (auto simp: package_verify_def and_then_eq_Inr map_err_eq response_identity_def response_descriptor_def policy_for_identity_ok)
    let ?t = "trust_snapshot_of svc (car_caller_identity_digest authorization)
      (car_signer_service_identity_digest authorization) (qs_descriptor result)"
    have "trust_validate_for ?t ?p = Inr ()"
      using dd(1,8) id a(9,10) va(4,5,6,8,11,12) by (simp add: trust_validate_for_ok trust_snapshot_of_def allowlist_validate_ok)
    moreover have "validate_authorization_receipt_seal S authorization = Inr ()"
      using va authorized_receipt_validates(2) [OF lawful auth] by (simp add: authorization_seal_ok allowlist_validate_ok)
    ultimately have "verify_trusted S package ?t = Inr (qs_envelope result)"
      unfolding verify_trusted_iff using p id v rb a(9,10) by (auto simp: trust_snapshot_of_def)
    then show ?thesis using that [of result] p(2) a(6,7) d e id by auto
  qed
qed

text \<open>What a governed package rests on: a live record of the registry whose key made the signature.\<close>

text \<open>
  A sealed authorization receipt of the caller, under the allowlist and for the caller and
  the service of a trust snapshot.
\<close>

definition authorization_sealed :: "service_env \<Rightarrow> caller_authorization_receipt \<Rightarrow> production_signer_trust_snapshot \<Rightarrow> bool" where
  "authorization_sealed S r trust \<longleftrightarrow>
     authorization_expected_digest (sv_identity S) r = Inr (car_receipt_digest r) \<and> car_authorized_at_epoch_s r \<noteq> 0 \<and>
     car_allowlist_revision r = tsn_allowlist_revision trust \<and> car_allowlist_digest r = tsn_allowlist_digest trust \<and>
     car_caller_identity_digest r = tsn_caller_identity_digest trust \<and>
     car_signer_service_identity_digest r = tsn_signer_service_identity_digest trust"

lemma verify_governed_ok:
  assumes "verify_governed S package trust reg t = Inr envelope"
  obtains result g r where
    "apk_signer_response package = QR_Success (qr_request_id (qe_request envelope)) result"
    "qs_envelope result = envelope" "signed_by_descriptor (sv_protocol S) result"
    "tsn_identity (gts_signer trust) = qr_identity (qe_request envelope)"
    "prod_resolve (sv_keys S) reg (qr_identity (qe_request envelope)) g t = Inr r"
    "hd_public_key_digest (qs_descriptor result) = kr_public_key_digest r"
    "hd_assurance (qs_descriptor result) = ProvenHardwareBacked"
    "request_digest_for (sv_protocol S) (qe_request envelope) (policy_for (qr_identity (qe_request envelope))) =
       Inr (car_request_digest (apk_caller_authorization package))"
    "bnd_caller_identity_digest (qe_binding envelope) = tsn_caller_identity_digest (gts_signer trust)"
    "bnd_signer_service_identity_digest (qe_binding envelope) = tsn_signer_service_identity_digest (gts_signer trust)"
    "envelope_digest_for (sv_protocol S) envelope (policy_for (qr_identity (qe_request envelope))) = Inr (qs_envelope_digest result)"
    "authorization_sealed S (apk_caller_authorization package) (gts_signer trust)"
proof -
  from assms have tr: "verify_trusted S package (gts_signer trust) = Inr envelope"
    and tb: "tb_identity (gts_key trust) = tsn_identity (gts_signer trust)"
      "tb_public_key_digest (gts_key trust) = tsn_public_key_digest (gts_signer trust)"
    and "\<exists>r. verify_binding (sv_keys S) reg (gts_key trust) t = Inr r"
    unfolding verify_governed_iff by simp_all
  then obtain r where r: "prod_resolve (sv_keys S) reg (tb_identity (gts_key trust)) (tb_generation (gts_key trust)) t = Inr r"
    "kr_public_key_digest r = tb_public_key_digest (gts_key trust)"
    by (auto simp: verify_binding_def result_simps)
  let ?p = "policy_for (tsn_identity (gts_signer trust))"
  from tr obtain id result where p: "apk_signer_response package = QR_Success id result"
    "hd_public_key_digest (qs_descriptor result) = tsn_public_key_digest (gts_signer trust)"
    and e: "verify_production_eligible (sv_protocol S) (apk_signer_response package) ?p = Inr envelope"
    and b: "validate_authorization_response_binding S (apk_caller_authorization package) envelope ?p = Inr ()"
    and c: "car_caller_identity_digest (apk_caller_authorization package) = tsn_caller_identity_digest (gts_signer trust)"
      "car_signer_service_identity_digest (apk_caller_authorization package) = tsn_signer_service_identity_digest (gts_signer trust)"
    and sealed: "authorization_sealed S (apk_caller_authorization package) (gts_signer trust)"
    unfolding verify_trusted_iff authorization_sealed_def authorization_seal_ok by blast
  from e p have dv: "descriptor_validate_for (sv_production S) (qs_descriptor result) ?p = Inr ()"
    and "verify_cryptographic (sv_protocol S) (apk_signer_response package) ?p = Inr envelope"
    by (auto simp: verify_production_eligible_ok)
  from verify_cryptographic_ok [OF this(2)] p(1)
  have s: "id = qr_request_id (qe_request envelope)" "qs_envelope result = envelope" "signed_by_descriptor (sv_protocol S) result"
    and ev: "envelope_validate_for (sv_protocol S) envelope ?p = Inr ()"
      "envelope_digest_for (sv_protocol S) envelope ?p = Inr (qs_envelope_digest result)" by auto
  have i: "tsn_identity (gts_signer trust) = qr_identity (qe_request envelope)"
    using request_validate_for_ok(2) [OF envelope_validate_for_ok(1) [OF ev(1)]] by simp
  show thesis
    using that [of result "tb_generation (gts_key trust)" r] p s i r tb b c ev(2) sealed descriptor_validate_for_ok(10) [OF dv]
    by (simp add: authorization_response_binding_ok)
qed

section \<open>Histories of requests\<close>

inductive service_step :: "service_env \<Rightarrow> production_signer_service \<Rightarrow> production_signer_service \<Rightarrow> bool"
  for S where
  handle: "service_step S svc (snd (handle_with_trust_state S B svc request caller now g tsd))"

lemma service_step_authorizer:
  assumes "service_step S svc svc'"
  shows "(authorizer_step (sv_identity S))\<^sup>*\<^sup>* (pss_identity_authorizer svc) (pss_identity_authorizer svc')"
  using assms
proof cases
  case (handle B request caller now g tsd)
  show ?thesis
    unfolding handle handle_with_trust_state_def
    by (auto simp: r_into_rtranclp intro!: r_into_rtranclp split: sum.splits prod.splits dest: sym)
      (metis authorizer_step.intros snd_conv)+
qed

interpretation signing: state_machine "service_step S" "\<lambda>_. True" for S
  by unfold_locales simp

lemma service_steps_authorizer:
  assumes "(service_step S)\<^sup>*\<^sup>* svc svc'"
  shows "(authorizer_step (sv_identity S))\<^sup>*\<^sup>* (pss_identity_authorizer svc) (pss_identity_authorizer svc')"
  by (rule signing.steps_monotone [OF assms, where R = "\<lambda>s t. (authorizer_step (sv_identity S))\<^sup>*\<^sup>*
        (pss_identity_authorizer s) (pss_identity_authorizer t)"])
    (auto simp: reflp_def transp_def service_step_authorizer)

section \<open>Properties\<close>

text \<open>A service with one allowed caller and a backend that holds the example key.\<close>

definition demo_service_env :: service_env where
  "demo_service_env = \<lparr>sv_production = demo_production_env, sv_p256 = demo_p256, sv_base64 = demo_base64,
     sv_request_value = (\<lambda>_. Inr (JObject [])), sv_envelope_value = (\<lambda>_. Inr (JObject [])),
     sv_response_value = (\<lambda>_. Inr (JObject [])), sv_allowed_value = (\<lambda>_. Inr (JObject [])),
     sv_allowlist_value = (\<lambda>_. Inr (JObject [])), sv_contract_value = (\<lambda>_. Inr (JObject [])),
     sv_authorization_value = (\<lambda>_. Inr (JObject [])), sv_record_value = (\<lambda>_. Inr (JObject [])),
     sv_mutation_value = (\<lambda>_. Inr (JObject [])), sv_snapshot_value = (\<lambda>_. Inr (JObject []))\<rparr>"

definition demo_signature :: hardware_signature where
  "demo_signature = \<lparr>hs_identity = identity_capability, hs_algorithm = ECDSA_P256_SHA256,
     hs_signature_encoding = P1363_FIXED_64, hs_digest_algorithm = ''sha256'', hs_digest = demo_zero_digest,
     hs_signature_base64url = b64_encode demo_base64 (demo_p256_key 1 @ replicate 32 0),
     hs_public_key_digest = sha256_hex demo_prod_hasher (demo_p256_key 1), hs_key_policy_digest = demo_zero_digest,
     hs_request_binding_digest = demo_zero_digest\<rparr>"

definition demo_backend :: signer_backend where
  "demo_backend = \<lparr>be_descriptor = (\<lambda>_. Inr (demo_descriptor 1)),
     be_descriptor_for_generation = default_descriptor_for_generation (\<lambda>_. Inr (demo_descriptor 1)),
     be_sign_sha256_digest = (\<lambda>_ _ _ _. Inr demo_signature),
     be_sign_sha256_digest_for_generation = default_sign_for_generation (\<lambda>_ _ _ _. Inr demo_signature)\<rparr>"

definition demo_signer_service :: production_signer_service where
  "demo_signer_service = \<lparr>pss_service_identity = demo_service, pss_allowlist = demo_allowlist,
     pss_identity_authorizer = authorizer_default\<rparr>"

definition demo_sign_request :: production_signer_request where
  "demo_sign_request = \<lparr>qr_schema_version = PRODUCTION_SIGNER_PROTOCOL_SCHEMA, qr_request_id = ''request-1'',
     qr_identity = identity_capability, qr_digest_algorithm = PROD_DIGEST_ALGORITHM_SHA256, qr_digest = demo_zero_digest,
     qr_key_policy_digest = demo_zero_digest\<rparr>"

definition demo_tsd :: "bool \<Rightarrow> string option" where
  "demo_tsd b = (if b then Some demo_zero_digest else None)"

definition demo_binding :: "bool \<Rightarrow> signer_request_binding" where
  "demo_binding b = \<lparr>bnd_schema_version = SIGNER_REQUEST_BINDING_SCHEMA, bnd_request_digest = demo_zero_digest,
     bnd_caller_identity_digest = demo_zero_digest, bnd_signer_service_identity_digest = demo_zero_digest,
     bnd_key_policy_digest = demo_zero_digest, bnd_trust_state_binding_digest = demo_tsd b\<rparr>"

definition demo_sign_envelope :: "bool \<Rightarrow> production_signer_envelope" where
  "demo_sign_envelope b = \<lparr>qe_schema_version = PRODUCTION_SIGNER_PROTOCOL_SCHEMA, qe_domain = PRODUCTION_SIGNING_DOMAIN,
     qe_request = demo_sign_request, qe_binding = demo_binding b\<rparr>"

definition demo_success :: "bool \<Rightarrow> production_signer_success" where
  "demo_success b = \<lparr>qs_descriptor = demo_descriptor 1, qs_envelope = demo_sign_envelope b,
     qs_envelope_digest = demo_zero_digest, qs_signature = demo_signature\<rparr>"

definition demo_handled :: "bool \<Rightarrow> (production_service_error + authorized_signer_package) \<times> production_signer_service" where
  "demo_handled b = handle_with_trust_state demo_service_env demo_backend demo_signer_service demo_sign_request demo_caller 60 1 (demo_tsd b)"

lemma demo_sv_sel [simp]:
  "sv_production demo_service_env = demo_production_env" "sv_identity demo_service_env = demo_identity_env"
  "sv_keys demo_service_env = demo_keys_env"
  "pq_request_value (sv_protocol demo_service_env) r = Inr (JObject [])"
  "pq_envelope_value (sv_protocol demo_service_env) e = Inr (JObject [])"
  "sv_p256 demo_service_env = demo_p256" "sv_base64 demo_service_env = demo_base64"
  by (simp_all add: demo_service_env_def sv_identity_def sv_keys_def sv_protocol_def demo_identity_env_def demo_keys_env_def)

lemma demo_request_digest [simp]:
  "request_validate_for (sv_protocol demo_service_env) demo_sign_request (policy_for identity_capability) = Inr ()"
  "request_digest_for (sv_protocol demo_service_env) demo_sign_request (policy_for identity_capability) = Inr demo_zero_digest"
proof -
  have "is_identifier ''request-1''" by (simp add: is_identifier_def is_ascii_alphanumeric_def is_ascii_digit_def)
  then show v: "request_validate_for (sv_protocol demo_service_env) demo_sign_request (policy_for identity_capability) = Inr ()"
    by (simp add: request_validate_for_def demo_sign_request_def prod_validate_identifier_def)
  show "request_digest_for (sv_protocol demo_service_env) demo_sign_request (policy_for identity_capability) = Inr demo_zero_digest"
    by (simp add: request_digest_for_def v pq_digest_value_def)
qed

lemma demo_binding_valid [simp]: "binding_validate (demo_binding b) = Inr ()"
  by (simp add: binding_validate_def demo_binding_def demo_tsd_def)

lemma demo_binding_built [simp]:
  "(case demo_tsd b of
      Some digest \<Rightarrow> binding_build_with_trust_state demo_production_env demo_zero_digest demo_caller demo_service
        (policy_for identity_capability) digest
    | None \<Rightarrow> binding_build demo_production_env demo_zero_digest demo_caller demo_service (policy_for identity_capability)) =
   Inr (demo_binding b)"
proof -
  have plain: "binding_build demo_production_env demo_zero_digest demo_caller demo_service (policy_for identity_capability) =
      Inr (demo_binding False)"
    using demo_binding_valid [of False] by (simp add: binding_build_def demo_binding_def demo_tsd_def)
  have "(demo_binding False)\<lparr>bnd_trust_state_binding_digest := Some demo_zero_digest\<rparr> = demo_binding True"
    by (simp add: demo_binding_def demo_tsd_def)
  then show ?thesis using demo_binding_valid [of True]
    by (cases b) (simp_all add: binding_build_with_trust_state_def plain demo_tsd_def)
qed

lemma demo_envelope_valid [simp]:
  "envelope_validate_for (sv_protocol demo_service_env) (demo_sign_envelope b) (policy_for identity_capability) = Inr ()"
  by (simp add: envelope_validate_for_def demo_sign_envelope_def)
    (simp add: demo_binding_def demo_sign_request_def)

lemma demo_envelope_built [simp]:
  "request_envelope (sv_protocol demo_service_env) demo_sign_request (policy_for identity_capability) (demo_binding b) = Inr (demo_sign_envelope b)"
  "envelope_digest_for (sv_protocol demo_service_env) (demo_sign_envelope b) (policy_for identity_capability) = Inr demo_zero_digest"
  using demo_envelope_valid
  by (simp_all add: request_envelope_def envelope_digest_for_def demo_sign_envelope_def)
    (simp add: demo_binding_def demo_sign_request_def)

lemma demo_signature_valid [simp]:
  "signature_validate_for demo_production_env demo_signature (demo_descriptor 1) (demo_binding b) = Inr ()"
proof -
  have "binding_digest demo_production_env (demo_binding b) = Inr demo_zero_digest"
    by (simp add: binding_digest_def prod_digest_value_def) (simp add: demo_production_env_def)
  moreover have "b64_encode demo_base64 (demo_p256_key 1 @ replicate 32 0) \<noteq> []" by (simp add: demo_base64_def demo_p256_key_def)
  ultimately show ?thesis by (simp add: signature_validate_for_def demo_signature_def)
qed

lemma demo_public_key [simp]:
  "descriptor_public_key (sv_protocol demo_service_env) (demo_descriptor n) = Inr (demo_p256_key n)"
  by (simp add: descriptor_public_key_def) (simp add: demo_p256_key_def)

lemma demo_contract [simp]:
  "validate_descriptor_contract (sv_protocol demo_service_env) (demo_descriptor n) (policy_for identity_capability) = Inr ()"
  by (simp add: validate_descriptor_contract_def) (simp add: policy_for_def)

lemma demo_response_valid [simp]:
  "verify_production_eligible (sv_protocol demo_service_env) (QR_Success ''request-1'' (demo_success b))
     (policy_for identity_capability) = Inr (demo_sign_envelope b)"
proof -
  have d: "pq_decode_sha256 demo_zero_digest = Inr (replicate 32 0)"
    by (simp add: pq_decode_sha256_ok) (simp add: demo_zero_digest_bytes)
  have s: "decode_signature (sv_protocol demo_service_env) demo_signature = Inr (demo_p256_key 1 @ replicate 32 0)"
    by (simp add: decode_signature_def demo_signature_def PROD_DIGEST_ALGORITHM_SHA256_def) (simp add: demo_p256_def)
  have "qr_request_id (qe_request (demo_sign_envelope b)) = ''request-1''" "qe_binding (demo_sign_envelope b) = (demo_binding b)"
    "hs_digest demo_signature = demo_zero_digest"
    by (simp_all add: demo_sign_envelope_def demo_sign_request_def demo_signature_def)
  moreover have "p256_vk_from_sec1 demo_p256 k = Some k" "p256_verify_prehash demo_p256 k dg sg \<longleftrightarrow> sg = k @ dg" for k dg sg
    by (simp_all add: demo_p256_def)
  ultimately show ?thesis
    by (simp add: verify_production_eligible_def verify_cryptographic_def demo_success_def d s)
qed

lemma demo_handled_ok: "\<exists>package. fst (demo_handled b) = Inr package"
proof -
  have sel: "qr_identity demo_sign_request = identity_capability" "qr_request_id demo_sign_request = ''request-1''"
    "pss_service_identity demo_signer_service = demo_service" "pss_allowlist demo_signer_service = demo_allowlist"
    "pss_identity_authorizer demo_signer_service = authorizer_default"
    by (simp_all add: demo_sign_request_def demo_signer_service_def)
  have be: "be_descriptor_for_generation demo_backend p 1 = Inr (demo_descriptor 1)"
    "be_sign_sha256_digest_for_generation demo_backend p 1 d bnd dg = Inr demo_signature" for p d bnd dg
    by (simp_all add: demo_backend_def default_descriptor_for_generation_def default_sign_for_generation_def)
  obtain receipt st where auth: "demo_authorization = (Inr receipt, st)" using demo_authorized by (metis prod.collapse)
  note a = caller_authorize_ok [OF auth [unfolded demo_authorization_def]]
    authorized_receipt_validates [OF demo_identity_lawful auth [unfolded demo_authorization_def]]
  let ?package = "\<lparr>apk_caller_authorization = receipt, apk_signer_response = QR_Success ''request-1'' (demo_success b)\<rparr>"
  have p: "policy_for_identity identity_capability = Inr (policy_for identity_capability)"
    by (simp add: policy_for_identity_ok)
  have env: "qe_request (demo_sign_envelope b) = demo_sign_request" "qe_binding (demo_sign_envelope b) = (demo_binding b)"
    by (simp_all add: demo_sign_envelope_def)
  have "car_caller_identity_digest receipt = demo_zero_digest" "car_signer_service_identity_digest receipt = demo_zero_digest"
    using a(6,7) by (simp_all add: demo_identity_env_def)
  then have "validate_authorization_response_binding demo_service_env receipt (demo_sign_envelope b) (policy_for identity_capability) = Inr ()"
    using a(8) by (simp add: authorization_response_binding_ok env) (simp add: demo_binding_def)
  then have "package_verify demo_service_env ?package demo_caller demo_service demo_allowlist = Inr ()"
    using a(16) by (simp add: package_verify_def response_identity_def response_descriptor_def demo_success_def p)
      (simp add: demo_success_def [symmetric])
  then have "handle_authorized demo_service_env demo_backend demo_signer_service demo_sign_request demo_caller 1 (demo_tsd b)
      (policy_for identity_capability) demo_zero_digest receipt = Inr ?package"
    unfolding handle_authorized_def sel demo_sv_sel demo_binding_built
    by (simp add: sel be prod_response_success_def demo_success_def [symmetric])
  then show ?thesis
    using auth by (simp add: demo_handled_def handle_with_trust_state_def sel p demo_authorization_def)
qed

definition demo_trust_binding :: production_key_trust_binding where
  "demo_trust_binding = \<lparr>tb_schema_version = PRODUCTION_KEY_TRUST_BINDING_SCHEMA, tb_identity = identity_capability,
     tb_generation = 1, tb_public_key_digest = sha256_hex demo_prod_hasher (demo_p256_key 1),
     tb_key_record_digest = demo_zero_digest, tb_registry_revision = 1, tb_registry_digest = demo_zero_digest\<rparr>"

lemma demo_resolve: "prod_resolve demo_keys_env demo_keys identity_capability 1 50 = Inr (demo_key_record 1 1 5 100)"
  using demo_key_record_sealed [of 1 5 100 1] by (simp add: prod_resolve_iff demo_keys_def)

lemma demo_trust_binding: "trust_binding demo_keys_env demo_keys identity_capability 1 50 = Inr demo_trust_binding"
  using demo_keys_digest by (simp add: trust_binding_def demo_resolve demo_trust_binding_def) (simp add: demo_keys_def)

text \<open>
  A package the service issues is accepted by every verifier that trusts it: if the
  registry binds the key the backend used, then against the trust snapshot of the service,
  the caller and that key the package verifies as governed, and the envelope it yields
  carries the caller's request and the trust-state digest it was made for.
\<close>

lemma issued_package_verifies:
  assumes "identity_lawful (sv_identity S)" "keys_lawful (sv_keys S)"
    "handle_with_trust_state S B svc request caller now g tsd = (Inr package, svc')"
    "be_descriptor_for_generation B (policy_for (qr_identity request)) g = Inr d"
    "(prod_registry_step (sv_keys S))\<^sup>*\<^sup>* prod_registry_default reg"
    "trust_binding (sv_keys S) reg (qr_identity request) h t = Inr key" "tb_public_key_digest key = hd_public_key_digest d"
  shows "\<exists>cd sd envelope. caller_digest (sv_production S) caller = Inr cd \<and>
    service_digest (sv_production S) (pss_service_identity svc) = Inr sd \<and>
    verify_governed S package \<lparr>gts_signer = trust_snapshot_of svc cd sd d, gts_key = key\<rparr> reg t = Inr envelope \<and>
    qe_request envelope = request \<and> bnd_trust_state_binding_digest (qe_binding envelope) = tsd"
proof -
  obtain result cd sd where "apk_signer_response package = QR_Success (qr_request_id request) result"
    and r: "caller_digest (sv_production S) caller = Inr cd" "service_digest (sv_production S) (pss_service_identity svc) = Inr sd"
    and d: "be_descriptor_for_generation B (policy_for (qr_identity request)) g = Inr (qs_descriptor result)"
    and e: "qe_request (qs_envelope result) = request" "bnd_trust_state_binding_digest (qe_binding (qs_envelope result)) = tsd"
    and v: "hd_identity (qs_descriptor result) = qr_identity request"
      "verify_trusted S package (trust_snapshot_of svc cd sd (qs_descriptor result)) = Inr (qs_envelope result)"
    by (rule handled_package_trusted [OF assms(1,3)])
  from d assms(4) have "qs_descriptor result = d" by simp
  note v = v [unfolded this]
  from issued_binding_verifies [OF assms(2,5,6)] obtain rec where "verify_binding (sv_keys S) reg key t = Inr rec" by blast
  moreover have "tb_identity key = qr_identity request" using assms(6) by (auto simp: trust_binding_def result_simps)
  ultimately have "verify_governed S package \<lparr>gts_signer = trust_snapshot_of svc cd sd d, gts_key = key\<rparr> reg t = Inr (qs_envelope result)"
    using v assms(7) by (simp add: verify_governed_iff trust_snapshot_of_def)
  with r e show ?thesis by blast
qed

lemma demo_handled_eq: "\<exists>package svc. handle_with_trust_state demo_service_env demo_backend demo_signer_service demo_sign_request
    demo_caller 60 1 None = (Inr package, svc)"
  using demo_handled_ok [of False] unfolding demo_handled_def demo_tsd_def by (metis prod.collapse)


lemma demo_governed:
  "\<exists>package trust envelope. verify_governed demo_service_env package trust demo_keys 50 = Inr envelope"
proof -
  obtain package svc where h: "handle_with_trust_state demo_service_env demo_backend demo_signer_service demo_sign_request
    demo_caller 60 1 None = (Inr package, svc)" using demo_handled_eq by blast
  have lawful: "identity_lawful (sv_identity demo_service_env)" using demo_identity_lawful by simp
  show ?thesis
  proof (rule handled_package_trusted [OF lawful h])
    fix result cd sd
    assume d: "be_descriptor_for_generation demo_backend (policy_for (qr_identity demo_sign_request)) 1 = Inr (qs_descriptor result)"
      and v: "verify_trusted demo_service_env package (trust_snapshot_of demo_signer_service cd sd (qs_descriptor result)) = Inr (qs_envelope result)"
    from d have d': "qs_descriptor result = demo_descriptor 1" by (simp add: demo_backend_def default_descriptor_for_generation_def)
    from issued_binding_verifies [OF demo_keys_lawful demo_keys_reachable demo_trust_binding] obtain r where
      "verify_binding demo_keys_env demo_keys demo_trust_binding 50 = Inr r" by blast
    with v have "verify_governed demo_service_env package
        \<lparr>gts_signer = trust_snapshot_of demo_signer_service cd sd (qs_descriptor result), gts_key = demo_trust_binding\<rparr> demo_keys 50 =
        Inr (qs_envelope result)"
      by (simp add: verify_governed_iff trust_snapshot_of_def d') (simp add: demo_trust_binding_def)
    then show ?thesis by blast
  qed
qed

text \<open>
  A package that verifies as governed carries a hardware-backed P-256 signature on the
  envelope of the authorized request, made by the key of a generation of the request's
  identity that the registry holds, has not revoked, and finds valid at the signing time; the
  envelope names the trusted caller and service; and the verified package keeps failing in
  every later registry in which that generation has been revoked.
\<close>

lemma governed_package_proves:
  assumes "(prod_registry_step (sv_keys S))\<^sup>*\<^sup>* prod_registry_default reg"
    "verify_governed S package trust reg t = Inr envelope"
  shows "\<exists>result g r. apk_signer_response package = QR_Success (qr_request_id (qe_request envelope)) result \<and>
    qs_envelope result = envelope \<and> signed_by_descriptor (sv_protocol S) result \<and>
    hd_assurance (qs_descriptor result) = ProvenHardwareBacked \<and>
    map_of (pkr_records reg) (record_key_from (qr_identity (qe_request envelope)) g) = Some r \<and>
    kr_public_key_digest r = hd_public_key_digest (qs_descriptor result) \<and> kr_status r \<noteq> PK_Revoked \<and>
    kr_not_before_epoch_s r \<le> t \<and> t < kr_not_after_epoch_s r \<and>
    request_digest_for (sv_protocol S) (qe_request envelope) (policy_for (qr_identity (qe_request envelope))) =
      Inr (car_request_digest (apk_caller_authorization package)) \<and>
    bnd_caller_identity_digest (qe_binding envelope) = tsn_caller_identity_digest (gts_signer trust) \<and>
    bnd_signer_service_identity_digest (qe_binding envelope) = tsn_signer_service_identity_digest (gts_signer trust) \<and>
    (\<forall>reg1 reg2 r' trust' t' e. (prod_registry_step (sv_keys S))\<^sup>*\<^sup>* reg reg1 \<and>
       map_of (pkr_records reg1) (record_key_from (qr_identity (qe_request envelope)) g) = Some r' \<and>
       kr_status r' = PK_Revoked \<and> (prod_registry_step (sv_keys S))\<^sup>*\<^sup>* reg1 reg2 \<longrightarrow>
       verify_governed S package trust' reg2 t' \<noteq> Inr e)"
proof (rule verify_governed_ok [OF assms(2)])
  fix result g r
  let ?i = "qr_identity (qe_request envelope)"
  assume p: "apk_signer_response package = QR_Success (qr_request_id (qe_request envelope)) result"
    "qs_envelope result = envelope" "signed_by_descriptor (sv_protocol S) result"
    and res: "prod_resolve (sv_keys S) reg ?i g t = Inr r"
    and pk: "hd_public_key_digest (qs_descriptor result) = kr_public_key_digest r"
    and rest: "hd_assurance (qs_descriptor result) = ProvenHardwareBacked"
      "request_digest_for (sv_protocol S) (qe_request envelope) (policy_for ?i) = Inr (car_request_digest (apk_caller_authorization package))"
      "bnd_caller_identity_digest (qe_binding envelope) = tsn_caller_identity_digest (gts_signer trust)"
      "bnd_signer_service_identity_digest (qe_binding envelope) = tsn_signer_service_identity_digest (gts_signer trust)"
  have wf: "prod_wf reg" using assms(1) by (rule reachable_wf)
  from res have find: "map_of (pkr_records reg) (record_key_from ?i g) = Some r" "kr_status r \<noteq> PK_Revoked"
    "kr_not_before_epoch_s r \<le> t" "t < kr_not_after_epoch_s r"
    unfolding prod_resolve_iff by simp_all
  have "verify_governed S package trust' reg2 t' \<noteq> Inr e"
    if steps: "(prod_registry_step (sv_keys S))\<^sup>*\<^sup>* reg reg1" "map_of (pkr_records reg1) (record_key_from ?i g) = Some r'"
      "kr_status r' = PK_Revoked" "(prod_registry_step (sv_keys S))\<^sup>*\<^sup>* reg1 reg2" for reg1 reg2 r' trust' t' e
  proof
    assume "verify_governed S package trust' reg2 t' = Inr e"
    then obtain h s where s: "prod_resolve (sv_keys S) reg2 (qr_identity (qe_request e)) h t' = Inr s"
      "kr_public_key_digest s = kr_public_key_digest r"
      by (rule verify_governed_ok) (use p(1) pk in auto)
    have steps2: "(prod_registry_step (sv_keys S))\<^sup>*\<^sup>* reg reg2" using steps(1,4) by (rule rtranclp_trans)
    from s(1) have s_find: "map_of (pkr_records reg2) (record_key_from (qr_identity (qe_request e)) h) = Some s" "kr_status s \<noteq> PK_Revoked"
      unfolding prod_resolve_iff by simp_all
    have same: "record_key_from ?i g = record_key_from (qr_identity (qe_request e)) h"
      by (rule production_keys.material_never_reused [OF steps2 wf find(1) s_find(1) s(2)])
    have "prod_wf reg1" using steps(1) wf by (rule production_keys.steps_ok)
    from production_keys.steps_revoked [OF steps(4) this steps(2,3)] s_find show False by (simp add: same)
  qed
  then show ?thesis using p pk rest find by metis
qed

text \<open>
  C40: over any history of requests to one service, with whatever callers, generations,
  trust-state digests and backends, and whether or not the calls in between succeed, a
  request that has been signed is never signed again.
\<close>

theorem request_signed_once:
  assumes "handle_with_trust_state S B svc request caller now g tsd = (Inr package, svc1)"
    "(service_step S)\<^sup>*\<^sup>* svc1 svc2"
  shows "fst (handle_with_trust_state S B' svc2 request caller' now' g' tsd') \<noteq> Inr package'"
proof
  assume "fst (handle_with_trust_state S B' svc2 request caller' now' g' tsd') = Inr package'"
  then obtain svc3 where second: "handle_with_trust_state S B' svc2 request caller' now' g' tsd' = (Inr package', svc3)"
    by (metis prod.collapse)
  obtain rd authorization authorizer where first: "request_digest_for (sv_protocol S) request (policy_for (qr_identity request)) = Inr rd"
    "caller_authorize (sv_identity S) (pss_identity_authorizer svc) caller (pss_service_identity svc) (pss_allowlist svc) rd now =
      (Inr authorization, authorizer)" "svc1 = svc\<lparr>pss_identity_authorizer := authorizer\<rparr>"
    using handle_ok [OF assms(1)] by metis
  obtain rd' authorization' authorizer' where later: "request_digest_for (sv_protocol S) request (policy_for (qr_identity request)) = Inr rd'"
    "caller_authorize (sv_identity S) (pss_identity_authorizer svc2) caller' (pss_service_identity svc2) (pss_allowlist svc2) rd' now' =
      (Inr authorization', authorizer')"
    using handle_ok [OF second] by metis
  have "(authorizer_step (sv_identity S))\<^sup>*\<^sup>* authorizer (pss_identity_authorizer svc2)"
    using service_steps_authorizer [OF assms(2)] first(3) by simp
  from request_not_authorized_again [OF first(2) this later(2)] first(1) later(1) show False by simp
qed

theorem request_signed_once_witness:
  "fst (handle_with_trust_state demo_service_env demo_backend (snd (demo_handled False)) demo_sign_request demo_caller 200 1 None) \<noteq>
     fst (demo_handled False)"
proof -
  obtain package svc where h: "handle_with_trust_state demo_service_env demo_backend demo_signer_service demo_sign_request
    demo_caller 60 1 None = (Inr package, svc)" using demo_handled_eq by blast
  from request_signed_once [OF this rtranclp.rtrancl_refl] show ?thesis by (simp add: demo_handled_def demo_tsd_def h)
qed

end
