(* ===== verification/TrustState.thy ===== *)
theory TrustState
  imports ProductionRegistry
begin

text \<open>
  The signed trust state of a production deployment
  (\<^verbatim>\<open>crates/windows-production-trust-state-runtime/src/model.rs\<close>): governance keys and
  the policy with its signature threshold, trust-state bodies and envelopes, the binding and
  the accepted checkpoint, offline bootstrap, recovery, and the activator, which holds the
  state in force. The properties of the activator are in \<^verbatim>\<open>TrustActivation\<close>.
\<close>

section \<open>Data\<close>

type_synonym u16 = "16 word"

definition TRUST_GOVERNANCE_KEY_SCHEMA :: string where "TRUST_GOVERNANCE_KEY_SCHEMA = ''0.1.0''"
definition TRUST_GOVERNANCE_POLICY_SCHEMA :: string where "TRUST_GOVERNANCE_POLICY_SCHEMA = ''0.1.0''"
definition TRUST_GOVERNANCE_SIGNATURE_SCHEMA :: string where "TRUST_GOVERNANCE_SIGNATURE_SCHEMA = ''0.1.0''"
definition PRODUCTION_TRUST_STATE_BODY_SCHEMA :: string where "PRODUCTION_TRUST_STATE_BODY_SCHEMA = ''0.1.0''"
definition PRODUCTION_TRUST_STATE_ENVELOPE_SCHEMA :: string where "PRODUCTION_TRUST_STATE_ENVELOPE_SCHEMA = ''0.1.0''"
definition PRODUCTION_TRUST_STATE_BINDING_SCHEMA :: string where "PRODUCTION_TRUST_STATE_BINDING_SCHEMA = ''0.1.0''"
definition ACCEPTED_TRUST_CHECKPOINT_SCHEMA :: string where "ACCEPTED_TRUST_CHECKPOINT_SCHEMA = ''0.1.0''"
definition OFFLINE_BOOTSTRAP_EXPECTATION_SCHEMA :: string where "OFFLINE_BOOTSTRAP_EXPECTATION_SCHEMA = ''0.1.0''"
definition PRODUCTION_TRUST_RECOVERY_BODY_SCHEMA :: string where "PRODUCTION_TRUST_RECOVERY_BODY_SCHEMA = ''0.1.0''"
definition PRODUCTION_TRUST_RECOVERY_ENVELOPE_SCHEMA :: string where "PRODUCTION_TRUST_RECOVERY_ENVELOPE_SCHEMA = ''0.1.0''"
definition GOVERNANCE_ALGORITHM :: string where "GOVERNANCE_ALGORITHM = ''ed25519-sha256-digest''"

definition TRUST_STATE_SIGNATURE_DOMAIN :: "u8 list" where
  "TRUST_STATE_SIGNATURE_DOMAIN = map char_byte ''ergaxiom-production-trust-state-v1''"
definition TRUST_RECOVERY_SIGNATURE_DOMAIN :: "u8 list" where
  "TRUST_RECOVERY_SIGNATURE_DOMAIN = map char_byte ''ergaxiom-production-trust-recovery-v1''"

datatype (plugins only: code size) trust_governance_key_status = TG_Active | TG_Revoked

record trust_governance_key_record =
  tgk_schema_version :: string
  tgk_key_id :: string
  tgk_public_key_base64url :: string
  tgk_public_key_digest :: string
  tgk_status :: trust_governance_key_status
  tgk_not_before_epoch_s :: u64
  tgk_not_after_epoch_s :: u64
  tgk_revoked_at_epoch_s :: "u64 option"
  tgk_revocation_reason_digest :: "string option"
  tgk_record_digest :: string

record trust_governance_policy =
  tgp_schema_version :: string
  tgp_policy_id :: string
  tgp_revision :: u64
  tgp_signature_threshold :: u16
  tgp_keys :: "trust_governance_key_record list"
  tgp_policy_digest :: string

record trust_governance_signature =
  tgs_schema_version :: string
  tgs_key_id :: string
  tgs_algorithm :: string
  tgs_signed_digest :: string
  tgs_signature_base64url :: string

record trust_state_body =
  tsb_schema_version :: string
  tsb_deployment_id :: string
  tsb_revision :: u64
  tsb_previous_state_digest :: "string option"
  tsb_registry :: production_key_registry_snapshot
  tsb_registry_digest :: string
  tsb_caller_allowlist_revision :: u64
  tsb_caller_allowlist_digest :: string
  tsb_signer_service_executable_digest :: string
  tsb_service_policy_revision :: u64
  tsb_service_policy_digest :: string
  tsb_activated_at_epoch_s :: u64
  tsb_not_before_epoch_s :: u64
  tsb_not_after_epoch_s :: u64
  tsb_minimum_accepted_revision :: u64
  tsb_recovery_policy_id :: string
  tsb_body_digest :: string

record trust_state_envelope =
  tse_schema_version :: string
  tse_body :: trust_state_body
  tse_governance_policy_digest :: string
  tse_signatures :: "trust_governance_signature list"
  tse_envelope_digest :: string

record trust_state_binding =
  tbn_schema_version :: string
  tbn_deployment_id :: string
  tbn_revision :: u64
  tbn_state_digest :: string
  tbn_envelope_digest :: string
  tbn_registry_revision :: u64
  tbn_registry_digest :: string
  tbn_caller_allowlist_revision :: u64
  tbn_caller_allowlist_digest :: string
  tbn_signer_service_executable_digest :: string
  tbn_service_policy_revision :: u64
  tbn_service_policy_digest :: string
  tbn_binding_digest :: string

record verified_trust_state =
  vts_envelope :: trust_state_envelope
  vts_registry :: production_key_registry
  vts_binding :: trust_state_binding

record accepted_trust_checkpoint =
  acp_schema_version :: string
  acp_deployment_id :: string
  acp_revision :: u64
  acp_state_digest :: string
  acp_envelope_digest :: string
  acp_registry_revision :: u64
  acp_registry_digest :: string
  acp_caller_allowlist_revision :: u64
  acp_service_policy_revision :: u64
  acp_minimum_accepted_revision :: u64
  acp_last_recovery_sequence :: u64
  acp_checkpoint_digest :: string

record offline_bootstrap_expectation =
  obe_schema_version :: string
  obe_deployment_id :: string
  obe_expected_envelope_digest :: string
  obe_expected_governance_policy_digest :: string
  obe_expectation_digest :: string

record trust_recovery_body =
  trb_schema_version :: string
  trb_deployment_id :: string
  trb_recovery_policy_id :: string
  trb_damaged_state_digest :: string
  trb_replacement_state_digest :: string
  trb_recovery_reason_digest :: string
  trb_recovery_sequence :: u64
  trb_minimum_uncompromised_revision :: u64
  trb_maximum_replacement_revision :: u64
  trb_expires_at_epoch_s :: u64
  trb_body_digest :: string

record trust_recovery_envelope =
  tre_schema_version :: string
  tre_body :: trust_recovery_body
  tre_governance_policy_digest :: string
  tre_signatures :: "trust_governance_signature list"
  tre_envelope_digest :: string

record activated_trust_state =
  ats_verified :: verified_trust_state
  ats_checkpoint :: accepted_trust_checkpoint
  ats_recovery :: "trust_recovery_envelope option"

record trust_state_activator =
  tsa_current :: "verified_trust_state option"
  tsa_checkpoint :: "accepted_trust_checkpoint option"

datatype (plugins only: code size) trust_state_error =
    TS_UnsupportedGovernanceKeySchema
  | TS_UnsupportedGovernancePolicySchema
  | TS_UnsupportedGovernanceSignatureSchema
  | TS_UnsupportedTrustStateBodySchema
  | TS_UnsupportedTrustStateEnvelopeSchema
  | TS_UnsupportedTrustStateBindingSchema
  | TS_UnsupportedCheckpointSchema
  | TS_UnsupportedBootstrapSchema
  | TS_UnsupportedRecoveryBodySchema
  | TS_UnsupportedRecoveryEnvelopeSchema
  | TS_InvalidGovernancePublicKey
  | TS_GovernancePublicKeyDigestMismatch
  | TS_InvalidGovernanceKeyState
  | TS_GovernanceKeyRecordDigestMismatch
  | TS_InvalidGovernanceThreshold
  | TS_GovernanceKeysNotCanonical
  | TS_DuplicateGovernanceKey
  | TS_GovernancePublicKeyReuse
  | TS_GovernancePolicyDigestMismatch
  | TS_GovernanceSignaturesMissing
  | TS_GovernanceSignatureDigestMismatch
  | TS_DuplicateGovernanceSignature
  | TS_UnknownGovernanceKey
  | TS_GovernanceKeyRevoked
  | TS_GovernanceKeyNotYetValid
  | TS_GovernanceKeyExpired
  | TS_InvalidGovernanceSignature
  | TS_GovernanceSignatureVerificationFailed
  | TS_GovernanceThresholdNotMet
  | TS_GovernanceAlgorithmSubstitution
  | TS_InvalidTrustStateRevision
  | TS_InvalidPreviousStateBinding
  | TS_InvalidValidityWindow
  | TS_RegistryDigestMismatch
  | TS_TrustStateBodyDigestMismatch
  | TS_TrustStateEnvelopeDigestMismatch
  | TS_TrustStateOutsideValidityWindow
  | TS_TrustStateBindingDigestMismatch
  | TS_InvalidCheckpoint
  | TS_CheckpointDigestMismatch
  | TS_CheckpointStateMismatch
  | TS_BootstrapExpectationDigestMismatch
  | TS_BootstrapExpectationMismatch
  | TS_AlreadyBootstrapped
  | TS_BootstrapRequired
  | TS_DeploymentIdentityMismatch
  | TS_NonMonotonicRevision
  | TS_PreviousStateDigestMismatch
  | TS_TrustStateDowngrade
  | TS_InvalidRecoveryBounds
  | TS_RecoveryBodyDigestMismatch
  | TS_RecoveryEnvelopeDigestMismatch
  | TS_RecoveryExpired
  | TS_RecoveryStateDigestMismatch
  | TS_RecoveryReplay
  | TS_RecoveryBelowMinimumRevision
  | TS_RevokedKeyReactivation
  | TS_SecretShapedTrustMaterial
  | TS_InvalidDigestEncoding
  | TS_InvalidCanonicalObject
  | TS_Json serde_error
  | TS_ProductionSigner production_signer_error
  | TS_ProductionKeyGovernance production_key_error
  | TS_Hashing hashing_error

record trust_env =
  tv_keys :: keys_env
  tv_crypto :: ed25519
  tv_key_value :: "trust_governance_key_record \<Rightarrow> serde_error + json"
  tv_policy_value :: "trust_governance_policy \<Rightarrow> serde_error + json"
  tv_body_value :: "trust_state_body \<Rightarrow> serde_error + json"
  tv_envelope_value :: "trust_state_envelope \<Rightarrow> serde_error + json"
  tv_binding_value :: "trust_state_binding \<Rightarrow> serde_error + json"
  tv_checkpoint_value :: "accepted_trust_checkpoint \<Rightarrow> serde_error + json"
  tv_expectation_value :: "offline_bootstrap_expectation \<Rightarrow> serde_error + json"
  tv_recovery_body_value :: "trust_recovery_body \<Rightarrow> serde_error + json"
  tv_recovery_envelope_value :: "trust_recovery_envelope \<Rightarrow> serde_error + json"

abbreviation tv_hasher :: "trust_env \<Rightarrow> hasher" where
  "tv_hasher T \<equiv> kv_hasher (tv_keys T)"

abbreviation tv_base64 :: "trust_env \<Rightarrow> base64" where
  "tv_base64 T \<equiv> kv_base64 (tv_keys T)"

section \<open>Encodings\<close>

definition digest_with_blank_field :: "trust_env \<Rightarrow> string \<Rightarrow> serde_error + json \<Rightarrow> trust_state_error + string" where
  "digest_with_blank_field T field v =
     blank_field_digest (tv_hasher T) TS_Json TS_InvalidCanonicalObject TS_Hashing field v"

definition decode_fixed :: "trust_env \<Rightarrow> nat \<Rightarrow> string \<Rightarrow> unit + u8 list" where
  "decode_fixed T n v =
     and_then (ok_or (b64_decode (tv_base64 T) v) ()) (\<lambda>bytes.
     and_then (ensure (length bytes = n) ()) (\<lambda>_. Inr bytes))"

definition ts_decode_sha256 :: "string \<Rightarrow> trust_state_error + u8 list" where
  "ts_decode_sha256 v =
     and_then (map_err TS_ProductionSigner (prod_validate_sha256 v)) (\<lambda>_.
     map_err (\<lambda>_. TS_InvalidDigestEncoding) (decode_hex_pairs v))"

definition signature_message :: "u8 list \<Rightarrow> string \<Rightarrow> trust_state_error + u8 list" where
  "signature_message domain digest =
     and_then (ts_decode_sha256 digest) (\<lambda>digest_bytes. Inr (domain @ [0] @ digest_bytes))"

definition trust_state_signature_message :: "string \<Rightarrow> trust_state_error + u8 list" where
  "trust_state_signature_message digest = signature_message TRUST_STATE_SIGNATURE_DOMAIN digest"

definition trust_recovery_signature_message :: "string \<Rightarrow> trust_state_error + u8 list" where
  "trust_recovery_signature_message digest = signature_message TRUST_RECOVERY_SIGNATURE_DOMAIN digest"

definition TRUST_SECRET_FIELDS :: "string list" where
  "TRUST_SECRET_FIELDS = [''private_key'', ''private_seed'', ''seed'', ''secret'', ''protected_seed'', ''key_material'',
     ''password'', ''dpapi_blob'']"

definition ts_contains_secret_shaped_field :: "json \<Rightarrow> bool" where
  "ts_contains_secret_shaped_field v \<longleftrightarrow> contains_field_of TRUST_SECRET_FIELDS v"

definition ts_sha256 :: "string \<Rightarrow> trust_state_error + unit" where
  "ts_sha256 v = map_err TS_ProductionSigner (prod_validate_sha256 v)"

definition ts_identifier :: "string \<Rightarrow> string \<Rightarrow> trust_state_error + unit" where
  "ts_identifier field v = map_err TS_ProductionSigner (prod_validate_identifier field v)"

section \<open>Governance keys\<close>

definition governance_key_expected_digest :: "trust_env \<Rightarrow> trust_governance_key_record \<Rightarrow> trust_state_error + string" where
  "governance_key_expected_digest T k = digest_with_blank_field T ''record_digest'' (tv_key_value T k)"

definition governance_verifying_key :: "trust_env \<Rightarrow> trust_governance_key_record \<Rightarrow> trust_state_error + u8 list" where
  "governance_verifying_key T k =
     and_then (map_err (\<lambda>_. TS_InvalidGovernancePublicKey) (decode_fixed T 32 (tgk_public_key_base64url k))) (\<lambda>bytes.
     ok_or (vk_from_bytes (tv_crypto T) bytes) TS_InvalidGovernancePublicKey)"

definition governance_key_state_check :: "trust_governance_key_record \<Rightarrow> trust_state_error + unit" where
  "governance_key_state_check k =
     (case tgk_status k of
        TG_Active \<Rightarrow>
          ensure (\<not> (tgk_revoked_at_epoch_s k \<noteq> None \<or> tgk_revocation_reason_digest k \<noteq> None)) TS_InvalidGovernanceKeyState
      | TG_Revoked \<Rightarrow>
          and_then (ok_or (tgk_revoked_at_epoch_s k) TS_InvalidGovernanceKeyState) (\<lambda>revoked_at.
          and_then (ensure (\<not> (revoked_at = 0 \<or> tgk_revocation_reason_digest k = None)) TS_InvalidGovernanceKeyState) (\<lambda>_.
          and_then (ok_or (tgk_revocation_reason_digest k) TS_InvalidGovernanceKeyState) ts_sha256)))"

definition governance_key_validate_seal :: "trust_env \<Rightarrow> trust_governance_key_record \<Rightarrow> trust_state_error + unit" where
  "governance_key_validate_seal T k =
     and_then (ensure (tgk_schema_version k = TRUST_GOVERNANCE_KEY_SCHEMA) TS_UnsupportedGovernanceKeySchema) (\<lambda>_.
     and_then (ts_identifier ''governance_key_id'' (tgk_key_id k)) (\<lambda>_.
     and_then (ts_sha256 (tgk_public_key_digest k)) (\<lambda>_.
     and_then (ensure (tgk_not_before_epoch_s k < tgk_not_after_epoch_s k) TS_InvalidValidityWindow) (\<lambda>_.
     and_then (map_err (\<lambda>_. TS_InvalidGovernancePublicKey) (decode_fixed T 32 (tgk_public_key_base64url k))) (\<lambda>public_key.
     and_then (ok_or (vk_from_bytes (tv_crypto T) public_key) TS_InvalidGovernancePublicKey) (\<lambda>_.
     and_then (ensure (sha256_hex (tv_hasher T) public_key = tgk_public_key_digest k) TS_GovernancePublicKeyDigestMismatch) (\<lambda>_.
     and_then (governance_key_state_check k) (\<lambda>_.
     and_then (governance_key_expected_digest T k) (\<lambda>digest.
     ensure (tgk_record_digest k = digest) TS_GovernanceKeyRecordDigestMismatch)))))))))"

definition governance_key_new_active ::
    "trust_env \<Rightarrow> string \<Rightarrow> u8 list \<Rightarrow> u64 \<Rightarrow> u64 \<Rightarrow> trust_state_error + trust_governance_key_record" where
  "governance_key_new_active T key_id public_key not_before not_after =
     (let k = \<lparr>tgk_schema_version = TRUST_GOVERNANCE_KEY_SCHEMA,
        tgk_key_id = key_id,
        tgk_public_key_base64url = b64_encode (tv_base64 T) public_key,
        tgk_public_key_digest = sha256_hex (tv_hasher T) public_key,
        tgk_status = TG_Active,
        tgk_not_before_epoch_s = not_before,
        tgk_not_after_epoch_s = not_after,
        tgk_revoked_at_epoch_s = None,
        tgk_revocation_reason_digest = None,
        tgk_record_digest = []\<rparr> in
      and_then (governance_key_expected_digest T k) (\<lambda>digest.
      let k' = k\<lparr>tgk_record_digest := digest\<rparr> in
      and_then (governance_key_validate_seal T k') (\<lambda>_. Inr k')))"

definition valid_for_signature_at :: "trust_env \<Rightarrow> trust_governance_key_record \<Rightarrow> u64 \<Rightarrow> trust_state_error + unit" where
  "valid_for_signature_at T k signed_at =
     and_then (governance_key_validate_seal T k) (\<lambda>_.
     and_then (ensure (tgk_status k \<noteq> TG_Revoked) TS_GovernanceKeyRevoked) (\<lambda>_.
     and_then (ensure (\<not> signed_at < tgk_not_before_epoch_s k) TS_GovernanceKeyNotYetValid) (\<lambda>_.
     ensure (\<not> signed_at \<ge> tgk_not_after_epoch_s k) TS_GovernanceKeyExpired)))"

section \<open>Signatures and the threshold policy\<close>

definition governance_signature_validate_shape ::
    "trust_env \<Rightarrow> trust_governance_signature \<Rightarrow> trust_state_error + unit" where
  "governance_signature_validate_shape T s =
     and_then (ensure (tgs_schema_version s = TRUST_GOVERNANCE_SIGNATURE_SCHEMA) TS_UnsupportedGovernanceSignatureSchema) (\<lambda>_.
     and_then (ts_identifier ''governance_key_id'' (tgs_key_id s)) (\<lambda>_.
     and_then (ensure (tgs_algorithm s = GOVERNANCE_ALGORITHM) TS_GovernanceAlgorithmSubstitution) (\<lambda>_.
     and_then (ts_sha256 (tgs_signed_digest s)) (\<lambda>_.
     and_then (map_err (\<lambda>_. TS_InvalidGovernanceSignature) (decode_fixed T 64 (tgs_signature_base64url s))) (\<lambda>_.
     Inr ())))))"

definition governance_signature_from_bytes ::
    "trust_env \<Rightarrow> string \<Rightarrow> string \<Rightarrow> u8 list \<Rightarrow> trust_state_error + trust_governance_signature" where
  "governance_signature_from_bytes T key_id signed_digest signature =
     (let s = \<lparr>tgs_schema_version = TRUST_GOVERNANCE_SIGNATURE_SCHEMA, tgs_key_id = key_id,
        tgs_algorithm = GOVERNANCE_ALGORITHM, tgs_signed_digest = signed_digest,
        tgs_signature_base64url = b64_encode (tv_base64 T) signature\<rparr> in
      and_then (governance_signature_validate_shape T s) (\<lambda>_. Inr s))"

definition policy_expected_digest :: "trust_env \<Rightarrow> trust_governance_policy \<Rightarrow> trust_state_error + string" where
  "policy_expected_digest T p = digest_with_blank_field T ''policy_digest'' (tv_policy_value T p)"

record policy_scan =
  psc_key_ids :: "string set"
  psc_public_keys :: "string set"
  psc_previous_key_id :: "string option"

definition scan_policy_key ::
    "trust_env \<Rightarrow> policy_scan \<Rightarrow> trust_governance_key_record \<Rightarrow> trust_state_error + policy_scan" where
  "scan_policy_key T st k =
     and_then (governance_key_validate_seal T k) (\<lambda>_.
     and_then (ensure (\<not> (case psc_previous_key_id st of None \<Rightarrow> False | Some previous \<Rightarrow> previous \<ge> tgk_key_id k))
       TS_GovernanceKeysNotCanonical) (\<lambda>_.
     and_then (ensure (tgk_key_id k \<notin> psc_key_ids st) TS_DuplicateGovernanceKey) (\<lambda>_.
     and_then (ensure (tgk_public_key_digest k \<notin> psc_public_keys st) TS_GovernancePublicKeyReuse) (\<lambda>_.
     Inr \<lparr>psc_key_ids = insert (tgk_key_id k) (psc_key_ids st),
       psc_public_keys = insert (tgk_public_key_digest k) (psc_public_keys st),
       psc_previous_key_id = Some (tgk_key_id k)\<rparr>))))"

definition governance_policy_validate_seal :: "trust_env \<Rightarrow> trust_governance_policy \<Rightarrow> trust_state_error + unit" where
  "governance_policy_validate_seal T p =
     and_then (ensure (tgp_schema_version p = TRUST_GOVERNANCE_POLICY_SCHEMA) TS_UnsupportedGovernancePolicySchema) (\<lambda>_.
     and_then (ts_identifier ''governance_policy_id'' (tgp_policy_id p)) (\<lambda>_.
     and_then (ensure (\<not> (tgp_revision p = 0 \<or> tgp_signature_threshold p = 0
         \<or> unat (tgp_signature_threshold p) > length (tgp_keys p))) TS_InvalidGovernanceThreshold) (\<lambda>_.
     and_then (try_fold (scan_policy_key T)
       \<lparr>psc_key_ids = {}, psc_public_keys = {}, psc_previous_key_id = None\<rparr> (tgp_keys p)) (\<lambda>_.
     and_then (policy_expected_digest T p) (\<lambda>digest.
     ensure (tgp_policy_digest p = digest) TS_GovernancePolicyDigestMismatch)))))"

definition governance_policy_new ::
    "trust_env \<Rightarrow> string \<Rightarrow> u64 \<Rightarrow> u16 \<Rightarrow> trust_governance_key_record list \<Rightarrow> trust_state_error + trust_governance_policy" where
  "governance_policy_new T policy_id revision threshold keys =
     (let p = \<lparr>tgp_schema_version = TRUST_GOVERNANCE_POLICY_SCHEMA, tgp_policy_id = policy_id, tgp_revision = revision,
        tgp_signature_threshold = threshold, tgp_keys = sort_key tgk_key_id keys, tgp_policy_digest = []\<rparr> in
      and_then (policy_expected_digest T p) (\<lambda>digest.
      let p' = p\<lparr>tgp_policy_digest := digest\<rparr> in
      and_then (governance_policy_validate_seal T p') (\<lambda>_. Inr p')))"

definition verify_one_signature ::
    "trust_env \<Rightarrow> (string, trust_governance_key_record) bmap \<Rightarrow> u8 list \<Rightarrow> string \<Rightarrow> u64 \<Rightarrow> string set \<Rightarrow>
     trust_governance_signature \<Rightarrow> trust_state_error + string set" where
  "verify_one_signature T records message digest signed_at verified_ids s =
     and_then (governance_signature_validate_shape T s) (\<lambda>_.
     and_then (ensure (tgs_signed_digest s = digest) TS_GovernanceSignatureDigestMismatch) (\<lambda>_.
     and_then (ensure (tgs_key_id s \<notin> verified_ids) TS_DuplicateGovernanceSignature) (\<lambda>_.
     and_then (ok_or (map_of records (tgs_key_id s)) TS_UnknownGovernanceKey) (\<lambda>k.
     and_then (valid_for_signature_at T k signed_at) (\<lambda>_.
     and_then (map_err (\<lambda>_. TS_InvalidGovernanceSignature) (decode_fixed T 64 (tgs_signature_base64url s))) (\<lambda>bytes.
     and_then (ok_or (sig_from_slice (tv_crypto T) bytes) TS_InvalidGovernanceSignature) (\<lambda>signature.
     and_then (governance_verifying_key T k) (\<lambda>vk.
     and_then (ensure (sig_verify (tv_crypto T) vk message signature) TS_GovernanceSignatureVerificationFailed) (\<lambda>_.
     Inr (insert (tgs_key_id s) verified_ids))))))))))"

definition verify_signatures ::
    "trust_env \<Rightarrow> trust_governance_policy \<Rightarrow> u8 list \<Rightarrow> string \<Rightarrow> u64 \<Rightarrow> trust_governance_signature list \<Rightarrow>
     trust_state_error + unit" where
  "verify_signatures T p domain digest signed_at signatures =
     and_then (governance_policy_validate_seal T p) (\<lambda>_.
     and_then (ts_sha256 digest) (\<lambda>_.
     and_then (ensure (signatures \<noteq> []) TS_GovernanceSignaturesMissing) (\<lambda>_.
     let records = bm_collect (map (\<lambda>k. (tgk_key_id k, k)) (tgp_keys p)) in
     and_then (signature_message domain digest) (\<lambda>message.
     and_then (try_fold (verify_one_signature T records message digest signed_at) {} signatures) (\<lambda>verified_ids.
     ensure (\<not> card verified_ids < unat (tgp_signature_threshold p)) TS_GovernanceThresholdNotMet)))))"

section \<open>Trust-state bodies\<close>

definition body_expected_digest :: "trust_env \<Rightarrow> trust_state_body \<Rightarrow> trust_state_error + string" where
  "body_expected_digest T b = digest_with_blank_field T ''body_digest'' (tv_body_value T b)"

definition previous_binding_check :: "string option \<Rightarrow> u64 \<Rightarrow> trust_state_error + unit" where
  "previous_binding_check previous revision =
     (case previous of
        None \<Rightarrow> ensure (revision = 1) TS_InvalidPreviousStateBinding
      | Some digest \<Rightarrow> if revision > 1 then ts_sha256 digest else Inl TS_InvalidPreviousStateBinding)"

definition body_validate_shape :: "trust_env \<Rightarrow> trust_state_body \<Rightarrow> trust_state_error + unit" where
  "body_validate_shape T b =
     and_then (ensure (tsb_schema_version b = PRODUCTION_TRUST_STATE_BODY_SCHEMA) TS_UnsupportedTrustStateBodySchema) (\<lambda>_.
     and_then (ts_identifier ''deployment_id'' (tsb_deployment_id b)) (\<lambda>_.
     and_then (ts_identifier ''recovery_policy_id'' (tsb_recovery_policy_id b)) (\<lambda>_.
     and_then (ensure (\<not> (tsb_revision b = 0 \<or> tsb_minimum_accepted_revision b = 0
         \<or> tsb_minimum_accepted_revision b > tsb_revision b \<or> tsb_caller_allowlist_revision b = 0
         \<or> tsb_service_policy_revision b = 0)) TS_InvalidTrustStateRevision) (\<lambda>_.
     and_then (previous_binding_check (tsb_previous_state_digest b) (tsb_revision b)) (\<lambda>_.
     and_then (ensure (\<not> (tsb_not_before_epoch_s b \<ge> tsb_not_after_epoch_s b
         \<or> tsb_activated_at_epoch_s b < tsb_not_before_epoch_s b \<or> tsb_activated_at_epoch_s b \<ge> tsb_not_after_epoch_s b))
       TS_InvalidValidityWindow) (\<lambda>_.
     and_then (map_err TS_ProductionKeyGovernance (snapshot_validate_seal (tv_keys T) (tsb_registry b))) (\<lambda>_.
     and_then (map_err TS_ProductionKeyGovernance
       (validate_active_generations (tv_keys T) (tsb_registry b) (tsb_activated_at_epoch_s b))) (\<lambda>_.
     and_then (ts_sha256 (tsb_registry_digest b)) (\<lambda>_.
     and_then (map_err TS_ProductionKeyGovernance (snapshot_digest (tv_keys T) (tsb_registry b))) (\<lambda>registry_digest.
     and_then (ensure (tsb_registry_digest b = registry_digest) TS_RegistryDigestMismatch) (\<lambda>_.
     and_then (ts_sha256 (tsb_caller_allowlist_digest b)) (\<lambda>_.
     and_then (ts_sha256 (tsb_signer_service_executable_digest b)) (\<lambda>_.
     and_then (ts_sha256 (tsb_service_policy_digest b)) (\<lambda>_.
     and_then (body_expected_digest T b) (\<lambda>digest.
     and_then (ensure (tsb_body_digest b = digest) TS_TrustStateBodyDigestMismatch) (\<lambda>_.
     and_then (map_err TS_Json (tv_body_value T b)) (\<lambda>v.
     ensure (\<not> ts_contains_secret_shaped_field v) TS_SecretShapedTrustMaterial)))))))))))))))))"

definition body_new ::
    "trust_env \<Rightarrow> string \<Rightarrow> u64 \<Rightarrow> string option \<Rightarrow> production_key_registry_snapshot \<Rightarrow> u64 \<Rightarrow> string \<Rightarrow> string \<Rightarrow> u64 \<Rightarrow>
     string \<Rightarrow> u64 \<Rightarrow> u64 \<Rightarrow> u64 \<Rightarrow> u64 \<Rightarrow> string \<Rightarrow> trust_state_error + trust_state_body" where
  "body_new T deployment_id revision previous registry allowlist_revision allowlist_digest executable_digest
       policy_revision service_policy_digest activated_at not_before not_after minimum recovery_policy_id =
     and_then (map_err TS_ProductionKeyGovernance (snapshot_digest (tv_keys T) registry)) (\<lambda>registry_digest.
     let b = \<lparr>tsb_schema_version = PRODUCTION_TRUST_STATE_BODY_SCHEMA,
       tsb_deployment_id = deployment_id,
       tsb_revision = revision,
       tsb_previous_state_digest = previous,
       tsb_registry = registry,
       tsb_registry_digest = registry_digest,
       tsb_caller_allowlist_revision = allowlist_revision,
       tsb_caller_allowlist_digest = allowlist_digest,
       tsb_signer_service_executable_digest = executable_digest,
       tsb_service_policy_revision = policy_revision,
       tsb_service_policy_digest = service_policy_digest,
       tsb_activated_at_epoch_s = activated_at,
       tsb_not_before_epoch_s = not_before,
       tsb_not_after_epoch_s = not_after,
       tsb_minimum_accepted_revision = minimum,
       tsb_recovery_policy_id = recovery_policy_id,
       tsb_body_digest = []\<rparr> in
     and_then (body_expected_digest T b) (\<lambda>digest.
     let b' = b\<lparr>tsb_body_digest := digest\<rparr> in
     and_then (body_validate_shape T b') (\<lambda>_. Inr b')))"

section \<open>Bindings, checkpoints and envelopes\<close>

definition tsbinding_expected_digest :: "trust_env \<Rightarrow> trust_state_binding \<Rightarrow> trust_state_error + string" where
  "tsbinding_expected_digest T b = digest_with_blank_field T ''binding_digest'' (tv_binding_value T b)"

definition tsbinding_validate_seal :: "trust_env \<Rightarrow> trust_state_binding \<Rightarrow> trust_state_error + unit" where
  "tsbinding_validate_seal T b =
     and_then (ensure (tbn_schema_version b = PRODUCTION_TRUST_STATE_BINDING_SCHEMA) TS_UnsupportedTrustStateBindingSchema) (\<lambda>_.
     and_then (ts_identifier ''deployment_id'' (tbn_deployment_id b)) (\<lambda>_.
     and_then (ensure (\<not> (tbn_revision b = 0 \<or> tbn_registry_revision b = 0 \<or> tbn_caller_allowlist_revision b = 0
         \<or> tbn_service_policy_revision b = 0)) TS_InvalidTrustStateRevision) (\<lambda>_.
     and_then (try_for_each ts_sha256 [tbn_state_digest b, tbn_envelope_digest b, tbn_registry_digest b,
       tbn_caller_allowlist_digest b, tbn_signer_service_executable_digest b, tbn_service_policy_digest b,
       tbn_binding_digest b]) (\<lambda>_.
     and_then (tsbinding_expected_digest T b) (\<lambda>digest.
     ensure (tbn_binding_digest b = digest) TS_TrustStateBindingDigestMismatch)))))"

definition tsbinding_from_parts :: "trust_env \<Rightarrow> trust_state_envelope \<Rightarrow> trust_state_error + trust_state_binding" where
  "tsbinding_from_parts T e =
     (let body = tse_body e;
          b = \<lparr>tbn_schema_version = PRODUCTION_TRUST_STATE_BINDING_SCHEMA,
            tbn_deployment_id = tsb_deployment_id body,
            tbn_revision = tsb_revision body,
            tbn_state_digest = tsb_body_digest body,
            tbn_envelope_digest = tse_envelope_digest e,
            tbn_registry_revision = rsn_revision (tsb_registry body),
            tbn_registry_digest = tsb_registry_digest body,
            tbn_caller_allowlist_revision = tsb_caller_allowlist_revision body,
            tbn_caller_allowlist_digest = tsb_caller_allowlist_digest body,
            tbn_signer_service_executable_digest = tsb_signer_service_executable_digest body,
            tbn_service_policy_revision = tsb_service_policy_revision body,
            tbn_service_policy_digest = tsb_service_policy_digest body,
            tbn_binding_digest = []\<rparr> in
      and_then (tsbinding_expected_digest T b) (\<lambda>digest.
      let b' = b\<lparr>tbn_binding_digest := digest\<rparr> in
      and_then (tsbinding_validate_seal T b') (\<lambda>_. Inr b')))"

definition tsenvelope_expected_digest :: "trust_env \<Rightarrow> trust_state_envelope \<Rightarrow> trust_state_error + string" where
  "tsenvelope_expected_digest T e = digest_with_blank_field T ''envelope_digest'' (tv_envelope_value T e)"

definition tsenvelope_verify ::
    "trust_env \<Rightarrow> trust_state_envelope \<Rightarrow> trust_governance_policy \<Rightarrow> u64 \<Rightarrow> trust_state_error + verified_trust_state" where
  "tsenvelope_verify T e policy now =
     and_then (ensure (tse_schema_version e = PRODUCTION_TRUST_STATE_ENVELOPE_SCHEMA) TS_UnsupportedTrustStateEnvelopeSchema) (\<lambda>_.
     and_then (body_validate_shape T (tse_body e)) (\<lambda>_.
     and_then (governance_policy_validate_seal T policy) (\<lambda>_.
     and_then (ensure (tse_governance_policy_digest e = tgp_policy_digest policy) TS_GovernancePolicyDigestMismatch) (\<lambda>_.
     and_then (ensure (\<not> (now < tsb_not_before_epoch_s (tse_body e) \<or> now \<ge> tsb_not_after_epoch_s (tse_body e)))
       TS_TrustStateOutsideValidityWindow) (\<lambda>_.
     and_then (verify_signatures T policy TRUST_STATE_SIGNATURE_DOMAIN (tsb_body_digest (tse_body e))
       (tsb_activated_at_epoch_s (tse_body e)) (tse_signatures e)) (\<lambda>_.
     and_then (tsenvelope_expected_digest T e) (\<lambda>digest.
     and_then (ensure (tse_envelope_digest e = digest) TS_TrustStateEnvelopeDigestMismatch) (\<lambda>_.
     and_then (map_err TS_ProductionKeyGovernance (from_snapshot (tv_keys T) (tsb_registry (tse_body e)))) (\<lambda>registry.
     and_then (tsbinding_from_parts T e) (\<lambda>b.
     Inr \<lparr>vts_envelope = e, vts_registry = registry, vts_binding = b\<rparr>))))))))))"

definition tsenvelope_new ::
    "trust_env \<Rightarrow> trust_state_body \<Rightarrow> trust_governance_policy \<Rightarrow> trust_governance_signature list \<Rightarrow>
     trust_state_error + trust_state_envelope" where
  "tsenvelope_new T body policy signatures =
     (let e = \<lparr>tse_schema_version = PRODUCTION_TRUST_STATE_ENVELOPE_SCHEMA, tse_body = body,
        tse_governance_policy_digest = tgp_policy_digest policy, tse_signatures = sort_key tgs_key_id signatures,
        tse_envelope_digest = []\<rparr> in
      and_then (tsenvelope_expected_digest T e) (\<lambda>digest.
      let e' = e\<lparr>tse_envelope_digest := digest\<rparr> in
      and_then (tsenvelope_verify T e' policy (tsb_activated_at_epoch_s body)) (\<lambda>_. Inr e')))"

definition vts_body :: "verified_trust_state \<Rightarrow> trust_state_body" where
  "vts_body v = tse_body (vts_envelope v)"

definition checkpoint_expected_digest :: "trust_env \<Rightarrow> accepted_trust_checkpoint \<Rightarrow> trust_state_error + string" where
  "checkpoint_expected_digest T c = digest_with_blank_field T ''checkpoint_digest'' (tv_checkpoint_value T c)"

definition checkpoint_validate_seal :: "trust_env \<Rightarrow> accepted_trust_checkpoint \<Rightarrow> trust_state_error + unit" where
  "checkpoint_validate_seal T c =
     and_then (ensure (acp_schema_version c = ACCEPTED_TRUST_CHECKPOINT_SCHEMA) TS_UnsupportedCheckpointSchema) (\<lambda>_.
     and_then (ts_identifier ''deployment_id'' (acp_deployment_id c)) (\<lambda>_.
     and_then (ensure (\<not> (acp_revision c = 0 \<or> acp_registry_revision c = 0 \<or> acp_caller_allowlist_revision c = 0
         \<or> acp_service_policy_revision c = 0 \<or> acp_minimum_accepted_revision c = 0
         \<or> acp_minimum_accepted_revision c > acp_revision c)) TS_InvalidCheckpoint) (\<lambda>_.
     and_then (try_for_each ts_sha256 [acp_state_digest c, acp_envelope_digest c, acp_registry_digest c,
       acp_checkpoint_digest c]) (\<lambda>_.
     and_then (checkpoint_expected_digest T c) (\<lambda>digest.
     ensure (acp_checkpoint_digest c = digest) TS_CheckpointDigestMismatch)))))"

definition checkpoint_from_verified ::
    "trust_env \<Rightarrow> verified_trust_state \<Rightarrow> u64 \<Rightarrow> trust_state_error + accepted_trust_checkpoint" where
  "checkpoint_from_verified T v last_recovery_sequence =
     (let body = vts_body v;
          c = \<lparr>acp_schema_version = ACCEPTED_TRUST_CHECKPOINT_SCHEMA,
            acp_deployment_id = tsb_deployment_id body,
            acp_revision = tsb_revision body,
            acp_state_digest = tsb_body_digest body,
            acp_envelope_digest = tse_envelope_digest (vts_envelope v),
            acp_registry_revision = rsn_revision (tsb_registry body),
            acp_registry_digest = tsb_registry_digest body,
            acp_caller_allowlist_revision = tsb_caller_allowlist_revision body,
            acp_service_policy_revision = tsb_service_policy_revision body,
            acp_minimum_accepted_revision = tsb_minimum_accepted_revision body,
            acp_last_recovery_sequence = last_recovery_sequence,
            acp_checkpoint_digest = []\<rparr> in
      and_then (checkpoint_expected_digest T c) (\<lambda>digest.
      let c' = c\<lparr>acp_checkpoint_digest := digest\<rparr> in
      and_then (checkpoint_validate_seal T c') (\<lambda>_. Inr c')))"

section \<open>Bootstrap and recovery artifacts\<close>

definition expectation_expected_digest :: "trust_env \<Rightarrow> offline_bootstrap_expectation \<Rightarrow> trust_state_error + string" where
  "expectation_expected_digest T x = digest_with_blank_field T ''expectation_digest'' (tv_expectation_value T x)"

definition expectation_validate_seal :: "trust_env \<Rightarrow> offline_bootstrap_expectation \<Rightarrow> trust_state_error + unit" where
  "expectation_validate_seal T x =
     and_then (ensure (obe_schema_version x = OFFLINE_BOOTSTRAP_EXPECTATION_SCHEMA) TS_UnsupportedBootstrapSchema) (\<lambda>_.
     and_then (ts_identifier ''deployment_id'' (obe_deployment_id x)) (\<lambda>_.
     and_then (ts_sha256 (obe_expected_envelope_digest x)) (\<lambda>_.
     and_then (ts_sha256 (obe_expected_governance_policy_digest x)) (\<lambda>_.
     and_then (expectation_expected_digest T x) (\<lambda>digest.
     ensure (obe_expectation_digest x = digest) TS_BootstrapExpectationDigestMismatch)))))"

definition expectation_new ::
    "trust_env \<Rightarrow> string \<Rightarrow> string \<Rightarrow> string \<Rightarrow> trust_state_error + offline_bootstrap_expectation" where
  "expectation_new T deployment_id envelope_digest governance_digest =
     (let x = \<lparr>obe_schema_version = OFFLINE_BOOTSTRAP_EXPECTATION_SCHEMA, obe_deployment_id = deployment_id,
        obe_expected_envelope_digest = envelope_digest, obe_expected_governance_policy_digest = governance_digest,
        obe_expectation_digest = []\<rparr> in
      and_then (expectation_expected_digest T x) (\<lambda>digest.
      let x' = x\<lparr>obe_expectation_digest := digest\<rparr> in
      and_then (expectation_validate_seal T x') (\<lambda>_. Inr x')))"

definition recovery_body_expected_digest :: "trust_env \<Rightarrow> trust_recovery_body \<Rightarrow> trust_state_error + string" where
  "recovery_body_expected_digest T b = digest_with_blank_field T ''body_digest'' (tv_recovery_body_value T b)"

definition recovery_body_validate_shape :: "trust_env \<Rightarrow> trust_recovery_body \<Rightarrow> trust_state_error + unit" where
  "recovery_body_validate_shape T b =
     and_then (ensure (trb_schema_version b = PRODUCTION_TRUST_RECOVERY_BODY_SCHEMA) TS_UnsupportedRecoveryBodySchema) (\<lambda>_.
     and_then (ts_identifier ''deployment_id'' (trb_deployment_id b)) (\<lambda>_.
     and_then (ts_identifier ''recovery_policy_id'' (trb_recovery_policy_id b)) (\<lambda>_.
     and_then (try_for_each ts_sha256 [trb_damaged_state_digest b, trb_replacement_state_digest b,
       trb_recovery_reason_digest b]) (\<lambda>_.
     and_then (ensure (\<not> (trb_recovery_sequence b = 0 \<or> trb_minimum_uncompromised_revision b = 0
         \<or> trb_maximum_replacement_revision b < trb_minimum_uncompromised_revision b \<or> trb_expires_at_epoch_s b = 0))
       TS_InvalidRecoveryBounds) (\<lambda>_.
     and_then (recovery_body_expected_digest T b) (\<lambda>digest.
     ensure (trb_body_digest b = digest) TS_RecoveryBodyDigestMismatch))))))"

definition recovery_body_new ::
    "trust_env \<Rightarrow> string \<Rightarrow> string \<Rightarrow> string \<Rightarrow> string \<Rightarrow> string \<Rightarrow> u64 \<Rightarrow> u64 \<Rightarrow> u64 \<Rightarrow> u64 \<Rightarrow>
     trust_state_error + trust_recovery_body" where
  "recovery_body_new T deployment_id recovery_policy_id damaged replacement reason sequence minimum maximum expires_at =
     (let b = \<lparr>trb_schema_version = PRODUCTION_TRUST_RECOVERY_BODY_SCHEMA,
        trb_deployment_id = deployment_id,
        trb_recovery_policy_id = recovery_policy_id,
        trb_damaged_state_digest = damaged,
        trb_replacement_state_digest = replacement,
        trb_recovery_reason_digest = reason,
        trb_recovery_sequence = sequence,
        trb_minimum_uncompromised_revision = minimum,
        trb_maximum_replacement_revision = maximum,
        trb_expires_at_epoch_s = expires_at,
        trb_body_digest = []\<rparr> in
      and_then (recovery_body_expected_digest T b) (\<lambda>digest.
      let b' = b\<lparr>trb_body_digest := digest\<rparr> in
      and_then (recovery_body_validate_shape T b') (\<lambda>_. Inr b')))"

definition recovery_expected_digest :: "trust_env \<Rightarrow> trust_recovery_envelope \<Rightarrow> trust_state_error + string" where
  "recovery_expected_digest T e = digest_with_blank_field T ''envelope_digest'' (tv_recovery_envelope_value T e)"

definition saturating_pred :: "u64 \<Rightarrow> u64" where
  "saturating_pred n = (if n = 0 then 0 else n - 1)"

definition recovery_verify_internal ::
    "trust_env \<Rightarrow> trust_recovery_envelope \<Rightarrow> trust_governance_policy \<Rightarrow> u64 \<Rightarrow> bool \<Rightarrow> trust_state_error + unit" where
  "recovery_verify_internal T e policy at enforce_expiry =
     and_then (ensure (tre_schema_version e = PRODUCTION_TRUST_RECOVERY_ENVELOPE_SCHEMA) TS_UnsupportedRecoveryEnvelopeSchema) (\<lambda>_.
     and_then (recovery_body_validate_shape T (tre_body e)) (\<lambda>_.
     and_then (governance_policy_validate_seal T policy) (\<lambda>_.
     and_then (ensure (tre_governance_policy_digest e = tgp_policy_digest policy) TS_GovernancePolicyDigestMismatch) (\<lambda>_.
     and_then (ensure (\<not> (enforce_expiry \<and> at \<ge> trb_expires_at_epoch_s (tre_body e))) TS_RecoveryExpired) (\<lambda>_.
     and_then (verify_signatures T policy TRUST_RECOVERY_SIGNATURE_DOMAIN (trb_body_digest (tre_body e)) at
       (tre_signatures e)) (\<lambda>_.
     and_then (recovery_expected_digest T e) (\<lambda>digest.
     ensure (tre_envelope_digest e = digest) TS_RecoveryEnvelopeDigestMismatch)))))))"

definition recovery_verify ::
    "trust_env \<Rightarrow> trust_recovery_envelope \<Rightarrow> trust_governance_policy \<Rightarrow> u64 \<Rightarrow> trust_state_error + unit" where
  "recovery_verify T e policy now = recovery_verify_internal T e policy now True"

definition recovery_verify_persisted ::
    "trust_env \<Rightarrow> trust_recovery_envelope \<Rightarrow> trust_governance_policy \<Rightarrow> trust_state_error + unit" where
  "recovery_verify_persisted T e policy =
     recovery_verify_internal T e policy (saturating_pred (trb_expires_at_epoch_s (tre_body e))) False"

definition recovery_new ::
    "trust_env \<Rightarrow> trust_recovery_body \<Rightarrow> trust_governance_policy \<Rightarrow> trust_governance_signature list \<Rightarrow>
     trust_state_error + trust_recovery_envelope" where
  "recovery_new T body policy signatures =
     (let e = \<lparr>tre_schema_version = PRODUCTION_TRUST_RECOVERY_ENVELOPE_SCHEMA, tre_body = body,
        tre_governance_policy_digest = tgp_policy_digest policy, tre_signatures = sort_key tgs_key_id signatures,
        tre_envelope_digest = []\<rparr> in
      and_then (recovery_expected_digest T e) (\<lambda>digest.
      let e' = e\<lparr>tre_envelope_digest := digest\<rparr> in
      and_then (recovery_verify T e' policy (saturating_pred (trb_expires_at_epoch_s body))) (\<lambda>_. Inr e')))"

section \<open>The activator\<close>

definition validate_checkpoint_matches ::
    "verified_trust_state \<Rightarrow> accepted_trust_checkpoint \<Rightarrow> trust_state_error + unit" where
  "validate_checkpoint_matches v c =
     (let body = vts_body v in
      ensure (\<not> (tsb_deployment_id body \<noteq> acp_deployment_id c
          \<or> tsb_revision body \<noteq> acp_revision c
          \<or> tsb_body_digest body \<noteq> acp_state_digest c
          \<or> tse_envelope_digest (vts_envelope v) \<noteq> acp_envelope_digest c
          \<or> rsn_revision (tsb_registry body) \<noteq> acp_registry_revision c
          \<or> tsb_registry_digest body \<noteq> acp_registry_digest c
          \<or> tsb_caller_allowlist_revision body \<noteq> acp_caller_allowlist_revision c
          \<or> tsb_service_policy_revision body \<noteq> acp_service_policy_revision c
          \<or> tsb_minimum_accepted_revision body \<noteq> acp_minimum_accepted_revision c))
        TS_CheckpointStateMismatch)"

definition reject_revoked_key_reactivation ::
    "production_key_record list \<Rightarrow> production_key_record list \<Rightarrow> trust_state_error + unit" where
  "reject_revoked_key_reactivation current_records replacement_records =
     try_for_each (\<lambda>current.
       case find (\<lambda>candidate. kr_identity candidate = kr_identity current \<and> kr_generation candidate = kr_generation current)
         replacement_records of
         None \<Rightarrow> Inl TS_RevokedKeyReactivation
       | Some replacement \<Rightarrow>
           ensure (\<not> (kr_status replacement \<noteq> PK_Revoked
               \<or> kr_public_key_digest replacement \<noteq> kr_public_key_digest current
               \<or> kr_revocation_reason_digest replacement \<noteq> kr_revocation_reason_digest current))
             TS_RevokedKeyReactivation)
       (filter (\<lambda>r. kr_status r = PK_Revoked) current_records)"

definition activator_default :: trust_state_activator where
  "activator_default = \<lparr>tsa_current = None, tsa_checkpoint = None\<rparr>"

definition activator_from_accepted ::
    "trust_env \<Rightarrow> verified_trust_state \<Rightarrow> accepted_trust_checkpoint \<Rightarrow> trust_state_error + trust_state_activator" where
  "activator_from_accepted T current checkpoint =
     and_then (checkpoint_validate_seal T checkpoint) (\<lambda>_.
     and_then (validate_checkpoint_matches current checkpoint) (\<lambda>_.
     Inr \<lparr>tsa_current = Some current, tsa_checkpoint = Some checkpoint\<rparr>))"

text \<open>
  An operation of the activator first computes the state it will accept and then stores it; a
  failure leaves the activator as it was.
\<close>

definition accept_state ::
    "trust_state_activator \<Rightarrow> trust_state_error + activated_trust_state \<Rightarrow>
     (trust_state_error + activated_trust_state) \<times> trust_state_activator" where
  "accept_state act outcome =
     (case outcome of
        Inl e \<Rightarrow> (Inl e, act)
      | Inr activated \<Rightarrow>
          (Inr activated, \<lparr>tsa_current = Some (ats_verified activated), tsa_checkpoint = Some (ats_checkpoint activated)\<rparr>))"

definition bootstrap_checks ::
    "trust_env \<Rightarrow> trust_state_activator \<Rightarrow> trust_state_envelope \<Rightarrow> trust_governance_policy \<Rightarrow>
     offline_bootstrap_expectation \<Rightarrow> u64 \<Rightarrow> trust_state_error + activated_trust_state" where
  "bootstrap_checks T act envelope policy expectation now =
     and_then (ensure (\<not> (tsa_current act \<noteq> None \<or> tsa_checkpoint act \<noteq> None)) TS_AlreadyBootstrapped) (\<lambda>_.
     and_then (expectation_validate_seal T expectation) (\<lambda>_.
     and_then (tsenvelope_verify T envelope policy now) (\<lambda>verified.
     let body = vts_body verified in
     and_then (ensure (\<not> (tsb_revision body \<noteq> 1 \<or> tsb_previous_state_digest body \<noteq> None
         \<or> tsb_deployment_id body \<noteq> obe_deployment_id expectation
         \<or> tse_envelope_digest envelope \<noteq> obe_expected_envelope_digest expectation
         \<or> tgp_policy_digest policy \<noteq> obe_expected_governance_policy_digest expectation))
       TS_BootstrapExpectationMismatch) (\<lambda>_.
     and_then (checkpoint_from_verified T verified 0) (\<lambda>checkpoint.
     Inr \<lparr>ats_verified = verified, ats_checkpoint = checkpoint, ats_recovery = None\<rparr>)))))"

definition activator_bootstrap ::
    "trust_env \<Rightarrow> trust_state_activator \<Rightarrow> trust_state_envelope \<Rightarrow> trust_governance_policy \<Rightarrow>
     offline_bootstrap_expectation \<Rightarrow> u64 \<Rightarrow> (trust_state_error + activated_trust_state) \<times> trust_state_activator" where
  "activator_bootstrap T act envelope policy expectation now =
     accept_state act (bootstrap_checks T act envelope policy expectation now)"

definition activator_open ::
    "trust_env \<Rightarrow> trust_state_activator \<Rightarrow> trust_state_error + verified_trust_state \<times> accepted_trust_checkpoint" where
  "activator_open T act =
     and_then (ok_or (tsa_current act) TS_BootstrapRequired) (\<lambda>current.
     and_then (ok_or (tsa_checkpoint act) TS_BootstrapRequired) (\<lambda>checkpoint.
     and_then (checkpoint_validate_seal T checkpoint) (\<lambda>_.
     and_then (validate_checkpoint_matches current checkpoint) (\<lambda>_. Inr (current, checkpoint)))))"

definition activate_checks ::
    "trust_env \<Rightarrow> trust_state_activator \<Rightarrow> trust_state_envelope \<Rightarrow> trust_governance_policy \<Rightarrow> u64 \<Rightarrow>
     trust_state_error + activated_trust_state" where
  "activate_checks T act envelope policy now =
     and_then (activator_open T act) (\<lambda>(current, checkpoint).
     and_then (tsenvelope_verify T envelope policy now) (\<lambda>verified.
     let next_body = vts_body verified in
     and_then (ensure (tsb_deployment_id next_body = acp_deployment_id checkpoint) TS_DeploymentIdentityMismatch) (\<lambda>_.
     and_then (ensure (tsb_revision next_body = saturating_add (acp_revision checkpoint) 1) TS_NonMonotonicRevision) (\<lambda>_.
     and_then (ensure (tsb_previous_state_digest next_body = Some (acp_state_digest checkpoint)) TS_PreviousStateDigestMismatch) (\<lambda>_.
     and_then (ensure (\<not> (tsb_minimum_accepted_revision next_body < acp_minimum_accepted_revision checkpoint
         \<or> rsn_revision (tsb_registry next_body) < acp_registry_revision checkpoint
         \<or> tsb_caller_allowlist_revision next_body < acp_caller_allowlist_revision checkpoint
         \<or> tsb_service_policy_revision next_body < acp_service_policy_revision checkpoint)) TS_TrustStateDowngrade) (\<lambda>_.
     and_then (checkpoint_from_verified T verified (acp_last_recovery_sequence checkpoint)) (\<lambda>next_checkpoint.
     Inr \<lparr>ats_verified = verified, ats_checkpoint = next_checkpoint, ats_recovery = None\<rparr>)))))))"

definition activator_activate ::
    "trust_env \<Rightarrow> trust_state_activator \<Rightarrow> trust_state_envelope \<Rightarrow> trust_governance_policy \<Rightarrow> u64 \<Rightarrow>
     (trust_state_error + activated_trust_state) \<times> trust_state_activator" where
  "activator_activate T act envelope policy now = accept_state act (activate_checks T act envelope policy now)"

definition recover_checks ::
    "trust_env \<Rightarrow> trust_state_activator \<Rightarrow> trust_state_envelope \<Rightarrow> trust_recovery_envelope \<Rightarrow> trust_governance_policy \<Rightarrow>
     u64 \<Rightarrow> trust_state_error + activated_trust_state" where
  "recover_checks T act replacement recovery policy now =
     and_then (activator_open T act) (\<lambda>(current, checkpoint).
     and_then (recovery_verify T recovery policy now) (\<lambda>_.
     and_then (tsenvelope_verify T replacement policy now) (\<lambda>verified.
     let recovery_body = tre_body recovery; replacement_body = vts_body verified in
     and_then (ensure (\<not> (trb_deployment_id recovery_body \<noteq> acp_deployment_id checkpoint
         \<or> tsb_deployment_id replacement_body \<noteq> acp_deployment_id checkpoint
         \<or> trb_recovery_policy_id recovery_body \<noteq> tsb_recovery_policy_id (vts_body current)
         \<or> tsb_recovery_policy_id replacement_body \<noteq> tsb_recovery_policy_id (vts_body current)))
       TS_DeploymentIdentityMismatch) (\<lambda>_.
     and_then (ensure (\<not> (trb_damaged_state_digest recovery_body \<noteq> acp_state_digest checkpoint
         \<or> trb_replacement_state_digest recovery_body \<noteq> tsb_body_digest replacement_body))
       TS_RecoveryStateDigestMismatch) (\<lambda>_.
     and_then (ensure (\<not> trb_recovery_sequence recovery_body \<le> acp_last_recovery_sequence checkpoint) TS_RecoveryReplay) (\<lambda>_.
     let minimum = max (acp_minimum_accepted_revision checkpoint) (trb_minimum_uncompromised_revision recovery_body) in
     and_then (ensure (\<not> (tsb_revision replacement_body < minimum
         \<or> tsb_minimum_accepted_revision replacement_body < minimum
         \<or> tsb_revision replacement_body > trb_maximum_replacement_revision recovery_body))
       TS_RecoveryBelowMinimumRevision) (\<lambda>_.
     and_then (reject_revoked_key_reactivation (rsn_records (tsb_registry (vts_body current)))
       (rsn_records (tsb_registry replacement_body))) (\<lambda>_.
     and_then (checkpoint_from_verified T verified (trb_recovery_sequence recovery_body)) (\<lambda>next_checkpoint.
     Inr \<lparr>ats_verified = verified, ats_checkpoint = next_checkpoint, ats_recovery = Some recovery\<rparr>)))))))))"

definition activator_recover ::
    "trust_env \<Rightarrow> trust_state_activator \<Rightarrow> trust_state_envelope \<Rightarrow> trust_recovery_envelope \<Rightarrow> trust_governance_policy \<Rightarrow>
     u64 \<Rightarrow> (trust_state_error + activated_trust_state) \<times> trust_state_activator" where
  "activator_recover T act replacement recovery policy now =
     accept_state act (recover_checks T act replacement recovery policy now)"

end
