(* ===== verification/TrustActivation.thy ===== *)
theory TrustActivation
  imports TrustState
begin

text \<open>
  Properties of the trust-state activator of \<^verbatim>\<open>TrustState\<close>: an accepted state
  carries a quorum of valid signatures by distinct governance keys, the checkpoint always
  describes the state in force, the state never rolls back below an accepted minimum, a
  recovery is used once and keeps revocations, and what normal activation leaves unchecked.
\<close>

section \<open>What a threshold of signatures proves\<close>

lemma ts_sha256_ok [result_simps]: "ts_sha256 v = Inr u \<longleftrightarrow> is_sha256 v"
  by (simp add: ts_sha256_def result_simps)

lemma ts_identifier_ok [result_simps]: "ts_identifier f v = Inr u \<longleftrightarrow> is_identifier v"
  by (simp add: ts_identifier_def result_simps)

lemma scan_policy_key_ok:
  assumes "scan_policy_key T st k = Inr st'"
  shows "governance_key_validate_seal T k = Inr ()" "tgk_key_id k \<notin> psc_key_ids st" "tgk_public_key_digest k \<notin> psc_public_keys st"
    "psc_key_ids st' = insert (tgk_key_id k) (psc_key_ids st)"
    "psc_public_keys st' = insert (tgk_public_key_digest k) (psc_public_keys st)"
  using assms by (auto simp: scan_policy_key_def and_then_eq_Inr ensure_eq)

lemma scan_policy_keys_ok:
  assumes "try_fold (scan_policy_key T) st ks = Inr st'"
  shows "(\<forall>k\<in>set ks. governance_key_validate_seal T k = Inr ()) \<and>
    distinct (map tgk_key_id ks) \<and> tgk_key_id ` set ks \<inter> psc_key_ids st = {} \<and>
    distinct (map tgk_public_key_digest ks) \<and> tgk_public_key_digest ` set ks \<inter> psc_public_keys st = {}"
  using assms
proof (induction ks arbitrary: st)
  case (Cons k ks)
  then obtain st1 where k: "scan_policy_key T st k = Inr st1" and ks: "try_fold (scan_policy_key T) st1 ks = Inr st'"
    by (auto simp: and_then_eq_Inr)
  from Cons.IH [OF ks] scan_policy_key_ok [OF k] show ?case by auto
qed simp

lemma governance_policy_ok:
  assumes "governance_policy_validate_seal T p = Inr u"
  shows "\<forall>k\<in>set (tgp_keys p). governance_key_validate_seal T k = Inr ()" "distinct (map tgk_key_id (tgp_keys p))"
    "distinct (map tgk_public_key_digest (tgp_keys p))" "0 < unat (tgp_signature_threshold p)"
proof -
  from assms obtain st' where f: "try_fold (scan_policy_key T)
      \<lparr>psc_key_ids = {}, psc_public_keys = {}, psc_previous_key_id = None\<rparr> (tgp_keys p) = Inr st'"
    and th: "tgp_signature_threshold p \<noteq> 0"
    by (auto simp: governance_policy_validate_seal_def and_then_eq_Inr ensure_eq)
  from scan_policy_keys_ok [OF f] show "\<forall>k\<in>set (tgp_keys p). governance_key_validate_seal T k = Inr ()"
    "distinct (map tgk_key_id (tgp_keys p))" "distinct (map tgk_public_key_digest (tgp_keys p))" by simp_all
  show "0 < unat (tgp_signature_threshold p)" using th by (simp add: unat_gt_0)
qed

text \<open>
  A key of the policy vouches for a message if it is valid and one of the signatures carried
  names the key and verifies under it.
\<close>

definition signed_by :: "trust_env \<Rightarrow> u8 list \<Rightarrow> u64 \<Rightarrow> trust_governance_key_record \<Rightarrow> trust_governance_signature \<Rightarrow> bool" where
  "signed_by T message at k s \<longleftrightarrow>
     tgk_status k = TG_Active \<and> tgk_not_before_epoch_s k \<le> at \<and> at < tgk_not_after_epoch_s k \<and>
     (\<exists>bytes vk signature. decode_fixed T 64 (tgs_signature_base64url s) = Inr bytes \<and>
        sig_from_slice (tv_crypto T) bytes = Some signature \<and> governance_verifying_key T k = Inr vk \<and>
        sig_verify (tv_crypto T) vk message signature)"

definition vouches ::
    "trust_env \<Rightarrow> trust_governance_signature list \<Rightarrow> u8 list \<Rightarrow> u64 \<Rightarrow> trust_governance_key_record \<Rightarrow> bool" where
  "vouches T sigs message at k \<longleftrightarrow> (\<exists>s\<in>set sigs. tgs_key_id s = tgk_key_id k \<and> signed_by T message at k s)"

definition governance_quorum ::
    "trust_env \<Rightarrow> trust_governance_policy \<Rightarrow> trust_governance_signature list \<Rightarrow> u8 list \<Rightarrow> u64 \<Rightarrow> bool" where
  "governance_quorum T p sigs message at \<longleftrightarrow>
     (\<exists>Q \<subseteq> set (tgp_keys p). unat (tgp_signature_threshold p) \<le> card Q \<and> Q \<noteq> {} \<and>
        inj_on tgk_public_key_digest Q \<and> (\<forall>k\<in>Q. vouches T sigs message at k))"

lemma valid_for_signature_at_ok:
  "valid_for_signature_at T k at = Inr u \<longleftrightarrow> governance_key_validate_seal T k = Inr () \<and>
     tgk_status k = TG_Active \<and> tgk_not_before_epoch_s k \<le> at \<and> at < tgk_not_after_epoch_s k"
  by (cases "tgk_status k") (auto simp: valid_for_signature_at_def result_simps not_less not_le)

lemma verify_one_signature_ok:
  assumes "verify_one_signature T records message digest at ids s = Inr ids'"
  shows "ids' = insert (tgs_key_id s) ids" "\<exists>k. map_of records (tgs_key_id s) = Some k \<and> signed_by T message at k s"
  using assms by (auto simp: verify_one_signature_def signed_by_def and_then_eq_Inr ensure_eq map_err_eq ok_or_eq
      valid_for_signature_at_ok)

lemma verify_signature_fold_ok:
  assumes "try_fold (verify_one_signature T records message digest at) ids sigs = Inr ids'"
  shows "ids' = ids \<union> tgs_key_id ` set sigs \<and>
    (\<forall>s\<in>set sigs. \<exists>k. map_of records (tgs_key_id s) = Some k \<and> signed_by T message at k s)"
  using assms
proof (induction sigs arbitrary: ids)
  case (Cons s sigs)
  then obtain ids1 where s: "verify_one_signature T records message digest at ids s = Inr ids1"
    and rest: "try_fold (verify_one_signature T records message digest at) ids1 sigs = Inr ids'"
    by (auto simp: and_then_eq_Inr)
  from Cons.IH [OF rest] verify_one_signature_ok [OF s] show ?case by auto
qed simp

lemma verify_signatures_quorum:
  assumes "verify_signatures T p domain digest at sigs = Inr u"
  shows "governance_policy_validate_seal T p = Inr ()"
    "\<exists>message. signature_message domain digest = Inr message \<and> governance_quorum T p sigs message at"
proof -
  let ?records = "bm_collect (map (\<lambda>k. (tgk_key_id k, k)) (tgp_keys p))"
  from assms obtain message ids where p: "governance_policy_validate_seal T p = Inr ()" and nonempty: "sigs \<noteq> []"
    and m: "signature_message domain digest = Inr message"
    and f: "try_fold (verify_one_signature T ?records message digest at) {} sigs = Inr ids"
    and th: "unat (tgp_signature_threshold p) \<le> card ids"
    unfolding verify_signatures_def Let_def by (auto simp: and_then_eq_Inr ensure_eq not_less)
  show "governance_policy_validate_seal T p = Inr ()" by fact
  note pol = governance_policy_ok [OF p] and fold = verify_signature_fold_ok [OF f]
  have lookup: "map_of ?records i = Some k \<longleftrightarrow> k \<in> set (tgp_keys p) \<and> tgk_key_id k = i" for i k
  proof -
    have d: "distinct (map fst (map (\<lambda>k. (tgk_key_id k, k)) (tgp_keys p)))" using pol(2) by (simp add: comp_def)
    show ?thesis unfolding map_of_bm_collect map_of_rev_distinct [OF d] using map_of_eq_Some_iff [OF d] by auto
  qed
  let ?Q = "{k \<in> set (tgp_keys p). tgk_key_id k \<in> ids}"
  have ids: "ids = tgs_key_id ` set sigs" using fold by simp
  have "tgk_key_id ` ?Q = ids"
  proof
    show "ids \<subseteq> tgk_key_id ` ?Q"
    proof
      fix i assume i: "i \<in> ids"
      then obtain s where "s \<in> set sigs" "i = tgs_key_id s" unfolding ids by blast
      with fold obtain k where "k \<in> set (tgp_keys p)" "tgk_key_id k = i" unfolding lookup by blast
      with i show "i \<in> tgk_key_id ` ?Q" by blast
    qed
  qed auto
  moreover have inj: "inj_on tgk_key_id (set (tgp_keys p))" using pol(2) by (simp add: distinct_map)
  then have "inj_on tgk_key_id ?Q" by (rule inj_on_subset) auto
  ultimately have card: "card ?Q = card ids" by (simp add: card_image [symmetric])
  have v: "vouches T sigs message at k" if "k \<in> ?Q" for k
  proof -
    from that obtain s where s: "s \<in> set sigs" "tgs_key_id s = tgk_key_id k" unfolding ids by auto
    with fold obtain k' where k': "map_of ?records (tgk_key_id k) = Some k'" "signed_by T message at k' s" by fastforce
    have "map_of ?records (tgk_key_id k) = Some k" using lookup that by blast
    then show ?thesis using s k' unfolding vouches_def by (intro bexI [of _ s]) simp_all
  qed
  have "inj_on tgk_public_key_digest ?Q"
    using pol(3) unfolding distinct_map by (auto intro: inj_on_subset)
  moreover have "?Q \<noteq> {}"
  proof
    assume "?Q = {}"
    then have "card ids = 0" using card by (simp only: card.empty)
    then show False using th pol(4) by simp
  qed
  ultimately have "governance_quorum T p sigs message at"
    unfolding governance_quorum_def using card th v by (intro exI [of _ ?Q]) auto
  with m show "\<exists>message. signature_message domain digest = Inr message \<and> governance_quorum T p sigs message at" by blast
qed

text \<open>The two signing domains are separate: no message of one is a message of the other.\<close>

lemma signature_message_ok:
  "signature_message domain digest = Inr message \<longleftrightarrow>
     (\<exists>bytes. length bytes = 32 \<and> digest = encode_hex bytes \<and> message = domain @ [0] @ bytes)"
proof -
  have "ts_decode_sha256 v = Inr bytes \<longleftrightarrow> length bytes = 32 \<and> v = encode_hex bytes" for v bytes
  proof -
    have "ts_decode_sha256 v = Inr bytes \<longleftrightarrow> pq_decode_sha256 v = Inr bytes"
      by (auto simp: ts_decode_sha256_def pq_decode_sha256_def result_simps)
    then show ?thesis by (simp add: pq_decode_sha256_ok)
  qed
  then show ?thesis by (auto simp: signature_message_def and_then_eq_Inr)
qed

lemma signature_domains_separate:
  assumes "trust_state_signature_message a = Inr m" "trust_recovery_signature_message b = Inr n"
  shows "m \<noteq> n"
proof -
  from assms have "length m = length TRUST_STATE_SIGNATURE_DOMAIN + 33" "length n = length TRUST_RECOVERY_SIGNATURE_DOMAIN + 33"
    by (auto simp: trust_state_signature_message_def trust_recovery_signature_message_def signature_message_ok)
  then show ?thesis by (auto simp: TRUST_STATE_SIGNATURE_DOMAIN_def TRUST_RECOVERY_SIGNATURE_DOMAIN_def)
qed

section \<open>What an accepted state is\<close>

lemma tsenvelope_verify_ok:
  assumes "tsenvelope_verify T e policy now = Inr v"
  shows "vts_envelope v = e" "body_validate_shape T (tse_body e) = Inr ()" "governance_policy_validate_seal T policy = Inr ()"
    "tse_governance_policy_digest e = tgp_policy_digest policy"
    "tsb_not_before_epoch_s (tse_body e) \<le> now" "now < tsb_not_after_epoch_s (tse_body e)"
    "verify_signatures T policy TRUST_STATE_SIGNATURE_DOMAIN (tsb_body_digest (tse_body e))
       (tsb_activated_at_epoch_s (tse_body e)) (tse_signatures e) = Inr ()"
    "from_snapshot (tv_keys T) (tsb_registry (tse_body e)) = Inr (vts_registry v)"
    "tsbinding_from_parts T e = Inr (vts_binding v)"
  using assms by (auto simp: tsenvelope_verify_def and_then_eq_Inr ensure_eq map_err_eq not_less not_le)

lemma body_validate_shape_ok:
  assumes "body_validate_shape T b = Inr u"
  shows "tsb_revision b \<noteq> 0" "tsb_minimum_accepted_revision b \<le> tsb_revision b" "tsb_minimum_accepted_revision b \<noteq> 0"
    "snapshot_digest (tv_keys T) (tsb_registry b) = Inr (tsb_registry_digest b)"
    "body_expected_digest T b = Inr (tsb_body_digest b)"
    "tsb_previous_state_digest b = None \<longleftrightarrow> tsb_revision b = 1"
  using assms by (auto simp: body_validate_shape_def previous_binding_check_def and_then_eq_Inr ensure_eq map_err_eq not_less
      split: option.splits if_splits)

definition checkpoint_of :: "verified_trust_state \<Rightarrow> u64 \<Rightarrow> accepted_trust_checkpoint \<Rightarrow> bool" where
  "checkpoint_of v sequence c \<longleftrightarrow>
     acp_deployment_id c = tsb_deployment_id (vts_body v) \<and> acp_revision c = tsb_revision (vts_body v) \<and>
     acp_state_digest c = tsb_body_digest (vts_body v) \<and> acp_envelope_digest c = tse_envelope_digest (vts_envelope v) \<and>
     acp_registry_revision c = rsn_revision (tsb_registry (vts_body v)) \<and>
     acp_registry_digest c = tsb_registry_digest (vts_body v) \<and>
     acp_caller_allowlist_revision c = tsb_caller_allowlist_revision (vts_body v) \<and>
     acp_service_policy_revision c = tsb_service_policy_revision (vts_body v) \<and>
     acp_minimum_accepted_revision c = tsb_minimum_accepted_revision (vts_body v) \<and>
     acp_last_recovery_sequence c = sequence"

lemma checkpoint_from_verified_ok:
  assumes "checkpoint_from_verified T v sequence = Inr c"
  shows "checkpoint_validate_seal T c = Inr ()" "checkpoint_of v sequence c"
proof -
  from assms show "checkpoint_validate_seal T c = Inr ()"
    unfolding checkpoint_from_verified_def Let_def by (auto simp: and_then_eq_Inr)
  from assms show "checkpoint_of v sequence c"
    unfolding checkpoint_from_verified_def Let_def checkpoint_of_def by (auto simp: and_then_eq_Inr)
qed

lemma validate_checkpoint_matches_ok:
  "validate_checkpoint_matches v c = Inr u \<longleftrightarrow> checkpoint_of v (acp_last_recovery_sequence c) c"
  by (auto simp: validate_checkpoint_matches_def checkpoint_of_def Let_def ensure_eq)

text \<open>
  A state is accepted when some sealed policy gave it a quorum of signatures, its registry
  loads, and the checkpoint describes it.
\<close>

definition accepted_ok :: "trust_env \<Rightarrow> verified_trust_state \<Rightarrow> accepted_trust_checkpoint \<Rightarrow> bool" where
  "accepted_ok T v c \<longleftrightarrow> checkpoint_validate_seal T c = Inr () \<and> checkpoint_of v (acp_last_recovery_sequence c) c \<and>
     (\<exists>policy now. tsenvelope_verify T (vts_envelope v) policy now = Inr v)"

definition activator_ok :: "trust_env \<Rightarrow> trust_state_activator \<Rightarrow> bool" where
  "activator_ok T act \<longleftrightarrow>
     (case (tsa_current act, tsa_checkpoint act) of
        (None, None) \<Rightarrow> True | (Some v, Some c) \<Rightarrow> accepted_ok T v c | _ \<Rightarrow> False)"

lemma activator_open_ok:
  "activator_open T act = Inr (v, c) \<longleftrightarrow>
     tsa_current act = Some v \<and> tsa_checkpoint act = Some c \<and> checkpoint_validate_seal T c = Inr () \<and>
     checkpoint_of v (acp_last_recovery_sequence c) c"
  by (auto simp: activator_open_def and_then_eq_Inr ok_or_eq validate_checkpoint_matches_ok)

text \<open>What each operation requires of the state it accepts.\<close>

lemma bootstrap_checks_ok:
  assumes "bootstrap_checks T act e policy x now = Inr a"
  shows "tsa_current act = None" "tsa_checkpoint act = None"
    "tsenvelope_verify T e policy now = Inr (ats_verified a)" "tsb_revision (tse_body e) = 1"
    "tse_envelope_digest e = obe_expected_envelope_digest x" "tgp_policy_digest policy = obe_expected_governance_policy_digest x"
    "checkpoint_from_verified T (ats_verified a) 0 = Inr (ats_checkpoint a)"
  using assms tsenvelope_verify_ok(1) by (auto simp: bootstrap_checks_def vts_body_def and_then_eq_Inr ensure_eq Let_def)

lemma activate_checks_ok:
  assumes "activate_checks T act e policy now = Inr a"
  shows "\<exists>v c. tsa_current act = Some v \<and> tsa_checkpoint act = Some c \<and>
    checkpoint_of v (acp_last_recovery_sequence c) c \<and>
    tsenvelope_verify T e policy now = Inr (ats_verified a) \<and>
    tsb_deployment_id (tse_body e) = acp_deployment_id c \<and> tsb_revision (tse_body e) = saturating_add (acp_revision c) 1 \<and>
    tsb_previous_state_digest (tse_body e) = Some (acp_state_digest c) \<and>
    acp_minimum_accepted_revision c \<le> tsb_minimum_accepted_revision (tse_body e) \<and>
    acp_registry_revision c \<le> rsn_revision (tsb_registry (tse_body e)) \<and>
    acp_caller_allowlist_revision c \<le> tsb_caller_allowlist_revision (tse_body e) \<and>
    acp_service_policy_revision c \<le> tsb_service_policy_revision (tse_body e) \<and>
    checkpoint_from_verified T (ats_verified a) (acp_last_recovery_sequence c) = Inr (ats_checkpoint a)"
proof -
  from assms obtain v c w where o: "activator_open T act = Inr (v, c)" and w: "tsenvelope_verify T e policy now = Inr w"
    and rest: "tsb_deployment_id (vts_body w) = acp_deployment_id c" "tsb_revision (vts_body w) = saturating_add (acp_revision c) 1"
      "tsb_previous_state_digest (vts_body w) = Some (acp_state_digest c)"
      "\<not> (tsb_minimum_accepted_revision (vts_body w) < acp_minimum_accepted_revision c
         \<or> rsn_revision (tsb_registry (vts_body w)) < acp_registry_revision c
         \<or> tsb_caller_allowlist_revision (vts_body w) < acp_caller_allowlist_revision c
         \<or> tsb_service_policy_revision (vts_body w) < acp_service_policy_revision c)"
      "\<exists>c'. checkpoint_from_verified T w (acp_last_recovery_sequence c) = Inr c' \<and>
         a = \<lparr>ats_verified = w, ats_checkpoint = c', ats_recovery = None\<rparr>"
    unfolding activate_checks_def Let_def by (auto simp: and_then_eq_Inr ensure_eq)
  have "vts_body w = tse_body e" using tsenvelope_verify_ok(1) [OF w] by (simp add: vts_body_def)
  with rest o w show ?thesis by (auto simp: activator_open_ok not_less)
qed

lemma recover_checks_ok:
  assumes "recover_checks T act e recovery policy now = Inr a"
  shows "\<exists>v c. tsa_current act = Some v \<and> tsa_checkpoint act = Some c \<and>
    checkpoint_of v (acp_last_recovery_sequence c) c \<and>
    recovery_verify T recovery policy now = Inr () \<and> tsenvelope_verify T e policy now = Inr (ats_verified a) \<and>
    tsb_deployment_id (tse_body e) = acp_deployment_id c \<and>
    trb_damaged_state_digest (tre_body recovery) = acp_state_digest c \<and>
    trb_replacement_state_digest (tre_body recovery) = tsb_body_digest (tse_body e) \<and>
    acp_last_recovery_sequence c < trb_recovery_sequence (tre_body recovery) \<and>
    acp_minimum_accepted_revision c \<le> tsb_revision (tse_body e) \<and>
    trb_minimum_uncompromised_revision (tre_body recovery) \<le> tsb_revision (tse_body e) \<and>
    tsb_revision (tse_body e) \<le> trb_maximum_replacement_revision (tre_body recovery) \<and>
    acp_minimum_accepted_revision c \<le> tsb_minimum_accepted_revision (tse_body e) \<and>
    reject_revoked_key_reactivation (rsn_records (tsb_registry (vts_body v))) (rsn_records (tsb_registry (tse_body e))) = Inr () \<and>
    checkpoint_from_verified T (ats_verified a) (trb_recovery_sequence (tre_body recovery)) = Inr (ats_checkpoint a)"
proof -
  from assms obtain v c w where o: "activator_open T act = Inr (v, c)" and w: "tsenvelope_verify T e policy now = Inr w"
    and r: "recovery_verify T recovery policy now = Inr ()"
    and rest: "tsb_deployment_id (vts_body w) = acp_deployment_id c"
      "trb_damaged_state_digest (tre_body recovery) = acp_state_digest c"
      "trb_replacement_state_digest (tre_body recovery) = tsb_body_digest (vts_body w)"
      "\<not> trb_recovery_sequence (tre_body recovery) \<le> acp_last_recovery_sequence c"
      "\<not> (tsb_revision (vts_body w) < max (acp_minimum_accepted_revision c) (trb_minimum_uncompromised_revision (tre_body recovery))
         \<or> tsb_minimum_accepted_revision (vts_body w) < max (acp_minimum_accepted_revision c) (trb_minimum_uncompromised_revision (tre_body recovery))
         \<or> tsb_revision (vts_body w) > trb_maximum_replacement_revision (tre_body recovery))"
      "reject_revoked_key_reactivation (rsn_records (tsb_registry (vts_body v))) (rsn_records (tsb_registry (vts_body w))) = Inr ()"
      "\<exists>c'. checkpoint_from_verified T w (trb_recovery_sequence (tre_body recovery)) = Inr c' \<and>
         a = \<lparr>ats_verified = w, ats_checkpoint = c', ats_recovery = Some recovery\<rparr>"
    unfolding recover_checks_def Let_def by (auto simp: and_then_eq_Inr ensure_eq)
  have "vts_body w = tse_body e" using tsenvelope_verify_ok(1) [OF w] by (simp add: vts_body_def)
  with rest o w r show ?thesis by (auto simp: activator_open_ok not_less)
qed

section \<open>Histories of the activator\<close>

inductive activator_step :: "trust_env \<Rightarrow> trust_state_activator \<Rightarrow> trust_state_activator \<Rightarrow> bool"
  for T where
  bootstrap: "activator_step T act (snd (activator_bootstrap T act e policy x now))"
| activate: "activator_step T act (snd (activator_activate T act e policy now))"
| recover: "activator_step T act (snd (activator_recover T act e recovery policy now))"

lemma accept_state_cases:
  obtains (refused) err where "accept_state act outcome = (Inl err, act)" "outcome = Inl err"
  | (accepted) a where "accept_state act outcome =
      (Inr a, \<lparr>tsa_current = Some (ats_verified a), tsa_checkpoint = Some (ats_checkpoint a)\<rparr>)" "outcome = Inr a"
  by (cases outcome) (auto simp: accept_state_def)

text \<open>Every step either leaves the activator as it was or installs a state that its checks admit.\<close>

lemma activator_step_cases:
  assumes "activator_step T act act'"
  obtains (same) "act' = act"
  | (bootstrapped) a e policy x now where "bootstrap_checks T act e policy x now = Inr a"
      "act' = \<lparr>tsa_current = Some (ats_verified a), tsa_checkpoint = Some (ats_checkpoint a)\<rparr>"
  | (activated) a e policy now where "activate_checks T act e policy now = Inr a"
      "act' = \<lparr>tsa_current = Some (ats_verified a), tsa_checkpoint = Some (ats_checkpoint a)\<rparr>"
  | (recovered) a e recovery policy now where "recover_checks T act e recovery policy now = Inr a"
      "act' = \<lparr>tsa_current = Some (ats_verified a), tsa_checkpoint = Some (ats_checkpoint a)\<rparr>"
  using assms
proof cases
  case (bootstrap e policy x now)
  then show thesis unfolding activator_bootstrap_def
    by (cases rule: accept_state_cases [of act "bootstrap_checks T act e policy x now"]) (use that in auto)
next
  case (activate e policy now)
  then show thesis unfolding activator_activate_def
    by (cases rule: accept_state_cases [of act "activate_checks T act e policy now"]) (use that in auto)
next
  case (recover e recovery policy now)
  then show thesis unfolding activator_recover_def
    by (cases rule: accept_state_cases [of act "recover_checks T act e recovery policy now"]) (use that in auto)
qed

lemma accepted_okI:
  assumes "tsenvelope_verify T e policy now = Inr v" "checkpoint_from_verified T v sequence = Inr c"
  shows "accepted_ok T v c"
proof -
  from checkpoint_from_verified_ok [OF assms(2)] have "checkpoint_of v (acp_last_recovery_sequence c) c"
    by (simp add: checkpoint_of_def)
  then show ?thesis
    using checkpoint_from_verified_ok [OF assms(2)] assms(1) tsenvelope_verify_ok(1) [OF assms(1)]
    unfolding accepted_ok_def by blast
qed

lemma activator_step_ok:
  assumes "activator_ok T act" "activator_step T act act'"
  shows "activator_ok T act'"
  using assms(2)
proof (cases rule: activator_step_cases)
  case (bootstrapped a e policy x now)
  then show ?thesis
    using accepted_okI [OF bootstrap_checks_ok(3,7) [OF bootstrapped(1)]] by (simp add: activator_ok_def)
next
  case (activated a e policy now)
  from activate_checks_ok [OF activated(1)] have "accepted_ok T (ats_verified a) (ats_checkpoint a)"
    using accepted_okI by blast
  then show ?thesis by (simp add: activator_ok_def activated(2))
next
  case (recovered a e recovery policy now)
  from recover_checks_ok [OF recovered(1)] have "accepted_ok T (ats_verified a) (ats_checkpoint a)"
    using accepted_okI by blast
  then show ?thesis by (simp add: activator_ok_def recovered(2))
qed (use assms(1) in simp)

interpretation activator: state_machine "activator_step T" "activator_ok T" for T
  by unfold_locales (rule activator_step_ok)

text \<open>What an accepted state may be followed by.\<close>

definition checkpoint_follows :: "accepted_trust_checkpoint \<Rightarrow> accepted_trust_checkpoint \<Rightarrow> bool" where
  "checkpoint_follows c c' \<longleftrightarrow>
     acp_deployment_id c' = acp_deployment_id c \<and>
     acp_minimum_accepted_revision c \<le> acp_minimum_accepted_revision c' \<and>
     acp_minimum_accepted_revision c \<le> acp_revision c' \<and>
     acp_last_recovery_sequence c \<le> acp_last_recovery_sequence c'"

definition activator_progress :: "trust_env \<Rightarrow> trust_state_activator \<Rightarrow> trust_state_activator \<Rightarrow> bool" where
  "activator_progress T act act' \<longleftrightarrow>
     (\<forall>c. tsa_checkpoint act = Some c \<longrightarrow> (\<exists>c'. tsa_checkpoint act' = Some c' \<and> (c' = c \<or> checkpoint_follows c c')))"

lemma checkpoint_follows_trans: "checkpoint_follows a b \<Longrightarrow> checkpoint_follows b c \<Longrightarrow> checkpoint_follows a c"
  unfolding checkpoint_follows_def by (auto intro: order_trans)

lemma activator_step_progress:
  assumes "activator_step T act act'"
  shows "activator_progress T act act'"
  using assms
proof (cases rule: activator_step_cases)
  case (bootstrapped a e policy x now)
  then show ?thesis using bootstrap_checks_ok(2) [OF bootstrapped(1)] by (simp add: activator_progress_def)
next
  case (activated a e policy now)
  from activate_checks_ok [OF activated(1)] obtain c where c: "tsa_checkpoint act = Some c"
    "tsenvelope_verify T e policy now = Inr (ats_verified a)" "tsb_deployment_id (tse_body e) = acp_deployment_id c"
    "acp_minimum_accepted_revision c \<le> tsb_minimum_accepted_revision (tse_body e)"
    "checkpoint_from_verified T (ats_verified a) (acp_last_recovery_sequence c) = Inr (ats_checkpoint a)" by blast
  note v = tsenvelope_verify_ok [OF c(2)]
  have "checkpoint_follows c (ats_checkpoint a)"
    using checkpoint_from_verified_ok(2) [OF c(5)] c(3,4) body_validate_shape_ok(2) [OF v(2)] v(1)
    by (auto simp: checkpoint_follows_def checkpoint_of_def vts_body_def)
  then show ?thesis using c(1) by (simp add: activator_progress_def activated(2))
next
  case (recovered a e recovery policy now)
  from recover_checks_ok [OF recovered(1)] obtain c where c: "tsa_checkpoint act = Some c"
    "tsenvelope_verify T e policy now = Inr (ats_verified a)" "tsb_deployment_id (tse_body e) = acp_deployment_id c"
    "acp_minimum_accepted_revision c \<le> tsb_minimum_accepted_revision (tse_body e)"
    "acp_minimum_accepted_revision c \<le> tsb_revision (tse_body e)"
    "acp_last_recovery_sequence c < trb_recovery_sequence (tre_body recovery)"
    "checkpoint_from_verified T (ats_verified a) (trb_recovery_sequence (tre_body recovery)) = Inr (ats_checkpoint a)" by blast
  have "checkpoint_follows c (ats_checkpoint a)"
    using checkpoint_from_verified_ok(2) [OF c(7)] c(3-6) tsenvelope_verify_ok(1) [OF c(2)]
    by (auto simp: checkpoint_follows_def checkpoint_of_def vts_body_def)
  then show ?thesis using c(1) by (simp add: activator_progress_def recovered(2))
qed (simp add: activator_progress_def)

lemma activator_steps_progress:
  assumes "(activator_step T)\<^sup>*\<^sup>* act act'" "activator_ok T act"
  shows "activator_progress T act act'"
  using assms
proof (rule activator.steps_monotone)
  show "reflp (activator_progress T)" by (simp add: reflp_def activator_progress_def)
  show "transp (activator_progress T)"
  proof (rule transpI, unfold activator_progress_def, intro allI impI)
    fix x y z c
    assume xy: "\<forall>c. tsa_checkpoint x = Some c \<longrightarrow> (\<exists>c'. tsa_checkpoint y = Some c' \<and> (c' = c \<or> checkpoint_follows c c'))"
      and yz: "\<forall>c. tsa_checkpoint y = Some c \<longrightarrow> (\<exists>c'. tsa_checkpoint z = Some c' \<and> (c' = c \<or> checkpoint_follows c c'))"
      and x: "tsa_checkpoint x = Some c"
    from xy x obtain d where d: "tsa_checkpoint y = Some d" "d = c \<or> checkpoint_follows c d" by blast
    with yz obtain e where "tsa_checkpoint z = Some e" "e = d \<or> checkpoint_follows d e" by blast
    with d(2) checkpoint_follows_trans show "\<exists>c'. tsa_checkpoint z = Some c' \<and> (c' = c \<or> checkpoint_follows c c')" by blast
  qed
qed (rule activator_step_progress)

lemma activator_ok_default: "activator_ok T activator_default"
  by (simp add: activator_ok_def activator_default_def)

text \<open>A recovery keeps every revoked generation revoked, with its key and its reason.\<close>

lemma reject_revoked_ok:
  assumes "reject_revoked_key_reactivation rs rs' = Inr u" "r \<in> set rs" "kr_status r = PK_Revoked"
  shows "\<exists>r'. find (\<lambda>s. kr_identity s = kr_identity r \<and> kr_generation s = kr_generation r) rs' = Some r' \<and>
    kr_status r' = PK_Revoked \<and> kr_public_key_digest r' = kr_public_key_digest r \<and>
    kr_revocation_reason_digest r' = kr_revocation_reason_digest r"
  using assms unfolding reject_revoked_key_reactivation_def try_for_each_eq_Inr
  by (auto simp: ensure_eq split: option.splits)

section \<open>Properties\<close>

text \<open>
  A deployment with one governance key, for the examples. Its states carry the snapshot of
  a registry and differ in their revision.
\<close>

definition demo_trust_env :: trust_env where
  "demo_trust_env = \<lparr>tv_keys = demo_keys_env, tv_crypto = demo_ed25519, tv_key_value = (\<lambda>_. Inr (JObject [])),
     tv_policy_value = (\<lambda>_. Inr (JObject [])), tv_body_value = (\<lambda>_. Inr (JObject [])),
     tv_envelope_value = (\<lambda>_. Inr (JObject [])), tv_binding_value = (\<lambda>_. Inr (JObject [])),
     tv_checkpoint_value = (\<lambda>_. Inr (JObject [])), tv_expectation_value = (\<lambda>_. Inr (JObject [])),
     tv_recovery_body_value = (\<lambda>_. Inr (JObject [])), tv_recovery_envelope_value = (\<lambda>_. Inr (JObject []))\<rparr>"

definition demo_governance_key :: trust_governance_key_record where
  "demo_governance_key = \<lparr>tgk_schema_version = TRUST_GOVERNANCE_KEY_SCHEMA, tgk_key_id = ''root'',
     tgk_public_key_base64url = b64_encode demo_base64 (replicate 32 7),
     tgk_public_key_digest = sha256_hex demo_prod_hasher (replicate 32 7), tgk_status = TG_Active,
     tgk_not_before_epoch_s = 1, tgk_not_after_epoch_s = 1000, tgk_revoked_at_epoch_s = None,
     tgk_revocation_reason_digest = None, tgk_record_digest = demo_zero_digest\<rparr>"

definition demo_governance_policy :: trust_governance_policy where
  "demo_governance_policy = \<lparr>tgp_schema_version = TRUST_GOVERNANCE_POLICY_SCHEMA, tgp_policy_id = ''policy'',
     tgp_revision = 1, tgp_signature_threshold = 1, tgp_keys = [demo_governance_key], tgp_policy_digest = demo_zero_digest\<rparr>"

definition demo_governance_signature :: "u8 list \<Rightarrow> trust_governance_signature" where
  "demo_governance_signature domain = \<lparr>tgs_schema_version = TRUST_GOVERNANCE_SIGNATURE_SCHEMA, tgs_key_id = ''root'',
     tgs_algorithm = GOVERNANCE_ALGORITHM, tgs_signed_digest = demo_zero_digest,
     tgs_signature_base64url = b64_encode demo_base64 (demo_checksum (replicate 32 7) (domain @ [0] @ replicate 32 0))\<rparr>"

definition demo_body :: "production_key_registry_snapshot \<Rightarrow> u64 \<Rightarrow> string option \<Rightarrow> trust_state_body" where
  "demo_body snap revision previous = \<lparr>tsb_schema_version = PRODUCTION_TRUST_STATE_BODY_SCHEMA,
     tsb_deployment_id = ''deployment'', tsb_revision = revision, tsb_previous_state_digest = previous,
     tsb_registry = snap, tsb_registry_digest = demo_zero_digest, tsb_caller_allowlist_revision = 1,
     tsb_caller_allowlist_digest = demo_zero_digest, tsb_signer_service_executable_digest = demo_zero_digest,
     tsb_service_policy_revision = 1, tsb_service_policy_digest = demo_zero_digest, tsb_activated_at_epoch_s = 50,
     tsb_not_before_epoch_s = 10, tsb_not_after_epoch_s = 500, tsb_minimum_accepted_revision = 1,
     tsb_recovery_policy_id = ''recovery'', tsb_body_digest = demo_zero_digest\<rparr>"

definition demo_envelope_of :: "trust_state_body \<Rightarrow> trust_state_envelope" where
  "demo_envelope_of body = \<lparr>tse_schema_version = PRODUCTION_TRUST_STATE_ENVELOPE_SCHEMA, tse_body = body,
     tse_governance_policy_digest = demo_zero_digest,
     tse_signatures = [demo_governance_signature TRUST_STATE_SIGNATURE_DOMAIN], tse_envelope_digest = demo_zero_digest\<rparr>"

lemma demo_trust_sel [simp]:
  "tv_keys demo_trust_env = demo_keys_env" "tv_crypto demo_trust_env = demo_ed25519"
  "digest_with_blank_field demo_trust_env f (Inr (JObject [])) = Inr demo_zero_digest"
  "governance_key_expected_digest demo_trust_env k = Inr demo_zero_digest"
  "policy_expected_digest demo_trust_env p = Inr demo_zero_digest"
  "body_expected_digest demo_trust_env b = Inr demo_zero_digest"
  "tsbinding_expected_digest demo_trust_env x = Inr demo_zero_digest"
  "tsenvelope_expected_digest demo_trust_env e = Inr demo_zero_digest"
  "checkpoint_expected_digest demo_trust_env c = Inr demo_zero_digest"
  "expectation_expected_digest demo_trust_env y = Inr demo_zero_digest"
  "recovery_body_expected_digest demo_trust_env r = Inr demo_zero_digest"
  "recovery_expected_digest demo_trust_env z = Inr demo_zero_digest"
  "tv_body_value demo_trust_env b = Inr (JObject [])"
proof -
  show k [simp]: "tv_keys demo_trust_env = demo_keys_env" "tv_crypto demo_trust_env = demo_ed25519"
    "tv_body_value demo_trust_env b = Inr (JObject [])"
    by (simp_all add: demo_trust_env_def)
  show d [simp]: "digest_with_blank_field demo_trust_env f (Inr (JObject [])) = Inr demo_zero_digest" for f
    by (simp add: digest_with_blank_field_def)
  have [simp]: "tv_key_value demo_trust_env = (\<lambda>_. Inr (JObject []))" "tv_policy_value demo_trust_env = (\<lambda>_. Inr (JObject []))"
    "tv_body_value demo_trust_env = (\<lambda>_. Inr (JObject []))" "tv_binding_value demo_trust_env = (\<lambda>_. Inr (JObject []))"
    "tv_envelope_value demo_trust_env = (\<lambda>_. Inr (JObject []))" "tv_checkpoint_value demo_trust_env = (\<lambda>_. Inr (JObject []))"
    "tv_expectation_value demo_trust_env = (\<lambda>_. Inr (JObject []))" "tv_recovery_body_value demo_trust_env = (\<lambda>_. Inr (JObject []))"
    "tv_recovery_envelope_value demo_trust_env = (\<lambda>_. Inr (JObject []))"
    by (simp_all add: demo_trust_env_def)
  show "governance_key_expected_digest demo_trust_env k = Inr demo_zero_digest"
    "policy_expected_digest demo_trust_env p = Inr demo_zero_digest"
    "body_expected_digest demo_trust_env b = Inr demo_zero_digest"
    "tsbinding_expected_digest demo_trust_env x = Inr demo_zero_digest"
    "tsenvelope_expected_digest demo_trust_env e = Inr demo_zero_digest"
    "checkpoint_expected_digest demo_trust_env c = Inr demo_zero_digest"
    "expectation_expected_digest demo_trust_env y = Inr demo_zero_digest"
    "recovery_body_expected_digest demo_trust_env r = Inr demo_zero_digest"
    "recovery_expected_digest demo_trust_env z = Inr demo_zero_digest"
    by (simp_all add: governance_key_expected_digest_def policy_expected_digest_def body_expected_digest_def
        tsbinding_expected_digest_def tsenvelope_expected_digest_def checkpoint_expected_digest_def
        expectation_expected_digest_def recovery_body_expected_digest_def recovery_expected_digest_def)
qed

lemma demo_decode_fixed [simp]:
  "decode_fixed demo_trust_env (length bytes) (b64_encode demo_base64 bytes) = Inr bytes"
  by (simp add: decode_fixed_def)

lemma demo_names [simp]:
  "is_identifier ''root''" "is_identifier ''policy''" "is_identifier ''deployment''" "is_identifier ''recovery''"
  by (simp_all add: is_identifier_def is_ascii_alphanumeric_def)

lemma ts_checks_simp [simp]: "is_sha256 d \<Longrightarrow> ts_sha256 d = Inr ()" "is_identifier v \<Longrightarrow> ts_identifier f v = Inr ()"
  by (simp_all add: ts_sha256_def ts_identifier_def prod_validate_identifier_def)

lemma demo_governance_key_sealed [simp]:
  "governance_key_validate_seal demo_trust_env demo_governance_key = Inr ()"
  "governance_verifying_key demo_trust_env demo_governance_key = Inr (replicate 32 7)"
  using demo_decode_fixed [of "replicate 32 7"]
  by (simp_all add: governance_key_validate_seal_def governance_verifying_key_def governance_key_state_check_def
      demo_governance_key_def del: demo_decode_fixed) (simp_all add: demo_ed25519_def)

lemma demo_policy_sealed [simp]: "governance_policy_validate_seal demo_trust_env demo_governance_policy = Inr ()"
  by (simp add: governance_policy_validate_seal_def demo_governance_policy_def scan_policy_key_def)

lemma demo_signatures [simp]:
  assumes "1 \<le> at" "at < 1000"
  shows "verify_signatures demo_trust_env demo_governance_policy domain demo_zero_digest at [demo_governance_signature domain] = Inr ()"
proof -
  have m: "signature_message domain demo_zero_digest = Inr (domain @ [0] @ replicate 32 0)"
    unfolding signature_message_ok by (rule exI [of _ "replicate 32 0"]) (simp add: demo_zero_digest_bytes)
  let ?s = "demo_checksum (replicate 32 7) (domain @ [0] @ replicate 32 0)"
  have "length ?s = 64" by (simp add: demo_checksum_def)
  then have s: "decode_fixed demo_trust_env 64 (b64_encode demo_base64 ?s) = Inr ?s" using demo_decode_fixed [of ?s] by simp
  have v: "valid_for_signature_at demo_trust_env demo_governance_key at = Inr ()"
    unfolding valid_for_signature_at_ok using assms by simp (simp add: demo_governance_key_def)
  have "sig_from_slice demo_ed25519 ?s = Some ?s" "sig_verify demo_ed25519 (replicate 32 7) (domain @ [0] @ replicate 32 0) ?s"
    by (simp_all add: demo_ed25519_def)
  with v s have one: "verify_one_signature demo_trust_env [(''root'', demo_governance_key)] (domain @ [0] @ replicate 32 0)
      demo_zero_digest at {} (demo_governance_signature domain) = Inr {''root''}"
    by (simp add: verify_one_signature_def governance_signature_validate_shape_def demo_governance_signature_def)
  have records: "bm_collect (map (\<lambda>k. (tgk_key_id k, k)) (tgp_keys demo_governance_policy)) = [(''root'', demo_governance_key)]"
    by (simp add: demo_governance_policy_def bm_collect_def) (simp add: demo_governance_key_def)
  show ?thesis
    using one by (simp add: verify_signatures_def records m) (simp add: demo_governance_policy_def)
qed


text \<open>A snapshot that can stand in an example state, and the registry it loads into.\<close>

definition demo_snapshot_ok :: "production_key_registry_snapshot \<Rightarrow> production_key_registry \<Rightarrow> bool" where
  "demo_snapshot_ok snap reg \<longleftrightarrow> snapshot_digest demo_keys_env snap = Inr demo_zero_digest \<and>
     validate_active_generations demo_keys_env snap 50 = Inr () \<and> from_snapshot demo_keys_env snap = Inr reg \<and>
     rsn_revision snap \<noteq> 0"

definition demo_tsbinding :: "production_key_registry_snapshot \<Rightarrow> u64 \<Rightarrow> trust_state_binding" where
  "demo_tsbinding snap revision = \<lparr>tbn_schema_version = PRODUCTION_TRUST_STATE_BINDING_SCHEMA,
     tbn_deployment_id = ''deployment'', tbn_revision = revision, tbn_state_digest = demo_zero_digest,
     tbn_envelope_digest = demo_zero_digest, tbn_registry_revision = rsn_revision snap,
     tbn_registry_digest = demo_zero_digest, tbn_caller_allowlist_revision = 1,
     tbn_caller_allowlist_digest = demo_zero_digest, tbn_signer_service_executable_digest = demo_zero_digest,
     tbn_service_policy_revision = 1, tbn_service_policy_digest = demo_zero_digest, tbn_binding_digest = demo_zero_digest\<rparr>"

definition demo_verified :: "production_key_registry_snapshot \<Rightarrow> u64 \<Rightarrow> string option \<Rightarrow> production_key_registry \<Rightarrow> verified_trust_state" where
  "demo_verified snap revision previous reg = \<lparr>vts_envelope = demo_envelope_of (demo_body snap revision previous),
     vts_registry = reg, vts_binding = demo_tsbinding snap revision\<rparr>"

lemma demo_envelope_verifies:
  assumes ok: "demo_snapshot_ok snap reg" and rev: "previous_binding_check previous revision = Inr ()" "revision \<noteq> 0"
  shows "tsenvelope_verify demo_trust_env (demo_envelope_of (demo_body snap revision previous)) demo_governance_policy 100 =
    Inr (demo_verified snap revision previous reg)"
proof -
  let ?b = "demo_body snap revision previous"
  from ok have s: "snapshot_digest demo_keys_env snap = Inr demo_zero_digest" "snapshot_validate_seal demo_keys_env snap = Inr ()"
    "validate_active_generations demo_keys_env snap 50 = Inr ()" "from_snapshot demo_keys_env snap = Inr reg" "rsn_revision snap \<noteq> 0"
    by (auto simp: demo_snapshot_ok_def from_snapshot_def and_then_eq_Inr)
  have one: "1 \<le> revision" using rev(2) by (simp add: word_le_nat_alt Suc_le_eq unat_gt_0)
  have shape: "body_validate_shape demo_trust_env ?b = Inr ()"
    using rev one s by (simp add: body_validate_shape_def demo_body_def ts_contains_secret_shaped_field_def not_less)
  have binding: "tsbinding_from_parts demo_trust_env (demo_envelope_of ?b) = Inr (demo_tsbinding snap revision)"
    using rev(2) s(5) by (simp add: tsbinding_from_parts_def tsbinding_validate_seal_def demo_envelope_of_def demo_body_def demo_tsbinding_def)
  have sel: "tsb_body_digest ?b = demo_zero_digest" "tsb_activated_at_epoch_s ?b = 50" "tsb_not_before_epoch_s ?b = 10"
    "tsb_not_after_epoch_s ?b = 500" "tsb_registry ?b = snap" by (simp_all add: demo_body_def)
  show ?thesis
    using shape binding s(4) by (simp add: tsenvelope_verify_def demo_envelope_of_def sel demo_verified_def)
      (simp add: demo_governance_policy_def)
qed

definition demo_single :: "u64 \<Rightarrow> production_key_record \<Rightarrow> production_key_registry" where
  "demo_single revision r = \<lparr>pkr_revision = revision, pkr_records = [(record_key_from identity_capability 1, r)]\<rparr>"

lemma demo_single_snapshot:
  assumes "kr_identity r = identity_capability" "kr_generation r = 1" "record_validate_seal demo_keys_env r = Inr ()" "revision \<noteq> 0"
  shows "demo_snapshot_ok (prod_snapshot (demo_single revision r)) (demo_single revision r)"
proof -
  let ?reg = "demo_single revision r"
  have "keyed_uniquely record_key_of kr_public_key_digest (bm_insert (record_key_from identity_capability 1) r [])"
    by (rule keyed_uniquely_add) (simp_all add: assms bm_values_def)
  moreover have "generations_ok (pkr_records ?reg)"
    unfolding generations_ok_def by (auto simp: demo_single_def split: if_splits)
  ultimately have wf: "prod_wf ?reg" by (simp add: prod_wf_def demo_single_def)
  have sealed: "prod_sealed demo_keys_env ?reg" using assms by (simp add: prod_sealed_def demo_single_def bm_values_def)
  have v: "snapshot_validate_seal demo_keys_env (prod_snapshot ?reg) = Inr ()" using snapshot_validate_seal_iff [OF wf] sealed by simp
  have "from_snapshot demo_keys_env (prod_snapshot ?reg) = Inr ?reg" using wf sealed by (rule from_snapshot_prod_snapshot)
  moreover have "rsn_records (prod_snapshot ?reg) = [r]" "rsn_revision (prod_snapshot ?reg) = revision"
    by (simp_all add: prod_snapshot_def demo_single_def bm_values_def)
  ultimately show ?thesis
    using v assms(4) by (simp add: demo_snapshot_ok_def snapshot_digest_def validate_active_generations_def Let_def)
qed

abbreviation demo_active_registry :: "u64 \<Rightarrow> production_key_registry" where
  "demo_active_registry revision \<equiv> demo_single revision (demo_key_record 1 1 5 100)"

abbreviation demo_revoked_registry :: "u64 \<Rightarrow> production_key_registry" where
  "demo_revoked_registry revision \<equiv> demo_single revision demo_revoked_record"

lemma demo_snapshots:
  "demo_snapshot_ok (prod_snapshot (demo_active_registry 3)) (demo_active_registry 3)"
  "demo_snapshot_ok (prod_snapshot (demo_revoked_registry 2)) (demo_revoked_registry 2)"
  using demo_key_record_sealed [of 1 5 100 1] demo_revoked_sealed
  by (auto intro!: demo_single_snapshot simp: demo_revoked_record_def prod_revoke_record_def)

definition demo_expectation :: offline_bootstrap_expectation where
  "demo_expectation = \<lparr>obe_schema_version = OFFLINE_BOOTSTRAP_EXPECTATION_SCHEMA, obe_deployment_id = ''deployment'',
     obe_expected_envelope_digest = demo_zero_digest, obe_expected_governance_policy_digest = demo_zero_digest,
     obe_expectation_digest = demo_zero_digest\<rparr>"

definition demo_checkpoint :: "production_key_registry_snapshot \<Rightarrow> u64 \<Rightarrow> u64 \<Rightarrow> accepted_trust_checkpoint" where
  "demo_checkpoint snap revision sequence = \<lparr>acp_schema_version = ACCEPTED_TRUST_CHECKPOINT_SCHEMA,
     acp_deployment_id = ''deployment'', acp_revision = revision, acp_state_digest = demo_zero_digest,
     acp_envelope_digest = demo_zero_digest, acp_registry_revision = rsn_revision snap, acp_registry_digest = demo_zero_digest,
     acp_caller_allowlist_revision = 1, acp_service_policy_revision = 1, acp_minimum_accepted_revision = 1,
     acp_last_recovery_sequence = sequence, acp_checkpoint_digest = demo_zero_digest\<rparr>"

lemma demo_checkpoint_valid:
  assumes "revision \<noteq> 0" "rsn_revision snap \<noteq> 0"
  shows "checkpoint_validate_seal demo_trust_env (demo_checkpoint snap revision sequence) = Inr ()"
    "checkpoint_from_verified demo_trust_env (demo_verified snap revision previous reg) sequence = Inr (demo_checkpoint snap revision sequence)"
    "checkpoint_of (demo_verified snap revision previous reg) sequence (demo_checkpoint snap revision sequence)"
proof -
  have "\<not> (1 :: u64) > revision" using assms(1) by (simp add: not_less word_le_nat_alt Suc_le_eq unat_gt_0)
  then show v: "checkpoint_validate_seal demo_trust_env (demo_checkpoint snap revision sequence) = Inr ()"
    using assms by (simp add: checkpoint_validate_seal_def demo_checkpoint_def)
  show c: "checkpoint_from_verified demo_trust_env (demo_verified snap revision previous reg) sequence = Inr (demo_checkpoint snap revision sequence)"
    using v by (simp add: checkpoint_from_verified_def vts_body_def demo_verified_def demo_envelope_of_def demo_body_def demo_checkpoint_def)
  from checkpoint_from_verified_ok(2) [OF c]
  show "checkpoint_of (demo_verified snap revision previous reg) sequence (demo_checkpoint snap revision sequence)" .
qed

text \<open>The example activator, bootstrapped with a registry in which the key is revoked.\<close>

definition demo_activator :: trust_state_activator where
  "demo_activator = \<lparr>tsa_current = Some (demo_verified (prod_snapshot (demo_revoked_registry 2)) 1 None (demo_revoked_registry 2)),
     tsa_checkpoint = Some (demo_checkpoint (prod_snapshot (demo_revoked_registry 2)) 1 0)\<rparr>"

lemma demo_revisions [simp]: "rsn_revision (prod_snapshot (demo_single revision r)) = revision"
  by (simp add: prod_snapshot_def demo_single_def)

lemma demo_bootstrap:
  "activator_bootstrap demo_trust_env activator_default (demo_envelope_of (demo_body (prod_snapshot (demo_revoked_registry 2)) 1 None))
     demo_governance_policy demo_expectation 100 =
   (Inr \<lparr>ats_verified = demo_verified (prod_snapshot (demo_revoked_registry 2)) 1 None (demo_revoked_registry 2),
      ats_checkpoint = demo_checkpoint (prod_snapshot (demo_revoked_registry 2)) 1 0, ats_recovery = None\<rparr>, demo_activator)"
proof -
  have x: "expectation_validate_seal demo_trust_env demo_expectation = Inr ()"
    by (simp add: expectation_validate_seal_def demo_expectation_def)
  have "previous_binding_check None 1 = Inr ()" by (simp add: previous_binding_check_def)
  note v = demo_envelope_verifies [OF demo_snapshots(2) this] and c = demo_checkpoint_valid(2) [of 1 "prod_snapshot (demo_revoked_registry 2)" None "demo_revoked_registry 2" 0]
  show ?thesis
    using v c x by (simp add: activator_bootstrap_def bootstrap_checks_def accept_state_def activator_default_def demo_activator_def vts_body_def)
      (simp add: demo_verified_def demo_envelope_of_def demo_body_def demo_expectation_def demo_governance_policy_def)
qed

lemma demo_activator_reachable: "(activator_step demo_trust_env)\<^sup>*\<^sup>* activator_default demo_activator"
  using activator_step.bootstrap [of demo_trust_env activator_default] demo_bootstrap by (metis r_into_rtranclp snd_conv)

lemma demo_activator_open:
  "activator_open demo_trust_env demo_activator =
     Inr (demo_verified (prod_snapshot (demo_revoked_registry 2)) 1 None (demo_revoked_registry 2),
       demo_checkpoint (prod_snapshot (demo_revoked_registry 2)) 1 0)"
  unfolding activator_open_ok using demo_checkpoint_valid [of 1 "prod_snapshot (demo_revoked_registry 2)"]
  by (simp add: demo_activator_def demo_checkpoint_def)

definition demo_activated :: trust_state_activator where
  "demo_activated = \<lparr>tsa_current = Some (demo_verified (prod_snapshot (demo_active_registry 3)) 2 (Some demo_zero_digest) (demo_active_registry 3)),
     tsa_checkpoint = Some (demo_checkpoint (prod_snapshot (demo_active_registry 3)) 2 0)\<rparr>"

lemma demo_activation:
  "activator_activate demo_trust_env demo_activator
     (demo_envelope_of (demo_body (prod_snapshot (demo_active_registry 3)) 2 (Some demo_zero_digest))) demo_governance_policy 100 =
   (Inr \<lparr>ats_verified = demo_verified (prod_snapshot (demo_active_registry 3)) 2 (Some demo_zero_digest) (demo_active_registry 3),
      ats_checkpoint = demo_checkpoint (prod_snapshot (demo_active_registry 3)) 2 0, ats_recovery = None\<rparr>, demo_activated)"
proof -
  have "previous_binding_check (Some demo_zero_digest) 2 = Inr ()" by (simp add: previous_binding_check_def)
  note v = demo_envelope_verifies [OF demo_snapshots(1) this]
    and c = demo_checkpoint_valid(2) [of 2 "prod_snapshot (demo_active_registry 3)" "Some demo_zero_digest" "demo_active_registry 3" 0]
  have sel: "vts_body (demo_verified snap revision previous reg) = demo_body snap revision previous" for snap revision previous reg
    by (simp add: vts_body_def demo_verified_def demo_envelope_of_def)
  have "saturating_add (1 :: u64) 1 = 2" by (simp add: saturating_add_code)
  then show ?thesis
    using v c by (simp add: activator_activate_def activate_checks_def accept_state_def demo_activator_open demo_activated_def sel)
      (simp add: demo_body_def demo_checkpoint_def)
qed

lemmas reachable_activator = activator.steps_ok [OF _ activator_ok_default]

text \<open>
  C14: whatever sequence of bootstraps, activations and recoveries has been tried, a state
  the activator holds carries signatures, in the domain of trust states, of at least as many
  distinct governance keys as the threshold of the sealed policy the state names: for each of
  these keys, active and valid when the state was activated, one of the signatures in the
  state's own envelope names the key and verifies under it; the state's registry loads from
  its snapshot; and the activator's checkpoint is sealed and describes exactly this state.
\<close>

theorem accepted_state_has_quorum:
  assumes "(activator_step T)\<^sup>*\<^sup>* activator_default act" "tsa_current act = Some v"
  shows "\<exists>policy message c. governance_policy_validate_seal T policy = Inr () \<and>
    tse_governance_policy_digest (vts_envelope v) = tgp_policy_digest policy \<and>
    trust_state_signature_message (tsb_body_digest (vts_body v)) = Inr message \<and>
    governance_quorum T policy (tse_signatures (vts_envelope v)) message (tsb_activated_at_epoch_s (vts_body v)) \<and>
    from_snapshot (tv_keys T) (tsb_registry (vts_body v)) = Inr (vts_registry v) \<and>
    activator_open T act = Inr (v, c)"
proof -
  have "activator_ok T act" using assms(1) by (rule reachable_activator)
  then obtain c policy now where c: "tsa_checkpoint act = Some c" "checkpoint_validate_seal T c = Inr ()"
    "checkpoint_of v (acp_last_recovery_sequence c) c" and v: "tsenvelope_verify T (vts_envelope v) policy now = Inr v"
    using assms(2) by (auto simp: activator_ok_def accepted_ok_def split: option.splits)
  note e = tsenvelope_verify_ok [OF v]
  from verify_signatures_quorum [OF e(7)] obtain message where
    "signature_message TRUST_STATE_SIGNATURE_DOMAIN (tsb_body_digest (vts_body v)) = Inr message"
    "governance_quorum T policy (tse_signatures (vts_envelope v)) message (tsb_activated_at_epoch_s (vts_body v))"
    by (auto simp: vts_body_def)
  moreover have "activator_open T act = Inr (v, c)" using c assms(2) by (simp add: activator_open_ok)
  ultimately show ?thesis using e(3,4,8) unfolding trust_state_signature_message_def vts_body_def by blast
qed

theorem accepted_state_has_quorum_witness:
  "\<exists>policy message. governance_quorum demo_trust_env policy
     (tse_signatures (demo_envelope_of (demo_body (prod_snapshot (demo_revoked_registry 2)) 1 None))) message 50"
  using accepted_state_has_quorum [OF demo_activator_reachable, of
      "demo_verified (prod_snapshot (demo_revoked_registry 2)) 1 None (demo_revoked_registry 2)"]
  by (auto simp: demo_activator_def vts_body_def demo_verified_def demo_envelope_of_def demo_body_def)

text \<open>
  C15: the activator never rolls back. After any further history the deployment is the same,
  the minimum accepted revision and the recovery sequence have not decreased, and the
  revision in force is not below the minimum that was accepted before.
\<close>

theorem trust_state_never_rolls_back:
  assumes "(activator_step T)\<^sup>*\<^sup>* activator_default act" "(activator_step T)\<^sup>*\<^sup>* act act'"
    "tsa_checkpoint act = Some c"
  shows "\<exists>v' c'. tsa_current act' = Some v' \<and> tsa_checkpoint act' = Some c' \<and>
    tsb_revision (vts_body v') = acp_revision c' \<and> tsb_deployment_id (vts_body v') = acp_deployment_id c \<and>
    acp_minimum_accepted_revision c \<le> acp_minimum_accepted_revision c' \<and>
    acp_minimum_accepted_revision c \<le> tsb_revision (vts_body v') \<and>
    acp_last_recovery_sequence c \<le> acp_last_recovery_sequence c'"
proof -
  have ok: "activator_ok T act" using assms(1) by (rule reachable_activator)
  have ok': "activator_ok T act'" using assms(2) ok by (rule activator.steps_ok)
  from activator_steps_progress [OF assms(2) ok] assms(3) obtain c' where c': "tsa_checkpoint act' = Some c'"
    "c' = c \<or> checkpoint_follows c c'" by (auto simp: activator_progress_def)
  with ok' obtain v' policy now where v': "tsa_current act' = Some v'" "checkpoint_of v' (acp_last_recovery_sequence c') c'"
    and e: "tsenvelope_verify T (vts_envelope v') policy now = Inr v'"
    by (auto simp: activator_ok_def accepted_ok_def split: option.splits)
  have floor: "acp_minimum_accepted_revision c' \<le> acp_revision c'"
    using body_validate_shape_ok(2) [OF tsenvelope_verify_ok(2) [OF e]] v'(2) by (simp add: checkpoint_of_def vts_body_def)
  show ?thesis using c' v' floor by (auto simp: checkpoint_follows_def checkpoint_of_def)
qed

theorem trust_state_never_rolls_back_witness:
  "\<exists>v'. tsa_current demo_activated = Some v' \<and> tsb_deployment_id (vts_body v') = ''deployment'' \<and> 1 \<le> tsb_revision (vts_body v')"
proof -
  have "(activator_step demo_trust_env)\<^sup>*\<^sup>* demo_activator demo_activated"
    using activator_step.activate [of demo_trust_env demo_activator] demo_activation by (metis r_into_rtranclp snd_conv)
  from trust_state_never_rolls_back [OF demo_activator_reachable this] show ?thesis
    by (auto simp: demo_activator_def demo_checkpoint_def)
qed

text \<open>
  C16: a recovery artifact is used at most once: after a recovery no later history makes the
  activator accept a recovery with the same or an older sequence number. And a recovery keeps
  revocations: a generation that is revoked in the damaged state does not resolve in the
  registry of the state it installs.
\<close>

theorem recovery_used_once:
  assumes "(activator_step T)\<^sup>*\<^sup>* activator_default act"
    "activator_recover T act e recovery policy now = (Inr a, act1)" "tsa_current act = Some v"
  shows "((activator_step T)\<^sup>*\<^sup>* act1 act2 \<and>
      trb_recovery_sequence (tre_body recovery') \<le> trb_recovery_sequence (tre_body recovery) \<longrightarrow>
      fst (activator_recover T act2 e' recovery' policy' now') \<noteq> Inr a') \<and>
    (r \<in> set (rsn_records (tsb_registry (vts_body v))) \<and> kr_status r = PK_Revoked \<longrightarrow>
      prod_resolve (tv_keys T) (vts_registry (ats_verified a)) (kr_identity r) (kr_generation r) t \<noteq> Inr s)"
proof (intro conjI impI)
  have ok: "activator_ok T act" using assms(1) by (rule reachable_activator)
  from assms(2) have checks: "recover_checks T act e recovery policy now = Inr a"
    and act1: "act1 = \<lparr>tsa_current = Some (ats_verified a), tsa_checkpoint = Some (ats_checkpoint a)\<rparr>"
    by (auto simp: activator_recover_def accept_state_def split: sum.splits)
  from recover_checks_ok [OF checks] assms(3) obtain c where
    c: "tsenvelope_verify T e policy now = Inr (ats_verified a)"
      "reject_revoked_key_reactivation (rsn_records (tsb_registry (vts_body v))) (rsn_records (tsb_registry (tse_body e))) = Inr ()"
      "checkpoint_from_verified T (ats_verified a) (trb_recovery_sequence (tre_body recovery)) = Inr (ats_checkpoint a)" by auto
  have ok1: "activator_ok T act1"
    using activator_step_ok [OF ok activator_step.recover [of T act e recovery policy now]] assms(2) by simp
  show "fst (activator_recover T act2 e' recovery' policy' now') \<noteq> Inr a'"
    if steps: "(activator_step T)\<^sup>*\<^sup>* act1 act2 \<and>
      trb_recovery_sequence (tre_body recovery') \<le> trb_recovery_sequence (tre_body recovery)"
  proof
    assume "fst (activator_recover T act2 e' recovery' policy' now') = Inr a'"
    then have "recover_checks T act2 e' recovery' policy' now' = Inr a'"
      by (auto simp: activator_recover_def accept_state_def split: sum.splits)
    from recover_checks_ok [OF this] obtain c2 where c2: "tsa_checkpoint act2 = Some c2"
      "acp_last_recovery_sequence c2 < trb_recovery_sequence (tre_body recovery')" by blast
    have "acp_last_recovery_sequence (ats_checkpoint a) \<le> acp_last_recovery_sequence c2"
      using activator_steps_progress [OF conjunct1 [OF steps] ok1] c2(1)
      by (auto simp: activator_progress_def act1 checkpoint_follows_def)
    moreover have "acp_last_recovery_sequence (ats_checkpoint a) = trb_recovery_sequence (tre_body recovery)"
      using checkpoint_from_verified_ok(2) [OF c(3)] by (simp add: checkpoint_of_def)
    ultimately show False using c2(2) steps by auto
  qed
  show "prod_resolve (tv_keys T) (vts_registry (ats_verified a)) (kr_identity r) (kr_generation r) t \<noteq> Inr s"
    if r: "r \<in> set (rsn_records (tsb_registry (vts_body v))) \<and> kr_status r = PK_Revoked"
  proof -
    from reject_revoked_ok [OF c(2) conjunct1 [OF r] conjunct2 [OF r]] obtain r' where
      "find (\<lambda>s. kr_identity s = kr_identity r \<and> kr_generation s = kr_generation r) (rsn_records (tsb_registry (tse_body e))) = Some r'"
      and rev: "kr_status r' = PK_Revoked" by blast
    then have r': "r' \<in> set (rsn_records (tsb_registry (tse_body e)))" "kr_identity r' = kr_identity r" "kr_generation r' = kr_generation r"
      by (auto simp: find_Some_iff)
    note load = from_snapshot_ok [OF tsenvelope_verify_ok(8) [OF c(1)]]
    have "rsn_records (tsb_registry (tse_body e)) = bm_values (pkr_records (vts_registry (ats_verified a)))"
      unfolding load(1) [symmetric] by (simp add: prod_snapshot_def)
    with r'(1) load(3) obtain k where k: "map_of (pkr_records (vts_registry (ats_verified a))) k = Some r'"
      using bm_values_iff unfolding keyed_uniquely_def by metis
    then have "k = record_key_of r'" using load(3) unfolding keyed_uniquely_def by blast
    with k rev r'(2,3) show ?thesis by (auto simp: prod_resolve_iff)
  qed
qed


definition demo_recovery :: trust_recovery_envelope where
  "demo_recovery = \<lparr>tre_schema_version = PRODUCTION_TRUST_RECOVERY_ENVELOPE_SCHEMA,
     tre_body = \<lparr>trb_schema_version = PRODUCTION_TRUST_RECOVERY_BODY_SCHEMA, trb_deployment_id = ''deployment'',
       trb_recovery_policy_id = ''recovery'', trb_damaged_state_digest = demo_zero_digest,
       trb_replacement_state_digest = demo_zero_digest, trb_recovery_reason_digest = demo_zero_digest,
       trb_recovery_sequence = 4, trb_minimum_uncompromised_revision = 1, trb_maximum_replacement_revision = 5,
       trb_expires_at_epoch_s = 900, trb_body_digest = demo_zero_digest\<rparr>,
     tre_governance_policy_digest = demo_zero_digest,
     tre_signatures = [demo_governance_signature TRUST_RECOVERY_SIGNATURE_DOMAIN], tre_envelope_digest = demo_zero_digest\<rparr>"

definition demo_recovered :: "(trust_state_error + activated_trust_state) \<times> trust_state_activator" where
  "demo_recovered = activator_recover demo_trust_env demo_activator
     (demo_envelope_of (demo_body (prod_snapshot (demo_revoked_registry 2)) 2 (Some demo_zero_digest))) demo_recovery
     demo_governance_policy 100"

lemma demo_recovered_ok: "\<exists>a. fst demo_recovered = Inr a"
proof -
  let ?snap = "prod_snapshot (demo_revoked_registry 2)"
  have "previous_binding_check (Some demo_zero_digest) 2 = Inr ()" by (simp add: previous_binding_check_def)
  note v = demo_envelope_verifies [OF demo_snapshots(2) this]
    and c = demo_checkpoint_valid(2) [of 2 ?snap "Some demo_zero_digest" "demo_revoked_registry 2" 4]
  have sel: "vts_body (demo_verified snap revision previous reg) = demo_body snap revision previous" for snap revision previous reg
    by (simp add: vts_body_def demo_verified_def demo_envelope_of_def)
  have "recovery_verify demo_trust_env demo_recovery demo_governance_policy 100 = Inr ()"
    by (simp add: recovery_verify_def recovery_verify_internal_def recovery_body_validate_shape_def demo_recovery_def)
      (simp add: demo_governance_policy_def)
  moreover have "reject_revoked_key_reactivation (rsn_records ?snap) (rsn_records ?snap) = Inr ()"
    by (simp add: reject_revoked_key_reactivation_def prod_snapshot_def demo_single_def bm_values_def)
  ultimately show ?thesis
    using v c by (simp add: demo_recovered_def activator_recover_def recover_checks_def accept_state_def demo_activator_open sel)
      (simp add: demo_body_def demo_checkpoint_def demo_recovery_def max_def)
qed

theorem recovery_used_once_witness:
  "fst (activator_recover demo_trust_env (snd demo_recovered)
     (demo_envelope_of (demo_body (prod_snapshot (demo_revoked_registry 2)) 2 (Some demo_zero_digest))) demo_recovery
     demo_governance_policy 120) \<noteq> fst demo_recovered"
proof -
  obtain a where a: "fst demo_recovered = Inr a" using demo_recovered_ok by blast
  then have "activator_recover demo_trust_env demo_activator
     (demo_envelope_of (demo_body (prod_snapshot (demo_revoked_registry 2)) 2 (Some demo_zero_digest))) demo_recovery
     demo_governance_policy 100 = (Inr a, snd demo_recovered)" unfolding demo_recovered_def by (simp add: prod_eq_iff)
  from recovery_used_once [OF demo_activator_reachable this] show ?thesis
    unfolding a by (simp add: demo_activator_def)
qed

text \<open>
  A normal activation does not compare the revoked generations of the
  two registries: a reachable activator whose state revokes a generation accepts a next state,
  signed by the same quorum, in which that generation is active again and resolves.
\<close>

lemma activation_can_reinstate_revoked_key:
  "\<exists>T act act' a e policy now v r s.
     (activator_step T)\<^sup>*\<^sup>* activator_default act \<and> tsa_current act = Some v \<and>
     r \<in> set (rsn_records (tsb_registry (vts_body v))) \<and> kr_status r = PK_Revoked \<and>
     activator_activate T act e policy now = (Inr a, act') \<and>
     prod_resolve (tv_keys T) (vts_registry (ats_verified a)) (kr_identity r) (kr_generation r) 50 = Inr s \<and>
     kr_public_key_digest s = kr_public_key_digest r"
proof (intro exI conjI)
  show "(activator_step demo_trust_env)\<^sup>*\<^sup>* activator_default demo_activator" by (rule demo_activator_reachable)
  show "tsa_current demo_activator = Some (demo_verified (prod_snapshot (demo_revoked_registry 2)) 1 None (demo_revoked_registry 2))"
    by (simp add: demo_activator_def)
  show "demo_revoked_record \<in> set (rsn_records (tsb_registry (vts_body (demo_verified (prod_snapshot (demo_revoked_registry 2)) 1 None (demo_revoked_registry 2)))))"
    by (simp add: vts_body_def demo_verified_def demo_envelope_of_def demo_body_def prod_snapshot_def demo_single_def bm_values_def)
  show "kr_status demo_revoked_record = PK_Revoked" by (simp add: demo_revoked_record_def prod_revoke_record_def)
  from demo_activation show "activator_activate demo_trust_env demo_activator
     (demo_envelope_of (demo_body (prod_snapshot (demo_active_registry 3)) 2 (Some demo_zero_digest))) demo_governance_policy 100 =
   (Inr \<lparr>ats_verified = demo_verified (prod_snapshot (demo_active_registry 3)) 2 (Some demo_zero_digest) (demo_active_registry 3),
      ats_checkpoint = demo_checkpoint (prod_snapshot (demo_active_registry 3)) 2 0, ats_recovery = None\<rparr>, demo_activated)" .
  show "prod_resolve (tv_keys demo_trust_env) (vts_registry (ats_verified \<lparr>ats_verified =
        demo_verified (prod_snapshot (demo_active_registry 3)) 2 (Some demo_zero_digest) (demo_active_registry 3),
      ats_checkpoint = demo_checkpoint (prod_snapshot (demo_active_registry 3)) 2 0, ats_recovery = None\<rparr>))
      (kr_identity demo_revoked_record) (kr_generation demo_revoked_record) 50 = Inr (demo_key_record 1 1 5 100)"
    using demo_key_record_sealed [of 1 5 100 1]
    by (simp add: prod_resolve_iff demo_verified_def demo_single_def demo_revoked_record_def prod_revoke_record_def)
  show "kr_public_key_digest (demo_key_record 1 1 5 100) = kr_public_key_digest demo_revoked_record"
    by (simp add: demo_revoked_record_def prod_revoke_record_def)
qed

end
