(* ===== verification/TrustService.thy ===== *)
theory TrustService
  imports ProductionService TrustActivation
begin

text \<open>
  The signing service bound to an accepted trust state
  (\<^verbatim>\<open>crates/windows-production-trust-state-runtime/src/service.rs\<close>): the deployment
  policy, the trust-bound service identity, deployed packages and their verification, the
  start-up checks and the request handler. Their correctness is in the theory TrustDeployment.
\<close>

section \<open>Data\<close>

definition PRODUCTION_SIGNER_DEPLOYMENT_POLICY_SCHEMA :: string where "PRODUCTION_SIGNER_DEPLOYMENT_POLICY_SCHEMA = ''0.1.0''"
definition TRUST_BOUND_SIGNER_SERVICE_IDENTITY_SCHEMA :: string where "TRUST_BOUND_SIGNER_SERVICE_IDENTITY_SCHEMA = ''0.1.0''"
definition DEPLOYED_PRODUCTION_SIGNER_PACKAGE_SCHEMA :: string where "DEPLOYED_PRODUCTION_SIGNER_PACKAGE_SCHEMA = ''0.1.0''"

record deployment_policy =
  dpo_schema_version :: string
  dpo_deployment_id :: string
  dpo_revision :: u64
  dpo_service_id :: string
  dpo_transport_id :: string
  dpo_max_request_bytes :: u32
  dpo_max_response_bytes :: u32
  dpo_enabled_identities :: "production_key_identity list"
  dpo_policy_digest :: string

record bound_service_identity =
  bsi_schema_version :: string
  bsi_base_service_identity_digest :: string
  bsi_trust_state_binding_digest :: string
  bsi_deployment_policy_digest :: string
  bsi_identity_digest :: string

record deployed_signer_package =
  dpk_schema_version :: string
  dpk_trust_state :: trust_state_binding
  dpk_signer_service_identity :: bound_service_identity
  dpk_key_generation :: u64
  dpk_signer_package :: authorized_signer_package
  dpk_package_digest :: string

record trust_bound_service =
  tbs_inner :: production_signer_service
  tbs_accepted :: verified_trust_state
  tbs_deployment_policy :: deployment_policy
  tbs_service_identity :: bound_service_identity

datatype (plugins only: code size) deployed_signer_error =
    DS_UnsupportedDeploymentPolicySchema
  | DS_InvalidDeploymentPolicy
  | DS_DeploymentIdentitiesNotCanonical
  | DS_DeploymentPolicyDigestMismatch
  | DS_UnsupportedBoundServiceIdentitySchema
  | DS_BoundServiceIdentityDigestMismatch
  | DS_UnsupportedDeployedPackageSchema
  | DS_DeployedPackageDigestMismatch
  | DS_ServiceTrustStateMismatch
  | DS_BackendRegistryMismatch
  | DS_TrustStateDivergence
  | DS_KeyGenerationMismatch
  | DS_SignedTrustStateBindingMismatch
  | DS_IdentityNotEnabled
  | DS_ActiveGenerationUnavailable
  | DS_InvalidCanonicalObject
  | DS_Json serde_error
  | DS_TrustState trust_state_error
  | DS_Service production_service_error
  | DS_ProductionSigner production_signer_error
  | DS_ProductionKeyGovernance production_key_error
  | DS_SignerIdentity signer_identity_error
  | DS_Hashing hashing_error

text \<open>The third-party operations of the deployment: those of the service and of the trust state.\<close>

record deployed_env =
  dv_service :: service_env
  dv_trust_values :: trust_env
  dv_policy_value :: "deployment_policy \<Rightarrow> serde_error + json"
  dv_identity_value :: "bound_service_identity \<Rightarrow> serde_error + json"
  dv_package_value :: "deployed_signer_package \<Rightarrow> serde_error + json"

definition dv_trust :: "deployed_env \<Rightarrow> trust_env" where
  "dv_trust D = (dv_trust_values D)\<lparr>tv_keys := sv_keys (dv_service D)\<rparr>"

abbreviation dv_production :: "deployed_env \<Rightarrow> production_env" where
  "dv_production D \<equiv> sv_production (dv_service D)"

section \<open>The deployment policy\<close>

definition ds_digest_with_blank_field :: "deployed_env \<Rightarrow> string \<Rightarrow> serde_error + json \<Rightarrow> deployed_signer_error + string" where
  "ds_digest_with_blank_field D field v =
     blank_field_digest (pe_hasher (dv_production D)) DS_Json DS_InvalidCanonicalObject DS_Hashing field v"

definition ds_sha256 :: "string \<Rightarrow> deployed_signer_error + unit" where
  "ds_sha256 v = map_err DS_ProductionSigner (prod_validate_sha256 v)"

type_synonym identity_sort_key = "issuer_role \<times> string \<times> string"

definition identity_key :: "production_key_identity \<Rightarrow> identity_sort_key" where
  "identity_key i = (ki_role i, ki_issuer_id i, ki_key_id i)"

definition deployment_policy_expected_digest :: "deployed_env \<Rightarrow> deployment_policy \<Rightarrow> deployed_signer_error + string" where
  "deployment_policy_expected_digest D p = ds_digest_with_blank_field D ''policy_digest'' (dv_policy_value D p)"

definition scan_enabled_identity ::
    "production_key_identity option \<Rightarrow> production_key_identity \<Rightarrow> deployed_signer_error + production_key_identity option" where
  "scan_enabled_identity previous i =
     and_then (map_err DS_ProductionSigner (identity_validate i)) (\<lambda>_.
     and_then (ensure (\<not> (case previous of None \<Rightarrow> False | Some p \<Rightarrow> identity_key p \<ge> identity_key i))
       DS_DeploymentIdentitiesNotCanonical) (\<lambda>_.
     Inr (Some i)))"

definition deployment_policy_validate_seal :: "deployed_env \<Rightarrow> deployment_policy \<Rightarrow> deployed_signer_error + unit" where
  "deployment_policy_validate_seal D p =
     and_then (ensure (dpo_schema_version p = PRODUCTION_SIGNER_DEPLOYMENT_POLICY_SCHEMA) DS_UnsupportedDeploymentPolicySchema) (\<lambda>_.
     and_then (map_err DS_ProductionSigner (prod_validate_identifier ''deployment_id'' (dpo_deployment_id p))) (\<lambda>_.
     and_then (map_err DS_ProductionSigner (prod_validate_identifier ''service_id'' (dpo_service_id p))) (\<lambda>_.
     and_then (map_err DS_ProductionSigner (prod_validate_identifier ''transport_id'' (dpo_transport_id p))) (\<lambda>_.
     and_then (ensure (\<not> (dpo_revision p = 0 \<or> dpo_max_request_bytes p = 0 \<or> dpo_max_response_bytes p = 0
         \<or> 64 * 1024 < dpo_max_request_bytes p \<or> 128 * 1024 < dpo_max_response_bytes p
         \<or> dpo_enabled_identities p = [])) DS_InvalidDeploymentPolicy) (\<lambda>_.
     and_then (try_fold scan_enabled_identity None (dpo_enabled_identities p)) (\<lambda>_.
     and_then (ds_sha256 (dpo_policy_digest p)) (\<lambda>_.
     and_then (deployment_policy_expected_digest D p) (\<lambda>digest.
     ensure (dpo_policy_digest p = digest) DS_DeploymentPolicyDigestMismatch))))))))"

definition deployment_policy_new ::
    "deployed_env \<Rightarrow> string \<Rightarrow> u64 \<Rightarrow> string \<Rightarrow> string \<Rightarrow> u32 \<Rightarrow> u32 \<Rightarrow> production_key_identity list \<Rightarrow>
     deployed_signer_error + deployment_policy" where
  "deployment_policy_new D deployment_id revision service_id transport_id max_request max_response identities =
     (let p = \<lparr>dpo_schema_version = PRODUCTION_SIGNER_DEPLOYMENT_POLICY_SCHEMA,
        dpo_deployment_id = deployment_id,
        dpo_revision = revision,
        dpo_service_id = service_id,
        dpo_transport_id = transport_id,
        dpo_max_request_bytes = max_request,
        dpo_max_response_bytes = max_response,
        dpo_enabled_identities = sort_key identity_key identities,
        dpo_policy_digest = []\<rparr> in
      and_then (deployment_policy_expected_digest D p) (\<lambda>digest.
      let p' = p\<lparr>dpo_policy_digest := digest\<rparr> in
      and_then (deployment_policy_validate_seal D p') (\<lambda>_. Inr p')))"

text \<open>
  \<^verbatim>\<open>slice::binary_search_by\<close> of the standard library: the loop halves the part of
  the slice the key can be in, and the last candidate is compared for equality.
\<close>

function bisect :: "'k::linorder list \<Rightarrow> 'k \<Rightarrow> nat \<Rightarrow> nat \<Rightarrow> nat" where
  "bisect xs key base width =
     (if 1 < width then
        let half = width div 2; mid = base + half
        in bisect xs key (if xs ! mid > key then base else mid) (width - half)
      else base)"
  by auto
termination by (relation "measure (\<lambda>(xs, key, base, width). width)") (auto simp: Let_def)

declare bisect.simps [simp del]

definition binary_search :: "'k::linorder list \<Rightarrow> 'k \<Rightarrow> nat option" where
  "binary_search xs key =
     (if xs = [] then None
      else let base = bisect xs key 0 (length xs) in if xs ! base = key then Some base else None)"

definition policy_permits :: "deployment_policy \<Rightarrow> production_key_identity \<Rightarrow> bool" where
  "policy_permits p i \<longleftrightarrow> binary_search (map identity_key (dpo_enabled_identities p)) (identity_key i) \<noteq> None"

section \<open>The trust-bound identity\<close>

definition bound_identity_expected_digest :: "deployed_env \<Rightarrow> bound_service_identity \<Rightarrow> deployed_signer_error + string" where
  "bound_identity_expected_digest D i = ds_digest_with_blank_field D ''identity_digest'' (dv_identity_value D i)"

definition bound_identity_validate_seal :: "deployed_env \<Rightarrow> bound_service_identity \<Rightarrow> deployed_signer_error + unit" where
  "bound_identity_validate_seal D i =
     and_then (ensure (bsi_schema_version i = TRUST_BOUND_SIGNER_SERVICE_IDENTITY_SCHEMA) DS_UnsupportedBoundServiceIdentitySchema) (\<lambda>_.
     and_then (ds_sha256 (bsi_base_service_identity_digest i)) (\<lambda>_.
     and_then (ds_sha256 (bsi_trust_state_binding_digest i)) (\<lambda>_.
     and_then (ds_sha256 (bsi_deployment_policy_digest i)) (\<lambda>_.
     and_then (ds_sha256 (bsi_identity_digest i)) (\<lambda>_.
     and_then (bound_identity_expected_digest D i) (\<lambda>digest.
     ensure (bsi_identity_digest i = digest) DS_BoundServiceIdentityDigestMismatch))))))"

definition bound_identity_build ::
    "deployed_env \<Rightarrow> signer_service_identity \<Rightarrow> trust_state_binding \<Rightarrow> deployment_policy \<Rightarrow>
     deployed_signer_error + bound_service_identity" where
  "bound_identity_build D base trust_state policy =
     and_then (map_err DS_ProductionSigner (service_validate base)) (\<lambda>_.
     and_then (map_err DS_TrustState (tsbinding_validate_seal (dv_trust D) trust_state)) (\<lambda>_.
     and_then (deployment_policy_validate_seal D policy) (\<lambda>_.
     and_then (ensure (\<not> (svc_service_id base \<noteq> dpo_service_id policy
         \<or> tbn_deployment_id trust_state \<noteq> dpo_deployment_id policy
         \<or> tbn_service_policy_revision trust_state \<noteq> dpo_revision policy
         \<or> tbn_service_policy_digest trust_state \<noteq> dpo_policy_digest policy
         \<or> tbn_signer_service_executable_digest trust_state \<noteq> svc_executable_sha256 base)) DS_ServiceTrustStateMismatch) (\<lambda>_.
     and_then (map_err DS_ProductionSigner (service_digest (dv_production D) base)) (\<lambda>base_digest.
     let i = \<lparr>bsi_schema_version = TRUST_BOUND_SIGNER_SERVICE_IDENTITY_SCHEMA,
       bsi_base_service_identity_digest = base_digest,
       bsi_trust_state_binding_digest = tbn_binding_digest trust_state,
       bsi_deployment_policy_digest = dpo_policy_digest policy,
       bsi_identity_digest = []\<rparr> in
     and_then (bound_identity_expected_digest D i) (\<lambda>digest.
     let i' = i\<lparr>bsi_identity_digest := digest\<rparr> in
     and_then (bound_identity_validate_seal D i') (\<lambda>_. Inr i')))))))"

section \<open>Deployed packages\<close>

definition deployed_expected_digest :: "deployed_env \<Rightarrow> deployed_signer_package \<Rightarrow> deployed_signer_error + string" where
  "deployed_expected_digest D p = ds_digest_with_blank_field D ''package_digest'' (dv_package_value D p)"

definition deployed_validate_seal :: "deployed_env \<Rightarrow> deployed_signer_package \<Rightarrow> deployed_signer_error + unit" where
  "deployed_validate_seal D p =
     and_then (ensure (dpk_schema_version p = DEPLOYED_PRODUCTION_SIGNER_PACKAGE_SCHEMA) DS_UnsupportedDeployedPackageSchema) (\<lambda>_.
     and_then (map_err DS_TrustState (tsbinding_validate_seal (dv_trust D) (dpk_trust_state p))) (\<lambda>_.
     and_then (bound_identity_validate_seal D (dpk_signer_service_identity p)) (\<lambda>_.
     and_then (ensure (dpk_key_generation p \<noteq> 0) DS_KeyGenerationMismatch) (\<lambda>_.
     case apk_signer_response (dpk_signer_package p) of
       QR_Error _ _ _ \<Rightarrow> Inl DS_SignedTrustStateBindingMismatch
     | QR_Success _ result \<Rightarrow>
         and_then (ensure (bnd_trust_state_binding_digest (qe_binding (qs_envelope result))
             = Some (tbn_binding_digest (dpk_trust_state p))) DS_SignedTrustStateBindingMismatch) (\<lambda>_.
         and_then (deployed_expected_digest D p) (\<lambda>digest.
         ensure (dpk_package_digest p = digest) DS_DeployedPackageDigestMismatch))))))"

definition deployed_build ::
    "deployed_env \<Rightarrow> verified_trust_state \<Rightarrow> bound_service_identity \<Rightarrow> u64 \<Rightarrow> authorized_signer_package \<Rightarrow>
     deployed_signer_error + deployed_signer_package" where
  "deployed_build D accepted identity generation package =
     (let p = \<lparr>dpk_schema_version = DEPLOYED_PRODUCTION_SIGNER_PACKAGE_SCHEMA,
        dpk_trust_state = vts_binding accepted,
        dpk_signer_service_identity = identity,
        dpk_key_generation = generation,
        dpk_signer_package = package,
        dpk_package_digest = []\<rparr> in
      and_then (deployed_expected_digest D p) (\<lambda>digest.
      let p' = p\<lparr>dpk_package_digest := digest\<rparr> in
      and_then (deployed_validate_seal D p') (\<lambda>_. Inr p')))"

definition verify_deployed ::
    "deployed_env \<Rightarrow> deployed_signer_package \<Rightarrow> verified_trust_state \<Rightarrow> deployment_policy \<Rightarrow> signer_service_identity \<Rightarrow>
     governed_signer_trust_snapshot \<Rightarrow> u64 \<Rightarrow> deployed_signer_error + production_signer_envelope" where
  "verify_deployed D p accepted policy base trust signed_at =
     and_then (deployed_validate_seal D p) (\<lambda>_.
     and_then (deployment_policy_validate_seal D policy) (\<lambda>_.
     and_then (ensure (dpk_trust_state p = vts_binding accepted) DS_TrustStateDivergence) (\<lambda>_.
     and_then (bound_identity_build D base (vts_binding accepted) policy) (\<lambda>expected_identity.
     and_then (ensure (dpk_signer_service_identity p = expected_identity) DS_ServiceTrustStateMismatch) (\<lambda>_.
     and_then (ensure (\<not> (dpk_key_generation p = 0 \<or> dpk_key_generation p \<noteq> tb_generation (gts_key trust)))
       DS_KeyGenerationMismatch) (\<lambda>_.
     and_then (ensure (\<not> (tb_registry_revision (gts_key trust) \<noteq> tbn_registry_revision (vts_binding accepted)
         \<or> tb_registry_digest (gts_key trust) \<noteq> tbn_registry_digest (vts_binding accepted))) DS_TrustStateDivergence) (\<lambda>_.
     and_then (map_err DS_Service (verify_governed (dv_service D) (dpk_signer_package p) trust (vts_registry accepted) signed_at)) (\<lambda>envelope.
     and_then (ensure (qr_identity (qe_request envelope) = tb_identity (gts_key trust)) DS_KeyGenerationMismatch) (\<lambda>_.
     and_then (ensure (bnd_trust_state_binding_digest (qe_binding envelope)
         = Some (tbn_binding_digest (vts_binding accepted))) DS_SignedTrustStateBindingMismatch) (\<lambda>_.
     and_then (deployed_expected_digest D p) (\<lambda>digest.
     and_then (ensure (dpk_package_digest p = digest) DS_DeployedPackageDigestMismatch) (\<lambda>_.
     Inr envelope))))))))))))"

section \<open>The trust-bound service\<close>

definition validate_runtime_state ::
    "deployed_env \<Rightarrow> production_signer_service \<Rightarrow> verified_trust_state \<Rightarrow> deployment_policy \<Rightarrow> deployed_signer_error + unit" where
  "validate_runtime_state D service accepted policy =
     (let body = vts_body accepted in
      and_then (map_err DS_ProductionSigner (service_validate (pss_service_identity service))) (\<lambda>_.
      and_then (map_err DS_SignerIdentity (allowlist_validate (sv_identity (dv_service D)) (pss_allowlist service))) (\<lambda>_.
      ensure (\<not> (tsb_deployment_id body \<noteq> dpo_deployment_id policy
          \<or> tsb_signer_service_executable_digest body \<noteq> svc_executable_sha256 (pss_service_identity service)
          \<or> tsb_caller_allowlist_revision body \<noteq> alw_revision (pss_allowlist service)
          \<or> tsb_caller_allowlist_digest body \<noteq> alw_allowlist_digest (pss_allowlist service)
          \<or> tsb_service_policy_revision body \<noteq> dpo_revision policy
          \<or> tsb_service_policy_digest body \<noteq> dpo_policy_digest policy
          \<or> svc_service_id (pss_service_identity service) \<noteq> dpo_service_id policy))
        DS_ServiceTrustStateMismatch)))"

definition validate_descriptor_record_binding ::
    "deployed_env \<Rightarrow> hardware_key_descriptor \<Rightarrow> production_key_record \<Rightarrow> deployed_signer_error + unit" where
  "validate_descriptor_record_binding D d r =
     and_then (map_err DS_ProductionSigner (descriptor_validate_for (dv_production D) d (policy_for (kr_identity r)))) (\<lambda>_.
     ensure (\<not> (hd_identity d \<noteq> kr_identity r
         \<or> hd_public_key_digest d \<noteq> kr_public_key_digest r
         \<or> hd_policy_digest d \<noteq> kr_policy_digest r
         \<or> hd_provider d \<noteq> kr_provider r
         \<or> hd_algorithm d \<noteq> kr_algorithm r
         \<or> hd_public_key_encoding d \<noteq> kr_public_key_encoding r
         \<or> hd_signature_encoding d \<noteq> kr_signature_encoding r
         \<or> hd_export_policy d \<noteq> kr_export_policy r))
       DS_BackendRegistryMismatch)"

definition check_enabled_identity ::
    "deployed_env \<Rightarrow> signer_backend \<Rightarrow> production_signer_service \<Rightarrow> verified_trust_state \<Rightarrow> production_key_identity \<Rightarrow>
     deployed_signer_error + unit" where
  "check_enabled_identity D B inner accepted i =
     and_then (map_err DS_ProductionKeyGovernance (prod_active_record (sv_keys (dv_service D)) (vts_registry accepted) i
       (svc_started_at_epoch_s (pss_service_identity inner)))) (\<lambda>r.
     and_then (ensure (kr_status r = PK_Active) DS_ActiveGenerationUnavailable) (\<lambda>_.
     and_then (map_err DS_Service (validate_backend_generation (dv_service D) B i (kr_generation r))) (\<lambda>d.
     validate_descriptor_record_binding D d r)))"

definition trust_bound_new ::
    "deployed_env \<Rightarrow> signer_backend \<Rightarrow> production_signer_service \<Rightarrow> verified_trust_state \<Rightarrow> deployment_policy \<Rightarrow>
     deployed_signer_error + trust_bound_service" where
  "trust_bound_new D B inner accepted policy =
     and_then (deployment_policy_validate_seal D policy) (\<lambda>_.
     and_then (validate_runtime_state D inner accepted policy) (\<lambda>_.
     and_then (bound_identity_build D (pss_service_identity inner) (vts_binding accepted) policy) (\<lambda>identity.
     and_then (try_for_each (check_enabled_identity D B inner accepted) (dpo_enabled_identities policy)) (\<lambda>_.
     Inr \<lparr>tbs_inner = inner, tbs_accepted = accepted, tbs_deployment_policy = policy, tbs_service_identity = identity\<rparr>))))"

definition trust_bound_handle ::
    "deployed_env \<Rightarrow> signer_backend \<Rightarrow> trust_bound_service \<Rightarrow> production_signer_request \<Rightarrow> authenticated_caller_identity \<Rightarrow>
     u64 \<Rightarrow> (deployed_signer_error + deployed_signer_package) \<times> trust_bound_service" where
  "trust_bound_handle D B svc request caller now =
     (let body = vts_body (tbs_accepted svc) in
      if now < tsb_not_before_epoch_s body \<or> now \<ge> tsb_not_after_epoch_s body
      then (Inl (DS_TrustState TS_TrustStateOutsideValidityWindow), svc)
      else if \<not> policy_permits (tbs_deployment_policy svc) (qr_identity request)
      then (Inl DS_IdentityNotEnabled, svc)
      else
        case prod_active_record (sv_keys (dv_service D)) (vts_registry (tbs_accepted svc)) (qr_identity request) now of
          Inl e \<Rightarrow> (Inl (DS_ProductionKeyGovernance e), svc)
        | Inr r \<Rightarrow>
            case handle_with_trust_state (dv_service D) B (tbs_inner svc) request caller now (kr_generation r)
                (Some (tbn_binding_digest (vts_binding (tbs_accepted svc)))) of
              (Inl e, inner) \<Rightarrow> (Inl (DS_Service e), svc\<lparr>tbs_inner := inner\<rparr>)
            | (Inr package, inner) \<Rightarrow>
                (deployed_build D (tbs_accepted svc) (tbs_service_identity svc) (kr_generation r) package,
                 svc\<lparr>tbs_inner := inner\<rparr>))"

end
