(* ===== verification/IdentityProof.thy ===== *)
theory IdentityProof
  imports TrustService
begin

text \<open>
  Identity proofs and trust leases (\<^verbatim>\<open>identity_proof.rs\<close> of
  \<^verbatim>\<open>crates/windows-production-trust-state-runtime\<close> and the challenge handler of its
  \<^verbatim>\<open>service.rs\<close>): a client challenges the deployed signer, the signer signs who it is
  under which trust state, and the verified answer is a lease on the keys of that state for
  the rest of the challenge's half minute.
\<close>

section \<open>Data\<close>

definition IDENTITY_CHALLENGE_SCHEMA :: string where "IDENTITY_CHALLENGE_SCHEMA = ''0.1.0''"
definition IDENTITY_PROOF_PAYLOAD_SCHEMA :: string where "IDENTITY_PROOF_PAYLOAD_SCHEMA = ''0.1.0''"
definition IDENTITY_PROOF_SCHEMA :: string where "IDENTITY_PROOF_SCHEMA = ''0.1.0''"
definition IDENTITY_PROOF_PURPOSE :: string where
  "IDENTITY_PROOF_PURPOSE = ''ergaxiom.production-signer.service-identity-proof.v1''"
definition MAX_CHALLENGE_LIFETIME_S :: u64 where "MAX_CHALLENGE_LIFETIME_S = 30"

record identity_challenge =
  ich_schema_version :: string
  ich_purpose :: string
  ich_request_id :: string
  ich_client_nonce :: string
  ich_deployment_id :: string
  ich_service_id :: string
  ich_signer_service_executable_digest :: string
  ich_deployment_policy_revision :: u64
  ich_deployment_policy_digest :: string
  ich_trust_state_revision :: u64
  ich_trust_state_binding_digest :: string
  ich_registry_revision :: u64
  ich_registry_digest :: string
  ich_attestation_generation :: u64
  ich_attestation_public_key_digest :: string
  ich_issued_at_epoch_s :: u64
  ich_expires_at_epoch_s :: u64
  ich_challenge_digest :: string

record identity_proof_payload =
  ipp_schema_version :: string
  ipp_purpose :: string
  ipp_request_id :: string
  ipp_client_nonce :: string
  ipp_challenge_digest :: string
  ipp_caller_identity_digest :: string
  ipp_base_service_identity :: signer_service_identity
  ipp_signer_service_identity :: bound_service_identity
  ipp_trust_state :: trust_state_binding
  ipp_deployment_policy_revision :: u64
  ipp_deployment_policy_digest :: string
  ipp_attestation_key :: production_key_trust_binding
  ipp_proved_at_epoch_s :: u64
  ipp_expires_at_epoch_s :: u64
  ipp_payload_digest :: string

record deployed_identity_proof =
  dip_schema_version :: string
  dip_payload :: identity_proof_payload
  dip_signed_package :: deployed_signer_package
  dip_proof_digest :: string

record trust_lease =
  tl_proof_digest :: string
  tl_caller_identity_digest :: string
  tl_service_identity :: signer_service_identity
  tl_trust_state :: trust_state_binding
  tl_deployment_policy_revision :: u64
  tl_deployment_policy_digest :: string
  tl_proved_at_epoch_s :: u64
  tl_expires_at_epoch_s :: u64
  tl_capability_trust :: governed_signer_trust_snapshot
  tl_attestation_trust :: governed_signer_trust_snapshot
  tl_registry :: production_key_registry

datatype (plugins only: code size) identity_proof_error =
    IP_UnsupportedChallengeSchema
  | IP_UnsupportedProofPayloadSchema
  | IP_UnsupportedProofSchema
  | IP_PurposeSubstitution
  | IP_InvalidChallengeWindow
  | IP_ChallengeOutsideValidityWindow
  | IP_ChallengeBindingMismatch
  | IP_ChallengeDigestMismatch
  | IP_AttestationKeyMismatch
  | IP_ServiceIdentityMismatch
  | IP_ProofPayloadBindingMismatch
  | IP_ProofPayloadDigestMismatch
  | IP_SignedProofMissing
  | IP_SignedProofBindingMismatch
  | IP_ProofChallengeMismatch
  | IP_ProofDigestMismatch
  | IP_TrustLeaseOutsideValidityWindow
  | IP_TrustLeaseBindingMismatch
  | IP_TrustLeaseIdentityNotEnabled
  | IP_InvalidCanonicalObject
  | IP_Json serde_error
  | IP_Hashing hashing_error
  | IP_Production production_signer_error
  | IP_Protocol production_protocol_error
  | IP_KeyGovernance production_key_error
  | IP_TrustState trust_state_error
  | IP_Service production_service_error
  | IP_Deployed deployed_signer_error

text \<open>The third-party operations: those of the deployment and \<^verbatim>\<open>to_value\<close> on the sealed records.\<close>

record proof_env =
  ipe_deployed :: deployed_env
  ipe_challenge_value :: "identity_challenge \<Rightarrow> serde_error + json"
  ipe_payload_value :: "identity_proof_payload \<Rightarrow> serde_error + json"
  ipe_proof_value :: "deployed_identity_proof \<Rightarrow> serde_error + json"

abbreviation ipe_production :: "proof_env \<Rightarrow> production_env" where
  "ipe_production P \<equiv> dv_production (ipe_deployed P)"

abbreviation ipe_keys :: "proof_env \<Rightarrow> keys_env" where
  "ipe_keys P \<equiv> sv_keys (dv_service (ipe_deployed P))"

section \<open>Shared checks\<close>

definition ip_digest_with_blank_field :: "proof_env \<Rightarrow> string \<Rightarrow> serde_error + json \<Rightarrow> identity_proof_error + string" where
  "ip_digest_with_blank_field P field v =
     blank_field_digest (pe_hasher (ipe_production P)) IP_Json IP_InvalidCanonicalObject IP_Hashing field v"

definition ip_sha256 :: "string \<Rightarrow> identity_proof_error + unit" where
  "ip_sha256 v = map_err IP_Production (prod_validate_sha256 v)"

definition ip_identifier :: "string \<Rightarrow> string \<Rightarrow> identity_proof_error + unit" where
  "ip_identifier field v = map_err IP_Production (prod_validate_identifier field v)"

definition saturating_sub :: "'n::len word \<Rightarrow> 'n word \<Rightarrow> 'n word" where
  "saturating_sub a b = (if b \<le> a then a - b else 0)"

definition key_binding ::
    "proof_env \<Rightarrow> production_key_record \<Rightarrow> trust_state_binding \<Rightarrow> identity_proof_error + production_key_trust_binding" where
  "key_binding P r trust_state =
     and_then (map_err IP_KeyGovernance (record_validate_seal (ipe_keys P) r)) (\<lambda>_.
     and_then (map_err IP_TrustState (tsbinding_validate_seal (dv_trust (ipe_deployed P)) trust_state)) (\<lambda>_.
     let b = \<lparr>tb_schema_version = PRODUCTION_KEY_TRUST_BINDING_SCHEMA, tb_identity = kr_identity r,
       tb_generation = kr_generation r, tb_public_key_digest = kr_public_key_digest r, tb_key_record_digest = kr_record_digest r,
       tb_registry_revision = tbn_registry_revision trust_state, tb_registry_digest = tbn_registry_digest trust_state\<rparr> in
     and_then (map_err IP_KeyGovernance (trust_binding_validate_shape b)) (\<lambda>_. Inr b)))"

definition active_attestation_binding ::
    "proof_env \<Rightarrow> verified_trust_state \<Rightarrow> u64 \<Rightarrow> identity_proof_error + production_key_trust_binding" where
  "active_attestation_binding P accepted at =
     and_then (map_err IP_KeyGovernance (prod_active_record (ipe_keys P) (vts_registry accepted) identity_attestation at)) (\<lambda>r.
     key_binding P r (vts_binding accepted))"

section \<open>Challenges\<close>

definition challenge_expected_digest :: "proof_env \<Rightarrow> identity_challenge \<Rightarrow> identity_proof_error + string" where
  "challenge_expected_digest P c = ip_digest_with_blank_field P ''challenge_digest'' (ipe_challenge_value P c)"

definition challenge_bound :: "identity_challenge \<Rightarrow> verified_trust_state \<Rightarrow> deployment_policy \<Rightarrow> bool" where
  "challenge_bound c accepted policy \<longleftrightarrow>
     (let body = vts_body accepted; binding = vts_binding accepted in
      \<not> (ich_issued_at_epoch_s c < tsb_not_before_epoch_s body
        \<or> ich_expires_at_epoch_s c > tsb_not_after_epoch_s body
        \<or> ich_deployment_id c \<noteq> dpo_deployment_id policy
        \<or> ich_deployment_id c \<noteq> tbn_deployment_id binding
        \<or> ich_service_id c \<noteq> dpo_service_id policy
        \<or> ich_signer_service_executable_digest c \<noteq> tbn_signer_service_executable_digest binding
        \<or> ich_deployment_policy_revision c \<noteq> dpo_revision policy
        \<or> ich_deployment_policy_digest c \<noteq> dpo_policy_digest policy
        \<or> ich_trust_state_revision c \<noteq> tbn_revision binding
        \<or> ich_trust_state_binding_digest c \<noteq> tbn_binding_digest binding
        \<or> ich_registry_revision c \<noteq> tbn_registry_revision binding
        \<or> ich_registry_digest c \<noteq> tbn_registry_digest binding))"

definition challenge_shape :: "identity_challenge \<Rightarrow> identity_proof_error + unit" where
  "challenge_shape c =
     and_then (ensure (ich_schema_version c = IDENTITY_CHALLENGE_SCHEMA) IP_UnsupportedChallengeSchema) (\<lambda>_.
     and_then (ensure (ich_purpose c = IDENTITY_PROOF_PURPOSE) IP_PurposeSubstitution) (\<lambda>_.
     and_then (ip_identifier ''identity_proof_request_id'' (ich_request_id c)) (\<lambda>_.
     and_then (ip_sha256 (ich_client_nonce c)) (\<lambda>_.
     and_then (ip_identifier ''deployment_id'' (ich_deployment_id c)) (\<lambda>_.
     and_then (ip_identifier ''service_id'' (ich_service_id c)) (\<lambda>_.
     and_then (ip_sha256 (ich_signer_service_executable_digest c)) (\<lambda>_.
     and_then (ip_sha256 (ich_deployment_policy_digest c)) (\<lambda>_.
     and_then (ip_sha256 (ich_trust_state_binding_digest c)) (\<lambda>_.
     and_then (ip_sha256 (ich_registry_digest c)) (\<lambda>_.
     and_then (ip_sha256 (ich_attestation_public_key_digest c)) (\<lambda>_.
     and_then (ip_sha256 (ich_challenge_digest c)) (\<lambda>_.
     ensure (\<not> (ich_deployment_policy_revision c = 0 \<or> ich_trust_state_revision c = 0 \<or> ich_registry_revision c = 0
         \<or> ich_attestation_generation c = 0 \<or> ich_issued_at_epoch_s c = 0
         \<or> ich_expires_at_epoch_s c \<le> ich_issued_at_epoch_s c
         \<or> saturating_sub (ich_expires_at_epoch_s c) (ich_issued_at_epoch_s c) > MAX_CHALLENGE_LIFETIME_S))
       IP_InvalidChallengeWindow))))))))))))"

definition challenge_validate_against ::
    "proof_env \<Rightarrow> identity_challenge \<Rightarrow> verified_trust_state \<Rightarrow> deployment_policy \<Rightarrow> u64 \<Rightarrow>
     identity_proof_error + production_key_trust_binding" where
  "challenge_validate_against P c accepted policy now =
     and_then (challenge_shape c) (\<lambda>_.
     and_then (ensure (\<not> (now < ich_issued_at_epoch_s c \<or> now \<ge> ich_expires_at_epoch_s c)) IP_ChallengeOutsideValidityWindow) (\<lambda>_.
     and_then (map_err IP_Deployed (deployment_policy_validate_seal (ipe_deployed P) policy)) (\<lambda>_.
     and_then (map_err IP_TrustState (tsbinding_validate_seal (dv_trust (ipe_deployed P)) (vts_binding accepted))) (\<lambda>_.
     and_then (ensure (challenge_bound c accepted policy) IP_ChallengeBindingMismatch) (\<lambda>_.
     and_then (active_attestation_binding P accepted now) (\<lambda>key.
     and_then (ensure (\<not> (ich_attestation_generation c \<noteq> tb_generation key
         \<or> ich_attestation_public_key_digest c \<noteq> tb_public_key_digest key)) IP_AttestationKeyMismatch) (\<lambda>_.
     and_then (challenge_expected_digest P c) (\<lambda>digest.
     and_then (ensure (ich_challenge_digest c = digest) IP_ChallengeDigestMismatch) (\<lambda>_.
     Inr key)))))))))"

definition unsealed_challenge ::
    "string \<Rightarrow> string \<Rightarrow> verified_trust_state \<Rightarrow> deployment_policy \<Rightarrow> production_key_trust_binding \<Rightarrow> u64 \<Rightarrow> u64 \<Rightarrow> identity_challenge" where
  "unsealed_challenge request_id client_nonce accepted policy key issued_at expires_at =
     (let binding = vts_binding accepted in
      \<lparr>ich_schema_version = IDENTITY_CHALLENGE_SCHEMA, ich_purpose = IDENTITY_PROOF_PURPOSE, ich_request_id = request_id,
       ich_client_nonce = client_nonce, ich_deployment_id = tbn_deployment_id binding, ich_service_id = dpo_service_id policy,
       ich_signer_service_executable_digest = tbn_signer_service_executable_digest binding,
       ich_deployment_policy_revision = dpo_revision policy, ich_deployment_policy_digest = dpo_policy_digest policy,
       ich_trust_state_revision = tbn_revision binding, ich_trust_state_binding_digest = tbn_binding_digest binding,
       ich_registry_revision = tbn_registry_revision binding, ich_registry_digest = tbn_registry_digest binding,
       ich_attestation_generation = tb_generation key, ich_attestation_public_key_digest = tb_public_key_digest key,
       ich_issued_at_epoch_s = issued_at, ich_expires_at_epoch_s = expires_at, ich_challenge_digest = []\<rparr>)"

definition challenge_build ::
    "proof_env \<Rightarrow> string \<Rightarrow> string \<Rightarrow> verified_trust_state \<Rightarrow> deployment_policy \<Rightarrow> u64 \<Rightarrow> u64 \<Rightarrow>
     identity_proof_error + identity_challenge" where
  "challenge_build P request_id client_nonce accepted policy issued_at expires_at =
     and_then (map_err IP_Deployed (deployment_policy_validate_seal (ipe_deployed P) policy)) (\<lambda>_.
     and_then (map_err IP_TrustState (tsbinding_validate_seal (dv_trust (ipe_deployed P)) (vts_binding accepted))) (\<lambda>_.
     and_then (active_attestation_binding P accepted issued_at) (\<lambda>key.
     let c = unsealed_challenge request_id client_nonce accepted policy key issued_at expires_at in
     and_then (challenge_expected_digest P c) (\<lambda>digest.
     let c' = c\<lparr>ich_challenge_digest := digest\<rparr> in
     and_then (challenge_validate_against P c' accepted policy issued_at) (\<lambda>_. Inr c')))))"

section \<open>Proof payloads\<close>

definition payload_expected_digest :: "proof_env \<Rightarrow> identity_proof_payload \<Rightarrow> identity_proof_error + string" where
  "payload_expected_digest P p = ip_digest_with_blank_field P ''payload_digest'' (ipe_payload_value P p)"

definition proof_payload_validate_shape :: "proof_env \<Rightarrow> identity_proof_payload \<Rightarrow> identity_proof_error + unit" where
  "proof_payload_validate_shape P p =
     and_then (ensure (ipp_schema_version p = IDENTITY_PROOF_PAYLOAD_SCHEMA) IP_UnsupportedProofPayloadSchema) (\<lambda>_.
     and_then (ensure (ipp_purpose p = IDENTITY_PROOF_PURPOSE) IP_PurposeSubstitution) (\<lambda>_.
     and_then (ip_identifier ''identity_proof_request_id'' (ipp_request_id p)) (\<lambda>_.
     and_then (ip_sha256 (ipp_client_nonce p)) (\<lambda>_.
     and_then (ip_sha256 (ipp_challenge_digest p)) (\<lambda>_.
     and_then (ip_sha256 (ipp_caller_identity_digest p)) (\<lambda>_.
     and_then (map_err IP_Production (service_validate (ipp_base_service_identity p))) (\<lambda>_.
     and_then (map_err IP_Deployed (bound_identity_validate_seal (ipe_deployed P) (ipp_signer_service_identity p))) (\<lambda>_.
     and_then (map_err IP_TrustState (tsbinding_validate_seal (dv_trust (ipe_deployed P)) (ipp_trust_state p))) (\<lambda>_.
     and_then (ip_sha256 (ipp_deployment_policy_digest p)) (\<lambda>_.
     and_then (map_err IP_KeyGovernance (trust_binding_validate_shape (ipp_attestation_key p))) (\<lambda>_.
     and_then (ip_sha256 (ipp_payload_digest p)) (\<lambda>_.
     and_then (ensure (\<not> (ipp_deployment_policy_revision p = 0 \<or> ipp_proved_at_epoch_s p = 0
         \<or> ipp_expires_at_epoch_s p \<le> ipp_proved_at_epoch_s p
         \<or> tb_identity (ipp_attestation_key p) \<noteq> identity_attestation
         \<or> tb_registry_revision (ipp_attestation_key p) \<noteq> tbn_registry_revision (ipp_trust_state p)
         \<or> tb_registry_digest (ipp_attestation_key p) \<noteq> tbn_registry_digest (ipp_trust_state p)))
       IP_ProofPayloadBindingMismatch) (\<lambda>_.
     and_then (map_err IP_Production (service_digest (ipe_production P) (ipp_base_service_identity p))) (\<lambda>base_digest.
     and_then (ensure (\<not> (base_digest \<noteq> bsi_base_service_identity_digest (ipp_signer_service_identity p)
         \<or> tbn_binding_digest (ipp_trust_state p) \<noteq> bsi_trust_state_binding_digest (ipp_signer_service_identity p)
         \<or> ipp_deployment_policy_digest p \<noteq> bsi_deployment_policy_digest (ipp_signer_service_identity p)
         \<or> ipp_deployment_policy_revision p \<noteq> tbn_service_policy_revision (ipp_trust_state p)
         \<or> ipp_deployment_policy_digest p \<noteq> tbn_service_policy_digest (ipp_trust_state p)))
       IP_ProofPayloadBindingMismatch) (\<lambda>_.
     and_then (payload_expected_digest P p) (\<lambda>digest.
     ensure (ipp_payload_digest p = digest) IP_ProofPayloadDigestMismatch))))))))))))))))"

definition unsealed_proof_payload ::
    "identity_challenge \<Rightarrow> string \<Rightarrow> signer_service_identity \<Rightarrow> bound_service_identity \<Rightarrow> verified_trust_state \<Rightarrow> deployment_policy \<Rightarrow>
     production_key_trust_binding \<Rightarrow> u64 \<Rightarrow> identity_proof_payload" where
  "unsealed_proof_payload c caller_identity_digest base bound accepted policy key proved_at = \<lparr>
     ipp_schema_version = IDENTITY_PROOF_PAYLOAD_SCHEMA, ipp_purpose = IDENTITY_PROOF_PURPOSE, ipp_request_id = ich_request_id c,
     ipp_client_nonce = ich_client_nonce c, ipp_challenge_digest = ich_challenge_digest c,
     ipp_caller_identity_digest = caller_identity_digest, ipp_base_service_identity = base, ipp_signer_service_identity = bound,
     ipp_trust_state = vts_binding accepted, ipp_deployment_policy_revision = dpo_revision policy,
     ipp_deployment_policy_digest = dpo_policy_digest policy, ipp_attestation_key = key, ipp_proved_at_epoch_s = proved_at,
     ipp_expires_at_epoch_s = ich_expires_at_epoch_s c, ipp_payload_digest = []\<rparr>"

definition proof_payload_build ::
    "proof_env \<Rightarrow> identity_challenge \<Rightarrow> authenticated_caller_identity \<Rightarrow> signer_service_identity \<Rightarrow> bound_service_identity \<Rightarrow>
     verified_trust_state \<Rightarrow> deployment_policy \<Rightarrow> u64 \<Rightarrow> identity_proof_error + identity_proof_payload" where
  "proof_payload_build P c caller base bound accepted policy proved_at =
     and_then (challenge_validate_against P c accepted policy proved_at) (\<lambda>key.
     and_then (map_err IP_Production (caller_validate caller)) (\<lambda>_.
     and_then (map_err IP_Production (service_validate base)) (\<lambda>_.
     and_then (map_err IP_Deployed (bound_identity_validate_seal (ipe_deployed P) bound)) (\<lambda>_.
     and_then (map_err IP_Deployed (bound_identity_build (ipe_deployed P) base (vts_binding accepted) policy)) (\<lambda>expected.
     and_then (ensure (\<not> (bound \<noteq> expected \<or> svc_service_id base \<noteq> ich_service_id c
         \<or> svc_executable_sha256 base \<noteq> ich_signer_service_executable_digest c)) IP_ServiceIdentityMismatch) (\<lambda>_.
     and_then (map_err IP_Production (caller_digest (ipe_production P) caller)) (\<lambda>caller_identity_digest.
     let p = unsealed_proof_payload c caller_identity_digest base bound accepted policy key proved_at in
     and_then (payload_expected_digest P p) (\<lambda>digest.
     let p' = p\<lparr>ipp_payload_digest := digest\<rparr> in
     and_then (proof_payload_validate_shape P p') (\<lambda>_. Inr p')))))))))"

section \<open>Proofs\<close>

definition proof_expected_digest :: "proof_env \<Rightarrow> deployed_identity_proof \<Rightarrow> identity_proof_error + string" where
  "proof_expected_digest P d = ip_digest_with_blank_field P ''proof_digest'' (ipe_proof_value P d)"

definition proof_validate_seal :: "proof_env \<Rightarrow> deployed_identity_proof \<Rightarrow> identity_proof_error + unit" where
  "proof_validate_seal P d =
     (let p = dip_payload d; s = dip_signed_package d; receipt = apk_caller_authorization (dpk_signer_package s) in
      and_then (ensure (dip_schema_version d = IDENTITY_PROOF_SCHEMA) IP_UnsupportedProofSchema) (\<lambda>_.
      and_then (proof_payload_validate_shape P p) (\<lambda>_.
      and_then (map_err IP_Deployed (deployed_validate_seal (ipe_deployed P) s)) (\<lambda>_.
      case apk_signer_response (dpk_signer_package s) of
        QR_Error _ _ _ \<Rightarrow> Inl IP_SignedProofMissing
      | QR_Success request_id result \<Rightarrow>
          and_then (ensure (\<not> (request_id \<noteq> ipp_request_id p
              \<or> qr_identity (qe_request (qs_envelope result)) \<noteq> identity_attestation
              \<or> qr_digest (qe_request (qs_envelope result)) \<noteq> ipp_payload_digest p
              \<or> dpk_trust_state s \<noteq> ipp_trust_state p
              \<or> dpk_signer_service_identity s \<noteq> ipp_signer_service_identity p
              \<or> dpk_key_generation s \<noteq> tb_generation (ipp_attestation_key p)
              \<or> car_caller_identity_digest receipt \<noteq> ipp_caller_identity_digest p)) IP_SignedProofBindingMismatch) (\<lambda>_.
          and_then (map_err IP_Production (service_digest (ipe_production P) (ipp_base_service_identity p))) (\<lambda>base_digest.
          and_then (ensure (\<not> (car_signer_service_identity_digest receipt \<noteq> base_digest
              \<or> car_authorized_at_epoch_s receipt \<noteq> ipp_proved_at_epoch_s p)) IP_SignedProofBindingMismatch) (\<lambda>_.
          and_then (ip_sha256 (dip_proof_digest d)) (\<lambda>_.
          and_then (proof_expected_digest P d) (\<lambda>digest.
          ensure (dip_proof_digest d = digest) IP_ProofDigestMismatch)))))))))"

definition proof_build ::
    "proof_env \<Rightarrow> identity_proof_payload \<Rightarrow> deployed_signer_package \<Rightarrow> identity_proof_error + deployed_identity_proof" where
  "proof_build P payload package =
     (let d = \<lparr>dip_schema_version = IDENTITY_PROOF_SCHEMA, dip_payload = payload, dip_signed_package = package, dip_proof_digest = []\<rparr> in
      and_then (proof_expected_digest P d) (\<lambda>digest.
      let d' = d\<lparr>dip_proof_digest := digest\<rparr> in
      and_then (proof_validate_seal P d') (\<lambda>_. Inr d')))"

definition proof_matches_challenge ::
    "identity_proof_payload \<Rightarrow> identity_challenge \<Rightarrow> verified_trust_state \<Rightarrow> deployment_policy \<Rightarrow> production_key_trust_binding \<Rightarrow>
     u64 \<Rightarrow> bool" where
  "proof_matches_challenge p c accepted policy key now \<longleftrightarrow>
     \<not> (ipp_request_id p \<noteq> ich_request_id c \<or> ipp_client_nonce p \<noteq> ich_client_nonce c
       \<or> ipp_challenge_digest p \<noteq> ich_challenge_digest c \<or> ipp_trust_state p \<noteq> vts_binding accepted
       \<or> ipp_deployment_policy_revision p \<noteq> dpo_revision policy \<or> ipp_deployment_policy_digest p \<noteq> dpo_policy_digest policy
       \<or> ipp_attestation_key p \<noteq> key \<or> ipp_proved_at_epoch_s p < ich_issued_at_epoch_s c
       \<or> ipp_proved_at_epoch_s p \<ge> ich_expires_at_epoch_s c \<or> now \<ge> ipp_expires_at_epoch_s p)"

definition proof_verify ::
    "proof_env \<Rightarrow> deployed_identity_proof \<Rightarrow> identity_challenge \<Rightarrow> verified_trust_state \<Rightarrow> deployment_policy \<Rightarrow> u64 \<Rightarrow>
     identity_proof_error + signer_service_identity" where
  "proof_verify P d c accepted policy now =
     (let p = dip_payload d; base = ipp_base_service_identity p in
      and_then (challenge_validate_against P c accepted policy now) (\<lambda>key.
      and_then (proof_validate_seal P d) (\<lambda>_.
      and_then (ensure (proof_matches_challenge p c accepted policy key now) IP_ProofChallengeMismatch) (\<lambda>_.
      and_then (map_err IP_Deployed (bound_identity_build (ipe_deployed P) base (vts_binding accepted) policy)) (\<lambda>expected.
      and_then (ensure (ipp_signer_service_identity p = expected) IP_ServiceIdentityMismatch) (\<lambda>_.
      and_then (map_err IP_Production (service_digest (ipe_production P) base)) (\<lambda>base_digest.
      let trust = \<lparr>gts_signer = \<lparr>tsn_identity = identity_attestation, tsn_public_key_digest = tb_public_key_digest key,
          tsn_allowlist_revision = tbn_caller_allowlist_revision (vts_binding accepted),
          tsn_allowlist_digest = tbn_caller_allowlist_digest (vts_binding accepted),
          tsn_caller_identity_digest = ipp_caller_identity_digest p, tsn_signer_service_identity_digest = base_digest\<rparr>,
        gts_key = key\<rparr> in
      and_then (map_err IP_Deployed (verify_deployed (ipe_deployed P) (dip_signed_package d) accepted policy base trust
        (ipp_proved_at_epoch_s p))) (\<lambda>envelope.
      and_then (map_err IP_Protocol (envelope_validate_for (sv_protocol (dv_service (ipe_deployed P))) envelope policy_attestation)) (\<lambda>_.
      and_then (ensure (qr_digest (qe_request envelope) = ipp_payload_digest p) IP_SignedProofBindingMismatch) (\<lambda>_.
      Inr base))))))))))"

section \<open>Leases\<close>

definition lease_validate_at ::
    "proof_env \<Rightarrow> trust_lease \<Rightarrow> verified_trust_state \<Rightarrow> deployment_policy \<Rightarrow> u64 \<Rightarrow> identity_proof_error + unit" where
  "lease_validate_at P l accepted policy now =
     and_then (ip_sha256 (tl_proof_digest l)) (\<lambda>_.
     and_then (ip_sha256 (tl_caller_identity_digest l)) (\<lambda>_.
     and_then (map_err IP_Production (service_validate (tl_service_identity l))) (\<lambda>_.
     and_then (map_err IP_TrustState (tsbinding_validate_seal (dv_trust (ipe_deployed P)) (tl_trust_state l))) (\<lambda>_.
     and_then (map_err IP_Deployed (deployment_policy_validate_seal (ipe_deployed P) policy)) (\<lambda>_.
     and_then (map_err IP_TrustState (tsbinding_validate_seal (dv_trust (ipe_deployed P)) (vts_binding accepted))) (\<lambda>_.
     and_then (ensure (\<not> (now < tl_proved_at_epoch_s l \<or> now \<ge> tl_expires_at_epoch_s l)) IP_TrustLeaseOutsideValidityWindow) (\<lambda>_.
     and_then (ensure (\<not> (tl_trust_state l \<noteq> vts_binding accepted \<or> tl_deployment_policy_revision l \<noteq> dpo_revision policy
         \<or> tl_deployment_policy_digest l \<noteq> dpo_policy_digest policy
         \<or> svc_service_id (tl_service_identity l) \<noteq> dpo_service_id policy
         \<or> svc_executable_sha256 (tl_service_identity l) \<noteq> tbn_signer_service_executable_digest (vts_binding accepted)
         \<or> tsn_caller_identity_digest (gts_signer (tl_capability_trust l)) \<noteq> tl_caller_identity_digest l
         \<or> tsn_caller_identity_digest (gts_signer (tl_attestation_trust l)) \<noteq> tl_caller_identity_digest l))
       IP_TrustLeaseBindingMismatch) (\<lambda>_.
     and_then (map_err IP_Production (service_digest (ipe_production P) (tl_service_identity l))) (\<lambda>digest.
     and_then (ensure (\<not> (tsn_signer_service_identity_digest (gts_signer (tl_capability_trust l)) \<noteq> digest
         \<or> tsn_signer_service_identity_digest (gts_signer (tl_attestation_trust l)) \<noteq> digest))
       IP_TrustLeaseBindingMismatch) (\<lambda>_.
     and_then (map_err IP_Service (governed_trust_validate_for (dv_service (ipe_deployed P)) (tl_capability_trust l)
       policy_capability (tl_registry l) now)) (\<lambda>_.
     map_err IP_Service (governed_trust_validate_for (dv_service (ipe_deployed P)) (tl_attestation_trust l)
       policy_attestation (tl_registry l) now))))))))))))"

definition governed_trust_for_identity ::
    "proof_env \<Rightarrow> production_key_identity \<Rightarrow> string \<Rightarrow> signer_service_identity \<Rightarrow> verified_trust_state \<Rightarrow> deployment_policy \<Rightarrow> u64 \<Rightarrow>
     identity_proof_error + governed_signer_trust_snapshot" where
  "governed_trust_for_identity P i caller_identity_digest base accepted policy now =
     and_then (ensure (policy_permits policy i) IP_TrustLeaseIdentityNotEnabled) (\<lambda>_.
     and_then (ip_sha256 caller_identity_digest) (\<lambda>_.
     and_then (map_err IP_Production (service_validate base)) (\<lambda>_.
     and_then (map_err IP_KeyGovernance (prod_active_record (ipe_keys P) (vts_registry accepted) i now)) (\<lambda>r.
     and_then (key_binding P r (vts_binding accepted)) (\<lambda>key.
     and_then (map_err IP_Production (service_digest (ipe_production P) base)) (\<lambda>base_digest.
     let trust = \<lparr>gts_signer = \<lparr>tsn_identity = i, tsn_public_key_digest = tb_public_key_digest key,
         tsn_allowlist_revision = tbn_caller_allowlist_revision (vts_binding accepted),
         tsn_allowlist_digest = tbn_caller_allowlist_digest (vts_binding accepted),
         tsn_caller_identity_digest = caller_identity_digest, tsn_signer_service_identity_digest = base_digest\<rparr>,
       gts_key = key\<rparr> in
     and_then (map_err IP_Service (governed_trust_validate_for (dv_service (ipe_deployed P)) trust (policy_for i)
       (vts_registry accepted) now)) (\<lambda>_.
     Inr trust)))))))"

definition verify_trust_lease ::
    "proof_env \<Rightarrow> deployed_identity_proof \<Rightarrow> identity_challenge \<Rightarrow> verified_trust_state \<Rightarrow> deployment_policy \<Rightarrow> u64 \<Rightarrow>
     identity_proof_error + trust_lease" where
  "verify_trust_lease P d c accepted policy now =
     (let p = dip_payload d in
      and_then (proof_verify P d c accepted policy now) (\<lambda>base.
      and_then (governed_trust_for_identity P identity_capability (ipp_caller_identity_digest p) base accepted policy now) (\<lambda>capability_trust.
      and_then (governed_trust_for_identity P identity_attestation (ipp_caller_identity_digest p) base accepted policy now) (\<lambda>attestation_trust.
      and_then (ensure (gts_key attestation_trust = ipp_attestation_key p) IP_TrustLeaseBindingMismatch) (\<lambda>_.
      let l = \<lparr>tl_proof_digest = dip_proof_digest d, tl_caller_identity_digest = ipp_caller_identity_digest p,
        tl_service_identity = base, tl_trust_state = vts_binding accepted, tl_deployment_policy_revision = dpo_revision policy,
        tl_deployment_policy_digest = dpo_policy_digest policy, tl_proved_at_epoch_s = ipp_proved_at_epoch_s p,
        tl_expires_at_epoch_s = ipp_expires_at_epoch_s p, tl_capability_trust = capability_trust,
        tl_attestation_trust = attestation_trust, tl_registry = vts_registry accepted\<rparr> in
      and_then (lease_validate_at P l accepted policy now) (\<lambda>_. Inr l))))))"

section \<open>The service's answer\<close>

definition handle_identity_challenge ::
    "proof_env \<Rightarrow> signer_backend \<Rightarrow> trust_bound_service \<Rightarrow> identity_challenge \<Rightarrow> authenticated_caller_identity \<Rightarrow> u64 \<Rightarrow>
     (identity_proof_error + deployed_identity_proof) \<times> trust_bound_service" where
  "handle_identity_challenge P B svc c caller now =
     (case and_then (proof_payload_build P c caller (pss_service_identity (tbs_inner svc)) (tbs_service_identity svc)
             (tbs_accepted svc) (tbs_deployment_policy svc) now) (\<lambda>payload.
           and_then (map_err IP_Protocol (prod_sign_digest (sv_protocol (dv_service (ipe_deployed P))) (ich_request_id c)
             policy_attestation (ipp_payload_digest payload))) (\<lambda>request.
           Inr (payload, request))) of
        Inl e \<Rightarrow> (Inl e, svc)
      | Inr (payload, request) \<Rightarrow>
          (let (result, svc') = trust_bound_handle (ipe_deployed P) B svc request caller now
           in (and_then (map_err IP_Deployed result) (proof_build P payload), svc')))"

end
