(* ===== verification/TrustDeployment.thy ===== *)
theory TrustDeployment
  imports TrustService
begin

text \<open>
  Correctness of the trust-bound signer service: its binary search is membership, start-up
  fixes the deployment for every later request, and the packages it hands out are exactly what
  a verifier holding the accepted trust state can check.
\<close>


section \<open>The policy's binary search\<close>

text \<open>In a strictly sorted list the loop keeps the position of the key in its window.\<close>

lemma bisect_finds:
  assumes "sorted_wrt (<) xs" "base \<le> p" "p < base + width" "base + width \<le> length xs"
  shows "bisect xs (xs ! p) base width = p"
  using assms(2-4)
proof (induction width arbitrary: base rule: less_induct)
  case (less width)
  show ?case
  proof (cases "1 < width")
    case True
    let ?half = "width div 2"
    have mid: "xs ! p < xs ! (base + ?half) \<longleftrightarrow> p < base + ?half"
    proof -
      have len: "p < length xs" "base + ?half < length xs" using less.prems True by auto
      have mono: "xs ! i < xs ! j" if "i < j" "j < length xs" for i j using sorted_wrt_nth_less [OF assms(1) that] .
      show ?thesis
        by (cases p "base + ?half" rule: linorder_cases) (use mono len in \<open>auto dest: order_less_asym\<close>)
    qed
    have "bisect xs (xs ! p) (if xs ! p < xs ! (base + ?half) then base else base + ?half) (width - ?half) = p"
      by (rule less.IH) (use less.prems True mid in \<open>auto split: if_splits\<close>)
    then show ?thesis using True by (subst bisect.simps) (simp add: Let_def)
  qed (use less.prems in \<open>subst bisect.simps, simp\<close>)
qed

lemma bisect_in_range: "0 < width \<Longrightarrow> base + width \<le> length xs \<Longrightarrow> bisect xs key base width < length xs"
proof (induction width arbitrary: base rule: less_induct)
  case (less width)
  show ?case
  proof (cases "1 < width")
    case True
    have "bisect xs key (if key < xs ! (base + width div 2) then base else base + width div 2) (width - width div 2) < length xs"
      by (rule less.IH) (use less.prems True in \<open>auto split: if_splits\<close>)
    then show ?thesis using True by (subst bisect.simps) (simp add: Let_def)
  qed (use less.prems in \<open>subst bisect.simps, simp\<close>)
qed

lemma binary_search_iff:
  assumes "sorted_wrt (<) xs"
  shows "binary_search xs key \<noteq> None \<longleftrightarrow> key \<in> set xs"
proof
  assume "binary_search xs key \<noteq> None"
  then have "xs \<noteq> []" "xs ! bisect xs key 0 (length xs) = key" by (auto simp: binary_search_def Let_def split: if_splits)
  then show "key \<in> set xs" using bisect_in_range [of "length xs" 0 xs key] by (metis add_0 length_greater_0_conv nth_mem order_refl)
next
  assume "key \<in> set xs"
  then obtain p where p: "p < length xs" "xs ! p = key" by (auto simp: in_set_conv_nth)
  from bisect_finds [OF assms, of 0 p "length xs"] p have "bisect xs key 0 (length xs) = p" by simp
  with p show "binary_search xs key \<noteq> None" by (auto simp: binary_search_def Let_def)
qed

lemma identity_key_inject [simp]: "identity_key i = identity_key j \<longleftrightarrow> i = j"
  by (cases i; cases j) (auto simp: identity_key_def)

lemma scan_enabled_identities_ok:
  assumes "try_fold scan_enabled_identity previous is = Inr l"
  shows "sorted_wrt (<) (map identity_key is) \<and> (\<forall>i\<in>set is. identity_validate i = Inr ()) \<and>
    (\<forall>p i. previous = Some p \<and> i \<in> set is \<longrightarrow> identity_key p < identity_key i)"
  using assms
proof (induction "is" arbitrary: previous)
  case (Cons i "is")
  then obtain s where s: "scan_enabled_identity previous i = Inr s" and f: "try_fold scan_enabled_identity s is = Inr l"
    by (auto simp: and_then_eq_Inr)
  from s have i: "identity_validate i = Inr ()" "\<forall>p. previous = Some p \<longrightarrow> identity_key p < identity_key i" "s = Some i"
    by (auto simp: scan_enabled_identity_def and_then_eq_Inr ensure_eq map_err_eq not_le split: option.splits)
  note rest = f [unfolded i(3)]
  from Cons.IH [OF rest] i show ?case by (auto intro: less_trans)
qed simp

lemma deployment_policy_ok:
  assumes "deployment_policy_validate_seal D p = Inr u"
  shows "sorted_wrt (<) (map identity_key (dpo_enabled_identities p))"
    "\<forall>i\<in>set (dpo_enabled_identities p). identity_validate i = Inr ()"
proof -
  from assms obtain l where "try_fold scan_enabled_identity None (dpo_enabled_identities p) = Inr l"
    by (auto simp: deployment_policy_validate_seal_def and_then_eq_Inr)
  from scan_enabled_identities_ok [OF this] show "sorted_wrt (<) (map identity_key (dpo_enabled_identities p))"
    "\<forall>i\<in>set (dpo_enabled_identities p). identity_validate i = Inr ()" by simp_all
qed

lemma policy_permits_iff:
  assumes "deployment_policy_validate_seal D p = Inr ()"
  shows "policy_permits p i \<longleftrightarrow> i \<in> set (dpo_enabled_identities p)"
  unfolding policy_permits_def binary_search_iff [OF deployment_policy_ok(1) [OF assms]] by auto

section \<open>What the checks establish\<close>

lemma dv_trust_sel [simp]: "tv_keys (dv_trust D) = sv_keys (dv_service D)"
  by (simp add: dv_trust_def)

lemma bound_identity_build_ok:
  assumes "bound_identity_build D base ts policy = Inr i"
  shows "service_validate base = Inr ()" "tsbinding_validate_seal (dv_trust D) ts = Inr ()"
    "deployment_policy_validate_seal D policy = Inr ()" "bound_identity_validate_seal D i = Inr ()"
    "tbn_signer_service_executable_digest ts = svc_executable_sha256 base" "tbn_deployment_id ts = dpo_deployment_id policy"
    "tbn_service_policy_digest ts = dpo_policy_digest policy"
    "service_digest (dv_production D) base = Inr (bsi_base_service_identity_digest i)"
    "bsi_trust_state_binding_digest i = tbn_binding_digest ts" "bsi_deployment_policy_digest i = dpo_policy_digest policy"
  using assms unfolding bound_identity_build_def Let_def by (auto simp: and_then_eq_Inr ensure_eq map_err_eq)

text \<open>The binding of a verified state repeats the fields of its body.\<close>

lemma tsbinding_from_parts_ok:
  assumes "tsbinding_from_parts T e = Inr b"
  shows "tsbinding_validate_seal T b = Inr ()" "tbn_revision b = tsb_revision (tse_body e)"
    "tbn_state_digest b = tsb_body_digest (tse_body e)" "tbn_registry_revision b = rsn_revision (tsb_registry (tse_body e))"
    "tbn_registry_digest b = tsb_registry_digest (tse_body e)"
    "tbn_caller_allowlist_revision b = tsb_caller_allowlist_revision (tse_body e)"
    "tbn_caller_allowlist_digest b = tsb_caller_allowlist_digest (tse_body e)"
    "tbn_signer_service_executable_digest b = tsb_signer_service_executable_digest (tse_body e)"
    "tbn_service_policy_digest b = tsb_service_policy_digest (tse_body e)" "tbn_registry_revision b \<noteq> 0"
proof -
  from assms show v: "tsbinding_validate_seal T b = Inr ()"
    unfolding tsbinding_from_parts_def Let_def by (auto simp: and_then_eq_Inr)
  then show "tbn_registry_revision b \<noteq> 0" by (auto simp: tsbinding_validate_seal_def and_then_eq_Inr ensure_eq)
  from assms show "tbn_revision b = tsb_revision (tse_body e)"
    "tbn_state_digest b = tsb_body_digest (tse_body e)" "tbn_registry_revision b = rsn_revision (tsb_registry (tse_body e))"
    "tbn_registry_digest b = tsb_registry_digest (tse_body e)"
    "tbn_caller_allowlist_revision b = tsb_caller_allowlist_revision (tse_body e)"
    "tbn_caller_allowlist_digest b = tsb_caller_allowlist_digest (tse_body e)"
    "tbn_signer_service_executable_digest b = tsb_signer_service_executable_digest (tse_body e)"
    "tbn_service_policy_digest b = tsb_service_policy_digest (tse_body e)"
    unfolding tsbinding_from_parts_def Let_def by (auto simp: and_then_eq_Inr)
qed

lemma verify_deployed_iff:
  "verify_deployed D p accepted policy base trust t = Inr envelope \<longleftrightarrow>
     deployed_validate_seal D p = Inr () \<and> dpk_trust_state p = vts_binding accepted \<and>
     bound_identity_build D base (vts_binding accepted) policy = Inr (dpk_signer_service_identity p) \<and>
     dpk_key_generation p = tb_generation (gts_key trust) \<and>
     tb_registry_revision (gts_key trust) = tbn_registry_revision (vts_binding accepted) \<and>
     tb_registry_digest (gts_key trust) = tbn_registry_digest (vts_binding accepted) \<and>
     verify_governed (dv_service D) (dpk_signer_package p) trust (vts_registry accepted) t = Inr envelope \<and>
     qr_identity (qe_request envelope) = tb_identity (gts_key trust) \<and>
     bnd_trust_state_binding_digest (qe_binding envelope) = Some (tbn_binding_digest (vts_binding accepted))"
proof -
  have seal: "dpk_key_generation p \<noteq> 0 \<and> deployed_expected_digest D p = Inr (dpk_package_digest p)"
    if "deployed_validate_seal D p = Inr ()"
    using that by (auto simp: deployed_validate_seal_def and_then_eq_Inr ensure_eq map_err_eq split: production_signer_response.splits)
  show ?thesis (is "?l \<longleftrightarrow> ?r")
  proof
    assume ?l
    then show ?r unfolding verify_deployed_def and_then_eq_Inr by (auto simp: ensure_eq map_err_eq)
  next
    assume ?r
    then have d: "deployed_validate_seal D p = Inr ()"
      and b: "bound_identity_build D base (vts_binding accepted) policy = Inr (dpk_signer_service_identity p)" by simp_all
    from \<open>?r\<close> seal [OF d] bound_identity_build_ok(3) [OF b] show ?l unfolding verify_deployed_def by simp
  qed
qed

lemma active_search_found:
  assumes "try_fold (\<lambda>active r. and_then (record_validate_seal K r) (\<lambda>_.
      and_then (ensure (active = None) PKE_ActiveGenerationAmbiguity) (\<lambda>_. Inr (Some r)))) acc xs = Inr (Some r)"
  shows "acc = Some r \<or> r \<in> set xs \<and> record_validate_seal K r = Inr ()"
  using assms
proof (induction xs arbitrary: acc)
  case (Cons x xs)
  from Cons.prems have x: "record_validate_seal K x = Inr ()" and rest: "try_fold (\<lambda>active r. and_then (record_validate_seal K r) (\<lambda>_.
      and_then (ensure (active = None) PKE_ActiveGenerationAmbiguity) (\<lambda>_. Inr (Some r)))) (Some x) xs = Inr (Some r)"
    by (auto simp: and_then_eq_Inr ensure_eq)
  from Cons.IH [OF rest] x show ?case by auto
qed simp

lemma active_record_found:
  assumes "prod_active_record K reg i at = Inr r"
  shows "identity_validate i = Inr ()" "r \<in> set (bm_values (pkr_records reg))" "kr_identity r = i" "record_active_at r at"
    "record_validate_seal K r = Inr ()"
proof -
  from assms have "try_fold (\<lambda>active r. and_then (record_validate_seal K r) (\<lambda>_.
      and_then (ensure (active = None) PKE_ActiveGenerationAmbiguity) (\<lambda>_. Inr (Some r)))) None
      (filter (\<lambda>r. kr_identity r = i \<and> record_active_at r at) (bm_values (pkr_records reg))) = Inr (Some r)"
    and i: "identity_validate i = Inr ()"
    unfolding prod_active_record_def by (auto simp: and_then_eq_Inr map_err_eq ok_or_eq)
  from active_search_found [OF this(1)] i show "identity_validate i = Inr ()" "r \<in> set (bm_values (pkr_records reg))"
    "kr_identity r = i" "record_active_at r at" "record_validate_seal K r = Inr ()" by simp_all
qed

text \<open>The binding of an active record of a loaded snapshot verifies against the loaded registry.\<close>

definition active_key_binding :: "production_key_record \<Rightarrow> u64 \<Rightarrow> string \<Rightarrow> production_key_trust_binding" where
  "active_key_binding r revision digest = \<lparr>tb_schema_version = PRODUCTION_KEY_TRUST_BINDING_SCHEMA, tb_identity = kr_identity r,
     tb_generation = kr_generation r, tb_public_key_digest = kr_public_key_digest r, tb_key_record_digest = kr_record_digest r,
     tb_registry_revision = revision, tb_registry_digest = digest\<rparr>"

lemma loaded_binding_verifies:
  assumes lawful: "keys_lawful K" and load: "from_snapshot K s = Inr reg" and digest: "snapshot_digest K s = Inr dg"
    and rev: "rsn_revision s \<noteq> 0" and active: "prod_active_record K reg i at = Inr r"
  shows "verify_binding K reg (active_key_binding r (rsn_revision s) dg) at = Inr r"
proof -
  note l = from_snapshot_ok [OF load] and a = active_record_found [OF active]
  have "bm_wf (pkr_records reg)" using l(3) by (simp add: keyed_uniquely_def)
  then obtain k where k: "map_of (pkr_records reg) k = Some r" using a(2) by (auto simp: bm_values_iff)
  have "k = record_key_of r" using l(3) k unfolding keyed_uniquely_def by blast
  with k have find: "map_of (pkr_records reg) (record_key_from i (kr_generation r)) = Some r" by (simp add: a(3))
  have resolve: "prod_resolve K reg i (kr_generation r) at = Inr r"
    unfolding prod_resolve_iff using a find by (simp add: record_active_at_def)
  have reg_digest: "prod_registry_digest K reg = Inr dg" using digest l(1) by (simp add: prod_registry_digest_def)
  have "pkr_revision reg = rsn_revision s" unfolding l(1) [symmetric] by (simp add: prod_snapshot_def)
  moreover have "is_sha256 dg"
  proof -
    from digest obtain v where "canonical_json_sha256 (kv_hasher K) v = Inr dg"
      by (auto simp: snapshot_digest_def and_then_eq_Inr map_err_eq)
    then show ?thesis using lawful_hasher_digests [of "kv_hasher K" v] lawful by (simp add: keys_lawful_def)
  qed
  moreover have seal: "lawful_hasher (kv_hasher K)" "sealable ''record_digest'' (\<lambda>d. kr_record_digest_update (\<lambda>_. d)) (kv_record_value K)"
    using lawful by (simp_all add: keys_lawful_def)
  then obtain rd where "record_expected_digest K r = Inr rd" "is_sha256 rd"
    using blank_field_digest_sealable [OF seal, of PKE_Serialization PKE_InvalidCanonicalObject PKE_Hashing r]
    by (auto simp: record_expected_digest_def)
  then have "is_sha256 (kr_record_digest r)" using record_validate_seal_ok(6) [OF a(5)] by simp
  ultimately have "trust_binding_validate_shape (active_key_binding r (rsn_revision s) dg) = Inr ()"
    using record_validate_seal_ok(1,2,8) [OF a(5)] rev
    by (simp add: trust_binding_validate_shape_def active_key_binding_def)
  then show ?thesis
    using resolve reg_digest \<open>pkr_revision reg = rsn_revision s\<close> a(3)
    by (simp add: verify_binding_def active_key_binding_def)
qed

section \<open>Histories of the trust-bound service\<close>

inductive trust_bound_step :: "deployed_env \<Rightarrow> trust_bound_service \<Rightarrow> trust_bound_service \<Rightarrow> bool"
  for D where
  handle: "trust_bound_step D svc (snd (trust_bound_handle D B svc request caller now))"

definition same_deployment :: "trust_bound_service \<Rightarrow> trust_bound_service \<Rightarrow> bool" where
  "same_deployment svc svc' \<longleftrightarrow>
     tbs_accepted svc' = tbs_accepted svc \<and> tbs_deployment_policy svc' = tbs_deployment_policy svc \<and>
     tbs_service_identity svc' = tbs_service_identity svc \<and>
     pss_service_identity (tbs_inner svc') = pss_service_identity (tbs_inner svc) \<and>
     pss_allowlist (tbs_inner svc') = pss_allowlist (tbs_inner svc)"

lemma handle_keeps_service:
  assumes "handle_with_trust_state S B svc request caller now g tsd = (outcome, svc')"
  shows "pss_service_identity svc' = pss_service_identity svc" "pss_allowlist svc' = pss_allowlist svc"
  using assms by (auto simp: handle_with_trust_state_def split: sum.splits prod.splits)

lemma trust_bound_step_same:
  assumes "trust_bound_step D svc svc'"
  shows "same_deployment svc svc'"
  using assms
proof cases
  case (handle B request caller now)
  then show ?thesis
    unfolding trust_bound_handle_def Let_def same_deployment_def
    by (auto split: sum.splits prod.splits dest: handle_keeps_service)
qed

interpretation deployment: state_machine "trust_bound_step D" "\<lambda>_. True" for D
  by unfold_locales simp

lemma trust_bound_steps_same: "(trust_bound_step D)\<^sup>*\<^sup>* svc svc' \<Longrightarrow> same_deployment svc svc'"
  by (erule deployment.steps_monotone) (auto simp: reflp_def transp_def same_deployment_def dest: trust_bound_step_same)

lemma trust_bound_handle_ok:
  assumes "trust_bound_handle D B svc request caller now = (Inr p, svc')"
  obtains r package inner where
    "policy_permits (tbs_deployment_policy svc) (qr_identity request)"
    "prod_active_record (sv_keys (dv_service D)) (vts_registry (tbs_accepted svc)) (qr_identity request) now = Inr r"
    "handle_with_trust_state (dv_service D) B (tbs_inner svc) request caller now (kr_generation r)
      (Some (tbn_binding_digest (vts_binding (tbs_accepted svc)))) = (Inr package, inner)"
    "deployed_build D (tbs_accepted svc) (tbs_service_identity svc) (kr_generation r) package = Inr p"
  using assms unfolding trust_bound_handle_def Let_def
  by (auto split: if_splits sum.splits prod.splits)

lemma deployed_build_ok:
  assumes "deployed_build D accepted i g package = Inr p"
  shows "deployed_validate_seal D p = Inr ()" "dpk_trust_state p = vts_binding accepted" "dpk_signer_service_identity p = i"
    "dpk_key_generation p = g" "dpk_signer_package p = package"
  using assms unfolding deployed_build_def Let_def by (auto simp: and_then_eq_Inr)

lemma trust_bound_new_ok:
  assumes "trust_bound_new D B inner accepted policy = Inr svc"
  shows "deployment_policy_validate_seal D policy = Inr ()" "validate_runtime_state D inner accepted policy = Inr ()"
    "bound_identity_build D (pss_service_identity inner) (vts_binding accepted) policy = Inr (tbs_service_identity svc)"
    "\<forall>i\<in>set (dpo_enabled_identities policy). check_enabled_identity D B inner accepted i = Inr ()"
    "tbs_inner svc = inner" "tbs_accepted svc = accepted" "tbs_deployment_policy svc = policy"
  using assms by (auto simp: trust_bound_new_def and_then_eq_Inr try_for_each_eq_Inr)

lemma enabled_identity_backend:
  assumes "check_enabled_identity D B inner accepted i = Inr ()"
  shows "\<exists>r d. prod_active_record (sv_keys (dv_service D)) (vts_registry accepted) i
      (svc_started_at_epoch_s (pss_service_identity inner)) = Inr r \<and>
    be_descriptor_for_generation B (policy_for i) (kr_generation r) = Inr d \<and>
    hd_public_key_digest d = kr_public_key_digest r"
  using assms
  by (auto simp: check_enabled_identity_def validate_backend_generation_def validate_descriptor_record_binding_def
      and_then_eq_Inr ensure_eq map_err_eq policy_for_identity_ok)


text \<open>A package made by a service that passed its start-up checks, whatever it did since.\<close>

lemma served_package_verifies:
  assumes lawful: "identity_lawful (sv_identity (dv_service D))" "keys_lawful (sv_keys (dv_service D))"
    and accepted: "tsenvelope_verify (dv_trust D) (vts_envelope accepted) gp t0 = Inr accepted"
    and start: "trust_bound_new D B inner accepted policy = Inr svc0"
    and history: "same_deployment svc0 svc"
    and handle: "trust_bound_handle D B svc request caller now = (Inr p, svc')"
    and active: "prod_active_record (sv_keys (dv_service D)) (vts_registry accepted) (qr_identity request)
        (svc_started_at_epoch_s (pss_service_identity inner)) = Inr r"
      "prod_active_record (sv_keys (dv_service D)) (vts_registry accepted) (qr_identity request) now = Inr r"
  shows "\<exists>cd sd d envelope. caller_digest (dv_production D) caller = Inr cd \<and>
    service_digest (dv_production D) (pss_service_identity inner) = Inr sd \<and>
    be_descriptor_for_generation B (policy_for (qr_identity request)) (kr_generation r) = Inr d \<and>
    verify_deployed D p accepted policy (pss_service_identity inner)
      \<lparr>gts_signer = trust_snapshot_of inner cd sd d,
       gts_key = active_key_binding r (tbn_registry_revision (vts_binding accepted)) (tbn_registry_digest (vts_binding accepted))\<rparr>
      now = Inr envelope \<and>
    qe_request envelope = request \<and>
    bnd_trust_state_binding_digest (qe_binding envelope) = Some (tbn_binding_digest (vts_binding accepted))"
proof -
  note s0 = trust_bound_new_ok [OF start]
  from history have same: "tbs_accepted svc = accepted" "tbs_deployment_policy svc = policy"
    "tbs_service_identity svc = tbs_service_identity svc0" "pss_service_identity (tbs_inner svc) = pss_service_identity inner"
    "pss_allowlist (tbs_inner svc) = pss_allowlist inner"
    by (simp_all add: same_deployment_def s0)
  let ?i = "qr_identity request"
  from handle show ?thesis
  proof (rule trust_bound_handle_ok)
    fix r' package inner'
    assume h: "policy_permits (tbs_deployment_policy svc) ?i"
      "prod_active_record (sv_keys (dv_service D)) (vts_registry (tbs_accepted svc)) ?i now = Inr r'"
      "handle_with_trust_state (dv_service D) B (tbs_inner svc) request caller now (kr_generation r')
        (Some (tbn_binding_digest (vts_binding (tbs_accepted svc)))) = (Inr package, inner')"
      "deployed_build D (tbs_accepted svc) (tbs_service_identity svc) (kr_generation r') package = Inr p"
    have r': "r' = r" using h(2) active(2) by (simp add: same)
    have "?i \<in> set (dpo_enabled_identities policy)" using h(1) policy_permits_iff [OF s0(1)] by (simp add: same)
    with s0(4) enabled_identity_backend active(1) obtain d where
      d: "be_descriptor_for_generation B (policy_for ?i) (kr_generation r) = Inr d" "hd_public_key_digest d = kr_public_key_digest r"
      by force
    note e = tsenvelope_verify_ok [OF accepted] and a = active_record_found [OF active(2)]
    note b = tsbinding_from_parts_ok [OF e(9)]
    let ?key = "active_key_binding r (tbn_registry_revision (vts_binding accepted)) (tbn_registry_digest (vts_binding accepted))"
    have "verify_binding (sv_keys (dv_service D)) (vts_registry accepted) ?key now = Inr r"
      using loaded_binding_verifies [OF lawful(2) e(8) [unfolded dv_trust_sel] _ _ active(2)]
        body_validate_shape_ok(4) [OF e(2)] b(4,5,10) by simp
    show ?thesis
    proof (rule handled_package_trusted [OF lawful(1) h(3)])
      fix result cd sd
      assume res: "caller_digest (dv_production D) caller = Inr cd"
        "service_digest (dv_production D) (pss_service_identity (tbs_inner svc)) = Inr sd"
        "be_descriptor_for_generation B (policy_for ?i) (kr_generation r') = Inr (qs_descriptor result)"
        "qe_request (qs_envelope result) = request"
        "bnd_trust_state_binding_digest (qe_binding (qs_envelope result)) = Some (tbn_binding_digest (vts_binding (tbs_accepted svc)))"
        "hd_identity (qs_descriptor result) = ?i"
        "verify_trusted (dv_service D) package (trust_snapshot_of (tbs_inner svc) cd sd (qs_descriptor result)) = Inr (qs_envelope result)"
      have d': "qs_descriptor result = d" using res(3) d(1) by (simp add: r')
      have ts: "trust_snapshot_of (tbs_inner svc) cd sd d = trust_snapshot_of inner cd sd d" by (simp add: trust_snapshot_of_def same)
      have "verify_governed (dv_service D) package \<lparr>gts_signer = trust_snapshot_of inner cd sd d, gts_key = ?key\<rparr>
          (vts_registry accepted) now = Inr (qs_envelope result)"
        unfolding verify_governed_iff using res(6,7) d' ts d(2) a(3) \<open>verify_binding _ _ ?key now = Inr r\<close>
        by (auto simp: trust_snapshot_of_def active_key_binding_def)
      then have "verify_deployed D p accepted policy (pss_service_identity inner)
          \<lparr>gts_signer = trust_snapshot_of inner cd sd d, gts_key = ?key\<rparr> now = Inr (qs_envelope result)"
        unfolding verify_deployed_iff using deployed_build_ok [OF h(4)] s0(3) res(4,5) a(3)
        by (auto simp: same r' active_key_binding_def)
      then show ?thesis using res d d' by (auto simp: same)
    qed
  qed
qed


section \<open>Properties\<close>

text \<open>
  The enabled identities of a sealed deployment policy are found by its binary search:
  the policy permits an identity exactly when the list contains it.
\<close>

lemma permits_is_membership:
  assumes "deployment_policy_validate_seal D p = Inr ()"
  shows "policy_permits p i \<longleftrightarrow> i \<in> set (dpo_enabled_identities p)"
  using assms by (rule policy_permits_iff)

text \<open>
  C8: a package that a trust-bound service hands out is accepted by a verifier that holds
  the same accepted trust state, as long as the generation that was active for the request's
  identity when the service started is still the active one when it signs: if the service
  passed its start-up checks, then after any history of requests such a package verifies as
  deployed, at the signing time, against the trust snapshot of the service and the binding of
  that generation, and yields an envelope with the caller's request that is bound to the
  accepted trust state. (A registry may hold two active generations with disjoint windows;
  a package signed after the change from one to the other is not covered.)
\<close>

theorem deployed_package_verifies:
  assumes lawful: "identity_lawful (sv_identity (dv_service D))" "keys_lawful (sv_keys (dv_service D))"
    and accepted: "tsenvelope_verify (dv_trust D) (vts_envelope accepted) gp t0 = Inr accepted"
    and start: "trust_bound_new D B inner accepted policy = Inr svc0"
    and history: "(trust_bound_step D)\<^sup>*\<^sup>* svc0 svc"
    and handle: "trust_bound_handle D B svc request caller now = (Inr p, svc')"
    and active: "prod_active_record (sv_keys (dv_service D)) (vts_registry accepted) (qr_identity request)
        (svc_started_at_epoch_s (pss_service_identity inner)) = Inr r"
      "prod_active_record (sv_keys (dv_service D)) (vts_registry accepted) (qr_identity request) now = Inr r"
  shows "\<exists>cd sd d envelope. caller_digest (dv_production D) caller = Inr cd \<and>
    service_digest (dv_production D) (pss_service_identity inner) = Inr sd \<and>
    be_descriptor_for_generation B (policy_for (qr_identity request)) (kr_generation r) = Inr d \<and>
    verify_deployed D p accepted policy (pss_service_identity inner)
      \<lparr>gts_signer = trust_snapshot_of inner cd sd d,
       gts_key = active_key_binding r (tbn_registry_revision (vts_binding accepted)) (tbn_registry_digest (vts_binding accepted))\<rparr>
      now = Inr envelope \<and>
    qe_request envelope = request \<and>
    bnd_trust_state_binding_digest (qe_binding envelope) = Some (tbn_binding_digest (vts_binding accepted))"
  by (rule served_package_verifies [OF lawful accepted start trust_bound_steps_same [OF history] handle active])

text \<open>A deployment of the example service under the example trust state.\<close>

definition demo_deployed_env :: deployed_env where
  "demo_deployed_env = \<lparr>dv_service = demo_service_env, dv_trust_values = demo_trust_env,
     dv_policy_value = (\<lambda>_. Inr (JObject [])), dv_identity_value = (\<lambda>_. Inr (JObject [])),
     dv_package_value = (\<lambda>_. Inr (JObject []))\<rparr>"

definition demo_deployment_policy :: deployment_policy where
  "demo_deployment_policy = \<lparr>dpo_schema_version = PRODUCTION_SIGNER_DEPLOYMENT_POLICY_SCHEMA,
     dpo_deployment_id = ''deployment'', dpo_revision = 1, dpo_service_id = ''signer'', dpo_transport_id = ''pipe'',
     dpo_max_request_bytes = 1024, dpo_max_response_bytes = 1024, dpo_enabled_identities = [identity_capability],
     dpo_policy_digest = demo_zero_digest\<rparr>"

definition demo_bound_identity :: bound_service_identity where
  "demo_bound_identity = \<lparr>bsi_schema_version = TRUST_BOUND_SIGNER_SERVICE_IDENTITY_SCHEMA,
     bsi_base_service_identity_digest = demo_zero_digest, bsi_trust_state_binding_digest = demo_zero_digest,
     bsi_deployment_policy_digest = demo_zero_digest, bsi_identity_digest = demo_zero_digest\<rparr>"

abbreviation demo_accepted :: verified_trust_state where
  "demo_accepted \<equiv> demo_verified (prod_snapshot (demo_active_registry 3)) 2 (Some demo_zero_digest) (demo_active_registry 3)"

definition demo_trust_bound :: trust_bound_service where
  "demo_trust_bound = \<lparr>tbs_inner = demo_signer_service, tbs_accepted = demo_accepted,
     tbs_deployment_policy = demo_deployment_policy, tbs_service_identity = demo_bound_identity\<rparr>"

lemma demo_deployed_sel [simp]:
  "dv_service demo_deployed_env = demo_service_env" "dv_trust demo_deployed_env = demo_trust_env"
  "deployment_policy_expected_digest demo_deployed_env p = Inr demo_zero_digest"
  "bound_identity_expected_digest demo_deployed_env i = Inr demo_zero_digest"
  "deployed_expected_digest demo_deployed_env k = Inr demo_zero_digest"
proof -
  show s [simp]: "dv_service demo_deployed_env = demo_service_env" by (simp add: demo_deployed_env_def)
  show "dv_trust demo_deployed_env = demo_trust_env" by (simp add: dv_trust_def) (simp add: demo_deployed_env_def demo_trust_env_def)
  show "deployment_policy_expected_digest demo_deployed_env p = Inr demo_zero_digest"
    "bound_identity_expected_digest demo_deployed_env i = Inr demo_zero_digest"
    "deployed_expected_digest demo_deployed_env k = Inr demo_zero_digest"
    by (simp_all add: deployment_policy_expected_digest_def bound_identity_expected_digest_def deployed_expected_digest_def
        ds_digest_with_blank_field_def) (simp_all add: demo_deployed_env_def)
qed

lemma ds_sha256_simp [simp]: "is_sha256 d \<Longrightarrow> ds_sha256 d = Inr ()"
  by (simp add: ds_sha256_def)

lemma demo_deployment_policy_sealed [simp]:
  "deployment_policy_validate_seal demo_deployed_env demo_deployment_policy = Inr ()"
proof -
  have "is_identifier ''signer''" "is_identifier ''pipe''" "is_identifier ''deployment''"
    by (simp_all add: is_identifier_def is_ascii_alphanumeric_def)
  then show ?thesis
    by (simp add: deployment_policy_validate_seal_def demo_deployment_policy_def prod_validate_identifier_def scan_enabled_identity_def)
qed

lemma demo_permits [simp]: "policy_permits demo_deployment_policy identity_capability"
  using policy_permits_iff [OF demo_deployment_policy_sealed] by (simp add: demo_deployment_policy_def)

lemma demo_accepted_verifies:
  "tsenvelope_verify demo_trust_env (vts_envelope demo_accepted) demo_governance_policy 100 = Inr demo_accepted"
proof -
  have "previous_binding_check (Some demo_zero_digest) 2 = Inr ()" by (simp add: previous_binding_check_def)
  from demo_envelope_verifies [OF demo_snapshots(1) this] show ?thesis by (simp add: demo_verified_def)
qed

lemma demo_accepted_sel [simp]:
  "vts_binding demo_accepted = demo_tsbinding (prod_snapshot (demo_active_registry 3)) 2"
  "vts_registry demo_accepted = demo_active_registry 3"
  "vts_body demo_accepted = demo_body (prod_snapshot (demo_active_registry 3)) 2 (Some demo_zero_digest)"
  by (simp_all add: demo_verified_def vts_body_def demo_envelope_of_def)

lemma demo_active_at:
  assumes "5 \<le> t" "t < 100"
  shows "prod_active_record demo_keys_env (demo_active_registry 3) identity_capability t = Inr (demo_key_record 1 1 5 100)"
  using assms demo_key_record_sealed [of 1 5 100 1]
  by (simp add: prod_active_record_def demo_single_def bm_values_def record_active_at_def)

lemma demo_bound_identity_built:
  "bound_identity_build demo_deployed_env demo_service (demo_tsbinding (prod_snapshot (demo_active_registry 3)) 2) demo_deployment_policy =
     Inr demo_bound_identity"
proof -
  have "tsbinding_validate_seal demo_trust_env (demo_tsbinding (prod_snapshot (demo_active_registry 3)) 2) = Inr ()"
    using tsbinding_from_parts_ok(1) [OF tsenvelope_verify_ok(9) [OF demo_accepted_verifies]] by simp
  moreover have "svc_service_id demo_service = ''signer''" "svc_executable_sha256 demo_service = demo_zero_digest"
    by (simp_all add: demo_service_def)
  ultimately show ?thesis
    by (simp add: bound_identity_build_def bound_identity_validate_seal_def)
      (simp add: demo_tsbinding_def demo_deployment_policy_def demo_bound_identity_def)
qed

lemma demo_started: "trust_bound_new demo_deployed_env demo_backend demo_signer_service demo_accepted demo_deployment_policy = Inr demo_trust_bound"
proof -
  have sel: "pss_service_identity demo_signer_service = demo_service" "pss_allowlist demo_signer_service = demo_allowlist"
    "svc_started_at_epoch_s demo_service = 5" "svc_service_id demo_service = ''signer''"
    "svc_executable_sha256 demo_service = demo_zero_digest" "alw_revision demo_allowlist = 1"
    "alw_allowlist_digest demo_allowlist = demo_zero_digest" "dpo_enabled_identities demo_deployment_policy = [identity_capability]"
    by (simp_all add: demo_signer_service_def demo_service_def demo_allowlist_def demo_deployment_policy_def)
  have "validate_runtime_state demo_deployed_env demo_signer_service demo_accepted demo_deployment_policy = Inr ()"
    by (simp add: validate_runtime_state_def sel) (simp add: demo_body_def demo_deployment_policy_def)
  moreover have "check_enabled_identity demo_deployed_env demo_backend demo_signer_service demo_accepted identity_capability = Inr ()"
  proof -
    have "validate_backend_generation demo_service_env demo_backend identity_capability 1 = Inr (demo_descriptor 1)"
    proof -
      have "policy_for_identity identity_capability = Inr (policy_for identity_capability)" by (simp add: policy_for_identity_ok)
      moreover have "be_descriptor_for_generation demo_backend (policy_for identity_capability) 1 = Inr (demo_descriptor 1)"
        by (simp add: demo_backend_def default_descriptor_for_generation_def)
      ultimately show ?thesis by (simp add: validate_backend_generation_def)
    qed
    moreover have "validate_descriptor_record_binding demo_deployed_env (demo_descriptor 1) (demo_key_record 1 1 5 100) = Inr ()"
      by (simp add: validate_descriptor_record_binding_def) (simp add: demo_key_record_def)
    ultimately show ?thesis using demo_active_at [of 5] by (simp add: check_enabled_identity_def sel)
  qed
  ultimately show ?thesis
    using demo_bound_identity_built by (simp add: trust_bound_new_def sel demo_trust_bound_def)
qed


lemma demo_deployed_handled:
  "\<exists>p svc. trust_bound_handle demo_deployed_env demo_backend demo_trust_bound demo_sign_request demo_caller 60 = (Inr p, svc)"
proof -
  obtain package inner where h: "handle_with_trust_state demo_service_env demo_backend demo_signer_service demo_sign_request demo_caller 60 1
      (Some demo_zero_digest) = (Inr package, inner)"
    using demo_handled_ok [of True] unfolding demo_handled_def demo_tsd_def by (metis prod.collapse if_True)
  have sel: "qr_identity demo_sign_request = identity_capability" "tbs_accepted demo_trust_bound = demo_accepted"
    "tbs_deployment_policy demo_trust_bound = demo_deployment_policy" "tbs_inner demo_trust_bound = demo_signer_service"
    "tbs_service_identity demo_trust_bound = demo_bound_identity"
    "tbn_binding_digest (demo_tsbinding snap revision) = demo_zero_digest" for snap revision
    by (simp_all add: demo_sign_request_def demo_trust_bound_def demo_tsbinding_def)
  obtain result where res: "apk_signer_response package = QR_Success (qr_request_id demo_sign_request) result"
    "bnd_trust_state_binding_digest (qe_binding (qs_envelope result)) = Some demo_zero_digest"
  proof -
    have "identity_lawful (sv_identity demo_service_env)" using demo_identity_lawful by simp
    from handled_package_trusted [OF this h] show thesis using that by metis
  qed
  have "tsbinding_validate_seal demo_trust_env (demo_tsbinding (prod_snapshot (demo_active_registry 3)) 2) = Inr ()"
    using tsbinding_from_parts_ok(1) [OF tsenvelope_verify_ok(9) [OF demo_accepted_verifies]] by simp
  moreover have "bound_identity_validate_seal demo_deployed_env demo_bound_identity = Inr ()"
    using bound_identity_build_ok(4) [OF demo_bound_identity_built] .
  ultimately have "\<exists>p. deployed_build demo_deployed_env demo_accepted demo_bound_identity 1 package = Inr p"
    using res by (simp add: deployed_build_def deployed_validate_seal_def sel)
  moreover have "\<not> (60 < tsb_not_before_epoch_s (vts_body demo_accepted) \<or> 60 \<ge> tsb_not_after_epoch_s (vts_body demo_accepted))"
    by (simp add: demo_body_def)
  ultimately show ?thesis
    using h demo_active_at [of 60] by (auto simp: trust_bound_handle_def sel Let_def simp del: demo_accepted_sel(3))
qed

theorem deployed_package_verifies_witness:
  "\<exists>p trust envelope. fst (trust_bound_handle demo_deployed_env demo_backend demo_trust_bound demo_sign_request demo_caller 60) = Inr p \<and>
     verify_deployed demo_deployed_env p demo_accepted demo_deployment_policy demo_service trust 60 = Inr envelope \<and>
     qe_request envelope = demo_sign_request"
proof -
  obtain p svc where h: "trust_bound_handle demo_deployed_env demo_backend demo_trust_bound demo_sign_request demo_caller 60 = (Inr p, svc)"
    using demo_deployed_handled by blast
  have sel: "pss_service_identity demo_signer_service = demo_service" "svc_started_at_epoch_s demo_service = 5"
    "qr_identity demo_sign_request = identity_capability"
    by (simp_all add: demo_signer_service_def demo_service_def demo_sign_request_def)
  show ?thesis
    using deployed_package_verifies [OF _ _ _ demo_started rtranclp.rtrancl_refl h, where r = "demo_key_record 1 1 5 100"
        and gp = demo_governance_policy and ?t0.0 = 100]
      demo_identity_lawful demo_keys_lawful demo_accepted_verifies demo_active_at [of 5] demo_active_at [of 60] h
    by (simp add: sel) blast
qed

text \<open>
  C9: what a deployed package proves to a verifier that holds an accepted trust state. The
  state carries the signatures of a quorum of governance keys, and names the executable of the
  service that signed. The signature in the package verifies, over the digest of the very
  envelope that the verifier returns, under the key of a generation that the state's registry
  holds for the request's identity, has not revoked, and finds valid at the signing time that
  the verifier is given. That envelope is bound to this trust state. And the package holds a sealed authorization of the
  caller for exactly the request in that envelope, under the allowlist and for the caller and
  the service that the verifier's trust snapshot names and the envelope is bound to.
\<close>

theorem deployed_package_proves:
  assumes "tsenvelope_verify (dv_trust D) (vts_envelope accepted) gp t0 = Inr accepted"
    "verify_deployed D p accepted policy base trust t = Inr envelope"
  shows "\<exists>message result r. trust_state_signature_message (tsb_body_digest (vts_body accepted)) = Inr message \<and>
    governance_quorum (dv_trust D) gp (tse_signatures (vts_envelope accepted)) message (tsb_activated_at_epoch_s (vts_body accepted)) \<and>
    tsb_signer_service_executable_digest (vts_body accepted) = svc_executable_sha256 base \<and>
    apk_signer_response (dpk_signer_package p) = QR_Success (qr_request_id (qe_request envelope)) result \<and>
    qs_envelope result = envelope \<and> signed_by_descriptor (sv_protocol (dv_service D)) result \<and>
    envelope_digest_for (sv_protocol (dv_service D)) envelope (policy_for (qr_identity (qe_request envelope))) =
      Inr (qs_envelope_digest result) \<and>
    authorization_sealed (dv_service D) (apk_caller_authorization (dpk_signer_package p)) (gts_signer trust) \<and>
    request_digest_for (sv_protocol (dv_service D)) (qe_request envelope) (policy_for (qr_identity (qe_request envelope))) =
      Inr (car_request_digest (apk_caller_authorization (dpk_signer_package p))) \<and>
    bnd_caller_identity_digest (qe_binding envelope) = tsn_caller_identity_digest (gts_signer trust) \<and>
    bnd_signer_service_identity_digest (qe_binding envelope) = tsn_signer_service_identity_digest (gts_signer trust) \<and>
    bnd_trust_state_binding_digest (qe_binding envelope) = Some (tbn_binding_digest (vts_binding accepted)) \<and>
    tbn_state_digest (vts_binding accepted) = tsb_body_digest (vts_body accepted) \<and>
    r \<in> set (rsn_records (tsb_registry (vts_body accepted))) \<and> kr_identity r = qr_identity (qe_request envelope) \<and>
    kr_generation r = dpk_key_generation p \<and> kr_public_key_digest r = hd_public_key_digest (qs_descriptor result) \<and>
    kr_status r \<noteq> PK_Revoked \<and> kr_not_before_epoch_s r \<le> t \<and> t < kr_not_after_epoch_s r"
proof -
  note e = tsenvelope_verify_ok [OF assms(1)] and v = assms(2) [unfolded verify_deployed_iff]
  have body: "vts_body accepted = tse_body (vts_envelope accepted)" by (simp add: vts_body_def)
  from verify_signatures_quorum [OF e(7)] obtain message where m: "trust_state_signature_message (tsb_body_digest (vts_body accepted)) = Inr message"
    "governance_quorum (dv_trust D) gp (tse_signatures (vts_envelope accepted)) message (tsb_activated_at_epoch_s (vts_body accepted))"
    by (auto simp: trust_state_signature_message_def body)
  note b = tsbinding_from_parts_ok [OF e(9)]
  have "bound_identity_build D base (vts_binding accepted) policy = Inr (dpk_signer_service_identity p)" using v by simp
  from bound_identity_build_ok(5) [OF this] b(8) have exe: "tsb_signer_service_executable_digest (vts_body accepted) = svc_executable_sha256 base"
    by (simp add: body)
  from v have g: "verify_governed (dv_service D) (dpk_signer_package p) trust (vts_registry accepted) t = Inr envelope" by simp
  then obtain r where r: "prod_resolve (sv_keys (dv_service D)) (vts_registry accepted) (tb_identity (gts_key trust)) (tb_generation (gts_key trust)) t = Inr r"
    "kr_public_key_digest r = tb_public_key_digest (gts_key trust)"
    unfolding verify_governed_iff by (auto simp: verify_binding_def and_then_eq_Inr ensure_eq)
  note load = from_snapshot_ok [OF e(8)]
  from r(1) have find: "map_of (pkr_records (vts_registry accepted)) (record_key_from (tb_identity (gts_key trust)) (tb_generation (gts_key trust))) = Some r"
    and ok: "kr_status r \<noteq> PK_Revoked" "kr_not_before_epoch_s r \<le> t" "t < kr_not_after_epoch_s r" unfolding prod_resolve_iff by simp_all
  have wf: "bm_wf (pkr_records (vts_registry accepted))" using load(3) by (simp add: keyed_uniquely_def)
  have "record_key_from (tb_identity (gts_key trust)) (tb_generation (gts_key trust)) = record_key_of r"
    using load(3) find unfolding keyed_uniquely_def by blast
  then have id: "kr_identity r = qr_identity (qe_request envelope)" "kr_generation r = dpk_key_generation p" using v by simp_all
  have "r \<in> set (bm_values (pkr_records (vts_registry accepted)))" unfolding bm_values_iff [OF wf] using find by blast
  then have mem: "r \<in> set (rsn_records (tsb_registry (vts_body accepted)))"
    unfolding body load(1) [symmetric] by (simp add: prod_snapshot_def)
  from g show ?thesis
  proof (rule verify_governed_ok)
    fix result h s
    assume s: "apk_signer_response (dpk_signer_package p) = QR_Success (qr_request_id (qe_request envelope)) result"
      "qs_envelope result = envelope" "signed_by_descriptor (sv_protocol (dv_service D)) result"
      "request_digest_for (sv_protocol (dv_service D)) (qe_request envelope) (policy_for (qr_identity (qe_request envelope))) =
         Inr (car_request_digest (apk_caller_authorization (dpk_signer_package p)))"
      "bnd_caller_identity_digest (qe_binding envelope) = tsn_caller_identity_digest (gts_signer trust)"
      "bnd_signer_service_identity_digest (qe_binding envelope) = tsn_signer_service_identity_digest (gts_signer trust)"
      "envelope_digest_for (sv_protocol (dv_service D)) envelope (policy_for (qr_identity (qe_request envelope))) =
         Inr (qs_envelope_digest result)"
      "authorization_sealed (dv_service D) (apk_caller_authorization (dpk_signer_package p)) (gts_signer trust)"
    have "verify_trusted (dv_service D) (dpk_signer_package p) (gts_signer trust) = Inr envelope"
      "tb_public_key_digest (gts_key trust) = tsn_public_key_digest (gts_signer trust)"
      using g unfolding verify_governed_iff by simp_all
    then have "kr_public_key_digest r = hd_public_key_digest (qs_descriptor result)"
      unfolding verify_trusted_iff using s(1) r(2) by auto
    then show ?thesis using m exe s v b(3) mem id ok unfolding body by blast
  qed
qed

lemma demo_deployed_verifies:
  "\<exists>p trust envelope. verify_deployed demo_deployed_env p demo_accepted demo_deployment_policy demo_service trust 60 = Inr envelope"
proof -
  obtain p svc where h: "trust_bound_handle demo_deployed_env demo_backend demo_trust_bound demo_sign_request demo_caller 60 = (Inr p, svc)"
    using demo_deployed_handled by blast
  have sel: "pss_service_identity demo_signer_service = demo_service" "svc_started_at_epoch_s demo_service = 5"
    "qr_identity demo_sign_request = identity_capability" "same_deployment demo_trust_bound demo_trust_bound"
    by (simp_all add: demo_signer_service_def demo_service_def demo_sign_request_def same_deployment_def)
  show ?thesis
    using served_package_verifies [OF _ _ _ demo_started sel(4) h, where r = "demo_key_record 1 1 5 100"
        and gp = demo_governance_policy and ?t0.0 = 100]
      demo_identity_lawful demo_keys_lawful demo_accepted_verifies demo_active_at [of 5] demo_active_at [of 60]
    by (simp add: sel) blast
qed

theorem deployed_package_proves_witness:
  "\<exists>p trust envelope r. verify_deployed demo_deployed_env p demo_accepted demo_deployment_policy demo_service trust 60 = Inr envelope \<and>
     r \<in> set (rsn_records (tsb_registry (vts_body demo_accepted))) \<and> kr_status r \<noteq> PK_Revoked"
proof -
  obtain p trust envelope where v: "verify_deployed demo_deployed_env p demo_accepted demo_deployment_policy demo_service trust 60 = Inr envelope"
    using demo_deployed_verifies by blast
  have "tsenvelope_verify (dv_trust demo_deployed_env) (vts_envelope demo_accepted) demo_governance_policy 100 = Inr demo_accepted"
    unfolding demo_deployed_sel(2) by (rule demo_accepted_verifies)
  from deployed_package_proves [OF this v] v show ?thesis by blast
qed

end
