(* ===== verification/ExampleSigner.thy ===== *)
theory ExampleSigner
  imports ProductionService
begin

text \<open>
  A signer for examples, for both production identities: it answers every request with a
  package made by the example key, which the example registry holds for the identity. The
  examples of the theories on issuance and on leases are built on it.
\<close>

lemma policy_names: "policy_capability = policy_for identity_capability" "policy_attestation = policy_for identity_attestation"
  by (simp_all add: policy_capability_def policy_attestation_def)

definition example_request :: "production_key_identity \<Rightarrow> string \<Rightarrow> string \<Rightarrow> production_signer_request" where
  "example_request i rid digest = \<lparr>qr_schema_version = PRODUCTION_SIGNER_PROTOCOL_SCHEMA, qr_request_id = rid,
     qr_identity = i, qr_digest_algorithm = PROD_DIGEST_ALGORITHM_SHA256, qr_digest = digest,
     qr_key_policy_digest = demo_zero_digest\<rparr>"

definition example_descriptor :: "production_key_identity \<Rightarrow> hardware_key_descriptor" where
  "example_descriptor i = (demo_descriptor 1)\<lparr>hd_identity := i\<rparr>"

definition example_envelope :: "bool \<Rightarrow> production_signer_request \<Rightarrow> production_signer_envelope" where
  "example_envelope b r = \<lparr>qe_schema_version = PRODUCTION_SIGNER_PROTOCOL_SCHEMA, qe_domain = PRODUCTION_SIGNING_DOMAIN,
     qe_request = r, qe_binding = demo_binding b\<rparr>"

definition example_authorization :: caller_authorization_receipt where
  "example_authorization = \<lparr>car_schema_version = CALLER_AUTHORIZATION_RECEIPT_SCHEMA, car_caller_id = ''app'',
     car_request_digest = demo_zero_digest, car_caller_identity_digest = demo_zero_digest,
     car_signer_service_identity_digest = demo_zero_digest, car_allowlist_revision = 1, car_allowlist_digest = demo_zero_digest,
     car_authorized_at_epoch_s = 60, car_receipt_digest = demo_zero_digest\<rparr>"

definition example_success :: "bool \<Rightarrow> production_signer_request \<Rightarrow> production_signer_success" where
  "example_success b r = \<lparr>qs_descriptor = example_descriptor (qr_identity r), qs_envelope = example_envelope b r,
     qs_envelope_digest = demo_zero_digest, qs_signature = demo_signature\<lparr>hs_identity := qr_identity r\<rparr>\<rparr>"

definition example_answer :: "bool \<Rightarrow> production_signer_request \<Rightarrow> authorized_signer_package" where
  "example_answer b r = \<lparr>apk_caller_authorization = example_authorization,
     apk_signer_response = QR_Success (qr_request_id r) (example_success b r)\<rparr>"

definition example_record :: "production_key_identity \<Rightarrow> production_key_record" where
  "example_record i = (demo_key_record 1 1 5 100)\<lparr>kr_identity := i\<rparr>"

definition example_registry :: "production_key_identity \<Rightarrow> production_key_registry" where
  "example_registry i = \<lparr>pkr_revision = 1, pkr_records = [(record_key_from i 1, example_record i)]\<rparr>"

definition example_trust :: "production_key_identity \<Rightarrow> governed_signer_trust_snapshot" where
  "example_trust i = \<lparr>gts_signer = \<lparr>tsn_identity = i, tsn_public_key_digest = sha256_hex demo_prod_hasher (demo_p256_key 1),
       tsn_allowlist_revision = 1, tsn_allowlist_digest = demo_zero_digest, tsn_caller_identity_digest = demo_zero_digest,
       tsn_signer_service_identity_digest = demo_zero_digest\<rparr>,
     gts_key = demo_trust_binding\<lparr>tb_identity := i\<rparr>\<rparr>"

lemma example_request_built:
  assumes "identity_validate i = Inr ()" "is_identifier rid" "is_sha256 digest"
  shows "request_validate_for (sv_protocol demo_service_env) (example_request i rid digest) (policy_for i) = Inr ()"
    "request_digest_for (sv_protocol demo_service_env) (example_request i rid digest) (policy_for i) = Inr demo_zero_digest"
    "prod_sign_digest (sv_protocol demo_service_env) rid (policy_for i) digest = Inr (example_request i rid digest)"
proof -
  have k: "kp_identity (policy_for i) = i" by (simp add: policy_for_def)
  show v: "request_validate_for (sv_protocol demo_service_env) (example_request i rid digest) (policy_for i) = Inr ()"
    using assms k by (simp add: request_validate_for_def example_request_def prod_validate_identifier_def)
  show "request_digest_for (sv_protocol demo_service_env) (example_request i rid digest) (policy_for i) = Inr demo_zero_digest"
    by (simp add: request_digest_for_def v pq_digest_value_def)
  show "prod_sign_digest (sv_protocol demo_service_env) rid (policy_for i) digest = Inr (example_request i rid digest)"
    using assms(1) v by (simp add: prod_sign_digest_def k example_request_def)
qed

lemma example_descriptor_valid:
  assumes "identity_validate i = Inr ()"
  shows "descriptor_validate_for demo_production_env (example_descriptor i) (policy_for i) = Inr ()"
    "descriptor_public_key (sv_protocol demo_service_env) (example_descriptor i) = Inr (demo_p256_key 1)"
    "validate_descriptor_contract (sv_protocol demo_service_env) (example_descriptor i) (policy_for i) = Inr ()"
proof -
  have "b64_encode demo_base64 (demo_p256_key 1) \<noteq> []" by (simp add: demo_base64_def demo_p256_key_def)
  then show "descriptor_validate_for demo_production_env (example_descriptor i) (policy_for i) = Inr ()"
    using assms by (simp add: descriptor_validate_for_def example_descriptor_def) (simp add: demo_descriptor_def policy_for_def)
  show k: "descriptor_public_key (sv_protocol demo_service_env) (example_descriptor i) = Inr (demo_p256_key 1)"
    by (simp add: descriptor_public_key_def example_descriptor_def) (simp add: demo_p256_key_def)
  show "validate_descriptor_contract (sv_protocol demo_service_env) (example_descriptor i) (policy_for i) = Inr ()"
    using assms k by (simp add: validate_descriptor_contract_def example_descriptor_def) (simp add: policy_for_def)
qed

lemma example_signature_valid:
  "signature_validate_for demo_production_env (demo_signature\<lparr>hs_identity := i\<rparr>) (example_descriptor i) (demo_binding b) = Inr ()"
  using demo_signature_valid [of b] unfolding signature_validate_for_def
  by (auto simp: and_then_eq_Inr ensure_eq example_descriptor_def)

lemma example_answer_eligible:
  assumes i: "identity_validate i = Inr ()" and r: "is_identifier rid" "is_sha256 digest"
  shows "verify_production_eligible (sv_protocol demo_service_env) (QR_Success rid (example_success b (example_request i rid digest)))
     (policy_for i) = Inr (example_envelope b (example_request i rid digest))"
proof -
  let ?r = "example_request i rid digest"
  have sel: "qr_identity ?r = i" "qr_request_id ?r = rid" "qr_key_policy_digest ?r = demo_zero_digest"
    by (simp_all add: example_request_def)
  have bind: "bnd_request_digest (demo_binding b) = demo_zero_digest" "bnd_key_policy_digest (demo_binding b) = demo_zero_digest"
    by (simp_all add: demo_binding_def)
  have ev: "envelope_validate_for (sv_protocol demo_service_env) (example_envelope b ?r) (policy_for i) = Inr ()"
    using example_request_built [OF i r] by (simp add: envelope_validate_for_def example_envelope_def sel bind)
  have ed: "envelope_digest_for (sv_protocol demo_service_env) (example_envelope b ?r) (policy_for i) = Inr demo_zero_digest"
    using ev by (simp add: envelope_digest_for_def)
  have d: "pq_decode_sha256 demo_zero_digest = Inr (replicate 32 0)"
    by (simp add: pq_decode_sha256_ok) (simp add: demo_zero_digest_bytes)
  have s: "decode_signature (sv_protocol demo_service_env) (demo_signature\<lparr>hs_identity := i\<rparr>) = Inr (demo_p256_key 1 @ replicate 32 0)"
    by (simp add: decode_signature_def demo_signature_def PROD_DIGEST_ALGORITHM_SHA256_def) (simp add: demo_p256_def)
  have p: "p256_vk_from_sec1 demo_p256 k = Some k" "p256_verify_prehash demo_p256 k dg sg \<longleftrightarrow> sg = k @ dg" for k dg sg
    by (simp_all add: demo_p256_def)
  have e: "qe_request (example_envelope b ?r) = ?r" "qe_binding (example_envelope b ?r) = demo_binding b"
    by (simp_all add: example_envelope_def)
  have h: "hs_digest (demo_signature\<lparr>hs_identity := i\<rparr>) = demo_zero_digest" by (simp add: demo_signature_def)
  show ?thesis
    using example_descriptor_valid [OF i] example_signature_valid [of i b]
    by (simp add: verify_production_eligible_def verify_cryptographic_def example_success_def sel ev ed d s p e h)
qed

lemma sv_authorization_value_demo: "sv_authorization_value demo_service_env r = Inr (JObject [])"
  by (simp add: demo_service_env_def)

lemma example_answer_trusted:
  assumes i: "identity_validate i = Inr ()" and r: "is_identifier rid" "is_sha256 digest"
  shows "verify_trusted demo_service_env (example_answer b (example_request i rid digest)) (gts_signer (example_trust i)) =
    Inr (example_envelope b (example_request i rid digest))"
proof -
  let ?r = "example_request i rid digest"
  have sel: "qr_identity ?r = i" "qr_request_id ?r = rid" by (simp_all add: example_request_def)
  have d: "hd_identity (example_descriptor i) = i"
    "hd_public_key_digest (example_descriptor i) = sha256_hex demo_prod_hasher (demo_p256_key 1)"
    by (simp_all add: example_descriptor_def)
  have "is_identifier ''app''" by (simp add: is_identifier_def is_ascii_alphanumeric_def)
  then have seal: "validate_authorization_receipt_seal demo_service_env example_authorization = Inr ()"
    by (simp add: validate_authorization_receipt_seal_def example_authorization_def prod_validate_identifier_def sv_authorization_value_demo)
  have t: "trust_validate_for (gts_signer (example_trust i)) (policy_for i) = Inr ()"
    using i by (simp add: trust_validate_for_def example_trust_def)
  have b: "validate_authorization_response_binding demo_service_env example_authorization (example_envelope b ?r) (policy_for i) = Inr ()"
    using example_request_built(2) [OF i r]
    by (simp add: validate_authorization_response_binding_def example_envelope_def demo_binding_def example_authorization_def)
  have a: "apk_caller_authorization (example_answer b ?r) = example_authorization"
    "apk_signer_response (example_answer b ?r) = QR_Success rid (example_success b ?r)" by (simp_all add: example_answer_def sel)
  have s: "qs_descriptor (example_success b ?r) = example_descriptor i" by (simp add: example_success_def sel)
  have ti: "tsn_identity (gts_signer (example_trust i)) = i" by (simp add: example_trust_def)
  show ?thesis
    using example_answer_eligible [OF i r, of b] seal t b
    unfolding verify_trusted_iff a ti by (simp add: s d) (simp add: example_trust_def example_authorization_def)
qed

lemma example_record_sealed:
  assumes "identity_validate i = Inr ()"
  shows "record_validate_seal demo_keys_env (example_record i) = Inr ()"
proof -
  have d: "record_descriptor (example_record i) = example_descriptor i"
    by (simp add: record_descriptor_def example_record_def example_descriptor_def demo_key_record_def demo_descriptor_def)
  have "validate_public_key demo_keys_env (example_record i) = Inr ()"
    using example_descriptor_valid(1) [OF assms] assms
    by (simp add: validate_public_key_def d) (simp add: example_record_def demo_p256_def demo_p256_key_def)
  moreover have "record_state_ok (example_record i)" by (simp add: example_record_def record_state_ok_def demo_key_record_def)
  ultimately show ?thesis using assms
    by (simp add: record_validate_seal_def) (simp add: example_record_def)
qed

lemma example_resolve:
  assumes "identity_validate i = Inr ()"
  shows "prod_resolve demo_keys_env (example_registry i) i 1 50 = Inr (example_record i)"
  using example_record_sealed [OF assms] assms
  by (simp add: prod_resolve_def example_registry_def) (simp add: example_record_def)

lemma example_registry_digest:
  assumes "identity_validate i = Inr ()"
  shows "prod_registry_digest demo_keys_env (example_registry i) = Inr demo_zero_digest"
proof -
  have "kr_identity (example_record i) = i" "kr_generation (example_record i) = 1"
    "kr_successor_generation (example_record i) = None" by (simp_all add: example_record_def demo_key_record_def)
  then show ?thesis
    using example_record_sealed [OF assms]
    by (simp add: prod_registry_digest_def snapshot_digest_def snapshot_validate_seal_def prod_snapshot_def example_registry_def
        bm_values_def scan_record_def scan_start_def Let_def)
qed

lemma example_binding_verifies:
  assumes "identity_validate i = Inr ()"
  shows "verify_binding demo_keys_env (example_registry i) (gts_key (example_trust i)) 50 = Inr (example_record i)"
proof -
  have "trust_binding_validate_shape (gts_key (example_trust i)) = Inr ()"
    using assms by (simp add: trust_binding_validate_shape_def example_trust_def demo_trust_binding_def)
  moreover have "kr_public_key_digest (example_record i) = sha256_hex demo_prod_hasher (demo_p256_key 1)"
    "kr_record_digest (example_record i) = demo_zero_digest" by (simp_all add: example_record_def)
  ultimately show ?thesis
    using example_registry_digest [OF assms] example_resolve [OF assms]
    by (simp add: verify_binding_def) (simp add: example_trust_def demo_trust_binding_def example_registry_def)
qed

lemma example_answer_governed:
  assumes i: "identity_validate i = Inr ()" and r: "is_identifier rid" "is_sha256 digest"
  shows "verify_governed demo_service_env (example_answer b (example_request i rid digest)) (example_trust i) (example_registry i) 50 =
    Inr (example_envelope b (example_request i rid digest))"
  using example_answer_trusted [OF assms, of b] example_binding_verifies [OF i]
  by (simp add: verify_governed_iff) (simp add: example_trust_def demo_trust_binding_def)

text \<open>The signer service itself hands out such packages, for every backend that holds the example key.\<close>

lemma example_binding_built:
  assumes "identity_validate i = Inr ()"
  shows "(case demo_tsd b of
      Some digest \<Rightarrow> binding_build_with_trust_state demo_production_env demo_zero_digest demo_caller demo_service (policy_for i) digest
    | None \<Rightarrow> binding_build demo_production_env demo_zero_digest demo_caller demo_service (policy_for i)) = Inr (demo_binding b)"
proof -
  have plain: "binding_build demo_production_env demo_zero_digest demo_caller demo_service (policy_for i) = Inr (demo_binding False)"
    using demo_binding_valid [of False] assms by (simp add: binding_build_def demo_binding_def demo_tsd_def)
  have "(demo_binding False)\<lparr>bnd_trust_state_binding_digest := Some demo_zero_digest\<rparr> = demo_binding True"
    by (simp add: demo_binding_def demo_tsd_def)
  then show ?thesis using demo_binding_valid [of True]
    by (cases b) (simp_all add: binding_build_with_trust_state_def plain demo_tsd_def)
qed

lemma example_envelope_built:
  assumes i: "identity_validate i = Inr ()" and r: "is_identifier rid" "is_sha256 digest"
  shows "request_envelope (sv_protocol demo_service_env) (example_request i rid digest) (policy_for i) (demo_binding b) =
      Inr (example_envelope b (example_request i rid digest))"
    "envelope_digest_for (sv_protocol demo_service_env) (example_envelope b (example_request i rid digest)) (policy_for i) =
      Inr demo_zero_digest"
proof -
  let ?r = "example_request i rid digest"
  have sel: "qr_key_policy_digest ?r = demo_zero_digest" "bnd_request_digest (demo_binding b) = demo_zero_digest"
    "bnd_key_policy_digest (demo_binding b) = demo_zero_digest"
    by (simp_all add: example_request_def demo_binding_def)
  have ev: "envelope_validate_for (sv_protocol demo_service_env) (example_envelope b ?r) (policy_for i) = Inr ()"
    using example_request_built [OF i r] by (simp add: envelope_validate_for_def example_envelope_def sel)
  then show "envelope_digest_for (sv_protocol demo_service_env) (example_envelope b ?r) (policy_for i) = Inr demo_zero_digest"
    by (simp add: envelope_digest_for_def)
  show "request_envelope (sv_protocol demo_service_env) ?r (policy_for i) (demo_binding b) = Inr (example_envelope b ?r)"
    using ev example_request_built [OF i r] by (simp add: request_envelope_def sel example_envelope_def [symmetric])
qed

lemma example_handled:
  assumes i: "identity_validate i = Inr ()" and r: "is_identifier rid" "is_sha256 digest"
    and B: "be_descriptor_for_generation B (policy_for i) 1 = Inr (example_descriptor i)"
      "\<And>d bnd dg. be_sign_sha256_digest_for_generation B (policy_for i) 1 d bnd dg = Inr (demo_signature\<lparr>hs_identity := i\<rparr>)"
  shows "\<exists>package svc. handle_with_trust_state demo_service_env B demo_signer_service (example_request i rid digest) demo_caller 60 1
    (demo_tsd b) = (Inr package, svc)"
proof -
  let ?r = "example_request i rid digest"
  have sel: "qr_identity ?r = i" "qr_request_id ?r = rid"
    "pss_service_identity demo_signer_service = demo_service" "pss_allowlist demo_signer_service = demo_allowlist"
    "pss_identity_authorizer demo_signer_service = authorizer_default"
    by (simp_all add: example_request_def demo_signer_service_def)
  obtain receipt st where auth: "demo_authorization = (Inr receipt, st)" using demo_authorized by (metis prod.collapse)
  note a = caller_authorize_ok [OF auth [unfolded demo_authorization_def]]
    authorized_receipt_validates [OF demo_identity_lawful auth [unfolded demo_authorization_def]]
  have p: "policy_for_identity i = Inr (policy_for i)" using i by (simp add: policy_for_identity_ok)
  let ?package = "\<lparr>apk_caller_authorization = receipt, apk_signer_response = QR_Success rid (example_success b ?r)\<rparr>"
  have "car_caller_identity_digest receipt = demo_zero_digest" "car_signer_service_identity_digest receipt = demo_zero_digest"
    using a(6,7) by (simp_all add: demo_identity_env_def)
  then have "validate_authorization_response_binding demo_service_env receipt (example_envelope b ?r) (policy_for i) = Inr ()"
    using a(8) example_request_built(2) [OF i r]
    by (simp add: validate_authorization_response_binding_def example_envelope_def demo_binding_def)
  then have v: "package_verify demo_service_env ?package demo_caller demo_service demo_allowlist = Inr ()"
    using a(16) example_answer_eligible [OF i r, of b] p
    by (simp add: package_verify_def response_identity_def response_descriptor_def)
      (simp add: example_success_def example_descriptor_def sel)
  have s: "\<lparr>qs_descriptor = example_descriptor i, qs_envelope = example_envelope b ?r, qs_envelope_digest = demo_zero_digest,
      qs_signature = demo_signature\<lparr>hs_identity := i\<rparr>\<rparr> = example_success b ?r"
    by (simp add: example_success_def sel)
  have "handle_authorized demo_service_env B demo_signer_service ?r demo_caller 1 (demo_tsd b) (policy_for i) demo_zero_digest receipt =
      Inr ?package"
    unfolding handle_authorized_def sel demo_sv_sel example_binding_built [OF i]
    using v example_envelope_built [OF i r, of b] example_descriptor_valid(1) [OF i] example_signature_valid [of i b]
      example_answer_eligible [OF i r, of b]
    by (simp add: B prod_response_success_def s)
  then show ?thesis
    using auth example_request_built [OF i r] by (simp add: handle_with_trust_state_def sel p demo_authorization_def)
qed

end
