(* ===== verification/TrustLease.thy ===== *)
theory TrustLease
  imports IdentityProof TrustDeployment ExampleSigner
begin

text \<open>
  Correctness of identity proofs and trust leases: what a lease proves about the signer, that
  a challenge answered by a deployed service yields a lease that ends with the challenge, and
  that the verifier alone does not enforce this end.
\<close>

section \<open>What the checks establish\<close>

lemma ip_checks_ok [simp]:
  "ip_sha256 v = Inr u \<longleftrightarrow> is_sha256 v" "ip_identifier f v = Inr u \<longleftrightarrow> is_identifier v"
  by (simp_all add: ip_sha256_def ip_identifier_def map_err_eq prod_validate_sha256_ok prod_validate_identifier_ok)

lemma ip_checks_simp [simp]: "is_sha256 v \<Longrightarrow> ip_sha256 v = Inr ()" "is_identifier v \<Longrightarrow> ip_identifier f v = Inr ()"
  by simp_all

lemma key_binding_ok:
  "key_binding P r ts = Inr b \<longleftrightarrow>
     b = active_key_binding r (tbn_registry_revision ts) (tbn_registry_digest ts) \<and>
     record_validate_seal (ipe_keys P) r = Inr () \<and> tsbinding_validate_seal (dv_trust (ipe_deployed P)) ts = Inr () \<and>
     trust_binding_validate_shape b = Inr ()"
  by (auto simp: key_binding_def Let_def and_then_eq_Inr map_err_eq active_key_binding_def)

lemma governed_trust_for_identity_ok:
  assumes "governed_trust_for_identity P i cd base accepted policy now = Inr trust"
  obtains r where "policy_permits policy i"
    "prod_active_record (ipe_keys P) (vts_registry accepted) i now = Inr r"
    "gts_key trust = active_key_binding r (tbn_registry_revision (vts_binding accepted)) (tbn_registry_digest (vts_binding accepted))"
    "tsn_identity (gts_signer trust) = i" "tsn_caller_identity_digest (gts_signer trust) = cd"
    "service_digest (ipe_production P) base = Inr (tsn_signer_service_identity_digest (gts_signer trust))"
    "tsn_public_key_digest (gts_signer trust) = kr_public_key_digest r"
    "\<exists>s. verify_binding (ipe_keys P) (vts_registry accepted) (gts_key trust) now = Inr s"
proof -
  from assms obtain r sd where r: "policy_permits policy i" "prod_active_record (ipe_keys P) (vts_registry accepted) i now = Inr r"
    "key_binding P r (vts_binding accepted) = Inr (gts_key trust)"
    "tsn_identity (gts_signer trust) = i" "tsn_public_key_digest (gts_signer trust) = tb_public_key_digest (gts_key trust)"
    "tsn_caller_identity_digest (gts_signer trust) = cd"
    "service_digest (ipe_production P) base = Inr (tsn_signer_service_identity_digest (gts_signer trust))"
    "governed_trust_validate_for (dv_service (ipe_deployed P)) trust (policy_for i) (vts_registry accepted) now = Inr ()"
    unfolding governed_trust_for_identity_def Let_def by (auto simp: and_then_eq_Inr map_err_eq ensure_eq)
  from r(3) have k: "gts_key trust = active_key_binding r (tbn_registry_revision (vts_binding accepted)) (tbn_registry_digest (vts_binding accepted))"
    by (simp add: key_binding_ok)
  have pk: "tsn_public_key_digest (gts_signer trust) = kr_public_key_digest r" using r(5) k by (simp add: active_key_binding_def)
  show thesis using r(8) by (intro that [OF r(1,2) k r(4,6,7) pk]) (simp add: governed_trust_validate_for_ok)
qed

lemma challenge_validate_against_ok:
  "challenge_validate_against P c accepted policy now = Inr key \<longleftrightarrow>
     challenge_shape c = Inr () \<and> ich_issued_at_epoch_s c \<le> now \<and> now < ich_expires_at_epoch_s c \<and>
     deployment_policy_validate_seal (ipe_deployed P) policy = Inr () \<and>
     tsbinding_validate_seal (dv_trust (ipe_deployed P)) (vts_binding accepted) = Inr () \<and>
     challenge_bound c accepted policy \<and> active_attestation_binding P accepted now = Inr key \<and>
     ich_attestation_generation c = tb_generation key \<and> ich_attestation_public_key_digest c = tb_public_key_digest key \<and>
     challenge_expected_digest P c = Inr (ich_challenge_digest c)"
  by (auto simp: challenge_validate_against_def and_then_eq_Inr map_err_eq ensure_eq not_less not_le)

lemma active_attestation_binding_ok:
  "active_attestation_binding P accepted at = Inr key \<longleftrightarrow>
     (\<exists>r. prod_active_record (ipe_keys P) (vts_registry accepted) identity_attestation at = Inr r \<and>
        key_binding P r (vts_binding accepted) = Inr key)"
  by (auto simp: active_attestation_binding_def and_then_eq_Inr map_err_eq)

text \<open>The trust under which the signature of a proof is checked.\<close>

definition proof_trust :: "identity_proof_payload \<Rightarrow> verified_trust_state \<Rightarrow> production_key_trust_binding \<Rightarrow> string \<Rightarrow> governed_signer_trust_snapshot" where
  "proof_trust p accepted key base_digest =
     \<lparr>gts_signer = \<lparr>tsn_identity = identity_attestation, tsn_public_key_digest = tb_public_key_digest key,
        tsn_allowlist_revision = tbn_caller_allowlist_revision (vts_binding accepted),
        tsn_allowlist_digest = tbn_caller_allowlist_digest (vts_binding accepted),
        tsn_caller_identity_digest = ipp_caller_identity_digest p, tsn_signer_service_identity_digest = base_digest\<rparr>,
      gts_key = key\<rparr>"

lemma proof_verify_ok:
  "proof_verify P d c accepted policy now = Inr base \<longleftrightarrow>
     base = ipp_base_service_identity (dip_payload d) \<and>
     (\<exists>key base_digest envelope. challenge_validate_against P c accepted policy now = Inr key \<and> proof_validate_seal P d = Inr () \<and>
        proof_matches_challenge (dip_payload d) c accepted policy key now \<and>
        bound_identity_build (ipe_deployed P) base (vts_binding accepted) policy = Inr (ipp_signer_service_identity (dip_payload d)) \<and>
        service_digest (ipe_production P) base = Inr base_digest \<and>
        verify_deployed (ipe_deployed P) (dip_signed_package d) accepted policy base (proof_trust (dip_payload d) accepted key base_digest)
          (ipp_proved_at_epoch_s (dip_payload d)) = Inr envelope \<and>
        envelope_validate_for (sv_protocol (dv_service (ipe_deployed P))) envelope policy_attestation = Inr () \<and>
        qr_digest (qe_request envelope) = ipp_payload_digest (dip_payload d))"
  unfolding proof_verify_def Let_def proof_trust_def and_then_eq_Inr by (auto simp: map_err_eq ensure_eq)

lemma proof_validate_seal_ok:
  assumes "proof_validate_seal P d = Inr u"
  shows "proof_payload_validate_shape P (dip_payload d) = Inr ()" "is_sha256 (dip_proof_digest d)"
  using assms unfolding proof_validate_seal_def Let_def
  by (auto simp: and_then_eq_Inr map_err_eq ensure_eq split: production_signer_response.splits)

lemma proof_payload_validate_shape_ok:
  assumes "proof_payload_validate_shape P p = Inr u"
  shows "is_sha256 (ipp_caller_identity_digest p)" "service_validate (ipp_base_service_identity p) = Inr ()"
    "payload_expected_digest P p = Inr (ipp_payload_digest p)" "ipp_proved_at_epoch_s p < ipp_expires_at_epoch_s p"
  using assms unfolding proof_payload_validate_shape_def and_then_eq_Inr by (auto simp: map_err_eq ensure_eq not_le)

lemma verify_trust_leaseE:
  assumes "verify_trust_lease P d c accepted policy now = Inr l"
  obtains "proof_verify P d c accepted policy now = Inr (tl_service_identity l)"
    "governed_trust_for_identity P identity_capability (tl_caller_identity_digest l) (tl_service_identity l) accepted policy now = Inr (tl_capability_trust l)"
    "governed_trust_for_identity P identity_attestation (tl_caller_identity_digest l) (tl_service_identity l) accepted policy now = Inr (tl_attestation_trust l)"
    "tl_caller_identity_digest l = ipp_caller_identity_digest (dip_payload d)" "tl_registry l = vts_registry accepted"
    "tl_proved_at_epoch_s l = ipp_proved_at_epoch_s (dip_payload d)" "tl_expires_at_epoch_s l = ipp_expires_at_epoch_s (dip_payload d)"
    "tl_trust_state l = vts_binding accepted" "lease_validate_at P l accepted policy now = Inr ()"
  using assms unfolding verify_trust_lease_def Let_def by (auto simp: and_then_eq_Inr map_err_eq ensure_eq intro: that)

section \<open>Answered challenges\<close>

lemma handle_identity_challengeE:
  assumes "handle_identity_challenge P B svc c caller now = (Inr d, svc')"
  obtains payload request package where
    "proof_payload_build P c caller (pss_service_identity (tbs_inner svc)) (tbs_service_identity svc) (tbs_accepted svc)
       (tbs_deployment_policy svc) now = Inr payload"
    "prod_sign_digest (sv_protocol (dv_service (ipe_deployed P))) (ich_request_id c) policy_attestation (ipp_payload_digest payload) = Inr request"
    "trust_bound_handle (ipe_deployed P) B svc request caller now = (Inr package, svc')" "proof_build P payload package = Inr d"
  using assms unfolding handle_identity_challenge_def
  by (auto simp: and_then_eq_Inr map_err_eq Let_def split: sum.splits prod.splits intro: that)

lemma proof_payload_buildE:
  assumes "proof_payload_build P c caller base bound accepted policy at = Inr p"
  obtains key cd where "challenge_validate_against P c accepted policy at = Inr key"
    "bound_identity_build (ipe_deployed P) base (vts_binding accepted) policy = Inr bound"
    "caller_digest (ipe_production P) caller = Inr cd" "proof_payload_validate_shape P p = Inr ()"
    "p = (unsealed_proof_payload c cd base bound accepted policy key at)\<lparr>ipp_payload_digest := ipp_payload_digest p\<rparr>"
  using assms unfolding proof_payload_build_def Let_def
  by (auto simp: and_then_eq_Inr map_err_eq ensure_eq intro: that)

lemma proof_build_ok:
  assumes "proof_build P payload package = Inr d"
  shows "proof_validate_seal P d = Inr ()" "dip_payload d = payload" "dip_signed_package d = package"
  using assms unfolding proof_build_def Let_def by (auto simp: and_then_eq_Inr)

lemma tsbinding_seal_ok:
  assumes "tsbinding_validate_seal T b = Inr u"
  shows "is_sha256 (tbn_caller_allowlist_digest b)" "tbn_caller_allowlist_revision b \<noteq> 0" "tbn_registry_revision b \<noteq> 0"
  using assms by (auto simp: tsbinding_validate_seal_def and_then_eq_Inr ensure_eq ts_sha256_def map_err_eq prod_validate_sha256_ok)

lemma bound_identity_base_digest:
  assumes "bound_identity_build D base ts policy = Inr i"
  shows "is_sha256 (bsi_base_service_identity_digest i)"
  using bound_identity_build_ok(4) [OF assms]
  by (auto simp: bound_identity_validate_seal_def and_then_eq_Inr ensure_eq ds_sha256_def map_err_eq prod_validate_sha256_ok)

text \<open>For an enabled identity with an active key the verifier finds the trust it needs.\<close>

lemma governed_trust_found:
  assumes lawful: "keys_lawful (ipe_keys P)"
    and accepted: "tsenvelope_verify (dv_trust (ipe_deployed P)) (vts_envelope accepted) gp t0 = Inr accepted"
    and permits: "policy_permits policy i" and cd: "is_sha256 cd"
    and bound: "bound_identity_build (ipe_deployed P) base (vts_binding accepted) policy = Inr bound"
    and active: "prod_active_record (ipe_keys P) (vts_registry accepted) i now = Inr r"
  shows "\<exists>trust. governed_trust_for_identity P i cd base accepted policy now = Inr trust \<and>
    governed_trust_validate_for (dv_service (ipe_deployed P)) trust (policy_for i) (vts_registry accepted) now = Inr () \<and>
    gts_key trust = active_key_binding r (tbn_registry_revision (vts_binding accepted)) (tbn_registry_digest (vts_binding accepted)) \<and>
    tsn_caller_identity_digest (gts_signer trust) = cd \<and>
    service_digest (ipe_production P) base = Inr (tsn_signer_service_identity_digest (gts_signer trust))"
proof -
  note e = tsenvelope_verify_ok [OF accepted] and a = active_record_found [OF active] and bd = bound_identity_build_ok [OF bound]
  note b = tsbinding_from_parts_ok [OF e(9)]
  let ?key = "active_key_binding r (tbn_registry_revision (vts_binding accepted)) (tbn_registry_digest (vts_binding accepted))"
  have vb: "verify_binding (ipe_keys P) (vts_registry accepted) ?key now = Inr r"
    using loaded_binding_verifies [OF lawful e(8) [unfolded dv_trust_sel] _ _ active] body_validate_shape_ok(4) [OF e(2)] b(4,5,10)
    by simp
  then have shape: "trust_binding_validate_shape ?key = Inr ()" by (auto simp: verify_binding_def and_then_eq_Inr)
  have kb: "key_binding P r (vts_binding accepted) = Inr ?key" unfolding key_binding_ok using shape a(5) b(1) by simp
  let ?trust = "\<lparr>gts_signer = \<lparr>tsn_identity = i, tsn_public_key_digest = tb_public_key_digest ?key,
      tsn_allowlist_revision = tbn_caller_allowlist_revision (vts_binding accepted),
      tsn_allowlist_digest = tbn_caller_allowlist_digest (vts_binding accepted),
      tsn_caller_identity_digest = cd, tsn_signer_service_identity_digest = bsi_base_service_identity_digest bound\<rparr>, gts_key = ?key\<rparr>"
  have "is_sha256 (kr_public_key_digest r)" using record_validate_seal_ok(8) [OF a(5)] .
  then have tv: "governed_trust_validate_for (dv_service (ipe_deployed P)) ?trust (policy_for i) (vts_registry accepted) now = Inr ()"
    unfolding governed_trust_validate_for_ok trust_validate_for_ok
    using a(1,3) vb cd tsbinding_seal_ok [OF b(1)] bound_identity_base_digest [OF bound]
    by (auto simp: active_key_binding_def policy_for_def policy_validate_def and_then_eq_Inr ensure_eq intro: policy_validate_simp)
  then have "governed_trust_for_identity P i cd base accepted policy now = Inr ?trust"
    unfolding governed_trust_for_identity_def using permits cd bd(1,8) active kb
    by (simp add: ip_sha256_def prod_validate_sha256_def Let_def)
  then show ?thesis using tv bd(8) by (intro exI [of _ ?trust]) simp
qed

lemma answered_proof_verifies:
  assumes lawful: "identity_lawful (sv_identity (dv_service (ipe_deployed P)))" "keys_lawful (ipe_keys P)"
    and accepted: "tsenvelope_verify (dv_trust (ipe_deployed P)) (vts_envelope accepted) gp t0 = Inr accepted"
    and start: "trust_bound_new (ipe_deployed P) B inner accepted policy = Inr svc0"
    and history: "same_deployment svc0 svc"
    and answer: "handle_identity_challenge P B svc c caller now = (Inr d, svc')"
    and active: "prod_active_record (ipe_keys P) (vts_registry accepted) identity_attestation
        (svc_started_at_epoch_s (pss_service_identity inner)) = Inr r"
      "prod_active_record (ipe_keys P) (vts_registry accepted) identity_attestation now = Inr r"
      "prod_active_record (ipe_keys P) (vts_registry accepted) identity_attestation later = Inr r"
    and time: "now \<le> later" "later < ich_expires_at_epoch_s c"
  shows "proof_verify P d c accepted policy later = Inr (pss_service_identity inner) \<and>
    ipp_expires_at_epoch_s (dip_payload d) = ich_expires_at_epoch_s c \<and> ipp_proved_at_epoch_s (dip_payload d) = now \<and>
    ich_issued_at_epoch_s c \<le> now \<and>
    caller_digest (ipe_production P) caller = Inr (ipp_caller_identity_digest (dip_payload d)) \<and>
    ipp_attestation_key (dip_payload d) = active_key_binding r (tbn_registry_revision (vts_binding accepted)) (tbn_registry_digest (vts_binding accepted))"
proof -
  note s0 = trust_bound_new_ok [OF start]
  from history have same: "tbs_accepted svc = accepted" "tbs_deployment_policy svc = policy"
    "tbs_service_identity svc = tbs_service_identity svc0" "pss_service_identity (tbs_inner svc) = pss_service_identity inner"
    by (simp_all add: same_deployment_def s0)
  let ?base = "pss_service_identity inner" and ?D = "ipe_deployed P" and ?b = "vts_binding accepted"
  obtain payload request package where h:
    "proof_payload_build P c caller ?base (tbs_service_identity svc0) accepted policy now = Inr payload"
    "prod_sign_digest (sv_protocol (dv_service ?D)) (ich_request_id c) policy_attestation (ipp_payload_digest payload) = Inr request"
    "trust_bound_handle ?D B svc request caller now = (Inr package, svc')" "proof_build P payload package = Inr d"
    using answer by (rule handle_identity_challengeE) (simp add: same)
  obtain key cd where k: "challenge_validate_against P c accepted policy now = Inr key"
    "bound_identity_build ?D ?base ?b policy = Inr (tbs_service_identity svc0)"
    "caller_digest (ipe_production P) caller = Inr cd" "proof_payload_validate_shape P payload = Inr ()"
    "payload = (unsealed_proof_payload c cd ?base (tbs_service_identity svc0) accepted policy key now)
       \<lparr>ipp_payload_digest := ipp_payload_digest payload\<rparr>"
    using h(1) by (rule proof_payload_buildE)
  have pl: "ipp_base_service_identity payload = ?base" "ipp_signer_service_identity payload = tbs_service_identity svc0"
    "ipp_expires_at_epoch_s payload = ich_expires_at_epoch_s c" "ipp_proved_at_epoch_s payload = now"
    "ipp_caller_identity_digest payload = cd" "ipp_attestation_key payload = key"
    "proof_matches_challenge payload c accepted policy key later"
    using time k(1) by (subst k(5); simp add: unsealed_proof_payload_def proof_matches_challenge_def
        challenge_validate_against_ok not_less not_le)+
  have key: "key = active_key_binding r (tbn_registry_revision ?b) (tbn_registry_digest ?b)" "key_binding P r ?b = Inr key"
    using k(1) active(2) by (auto simp: challenge_validate_against_ok active_attestation_binding_ok key_binding_ok)
  have later: "challenge_validate_against P c accepted policy later = Inr key"
    using k(1) active(3) key(2) time unfolding challenge_validate_against_ok active_attestation_binding_ok by auto
  have ri: "qr_identity request = identity_attestation"
    using request_validate_for_ok(2) [OF prod_sign_digest_ok(1) [OF h(2)]] by (simp add: policy_names policy_for_def)
  obtain cd' sd desc envelope where v: "caller_digest (ipe_production P) caller = Inr cd'"
    "service_digest (ipe_production P) ?base = Inr sd"
    "verify_deployed ?D package accepted policy ?base \<lparr>gts_signer = trust_snapshot_of inner cd' sd desc, gts_key = key\<rparr> now = Inr envelope"
    "qe_request envelope = request"
    using served_package_verifies [OF lawful accepted start history h(3), of r] active(1,2) unfolding ri key(1) by blast
  have g: "verify_governed (dv_service ?D) (dpk_signer_package package)
      \<lparr>gts_signer = trust_snapshot_of inner cd' sd desc, gts_key = key\<rparr> (vts_registry accepted) now = Inr envelope"
    using v(3) unfolding verify_deployed_iff by simp
  have ts: "tb_identity key = hd_identity desc" "tb_public_key_digest key = hd_public_key_digest desc"
    and tr: "verify_trusted (dv_service ?D) (dpk_signer_package package) (trust_snapshot_of inner cd' sd desc) = Inr envelope"
    using g unfolding verify_governed_iff by (simp_all add: trust_snapshot_of_def)
  have ki: "tb_identity key = identity_attestation" using key(1) active_record_found(3) [OF active(2)] by (simp add: active_key_binding_def)
  have al: "tbn_caller_allowlist_revision ?b = alw_revision (pss_allowlist inner)"
    "tbn_caller_allowlist_digest ?b = alw_allowlist_digest (pss_allowlist inner)"
    using s0(2) tsbinding_from_parts_ok(6,7) [OF tsenvelope_verify_ok(9) [OF accepted]]
    by (auto simp: validate_runtime_state_def Let_def and_then_eq_Inr map_err_eq ensure_eq vts_body_def)
  have trust: "\<lparr>gts_signer = trust_snapshot_of inner cd' sd desc, gts_key = key\<rparr> = proof_trust payload accepted key sd"
    using v(1) k(3) ts ki by (simp add: proof_trust_def trust_snapshot_of_def al pl)
  have "envelope_validate_for (sv_protocol (dv_service ?D)) envelope policy_attestation = Inr ()"
    using tr verify_cryptographic_ok ki ts(1)
    unfolding verify_trusted_iff verify_production_eligible_ok by (auto simp: trust_snapshot_of_def policy_names)
  then have "proof_verify P d c accepted policy later = Inr ?base"
    unfolding proof_verify_ok using later proof_build_ok [OF h(4)] pl k(2) v prod_sign_digest_ok(3) [OF h(2)]
    by (auto simp: trust)
  then show ?thesis using proof_build_ok(2) [OF h(4)] pl key(1) k(1,3) by (simp add: challenge_validate_against_ok)
qed

lemma verified_proof_leases:
  assumes lawful: "keys_lawful (ipe_keys P)"
    and accepted: "tsenvelope_verify (dv_trust (ipe_deployed P)) (vts_envelope accepted) gp t0 = Inr accepted"
    and verified: "proof_verify P d c accepted policy later = Inr base"
    and permits: "policy_permits policy identity_capability" "policy_permits policy identity_attestation"
    and active: "prod_active_record (ipe_keys P) (vts_registry accepted) identity_capability later = Inr rc"
      "prod_active_record (ipe_keys P) (vts_registry accepted) identity_attestation later = Inr ra"
    and key: "ipp_attestation_key (dip_payload d) =
      active_key_binding ra (tbn_registry_revision (vts_binding accepted)) (tbn_registry_digest (vts_binding accepted))"
    and time: "ipp_proved_at_epoch_s (dip_payload d) \<le> later"
  shows "\<exists>l. verify_trust_lease P d c accepted policy later = Inr l \<and>
    tl_expires_at_epoch_s l = ipp_expires_at_epoch_s (dip_payload d) \<and> tl_service_identity l = base \<and>
    tl_caller_identity_digest l = ipp_caller_identity_digest (dip_payload d)"
proof -
  let ?p = "dip_payload d" and ?b = "vts_binding accepted"
  from verified obtain k sd envelope where v: "challenge_validate_against P c accepted policy later = Inr k"
    "proof_validate_seal P d = Inr ()" "proof_matches_challenge ?p c accepted policy k later"
    "bound_identity_build (ipe_deployed P) base ?b policy = Inr (ipp_signer_service_identity ?p)"
    "service_digest (ipe_production P) base = Inr sd" and base: "base = ipp_base_service_identity ?p"
    unfolding proof_verify_ok by blast
  note seal = proof_validate_seal_ok [OF v(2)] and bd = bound_identity_build_ok [OF v(4)]
  note shape = proof_payload_validate_shape_ok [OF seal(1)]
  obtain ct where ct: "governed_trust_for_identity P identity_capability (ipp_caller_identity_digest ?p) base accepted policy later = Inr ct"
    "governed_trust_validate_for (dv_service (ipe_deployed P)) ct policy_capability (vts_registry accepted) later = Inr ()"
    "tsn_caller_identity_digest (gts_signer ct) = ipp_caller_identity_digest ?p" "tsn_signer_service_identity_digest (gts_signer ct) = sd"
    using governed_trust_found [OF lawful accepted permits(1) shape(1) v(4) active(1)] v(5) unfolding policy_names by auto
  obtain at where at: "governed_trust_for_identity P identity_attestation (ipp_caller_identity_digest ?p) base accepted policy later = Inr at"
    "governed_trust_validate_for (dv_service (ipe_deployed P)) at policy_attestation (vts_registry accepted) later = Inr ()"
    "tsn_caller_identity_digest (gts_signer at) = ipp_caller_identity_digest ?p" "tsn_signer_service_identity_digest (gts_signer at) = sd"
    "gts_key at = ipp_attestation_key ?p"
    using governed_trust_found [OF lawful accepted permits(2) shape(1) v(4) active(2)] v(5) key unfolding policy_names by auto
  let ?l = "\<lparr>tl_proof_digest = dip_proof_digest d, tl_caller_identity_digest = ipp_caller_identity_digest ?p,
    tl_service_identity = base, tl_trust_state = ?b, tl_deployment_policy_revision = dpo_revision policy,
    tl_deployment_policy_digest = dpo_policy_digest policy, tl_proved_at_epoch_s = ipp_proved_at_epoch_s ?p,
    tl_expires_at_epoch_s = ipp_expires_at_epoch_s ?p, tl_capability_trust = ct, tl_attestation_trust = at,
    tl_registry = vts_registry accepted\<rparr>"
  have "svc_service_id base = dpo_service_id policy"
    using v(4) unfolding bound_identity_build_def by (auto simp: and_then_eq_Inr ensure_eq)
  then have "lease_validate_at P ?l accepted policy later = Inr ()"
    unfolding lease_validate_at_def using seal(2) shape(1) bd(1-3,5) v(3,5) time ct(2-4) at(2-4)
    by (simp add: proof_matches_challenge_def not_less not_le)
  then have "verify_trust_lease P d c accepted policy later = Inr ?l"
    unfolding verify_trust_lease_def using verified ct(1) at(1,5) by (simp add: Let_def)
  then show ?thesis by (intro exI [of _ ?l]) simp
qed

text \<open>The parts of a package of the trust-bound service.\<close>

lemma answered_package:
  assumes lawful: "identity_lawful (sv_identity (dv_service (ipe_deployed P)))"
    and handle: "trust_bound_handle (ipe_deployed P) B svc request caller now = (Inr p, svc')"
  obtains result r where "deployed_validate_seal (ipe_deployed P) p = Inr ()" "dpk_trust_state p = vts_binding (tbs_accepted svc)"
    "dpk_signer_service_identity p = tbs_service_identity svc"
    "prod_active_record (ipe_keys P) (vts_registry (tbs_accepted svc)) (qr_identity request) now = Inr r"
    "dpk_key_generation p = kr_generation r"
    "apk_signer_response (dpk_signer_package p) = QR_Success (qr_request_id request) result" "qe_request (qs_envelope result) = request"
    "caller_digest (ipe_production P) caller = Inr (car_caller_identity_digest (apk_caller_authorization (dpk_signer_package p)))"
    "service_digest (ipe_production P) (pss_service_identity (tbs_inner svc)) =
       Inr (car_signer_service_identity_digest (apk_caller_authorization (dpk_signer_package p)))"
    "car_authorized_at_epoch_s (apk_caller_authorization (dpk_signer_package p)) = now"
proof (rule trust_bound_handle_ok [OF handle])
  fix r package inner
  assume r: "prod_active_record (ipe_keys P) (vts_registry (tbs_accepted svc)) (qr_identity request) now = Inr r"
    and h: "handle_with_trust_state (dv_service (ipe_deployed P)) B (tbs_inner svc) request caller now (kr_generation r)
      (Some (tbn_binding_digest (vts_binding (tbs_accepted svc)))) = (Inr package, inner)"
    and b: "deployed_build (ipe_deployed P) (tbs_accepted svc) (tbs_service_identity svc) (kr_generation r) package = Inr p"
  note d = deployed_build_ok [OF b]
  obtain result where res: "apk_signer_response package = QR_Success (qr_request_id request) result" "qe_request (qs_envelope result) = request"
    using handled_package_trusted [OF lawful h] by blast
  from h show thesis
  proof (rule handle_ok)
    fix rd authorization authorizer
    assume auth: "caller_authorize (sv_identity (dv_service (ipe_deployed P))) (pss_identity_authorizer (tbs_inner svc)) caller
        (pss_service_identity (tbs_inner svc)) (pss_allowlist (tbs_inner svc)) rd now = (Inr authorization, authorizer)"
      and ha: "handle_authorized (dv_service (ipe_deployed P)) B (tbs_inner svc) request caller (kr_generation r)
        (Some (tbn_binding_digest (vts_binding (tbs_accepted svc)))) (policy_for (qr_identity request)) rd authorization = Inr package"
    have "apk_caller_authorization package = authorization" using ha by (rule handle_authorized_ok) simp
    then show thesis
      using that [of r result] d r res caller_authorize_ok(6,7,11) [OF auth] by simp
  qed
qed

section \<open>A deployment with both keys\<close>

definition lease_keys :: production_key_registry where
  "lease_keys = \<lparr>pkr_revision = 3, pkr_records = [(record_key_from identity_capability 1, demo_key_record 2 1 5 100),
     (record_key_from identity_attestation 1, example_record identity_attestation)]\<rparr>"

definition lease_policy :: deployment_policy where
  "lease_policy = demo_deployment_policy\<lparr>dpo_enabled_identities := [identity_capability, identity_attestation]\<rparr>"

definition lease_state :: verified_trust_state where
  "lease_state = demo_verified (prod_snapshot lease_keys) 2 (Some demo_zero_digest) lease_keys"

definition lease_backend :: signer_backend where
  "lease_backend =
     (let descriptor = \<lambda>policy. Inr (if kp_identity policy = identity_attestation then example_descriptor identity_attestation
          else demo_descriptor 2);
        sign = \<lambda>policy d b digest. Inr (demo_signature\<lparr>hs_identity := kp_identity policy\<rparr>)
      in \<lparr>be_descriptor = descriptor, be_descriptor_for_generation = default_descriptor_for_generation descriptor,
        be_sign_sha256_digest = sign, be_sign_sha256_digest_for_generation = default_sign_for_generation sign\<rparr>)"

definition lease_service :: trust_bound_service where
  "lease_service = \<lparr>tbs_inner = demo_signer_service, tbs_accepted = lease_state, tbs_deployment_policy = lease_policy,
     tbs_service_identity = demo_bound_identity\<rparr>"

definition lease_env :: proof_env where
  "lease_env = \<lparr>ipe_deployed = demo_deployed_env, ipe_challenge_value = (\<lambda>_. Inr (JObject [])),
     ipe_payload_value = (\<lambda>_. Inr (JObject [])), ipe_proof_value = (\<lambda>_. Inr (JObject []))\<rparr>"

lemma identities_distinct [simp]: "identity_attestation \<noteq> identity_capability" "identity_capability \<noteq> identity_attestation"
  by (simp_all add: identity_attestation_def identity_capability_def)

lemma lease_keys_distinct: "sha256_hex demo_prod_hasher (demo_p256_key 1) \<noteq> sha256_hex demo_prod_hasher (demo_p256_key 2)"
  by (simp add: demo_prod_hasher_def demo_p256_key_def)

lemma lease_record_sel [simp]:
  "kr_identity (example_record i) = i" "kr_generation (example_record i) = 1" "kr_status (example_record i) = PK_Active"
  "kr_not_before_epoch_s (example_record i) = 5" "kr_not_after_epoch_s (example_record i) = 100"
  "kr_public_key_digest (example_record i) = sha256_hex demo_prod_hasher (demo_p256_key 1)"
  "kr_record_digest (example_record i) = demo_zero_digest"
  by (simp_all add: example_record_def)

lemma lease_snapshot: "demo_snapshot_ok (prod_snapshot lease_keys) lease_keys"
proof -
  let ?c = "record_key_from identity_capability 1" and ?a = "record_key_from identity_attestation 1"
  let ?m = "bm_insert ?c (demo_key_record 2 1 5 100) []"
  have "?c < ?a" by code_simp
  then have recs: "pkr_records lease_keys = bm_insert ?a (example_record identity_attestation) ?m" by (simp add: lease_keys_def)
  have "keyed_uniquely record_key_of kr_public_key_digest ?m"
    by (rule keyed_uniquely_add) (simp_all add: bm_values_def)
  then have "keyed_uniquely record_key_of kr_public_key_digest (pkr_records lease_keys)"
    unfolding recs by (rule keyed_uniquely_add) (use lease_keys_distinct in \<open>simp_all add: bm_values_def\<close>)
  moreover have "generations_ok (pkr_records lease_keys)"
    unfolding generations_ok_def by (auto simp: lease_keys_def record_key_from_def split: if_splits)
  ultimately have wf: "prod_wf lease_keys" by (simp add: prod_wf_def)
  have sealed: "prod_sealed demo_keys_env lease_keys"
    using demo_key_record_sealed [of 1 5 100 2] example_record_sealed [of identity_attestation]
    by (simp add: prod_sealed_def lease_keys_def bm_values_def)
  have v: "snapshot_validate_seal demo_keys_env (prod_snapshot lease_keys) = Inr ()" using snapshot_validate_seal_iff [OF wf] sealed by simp
  have "from_snapshot demo_keys_env (prod_snapshot lease_keys) = Inr lease_keys" using wf sealed by (rule from_snapshot_prod_snapshot)
  moreover have "rsn_records (prod_snapshot lease_keys) = [demo_key_record 2 1 5 100, example_record identity_attestation]"
    "rsn_revision (prod_snapshot lease_keys) = 3"
    by (simp_all add: prod_snapshot_def lease_keys_def bm_values_def)
  moreover have "ki_role identity_attestation \<noteq> ki_role identity_capability" by code_simp
  ultimately show ?thesis
    using v by (simp add: demo_snapshot_ok_def snapshot_digest_def validate_active_generations_def record_active_at_def Let_def)
qed

lemma lease_state_sel [simp]:
  "vts_binding lease_state = demo_tsbinding (prod_snapshot lease_keys) 2" "vts_registry lease_state = lease_keys"
  "vts_body lease_state = demo_body (prod_snapshot lease_keys) 2 (Some demo_zero_digest)"
  "vts_envelope lease_state = demo_envelope_of (demo_body (prod_snapshot lease_keys) 2 (Some demo_zero_digest))"
  by (simp_all add: lease_state_def demo_verified_def vts_body_def demo_envelope_of_def)

lemma lease_state_verifies: "tsenvelope_verify demo_trust_env (vts_envelope lease_state) demo_governance_policy 100 = Inr lease_state"
proof -
  have "previous_binding_check (Some demo_zero_digest) 2 = Inr ()" by (simp add: previous_binding_check_def)
  from demo_envelope_verifies [OF lease_snapshot this, folded lease_state_def] show ?thesis by simp
qed

lemma lease_active:
  assumes "5 \<le> t" "t < 100"
  shows "prod_active_record demo_keys_env lease_keys identity_capability t = Inr (demo_key_record 2 1 5 100)"
    "prod_active_record demo_keys_env lease_keys identity_attestation t = Inr (example_record identity_attestation)"
  using assms demo_key_record_sealed [of 1 5 100 2] example_record_sealed [of identity_attestation]
  by (simp_all add: prod_active_record_def lease_keys_def bm_values_def record_active_at_def)

lemma lease_env_sel [simp]:
  "ipe_deployed lease_env = demo_deployed_env" "challenge_expected_digest lease_env c = Inr demo_zero_digest"
  "payload_expected_digest lease_env p = Inr demo_zero_digest" "proof_expected_digest lease_env d = Inr demo_zero_digest"
  by (simp_all add: challenge_expected_digest_def payload_expected_digest_def proof_expected_digest_def ip_digest_with_blank_field_def)
    (simp_all add: lease_env_def)

lemma lease_policy_sel [simp]:
  "dpo_schema_version lease_policy = PRODUCTION_SIGNER_DEPLOYMENT_POLICY_SCHEMA" "dpo_deployment_id lease_policy = ''deployment''"
  "dpo_revision lease_policy = 1" "dpo_service_id lease_policy = ''signer''" "dpo_policy_digest lease_policy = demo_zero_digest"
  "dpo_enabled_identities lease_policy = [identity_capability, identity_attestation]"
  by (simp_all add: lease_policy_def demo_deployment_policy_def)

lemma lease_policy_sealed [simp]: "deployment_policy_validate_seal demo_deployed_env lease_policy = Inr ()"
proof -
  have "is_identifier ''signer''" "is_identifier ''pipe''" "is_identifier ''deployment''"
    by (simp_all add: is_identifier_def is_ascii_alphanumeric_def)
  moreover have "identity_key identity_capability < identity_key identity_attestation" by code_simp
  ultimately show ?thesis
    by (simp add: deployment_policy_validate_seal_def prod_validate_identifier_def scan_enabled_identity_def not_le)
      (simp add: lease_policy_def demo_deployment_policy_def)
qed

lemma lease_binding_sealed [simp]: "tsbinding_validate_seal demo_trust_env (demo_tsbinding (prod_snapshot lease_keys) 2) = Inr ()"
  using tsbinding_from_parts_ok(1) [OF tsenvelope_verify_ok(9) [OF lease_state_verifies]] by simp

lemma lease_service_sel [simp]:
  "svc_service_id demo_service = ''signer''" "svc_executable_sha256 demo_service = demo_zero_digest"
  "svc_started_at_epoch_s demo_service = 5" "alw_revision demo_allowlist = 1" "alw_allowlist_digest demo_allowlist = demo_zero_digest"
  "pss_service_identity demo_signer_service = demo_service" "pss_allowlist demo_signer_service = demo_allowlist"
  "tbs_inner lease_service = demo_signer_service" "tbs_accepted lease_service = lease_state"
  "tbs_deployment_policy lease_service = lease_policy" "tbs_service_identity lease_service = demo_bound_identity"
  by (simp_all add: demo_service_def demo_allowlist_def demo_signer_service_def lease_service_def)

lemma lease_bound_identity [simp]:
  "bound_identity_build demo_deployed_env demo_service (demo_tsbinding (prod_snapshot lease_keys) 2) lease_policy = Inr demo_bound_identity"
  by (simp add: bound_identity_build_def bound_identity_validate_seal_def) (simp add: demo_tsbinding_def demo_bound_identity_def)

lemma lease_backend_sel [simp]:
  "be_descriptor_for_generation lease_backend (policy_for identity_attestation) 1 = Inr (example_descriptor identity_attestation)"
  "be_descriptor_for_generation lease_backend (policy_for identity_capability) 1 = Inr (demo_descriptor 2)"
  "be_sign_sha256_digest_for_generation lease_backend (policy_for i) 1 d b dg = Inr (demo_signature\<lparr>hs_identity := i\<rparr>)"
  by (simp_all add: lease_backend_def Let_def default_descriptor_for_generation_def default_sign_for_generation_def)

lemma lease_started: "trust_bound_new demo_deployed_env lease_backend demo_signer_service lease_state lease_policy = Inr lease_service"
proof -
  have "validate_runtime_state demo_deployed_env demo_signer_service lease_state lease_policy = Inr ()"
    by (simp add: validate_runtime_state_def) (simp add: demo_body_def)
  moreover have "policy_for_identity i = Inr (policy_for i)" if "identity_validate i = Inr ()" for i
    using that by (simp add: policy_for_identity_ok)
  moreover have "validate_descriptor_record_binding demo_deployed_env (demo_descriptor 2) (demo_key_record 2 1 5 100) = Inr ()"
    by (simp add: validate_descriptor_record_binding_def) (simp add: demo_key_record_def)
  moreover have "validate_descriptor_record_binding demo_deployed_env (example_descriptor identity_attestation)
      (example_record identity_attestation) = Inr ()"
    using example_descriptor_valid(1) [of identity_attestation]
    by (simp add: validate_descriptor_record_binding_def) (simp add: example_record_def example_descriptor_def demo_key_record_def)
  ultimately show ?thesis
    using lease_active [of 5] example_descriptor_valid(1) [of identity_attestation]
    by (simp add: trust_bound_new_def check_enabled_identity_def validate_backend_generation_def lease_service_def)
qed

lemma lease_permits [simp]: "policy_permits lease_policy identity_capability" "policy_permits lease_policy identity_attestation"
  using policy_permits_iff [OF lease_policy_sealed] by simp_all

definition lease_challenge :: identity_challenge where
  "lease_challenge = (unsealed_challenge ''proof-1'' demo_zero_digest lease_state lease_policy
     (active_key_binding (example_record identity_attestation) 3 demo_zero_digest) 55 80)\<lparr>ich_challenge_digest := demo_zero_digest\<rparr>"

lemma lease_key_binding: "key_binding lease_env (example_record identity_attestation) (demo_tsbinding (prod_snapshot lease_keys) 2) =
    Inr (active_key_binding (example_record identity_attestation) 3 demo_zero_digest)"
proof -
  have "tbn_registry_revision (demo_tsbinding (prod_snapshot lease_keys) 2) = 3"
    "tbn_registry_digest (demo_tsbinding (prod_snapshot lease_keys) 2) = demo_zero_digest"
    by (simp_all add: demo_tsbinding_def prod_snapshot_def lease_keys_def)
  then show ?thesis
    unfolding key_binding_ok using example_record_sealed [of identity_attestation]
    by (simp add: trust_binding_validate_shape_def active_key_binding_def)
qed

lemma lease_challenge_built:
  "challenge_build lease_env ''proof-1'' demo_zero_digest lease_state lease_policy 55 80 = Inr lease_challenge"
  "challenge_validate_against lease_env lease_challenge lease_state lease_policy 60 =
     Inr (active_key_binding (example_record identity_attestation) 3 demo_zero_digest)"
proof -
  let ?k = "active_key_binding (example_record identity_attestation) 3 demo_zero_digest"
  have key: "active_attestation_binding lease_env lease_state t = Inr ?k" if "5 \<le> t" "t < 100" for t
    using lease_active(2) [OF that] lease_key_binding by (simp add: active_attestation_binding_def)
  have ids: "is_identifier ''proof-1''" "is_identifier ''deployment''" "is_identifier ''signer''" by code_simp+
  have shape: "challenge_shape lease_challenge = Inr ()"
    using ids by (simp add: challenge_shape_def lease_challenge_def unsealed_challenge_def Let_def active_key_binding_def
        MAX_CHALLENGE_LIFETIME_S_def saturating_sub_def)
      (simp add: demo_tsbinding_def prod_snapshot_def lease_keys_def)
  have bound: "challenge_bound lease_challenge lease_state lease_policy"
    by (simp add: challenge_bound_def lease_challenge_def unsealed_challenge_def Let_def) (simp add: demo_tsbinding_def demo_body_def)
  have sel: "ich_issued_at_epoch_s lease_challenge = 55" "ich_expires_at_epoch_s lease_challenge = 80"
    "ich_attestation_generation lease_challenge = tb_generation ?k" "ich_attestation_public_key_digest lease_challenge = tb_public_key_digest ?k"
    "ich_challenge_digest lease_challenge = demo_zero_digest"
    by (simp_all add: lease_challenge_def unsealed_challenge_def Let_def)
  have v: "challenge_validate_against lease_env lease_challenge lease_state lease_policy t = Inr ?k" if "55 \<le> t" "t < 80" for t
  proof -
    have "5 \<le> t" "t < 100" using that by (simp_all add: word_le_nat_alt word_less_nat_alt)
    then show ?thesis unfolding challenge_validate_against_ok using shape bound sel key that by simp
  qed
  show "challenge_validate_against lease_env lease_challenge lease_state lease_policy 60 = Inr ?k" by (rule v) simp_all
  show "challenge_build lease_env ''proof-1'' demo_zero_digest lease_state lease_policy 55 80 = Inr lease_challenge"
    using key [of 55] v [of 55] by (simp add: challenge_build_def Let_def lease_challenge_def [symmetric])
qed

text \<open>The service answers the challenge.\<close>

lemma lease_deployed_handled:
  "\<exists>p svc. trust_bound_handle demo_deployed_env lease_backend lease_service
     (example_request identity_attestation ''proof-1'' demo_zero_digest) demo_caller 60 = (Inr p, svc)"
proof -
  let ?r = "example_request identity_attestation ''proof-1'' demo_zero_digest"
  have id: "is_identifier ''proof-1''" by code_simp
  obtain package inner where h: "handle_with_trust_state demo_service_env lease_backend demo_signer_service ?r demo_caller 60 1
      (Some demo_zero_digest) = (Inr package, inner)"
    using example_handled [of identity_attestation "''proof-1''" demo_zero_digest lease_backend True] id by (auto simp: demo_tsd_def)
  obtain result where res: "apk_signer_response package = QR_Success (qr_request_id ?r) result"
    "bnd_trust_state_binding_digest (qe_binding (qs_envelope result)) = Some demo_zero_digest"
  proof -
    have "identity_lawful (sv_identity demo_service_env)" using demo_identity_lawful by simp
    from handled_package_trusted [OF this h] show thesis using that by metis
  qed
  have sel: "qr_identity ?r = identity_attestation" "tbn_binding_digest (demo_tsbinding snap revision) = demo_zero_digest" for snap revision
    by (simp_all add: example_request_def demo_tsbinding_def)
  have "bound_identity_validate_seal demo_deployed_env demo_bound_identity = Inr ()"
    using bound_identity_build_ok(4) [OF lease_bound_identity] .
  then have "\<exists>p. deployed_build demo_deployed_env lease_state demo_bound_identity 1 package = Inr p"
    using res by (simp add: deployed_build_def deployed_validate_seal_def sel)
  moreover have "\<not> (60 < tsb_not_before_epoch_s (vts_body lease_state) \<or> 60 \<ge> tsb_not_after_epoch_s (vts_body lease_state))"
    by (simp add: demo_body_def)
  ultimately show ?thesis
    using h lease_active [of 60] by (auto simp: trust_bound_handle_def sel Let_def simp del: lease_state_sel(3))
qed

lemma lease_answered: "\<exists>d svc. handle_identity_challenge lease_env lease_backend lease_service lease_challenge demo_caller 60 = (Inr d, svc)"
proof -
  let ?k = "active_key_binding (example_record identity_attestation) 3 demo_zero_digest"
  let ?p = "(unsealed_proof_payload lease_challenge demo_zero_digest demo_service demo_bound_identity lease_state lease_policy ?k 60)
    \<lparr>ipp_payload_digest := demo_zero_digest\<rparr>"
  let ?r = "example_request identity_attestation ''proof-1'' demo_zero_digest"
  have id: "is_identifier ''proof-1''" by code_simp
  have bs: "bound_identity_validate_seal demo_deployed_env demo_bound_identity = Inr ()"
    using bound_identity_build_ok(4) [OF lease_bound_identity] .
  have ch: "ich_request_id lease_challenge = ''proof-1''" "ich_client_nonce lease_challenge = demo_zero_digest"
    "ich_challenge_digest lease_challenge = demo_zero_digest" "ich_expires_at_epoch_s lease_challenge = 80"
    "ich_service_id lease_challenge = ''signer''" "ich_signer_service_executable_digest lease_challenge = demo_zero_digest"
    by (simp_all add: lease_challenge_def unsealed_challenge_def Let_def) (simp add: demo_tsbinding_def)
  have ks: "trust_binding_validate_shape ?k = Inr ()" using lease_key_binding unfolding key_binding_ok by blast
  have shape: "proof_payload_validate_shape lease_env ?p = Inr ()"
    using id bs ks
    by (simp add: proof_payload_validate_shape_def unsealed_proof_payload_def ch)
      (simp add: active_key_binding_def demo_bound_identity_def demo_tsbinding_def prod_snapshot_def lease_keys_def)
  have payload: "proof_payload_build lease_env lease_challenge demo_caller demo_service demo_bound_identity lease_state lease_policy 60 = Inr ?p"
    using lease_challenge_built(2) bs shape by (simp add: proof_payload_build_def ch)
  obtain p svc where h: "trust_bound_handle demo_deployed_env lease_backend lease_service ?r demo_caller 60 = (Inr p, svc)"
    using lease_deployed_handled by blast
  have req: "prod_sign_digest (sv_protocol demo_service_env) ''proof-1'' policy_attestation demo_zero_digest = Inr ?r"
    using example_request_built(3) [of identity_attestation] id by (simp add: policy_names)
  have lawful: "identity_lawful (sv_identity (dv_service (ipe_deployed lease_env)))" using demo_identity_lawful by simp
  have sel: "qr_identity ?r = identity_attestation" "qr_request_id ?r = ''proof-1''" "qr_digest ?r = demo_zero_digest"
    by (simp_all add: example_request_def)
  obtain result r where w: "deployed_validate_seal demo_deployed_env p = Inr ()" "dpk_trust_state p = vts_binding lease_state"
      "dpk_signer_service_identity p = demo_bound_identity"
    and r: "prod_active_record demo_keys_env lease_keys identity_attestation 60 = Inr r" "dpk_key_generation p = kr_generation r"
    and res: "apk_signer_response (dpk_signer_package p) = QR_Success ''proof-1'' result" "qe_request (qs_envelope result) = ?r"
    and cd: "caller_digest demo_production_env demo_caller = Inr (car_caller_identity_digest (apk_caller_authorization (dpk_signer_package p)))"
      "service_digest demo_production_env demo_service =
         Inr (car_signer_service_identity_digest (apk_caller_authorization (dpk_signer_package p)))"
      "car_authorized_at_epoch_s (apk_caller_authorization (dpk_signer_package p)) = 60"
    by (rule answered_package [OF lawful h [folded lease_env_sel(1)]]) (simp add: sel)
  have gen: "dpk_key_generation p = 1" using r lease_active(2) [of 60] by (auto dest: sym)
  have car: "car_caller_identity_digest (apk_caller_authorization (dpk_signer_package p)) = demo_zero_digest"
    "car_signer_service_identity_digest (apk_caller_authorization (dpk_signer_package p)) = demo_zero_digest"
    "car_authorized_at_epoch_s (apk_caller_authorization (dpk_signer_package p)) = 60"
    using cd by simp_all
  have "proof_validate_seal lease_env \<lparr>dip_schema_version = IDENTITY_PROOF_SCHEMA, dip_payload = ?p, dip_signed_package = p,
      dip_proof_digest = demo_zero_digest\<rparr> = Inr ()"
    using shape w res car gen
    by (simp add: proof_validate_seal_def Let_def)
      (simp add: unsealed_proof_payload_def ch sel active_key_binding_def)
  then have "\<exists>d. proof_build lease_env ?p p = Inr d" by (simp add: proof_build_def)
  then show ?thesis
    using payload req h by (auto simp: handle_identity_challenge_def ch unsealed_proof_payload_def)
qed

section \<open>Properties\<close>

text \<open>
  C10: a deployed signer can prove who it is. Suppose the deployment policy enables both the
  capability and the attestation role, and a service that passed its start-up checks with that
  policy and the accepted trust state answers an identity challenge, after any history of
  requests. Suppose further that one and the same attestation generation is the active one of
  that state when the service started, when it answered and when the answer is checked, and
  that some capability generation is active at the check. Then the answer, checked after it was
  given and before the challenge expires, verifies and yields a trust lease for the service and
  the caller; the lease ends with the challenge, at most thirty seconds after the challenge was
  issued. The hypotheses on the third-party code are its laws on signatures, encodings, digests
  and serialisation.
\<close>

theorem answered_challenge_leases:
  assumes lawful: "identity_lawful (sv_identity (dv_service (ipe_deployed P)))" "keys_lawful (ipe_keys P)"
    and accepted: "tsenvelope_verify (dv_trust (ipe_deployed P)) (vts_envelope accepted) gp t0 = Inr accepted"
    and start: "trust_bound_new (ipe_deployed P) B inner accepted policy = Inr svc0"
    and history: "(trust_bound_step (ipe_deployed P))\<^sup>*\<^sup>* svc0 svc"
    and answer: "handle_identity_challenge P B svc c caller now = (Inr d, svc')"
    and enabled: "identity_capability \<in> set (dpo_enabled_identities policy)" "identity_attestation \<in> set (dpo_enabled_identities policy)"
    and attestation: "\<And>t. t \<in> {svc_started_at_epoch_s (pss_service_identity inner), now, later} \<Longrightarrow>
      prod_active_record (ipe_keys P) (vts_registry accepted) identity_attestation t = Inr ra"
    and capability: "prod_active_record (ipe_keys P) (vts_registry accepted) identity_capability later = Inr rc"
    and time: "now \<le> later" "later < ich_expires_at_epoch_s c"
  shows "\<exists>l. verify_trust_lease P d c accepted policy later = Inr l \<and>
    tl_service_identity l = pss_service_identity inner \<and>
    caller_digest (ipe_production P) caller = Inr (tl_caller_identity_digest l) \<and>
    tl_expires_at_epoch_s l = ich_expires_at_epoch_s c \<and>
    unat (tl_expires_at_epoch_s l) \<le> unat (ich_issued_at_epoch_s c) + 30"
proof -
  have a: "prod_active_record (ipe_keys P) (vts_registry accepted) identity_attestation
      (svc_started_at_epoch_s (pss_service_identity inner)) = Inr ra"
    "prod_active_record (ipe_keys P) (vts_registry accepted) identity_attestation now = Inr ra"
    "prod_active_record (ipe_keys P) (vts_registry accepted) identity_attestation later = Inr ra"
    using attestation by simp_all
  note p = answered_proof_verifies [OF lawful accepted start trust_bound_steps_same [OF history] answer a time]
  have permits: "policy_permits policy identity_capability" "policy_permits policy identity_attestation"
    using enabled policy_permits_iff [OF trust_bound_new_ok(1) [OF start]] by simp_all
  from p obtain key where "challenge_validate_against P c accepted policy later = Inr key" unfolding proof_verify_ok by blast
  then have w: "ich_issued_at_epoch_s c < ich_expires_at_epoch_s c"
    "saturating_sub (ich_expires_at_epoch_s c) (ich_issued_at_epoch_s c) \<le> 30"
    by (auto simp: challenge_validate_against_ok challenge_shape_def and_then_eq_Inr ensure_eq MAX_CHALLENGE_LIFETIME_S_def not_le not_less)
  then have "unat (ich_expires_at_epoch_s c) \<le> unat (ich_issued_at_epoch_s c) + 30"
    by (simp add: saturating_sub_def word_le_nat_alt word_less_nat_alt unat_sub split: if_splits)
  with verified_proof_leases [OF lawful(2) accepted _ permits capability a(3)] p time show ?thesis by fastforce
qed

theorem answered_challenge_leases_witness:
  "\<exists>d l. fst (handle_identity_challenge lease_env lease_backend lease_service lease_challenge demo_caller 60) = Inr d \<and>
     verify_trust_lease lease_env d lease_challenge lease_state lease_policy 70 = Inr l \<and> tl_expires_at_epoch_s l = 80"
proof -
  obtain d svc where h: "handle_identity_challenge lease_env lease_backend lease_service lease_challenge demo_caller 60 = (Inr d, svc)"
    using lease_answered by blast
  have e: "ich_expires_at_epoch_s lease_challenge = 80" by (simp add: lease_challenge_def unsealed_challenge_def Let_def)
  have "\<exists>l. verify_trust_lease lease_env d lease_challenge lease_state lease_policy 70 = Inr l \<and>
      tl_service_identity l = pss_service_identity demo_signer_service \<and>
      caller_digest (ipe_production lease_env) demo_caller = Inr (tl_caller_identity_digest l) \<and>
      tl_expires_at_epoch_s l = ich_expires_at_epoch_s lease_challenge \<and>
      unat (tl_expires_at_epoch_s l) \<le> unat (ich_issued_at_epoch_s lease_challenge) + 30"
  proof (rule answered_challenge_leases [where ra = "example_record identity_attestation" and rc = "demo_key_record 2 1 5 100"
        and gp = demo_governance_policy and ?t0.0 = 100])
    show "(trust_bound_step (ipe_deployed lease_env))\<^sup>*\<^sup>* lease_service lease_service" by simp
    show "handle_identity_challenge lease_env lease_backend lease_service lease_challenge demo_caller 60 = (Inr d, svc)" by (fact h)
  qed (use demo_identity_lawful demo_keys_lawful lease_state_verifies lease_started lease_active e in auto)
  then show ?thesis using h e by auto
qed

text \<open>A key that a lease may hold for a role.\<close>

definition leased_key :: "proof_env \<Rightarrow> verified_trust_state \<Rightarrow> deployment_policy \<Rightarrow> trust_lease \<Rightarrow> u64 \<Rightarrow> production_key_identity \<Rightarrow>
    governed_signer_trust_snapshot \<Rightarrow> bool" where
  "leased_key P accepted policy l now i trust \<longleftrightarrow> policy_permits policy i \<and> tsn_identity (gts_signer trust) = i \<and>
     tsn_caller_identity_digest (gts_signer trust) = tl_caller_identity_digest l \<and>
     service_digest (ipe_production P) (tl_service_identity l) = Inr (tsn_signer_service_identity_digest (gts_signer trust)) \<and>
     (\<exists>r. prod_active_record (ipe_keys P) (vts_registry accepted) i now = Inr r \<and>
        tsn_public_key_digest (gts_signer trust) = kr_public_key_digest r) \<and>
     (\<exists>s. verify_binding (ipe_keys P) (tl_registry l) (gts_key trust) now = Inr s)"

text \<open>
  C11: what a trust lease proves. The challenge is the one the client sealed, fresh at the time
  of the check, and its nonce stands in the proof; the proof was signed, within the window of
  the challenge, under a deployed package that verifies against the accepted trust state, on
  the digest of its payload; and for both roles the lease holds the active, enabled key of the
  accepted registry, bound to the proved caller.
\<close>

theorem lease_proves:
  assumes "verify_trust_lease P d c accepted policy now = Inr l"
  shows "\<exists>trust envelope. challenge_expected_digest P c = Inr (ich_challenge_digest c) \<and>
    ich_issued_at_epoch_s c \<le> now \<and> now < ich_expires_at_epoch_s c \<and>
    ipp_client_nonce (dip_payload d) = ich_client_nonce c \<and> ipp_challenge_digest (dip_payload d) = ich_challenge_digest c \<and>
    ich_issued_at_epoch_s c \<le> tl_proved_at_epoch_s l \<and> tl_proved_at_epoch_s l < ich_expires_at_epoch_s c \<and>
    now < tl_expires_at_epoch_s l \<and>
    verify_deployed (ipe_deployed P) (dip_signed_package d) accepted policy (tl_service_identity l) trust (tl_proved_at_epoch_s l) =
      Inr envelope \<and>
    payload_expected_digest P (dip_payload d) = Inr (qr_digest (qe_request envelope)) \<and>
    leased_key P accepted policy l now identity_capability (tl_capability_trust l) \<and>
    leased_key P accepted policy l now identity_attestation (tl_attestation_trust l)"
proof -
  have key: "leased_key P accepted policy l now i trust"
    if "governed_trust_for_identity P i (tl_caller_identity_digest l) (tl_service_identity l) accepted policy now = Inr trust"
      "tl_registry l = vts_registry accepted" for i trust
    using governed_trust_for_identity_ok [OF that(1)] that(2) unfolding leased_key_def by metis
  from assms show ?thesis
  proof (rule verify_trust_leaseE)
    assume v: "proof_verify P d c accepted policy now = Inr (tl_service_identity l)"
      and t: "governed_trust_for_identity P identity_capability (tl_caller_identity_digest l) (tl_service_identity l) accepted policy now = Inr (tl_capability_trust l)"
        "governed_trust_for_identity P identity_attestation (tl_caller_identity_digest l) (tl_service_identity l) accepted policy now = Inr (tl_attestation_trust l)"
      and l: "tl_registry l = vts_registry accepted" "tl_proved_at_epoch_s l = ipp_proved_at_epoch_s (dip_payload d)"
        "tl_expires_at_epoch_s l = ipp_expires_at_epoch_s (dip_payload d)"
    from v obtain k sd envelope where p: "challenge_validate_against P c accepted policy now = Inr k" "proof_validate_seal P d = Inr ()"
      "proof_matches_challenge (dip_payload d) c accepted policy k now"
      "verify_deployed (ipe_deployed P) (dip_signed_package d) accepted policy (tl_service_identity l)
         (proof_trust (dip_payload d) accepted k sd) (tl_proved_at_epoch_s l) = Inr envelope"
      "qr_digest (qe_request envelope) = ipp_payload_digest (dip_payload d)"
      unfolding proof_verify_ok l(2) by blast
    have "payload_expected_digest P (dip_payload d) = Inr (qr_digest (qe_request envelope))"
      using proof_payload_validate_shape_ok(3) [OF proof_validate_seal_ok(1) [OF p(2)]] p(5) by simp
    then show ?thesis
      using p(1,3,4) key [OF t(1) l(1)] key [OF t(2) l(1)] l(2,3)
      by (intro exI [of _ "proof_trust (dip_payload d) accepted k sd"] exI [of _ envelope])
        (simp add: challenge_validate_against_ok proof_matches_challenge_def not_less not_le)
  qed
qed

lemma lease_verified: "\<exists>d l. verify_trust_lease lease_env d lease_challenge lease_state lease_policy 70 = Inr l"
proof -
  obtain d svc where h: "handle_identity_challenge lease_env lease_backend lease_service lease_challenge demo_caller 60 = (Inr d, svc)"
    using lease_answered by blast
  have e: "ich_expires_at_epoch_s lease_challenge = 80" by (simp add: lease_challenge_def unsealed_challenge_def Let_def)
  have same: "same_deployment lease_service lease_service" by (simp add: same_deployment_def)
  have lawful: "identity_lawful (sv_identity (dv_service (ipe_deployed lease_env)))" "keys_lawful (ipe_keys lease_env)"
    "tsenvelope_verify (dv_trust (ipe_deployed lease_env)) (vts_envelope lease_state) demo_governance_policy 100 = Inr lease_state"
    "trust_bound_new (ipe_deployed lease_env) lease_backend demo_signer_service lease_state lease_policy = Inr lease_service"
    using demo_identity_lawful demo_keys_lawful lease_state_verifies lease_started by simp_all
  have p: "proof_verify lease_env d lease_challenge lease_state lease_policy 70 = Inr demo_service"
    "ipp_proved_at_epoch_s (dip_payload d) = 60"
    "ipp_attestation_key (dip_payload d) = active_key_binding (example_record identity_attestation)
       (tbn_registry_revision (vts_binding lease_state)) (tbn_registry_digest (vts_binding lease_state))"
    using answered_proof_verifies [OF lawful same h, of "example_record identity_attestation" 70] lease_active e by simp_all
  from verified_proof_leases [OF lawful(2,3) p(1) lease_permits _ _ p(3), of "demo_key_record 2 1 5 100"] p(2) lease_active
  show ?thesis by auto
qed

theorem lease_proves_witness:
  "\<exists>d l trust envelope. verify_trust_lease lease_env d lease_challenge lease_state lease_policy 70 = Inr l \<and>
     verify_deployed demo_deployed_env (dip_signed_package d) lease_state lease_policy (tl_service_identity l) trust
       (tl_proved_at_epoch_s l) = Inr envelope \<and> ipp_client_nonce (dip_payload d) = ich_client_nonce lease_challenge"
proof -
  obtain d l where v: "verify_trust_lease lease_env d lease_challenge lease_state lease_policy 70 = Inr l" using lease_verified by blast
  from lease_proves [OF v] v show ?thesis by auto
qed

end
