(* ===== verification/JsonValues.thy ===== *)
theory JsonValues
  imports Json
begin

text \<open>
  What the components that write and read JSON documents share: access to the fields of a
  value, the objects of \<^verbatim>\<open>json!\<close>, and the operations on text of the standard library
  that they use, with the lemma that the decimal rendering of a number denotes it.
\<close>

section \<open>JSON values\<close>

text \<open>\<^verbatim>\<open>Value::get\<close>, \<^verbatim>\<open>as_str\<close>, \<^verbatim>\<open>as_bool\<close> and the objects of \<^verbatim>\<open>json!\<close>, whose map is ordered.\<close>

definition json_get :: "json \<Rightarrow> string \<Rightarrow> json option" where
  "json_get v key = (case v of JObject es \<Rightarrow> map_of es key | _ \<Rightarrow> None)"

definition as_str :: "json \<Rightarrow> string option" where
  "as_str v = (case v of JString s \<Rightarrow> Some s | _ \<Rightarrow> None)"

definition as_bool :: "json \<Rightarrow> bool option" where
  "as_bool v = (case v of JBool b \<Rightarrow> Some b | _ \<Rightarrow> None)"

definition json_object :: "(string \<times> json) list \<Rightarrow> json" where
  "json_object es = JObject (bm_collect es)"

definition json_nat :: "u64 \<Rightarrow> json" where
  "json_nat n = JNumber (PosInt n)"

definition json_opt :: "string option \<Rightarrow> json" where
  "json_opt s = (case s of None \<Rightarrow> JNull | Some s \<Rightarrow> JString s)"

definition json_strings :: "string list \<Rightarrow> json" where
  "json_strings ss = JArray (map JString ss)"

section \<open>Text\<close>

text \<open>\<^verbatim>\<open>str::trim\<close>: the white space of the prelude removed at both ends.\<close>

fun trim_end_rev :: "string \<Rightarrow> string" where
  "trim_end_rev [] = []"
| "trim_end_rev (a # s) =
     (if ascii_space (of_char a) then trim_end_rev s
      else case s of
        [] \<Rightarrow> [a]
      | b # s1 \<Rightarrow>
          if wide_space2 (of_char b) (of_char a) then trim_end_rev s1
          else case s1 of
            [] \<Rightarrow> a # s
          | c # s2 \<Rightarrow>
              if wide_space3 (of_char c) (of_char b) (of_char a) then trim_end_rev s2
              else a # s)"

definition trim :: "string \<Rightarrow> string" where
  "trim s = rev (trim_end_rev (rev (trim_start s)))"

text \<open>\<^verbatim>\<open>u32::to_string\<close> and the zero-padded formats.\<close>

definition digit_char :: "nat \<Rightarrow> char" where
  "digit_char d = char_of (48 + d)"

fun decimal :: "nat \<Rightarrow> string" where
  "decimal n = (if n < 10 then [digit_char n] else decimal (n div 10) @ [digit_char (n mod 10)])"

declare decimal.simps [simp del]

definition padded :: "nat \<Rightarrow> nat \<Rightarrow> string" where
  "padded width n = replicate (width - length (decimal n)) (CHR ''0'') @ decimal n"

definition saturating_mul :: "'n::len word \<Rightarrow> 'n word \<Rightarrow> 'n word" where
  "saturating_mul a b = (if unat a * unat b < 2 ^ LENGTH('n) then a * b else - 1)"

definition starts_with :: "string \<Rightarrow> string \<Rightarrow> bool" where
  "starts_with s prefix \<longleftrightarrow> take (length prefix) s = prefix"

definition ends_with :: "string \<Rightarrow> char \<Rightarrow> bool" where
  "ends_with s c \<longleftrightarrow> s \<noteq> [] \<and> List.last s = c"

section \<open>Lemmas\<close>

lemma json_get_object [simp]: "json_get (json_object es) key = map_of (rev es) key"
  by (simp add: json_get_def json_object_def map_of_bm_collect)

text \<open>The number that a decimal numeral denotes.\<close>

definition digits_value :: "string \<Rightarrow> nat" where
  "digits_value s = foldl (\<lambda>n c. 10 * n + (of_char c - 48)) 0 s"

lemma of_char_digit [simp]: "d < 10 \<Longrightarrow> of_char (digit_char d) = (48 + d :: nat)"
  by (simp add: digit_char_def)

lemma digits_value_append: "digits_value (s @ [digit_char d]) = 10 * digits_value s + d" if "d < 10"
  using that by (simp add: digits_value_def)

lemma digits_value_decimal [simp]: "digits_value (decimal n) = n"
proof (induction n rule: decimal.induct)
  case (1 n)
  show ?case
  proof (cases "n < 10")
    case True
    then show ?thesis by (subst decimal.simps) (simp add: digits_value_def)
  next
    case False
    with 1 show ?thesis by (subst decimal.simps) (simp add: digits_value_append)
  qed
qed

lemma digits_value_padded [simp]: "digits_value (padded w n) = n"
proof -
  have "foldl (\<lambda>n c. 10 * n + (of_char c - 48)) 0 (replicate k CHR ''0'' @ s) = digits_value s" for k s
    by (induction k) (simp_all add: digits_value_def)
  then show ?thesis unfolding padded_def digits_value_def [symmetric] by (simp add: digits_value_def [symmetric])
qed

lemma decimal_no_dot: "c \<in> set (decimal n) \<Longrightarrow> c \<noteq> CHR ''.''"
proof (induction n rule: decimal.induct)
  case (1 n)
  have d: "digit_char d \<noteq> CHR ''.''" if "d < 10" for d
    using of_char_digit [OF that] by (auto simp del: of_char_digit)
  show ?case
  proof (cases "n < 10")
    case True
    with 1(2) d show ?thesis by (subst (asm) decimal.simps) auto
  next
    case False
    with 1 d [of "n mod 10"] show ?thesis by (subst (asm) (2) decimal.simps) auto
  qed
qed

lemma length_decimal: "n < 10 \<Longrightarrow> length (decimal n) = 1" "n < 100 \<Longrightarrow> length (decimal n) \<le> 2"
    "n < 1000 \<Longrightarrow> length (decimal n) \<le> 3"
proof -
  have 1: "length (decimal n) = 1" if "n < 10" for n using that by (subst decimal.simps) simp
  have 2: "length (decimal n) \<le> 2" if "n < 100" for n
    using that 1 [of "n div 10"] by (subst decimal.simps) auto
  have 3: "length (decimal n) \<le> 3" if "n < 1000" for n
    using that 2 [of "n div 10"] by (subst decimal.simps) auto
  show "n < 10 \<Longrightarrow> length (decimal n) = 1" "n < 100 \<Longrightarrow> length (decimal n) \<le> 2"
    "n < 1000 \<Longrightarrow> length (decimal n) \<le> 3" by (fact 1, fact 2, fact 3)
qed

end
