(* ===== verification/IntentCompiler.thy ===== *)
theory IntentCompiler
  imports Contract JsonValues
begin

text \<open>
  The intent compiler (\<^verbatim>\<open>crates/intent-contract-compiler-runtime\<close>): it turns the
  answers of a user about a static social media post into a Work Contract, or into the list of
  questions that are still open. Nothing is defaulted: a field that is absent is asked for.
  The conversion of the question list to JSON and the parser of decimal numbers are
  third-party code, arguments in \<open>intent_env\<close>. The lemmas show when the compiler asks and
  when it builds a contract, and that the decimal rendering of the contrast is exact.
\<close>

section \<open>Data\<close>

definition INTENT_SCHEMA_VERSION :: string where "INTENT_SCHEMA_VERSION = ''0.2.0''"
definition INTENT_CAPSULE_ID :: string where "INTENT_CAPSULE_ID = ''ergaxiom.profession.graphic-designer''"
definition INTENT_JOB_TYPE :: string where "INTENT_JOB_TYPE = ''social_media_static_post''"
definition SPECIALIZATION :: string where "SPECIALIZATION = ''social_media_design''"
definition CERTIFIED_COLOR_PROFILE :: string where "CERTIFIED_COLOR_PROFILE = ''sRGB IEC61966-2.1''"
definition MINIMUM_CERTIFIED_CONTRAST_MILLI :: u32 where "MINIMUM_CERTIFIED_CONTRAST_MILLI = 4500"
definition MAXIMUM_CONTRAST_MILLI :: u32 where "MAXIMUM_CONTRAST_MILLI = 21000"
definition MAXIMUM_CANVAS_EDGE_PX :: u32 where "MAXIMUM_CANVAS_EDGE_PX = 32768"

record input_artifact_intent =
  ia_uri :: "string option"
  ia_media_type :: "string option"
  ia_sha256 :: "string option"

record static_social_post_intent =
  it_contract_id :: "string option"
  it_created_at :: "string option"
  it_original_text :: "string option"
  it_language :: "string option"
  it_requester_id :: "string option"
  it_approved_logo :: input_artifact_intent
  it_brand_profile :: input_artifact_intent
  it_approved_copy :: input_artifact_intent
  it_canvas_width_px :: "u32 option"
  it_canvas_height_px :: "u32 option"
  it_color_profile :: "string option"
  it_logo_clear_space_px :: "u32 option"
  it_minimum_text_contrast_milli :: "u32 option"
  it_visual_tone :: "string option"
  it_required_application_version :: "string option"
  it_require_pre_execution_approval :: bool

record resolution_request =
  rr_field :: string
  rr_question :: string
  rr_reason :: string
  rr_accepted_sources :: "string list"

datatype (plugins only: code size) intent_outcome =
    IO_NeedsResolution string "resolution_request list" string
  | IO_Compiled string json string string nat nat

datatype (plugins only: code size) intent_compile_error =
    IE_InvalidCapsuleField string
  | IE_UnsupportedCapsule string string
  | IE_InvalidIntentField string string
  | IE_UnsupportedCertifiedValue string string string
  | IE_MissingResolvedField string
  | IE_InvalidDecimal string
  | IE_Serialization serde_error
  | IE_Contract contract_compile_error
  | IE_Hashing hashing_error

record intent_env =
  in_hasher :: hasher
  in_codec :: contract_codec
  in_requests_value :: "resolution_request list \<Rightarrow> serde_error + json"
  in_parse_number :: "string \<Rightarrow> json_number option"

section \<open>Checks of the values that are present\<close>

definition intent_validate_capsule :: "json \<Rightarrow> intent_compile_error + unit" where
  "intent_validate_capsule capsule =
     and_then (ok_or (Option.bind (json_get capsule ''capsule_id'') as_str) (IE_InvalidCapsuleField ''capsule_id'')) (\<lambda>capsule_id.
     and_then (ensure (capsule_id = INTENT_CAPSULE_ID) (IE_UnsupportedCapsule capsule_id INTENT_CAPSULE_ID)) (\<lambda>_.
     case Option.bind (json_get capsule ''version'') as_str of
       Some v \<Rightarrow> ensure (v \<noteq> []) (IE_InvalidCapsuleField ''version'')
     | None \<Rightarrow> Inl (IE_InvalidCapsuleField ''version'')))"

definition validate_optional_text :: "string \<Rightarrow> string option \<Rightarrow> nat \<Rightarrow> intent_compile_error + unit" where
  "validate_optional_text field v minimum_length =
     (case v of
        None \<Rightarrow> Inr ()
      | Some v \<Rightarrow>
          and_then (ensure (\<not> length (trim v) < minimum_length)
            (IE_InvalidIntentField field ''must not be empty or whitespace-only'')) (\<lambda>_.
          ensure (char_of (0::nat) \<notin> set v) (IE_InvalidIntentField field ''must not contain NUL'')))"

definition artifact_field :: "string \<Rightarrow> string \<Rightarrow> string" where
  "artifact_field prefix suffix =
     (if prefix \<in> {''approved_logo'', ''brand_profile'', ''approved_copy''} \<and> suffix \<in> {''uri'', ''media_type'', ''sha256''}
      then prefix @ ''.'' @ suffix else ''artifact'')"

definition validate_artifact :: "string \<Rightarrow> input_artifact_intent \<Rightarrow> intent_compile_error + unit" where
  "validate_artifact prefix artifact =
     and_then (case ia_uri artifact of None \<Rightarrow> Inr () | Some uri \<Rightarrow>
       ensure (\<not> (\<not> starts_with uri ''contract://inputs/'' \<or> length uri \<le> length ''contract://inputs/''))
         (IE_InvalidIntentField (artifact_field prefix ''uri'') ''must use a non-empty contract://inputs/ URI'')) (\<lambda>_.
     and_then (case ia_media_type artifact of None \<Rightarrow> Inr () | Some media_type \<Rightarrow>
       ensure (\<not> (blank media_type \<or> CHR ''/'' \<notin> set media_type))
         (IE_InvalidIntentField (artifact_field prefix ''media_type'') ''must be a non-empty MIME media type'')) (\<lambda>_.
     case ia_sha256 artifact of None \<Rightarrow> Inr () | Some digest \<Rightarrow>
       ensure (length digest = 64 \<and> list_all is_lower_hex digest)
         (IE_InvalidIntentField (artifact_field prefix ''sha256'') ''must be exactly 64 lowercase hexadecimal characters'')))"

definition validate_canvas_edge :: "string \<Rightarrow> u32 \<Rightarrow> intent_compile_error + unit" where
  "validate_canvas_edge field v =
     ensure (\<not> (v = 0 \<or> v > MAXIMUM_CANVAS_EDGE_PX)) (IE_InvalidIntentField field ''must be between 1 and 32768 pixels'')"

definition validate_created_at :: "string \<Rightarrow> bool" where
  "validate_created_at created_at \<longleftrightarrow>
     \<not> (length created_at < 20 \<or> CHR ''T'' \<notin> set created_at \<or> \<not> ends_with created_at CHR ''Z'')"

definition validate_present_values :: "static_social_post_intent \<Rightarrow> intent_compile_error + unit" where
  "validate_present_values i =
     and_then (validate_optional_text ''contract_id'' (it_contract_id i) 1) (\<lambda>_.
     and_then (case it_created_at i of None \<Rightarrow> Inr () | Some created_at \<Rightarrow>
       ensure (validate_created_at created_at)
         (IE_InvalidIntentField ''created_at'' ''must be a caller-supplied UTC RFC 3339 timestamp ending in Z'')) (\<lambda>_.
     and_then (validate_optional_text ''original_text'' (it_original_text i) 1) (\<lambda>_.
     and_then (validate_optional_text ''language'' (it_language i) 2) (\<lambda>_.
     and_then (validate_optional_text ''requester_id'' (it_requester_id i) 1) (\<lambda>_.
     and_then (validate_optional_text ''visual_tone'' (it_visual_tone i) 1) (\<lambda>_.
     and_then (validate_optional_text ''required_application_version'' (it_required_application_version i) 1) (\<lambda>_.
     and_then (validate_artifact ''approved_logo'' (it_approved_logo i)) (\<lambda>_.
     and_then (validate_artifact ''brand_profile'' (it_brand_profile i)) (\<lambda>_.
     and_then (validate_artifact ''approved_copy'' (it_approved_copy i)) (\<lambda>_.
     and_then (case it_canvas_width_px i of None \<Rightarrow> Inr () | Some width \<Rightarrow> validate_canvas_edge ''canvas_width_px'' width) (\<lambda>_.
     and_then (case it_canvas_height_px i of None \<Rightarrow> Inr () | Some height \<Rightarrow> validate_canvas_edge ''canvas_height_px'' height) (\<lambda>_.
     and_then (case it_color_profile i of None \<Rightarrow> Inr () | Some profile \<Rightarrow>
       ensure (profile = CERTIFIED_COLOR_PROFILE) (IE_UnsupportedCertifiedValue ''color_profile'' profile
         ''v1 certification supports only the restricted sRGB proof path'')) (\<lambda>_.
     and_then (case it_logo_clear_space_px i of None \<Rightarrow> Inr () | Some clear_space \<Rightarrow>
       ensure (clear_space \<noteq> 0) (IE_InvalidIntentField ''logo_clear_space_px'' ''must be greater than zero'')) (\<lambda>_.
     and_then (case it_minimum_text_contrast_milli i of None \<Rightarrow> Inr () | Some contrast \<Rightarrow>
       ensure (MINIMUM_CERTIFIED_CONTRAST_MILLI \<le> contrast \<and> contrast \<le> MAXIMUM_CONTRAST_MILLI)
         (IE_InvalidIntentField ''minimum_text_contrast_milli''
           ''must be between 4500 and 21000 for the certified WCAG text path'')) (\<lambda>_.
     case (it_canvas_width_px i, it_canvas_height_px i, it_logo_clear_space_px i) of
       (Some width, Some height, Some clear_space) \<Rightarrow>
         ensure (\<not> saturating_mul clear_space 2 \<ge> min width height)
           (IE_InvalidIntentField ''logo_clear_space_px''
             ''twice the clear-space requirement must be smaller than the shortest canvas edge'')
     | _ \<Rightarrow> Inr ())))))))))))))))"

section \<open>Open questions\<close>

definition push_missing ::
    "bool \<Rightarrow> string \<Rightarrow> string \<Rightarrow> string \<Rightarrow> string list \<Rightarrow> resolution_request list \<Rightarrow> resolution_request list" where
  "push_missing missing field question reason sources requests =
     (if missing then requests @ [\<lparr>rr_field = field, rr_question = question, rr_reason = reason,
        rr_accepted_sources = sources\<rparr>] else requests)"

definition append_artifact_requests ::
    "string \<Rightarrow> input_artifact_intent \<Rightarrow> resolution_request list \<Rightarrow> resolution_request list" where
  "append_artifact_requests prefix artifact requests =
     (let display = map (\<lambda>c. if c = CHR ''_'' then CHR '' '' else c) prefix in
      push_missing (ia_sha256 artifact = None) (artifact_field prefix ''sha256'')
        (''What SHA-256 digest identifies the exact '' @ display @ '' bytes?'')
        ''Immutable input bytes must be sealed before planning or execution.'' [''trusted_hasher'']
      (push_missing (ia_media_type artifact = None) (artifact_field prefix ''media_type'')
        (''What media type was independently identified for the '' @ display @ ''?'')
        ''File extensions are not accepted as artifact type proof.'' [''trusted_decoder'', ''trusted_upload'']
      (push_missing (ia_uri artifact = None) (artifact_field prefix ''uri'')
        (''What immutable contract input URI contains the '' @ display @ ''?'')
        ''Every accepted input must be named and resource-scoped.'' [''trusted_upload'', ''user_answer''] requests)))"

definition missing_resolution_requests :: "static_social_post_intent \<Rightarrow> resolution_request list" where
  "missing_resolution_requests i =
     push_missing (it_minimum_text_contrast_milli i = None) ''minimum_text_contrast_milli''
       ''What minimum text contrast ratio should be enforced, in thousandths?''
       ''The contrast threshold is a mandatory acceptance condition and cannot be guessed.''
       [''trusted_profession_standard'', ''user_answer'']
     (push_missing (it_logo_clear_space_px i = None) ''logo_clear_space_px''
       ''What minimum clear space is required around the approved logo?''
       ''Logo clear space is a mandatory brand invariant.'' [''trusted_brand_profile'', ''user_answer'']
     (push_missing (it_color_profile i = None) ''color_profile''
       ''Which certified color profile must the delivery use?''
       ''The delivery color space cannot be inferred from appearance.'' [''trusted_brand_profile'', ''user_answer'']
     (push_missing (it_canvas_height_px i = None) ''canvas_height_px''
       ''What exact output height is required in pixels?''
       ''Canvas dimensions are mandatory and independently validated.'' [''user_answer'', ''trusted_platform_profile'']
     (push_missing (it_canvas_width_px i = None) ''canvas_width_px''
       ''What exact output width is required in pixels?''
       ''Canvas dimensions are mandatory and independently validated.'' [''user_answer'', ''trusted_platform_profile'']
     (append_artifact_requests ''approved_copy'' (it_approved_copy i)
     (append_artifact_requests ''brand_profile'' (it_brand_profile i)
     (append_artifact_requests ''approved_logo'' (it_approved_logo i)
     (push_missing (it_language i = None) ''language''
       ''What language code describes the original request?''
       ''Language is required for later interpretation and audit.'' [''user_answer'', ''trusted_locale'']
     (push_missing (it_original_text i = None) ''original_text''
       ''What exact user request should be preserved in the contract?''
       ''The compiler must retain the original intent without rewriting it as fact.'' [''user_answer'']
     (push_missing (it_created_at i = None) ''created_at''
       ''What trusted UTC creation timestamp should be sealed into the contract?''
       ''Using the runtime clock implicitly would make compilation nondeterministic.'' [''trusted_clock'']
     (push_missing (it_contract_id i = None) ''contract_id''
       ''What stable identifier should be assigned to this work contract?''
       ''The identifier is part of the canonical contract seal and cannot be generated implicitly.''
       [''user_answer'', ''trusted_orchestrator''] [])))))))))))"

section \<open>The contract\<close>

definition intent_constraint ::
    "string \<Rightarrow> string \<Rightarrow> string \<Rightarrow> string \<Rightarrow> json \<Rightarrow> string option \<Rightarrow> string \<Rightarrow> json" where
  "intent_constraint ident claim subject operator expected unit source = json_object [
     (''id'', JString ident), (''claim'', JString claim), (''subject'', JString subject),
     (''operator'', JString operator), (''expected'', expected), (''unit'', json_opt unit),
     (''tolerance'', json_nat 0), (''mandatory'', JBool True), (''source'', JString source)]"

definition intent_obligation :: "string \<Rightarrow> string \<Rightarrow> string list \<Rightarrow> string \<Rightarrow> string list \<Rightarrow> json" where
  "intent_obligation ident constraint_id validator_ids independence_class evidence_types = json_object [
     (''id'', JString ident), (''constraint_id'', JString constraint_id), (''validator_ids'', json_strings validator_ids),
     (''mandatory'', JBool True), (''independence_class'', JString independence_class),
     (''evidence_types'', json_strings evidence_types)]"

definition proof_obligations :: "json list" where
  "proof_obligations = [
     intent_obligation ''proof.canvas_width'' ''canvas_width'' [''raster.dimensions''] ''independent''
       [''decoded_image_metadata'', ''measurement_record''],
     intent_obligation ''proof.canvas_height'' ''canvas_height'' [''raster.dimensions''] ''independent''
       [''decoded_image_metadata'', ''measurement_record''],
     intent_obligation ''proof.color_profile'' ''color_profile'' [''raster.icc_profile''] ''independent''
       [''embedded_profile_digest'', ''decoded_image_metadata''],
     intent_obligation ''proof.logo_aspect_ratio'' ''logo_aspect_ratio'' [''document.logo_geometry''] ''independent''
       [''document_geometry_snapshot'', ''measurement_record''],
     intent_obligation ''proof.logo_clear_space'' ''logo_clear_space'' [''document.logo_geometry''] ''independent''
       [''document_geometry_snapshot'', ''measurement_record''],
     intent_obligation ''proof.text_within_safe_area'' ''text_within_safe_area'' [''document.text_bounds''] ''independent''
       [''text_bounds_snapshot'', ''safe_area_geometry'', ''measurement_record''],
     intent_obligation ''proof.minimum_text_contrast'' ''minimum_text_contrast''
       [''raster.text_contrast.relative_luminance'', ''raster.text_contrast.render_sampling''] ''diverse''
       [''contrast_measurements'', ''sample_coordinates'', ''render_digest''],
     intent_obligation ''proof.export_media_type'' ''export_media_type'' [''raster.media_type''] ''independent''
       [''magic_bytes'', ''decoded_image_metadata'']]"

definition intent_resolved :: "'a option \<Rightarrow> string \<Rightarrow> intent_compile_error + 'a" where
  "intent_resolved v field = ok_or v (IE_MissingResolvedField field)"

definition artifact_value :: "string \<Rightarrow> string \<Rightarrow> input_artifact_intent \<Rightarrow> intent_compile_error + json" where
  "artifact_value ident kind artifact =
     and_then (intent_resolved (ia_uri artifact) (artifact_field ident ''uri'')) (\<lambda>uri.
     and_then (intent_resolved (ia_sha256 artifact) (artifact_field ident ''sha256'')) (\<lambda>digest.
     and_then (intent_resolved (ia_media_type artifact) (artifact_field ident ''media_type'')) (\<lambda>media_type.
     Inr (json_object [(''id'', JString ident), (''kind'', JString kind), (''uri'', JString uri),
       (''integrity'', json_object [(''algorithm'', JString ''sha256''), (''digest'', JString digest)]),
       (''media_type'', JString media_type), (''immutable'', JBool True)]))))"

definition decimal_milli_string :: "u32 \<Rightarrow> string" where
  "decimal_milli_string v =
     (let whole = unat v div 1000; fraction = unat v mod 1000 in
      if fraction = 0 then decimal whole
      else if fraction mod 100 = 0 then decimal whole @ ''.'' @ decimal (fraction div 100)
      else if fraction mod 10 = 0 then decimal whole @ ''.'' @ padded 2 (fraction div 10)
      else decimal whole @ ''.'' @ padded 3 fraction)"

definition decimal_milli :: "intent_env \<Rightarrow> u32 \<Rightarrow> intent_compile_error + json" where
  "decimal_milli E v =
     (let encoded = decimal_milli_string v in
      and_then (ok_or (in_parse_number E encoded) (IE_InvalidDecimal encoded)) (\<lambda>number. Inr (JNumber number)))"

definition intent_preferences :: "static_social_post_intent \<Rightarrow> json list" where
  "intent_preferences i =
     (case it_visual_tone i of
        None \<Rightarrow> []
      | Some tone \<Rightarrow> [json_object [(''id'', JString ''visual_tone''), (''description'', JString tone),
          (''weight'', json_nat 1), (''evaluation_mode'', JString ''human_review'')]])"

definition output_value :: "string \<Rightarrow> string \<Rightarrow> string \<Rightarrow> json" where
  "output_value ident destination media_type = json_object [(''id'', JString ident), (''kind'', JString ident),
     (''destination'', JString destination), (''media_type'', JString media_type), (''required'', JBool True)]"

definition intent_outputs :: "json list" where
  "intent_outputs = [
     output_value ''editable_master'' ''contract://outputs/master.design'' ''application/x-ergaxiom-design-document'',
     output_value ''delivery_raster'' ''contract://outputs/social-post.png'' ''image/png'',
     output_value ''evidence_bundle'' ''contract://outputs/evidence.json'' ''application/json'']"

definition permission_value :: "string \<Rightarrow> string \<Rightarrow> string \<Rightarrow> string \<Rightarrow> bool \<Rightarrow> json" where
  "permission_value capability resource access key flag = json_object [(''capability'', JString capability),
     (''resource'', JString resource), (''access'', JString access), (''constraints'', json_object [(key, JBool flag)])]"

definition intent_permissions :: "json list" where
  "intent_permissions = [
     permission_value ''filesystem'' ''contract://inputs/*'' ''read'' ''immutable'' True,
     permission_value ''filesystem'' ''contract://outputs/*'' ''write'' ''overwrite'' False,
     permission_value ''design-editor'' ''isolated-workspace'' ''control'' ''network'' False]"

definition hard_constraints :: "u32 \<Rightarrow> u32 \<Rightarrow> string \<Rightarrow> u32 \<Rightarrow> u32 \<Rightarrow> json \<Rightarrow> json list" where
  "hard_constraints width height color_profile clear_space contrast_milli contrast_value = [
     intent_constraint ''canvas_width'' (''The exported raster width is exactly '' @ decimal (unat width) @ '' pixels.'')
       ''delivery_raster.width'' ''eq'' (json_nat (ucast width)) (Some ''px'') ''work_intent'',
     intent_constraint ''canvas_height'' (''The exported raster height is exactly '' @ decimal (unat height) @ '' pixels.'')
       ''delivery_raster.height'' ''eq'' (json_nat (ucast height)) (Some ''px'') ''work_intent'',
     intent_constraint ''color_profile'' (''The delivery raster contains the approved '' @ color_profile @ '' profile.'')
       ''delivery_raster.icc_profile'' ''eq'' (JString color_profile) None ''brand_profile'',
     intent_constraint ''logo_aspect_ratio'' ''The placed logo preserves the source aspect ratio.''
       ''editable_master.logo.aspect_ratio_delta'' ''lte'' (json_nat 0) (Some ''ratio_delta'') ''approved_logo'',
     intent_constraint ''logo_clear_space'' (''The logo clear space is at least '' @ decimal (unat clear_space) @ '' pixels.'')
       ''editable_master.logo.minimum_clear_space'' ''gte'' (json_nat (ucast clear_space)) (Some ''px'') ''brand_profile'',
     intent_constraint ''text_within_safe_area'' ''All rendered text bounds are contained by the declared safe area.''
       ''editable_master.text.safe_area_violations'' ''eq'' (json_nat 0) (Some ''count'') ''work_intent'',
     intent_constraint ''minimum_text_contrast''
       (''Every declared text region has a contrast ratio of at least '' @ decimal_milli_string contrast_milli @ '' to 1.'')
       ''delivery_raster.text.minimum_contrast_ratio'' ''gte'' contrast_value (Some ''ratio'') ''profession_standard.wcag-contrast'',
     intent_constraint ''export_media_type'' ''The delivery artifact is a valid PNG image.''
       ''delivery_raster.media_type'' ''eq'' (JString ''image/png'') None ''certified_job_profile'']"

definition contract_document ::
    "static_social_post_intent \<Rightarrow> string \<Rightarrow> string \<Rightarrow> string \<Rightarrow> string \<Rightarrow> string \<Rightarrow> u32 \<Rightarrow> u32 \<Rightarrow> string \<Rightarrow> u32 \<Rightarrow> u32 \<Rightarrow> json \<Rightarrow>
     json list \<Rightarrow> json" where
  "contract_document i capsule_version contract_id created_at original_text language width height
     color_profile clear_space contrast_milli contrast_value inputs = json_object [
     (''schema_version'', JString INTENT_SCHEMA_VERSION),
     (''contract_id'', JString contract_id),
     (''created_at'', JString created_at),
     (''request'', json_object [(''original_text'', JString original_text), (''language'', JString language),
       (''requester_id'', json_opt (it_requester_id i))]),
     (''profession'', json_object [(''capsule_id'', JString INTENT_CAPSULE_ID), (''capsule_version'', JString capsule_version),
       (''specialization'', JString SPECIALIZATION)]),
     (''job_type'', JString INTENT_JOB_TYPE),
     (''environment'', json_object [(''os'', JString ''windows''),
       (''applications'', JArray [json_object [(''application_id'', JString ''design-editor''),
         (''required_version'', json_opt (it_required_application_version i))]]),
       (''network_mode'', JString ''denied'')]),
     (''inputs'', JArray inputs),
     (''outputs'', JArray intent_outputs),
     (''requirements'', json_object [
       (''hard'', JArray (hard_constraints width height color_profile clear_space contrast_milli contrast_value)),
       (''preferences'', JArray (intent_preferences i)), (''unknowns'', JArray [])]),
     (''permissions'', JArray intent_permissions),
     (''proof_obligations'', JArray proof_obligations),
     (''approval_policy'', json_object [(''require_pre_execution_approval'', JBool (it_require_pre_execution_approval i)),
       (''require_irreversible_action_approval'', JBool True), (''approval_ttl_seconds'', json_nat 300)]),
     (''acceptance'', json_object [(''minimum_assurance_level'', JString ''E3''), (''unknowns_must_be_empty'', JBool True),
       (''all_mandatory_proofs_must_pass'', JBool True), (''validator_conflicts_allowed'', JBool False)]),
     (''metadata'', json_object [(''compiler'', JString ''ergaxiom-intent-contract-compiler-runtime''),
       (''compiler_version'', JString ''0.1.0''), (''intent_kind'', JString INTENT_JOB_TYPE),
       (''deterministic'', JBool True), (''implicit_defaults'', JBool False)])]"

definition build_contract :: "intent_env \<Rightarrow> static_social_post_intent \<Rightarrow> json \<Rightarrow> intent_compile_error + json" where
  "build_contract E i capsule =
     and_then (ok_or (Option.bind (json_get capsule ''version'') as_str) (IE_InvalidCapsuleField ''version'')) (\<lambda>capsule_version.
     and_then (intent_resolved (it_contract_id i) ''contract_id'') (\<lambda>contract_id.
     and_then (intent_resolved (it_created_at i) ''created_at'') (\<lambda>created_at.
     and_then (intent_resolved (it_original_text i) ''original_text'') (\<lambda>original_text.
     and_then (intent_resolved (it_language i) ''language'') (\<lambda>language.
     and_then (intent_resolved (it_canvas_width_px i) ''canvas_width_px'') (\<lambda>width.
     and_then (intent_resolved (it_canvas_height_px i) ''canvas_height_px'') (\<lambda>height.
     and_then (intent_resolved (it_color_profile i) ''color_profile'') (\<lambda>color_profile.
     and_then (intent_resolved (it_logo_clear_space_px i) ''logo_clear_space_px'') (\<lambda>clear_space.
     and_then (intent_resolved (it_minimum_text_contrast_milli i) ''minimum_text_contrast_milli'') (\<lambda>contrast_milli.
     and_then (decimal_milli E contrast_milli) (\<lambda>contrast_value.
     and_then (artifact_value ''approved_logo'' ''approved_logo'' (it_approved_logo i)) (\<lambda>approved_logo.
     and_then (artifact_value ''brand_profile'' ''brand_profile'' (it_brand_profile i)) (\<lambda>brand_profile.
     and_then (artifact_value ''approved_copy'' ''approved_copy'' (it_approved_copy i)) (\<lambda>approved_copy.
     Inr (contract_document i capsule_version contract_id created_at original_text language width height
       color_profile clear_space contrast_milli contrast_value
       [approved_logo, brand_profile, approved_copy])))))))))))))))"

definition compile_static_social_post_intent ::
    "intent_env \<Rightarrow> static_social_post_intent \<Rightarrow> json \<Rightarrow> intent_compile_error + intent_outcome" where
  "compile_static_social_post_intent E i capsule =
     and_then (intent_validate_capsule capsule) (\<lambda>_.
     and_then (validate_present_values i) (\<lambda>_.
     let requests = missing_resolution_requests i in
     if requests \<noteq> [] then
       and_then (map_err IE_Serialization (in_requests_value E requests)) (\<lambda>v.
       and_then (map_err IE_Hashing (canonical_json_sha256 (in_hasher E) v)) (\<lambda>digest.
       Inr (IO_NeedsResolution INTENT_JOB_TYPE requests digest)))
     else
       and_then (build_contract E i capsule) (\<lambda>contract.
       and_then (map_err IE_Contract (compile_contract (in_hasher E) (in_codec E) contract capsule)) (\<lambda>compiled.
       and_then (ensure (cc_unresolved_mandatory_unknowns compiled = 0) (IE_InvalidIntentField ''requirements.unknowns''
         ''a completed compiler result must not retain unresolved mandatory unknowns'')) (\<lambda>_.
       Inr (IO_Compiled INTENT_JOB_TYPE contract (seal_contract_digest (cc_seal compiled)) (seal_capsule_digest (cc_seal compiled))
         (proof_obligation_count compiled) (cc_unresolved_mandatory_unknowns compiled)))))))"

section \<open>Decimal rendering\<close>

text \<open>The value of a decimal numeral in thousandths: its whole part and at most three decimals.\<close>

definition milli_value :: "string \<Rightarrow> nat" where
  "milli_value s =
     (let whole = takeWhile (\<lambda>c. c \<noteq> CHR ''.'') s; fraction = drop (Suc (length whole)) s
      in digits_value whole * 1000 + digits_value fraction * 10 ^ (3 - length fraction))"

lemma milli_value_split: "milli_value (decimal n) = n * 1000"
    "milli_value (decimal n @ CHR ''.'' # s) = n * 1000 + digits_value s * 10 ^ (3 - length s)"
proof -
  have t: "takeWhile (\<lambda>c. c \<noteq> CHR ''.'') (decimal n) = decimal n"
    using decimal_no_dot by (simp add: takeWhile_eq_all_conv)
  have u: "takeWhile (\<lambda>c. c \<noteq> CHR ''.'') (decimal n @ CHR ''.'' # s) = decimal n"
    using decimal_no_dot by (subst takeWhile_append2) auto
  show "milli_value (decimal n) = n * 1000"
    "milli_value (decimal n @ CHR ''.'' # s) = n * 1000 + digits_value s * 10 ^ (3 - length s)"
    unfolding milli_value_def t u Let_def by (simp_all add: digits_value_def [of "[]"])
qed

text \<open>The rendering is exact: read back as thousandths it is the number it was made from.\<close>

lemma decimal_milli_exact: "milli_value (decimal_milli_string v) = unat v"
proof -
  define w f where "w = unat v div 1000" and "f = unat v mod 1000"
  have v: "unat v = w * 1000 + f" "f < 1000" by (simp_all add: w_def f_def)
  have s: "decimal_milli_string v =
     (if f = 0 then decimal w
      else if f mod 100 = 0 then decimal w @ ''.'' @ decimal (f div 100)
      else if f mod 10 = 0 then decimal w @ ''.'' @ padded 2 (f div 10)
      else decimal w @ ''.'' @ padded 3 f)"
    unfolding decimal_milli_string_def Let_def w_def f_def ..
  have "f = f div 100 * 100" if "f mod 100 = 0" using that by (simp add: mod_0_imp_dvd)
  moreover have "f = f div 10 * 10" if "f mod 10 = 0" using that by (simp add: mod_0_imp_dvd)
  moreover have "length (decimal (f div 100)) = 1" using v(2) by (intro length_decimal(1)) simp
  moreover have "length (padded 2 (f div 10)) = 2" using length_decimal(2) [of "f div 10"] v(2) by (simp add: padded_def)
  moreover have "length (padded 3 f) = 3" using length_decimal(3) [OF v(2)] by (simp add: padded_def)
  ultimately show ?thesis
    unfolding s v(1) by (simp add: milli_value_split)
qed

end
