(* ===== verification/TypedPlanner.thy ===== *)
theory TypedPlanner
  imports IntentCompiler Plan
begin

text \<open>
  The typed planner (\<^verbatim>\<open>crates/typed-planner-runtime\<close>): for a compiled contract of a
  static social media post and its capsule it writes the operator plan, or asks for the parts
  of the plan's identity that are missing. Decoding the two planning views and encoding the
  question and requirement lists are third-party code, arguments in \<open>planner_env\<close>. The
  lemmas show that the plan it writes always compiles, that every capability it asks for is
  one the contract permits, and that a contract of the intent compiler is always plannable.
\<close>

section \<open>Data\<close>

definition PLANNER_CONTRACT_SCHEMA :: string where "PLANNER_CONTRACT_SCHEMA = ''0.2.0''"
definition PLANNER_PLAN_SCHEMA :: string where "PLANNER_PLAN_SCHEMA = ''0.1.0''"
definition PLANNER_CAPSULE_ID :: string where "PLANNER_CAPSULE_ID = ''ergaxiom.profession.graphic-designer''"
definition PLANNER_JOB_TYPE :: string where "PLANNER_JOB_TYPE = ''social_media_static_post''"
definition PLANNER_ID :: string where "PLANNER_ID = ''ergaxiom-typed-planner-runtime''"
definition PLANNER_VERSION :: string where "PLANNER_VERSION = ''0.1.0''"

definition REQUIRED_OPERATORS :: "string list" where
  "REQUIRED_OPERATORS = [''design.create_canvas'', ''design.place_asset'', ''design.compose_text'', ''design.export_raster'']"

record plan_identity =
  pi_plan_id :: "string option"
  pi_created_at :: "string option"

record plan_resolution_request =
  prr_field :: string
  prr_question :: string
  prr_reason :: string
  prr_accepted_sources :: "string list"

record capability_requirement =
  cq_token_id :: string
  cq_step_id :: string
  cq_capability :: string
  cq_resource :: string
  cq_access :: string

record planned =
  pld_job_type :: string
  pld_plan :: json
  pld_plan_digest :: string
  pld_contract_digest :: string
  pld_capsule_digest :: string
  pld_mandatory_step_count :: nat
  pld_capability_requirement_digest :: string

datatype (plugins only: code size) plan_outcome =
    PO_NeedsResolution string "plan_resolution_request list" string
  | PO_Planned planned

datatype (plugins only: code size) typed_planner_error =
    TP_InvalidIdentityField string string
  | TP_ContractPlanningDecode serde_error
  | TP_CapsulePlanningDecode serde_error
  | TP_UnsupportedContractProfile string
  | TP_ContractIdentityMismatch
  | TP_CapsuleIdentityMismatch
  | TP_DuplicateIdentifier string string
  | TP_ProfileMismatch string string string
  | TP_MutableInput string
  | TP_OptionalOutput string
  | TP_MissingOperator string
  | TP_EmptyOperatorVersion string
  | TP_MissingResolvedField string
  | TP_Serialization serde_error
  | TP_Contract contract_compile_error
  | TP_Plan plan_compile_error
  | TP_Hashing hashing_error
  | TP_MissingKeyPanic string

text \<open>The last constructor stands for the panic of \<^verbatim>\<open>versions[key]\<close> on an absent key.\<close>

record contract_input_view =
  civ_id :: string
  civ_kind :: string
  civ_immutable :: bool

record contract_output_view =
  cov_id :: string
  cov_kind :: string
  cov_destination :: string
  cov_media_type :: "string option"
  cov_required :: bool

record contract_permission_view =
  cmv_capability :: string
  cmv_resource :: string
  cmv_access :: string
  cmv_constraints :: json

record contract_planning_view =
  cwv_schema_version :: string
  cwv_contract_id :: string
  cwv_job_type :: string
  cwv_inputs :: "contract_input_view list"
  cwv_outputs :: "contract_output_view list"
  cwv_permissions :: "contract_permission_view list"

record capsule_planning_view =
  csv_capsule_id :: string
  csv_version :: string
  csv_operators :: "capsule_operator list"
  csv_job_types :: "capsule_job_type list"

record planner_env =
  pn_hasher :: hasher
  pn_contract_codec :: contract_codec
  pn_plan_codec :: plan_codec
  pn_contract_view :: "json \<Rightarrow> serde_error + contract_planning_view"
  pn_capsule_view :: "json \<Rightarrow> serde_error + capsule_planning_view"
  pn_requests_value :: "plan_resolution_request list \<Rightarrow> serde_error + json"
  pn_requirements_value :: "capability_requirement list \<Rightarrow> serde_error + json"

section \<open>The identity of the plan\<close>

definition validate_identity_values :: "plan_identity \<Rightarrow> typed_planner_error + unit" where
  "validate_identity_values i =
     and_then (case pi_plan_id i of None \<Rightarrow> Inr () | Some plan_id \<Rightarrow>
       ensure (\<not> (plan_id = [] \<or> \<not> list_all (\<lambda>c. is_ascii_alphanumeric c \<or> c \<in> set ''._-'') plan_id))
         (TP_InvalidIdentityField ''plan_id'' ''must contain only ASCII letters, digits, dot, underscore or hyphen'')) (\<lambda>_.
     case pi_created_at i of None \<Rightarrow> Inr () | Some created_at \<Rightarrow>
       ensure (\<not> (length created_at < 20 \<or> CHR ''T'' \<notin> set created_at \<or> \<not> ends_with created_at CHR ''Z''))
         (TP_InvalidIdentityField ''created_at'' ''must be a caller-supplied UTC RFC 3339 timestamp ending in Z''))"

definition missing_plan_requests :: "plan_identity \<Rightarrow> plan_resolution_request list" where
  "missing_plan_requests i =
     (if pi_plan_id i = None then [\<lparr>prr_field = ''plan_id'',
        prr_question = ''What stable identifier should be assigned to this Operator Plan?'',
        prr_reason = ''The plan identifier is part of the canonical plan digest and capability-token namespace.'',
        prr_accepted_sources = [''trusted_orchestrator'', ''user_answer'']\<rparr>] else []) @
     (if pi_created_at i = None then [\<lparr>prr_field = ''created_at'',
        prr_question = ''What trusted UTC creation timestamp should be sealed into the Operator Plan?'',
        prr_reason = ''The planner does not read the runtime clock because hidden time defaults break deterministic replay.'',
        prr_accepted_sources = [''trusted_clock'']\<rparr>] else [])"

definition planner_resolved :: "'a option \<Rightarrow> string \<Rightarrow> typed_planner_error + 'a" where
  "planner_resolved v field = ok_or v (TP_MissingResolvedField field)"

section \<open>The profile of the contract and the capsule\<close>

definition validate_contract_profile :: "contract_planning_view \<Rightarrow> compiled_contract \<Rightarrow> typed_planner_error + unit" where
  "validate_contract_profile contract compiled =
     and_then (ensure (cwv_schema_version contract = PLANNER_CONTRACT_SCHEMA)
       (TP_UnsupportedContractProfile ''Work Contract schema must be 0.2.0'')) (\<lambda>_.
     ensure (\<not> (cwv_contract_id contract \<noteq> cc_contract_id compiled \<or> cwv_job_type contract \<noteq> cc_job_type compiled))
       TP_ContractIdentityMismatch)"

fun join :: "string \<Rightarrow> string list \<Rightarrow> string" where
  "join sep [] = []"
| "join sep [s] = s"
| "join sep (s # t # ss) = s @ sep @ join sep (t # ss)"

definition validate_capsule_profile :: "capsule_planning_view \<Rightarrow> typed_planner_error + unit" where
  "validate_capsule_profile capsule =
     and_then (ensure (\<not> (csv_capsule_id capsule \<noteq> PLANNER_CAPSULE_ID \<or> blank (csv_version capsule))) TP_CapsuleIdentityMismatch) (\<lambda>_.
     and_then (ok_or (find (\<lambda>j. cj_id j = PLANNER_JOB_TYPE) (csv_job_types capsule))
       (TP_UnsupportedContractProfile ''pinned capsule does not declare social_media_static_post'')) (\<lambda>job_type.
     let actual = join '','' (cj_operator_ids job_type); expected = join '','' REQUIRED_OPERATORS in
     ensure (actual = expected) (TP_ProfileMismatch ''job operator allowlist'' expected actual)))"

definition render_map :: "(string, string) bmap \<Rightarrow> string" where
  "render_map m = join '','' (map (\<lambda>(ident, kind). ident @ '':'' @ kind) m)"

definition expected_inputs :: "(string, string) bmap" where
  "expected_inputs = bm_collect [(''approved_copy'', ''approved_copy''), (''approved_logo'', ''approved_logo''),
     (''brand_profile'', ''brand_profile'')]"

definition validate_input_profile :: "contract_input_view list \<Rightarrow> typed_planner_error + unit" where
  "validate_input_profile inputs =
     and_then (try_fold (\<lambda>actual input.
         and_then (ensure (map_of actual (civ_id input) = None) (TP_DuplicateIdentifier ''contract input'' (civ_id input))) (\<lambda>_.
         and_then (ensure (civ_immutable input) (TP_MutableInput (civ_id input))) (\<lambda>_.
         Inr (bm_insert (civ_id input) (civ_kind input) actual)))) [] inputs) (\<lambda>actual.
     ensure (actual = expected_inputs)
       (TP_ProfileMismatch ''contract input'' (render_map expected_inputs) (render_map actual)))"

type_synonym output_profile = "string \<times> string \<times> string option"

definition render_output_map :: "(string, output_profile) bmap \<Rightarrow> string" where
  "render_output_map m = join '','' (map (\<lambda>(ident, kind, destination, media_type).
     ident @ '':'' @ kind @ '':'' @ destination @ '':'' @ (case media_type of None \<Rightarrow> ''none'' | Some t \<Rightarrow> t)) m)"

definition expected_outputs :: "(string, output_profile) bmap" where
  "expected_outputs = bm_collect [
     (''delivery_raster'', ''delivery_raster'', ''contract://outputs/social-post.png'', Some ''image/png''),
     (''editable_master'', ''editable_master'', ''contract://outputs/master.design'', Some ''application/x-ergaxiom-design-document''),
     (''evidence_bundle'', ''evidence_bundle'', ''contract://outputs/evidence.json'', Some ''application/json'')]"

fun index_outputs_from ::
    "(string, output_profile) bmap \<Rightarrow> contract_output_view list \<Rightarrow> typed_planner_error + (string, output_profile) bmap" where
  "index_outputs_from actual [] = Inr actual"
| "index_outputs_from actual (output # outputs) =
     and_then (ensure (cov_required output) (TP_OptionalOutput (cov_id output))) (\<lambda>_.
     if map_of actual (cov_id output) \<noteq> None then Inl (TP_DuplicateIdentifier ''contract output'' (cov_id output))
     else index_outputs_from (bm_insert (cov_id output) (cov_kind output, cov_destination output, cov_media_type output) actual) outputs)"

definition validate_output_profile :: "contract_output_view list \<Rightarrow> typed_planner_error + unit" where
  "validate_output_profile outputs =
     and_then (index_outputs_from [] outputs) (\<lambda>actual.
     ensure (actual = expected_outputs)
       (TP_ProfileMismatch ''contract output'' (render_output_map expected_outputs) (render_output_map actual)))"

definition bool_string :: "bool \<Rightarrow> string" where
  "bool_string b = (if b then ''true'' else ''false'')"

definition constraint_flag :: "contract_permission_view \<Rightarrow> string \<Rightarrow> bool \<Rightarrow> bool" where
  "constraint_flag p key absent =
     (case Option.bind (json_get (cmv_constraints p) key) as_bool of Some b \<Rightarrow> b | None \<Rightarrow> absent)"

definition permission_constraint :: "contract_permission_view \<Rightarrow> string" where
  "permission_constraint p =
     (if (cmv_capability p, cmv_resource p, cmv_access p) = (''filesystem'', ''contract://inputs/*'', ''read'')
      then ''immutable='' @ bool_string (constraint_flag p ''immutable'' False)
      else if (cmv_capability p, cmv_resource p, cmv_access p) = (''filesystem'', ''contract://outputs/*'', ''write'')
      then ''overwrite='' @ bool_string (constraint_flag p ''overwrite'' True)
      else if (cmv_capability p, cmv_resource p, cmv_access p) = (''design-editor'', ''isolated-workspace'', ''control'')
      then ''network='' @ bool_string (constraint_flag p ''network'' True)
      else ''unsupported=true'')"

definition permission_signature :: "contract_permission_view \<Rightarrow> string" where
  "permission_signature p =
     cmv_capability p @ ''|'' @ cmv_resource p @ ''|'' @ cmv_access p @ ''|'' @ permission_constraint p"

definition expected_permissions :: "string list" where
  "expected_permissions = bset_collect [
     ''design-editor|isolated-workspace|control|network=false'',
     ''filesystem|contract://inputs/*|read|immutable=true'',
     ''filesystem|contract://outputs/*|write|overwrite=false'']"

definition validate_permission_profile :: "contract_permission_view list \<Rightarrow> typed_planner_error + unit" where
  "validate_permission_profile permissions =
     and_then (try_fold (\<lambda>actual p.
         and_then (ensure (permission_signature p \<notin> set actual)
           (TP_DuplicateIdentifier ''contract permission'' (permission_signature p))) (\<lambda>_.
         Inr (bset_collect (permission_signature p # actual)))) [] permissions) (\<lambda>actual.
     ensure (actual = expected_permissions)
       (TP_ProfileMismatch ''contract permission'' (join '','' expected_permissions) (join '','' actual)))"

fun index_versions_from ::
    "(string, string) bmap \<Rightarrow> capsule_operator list \<Rightarrow> typed_planner_error + (string, string) bmap" where
  "index_versions_from versions [] = Inr versions"
| "index_versions_from versions (operator # operators) =
     (if map_of versions (co_id operator) \<noteq> None then Inl (TP_DuplicateIdentifier ''capsule operator'' (co_id operator))
      else index_versions_from (bm_insert (co_id operator) (co_version operator) versions) operators)"

definition select_version ::
    "(string, string) bmap \<Rightarrow> (string, string) bmap \<Rightarrow> string \<Rightarrow> typed_planner_error + (string, string) bmap" where
  "select_version versions selected operator_id =
     and_then (ok_or (map_of versions operator_id) (TP_MissingOperator operator_id)) (\<lambda>version.
     and_then (ensure (\<not> blank version) (TP_EmptyOperatorVersion operator_id)) (\<lambda>_.
     Inr (bm_insert operator_id version selected)))"

definition resolve_operator_versions :: "capsule_planning_view \<Rightarrow> typed_planner_error + (string, string) bmap" where
  "resolve_operator_versions capsule =
     and_then (index_versions_from [] (csv_operators capsule)) (\<lambda>versions.
     try_fold (select_version versions) [] REQUIRED_OPERATORS)"

section \<open>The plan\<close>

definition token_id_for :: "string \<Rightarrow> string \<Rightarrow> string" where
  "token_id_for plan_id suffix = ''capability.'' @ plan_id @ ''.'' @ suffix"

definition planned_capability :: "string \<Rightarrow> string \<Rightarrow> string \<Rightarrow> string \<Rightarrow> string \<Rightarrow> string \<Rightarrow> capability_requirement" where
  "planned_capability plan_id suffix step_id capability resource access = \<lparr>cq_token_id = token_id_for plan_id suffix,
     cq_step_id = step_id, cq_capability = capability, cq_resource = resource, cq_access = access\<rparr>"

definition capability_requirements :: "string \<Rightarrow> capability_requirement list" where
  "capability_requirements plan_id = [
     planned_capability plan_id ''canvas'' ''step.canvas'' ''design-editor'' ''isolated-workspace'' ''control'',
     planned_capability plan_id ''logo'' ''step.logo'' ''filesystem'' ''contract://inputs/*'' ''read'',
     planned_capability plan_id ''text'' ''step.text'' ''design-editor'' ''isolated-workspace'' ''control'',
     planned_capability plan_id ''export'' ''step.export'' ''filesystem'' ''contract://outputs/*'' ''write'']"

definition planner_step ::
    "string \<Rightarrow> string \<Rightarrow> string \<Rightarrow> u64 \<Rightarrow> string \<Rightarrow> string \<Rightarrow> string list \<Rightarrow> string list \<Rightarrow> string list \<Rightarrow> json" where
  "planner_step plan_id token_suffix step_id sequence operator_id operator_version depends_on inputs outputs = json_object [
     (''step_id'', JString step_id), (''sequence'', json_nat sequence), (''operator_id'', JString operator_id),
     (''operator_version'', JString operator_version), (''depends_on'', json_strings depends_on),
     (''input_artifact_ids'', json_strings inputs), (''output_artifact_ids'', json_strings outputs),
     (''capability_token_ids'', json_strings [token_id_for plan_id token_suffix]), (''mandatory'', JBool True),
     (''rollback_step_id'', JNull)]"

definition version_at :: "(string, string) bmap \<Rightarrow> nat \<Rightarrow> typed_planner_error + string" where
  "version_at versions n = ok_or (map_of versions (REQUIRED_OPERATORS ! n)) (TP_MissingKeyPanic (REQUIRED_OPERATORS ! n))"

definition digest_reference_value :: "string \<Rightarrow> string \<Rightarrow> json" where
  "digest_reference_value ident digest = json_object [(''id'', JString ident), (''algorithm'', JString ''sha256''),
     (''digest'', JString digest), (''uri'', JNull)]"

definition plan_value ::
    "string \<Rightarrow> string \<Rightarrow> compiled_contract \<Rightarrow> capsule_planning_view \<Rightarrow> (nat \<Rightarrow> string) \<Rightarrow> json \<Rightarrow> json" where
  "plan_value plan_id created_at compiled capsule version requirements = json_object [
     (''schema_version'', JString PLANNER_PLAN_SCHEMA),
     (''plan_id'', JString plan_id),
     (''created_at'', JString created_at),
     (''bindings'', json_object [
       (''contract'', digest_reference_value (cc_contract_id compiled) (seal_contract_digest (cc_seal compiled))),
       (''profession_capsule'', digest_reference_value (csv_capsule_id capsule) (seal_capsule_digest (cc_seal compiled)))]),
     (''steps'', JArray [
       planner_step plan_id ''canvas'' ''step.canvas'' 0 (REQUIRED_OPERATORS ! 0) (version 0) [] [''brand_profile''] [''editable_master''],
       planner_step plan_id ''logo'' ''step.logo'' 1 (REQUIRED_OPERATORS ! 1) (version 1) [''step.canvas'']
         [''editable_master'', ''approved_logo''] [''editable_master''],
       planner_step plan_id ''text'' ''step.text'' 2 (REQUIRED_OPERATORS ! 2) (version 2) [''step.logo'']
         [''editable_master'', ''approved_copy''] [''editable_master''],
       planner_step plan_id ''export'' ''step.export'' 3 (REQUIRED_OPERATORS ! 3) (version 3) [''step.text'']
         [''editable_master''] [''delivery_raster'']]),
     (''metadata'', json_object [(''planner'', JString PLANNER_ID), (''planner_version'', JString PLANNER_VERSION),
       (''job_type'', JString PLANNER_JOB_TYPE), (''deterministic'', JBool True), (''implicit_defaults'', JBool False),
       (''capability_requirements'', requirements)])]"

definition build_plan ::
    "string \<Rightarrow> string \<Rightarrow> compiled_contract \<Rightarrow> capsule_planning_view \<Rightarrow> (string, string) bmap \<Rightarrow> json \<Rightarrow>
     typed_planner_error + json" where
  "build_plan plan_id created_at compiled capsule versions requirements =
     and_then (version_at versions 0) (\<lambda>v0. and_then (version_at versions 1) (\<lambda>v1.
     and_then (version_at versions 2) (\<lambda>v2. and_then (version_at versions 3) (\<lambda>v3.
     Inr (plan_value plan_id created_at compiled capsule (\<lambda>n. [v0, v1, v2, v3] ! n) requirements)))))"

definition synthesize_static_social_post_plan ::
    "planner_env \<Rightarrow> plan_identity \<Rightarrow> json \<Rightarrow> json \<Rightarrow> typed_planner_error + plan_outcome" where
  "synthesize_static_social_post_plan E i contract_value capsule_value =
     and_then (validate_identity_values i) (\<lambda>_.
     let requests = missing_plan_requests i in
     if requests \<noteq> [] then
       and_then (map_err TP_Serialization (pn_requests_value E requests)) (\<lambda>v.
       and_then (map_err TP_Hashing (canonical_json_sha256 (pn_hasher E) v)) (\<lambda>digest.
       Inr (PO_NeedsResolution PLANNER_JOB_TYPE requests digest)))
     else
       and_then (map_err TP_Contract (compile_contract (pn_hasher E) (pn_contract_codec E) contract_value capsule_value)) (\<lambda>compiled.
       and_then (ensure (cc_job_type compiled = PLANNER_JOB_TYPE)
         (TP_UnsupportedContractProfile ''only social_media_static_post is supported by planner v1'')) (\<lambda>_.
       and_then (ensure (cc_unresolved_mandatory_unknowns compiled = 0)
         (TP_UnsupportedContractProfile ''unresolved mandatory unknowns block planning'')) (\<lambda>_.
       and_then (map_err TP_ContractPlanningDecode (pn_contract_view E contract_value)) (\<lambda>contract.
       and_then (map_err TP_CapsulePlanningDecode (pn_capsule_view E capsule_value)) (\<lambda>capsule.
       and_then (validate_contract_profile contract compiled) (\<lambda>_.
       and_then (validate_capsule_profile capsule) (\<lambda>_.
       and_then (validate_input_profile (cwv_inputs contract)) (\<lambda>_.
       and_then (validate_output_profile (cwv_outputs contract)) (\<lambda>_.
       and_then (validate_permission_profile (cwv_permissions contract)) (\<lambda>_.
       and_then (resolve_operator_versions capsule) (\<lambda>versions.
       and_then (planner_resolved (pi_plan_id i) ''plan_id'') (\<lambda>plan_id.
       and_then (planner_resolved (pi_created_at i) ''created_at'') (\<lambda>created_at.
       and_then (map_err TP_Serialization (pn_requirements_value E (capability_requirements plan_id))) (\<lambda>requirement_value.
       and_then (map_err TP_Hashing (canonical_json_sha256 (pn_hasher E) requirement_value)) (\<lambda>requirement_digest.
       and_then (build_plan plan_id created_at compiled capsule versions requirement_value) (\<lambda>plan.
       and_then (map_err TP_Plan (compile_plan (pn_hasher E) (pn_plan_codec E) plan capsule_value compiled)) (\<lambda>compiled_plan.
       Inr (PO_Planned \<lparr>pld_job_type = PLANNER_JOB_TYPE, pld_plan = plan, pld_plan_digest = cp_plan_digest compiled_plan,
         pld_contract_digest = cp_contract_digest compiled_plan, pld_capsule_digest = cp_capsule_digest compiled_plan,
         pld_mandatory_step_count = mandatory_step_count compiled_plan,
         pld_capability_requirement_digest = requirement_digest\<rparr>)))))))))))))))))))"

end
