(* ===== verification/PlannerCorrect.thy ===== *)
theory PlannerCorrect
  imports TypedPlanner "HOL-Library.Monad_Syntax"
begin

text \<open>
  Correctness of the typed planner. The documents that the planner writes are read back by
  reference decoders; the plan compiler is complete for ordered plans, so the plan that the
  planner writes always compiles; and a permission profile that the planner accepts grants
  exactly three kinds of access.
\<close>

section \<open>Documents and their decoders\<close>

text \<open>
  Reference decoders: what a derived decoder returns for an object that has the fields of the
  structure. Unknown fields are ignored and an absent optional field is \<open>None\<close>. A decoder
  \<open>reads\<close> a reference if it agrees with it wherever the reference is defined.
\<close>

definition reads :: "(json \<Rightarrow> serde_error + 'a) \<Rightarrow> (json \<Rightarrow> 'a option) \<Rightarrow> bool" where
  "reads decode reference \<longleftrightarrow> (\<forall>j x. reference j = Some x \<longrightarrow> decode j = Inr x)"

definition str_field :: "json \<Rightarrow> string \<Rightarrow> string option" where
  "str_field j key = Option.bind (json_get j key) as_str"

definition bool_field :: "json \<Rightarrow> string \<Rightarrow> bool option" where
  "bool_field j key = Option.bind (json_get j key) as_bool"

definition opt_str_field :: "json \<Rightarrow> string \<Rightarrow> string option option" where
  "opt_str_field j key =
     (case json_get j key of None \<Rightarrow> Some None | Some JNull \<Rightarrow> Some None | Some (JString s) \<Rightarrow> Some (Some s) | _ \<Rightarrow> None)"

definition nat_field :: "json \<Rightarrow> string \<Rightarrow> nat option" where
  "nat_field j key = (case json_get j key of Some (JNumber (PosInt n)) \<Rightarrow> Some (unat n) | _ \<Rightarrow> None)"

definition list_field :: "(json \<Rightarrow> 'a option) \<Rightarrow> json \<Rightarrow> string \<Rightarrow> 'a list option" where
  "list_field item j key = (case json_get j key of Some (JArray vs) \<Rightarrow> those (map item vs) | _ \<Rightarrow> None)"

definition digest_reference_of_json :: "json \<Rightarrow> digest_reference option" where
  "digest_reference_of_json j = do {
     ident \<leftarrow> str_field j ''id''; algorithm \<leftarrow> str_field j ''algorithm''; digest \<leftarrow> str_field j ''digest'';
     uri \<leftarrow> opt_str_field j ''uri'';
     Some \<lparr>dr_id = ident, dr_algorithm = algorithm, dr_digest = digest, dr_uri = uri\<rparr>}"

definition step_of_json :: "json \<Rightarrow> plan_step option" where
  "step_of_json j = do {
     step_id \<leftarrow> str_field j ''step_id''; sequence \<leftarrow> nat_field j ''sequence''; operator_id \<leftarrow> str_field j ''operator_id'';
     operator_version \<leftarrow> str_field j ''operator_version''; depends_on \<leftarrow> list_field as_str j ''depends_on'';
     inputs \<leftarrow> list_field as_str j ''input_artifact_ids''; outputs \<leftarrow> list_field as_str j ''output_artifact_ids'';
     tokens \<leftarrow> list_field as_str j ''capability_token_ids''; mandatory \<leftarrow> bool_field j ''mandatory'';
     rollback \<leftarrow> opt_str_field j ''rollback_step_id'';
     Some \<lparr>ps_step_id = step_id, ps_sequence = sequence, ps_operator_id = operator_id, ps_operator_version = operator_version,
       ps_depends_on = depends_on, ps_input_artifact_ids = inputs, ps_output_artifact_ids = outputs,
       ps_capability_token_ids = tokens, ps_mandatory = mandatory, ps_rollback_step_id = rollback\<rparr>}"

definition bindings_of_json :: "json \<Rightarrow> plan_bindings option" where
  "bindings_of_json j = do {
     contract \<leftarrow> json_get j ''contract'' \<bind> digest_reference_of_json;
     capsule \<leftarrow> json_get j ''profession_capsule'' \<bind> digest_reference_of_json;
     policy \<leftarrow> (case json_get j ''policy_snapshot'' of None \<Rightarrow> Some None | Some JNull \<Rightarrow> Some None
       | Some v \<Rightarrow> map_option Some (digest_reference_of_json v));
     Some \<lparr>pb_contract = contract, pb_profession_capsule = capsule, pb_policy_snapshot = policy\<rparr>}"

definition plan_of_json :: "json \<Rightarrow> operator_plan option" where
  "plan_of_json j = do {
     schema_version \<leftarrow> str_field j ''schema_version''; plan_id \<leftarrow> str_field j ''plan_id'';
     created_at \<leftarrow> str_field j ''created_at''; bindings \<leftarrow> json_get j ''bindings'' \<bind> bindings_of_json;
     steps \<leftarrow> list_field step_of_json j ''steps'';
     Some \<lparr>op_schema_version = schema_version, op_plan_id = plan_id, op_created_at = created_at, op_bindings = bindings,
       op_steps = steps\<rparr>}"

text \<open>The map of capability requirements that a plan carries in its metadata, for the issuer of the tokens.\<close>

definition requirement_of_json :: "json \<Rightarrow> capability_requirement option" where
  "requirement_of_json j = do {
     token_id \<leftarrow> str_field j ''token_id''; step_id \<leftarrow> str_field j ''step_id''; capability \<leftarrow> str_field j ''capability'';
     resource \<leftarrow> str_field j ''resource''; access \<leftarrow> str_field j ''access'';
     Some \<lparr>cq_token_id = token_id, cq_step_id = step_id, cq_capability = capability, cq_resource = resource,
       cq_access = access\<rparr>}"

definition requirements_of_json :: "json \<Rightarrow> capability_requirement list option" where
  "requirements_of_json v = (case v of JArray vs \<Rightarrow> those (map requirement_of_json vs) | _ \<Rightarrow> None)"

definition plan_requirements_value :: "json \<Rightarrow> json option" where
  "plan_requirements_value plan = Option.bind (json_get plan ''metadata'') (\<lambda>metadata. json_get metadata ''capability_requirements'')"

definition operator_of_json :: "json \<Rightarrow> capsule_operator option" where
  "operator_of_json j = do {ident \<leftarrow> str_field j ''id''; version \<leftarrow> str_field j ''version'';
     Some \<lparr>co_id = ident, co_version = version\<rparr>}"

definition job_type_of_json :: "json \<Rightarrow> capsule_job_type option" where
  "job_type_of_json j = do {ident \<leftarrow> str_field j ''id''; operators \<leftarrow> list_field as_str j ''operator_ids'';
     Some \<lparr>cj_id = ident, cj_operator_ids = operators\<rparr>}"

definition plan_view_of_json :: "json \<Rightarrow> capsule_plan_view option" where
  "plan_view_of_json j = do {
     capsule_id \<leftarrow> str_field j ''capsule_id''; operators \<leftarrow> list_field operator_of_json j ''operators'';
     job_types \<leftarrow> list_field job_type_of_json j ''job_types'';
     Some \<lparr>cpv_capsule_id = capsule_id, cpv_operators = operators, cpv_job_types = job_types\<rparr>}"

definition capsule_view_of_json :: "json \<Rightarrow> capsule_planning_view option" where
  "capsule_view_of_json j = do {
     view \<leftarrow> plan_view_of_json j; version \<leftarrow> str_field j ''version'';
     Some \<lparr>csv_capsule_id = cpv_capsule_id view, csv_version = version, csv_operators = cpv_operators view,
       csv_job_types = cpv_job_types view\<rparr>}"

definition input_of_json :: "json \<Rightarrow> contract_input_view option" where
  "input_of_json j = do {ident \<leftarrow> str_field j ''id''; kind \<leftarrow> str_field j ''kind''; immutable \<leftarrow> bool_field j ''immutable'';
     Some \<lparr>civ_id = ident, civ_kind = kind, civ_immutable = immutable\<rparr>}"

definition output_of_json :: "json \<Rightarrow> contract_output_view option" where
  "output_of_json j = do {ident \<leftarrow> str_field j ''id''; kind \<leftarrow> str_field j ''kind''; destination \<leftarrow> str_field j ''destination'';
     media_type \<leftarrow> opt_str_field j ''media_type''; required \<leftarrow> bool_field j ''required'';
     Some \<lparr>cov_id = ident, cov_kind = kind, cov_destination = destination, cov_media_type = media_type, cov_required = required\<rparr>}"

definition permission_of_json :: "json \<Rightarrow> contract_permission_view option" where
  "permission_of_json j = do {capability \<leftarrow> str_field j ''capability''; resource \<leftarrow> str_field j ''resource'';
     access \<leftarrow> str_field j ''access'';
     Some \<lparr>cmv_capability = capability, cmv_resource = resource, cmv_access = access,
       cmv_constraints = (case json_get j ''constraints'' of None \<Rightarrow> JNull | Some v \<Rightarrow> v)\<rparr>}"

definition contract_view_of_json :: "json \<Rightarrow> contract_planning_view option" where
  "contract_view_of_json j = do {
     schema_version \<leftarrow> str_field j ''schema_version''; contract_id \<leftarrow> str_field j ''contract_id'';
     job_type \<leftarrow> str_field j ''job_type''; inputs \<leftarrow> list_field input_of_json j ''inputs'';
     outputs \<leftarrow> list_field output_of_json j ''outputs''; permissions \<leftarrow> list_field permission_of_json j ''permissions'';
     Some \<lparr>cwv_schema_version = schema_version, cwv_contract_id = contract_id, cwv_job_type = job_type,
       cwv_inputs = inputs, cwv_outputs = outputs, cwv_permissions = permissions\<rparr>}"

definition planner_lawful :: "planner_env \<Rightarrow> bool" where
  "planner_lawful E \<longleftrightarrow>
     reads (decode_plan (pn_plan_codec E)) plan_of_json \<and> reads (decode_plan_view (pn_plan_codec E)) plan_view_of_json \<and>
     reads (pn_contract_view E) contract_view_of_json \<and> reads (pn_capsule_view E) capsule_view_of_json \<and>
     (\<forall>v. \<exists>bytes. to_vec (pn_hasher E) v = Inr bytes)"

text \<open>The derived serializer of a requirement writes what the derived deserializer reads back.\<close>

definition requirements_written :: "planner_env \<Rightarrow> bool" where
  "requirements_written E \<longleftrightarrow> (\<forall>rs v. pn_requirements_value E rs = Inr v \<longrightarrow> requirements_of_json v = Some rs)"

lemma readsD: "reads decode reference \<Longrightarrow> reference j = Some x \<Longrightarrow> decode j = Inr x"
  by (simp add: reads_def)

lemma as_simps [simp]: "as_str (JString s) = Some s" "as_bool (JBool b) = Some b"
  by (simp_all add: as_str_def as_bool_def)

lemma those_as_str [simp]: "those (map as_str (map JString ss)) = Some ss" "those (map (as_str \<circ> JString) ss) = Some ss"
  by (induction ss) simp_all

lemmas decoder_defs = digest_reference_of_json_def step_of_json_def bindings_of_json_def plan_of_json_def
  operator_of_json_def job_type_of_json_def input_of_json_def output_of_json_def permission_of_json_def
  contract_view_of_json_def str_field_def bool_field_def opt_str_field_def nat_field_def list_field_def json_nat_def
  json_strings_def

section \<open>The plan that is written\<close>

definition planned_step ::
    "string \<Rightarrow> string \<Rightarrow> string \<Rightarrow> nat \<Rightarrow> string \<Rightarrow> string list \<Rightarrow> string list \<Rightarrow> string list \<Rightarrow> plan_step" where
  "planned_step plan_id suffix step_id sequence version depends_on inputs outputs = \<lparr>ps_step_id = step_id,
     ps_sequence = sequence, ps_operator_id = REQUIRED_OPERATORS ! sequence, ps_operator_version = version,
     ps_depends_on = depends_on, ps_input_artifact_ids = inputs, ps_output_artifact_ids = outputs,
     ps_capability_token_ids = [token_id_for plan_id suffix], ps_mandatory = True, ps_rollback_step_id = None\<rparr>"

definition planned_steps :: "string \<Rightarrow> (nat \<Rightarrow> string) \<Rightarrow> plan_step list" where
  "planned_steps plan_id version = [
     planned_step plan_id ''canvas'' ''step.canvas'' 0 (version 0) [] [''brand_profile''] [''editable_master''],
     planned_step plan_id ''logo'' ''step.logo'' 1 (version 1) [''step.canvas''] [''editable_master'', ''approved_logo'']
       [''editable_master''],
     planned_step plan_id ''text'' ''step.text'' 2 (version 2) [''step.logo''] [''editable_master'', ''approved_copy'']
       [''editable_master''],
     planned_step plan_id ''export'' ''step.export'' 3 (version 3) [''step.text''] [''editable_master''] [''delivery_raster'']]"

lemma step_of_planner_step:
  "step_of_json (planner_step plan_id suffix step_id n operator_id version depends_on inputs outputs) =
     Some \<lparr>ps_step_id = step_id, ps_sequence = unat n, ps_operator_id = operator_id, ps_operator_version = version,
       ps_depends_on = depends_on, ps_input_artifact_ids = inputs, ps_output_artifact_ids = outputs,
       ps_capability_token_ids = [token_id_for plan_id suffix], ps_mandatory = True, ps_rollback_step_id = None\<rparr>"
  by (simp add: planner_step_def decoder_defs)

definition planned_plan ::
    "string \<Rightarrow> string \<Rightarrow> compiled_contract \<Rightarrow> capsule_planning_view \<Rightarrow> (nat \<Rightarrow> string) \<Rightarrow> operator_plan" where
  "planned_plan plan_id created_at compiled capsule version = \<lparr>op_schema_version = PLANNER_PLAN_SCHEMA, op_plan_id = plan_id,
     op_created_at = created_at,
     op_bindings = \<lparr>pb_contract = \<lparr>dr_id = cc_contract_id compiled, dr_algorithm = ''sha256'',
         dr_digest = seal_contract_digest (cc_seal compiled), dr_uri = None\<rparr>,
       pb_profession_capsule = \<lparr>dr_id = csv_capsule_id capsule, dr_algorithm = ''sha256'',
         dr_digest = seal_capsule_digest (cc_seal compiled), dr_uri = None\<rparr>, pb_policy_snapshot = None\<rparr>,
     op_steps = planned_steps plan_id version\<rparr>"

lemma digest_reference_decoded:
  "digest_reference_of_json (digest_reference_value ident digest) =
     Some \<lparr>dr_id = ident, dr_algorithm = ''sha256'', dr_digest = digest, dr_uri = None\<rparr>"
  by (simp add: digest_reference_value_def digest_reference_of_json_def str_field_def opt_str_field_def)

lemma plan_value_decoded:
  "plan_of_json (plan_value plan_id created_at compiled capsule version requirements) =
     Some (planned_plan plan_id created_at compiled capsule version)"
proof -
  let ?bindings = "json_object [
      (''contract'', digest_reference_value (cc_contract_id compiled) (seal_contract_digest (cc_seal compiled))),
      (''profession_capsule'', digest_reference_value (csv_capsule_id capsule) (seal_capsule_digest (cc_seal compiled)))]"
  let ?steps = "[
    planner_step plan_id ''canvas'' ''step.canvas'' 0 (REQUIRED_OPERATORS ! 0) (version 0) [] [''brand_profile''] [''editable_master''],
    planner_step plan_id ''logo'' ''step.logo'' 1 (REQUIRED_OPERATORS ! 1) (version 1) [''step.canvas'']
      [''editable_master'', ''approved_logo''] [''editable_master''],
    planner_step plan_id ''text'' ''step.text'' 2 (REQUIRED_OPERATORS ! 2) (version 2) [''step.logo'']
      [''editable_master'', ''approved_copy''] [''editable_master''],
    planner_step plan_id ''export'' ''step.export'' 3 (REQUIRED_OPERATORS ! 3) (version 3) [''step.text'']
      [''editable_master''] [''delivery_raster'']]"
  let ?j = "plan_value plan_id created_at compiled capsule version requirements"
  have get: "json_get ?j ''schema_version'' = Some (JString PLANNER_PLAN_SCHEMA)" "json_get ?j ''plan_id'' = Some (JString plan_id)"
    "json_get ?j ''created_at'' = Some (JString created_at)" "json_get ?j ''bindings'' = Some ?bindings"
    "json_get ?j ''steps'' = Some (JArray ?steps)"
    unfolding plan_value_def json_get_object by simp_all
  have "bindings_of_json ?bindings = Some (op_bindings (planned_plan plan_id created_at compiled capsule version))"
    by (simp add: bindings_of_json_def digest_reference_decoded planned_plan_def)
  moreover have "those (map step_of_json ?steps) = Some (planned_steps plan_id version)"
    by (simp add: step_of_planner_step planned_steps_def planned_step_def)
  ultimately show ?thesis
    unfolding plan_of_json_def str_field_def list_field_def get by (simp add: planned_plan_def del: list.map)
qed

lemma plan_value_requirements:
  "plan_requirements_value (plan_value plan_id created_at compiled capsule version requirements) = Some requirements"
proof -
  have "json_get (plan_value plan_id created_at compiled capsule version requirements) ''metadata'' = Some (json_object [
      (''planner'', JString PLANNER_ID), (''planner_version'', JString PLANNER_VERSION),
      (''job_type'', JString PLANNER_JOB_TYPE), (''deterministic'', JBool True), (''implicit_defaults'', JBool False),
      (''capability_requirements'', requirements)])"
    unfolding plan_value_def json_get_object by simp
  then show ?thesis by (simp add: plan_requirements_value_def)
qed

lemma build_plan_ok:
  assumes "build_plan plan_id created_at compiled capsule versions requirements = Inr plan"
  obtains version where "\<forall>n\<in>{0, 1, 2, 3}. map_of versions (REQUIRED_OPERATORS ! n) = Some (version n)"
    "plan = plan_value plan_id created_at compiled capsule version requirements"
proof -
  from assms obtain v0 v1 v2 v3 where v: "version_at versions 0 = Inr v0" "version_at versions 1 = Inr v1"
    "version_at versions 2 = Inr v2" "version_at versions 3 = Inr v3"
    and plan: "plan = plan_value plan_id created_at compiled capsule (\<lambda>n. [v0, v1, v2, v3] ! n) requirements"
    unfolding build_plan_def and_then_eq_Inr by blast
  have "\<forall>n\<in>{0, 1, 2, 3}. map_of versions (REQUIRED_OPERATORS ! n) = Some ([v0, v1, v2, v3] ! n)"
    using v unfolding version_at_def ok_or_eq by (auto simp: numeral_2_eq_2 numeral_3_eq_3)
  then show thesis using plan by (rule that)
qed

text \<open>Lists of names without the separator are determined by their rendering.\<close>

lemma join_Cons: "ss \<noteq> [] \<Longrightarrow> join sep (s # ss) = s @ sep @ join sep ss"
  by (cases ss) simp_all

lemma join_first:
  assumes "CHR '','' \<notin> set s"
  shows "takeWhile (\<lambda>c. c \<noteq> CHR '','') (join '','' (s # ss)) = s"
proof (cases "ss = []")
  case True
  then show ?thesis using assms by (auto simp: takeWhile_eq_all_conv)
next
  case False
  then show ?thesis using assms by (simp add: join_Cons) (subst takeWhile_append2, auto)
qed

lemma join_inject:
  assumes "\<forall>s\<in>set xs. CHR '','' \<notin> set s" "\<forall>s\<in>set ys. CHR '','' \<notin> set s" "xs \<noteq> []" "ys \<noteq> []"
    "join '','' xs = join '','' ys"
  shows "xs = ys"
  using assms
proof (induction xs arbitrary: ys)
  case (Cons s ss)
  from Cons.prems(4) obtain t ts where ys: "ys = t # ts" by (cases ys) auto
  have "s = t" using Cons.prems join_first [of s ss] join_first [of t ts] by (simp add: ys)
  moreover have "ss = ts"
  proof (cases "ss = [] \<or> ts = []")
    case True
    then show ?thesis using Cons.prems(5) \<open>s = t\<close> by (cases "ss = []"; cases "ts = []") (simp_all add: ys join_Cons)
  next
    case False
    then show ?thesis using Cons.prems \<open>s = t\<close> by (intro Cons.IH) (auto simp: ys join_Cons)
  qed
  ultimately show ?case by (simp add: ys)
qed simp

section \<open>Completeness of the plan compiler\<close>

lemma register_steps_total:
  assumes "distinct (map ps_step_id steps)" "distinct (map ps_sequence steps)" "\<forall>s\<in>set steps. step_values_unique s"
    "\<forall>s\<in>set steps. map_of ids (ps_step_id s) = None \<and> ps_sequence s \<notin> seqs"
  shows "\<exists>ids' seqs'. try_fold register_step (ids, seqs) steps = Inr (ids', seqs')"
  using assms
proof (induction steps arbitrary: ids seqs)
  case (Cons s steps)
  have "register_step (ids, seqs) s = Inr (bm_insert (ps_step_id s) (ps_sequence s) ids, insert (ps_sequence s) seqs)"
    using Cons.prems by (simp add: register_step_ok)
  moreover have "\<exists>ids' seqs'. try_fold register_step
      (bm_insert (ps_step_id s) (ps_sequence s) ids, insert (ps_sequence s) seqs) steps = Inr (ids', seqs')"
    using Cons.prems by (intro Cons.IH) (auto simp: image_iff)
  ultimately show ?case by simp
qed simp

lemma ordered_plan_compiles:
  assumes "decode_plan codec pv = Inr plan" "decode_plan_view codec capsule_value = Inr capsule"
    and schema: "op_schema_version plan = SUPPORTED_PLAN_SCHEMA" and bindings: "validate_bindings plan capsule compiled = Inr ()"
    and operators: "distinct (map co_id (cpv_operators capsule))"
    and job: "find (\<lambda>j. cj_id j = cc_job_type compiled) (cpv_job_types capsule) = Some job"
    and steps: "plan_ordered (op_steps plan)"
    and permitted: "\<forall>s\<in>set (op_steps plan). ps_operator_id s \<in> set (cj_operator_ids job) \<and>
      (\<exists>o'\<in>set (cpv_operators capsule). co_id o' = ps_operator_id s \<and> co_version o' = ps_operator_version s)"
    and hash: "canonical_json_sha256 H pv = Inr digest"
  shows "compile_plan H codec pv capsule_value compiled = Inr \<lparr>cp_plan_id = op_plan_id plan, cp_plan_digest = digest,
    cp_contract_digest = seal_contract_digest (cc_seal compiled), cp_capsule_digest = seal_capsule_digest (cc_seal compiled),
    cp_steps = op_steps plan\<rparr>"
proof -
  let ?steps = "op_steps plan"
  have seq: "map ps_sequence ?steps = [0..<length ?steps]" and ids: "distinct (map ps_step_id ?steps)"
    using steps by (simp_all add: plan_ordered_def)
  then have at: "ps_sequence (?steps ! n) = n" if "n < length ?steps" for n
    using that by (metis nth_map nth_upt add_0 length_map)
  have sorted: "sort_key ps_sequence ?steps = ?steps"
    using seq by (intro sort_key_id_if_sorted) (metis sorted_upt)
  obtain step_ids seqs where reg: "try_fold register_step ([], {}) ?steps = Inr (step_ids, seqs)"
    using register_steps_total [of ?steps "[]" "{}"] steps seq ids by (auto simp: plan_ordered_def)
  obtain index where index: "index_operators capsule = Inr index"
    using operators.run_eq_Inr [of "cpv_operators capsule"] operators by (auto simp: index_operators_def)
  have "check_step (set (cj_operator_ids job)) index step_ids (n, ?steps ! n) = Inr ()" if n: "n < length ?steps" for n
  proof -
    have "?steps ! n \<in> set ?steps" using n by simp
    moreover have "\<exists>m. map_of step_ids d = Some m \<and> m < n" if d: "d \<in> set (ps_depends_on (?steps ! n))" for d
    proof -
      from steps n d obtain j where j: "j < n" "ps_step_id (?steps ! j) = d" unfolding plan_ordered_def by blast
      then have "map_of step_ids d = Some j"
        using registered_sequence [OF reg, of d j] at [of j] n by (metis less_trans nth_mem)
      with j show ?thesis by blast
    qed
    moreover have "map_of step_ids r \<noteq> None" if "ps_rollback_step_id (?steps ! n) = Some r" for r
    proof -
      have "r \<in> ps_step_id ` set ?steps" using steps that n unfolding plan_ordered_def by (meson nth_mem)
      then show ?thesis using registered_sequence [OF reg, of r] by fastforce
    qed
    moreover have "\<exists>o'. map_of index (ps_operator_id (?steps ! n)) = Some o' \<and> ps_operator_version (?steps ! n) = co_version o'"
      using permitted n index_operators_get [OF index] by (metis nth_mem)
    ultimately show ?thesis using permitted at [OF n] by (simp add: check_step_ok)
  qed
  then have checks: "try_for_each (check_step (set (cj_operator_ids job)) index step_ids) (List.enumerate 0 ?steps) = Inr ()"
    unfolding try_for_each_eq_Inr by (auto simp: in_set_enumerate_eq)
  have "list_ex ps_mandatory ?steps" using steps by (auto simp: plan_ordered_def list_ex_iff)
  then show ?thesis
    using assms(1,2) schema bindings index job reg checks hash by (simp add: compile_plan_def sorted)
qed

section \<open>The plan of the planner compiles\<close>

interpretation planner_versions: indexing_loop "[]" map_of bm_insert bm_wf
  index_versions_from co_id co_version "\<lambda>_. Inr ()" "\<lambda>operator. TP_DuplicateIdentifier ''capsule operator'' (co_id operator)"
  by unfold_locales simp_all

interpretation planner_outputs: indexing_loop "[]" map_of bm_insert bm_wf
  index_outputs_from cov_id "\<lambda>output. (cov_kind output, cov_destination output, cov_media_type output)"
  "\<lambda>output. ensure (cov_required output) (TP_OptionalOutput (cov_id output))"
  "\<lambda>output. TP_DuplicateIdentifier ''contract output'' (cov_id output)"
  by unfold_locales simp_all

lemma select_version_ok:
  "select_version versions selected name = Inr selected' \<longleftrightarrow>
     (\<exists>v. map_of versions name = Some v \<and> \<not> blank v \<and> selected' = bm_insert name v selected)"
  by (auto simp: select_version_def and_then_eq_Inr ok_or_eq ensure_eq)

lemma select_versions_ok:
  assumes "try_fold (select_version versions) selected names = Inr selected'"
  shows "map_of selected' key = (if key \<in> set names then map_of versions key else map_of selected key)"
    "\<forall>name\<in>set names. \<exists>v. map_of versions name = Some v \<and> \<not> blank v"
proof -
  have "map_of selected' key = (if key \<in> set names then map_of versions key else map_of selected key) \<and>
    (\<forall>name\<in>set names. \<exists>v. map_of versions name = Some v \<and> \<not> blank v)"
    using assms
  proof (induction names arbitrary: selected)
    case (Cons name names)
    then obtain v where v: "map_of versions name = Some v" "\<not> blank v"
      and rest: "try_fold (select_version versions) (bm_insert name v selected) names = Inr selected'"
      by (auto simp: and_then_eq_Inr select_version_ok)
    from Cons.IH [OF rest] v show ?case by auto
  qed simp
  then show "map_of selected' key = (if key \<in> set names then map_of versions key else map_of selected key)"
    "\<forall>name\<in>set names. \<exists>v. map_of versions name = Some v \<and> \<not> blank v" by blast+
qed

lemma resolve_operator_versions_ok:
  assumes "resolve_operator_versions capsule = Inr selected"
  shows "distinct (map co_id (csv_operators capsule))"
    "\<forall>name\<in>set REQUIRED_OPERATORS. \<exists>o'\<in>set (csv_operators capsule). co_id o' = name \<and> map_of selected name = Some (co_version o')"
proof -
  from assms obtain versions where versions: "index_versions_from [] (csv_operators capsule) = Inr versions"
    and selected: "try_fold (select_version versions) [] REQUIRED_OPERATORS = Inr selected"
    unfolding resolve_operator_versions_def and_then_eq_Inr by blast
  show "distinct (map co_id (csv_operators capsule))" using versions by (rule planner_versions.run_distinct)
  show "\<forall>name\<in>set REQUIRED_OPERATORS. \<exists>o'\<in>set (csv_operators capsule). co_id o' = name \<and> map_of selected name = Some (co_version o')"
  proof
    fix name
    assume name: "name \<in> set REQUIRED_OPERATORS"
    then obtain v where v: "map_of versions name = Some v" using select_versions_ok(2) [OF selected] by blast
    then have "map_of selected name = Some v" using select_versions_ok(1) [OF selected, of name] name by simp
    with v show "\<exists>o'\<in>set (csv_operators capsule). co_id o' = name \<and> map_of selected name = Some (co_version o')"
      using planner_versions.run_get [OF versions, of name v] by auto
  qed
qed

lemma plan_view_of_capsule_view:
  assumes "capsule_view_of_json j = Some capsule"
  shows "plan_view_of_json j = Some \<lparr>cpv_capsule_id = csv_capsule_id capsule, cpv_operators = csv_operators capsule,
    cpv_job_types = csv_job_types capsule\<rparr>"
  using assms by (auto simp: capsule_view_of_json_def bind_eq_Some_conv)

lemma required_operators_comma_free: "\<forall>s\<in>set REQUIRED_OPERATORS. CHR '','' \<notin> set s" "REQUIRED_OPERATORS \<noteq> []"
  by (simp_all add: REQUIRED_OPERATORS_def)

definition names_comma_free :: "capsule_planning_view \<Rightarrow> bool" where
  "names_comma_free capsule \<longleftrightarrow>
     (\<forall>job\<in>set (csv_job_types capsule). \<forall>name\<in>set (cj_operator_ids job). CHR '','' \<notin> set name)"

lemma validate_capsule_profile_ok:
  assumes "validate_capsule_profile capsule = Inr ()" "names_comma_free capsule"
  shows "csv_capsule_id capsule = PLANNER_CAPSULE_ID"
    "\<exists>job. find (\<lambda>j. cj_id j = PLANNER_JOB_TYPE) (csv_job_types capsule) = Some job \<and> cj_operator_ids job = REQUIRED_OPERATORS"
proof -
  from assms(1) obtain job where job: "find (\<lambda>j. cj_id j = PLANNER_JOB_TYPE) (csv_job_types capsule) = Some job"
    and join: "join '','' (cj_operator_ids job) = join '','' REQUIRED_OPERATORS"
    and "csv_capsule_id capsule = PLANNER_CAPSULE_ID"
    by (auto simp: validate_capsule_profile_def and_then_eq_Inr ensure_eq ok_or_eq Let_def)
  then show "csv_capsule_id capsule = PLANNER_CAPSULE_ID" by simp
  have "job \<in> set (csv_job_types capsule)" using job by (auto simp: find_Some_iff)
  then have free: "\<forall>name\<in>set (cj_operator_ids job). CHR '','' \<notin> set name" using assms(2) unfolding names_comma_free_def by blast
  have "cj_operator_ids job \<noteq> []" using join by (auto simp: REQUIRED_OPERATORS_def)
  from join_inject [OF free required_operators_comma_free(1) this required_operators_comma_free(2) join]
  have "cj_operator_ids job = REQUIRED_OPERATORS" .
  with job show "\<exists>job. find (\<lambda>j. cj_id j = PLANNER_JOB_TYPE) (csv_job_types capsule) = Some job \<and> cj_operator_ids job = REQUIRED_OPERATORS" by blast
qed

lemma planned_steps_ordered: "plan_ordered (planned_steps plan_id version)"
proof -
  have d: "distinct [''step.canvas'', ''step.logo'', ''step.text'', ''step.export'']" by simp
  have "\<exists>j<i. ps_step_id (planned_steps plan_id version ! j) = d"
    if "i < length (planned_steps plan_id version)" "d \<in> set (ps_depends_on (planned_steps plan_id version ! i))" for i d
  proof -
    from that have "i \<in> {0, 1, 2, 3}" by (auto simp: planned_steps_def)
    then show ?thesis using that(2) by (auto simp: planned_steps_def planned_step_def intro: exI [of _ "i - 1"])
  qed
  then show ?thesis
    using d unfolding plan_ordered_def
    by (simp add: planned_steps_def planned_step_def step_values_unique_def upt_rec)
qed

lemma planned_step_operator:
  assumes "s \<in> set (planned_steps plan_id version)"
  shows "\<exists>n\<in>{0, 1, 2, 3}. ps_operator_id s = REQUIRED_OPERATORS ! n \<and> ps_operator_version s = version n"
  using assms by (auto simp: planned_steps_def planned_step_def)

lemma built_plan_compiles:
  assumes lawful: "planner_lawful E" and view: "capsule_view_of_json capsule_value = Some capsule"
    and profile: "validate_capsule_profile capsule = Inr ()" "names_comma_free capsule"
    and versions: "resolve_operator_versions capsule = Inr versions" and job: "cc_job_type compiled = PLANNER_JOB_TYPE"
    and plan: "build_plan plan_id created_at compiled capsule versions requirements = Inr plan"
  obtains compiled_plan version where "compile_plan (pn_hasher E) (pn_plan_codec E) plan capsule_value compiled = Inr compiled_plan"
    "cp_steps compiled_plan = planned_steps plan_id version"
    "cp_contract_digest compiled_plan = seal_contract_digest (cc_seal compiled)"
    "cp_capsule_digest compiled_plan = seal_capsule_digest (cc_seal compiled)"
proof -
  obtain version where version: "\<forall>n\<in>{0, 1, 2, 3}. map_of versions (REQUIRED_OPERATORS ! n) = Some (version n)"
    and p: "plan = plan_value plan_id created_at compiled capsule version requirements"
    using plan by (rule build_plan_ok)
  note r = resolve_operator_versions_ok [OF versions] and c = validate_capsule_profile_ok [OF profile]
  let ?plan = "planned_plan plan_id created_at compiled capsule version"
  let ?view = "\<lparr>cpv_capsule_id = csv_capsule_id capsule, cpv_operators = csv_operators capsule, cpv_job_types = csv_job_types capsule\<rparr>"
  obtain j where j: "find (\<lambda>j. cj_id j = PLANNER_JOB_TYPE) (csv_job_types capsule) = Some j" "cj_operator_ids j = REQUIRED_OPERATORS"
    using c(2) by blast
  have dec: "decode_plan (pn_plan_codec E) plan = Inr ?plan" "decode_plan_view (pn_plan_codec E) capsule_value = Inr ?view"
    using lawful plan_value_decoded plan_view_of_capsule_view [OF view] unfolding planner_lawful_def p by (blast dest: readsD)+
  have bindings: "validate_bindings ?plan ?view compiled = Inr ()"
    by (simp add: validate_bindings_def planned_plan_def Let_def)
  have permitted: "\<forall>s\<in>set (op_steps ?plan). ps_operator_id s \<in> set (cj_operator_ids j) \<and>
      (\<exists>o'\<in>set (cpv_operators ?view). co_id o' = ps_operator_id s \<and> co_version o' = ps_operator_version s)"
  proof
    fix s
    assume "s \<in> set (op_steps ?plan)"
    then have "s \<in> set (planned_steps plan_id version)" by (simp add: planned_plan_def)
    from planned_step_operator [OF this] obtain n where n: "n \<in> {0, 1, 2, 3}" "ps_operator_id s = REQUIRED_OPERATORS ! n"
      "ps_operator_version s = version n" by blast
    then have mem: "REQUIRED_OPERATORS ! n \<in> set REQUIRED_OPERATORS" by (intro nth_mem) (auto simp: REQUIRED_OPERATORS_def)
    with r(2) obtain o' where o': "o' \<in> set (csv_operators capsule)" "co_id o' = REQUIRED_OPERATORS ! n"
      "map_of versions (REQUIRED_OPERATORS ! n) = Some (co_version o')" by blast
    then have "co_version o' = version n" using bspec [OF version n(1)] by simp
    then show "ps_operator_id s \<in> set (cj_operator_ids j) \<and>
        (\<exists>o'\<in>set (cpv_operators ?view). co_id o' = ps_operator_id s \<and> co_version o' = ps_operator_version s)"
      using o' n(2,3) j(2) mem by auto
  qed
  obtain digest where hash: "canonical_json_sha256 (pn_hasher E) plan = Inr digest"
  proof -
    obtain bytes where "to_vec (pn_hasher E) (canonicalize plan) = Inr bytes" using lawful unfolding planner_lawful_def by blast
    then show thesis using that by (simp add: canonical_json_sha256_def canonical_json_bytes_def)
  qed
  have more: "op_schema_version ?plan = SUPPORTED_PLAN_SCHEMA" "distinct (map co_id (cpv_operators ?view))"
    "find (\<lambda>j. cj_id j = cc_job_type compiled) (cpv_job_types ?view) = Some j" "plan_ordered (op_steps ?plan)"
    using r(1) j(1) job planned_steps_ordered by (simp_all add: planned_plan_def PLANNER_PLAN_SCHEMA_def SUPPORTED_PLAN_SCHEMA_def)
  from ordered_plan_compiles [OF dec more(1) bindings more(2-4) permitted hash]
  show thesis by (rule that) (simp_all add: planned_plan_def)
qed

section \<open>Permissions\<close>

definition permission_granted :: "contract_permission_view list \<Rightarrow> string \<Rightarrow> string \<Rightarrow> string \<Rightarrow> bool" where
  "permission_granted permissions capability resource access \<longleftrightarrow>
     (\<exists>p\<in>set permissions. cmv_capability p = capability \<and> cmv_resource p = resource \<and> cmv_access p = access)"

text \<open>
  The signature of a permission determines it, although its parts are joined by a separator
  that they may contain: what is not one of the three known permissions ends differently.
\<close>

lemma signature_of_input_read:
  assumes "permission_signature p = ''filesystem|contract://inputs/*|read|immutable=true''"
  shows "cmv_capability p = ''filesystem'' \<and> cmv_resource p = ''contract://inputs/*'' \<and> cmv_access p = ''read'' \<and>
    constraint_flag p ''immutable'' False"
  using arg_cong [OF assms, of rev]
  by (auto simp: permission_signature_def permission_constraint_def bool_string_def split: if_splits)

lemma signature_of_output_write:
  assumes "permission_signature p = ''filesystem|contract://outputs/*|write|overwrite=false''"
  shows "cmv_capability p = ''filesystem'' \<and> cmv_resource p = ''contract://outputs/*'' \<and> cmv_access p = ''write'' \<and>
    \<not> constraint_flag p ''overwrite'' True"
  using arg_cong [OF assms, of rev]
  by (auto simp: permission_signature_def permission_constraint_def bool_string_def split: if_splits)

lemma signature_of_editor_control:
  assumes "permission_signature p = ''design-editor|isolated-workspace|control|network=false''"
  shows "cmv_capability p = ''design-editor'' \<and> cmv_resource p = ''isolated-workspace'' \<and> cmv_access p = ''control'' \<and>
    \<not> constraint_flag p ''network'' True"
  using arg_cong [OF assms, of rev]
  by (auto simp: permission_signature_def permission_constraint_def bool_string_def split: if_splits)

lemma permission_fold:
  assumes "try_fold (\<lambda>actual p. and_then (ensure (permission_signature p \<notin> set actual)
      (TP_DuplicateIdentifier ''contract permission'' (permission_signature p))) (\<lambda>_.
      Inr (bset_collect (permission_signature p # actual)))) acc ps = Inr actual"
  shows "set actual = set acc \<union> permission_signature ` set ps"
  using assms by (induction ps arbitrary: acc) (auto simp: and_then_eq_Inr ensure_eq)

lemma set_expected_permissions: "set expected_permissions = {
    ''design-editor|isolated-workspace|control|network=false'', ''filesystem|contract://inputs/*|read|immutable=true'',
    ''filesystem|contract://outputs/*|write|overwrite=false''}"
  by (simp add: expected_permissions_def)

text \<open>What an accepted permission profile is: exactly three kinds of permission, each with its constraint.\<close>

definition permissions_exact :: "contract_permission_view list \<Rightarrow> bool" where
  "permissions_exact ps \<longleftrightarrow>
     permission_granted ps ''design-editor'' ''isolated-workspace'' ''control'' \<and>
     permission_granted ps ''filesystem'' ''contract://inputs/*'' ''read'' \<and>
     permission_granted ps ''filesystem'' ''contract://outputs/*'' ''write'' \<and>
     (\<forall>p\<in>set ps.
        (cmv_capability p, cmv_resource p, cmv_access p) = (''design-editor'', ''isolated-workspace'', ''control'') \<and>
          \<not> constraint_flag p ''network'' True \<or>
        (cmv_capability p, cmv_resource p, cmv_access p) = (''filesystem'', ''contract://inputs/*'', ''read'') \<and>
          constraint_flag p ''immutable'' False \<or>
        (cmv_capability p, cmv_resource p, cmv_access p) = (''filesystem'', ''contract://outputs/*'', ''write'') \<and>
          \<not> constraint_flag p ''overwrite'' True)"

lemma validate_permission_profile_ok:
  assumes "validate_permission_profile ps = Inr ()"
  shows "permissions_exact ps"
proof -
  from assms have sigs: "permission_signature ` set ps = set expected_permissions"
    unfolding validate_permission_profile_def by (auto simp: and_then_eq_Inr ensure_eq dest!: permission_fold)
  have granted: "permission_granted ps c r a" if "s \<in> set expected_permissions"
    "\<And>p. permission_signature p = s \<Longrightarrow> cmv_capability p = c \<and> cmv_resource p = r \<and> cmv_access p = a \<and> X p" for s c r a X
    using that unfolding sigs [symmetric] permission_granted_def by blast
  have "permission_granted ps ''design-editor'' ''isolated-workspace'' ''control''"
    by (rule granted [OF _ signature_of_editor_control]) (simp_all only: set_expected_permissions insert_iff simp_thms)
  moreover have "permission_granted ps ''filesystem'' ''contract://inputs/*'' ''read''"
    by (rule granted [OF _ signature_of_input_read]) (simp_all only: set_expected_permissions insert_iff simp_thms)
  moreover have "permission_granted ps ''filesystem'' ''contract://outputs/*'' ''write''"
    by (rule granted [OF _ signature_of_output_write]) (simp_all only: set_expected_permissions insert_iff simp_thms)
  moreover have "(cmv_capability p, cmv_resource p, cmv_access p) = (''design-editor'', ''isolated-workspace'', ''control'') \<and>
          \<not> constraint_flag p ''network'' True \<or>
        (cmv_capability p, cmv_resource p, cmv_access p) = (''filesystem'', ''contract://inputs/*'', ''read'') \<and>
          constraint_flag p ''immutable'' False \<or>
        (cmv_capability p, cmv_resource p, cmv_access p) = (''filesystem'', ''contract://outputs/*'', ''write'') \<and>
          \<not> constraint_flag p ''overwrite'' True" if "p \<in> set ps" for p
  proof -
    have "permission_signature p \<in> {''design-editor|isolated-workspace|control|network=false'',
        ''filesystem|contract://inputs/*|read|immutable=true'', ''filesystem|contract://outputs/*|write|overwrite=false''}"
      unfolding set_expected_permissions [symmetric] sigs [symmetric] using that by (rule imageI)
    then show ?thesis by (elim insertE emptyE)
      (simp_all only: prod.inject signature_of_editor_control signature_of_input_read signature_of_output_write simp_thms)
  qed
  ultimately show ?thesis unfolding permissions_exact_def by (intro conjI ballI)
qed

section \<open>What a planned outcome stands for\<close>

lemma synthesize_static_social_post_planE:
  assumes "synthesize_static_social_post_plan E i contract_value capsule_value = Inr (PO_Planned p)"
  obtains compiled contract capsule versions plan_id created_at requirements compiled_plan where
    "compile_contract (pn_hasher E) (pn_contract_codec E) contract_value capsule_value = Inr compiled"
    "pn_contract_view E contract_value = Inr contract" "pn_capsule_view E capsule_value = Inr capsule"
    "validate_contract_profile contract compiled = Inr ()" "validate_capsule_profile capsule = Inr ()"
    "validate_input_profile (cwv_inputs contract) = Inr ()" "validate_output_profile (cwv_outputs contract) = Inr ()"
    "validate_permission_profile (cwv_permissions contract) = Inr ()" "resolve_operator_versions capsule = Inr versions"
    "pi_plan_id i = Some plan_id" "pi_created_at i = Some created_at"
    "build_plan plan_id created_at compiled capsule versions requirements = Inr (pld_plan p)"
    "compile_plan (pn_hasher E) (pn_plan_codec E) (pld_plan p) capsule_value compiled = Inr compiled_plan"
    "pld_plan_digest p = cp_plan_digest compiled_plan"
    "pn_requirements_value E (capability_requirements plan_id) = Inr requirements"
    "canonical_json_sha256 (pn_hasher E) requirements = Inr (pld_capability_requirement_digest p)"
proof -
  from assms have "missing_plan_requests i = []" unfolding synthesize_static_social_post_plan_def Let_def
    by (auto simp: and_then_eq_Inr split: if_splits)
  with assms show thesis
    unfolding synthesize_static_social_post_plan_def Let_def
    by (auto simp: and_then_eq_Inr map_err_eq planner_resolved_def ok_or_eq ensure_eq intro: that)
qed

lemma planned_steps_tokens:
  "map (\<lambda>s. (ps_step_id s, ps_capability_token_ids s)) (planned_steps plan_id version) =
   map (\<lambda>r. (cq_step_id r, [cq_token_id r])) (capability_requirements plan_id)"
  by (simp add: planned_steps_def planned_step_def capability_requirements_def planned_capability_def)

lemma requirements_granted:
  assumes "permissions_exact ps" "r \<in> set (capability_requirements plan_id)"
  shows "permission_granted ps (cq_capability r) (cq_resource r) (cq_access r)"
  using assms by (auto simp: permissions_exact_def capability_requirements_def planned_capability_def)

end
