(* ===== verification/IntentPlanning.thy ===== *)
theory IntentPlanning
  imports PlannerCorrect
begin

text \<open>
  The composition of the intent compiler and the typed planner: every contract that the
  intent compiler writes has the profile that the planner demands, so it can be planned, and
  no plan asks for more than the contract grants.
\<close>

text \<open>
  C27: a plan never asks for more than the contract grants. A planned outcome writes into the
  metadata of its plan the list of capability requirements that the issuer of the tokens
  reads, sealed by the requirement digest of the outcome; the steps of the plan carry exactly
  the tokens of that list, one each and in order; each requirement of the list is granted by
  a permission of the contract; and the contract has no other permissions than reading
  immutable inputs, writing outputs without overwriting, and controlling the editor without
  network. The hypothesis is that the serializer of a requirement writes its fields, which
  the deserializer reads back.
\<close>

theorem planned_capabilities_permitted:
  assumes "synthesize_static_social_post_plan E i contract_value capsule_value = Inr (PO_Planned p)" "requirements_written E"
  shows "\<exists>contract plan v requirements. pn_contract_view E contract_value = Inr contract \<and>
    plan_of_json (pld_plan p) = Some plan \<and> plan_ordered (op_steps plan) \<and>
    plan_requirements_value (pld_plan p) = Some v \<and> requirements_of_json v = Some requirements \<and>
    canonical_json_sha256 (pn_hasher E) v = Inr (pld_capability_requirement_digest p) \<and>
    map (\<lambda>s. (ps_step_id s, ps_capability_token_ids s)) (op_steps plan) =
      map (\<lambda>r. (cq_step_id r, [cq_token_id r])) requirements \<and>
    (\<forall>r\<in>set requirements.
      permission_granted (cwv_permissions contract) (cq_capability r) (cq_resource r) (cq_access r)) \<and>
    permissions_exact (cwv_permissions contract)"
  using assms(1)
proof (rule synthesize_static_social_post_planE)
  fix compiled contract capsule versions plan_id created_at requirements
  assume f: "pn_contract_view E contract_value = Inr contract"
    and perms: "validate_permission_profile (cwv_permissions contract) = Inr ()"
    and build: "build_plan plan_id created_at compiled capsule versions requirements = Inr (pld_plan p)"
    and written: "pn_requirements_value E (capability_requirements plan_id) = Inr requirements"
      "canonical_json_sha256 (pn_hasher E) requirements = Inr (pld_capability_requirement_digest p)"
  note exact = validate_permission_profile_ok [OF perms]
  obtain version where p: "pld_plan p = plan_value plan_id created_at compiled capsule version requirements"
    using build by (rule build_plan_ok)
  have steps: "op_steps (planned_plan plan_id created_at compiled capsule version) = planned_steps plan_id version"
    by (simp add: planned_plan_def)
  have "requirements_of_json requirements = Some (capability_requirements plan_id)"
    using assms(2) written(1) by (simp add: requirements_written_def)
  then show ?thesis
    using f exact requirements_granted [OF exact] written(2) planned_steps_tokens planned_steps_ordered
    unfolding p plan_value_decoded plan_value_requirements
    by (intro exI [of _ contract] exI [of _ "planned_plan plan_id created_at compiled capsule version"]
        exI [of _ requirements] exI [of _ "capability_requirements plan_id"] conjI) (simp_all only: steps, blast)
qed

section \<open>Contracts of the intent compiler\<close>

definition artifact_complete :: "input_artifact_intent \<Rightarrow> bool" where
  "artifact_complete a \<longleftrightarrow> ia_uri a \<noteq> None \<and> ia_media_type a \<noteq> None \<and> ia_sha256 a \<noteq> None"

definition intent_complete :: "static_social_post_intent \<Rightarrow> bool" where
  "intent_complete i \<longleftrightarrow> it_contract_id i \<noteq> None \<and> it_created_at i \<noteq> None \<and> it_original_text i \<noteq> None \<and>
     it_language i \<noteq> None \<and> artifact_complete (it_approved_logo i) \<and> artifact_complete (it_brand_profile i) \<and>
     artifact_complete (it_approved_copy i) \<and> it_canvas_width_px i \<noteq> None \<and> it_canvas_height_px i \<noteq> None \<and>
     it_color_profile i \<noteq> None \<and> it_logo_clear_space_px i \<noteq> None \<and> it_minimum_text_contrast_milli i \<noteq> None"

lemma push_missing_Nil [simp]:
  "push_missing missing field question reason sources requests = [] \<longleftrightarrow> \<not> missing \<and> requests = []"
  by (simp add: push_missing_def)

lemma append_artifact_requests_Nil [simp]:
  "append_artifact_requests prefix a requests = [] \<longleftrightarrow> artifact_complete a \<and> requests = []"
  by (auto simp: append_artifact_requests_def Let_def artifact_complete_def)

lemma no_questions_iff: "missing_resolution_requests i = [] \<longleftrightarrow> intent_complete i"
  by (auto simp: missing_resolution_requests_def intent_complete_def)

lemma artifact_value_ok:
  assumes "artifact_value ident kind a = Inr v"
  shows "input_of_json v = Some \<lparr>civ_id = ident, civ_kind = kind, civ_immutable = True\<rparr>"
  using assms by (auto simp: artifact_value_def and_then_eq_Inr input_of_json_def str_field_def bool_field_def)

lemma artifact_value_complete:
  "artifact_complete a \<Longrightarrow> \<exists>v. artifact_value ident kind a = Inr v"
  by (auto simp: artifact_value_def artifact_complete_def intent_resolved_def)

definition intent_view :: "string \<Rightarrow> contract_planning_view" where
  "intent_view contract_id = \<lparr>cwv_schema_version = INTENT_SCHEMA_VERSION, cwv_contract_id = contract_id,
     cwv_job_type = INTENT_JOB_TYPE,
     cwv_inputs = map (\<lambda>ident. \<lparr>civ_id = ident, civ_kind = ident, civ_immutable = True\<rparr>)
       [''approved_logo'', ''brand_profile'', ''approved_copy''],
     cwv_outputs = [
       \<lparr>cov_id = ''editable_master'', cov_kind = ''editable_master'', cov_destination = ''contract://outputs/master.design'',
        cov_media_type = Some ''application/x-ergaxiom-design-document'', cov_required = True\<rparr>,
       \<lparr>cov_id = ''delivery_raster'', cov_kind = ''delivery_raster'', cov_destination = ''contract://outputs/social-post.png'',
        cov_media_type = Some ''image/png'', cov_required = True\<rparr>,
       \<lparr>cov_id = ''evidence_bundle'', cov_kind = ''evidence_bundle'', cov_destination = ''contract://outputs/evidence.json'',
        cov_media_type = Some ''application/json'', cov_required = True\<rparr>],
     cwv_permissions = [
       \<lparr>cmv_capability = ''filesystem'', cmv_resource = ''contract://inputs/*'', cmv_access = ''read'',
        cmv_constraints = json_object [(''immutable'', JBool True)]\<rparr>,
       \<lparr>cmv_capability = ''filesystem'', cmv_resource = ''contract://outputs/*'', cmv_access = ''write'',
        cmv_constraints = json_object [(''overwrite'', JBool False)]\<rparr>,
       \<lparr>cmv_capability = ''design-editor'', cmv_resource = ''isolated-workspace'', cmv_access = ''control'',
        cmv_constraints = json_object [(''network'', JBool False)]\<rparr>]\<rparr>"

lemma output_value_decoded:
  "output_of_json (output_value ident destination media_type) = Some \<lparr>cov_id = ident, cov_kind = ident,
     cov_destination = destination, cov_media_type = Some media_type, cov_required = True\<rparr>"
  by (simp add: output_of_json_def output_value_def str_field_def bool_field_def opt_str_field_def)

lemma permission_value_decoded:
  "permission_of_json (permission_value capability resource access key flag) = Some \<lparr>cmv_capability = capability,
     cmv_resource = resource, cmv_access = access, cmv_constraints = json_object [(key, JBool flag)]\<rparr>"
  by (simp add: permission_of_json_def permission_value_def str_field_def)

lemma contract_document_get:
  fixes i cv cid ca ot la w h cp cs cm cval inputs
  defines "j \<equiv> contract_document i cv cid ca ot la w h cp cs cm cval inputs"
  shows "json_get j ''schema_version'' = Some (JString INTENT_SCHEMA_VERSION)" "json_get j ''contract_id'' = Some (JString cid)"
    "json_get j ''job_type'' = Some (JString INTENT_JOB_TYPE)" "json_get j ''inputs'' = Some (JArray inputs)"
    "json_get j ''outputs'' = Some (JArray intent_outputs)" "json_get j ''permissions'' = Some (JArray intent_permissions)"
  unfolding j_def contract_document_def json_get_object by simp_all

lemma contract_document_decoded:
  assumes "map input_of_json inputs = map Some (cwv_inputs (intent_view cid))"
  shows "contract_view_of_json (contract_document i cv cid ca ot la w h cp cs cm cval inputs) = Some (intent_view cid)"
proof -
  have inputs: "those (map input_of_json inputs) = Some (cwv_inputs (intent_view cid))"
    unfolding assms by (simp add: intent_view_def)
  have outputs: "those (map output_of_json intent_outputs) = Some (cwv_outputs (intent_view cid))"
    by (simp add: intent_outputs_def output_value_decoded intent_view_def)
  have permissions: "those (map permission_of_json intent_permissions) = Some (cwv_permissions (intent_view cid))"
    by (simp add: intent_permissions_def permission_value_decoded intent_view_def)
  show ?thesis
    unfolding contract_view_of_json_def str_field_def list_field_def contract_document_get
    by (simp add: inputs outputs permissions) (simp add: intent_view_def)
qed

lemma build_contract_ok:
  assumes "build_contract I i capsule = Inr contract"
  obtains cid where "it_contract_id i = Some cid" "contract_view_of_json contract = Some (intent_view cid)"
    "str_field contract ''contract_id'' = Some cid" "str_field contract ''job_type'' = Some INTENT_JOB_TYPE"
proof -
  from assms obtain cv cid ca ot la w h cp cs cm cval a b c where cid: "it_contract_id i = Some cid"
    and arts: "artifact_value ''approved_logo'' ''approved_logo'' (it_approved_logo i) = Inr a"
      "artifact_value ''brand_profile'' ''brand_profile'' (it_brand_profile i) = Inr b"
      "artifact_value ''approved_copy'' ''approved_copy'' (it_approved_copy i) = Inr c"
    and doc: "contract = contract_document i cv cid ca ot la w h cp cs cm cval [a, b, c]"
    unfolding build_contract_def and_then_eq_Inr intent_resolved_def ok_or_eq by blast
  have "map input_of_json [a, b, c] = map Some (cwv_inputs (intent_view cid))"
    using arts [THEN artifact_value_ok] by (simp add: intent_view_def)
  from contract_document_decoded [OF this] show thesis
    using cid by (intro that) (simp_all add: doc str_field_def contract_document_get)
qed

lemma build_contract_total:
  assumes "intent_complete i" "intent_validate_capsule capsule = Inr ()"
    "\<forall>v. in_parse_number I (decimal_milli_string v) \<noteq> None"
  shows "\<exists>contract. build_contract I i capsule = Inr contract"
proof -
  obtain version where "Option.bind (json_get capsule ''version'') as_str = Some version"
    using assms(2) by (auto simp: intent_validate_capsule_def and_then_eq_Inr split: option.splits)
  moreover obtain a b c where "artifact_value ''approved_logo'' ''approved_logo'' (it_approved_logo i) = Inr a"
    "artifact_value ''brand_profile'' ''brand_profile'' (it_brand_profile i) = Inr b"
    "artifact_value ''approved_copy'' ''approved_copy'' (it_approved_copy i) = Inr c"
    using assms(1) artifact_value_complete unfolding intent_complete_def by metis
  moreover have "\<exists>d. decimal_milli I v = Inr d" for v
    using assms(3) by (auto simp: decimal_milli_def Let_def and_then_eq_Inr ok_or_def split: option.splits)
  then obtain d where "decimal_milli I (the (it_minimum_text_contrast_milli i)) = Inr d" by blast
  ultimately show ?thesis
    using assms(1) by (auto simp: build_contract_def intent_complete_def intent_resolved_def)
qed

text \<open>A contract of the intent compiler has the profile the planner asks for.\<close>

lemma intent_profile_accepted:
  "validate_input_profile (cwv_inputs (intent_view cid)) = Inr ()"
  "validate_output_profile (cwv_outputs (intent_view cid)) = Inr ()"
  "validate_permission_profile (cwv_permissions (intent_view cid)) = Inr ()"
proof -
  show "validate_input_profile (cwv_inputs (intent_view cid)) = Inr ()"
    by (simp add: validate_input_profile_def intent_view_def) code_simp
  show "validate_output_profile (cwv_outputs (intent_view cid)) = Inr ()"
    by (simp add: validate_output_profile_def intent_view_def) code_simp
  show "validate_permission_profile (cwv_permissions (intent_view cid)) = Inr ()"
    unfolding intent_view_def contract_planning_view.simps by code_simp
qed

section \<open>From an intent to a plan\<close>

text \<open>A decoder of contracts reads the two identifying fields by their names.\<close>

definition reads_identity :: "contract_codec \<Rightarrow> bool" where
  "reads_identity codec \<longleftrightarrow> (\<forall>j c. decode_contract codec j = Inr c \<longrightarrow>
     str_field j ''contract_id'' = Some (wc_contract_id c) \<and> str_field j ''job_type'' = Some (wc_job_type c))"

lemma compiled_identity:
  assumes "compile_contract H codec cv kv = Inr compiled" "reads_identity codec"
  shows "str_field cv ''contract_id'' = Some (cc_contract_id compiled)" "str_field cv ''job_type'' = Some (cc_job_type compiled)"
proof -
  from assms(1) obtain c contract_digest capsule_digest st where "decode_contract codec cv = Inr c"
    "compiled = assemble_contract c contract_digest capsule_digest st"
    by (auto simp: compile_contract_def and_then_eq_Inr map_err_eq)
  with assms(2) show "str_field cv ''contract_id'' = Some (cc_contract_id compiled)"
    "str_field cv ''job_type'' = Some (cc_job_type compiled)"
    unfolding reads_identity_def by (simp_all add: assemble_contract_def)
qed

lemma compiled_intentE:
  assumes "compile_static_social_post_intent I i capsule = Inr (IO_Compiled job contract cd kd n m)"
  obtains compiled where "build_contract I i capsule = Inr contract"
    "compile_contract (in_hasher I) (in_codec I) contract capsule = Inr compiled"
    "cd = seal_contract_digest (cc_seal compiled)" "kd = seal_capsule_digest (cc_seal compiled)"
    "cc_unresolved_mandatory_unknowns compiled = 0"
  using assms unfolding compile_static_social_post_intent_def Let_def
  by (auto simp: and_then_eq_Inr map_err_eq ensure_eq split: if_splits)

lemma intent_contract_planned:
  assumes env: "planner_lawful E" "\<forall>rs. \<exists>v. pn_requirements_value E rs = Inr v"
      "pn_hasher E = in_hasher I" "pn_contract_codec E = in_codec I" "reads_identity (in_codec I)"
    and intent: "compile_static_social_post_intent I i capsule_value = Inr (IO_Compiled job contract cd kd n m)"
    and identity: "validate_identity_values ident = Inr ()" "missing_plan_requests ident = []"
    and capsule: "capsule_view_of_json capsule_value = Some capsule" "names_comma_free capsule"
      "validate_capsule_profile capsule = Inr ()" "resolve_operator_versions capsule = Inr versions"
  shows "\<exists>p. synthesize_static_social_post_plan E ident contract capsule_value = Inr (PO_Planned p) \<and>
    pld_contract_digest p = cd \<and> pld_capsule_digest p = kd \<and> pld_mandatory_step_count p = 4"
proof -
  obtain compiled where build: "build_contract I i capsule_value = Inr contract"
    and c: "compile_contract (in_hasher I) (in_codec I) contract capsule_value = Inr compiled"
      "cd = seal_contract_digest (cc_seal compiled)" "kd = seal_capsule_digest (cc_seal compiled)"
      "cc_unresolved_mandatory_unknowns compiled = 0"
    using intent by (rule compiled_intentE)
  obtain cid where cid: "contract_view_of_json contract = Some (intent_view cid)" "str_field contract ''contract_id'' = Some cid"
    "str_field contract ''job_type'' = Some INTENT_JOB_TYPE"
    using build by (rule build_contract_ok)
  have ids: "cc_contract_id compiled = cid" "cc_job_type compiled = PLANNER_JOB_TYPE"
    using compiled_identity [OF c(1) env(5)] cid(2,3) by (simp_all add: INTENT_JOB_TYPE_def PLANNER_JOB_TYPE_def)
  have views: "pn_contract_view E contract = Inr (intent_view cid)" "pn_capsule_view E capsule_value = Inr capsule"
    using env(1) cid(1) capsule(1) unfolding planner_lawful_def by (blast dest: readsD)+
  have profile: "validate_contract_profile (intent_view cid) compiled = Inr ()"
    using ids by (simp add: validate_contract_profile_def intent_view_def INTENT_SCHEMA_VERSION_def PLANNER_CONTRACT_SCHEMA_def
        INTENT_JOB_TYPE_def PLANNER_JOB_TYPE_def)
  obtain plan_id created_at where i: "pi_plan_id ident = Some plan_id" "pi_created_at ident = Some created_at"
    using identity(2) by (auto simp: missing_plan_requests_def split: if_splits)
  obtain requirements where req: "pn_requirements_value E (capability_requirements plan_id) = Inr requirements" using env(2) by blast
  obtain rd where rd: "canonical_json_sha256 (pn_hasher E) requirements = Inr rd"
  proof -
    obtain bytes where "to_vec (pn_hasher E) (canonicalize requirements) = Inr bytes" using env(1) unfolding planner_lawful_def by blast
    then show thesis using that by (simp add: canonical_json_sha256_def canonical_json_bytes_def)
  qed
  have "\<exists>v. version_at versions n = Inr v" if "n \<in> {0, 1, 2, 3}" for n
  proof -
    have "REQUIRED_OPERATORS ! n \<in> set REQUIRED_OPERATORS" using that by (intro nth_mem) (auto simp: REQUIRED_OPERATORS_def)
    then show ?thesis using resolve_operator_versions_ok(2) [OF capsule(4)] by (auto simp: version_at_def)
  qed
  then have "\<exists>v. version_at versions 0 = Inr v" "\<exists>v. version_at versions 1 = Inr v" "\<exists>v. version_at versions 2 = Inr v"
    "\<exists>v. version_at versions 3 = Inr v" by simp_all
  then obtain plan where plan: "build_plan plan_id created_at compiled capsule versions requirements = Inr plan"
    by (auto simp: build_plan_def)
  obtain cp version where cp: "compile_plan (pn_hasher E) (pn_plan_codec E) plan capsule_value compiled = Inr cp"
    "cp_steps cp = planned_steps plan_id version" "cp_contract_digest cp = seal_contract_digest (cc_seal compiled)"
    "cp_capsule_digest cp = seal_capsule_digest (cc_seal compiled)"
    using env(1) capsule(1,3,2,4) ids(2) plan by (rule built_plan_compiles)
  have "mandatory_step_count cp = 4" by (simp add: mandatory_step_count_def cp(2) planned_steps_def planned_step_def)
  then show ?thesis
    unfolding synthesize_static_social_post_plan_def Let_def env(3,4)
    using identity c(1-4) ids(2) views profile intent_profile_accepted capsule(3,4) i req rd [unfolded env(3)] plan
      cp(1) [unfolded env(3)] cp(3,4)
    by (simp add: planner_resolved_def)
qed

text \<open>
  C26: a compiled intent can be planned. If the intent compiler produced a contract, the
  identity of the plan is complete and valid, and the capsule, with operator names that contain
  no comma, has the planner's operators, then the planner produces a plan for that contract:
  four mandatory steps, bound to the digests that the intent compiler reported. No check of the
  planner on the contract can fail, and the plan it writes is one the plan compiler accepts.
  (The planner compares operator lists joined by commas, hence the condition on the names; the
  other hypotheses say that the serializers write what the deserializers read.)
\<close>

theorem compiled_intent_is_planned:
  assumes env: "planner_lawful E" "\<forall>rs. \<exists>v. pn_requirements_value E rs = Inr v"
      "pn_hasher E = in_hasher I" "pn_contract_codec E = in_codec I" "reads_identity (in_codec I)"
    and intent: "compile_static_social_post_intent I i capsule_value = Inr (IO_Compiled job contract cd kd n m)"
    and identity: "validate_identity_values ident = Inr ()" "missing_plan_requests ident = []"
    and capsule: "capsule_view_of_json capsule_value = Some capsule" "names_comma_free capsule"
      "validate_capsule_profile capsule = Inr ()" "resolve_operator_versions capsule = Inr versions"
  shows "\<exists>p. synthesize_static_social_post_plan E ident contract capsule_value = Inr (PO_Planned p) \<and>
    pld_contract_digest p = cd \<and> pld_capsule_digest p = kd \<and> pld_mandatory_step_count p = 4"
  using assms by (rule intent_contract_planned)

section \<open>An example\<close>

definition reading :: "(json \<Rightarrow> 'a option) \<Rightarrow> json \<Rightarrow> serde_error + 'a" where
  "reading reference j = (case reference j of Some x \<Rightarrow> Inr x | None \<Rightarrow> Inl ''decode'')"

definition demo_post_contract :: "string \<Rightarrow> string \<Rightarrow> work_contract" where
  "demo_post_contract contract_id job_type = demo_contract\<lparr>wc_contract_id := contract_id, wc_job_type := job_type\<rparr>"

definition demo_post_codec :: contract_codec where
  "demo_post_codec = \<lparr>
     decode_contract = (\<lambda>j. case (str_field j ''contract_id'', str_field j ''job_type'') of
       (Some contract_id, Some job_type) \<Rightarrow> Inr (demo_post_contract contract_id job_type) | _ \<Rightarrow> Inl ''decode''),
     decode_capsule = (\<lambda>_. Inr (demo_capsule\<lparr>pc_job_types := [\<lparr>jt_id = INTENT_JOB_TYPE, jt_required_constraints = [''c1''],
       jt_minimum_assurance_level = E1\<rparr>]\<rparr>))\<rparr>"

definition demo_intent_env :: intent_env where
  "demo_intent_env = \<lparr>in_hasher = demo_hasher, in_codec = demo_post_codec, in_requests_value = (\<lambda>_. Inr JNull),
     in_parse_number = (\<lambda>_. Some (PosInt 4))\<rparr>"

definition demo_requirement_value :: "capability_requirement \<Rightarrow> json" where
  "demo_requirement_value r = json_object [(''token_id'', JString (cq_token_id r)), (''step_id'', JString (cq_step_id r)),
     (''capability'', JString (cq_capability r)), (''resource'', JString (cq_resource r)), (''access'', JString (cq_access r))]"

definition demo_planner_env :: planner_env where
  "demo_planner_env = \<lparr>pn_hasher = demo_hasher, pn_contract_codec = demo_post_codec,
     pn_plan_codec = \<lparr>decode_plan = reading plan_of_json, decode_plan_view = reading plan_view_of_json\<rparr>,
     pn_contract_view = reading contract_view_of_json, pn_capsule_view = reading capsule_view_of_json,
     pn_requests_value = (\<lambda>_. Inr JNull), pn_requirements_value = (\<lambda>rs. Inr (JArray (map demo_requirement_value rs)))\<rparr>"

definition demo_artifact :: input_artifact_intent where
  "demo_artifact = \<lparr>ia_uri = Some ''contract://inputs/a'', ia_media_type = Some ''image/png'',
     ia_sha256 = Some (replicate 64 (CHR ''0''))\<rparr>"

definition demo_intent :: static_social_post_intent where
  "demo_intent = \<lparr>it_contract_id = Some ''k1'', it_created_at = Some ''2026-01-01T00:00:00Z'', it_original_text = Some ''post'',
     it_language = Some ''en'', it_requester_id = None, it_approved_logo = demo_artifact, it_brand_profile = demo_artifact,
     it_approved_copy = demo_artifact, it_canvas_width_px = Some 1080, it_canvas_height_px = Some 1080,
     it_color_profile = Some CERTIFIED_COLOR_PROFILE, it_logo_clear_space_px = Some 40,
     it_minimum_text_contrast_milli = Some 4500, it_visual_tone = None, it_required_application_version = None,
     it_require_pre_execution_approval = True\<rparr>"

definition demo_capsule_document :: json where
  "demo_capsule_document = json_object [(''capsule_id'', JString PLANNER_CAPSULE_ID), (''version'', JString ''1''),
     (''operators'', JArray (map (\<lambda>name. json_object [(''id'', JString name), (''version'', JString ''1'')]) REQUIRED_OPERATORS)),
     (''job_types'', JArray [json_object [(''id'', JString PLANNER_JOB_TYPE), (''operator_ids'', json_strings REQUIRED_OPERATORS)]])]"

definition demo_capsule_view :: capsule_planning_view where
  "demo_capsule_view = \<lparr>csv_capsule_id = PLANNER_CAPSULE_ID, csv_version = ''1'',
     csv_operators = map (\<lambda>name. \<lparr>co_id = name, co_version = ''1''\<rparr>) REQUIRED_OPERATORS,
     csv_job_types = [\<lparr>cj_id = PLANNER_JOB_TYPE, cj_operator_ids = REQUIRED_OPERATORS\<rparr>]\<rparr>"

definition demo_identity :: plan_identity where
  "demo_identity = \<lparr>pi_plan_id = Some ''p1'', pi_created_at = Some ''2026-01-01T00:00:00Z''\<rparr>"

lemma reads_reading [simp]: "reads (reading reference) reference"
  by (simp add: reads_def reading_def)

lemma demo_planner_lawful: "planner_lawful demo_planner_env" "\<forall>rs. \<exists>v. pn_requirements_value demo_planner_env rs = Inr v"
    "reads_identity demo_post_codec"
  by (auto simp: planner_lawful_def demo_planner_env_def demo_hasher_def reads_identity_def demo_post_codec_def
      demo_post_contract_def split: option.splits)

lemma demo_capsule_read: "capsule_view_of_json demo_capsule_document = Some demo_capsule_view"
proof -
  have ops: "map operator_of_json (map (\<lambda>name. json_object [(''id'', JString name), (''version'', JString ''1'')]) names) =
      map Some (map (\<lambda>name. \<lparr>co_id = name, co_version = ''1''\<rparr>) names)" for names
    by (simp add: operator_of_json_def str_field_def)
  have those: "those (map Some xs) = Some xs" for xs :: "capsule_operator list" by (induction xs) simp_all
  have "json_get demo_capsule_document ''capsule_id'' = Some (JString PLANNER_CAPSULE_ID)"
    "json_get demo_capsule_document ''version'' = Some (JString ''1'')"
    "json_get demo_capsule_document ''operators'' =
       Some (JArray (map (\<lambda>name. json_object [(''id'', JString name), (''version'', JString ''1'')]) REQUIRED_OPERATORS))"
    "json_get demo_capsule_document ''job_types'' = Some (JArray [json_object [(''id'', JString PLANNER_JOB_TYPE),
       (''operator_ids'', json_strings REQUIRED_OPERATORS)]])"
    by (simp_all add: demo_capsule_document_def)
  then show ?thesis
    unfolding capsule_view_of_json_def plan_view_of_json_def list_field_def str_field_def
    by (simp add: ops those job_type_of_json_def list_field_def str_field_def json_strings_def demo_capsule_view_def del: map_map)
qed

lemma select_versions_total:
  "\<forall>name\<in>set names. map_of index name = Some v \<Longrightarrow> \<not> blank v \<Longrightarrow> \<exists>selected. try_fold (select_version index) acc names = Inr selected"
  by (induction names arbitrary: acc) (auto simp: select_version_def ensure_def)

lemma demo_capsule_accepted: "names_comma_free demo_capsule_view" "validate_capsule_profile demo_capsule_view = Inr ()"
    "\<exists>versions. resolve_operator_versions demo_capsule_view = Inr versions"
proof -
  show "names_comma_free demo_capsule_view" using required_operators_comma_free(1) by (simp add: names_comma_free_def demo_capsule_view_def)
  have nonblank: "\<not> blank ''1''" by code_simp
  then show "validate_capsule_profile demo_capsule_view = Inr ()" by (simp add: validate_capsule_profile_def demo_capsule_view_def)
  let ?operators = "csv_operators demo_capsule_view"
  have ids: "map co_id ?operators = REQUIRED_OPERATORS" by (simp add: demo_capsule_view_def comp_def)
  have "distinct REQUIRED_OPERATORS" by (simp add: REQUIRED_OPERATORS_def)
  then have "\<exists>index. index_versions_from [] ?operators = Inr index"
    unfolding planner_versions.run_eq_Inr using ids by simp
  then obtain index where index: "index_versions_from [] ?operators = Inr index" by blast
  have "\<forall>name\<in>set REQUIRED_OPERATORS. map_of index name = Some ''1''"
  proof
    fix name
    assume "name \<in> set REQUIRED_OPERATORS"
    then have "\<lparr>co_id = name, co_version = ''1''\<rparr> \<in> set ?operators" by (simp add: demo_capsule_view_def)
    then show "map_of index name = Some ''1''"
      using planner_versions.run_get [OF index, of name "''1''"] by force
  qed
  then show "\<exists>versions. resolve_operator_versions demo_capsule_view = Inr versions"
    unfolding resolve_operator_versions_def using index select_versions_total [of REQUIRED_OPERATORS index "''1''"] nonblank by simp
qed

lemma demo_hash [simp]: "canonical_json_sha256 demo_hasher v = Inr demo_digest"
  by (simp add: canonical_json_sha256_def canonical_json_bytes_def demo_hasher_def)

lemma demo_intent_valid: "validate_present_values demo_intent = Inr ()"
proof -
  have texts: "validate_optional_text ''contract_id'' (Some ''k1'') 1 = Inr ()" "validate_optional_text ''original_text'' (Some ''post'') 1 = Inr ()"
    "validate_optional_text ''language'' (Some ''en'') 2 = Inr ()" by code_simp+
  have at: "validate_created_at ''2026-01-01T00:00:00Z''" by code_simp
  have artifact: "validate_artifact prefix demo_artifact = Inr ()" for prefix
  proof -
    have "starts_with ''contract://inputs/a'' ''contract://inputs/''" by code_simp
    moreover have "\<not> blank ''image/png''" by code_simp
    moreover have "list_all is_lower_hex (replicate 64 (CHR ''0''))" by code_simp
    ultimately show ?thesis by (simp add: validate_artifact_def demo_artifact_def ensure_def)
  qed
  have sat: "saturating_mul 40 2 = (80 :: u32)" by (simp add: saturating_mul_def)
  show ?thesis
    using texts at artifact sat
    by (simp add: validate_present_values_def demo_intent_def validate_canvas_edge_def ensure_def
        MAXIMUM_CANVAS_EDGE_PX_def MINIMUM_CERTIFIED_CONTRAST_MILLI_def MAXIMUM_CONTRAST_MILLI_def) (simp add: validate_optional_text_def)
qed

lemma demo_intent_compiled:
  "\<exists>contract cd kd n m. compile_static_social_post_intent demo_intent_env demo_intent demo_capsule_document =
     Inr (IO_Compiled INTENT_JOB_TYPE contract cd kd n m)"
proof -
  have get: "json_get demo_capsule_document ''capsule_id'' = Some (JString PLANNER_CAPSULE_ID)"
    "json_get demo_capsule_document ''version'' = Some (JString ''1'')"
    by (simp_all add: demo_capsule_document_def)
  have capsule: "intent_validate_capsule demo_capsule_document = Inr ()"
    by (simp add: intent_validate_capsule_def get PLANNER_CAPSULE_ID_def INTENT_CAPSULE_ID_def)
  have present: "validate_present_values demo_intent = Inr ()" by (rule demo_intent_valid)
  have complete: "intent_complete demo_intent"
    by (simp add: intent_complete_def demo_intent_def artifact_complete_def demo_artifact_def)
  obtain contract where build: "build_contract demo_intent_env demo_intent demo_capsule_document = Inr contract"
    using build_contract_total [OF complete capsule, of demo_intent_env] by (auto simp: demo_intent_env_def)
  obtain cid where cid: "it_contract_id demo_intent = Some cid" "str_field contract ''contract_id'' = Some cid"
    "str_field contract ''job_type'' = Some INTENT_JOB_TYPE"
    using build by (rule build_contract_ok)
  have "cid = ''k1''" using cid(1) by (simp add: demo_intent_def)
  define typed :: contract_codec where "typed = \<lparr>decode_contract = (\<lambda>_. Inr (demo_post_contract ''k1'' INTENT_JOB_TYPE)),
    decode_capsule = decode_capsule demo_post_codec\<rparr>"
  have same: "compile_contract demo_hasher demo_post_codec contract demo_capsule_document = compile_contract demo_hasher typed JNull JNull"
    using cid(2,3) \<open>cid = ''k1''\<close> by (simp add: compile_contract_def typed_def demo_post_codec_def)
  have "case compile_contract demo_hasher typed JNull JNull of Inl _ \<Rightarrow> False | Inr c \<Rightarrow> cc_unresolved_mandatory_unknowns c = 0"
    unfolding typed_def by code_simp
  then obtain compiled where "compile_contract demo_hasher typed JNull JNull = Inr compiled" "cc_unresolved_mandatory_unknowns compiled = 0"
    by (auto split: sum.splits)
  then show ?thesis
    using capsule present no_questions_iff [of demo_intent] complete build same
    by (simp add: compile_static_social_post_intent_def Let_def) (simp add: demo_intent_env_def)
qed

lemma demo_planned:
  "\<exists>contract p. synthesize_static_social_post_plan demo_planner_env demo_identity contract demo_capsule_document = Inr (PO_Planned p) \<and>
     pld_mandatory_step_count p = 4"
proof -
  obtain contract cd kd n m where intent: "compile_static_social_post_intent demo_intent_env demo_intent demo_capsule_document =
      Inr (IO_Compiled INTENT_JOB_TYPE contract cd kd n m)"
    using demo_intent_compiled by blast
  obtain versions where versions: "resolve_operator_versions demo_capsule_view = Inr versions" using demo_capsule_accepted(3) by blast
  have same: "pn_hasher demo_planner_env = in_hasher demo_intent_env" "pn_contract_codec demo_planner_env = in_codec demo_intent_env"
    "reads_identity (in_codec demo_intent_env)"
    using demo_planner_lawful(3) by (simp_all add: demo_planner_env_def demo_intent_env_def)
  have identity: "validate_identity_values demo_identity = Inr ()" "missing_plan_requests demo_identity = []" by code_simp+
  from intent_contract_planned [OF demo_planner_lawful(1,2) same intent identity demo_capsule_read demo_capsule_accepted(1,2) versions]
  show ?thesis by blast
qed

theorem compiled_intent_is_planned_witness:
  "\<exists>contract p. synthesize_static_social_post_plan demo_planner_env demo_identity contract demo_capsule_document = Inr (PO_Planned p) \<and>
     pld_mandatory_step_count p = 4"
proof -
  obtain contract cd kd n m where intent: "compile_static_social_post_intent demo_intent_env demo_intent demo_capsule_document =
      Inr (IO_Compiled INTENT_JOB_TYPE contract cd kd n m)"
    using demo_intent_compiled by blast
  obtain versions where versions: "resolve_operator_versions demo_capsule_view = Inr versions" using demo_capsule_accepted(3) by blast
  have same: "pn_hasher demo_planner_env = in_hasher demo_intent_env" "pn_contract_codec demo_planner_env = in_codec demo_intent_env"
    "reads_identity (in_codec demo_intent_env)"
    using demo_planner_lawful(3) by (simp_all add: demo_planner_env_def demo_intent_env_def)
  have identity: "validate_identity_values demo_identity = Inr ()" "missing_plan_requests demo_identity = []" by code_simp+
  from compiled_intent_is_planned [OF demo_planner_lawful(1,2) same intent identity demo_capsule_read demo_capsule_accepted(1,2) versions]
  show ?thesis by blast
qed

lemma demo_requirements_written: "requirements_written demo_planner_env"
proof -
  have "requirement_of_json (demo_requirement_value r) = Some r" for r
    by (simp add: requirement_of_json_def demo_requirement_value_def str_field_def)
  then have "those (map (requirement_of_json \<circ> demo_requirement_value) rs) = Some rs" for rs by (induction rs) simp_all
  then show ?thesis by (auto simp: requirements_written_def demo_planner_env_def requirements_of_json_def)
qed

theorem planned_capabilities_permitted_witness:
  "\<exists>contract_value contract p v requirements.
     synthesize_static_social_post_plan demo_planner_env demo_identity contract_value demo_capsule_document = Inr (PO_Planned p) \<and>
     pn_contract_view demo_planner_env contract_value = Inr contract \<and> plan_requirements_value (pld_plan p) = Some v \<and>
     requirements_of_json v = Some requirements \<and> permissions_exact (cwv_permissions contract)"
proof -
  obtain contract p where run: "synthesize_static_social_post_plan demo_planner_env demo_identity contract demo_capsule_document =
      Inr (PO_Planned p)"
    using demo_planned by blast
  from planned_capabilities_permitted [OF run demo_requirements_written] run show ?thesis by blast
qed

end
