(* ===== verification/DesktopShell.thy ===== *)
theory DesktopShell
  imports ProductionSigner JsonValues
begin

text \<open>
  The desktop shell (\<^verbatim>\<open>crates/desktop-shell-runtime\<close>): sealed snapshots of a job, the
  approval of a job for execution and the receipts of the commands that move it. The
  conversion of the sealed records to JSON is third-party code, an argument in
  \<open>shell_env\<close>. The lemmas show when a snapshot may claim acceptance, that what is issued
  verifies, and for which contract, plan, permissions and time an approval is good.
\<close>

section \<open>Snapshots\<close>

definition SHELL_SNAPSHOT_SCHEMA :: string where "SHELL_SNAPSHOT_SCHEMA = ''0.1.0''"

datatype (plugins only: code size) authority_status = AS_Unresolved | AS_Ready | AS_Running | AS_VerifiedAccepted | AS_VerifiedRejected

datatype (plugins only: code size) stage_status = Stage_Blocked | Stage_Pending | Stage_Active | Stage_Passed | Stage_Failed | Stage_Unknown

record digest_item =
  dgi_id :: string
  dgi_media_type :: "string option"
  dgi_digest :: string
  dgi_status :: stage_status

record resolution_item =
  rsi_field :: string
  rsi_question :: string
  rsi_mandatory :: bool
  rsi_status :: stage_status

record approval_summary =
  aps_approval_id :: string
  aps_contract_digest :: string
  aps_plan_digest :: string
  aps_permission_digest :: string
  aps_expires_at_epoch_s :: u64
  aps_status :: stage_status

record plan_step_summary =
  psm_step_id :: string
  psm_operator_id :: string
  psm_status :: stage_status
  psm_before_digest :: "string option"
  psm_after_digest :: "string option"

record validator_summary =
  vsm_validator_id :: string
  vsm_claim_id :: string
  vsm_report_digest :: string
  vsm_status :: stage_status
  vsm_actionable_message :: "string option"

record certificate_verification =
  cvf_certificate_id :: string
  cvf_certificate_digest :: string
  cvf_evidence_bundle_digest :: string
  cvf_signature_verified :: bool
  cvf_bundle_verified :: bool
  cvf_decision_accepted :: bool
  cvf_mandatory_unknowns :: nat
  cvf_mandatory_failures :: nat

record trust_component_status =
  tcs_component_id :: string
  tcs_version :: string
  tcs_digest :: string
  tcs_trusted :: bool

record desktop_shell_material =
  dm_generated_at :: string
  dm_job_id :: "string option"
  dm_unresolved :: "resolution_item list"
  dm_staged_inputs :: "digest_item list"
  dm_contract :: "digest_item option"
  dm_approval :: "approval_summary option"
  dm_plan :: "digest_item option"
  dm_steps :: "plan_step_summary list"
  dm_validators :: "validator_summary list"
  dm_evidence_bundle :: "digest_item option"
  dm_replay_manifest :: "digest_item option"
  dm_certificate :: "certificate_verification option"
  dm_profession_capsules :: "trust_component_status list"
  dm_adapters :: "trust_component_status list"
  dm_trusted_keys :: "trust_component_status list"
  dm_metadata :: json

record desktop_shell_snapshot =
  dsn_schema_version :: string
  dsn_authority_status :: authority_status
  dsn_generated_at :: string
  dsn_job_id :: "string option"
  dsn_unresolved :: "resolution_item list"
  dsn_staged_inputs :: "digest_item list"
  dsn_contract :: "digest_item option"
  dsn_approval :: "approval_summary option"
  dsn_plan :: "digest_item option"
  dsn_steps :: "plan_step_summary list"
  dsn_validators :: "validator_summary list"
  dsn_evidence_bundle :: "digest_item option"
  dsn_replay_manifest :: "digest_item option"
  dsn_certificate :: "certificate_verification option"
  dsn_profession_capsules :: "trust_component_status list"
  dsn_adapters :: "trust_component_status list"
  dsn_trusted_keys :: "trust_component_status list"
  dsn_metadata :: json
  dsn_snapshot_digest :: string

datatype (plugins only: code size) desktop_shell_error =
    SH_EmptyField string
  | SH_InvalidDigest string
  | SH_ContradictoryAcceptedCertificate
  | SH_Serialization serde_error
  | SH_Hashing hashing_error

section \<open>Control\<close>

definition CONTROL_SCHEMA :: string where "CONTROL_SCHEMA = ''0.1.0''"
definition MAX_APPROVAL_TTL_S :: u64 where "MAX_APPROVAL_TTL_S = 3600"

datatype (plugins only: code size) desktop_control_status = DC_AwaitingApproval | DC_Approved | DC_Executed | DC_Cancelled | DC_RolledBack

datatype (plugins only: code size) desktop_command_action = DA_Approve | DA_Execute | DA_Cancel | DA_Rollback

record desktop_approval_request =
  dar_expected_snapshot_digest :: string
  dar_contract_digest :: string
  dar_plan_digest :: string
  dar_permission_digest :: string

record desktop_approval_record =
  dap_schema_version :: string
  dap_approval_id :: string
  dap_job_id :: string
  dap_actor_id :: string
  dap_pre_snapshot_digest :: string
  dap_contract_digest :: string
  dap_plan_digest :: string
  dap_permission_digest :: string
  dap_issued_at_epoch_s :: u64
  dap_expires_at_epoch_s :: u64
  dap_approval_digest :: string

record desktop_command_receipt =
  dcr_schema_version :: string
  dcr_command_id :: string
  dcr_action :: desktop_command_action
  dcr_job_id :: string
  dcr_actor_id :: string
  dcr_pre_snapshot_digest :: string
  dcr_post_snapshot_digest :: string
  dcr_approval_digest :: "string option"
  dcr_issued_at_epoch_s :: u64
  dcr_applied :: bool
  dcr_receipt_digest :: string

datatype (plugins only: code size) desktop_control_error =
    DE_Shell desktop_shell_error
  | DE_SnapshotVerificationFailed
  | DE_InvalidIdentifier string
  | DE_InvalidControlDigest string
  | DE_StaleSnapshot
  | DE_MissingBinding
  | DE_ApprovalBindingMismatch
  | DE_InvalidApprovalTtl
  | DE_ApprovalExpired
  | DE_InvalidControlMetadata
  | DE_InvalidTransition
  | DE_ReceiptNotApplied
  | DE_ControlSerialization serde_error
  | DE_ControlHashing hashing_error
  | DE_SlicePanic

text \<open>
  The last constructor stands for the panic of \<^verbatim>\<open>&digest[..16]\<close> on a shorter text. The
  third-party operations are the hasher and \<^verbatim>\<open>serde_json::to_value\<close> on each sealed record.
\<close>

record shell_env =
  she_hasher :: hasher
  she_snapshot_value :: "desktop_shell_snapshot \<Rightarrow> serde_error + json"
  she_approval_value :: "desktop_approval_record \<Rightarrow> serde_error + json"
  she_receipt_value :: "desktop_command_receipt \<Rightarrow> serde_error + json"

section \<open>Building and verifying snapshots\<close>

definition shell_validate_digest :: "string \<Rightarrow> string \<Rightarrow> desktop_shell_error + unit" where
  "shell_validate_digest field digest = ensure (is_sha256 digest) (SH_InvalidDigest field)"

definition validate_certificate :: "certificate_verification \<Rightarrow> desktop_shell_error + unit" where
  "validate_certificate c =
     and_then (ensure (\<not> blank (cvf_certificate_id c)) (SH_EmptyField ''certificate_id'')) (\<lambda>_.
     and_then (shell_validate_digest ''certificate_digest'' (cvf_certificate_digest c)) (\<lambda>_.
     and_then (shell_validate_digest ''evidence_bundle_digest'' (cvf_evidence_bundle_digest c)) (\<lambda>_.
     ensure (\<not> (cvf_decision_accepted c \<and>
         (\<not> cvf_signature_verified c \<or> \<not> cvf_bundle_verified c \<or> cvf_mandatory_unknowns c \<noteq> 0 \<or> cvf_mandatory_failures c \<noteq> 0)))
       SH_ContradictoryAcceptedCertificate)))"

definition validate_optional_item :: "string \<times> digest_item option \<Rightarrow> desktop_shell_error + unit" where
  "validate_optional_item e =
     (case snd e of None \<Rightarrow> Inr () | Some item \<Rightarrow> shell_validate_digest (fst e) (dgi_digest item))"

definition validate_material_digests :: "desktop_shell_material \<Rightarrow> desktop_shell_error + unit" where
  "validate_material_digests m =
     and_then (try_for_each (\<lambda>item. shell_validate_digest ''staged_input.digest'' (dgi_digest item)) (dm_staged_inputs m)) (\<lambda>_.
     and_then (try_for_each validate_optional_item [(''contract.digest'', dm_contract m), (''plan.digest'', dm_plan m),
       (''evidence_bundle.digest'', dm_evidence_bundle m), (''replay_manifest.digest'', dm_replay_manifest m)]) (\<lambda>_.
     and_then (case dm_approval m of None \<Rightarrow> Inr () | Some a \<Rightarrow>
       and_then (shell_validate_digest ''approval.contract_digest'' (aps_contract_digest a)) (\<lambda>_.
       and_then (shell_validate_digest ''approval.plan_digest'' (aps_plan_digest a)) (\<lambda>_.
       shell_validate_digest ''approval.permission_digest'' (aps_permission_digest a)))) (\<lambda>_.
     and_then (try_for_each (\<lambda>v. shell_validate_digest ''validator.report_digest'' (vsm_report_digest v)) (dm_validators m)) (\<lambda>_.
     try_for_each (\<lambda>c. shell_validate_digest ''trust_component.digest'' (tcs_digest c))
       (dm_profession_capsules m @ dm_adapters m @ dm_trusted_keys m)))))"

definition certificate_complete :: "certificate_verification \<Rightarrow> bool" where
  "certificate_complete c \<longleftrightarrow> cvf_signature_verified c \<and> cvf_bundle_verified c \<and> cvf_decision_accepted c \<and>
     cvf_mandatory_unknowns c = 0 \<and> cvf_mandatory_failures c = 0"

definition derive_authority_status :: "desktop_shell_material \<Rightarrow> authority_status" where
  "derive_authority_status m =
     (if dm_unresolved m \<noteq> [] then AS_Unresolved
      else case dm_certificate m of
        Some c \<Rightarrow> if certificate_complete c then AS_VerifiedAccepted else AS_VerifiedRejected
      | None \<Rightarrow> if \<exists>s\<in>set (dm_steps m). psm_status s = Stage_Active then AS_Running else AS_Ready)"

definition shell_snapshot_digest :: "shell_env \<Rightarrow> desktop_shell_snapshot \<Rightarrow> desktop_shell_error + string" where
  "shell_snapshot_digest E s = blank_field_digest (she_hasher E) SH_Serialization (SH_Serialization ''snapshot is not an object'')
     SH_Hashing ''snapshot_digest'' (she_snapshot_value E s)"

definition unsealed_snapshot :: "desktop_shell_material \<Rightarrow> desktop_shell_snapshot" where
  "unsealed_snapshot m = \<lparr>dsn_schema_version = SHELL_SNAPSHOT_SCHEMA, dsn_authority_status = derive_authority_status m,
     dsn_generated_at = dm_generated_at m, dsn_job_id = dm_job_id m, dsn_unresolved = dm_unresolved m,
     dsn_staged_inputs = dm_staged_inputs m, dsn_contract = dm_contract m, dsn_approval = dm_approval m,
     dsn_plan = dm_plan m, dsn_steps = dm_steps m, dsn_validators = dm_validators m,
     dsn_evidence_bundle = dm_evidence_bundle m, dsn_replay_manifest = dm_replay_manifest m,
     dsn_certificate = dm_certificate m, dsn_profession_capsules = dm_profession_capsules m,
     dsn_adapters = dm_adapters m, dsn_trusted_keys = dm_trusted_keys m, dsn_metadata = dm_metadata m,
     dsn_snapshot_digest = []\<rparr>"

definition build_desktop_shell_snapshot :: "shell_env \<Rightarrow> desktop_shell_material \<Rightarrow> desktop_shell_error + desktop_shell_snapshot" where
  "build_desktop_shell_snapshot E m =
     and_then (ensure (\<not> blank (dm_generated_at m)) (SH_EmptyField ''generated_at'')) (\<lambda>_.
     and_then (validate_material_digests m) (\<lambda>_.
     and_then (case dm_certificate m of None \<Rightarrow> Inr () | Some c \<Rightarrow> validate_certificate c) (\<lambda>_.
     let s = unsealed_snapshot m in
     and_then (shell_snapshot_digest E s) (\<lambda>digest. Inr (s\<lparr>dsn_snapshot_digest := digest\<rparr>)))))"

definition verify_desktop_shell_snapshot :: "shell_env \<Rightarrow> desktop_shell_snapshot \<Rightarrow> desktop_shell_error + bool" where
  "verify_desktop_shell_snapshot E s =
     and_then (ensure (is_sha256 (dsn_snapshot_digest s)) (SH_InvalidDigest ''snapshot_digest'')) (\<lambda>_.
     and_then (case dsn_certificate s of None \<Rightarrow> Inr () | Some c \<Rightarrow> validate_certificate c) (\<lambda>_.
     and_then (shell_snapshot_digest E s) (\<lambda>digest. Inr (dsn_snapshot_digest s = digest))))"

section \<open>Approvals\<close>

definition verify_authoritative_snapshot :: "shell_env \<Rightarrow> desktop_shell_snapshot \<Rightarrow> desktop_control_error + unit" where
  "verify_authoritative_snapshot E s =
     and_then (map_err DE_Shell (verify_desktop_shell_snapshot E s)) (\<lambda>ok. ensure ok DE_SnapshotVerificationFailed)"

definition validate_control_identifier :: "string \<Rightarrow> string \<Rightarrow> desktop_control_error + unit" where
  "validate_control_identifier field v =
     ensure (\<not> (v = [] \<or> length v > 160 \<or> \<not> list_all (\<lambda>c. is_ascii_alphanumeric c \<or> c \<in> set ''.-_:'') v)) (DE_InvalidIdentifier field)"

definition validate_control_digest :: "string \<Rightarrow> string \<Rightarrow> desktop_control_error + unit" where
  "validate_control_digest field v = ensure (is_sha256 v) (DE_InvalidControlDigest field)"

definition desktop_control_record_digest ::
    "shell_env \<Rightarrow> string \<Rightarrow> serde_error + json \<Rightarrow> desktop_control_error + string" where
  "desktop_control_record_digest E digest_field v = blank_field_digest (she_hasher E) DE_ControlSerialization
     (DE_ControlSerialization ''control record is not an object'') DE_ControlHashing digest_field v"

definition control_status_from_snapshot :: "desktop_shell_snapshot \<Rightarrow> desktop_control_error + desktop_control_status" where
  "control_status_from_snapshot s =
     and_then (ok_or (Option.bind (json_get (dsn_metadata s) ''control_status'') as_str) DE_InvalidControlMetadata) (\<lambda>status.
     if status = ''awaiting_approval'' then Inr DC_AwaitingApproval
     else if status = ''approved'' then Inr DC_Approved
     else if status = ''executed'' then Inr DC_Executed
     else if status = ''cancelled'' then Inr DC_Cancelled
     else if status = ''rolled_back'' then Inr DC_RolledBack
     else Inl DE_InvalidControlMetadata)"

definition identity_prefix :: "string \<Rightarrow> desktop_control_error + string" where
  "identity_prefix digest = and_then (ensure (16 \<le> length digest) DE_SlicePanic) (\<lambda>_. Inr (take 16 digest))"

definition approval_request_value :: "desktop_approval_request \<Rightarrow> json" where
  "approval_request_value r = json_object [
     (''expected_snapshot_digest'', JString (dar_expected_snapshot_digest r)), (''contract_digest'', JString (dar_contract_digest r)),
     (''plan_digest'', JString (dar_plan_digest r)), (''permission_digest'', JString (dar_permission_digest r))]"

definition checked_add :: "'n::len word \<Rightarrow> 'n word \<Rightarrow> 'n word option" where
  "checked_add a b = (if unat a + unat b < 2 ^ LENGTH('n) then Some (a + b) else None)"

definition request_matches ::
    "desktop_shell_snapshot \<Rightarrow> digest_item \<Rightarrow> digest_item \<Rightarrow> approval_summary \<Rightarrow> desktop_approval_request \<Rightarrow> bool" where
  "request_matches s contract plan approval r \<longleftrightarrow>
     \<not> (dsn_unresolved s \<noteq> [] \<or> dgi_status contract \<noteq> Stage_Passed \<or> dgi_status plan \<noteq> Stage_Passed
       \<or> aps_status approval \<noteq> Stage_Pending \<or> dgi_digest contract \<noteq> dar_contract_digest r
       \<or> dgi_digest plan \<noteq> dar_plan_digest r \<or> aps_contract_digest approval \<noteq> dar_contract_digest r
       \<or> aps_plan_digest approval \<noteq> dar_plan_digest r \<or> aps_permission_digest approval \<noteq> dar_permission_digest r)"

definition unsealed_approval ::
    "desktop_shell_snapshot \<Rightarrow> desktop_approval_request \<Rightarrow> string \<Rightarrow> u64 \<Rightarrow> u64 \<Rightarrow> string \<Rightarrow> string \<Rightarrow> desktop_approval_record" where
  "unsealed_approval s r actor_id issued_at expires_at job_id prefix = \<lparr>dap_schema_version = CONTROL_SCHEMA, dap_approval_id = ''approval.desktop.'' @ prefix, dap_job_id = job_id,
     dap_actor_id = actor_id, dap_pre_snapshot_digest = dsn_snapshot_digest s, dap_contract_digest = dar_contract_digest r,
     dap_plan_digest = dar_plan_digest r, dap_permission_digest = dar_permission_digest r,
     dap_issued_at_epoch_s = issued_at, dap_expires_at_epoch_s = expires_at, dap_approval_digest = []\<rparr>"

definition issue_desktop_approval ::
    "shell_env \<Rightarrow> desktop_shell_snapshot \<Rightarrow> desktop_approval_request \<Rightarrow> string \<Rightarrow> u64 \<Rightarrow> u64 \<Rightarrow>
     desktop_control_error + desktop_approval_record" where
  "issue_desktop_approval E s r actor_id issued_at ttl =
     and_then (verify_authoritative_snapshot E s) (\<lambda>_.
     and_then (validate_control_identifier ''actor_id'' actor_id) (\<lambda>_.
     and_then (validate_control_digest ''expected_snapshot_digest'' (dar_expected_snapshot_digest r)) (\<lambda>_.
     and_then (validate_control_digest ''contract_digest'' (dar_contract_digest r)) (\<lambda>_.
     and_then (validate_control_digest ''plan_digest'' (dar_plan_digest r)) (\<lambda>_.
     and_then (validate_control_digest ''permission_digest'' (dar_permission_digest r)) (\<lambda>_.
     and_then (ensure (dar_expected_snapshot_digest r = dsn_snapshot_digest s) DE_StaleSnapshot) (\<lambda>_.
     and_then (control_status_from_snapshot s) (\<lambda>status.
     and_then (ensure (status = DC_AwaitingApproval) DE_InvalidTransition) (\<lambda>_.
     and_then (ensure (\<not> (ttl = 0 \<or> ttl > MAX_APPROVAL_TTL_S)) DE_InvalidApprovalTtl) (\<lambda>_.
     and_then (ok_or (checked_add issued_at ttl) DE_InvalidApprovalTtl) (\<lambda>expires_at.
     and_then (ok_or (dsn_job_id s) DE_MissingBinding) (\<lambda>job_id.
     and_then (ok_or (dsn_contract s) DE_MissingBinding) (\<lambda>contract.
     and_then (ok_or (dsn_plan s) DE_MissingBinding) (\<lambda>plan.
     and_then (ok_or (dsn_approval s) DE_MissingBinding) (\<lambda>approval.
     and_then (ensure (request_matches s contract plan approval r) DE_ApprovalBindingMismatch) (\<lambda>_.
     and_then (map_err DE_ControlHashing (canonical_json_sha256 (she_hasher E) (json_object [
       (''actor_id'', JString actor_id), (''issued_at_epoch_s'', json_nat issued_at), (''job_id'', JString job_id),
       (''request'', approval_request_value r)]))) (\<lambda>identity_digest.
     and_then (identity_prefix identity_digest) (\<lambda>prefix.
     let record = unsealed_approval s r actor_id issued_at expires_at job_id prefix in
     and_then (desktop_control_record_digest E ''approval_digest'' (she_approval_value E record)) (\<lambda>digest.
     Inr (record\<lparr>dap_approval_digest := digest\<rparr>))))))))))))))))))))"

definition verify_desktop_approval :: "shell_env \<Rightarrow> desktop_approval_record \<Rightarrow> desktop_control_error + bool" where
  "verify_desktop_approval E a =
     (if dap_schema_version a \<noteq> CONTROL_SCHEMA then Inr False else
      and_then (validate_control_identifier ''approval_id'' (dap_approval_id a)) (\<lambda>_.
      and_then (validate_control_identifier ''job_id'' (dap_job_id a)) (\<lambda>_.
      and_then (validate_control_identifier ''actor_id'' (dap_actor_id a)) (\<lambda>_.
      and_then (validate_control_digest ''pre_snapshot_digest'' (dap_pre_snapshot_digest a)) (\<lambda>_.
      and_then (validate_control_digest ''contract_digest'' (dap_contract_digest a)) (\<lambda>_.
      and_then (validate_control_digest ''plan_digest'' (dap_plan_digest a)) (\<lambda>_.
      and_then (validate_control_digest ''permission_digest'' (dap_permission_digest a)) (\<lambda>_.
      and_then (validate_control_digest ''approval_digest'' (dap_approval_digest a)) (\<lambda>_.
      if dap_expires_at_epoch_s a \<le> dap_issued_at_epoch_s a then Inr False else
      and_then (desktop_control_record_digest E ''approval_digest'' (she_approval_value E a)) (\<lambda>digest.
      Inr (dap_approval_digest a = digest)))))))))))"

definition approval_bound ::
    "desktop_approval_record \<Rightarrow> string \<Rightarrow> string \<Rightarrow> string \<Rightarrow> digest_item \<Rightarrow> digest_item \<Rightarrow> approval_summary \<Rightarrow> bool" where
  "approval_bound a presented metadata_digest job_id contract plan approval \<longleftrightarrow>
     \<not> (presented \<noteq> dap_approval_digest a \<or> metadata_digest \<noteq> dap_approval_digest a \<or> job_id \<noteq> dap_job_id a
       \<or> dgi_digest contract \<noteq> dap_contract_digest a \<or> dgi_digest plan \<noteq> dap_plan_digest a
       \<or> aps_contract_digest approval \<noteq> dap_contract_digest a \<or> aps_plan_digest approval \<noteq> dap_plan_digest a
       \<or> aps_permission_digest approval \<noteq> dap_permission_digest a \<or> aps_status approval \<noteq> Stage_Passed)"

definition verify_desktop_approval_binding ::
    "shell_env \<Rightarrow> desktop_shell_snapshot \<Rightarrow> desktop_approval_record \<Rightarrow> string \<Rightarrow> desktop_control_error + unit" where
  "verify_desktop_approval_binding E s a presented =
     and_then (verify_authoritative_snapshot E s) (\<lambda>_.
     and_then (verify_desktop_approval E a) (\<lambda>ok.
     and_then (ensure ok DE_ApprovalBindingMismatch) (\<lambda>_.
     and_then (validate_control_digest ''presented_approval_digest'' presented) (\<lambda>_.
     and_then (ok_or (dsn_job_id s) DE_MissingBinding) (\<lambda>job_id.
     and_then (ok_or (dsn_contract s) DE_MissingBinding) (\<lambda>contract.
     and_then (ok_or (dsn_plan s) DE_MissingBinding) (\<lambda>plan.
     and_then (ok_or (dsn_approval s) DE_MissingBinding) (\<lambda>approval.
     and_then (ok_or (Option.bind (json_get (dsn_metadata s) ''approval_digest'') as_str) DE_InvalidControlMetadata) (\<lambda>metadata_digest.
     ensure (approval_bound a presented metadata_digest job_id contract plan approval) DE_ApprovalBindingMismatch)))))))))"

definition verify_desktop_approval_for_execution ::
    "shell_env \<Rightarrow> desktop_shell_snapshot \<Rightarrow> desktop_approval_record \<Rightarrow> string \<Rightarrow> u64 \<Rightarrow> desktop_control_error + unit" where
  "verify_desktop_approval_for_execution E s a presented now =
     and_then (verify_desktop_approval_binding E s a presented) (\<lambda>_.
     and_then (control_status_from_snapshot s) (\<lambda>status.
     and_then (ensure (status = DC_Approved) DE_InvalidTransition) (\<lambda>_.
     ensure (\<not> now > dap_expires_at_epoch_s a) DE_ApprovalExpired)))"

section \<open>Command receipts\<close>

definition action_name :: "desktop_command_action \<Rightarrow> string" where
  "action_name a = (case a of DA_Approve \<Rightarrow> ''approve'' | DA_Execute \<Rightarrow> ''execute'' | DA_Cancel \<Rightarrow> ''cancel'' | DA_Rollback \<Rightarrow> ''rollback'')"

definition unsealed_receipt ::
    "desktop_command_action \<Rightarrow> string \<Rightarrow> desktop_shell_snapshot \<Rightarrow> desktop_shell_snapshot \<Rightarrow> string option \<Rightarrow> u64 \<Rightarrow> string \<Rightarrow> string \<Rightarrow>
     desktop_command_receipt" where
  "unsealed_receipt action actor_id pre post approval_digest issued_at job_id prefix = \<lparr>dcr_schema_version = CONTROL_SCHEMA, dcr_command_id = ''command.desktop.'' @ prefix, dcr_action = action,
     dcr_job_id = job_id, dcr_actor_id = actor_id, dcr_pre_snapshot_digest = dsn_snapshot_digest pre,
     dcr_post_snapshot_digest = dsn_snapshot_digest post, dcr_approval_digest = approval_digest,
     dcr_issued_at_epoch_s = issued_at, dcr_applied = True, dcr_receipt_digest = []\<rparr>"

definition issue_desktop_command_receipt ::
    "shell_env \<Rightarrow> desktop_command_action \<Rightarrow> string \<Rightarrow> desktop_shell_snapshot \<Rightarrow> desktop_shell_snapshot \<Rightarrow> string option \<Rightarrow> u64 \<Rightarrow>
     desktop_control_error + desktop_command_receipt" where
  "issue_desktop_command_receipt E action actor_id pre post approval_digest issued_at =
     and_then (verify_authoritative_snapshot E pre) (\<lambda>_.
     and_then (verify_authoritative_snapshot E post) (\<lambda>_.
     and_then (validate_control_identifier ''actor_id'' actor_id) (\<lambda>_.
     and_then (case approval_digest of None \<Rightarrow> Inr () | Some digest \<Rightarrow> validate_control_digest ''approval_digest'' digest) (\<lambda>_.
     and_then (ok_or (dsn_job_id post) DE_MissingBinding) (\<lambda>job_id.
     and_then (ensure (dsn_job_id pre = Some job_id) DE_ApprovalBindingMismatch) (\<lambda>_.
     and_then (map_err DE_ControlHashing (canonical_json_sha256 (she_hasher E) (json_object [
       (''action'', JString (action_name action)), (''actor_id'', JString actor_id), (''approval_digest'', json_opt approval_digest),
       (''issued_at_epoch_s'', json_nat issued_at), (''post_snapshot_digest'', JString (dsn_snapshot_digest post)),
       (''pre_snapshot_digest'', JString (dsn_snapshot_digest pre))]))) (\<lambda>identity_digest.
     and_then (identity_prefix identity_digest) (\<lambda>prefix.
     let receipt = unsealed_receipt action actor_id pre post approval_digest issued_at job_id prefix in
     and_then (desktop_control_record_digest E ''receipt_digest'' (she_receipt_value E receipt)) (\<lambda>digest.
     Inr (receipt\<lparr>dcr_receipt_digest := digest\<rparr>))))))))))"

definition verify_desktop_command_receipt :: "shell_env \<Rightarrow> desktop_command_receipt \<Rightarrow> desktop_control_error + bool" where
  "verify_desktop_command_receipt E r =
     (if dcr_schema_version r \<noteq> CONTROL_SCHEMA \<or> \<not> dcr_applied r then Inr False else
      and_then (validate_control_identifier ''command_id'' (dcr_command_id r)) (\<lambda>_.
      and_then (validate_control_identifier ''job_id'' (dcr_job_id r)) (\<lambda>_.
      and_then (validate_control_identifier ''actor_id'' (dcr_actor_id r)) (\<lambda>_.
      and_then (validate_control_digest ''pre_snapshot_digest'' (dcr_pre_snapshot_digest r)) (\<lambda>_.
      and_then (validate_control_digest ''post_snapshot_digest'' (dcr_post_snapshot_digest r)) (\<lambda>_.
      and_then (case dcr_approval_digest r of None \<Rightarrow> Inr () | Some digest \<Rightarrow> validate_control_digest ''approval_digest'' digest) (\<lambda>_.
      and_then (validate_control_digest ''receipt_digest'' (dcr_receipt_digest r)) (\<lambda>_.
      and_then (desktop_control_record_digest E ''receipt_digest'' (she_receipt_value E r)) (\<lambda>digest.
      Inr (dcr_receipt_digest r = digest))))))))))"

section \<open>What is sealed verifies\<close>

definition shell_lawful :: "shell_env \<Rightarrow> bool" where
  "shell_lawful E \<longleftrightarrow> lawful_hasher (she_hasher E) \<and>
     sealable ''snapshot_digest'' (\<lambda>d. dsn_snapshot_digest_update (\<lambda>_. d)) (she_snapshot_value E) \<and>
     sealable ''approval_digest'' (\<lambda>d. dap_approval_digest_update (\<lambda>_. d)) (she_approval_value E) \<and>
     sealable ''receipt_digest'' (\<lambda>d. dcr_receipt_digest_update (\<lambda>_. d)) (she_receipt_value E)"

lemma snapshot_digest_seal:
  assumes "shell_lawful E"
  obtains dg where "is_sha256 dg" "shell_snapshot_digest E s = Inr dg" "shell_snapshot_digest E (s\<lparr>dsn_snapshot_digest := dg\<rparr>) = Inr dg"
  using assms blank_field_digest_sealable [of "she_hasher E" "''snapshot_digest''" "\<lambda>d. dsn_snapshot_digest_update (\<lambda>_. d)"
      "she_snapshot_value E" SH_Serialization "SH_Serialization ''snapshot is not an object''" SH_Hashing s]
  unfolding shell_lawful_def shell_snapshot_digest_def by blast

lemma approval_digest_seal:
  assumes "shell_lawful E"
  obtains dg where "is_sha256 dg" "desktop_control_record_digest E ''approval_digest'' (she_approval_value E a) = Inr dg"
    "desktop_control_record_digest E ''approval_digest'' (she_approval_value E (a\<lparr>dap_approval_digest := dg\<rparr>)) = Inr dg"
  using assms blank_field_digest_sealable [of "she_hasher E" "''approval_digest''" "\<lambda>d. dap_approval_digest_update (\<lambda>_. d)"
      "she_approval_value E" DE_ControlSerialization "DE_ControlSerialization ''control record is not an object''" DE_ControlHashing a]
  unfolding shell_lawful_def desktop_control_record_digest_def by blast

lemma receipt_digest_seal:
  assumes "shell_lawful E"
  obtains dg where "is_sha256 dg" "desktop_control_record_digest E ''receipt_digest'' (she_receipt_value E r) = Inr dg"
    "desktop_control_record_digest E ''receipt_digest'' (she_receipt_value E (r\<lparr>dcr_receipt_digest := dg\<rparr>)) = Inr dg"
  using assms blank_field_digest_sealable [of "she_hasher E" "''receipt_digest''" "\<lambda>d. dcr_receipt_digest_update (\<lambda>_. d)"
      "she_receipt_value E" DE_ControlSerialization "DE_ControlSerialization ''control record is not an object''" DE_ControlHashing r]
  unfolding shell_lawful_def desktop_control_record_digest_def by blast

lemma shell_checks [result_simps]:
  "shell_validate_digest field d = Inr u \<longleftrightarrow> is_sha256 d"
  "validate_control_digest field d = Inr u \<longleftrightarrow> is_sha256 d"
  by (simp_all add: shell_validate_digest_def validate_control_digest_def result_simps)

definition control_identifier :: "string \<Rightarrow> bool" where
  "control_identifier v \<longleftrightarrow> v \<noteq> [] \<and> length v \<le> 160 \<and> list_all (\<lambda>c. is_ascii_alphanumeric c \<or> c \<in> set ''.-_:'') v"

lemma validate_control_identifier_ok [result_simps]: "validate_control_identifier field v = Inr u \<longleftrightarrow> control_identifier v"
  by (auto simp: validate_control_identifier_def control_identifier_def result_simps)

lemma lower_hex_alphanumeric: "is_lower_hex c \<Longrightarrow> is_ascii_alphanumeric c"
  by (auto simp: is_lower_hex_def is_ascii_alphanumeric_def)

lemma control_identifier_generated:
  assumes "is_sha256 d" "length p \<le> 100" "list_all (\<lambda>c. is_ascii_alphanumeric c \<or> c \<in> set ''.-_:'') p"
  shows "control_identifier (p @ take 16 d)"
proof -
  have "list_all is_lower_hex (take 16 d)" "take 16 d \<noteq> []" "length (take 16 d) = 16"
    using assms(1) by (auto simp: is_sha256_def list_all_iff dest: in_set_takeD)
  then show ?thesis
    using assms(2,3) lower_hex_alphanumeric by (auto simp: control_identifier_def list_all_iff)
qed

lemma verify_authoritative_iff: "verify_authoritative_snapshot E s = Inr u \<longleftrightarrow> verify_desktop_shell_snapshot E s = Inr True"
  by (auto simp: verify_authoritative_snapshot_def and_then_eq_Inr map_err_eq ensure_eq)

text \<open>
  C28: acceptance is earned. A snapshot that the shell builds verifies, and it claims that the
  job is accepted exactly if no question is open and it carries a certificate whose signature
  and bundle were verified, whose decision is acceptance and which counts no failed and no
  unknown mandatory obligation.
\<close>

theorem built_snapshot_acceptance:
  assumes "shell_lawful E" "build_desktop_shell_snapshot E m = Inr s"
  shows "verify_desktop_shell_snapshot E s = Inr True \<and>
    (dsn_authority_status s = AS_VerifiedAccepted \<longleftrightarrow>
       dsn_unresolved s = [] \<and> (\<exists>c. dsn_certificate s = Some c \<and> cvf_signature_verified c \<and> cvf_bundle_verified c \<and>
         cvf_decision_accepted c \<and> cvf_mandatory_unknowns c = 0 \<and> cvf_mandatory_failures c = 0))"
proof
  let ?s0 = "unsealed_snapshot m"
  from assms(2) obtain dg where s: "s = ?s0\<lparr>dsn_snapshot_digest := dg\<rparr>" "shell_snapshot_digest E ?s0 = Inr dg"
    and c: "(case dm_certificate m of None \<Rightarrow> Inr () | Some c \<Rightarrow> validate_certificate c) = Inr ()"
    unfolding build_desktop_shell_snapshot_def Let_def by (auto simp: and_then_eq_Inr ensure_eq)
  have f: "dsn_authority_status ?s0 = derive_authority_status m" "dsn_unresolved ?s0 = dm_unresolved m"
    "dsn_certificate ?s0 = dm_certificate m" by (simp_all add: unsealed_snapshot_def)
  obtain dg' where "is_sha256 dg'" "shell_snapshot_digest E ?s0 = Inr dg'" "shell_snapshot_digest E (?s0\<lparr>dsn_snapshot_digest := dg'\<rparr>) = Inr dg'"
    using assms(1) by (rule snapshot_digest_seal)
  then show "verify_desktop_shell_snapshot E s = Inr True" using s f(3) c by (simp add: verify_desktop_shell_snapshot_def)
  show "dsn_authority_status s = AS_VerifiedAccepted \<longleftrightarrow>
      dsn_unresolved s = [] \<and> (\<exists>c. dsn_certificate s = Some c \<and> cvf_signature_verified c \<and> cvf_bundle_verified c \<and>
        cvf_decision_accepted c \<and> cvf_mandatory_unknowns c = 0 \<and> cvf_mandatory_failures c = 0)"
    unfolding s(1) using f(1-3) by (auto simp: derive_authority_status_def certificate_complete_def split: option.splits if_splits)
qed

lemma issue_desktop_approval_ok:
  assumes "issue_desktop_approval E s r actor_id issued_at ttl = Inr a"
  obtains job_id contract plan approval expires_at identity_digest dg where
    "verify_desktop_shell_snapshot E s = Inr True" "control_identifier actor_id"
    "is_sha256 (dar_expected_snapshot_digest r)" "is_sha256 (dar_contract_digest r)" "is_sha256 (dar_plan_digest r)"
    "is_sha256 (dar_permission_digest r)" "dar_expected_snapshot_digest r = dsn_snapshot_digest s"
    "control_status_from_snapshot s = Inr DC_AwaitingApproval" "ttl \<noteq> 0" "ttl \<le> 3600"
    "checked_add issued_at ttl = Some expires_at" "dsn_job_id s = Some job_id"
    "request_matches s contract plan approval r"
    "canonical_json_sha256 (she_hasher E) (json_object [
       (''actor_id'', JString actor_id), (''issued_at_epoch_s'', json_nat issued_at), (''job_id'', JString job_id),
       (''request'', approval_request_value r)]) = Inr identity_digest"
    "desktop_control_record_digest E ''approval_digest''
       (she_approval_value E (unsealed_approval s r actor_id issued_at expires_at job_id (take 16 identity_digest))) = Inr dg"
    "a = (unsealed_approval s r actor_id issued_at expires_at job_id (take 16 identity_digest))\<lparr>dap_approval_digest := dg\<rparr>"
  using assms unfolding issue_desktop_approval_def Let_def
  by (auto simp: and_then_eq_Inr map_err_eq ok_or_eq ensure_eq shell_checks validate_control_identifier_ok identity_prefix_def
      verify_authoritative_iff MAX_APPROVAL_TTL_S_def linorder_not_less intro: that)

lemma checked_add_ok: "checked_add a b = Some c \<Longrightarrow> unat c = unat a + unat b"
  by (auto simp: checked_add_def unat_word_ariths(1) split: if_splits)

lemma issued_approval_verifies:
  assumes "shell_lawful E" "issue_desktop_approval E s r actor_id issued_at ttl = Inr a"
    "dsn_job_id s = Some job_id" "control_identifier job_id"
  shows "verify_desktop_approval E a = Inr True" "is_sha256 (dap_approval_digest a)" "dap_job_id a = job_id"
    "dap_contract_digest a = dar_contract_digest r" "dap_plan_digest a = dar_plan_digest r"
    "dap_permission_digest a = dar_permission_digest r" "unat (dap_expires_at_epoch_s a) = unat issued_at + unat ttl"
    "unat ttl \<le> 3600"
proof -
  obtain contract plan approval expires_at identity_digest dg where
    s: "verify_desktop_shell_snapshot E s = Inr True" "control_identifier actor_id"
      "is_sha256 (dar_expected_snapshot_digest r)" "is_sha256 (dar_contract_digest r)" "is_sha256 (dar_plan_digest r)"
      "is_sha256 (dar_permission_digest r)" "dar_expected_snapshot_digest r = dsn_snapshot_digest s"
    and ttl: "ttl \<noteq> 0" "ttl \<le> 3600" "checked_add issued_at ttl = Some expires_at"
    and hash: "canonical_json_sha256 (she_hasher E) (json_object [
       (''actor_id'', JString actor_id), (''issued_at_epoch_s'', json_nat issued_at), (''job_id'', JString job_id),
       (''request'', approval_request_value r)]) = Inr identity_digest"
    and dg: "desktop_control_record_digest E ''approval_digest''
       (she_approval_value E (unsealed_approval s r actor_id issued_at expires_at job_id (take 16 identity_digest))) = Inr dg"
    and a: "a = (unsealed_approval s r actor_id issued_at expires_at job_id (take 16 identity_digest))\<lparr>dap_approval_digest := dg\<rparr>"
    using assms(2,3) by (elim issue_desktop_approval_ok) auto
  let ?a0 = "unsealed_approval s r actor_id issued_at expires_at job_id (take 16 identity_digest)"
  have id: "is_sha256 identity_digest"
    using lawful_hasher_digests [of "she_hasher E"] assms(1) hash unfolding shell_lawful_def by (metis Inr_inject)
  have "control_identifier (''approval.desktop.'' @ take 16 identity_digest)"
    using id by (rule control_identifier_generated) code_simp+
  moreover obtain dg' where "is_sha256 dg'" "desktop_control_record_digest E ''approval_digest'' (she_approval_value E ?a0) = Inr dg'"
    "desktop_control_record_digest E ''approval_digest'' (she_approval_value E (?a0\<lparr>dap_approval_digest := dg'\<rparr>)) = Inr dg'"
    using assms(1) by (rule approval_digest_seal)
  moreover have sum: "unat expires_at = unat issued_at + unat ttl" using ttl(3) by (rule checked_add_ok)
  moreover have "0 < unat ttl" using ttl(1) by (simp add: unat_gt_0)
  moreover from this sum have "\<not> expires_at \<le> issued_at" by (simp add: word_le_nat_alt)
  ultimately show "verify_desktop_approval E a = Inr True" "is_sha256 (dap_approval_digest a)"
    "unat (dap_expires_at_epoch_s a) = unat issued_at + unat ttl"
    using assms(4) s dg unfolding a verify_desktop_approval_def
    by (simp_all add: unsealed_approval_def result_simps)
  show "dap_job_id a = job_id"
    "dap_contract_digest a = dar_contract_digest r" "dap_plan_digest a = dar_plan_digest r"
    "dap_permission_digest a = dar_permission_digest r" unfolding a by (simp_all add: unsealed_approval_def)
  show "unat ttl \<le> 3600" using ttl(2) by (simp add: word_le_nat_alt)
qed

text \<open>What a snapshot has to show for an approval: the same job, contract, plan and permissions, passed.\<close>

definition shows_approval :: "desktop_shell_snapshot \<Rightarrow> string \<Rightarrow> desktop_approval_request \<Rightarrow> string \<Rightarrow> bool" where
  "shows_approval s job_id r approval_digest \<longleftrightarrow> dsn_job_id s = Some job_id \<and>
     map_option dgi_digest (dsn_contract s) = Some (dar_contract_digest r) \<and>
     map_option dgi_digest (dsn_plan s) = Some (dar_plan_digest r) \<and>
     (\<exists>p. dsn_approval s = Some p \<and> aps_status p = Stage_Passed \<and> aps_contract_digest p = dar_contract_digest r \<and>
        aps_plan_digest p = dar_plan_digest r \<and> aps_permission_digest p = dar_permission_digest r) \<and>
     Option.bind (json_get (dsn_metadata s) ''approval_digest'') as_str = Some approval_digest"

text \<open>
  C29: what an approval is good for. Let an approval be issued on a snapshot of a job whose
  identifier is a control identifier. Any snapshot then authorises an execution with it exactly
  if that snapshot verifies, is in the approved state and shows the same job, the contract, plan
  and permission digests that were asked for and this approval, the approval digest presented is
  this one, and the time to live that was asked for, at most an hour, is not over. The digest of
  the snapshot itself is not compared; the snapshot the approval was issued on, which still
  awaits approval, is always refused.
\<close>

theorem approval_authorises_exactly:
  assumes "shell_lawful E" "issue_desktop_approval E s r actor_id issued_at ttl = Inr a"
    "dsn_job_id s = Some job_id" "control_identifier job_id"
  shows "unat ttl \<le> 3600 \<and> verify_desktop_approval_for_execution E s a presented now \<noteq> Inr () \<and>
    (verify_desktop_approval_for_execution E s' a presented now = Inr () \<longleftrightarrow>
    verify_desktop_shell_snapshot E s' = Inr True \<and> control_status_from_snapshot s' = Inr DC_Approved \<and>
    shows_approval s' job_id r (dap_approval_digest a) \<and> presented = dap_approval_digest a \<and>
    unat now \<le> unat issued_at + unat ttl)"
proof -
  note a = issued_approval_verifies [OF assms]
  have "now \<le> dap_expires_at_epoch_s a \<longleftrightarrow> unat now \<le> unat issued_at + unat ttl" by (simp add: word_le_nat_alt a(7))
  moreover have "verify_desktop_approval_binding E s' a presented = Inr () \<longleftrightarrow>
      verify_desktop_shell_snapshot E s' = Inr True \<and> shows_approval s' job_id r (dap_approval_digest a) \<and>
      presented = dap_approval_digest a"
    unfolding verify_desktop_approval_binding_def shows_approval_def
    by (auto simp: and_then_eq_Inr ok_or_eq ensure_eq shell_checks verify_authoritative_iff approval_bound_def a(1-6))
  moreover have "control_status_from_snapshot s = Inr DC_AwaitingApproval"
    using assms(2) by (rule issue_desktop_approval_ok)
  then have "verify_desktop_approval_for_execution E s a presented now \<noteq> Inr ()"
    by (auto simp: verify_desktop_approval_for_execution_def and_then_eq_Inr ensure_eq)
  ultimately show ?thesis
    using a(8) by (auto simp: verify_desktop_approval_for_execution_def and_then_eq_Inr ensure_eq linorder_not_less)
qed

section \<open>An example\<close>

definition demo_shell_env :: shell_env where
  "demo_shell_env = \<lparr>she_hasher = demo_prod_hasher, she_snapshot_value = (\<lambda>_. Inr (JObject [])),
     she_approval_value = (\<lambda>_. Inr (JObject [])), she_receipt_value = (\<lambda>_. Inr (JObject []))\<rparr>"

definition demo_item :: digest_item where
  "demo_item = \<lparr>dgi_id = ''x'', dgi_media_type = None, dgi_digest = demo_zero_digest, dgi_status = Stage_Passed\<rparr>"

definition demo_summary :: "stage_status \<Rightarrow> approval_summary" where
  "demo_summary status = \<lparr>aps_approval_id = ''p'', aps_contract_digest = demo_zero_digest, aps_plan_digest = demo_zero_digest,
     aps_permission_digest = demo_zero_digest, aps_expires_at_epoch_s = 1000, aps_status = status\<rparr>"

definition demo_certificate_verification :: certificate_verification where
  "demo_certificate_verification = \<lparr>cvf_certificate_id = ''c'', cvf_certificate_digest = demo_zero_digest,
     cvf_evidence_bundle_digest = demo_zero_digest, cvf_signature_verified = True, cvf_bundle_verified = True,
     cvf_decision_accepted = True, cvf_mandatory_unknowns = 0, cvf_mandatory_failures = 0\<rparr>"

definition demo_material :: "string \<Rightarrow> stage_status \<Rightarrow> certificate_verification option \<Rightarrow> desktop_shell_material" where
  "demo_material status approval certificate = \<lparr>dm_generated_at = ''t'', dm_job_id = Some ''job'', dm_unresolved = [],
     dm_staged_inputs = [], dm_contract = Some demo_item, dm_approval = Some (demo_summary approval), dm_plan = Some demo_item,
     dm_steps = [], dm_validators = [], dm_evidence_bundle = None, dm_replay_manifest = None, dm_certificate = certificate,
     dm_profession_capsules = [], dm_adapters = [], dm_trusted_keys = [],
     dm_metadata = json_object [(''control_status'', JString status), (''approval_digest'', JString demo_zero_digest)]\<rparr>"

definition demo_snapshot :: "string \<Rightarrow> stage_status \<Rightarrow> certificate_verification option \<Rightarrow> desktop_shell_snapshot" where
  "demo_snapshot status approval certificate =
     (unsealed_snapshot (demo_material status approval certificate))\<lparr>dsn_snapshot_digest := demo_zero_digest\<rparr>"

definition demo_request :: desktop_approval_request where
  "demo_request = \<lparr>dar_expected_snapshot_digest = demo_zero_digest, dar_contract_digest = demo_zero_digest,
     dar_plan_digest = demo_zero_digest, dar_permission_digest = demo_zero_digest\<rparr>"

lemma demo_shell_lawful: "shell_lawful demo_shell_env"
  using demo_prod_hasher_lawful by (simp add: shell_lawful_def demo_shell_env_def sealable_def)

lemma demo_shell_digests [simp]:
  "she_hasher demo_shell_env = demo_prod_hasher" "shell_snapshot_digest demo_shell_env s = Inr demo_zero_digest"
  "desktop_control_record_digest demo_shell_env f (she_approval_value demo_shell_env a) = Inr demo_zero_digest"
  "desktop_control_record_digest demo_shell_env f (she_receipt_value demo_shell_env r) = Inr demo_zero_digest"
  by (simp_all add: demo_shell_env_def shell_snapshot_digest_def desktop_control_record_digest_def)

lemma demo_not_blank: "\<not> blank ''c''" "\<not> blank ''t''"
  by code_simp+

lemma demo_snapshot_built:
  "build_desktop_shell_snapshot demo_shell_env (demo_material status approval (Some demo_certificate_verification)) =
     Inr (demo_snapshot status approval (Some demo_certificate_verification))"
  by (simp add: build_desktop_shell_snapshot_def demo_material_def demo_snapshot_def validate_material_digests_def
      validate_optional_item_def shell_validate_digest_def try_for_each_def demo_item_def demo_summary_def validate_certificate_def
      demo_certificate_verification_def demo_not_blank)

theorem built_snapshot_acceptance_witness:
  "verify_desktop_shell_snapshot demo_shell_env (demo_snapshot ''executed'' Stage_Passed (Some demo_certificate_verification)) = Inr True \<and>
   dsn_authority_status (demo_snapshot ''executed'' Stage_Passed (Some demo_certificate_verification)) = AS_VerifiedAccepted"
proof -
  let ?s = "demo_snapshot ''executed'' Stage_Passed (Some demo_certificate_verification)"
  have "dsn_unresolved ?s = []" "dsn_certificate ?s = Some demo_certificate_verification" "cvf_signature_verified demo_certificate_verification"
    "cvf_bundle_verified demo_certificate_verification" "cvf_decision_accepted demo_certificate_verification"
    "cvf_mandatory_unknowns demo_certificate_verification = 0" "cvf_mandatory_failures demo_certificate_verification = 0"
    by (simp_all add: demo_snapshot_def unsealed_snapshot_def demo_material_def demo_certificate_verification_def)
  then show ?thesis using built_snapshot_acceptance [OF demo_shell_lawful demo_snapshot_built [of "''executed''" Stage_Passed]] by simp
qed

lemma demo_snapshot_verifies: "verify_desktop_shell_snapshot demo_shell_env (demo_snapshot status approval None) = Inr True"
  by (simp add: verify_desktop_shell_snapshot_def) (simp add: demo_snapshot_def unsealed_snapshot_def demo_material_def)

lemma demo_status:
  "control_status_from_snapshot (demo_snapshot ''awaiting_approval'' approval c) = Inr DC_AwaitingApproval"
  "control_status_from_snapshot (demo_snapshot ''approved'' approval c) = Inr DC_Approved"
  by (simp_all add: control_status_from_snapshot_def demo_snapshot_def unsealed_snapshot_def demo_material_def as_str_def)

lemma demo_approval_issued:
  "issue_desktop_approval demo_shell_env (demo_snapshot ''awaiting_approval'' Stage_Pending None) demo_request ''me'' 100 60 =
   Inr ((unsealed_approval (demo_snapshot ''awaiting_approval'' Stage_Pending None) demo_request ''me'' 100 160 ''job''
     (take 16 demo_zero_digest))\<lparr>dap_approval_digest := demo_zero_digest\<rparr>)"
proof -
  let ?s = "demo_snapshot ''awaiting_approval'' Stage_Pending None"
  have s: "dsn_job_id ?s = Some ''job''" "dsn_contract ?s = Some demo_item" "dsn_plan ?s = Some demo_item"
    "dsn_approval ?s = Some (demo_summary Stage_Pending)" "dsn_snapshot_digest ?s = demo_zero_digest"
    "request_matches ?s demo_item demo_item (demo_summary Stage_Pending) demo_request"
    by (simp_all add: demo_snapshot_def unsealed_snapshot_def demo_material_def request_matches_def demo_item_def demo_summary_def demo_request_def)
  have v: "verify_authoritative_snapshot demo_shell_env ?s = Inr ()" by (simp add: verify_authoritative_iff demo_snapshot_verifies)
  have i: "validate_control_identifier ''actor_id'' ''me'' = Inr ()" "identity_prefix demo_zero_digest = Inr (take 16 demo_zero_digest)" by code_simp+
  have t: "checked_add 100 60 = Some (160 :: u64)" "(60 :: u64) \<le> 3600" by (simp_all add: checked_add_def)
  show ?thesis
    unfolding issue_desktop_approval_def v i s demo_status Let_def
    using s(6) t by (simp add: demo_request_def validate_control_digest_def MAX_APPROVAL_TTL_S_def i)
qed

theorem approval_authorises_exactly_witness:
  "\<exists>a. issue_desktop_approval demo_shell_env (demo_snapshot ''awaiting_approval'' Stage_Pending None) demo_request ''me'' 100 60 = Inr a \<and>
     verify_desktop_approval_for_execution demo_shell_env (demo_snapshot ''approved'' Stage_Passed None) a demo_zero_digest 160 = Inr () \<and>
     verify_desktop_approval_for_execution demo_shell_env (demo_snapshot ''approved'' Stage_Passed None) a demo_zero_digest 161 \<noteq> Inr ()"
proof -
  let ?s = "demo_snapshot ''awaiting_approval'' Stage_Pending None" and ?s' = "demo_snapshot ''approved'' Stage_Passed None"
  let ?a = "(unsealed_approval ?s demo_request ''me'' 100 160 ''job'' (take 16 demo_zero_digest))\<lparr>dap_approval_digest := demo_zero_digest\<rparr>"
  have "dsn_job_id ?s = Some ''job''" by (simp add: demo_snapshot_def unsealed_snapshot_def demo_material_def)
  moreover have "control_identifier ''job''" by code_simp
  moreover have "shows_approval ?s' ''job'' demo_request demo_zero_digest"
    by (simp add: shows_approval_def as_str_def demo_snapshot_def unsealed_snapshot_def demo_material_def demo_item_def demo_summary_def demo_request_def)
  moreover note demo_snapshot_verifies [of "''approved''" Stage_Passed] demo_status
  ultimately have "verify_desktop_approval_for_execution demo_shell_env ?s' ?a demo_zero_digest now = Inr () \<longleftrightarrow> unat now \<le> 160" for now
    using approval_authorises_exactly [OF demo_shell_lawful demo_approval_issued, where job_id = "''job''" and s' = ?s'
        and presented = demo_zero_digest and now = now] by simp
  from this [of 160] this [of 161] show ?thesis using demo_approval_issued by (intro exI conjI) simp_all
qed

end
