(* ===== verification/Issuance.thy ===== *)
theory Issuance
  imports Capability Attestation ProductionService
begin

text \<open>
  Issuance through a signer: the capability and attestation issuers
  (\<^verbatim>\<open>crates/capability-issuance-runtime\<close>, \<^verbatim>\<open>crates/attestation-issuance-runtime\<close>),
  the verification of what the production signer signed (\<^verbatim>\<open>capability-runtime\<close>,
  \<^verbatim>\<open>attestation-runtime/src/production_verifier.rs\<close>) and both under the registry of
  key generations (\<^verbatim>\<open>crates/windows-production-governed-issuance-runtime\<close>). The
  transport to the signer is an argument: a function from requests to responses. The lemmas
  show that what an authority issues its verifier accepts, and what acceptance proves.
\<close>

section \<open>Data\<close>

record capability_token_draft =
  ctd_token_id :: string
  ctd_subject :: capability_subject
  ctd_issued_at_epoch_s :: u64
  ctd_not_before_epoch_s :: u64
  ctd_expires_at_epoch_s :: u64
  ctd_max_uses :: u32
  ctd_nonce :: string
  ctd_bindings :: capability_bindings
  ctd_grant :: capability_grant

record production_capability_token =
  pct_payload :: capability_token_payload
  pct_signer_package :: authorized_signer_package

record attestation_certificate_draft =
  acd_manifest_id :: string
  acd_certificate_id :: string
  acd_issued_at_epoch_s :: u64

record production_acceptance_certificate =
  pac_payload :: acceptance_certificate_payload
  pac_signer_package :: authorized_signer_package

record production_attestation_package =
  pap_replay_manifest :: replay_manifest
  pap_certificate :: production_acceptance_certificate

record prepared_attestation =
  pra_replay_manifest :: replay_manifest
  pra_payload :: acceptance_certificate_payload
  pra_payload_digest :: string
  pra_request_id :: string

type_synonym transport_error = string

datatype (plugins only: code size) capability_issuance_error =
    CI_SignerClient transport_error
  | CI_ProductionTransport transport_error
  | CI_InvalidTemporalBounds
  | CI_InvalidMaxUses
  | CI_NonceTooShort
  | CI_SignerRequestIdMismatch
  | CI_SignerRoleMismatch
  | CI_SignerIssuerMismatch
  | CI_SignerKeyMismatch
  | CI_SignerDigestMismatch
  | CI_SignerPublicKeyMismatch
  | CI_Serialization serde_error
  | CI_Hashing hashing_error
  | CI_SignerProtocol signer_protocol_error
  | CI_ProductionProtocol production_protocol_error
  | CI_ProductionSigner production_service_error

datatype (plugins only: code size) attestation_issuance_error =
    AN_SignerClient transport_error
  | AN_ProductionTransport transport_error
  | AN_Evidence evidence_bundle_error
  | AN_BundleDecode serde_error
  | AN_Serialization serde_error
  | AN_Hashing hashing_error
  | AN_ManifestBuild attestation_issue_error
  | AN_SignerProtocol signer_protocol_error
  | AN_ProductionProtocol production_protocol_error
  | AN_ProductionSigner production_service_error
  | AN_DecisionNotAccepted decision_status
  | AN_InvalidAcceptedCounts
  | AN_InvalidIssuedAt
  | AN_SignerRequestIdMismatch
  | AN_SignerRoleMismatch
  | AN_SignerIssuerMismatch
  | AN_SignerKeyMismatch
  | AN_SignerDigestMismatch
  | AN_SignerPublicKeyMismatch

text \<open>
  The errors of the authorizer on a production token: those of the capability runtime and the
  one that \<open>capability_error\<close> leaves out because the signer service comes later.
\<close>

datatype (plugins only: code size) production_capability_error =
    PCE_Capability capability_error
  | PCE_ProductionSigner production_service_error

datatype (plugins only: code size) production_attestation_verify_error =
    PAV_UnsupportedManifestSchema string
  | PAV_UnsupportedCertificateSchema string
  | PAV_SignerRoleMismatch
  | PAV_SignerIssuerMismatch
  | PAV_SignerKeyMismatch
  | PAV_SignerDigestMismatch
  | PAV_DecisionNotAccepted
  | PAV_InvalidAcceptedCounts
  | PAV_ManifestDigestMismatch
  | PAV_ManifestPayloadMismatch string
  | PAV_Serialization serde_error
  | PAV_BundleDecode serde_error
  | PAV_RecomputedManifestMismatch
  | PAV_RecomputedDecisionNotAccepted
  | PAV_ProductionSigner production_service_error
  | PAV_Hashing hashing_error
  | PAV_Evidence evidence_bundle_error
  | PAV_ManifestBuild attestation_issue_error

datatype (plugins only: code size) governed_issuance_error =
    GI_TrustRegistryMismatch
  | GI_SigningKeyNotActive
  | GI_Json serde_error
  | GI_CapabilityIssuance capability_issuance_error
  | GI_CapabilityAuthorization production_capability_error
  | GI_AttestationIssuance attestation_issuance_error
  | GI_AttestationVerification production_attestation_verify_error
  | GI_Signer production_service_error
  | GI_Governance production_key_error

text \<open>The third-party operations: those of the three crates and the encoders of the production documents.\<close>

record issuance_env =
  isv_capability :: capability_env
  isv_attestation :: attestation_env
  isv_service :: service_env
  isv_decode_token :: "json \<Rightarrow> serde_error + production_capability_token"
  isv_token_value :: "production_capability_token \<Rightarrow> serde_error + json"
  isv_certificate_value :: "production_acceptance_certificate \<Rightarrow> serde_error + json"

type_synonym signer_transport = "signer_request \<Rightarrow> transport_error + signer_response"
type_synonym production_transport = "production_signer_request \<Rightarrow> transport_error + authorized_signer_package"

section \<open>Capability issuance\<close>

definition CAPABILITY_TOKEN_SCHEMA :: string where "CAPABILITY_TOKEN_SCHEMA = ''0.1.0''"
definition TOKEN_ISSUER_ID :: string where "TOKEN_ISSUER_ID = ''ergaxiom.policy-authority''"
definition TOKEN_KEY_ID :: string where "TOKEN_KEY_ID = ''capability-key-v1''"
definition CAPABILITY_REQUEST_ID_PREFIX :: string where "CAPABILITY_REQUEST_ID_PREFIX = ''capability.issue.''"

definition validate_token_draft :: "capability_token_draft \<Rightarrow> capability_issuance_error + unit" where
  "validate_token_draft d =
     and_then (map_err CI_SignerProtocol (validate_identifier ''token_id'' (ctd_token_id d))) (\<lambda>_.
     and_then (map_err CI_SignerProtocol (validate_identifier ''executor_id'' (sub_executor_id (ctd_subject d)))) (\<lambda>_.
     and_then (case sub_device_id (ctd_subject d) of None \<Rightarrow> Inr ()
       | Some device_id \<Rightarrow> map_err CI_SignerProtocol (validate_identifier ''device_id'' device_id)) (\<lambda>_.
     and_then (map_err CI_SignerProtocol (validate_identifier ''plan_id'' (cb_plan_id (ctd_bindings d)))) (\<lambda>_.
     and_then (map_err CI_SignerProtocol (validate_identifier ''step_id'' (cb_step_id (ctd_bindings d)))) (\<lambda>_.
     and_then (map_err CI_SignerProtocol (validate_identifier ''operator_id'' (cb_operator_id (ctd_bindings d)))) (\<lambda>_.
     and_then (map_err CI_SignerProtocol (validate_sha256 (cb_contract_digest (ctd_bindings d)))) (\<lambda>_.
     and_then (map_err CI_SignerProtocol (validate_sha256 (cb_capsule_digest (ctd_bindings d)))) (\<lambda>_.
     and_then (map_err CI_SignerProtocol (validate_sha256 (cb_plan_digest (ctd_bindings d)))) (\<lambda>_.
     and_then (ensure (\<not> (ctd_issued_at_epoch_s d > ctd_not_before_epoch_s d \<or> ctd_not_before_epoch_s d \<ge> ctd_expires_at_epoch_s d
       \<or> ctd_issued_at_epoch_s d \<ge> ctd_expires_at_epoch_s d)) CI_InvalidTemporalBounds) (\<lambda>_.
     and_then (ensure (ctd_max_uses d \<noteq> 0) CI_InvalidMaxUses) (\<lambda>_.
     ensure (\<not> length (ctd_nonce d) < 16) CI_NonceTooShort)))))))))))"

definition token_payload_for :: "capability_token_draft \<Rightarrow> capability_token_payload" where
  "token_payload_for d = \<lparr>ct_schema_version = CAPABILITY_TOKEN_SCHEMA, ct_token_id = ctd_token_id d,
     ct_issuer_id = TOKEN_ISSUER_ID, ct_key_id = TOKEN_KEY_ID, ct_subject = ctd_subject d,
     ct_issued_at_epoch_s = ctd_issued_at_epoch_s d, ct_not_before_epoch_s = ctd_not_before_epoch_s d,
     ct_expires_at_epoch_s = ctd_expires_at_epoch_s d, ct_max_uses = ctd_max_uses d, ct_nonce = ctd_nonce d,
     ct_bindings = ctd_bindings d, ct_grant = ctd_grant d\<rparr>"

definition payload_from_draft :: "capability_token_draft \<Rightarrow> capability_issuance_error + capability_token_payload" where
  "payload_from_draft d = and_then (validate_token_draft d) (\<lambda>_. Inr (token_payload_for d))"

definition token_payload_digest :: "issuance_env \<Rightarrow> capability_token_payload \<Rightarrow> capability_issuance_error + string" where
  "token_payload_digest V p =
     and_then (map_err CI_Serialization (ce_payload_value (isv_capability V) p)) (\<lambda>v.
     map_err CI_Hashing (canonical_json_sha256 (sn_hasher (ce_signer (isv_capability V))) v))"

definition capability_request_id :: "string \<Rightarrow> capability_issuance_error + string" where
  "capability_request_id digest =
     and_then (map_err CI_SignerProtocol (validate_sha256 digest)) (\<lambda>_. Inr (CAPABILITY_REQUEST_ID_PREFIX @ take 48 digest))"

definition token_response_public_key :: "signer_response \<Rightarrow> capability_issuance_error + u8 list" where
  "token_response_public_key response =
     (case response of
        SR_Success _ (DigestSigned key_hex _ _ _ _ _) \<Rightarrow>
          map_err (\<lambda>_. CI_SignerProtocol SP_InvalidHexEncoding) (decode_hex_32 key_hex)
      | _ \<Rightarrow> Inl (CI_SignerProtocol SP_ResponseDoesNotContainSignature))"

definition capability_issue ::
    "issuance_env \<Rightarrow> signer_transport \<Rightarrow> u8 list \<Rightarrow> capability_token_draft \<Rightarrow>
     capability_issuance_error + signer_bound_capability_token" where
  "capability_issue V invoke expected_public_key draft =
     and_then (payload_from_draft draft) (\<lambda>payload.
     and_then (token_payload_digest V payload) (\<lambda>payload_digest.
     and_then (capability_request_id payload_digest) (\<lambda>request_id.
     and_then (map_err CI_SignerClient
       (invoke (sign_digest request_id IR_Capability TOKEN_ISSUER_ID TOKEN_KEY_ID payload_digest))) (\<lambda>response.
     and_then (map_err CI_SignerProtocol (verify_digest_signature (ce_signer (isv_capability V)) response)) (\<lambda>envelope.
     and_then (ensure (se_request_id envelope = request_id) CI_SignerRequestIdMismatch) (\<lambda>_.
     and_then (ensure (se_role envelope = IR_Capability) CI_SignerRoleMismatch) (\<lambda>_.
     and_then (ensure (se_issuer_id envelope = TOKEN_ISSUER_ID) CI_SignerIssuerMismatch) (\<lambda>_.
     and_then (ensure (se_key_id envelope = TOKEN_KEY_ID) CI_SignerKeyMismatch) (\<lambda>_.
     and_then (ensure (se_digest envelope = payload_digest) CI_SignerDigestMismatch) (\<lambda>_.
     and_then (token_response_public_key response) (\<lambda>key.
     and_then (ensure (key = expected_public_key) CI_SignerPublicKeyMismatch) (\<lambda>_.
     Inr \<lparr>sb_payload = payload, sb_signer_response = response\<rparr>))))))))))))"

definition production_capability_new ::
    "production_signer_trust_snapshot \<Rightarrow> capability_issuance_error + production_signer_trust_snapshot" where
  "production_capability_new trust =
     and_then (map_err CI_ProductionSigner (trust_validate_for trust policy_capability)) (\<lambda>_. Inr trust)"

definition production_capability_issue ::
    "issuance_env \<Rightarrow> production_transport \<Rightarrow> production_signer_trust_snapshot \<Rightarrow> capability_token_draft \<Rightarrow>
     capability_issuance_error + production_capability_token" where
  "production_capability_issue V invoke trust draft =
     and_then (payload_from_draft draft) (\<lambda>payload.
     and_then (token_payload_digest V payload) (\<lambda>payload_digest.
     and_then (capability_request_id payload_digest) (\<lambda>request_id.
     and_then (map_err CI_ProductionProtocol
       (prod_sign_digest (sv_protocol (isv_service V)) request_id policy_capability payload_digest)) (\<lambda>request.
     and_then (map_err CI_ProductionTransport (invoke request)) (\<lambda>package.
     and_then (map_err CI_ProductionSigner (verify_trusted (isv_service V) package trust)) (\<lambda>envelope.
     and_then (ensure (qr_request_id (qe_request envelope) = request_id) CI_SignerRequestIdMismatch) (\<lambda>_.
     and_then (ensure (ki_role (qr_identity (qe_request envelope)) = IR_Capability) CI_SignerRoleMismatch) (\<lambda>_.
     and_then (ensure (ki_issuer_id (qr_identity (qe_request envelope)) = TOKEN_ISSUER_ID) CI_SignerIssuerMismatch) (\<lambda>_.
     and_then (ensure (ki_key_id (qr_identity (qe_request envelope)) = TOKEN_KEY_ID) CI_SignerKeyMismatch) (\<lambda>_.
     and_then (ensure (qr_digest (qe_request envelope) = payload_digest) CI_SignerDigestMismatch) (\<lambda>_.
     Inr \<lparr>pct_payload = payload, pct_signer_package = package\<rparr>)))))))))))"

section \<open>Attestation issuance\<close>

definition ISSUANCE_CERTIFICATE_SCHEMA :: string where "ISSUANCE_CERTIFICATE_SCHEMA = ''0.1.0''"
definition CERTIFICATE_ISSUER_ID :: string where "CERTIFICATE_ISSUER_ID = ''ergaxiom.attestation-authority''"
definition CERTIFICATE_KEY_ID :: string where "CERTIFICATE_KEY_ID = ''attestation-key-v1''"
definition ATTESTATION_REQUEST_ID_PREFIX :: string where "ATTESTATION_REQUEST_ID_PREFIX = ''attestation.issue.''"

definition validate_certificate_draft :: "attestation_certificate_draft \<Rightarrow> attestation_issuance_error + unit" where
  "validate_certificate_draft d =
     and_then (map_err AN_SignerProtocol (validate_identifier ''manifest_id'' (acd_manifest_id d))) (\<lambda>_.
     and_then (map_err AN_SignerProtocol (validate_identifier ''certificate_id'' (acd_certificate_id d))) (\<lambda>_.
     ensure (acd_issued_at_epoch_s d \<noteq> 0) AN_InvalidIssuedAt))"

definition attestation_request_id :: "string \<Rightarrow> attestation_issuance_error + string" where
  "attestation_request_id digest =
     and_then (map_err AN_SignerProtocol (validate_sha256 digest)) (\<lambda>_. Inr (ATTESTATION_REQUEST_ID_PREFIX @ take 48 digest))"

definition prepared_payload ::
    "attestation_certificate_draft \<Rightarrow> compiled_plan \<Rightarrow> bundle_assessment \<Rightarrow> replay_manifest \<Rightarrow> string \<Rightarrow> assurance_level \<Rightarrow>
     acceptance_certificate_payload" where
  "prepared_payload draft plan assessment manifest manifest_digest level = \<lparr>
     ac_schema_version = ISSUANCE_CERTIFICATE_SCHEMA, ac_certificate_id = acd_certificate_id draft,
     ac_issuer_id = CERTIFICATE_ISSUER_ID, ac_key_id = CERTIFICATE_KEY_ID, ac_issued_at_epoch_s = acd_issued_at_epoch_s draft,
     ac_contract_digest = cp_contract_digest plan, ac_capsule_digest = cp_capsule_digest plan, ac_plan_id = cp_plan_id plan,
     ac_plan_digest = cp_plan_digest plan, ac_evidence_bundle_id = ba_bundle_id assessment, ac_run_id = ba_run_id assessment,
     ac_evidence_bundle_digest = ba_bundle_digest assessment, ac_authorized_trace_digest = rm_authorized_trace_digest manifest,
     ac_replay_manifest_digest = manifest_digest, ac_assurance_level = level,
     ac_mandatory_passed = ba_mandatory_passed assessment, ac_mandatory_failed = ba_mandatory_failed assessment,
     ac_mandatory_unknown = ba_mandatory_unknown assessment, ac_decision = dec_status (ba_decision assessment)\<rparr>"

definition prepare_attestation ::
    "issuance_env \<Rightarrow> compiled_contract \<Rightarrow> compiled_plan \<Rightarrow> json \<Rightarrow> assurance_level \<Rightarrow> attestation_certificate_draft \<Rightarrow>
     attestation_issuance_error + prepared_attestation" where
  "prepare_attestation V compiled plan bundle_value level draft =
     (let E = isv_attestation V in
      and_then (validate_certificate_draft draft) (\<lambda>_.
      and_then (map_err AN_Evidence (assess_bundle (aa_evidence E) compiled plan bundle_value level)) (\<lambda>assessment.
      and_then (ensure (dec_status (ba_decision assessment) = Accepted)
        (AN_DecisionNotAccepted (dec_status (ba_decision assessment)))) (\<lambda>_.
      and_then (ensure (\<not> (ba_mandatory_failed assessment > 0 \<or> ba_mandatory_unknown assessment > 0)) AN_InvalidAcceptedCounts) (\<lambda>_.
      and_then (map_err AN_BundleDecode (vv_decode_bundle (aa_evidence E) bundle_value)) (\<lambda>bundle.
      and_then (map_err AN_ManifestBuild (build_replay_manifest E (acd_manifest_id draft) plan bundle
        (ba_bundle_digest assessment) (dec_status (ba_decision assessment)) level
        (ba_mandatory_passed assessment) (ba_mandatory_failed assessment) (ba_mandatory_unknown assessment))) (\<lambda>manifest.
      and_then (map_err AN_Serialization (aa_manifest_value E manifest)) (\<lambda>manifest_value.
      and_then (map_err AN_Hashing (canonical_json_sha256 (aa_hasher E) manifest_value)) (\<lambda>manifest_digest.
      let payload = prepared_payload draft plan assessment manifest manifest_digest level in
      and_then (map_err AN_Serialization (aa_payload_value E payload)) (\<lambda>payload_value.
      and_then (map_err AN_Hashing (canonical_json_sha256 (aa_hasher E) payload_value)) (\<lambda>payload_digest.
      and_then (attestation_request_id payload_digest) (\<lambda>request_id.
      Inr \<lparr>pra_replay_manifest = manifest, pra_payload = payload, pra_payload_digest = payload_digest,
        pra_request_id = request_id\<rparr>))))))))))))"

definition validate_ed25519_envelope :: "signer_envelope \<Rightarrow> prepared_attestation \<Rightarrow> attestation_issuance_error + unit" where
  "validate_ed25519_envelope envelope prepared =
     and_then (ensure (se_request_id envelope = pra_request_id prepared) AN_SignerRequestIdMismatch) (\<lambda>_.
     and_then (ensure (se_role envelope = IR_Attestation) AN_SignerRoleMismatch) (\<lambda>_.
     and_then (ensure (se_issuer_id envelope = CERTIFICATE_ISSUER_ID) AN_SignerIssuerMismatch) (\<lambda>_.
     and_then (ensure (se_key_id envelope = CERTIFICATE_KEY_ID) AN_SignerKeyMismatch) (\<lambda>_.
     ensure (se_digest envelope = pra_payload_digest prepared) AN_SignerDigestMismatch))))"

definition certificate_response_public_key :: "signer_response \<Rightarrow> attestation_issuance_error + u8 list" where
  "certificate_response_public_key response =
     (case response of
        SR_Success _ (DigestSigned key_hex _ _ _ _ _) \<Rightarrow>
          map_err (\<lambda>_. AN_SignerProtocol SP_InvalidHexEncoding) (decode_hex_32 key_hex)
      | _ \<Rightarrow> Inl (AN_SignerProtocol SP_ResponseDoesNotContainSignature))"

definition attestation_issue ::
    "issuance_env \<Rightarrow> signer_transport \<Rightarrow> u8 list \<Rightarrow> compiled_contract \<Rightarrow> compiled_plan \<Rightarrow> json \<Rightarrow> assurance_level \<Rightarrow>
     attestation_certificate_draft \<Rightarrow> attestation_issuance_error + signer_bound_attestation_package" where
  "attestation_issue V invoke expected_public_key compiled plan bundle_value level draft =
     and_then (prepare_attestation V compiled plan bundle_value level draft) (\<lambda>prepared.
     and_then (map_err AN_SignerClient (invoke (sign_digest (pra_request_id prepared) IR_Attestation CERTIFICATE_ISSUER_ID
       CERTIFICATE_KEY_ID (pra_payload_digest prepared)))) (\<lambda>response.
     and_then (map_err AN_SignerProtocol (verify_digest_signature (aa_signer (isv_attestation V)) response)) (\<lambda>envelope.
     and_then (validate_ed25519_envelope envelope prepared) (\<lambda>_.
     and_then (certificate_response_public_key response) (\<lambda>key.
     and_then (ensure (key = expected_public_key) AN_SignerPublicKeyMismatch) (\<lambda>_.
     Inr \<lparr>spk_replay_manifest = pra_replay_manifest prepared,
       spk_certificate = \<lparr>sbc_payload = pra_payload prepared, sbc_signer_response = response\<rparr>\<rparr>))))))"

definition production_attestation_new ::
    "production_signer_trust_snapshot \<Rightarrow> attestation_issuance_error + production_signer_trust_snapshot" where
  "production_attestation_new trust =
     and_then (map_err AN_ProductionSigner (trust_validate_for trust policy_attestation)) (\<lambda>_. Inr trust)"

definition production_attestation_issue ::
    "issuance_env \<Rightarrow> production_transport \<Rightarrow> production_signer_trust_snapshot \<Rightarrow> compiled_contract \<Rightarrow> compiled_plan \<Rightarrow> json \<Rightarrow>
     assurance_level \<Rightarrow> attestation_certificate_draft \<Rightarrow> attestation_issuance_error + production_attestation_package" where
  "production_attestation_issue V invoke trust compiled plan bundle_value level draft =
     and_then (prepare_attestation V compiled plan bundle_value level draft) (\<lambda>prepared.
     and_then (map_err AN_ProductionProtocol (prod_sign_digest (sv_protocol (isv_service V)) (pra_request_id prepared)
       policy_attestation (pra_payload_digest prepared))) (\<lambda>request.
     and_then (map_err AN_ProductionTransport (invoke request)) (\<lambda>package.
     and_then (map_err AN_ProductionSigner (verify_trusted (isv_service V) package trust)) (\<lambda>envelope.
     and_then (ensure (qr_request_id (qe_request envelope) = pra_request_id prepared) AN_SignerRequestIdMismatch) (\<lambda>_.
     and_then (ensure (ki_role (qr_identity (qe_request envelope)) = IR_Attestation) AN_SignerRoleMismatch) (\<lambda>_.
     and_then (ensure (ki_issuer_id (qr_identity (qe_request envelope)) = CERTIFICATE_ISSUER_ID) AN_SignerIssuerMismatch) (\<lambda>_.
     and_then (ensure (ki_key_id (qr_identity (qe_request envelope)) = CERTIFICATE_KEY_ID) AN_SignerKeyMismatch) (\<lambda>_.
     and_then (ensure (qr_digest (qe_request envelope) = pra_payload_digest prepared) AN_SignerDigestMismatch) (\<lambda>_.
     Inr \<lparr>pap_replay_manifest = pra_replay_manifest prepared,
       pap_certificate = \<lparr>pac_payload = pra_payload prepared, pac_signer_package = package\<rparr>\<rparr>)))))))))"

section \<open>Authorizing production tokens\<close>

definition verify_production_signer_bound_signature ::
    "issuance_env \<Rightarrow> production_capability_token \<Rightarrow> production_signer_trust_snapshot \<Rightarrow> production_capability_error + unit" where
  "verify_production_signer_bound_signature V token trust =
     and_then (map_err PCE_ProductionSigner (verify_trusted (isv_service V) (pct_signer_package token) trust)) (\<lambda>envelope.
     and_then (ensure (ki_role (qr_identity (qe_request envelope)) = IR_Capability) (PCE_Capability CE_SignerRoleMismatch)) (\<lambda>_.
     and_then (ensure (ki_issuer_id (qr_identity (qe_request envelope)) = ct_issuer_id (pct_payload token))
       (PCE_Capability CE_SignerIssuerMismatch)) (\<lambda>_.
     and_then (ensure (ki_key_id (qr_identity (qe_request envelope)) = ct_key_id (pct_payload token))
       (PCE_Capability CE_SignerKeyMismatch)) (\<lambda>_.
     and_then (map_err (\<lambda>e. PCE_Capability (CE_TokenDecode e)) (ce_payload_value (isv_capability V) (pct_payload token))) (\<lambda>payload_value.
     and_then (map_err PCE_Capability (ce_sha256 (isv_capability V) payload_value)) (\<lambda>digest.
     ensure (qr_digest (qe_request envelope) = digest) (PCE_Capability CE_SignerDigestMismatch)))))))"

definition authorize_production_signer_bound ::
    "issuance_env \<Rightarrow> capability_authorizer \<Rightarrow> json \<Rightarrow> production_signer_trust_snapshot \<Rightarrow> compiled_contract \<Rightarrow> compiled_plan \<Rightarrow>
     u64 \<Rightarrow> string \<Rightarrow> string option \<Rightarrow> (production_capability_error + authorization_receipt) \<times> capability_authorizer" where
  "authorize_production_signer_bound V A token_value trust contract plan now executor device =
     (case and_then (map_err (\<lambda>e. PCE_Capability (CE_TokenDecode e)) (isv_decode_token V token_value)) (\<lambda>token.
           and_then (map_err PCE_Capability (validate_payload_shape (pct_payload token))) (\<lambda>_.
           and_then (verify_production_signer_bound_signature V token trust) (\<lambda>_.
           Inr (pct_payload token)))) of
        Inl e \<Rightarrow> (Inl e, A)
      | Inr p \<Rightarrow> apfst (map_err PCE_Capability)
          (authorize_verified_payload (isv_capability V) A token_value p contract plan now executor device))"

section \<open>Verifying production certificates\<close>

definition prod_check_equal :: "bool \<Rightarrow> string \<Rightarrow> production_attestation_verify_error + unit" where
  "prod_check_equal matches field = ensure matches (PAV_ManifestPayloadMismatch field)"

definition prod_validate_manifest_payload_match ::
    "replay_manifest \<Rightarrow> acceptance_certificate_payload \<Rightarrow> production_attestation_verify_error + unit" where
  "prod_validate_manifest_payload_match m p =
     and_then (prod_check_equal (rm_contract_digest m = ac_contract_digest p) ''contract_digest'') (\<lambda>_.
     and_then (prod_check_equal (rm_capsule_digest m = ac_capsule_digest p) ''capsule_digest'') (\<lambda>_.
     and_then (prod_check_equal (rm_plan_id m = ac_plan_id p) ''plan_id'') (\<lambda>_.
     and_then (prod_check_equal (rm_plan_digest m = ac_plan_digest p) ''plan_digest'') (\<lambda>_.
     and_then (prod_check_equal (rm_evidence_bundle_id m = ac_evidence_bundle_id p) ''evidence_bundle_id'') (\<lambda>_.
     and_then (prod_check_equal (rm_run_id m = ac_run_id p) ''run_id'') (\<lambda>_.
     and_then (prod_check_equal (rm_evidence_bundle_digest m = ac_evidence_bundle_digest p) ''evidence_bundle_digest'') (\<lambda>_.
     and_then (prod_check_equal (rm_authorized_trace_digest m = ac_authorized_trace_digest p) ''authorized_trace_digest'') (\<lambda>_.
     and_then (prod_check_equal (rm_assurance_level m = ac_assurance_level p) ''assurance_level'') (\<lambda>_.
     and_then (prod_check_equal (rm_mandatory_passed m = ac_mandatory_passed p) ''mandatory_passed'') (\<lambda>_.
     and_then (prod_check_equal (rm_mandatory_failed m = ac_mandatory_failed p) ''mandatory_failed'') (\<lambda>_.
     and_then (prod_check_equal (rm_mandatory_unknown m = ac_mandatory_unknown p) ''mandatory_unknown'') (\<lambda>_.
     prod_check_equal (rm_expected_decision m = ac_decision p) ''decision''))))))))))))"

definition PROD_REPLAY_MANIFEST_SCHEMA :: string where "PROD_REPLAY_MANIFEST_SCHEMA = ''0.1.0''"
definition PROD_ACCEPTANCE_CERTIFICATE_SCHEMA :: string where "PROD_ACCEPTANCE_CERTIFICATE_SCHEMA = ''0.1.0''"

definition prod_validate_document ::
    "attestation_env \<Rightarrow> replay_manifest \<Rightarrow> acceptance_certificate_payload \<Rightarrow> production_attestation_verify_error + string" where
  "prod_validate_document E m p =
     and_then (ensure (rm_schema_version m = PROD_REPLAY_MANIFEST_SCHEMA)
       (PAV_UnsupportedManifestSchema (rm_schema_version m))) (\<lambda>_.
     and_then (ensure (ac_schema_version p = PROD_ACCEPTANCE_CERTIFICATE_SCHEMA)
       (PAV_UnsupportedCertificateSchema (ac_schema_version p))) (\<lambda>_.
     and_then (ensure (\<not> (ac_decision p \<noteq> Accepted \<or> rm_expected_decision m \<noteq> Accepted)) PAV_DecisionNotAccepted) (\<lambda>_.
     and_then (ensure (\<not> (ac_mandatory_failed p > 0 \<or> ac_mandatory_unknown p > 0
         \<or> rm_mandatory_failed m > 0 \<or> rm_mandatory_unknown m > 0)) PAV_InvalidAcceptedCounts) (\<lambda>_.
     and_then (map_err PAV_Serialization (aa_manifest_value E m)) (\<lambda>manifest_value.
     and_then (map_err PAV_Hashing (canonical_json_sha256 (aa_hasher E) manifest_value)) (\<lambda>digest.
     and_then (ensure (digest = ac_replay_manifest_digest p) PAV_ManifestDigestMismatch) (\<lambda>_.
     and_then (prod_validate_manifest_payload_match m p) (\<lambda>_.
     Inr digest))))))))"

definition prod_verified_result ::
    "attestation_env \<Rightarrow> acceptance_certificate_payload \<Rightarrow> serde_error + json \<Rightarrow> string \<Rightarrow>
     production_attestation_verify_error + verified_attestation" where
  "prod_verified_result E p certificate manifest_digest =
     and_then (map_err PAV_Serialization certificate) (\<lambda>certificate_value.
     and_then (map_err PAV_Hashing (canonical_json_sha256 (aa_hasher E) certificate_value)) (\<lambda>certificate_digest.
     Inr \<lparr>va_certificate_id = ac_certificate_id p, va_certificate_digest = certificate_digest,
       va_replay_manifest_digest = manifest_digest, va_evidence_bundle_digest = ac_evidence_bundle_digest p,
       va_decision = ac_decision p, va_assurance_level = ac_assurance_level p\<rparr>))"

definition verify_production_attestation ::
    "issuance_env \<Rightarrow> production_attestation_package \<Rightarrow> production_signer_trust_snapshot \<Rightarrow>
     production_attestation_verify_error + verified_attestation" where
  "verify_production_attestation V package trust =
     (let E = isv_attestation V; p = pac_payload (pap_certificate package) in
      and_then (prod_validate_document E (pap_replay_manifest package) p) (\<lambda>manifest_digest.
      and_then (map_err PAV_ProductionSigner
        (verify_trusted (isv_service V) (pac_signer_package (pap_certificate package)) trust)) (\<lambda>envelope.
      and_then (ensure (ki_role (qr_identity (qe_request envelope)) = IR_Attestation) PAV_SignerRoleMismatch) (\<lambda>_.
      and_then (ensure (ki_issuer_id (qr_identity (qe_request envelope)) = ac_issuer_id p) PAV_SignerIssuerMismatch) (\<lambda>_.
      and_then (ensure (ki_key_id (qr_identity (qe_request envelope)) = ac_key_id p) PAV_SignerKeyMismatch) (\<lambda>_.
      and_then (map_err PAV_Serialization (aa_payload_value E p)) (\<lambda>payload_value.
      and_then (map_err PAV_Hashing (canonical_json_sha256 (aa_hasher E) payload_value)) (\<lambda>digest.
      and_then (ensure (qr_digest (qe_request envelope) = digest) PAV_SignerDigestMismatch) (\<lambda>_.
      prod_verified_result E p (isv_certificate_value V (pap_certificate package)) manifest_digest)))))))))"

definition prod_verify_recomputed_manifest ::
    "attestation_env \<Rightarrow> replay_manifest \<Rightarrow> compiled_contract \<Rightarrow> compiled_plan \<Rightarrow> json \<Rightarrow> assurance_level \<Rightarrow>
     production_attestation_verify_error + unit" where
  "prod_verify_recomputed_manifest E m compiled plan bundle_value level =
     and_then (map_err PAV_Evidence (assess_bundle (aa_evidence E) compiled plan bundle_value level)) (\<lambda>assessment.
     and_then (ensure (dec_status (ba_decision assessment) = Accepted) PAV_RecomputedDecisionNotAccepted) (\<lambda>_.
     and_then (map_err PAV_BundleDecode (vv_decode_bundle (aa_evidence E) bundle_value)) (\<lambda>bundle.
     and_then (map_err PAV_ManifestBuild (build_replay_manifest E (rm_manifest_id m) plan bundle
       (ba_bundle_digest assessment) (dec_status (ba_decision assessment)) level
       (ba_mandatory_passed assessment) (ba_mandatory_failed assessment) (ba_mandatory_unknown assessment))) (\<lambda>recomputed.
     ensure (recomputed = m) PAV_RecomputedManifestMismatch))))"

definition verify_production_attestation_against_bundle ::
    "issuance_env \<Rightarrow> production_attestation_package \<Rightarrow> production_signer_trust_snapshot \<Rightarrow> compiled_contract \<Rightarrow> compiled_plan \<Rightarrow>
     json \<Rightarrow> assurance_level \<Rightarrow> production_attestation_verify_error + verified_attestation" where
  "verify_production_attestation_against_bundle V package trust compiled plan bundle_value level =
     and_then (verify_production_attestation V package trust) (\<lambda>verified.
     and_then (prod_verify_recomputed_manifest (isv_attestation V) (pap_replay_manifest package) compiled plan bundle_value level) (\<lambda>_.
     Inr verified))"

section \<open>Under the key registry\<close>

definition validate_trust_contract ::
    "issuance_env \<Rightarrow> governed_signer_trust_snapshot \<Rightarrow> production_key_registry \<Rightarrow> production_key_policy \<Rightarrow>
     governed_issuance_error + unit" where
  "validate_trust_contract V trust registry policy =
     and_then (map_err GI_Signer (trust_validate_for (gts_signer trust) policy)) (\<lambda>_.
     and_then (map_err GI_Governance (trust_binding_validate_shape (gts_key trust))) (\<lambda>_.
     and_then (ensure (\<not> (tb_identity (gts_key trust) \<noteq> tsn_identity (gts_signer trust)
         \<or> tb_identity (gts_key trust) \<noteq> kp_identity policy)) GI_TrustRegistryMismatch) (\<lambda>_.
     and_then (ensure (tb_public_key_digest (gts_key trust) = tsn_public_key_digest (gts_signer trust)) GI_TrustRegistryMismatch) (\<lambda>_.
     if tb_registry_revision (gts_key trust) \<noteq> pkr_revision registry then Inl GI_TrustRegistryMismatch
     else and_then (map_err GI_Governance (prod_registry_digest (sv_keys (isv_service V)) registry)) (\<lambda>digest.
       ensure (tb_registry_digest (gts_key trust) = digest) GI_TrustRegistryMismatch)))))"

definition validate_active_signing_trust ::
    "issuance_env \<Rightarrow> governed_signer_trust_snapshot \<Rightarrow> production_key_registry \<Rightarrow> production_key_policy \<Rightarrow> u64 \<Rightarrow>
     governed_issuance_error + unit" where
  "validate_active_signing_trust V trust registry policy issued_at =
     and_then (validate_trust_contract V trust registry policy) (\<lambda>_.
     and_then (map_err GI_Governance (verify_binding (sv_keys (isv_service V)) registry (gts_key trust) issued_at)) (\<lambda>record.
     ensure (kr_status record = PK_Active) GI_SigningKeyNotActive))"

record governed_authority =
  gva_trust :: governed_signer_trust_snapshot
  gva_registry :: production_key_registry

definition governed_capability_authority_new ::
    "issuance_env \<Rightarrow> governed_signer_trust_snapshot \<Rightarrow> production_key_registry \<Rightarrow> governed_issuance_error + governed_authority" where
  "governed_capability_authority_new V trust registry =
     and_then (validate_trust_contract V trust registry policy_capability) (\<lambda>_.
     and_then (map_err GI_CapabilityIssuance (production_capability_new (gts_signer trust))) (\<lambda>_.
     Inr \<lparr>gva_trust = trust, gva_registry = registry\<rparr>))"

definition governed_capability_issue ::
    "issuance_env \<Rightarrow> production_transport \<Rightarrow> governed_authority \<Rightarrow> capability_token_draft \<Rightarrow>
     governed_issuance_error + production_capability_token" where
  "governed_capability_issue V invoke G draft =
     and_then (validate_active_signing_trust V (gva_trust G) (gva_registry G) policy_capability (ctd_issued_at_epoch_s draft)) (\<lambda>_.
     and_then (map_err GI_CapabilityIssuance (production_capability_issue V invoke (gts_signer (gva_trust G)) draft)) (\<lambda>token.
     and_then (map_err GI_Signer (verify_governed (isv_service V) (pct_signer_package token) (gva_trust G) (gva_registry G)
       (ctd_issued_at_epoch_s draft))) (\<lambda>_.
     Inr token)))"

record governed_capability_authorizer =
  gca_inner :: capability_authorizer
  gca_trust :: governed_signer_trust_snapshot
  gca_registry :: production_key_registry

definition governed_authorizer_new ::
    "issuance_env \<Rightarrow> governed_signer_trust_snapshot \<Rightarrow> production_key_registry \<Rightarrow>
     governed_issuance_error + governed_capability_authorizer" where
  "governed_authorizer_new V trust registry =
     and_then (validate_trust_contract V trust registry policy_capability) (\<lambda>_.
     Inr \<lparr>gca_inner = authorizer_new [], gca_trust = trust, gca_registry = registry\<rparr>)"

definition governed_authorize ::
    "issuance_env \<Rightarrow> governed_capability_authorizer \<Rightarrow> json \<Rightarrow> compiled_contract \<Rightarrow> compiled_plan \<Rightarrow> u64 \<Rightarrow> string \<Rightarrow>
     string option \<Rightarrow> (governed_issuance_error + authorization_receipt) \<times> governed_capability_authorizer" where
  "governed_authorize V G token_value contract plan now executor device =
     (case and_then (map_err GI_Json (isv_decode_token V token_value)) (\<lambda>token.
           map_err GI_Signer (verify_governed (isv_service V) (pct_signer_package token) (gca_trust G) (gca_registry G)
             (ct_issued_at_epoch_s (pct_payload token)))) of
        Inl e \<Rightarrow> (Inl e, G)
      | Inr _ \<Rightarrow>
          (let (result, A) = authorize_production_signer_bound V (gca_inner G) token_value (gts_signer (gca_trust G))
                 contract plan now executor device
           in (map_err GI_CapabilityAuthorization result, G\<lparr>gca_inner := A\<rparr>)))"

definition governed_attestation_authority_new ::
    "issuance_env \<Rightarrow> governed_signer_trust_snapshot \<Rightarrow> production_key_registry \<Rightarrow> governed_issuance_error + governed_authority" where
  "governed_attestation_authority_new V trust registry =
     and_then (validate_trust_contract V trust registry policy_attestation) (\<lambda>_.
     and_then (map_err GI_AttestationIssuance (production_attestation_new (gts_signer trust))) (\<lambda>_.
     Inr \<lparr>gva_trust = trust, gva_registry = registry\<rparr>))"

definition governed_attestation_issue ::
    "issuance_env \<Rightarrow> production_transport \<Rightarrow> governed_authority \<Rightarrow> compiled_contract \<Rightarrow> compiled_plan \<Rightarrow> json \<Rightarrow> assurance_level \<Rightarrow>
     attestation_certificate_draft \<Rightarrow> governed_issuance_error + production_attestation_package" where
  "governed_attestation_issue V invoke G compiled plan bundle_value level draft =
     and_then (validate_active_signing_trust V (gva_trust G) (gva_registry G) policy_attestation (acd_issued_at_epoch_s draft)) (\<lambda>_.
     and_then (map_err GI_AttestationIssuance (production_attestation_issue V invoke (gts_signer (gva_trust G)) compiled plan
       bundle_value level draft)) (\<lambda>package.
     and_then (map_err GI_Signer (verify_governed (isv_service V) (pac_signer_package (pap_certificate package)) (gva_trust G)
       (gva_registry G) (acd_issued_at_epoch_s draft))) (\<lambda>_.
     Inr package)))"

definition verify_governed_attestation ::
    "issuance_env \<Rightarrow> production_attestation_package \<Rightarrow> governed_signer_trust_snapshot \<Rightarrow> production_key_registry \<Rightarrow>
     governed_issuance_error + verified_attestation" where
  "verify_governed_attestation V package trust registry =
     and_then (map_err GI_Signer (verify_governed (isv_service V) (pac_signer_package (pap_certificate package)) trust registry
       (ac_issued_at_epoch_s (pac_payload (pap_certificate package))))) (\<lambda>_.
     map_err GI_AttestationVerification (verify_production_attestation V package (gts_signer trust)))"

definition verify_governed_attestation_against_bundle ::
    "issuance_env \<Rightarrow> production_attestation_package \<Rightarrow> governed_signer_trust_snapshot \<Rightarrow> production_key_registry \<Rightarrow>
     compiled_contract \<Rightarrow> compiled_plan \<Rightarrow> json \<Rightarrow> assurance_level \<Rightarrow> governed_issuance_error + verified_attestation" where
  "verify_governed_attestation_against_bundle V package trust registry compiled plan bundle_value level =
     and_then (map_err GI_Signer (verify_governed (isv_service V) (pac_signer_package (pap_certificate package)) trust registry
       (ac_issued_at_epoch_s (pac_payload (pap_certificate package))))) (\<lambda>_.
     map_err GI_AttestationVerification
       (verify_production_attestation_against_bundle V package (gts_signer trust) compiled plan bundle_value level))"

end
