(* ===== verification/IssuanceCorrect.thy ===== *)
theory IssuanceCorrect
  imports Issuance ExampleSigner
begin

text \<open>
  Correctness of issuance: the production verifier of certificates agrees with the direct one
  on documents, a token that a governed authority issues is refused by the governed
  authorizer only for what it says, and a certificate that it issues verifies.
\<close>

section \<open>An authority for examples\<close>

definition example_plan :: compiled_plan where
  "example_plan = demo_compiled_plan\<lparr>cp_plan_id := ''plan-1'', cp_steps := map (\<lambda>s. s\<lparr>ps_step_id := ''step-'' @ ps_step_id s,
     ps_operator_id := ''operator-'' @ ps_operator_id s\<rparr>) (cp_steps demo_compiled_plan)\<rparr>"

definition example_draft :: capability_token_draft where
  "example_draft = \<lparr>ctd_token_id = ''tok'', ctd_subject = \<lparr>sub_executor_id = ''exec'', sub_device_id = None\<rparr>,
     ctd_issued_at_epoch_s = 50, ctd_not_before_epoch_s = 50, ctd_expires_at_epoch_s = 100, ctd_max_uses = 2,
     ctd_nonce = ''0123456789abcdef'', ctd_bindings = (ct_bindings demo_payload)\<lparr>cb_plan_id := ''plan-1'', cb_step_id := ''step-s1'',
       cb_operator_id := ''operator-f''\<rparr>, ctd_grant = ct_grant demo_payload\<rparr>"

definition example_transport :: production_transport where
  "example_transport request = Inr (example_answer False request)"

definition example_token :: production_capability_token where
  "example_token = \<lparr>pct_payload = token_payload_for example_draft,
     pct_signer_package = example_answer False (example_request identity_capability
       (CAPABILITY_REQUEST_ID_PREFIX @ take 48 demo_digest) demo_digest)\<rparr>"

definition example_issuance_env :: issuance_env where
  "example_issuance_env = \<lparr>isv_capability = demo_capability_env, isv_attestation = demo_attestation_env,
     isv_service = demo_service_env, isv_decode_token = (\<lambda>_. Inr example_token), isv_token_value = (\<lambda>_. Inr JNull),
     isv_certificate_value = (\<lambda>_. Inr JNull)\<rparr>"

definition example_authority :: "production_key_identity \<Rightarrow> governed_authority" where
  "example_authority i = \<lparr>gva_trust = example_trust i, gva_registry = example_registry i\<rparr>"

lemma example_issuance_sel [simp]:
  "isv_capability example_issuance_env = demo_capability_env" "isv_attestation example_issuance_env = demo_attestation_env"
  "isv_service example_issuance_env = demo_service_env" "isv_decode_token example_issuance_env v = Inr example_token"
  "isv_certificate_value example_issuance_env c = Inr JNull"
  "gva_trust (example_authority i) = example_trust i" "gva_registry (example_authority i) = example_registry i"
  by (simp_all add: example_issuance_env_def example_authority_def)

lemma example_trust_contract:
  assumes "identity_validate i = Inr ()"
  shows "validate_trust_contract example_issuance_env (example_trust i) (example_registry i) (policy_for i) = Inr ()"
    "validate_active_signing_trust example_issuance_env (example_trust i) (example_registry i) (policy_for i) 50 = Inr ()"
proof -
  have shape: "trust_binding_validate_shape (gts_key (example_trust i)) = Inr ()"
    using assms by (simp add: trust_binding_validate_shape_def example_trust_def demo_trust_binding_def)
  have "trust_validate_for (gts_signer (example_trust i)) (policy_for i) = Inr ()"
    using assms by (simp add: trust_validate_for_def example_trust_def)
  with shape example_registry_digest [OF assms]
  show c: "validate_trust_contract example_issuance_env (example_trust i) (example_registry i) (policy_for i) = Inr ()"
    by (simp add: validate_trust_contract_def)
      (simp add: example_trust_def demo_trust_binding_def example_registry_def policy_for_def)
  show "validate_active_signing_trust example_issuance_env (example_trust i) (example_registry i) (policy_for i) 50 = Inr ()"
    using example_binding_verifies [OF assms] by (simp add: validate_active_signing_trust_def c) (simp add: example_record_def)
qed

section \<open>Both verifiers check the same documents\<close>

lemma prod_check_equal_ok [result_simps]: "prod_check_equal b field = Inr u \<longleftrightarrow> b"
  by (simp add: prod_check_equal_def result_simps)

lemma check_equal_iff: "check_equal b field = Inr u \<longleftrightarrow> b"
  by (simp add: check_equal_def ensure_eq)

lemma prod_validate_document_iff: "prod_validate_document E m p = Inr d \<longleftrightarrow> validate_document E m p = Inr d"
proof -
  have "prod_validate_manifest_payload_match m p = Inr u \<longleftrightarrow> validate_manifest_payload_match m p = Inr u" for u
    by (simp add: prod_validate_manifest_payload_match_def validate_manifest_payload_match_def and_then_eq_Inr prod_check_equal_ok
        check_equal_iff)
  then show ?thesis
    by (simp add: prod_validate_document_def validate_document_def and_then_eq_Inr map_err_eq ensure_eq PROD_REPLAY_MANIFEST_SCHEMA_def
        REPLAY_MANIFEST_SCHEMA_def PROD_ACCEPTANCE_CERTIFICATE_SCHEMA_def ACCEPTANCE_CERTIFICATE_SCHEMA_def)
qed

lemma prod_verify_recomputed_manifest_iff:
  "prod_verify_recomputed_manifest E m compiled plan v level = Inr () \<longleftrightarrow> verify_recomputed_manifest E m compiled plan v level = Inr ()"
  by (simp add: prod_verify_recomputed_manifest_def verify_recomputed_manifest_def and_then_eq_Inr map_err_eq ensure_eq)

section \<open>Tokens\<close>

lemma production_capability_issue_ok:
  assumes "production_capability_issue V invoke trust draft = Inr token"
  obtains envelope digest where "validate_token_draft draft = Inr ()" "pct_payload token = token_payload_for draft"
    "verify_trusted (isv_service V) (pct_signer_package token) trust = Inr envelope"
    "ki_role (qr_identity (qe_request envelope)) = IR_Capability"
    "ki_issuer_id (qr_identity (qe_request envelope)) = TOKEN_ISSUER_ID"
    "ki_key_id (qr_identity (qe_request envelope)) = TOKEN_KEY_ID"
    "token_payload_digest V (token_payload_for draft) = Inr digest" "qr_digest (qe_request envelope) = digest"
  using assms unfolding production_capability_issue_def payload_from_draft_def
  by (auto simp: and_then_eq_Inr map_err_eq ensure_eq intro: that)

lemma issued_token_signature:
  assumes "production_capability_issue V invoke trust draft = Inr token"
  shows "verify_production_signer_bound_signature V token trust = Inr ()" "pct_payload token = token_payload_for draft"
    "validate_payload_shape (token_payload_for draft) = Inr ()" "ctd_max_uses draft \<noteq> 0"
proof -
  obtain envelope digest where i: "validate_token_draft draft = Inr ()" "pct_payload token = token_payload_for draft"
    "verify_trusted (isv_service V) (pct_signer_package token) trust = Inr envelope"
    "ki_role (qr_identity (qe_request envelope)) = IR_Capability"
    "ki_issuer_id (qr_identity (qe_request envelope)) = TOKEN_ISSUER_ID"
    "ki_key_id (qr_identity (qe_request envelope)) = TOKEN_KEY_ID"
    "token_payload_digest V (token_payload_for draft) = Inr digest" "qr_digest (qe_request envelope) = digest"
    using assms by (rule production_capability_issue_ok)
  have ids: "ct_issuer_id (token_payload_for draft) = TOKEN_ISSUER_ID" "ct_key_id (token_payload_for draft) = TOKEN_KEY_ID"
    by (simp_all add: token_payload_for_def)
  show "pct_payload token = token_payload_for draft" by (fact i(2))
  show "verify_production_signer_bound_signature V token trust = Inr ()"
    using i(3-8) ids unfolding verify_production_signer_bound_signature_def i(2)
    by (auto simp: and_then_eq_Inr map_err_eq ensure_eq token_payload_digest_def ce_sha256_def)
  show "ctd_max_uses draft \<noteq> 0" using i(1) by (auto simp: validate_token_draft_def and_then_eq_Inr ensure_eq)
  have "\<not> length (ctd_nonce draft) < 16" using i(1) by (auto simp: validate_token_draft_def and_then_eq_Inr ensure_eq)
  with \<open>ctd_max_uses draft \<noteq> 0\<close> show "validate_payload_shape (token_payload_for draft) = Inr ()"
    by (simp add: validate_payload_shape_def token_payload_for_def CAPABILITY_TOKEN_SCHEMA_def SUPPORTED_TOKEN_SCHEMA_def)
qed

lemma fresh_authorization:
  assumes "ct_max_uses p \<noteq> 0"
  shows "fst (authorize_verified_payload E (authorizer_new keys) v p contract plan now executor device) =
    (case authorization_checks E v p contract plan now executor device of
       Inl e \<Rightarrow> Inl e | Inr (step, td, pd) \<Rightarrow> Inr (receipt_for p plan step td pd now 1))"
  using assms
  by (auto simp: authorize_verified_payload_def authorizer_new_def Let_def word_le_nat_alt unat_eq_0 split: sum.splits)

lemma governed_authorize_fresh:
  assumes "governed_authorizer_new V trust registry = Inr A" "isv_decode_token V v = Inr token"
    "verify_governed (isv_service V) (pct_signer_package token) trust registry (ct_issued_at_epoch_s (pct_payload token)) = Inr envelope"
    "verify_production_signer_bound_signature V token (gts_signer trust) = Inr ()"
    "validate_payload_shape (pct_payload token) = Inr ()"
  shows "fst (governed_authorize V A v contract plan now executor device) =
    (case authorization_checks (isv_capability V) v (pct_payload token) contract plan now executor device of
       Inl e \<Rightarrow> Inl (GI_CapabilityAuthorization (PCE_Capability e))
     | Inr (step, td, pd) \<Rightarrow> Inr (receipt_for (pct_payload token) plan step td pd now 1))"
proof -
  have A: "A = \<lparr>gca_inner = authorizer_new [], gca_trust = trust, gca_registry = registry\<rparr>"
    using assms(1) by (auto simp: governed_authorizer_new_def and_then_eq_Inr)
  have uses: "ct_max_uses (pct_payload token) \<noteq> 0"
    using assms(5) by (auto simp: validate_payload_shape_def and_then_eq_Inr ensure_eq)
  have "fst (authorize_production_signer_bound V (authorizer_new []) v (gts_signer trust) contract plan now executor device) =
      map_err PCE_Capability (fst (authorize_verified_payload (isv_capability V) (authorizer_new []) v (pct_payload token) contract plan
        now executor device))"
    using assms(2,4,5) by (simp add: authorize_production_signer_bound_def)
  then show ?thesis
    unfolding A governed_authorize_def
    using assms(2,3) fresh_authorization [OF uses]
    by (auto simp: case_prod_beta split: sum.splits)
qed

text \<open>
  C13: issued tokens are good. A token that a governed authority issues decodes to a token that
  the governed authorizer with the same trust accepts, whatever the transport answered: a
  fresh authorizer refuses it only for the time, the bindings, the subject or the grant that
  the draft asked for, and otherwise hands out the receipt of its first use.
\<close>

theorem issued_token_is_authorized:
  assumes "governed_capability_issue V invoke G draft = Inr token" "isv_decode_token V v = Inr token"
    "governed_authorizer_new V (gva_trust G) (gva_registry G) = Inr A"
  shows "fst (governed_authorize V A v contract plan now executor device) =
    (case authorization_checks (isv_capability V) v (token_payload_for draft) contract plan now executor device of
       Inl e \<Rightarrow> Inl (GI_CapabilityAuthorization (PCE_Capability e))
     | Inr (step, td, pd) \<Rightarrow> Inr (receipt_for (token_payload_for draft) plan step td pd now 1))"
proof -
  obtain envelope where issue: "production_capability_issue V invoke (gts_signer (gva_trust G)) draft = Inr token"
    and governed: "verify_governed (isv_service V) (pct_signer_package token) (gva_trust G) (gva_registry G)
      (ctd_issued_at_epoch_s draft) = Inr envelope"
    using assms(1) unfolding governed_capability_issue_def by (auto simp: and_then_eq_Inr map_err_eq)
  note i = issued_token_signature [OF issue]
  have "ct_issued_at_epoch_s (token_payload_for draft) = ctd_issued_at_epoch_s draft" by (simp add: token_payload_for_def)
  then show ?thesis
    using governed_authorize_fresh [OF assms(3,2) _ i(1), unfolded i(2), OF _ i(3)] governed by simp
qed

lemma example_issued:
  "governed_capability_issue example_issuance_env example_transport (example_authority identity_capability) example_draft =
     Inr example_token"
proof -
  let ?rid = "CAPABILITY_REQUEST_ID_PREFIX @ take 48 demo_digest"
  have d: "validate_token_draft example_draft = Inr ()" "is_sha256 demo_digest" by code_simp+
  have rid: "is_identifier ?rid" by code_simp
  have digest: "token_payload_digest example_issuance_env p = Inr demo_digest" for p
    by (simp add: token_payload_digest_def demo_capability_env_def demo_signer_env_def demo_hasher_def canonical_json_sha256_def
        canonical_json_bytes_def)
  have req: "capability_request_id demo_digest = Inr ?rid"
    using d(2) by (simp add: capability_request_id_def validate_sha256_def is_sha256_def)
  have i: "identity_validate identity_capability = Inr ()" by simp
  have ids: "ki_role identity_capability = IR_Capability" "ki_issuer_id identity_capability = TOKEN_ISSUER_ID"
    "ki_key_id identity_capability = TOKEN_KEY_ID" by code_simp+
  have sel: "qe_request (example_envelope b r) = r" "qr_request_id (example_request j rid dg) = rid"
    "qr_identity (example_request j rid dg) = j" "qr_digest (example_request j rid dg) = dg" for b r j rid dg
    by (simp_all add: example_envelope_def example_request_def)
  have "production_capability_issue example_issuance_env example_transport (gts_signer (example_trust identity_capability)) example_draft =
      Inr example_token"
    using example_request_built(3) [OF i rid d(2)] example_answer_trusted [OF i rid d(2), of False]
    by (simp add: production_capability_issue_def payload_from_draft_def d digest req policy_names example_transport_def sel ids
        example_token_def)
  moreover have "ctd_issued_at_epoch_s example_draft = 50" by (simp add: example_draft_def)
  ultimately show ?thesis
    using example_trust_contract(2) [OF i] example_answer_governed [OF i rid d(2), of False]
    by (simp add: governed_capability_issue_def policy_names example_token_def)
qed

theorem issued_token_is_authorized_witness:
  "\<exists>A receipt :: authorization_receipt. governed_authorizer_new example_issuance_env (example_trust identity_capability)
       (example_registry identity_capability) = Inr A \<and>
     fst (governed_authorize example_issuance_env A JNull demo_compiled example_plan 60 ''exec'' None) = Inr receipt \<and>
     ar_use_number receipt = 1"
proof -
  obtain A where A: "governed_authorizer_new example_issuance_env (example_trust identity_capability)
       (example_registry identity_capability) = Inr A"
    using example_trust_contract(1) [of identity_capability] by (simp add: governed_authorizer_new_def policy_names)
  have "\<not> isl (authorization_checks demo_capability_env JNull (token_payload_for example_draft) demo_compiled example_plan 60
      ''exec'' None)" by code_simp
  then obtain r where "authorization_checks demo_capability_env JNull (token_payload_for example_draft) demo_compiled example_plan
      60 ''exec'' None = Inr r" by (metis isl_def sum.exhaust)
  moreover obtain step td pd where "r = (step, td, pd)" by (cases r)
  ultimately show ?thesis
    using issued_token_is_authorized [OF example_issued, of JNull A demo_compiled example_plan 60 "''exec''" None] A
    by (auto simp: receipt_for_def)
qed

section \<open>Certificates\<close>

lemma prepared_payload_eq:
  "prepared_payload draft plan assessment m md level =
   certificate_payload_for (acd_certificate_id draft) CERTIFICATE_ISSUER_ID CERTIFICATE_KEY_ID (acd_issued_at_epoch_s draft)
     plan assessment level m md"
  by (simp add: prepared_payload_def certificate_payload_for_def ISSUANCE_CERTIFICATE_SCHEMA_def ACCEPTANCE_CERTIFICATE_SCHEMA_def)

lemma prepare_attestationE:
  assumes "prepare_attestation V compiled plan v level draft = Inr prepared"
  obtains assessment b m mv md pv where
    "assess_bundle (aa_evidence (isv_attestation V)) compiled plan v level = Inr assessment"
    "dec_status (ba_decision assessment) = Accepted"
    "vv_decode_bundle (aa_evidence (isv_attestation V)) v = Inr b"
    "build_replay_manifest (isv_attestation V) (acd_manifest_id draft) plan b (ba_bundle_digest assessment)
       (dec_status (ba_decision assessment)) level (ba_mandatory_passed assessment) (ba_mandatory_failed assessment)
       (ba_mandatory_unknown assessment) = Inr m"
    "aa_manifest_value (isv_attestation V) m = Inr mv" "canonical_json_sha256 (aa_hasher (isv_attestation V)) mv = Inr md"
    "pra_replay_manifest prepared = m"
    "pra_payload prepared = certificate_payload_for (acd_certificate_id draft) CERTIFICATE_ISSUER_ID CERTIFICATE_KEY_ID
       (acd_issued_at_epoch_s draft) plan assessment level m md"
    "aa_payload_value (isv_attestation V) (pra_payload prepared) = Inr pv"
    "canonical_json_sha256 (aa_hasher (isv_attestation V)) pv = Inr (pra_payload_digest prepared)"
    "attestation_request_id (pra_payload_digest prepared) = Inr (pra_request_id prepared)"
  using assms unfolding prepare_attestation_def Let_def prepared_payload_eq
  by (auto simp: and_then_eq_Inr map_err_eq ensure_eq intro: that)

lemma production_attestation_issueE:
  assumes "production_attestation_issue V invoke trust compiled plan v level draft = Inr package"
  obtains prepared envelope where "prepare_attestation V compiled plan v level draft = Inr prepared"
    "pap_replay_manifest package = pra_replay_manifest prepared" "pac_payload (pap_certificate package) = pra_payload prepared"
    "verify_trusted (isv_service V) (pac_signer_package (pap_certificate package)) trust = Inr envelope"
    "ki_role (qr_identity (qe_request envelope)) = IR_Attestation"
    "ki_issuer_id (qr_identity (qe_request envelope)) = CERTIFICATE_ISSUER_ID"
    "ki_key_id (qr_identity (qe_request envelope)) = CERTIFICATE_KEY_ID"
    "qr_digest (qe_request envelope) = pra_payload_digest prepared"
  using assms unfolding production_attestation_issue_def
  by (auto simp: and_then_eq_Inr map_err_eq ensure_eq intro: that)

text \<open>
  C12: issued certificates verify. A package that a governed attestation authority issues for a
  contract, a plan and a bundle, whatever the transport answered, verifies against them under
  the same trust and registry, and the verdict carries the identifier and the assurance level
  that were asked for.
\<close>

theorem governed_certificate_verifies:
  assumes issued: "governed_attestation_issue V invoke G compiled plan v level draft = Inr package"
    and total: "serialization_total (isv_attestation V)" "isv_certificate_value V (pap_certificate package) = Inr certificate_value"
  shows "\<exists>verified. verify_governed_attestation_against_bundle V package (gva_trust G) (gva_registry G) compiled plan v level =
      Inr verified \<and> va_decision verified = Accepted \<and> va_certificate_id verified = acd_certificate_id draft \<and>
    va_assurance_level verified = level"
proof -
  let ?E = "isv_attestation V"
  obtain genv where issue: "production_attestation_issue V invoke (gts_signer (gva_trust G)) compiled plan v level draft = Inr package"
    and governed: "verify_governed (isv_service V) (pac_signer_package (pap_certificate package)) (gva_trust G) (gva_registry G)
      (acd_issued_at_epoch_s draft) = Inr genv"
    using issued unfolding governed_attestation_issue_def by (auto simp: and_then_eq_Inr map_err_eq)
  obtain prepared envelope where prep: "prepare_attestation V compiled plan v level draft = Inr prepared"
    and pkg: "pap_replay_manifest package = pra_replay_manifest prepared" "pac_payload (pap_certificate package) = pra_payload prepared"
    and env: "verify_trusted (isv_service V) (pac_signer_package (pap_certificate package)) (gts_signer (gva_trust G)) = Inr envelope"
      "ki_role (qr_identity (qe_request envelope)) = IR_Attestation"
      "ki_issuer_id (qr_identity (qe_request envelope)) = CERTIFICATE_ISSUER_ID"
      "ki_key_id (qr_identity (qe_request envelope)) = CERTIFICATE_KEY_ID"
      "qr_digest (qe_request envelope) = pra_payload_digest prepared"
    using issue by (rule production_attestation_issueE)
  obtain assessment b m mv md pv where
    ass: "assess_bundle (aa_evidence ?E) compiled plan v level = Inr assessment" "dec_status (ba_decision assessment) = Accepted"
    and dec: "vv_decode_bundle (aa_evidence ?E) v = Inr b"
    and man: "build_replay_manifest ?E (acd_manifest_id draft) plan b (ba_bundle_digest assessment)
       (dec_status (ba_decision assessment)) level (ba_mandatory_passed assessment) (ba_mandatory_failed assessment)
       (ba_mandatory_unknown assessment) = Inr m"
      "aa_manifest_value ?E m = Inr mv" "canonical_json_sha256 (aa_hasher ?E) mv = Inr md"
    and m: "pra_replay_manifest prepared = m"
    and pay: "pra_payload prepared = certificate_payload_for (acd_certificate_id draft) CERTIFICATE_ISSUER_ID CERTIFICATE_KEY_ID
       (acd_issued_at_epoch_s draft) plan assessment level m md"
    and pv: "aa_payload_value ?E (pra_payload prepared) = Inr pv"
      "canonical_json_sha256 (aa_hasher ?E) pv = Inr (pra_payload_digest prepared)"
    using prep by (rule prepare_attestationE)
  have doc: "prod_validate_document ?E m (pra_payload prepared) = Inr md"
    unfolding prod_validate_document_iff pay by (rule issued_document_valid [OF ass dec man])
  have at: "ac_issued_at_epoch_s (pra_payload prepared) = acd_issued_at_epoch_s draft"
    "ac_issuer_id (pra_payload prepared) = CERTIFICATE_ISSUER_ID" "ac_key_id (pra_payload prepared) = CERTIFICATE_KEY_ID"
    "ac_certificate_id (pra_payload prepared) = acd_certificate_id draft" "ac_decision (pra_payload prepared) = Accepted"
    "ac_assurance_level (pra_payload prepared) = level"
    unfolding pay by (simp_all add: certificate_payload_for_def ass(2))
  obtain cdg where cdg: "canonical_json_sha256 (aa_hasher ?E) certificate_value = Inr cdg"
    using canonical_json_sha256_total [OF total(1)] by blast
  have "verify_production_attestation V package (gts_signer (gva_trust G)) =
      prod_verified_result ?E (pra_payload prepared) (Inr certificate_value) md"
    using env at(2,3) pv doc by (simp add: verify_production_attestation_def pkg m total(2))
  moreover have "prod_verify_recomputed_manifest ?E m compiled plan v level = Inr ()"
    unfolding prod_verify_recomputed_manifest_iff
    using ass dec man(1) build_replay_manifest_sel(1) [OF man(1)] by (simp add: verify_recomputed_manifest_def)
  ultimately show ?thesis
    using governed cdg at
    by (simp add: verify_governed_attestation_against_bundle_def verify_production_attestation_against_bundle_def pkg m
        prod_verified_result_def)
qed

definition example_certificate_draft :: attestation_certificate_draft where
  "example_certificate_draft = \<lparr>acd_manifest_id = ''man1'', acd_certificate_id = ''cert1'', acd_issued_at_epoch_s = 50\<rparr>"

lemma example_certificate_issued:
  "\<exists>package. governed_attestation_issue example_issuance_env example_transport (example_authority identity_attestation)
     demo_compiled demo_compiled_plan JNull E3 example_certificate_draft = Inr package"
proof -
  let ?rid = "ATTESTATION_REQUEST_ID_PREFIX @ take 48 demo_digest"
  have d: "is_sha256 demo_digest" "is_identifier ?rid" by code_simp+
  have "\<not> isl (prepare_attestation example_issuance_env demo_compiled demo_compiled_plan JNull E3 example_certificate_draft)"
    by code_simp
  then obtain prepared where prep: "prepare_attestation example_issuance_env demo_compiled demo_compiled_plan JNull E3
      example_certificate_draft = Inr prepared" by (metis isl_def sum.exhaust)
  from prep obtain pv where pv: "canonical_json_sha256 (aa_hasher (isv_attestation example_issuance_env)) pv = Inr (pra_payload_digest prepared)"
    and rid: "attestation_request_id (pra_payload_digest prepared) = Inr (pra_request_id prepared)"
    by (rule prepare_attestationE)
  from pv have "pra_payload_digest prepared = demo_digest"
    by (simp add: demo_attestation_env_def demo_evidence_env_def demo_execution_env_def
        demo_hasher_def canonical_json_sha256_def result_simps)
  moreover from this have "pra_request_id prepared = ?rid"
    using rid by (auto simp: and_then_eq_Inr map_err_eq attestation_request_id_def)
  moreover have i: "identity_validate identity_attestation = Inr ()" by simp
  moreover have "ki_role identity_attestation = IR_Attestation" "ki_issuer_id identity_attestation = CERTIFICATE_ISSUER_ID"
    "ki_key_id identity_attestation = CERTIFICATE_KEY_ID" by code_simp+
  moreover have "qe_request (example_envelope b r) = r" "qr_request_id (example_request j rid dg) = rid"
    "qr_identity (example_request j rid dg) = j" "qr_digest (example_request j rid dg) = dg" for b r j rid dg
    by (simp_all add: example_envelope_def example_request_def)
  ultimately have "production_attestation_issue example_issuance_env example_transport (gts_signer (example_trust identity_attestation))
      demo_compiled demo_compiled_plan JNull E3 example_certificate_draft =
      Inr \<lparr>pap_replay_manifest = pra_replay_manifest prepared, pap_certificate = \<lparr>pac_payload = pra_payload prepared,
        pac_signer_package = example_answer False (example_request identity_attestation ?rid demo_digest)\<rparr>\<rparr>"
    using example_request_built(3) [OF i d(2,1)] example_answer_trusted [OF i d(2,1), of False]
    by (simp add: production_attestation_issue_def prep policy_names example_transport_def)
  moreover have "acd_issued_at_epoch_s example_certificate_draft = 50" by (simp add: example_certificate_draft_def)
  ultimately show ?thesis
    using example_trust_contract(2) [OF i] example_answer_governed [OF i d(2,1), of False]
    by (simp add: governed_attestation_issue_def policy_names)
qed

theorem governed_certificate_verifies_witness:
  "\<exists>package verified. verify_governed_attestation_against_bundle example_issuance_env package (example_trust identity_attestation)
     (example_registry identity_attestation) demo_compiled demo_compiled_plan JNull E3 = Inr verified \<and>
   va_certificate_id verified = ''cert1''"
proof -
  obtain package where p: "governed_attestation_issue example_issuance_env example_transport (example_authority identity_attestation)
     demo_compiled demo_compiled_plan JNull E3 example_certificate_draft = Inr package"
    using example_certificate_issued by blast
  have "serialization_total (isv_attestation example_issuance_env)" using demo_attestation_hypotheses(3) by simp
  from governed_certificate_verifies [OF p this] show ?thesis by (auto simp: example_certificate_draft_def)
qed

end
