(* ===== verification/Spec2Isabelle.thy ===== *)
theory Spec2Isabelle
  imports Governed Simulation PngPixels TrustLease IntentPlanning DesktopShell IssuanceCorrect
begin

text \<open>
  Ergaxiom is a system for proof-carrying professional work. A Work Contract names the
  constraints a job has to satisfy and the proof obligations for them; a Profession Capsule
  names the validators and operators that may be used; an operator plan fixes the steps; a
  capability token authorises an executor for a step; the run leaves a trace bound to
  authorisation receipts; validators add evidence; the proof kernel decides; and an
  acceptance certificate attests the decision, which anybody holding the bundle can
  recompute. This development models the Rust crates that carry this chain and proves what
  each of them promises and what their composition promises.

  \<^bold>\<open>Parts and theories.\<close> Paths are under \<^verbatim>\<open>src/crates\<close>.
  \<^item> \<open>Prelude\<close>, \<open>OrderedMap\<close>: results and early returns, strings, saturating
    arithmetic, and the standard library's ordered map with the interface locale
    \<open>ordered_map\<close> and the locale \<open>indexing_loop\<close> of the loops that index a list and refuse a
    repeated key, interpreted by every component that has such a loop.
  \<^item> \<open>Json\<close>: \<^verbatim>\<open>proof-kernel/src/hashing.rs\<close>, the canonical form of JSON
    values. \<open>Crypto\<close>: the third-party cryptography as arguments, and the hexadecimal codec.
  \<^item> \<open>Kernel\<close>: \<^verbatim>\<open>proof-kernel\<close>, the record \<open>proof_kernel\<close> with construction,
    ingestion and evaluation. The decision is proved equivalent to a declarative rule.
  \<^item> \<open>Contract\<close>: \<^verbatim>\<open>contract-runtime\<close>, the compiler of contracts and the session
    that admits evidence. \<open>Plan\<close>: \<^verbatim>\<open>operator-plan-runtime\<close>, the compiler of plans and
    the trace verifier, proved equivalent to a step automaton.
  \<^item> \<open>KeyGovernance\<close>: \<^verbatim>\<open>key-governance-runtime\<close>, the registry of governed keys
    as a state machine: what a rotation does to every resolution, and that a revocation is
    permanent. \<open>SignerProtocol\<close>: \<^verbatim>\<open>windows-signer-protocol-runtime\<close>.
  \<^item> \<open>Capability\<close>: \<^verbatim>\<open>capability-runtime\<close>, the authorizer and its use counts.
    \<open>Execution\<close>: \<^verbatim>\<open>execution-runtime\<close>, the verifier of authorised traces.
    \<open>Evidence\<close>: \<^verbatim>\<open>evidence-runtime\<close>, the assessor of bundles.
    \<open>Attestation\<close>: \<^verbatim>\<open>attestation-runtime\<close>, issue and verification.
  \<^item> \<open>Twin\<close>: \<^verbatim>\<open>occupational-twin-runtime\<close>, the workspace on which typed
    operations are evaluated, with checkpoints, roll-back and sealed packages. Success of an
    operation is characterised by a declarative predicate on its declaration, and a sealed
    package reproduces its workspace.
    \<open>Simulation\<close>: \<^verbatim>\<open>operator-simulation-runtime\<close>, which runs a plan on such a
    workspace, with injected faults.
  \<^item> \<open>Governed\<close>: \<^verbatim>\<open>governed-verification-runtime\<close>, authorisation and certificate
    verification under the key registry: the composition of \<open>KeyGovernance\<close>,
    \<open>Capability\<close> and \<open>Attestation\<close>, as a state machine over key operations and calls,
    with direct and with signer-bound tokens.
  \<^item> \<open>Png\<close>: \<^verbatim>\<open>png-artifact-validator-runtime\<close>, the chunk inspector, proved
    equivalent to the run of the rules over the chunks printed in the file, and the policy
    check. \<open>PngPixels\<close>: \<^verbatim>\<open>png-pixel-decoder-runtime\<close>, filters, conversion and
    lookup, the decompressor being an argument; every index, slice and unchecked sum of the
    code is an operation that can fail with a panic value, and the filters are compared with
    those of the PNG standard, stated in the integers.

  \<^item> \<open>IntentCompiler\<close>: \<^verbatim>\<open>intent-contract-compiler-runtime\<close>, which turns the
    intent of a static social media post into a contract or asks for what is missing.
    \<open>TypedPlanner\<close>: \<^verbatim>\<open>typed-planner-runtime\<close>, which writes the plan for such a
    contract. \<open>PlannerCorrect\<close> and \<open>IntentPlanning\<close>: the plan compiles, the map of
    requirements in its metadata asks for nothing the contract does not grant, and a plan
    exists for every contract of the intent compiler.
    \<open>JsonValues\<close>: the JSON values these documents are made of.
  \<^item> \<open>DesktopShell\<close>: \<^verbatim>\<open>desktop-shell-runtime\<close>, the snapshots of a job that the user
    interface shows, the approvals given on them and the receipts of commands.

  The production signer signs digests with hardware keys on behalf of allowlisted callers,
  under a trust state that a quorum of governance keys has signed. Its layers are
  \<^item> \<open>ProductionSigner\<close>: \<^verbatim>\<open>windows-production-signer-runtime\<close>, identities,
    policies, descriptors, request bindings and receipts. \<open>ProductionProtocol\<close>:
    \<^verbatim>\<open>windows-production-signer-protocol-runtime\<close>, requests, envelopes and responses.
  \<^item> \<open>ProductionKeys\<close> and \<open>ProductionRegistry\<close>:
    \<^verbatim>\<open>windows-production-key-governance-runtime\<close>, the registry of key generations and
    its correctness; it shares the locales of \<open>Machine\<close> (machines with an invariant,
    registries in which a revocation is permanent) with \<open>KeyGovernance\<close>.
  \<^item> \<open>SignerIdentity\<close>: \<^verbatim>\<open>windows-signer-service-identity-runtime\<close>, the allowlist
    and the authorizer of callers. \<open>ProductionService\<close>:
    \<^verbatim>\<open>windows-production-signer-service-runtime\<close>, the request handler over a hardware
    backend, which is an argument, and the verifiers of its packages.
  \<^item> \<open>TrustState\<close> and \<open>TrustActivation\<close>:
    \<^verbatim>\<open>windows-production-trust-state-runtime/src/model.rs\<close>, governance policies, signed
    trust states, recoveries and the activator, a state machine that only moves forward.
    \<open>TrustService\<close> and \<open>TrustDeployment\<close>: \<^verbatim>\<open>service.rs\<close> of that crate, the
    signer service bound to an accepted trust state. \<open>IdentityProof\<close> and \<open>TrustLease\<close>:
    \<^verbatim>\<open>identity_proof.rs\<close>, challenges to this service, its proofs and the leases they
    yield.
  \<^item> \<open>Issuance\<close> and \<open>IssuanceCorrect\<close>: \<^verbatim>\<open>capability-issuance-runtime\<close>,
    \<^verbatim>\<open>attestation-issuance-runtime\<close>,
    \<^verbatim>\<open>windows-production-governed-issuance-runtime\<close> and the parts of
    \<^verbatim>\<open>capability-runtime\<close> and \<^verbatim>\<open>attestation-runtime\<close> that accept what the
    production signer signed: tokens and certificates issued through the signer under the key
    registry. \<open>ExampleSigner\<close> holds the signer of the examples.

  \<^bold>\<open>Correspondence.\<close> A Rust struct is a record, an enum a datatype, a function a
  definition of the same name (prefixed where two crates use one name), and \<^verbatim>\<open>Result\<close>
  a sum whose left summand is the error, so that every early return is a branch. A method on
  \<^verbatim>\<open>&mut self\<close> returns its result paired with the state it leaves, also on errors.
  Machine integers are words of their width; a \<^verbatim>\<open>usize\<close> that only counts or compares
  is a natural number. Third-party code (serde's encoders and decoders, SHA-256, Ed25519,
  base64) is an argument, a record of functions per component; a theorem that relies on it
  states what it relies on as a hypothesis, and its witness instantiates the record.

  \<^bold>\<open>What the lemmas show.\<close> Per component: what a successful check establishes
  (inversion lemmas), the invariant of the state and that every operation keeps it, the
  behaviour on errors, and the contract of the component. For the signer: a package that the
  service hands out verifies, a verified package proves who signed which authorized request
  under which trust state, an accepted trust state carries the signatures of its quorum, an
  answered challenge yields a lease, issued tokens and certificates are accepted, revocations
  are permanent, requests are not replayed and trust states not rolled back. Where such a
  statement needs that a role is enabled or that the same key generation stays active, the
  theorem says so as a hypothesis. Below: what verifying an attestation establishes about the contract, the plan, the
  trace and the evidence.

  \<^bold>\<open>Bounds and termination.\<close> No definition uses fuel: every loop of the modelled code
  runs over a list or a value and is a fold or a structural recursion, or comes with its
  termination proof: \<open>canonicalize\<close>, which recurses into nested values, and the loops over
  bytes \<open>inspect_chunks\<close>, \<open>collect_idat\<close> and \<open>utf8_lossy\<close>, whose offset moves forward in
  every round, the binary search \<open>bisect\<close>, whose window shrinks, and the printer \<open>decimal\<close>,
  whose argument shrinks. The 32-bit use counter of the authorizer is proved never to wrap, and the
  size computations of the decoder never to overflow.

  \<^bold>\<open>Not modelled.\<close> The adapters to Inkscape, to the Windows user interface and key
  storage, the transports, the store of trust states on disk, the desktop application and the
  command line entry points do input and output. The validators of image content, the
  certified-path pipelines, the records of installations and the journal of production
  executions are not modelled.
\<close>

section \<open>The whole chain\<close>

text \<open>
  What a verified attestation stands for: the mandatory constraints of the contract are
  proved by the capsule's validators in a session whose evidence is that of the bundle, the
  run followed the plan, and every step that needs a capability was authorised.
\<close>

definition attested_run ::
    "attestation_env \<Rightarrow> work_contract \<Rightarrow> profession_capsule \<Rightarrow> compiled_contract \<Rightarrow> compiled_plan \<Rightarrow> evidence_bundle \<Rightarrow>
     assurance_level \<Rightarrow> bool" where
  "attested_run E contract capsule compiled plan bundle level \<longleftrightarrow>
     (\<exists>session. session_reachable compiled level session \<and>
        set (all_evidence (cs_kernel session)) = bundle_evidence (seal_contract_digest (cc_seal compiled)) bundle \<and>
        (\<forall>c\<in>set (cr_hard (wc_requirements contract)). hc_mandatory c \<longrightarrow>
           constraint_proved contract capsule session (hc_id c))) \<and>
     unresolved_unknowns contract = 0 \<and>
     (\<exists>jt\<in>set (pc_job_types capsule). jt_id jt = wc_job_type contract \<and>
        capsule_minimum contract capsule jt \<le> level) \<and>
     authorization_conforms (vv_execution (aa_evidence E)) plan (bu_trace bundle) \<and>
     (\<exists>states. conforming (cp_steps plan) (map be_event (et_events (bu_trace bundle))) states \<and>
        finished (cp_steps plan) states)"

lemma accepted_assessment_attested:
  assumes compiled: "compile_contract H codec cv kv = Inr compiled"
    and plan: "compile_plan H' pcodec pv kv' compiled = Inr plan"
    and assessed: "assess_bundle (aa_evidence E) compiled plan bv level = Inr assessment"
    and accepted: "dec_status (ba_decision assessment) = Accepted"
  shows "\<exists>contract capsule bundle. decode_contract codec cv = Inr contract \<and> decode_capsule codec kv = Inr capsule \<and>
    vv_decode_bundle (aa_evidence E) bv = Inr bundle \<and> attested_run E contract capsule compiled plan bundle level"
proof -
  obtain contract capsule where dec: "decode_contract codec cv = Inr contract" "decode_capsule codec kv = Inr capsule"
    and from_capsule: "compiled_from contract capsule compiled"
    using compile_contract_ok [OF compiled] by blast
  obtain bun session where bun: "vv_decode_bundle (aa_evidence E) bv = Inr bun"
    and session: "session_reachable compiled level session" "ba_decision assessment = session_evaluate session"
    and trace: "verify_authorized_trace (vv_execution (aa_evidence E)) plan (bu_trace bun) =
      Inr (ba_trace_assessment assessment)"
      "xa_conforms_to_authorized_plan (ba_trace_assessment assessment)"
    and evidence: "set (all_evidence (cs_kernel session)) = bundle_evidence (seal_contract_digest (cc_seal compiled)) bun"
    using assessed by (rule assess_bundle_ok)
  note facts = from_capsule session_reachable_wf [OF session(1)] accepted [unfolded session(2)]
  have "distinct (map ps_step_id (cp_steps plan))"
    using plan by (rule compile_plan_ok) (simp add: plan_ordered_def)
  then have "\<exists>states. conforming (cp_steps plan) (map be_event (et_events (bu_trace bun))) states \<and>
      finished (cp_steps plan) states"
    using verify_authorized_trace_conforms(2) [OF trace] verify_trace_conforms_iff by blast
  then have "attested_run E contract capsule compiled plan bun level"
    unfolding attested_run_def
    using accepted_constraint_proved [OF facts] accepted_unknowns_and_level [OF facts]
      verify_authorized_trace_conforms(1) [OF trace] session(1) evidence by blast
  with dec bun show ?thesis by blast
qed

text \<open>
  C1: a verified attestation is worth what the whole system promises. If a contract and a plan
  compile and an attestation package verifies against them and an evidence bundle, then every
  mandatory constraint of the decoded contract is proved by the bundle's evidence, which comes
  from capsule validators only, no mandatory unknown is open, the attested assurance level reaches the capsule's
  minimum for the job type, the executed trace is a finished run of the plan's step automaton,
  and its authorisation receipts are sound.
\<close>

theorem verified_attestation_certifies_run:
  assumes "compile_contract H codec cv kv = Inr compiled" "compile_plan H' pcodec pv kv' compiled = Inr plan"
    "verify_attestation_against_bundle E package keys compiled plan bv level = Inr verified"
  shows "\<exists>contract capsule bundle. decode_contract codec cv = Inr contract \<and> decode_capsule codec kv = Inr capsule \<and>
    vv_decode_bundle (aa_evidence E) bv = Inr bundle \<and> va_assurance_level verified = level \<and>
    attested_run E contract capsule compiled plan bundle level"
  using assms(3)
proof (rule verify_against_bundle_ok)
  fix assessment
  assume "assess_bundle (aa_evidence E) compiled plan bv level = Inr assessment"
    "dec_status (ba_decision assessment) = Accepted" and level: "va_assurance_level verified = level"
  from accepted_assessment_attested [OF assms(1,2) this(1,2)] level show ?thesis by blast
qed

theorem verified_attestation_certifies_run_witness:
  "attested_run demo_attestation_env demo_contract demo_capsule demo_compiled demo_compiled_plan demo_bundle E3"
proof -
  obtain package where issued: "issue_attestation demo_attestation_env demo_compiled demo_compiled_plan JNull E3
    ''m1'' ''cert1'' ''acme'' ''k1'' 30 [1] = Inr package" by (rule demo_attestation_issued)
  obtain verified where "verify_attestation_against_bundle demo_attestation_env package [((''acme'', ''k1''), [1])]
      demo_compiled demo_compiled_plan JNull E3 = Inr verified"
    using issue_verify_round_trip [OF issued demo_attestation_hypotheses] by blast
  from verified_attestation_certifies_run [OF demo_compiles demo_plan_compiles this]
  show ?thesis by (simp add: demo_codec_def demo_attestation_env_def demo_evidence_env_def)
qed

end
